(* ===== verification/Prelude.thy ===== *)
theory Prelude
  imports Main "HOL-Library.Code_Target_Nat"
begin

text \<open>
  Shared groundwork of the development: the outcome type that keeps a Go panic apart from a
  returned value, the collections of rewrite rules the component theories extend, and the
  generic lemmas on lists and maps that several components use.
\<close>

section \<open>Rule collections\<close>

text \<open>
  \<open>go_lib\<close> collects the defining equations of the library functions that a concrete
  evaluation needs, \<open>bounds\<close> the size and range facts.
\<close>

named_theorems go_lib "equations of the modelled library functions"
named_theorems bounds "size and range facts"

section \<open>Outcomes\<close>

text \<open>
  A Go call returns a value or panics (nil dereference, index out of range, integer division
  by zero). \<open>Returns\<close> holds the value, \<open>Panics\<close> the run-time error.
\<close>

datatype panic = NilDereference | IndexOutOfRange | SliceOutOfRange | DivideByZero

datatype 'a outcome = Returns 'a | Panics panic

fun bind_outcome :: "'a outcome \<Rightarrow> ('a \<Rightarrow> 'b outcome) \<Rightarrow> 'b outcome" where
  "bind_outcome (Returns x) f = f x"
| "bind_outcome (Panics p) f = Panics p"

fun map_ret :: "('a \<Rightarrow> 'b) \<Rightarrow> 'a outcome \<Rightarrow> 'b outcome" where
  "map_ret f (Returns x) = Returns (f x)"
| "map_ret f (Panics p) = Panics p"

fun panics :: "'a outcome \<Rightarrow> bool" where
  "panics (Returns x) = False"
| "panics (Panics p) = True"

lemma bind_outcome_Returns_iff [simp]:
  "bind_outcome m f = Returns y \<longleftrightarrow> (\<exists>x. m = Returns x \<and> f x = Returns y)"
  by (cases m) auto

lemma bind_outcome_Panics_iff:
  "bind_outcome m f = Panics p \<longleftrightarrow> m = Panics p \<or> (\<exists>x. m = Returns x \<and> f x = Panics p)"
  by (cases m) auto

lemma bind_outcome_assoc [simp]:
  "bind_outcome (bind_outcome m f) g = bind_outcome m (\<lambda>x. bind_outcome (f x) g)"
  by (cases m) auto

lemma map_ret_Returns_iff [simp]:
  "map_ret f m = Returns y \<longleftrightarrow> (\<exists>x. m = Returns x \<and> y = f x)"
  by (cases m) auto

lemma panics_iff: "panics m \<longleftrightarrow> (\<exists>p. m = Panics p)"
  by (cases m) auto

lemma not_panics_iff: "\<not> panics m \<longleftrightarrow> (\<exists>x. m = Returns x)"
  by (cases m) auto

lemma panics_map_ret [simp]: "panics (map_ret f m) = panics m"
  by (cases m) auto

lemma panics_bind [simp]:
  "panics (bind_outcome m f) \<longleftrightarrow> panics m \<or> (\<exists>x. m = Returns x \<and> panics (f x))"
  by (cases m) auto

section \<open>Machine integers\<close>

text \<open>Go's \<open>int\<close>, \<open>int64\<close> and \<open>time.Duration\<close> hold 64 bits and wrap around.\<close>

definition wrap64 :: "int \<Rightarrow> int" where
  "wrap64 i = (i + 9223372036854775808) mod 18446744073709551616 - 9223372036854775808"

lemma wrap64_id [simp]:
  "- 9223372036854775808 \<le> i \<Longrightarrow> i < 9223372036854775808 \<Longrightarrow> wrap64 i = i"
  by (simp add: wrap64_def)

lemma wrap64_range [bounds]:
  "- 9223372036854775808 \<le> wrap64 i \<and> wrap64 i < 9223372036854775808"
proof -
  have "0 \<le> (i + 9223372036854775808) mod 18446744073709551616"
    "(i + 9223372036854775808) mod 18446744073709551616 < 18446744073709551616"
    by (simp_all)
  then show ?thesis unfolding wrap64_def by linarith
qed

text \<open>Division truncates toward zero and panics on a zero divisor.\<close>

definition go_div :: "int \<Rightarrow> int \<Rightarrow> int outcome" where
  "go_div a b =
     (if b = 0 then Panics DivideByZero
      else Returns (wrap64 (sgn a * sgn b * (\<bar>a\<bar> div \<bar>b\<bar>))))"

lemma go_div_nonneg:
  assumes "0 \<le> a" "a < 9223372036854775808" "0 < b"
  shows "go_div a b = Returns (a div b)"
proof -
  have "0 \<le> a div b" "a div b \<le> a"
    using assms zdiv_mono2 [of a 1 b] by (auto simp: pos_imp_zdiv_nonneg_iff)
  then have w: "wrap64 (a div b) = a div b"
    using assms by (intro wrap64_id) linarith+
  have e: "sgn a * sgn b * (\<bar>a\<bar> div \<bar>b\<bar>) = a div b"
    using assms by (cases "a = 0") (auto simp: sgn_if)
  have "go_div a b = Returns (wrap64 (sgn a * sgn b * (\<bar>a\<bar> div \<bar>b\<bar>)))"
    using assms by (simp only: go_div_def) simp
  then show ?thesis by (simp only: e w)
qed

section \<open>Lists\<close>

text \<open>Overwriting a run of list positions, as Go's \<open>copy(dst[i:i+n], src)\<close> does in range.\<close>

definition splice :: "nat \<Rightarrow> 'a list \<Rightarrow> 'a list \<Rightarrow> 'a list" where
  "splice i src dst = take i dst @ src @ drop (i + length src) dst"

lemma length_splice [simp]:
  "i + length src \<le> length dst \<Longrightarrow> length (splice i src dst) = length dst"
  by (simp add: splice_def)

definition slice :: "nat \<Rightarrow> nat \<Rightarrow> 'a list \<Rightarrow> 'a list" where
  "slice i n xs = take n (drop i xs)"

lemma length_slice [simp]: "i + n \<le> length xs \<Longrightarrow> length (slice i n xs) = n"
  by (simp add: slice_def)

lemma slice_splice_same [simp]:
  "i + length src \<le> length dst \<Longrightarrow> n = length src \<Longrightarrow> slice i n (splice i src dst) = src"
  by (simp add: slice_def splice_def)

lemma slice_splice_before:
  assumes "j + n \<le> i" "i + length src \<le> length dst"
  shows "slice j n (splice i src dst) = slice j n dst"
proof -
  have "drop j (splice i src dst) = drop j (take i dst) @ src @ drop (i + length src) dst"
    using assms by (simp add: splice_def)
  moreover have "take n (drop j (take i dst)) = take n (drop j dst)"
    using assms by (simp add: drop_take min_def)
  moreover have "n \<le> length (drop j (take i dst))"
    using assms by simp
  ultimately show ?thesis
    by (simp add: slice_def)
qed

lemma drop_splice_before:
  assumes "i + length src \<le> j" "i + length src \<le> length dst"
  shows "drop j (splice i src dst) = drop j dst"
proof -
  have "drop j (splice i src dst) = drop (j - i - length src) (drop (i + length src) dst)"
    using assms by (simp add: splice_def)
  also have "\<dots> = drop j dst"
    using assms by (simp add: add.commute)
  finally show ?thesis .
qed

lemma slice_splice_after:
  "i + length src \<le> j \<Longrightarrow> i + length src \<le> length dst \<Longrightarrow>
    slice j n (splice i src dst) = slice j n dst"
  by (simp add: slice_def drop_splice_before)

section \<open>Maps\<close>

lemma map_delete_None [simp]: "(m(k := None)) k = None"
  by simp

lemma ran_delete_subset: "ran (m(k := None)) \<subseteq> ran m"
  by (auto simp: ran_def split: if_splits)

lemma dom_update_insert [simp]: "dom (m(k \<mapsto> v)) = insert k (dom m)"
  by simp

end
