(* ===== verification/Run_Monad.thy ===== *)
theory Run_Monad
  imports Prelude
begin

text \<open>
  Programs that change a state, may panic and may block for ever: a program gives back an outcome and
  the state, or \<open>None\<close> when one of its steps never returns. \<open>wpr\<close> is the weakest precondition for a
  run that ends: \<open>Q\<close> holds of a value and \<open>P\<close> of a panic.
\<close>

section \<open>Programs\<close>

type_synonym ('s, 'a) prog = "'s \<Rightarrow> ('a outcome \<times> 's) option"

definition ret :: "'a \<Rightarrow> ('s, 'a) prog" where
  "ret x s = Some (Returns x, s)"

definition panic :: "panic \<Rightarrow> ('s, 'a) prog" where
  "panic p s = Some (Panics p, s)"

definition seq :: "('s, 'a) prog \<Rightarrow> ('a \<Rightarrow> ('s, 'b) prog) \<Rightarrow> ('s, 'b) prog" where
  "seq m f s = (case m s of None \<Rightarrow> None | Some (Panics p, s1) \<Rightarrow> Some (Panics p, s1) | Some (Returns x, s1) \<Rightarrow> f x s1)"

text \<open>\<open>recovering\<close> is a deferred call of \<open>recover\<close>, \<open>finally\<close> any other deferred call.\<close>

definition recovering :: "('s, 'a) prog \<Rightarrow> (panic \<Rightarrow> ('s, 'a) prog) \<Rightarrow> ('s, 'a) prog" where
  "recovering m h s = (case m s of None \<Rightarrow> None | Some (Panics p, s1) \<Rightarrow> h p s1 | Some (Returns x, s1) \<Rightarrow> Some (Returns x, s1))"

definition modify :: "('s \<Rightarrow> 's) \<Rightarrow> ('s, unit) prog" where
  "modify f s = Some (Returns (), f s)"

definition look :: "('s \<Rightarrow> 'a) \<Rightarrow> ('s, 'a) prog" where
  "look f s = Some (Returns (f s), s)"

definition effect_of :: "('s \<Rightarrow> 'a \<times> 's) \<Rightarrow> ('s, 'a) prog" where
  "effect_of f s = (let (x, s1) = f s in Some (Returns x, s1))"

definition outcome_of :: "('s \<Rightarrow> 'a outcome \<times> 's) \<Rightarrow> ('s, 'a) prog" where
  "outcome_of f s = Some (f s)"

text \<open>A step that may block.\<close>

definition blocking :: "('s \<Rightarrow> 's option) \<Rightarrow> ('s, unit) prog" where
  "blocking f s = map_option (\<lambda>s1. (Returns (), s1)) (f s)"

lemmas prog_defs = ret_def panic_def seq_def recovering_def modify_def look_def effect_of_def outcome_of_def blocking_def

text \<open>One program after another over a list.\<close>

primrec each :: "('a \<Rightarrow> ('s, unit) prog) \<Rightarrow> 'a list \<Rightarrow> ('s, unit) prog" where
  "each f [] = ret ()"
| "each f (x # xs) = seq (f x) (\<lambda>_. each f xs)"

section \<open>Weakest preconditions\<close>

definition wpr :: "('s, 'a) prog \<Rightarrow> ('a \<Rightarrow> 's \<Rightarrow> bool) \<Rightarrow> (panic \<Rightarrow> 's \<Rightarrow> bool) \<Rightarrow> 's \<Rightarrow> bool" where
  "wpr m Q P s = (case m s of None \<Rightarrow> False | Some (Panics p, s1) \<Rightarrow> P p s1 | Some (Returns x, s1) \<Rightarrow> Q x s1)"

named_theorems wpr_rules "weakest preconditions of programs"

lemma wpr_ret [wpr_rules]: "wpr (ret x) Q P s = Q x s"
  by (simp add: wpr_def prog_defs)

lemma wpr_panic [wpr_rules]: "wpr (panic p) Q P s = P p s"
  by (simp add: wpr_def prog_defs)

lemma wpr_seq [wpr_rules]: "wpr (seq m f) Q P s = wpr m (\<lambda>x. wpr (f x) Q P) P s"
  by (auto simp: wpr_def prog_defs split: option.splits prod.splits outcome.splits)

lemma wpr_recovering [wpr_rules]: "wpr (recovering m h) Q P s = wpr m Q (\<lambda>p. wpr (h p) Q P) s"
  by (auto simp: wpr_def prog_defs split: option.splits prod.splits outcome.splits)

lemma wpr_modify [wpr_rules]: "wpr (modify f) Q P s = Q () (f s)"
  by (simp add: wpr_def prog_defs)

lemma wpr_look [wpr_rules]: "wpr (look f) Q P s = Q (f s) s"
  by (simp add: wpr_def prog_defs)

lemma wpr_effect_of [wpr_rules]: "wpr (effect_of f) Q P s = Q (fst (f s)) (snd (f s))"
  by (simp add: wpr_def prog_defs split_beta Let_def)

lemma wpr_outcome_of [wpr_rules]:
  "wpr (outcome_of f) Q P s = (case fst (f s) of Returns x \<Rightarrow> Q x (snd (f s)) | Panics p \<Rightarrow> P p (snd (f s)))"
  by (auto simp: wpr_def prog_defs split: prod.splits outcome.splits)

lemma wpr_blocking [wpr_rules]: "wpr (blocking f) Q P s = (\<exists>s1. f s = Some s1 \<and> Q () s1)"
  by (auto simp: wpr_def prog_defs split: option.splits)

lemma wpr_if [wpr_rules]: "wpr (if b then m else m') Q P s = (if b then wpr m Q P s else wpr m' Q P s)"
  by simp

lemma wpr_case_option [wpr_rules]:
  "wpr (case v of None \<Rightarrow> m | Some x \<Rightarrow> h x) Q P s = (case v of None \<Rightarrow> wpr m Q P s | Some x \<Rightarrow> wpr (h x) Q P s)"
  by (simp split: option.split)

lemma wpr_case_sum [wpr_rules]:
  "wpr (case v of Inl e \<Rightarrow> g e | Inr x \<Rightarrow> h x) Q P s = (case v of Inl e \<Rightarrow> wpr (g e) Q P s | Inr x \<Rightarrow> wpr (h x) Q P s)"
  by (simp split: sum.split)

lemma wpr_case_prod [wpr_rules]:
  "wpr (case v of (x, y) \<Rightarrow> f x y) Q P s = (case v of (x, y) \<Rightarrow> wpr (f x y) Q P s)"
  by (simp split: prod.split)

lemma wpr_mono:
  "wpr m Q P s \<Longrightarrow> (\<And>x s1. Q x s1 \<Longrightarrow> Q' x s1) \<Longrightarrow> (\<And>p s1. P p s1 \<Longrightarrow> P' p s1) \<Longrightarrow> wpr m Q' P' s"
  by (auto simp: wpr_def split: option.splits prod.splits outcome.splits)

lemma wpr_conj:
  "wpr m Q P s \<Longrightarrow> wpr m Q' P' s \<Longrightarrow> wpr m (\<lambda>x s1. Q x s1 \<and> Q' x s1) (\<lambda>p s1. P p s1 \<and> P' p s1) s"
  by (auto simp: wpr_def split: option.splits prod.splits outcome.splits)

text \<open>A loop keeps what each of its rounds keeps.\<close>

lemma wpr_each:
  assumes "I s" "\<And>x s. x \<in> set xs \<Longrightarrow> I s \<Longrightarrow> wpr (f x) (\<lambda>_. I) P s"
  shows "wpr (each f xs) (\<lambda>_. I) P s"
  using assms
proof (induction xs arbitrary: s)
  case (Cons x xs)
  have "wpr (f x) (\<lambda>_. I) P s" using Cons.prems by simp
  moreover have "wpr (each f xs) (\<lambda>_. I) P s1" if "I s1" for s1 using Cons.IH [OF that] Cons.prems(2) by simp
  ultimately show ?case unfolding each.simps wpr_seq by (rule wpr_mono)
qed (simp add: wpr_ret)

text \<open>What a postcondition says of the run itself.\<close>

lemma wpr_run:
  "wpr m Q P s \<longleftrightarrow> (\<exists>x s1. m s = Some (Returns x, s1) \<and> Q x s1) \<or> (\<exists>p s1. m s = Some (Panics p, s1) \<and> P p s1)"
  by (auto simp: wpr_def split: option.splits prod.splits outcome.splits)

lemma wpr_returns: "wpr m Q (\<lambda>p s1. False) s \<longleftrightarrow> (\<exists>x s1. m s = Some (Returns x, s1) \<and> Q x s1)"
  by (auto simp: wpr_run)

lemma wpr_panics: "wpr m (\<lambda>x s1. False) P s \<longleftrightarrow> (\<exists>p s1. m s = Some (Panics p, s1) \<and> P p s1)"
  by (auto simp: wpr_run)

section \<open>The laws of the combinators\<close>

lemma seq_ret [simp]: "seq (ret x) f = f x"
  by (rule ext) (simp add: prog_defs)

lemma seq_panic [simp]: "seq (panic p) f = panic p"
  by (rule ext) (simp add: prog_defs)

lemma seq_assoc: "seq (seq m f) g = seq m (\<lambda>x. seq (f x) g)"
  by (rule ext) (auto simp: seq_def split: option.split prod.split outcome.split)

lemma recovering_ret [simp]: "recovering (ret x) h = ret x" "recovering (panic p) h = h p"
  by (rule ext, simp add: prog_defs)+

end
