(* ===== verification/Go_Strings.thy ===== *)
theory Go_Strings
  imports Prelude
begin

text \<open>
  What the sources use of Go's standard library on strings: \<open>strings\<close>, \<open>strconv\<close>,
  \<open>fmt.Sprintf\<close> with \<open>%d\<close>, \<open>net/url.QueryEscape\<close> and \<open>encoding/base64\<close>.
  A Go string is a sequence of bytes, so it is a \<open>string\<close> (a list of 8-bit characters)
  here. White space and letter case are the ASCII ones; multi-byte Unicode white space and
  case folding are outside the model.
\<close>

section \<open>Characters\<close>

definition byte :: "char \<Rightarrow> nat" where
  "byte c = of_char c"

definition is_digit :: "char \<Rightarrow> bool" where
  "is_digit c \<longleftrightarrow> 48 \<le> byte c \<and> byte c \<le> 57"

definition is_alpha :: "char \<Rightarrow> bool" where
  "is_alpha c \<longleftrightarrow> (65 \<le> byte c \<and> byte c \<le> 90) \<or> (97 \<le> byte c \<and> byte c \<le> 122)"

text \<open>White space as \<open>strings.TrimSpace\<close> and \<open>strings.Fields\<close> see it.\<close>

definition is_space :: "char \<Rightarrow> bool" where
  "is_space c \<longleftrightarrow> byte c = 32 \<or> (9 \<le> byte c \<and> byte c \<le> 13)"

text \<open>The class \<open>\s\<close> of Go's \<open>regexp\<close> has no vertical tab.\<close>

definition re_space :: "char \<Rightarrow> bool" where
  "re_space c \<longleftrightarrow> byte c = 32 \<or> byte c = 9 \<or> byte c = 10 \<or> byte c = 12 \<or> byte c = 13"

definition re_word :: "char \<Rightarrow> bool" where
  "re_word c \<longleftrightarrow> is_digit c \<or> is_alpha c \<or> byte c = 95"

definition lower_char :: "char \<Rightarrow> char" where
  "lower_char c = (if 65 \<le> byte c \<and> byte c \<le> 90 then char_of (byte c + 32) else c)"

definition to_lower :: "string \<Rightarrow> string" where
  "to_lower s = map lower_char s"

definition LF :: char where "LF = char_of (10 :: nat)"

definition CR :: char where "CR = char_of (13 :: nat)"

lemmas [go_lib] = byte_def is_digit_def is_alpha_def is_space_def re_space_def re_word_def
  lower_char_def to_lower_def

lemma byte_less [bounds, simp]: "byte c < 256"
  by (simp add: byte_def)

lemma byte_char_of [simp]: "n < 256 \<Longrightarrow> byte (char_of n) = n"
  by (simp add: byte_def)

lemma byte_eq_iff: "byte c = byte d \<longleftrightarrow> c = d"
  by (simp add: byte_def)

lemma byte_div_16 [bounds]: "byte c div 16 < 16"
proof -
  have "byte c < 16 * 16" by simp
  then show ?thesis by (rule less_mult_imp_div_less)
qed

section \<open>Trimming, splitting, joining\<close>

definition trim_with :: "('a \<Rightarrow> bool) \<Rightarrow> 'a list \<Rightarrow> 'a list" where
  "trim_with p s = rev (dropWhile p (rev (dropWhile p s)))"

definition trim_space :: "string \<Rightarrow> string" where
  "trim_space s = trim_with is_space s"

fun fields_acc :: "string \<Rightarrow> string \<Rightarrow> string list" where
  "fields_acc cur [] = (if cur = [] then [] else [rev cur])"
| "fields_acc cur (c # cs) =
     (if is_space c then (if cur = [] then fields_acc [] cs else rev cur # fields_acc [] cs)
      else fields_acc (c # cur) cs)"

definition Fields :: "string \<Rightarrow> string list" where
  "Fields s = fields_acc [] s"

fun split_acc :: "char \<Rightarrow> string \<Rightarrow> string \<Rightarrow> string list" where
  "split_acc sep cur [] = [rev cur]"
| "split_acc sep cur (c # cs) =
     (if c = sep then rev cur # split_acc sep [] cs else split_acc sep (c # cur) cs)"

text \<open>\<open>strings.Split\<close> with a one-byte separator.\<close>

definition split_on :: "char \<Rightarrow> string \<Rightarrow> string list" where
  "split_on sep s = split_acc sep [] s"

fun join :: "string \<Rightarrow> string list \<Rightarrow> string" where
  "join sep [] = []"
| "join sep [x] = x"
| "join sep (x # y # ys) = x @ sep @ join sep (y # ys)"

fun strip_prefix :: "string \<Rightarrow> string \<Rightarrow> string option" where
  "strip_prefix [] s = Some s"
| "strip_prefix (p # ps) [] = None"
| "strip_prefix (p # ps) (c # cs) = (if p = c then strip_prefix ps cs else None)"

definition has_prefix :: "string \<Rightarrow> string \<Rightarrow> bool" where
  "has_prefix p s \<longleftrightarrow> strip_prefix p s \<noteq> None"

text \<open>\<open>strings.Index\<close>, \<open>None\<close> for -1.\<close>

fun index_of :: "string \<Rightarrow> string \<Rightarrow> nat option" where
  "index_of sub [] = (if sub = [] then Some 0 else None)"
| "index_of sub (c # cs) =
     (if has_prefix sub (c # cs) then Some 0 else map_option Suc (index_of sub cs))"

definition contains :: "string \<Rightarrow> string \<Rightarrow> bool" where
  "contains sub s \<longleftrightarrow> index_of sub s \<noteq> None"

text \<open>\<open>strings.Replace(s, old, new, 1)\<close>.\<close>

definition replace_first :: "string \<Rightarrow> string \<Rightarrow> string \<Rightarrow> string" where
  "replace_first s old new =
     (case index_of old s of None \<Rightarrow> s
      | Some i \<Rightarrow> take i s @ new @ drop (i + length old) s)"

lemma strip_prefix_iff: "strip_prefix p s = Some r \<longleftrightarrow> s = p @ r"
  by (induction p s rule: strip_prefix.induct) auto

lemma has_prefix_iff: "has_prefix p s \<longleftrightarrow> (\<exists>r. s = p @ r)"
  by (auto simp: has_prefix_def strip_prefix_iff)

lemma index_of_Some:
  "index_of sub s = Some i \<Longrightarrow> s = take i s @ sub @ drop (i + length sub) s"
proof (induction sub s arbitrary: i rule: index_of.induct)
  case (1 sub)
  then show ?case by (auto split: if_splits)
next
  case (2 sub c cs)
  show ?case
  proof (cases "has_prefix sub (c # cs)")
    case True
    then obtain r where r: "c # cs = sub @ r" by (auto simp: has_prefix_iff)
    moreover from True 2 have "i = 0" by simp
    ultimately show ?thesis by simp
  next
    case False
    with 2 show ?thesis by auto
  qed
qed

lemma fields_acc_no_space:
  "\<forall>c \<in> set cur. \<not> is_space c \<Longrightarrow>
    \<forall>f \<in> set (fields_acc cur s). f \<noteq> [] \<and> (\<forall>c \<in> set f. \<not> is_space c)"
proof (induction s arbitrary: cur)
  case Nil
  then show ?case by simp
next
  case (Cons a s)
  show ?case
  proof (cases "is_space a")
    case True
    with Cons.IH [of "[]"] Cons.prems show ?thesis by simp
  next
    case False
    with Cons.IH [of "a # cur"] Cons.prems show ?thesis by simp
  qed
qed

lemma fields_nonempty: "f \<in> set (Fields s) \<Longrightarrow> f \<noteq> []"
  using fields_acc_no_space [of "[]" s] by (auto simp: Fields_def)

lemma fields_no_space: "f \<in> set (Fields s) \<Longrightarrow> c \<in> set f \<Longrightarrow> \<not> is_space c"
  using fields_acc_no_space [of "[]" s] by (auto simp: Fields_def)

lemma fields_acc_word:
  "\<forall>c \<in> set w. \<not> is_space c \<Longrightarrow> fields_acc cur (w @ s) = fields_acc (rev w @ cur) s"
  by (induction w arbitrary: cur) auto

lemma is_space_blank [simp]: "is_space (CHR '' '')"
  by (simp add: go_lib)

text \<open>Joining fields with one blank and splitting again gives the fields back.\<close>

lemma fields_join:
  "\<forall>f \<in> set fs. f \<noteq> [] \<and> (\<forall>c \<in> set f. \<not> is_space c) \<Longrightarrow> Fields (join '' '' fs) = fs"
proof (induction fs rule: induct_list012)
  case 1
  then show ?case by (simp add: Fields_def)
next
  case (2 x)
  have "fields_acc [] (x @ []) = fields_acc (rev x @ []) []"
    using 2 by (intro fields_acc_word) auto
  with 2 show ?case by (simp add: Fields_def)
next
  case (3 x y zs)
  let ?s = "join '' '' (y # zs)"
  have "fields_acc [] (x @ '' '' @ ?s) = fields_acc (rev x @ []) ('' '' @ ?s)"
    using 3 by (intro fields_acc_word) auto
  also have "\<dots> = x # fields_acc [] ?s"
    using 3 by simp
  finally show ?case
    using 3 by (simp add: Fields_def)
qed

lemma split_acc_nonempty [simp]: "split_acc sep cur s \<noteq> []"
  by (induction sep cur s rule: split_acc.induct) auto

lemma split_on_nonempty [simp]: "split_on sep s \<noteq> []"
  by (simp add: split_on_def)

lemma length_split_acc: "length (split_acc sep cur s) = Suc (count_list s sep)"
  by (induction sep cur s rule: split_acc.induct) auto

lemma length_split_on: "length (split_on sep s) = Suc (count_list s sep)"
  by (simp add: split_on_def length_split_acc)

lemma join_split_acc: "join [sep] (split_acc sep cur s) = rev cur @ s"
proof (induction sep cur s rule: split_acc.induct)
  case (1 sep cur)
  then show ?case by simp
next
  case (2 sep cur c cs)
  obtain y ys where ys: "split_acc sep [] cs = y # ys"
    by (cases "split_acc sep [] cs") auto
  show ?case
  proof (cases "c = sep")
    case True
    with 2 ys show ?thesis by simp
  next
    case False
    with 2 show ?thesis by simp
  qed
qed

lemma join_split_on: "join [sep] (split_on sep s) = s"
  by (simp add: split_on_def join_split_acc)

lemma split_acc_append: "split_acc sep cur (a @ sep # b) = split_acc sep cur a @ split_acc sep [] b"
  by (induction sep cur a rule: split_acc.induct) auto

lemma split_on_append: "split_on sep (a @ sep # b) = split_on sep a @ split_on sep b"
  by (simp add: split_on_def split_acc_append)

lemma split_acc_parts: "p \<in> set (split_acc sep cur s) \<Longrightarrow> sep \<notin> set cur \<Longrightarrow> sep \<notin> set p"
  by (induction sep cur s rule: split_acc.induct) (auto split: if_splits)

lemma split_on_parts: "p \<in> set (split_on sep s) \<Longrightarrow> sep \<notin> set p"
  by (auto simp: split_on_def dest: split_acc_parts)

lemma join_snoc: "xs \<noteq> [] \<Longrightarrow> join sep (xs @ [x]) = join sep xs @ sep @ x"
  by (induction sep xs rule: join.induct) auto

lemma split_on_Cons: "c \<notin> set a \<Longrightarrow> split_on c (a @ c # b) = a # split_on c b"
proof -
  have "c \<notin> set a \<Longrightarrow> split_acc c cur (a @ c # b) = (rev cur @ a) # split_acc c [] b" for cur
    by (induction a arbitrary: cur) auto
  then show "c \<notin> set a \<Longrightarrow> split_on c (a @ c # b) = a # split_on c b" by (simp add: split_on_def)
qed

lemma split_on_single: "c \<notin> set a \<Longrightarrow> split_on c a = [a]"
proof -
  have "c \<notin> set a \<Longrightarrow> split_acc c cur a = [rev cur @ a]" for cur
    by (induction a arbitrary: cur) auto
  then show "c \<notin> set a \<Longrightarrow> split_on c a = [a]" by (simp add: split_on_def)
qed

lemma trim_with_id:
  "s = [] \<or> (\<not> p (hd s) \<and> \<not> p (last s)) \<Longrightarrow> trim_with p s = s"
  by (metis dropWhile.simps(1) dropWhile_eq_self_iff hd_rev rev_is_Nil_conv rev_rev_ident trim_with_def)

lemma trim_with_ends:
  "trim_with p s = [] \<or> (\<not> p (hd (trim_with p s)) \<and> \<not> p (last (trim_with p s)))"
proof (cases "dropWhile p s")
  case Nil
  then have "trim_with p s = []" by (simp only: trim_with_def Nil) simp
  then show ?thesis by simp
next
  case (Cons x xs)
  then have x: "\<not> p x" by (metis hd_dropWhile list.distinct(1) list.sel(1))
  let ?d = "dropWhile p (rev xs @ [x])"
  have ne: "?d \<noteq> []" using x by simp
  then have "\<not> p (hd ?d)" by (rule hd_dropWhile)
  moreover have "last ?d = x"
    using ne by (metis dropWhile_append1 dropWhile_append3 last_snoc x)
  ultimately show ?thesis
    using ne Cons x by (simp add: trim_with_def last_rev hd_rev)
qed

lemma trim_with_idem: "trim_with p (trim_with p s) = trim_with p s"
  using trim_with_ends [of p s] by (intro trim_with_id) auto

lemma contains_char [simp]: "contains [c] s \<longleftrightarrow> c \<in> set s"
proof -
  have "index_of [c] s \<noteq> None \<longleftrightarrow> c \<in> set s"
    by (induction s) (auto simp: has_prefix_def)
  then show ?thesis by (simp add: contains_def)
qed

section \<open>Numbers as text\<close>

definition digit_char :: "nat \<Rightarrow> char" where
  "digit_char n = char_of (48 + n)"

definition digit_val :: "char \<Rightarrow> nat" where
  "digit_val c = byte c - 48"

fun nat_digits :: "nat \<Rightarrow> string" where
  "nat_digits n =
     (if n < 10 then [digit_char n] else nat_digits (n div 10) @ [digit_char (n mod 10)])"

declare nat_digits.simps [simp del]

text \<open>\<open>strconv.Itoa\<close>, \<open>FormatInt(_, 10)\<close> and the verb \<open>%d\<close>.\<close>

definition itoa :: "int \<Rightarrow> string" where
  "itoa i = (if i < 0 then ''-'' @ nat_digits (nat (- i)) else nat_digits (nat i))"

definition digits_value :: "string \<Rightarrow> nat" where
  "digits_value ds = foldl (\<lambda>acc c. acc * 10 + digit_val c) 0 ds"

datatype num_error = ErrSyntax | ErrRange

definition max_int64 :: int where "max_int64 = 9223372036854775807"

definition min_int64 :: int where "min_int64 = - 9223372036854775808"

text \<open>
  \<open>strconv.Atoi\<close> on a 64-bit platform, also \<open>ParseInt(_, 10, 64)\<close>: a value and an
  error. A syntax error leaves 0, a range error the nearest 64-bit integer.
\<close>

definition clamp64 :: "int \<Rightarrow> int \<times> num_error option" where
  "clamp64 v = (if max_int64 < v then (max_int64, Some ErrRange)
     else if v < min_int64 then (min_int64, Some ErrRange) else (v, None))"

text \<open>
  The digits are read from the left; a value beyond 64 bits ends the scan with a range error
  before the rest of the text is looked at.
\<close>

fun scan_uint :: "nat \<Rightarrow> string \<Rightarrow> num_error + nat" where
  "scan_uint acc [] = Inr acc"
| "scan_uint acc (c # cs) =
     (if \<not> is_digit c then Inl ErrSyntax
      else let n = acc * 10 + digit_val c in
        if 18446744073709551616 \<le> n then Inl ErrRange else scan_uint n cs)"

definition parse_int :: "bool \<Rightarrow> string \<Rightarrow> int \<times> num_error option" where
  "parse_int neg ds =
     (if ds = [] then (0, Some ErrSyntax)
      else case scan_uint 0 ds of
        Inl ErrSyntax \<Rightarrow> (0, Some ErrSyntax)
      | Inl ErrRange \<Rightarrow> (if neg then min_int64 else max_int64, Some ErrRange)
      | Inr n \<Rightarrow> clamp64 (if neg then - int n else int n))"

definition atoi :: "string \<Rightarrow> int \<times> num_error option" where
  "atoi s =
     (case s of [] \<Rightarrow> (0, Some ErrSyntax)
      | c # cs \<Rightarrow> if c = CHR ''-'' then parse_int True cs
                 else if c = CHR ''+'' then parse_int False cs
                 else parse_int False s)"

lemma is_digit_digit_char [simp]: "n < 10 \<Longrightarrow> is_digit (digit_char n)"
  by (simp add: is_digit_def digit_char_def)

lemma digit_val_digit_char [simp]: "n < 10 \<Longrightarrow> digit_val (digit_char n) = n"
  by (simp add: digit_val_def digit_char_def)

lemma nat_digits_nonempty [simp]: "nat_digits n \<noteq> []"
  by (subst nat_digits.simps) simp

lemma nat_digits_all_digits: "list_all is_digit (nat_digits n)"
proof (induction n rule: nat_digits.induct)
  case (1 n)
  show ?case
  proof (cases "n < 10")
    case True
    then show ?thesis by (subst nat_digits.simps) simp
  next
    case False
    with 1 show ?thesis by (subst nat_digits.simps) simp
  qed
qed

lemma digits_value_append [simp]:
  "digits_value (ds @ [c]) = digits_value ds * 10 + digit_val c"
  by (simp add: digits_value_def)

lemma digits_value_nat_digits [simp]: "digits_value (nat_digits n) = n"
proof (induction n rule: nat_digits.induct)
  case (1 n)
  show ?case
  proof (cases "n < 10")
    case True
    then show ?thesis by (subst nat_digits.simps) (simp add: digits_value_def)
  next
    case False
    with 1 show ?thesis by (subst nat_digits.simps) simp
  qed
qed

lemma foldl_digits_ge:
  "acc \<le> foldl (\<lambda>acc c. acc * 10 + digit_val c) acc ds"
proof (induction ds arbitrary: acc)
  case (Cons d ds)
  have "acc \<le> acc * 10 + digit_val d" by simp
  also have "\<dots> \<le> foldl (\<lambda>acc c. acc * 10 + digit_val c) (acc * 10 + digit_val d) ds"
    by (rule Cons.IH)
  finally show ?case by simp
qed simp

lemma scan_uint_foldl:
  "list_all is_digit ds \<Longrightarrow> foldl (\<lambda>acc c. acc * 10 + digit_val c) acc ds < 18446744073709551616
     \<Longrightarrow> scan_uint acc ds = Inr (foldl (\<lambda>acc c. acc * 10 + digit_val c) acc ds)"
proof (induction ds arbitrary: acc)
  case (Cons d ds)
  have "acc * 10 + digit_val d \<le> foldl (\<lambda>acc c. acc * 10 + digit_val c) acc (d # ds)"
    using foldl_digits_ge [of "acc * 10 + digit_val d" ds] by simp
  with Cons.prems(2) have "\<not> 18446744073709551616 \<le> acc * 10 + digit_val d" by linarith
  with Cons show ?case by (simp add: Let_def)
qed simp

lemma scan_uint_digits_value:
  "list_all is_digit ds \<Longrightarrow> digits_value ds < 18446744073709551616 \<Longrightarrow>
    scan_uint 0 ds = Inr (digits_value ds)"
  unfolding digits_value_def by (rule scan_uint_foldl)

lemma scan_uint_nat_digits [simp]:
  "n < 18446744073709551616 \<Longrightarrow> scan_uint 0 (nat_digits n) = Inr n"
  using scan_uint_digits_value [OF nat_digits_all_digits] by simp

lemma nat_digits_hd_digit: "is_digit (hd (nat_digits n))"
  using nat_digits_all_digits [of n] nat_digits_nonempty [of n]
  by (cases "nat_digits n") auto

lemma atoi_itoa:
  assumes "min_int64 \<le> i" "i \<le> max_int64"
  shows "atoi (itoa i) = (i, None)"
proof (cases "i < 0")
  case True
  with assms show ?thesis
    by (simp add: atoi_def itoa_def parse_int_def clamp64_def max_int64_def min_int64_def)
next
  case False
  obtain c cs where c: "nat_digits (nat i) = c # cs"
    by (cases "nat_digits (nat i)") auto
  have d: "is_digit c"
    using nat_digits_hd_digit [of "nat i"] c by simp
  then have nd: "c \<noteq> CHR ''-''" "c \<noteq> CHR ''+''"
    by (auto simp: is_digit_def byte_def)
  have "atoi (nat_digits (nat i)) = parse_int False (nat_digits (nat i))"
    using nd c by (simp add: atoi_def)
  also have "\<dots> = (i, None)"
    using False assms by (simp add: parse_int_def clamp64_def max_int64_def min_int64_def)
  finally show ?thesis using False by (simp add: itoa_def)
qed

lemma atoi_digits:
  assumes "ds \<noteq> []" "list_all is_digit ds" "int (digits_value ds) \<le> max_int64"
  shows "atoi ds = (int (digits_value ds), None)"
proof -
  obtain c cs where c: "ds = c # cs" using assms(1) by (cases ds) auto
  then have "is_digit c" using assms(2) by simp
  then have "c \<noteq> CHR ''-''" "c \<noteq> CHR ''+''" by (auto simp: is_digit_def byte_def)
  then have "atoi ds = parse_int False ds" using c by (simp add: atoi_def)
  also have "\<dots> = (int (digits_value ds), None)"
    using assms scan_uint_digits_value [OF assms(2)]
    by (simp add: parse_int_def clamp64_def max_int64_def min_int64_def)
  finally show ?thesis .
qed

lemma itoa_chars: "c \<in> set (itoa i) \<Longrightarrow> is_digit c \<or> c = CHR ''-''"
  using nat_digits_all_digits [of "nat i"] nat_digits_all_digits [of "nat (- i)"]
  by (auto simp: itoa_def list_all_iff split: if_splits)

lemma itoa_nonempty [simp]: "itoa i \<noteq> []"
  by (simp add: itoa_def)

section \<open>Query strings\<close>

definition hex_char :: "nat \<Rightarrow> char" where
  "hex_char n = (if n < 10 then char_of (48 + n) else char_of (55 + n))"

definition unreserved :: "char \<Rightarrow> bool" where
  "unreserved c \<longleftrightarrow> is_digit c \<or> is_alpha c \<or> c = CHR ''-'' \<or> c = CHR ''_'' \<or> c = CHR ''.''
     \<or> c = CHR ''~''"

definition escape_char :: "char \<Rightarrow> string" where
  "escape_char c =
     (if unreserved c then [c]
      else if c = CHR '' '' then ''+''
      else [CHR ''%'', hex_char (byte c div 16), hex_char (byte c mod 16)])"

text \<open>\<open>net/url.QueryEscape\<close>.\<close>

definition query_escape :: "string \<Rightarrow> string" where
  "query_escape s = concat (map escape_char s)"

text \<open>The inverse, as a server decodes a query value.\<close>

definition hex_val :: "char \<Rightarrow> nat" where
  "hex_val c = (if is_digit c then byte c - 48 else byte c - 55)"

fun query_unescape :: "string \<Rightarrow> string" where
  "query_unescape [] = []"
| "query_unescape (c # cs) =
     (if c = CHR ''%'' then
        (case cs of h # l # rest \<Rightarrow> char_of (hex_val h * 16 + hex_val l) # query_unescape rest
         | _ \<Rightarrow> [])
      else (if c = CHR ''+'' then CHR '' '' else c) # query_unescape cs)"

lemma hex_val_hex_char: "n < 16 \<Longrightarrow> hex_val (hex_char n) = n"
  by (auto simp: hex_val_def hex_char_def is_digit_def)

lemma query_unescape_escape_char:
  "query_unescape (escape_char c @ s) = c # query_unescape s"
proof (cases "unreserved c")
  case True
  then have "c \<noteq> CHR ''%''" "c \<noteq> CHR ''+''"
    by (auto simp: unreserved_def go_lib)
  with True show ?thesis by (simp add: escape_char_def)
next
  case False
  have "byte c div 16 < 16" by (rule byte_div_16)
  moreover have "char_of (byte c div 16 * 16 + byte c mod 16) = c"
    by (simp add: byte_def)
  ultimately show ?thesis
    using False by (simp add: escape_char_def hex_val_hex_char)
qed

lemma query_unescape_escape [simp]: "query_unescape (query_escape s) = s"
  by (induction s) (simp_all add: query_escape_def query_unescape_escape_char)

definition query_safe :: "string \<Rightarrow> bool" where
  "query_safe s \<longleftrightarrow> CHR ''&'' \<notin> set s \<and> CHR ''='' \<notin> set s \<and> CHR ''?'' \<notin> set s \<and> CHR ''#'' \<notin> set s"

lemma hex_char_safe:
  "n < 16 \<Longrightarrow> hex_char n \<noteq> CHR ''&'' \<and> hex_char n \<noteq> CHR ''='' \<and> hex_char n \<noteq> CHR ''?''
     \<and> hex_char n \<noteq> CHR ''#''"
proof -
  assume n: "n < 16"
  then have b: "byte (hex_char n) = (if n < 10 then 48 + n else 55 + n)"
    by (simp add: hex_char_def)
  have "byte (hex_char n) \<noteq> 38" "byte (hex_char n) \<noteq> 61" "byte (hex_char n) \<noteq> 63"
    "byte (hex_char n) \<noteq> 35"
    using n unfolding b by auto
  moreover have "byte (CHR ''&'') = 38" "byte (CHR ''='') = 61" "byte (CHR ''?'') = 63"
    "byte (CHR ''#'') = 35"
    by (simp_all add: byte_def)
  ultimately show ?thesis by metis
qed

lemma escape_char_safe: "query_safe (escape_char c)"
proof (cases "unreserved c")
  case True
  then show ?thesis
    by (auto simp: query_safe_def escape_char_def unreserved_def go_lib)
next
  case False
  have "byte c div 16 < 16" "byte c mod 16 < 16" by (simp_all add: byte_div_16)
  then show ?thesis
    using False hex_char_safe [of "byte c div 16"] hex_char_safe [of "byte c mod 16"]
    by (auto simp: query_safe_def escape_char_def)
qed

lemma query_escape_safe [simp]: "query_safe (query_escape s)"
  using escape_char_safe by (auto simp: query_safe_def query_escape_def)

lemma itoa_safe [simp]: "query_safe (itoa i)"
proof -
  have "c \<noteq> CHR ''&'' \<and> c \<noteq> CHR ''='' \<and> c \<noteq> CHR ''?'' \<and> c \<noteq> CHR ''#''" if "c \<in> set (itoa i)" for c
    using itoa_chars [OF that] by (auto simp: go_lib)
  then show ?thesis by (auto simp: query_safe_def)
qed

section \<open>Base64\<close>

text \<open>
  \<open>base64.StdEncoding.DecodeString\<close>: line breaks are skipped, the last quantum is padded
  with \<open>=\<close>, and every other byte is a \<open>CorruptInputError\<close> at its offset. The result
  is the offset of the error or the decoded bytes.
\<close>

definition sextet :: "char \<Rightarrow> nat option" where
  "sextet c =
     (if 65 \<le> byte c \<and> byte c \<le> 90 then Some (byte c - 65)
      else if 97 \<le> byte c \<and> byte c \<le> 122 then Some (byte c - 71)
      else if is_digit c then Some (byte c + 4)
      else if c = CHR ''+'' then Some 62
      else if c = CHR ''/'' then Some 63 else None)"

definition newline :: "char \<Rightarrow> bool" where
  "newline c \<longleftrightarrow> c = LF \<or> c = CR"

fun quantum_bytes :: "nat list \<Rightarrow> string" where
  "quantum_bytes [a, b] = [char_of (a * 4 + b div 16)]"
| "quantum_bytes [a, b, c] = [char_of (a * 4 + b div 16), char_of (b mod 16 * 16 + c div 4)]"
| "quantum_bytes [a, b, c, d] =
     [char_of (a * 4 + b div 16), char_of (b mod 16 * 16 + c div 4), char_of (c mod 4 * 64 + d)]"
| "quantum_bytes _ = []"

definition b64_finish :: "nat \<Rightarrow> nat list \<Rightarrow> string \<Rightarrow> string \<Rightarrow> nat + string" where
  "b64_finish si buf out rest =
     (let skipped = length (takeWhile newline rest) in
      if skipped < length rest then Inl (si + skipped) else Inr (out @ quantum_bytes buf))"

fun b64_loop :: "nat \<Rightarrow> nat list \<Rightarrow> string \<Rightarrow> string \<Rightarrow> nat + string" where
  "b64_loop si buf out [] = (if buf = [] then Inr out else Inl (si - length buf))"
| "b64_loop si buf out (c # cs) =
     (case sextet c of
        Some v \<Rightarrow>
          (if length buf = 3 then b64_loop (Suc si) [] (out @ quantum_bytes (buf @ [v])) cs
           else b64_loop (Suc si) (buf @ [v]) out cs)
      | None \<Rightarrow>
          if newline c then b64_loop (Suc si) buf out cs
          else if c \<noteq> CHR ''='' \<or> length buf < 2 then Inl si
          else if length buf = 2 then
            (let n = length (takeWhile newline cs) in
             case dropWhile newline cs of
               [] \<Rightarrow> Inl (Suc si + n)
             | d # ds \<Rightarrow>
                 if d \<noteq> CHR ''='' then Inl (si + n) else b64_finish (Suc (Suc si) + n) buf out ds)
          else b64_finish (Suc si) buf out cs)"

definition base64_decode :: "string \<Rightarrow> nat + string" where
  "base64_decode s = b64_loop 0 [] [] s"

definition base64_error :: "nat \<Rightarrow> string" where
  "base64_error n = ''illegal base64 data at input byte '' @ itoa (int n)"

lemma base64_decode_example: "base64_decode ''bHM='' = Inr ''ls''"
  by code_simp

lemma base64_decode_bad: "base64_decode ''bH!M'' = Inl 2"
  by code_simp

end
