(* ===== verification/Task_Errors.thy ===== *)
theory Task_Errors
  imports Go_Strings
begin

text \<open>
  The error values of the task engine: \<open>agent/taskengine/taskerrors\<close>, the table
  \<open>ErrnoPhrases\<close> of \<open>agent/util/error_linux.go\<close> and the parameter errors of the
  timers. A Go error is a tree of \<open>go_error\<close>; the classes that code and callers distinguish
  are constructors, and so are the errors of the standard library that wrap another one. The
  Linux variants of the platform files are modelled.
\<close>

section \<open>Error codes\<close>

text \<open>The failure codes count down from -1, so that errno values keep the positive range.\<close>

datatype ErrorCode = wrapErrGetScriptPathFailed | wrapErrUnknownCommandType
  | WrapErrBase64DecodeFailed | wrapErrSaveScriptFileFailed | wrapErrSetExecutablePermissionFailed
  | wrapErrSetWindowsPermissionFailed | WrapErrExecuteScriptFailed | wrapErrNoEnoughSpace
  | wrapErrScriptFileExisted | wrapErrPowershellNotFound | wrapErrSystemDefaultShellNotFound
  | WrapErrResolveEnvironmentParameterFailed | WrapGeneralError
  | wrapErrConnectContainerRuntimeFailed | wrapErrNoAvailableContainerRuntime
  | wrapErrContainerRuntimeInternalFailed | wrapErrContainerNotFoundById
  | wrapErrManyContainersFoundById | wrapErrContainerNotRunning

fun code_value :: "ErrorCode \<Rightarrow> int" where
  "code_value wrapErrGetScriptPathFailed = - 1"
| "code_value wrapErrUnknownCommandType = - 2"
| "code_value WrapErrBase64DecodeFailed = - 3"
| "code_value wrapErrSaveScriptFileFailed = - 4"
| "code_value wrapErrSetExecutablePermissionFailed = - 5"
| "code_value wrapErrSetWindowsPermissionFailed = - 6"
| "code_value WrapErrExecuteScriptFailed = - 7"
| "code_value wrapErrNoEnoughSpace = - 8"
| "code_value wrapErrScriptFileExisted = - 9"
| "code_value wrapErrPowershellNotFound = - 10"
| "code_value wrapErrSystemDefaultShellNotFound = - 11"
| "code_value WrapErrResolveEnvironmentParameterFailed = - 12"
| "code_value WrapGeneralError = - 13"
| "code_value wrapErrConnectContainerRuntimeFailed = - 14"
| "code_value wrapErrNoAvailableContainerRuntime = - 15"
| "code_value wrapErrContainerRuntimeInternalFailed = - 16"
| "code_value wrapErrContainerNotFoundById = - 17"
| "code_value wrapErrManyContainersFoundById = - 18"
| "code_value wrapErrContainerNotRunning = - 19"

section \<open>Error values\<close>

datatype go_error =
    PlainError string
  | WrappedError string go_error string
  | Errno int string
  | BaseError ErrorCode string string "go_error option"
  | NoEnoughSpaceError go_error
  | ValidationError string "go_error option"
  | NormExecutionError string "go_error option"
  | SettingError string string string "go_error option"
  | CronParameterError string string

text \<open>
  \<open>WrappedError p c s\<close> stands for \<open>fmt.Errorf("p%ws", c)\<close> and for the errors of \<open>os\<close>
  whose text is a prefix and the wrapped error's text; \<open>Errno n t\<close> is a \<open>syscall.Errno\<close>
  with its system text.
\<close>

definition ErrnoPhrases :: "(int \<times> string) list" where
  "ErrnoPhrases =
   [(7, ''ArgumentListTooLong''), (13, ''PermissionDenied''), (98, ''AddressAlreadyInUse''),
    (99, ''CannotAssignRequestedAddress''), (68, ''AdvertiseError''),
    (97, ''AddressFamilyNotSupportedByProtocol''), (11, ''ResourceTemporarilyUnavailable''),
    (114, ''OperationAlreadyInProgress''), (52, ''InvalidExchange''), (9, ''BadFileDescriptor''),
    (77, ''FileDescriptorInBadState''), (74, ''BadMessage''), (53, ''InvalidRequestDescriptor''),
    (56, ''InvalidRequestCode''), (57, ''InvalidSlot''), (59, ''BadFontFileFormat''),
    (16, ''DeviceOrResourceBusy''), (125, ''OperationCanceled''), (10, ''NoChildProcesses''),
    (44, ''ChannelNumberOutOfRange''), (70, ''CommunicationErrorOnSend''),
    (103, ''SoftwareCausedConnectionAbort''), (111, ''ConnectionRefused''),
    (104, ''ConnectionResetByPeer''), (35, ''ResourceDeadlockAvoided''),
    (89, ''DestinationAddressRequired''), (33, ''NumericalArgumentOutOfDomain''),
    (73, ''RfsSpecificError''), (122, ''DiskQuotaExceeded''), (17, ''FileExists''),
    (14, ''BadAddress''), (27, ''FileTooLarge''), (112, ''HostIsDown''),
    (113, ''NoRouteToHost''), (43, ''IdentifierRemoved''),
    (84, ''InvalidOrIncompleteMultibyteOrWideCharacter''), (115, ''OperationNowInProgress''),
    (4, ''InterruptedSystemCall''), (22, ''InvalidArgument''), (5, ''InputOutputError''),
    (106, ''TransportEndpointIsAlreadyConnected''), (21, ''IsADirectory''),
    (120, ''IsANamedTypeFile''), (127, ''KeyHasExpired''), (129, ''KeyWasRejectedByService''),
    (128, ''KeyHasBeenRevoked''), (51, ''Level2Halted''), (45, ''Level2NotSynchronized''),
    (46, ''Level3Halted''), (47, ''Level3Reset''), (79, ''CanNotAccessANeededSharedLibrary''),
    (80, ''AccessingACorruptedSharedLibrary''), (83, ''CannotExecASharedLibraryDirectly''),
    (82, ''AttemptingToLinkInTooManySharedLibraries''), (81, ''LibSectionInAoutCorrupted''),
    (48, ''LinkNumberOutOfRange''), (40, ''TooManyLevelsOfSymbolicLinks''),
    (124, ''WrongMediumType''), (24, ''TooManyOpenFiles''), (31, ''TooManyLinks''),
    (90, ''MessageTooLong''), (72, ''MultihopAttempted''), (36, ''FileNameTooLong''),
    (119, ''NoXenixSemaphoresAvailable''), (100, ''NetworkIsDown''),
    (102, ''NetworkDroppedConnectionOnReset''), (101, ''NetworkIsUnreachable''),
    (23, ''TooManyOpenFilesInSystem''), (55, ''NoAnode''), (105, ''NoBufferSpaceAvailable''),
    (50, ''NoCsiStructureAvailable''), (61, ''NoDataAvailable''), (19, ''NoSuchDevice''),
    (2, ''NoSuchFileOrDirectory''), (8, ''ExecFormatError''), (126, ''RequiredKeyNotAvailable''),
    (37, ''NoLocksAvailable''), (67, ''LinkHasBeenSevered''), (123, ''NoMediumFound''),
    (12, ''CannotAllocateMemory''), (42, ''NoMessageOfDesiredType''),
    (64, ''MachineIsNotOnTheNetwork''), (65, ''PackageNotInstalled''),
    (92, ''ProtocolNotAvailable''), (28, ''NoSpaceLeftOnDevice''),
    (63, ''OutOfStreamsResources''), (60, ''DeviceNotAStream''),
    (38, ''FunctionNotImplemented''), (15, ''BlockDeviceRequired''),
    (107, ''TransportEndpointIsNotConnected''), (20, ''NotADirectory''),
    (39, ''DirectoryNotEmpty''), (118, ''NotAXenixNamedTypeFile''),
    (131, ''StateNotRecoverable''), (88, ''SocketOperationOnNonSocket''),
    (95, ''OperationNotSupported''), (25, ''InappropriateIoctlForDevice''),
    (76, ''NameNotUniqueOnNetwork''), (6, ''NoSuchDeviceOrAddress''),
    (75, ''ValueTooLargeForDefinedDataType''), (130, ''OwnerDied''),
    (1, ''OperationNotPermitted''), (96, ''ProtocolFamilyNotSupported''), (32, ''BrokenPipe''),
    (71, ''ProtocolError''), (93, ''ProtocolNotSupported''),
    (91, ''ProtocolWrongTypeForSocket''), (34, ''NumericalResultOutOfRange''),
    (78, ''RemoteAddressChanged''), (66, ''ObjectIsRemote''), (121, ''RemoteIOError''),
    (85, ''InterruptedSystemCallShouldBeRestarted''), (132, ''OperationNotPossibleDueToRfKill''),
    (30, ''ReadOnlyFileSystem''), (108, ''CannotSendAfterTransportEndpointShutdown''),
    (94, ''SocketTypeNotSupported''), (29, ''IllegalSeek''), (3, ''NoSuchProcess''),
    (69, ''SrmountError''), (116, ''StaleFileHandle''), (86, ''StreamsPipeError''),
    (62, ''TimerExpired''), (110, ''ConnectionTimedOut''),
    (109, ''TooManyReferencesCannotSplice''), (26, ''TextFileBusy''),
    (117, ''StructureNeedsCleaning''), (49, ''ProtocolDriverNotAttached''),
    (87, ''TooManyUsers''), (18, ''InvalidCrossDeviceLink''), (54, ''ExchangeFull'')]"

text \<open>\<open>errors.As(err, &errno)\<close>: the chain of \<open>Unwrap\<close> methods down to an errno.\<close>

fun unwrap :: "go_error \<Rightarrow> go_error option" where
  "unwrap (WrappedError p c s) = Some c"
| "unwrap (BaseError k cat d c) = c"
| "unwrap (SettingError n sm m c) = c"
| "unwrap e = None"

fun as_errno :: "go_error \<Rightarrow> int option" where
  "as_errno (Errno n t) = Some n"
| "as_errno (WrappedError p c s) = as_errno c"
| "as_errno (BaseError k cat d (Some c)) = as_errno c"
| "as_errno (SettingError n sm m (Some c)) = as_errno c"
| "as_errno e = None"

definition cause_errno :: "go_error option \<Rightarrow> int option" where
  "cause_errno cause = Option.bind cause as_errno"

definition errcode_phrase :: "string \<Rightarrow> go_error option \<Rightarrow> string" where
  "errcode_phrase category cause =
     (case cause_errno cause of None \<Rightarrow> category
      | Some n \<Rightarrow> (case map_of ErrnoPhrases n of None \<Rightarrow> category
                  | Some phrase \<Rightarrow> category @ ''.'' @ phrase))"

text \<open>The \<open>Error\<close> method of every class.\<close>

fun err_text :: "go_error \<Rightarrow> string" where
  "err_text (PlainError m) = m"
| "err_text (WrappedError p c s) = p @ err_text c @ s"
| "err_text (Errno n t) = t"
| "err_text (BaseError k category description None) =
     join '': '' (errcode_phrase category None # (if description \<noteq> [] then [description] else []))"
| "err_text (BaseError k category description (Some cause)) =
     join '': '' (errcode_phrase category (Some cause)
       # (if description \<noteq> [] then [description] else []) @ [err_text cause])"
| "err_text (NoEnoughSpaceError cause) = ''NoEnoughSpace: '' @ err_text cause"
| "err_text (ValidationError category None) = category"
| "err_text (ValidationError category (Some cause)) = category @ '': '' @ err_text cause"
| "err_text (NormExecutionError code None) = code"
| "err_text (NormExecutionError code (Some cause)) = code @ '': '' @ err_text cause"
| "err_text (SettingError n sm m c) = m"
| "err_text (CronParameterError code m) = code @ '': '' @ m"

text \<open>The \<open>Code\<close> method of an \<open>ExecutionError\<close>; the other classes have none.\<close>

definition base_code :: "ErrorCode \<Rightarrow> go_error option \<Rightarrow> int" where
  "base_code categoryCode cause =
     (case cause_errno cause of Some n \<Rightarrow> n | None \<Rightarrow> code_value categoryCode)"

fun execution_code :: "go_error \<Rightarrow> int option" where
  "execution_code (BaseError k cat d c) = Some (base_code k c)"
| "execution_code (NoEnoughSpaceError c) = Some (code_value wrapErrNoEnoughSpace)"
| "execution_code e = None"

text \<open>\<open>Param\<close> and \<open>Value\<close> of a validation error, \<open>Code\<close> and \<open>Description\<close> of a normalized
  execution error, \<open>Name\<close> and \<open>ShortMessage\<close> of a setting error.\<close>

fun validation_param :: "go_error \<Rightarrow> (string \<times> string) option" where
  "validation_param (ValidationError category c) =
     Some (category, err_text (ValidationError category c))"
| "validation_param e = None"

fun normalized_code :: "go_error \<Rightarrow> (string \<times> string) option" where
  "normalized_code (NormExecutionError code c) = Some (code, err_text (NormExecutionError code c))"
| "normalized_code e = None"

fun setting_names :: "go_error \<Rightarrow> (string \<times> string) option" where
  "setting_names (SettingError n sm m c) = Some (n, sm)"
| "setting_names e = None"

section \<open>Constructors\<close>

definition NormalizeValidationError :: "string \<Rightarrow> go_error option \<Rightarrow> go_error" where
  "NormalizeValidationError category cause = ValidationError category cause"

definition NormalizeExecutionError :: "string \<Rightarrow> go_error option \<Rightarrow> go_error" where
  "NormalizeExecutionError code cause = NormExecutionError code cause"

definition NewGetScriptPathError :: "go_error \<Rightarrow> go_error" where
  "NewGetScriptPathError cause =
     BaseError wrapErrGetScriptPathFailed ''GetScriptPathFailed'' [] (Some cause)"

definition NewUnknownCommandTypeError :: "go_error" where
  "NewUnknownCommandTypeError = BaseError wrapErrUnknownCommandType ''UnknownCommandType'' [] None"

definition NewScriptFileExistedError :: "string \<Rightarrow> go_error \<Rightarrow> go_error" where
  "NewScriptFileExistedError savePath cause =
     BaseError wrapErrScriptFileExisted ''ScriptFileExisted''
       (''Saving script to '' @ savePath @ '' failed'') (Some cause)"

definition NewSaveScriptFileError :: "go_error \<Rightarrow> go_error" where
  "NewSaveScriptFileError cause =
     BaseError wrapErrSaveScriptFileFailed ''SaveScriptFileFailed'' [] (Some cause)"

definition NewSetExecutablePermissionError :: "go_error \<Rightarrow> go_error" where
  "NewSetExecutablePermissionError cause =
     BaseError wrapErrSetExecutablePermissionFailed ''SetExecutablePermissionFailed''
       ''Failed to set executable permission of shell script'' (Some cause)"

definition NewExecuteScriptError :: "go_error \<Rightarrow> go_error" where
  "NewExecuteScriptError cause =
     BaseError WrapErrExecuteScriptFailed ''ExecuteScriptFailed'' [] (Some cause)"

definition NewSystemDefaultShellNotFoundError :: "go_error \<Rightarrow> go_error" where
  "NewSystemDefaultShellNotFoundError cause =
     BaseError wrapErrSystemDefaultShellNotFound ''SystemDefaultShellNotFound'' [] (Some cause)"

definition NewSetWindowsPermissionError :: "go_error \<Rightarrow> go_error" where
  "NewSetWindowsPermissionError cause =
     BaseError wrapErrSetWindowsPermissionFailed ''SetWindowsPermissionFailed''
       ''Failed to set permission of script on Windows'' (Some cause)"

definition NewPowershellNotFoundError :: "go_error \<Rightarrow> go_error" where
  "NewPowershellNotFoundError cause =
     BaseError wrapErrPowershellNotFound ''PowershellNotFound'' [] (Some cause)"

definition NewResolvingInstanceNameError :: "go_error \<Rightarrow> go_error" where
  "NewResolvingInstanceNameError cause =
     BaseError WrapErrResolveEnvironmentParameterFailed ''ResolvingInstanceNameFailed'' []
       (Some cause)"

definition NewNoEnoughSpaceError :: "go_error \<Rightarrow> go_error" where
  "NewNoEnoughSpaceError cause = NoEnoughSpaceError cause"

definition NewInvalidUsernameOrPasswordError :: "go_error \<Rightarrow> string \<Rightarrow> go_error" where
  "NewInvalidUsernameOrPasswordError cause shortMessage =
     SettingError ''UsernameOrPasswordInvalid'' shortMessage
       (''UsernameOrPasswordInvalid: '' @ shortMessage) (Some cause)"

definition NewHomeDirectoryNotAvailableError :: "go_error \<Rightarrow> go_error" where
  "NewHomeDirectoryNotAvailableError cause =
     SettingError ''homeDir'' ''HomeDirectoryNotAvailable''
       (''HomeDirectoryNotAvailable: Failed to detect home directory of specified user: ''
         @ err_text cause) (Some cause)"

definition NewWorkingDirectoryNotExistError :: "string \<Rightarrow> go_error" where
  "NewWorkingDirectoryNotExistError workingDir =
     SettingError ''workingDirectory'' ''WorkingDirectoryNotExist''
       (''WorkingDirectoryNotExist: '' @ workingDir) None"

definition NewDefaultWorkingDirectoryNotAvailableError :: "string \<Rightarrow> go_error" where
  "NewDefaultWorkingDirectoryNotAvailableError message =
     SettingError ''workingDirectory'' ''DefaultWorkingDirectoryNotAvailable''
       (''DefaultWorkingDirectoryNotAvailable: '' @ message) None"

definition NewInvalidEnvironmentParameterError :: "string \<Rightarrow> go_error" where
  "NewInvalidEnvironmentParameterError message =
     SettingError ''InvalidEnvironmentParameter'' message message None"

text \<open>The errors of the container runtimes.\<close>

definition NewInvalidContainerIdError :: "go_error" where
  "NewInvalidContainerIdError = ValidationError ''InvalidContainerId''
     (Some (PlainError ''The specified containerId is not valid.''))"

definition NewInvalidContainerNameError :: "go_error" where
  "NewInvalidContainerNameError = ValidationError ''InvalidContainerName''
     (Some (PlainError ''The specified containerName is not valid.''))"

definition NewUnsupportedContainerRuntimeError :: "go_error" where
  "NewUnsupportedContainerRuntimeError = ValidationError ''UnsupportedContainerRuntime''
     (Some (PlainError ''The container runtime specified in the containerId is not supported.''))"

definition NewContainerNameAndIdNotMatchError :: "string \<Rightarrow> string \<Rightarrow> go_error" where
  "NewContainerNameAndIdNotMatchError containerId expectedName =
     ValidationError ''ContainerNameAndIdNotMatch''
       (Some (PlainError (''The container whose container ID is '' @ containerId
         @ '', the name is not '' @ expectedName @ ''.'')))"

definition NewContainerNameDuplicatedError :: "go_error" where
  "NewContainerNameDuplicatedError = ValidationError ''ContainerNameDuplicated''
     (Some (PlainError (''The container for the command to be executed cannot be identified ''
       @ ''because the instance has a container with the same name.'')))"

definition NewContainerNotFoundError :: "go_error" where
  "NewContainerNotFoundError = ValidationError ''ContainerNotFound''
     (Some (PlainError ''The specified container does not exist.''))"

definition NewContainerStateAbnormalError :: "string \<Rightarrow> go_error" where
  "NewContainerStateAbnormalError currentState = ValidationError ''ContainerStateAbnormal''
     (Some (PlainError (''The state of the specified container is abnormal. Current state is ''
       @ currentState)))"

definition NewContainerConnectError :: "go_error \<Rightarrow> go_error" where
  "NewContainerConnectError cause = ValidationError ''ContainerConnectFailed''
     (Some (WrappedError ''Unable to connect to container to invoke command. '' cause []))"

definition NewContainerRuntimeInternalError :: "go_error option \<Rightarrow> go_error" where
  "NewContainerRuntimeInternalError cause =
     NormExecutionError ''ContainerRuntimeInternalError'' cause"

definition NewContainerRuntimeTimeoutError :: "go_error option \<Rightarrow> go_error" where
  "NewContainerRuntimeTimeoutError cause = NormExecutionError ''ContainerRuntimeTimeout'' cause"

section \<open>Lemmas\<close>

lemma code_value_neg [bounds]: "code_value c < 0"
  by (cases c) simp_all

lemma code_value_inj: "code_value c = code_value d \<longleftrightarrow> c = d"
  by (cases c; cases d) simp_all

lemma as_errno_unwrap:
  "as_errno e = (case e of Errno n t \<Rightarrow> Some n
     | _ \<Rightarrow> (case unwrap e of Some c \<Rightarrow> as_errno c | None \<Rightarrow> None))"
  by (cases e rule: as_errno.cases) auto

lemma err_text_base_hd:
  "\<exists>rest. err_text (BaseError k category d c) = errcode_phrase category c @ rest"
  by (cases c) auto

lemma errcode_phrase_hd: "\<exists>rest. errcode_phrase category c = category @ rest"
  by (auto simp: errcode_phrase_def split: option.splits)

lemma ErrnoPhrases_distinct: "distinct (map fst ErrnoPhrases)"
  by (simp add: ErrnoPhrases_def)

text \<open>A task error reports either the errno found by unwrapping its cause or the negative
  code of its own category, and two categories never share a code: when no errno is wrapped, the
  reported code determines the category. The text starts with the category name.\<close>

theorem task_error_code:
  "execution_code (BaseError k category d c) =
     Some (case cause_errno c of Some n \<Rightarrow> n | None \<Rightarrow> code_value k)
   \<and> (code_value k = code_value k' \<longleftrightarrow> k = k') \<and> code_value k < 0
   \<and> (\<exists>rest. err_text (BaseError k category d c) = category @ rest)"
proof -
  obtain r where "err_text (BaseError k category d c) = errcode_phrase category c @ r"
    using err_text_base_hd by blast
  moreover obtain r' where "errcode_phrase category c = category @ r'"
    using errcode_phrase_hd by blast
  ultimately show ?thesis
    by (simp add: base_code_def code_value_inj code_value_neg)
qed

end
