(* ===== verification/Schedules.thy ===== *)
theory Schedules
  imports Task_Errors
begin

text \<open>
  The schedules of \<open>agent/taskengine/timermanager\<close>: cron, rate, at and plain intervals
  (\<open>cronscheduled.go\<close>, \<open>ratescheduled.go\<close>, \<open>atscheduled.go\<close>,
  \<open>mutablescheduled.go\<close>, \<open>error.go\<close>). An instant is the number of nanoseconds since the Unix
  epoch, a \<open>Duration\<close> a 64-bit number of nanoseconds. The cron expression library and the time
  zone database are the record \<open>cron_lib\<close> of parameters.
\<close>

section \<open>Instants and durations\<close>

type_synonym instant = int
type_synonym duration = int

definition second :: duration where "second = 1000000000"
definition minute :: duration where "minute = 60000000000"
definition hour :: duration where "hour = 3600000000000"

lemmas duration_defs = second_def minute_def hour_def

text \<open>\<open>Time.Sub\<close> saturates.\<close>

definition time_sub :: "instant \<Rightarrow> instant \<Rightarrow> duration" where
  "time_sub t u = (if max_int64 < t - u then max_int64
     else if t - u < min_int64 then min_int64 else t - u)"

lemma time_sub_exact:
  "min_int64 \<le> t - u \<Longrightarrow> t - u \<le> max_int64 \<Longrightarrow> time_sub t u = t - u"
  by (simp add: time_sub_def)

section \<open>Errors\<close>

definition newCronParameterError :: "string \<Rightarrow> string \<Rightarrow> go_error" where
  "newCronParameterError code message = CronParameterError code message"

definition ErrInvalidCronExpression :: go_error where
  "ErrInvalidCronExpression =
     newCronParameterError ''InvalidCronExpression'' ''invalid cron expression cannot be parsed''"

definition ErrTimezoneInformationCorrupt :: go_error where
  "ErrTimezoneInformationCorrupt = newCronParameterError ''TimezoneInformationCorrupt''
     ''Information of sepcified timezone in cron expression cannot be parsed''"

definition ErrInvalidGMTOffsetForTimezone :: go_error where
  "ErrInvalidGMTOffsetForTimezone = newCronParameterError ''InvalidGMTOffsetForTimezone''
     ''invalid GMT+-offset format at timezone field cannot be parsed''"

definition ErrInvalidGMTOffsetHourForTimezone :: go_error where
  "ErrInvalidGMTOffsetHourForTimezone = newCronParameterError ''InvalidGMTOffsetHourForTimezone''
     ''invalid hour value for GMT+-offset format at timezone field cannot be parsed''"

definition ErrInvalidGMTOffsetMinuteForTimezone :: go_error where
  "ErrInvalidGMTOffsetMinuteForTimezone =
     newCronParameterError ''InvalidGMTOffsetMinuteForTimezone''
       ''invalid minute value for GMT+-offset format at timezone field cannot be parsed''"

definition ErrCronExpressionExpired :: go_error where
  "ErrCronExpressionExpired = newCronParameterError ''CronExpressionExpired''
     ''cron expression had expired at the moment of system clock''"

definition ErrInvalidRateExpression :: go_error where
  "ErrInvalidRateExpression =
     newCronParameterError ''InvalidRateExpression'' ''invalid rate expression cannot be parsed''"

definition ErrRateFrequencyTooLarge :: go_error where
  "ErrRateFrequencyTooLarge = newCronParameterError ''RateFrequencyTooLarge''
     ''specified frequency in rate expression is too large, i.e., larger than 1,000 days''"

definition ErrInvalidAtExpression :: go_error where
  "ErrInvalidAtExpression =
     newCronParameterError ''InvalidAtExpression'' ''invalid at expression cannot be parsed''"

definition ErrAtExpressionExpired :: go_error where
  "ErrAtExpressionExpired = newCronParameterError ''AtExpressionExpired''
     ''at expression had expired at the moment of system clock''"

definition ErrNoNextRun :: go_error where
  "ErrNoNextRun = PlainError ''Schedule has finished and no next run''"

lemmas schedule_errors = newCronParameterError_def ErrInvalidCronExpression_def
  ErrTimezoneInformationCorrupt_def ErrInvalidGMTOffsetForTimezone_def
  ErrInvalidGMTOffsetHourForTimezone_def ErrInvalidGMTOffsetMinuteForTimezone_def
  ErrCronExpressionExpired_def ErrInvalidRateExpression_def ErrRateFrequencyTooLarge_def
  ErrInvalidAtExpression_def ErrAtExpressionExpired_def ErrNoNextRun_def

section \<open>Schedules\<close>

datatype 'l zone = UTC | FixedZone string int | LoadedZone 'l

text \<open>
  What the code calls of \<open>cronexpr\<close> and the time zone database: parsing an expression, the next
  instant of an expression strictly after an instant in a zone (\<open>None\<close> is the zero time, a
  missing zone the local one), loading a zone by name; and the text of a failed
  \<open>time.Parse\<close>.
\<close>

record ('e, 'l) cron_lib =
  cron_parse :: "string \<Rightarrow> go_error + 'e"
  cron_next :: "'e \<Rightarrow> 'l zone option \<Rightarrow> instant \<Rightarrow> instant option"
  load_location :: "string \<Rightarrow> go_error + 'l"
  time_parse_error :: "string \<Rightarrow> string"

datatype ('e, 'l) schedule =
    CronScheduled (cron_expression: 'e) (cron_location: "'l zone option") (isNoNextRun: bool)
  | RateScheduled (rate_start: instant) (rate_period: duration)
  | AtScheduled (at_schedule: instant)
  | MutableScheduled (mut_interval: duration) (immediatelyDone: bool)

subsection \<open>Cron\<close>

fun year_at :: "string \<Rightarrow> bool" where
  "year_at (a # b # c # d # r) \<longleftrightarrow>
     (a = CHR ''1'' \<and> b = CHR ''9'' \<and> c \<in> set ''789'' \<and> is_digit d)
     \<or> (a = CHR ''2'' \<and> b = CHR ''0'' \<and> is_digit c \<and> is_digit d)"
| "year_at s \<longleftrightarrow> False"

fun contains_year :: "string \<Rightarrow> bool" where
  "contains_year [] = False"
| "contains_year (c # cs) = (year_at (c # cs) \<or> contains_year cs)"

text \<open>\<open>CronYearFieldRegexp.MatchString\<close>; the two year alternatives are not anchored.\<close>

definition CronYearField :: "string \<Rightarrow> bool" where
  "CronYearField s \<longleftrightarrow> s = ''*'' \<or> s = ''?'' \<or> contains_year s
     \<or> (case strip_prefix ''*/'' s of Some r \<Rightarrow> r \<noteq> [] \<and> list_all is_digit r | None \<Rightarrow> False)"

text \<open>
  One match of \<open>GMT([+-])([0-9]|1[0-4]):([0-5][0-9])\<close> at the head of a text: the sign, the
  hour, the minute and what follows. The two hour alternatives differ in length and a colon
  follows, so at most one of them matches.
\<close>

definition gmt_minute :: "string \<Rightarrow> (string \<times> string) option" where
  "gmt_minute s =
     (case s of c # m1 # m2 # r \<Rightarrow>
        (if c = CHR '':'' \<and> m1 \<in> set ''012345'' \<and> is_digit m2 then Some ([m1, m2], r) else None)
      | _ \<Rightarrow> None)"

definition gmt_match :: "string \<Rightarrow> (string \<times> string \<times> string \<times> string) option" where
  "gmt_match s =
     (case strip_prefix ''GMT'' s of
        Some (sg # h1 # r) \<Rightarrow>
          (if (sg = CHR ''+'' \<or> sg = CHR ''-'') \<and> is_digit h1 then
             (case gmt_minute r of
                Some (m, r') \<Rightarrow> Some ([sg], [h1], m, r')
              | None \<Rightarrow>
                  (case r of h2 # r2 \<Rightarrow>
                     (if h1 = CHR ''1'' \<and> h2 \<in> set ''01234'' then
                        (case gmt_minute r2 of Some (m, r') \<Rightarrow> Some ([sg], [h1, h2], m, r')
                         | None \<Rightarrow> None)
                      else None)
                   | [] \<Rightarrow> None))
           else None)
      | _ \<Rightarrow> None)"

text \<open>
  \<open>FindAllStringSubmatch\<close>: every match from the left, without overlaps. \<open>skip\<close> counts the
  characters of the last match still to be passed over.
\<close>

fun gmt_matches :: "nat \<Rightarrow> string \<Rightarrow> (string \<times> string \<times> string) list" where
  "gmt_matches skip [] = []"
| "gmt_matches (Suc skip) (c # cs) = gmt_matches skip cs"
| "gmt_matches 0 (c # cs) =
     (case gmt_match (c # cs) of
        Some (sg, h, m, r) \<Rightarrow> (sg, h, m) # gmt_matches (length h + 6) cs
      | None \<Rightarrow> gmt_matches 0 cs)"

definition gmt_name :: "string \<times> string \<times> string \<Rightarrow> string" where
  "gmt_name = (\<lambda>(sg, h, m). ''GMT'' @ sg @ h @ '':'' @ m)"

definition contains_sign :: "string \<Rightarrow> bool" where
  "contains_sign s \<longleftrightarrow> CHR ''+'' \<in> set s \<or> CHR ''-'' \<in> set s"

definition parseLocation :: "('e, 'l) cron_lib \<Rightarrow> string \<Rightarrow> go_error + 'l zone" where
  "parseLocation lib tzSpec =
     (let trimmed = trim_space tzSpec in
      if contains ''/'' trimmed then
        (case load_location lib trimmed of
           Inl err \<Rightarrow> Inl (WrappedError [] ErrTimezoneInformationCorrupt ('': '' @ err_text err))
         | Inr location \<Rightarrow> Inr (LoadedZone location))
      else if contains_sign trimmed then
        (case gmt_matches 0 trimmed of
           [(offsetSign, h, m)] \<Rightarrow>
             (case atoi h of
                (_, Some _) \<Rightarrow> Inl ErrInvalidGMTOffsetHourForTimezone
              | (offsetHour, None) \<Rightarrow>
                  (case atoi m of
                     (_, Some _) \<Rightarrow> Inl ErrInvalidGMTOffsetMinuteForTimezone
                   | (offsetMinute, None) \<Rightarrow>
                       (let offsetSeconds = offsetHour * 60 * 60 + offsetMinute * 60 in
                        Inr (FixedZone (gmt_name (offsetSign, h, m))
                          (if offsetSign = ''-'' then - offsetSeconds else offsetSeconds)))))
         | _ \<Rightarrow> Inl ErrInvalidGMTOffsetForTimezone)
      else if trimmed = ''GMT'' \<or> trimmed = ''UTC'' then Inr UTC
      else Inl ErrTimezoneInformationCorrupt)"

definition splitExpressionAndLocation ::
  "('e, 'l) cron_lib \<Rightarrow> string \<Rightarrow> go_error + (string \<times> 'l zone option)" where
  "splitExpressionAndLocation lib cronat =
     (let trimmedCronat = trim_space cronat; fs = Fields trimmedCronat in
      if length fs = 6 then Inr (trimmedCronat @ '' *'', None)
      else if length fs = 7 then
        (if CronYearField (fs ! 6) then Inr (trimmedCronat, None)
         else case parseLocation lib (fs ! 6) of
           Inl err \<Rightarrow> Inl err
         | Inr location \<Rightarrow> Inr (join '' '' (fs[6 := ''*'']), Some location))
      else if length fs = 8 then
        (case parseLocation lib (fs ! 7) of
           Inl err \<Rightarrow> Inl err
         | Inr location \<Rightarrow> Inr (join '' '' (take 7 fs), Some location))
      else Inl ErrInvalidCronExpression)"

definition CronNextRunFrom ::
  "('e, 'l) cron_lib \<Rightarrow> 'e \<Rightarrow> 'l zone option \<Rightarrow> instant \<Rightarrow> duration \<times> go_error option" where
  "CronNextRunFrom lib expression location t =
     (case cron_next lib expression location t of
        None \<Rightarrow> (-1, Some ErrNoNextRun)
      | Some nextRunTime \<Rightarrow> (time_sub nextRunTime t, None))"

definition NewCronScheduled ::
  "('e, 'l) cron_lib \<Rightarrow> instant \<Rightarrow> string \<Rightarrow> go_error + ('e, 'l) schedule" where
  "NewCronScheduled lib now cronat =
     (case splitExpressionAndLocation lib cronat of
        Inl err \<Rightarrow> Inl err
      | Inr (canonicalizedCronat, location) \<Rightarrow>
          (case cron_parse lib canonicalizedCronat of
             Inl err \<Rightarrow> Inl err
           | Inr expression \<Rightarrow>
               if snd (CronNextRunFrom lib expression location now) = Some ErrNoNextRun
               then Inl ErrCronExpressionExpired
               else Inr (CronScheduled expression location False)))"

subsection \<open>Rate\<close>

definition frequencyUpperLimit :: duration where
  "frequencyUpperLimit = 24000 * hour"

text \<open>The unit of a rate expression: a letter of either case, or the long s that folds to s.\<close>

definition rate_unit :: "string \<Rightarrow> (string \<times> string) option" where
  "rate_unit s =
     (case s of [] \<Rightarrow> None
      | c # r \<Rightarrow>
          if lower_char c \<in> set ''smhd'' then Some ([lower_char c], r)
          else case r of d # r' \<Rightarrow>
                 (if byte c = 197 \<and> byte d = 191 then Some ([c, d], r') else None)
               | [] \<Rightarrow> None)"

text \<open>
  The match of \<open>(?i)(rate\s*\((\d+)\s*([smhd])\))\<close> that covers the whole text. The code asks
  for one match which equals its input; any other result is the same error.
\<close>

definition rate_match :: "string \<Rightarrow> (string \<times> string) option" where
  "rate_match s =
     (case strip_prefix ''rate'' (to_lower (take 4 s) @ dropWhile re_space (drop 4 s)) of
        Some (p # r) \<Rightarrow>
          (let ds = takeWhile is_digit r; r' = dropWhile re_space (dropWhile is_digit r) in
           if p = CHR ''('' \<and> ds \<noteq> [] then
             (case rate_unit r' of Some (u, q) \<Rightarrow> (if q = '')'' then Some (ds, u) else None)
              | None \<Rightarrow> None)
           else None)
      | _ \<Rightarrow> None)"

definition rate_value_error :: "string \<Rightarrow> num_error \<Rightarrow> go_error" where
  "rate_value_error ds e = WrappedError [] ErrInvalidRateExpression
     ('': strconv.ParseInt: parsing '' @ [CHR 0x22] @ ds @ [CHR 0x22] @ '': ''
       @ (case e of ErrSyntax \<Rightarrow> ''invalid syntax'' | ErrRange \<Rightarrow> ''value out of range''))"

definition rate_period_of :: "int \<Rightarrow> string \<Rightarrow> duration option" where
  "rate_period_of value u =
     (if u = ''s'' then Some (wrap64 (value * second))
      else if u = ''m'' then Some (wrap64 (value * minute))
      else if u = ''h'' then Some (wrap64 (value * hour))
      else if u = ''d'' then Some (wrap64 (wrap64 (value * 24) * hour))
      else None)"

definition NewRateScheduled :: "string \<Rightarrow> instant \<Rightarrow> go_error + ('e, 'l) schedule" where
  "NewRateScheduled cronat startTime =
     (case rate_match cronat of
        None \<Rightarrow> Inl ErrInvalidRateExpression
      | Some (ds, u) \<Rightarrow>
          (case atoi ds of
             (_, Some e) \<Rightarrow> Inl (rate_value_error ds e)
           | (value, None) \<Rightarrow>
               if value = 0 then
                 Inl (WrappedError [] ErrInvalidRateExpression
                   '': Period value should be positive number'')
               else case rate_period_of value u of
                 None \<Rightarrow> Inl (WrappedError [] ErrInvalidRateExpression '': Invalid period unit'')
               | Some period \<Rightarrow>
                   if frequencyUpperLimit < period then Inl ErrRateFrequencyTooLarge
                   else Inr (RateScheduled startTime period)))"

definition scheduleNextRunTimeFrom :: "instant \<Rightarrow> duration \<Rightarrow> instant \<Rightarrow> instant outcome" where
  "scheduleNextRunTimeFrom startTime period t =
     (if t < startTime then Returns (startTime + period)
      else map_ret (\<lambda>passedPeriods. startTime + wrap64 (wrap64 (passedPeriods + 1) * period))
             (go_div (time_sub t startTime) period))"

definition RateNextRunFrom ::
  "instant \<Rightarrow> duration \<Rightarrow> instant \<Rightarrow> (duration \<times> go_error option) outcome" where
  "RateNextRunFrom startTime period t =
     map_ret (\<lambda>nextRunTime. (time_sub nextRunTime t, None))
       (scheduleNextRunTimeFrom startTime period t)"

subsection \<open>At\<close>

definition leap_year :: "int \<Rightarrow> bool" where
  "leap_year y \<longleftrightarrow> y mod 4 = 0 \<and> (y mod 100 \<noteq> 0 \<or> y mod 400 = 0)"

definition days_in_month :: "int \<Rightarrow> int \<Rightarrow> int" where
  "days_in_month y m =
     (if m = 2 then (if leap_year y then 29 else 28)
      else if m \<in> set [4, 6, 9, 11] then 30 else 31)"

definition days_before_month :: "int \<Rightarrow> int \<Rightarrow> int" where
  "days_before_month y m = sum_list (map (days_in_month y) [1..m - 1])"

text \<open>Days from 1970-01-01 to a date of the Gregorian calendar.\<close>

definition civil_days :: "int \<Rightarrow> int \<Rightarrow> int \<Rightarrow> int" where
  "civil_days y m d =
     (let p = y - 1 in
      365 * p + p div 4 - p div 100 + p div 400 + days_before_month y m + d - 719163)"

fun num_fixed :: "nat \<Rightarrow> string \<Rightarrow> (int \<times> string) option" where
  "num_fixed n s =
     (let ds = take n s in
      if length ds = n \<and> list_all is_digit ds then Some (int (digits_value ds), drop n s) else None)"

text \<open>The hour of the layout also accepts one digit.\<close>

definition num_hour :: "string \<Rightarrow> (int \<times> string) option" where
  "num_hour s = (case num_fixed 2 s of Some r \<Rightarrow> Some r | None \<Rightarrow> num_fixed 1 s)"

definition skip_char :: "char \<Rightarrow> string \<Rightarrow> string option" where
  "skip_char c s = (case s of [] \<Rightarrow> None | d # r \<Rightarrow> if d = c then Some r else None)"

text \<open>A fraction after the seconds is accepted although the layout has none; nine digits count.\<close>

definition fraction :: "string \<Rightarrow> int \<times> string" where
  "fraction s =
     (case s of c # d # r \<Rightarrow>
        (if (c = CHR ''.'' \<or> c = CHR '','') \<and> is_digit d then
           (let ds = takeWhile is_digit (d # r); k = take 9 ds in
            (int (digits_value k) * 10 ^ (9 - length k), dropWhile is_digit (d # r)))
         else (0, s))
      | _ \<Rightarrow> (0, s))"

text \<open>\<open>time.Parse("2006-01-02T15:04:05", s)\<close>, \<open>None\<close> for an error.\<close>

definition parse_datetime :: "string \<Rightarrow> instant option" where
  "parse_datetime s =
     Option.bind (num_fixed 4 s) (\<lambda>(y, s1).
     Option.bind (skip_char (CHR ''-'') s1) (\<lambda>s2.
     Option.bind (num_fixed 2 s2) (\<lambda>(mo, s3).
     if mo < 1 \<or> 12 < mo then None else
     Option.bind (skip_char (CHR ''-'') s3) (\<lambda>s4.
     Option.bind (num_fixed 2 s4) (\<lambda>(d, s5).
     Option.bind (skip_char (CHR ''T'') s5) (\<lambda>s6.
     Option.bind (num_hour s6) (\<lambda>(h, s7).
     if 24 \<le> h then None else
     Option.bind (skip_char (CHR '':'') s7) (\<lambda>s8.
     Option.bind (num_fixed 2 s8) (\<lambda>(mi, s9).
     if 60 \<le> mi then None else
     Option.bind (skip_char (CHR '':'') s9) (\<lambda>s10.
     Option.bind (num_fixed 2 s10) (\<lambda>(sec, s11).
     if 60 \<le> sec then None else
     (let (nsec, s12) = fraction s11 in
      if s12 \<noteq> [] \<or> d < 1 \<or> days_in_month y mo < d then None
      else Some ((civil_days y mo d * 86400 + h * 3600 + mi * 60 + sec) * second + nsec)))))))))))))"

definition NewAtScheduled :: "('e, 'l) cron_lib \<Rightarrow> string \<Rightarrow> go_error + ('e, 'l) schedule" where
  "NewAtScheduled lib cronat =
     (let exprLength = length cronat in
      if exprLength < 4 then Inl ErrInvalidAtExpression
      else
        (let inner = (if to_lower (take 3 cronat) = ''at('' \<and> cronat ! (exprLength - 1) = CHR '')''
                      then take (exprLength - 1 - 3) (drop 3 cronat) else cronat) in
         case parse_datetime inner of
           None \<Rightarrow> Inl (PlainError (time_parse_error lib inner))
         | Some schedule \<Rightarrow> Inr (AtScheduled schedule)))"

definition AtNextRunFrom :: "instant \<Rightarrow> instant \<Rightarrow> duration \<times> go_error option" where
  "AtNextRunFrom schedule t =
     (if schedule < t then (-1, Some ErrAtExpressionExpired) else (time_sub schedule t, None))"

subsection \<open>The common interface\<close>

definition NewMutableScheduled :: "duration \<Rightarrow> ('e, 'l) schedule" where
  "NewMutableScheduled interval = MutableScheduled interval False"

fun SetInterval :: "duration \<Rightarrow> ('e, 'l) schedule \<Rightarrow> ('e, 'l) schedule" where
  "SetInterval newInterval (MutableScheduled i d) = MutableScheduled newInterval d"
| "SetInterval newInterval s = s"

fun NotImmediately :: "('e, 'l) schedule \<Rightarrow> ('e, 'l) schedule" where
  "NotImmediately (MutableScheduled i d) = MutableScheduled i True"
| "NotImmediately s = s"

text \<open>
  \<open>nextRun\<close> of the four implementations of \<open>scheduled\<close>, with the clock reading as an
  argument: the wait and the error, and the schedule after the call.
\<close>

fun nextRun :: "('e, 'l) cron_lib \<Rightarrow> instant \<Rightarrow> ('e, 'l) schedule \<Rightarrow>
  (duration \<times> go_error option) outcome \<times> ('e, 'l) schedule" where
  "nextRun lib now (CronScheduled e l done) =
     (let r = CronNextRunFrom lib e l now in
      (Returns r, CronScheduled e l (done \<or> snd r = Some ErrNoNextRun)))"
| "nextRun lib now (RateScheduled s p) = (RateNextRunFrom s p now, RateScheduled s p)"
| "nextRun lib now (AtScheduled s) = (Returns (AtNextRunFrom s now), AtScheduled s)"
| "nextRun lib now (MutableScheduled i d) =
     (if i = 0 then (Returns (0, Some (PlainError ''cannot set interval time with 0'')),
        MutableScheduled i d)
      else if \<not> d then (Returns (0, None), MutableScheduled i True)
      else (Returns (i, None), MutableScheduled i d))"

section \<open>The contract of a schedule\<close>

text \<open>
  What the timer relies on: the wait is never negative, and asking again before the run instant
  gives that same instant, so that a timer woken early neither loses nor repeats a run.
\<close>

locale schedule_contract =
  fixes next_from :: "'s \<Rightarrow> instant \<Rightarrow> (duration \<times> go_error option) outcome"
    and valid :: "'s \<Rightarrow> instant \<Rightarrow> bool"
  assumes total: "valid s t \<Longrightarrow> \<not> panics (next_from s t)"
    and wait_nonneg: "valid s t \<Longrightarrow> next_from s t = Returns (d, None) \<Longrightarrow> 0 \<le> d"
    and same_run: "valid s t \<Longrightarrow> next_from s t = Returns (d, None) \<Longrightarrow> t \<le> t' \<Longrightarrow> t' < t + d \<Longrightarrow>
      next_from s t' = Returns (t + d - t', None)"
begin

lemma woken_early:
  assumes "valid s t" "next_from s t = Returns (d, None)" "t \<le> t'" "t' < t + d"
    and "next_from s t' = Returns (d', None)"
  shows "t' + d' = t + d"
  using same_run [OF assms(1-4)] assms(5) by simp

lemma run_instants_ordered:
  assumes "valid s t" "valid s t'" "next_from s t = Returns (d, None)" "t \<le> t'"
    and "next_from s t' = Returns (d', None)"
  shows "t + d \<le> t' + d'"
proof (cases "t' < t + d")
  case True
  with woken_early [OF assms(1,3,4)] assms(5) show ?thesis by simp
next
  case False
  with wait_nonneg [OF assms(2,5)] show ?thesis by simp
qed

end

subsection \<open>Rate arithmetic\<close>

definition rate_in_range :: "instant \<Rightarrow> duration \<Rightarrow> instant \<Rightarrow> bool" where
  "rate_in_range st p t \<longleftrightarrow> 0 < p \<and> p \<le> frequencyUpperLimit
     \<and> t - st + p \<le> max_int64 \<and> st + p - t \<le> max_int64"

lemma rate_next_time:
  assumes "rate_in_range st p t"
  shows "scheduleNextRunTimeFrom st p t =
    Returns (if t < st then st + p else st + ((t - st) div p + 1) * p)"
proof (cases "t < st")
  case True
  then show ?thesis by (simp add: scheduleNextRunTimeFrom_def)
next
  case False
  let ?k = "(t - st) div p"
  have r: "0 < p" "0 \<le> t - st" "t - st + p \<le> 9223372036854775807"
    using assms False by (auto simp: rate_in_range_def max_int64_def)
  have sub: "time_sub t st = t - st"
    using r by (intro time_sub_exact) (auto simp: max_int64_def min_int64_def)
  have k: "0 \<le> ?k" "?k \<le> t - st" "?k * p \<le> t - st"
    using r zdiv_mono2 [of "t - st" 1 p] minus_mod_eq_div_mult [of "t - st" p]
    by (auto simp: pos_imp_zdiv_nonneg_iff) (smt (verit) pos_mod_sign)
  then have "0 \<le> ?k * p" using r by simp
  then have b: "0 \<le> (?k + 1) * p" "(?k + 1) * p \<le> t - st + p"
    using k r by (auto simp: algebra_simps)
  have "wrap64 (?k + 1) = ?k + 1"
    using k r by (intro wrap64_id) linarith+
  moreover have "wrap64 ((?k + 1) * p) = (?k + 1) * p"
    using b r by (intro wrap64_id) linarith+
  moreover have "go_div (t - st) p = Returns ?k"
    using r by (intro go_div_nonneg) linarith+
  ultimately show ?thesis
    using False by (simp add: scheduleNextRunTimeFrom_def sub)
qed

lemma rate_next_bounds:
  fixes st p t :: int
  assumes "0 < p"
  shows "t < st + ((t - st) div p + 1) * p" "st + ((t - st) div p + 1) * p \<le> t + p"
proof -
  have m: "0 \<le> (t - st) mod p" "(t - st) mod p < p" using assms by simp_all
  have "(t - st) div p * p = t - st - (t - st) mod p" by (simp add: minus_mod_eq_div_mult)
  with m show "t < st + ((t - st) div p + 1) * p" "st + ((t - st) div p + 1) * p \<le> t + p"
    by (simp_all add: distrib_right)
qed

lemma RateNextRunFrom_value:
  assumes "rate_in_range st p t"
  shows "RateNextRunFrom st p t =
    Returns (if t < st then st + p - t else st + ((t - st) div p + 1) * p - t, None)"
proof -
  let ?n = "if t < st then st + p else st + ((t - st) div p + 1) * p"
  have r: "0 < p" "p \<le> 86400000000000000" "st + p - t \<le> 9223372036854775807"
    using assms by (auto simp: rate_in_range_def max_int64_def frequencyUpperLimit_def hour_def)
  have "0 \<le> ?n - t" "?n - t \<le> 9223372036854775807"
    using rate_next_bounds [where t = t and st = st, OF r(1)] r by (auto split: if_splits)
  then have "time_sub ?n t = ?n - t"
    by (intro time_sub_exact) (auto simp: max_int64_def min_int64_def)
  then show ?thesis
    by (simp add: RateNextRunFrom_def rate_next_time [OF assms] split: if_splits)
qed

lemma rate_same_run:
  fixes st p t t' d :: int
  assumes "0 < p" "t \<le> t'" and d: "d = (if t < st then st + p - t else st + ((t - st) div p + 1) * p - t)"
    and "t' < t + d"
  shows "(if t' < st then st + p - t' else st + ((t' - st) div p + 1) * p - t') = t + d - t'"
proof (cases "t < st")
  case t: True
  show ?thesis
  proof (cases "t' < st")
    case False
    with t assms have "(t' - st) div p = 0" by (intro div_pos_pos_trivial) auto
    with t False d show ?thesis by simp
  qed (use t d in simp)
next
  case False
  let ?k = "(t - st) div p"
  have "st + ?k * p \<le> t"
    using rate_next_bounds(2) [where t = t and st = st, OF assms(1)] by (simp add: distrib_right)
  then have "?k * p \<le> t' - st" "t' - st < (?k + 1) * p" using assms False by auto
  then have "0 \<le> t' - st - ?k * p" "t' - st - ?k * p < p" by (simp_all add: distrib_right)
  then have "(t' - st - ?k * p) div p = 0" by (rule div_pos_pos_trivial)
  moreover have "(t' - st - ?k * p + ?k * p) div p = ?k + (t' - st - ?k * p) div p"
    using assms(1) by (intro div_mult_self1) simp
  ultimately have "(t' - st) div p = ?k" by simp
  with False assms(2) d show ?thesis by simp
qed

subsection \<open>The schedules satisfy the contract\<close>

text \<open>
  The conditions under which the contract is claimed: a rate period in its allowed range, an
  expression whose next instant the cron library computes as documented (strictly later, and
  the same for every instant before it), and no duration beyond 64 bits. The interval schedule
  counts from the moment of the call and is not of this kind.
\<close>

definition cron_next_lawful :: "('e, 'l) cron_lib \<Rightarrow> 'e \<Rightarrow> 'l zone option \<Rightarrow> bool" where
  "cron_next_lawful lib e l \<longleftrightarrow>
     (\<forall>t n. cron_next lib e l t = Some n \<longrightarrow>
        t < n \<and> (\<forall>t'. t \<le> t' \<and> t' < n \<longrightarrow> cron_next lib e l t' = Some n))"

fun valid_schedule :: "('e, 'l) cron_lib \<Rightarrow> ('e, 'l) schedule \<Rightarrow> instant \<Rightarrow> bool" where
  "valid_schedule lib (CronScheduled e l b) t \<longleftrightarrow> cron_next_lawful lib e l
     \<and> (case cron_next lib e l t of Some n \<Rightarrow> n - t \<le> max_int64 | None \<Rightarrow> True)"
| "valid_schedule lib (RateScheduled st p) t \<longleftrightarrow> rate_in_range st p t \<and> rate_in_range st p (t + p)"
| "valid_schedule lib (AtScheduled s) t \<longleftrightarrow> s - t \<le> max_int64"
| "valid_schedule lib (MutableScheduled i d) t \<longleftrightarrow> False"

definition run_query ::
  "('e, 'l) cron_lib \<times> ('e, 'l) schedule \<Rightarrow> instant \<Rightarrow> (duration \<times> go_error option) outcome" where
  "run_query = (\<lambda>(lib, s) t. fst (nextRun lib t s))"

lemma time_sub_pos: "0 \<le> t - u \<Longrightarrow> t - u \<le> max_int64 \<Longrightarrow> time_sub t u = t - u"
  by (intro time_sub_exact) (auto simp: min_int64_def)

lemma cron_query:
  assumes v: "valid_schedule lib (CronScheduled e l b) t"
    and q: "run_query (lib, CronScheduled e l b) t = Returns (d, None)"
  obtains n where "cron_next lib e l t = Some n" "d = n - t" "t < n" "n - t \<le> max_int64"
    "\<And>t'. t \<le> t' \<Longrightarrow> t' < n \<Longrightarrow> cron_next lib e l t' = Some n"
proof (cases "cron_next lib e l t")
  case None
  with q show ?thesis by (simp add: run_query_def CronNextRunFrom_def Let_def)
next
  case (Some n)
  have law: "cron_next_lawful lib e l" and m: "n - t \<le> max_int64"
    using v Some by simp_all
  from law Some have n: "t < n" "\<And>t'. t \<le> t' \<Longrightarrow> t' < n \<Longrightarrow> cron_next lib e l t' = Some n"
    unfolding cron_next_lawful_def by blast+
  have "d = n - t"
    using q Some n(1) m by (simp add: run_query_def CronNextRunFrom_def Let_def time_sub_pos)
  then show ?thesis using that Some n m by blast
qed

lemma valid_cases:
  assumes "valid_schedule lib s t"
  obtains (cron) e l b where "s = CronScheduled e l b"
    | (rate) st p where "s = RateScheduled st p" "rate_in_range st p t" "rate_in_range st p (t + p)"
    | (at) a where "s = AtScheduled a" "a - t \<le> max_int64"
  using assms by (cases s) auto

lemma rate_query:
  "rate_in_range st p t \<Longrightarrow> run_query (lib, RateScheduled st p) t =
    Returns (if t < st then st + p - t else st + ((t - st) div p + 1) * p - t, None)"
  by (simp add: run_query_def RateNextRunFrom_value)

lemma query_total: "valid_schedule lib s t \<Longrightarrow> \<not> panics (run_query (lib, s) t)"
  by (erule valid_cases) (simp_all add: rate_query, simp_all add: run_query_def Let_def)

lemma query_nonneg:
  assumes "valid_schedule lib s t" "run_query (lib, s) t = Returns (d, None)"
  shows "0 \<le> d"
  using assms(1)
proof (cases rule: valid_cases)
  case (cron e l b)
  with assms show ?thesis by (metis cron_query diff_gt_0_iff_gt less_imp_le)
next
  case (rate st p)
  then have "0 < p" by (simp add: rate_in_range_def)
  from this rate_next_bounds(1) [where t = t and st = st, OF this] rate assms(2) show ?thesis
    by (auto simp: rate_query split: if_splits)
next
  case (at a)
  with assms(2) show ?thesis
    by (auto simp: run_query_def AtNextRunFrom_def time_sub_pos split: if_splits)
qed

lemma query_same_run:
  assumes "valid_schedule lib s t" "run_query (lib, s) t = Returns (d, None)" "t \<le> t'" "t' < t + d"
  shows "run_query (lib, s) t' = Returns (t + d - t', None)"
  using assms(1)
proof (cases rule: valid_cases)
  case (cron e l b)
  with assms obtain n where n: "d = n - t" "n - t \<le> max_int64" "cron_next lib e l t' = Some n"
    by (metis add.commute cron_query diff_add_cancel)
  with assms cron show ?thesis
    by (simp add: run_query_def CronNextRunFrom_def Let_def time_sub_pos)
next
  case (rate st p)
  then have p: "0 < p" by (simp add: rate_in_range_def)
  have d: "d = (if t < st then st + p - t else st + ((t - st) div p + 1) * p - t)"
    using assms(2) rate by (simp add: rate_query)
  have "t' \<le> t + p \<or> t' < st + p"
    using assms(4) d rate_next_bounds(2) [where t = t and st = st, OF p] by (auto split: if_splits)
  then have "rate_in_range st p t'"
    using assms(3) rate(2,3)
    by (auto simp: rate_in_range_def max_int64_def frequencyUpperLimit_def hour_def)
  then show ?thesis
    using rate_same_run [OF p assms(3) d assms(4)] rate(1) by (simp add: rate_query)
next
  case (at a)
  with assms show ?thesis
    by (auto simp: run_query_def AtNextRunFrom_def time_sub_pos split: if_splits)
qed

interpretation runs: schedule_contract run_query "\<lambda>(lib, s) t. valid_schedule lib s t"
proof (unfold_locales, goal_cases)
  case (1 x t)
  then show ?case using query_total by (cases x) simp
next
  case (2 x t d)
  then show ?case using query_nonneg by (cases x) simp
next
  case (3 x t d t')
  then show ?case using query_same_run by (cases x) simp
qed

section \<open>Properties of the expressions\<close>

lemma itoa_all_digits: "0 \<le> n \<Longrightarrow> list_all is_digit (itoa n)"
  by (simp add: itoa_def nat_digits_all_digits)

lemma take_drop_digits:
  assumes "list_all is_digit ds" "\<not> is_digit u"
  shows "takeWhile is_digit (ds @ u # r) = ds" "dropWhile is_digit (ds @ u # r) = u # r"
  using assms by (induction ds) auto

lemma rate_match_text:
  assumes "0 \<le> n" "u \<in> set ''smhd''"
  shows "rate_match (''rate('' @ itoa n @ u # '')'') = Some (itoa n, [u])"
proof -
  have u: "\<not> is_digit u" "\<not> re_space u" "lower_char u = u"
    using assms(2) by (auto simp: go_lib)
  note d = take_drop_digits [OF itoa_all_digits [OF assms(1)] u(1)]
  have "rate_unit (u # '')'') = Some ([u], '')'')"
    using assms(2) u by (simp add: rate_unit_def)
  moreover have "to_lower ''rate'' = ''rate''" "\<not> re_space (CHR ''('')"
    by (simp_all add: go_lib)
  ultimately show ?thesis
    using u by (simp add: rate_match_def d Let_def numeral_eq_Suc)
qed

text \<open>Rate expressions are accepted with their value: for a positive number and a unit s, m,
  h or d whose product is at most 1000 days, the schedule has exactly that period; above 1000
  days, as long as the product fits 64 bits, the expression is rejected as too large.\<close>

definition unit_length :: "char \<Rightarrow> duration" where
  "unit_length u = (if u = CHR ''s'' then second else if u = CHR ''m'' then minute
     else if u = CHR ''h'' then hour else 24 * hour)"

theorem NewRateScheduled_period:
  assumes "0 < n" "u \<in> set ''smhd''" "n * unit_length u \<le> max_int64"
  shows "NewRateScheduled (''rate('' @ itoa n @ u # '')'') startTime =
    (if n * unit_length u \<le> frequencyUpperLimit
     then Inr (RateScheduled startTime (n * unit_length u)) else Inl ErrRateFrequencyTooLarge)"
proof -
  have n: "n \<le> n * unit_length u" "1000000000 \<le> unit_length u"
    using assms(1) by (auto simp: unit_length_def duration_defs)
  have "n \<le> max_int64" using n(1) assms(3) by (rule order_trans)
  then have "atoi (itoa n) = (n, None)"
    using assms by (intro atoi_itoa) (simp_all add: min_int64_def)
  moreover have "rate_period_of n [u] = Some (n * unit_length u)"
    using assms n by (auto simp: rate_period_of_def unit_length_def duration_defs max_int64_def)
  ultimately show ?thesis
    using assms rate_match_text [of n u] by (simp add: NewRateScheduled_def)
qed

theorem NewRateScheduled_period_witness:
  "NewRateScheduled (''rate('' @ itoa 90 @ ''m)'') 0 = Inr (RateScheduled 0 5400000000000)"
proof -
  have "(90 :: int) * unit_length (CHR ''m'') = 5400000000000"
    by (simp add: unit_length_def duration_defs)
  then show ?thesis
    using NewRateScheduled_period [of 90 "CHR ''m''" 0]
    by (simp add: max_int64_def frequencyUpperLimit_def hour_def)
qed

text \<open>A rate schedule keeps to its grid: from an instant at or after the start, the wait is
  positive and at most one period, and the run falls on a whole number of periods after the
  start; before the start it falls on the end of the first period.\<close>

theorem RateNextRunFrom_on_grid:
  assumes "rate_in_range st p t"
  shows "\<exists>d. RateNextRunFrom st p t = Returns (d, None) \<and> 0 < d \<and> p dvd (t + d - st)
    \<and> (if t < st then t + d = st + p else d \<le> p)"
proof (cases "t < st")
  case True
  with assms show ?thesis
    by (simp add: RateNextRunFrom_value) (simp add: rate_in_range_def)
next
  case False
  have "0 < p" using assms by (simp add: rate_in_range_def)
  note b = rate_next_bounds [where t = t and st = st, OF this]
  show ?thesis
    by (intro exI [of _ "st + ((t - st) div p + 1) * p - t"])
      (use False b assms in \<open>simp add: RateNextRunFrom_value\<close>)
qed

theorem RateNextRunFrom_on_grid_witness:
  "\<exists>d. RateNextRunFrom 100 60000000000 (100 + 90000000000) = Returns (d, None) \<and> 0 < d"
proof -
  have "rate_in_range 100 60000000000 (100 + 90000000000)"
    by (simp add: rate_in_range_def frequencyUpperLimit_def hour_def max_int64_def)
  from RateNextRunFrom_on_grid [OF this] show ?thesis by blast
qed

text \<open>The limit on the period is checked after the multiplication has wrapped around: the
  expression \<open>rate(2251799813685248h)\<close> passes the check with period 0, and asking such a
  schedule for its next run at or after the start divides by zero.\<close>

theorem NewRateScheduled_overflow:
  "NewRateScheduled ''rate(2251799813685248h)'' startTime = Inr (RateScheduled startTime 0)
   \<and> RateNextRunFrom startTime 0 (max startTime t) = Panics DivideByZero"
proof
  have "rate_match ''rate(2251799813685248h)'' = Some (''2251799813685248'', ''h'')"
    "atoi ''2251799813685248'' = (2251799813685248, None)"
    by code_simp+
  moreover have "rate_period_of 2251799813685248 ''h'' = Some 0"
    by (simp add: rate_period_of_def hour_def wrap64_def)
  ultimately show "NewRateScheduled ''rate(2251799813685248h)'' startTime = Inr (RateScheduled startTime 0)"
    by (simp add: NewRateScheduled_def frequencyUpperLimit_def hour_def)
  show "RateNextRunFrom startTime 0 (max startTime t) = Panics DivideByZero"
    by (simp add: RateNextRunFrom_def scheduleNextRunTimeFrom_def go_div_def)
qed


definition toy_lib :: "(int, unit) cron_lib" where
  "toy_lib = \<lparr>cron_parse = (\<lambda>s. Inr 60), cron_next = (\<lambda>e l t. Some ((t div e + 1) * e)),
     load_location = (\<lambda>s. Inr ()), time_parse_error = (\<lambda>s. s)\<rparr>"

lemma toy_lawful: "cron_next_lawful toy_lib 60 l"
proof -
  have "t' div 60 = t div 60" if "t \<le> t'" "t' < (t div 60 + 1) * 60" for t t' :: int
  proof (rule antisym)
    show "t div 60 \<le> t' div 60" using that(1) by (rule zdiv_mono1) simp
    have "t' div 60 * 60 \<le> t'" by (simp add: minus_mod_eq_div_mult [symmetric])
    with that(2) have "t' div 60 * 60 < (t div 60 + 1) * 60" by linarith
    then show "t' div 60 \<le> t div 60" by simp
  qed
  moreover have "t < (t div 60 + 1) * 60" for t :: int
    using rate_next_bounds(1) [of 60 t 0] by simp
  ultimately show ?thesis by (auto simp: cron_next_lawful_def toy_lib_def)
qed


subsection \<open>Cron fields and zones\<close>

lemma Fields_wildcard: "Fields (s @ '' *'') = Fields s @ [''*'']"
proof -
  have "fields_acc cur (s @ '' *'') = fields_acc cur s @ [''*'']" for cur
    by (induction s arbitrary: cur) (auto simp: go_lib)
  then show ?thesis by (simp add: Fields_def)
qed

lemma Fields_join_Fields:
  assumes "set fs \<subseteq> set (Fields s) \<union> {''*''}"
  shows "Fields (join '' '' fs) = fs"
proof (rule fields_join)
  have "''*'' \<noteq> [] \<and> (\<forall>c \<in> set ''*''. \<not> is_space c)" by (simp add: go_lib)
  then show "\<forall>f \<in> set fs. f \<noteq> [] \<and> (\<forall>c \<in> set f. \<not> is_space c)"
    using assms fields_nonempty [of _ s] fields_no_space [of _ s] by blast
qed

text \<open>Whatever the style of the expression, classic or new, with or without a time zone,
  the text handed to the cron parser has exactly seven fields, the first six as written.\<close>

theorem splitExpression_seven_fields:
  assumes "splitExpressionAndLocation lib cronat = Inr (e, l)"
  shows "length (Fields e) = 7 \<and> take 6 (Fields e) = take 6 (Fields (trim_space cronat))"
proof -
  let ?t = "trim_space cronat"
  let ?fs = "Fields ?t"
  consider "length ?fs = 6" "e = ?t @ '' *''"
    | "length ?fs = 7" "e = ?t"
    | "length ?fs = 7" "e = join '' '' (?fs[6 := ''*''])"
    | "length ?fs = 8" "e = join '' '' (take 7 ?fs)"
    using assms by (auto simp: splitExpressionAndLocation_def Let_def split: if_splits sum.splits)
  then show ?thesis
  proof cases
    case 3
    have "Fields e = ?fs[6 := ''*'']"
      unfolding 3(2) by (rule Fields_join_Fields) (use set_update_subset_insert in fastforce)
    with 3 show ?thesis by simp
  next
    case 4
    have "Fields e = take 7 ?fs"
      unfolding 4(2) by (rule Fields_join_Fields) (use set_take_subset in fastforce)
    with 4 show ?thesis by simp
  qed (simp_all add: Fields_wildcard)
qed

theorem splitExpression_seven_fields_witness:
  "length (Fields ''0 30 8 * * MON *'') = 7"
proof -
  have "splitExpressionAndLocation toy_lib ''0 30 8 * * MON GMT+8:00''
    = Inr (''0 30 8 * * MON *'', Some (FixedZone ''GMT+8:00'' 28800))"
    by code_simp
  then show ?thesis using splitExpression_seven_fields by blast
qed

text \<open>An offset zone is read as its offset: \<open>GMT\<close>, a sign, an hour from 0 to 14 without
  leading zero, a colon and two digits of minutes give the fixed zone of that name, hours and
  minutes counted in seconds with the sign. The range is the same for both signs, so that
  offsets which do not exist, such as GMT-14:59, are taken as well.\<close>

definition two_digits :: "nat \<Rightarrow> string" where
  "two_digits n = [digit_char (n div 10), digit_char (n mod 10)]"

definition offset_name :: "bool \<Rightarrow> nat \<Rightarrow> nat \<Rightarrow> string" where
  "offset_name neg h m = ''GMT'' @ (if neg then ''-'' else ''+'') @ nat_digits h @ '':'' @ two_digits m"

lemma digit_char_below:
  "n < 6 \<Longrightarrow> digit_char n \<in> set ''012345''" "n < 5 \<Longrightarrow> digit_char n \<in> set ''01234''"
proof -
  have "list_all (\<lambda>n. digit_char n \<in> set ''012345'') [0..<6]"
    "list_all (\<lambda>n. digit_char n \<in> set ''01234'') [0..<5]"
    by code_simp+
  then show "n < 6 \<Longrightarrow> digit_char n \<in> set ''012345''" "n < 5 \<Longrightarrow> digit_char n \<in> set ''01234''"
    unfolding list_all_iff set_upt by simp_all
qed

lemma gmt_minute_two: "m < 60 \<Longrightarrow> gmt_minute ('':'' @ two_digits m) = Some (two_digits m, [])"
  using digit_char_below(1) [of "m div 10"] by (simp add: gmt_minute_def two_digits_def)

lemma nat_digits_hour:
  "h \<le> 14 \<Longrightarrow> nat_digits h = (if h < 10 then [digit_char h] else [CHR ''1'', digit_char (h - 10)])"
proof -
  assume "h \<le> 14"
  then have "h < 10 \<or> h div 10 = 1 \<and> h mod 10 = h - 10" by presburger
  moreover have "digit_char 1 = CHR ''1''" by code_simp
  ultimately show ?thesis
    by (auto simp: nat_digits.simps [of h] nat_digits.simps [of "Suc 0"])
qed

lemma digit_char_not_colon: "n < 10 \<Longrightarrow> digit_char n \<noteq> CHR '':''"
  using is_digit_digit_char [of n] by (auto simp: is_digit_def byte_def)

lemma gmt_match_name:
  assumes "h \<le> 14" "m < 60"
  shows "gmt_match (offset_name neg h m) =
    Some (if neg then ''-'' else ''+'', nat_digits h, two_digits m, [])"
proof (cases "h < 10")
  case True
  then show ?thesis
    using assms gmt_minute_two [OF assms(2)]
    by (simp add: gmt_match_def offset_name_def nat_digits_hour)
next
  case False
  have "digit_char (h - 10) \<noteq> CHR '':''"
    using assms by (intro digit_char_not_colon) simp
  then have "gmt_minute (digit_char (h - 10) # '':'' @ two_digits m) = None"
    by (simp add: gmt_minute_def two_digits_def)
  moreover have "digit_char (h - 10) \<in> set ''01234''"
    using assms by (intro digit_char_below) simp
  moreover have "is_digit (CHR ''1'')" by (simp add: go_lib)
  ultimately show ?thesis
    using False assms gmt_minute_two [OF assms(2)]
    by (simp add: gmt_match_def offset_name_def nat_digits_hour)
qed

lemma gmt_matches_skip: "length s \<le> k \<Longrightarrow> gmt_matches k s = []"
  by (induction k s rule: gmt_matches.induct) auto

lemma gmt_matches_name:
  assumes "h \<le> 14" "m < 60"
  shows "gmt_matches 0 (offset_name neg h m) =
    [(if neg then ''-'' else ''+'', nat_digits h, two_digits m)]"
proof -
  obtain c cs where c: "offset_name neg h m = c # cs"
    by (simp add: offset_name_def)
  have "length (offset_name neg h m) = length (nat_digits h) + 7"
    by (simp add: offset_name_def two_digits_def)
  then have "length cs = length (nat_digits h) + 6" using c by simp
  then show ?thesis
    using gmt_match_name [OF assms, of neg] c by (simp add: gmt_matches_skip)
qed

lemma offset_name_chars:
  assumes "m < 60" "c \<in> set (offset_name neg h m)"
  shows "c \<in> set ''GMT+-:'' \<or> is_digit c"
  using assms nat_digits_all_digits [of h]
  by (cases neg) (auto simp: offset_name_def two_digits_def list_all_iff)

lemma atoi_two_digits: "m < 60 \<Longrightarrow> atoi (two_digits m) = (int m, None)"
  using atoi_digits [of "two_digits m"]
  by (simp add: two_digits_def digits_value_def max_int64_def)

lemma trim_offset_name: "m < 60 \<Longrightarrow> trim_space (offset_name neg h m) = offset_name neg h m"
  unfolding trim_space_def
  by (rule trim_with_id) (simp add: offset_name_def two_digits_def is_space_def is_digit_def, simp add: digit_char_def byte_def)

theorem parseLocation_offset:
  assumes "h \<le> 14" "m < 60"
  shows "parseLocation lib (offset_name neg h m) =
    Inr (FixedZone (offset_name neg h m) ((if neg then -1 else 1) * (int h * 3600 + int m * 60)))"
proof -
  have "CHR ''/'' \<notin> set (offset_name neg h m)"
    using offset_name_chars [OF assms(2)] by (fastforce simp: go_lib)
  moreover have "contains_sign (offset_name neg h m)"
    by (simp add: contains_sign_def offset_name_def)
  moreover have "atoi (nat_digits h) = (int h, None)"
    using atoi_itoa [of "int h"] assms by (simp add: itoa_def max_int64_def min_int64_def)
  moreover have "gmt_name (if neg then ''-'' else ''+'', nat_digits h, two_digits m) = offset_name neg h m"
    by (simp add: gmt_name_def offset_name_def)
  ultimately show ?thesis
    by (simp add: parseLocation_def trim_offset_name [OF assms(2)] gmt_matches_name [OF assms]
        atoi_two_digits [OF assms(2)])
qed

theorem parseLocation_offset_witness:
  "parseLocation toy_lib ''GMT-14:59'' = Inr (FixedZone ''GMT-14:59'' (- 53940))"
proof -
  have "offset_name True 14 59 = ''GMT-14:59''" by code_simp
  then show ?thesis using parseLocation_offset [of 14 59 toy_lib True] by simp
qed

end
