(* ===== verification/World.thy ===== *)
theory World
  imports Schedules
begin

text \<open>
  The outside of the agent. The state \<open>world\<close> counts the interactions and keeps the trace of
  the effects; the record \<open>env\<close> answers each interaction by its number, so that every theorem
  holds for every behaviour of the network, the clock and the file system. On top of it:
  \<open>agent/util/httputil.go\<close>, the service addresses of \<open>agent/util/serviceprovider.go\<close> and the
  loop that posts a report up to four times.
\<close>

section \<open>Effects and oracles\<close>

datatype effect =
    HttpSent (sent_method: string) (sent_url: string) (sent_body: string)
  | Slept nat
  | MadeDirs string
  | FileWritten string string
  | FileAppended string string
  | FileChmod string int
  | FileChown string int int
  | FileRemoved string
  | ProcessStarted string string "string list" "string list" "(nat \<times> nat \<times> nat list) option"
  | ProcessKilled
  | PowerAction bool
  | ContainerExec string string string string "string list"

text \<open>\<open>ContainerExec service container user directory command\<close>: a process in a container.\<close>

text \<open>A transport answers with a status and a content, or fails; an unknown certificate authority
  is a failure of its own.\<close>

datatype transport_reply = Reply int string | Failure go_error | UnknownAuthority go_error

record env =
  server_host :: string
  transport :: "nat \<Rightarrow> string \<Rightarrow> string \<Rightarrow> string \<Rightarrow> transport_reply"
  clock :: "nat \<Rightarrow> instant"
  clock_zone :: "nat \<Rightarrow> int"
  zone_name :: string
  zone_offset :: "string \<Rightarrow> instant \<Rightarrow> int"

record world =
  ticks :: nat
  trace :: "effect list"

definition perform :: "effect \<Rightarrow> world \<Rightarrow> world" where
  "perform e w = w\<lparr>ticks := Suc (ticks w), trace := trace w @ [e]\<rparr>"

definition tick :: "world \<Rightarrow> world" where
  "tick w = w\<lparr>ticks := Suc (ticks w)\<rparr>"

definition read_clock :: "env \<Rightarrow> world \<Rightarrow> instant \<times> world" where
  "read_clock env w = (clock env (ticks w), tick w)"

definition go_sleep :: "nat \<Rightarrow> world \<Rightarrow> world" where
  "go_sleep seconds w = perform (Slept seconds) w"

lemma trace_simps [simp]:
  "trace (perform e w) = trace w @ [e]" "trace (tick w) = trace w"
  "ticks (perform e w) = Suc (ticks w)" "ticks (tick w) = Suc (ticks w)"
  "trace (go_sleep n w) = trace w @ [Slept n]" "ticks (go_sleep n w) = Suc (ticks w)"
  by (simp_all add: perform_def tick_def go_sleep_def)

section \<open>HTTP\<close>

definition NewHttpErrorCode :: "int \<Rightarrow> go_error" where
  "NewHttpErrorCode code = PlainError (''The error code is '' @ itoa code)"

definition send_request :: "env \<Rightarrow> string \<Rightarrow> string \<Rightarrow> string \<Rightarrow> world \<Rightarrow> transport_reply \<times> world" where
  "send_request env method url body w =
     (transport env (ticks w) method url body, perform (HttpSent method url body) w)"

definition http_result :: "int \<Rightarrow> string \<Rightarrow> string \<times> go_error option" where
  "http_result status content =
     (content, if 400 < status then Some (NewHttpErrorCode status) else None)"

text \<open>
  \<open>HttpPostWithTimeout\<close> and \<open>HttpGetWithTimeout\<close>. After a certificate error the code reloads
  the certificates and repeats the request, in both functions with the GET method.
\<close>

definition HttpPost :: "env \<Rightarrow> string \<Rightarrow> string \<Rightarrow> world \<Rightarrow> (string \<times> go_error option) \<times> world" where
  "HttpPost env url body w =
     (let (r, w1) = send_request env ''POST'' url body w in
      case r of
        Reply status content \<Rightarrow> (http_result status content, w1)
      | Failure e \<Rightarrow> (([], Some e), w1)
      | UnknownAuthority e \<Rightarrow>
          (let (r2, w2) = send_request env ''GET'' url [] w1 in
           case r2 of
             Reply status content \<Rightarrow> (http_result status content, w2)
           | Failure e2 \<Rightarrow> (([], Some e2), w2)
           | UnknownAuthority e2 \<Rightarrow> (([], Some e2), w2)))"

definition HttpGet :: "env \<Rightarrow> string \<Rightarrow> world \<Rightarrow> (string \<times> go_error option) \<times> world" where
  "HttpGet env url w =
     (let (r, w1) = send_request env ''GET'' url [] w in
      case r of
        Reply status content \<Rightarrow> (http_result status content, w1)
      | Failure e \<Rightarrow> (([], Some e), w1)
      | UnknownAuthority e \<Rightarrow>
          (let (r2, w2) = send_request env ''GET'' url [] w1 in
           case r2 of
             Reply status content \<Rightarrow> (http_result status content, w2)
           | Failure e2 \<Rightarrow> (([], Some e2), w2)
           | UnknownAuthority e2 \<Rightarrow> (([], Some e2), w2)))"

section \<open>Retried posts\<close>

text \<open>
  The loop of the reporting functions: one post, then at most \<open>n\<close> more as long as the last one
  failed, two seconds apart.
\<close>

fun retry_post :: "env \<Rightarrow> string \<Rightarrow> string \<Rightarrow> nat \<Rightarrow> (string \<times> go_error option) \<Rightarrow> world \<Rightarrow>
  (string \<times> go_error option) \<times> world" where
  "retry_post env url body 0 r w = (r, w)"
| "retry_post env url body (Suc n) r w =
     (if snd r = None then (r, w)
      else let (r', w') = HttpPost env url body (go_sleep 2 w) in retry_post env url body n r' w')"

definition post_retrying :: "env \<Rightarrow> string \<Rightarrow> string \<Rightarrow> world \<Rightarrow> (string \<times> go_error option) \<times> world" where
  "post_retrying env url body w =
     (let (r, w1) = HttpPost env url body w in retry_post env url body 3 r w1)"

section \<open>The interface of the clients\<close>

text \<open>
  A component that reports through the network relies on little: an attempt appends requests
  of its own to the trace, at most \<open>limit\<close> of them, and changes nothing else of it.
\<close>

definition posts :: "effect list \<Rightarrow> effect list" where
  "posts es = filter (\<lambda>e. case e of HttpSent m u b \<Rightarrow> m = ''POST'' | _ \<Rightarrow> False) es"

lemma posts_simps [simp]:
  "posts [] = []" "posts (xs @ ys) = posts xs @ posts ys" "posts (Slept n # es) = posts es"
  "posts (HttpSent ''POST'' u b # es) = HttpSent ''POST'' u b # posts es"
  "posts (HttpSent ''GET'' u b # es) = posts es"
  by (simp_all add: posts_def)

locale reporter =
  fixes attempt :: "'a \<Rightarrow> world \<Rightarrow> 'r \<times> world"
    and url_of :: "'a \<Rightarrow> string" and body_of :: "'a \<Rightarrow> string" and limit :: nat
  assumes appends: "\<exists>es. trace (snd (attempt a w)) = trace w @ es
      \<and> posts es \<noteq> [] \<and> length (posts es) \<le> limit
      \<and> set (posts es) \<subseteq> {HttpSent ''POST'' (url_of a) (body_of a)}"
begin

lemma keeps_trace: "\<exists>es. trace (snd (attempt a w)) = trace w @ es"
  using appends by blast

lemma posts_grow:
  "length (posts (trace w)) < length (posts (trace (snd (attempt a w))))"
  "length (posts (trace (snd (attempt a w)))) \<le> length (posts (trace w)) + limit"
  using appends [where a = a and w = w] by auto

lemma post_sent:
  obtains es where "trace (snd (attempt a w)) = trace w @ es" "HttpSent ''POST'' (url_of a) (body_of a) \<in> set es"
proof -
  obtain es where es: "trace (snd (attempt a w)) = trace w @ es" "posts es \<noteq> []"
    "set (posts es) \<subseteq> {HttpSent ''POST'' (url_of a) (body_of a)}"
    using appends [where a = a and w = w] by blast
  then have "HttpSent ''POST'' (url_of a) (body_of a) \<in> set (posts es)"
    by (cases "posts es") auto
  then show ?thesis using es(1) that by (auto simp: posts_def)
qed

end

lemma HttpPost_trace:
  "\<exists>es. trace (snd (HttpPost env url body w)) = trace w @ HttpSent ''POST'' url body # es \<and> posts es = []"
  by (simp add: HttpPost_def send_request_def split: transport_reply.splits prod.splits)

lemma HttpPost_shape:
  obtains r es where "HttpPost env url body w = (r, snd (HttpPost env url body w))"
    "trace (snd (HttpPost env url body w)) = trace w @ HttpSent ''POST'' url body # es" "posts es = []"
  using HttpPost_trace [of env url body w] by (metis prod.collapse)

lemma retry_post_trace:
  "\<exists>es. trace (snd (retry_post env url body n r w)) = trace w @ es
     \<and> length (posts es) \<le> n \<and> set (posts es) \<subseteq> {HttpSent ''POST'' url body}
     \<and> (snd (fst (retry_post env url body n r w)) \<noteq> None \<longrightarrow> length (posts es) = n)"
proof (induction n arbitrary: r w)
  case (Suc n)
  show ?case
  proof (cases "snd r")
    case None
    then show ?thesis by simp
  next
    case (Some e)
    obtain r' es1 where 1: "HttpPost env url body (go_sleep 2 w) = (r', snd (HttpPost env url body (go_sleep 2 w)))"
      "trace (snd (HttpPost env url body (go_sleep 2 w))) = trace (go_sleep 2 w) @ HttpSent ''POST'' url body # es1"
      "posts es1 = []"
      using HttpPost_shape by blast
    obtain es2 where 2: "trace (snd (retry_post env url body n r' (snd (HttpPost env url body (go_sleep 2 w)))))
        = trace (snd (HttpPost env url body (go_sleep 2 w))) @ es2"
      "length (posts es2) \<le> n" "set (posts es2) \<subseteq> {HttpSent ''POST'' url body}"
      "snd (fst (retry_post env url body n r' (snd (HttpPost env url body (go_sleep 2 w))))) \<noteq> None
        \<longrightarrow> length (posts es2) = n"
      using Suc.IH [where r = r' and w = "snd (HttpPost env url body (go_sleep 2 w))"] by blast
    have "retry_post env url body (Suc n) r w
        = retry_post env url body n r' (snd (HttpPost env url body (go_sleep 2 w)))"
      using Some by (simp add: Let_def) (metis "1"(1) case_prod_conv)
    with 1(2,3) 2 show ?thesis
      by (intro exI [of _ "Slept 2 # HttpSent ''POST'' url body # es1 @ es2"]) simp
  qed
qed simp

lemma post_retrying_trace:
  "\<exists>es. trace (snd (post_retrying env url body w)) = trace w @ es
     \<and> posts es \<noteq> [] \<and> length (posts es) \<le> 4 \<and> set (posts es) \<subseteq> {HttpSent ''POST'' url body}
     \<and> (snd (fst (post_retrying env url body w)) \<noteq> None \<longrightarrow> length (posts es) = 4)"
proof -
  obtain r es1 where 1: "HttpPost env url body w = (r, snd (HttpPost env url body w))"
    "trace (snd (HttpPost env url body w)) = trace w @ HttpSent ''POST'' url body # es1"
    "posts es1 = []"
    using HttpPost_shape by blast
  have e: "post_retrying env url body w = retry_post env url body 3 r (snd (HttpPost env url body w))"
    using 1(1) by (simp add: post_retrying_def Let_def) (metis case_prod_conv)
  obtain es2 where 2: "trace (snd (post_retrying env url body w)) = trace (snd (HttpPost env url body w)) @ es2"
    "length (posts es2) \<le> 3" "set (posts es2) \<subseteq> {HttpSent ''POST'' url body}"
    "snd (fst (post_retrying env url body w)) \<noteq> None \<longrightarrow> length (posts es2) = 3"
    unfolding e using retry_post_trace by blast
  with 1(2,3) show ?thesis
    by (intro exI [of _ "HttpSent ''POST'' url body # es1 @ es2"]) simp
qed

interpretation retrying: reporter "\<lambda>a. post_retrying env (fst a) (snd a)" fst snd 4
proof (unfold_locales, goal_cases)
  case (1 a w)
  show ?case using post_retrying_trace [of env "fst a" "snd a" w] by blast
qed

section \<open>Services\<close>

definition service :: "string \<Rightarrow> env \<Rightarrow> string" where
  "service path env = ''https://'' @ server_host env @ path"

definition GetUpdateService :: "env \<Rightarrow> string" where
  "GetUpdateService = service ''/luban/api/v1/update/update_check''"

definition GetConnectDetectService :: "env \<Rightarrow> string" where
  "GetConnectDetectService = service ''/luban/api/connection_detect''"

definition GetInvalidTaskService :: "env \<Rightarrow> string" where
  "GetInvalidTaskService = service ''/luban/api/v1/task/invalid''"

definition GetMetricsService :: "env \<Rightarrow> string" where
  "GetMetricsService = service ''/luban/api/metrics''"

definition GetFetchTaskListService :: "env \<Rightarrow> string" where
  "GetFetchTaskListService = service ''/luban/api/v1/task/list''"

definition GetVerifiedTaskService :: "env \<Rightarrow> string" where
  "GetVerifiedTaskService = service ''/luban/api/v1/task/verified''"

definition GetFetchSessionTaskListService :: "env \<Rightarrow> string" where
  "GetFetchSessionTaskListService = service ''/luban/api/v1/session/list''"

definition GetRunningOutputService :: "env \<Rightarrow> string" where
  "GetRunningOutputService = service ''/luban/api/v1/task/running''"

definition GetFinishOutputService :: "env \<Rightarrow> string" where
  "GetFinishOutputService = service ''/luban/api/v1/task/finish''"

definition GetSessionStatusService :: "env \<Rightarrow> string" where
  "GetSessionStatusService = service ''/luban/api/v1/session/status''"

definition GetStoppedOutputService :: "env \<Rightarrow> string" where
  "GetStoppedOutputService = service ''/luban/api/v1/task/stopped''"

definition GetTimeoutOutputService :: "env \<Rightarrow> string" where
  "GetTimeoutOutputService = service ''/luban/api/v1/task/timeout''"

definition GetErrorOutputService :: "env \<Rightarrow> string" where
  "GetErrorOutputService = service ''/luban/api/v1/task/error''"

definition GetPingService :: "env \<Rightarrow> string" where
  "GetPingService env = server_host env @ ''/luban/api/heart-beat''"

definition GetGshellCheckService :: "env \<Rightarrow> string" where
  "GetGshellCheckService = service ''/luban/api/gshell''"

definition GetPluginListService :: "env \<Rightarrow> string" where
  "GetPluginListService = service ''/luban/api/v1/plugin/list''"

definition GetPluginHealthService :: "env \<Rightarrow> string" where
  "GetPluginHealthService = service ''/luban/api/v1/plugin/report_status''"

definition GetPluginUpdateCheckService :: "env \<Rightarrow> string" where
  "GetPluginUpdateCheckService = service ''/luban/api/v2/plugin/update_check''"

definition GetClientReportService :: "env \<Rightarrow> string" where
  "GetClientReportService = service ''/luban/api/v1/exception/client_report''"

definition GetStateConfigService :: "env \<Rightarrow> string" where
  "GetStateConfigService = service ''/luban/api/instance/list_instance_state_configurations''"

definition GetTemplateService :: "env \<Rightarrow> string" where
  "GetTemplateService = service ''/luban/api/instance/get_template''"

definition GetPutInventoryService :: "env \<Rightarrow> string" where
  "GetPutInventoryService = service ''/luban/api/instance/put_inventory''"

definition GetPutInstanceStateReportService :: "env \<Rightarrow> string" where
  "GetPutInstanceStateReportService = service ''/luban/api/instance/put_instance_state_report''"

definition GetDeRegisterService :: "env \<Rightarrow> string" where
  "GetDeRegisterService = service ''/luban/api/instance/deregister''"

lemmas service_defs = service_def

end
