(* ===== verification/Go_Path.thy ===== *)
theory Go_Path
  imports Go_Strings
begin

text \<open>
  \<open>path.Clean\<close> and \<open>path.Join\<close> (also \<open>filepath\<close> on Unix), which the sources use to build
  the names of the files they write and test.
\<close>

section \<open>Cleaning a path\<close>

text \<open>The components kept so far are in reverse order.\<close>

fun clean_parts :: "bool \<Rightarrow> string list \<Rightarrow> string list \<Rightarrow> string list" where
  "clean_parts rooted kept [] = rev kept"
| "clean_parts rooted kept (p # ps) =
     (if p = [] \<or> p = ''.'' then clean_parts rooted kept ps
      else if p = ''..'' then
        (if kept \<noteq> [] \<and> hd kept \<noteq> ''..'' then clean_parts rooted (tl kept) ps
         else if rooted then clean_parts rooted kept ps
         else clean_parts rooted (p # kept) ps)
      else clean_parts rooted (p # kept) ps)"

definition path_clean :: "string \<Rightarrow> string" where
  "path_clean s =
     (let rooted = (s \<noteq> [] \<and> hd s = CHR ''/'');
          r = (if rooted then ''/'' else []) @ join ''/'' (clean_parts rooted [] (split_on (CHR ''/'') s)) in
      if r = [] then ''.'' else r)"

definition path_join :: "string list \<Rightarrow> string" where
  "path_join elems =
     (let es = filter (\<lambda>e. e \<noteq> []) elems in if es = [] then [] else path_clean (join ''/'' es))"

lemma path_examples:
  "path_join [''/root'', ''a/../b'', ''c''] = ''/root/b/c''"
  "path_join [''/tmp'', ''../../x''] = ''/x''" "path_join [[], []] = []" "path_clean [] = ''.''"
  by code_simp+

definition plain_part :: "string \<Rightarrow> bool" where
  "plain_part p \<longleftrightarrow> p \<noteq> [] \<and> p \<noteq> ''.'' \<and> p \<noteq> ''..''"

text \<open>A rooted path has no empty, dot or dot-dot components left.\<close>

lemma clean_parts_rooted:
  "list_all plain_part kept \<Longrightarrow> list_all plain_part (clean_parts True kept ps)"
proof (induction ps arbitrary: kept)
  case Nil
  then show ?case by (simp add: list_all_iff)
next
  case (Cons p ps)
  have "list_all plain_part (tl kept)" using Cons.prems by (cases kept) simp_all
  note tl = Cons.IH [OF this]
  have "list_all plain_part (clean_parts True (p # kept) ps)" if "plain_part p"
    using that Cons.prems by (intro Cons.IH) simp
  moreover have "plain_part p \<longleftrightarrow> p \<noteq> [] \<and> p \<noteq> ''.'' \<and> p \<noteq> ''..''"
    by (rule plain_part_def)
  ultimately show ?case using tl Cons.IH [OF Cons.prems] by simp
qed

end
