(* ===== verification/Machine.thy ===== *)
theory Machine
  imports World Go_Path
begin

text \<open>
  The machine the agent runs on: the record \<open>machine\<close> answers the system calls by the number of
  the interaction, as \<open>env\<close> answers the network. On top of it the small wrappers the components
  share: the file tests of \<open>agent/util/utils.go\<close> and \<open>fileutil.go\<close>, the script directory of
  \<open>common/pathutil/assistpath.go\<close>, the power switch of \<open>agent/util/powerutil\<close>.
\<close>

section \<open>What happens while a process runs\<close>

datatype proc_status = Success | Fail | Timeout | OtherStatus int

text \<open>Output written, a tick of the reporting timer, a cancel request (quietly or not).\<close>

datatype run_event = Wrote string | Ticked | CancelCalled bool

section \<open>System calls\<close>

datatype file_kind = NotExist | StatError | DirFile | RegularFile | OtherFile

text \<open>
  \<open>mc_timer_first\<close> says whether the timer of a bounded wait fires before the process ends,
  \<open>mc_finish\<close> the exit code of the process state (\<open>None\<close> for a nil state) and the error of
  \<open>Wait\<close>. A user is looked up as its uid text and home directory, a group as its gid text.
\<close>

record machine =
  mc_stat :: "nat \<Rightarrow> string \<Rightarrow> file_kind"
  mc_lstat :: "nat \<Rightarrow> string \<Rightarrow> file_kind"
  mc_mkdir :: "nat \<Rightarrow> string \<Rightarrow> go_error option"
  mc_write :: "nat \<Rightarrow> string \<Rightarrow> go_error option"
  mc_chmod :: "nat \<Rightarrow> string \<Rightarrow> go_error option"
  mc_chown :: "nat \<Rightarrow> string \<Rightarrow> go_error option"
  mc_remove :: "nat \<Rightarrow> string \<Rightarrow> go_error option"
  mc_executable :: "nat \<Rightarrow> go_error + string"
  mc_look_path :: "nat \<Rightarrow> string \<Rightarrow> go_error option"
  mc_user :: "nat \<Rightarrow> string \<Rightarrow> go_error + (string \<times> string)"
  mc_group :: "nat \<Rightarrow> string \<Rightarrow> go_error + string"
  mc_home_env :: "nat \<Rightarrow> go_error + string"
  mc_current_home :: "nat \<Rightarrow> go_error + string"
  mc_environ :: "nat \<Rightarrow> string list"
  mc_output :: "nat \<Rightarrow> string \<Rightarrow> go_error + string"
  mc_start :: "nat \<Rightarrow> string \<Rightarrow> string list \<Rightarrow> go_error option"
  mc_timer_first :: "nat \<Rightarrow> bool"
  mc_finish :: "nat \<Rightarrow> int option \<times> go_error option"
  mc_events :: "nat \<Rightarrow> run_event list"
  mc_script_path :: string

text \<open>A question to the machine, and a call that leaves an effect when it succeeds.\<close>

definition ask :: "(nat \<Rightarrow> 'a) \<Rightarrow> world \<Rightarrow> 'a \<times> world" where
  "ask f w = (f (ticks w), tick w)"

definition attempt :: "(nat \<Rightarrow> go_error option) \<Rightarrow> effect \<Rightarrow> world \<Rightarrow> go_error option \<times> world" where
  "attempt f e w = (case f (ticks w) of None \<Rightarrow> (None, perform e w) | Some err \<Rightarrow> (Some err, tick w))"

section \<open>File tests\<close>

definition CheckFileIsExist :: "machine \<Rightarrow> string \<Rightarrow> world \<Rightarrow> bool \<times> world" where
  "CheckFileIsExist mc p w = (let (k, w1) = ask (\<lambda>n. mc_stat mc n p) w in (k \<noteq> NotExist, w1))"

definition FileExist :: "machine \<Rightarrow> string \<Rightarrow> world \<Rightarrow> bool \<times> world" where
  "FileExist mc p w = (let (k, w1) = ask (\<lambda>n. mc_lstat mc n p) w in (k \<noteq> NotExist, w1))"

definition IsDirectory :: "machine \<Rightarrow> string \<Rightarrow> world \<Rightarrow> bool \<times> world" where
  "IsDirectory mc p w = (let (k, w1) = ask (\<lambda>n. mc_stat mc n p) w in (k = DirFile, w1))"

definition IsFile :: "machine \<Rightarrow> string \<Rightarrow> world \<Rightarrow> bool \<times> world" where
  "IsFile mc p w = (let (k, w1) = ask (\<lambda>n. mc_stat mc n p) w in (k = RegularFile, w1))"

definition WriteStringToFile :: "machine \<Rightarrow> string \<Rightarrow> string \<Rightarrow> world \<Rightarrow> go_error option \<times> world" where
  "WriteStringToFile mc p content w = attempt (\<lambda>n. mc_write mc n p) (FileWritten p content) w"

definition MakeSurePath :: "machine \<Rightarrow> string \<Rightarrow> world \<Rightarrow> go_error option \<times> world" where
  "MakeSurePath mc p w = attempt (\<lambda>n. mc_mkdir mc n p) (MadeDirs p) w"

definition RemoveFile :: "machine \<Rightarrow> string \<Rightarrow> world \<Rightarrow> go_error option \<times> world" where
  "RemoveFile mc p w = attempt (\<lambda>n. mc_remove mc n p) (FileRemoved p) w"

definition ChangeMode :: "machine \<Rightarrow> string \<Rightarrow> int \<Rightarrow> world \<Rightarrow> go_error option \<times> world" where
  "ChangeMode mc p mode w = attempt (\<lambda>n. mc_chmod mc n p) (FileChmod p mode) w"

section \<open>The script directory\<close>

text \<open>\<open>filepath.Dir\<close>.\<close>

definition path_dir :: "string \<Rightarrow> string" where
  "path_dir p = path_clean (rev (dropWhile (\<lambda>c. c \<noteq> CHR ''/'') (rev p)))"

definition GetCurrentPath :: "machine \<Rightarrow> world \<Rightarrow> (go_error + string) \<times> world" where
  "GetCurrentPath mc w = (let (r, w1) = ask (mc_executable mc) w in (map_sum id path_dir r, w1))"

text \<open>The directory, with the error of its creation.\<close>

definition GetScriptPath :: "machine \<Rightarrow> world \<Rightarrow> (string \<times> go_error option) \<times> world" where
  "GetScriptPath mc w =
     (if mc_script_path mc \<noteq> [] then ((mc_script_path mc, None), w)
      else
        (let (r, w1) = GetCurrentPath mc w in
         case r of
           Inl e \<Rightarrow> (([], Some e), w1)
         | Inr cur \<Rightarrow>
             (let p = path_join [path_dir cur, ''work'', ''script''];
                  (e, w2) = MakeSurePath mc p w1 in
              ((p, e), w2))))"

lemma path_dir_examples:
  "path_dir ''/usr/local/share/aliyun-assist/2.2.3/aliyun-service'' = ''/usr/local/share/aliyun-assist/2.2.3''"
  "path_dir ''/a'' = ''/''" "path_dir ''a'' = ''.''"
  by code_simp+

section \<open>Power\<close>

text \<open>\<open>Shutdown\<close> starts the command in the background.\<close>

definition Shutdown :: "bool \<Rightarrow> world \<Rightarrow> world" where
  "Shutdown reboot w = perform (PowerAction reboot) w"

section \<open>Errors of numbers\<close>

definition hex_lower :: "nat \<Rightarrow> char" where
  "hex_lower n = (if n < 10 then char_of (48 + n) else char_of (87 + n))"

text \<open>
  \<open>strconv.Quote\<close>, on bytes: control characters, quotes and backslashes are escaped; bytes of
  multi-byte characters are kept, as for every printable character.
\<close>

definition quote_char :: "char \<Rightarrow> string" where
  "quote_char c =
     (let b = byte c; bs = CHR 0x5C in
      if b = 34 \<or> b = 92 then [bs, c]
      else if b = 7 then bs # ''a'' else if b = 8 then bs # ''b'' else if b = 12 then bs # ''f''
      else if b = 10 then bs # ''n'' else if b = 13 then bs # ''r'' else if b = 9 then bs # ''t''
      else if b = 11 then bs # ''v''
      else if b < 32 \<or> b = 127 then bs # ''x'' @ [hex_lower (b div 16), hex_lower (b mod 16)]
      else [c])"

definition go_quote :: "string \<Rightarrow> string" where
  "go_quote s = [CHR 0x22] @ concat (map quote_char s) @ [CHR 0x22]"

definition atoi_error :: "string \<Rightarrow> num_error \<Rightarrow> go_error" where
  "atoi_error s e = PlainError (''strconv.Atoi: parsing '' @ go_quote s @ '': ''
     @ (case e of ErrSyntax \<Rightarrow> ''invalid syntax'' | ErrRange \<Rightarrow> ''value out of range''))"

section \<open>Calls leave no requests\<close>

text \<open>The network is not involved: what a call adds to the trace is no request.\<close>

definition is_http :: "effect \<Rightarrow> bool" where
  "is_http e \<longleftrightarrow> (case e of HttpSent m u b \<Rightarrow> True | _ \<Rightarrow> False)"

definition quiet :: "world \<Rightarrow> world \<Rightarrow> bool" where
  "quiet w w' \<longleftrightarrow> (\<exists>es. trace w' = trace w @ es \<and> list_all (\<lambda>e. \<not> is_http e) es)"

lemma quiet_refl [simp]: "quiet w w"
  by (auto simp: quiet_def)

lemma quiet_trans: "quiet w w' \<Longrightarrow> quiet w' w'' \<Longrightarrow> quiet w w''"
  unfolding quiet_def by (metis append.assoc list_all_append)

lemma quiet_perform [simp]: "\<not> is_http e \<Longrightarrow> quiet w (perform e w)"
  by (auto simp: quiet_def)

lemma quiet_tick [simp]: "quiet w (tick w)"
  by (auto simp: quiet_def)

lemma trace_ask: "trace (snd (ask f w)) = trace w"
  by (simp add: ask_def)

lemma quiet_ask [simp]: "quiet w (snd (ask f w))"
  by (simp add: ask_def)

lemma quiet_attempt [simp]: "\<not> is_http e \<Longrightarrow> quiet w (snd (attempt f e w))"
  by (simp add: attempt_def split: option.split)

lemma not_http [simp]:
  "\<not> is_http (Slept k)" "\<not> is_http (MadeDirs p)" "\<not> is_http (FileWritten p s)" "\<not> is_http (FileChmod p m)"
  "\<not> is_http (FileChown p u g)" "\<not> is_http (FileRemoved p)" "\<not> is_http (ProcessStarted d n a v c)"
  "\<not> is_http ProcessKilled" "\<not> is_http (PowerAction b)" "\<not> is_http (ContainerExec rt cid usr dir cmd)"
  by (simp_all add: is_http_def)

lemma quiet_files [simp]:
  "quiet w (snd (CheckFileIsExist mc p w))" "quiet w (snd (FileExist mc p w))" "quiet w (snd (IsDirectory mc p w))"
  "quiet w (snd (IsFile mc p w))" "quiet w (snd (WriteStringToFile mc p c w))" "quiet w (snd (MakeSurePath mc p w))"
  "quiet w (snd (RemoveFile mc p w))" "quiet w (snd (ChangeMode mc p m w))" "quiet w (snd (GetCurrentPath mc w))"
  by (simp_all add: CheckFileIsExist_def FileExist_def IsDirectory_def IsFile_def WriteStringToFile_def
      MakeSurePath_def RemoveFile_def ChangeMode_def GetCurrentPath_def ask_def attempt_def split: option.split)

lemma quiet_after: "quiet w1 w2 \<Longrightarrow> quiet w w1 \<Longrightarrow> quiet w w2"
  by (rule quiet_trans)

text \<open>A call in the middle of an operation: the rest of it goes on from a quiet world.\<close>

lemma quiet_let:
  "quiet w (snd p) \<Longrightarrow> (\<And>a w1. quiet w w1 \<Longrightarrow> quiet w (snd (f a w1))) \<Longrightarrow>
    quiet w (snd (case p of (a, w1) \<Rightarrow> f a w1))"
  "quiet w (snd p) \<Longrightarrow> (\<And>a w1. quiet w w1 \<Longrightarrow> quiet w (snd (snd (f' a w1)))) \<Longrightarrow>
    quiet w (snd (snd (case p of (a, w1) \<Rightarrow> f' a w1)))"
  "quiet w (snd (snd q)) \<Longrightarrow> (\<And>a b w1. quiet w w1 \<Longrightarrow> quiet w (snd (snd (h a b w1)))) \<Longrightarrow>
    quiet w (snd (snd (case q of (a, b, w1) \<Rightarrow> h a b w1)))"
  by (simp_all add: split_beta)

lemma quiet_pair:
  "(\<And>x y. quiet w (snd (f x y w1))) \<Longrightarrow> quiet w (snd ((case a of (x, y) \<Rightarrow> f x y) w1))"
  "(\<And>x y. quiet w (snd (snd (f' x y w1)))) \<Longrightarrow> quiet w (snd (snd ((case a of (x, y) \<Rightarrow> f' x y) w1)))"
  by (cases a; simp)+

lemmas quiet_basic_calls = quiet_after [OF quiet_ask] quiet_after [OF quiet_attempt] quiet_after [OF quiet_files(1)]
  quiet_after [OF quiet_files(2)] quiet_after [OF quiet_files(3)] quiet_after [OF quiet_files(4)]
  quiet_after [OF quiet_files(5)] quiet_after [OF quiet_files(6)] quiet_after [OF quiet_files(7)]
  quiet_after [OF quiet_files(8)] quiet_after [OF quiet_files(9)]

lemma quiet_GetScriptPath: "quiet w w0 \<Longrightarrow> quiet w (snd (GetScriptPath mc w0))"
  unfolding GetScriptPath_def Let_def by (auto intro!: quiet_let quiet_basic_calls split: sum.split)

lemmas quiet_calls = quiet_basic_calls quiet_GetScriptPath

end
