(* ===== verification/Timers.thy ===== *)
theory Timers
  imports Schedules
begin

text \<open>
  The timers of \<open>agent/taskengine/timermanager\<close>: the life of one \<open>Timer\<close> as a step relation
  (\<open>timer.go\<close>) and the \<open>TimerManager\<close> that registers them (\<open>timermanager.go\<close>). The three
  channels have room for one message each. A goroutine that runs \<open>runTimer\<close> is a program
  counter: the test of \<open>isRunning\<close> and its update are two separate critical sections.
\<close>

section \<open>A timer\<close>

datatype timer_loop = NotStarted | Waiting instant | Exited

datatype runner = Checking | Entering | Calling | Leaving | Finished

record ('e, 'l, 'c) timer =
  Schedule :: "('e, 'l) schedule"
  callback :: 'c
  refreshTimer :: bool
  skipWait :: bool
  quit :: bool
  isRunning :: bool
  timer_loop :: timer_loop
  runners :: "runner list"

definition NewTimer :: "('e, 'l) schedule \<Rightarrow> 'c \<Rightarrow> ('e, 'l, 'c) timer" where
  "NewTimer s c = \<lparr>Schedule = s, callback = c, refreshTimer = False, skipWait = False, quit = False,
     isRunning = False, timer_loop = NotStarted, runners = []\<rparr>"

text \<open>
  \<open>Run\<close>: the schedule is asked once in the caller; the field \<open>err\<close> of a timer is never set, so
  its test is omitted. The loop goroutine starts only when the wait is not negative.
\<close>

definition TimerRun :: "('e, 'l) cron_lib \<Rightarrow> instant \<Rightarrow> ('e, 'l, 'c) timer \<Rightarrow>
  go_error option outcome \<times> ('e, 'l, 'c) timer" where
  "TimerRun lib now t =
     (let (r, s') = nextRun lib now (Schedule t); t' = t\<lparr>Schedule := s'\<rparr> in
      case r of
        Panics p \<Rightarrow> (Panics p, t')
      | Returns (d, Some err) \<Rightarrow> (Returns (Some err), t')
      | Returns (d, None) \<Rightarrow>
          if d < 0 then (Returns (Some ErrNoNextRun), t')
          else (Returns None, t'\<lparr>timer_loop := Waiting (now + d)\<rparr>))"

text \<open>
  The end of one cycle of the loop: the schedule is asked again and its error ignored. A
  negative wait ends the goroutine, and so does a panic.
\<close>

definition next_cycle :: "('e, 'l) cron_lib \<Rightarrow> instant \<Rightarrow> ('e, 'l, 'c) timer \<Rightarrow> ('e, 'l, 'c) timer" where
  "next_cycle lib now t =
     (let (r, s') = nextRun lib now (Schedule t); t' = t\<lparr>Schedule := s'\<rparr> in
      case r of
        Panics p \<Rightarrow> t'\<lparr>timer_loop := Exited\<rparr>
      | Returns (d, e) \<Rightarrow> t'\<lparr>timer_loop := (if d < 0 then Exited else Waiting (now + d))\<rparr>)"

definition spawn_runner :: "('e, 'l, 'c) timer \<Rightarrow> ('e, 'l, 'c) timer" where
  "spawn_runner t = t\<lparr>runners := runners t @ [Checking]\<rparr>"

definition on_refresh :: "('e, 'l) cron_lib \<Rightarrow> instant \<Rightarrow> ('e, 'l, 'c) timer \<Rightarrow> ('e, 'l, 'c) timer" where
  "on_refresh lib now t = next_cycle lib now (t\<lparr>refreshTimer := False\<rparr>)"

definition on_skip :: "('e, 'l) cron_lib \<Rightarrow> instant \<Rightarrow> ('e, 'l, 'c) timer \<Rightarrow> ('e, 'l, 'c) timer" where
  "on_skip lib now t = next_cycle lib now (spawn_runner (t\<lparr>skipWait := False\<rparr>))"

definition on_quit :: "('e, 'l) cron_lib \<Rightarrow> instant \<Rightarrow> ('e, 'l, 'c) timer \<Rightarrow> ('e, 'l, 'c) timer" where
  "on_quit lib now t = (next_cycle lib now (t\<lparr>quit := False\<rparr>))\<lparr>timer_loop := Exited\<rparr>"

definition on_expiry :: "('e, 'l) cron_lib \<Rightarrow> instant \<Rightarrow> ('e, 'l, 'c) timer \<Rightarrow> ('e, 'l, 'c) timer" where
  "on_expiry lib now t = next_cycle lib now (spawn_runner t)"

text \<open>\<open>RefreshTimer\<close>, \<open>SkipWaiting\<close> and \<open>Stop\<close> send; a send blocks (\<open>None\<close>) on a full channel.\<close>

definition RefreshTimer :: "('e, 'l, 'c) timer \<Rightarrow> ('e, 'l, 'c) timer option" where
  "RefreshTimer t = (if refreshTimer t then None else Some (t\<lparr>refreshTimer := True\<rparr>))"

definition SkipWaiting :: "('e, 'l, 'c) timer \<Rightarrow> ('e, 'l, 'c) timer option" where
  "SkipWaiting t = (if skipWait t then None else Some (t\<lparr>skipWait := True\<rparr>))"

definition StopTimer :: "('e, 'l, 'c) timer \<Rightarrow> ('e, 'l, 'c) timer option" where
  "StopTimer t = (if quit t then None else Some (t\<lparr>quit := True\<rparr>))"

text \<open>One step of a goroutine in \<open>runTimer\<close>.\<close>

definition runner_step :: "nat \<Rightarrow> ('e, 'l, 'c) timer \<Rightarrow> ('e, 'l, 'c) timer" where
  "runner_step i t =
     (case runners t ! i of
        Checking \<Rightarrow> t\<lparr>runners := (runners t)[i := if isRunning t then Finished else Entering]\<rparr>
      | Entering \<Rightarrow> t\<lparr>isRunning := True, runners := (runners t)[i := Calling]\<rparr>
      | Calling \<Rightarrow> t\<lparr>runners := (runners t)[i := Leaving]\<rparr>
      | Leaving \<Rightarrow> t\<lparr>isRunning := False, runners := (runners t)[i := Finished]\<rparr>
      | Finished \<Rightarrow> t)"

inductive timer_step :: "('e, 'l) cron_lib \<Rightarrow> ('e, 'l, 'c) timer \<Rightarrow> ('e, 'l, 'c) timer \<Rightarrow> bool"
  for lib :: "('e, 'l) cron_lib" where
  refresh: "timer_loop t = Waiting d \<Longrightarrow> refreshTimer t \<Longrightarrow> timer_step lib t (on_refresh lib now t)"
| skip: "timer_loop t = Waiting d \<Longrightarrow> skipWait t \<Longrightarrow> timer_step lib t (on_skip lib now t)"
| stop: "timer_loop t = Waiting d \<Longrightarrow> quit t \<Longrightarrow> timer_step lib t (on_quit lib now t)"
| expiry: "timer_loop t = Waiting d \<Longrightarrow> d \<le> now \<Longrightarrow> timer_step lib t (on_expiry lib now t)"
| send_refresh: "RefreshTimer t = Some t' \<Longrightarrow> timer_step lib t t'"
| send_skip: "SkipWaiting t = Some t' \<Longrightarrow> timer_step lib t t'"
| send_stop: "StopTimer t = Some t' \<Longrightarrow> timer_step lib t t'"
| runner: "i < length (runners t) \<Longrightarrow> timer_step lib t (runner_step i t)"

inductive_cases timer_stepE: "timer_step lib t t'"

abbreviation timer_steps :: "('e, 'l) cron_lib \<Rightarrow> ('e, 'l, 'c) timer \<Rightarrow> ('e, 'l, 'c) timer \<Rightarrow> bool" where
  "timer_steps lib \<equiv> (timer_step lib)\<^sup>*\<^sup>*"

section \<open>Lemmas on a timer\<close>

lemma next_cycle_frame [simp]:
  "runners (next_cycle lib now t) = runners t" "isRunning (next_cycle lib now t) = isRunning t"
  "quit (next_cycle lib now t) = quit t" "callback (next_cycle lib now t) = callback t"
  by (simp_all add: next_cycle_def Let_def split: prod.splits outcome.splits)

lemma runner_step_loop [simp]:
  "timer_loop (runner_step i t) = timer_loop t" "length (runners (runner_step i t)) = length (runners t)"
  "quit (runner_step i t) = quit t"
  by (simp_all add: runner_step_def split: runner.splits)

lemma send_frame:
  "RefreshTimer t = Some t' \<Longrightarrow> timer_loop t' = timer_loop t \<and> runners t' = runners t"
  "SkipWaiting t = Some t' \<Longrightarrow> timer_loop t' = timer_loop t \<and> runners t' = runners t"
  "StopTimer t = Some t' \<Longrightarrow> timer_loop t' = timer_loop t \<and> runners t' = runners t"
  by (auto simp: RefreshTimer_def SkipWaiting_def StopTimer_def split: if_splits)

lemma exited_step:
  "timer_step lib t t' \<Longrightarrow> timer_loop t = Exited \<Longrightarrow>
    timer_loop t' = Exited \<and> length (runners t') = length (runners t)"
  by (erule timer_stepE) (auto dest: send_frame simp: on_refresh_def on_skip_def on_expiry_def on_quit_def)

lemma exited_steps:
  "timer_steps lib t t' \<Longrightarrow> timer_loop t = Exited \<Longrightarrow>
    timer_loop t' = Exited \<and> length (runners t') = length (runners t)"
proof (induction rule: rtranclp_induct)
  case (step y z)
  then show ?case using exited_step [of lib y z] by simp
qed simp

text \<open>A stop request ends a timer for good: while the loop waits, taking the request out of
  the channel is one of its steps, whatever the schedule answers; afterwards the loop has ended
  and no later step starts another run of the callback.\<close>

theorem stop_is_final:
  assumes "timer_loop t = Waiting d" "StopTimer t = Some t1"
    and "timer_steps lib (on_quit lib now t1) t2"
  shows "timer_step lib t1 (on_quit lib now t1) \<and> timer_loop t2 = Exited
    \<and> length (runners t2) = length (runners t)"
proof -
  have t1: "timer_loop t1 = Waiting d" "quit t1" "runners t1 = runners t"
    using assms(1,2) by (auto simp: StopTimer_def split: if_splits)
  then have "timer_step lib t1 (on_quit lib now t1)" by (intro timer_step.stop)
  moreover have "timer_loop (on_quit lib now t1) = Exited" "runners (on_quit lib now t1) = runners t"
    using t1 by (simp_all add: on_quit_def)
  ultimately show ?thesis using exited_steps [OF assms(3)] by simp
qed

theorem stop_is_final_witness:
  "timer_loop (on_quit toy_lib 1 ((NewTimer (MutableScheduled 5 True) ())
     \<lparr>timer_loop := Waiting 3, quit := True\<rparr>)) = Exited"
  using stop_is_final [of "(NewTimer (MutableScheduled 5 True) ())\<lparr>timer_loop := Waiting 3\<rparr>" 3
      "(NewTimer (MutableScheduled 5 True) ())\<lparr>timer_loop := Waiting 3, quit := True\<rparr>" toy_lib 1
      "on_quit toy_lib 1 ((NewTimer (MutableScheduled 5 True) ())
         \<lparr>timer_loop := Waiting 3, quit := True\<rparr>)"]
  by (simp add: StopTimer_def NewTimer_def)

text \<open>The test of \<open>isRunning\<close> does not keep two runs of a callback apart: it and the update
  are separate critical sections, and from a waiting timer with a pending \<open>SkipWaiting\<close> there
  is a schedule of the goroutines that has two of them inside the callback at once.\<close>

theorem runTimer_can_overlap:
  "\<exists>t. timer_steps lib ((NewTimer (MutableScheduled 1 True) c)
            \<lparr>timer_loop := Waiting 0, skipWait := True\<rparr>) t
     \<and> runners t = [Calling, Calling]"
proof -
  define t0 where "t0 = (NewTimer (MutableScheduled 1 True) c :: ('a, 'b, 'c) timer)
    \<lparr>timer_loop := Waiting 0, skipWait := True\<rparr>"
  define t1 where "t1 = on_skip lib 0 t0"
  define t2 where "t2 = on_expiry lib 1 t1"
  define t3 where "t3 = runner_step 0 t2"
  define t4 where "t4 = runner_step 1 t3"
  define t5 where "t5 = runner_step 0 t4"
  define t6 where "t6 = runner_step 1 t5"
  note defs = t0_def NewTimer_def on_skip_def on_expiry_def spawn_runner_def next_cycle_def Let_def
  have s1: "timer_step lib t0 t1"
    unfolding t1_def by (rule timer_step.skip) (simp_all add: defs)
  have l1: "timer_loop t1 = Waiting 1" by (simp add: t1_def defs)
  have s2: "timer_step lib t1 t2"
    unfolding t2_def by (rule timer_step.expiry [OF l1]) simp
  have l2: "runners t2 = [Checking, Checking]" "\<not> isRunning t2"
    by (simp_all add: t2_def t1_def defs)
  have l3: "runners t3 = [Entering, Checking]" "\<not> isRunning t3" using l2 by (simp_all add: t3_def runner_step_def)
  have l4: "runners t4 = [Entering, Entering]" using l3 by (simp add: t4_def runner_step_def)
  have l5: "runners t5 = [Calling, Entering]" using l4 by (simp add: t5_def runner_step_def)
  have l6: "runners t6 = [Calling, Calling]" using l5 by (simp add: t6_def runner_step_def)
  have "timer_step lib t2 t3" unfolding t3_def by (rule timer_step.runner) (simp add: l2)
  moreover have "timer_step lib t3 t4" unfolding t4_def by (rule timer_step.runner) (simp add: l3)
  moreover have "timer_step lib t4 t5" unfolding t5_def by (rule timer_step.runner) (simp add: l4)
  moreover have "timer_step lib t5 t6" unfolding t6_def by (rule timer_step.runner) (simp add: l5)
  ultimately have "timer_steps lib t2 t6" by (meson r_into_rtranclp rtranclp_trans)
  with s1 s2 have "timer_steps lib t0 t6" by (meson r_into_rtranclp rtranclp_trans)
  then show ?thesis using l6 unfolding t0_def by blast
qed

section \<open>The timer manager\<close>

text \<open>
  The manager keeps a set of timer pointers; the timers themselves live in a heap, so that a
  schedule object and the manager see the same timer.
\<close>

record ('e, 'l, 'c) timer_manager =
  tm_heap :: "nat \<Rightarrow> ('e, 'l, 'c) timer option"
  tm_fresh :: nat
  tm_timers :: "nat list"

definition register_timer :: "('e, 'l) schedule \<Rightarrow> 'c \<Rightarrow> ('e, 'l, 'c) timer_manager \<Rightarrow>
  nat \<times> ('e, 'l, 'c) timer_manager" where
  "register_timer s c m =
     (let a = tm_fresh m in
      (a, m\<lparr>tm_heap := (tm_heap m)(a \<mapsto> NewTimer s c), tm_fresh := Suc a,
            tm_timers := a # tm_timers m\<rparr>))"

definition CreateCronTimer :: "('e, 'l) cron_lib \<Rightarrow> instant \<Rightarrow> 'c \<Rightarrow> string \<Rightarrow>
  ('e, 'l, 'c) timer_manager \<Rightarrow> (go_error + nat) \<times> ('e, 'l, 'c) timer_manager" where
  "CreateCronTimer lib now c cronat m =
     (case NewCronScheduled lib now cronat of Inl err \<Rightarrow> (Inl err, m)
      | Inr s \<Rightarrow> (let (a, m') = register_timer s c m in (Inr a, m')))"

definition CreateRateTimer :: "'c \<Rightarrow> string \<Rightarrow> instant \<Rightarrow>
  ('e, 'l, 'c) timer_manager \<Rightarrow> (go_error + nat) \<times> ('e, 'l, 'c) timer_manager" where
  "CreateRateTimer c cronat creationTime m =
     (case NewRateScheduled cronat creationTime of Inl err \<Rightarrow> (Inl err, m)
      | Inr s \<Rightarrow> (let (a, m') = register_timer s c m in (Inr a, m')))"

definition CreateAtTimer :: "('e, 'l) cron_lib \<Rightarrow> 'c \<Rightarrow> string \<Rightarrow>
  ('e, 'l, 'c) timer_manager \<Rightarrow> (go_error + nat) \<times> ('e, 'l, 'c) timer_manager" where
  "CreateAtTimer lib c cronat m =
     (case NewAtScheduled lib cronat of Inl err \<Rightarrow> (Inl err, m)
      | Inr s \<Rightarrow> (let (a, m') = register_timer s c m in (Inr a, m')))"

definition CreateTimerInNanoseconds :: "'c \<Rightarrow> duration \<Rightarrow>
  ('e, 'l, 'c) timer_manager \<Rightarrow> nat \<times> ('e, 'l, 'c) timer_manager" where
  "CreateTimerInNanoseconds c interval m = register_timer (NewMutableScheduled interval) c m"

definition CreateTimerInSeconds :: "'c \<Rightarrow> int \<Rightarrow>
  ('e, 'l, 'c) timer_manager \<Rightarrow> nat \<times> ('e, 'l, 'c) timer_manager" where
  "CreateTimerInSeconds c seconds m = CreateTimerInNanoseconds c (wrap64 (seconds * second)) m"

text \<open>A request to stop through the pointer; \<open>None\<close> when the send would block.\<close>

definition stop_at :: "nat \<Rightarrow> ('e, 'l, 'c) timer_manager \<Rightarrow> ('e, 'l, 'c) timer_manager option" where
  "stop_at a m = (case tm_heap m a of None \<Rightarrow> None
     | Some t \<Rightarrow> map_option (\<lambda>t'. m\<lparr>tm_heap := (tm_heap m)(a \<mapsto> t')\<rparr>) (StopTimer t))"

definition DeleteTimer :: "nat \<Rightarrow> ('e, 'l, 'c) timer_manager \<Rightarrow> ('e, 'l, 'c) timer_manager option" where
  "DeleteTimer a m = map_option (\<lambda>m'. m'\<lparr>tm_timers := removeAll a (tm_timers m')\<rparr>) (stop_at a m)"

fun stop_all :: "nat list \<Rightarrow> ('e, 'l, 'c) timer_manager \<Rightarrow> ('e, 'l, 'c) timer_manager option" where
  "stop_all [] m = Some m"
| "stop_all (a # as) m = Option.bind (stop_at a m) (stop_all as)"

definition StopManager :: "('e, 'l, 'c) timer_manager \<Rightarrow> ('e, 'l, 'c) timer_manager option" where
  "StopManager m = map_option (\<lambda>m'. m'\<lparr>tm_timers := []\<rparr>) (stop_all (tm_timers m) m)"

definition InitTimerManager :: "('e, 'l, 'c) timer_manager option \<Rightarrow> ('e, 'l, 'c) timer_manager option" where
  "InitTimerManager m = (case m of None \<Rightarrow> Some \<lparr>tm_heap = (\<lambda>_. None), tm_fresh = 0, tm_timers = []\<rparr>
     | Some m' \<Rightarrow> Some m')"

text \<open>Well-formedness: registered pointers are distinct and point to timers, the next address is free.\<close>

definition tm_ok :: "('e, 'l, 'c) timer_manager \<Rightarrow> bool" where
  "tm_ok m \<longleftrightarrow> distinct (tm_timers m) \<and> set (tm_timers m) \<subseteq> dom (tm_heap m)
     \<and> dom (tm_heap m) \<subseteq> {..<tm_fresh m}"

lemma tm_ok_register:
  assumes "tm_ok m" "register_timer s c m = (a, m')"
  shows "tm_ok m'" "a \<notin> dom (tm_heap m)" "tm_timers m' = a # tm_timers m"
    "tm_heap m' a = Some (NewTimer s c)"
proof -
  have m': "a = tm_fresh m" "tm_timers m' = a # tm_timers m" "tm_fresh m' = Suc a"
    "tm_heap m' = (tm_heap m)(a \<mapsto> NewTimer s c)"
    using assms(2) by (auto simp: register_timer_def Let_def)
  have a: "a \<notin> dom (tm_heap m)" "dom (tm_heap m) \<subseteq> {..<Suc a}"
    using assms(1) m'(1) unfolding tm_ok_def by (blast, fastforce)
  then have "a \<notin> set (tm_timers m)" using assms(1) unfolding tm_ok_def by blast
  then show "tm_ok m'" using assms(1) a m' unfolding tm_ok_def by auto
  show "a \<notin> dom (tm_heap m)" by (rule a)
  show "tm_timers m' = a # tm_timers m" by (rule m')
  show "tm_heap m' a = Some (NewTimer s c)" by (simp add: m')
qed

lemma stop_at_shape:
  "stop_at a m = Some m' \<Longrightarrow> tm_timers m' = tm_timers m \<and> tm_fresh m' = tm_fresh m
     \<and> dom (tm_heap m') = dom (tm_heap m) \<and> (\<forall>b. b \<noteq> a \<longrightarrow> tm_heap m' b = tm_heap m b)
     \<and> (\<exists>t'. tm_heap m' a = Some t' \<and> quit t')"
  by (auto simp: stop_at_def StopTimer_def split: option.splits if_splits)

lemma DeleteTimer_ok:
  assumes "tm_ok m" "DeleteTimer a m = Some m'"
  shows "tm_ok m'" "set (tm_timers m') = set (tm_timers m) - {a}"
    "\<exists>t'. tm_heap m' a = Some t' \<and> quit t'"
proof -
  obtain m1 where m1: "stop_at a m = Some m1" "m' = m1\<lparr>tm_timers := removeAll a (tm_timers m1)\<rparr>"
    using assms(2) by (auto simp: DeleteTimer_def)
  note sh = stop_at_shape [OF m1(1)]
  show "tm_ok m'"
    using assms(1) sh by (auto simp: tm_ok_def m1(2) distinct_removeAll)
  show "set (tm_timers m') = set (tm_timers m) - {a}" "\<exists>t'. tm_heap m' a = Some t' \<and> quit t'"
    using sh by (simp_all add: m1(2))
qed

lemma stop_all_quit:
  "stop_all as m = Some m' \<Longrightarrow> (\<forall>a \<in> set as. \<exists>t. tm_heap m' a = Some t \<and> quit t)
     \<and> (\<forall>a t. tm_heap m a = Some t \<longrightarrow> quit t \<longrightarrow> (\<exists>t'. tm_heap m' a = Some t' \<and> quit t'))"
proof (induction as arbitrary: m)
  case (Cons b as)
  then obtain m1 where m1: "stop_at b m = Some m1" "stop_all as m1 = Some m'"
    by (auto simp: bind_eq_Some_conv)
  note IH = Cons.IH [OF m1(2)] and sh = stop_at_shape [OF m1(1)]
  have "\<exists>t'. tm_heap m1 a = Some t' \<and> quit t'" if "tm_heap m a = Some t" "quit t" for a t
    using sh that by (cases "a = b") auto
  then show ?case using IH sh by fastforce
qed simp

text \<open>Creating and deleting timers keeps the manager consistent: a creation either fails and
  changes nothing or registers one new timer under a fresh pointer, and a deletion removes
  exactly that pointer and leaves the stop request in its timer.\<close>

theorem timer_manager_consistent:
  assumes "tm_ok m"
  shows "(case CreateCronTimer lib now c cronat m of
            (Inl err, m') \<Rightarrow> m' = m
          | (Inr a, m') \<Rightarrow> tm_ok m' \<and> a \<notin> dom (tm_heap m) \<and> tm_timers m' = a # tm_timers m
              \<and> (\<exists>s. tm_heap m' a = Some (NewTimer s c)))
    \<and> (case DeleteTimer b m of None \<Rightarrow> True
       | Some m' \<Rightarrow> tm_ok m' \<and> set (tm_timers m') = set (tm_timers m) - {b}
           \<and> (\<exists>t'. tm_heap m' b = Some t' \<and> quit t'))"
proof (intro conjI)
  show "case CreateCronTimer lib now c cronat m of
            (Inl err, m') \<Rightarrow> m' = m
          | (Inr a, m') \<Rightarrow> tm_ok m' \<and> a \<notin> dom (tm_heap m) \<and> tm_timers m' = a # tm_timers m
              \<and> (\<exists>s. tm_heap m' a = Some (NewTimer s c))"
  proof (cases "NewCronScheduled lib now cronat")
    case (Inl err)
    then show ?thesis by (simp add: CreateCronTimer_def)
  next
    case (Inr s)
    obtain a m' where r: "register_timer s c m = (a, m')" by fastforce
    note ok = tm_ok_register [OF assms r]
    from Inr r have "CreateCronTimer lib now c cronat m = (Inr a, m')"
      by (simp add: CreateCronTimer_def)
    with ok show ?thesis by auto
  qed
  show "case DeleteTimer b m of None \<Rightarrow> True
       | Some m' \<Rightarrow> tm_ok m' \<and> set (tm_timers m') = set (tm_timers m) - {b}
           \<and> (\<exists>t'. tm_heap m' b = Some t' \<and> quit t')"
    using DeleteTimer_ok [OF assms] by (cases "DeleteTimer b m") simp_all
qed

theorem timer_manager_consistent_witness:
  "set (tm_timers \<lparr>tm_heap = [0 \<mapsto> NewTimer (AtScheduled 5 :: (int, unit) schedule) ()],
        tm_fresh = 1, tm_timers = [0]\<rparr>) = {0}
   \<and> (case DeleteTimer 0 \<lparr>tm_heap = [0 \<mapsto> NewTimer (AtScheduled 5 :: (int, unit) schedule) ()],
        tm_fresh = 1, tm_timers = [0]\<rparr> of None \<Rightarrow> True | Some m' \<Rightarrow> set (tm_timers m') = {})"
proof -
  let ?m = "\<lparr>tm_heap = [0 \<mapsto> NewTimer (AtScheduled 5 :: (int, unit) schedule) ()],
        tm_fresh = 1, tm_timers = [0]\<rparr>"
  have "tm_ok ?m" by (simp add: tm_ok_def)
  from timer_manager_consistent [OF this, where lib = toy_lib and now = 0 and c = "()" and cronat = "[]" and b = 0] show ?thesis
    by (auto split: option.splits)
qed

end
