(* ===== verification/Heartbeat.thy ===== *)
theory Heartbeat
  imports Run_Monad Machine Timers "HOL-Library.Word"
begin

text \<open>
  The heartbeat of \<open>agent/heartbeat/heartbeat.go\<close> with the cold-start flag of
  \<open>agent/flagging/coldstart.go\<close>: the two forms of the parameters, the choice of the scheme, the
  limited retries, and the interval the server asks for. The counters have the width of the
  code's. Programs are those of \<open>Run_Monad\<close>: a panic ends one, and a send on a full channel blocks.
\<close>

section \<open>State\<close>

record ('e, 'l) heartbeat =
  hb_world :: world
  hb_coldstarted :: "bool option"
  hb_tm :: "('e, 'l, unit) timer_manager"
  heartbeatTimer :: "nat option"
  hb_startTime :: instant
  retryCounter :: "16 word"
  acknowledgeCounter :: "64 word"
  sendCounter :: "64 word"
  lastHttpFailedSendCounter :: "64 word"
  tryHttp :: bool
  useFullFields :: bool

text \<open>
  The outside: the machine by the number of the interaction, the random numbers below 10001, the
  library of JSON (whether a text is valid, the number \<open>nextInterval\<close> cut to an integer and the text
  \<open>errMsg\<close> of a valid one, if it has them), the flags in memory and what does not change during a run.
\<close>

record ('e, 'l) heartbeat_env =
  he_env :: env
  he_cron :: "('e, 'l) cron_lib"
  he_hybrid :: bool
  he_uptime :: "nat \<Rightarrow> nat"
  he_pid :: nat
  he_processStartTime :: int
  he_os_version :: string
  he_azone :: string
  he_machineId :: string
  he_app_version :: string
  he_random :: "nat \<Rightarrow> nat"
  he_valid :: "string \<Rightarrow> bool"
  he_nextInterval :: "string \<Rightarrow> int option"
  he_errMsg :: "string \<Rightarrow> string option"
  he_flag_exists :: "nat \<Rightarrow> go_error + bool"
  he_flag_create :: "nat \<Rightarrow> go_error option"

type_synonym ('e, 'l, 'a) hb = "(('e, 'l) heartbeat, 'a) prog"

definition hb_on :: "(world \<Rightarrow> 'a \<times> world) \<Rightarrow> ('e, 'l, 'a) hb" where
  "hb_on f = effect_of (\<lambda>s. let (x, w) = f (hb_world s) in (x, s\<lparr>hb_world := w\<rparr>))"

definition hb_accurate :: "('e, 'l) heartbeat_env \<Rightarrow> ('e, 'l, int) hb" where
  "hb_accurate he = hb_on (\<lambda>w. let (t, w1) = read_clock (he_env he) w in (t div 1000000, w1))"

definition DefaultPingIntervalSeconds :: int where "DefaultPingIntervalSeconds = 60"
definition leastIntervalInMilliseconds :: int where "leastIntervalInMilliseconds = 55000"
definition mostIntervalInMilliseconds :: int where "mostIntervalInMilliseconds = 65000"

section \<open>The cold start\<close>

text \<open>The flag is looked for once; a flag that cannot be made counts as a warm start.\<close>

definition IsColdstart :: "('e, 'l) heartbeat_env \<Rightarrow> ('e, 'l, bool \<times> go_error option) hb" where
  "IsColdstart he =
     seq (look hb_coldstarted) (\<lambda>flagged.
     case flagged of
       Some f \<Rightarrow> ret (\<not> f, None)
     | None \<Rightarrow>
         seq (hb_on (ask (he_flag_exists he))) (\<lambda>r.
         case r of
           Inl e \<Rightarrow> ret (False, Some e)
         | Inr f \<Rightarrow>
             seq (modify (\<lambda>s. s\<lparr>hb_coldstarted := Some f\<rparr>)) (\<lambda>_.
             if f then ret (False, None)
             else seq (hb_on (ask (he_flag_create he))) (\<lambda>e.
               ret (case e of Some x \<Rightarrow> (False, Some x) | None \<Rightarrow> (True, None))))))"

section \<open>Parameters\<close>

definition show_bool :: "bool \<Rightarrow> string" where
  "show_bool b = (if b then ''true'' else ''false'')"

definition show_u64 :: "64 word \<Rightarrow> string" where
  "show_u64 n = nat_digits (unat n)"

text \<open>The parameters both forms start with, and the flag, which only the first heartbeats carry.\<close>

definition common_params :: "('e, 'l) heartbeat_env \<Rightarrow> 64 word \<Rightarrow> ('e, 'l, string) hb" where
  "common_params he n =
     seq (hb_on (ask (he_uptime he))) (\<lambda>uptime.
     seq (hb_accurate he) (\<lambda>timestamp.
     seq (hb_accurate he) (\<lambda>now.
     seq (look acknowledgeCounter) (\<lambda>acks.
     ret (''?uptime='' @ nat_digits uptime @ ''&timestamp='' @ itoa timestamp @ ''&pid='' @ nat_digits (he_pid he)
       @ ''&process_uptime='' @ itoa (now - he_processStartTime he) @ ''&index='' @ show_u64 acks @ ''&seq_no='' @ show_u64 n)))))"

definition coldstart_param :: "('e, 'l) heartbeat_env \<Rightarrow> ('e, 'l, string) hb" where
  "coldstart_param he =
     seq (IsColdstart he) (\<lambda>(cold, e). ret (''&cold_start='' @ show_bool (if e = None then cold else False)))"

definition buildPingParams :: "('e, 'l) heartbeat_env \<Rightarrow> 64 word \<Rightarrow> ('e, 'l, string) hb" where
  "buildPingParams he n =
     seq (common_params he n) (\<lambda>query.
     seq (look acknowledgeCounter) (\<lambda>acks.
     if acks \<noteq> 0 then ret query
     else
       seq (coldstart_param he) (\<lambda>cold.
       ret (query @ ''&virt_type=kvm&os_version='' @ query_escape (he_os_version he) @ ''&az='' @ he_azone he
         @ ''&machineid='' @ he_machineId he @ cold))))"

definition buildFullFieldsPingParams :: "('e, 'l) heartbeat_env \<Rightarrow> 64 word \<Rightarrow> ('e, 'l, string) hb" where
  "buildFullFieldsPingParams he n =
     seq (common_params he n) (\<lambda>query0.
     seq (look acknowledgeCounter) (\<lambda>acks.
     let query = query0 @ ''&virt_type=kvm&lang=golang&os_type=linux&os_version='' @ query_escape (he_os_version he)
       @ ''&app_version='' @ he_app_version he @ ''&az='' @ he_azone he in
     if acks \<noteq> 0 then ret query
     else seq (coldstart_param he) (\<lambda>cold. ret (query @ cold))))"

section \<open>The answer\<close>

definition randomNextInterval :: "('e, 'l) heartbeat_env \<Rightarrow> ('e, 'l, duration) hb" where
  "randomNextInterval he =
     seq (hb_on (ask (\<lambda>n. he_random he n mod nat (mostIntervalInMilliseconds - leastIntervalInMilliseconds + 1)))) (\<lambda>r.
     ret ((int r + leastIntervalInMilliseconds) * 1000000))"

definition extractNextInterval :: "('e, 'l) heartbeat_env \<Rightarrow> string \<Rightarrow> ('e, 'l, duration) hb" where
  "extractNextInterval he content =
     (if \<not> he_valid he content then randomNextInterval he
      else case he_nextInterval he content of
          None \<Rightarrow> randomNextInterval he
        | Some n \<Rightarrow>
            if n < leastIntervalInMilliseconds \<or> mostIntervalInMilliseconds < n then randomNextInterval he
            else ret (n * 1000000))"

definition extractErrMsg :: "('e, 'l) heartbeat_env \<Rightarrow> string \<Rightarrow> string" where
  "extractErrMsg he content =
     (if \<not> he_valid he content then [] else case he_errMsg he content of None \<Rightarrow> [] | Some m \<Rightarrow> m)"

text \<open>
  The regular expression of a missing field. The two words end where the next character is no
  letter of a word, so there is one way to match from a position, and the first position counts.
\<close>

definition is_word_char :: "char \<Rightarrow> bool" where
  "is_word_char c \<longleftrightarrow> is_digit c \<or> c = CHR ''_'' \<or> ((97 :: nat) \<le> of_char c \<and> of_char c \<le> (122 :: nat)) \<or> ((65 :: nat) \<le> of_char c \<and> of_char c \<le> (90 :: nat))"

definition single_quote :: char where "single_quote = CHR 0x27"

definition field_miss_at :: "string \<Rightarrow> (string \<times> string) option" where
  "field_miss_at s =
     Option.bind (strip_prefix (''Required request parameter '' @ [single_quote]) s) (\<lambda>s1.
     let field = takeWhile is_word_char s1 in
     if field = [] then None
     else Option.bind (strip_prefix (single_quote # '' for method parameter type '') (drop (length field) s1)) (\<lambda>s2.
       let ty = takeWhile is_word_char s2 in
       if ty = [] then None
       else map_option (\<lambda>_. (field, ty)) (strip_prefix '' is not present'' (drop (length ty) s2))))"

fun checkFieldsdMissErr :: "string \<Rightarrow> (string \<times> string) option" where
  "checkFieldsdMissErr [] = None"
| "checkFieldsdMissErr (c # s) = (case field_miss_at (c # s) of Some r \<Rightarrow> Some r | None \<Rightarrow> checkFieldsdMissErr s)"

section \<open>The request\<close>

text \<open>
  The code of an \<open>HttpErrorCode\<close>, by its text; the errors of the transport have other texts.
\<close>

definition HttpErrorCode_of :: "go_error \<Rightarrow> int option" where
  "HttpErrorCode_of e =
     (case e of
        PlainError m \<Rightarrow>
          (case strip_prefix ''The error code is '' m of
             None \<Rightarrow> None
           | Some ds \<Rightarrow> (case atoi ds of (n, None) \<Rightarrow> Some n | (n, Some x) \<Rightarrow> None))
      | _ \<Rightarrow> None)"

definition client_error :: "go_error \<Rightarrow> bool" where
  "client_error e \<longleftrightarrow> (case HttpErrorCode_of e of Some n \<Rightarrow> n < 500 | None \<Rightarrow> False)"

text \<open>The scheme of the next heartbeat.\<close>

definition use_http_next :: "('e, 'l, unit) hb" where
  "use_http_next = modify (\<lambda>s. s\<lparr>tryHttp := True\<rparr>)"

definition use_https_next :: "('e, 'l, unit) hb" where
  "use_https_next = modify (\<lambda>s. s\<lparr>tryHttp := False, lastHttpFailedSendCounter := sendCounter s\<rparr>)"

definition use_scheme_next :: "bool \<Rightarrow> ('e, 'l, unit) hb" where
  "use_scheme_next http = (if http then use_http_next else use_https_next)"

definition hb_get :: "('e, 'l) heartbeat_env \<Rightarrow> bool \<Rightarrow> string \<Rightarrow> ('e, 'l, string \<times> go_error option) hb" where
  "hb_get he http url = hb_on (HttpGet (he_env he) ((if http then ''http://'' else ''https://'') @ url))"

text \<open>A new hour starts with a counter of zero.\<close>

definition new_hour :: "('e, 'l) heartbeat_env \<Rightarrow> ('e, 'l, unit) hb" where
  "new_hour he =
     seq (hb_on (read_clock (he_env he))) (\<lambda>t.
     seq (look hb_startTime) (\<lambda>start.
     if 60 * 60 * second \<le> time_sub t start then
       seq (hb_on (read_clock (he_env he))) (\<lambda>t'. modify (\<lambda>s. s\<lparr>retryCounter := 0, hb_startTime := t'\<rparr>))
     else ret ()))"

definition retry_ping :: "('e, 'l) heartbeat_env \<Rightarrow> bool \<Rightarrow> string \<Rightarrow> bool \<Rightarrow> ('e, 'l, string \<times> go_error option) hb" where
  "retry_ping he http url willSwitchScheme =
     seq (hb_on (\<lambda>w. ((), go_sleep 3 w))) (\<lambda>_.
     seq (modify (\<lambda>s. s\<lparr>retryCounter := retryCounter s + 1\<rparr>)) (\<lambda>_.
     seq (hb_get he http url) (\<lambda>(response, err).
     if err = None then seq (use_scheme_next http) (\<lambda>_. ret (response, None))
     else if \<not> willSwitchScheme then ret (response, err)
     else
       seq (hb_get he (\<not> http) url) (\<lambda>(response2, err2).
       if err2 = None then seq (use_scheme_next (\<not> http)) (\<lambda>_. ret (response2, None))
       else ret (response2, err2)))))"

text \<open>The body of \<open>invokePingRequest\<close>; an error of the server is tried again, unless three tries of this hour are used up.\<close>

definition ping_request :: "('e, 'l) heartbeat_env \<Rightarrow> bool \<Rightarrow> string \<Rightarrow> bool \<Rightarrow> ('e, 'l, string \<times> go_error option) hb" where
  "ping_request he http url willSwitchScheme =
     seq (hb_get he http url) (\<lambda>(response, err).
     case err of
       None \<Rightarrow> ret (response, None)
     | Some e \<Rightarrow>
         seq (if client_error e then ret (response, Some e)
              else seq (new_hour he) (\<lambda>_.
                seq (look retryCounter) (\<lambda>n.
                if 3 \<le> n then ret (response, Some e) else retry_ping he http url willSwitchScheme))) (\<lambda>(response1, err1).
         case err1 of
           None \<Rightarrow> ret (response1, None)
         | Some e1 \<Rightarrow> seq (use_scheme_next (\<not> http)) (\<lambda>_. ret ([], Some e1))))"

text \<open>The deferred look at the answer.\<close>

definition field_missing :: go_error where
  "field_missing = PlainError ''request field missing''"

definition invokePingRequest :: "('e, 'l) heartbeat_env \<Rightarrow> bool \<Rightarrow> string \<Rightarrow> bool \<Rightarrow> ('e, 'l, string \<times> go_error option) hb" where
  "invokePingRequest he http url willSwitchScheme =
     seq (ping_request he http url willSwitchScheme) (\<lambda>(response, err).
     case checkFieldsdMissErr (extractErrMsg he response) of
       None \<Rightarrow> ret (response, err)
     | Some m \<Rightarrow> seq (modify (\<lambda>s. s\<lparr>useFullFields := True\<rparr>)) (\<lambda>_. ret (response, Some field_missing)))"

text \<open>The scheme: plain, unless it failed lately; a hybrid agent always uses the secure one.\<close>

definition choose_scheme :: "('e, 'l) heartbeat_env \<Rightarrow> 64 word \<Rightarrow> ('e, 'l, bool) hb" where
  "choose_scheme he n =
     seq (look (\<lambda>s. (tryHttp s, lastHttpFailedSendCounter s))) (\<lambda>(try, failed).
     seq (if try then ret True
          else if 24 * 60 < n - failed then seq use_http_next (\<lambda>_. ret True)
          else ret False) (\<lambda>http. ret (if he_hybrid he then False else http)))"

text \<open>The timer behind the pointer; a schedule of another type is left alone.\<close>

definition set_interval :: "duration \<Rightarrow> ('e, 'l, unit) hb" where
  "set_interval d =
     seq (look (\<lambda>s. Option.bind (heartbeatTimer s) (tm_heap (hb_tm s)))) (\<lambda>t.
     case t of
       None \<Rightarrow> panic NilDereference
     | Some timer \<Rightarrow>
         blocking (\<lambda>s. map_option (\<lambda>t1. s\<lparr>hb_tm := (hb_tm s)\<lparr>tm_heap := (tm_heap (hb_tm s))(the (heartbeatTimer s) \<mapsto> t1)\<rparr>\<rparr>)
           (RefreshTimer (timer\<lparr>Schedule := SetInterval d (Schedule timer)\<rparr>))))"

definition is_mutable :: "('e, 'l) schedule \<Rightarrow> bool" where
  "is_mutable s \<longleftrightarrow> (case s of MutableScheduled i d \<Rightarrow> True | _ \<Rightarrow> False)"

definition doPing :: "('e, 'l) heartbeat_env \<Rightarrow> ('e, 'l, go_error option) hb" where
  "doPing he =
     seq (look (\<lambda>s. (sendCounter s, useFullFields s))) (\<lambda>(n, full).
     seq (if full then buildFullFieldsPingParams he n else buildPingParams he n) (\<lambda>querystring.
     seq (choose_scheme he n) (\<lambda>isHttpScheme.
     seq (invokePingRequest he isHttpScheme (GetPingService (he_env he) @ querystring) (\<not> he_hybrid he)) (\<lambda>(responseContent, err).
     case err of
       Some e \<Rightarrow> ret (Some e)
     | None \<Rightarrow>
         seq (look (\<lambda>s. Option.bind (heartbeatTimer s) (tm_heap (hb_tm s)))) (\<lambda>t.
         case t of
           None \<Rightarrow> panic NilDereference
         | Some timer \<Rightarrow>
             if \<not> is_mutable (Schedule timer) then ret None
             else seq (extractNextInterval he responseContent) (\<lambda>d. seq (set_interval d) (\<lambda>_. ret None)))))))"

section \<open>Heartbeats\<close>

definition count_ack :: "('e, 'l, unit) hb" where
  "count_ack = modify (\<lambda>s. s\<lparr>acknowledgeCounter := acknowledgeCounter s + 1\<rparr>)"

definition count_send :: "('e, 'l, unit) hb" where
  "count_send = modify (\<lambda>s. s\<lparr>sendCounter := sendCounter s + 1\<rparr>)"

fun ping_tries :: "('e, 'l) heartbeat_env \<Rightarrow> nat \<Rightarrow> ('e, 'l, unit) hb" where
  "ping_tries he 0 = ret ()"
| "ping_tries he (Suc k) = seq (doPing he) (\<lambda>err. if err = None then count_ack else ping_tries he k)"

definition PingwithRetries :: "('e, 'l) heartbeat_env \<Rightarrow> nat \<Rightarrow> ('e, 'l, unit) hb" where
  "PingwithRetries he retryCount = seq (ping_tries he retryCount) (\<lambda>_. count_send)"

definition pingWithoutRetry :: "('e, 'l) heartbeat_env \<Rightarrow> ('e, 'l, unit) hb" where
  "pingWithoutRetry he = seq (doPing he) (\<lambda>err. seq (if err = None then count_ack else ret ()) (\<lambda>_. count_send))"

definition heartbeat_initialized :: go_error where
  "heartbeat_initialized = PlainError ''Heartbeat timer has been initialized''"

definition InitHeartbeatTimer :: "('e, 'l) heartbeat_env \<Rightarrow> ('e, 'l, go_error option) hb" where
  "InitHeartbeatTimer he =
     seq (look heartbeatTimer) (\<lambda>p.
     if p \<noteq> None then ret (Some heartbeat_initialized)
     else
       seq (effect_of (\<lambda>s. let (a, m) = CreateTimerInSeconds () DefaultPingIntervalSeconds (hb_tm s);
              m1 = m\<lparr>tm_heap := (tm_heap m)(a := map_option (\<lambda>t. t\<lparr>Schedule := NotImmediately (Schedule t)\<rparr>) (tm_heap m a))\<rparr>
            in (a, s\<lparr>hb_tm := m1, heartbeatTimer := Some a\<rparr>))) (\<lambda>a.
       seq (hb_on (read_clock (he_env he))) (\<lambda>t.
       outcome_of (\<lambda>s. case tm_heap (hb_tm s) a of
           None \<Rightarrow> (Panics NilDereference, s)
         | Some timer \<Rightarrow>
             (let (r, timer1) = TimerRun (he_cron he) t timer in
              (r, s\<lparr>hb_tm := (hb_tm s)\<lparr>tm_heap := (tm_heap (hb_tm s))(a \<mapsto> timer1)\<rparr>\<rparr>))))))"

end
