(* ===== verification/Heartbeat_Properties.thy ===== *)
theory Heartbeat_Properties
  imports Heartbeat
begin

text \<open>
  What holds of the heartbeat: the requests of one ping and their scheme, the limit of retries, the
  interval of the timer, and the counters.
\<close>

section \<open>What a ping may send\<close>

definition requests :: "effect list \<Rightarrow> effect list" where
  "requests es = filter (\<lambda>e. case e of HttpSent m u b \<Rightarrow> True | _ \<Rightarrow> False) es"

lemma requests_simps [simp]:
  "requests [] = []" "requests (xs @ ys) = requests xs @ requests ys" "requests (Slept n # es) = requests es"
  "requests (HttpSent m u b # es) = HttpSent m u b # requests es"
  by (simp_all add: requests_def)

definition scheme :: "bool \<Rightarrow> string" where
  "scheme http = (if http then ''http://'' else ''https://'')"

definition ping_urls :: "bool \<Rightarrow> string \<Rightarrow> effect set" where
  "ping_urls only_https url = {HttpSent ''GET'' (scheme http @ url) [] | http. \<not> (only_https \<and> http)}"

text \<open>A step that sends at most \<open>k\<close> requests and leaves the timer and the two counters alone.\<close>

definition sends :: "nat \<Rightarrow> effect set \<Rightarrow> ('e, 'l) heartbeat \<Rightarrow> ('e, 'l) heartbeat \<Rightarrow> bool" where
  "sends k R s s1 \<longleftrightarrow>
     (\<exists>es. trace (hb_world s1) = trace (hb_world s) @ es \<and> length (requests es) \<le> k \<and> set (requests es) \<subseteq> R)
     \<and> hb_tm s1 = hb_tm s \<and> heartbeatTimer s1 = heartbeatTimer s \<and> sendCounter s1 = sendCounter s
     \<and> acknowledgeCounter s1 = acknowledgeCounter s"

lemma hb_sends_refl: "sends k R s s"
  by (auto simp: sends_def intro: exI [of _ "[]"])

lemma hb_sends_trans: "sends k R s s1 \<Longrightarrow> sends l R s1 s2 \<Longrightarrow> k + l \<le> n \<Longrightarrow> sends n R s s2"
  unfolding sends_def by (fastforce intro: exI [of _ "_ @ _"])

lemma sends_quiet:
  "trace (hb_world s1) = trace (hb_world s) @ es \<Longrightarrow> requests es = [] \<Longrightarrow> hb_tm s1 = hb_tm s \<Longrightarrow> heartbeatTimer s1 = heartbeatTimer s
     \<Longrightarrow> sendCounter s1 = sendCounter s \<Longrightarrow> acknowledgeCounter s1 = acknowledgeCounter s \<Longrightarrow> sends k R s s1"
  unfolding sends_def by (fastforce intro: exI [of _ es])

lemma wpr_hb_on [wpr_rules]: "wpr (hb_on f) Q P s = Q (fst (f (hb_world s))) (s\<lparr>hb_world := snd (f (hb_world s))\<rparr>)"
  by (simp add: hb_on_def wpr_effect_of split_beta Let_def)

lemma wpr_quiet_on:
  assumes "trace (snd (f (hb_world s))) = trace (hb_world s)"
  shows "wpr (hb_on f) (\<lambda>_ s1. sends 0 R s s1 \<and> retryCounter s1 = retryCounter s) (\<lambda>_ _. False) s"
  using assms by (auto simp: wpr_hb_on intro: sends_quiet [of _ _ "[]"])

declare trace_ask [simp]

lemma trace_clock [simp]: "trace (snd (read_clock env w)) = trace w"
  by (simp add: read_clock_def)

lemma HttpGet_sends:
  "\<exists>es. trace (snd (HttpGet env url w)) = trace w @ es \<and> length (requests es) \<le> 2 \<and> set (requests es) \<subseteq> {HttpSent ''GET'' url []}"
  by (simp add: HttpGet_def send_request_def split: transport_reply.splits prod.splits)

lemma hb_get_spec:
  assumes "\<not> (only \<and> http)"
  shows "wpr (hb_get he http url) (\<lambda>_ s1. sends 2 (ping_urls only url) s s1 \<and> retryCounter s1 = retryCounter s) (\<lambda>_ _. False) s"
proof -
  obtain es where es: "trace (snd (HttpGet (he_env he) (scheme http @ url) (hb_world s))) = trace (hb_world s) @ es"
      "length (requests es) \<le> 2" "set (requests es) \<subseteq> {HttpSent ''GET'' (scheme http @ url) []}"
    using HttpGet_sends by blast
  moreover have "{HttpSent ''GET'' (scheme http @ url) []} \<subseteq> ping_urls only url" using assms by (auto simp: ping_urls_def)
  ultimately show ?thesis
    by (auto simp: hb_get_def wpr_hb_on sends_def scheme_def [symmetric] intro!: exI [of _ es])
qed

lemma sends_flags [simp]:
  "sends k R s (s1\<lparr>tryHttp := b\<rparr>) = sends k R s s1" "sends k R s (s1\<lparr>useFullFields := b\<rparr>) = sends k R s s1"
  "sends k R s (s1\<lparr>lastHttpFailedSendCounter := n\<rparr>) = sends k R s s1" "sends k R s (s1\<lparr>retryCounter := m\<rparr>) = sends k R s s1"
  "sends k R s (s1\<lparr>hb_startTime := t\<rparr>) = sends k R s s1" "sends k R s (s1\<lparr>hb_coldstarted := c\<rparr>) = sends k R s s1"
  by (simp_all add: sends_def)

lemma wpr_use_scheme_next [wpr_rules]:
  "wpr (use_scheme_next http) Q P s =
     Q () (if http then s\<lparr>tryHttp := True\<rparr> else s\<lparr>tryHttp := False, lastHttpFailedSendCounter := sendCounter s\<rparr>)"
  by (simp add: use_scheme_next_def use_http_next_def use_https_next_def wpr_modify)

section \<open>One request\<close>

text \<open>A retry sends at most four requests more, and counts itself.\<close>

lemma retry_ping_spec:
  assumes "willSwitch = (\<not> only)" "\<not> (only \<and> http)"
  shows "wpr (retry_ping he http url willSwitch)
     (\<lambda>_ s1. sends 4 (ping_urls only url) s s1 \<and> retryCounter s1 = retryCounter s + 1) (\<lambda>_ _. False) s"
  unfolding retry_ping_def wpr_seq wpr_hb_on wpr_modify
proof (rule wpr_mono [OF hb_get_spec [OF assms(2)]], goal_cases)
  case (1 x s1)
  let ?s0 = "s\<lparr>hb_world := snd ((), go_sleep 3 (hb_world s)), retryCounter := retryCounter (s\<lparr>hb_world := snd ((), go_sleep 3 (hb_world s))\<rparr>) + 1\<rparr>"
  have "sends 0 (ping_urls only url) s ?s0" by (rule sends_quiet [of _ _ "[Slept 3]"]) simp_all
  with 1 have s1: "sends 2 (ping_urls only url) s s1" "retryCounter s1 = retryCounter s + 1"
    using hb_sends_trans [of 0 _ s ?s0 2 s1 2] by auto
  obtain response err where x: "x = (response, err)" by (cases x)
  have four: "sends 4 (ping_urls only url) s s1" using hb_sends_trans [OF s1(1) hb_sends_refl [of 2], of 4] by simp
  show ?case
  proof (cases "err = None \<or> \<not> willSwitch")
    case True
    then show ?thesis using four s1(2) by (auto simp: x wpr_rules)
  next
    case False
    with assms(1) have switch: "\<not> (only \<and> \<not> http)" "err \<noteq> None" "willSwitch" by auto
    have "wpr (hb_get he (\<not> http) url) (\<lambda>y. wpr (case y of (response2, err2) \<Rightarrow>
          if err2 = None then seq (use_scheme_next (\<not> http)) (\<lambda>_. ret (response2, None)) else ret (response2, err2))
        (\<lambda>_ s1. sends 4 (ping_urls only url) s s1 \<and> retryCounter s1 = retryCounter s + 1) (\<lambda>_ _. False)) (\<lambda>_ _. False) s1"
    proof (rule wpr_mono [OF hb_get_spec [OF switch(1)]], goal_cases)
      case (1 y s2)
      then have "sends 4 (ping_urls only url) s s2" "retryCounter s2 = retryCounter s + 1"
        using hb_sends_trans [OF s1(1), of 2 s2 4] s1(2) by auto
      then show ?case by (auto simp: wpr_rules split: prod.split)
    qed simp
    then show ?thesis using switch by (auto simp: x wpr_seq)
  qed
qed simp

lemma new_hour_spec:
  "wpr (new_hour he) (\<lambda>_ s1. sends 0 R s s1 \<and> (retryCounter s1 = retryCounter s \<or> retryCounter s1 = 0)) (\<lambda>_ _. False) s"
  by (auto simp: new_hour_def wpr_rules intro: sends_quiet [of _ _ "[]"])

lemma ping_request_spec:
  assumes "willSwitch = (\<not> only)" "\<not> (only \<and> http)"
  shows "wpr (ping_request he http url willSwitch)
     (\<lambda>_ s1. sends 6 (ping_urls only url) s s1 \<and> (retryCounter s \<le> 3 \<longrightarrow> retryCounter s1 \<le> 3)) (\<lambda>_ _. False) s"
  unfolding ping_request_def wpr_seq
proof (rule wpr_mono [OF hb_get_spec [OF assms(2)]], goal_cases)
  case (1 x s1)
  let ?R = "ping_urls only url"
  obtain response err where x: "x = (response, err)" by (cases x)
  have s1: "sends 6 ?R s s1" using hb_sends_trans [of 2 ?R s s1 4 s1 6] 1 hb_sends_refl by auto
  show ?case
  proof (cases err)
    case None
    with s1 1 show ?thesis by (simp add: x wpr_rules)
  next
    case (Some e)
    let ?Q = "\<lambda>(y :: string \<times> go_error option) s2. sends 6 ?R s s2 \<and> (retryCounter s \<le> 3 \<longrightarrow> retryCounter s2 \<le> 3)"
    have tries: "wpr (retry_ping he http url willSwitch) ?Q (\<lambda>_ _. False) s2"
      if "sends 2 ?R s s2" "\<not> 3 \<le> retryCounter s2" for s2
    proof (rule wpr_mono [OF retry_ping_spec [OF assms]], goal_cases)
      case (1 y s3)
      have "retryCounter s2 + 1 \<le> 3" using that(2) by (metis inc_le not_le)
      with 1 that(1) hb_sends_trans [of 2 ?R s s2 4 s3 6] show ?case by simp
    qed simp
    have "wpr (new_hour he) (\<lambda>_. wpr (seq (look retryCounter) (\<lambda>n. if 3 \<le> n then ret (response, Some e)
        else retry_ping he http url willSwitch)) ?Q (\<lambda>_ _. False)) (\<lambda>_ _. False) s1"
    proof (rule wpr_mono [OF new_hour_spec [where R = ?R]], goal_cases)
      case (1 u s2)
      have s2: "sends 2 ?R s s2" using hb_sends_trans [of 2 ?R s s1 0 s2 2] 1 \<open>sends 2 ?R s s1 \<and> _\<close> by auto
      moreover have "sends 6 ?R s s2" using hb_sends_trans [OF s2 hb_sends_refl [of 4], of 6] by simp
      ultimately show ?case
        using 1 \<open>sends 2 ?R s s1 \<and> _\<close> tries [OF s2] by (auto simp: wpr_rules)
    qed simp
    then have "wpr (if client_error e then ret (response, Some e)
              else seq (new_hour he) (\<lambda>_. seq (look retryCounter) (\<lambda>n.
                if 3 \<le> n then ret (response, Some e) else retry_ping he http url willSwitch))) ?Q (\<lambda>_ _. False) s1"
      using s1 1 unfolding wpr_if wpr_ret wpr_seq by simp
    then show ?thesis unfolding x Some prod.case option.case wpr_seq
      by (rule wpr_mono) (auto simp: wpr_rules split: prod.split option.split)
  qed
qed simp

lemma invokePingRequest_spec:
  assumes "willSwitch = (\<not> only)" "\<not> (only \<and> http)"
  shows "wpr (invokePingRequest he http url willSwitch)
     (\<lambda>_ s1. sends 6 (ping_urls only url) s s1 \<and> (retryCounter s \<le> 3 \<longrightarrow> retryCounter s1 \<le> 3)) (\<lambda>_ _. False) s"
  unfolding invokePingRequest_def wpr_seq
  by (rule wpr_mono [OF ping_request_spec [OF assms]]) (auto simp: wpr_rules split: prod.split option.split)

section \<open>A ping\<close>

lemma IsColdstart_spec:
  "wpr (IsColdstart he) (\<lambda>_ s1. sends 0 R s s1 \<and> retryCounter s1 = retryCounter s) (\<lambda>_ _. False) s"
  by (auto simp: IsColdstart_def wpr_rules hb_sends_refl split: option.split sum.split intro!: sends_quiet [of _ _ "[]"])

lemma common_params_spec:
  "wpr (common_params he n) (\<lambda>_ s1. sends 0 R s s1 \<and> retryCounter s1 = retryCounter s) (\<lambda>_ _. False) s"
  by (auto simp: common_params_def hb_accurate_def split_beta Let_def wpr_rules intro!: sends_quiet [of _ _ "[]"])

lemma params_spec:
  "wpr (if full then buildFullFieldsPingParams he n else buildPingParams he n)
     (\<lambda>_ s1. sends 0 R s s1 \<and> retryCounter s1 = retryCounter s) (\<lambda>_ _. False) s"
proof -
  let ?Q = "\<lambda>(_ :: string) s1. sends 0 R s s1 \<and> retryCounter s1 = retryCounter s"
  have cold: "wpr (coldstart_param he) (\<lambda>x. wpr (ret (g x)) ?Q (\<lambda>_ _. False)) (\<lambda>_ _. False) s1"
    if "sends 0 R s s1" "retryCounter s1 = retryCounter s" for s1 g
    unfolding coldstart_param_def wpr_seq
    by (rule wpr_mono [OF IsColdstart_spec [where R = R]]) (use that hb_sends_trans [OF that(1), of 0] in \<open>auto simp: wpr_rules\<close>)
  have "wpr (buildFullFieldsPingParams he n) ?Q (\<lambda>_ _. False) s"
    unfolding buildFullFieldsPingParams_def wpr_seq
    by (rule wpr_mono [OF common_params_spec [where R = R]]) (auto simp: wpr_seq wpr_look wpr_ret Let_def intro: cold)
  moreover have "wpr (buildPingParams he n) ?Q (\<lambda>_ _. False) s"
    unfolding buildPingParams_def wpr_seq
    by (rule wpr_mono [OF common_params_spec [where R = R]]) (auto simp: wpr_seq wpr_look wpr_ret Let_def intro: cold)
  ultimately show ?thesis by simp
qed

lemma choose_scheme_spec:
  "wpr (choose_scheme he n) (\<lambda>http s1. sends 0 R s s1 \<and> retryCounter s1 = retryCounter s \<and> \<not> (he_hybrid he \<and> http)) (\<lambda>_ _. False) s"
  by (auto simp: choose_scheme_def use_http_next_def wpr_rules hb_sends_refl)

text \<open>The interval of the timer, and the state in which a ping finds its timer.\<close>

definition interval_ok :: "('e, 'l) schedule \<Rightarrow> bool" where
  "interval_ok sch \<longleftrightarrow> (case sch of MutableScheduled d i \<Rightarrow> 55 * second \<le> d \<and> d \<le> 65 * second | _ \<Rightarrow> False)"

definition hb_ok :: "('e, 'l) heartbeat \<Rightarrow> bool" where
  "hb_ok s \<longleftrightarrow> retryCounter s \<le> 3 \<and>
     (\<exists>a t. heartbeatTimer s = Some a \<and> tm_heap (hb_tm s) a = Some t \<and> interval_ok (Schedule t))"

text \<open>The last request to the timer to wait anew has been taken.\<close>

definition refreshed :: "('e, 'l) heartbeat \<Rightarrow> bool" where
  "refreshed s \<longleftrightarrow> (\<exists>a t. heartbeatTimer s = Some a \<and> tm_heap (hb_tm s) a = Some t \<and> \<not> refreshTimer t)"

lemma extractNextInterval_spec:
  "wpr (extractNextInterval he c) (\<lambda>d s1. 55 * second \<le> d \<and> d \<le> 65 * second \<and> sends 0 R s s1 \<and> retryCounter s1 = retryCounter s) (\<lambda>_ _. False) s"
proof -
  have "int (r mod 10001) \<le> 10000" for r by (simp add: zmod_int)
  then have "55 * second \<le> (int (r mod 10001) + 55000) * 1000000" "(int (r mod 10001) + 55000) * 1000000 \<le> 65 * second" for r
    by (auto simp: second_def)
  then show ?thesis
    by (auto simp: extractNextInterval_def randomNextInterval_def wpr_rules leastIntervalInMilliseconds_def mostIntervalInMilliseconds_def
        second_def ask_def hb_sends_refl split: option.split intro!: sends_quiet [of _ _ "[]"])
qed

lemma set_interval_spec:
  assumes "55 * second \<le> d" "d \<le> 65 * second" "hb_ok s" "refreshed s"
  shows "wpr (set_interval d) (\<lambda>_ s1. hb_ok s1 \<and> sendCounter s1 = sendCounter s \<and> acknowledgeCounter s1 = acknowledgeCounter s
     \<and> hb_world s1 = hb_world s) (\<lambda>_ _. False) s"
proof -
  obtain a t where t: "heartbeatTimer s = Some a" "tm_heap (hb_tm s) a = Some t" "interval_ok (Schedule t)" "\<not> refreshTimer t"
    using assms(3,4) by (auto simp: hb_ok_def refreshed_def)
  then show ?thesis using assms
    by (auto simp: set_interval_def wpr_rules RefreshTimer_def hb_ok_def interval_ok_def split: schedule.splits)
qed

lemma sends_ok: "sends k R s s1 \<Longrightarrow> hb_ok s \<Longrightarrow> retryCounter s1 \<le> 3 \<Longrightarrow> hb_ok s1"
  by (auto simp: sends_def hb_ok_def)

lemma sends_refreshed: "sends k R s s1 \<Longrightarrow> refreshed s1 = refreshed s"
  by (auto simp: sends_def refreshed_def)

text \<open>What a ping sends: requests of one address, at most six of them.\<close>

definition pinged :: "('e, 'l) heartbeat_env \<Rightarrow> ('e, 'l) heartbeat \<Rightarrow> ('e, 'l) heartbeat \<Rightarrow> bool" where
  "pinged he s s1 \<longleftrightarrow> hb_ok s1 \<and> sendCounter s1 = sendCounter s \<and> acknowledgeCounter s1 = acknowledgeCounter s
     \<and> (\<exists>es url. trace (hb_world s1) = trace (hb_world s) @ es \<and> length (requests es) \<le> 6
         \<and> set (requests es) \<subseteq> ping_urls (he_hybrid he) (GetPingService (he_env he) @ url))"

lemma sends_pinged:
  assumes "sends 6 (ping_urls (he_hybrid he) (GetPingService (he_env he) @ url)) s s1" "hb_world s2 = hb_world s1" "hb_ok s2" "sendCounter s2 = sendCounter s1"
    "acknowledgeCounter s2 = acknowledgeCounter s1"
  shows "pinged he s s2"
  using assms unfolding pinged_def sends_def by metis

lemma interval_ok_mutable: "interval_ok sch \<Longrightarrow> is_mutable sch"
  by (cases sch) (simp_all add: interval_ok_def is_mutable_def)

lemma doPing_spec:
  assumes ok: "hb_ok s" and ready: "refreshed s"
  shows "wpr (doPing he) (\<lambda>err s1. pinged he s s1 \<and> (err \<noteq> None \<longrightarrow> refreshed s1)) (\<lambda>_ _. False) s"
  unfolding doPing_def wpr_seq wpr_look prod.case
proof (rule wpr_mono [OF params_spec [where R = "{}"]], goal_cases)
  case (1 query s1)
  let ?url = "GetPingService (he_env he) @ query"
  let ?R = "ping_urls (he_hybrid he) ?url"
  from 1 have s1: "sends 0 ?R s s1" "retryCounter s1 = retryCounter s" by (auto simp: sends_def)
  show ?case
  proof (rule wpr_mono [OF choose_scheme_spec [where R = ?R]], goal_cases)
    case (1 http s2)
    with s1 have s2: "sends 0 ?R s s2" "retryCounter s2 = retryCounter s" "\<not> (he_hybrid he \<and> http)"
      using hb_sends_trans [of 0 ?R s s1 0 s2 0] by auto
    show ?case
    proof (rule wpr_mono [OF invokePingRequest_spec [of _ "he_hybrid he"]], goal_cases)
      case (3 x s3)
      then have s3: "sends 6 ?R s s3" "retryCounter s3 \<le> 3"
        using hb_sends_trans [of 0 ?R s s2 6 s3 6] s2 ok by (auto simp: hb_ok_def)
      then have ok3: "hb_ok s3" "refreshed s3" using sends_ok ok sends_refreshed ready by blast+
      then obtain a t where t: "heartbeatTimer s3 = Some a" "tm_heap (hb_tm s3) a = Some t" "is_mutable (Schedule t)"
        using interval_ok_mutable by (auto simp: hb_ok_def)
      obtain content err where x: "x = (content, err)" by (cases x)
      have "wpr (extractNextInterval he content) (\<lambda>d. wpr (seq (set_interval d) (\<lambda>_. ret None))
          (\<lambda>err s1. pinged he s s1 \<and> (err \<noteq> None \<longrightarrow> refreshed s1)) (\<lambda>_ _. False)) (\<lambda>_ _. False) s3"
      proof (rule wpr_mono [OF extractNextInterval_spec [where R = ?R]], goal_cases)
        case (1 d s4)
        then have "sends 6 ?R s s4" "retryCounter s4 \<le> 3" using hb_sends_trans [OF s3(1), of 0 s4 6] s3(2) by auto
        then have s4: "sends 6 ?R s s4" "hb_ok s4" "refreshed s4" using sends_ok [OF _ ok] sends_refreshed ready by blast+
        show ?case
          unfolding wpr_seq
          by (rule wpr_mono [OF set_interval_spec]) (use 1 s4 in \<open>auto simp: wpr_ret intro: sends_pinged\<close>)
      qed simp
      then show ?case
        using sends_pinged [OF s3(1) refl ok3(1) refl refl] ok3(2) t
        by (auto simp: x wpr_ret wpr_seq wpr_look split: option.split)
    qed (use s2 in auto)
  qed simp
qed simp

section \<open>Heartbeats\<close>

text \<open>The requests of the tries of one heartbeat, of which there are at most six each.\<close>

definition ping_request_of :: "('e, 'l) heartbeat_env \<Rightarrow> effect \<Rightarrow> bool" where
  "ping_request_of he e \<longleftrightarrow>
     (\<exists>http query. e = HttpSent ''GET'' (scheme http @ GetPingService (he_env he) @ query) [] \<and> \<not> (he_hybrid he \<and> http))"

definition beaten :: "('e, 'l) heartbeat_env \<Rightarrow> nat \<Rightarrow> ('e, 'l) heartbeat \<Rightarrow> ('e, 'l) heartbeat \<Rightarrow> bool" where
  "beaten he k s s1 \<longleftrightarrow> hb_ok s1
     \<and> (\<exists>es. trace (hb_world s1) = trace (hb_world s) @ es \<and> length (requests es) \<le> 6 * k \<and> list_all (ping_request_of he) (requests es))"

lemma pinged_beaten: "pinged he s s1 \<Longrightarrow> beaten he 1 s s1"
  unfolding pinged_def beaten_def ping_urls_def ping_request_of_def list_all_iff by fastforce

lemma beaten_trans: "beaten he j s s1 \<Longrightarrow> beaten he k s1 s2 \<Longrightarrow> beaten he (j + k) s s2"
  unfolding beaten_def by (fastforce intro: exI [of _ "_ @ _"])

lemma beaten_refl: "hb_ok s \<Longrightarrow> beaten he k s s"
  by (auto simp: beaten_def intro: exI [of _ "[]"])

lemma beaten_counts [simp]:
  "beaten he k s (s1\<lparr>acknowledgeCounter := n\<rparr>) = beaten he k s s1" "beaten he k s (s1\<lparr>sendCounter := n\<rparr>) = beaten he k s s1"
  by (simp_all add: beaten_def hb_ok_def)

lemma ping_tries_spec:
  assumes "hb_ok s" "refreshed s"
  shows "wpr (ping_tries he k) (\<lambda>_ s1. beaten he k s s1 \<and> sendCounter s1 = sendCounter s
     \<and> acknowledgeCounter s1 \<in> {acknowledgeCounter s, acknowledgeCounter s + 1}) (\<lambda>_ _. False) s"
  using assms
proof (induction k arbitrary: s)
  case 0
  then show ?case by (simp add: wpr_ret beaten_refl)
next
  case (Suc k)
  show ?case
    unfolding ping_tries.simps wpr_seq
  proof (rule wpr_mono [OF doPing_spec [OF Suc.prems]], goal_cases)
    case (1 err s1)
    then have s1: "beaten he 1 s s1" "sendCounter s1 = sendCounter s" "acknowledgeCounter s1 = acknowledgeCounter s" "hb_ok s1"
      using pinged_beaten [of he s s1] by (auto simp: pinged_def)
    show ?case
    proof (cases "err = None")
      case True
      then show ?thesis using s1 beaten_trans [OF s1(1) beaten_refl [OF s1(4), of he k]] by (simp add: count_ack_def wpr_modify)
    next
      case False
      with 1 have "wpr (ping_tries he k) (\<lambda>_ s2. beaten he (Suc k) s s2 \<and> sendCounter s2 = sendCounter s
          \<and> acknowledgeCounter s2 \<in> {acknowledgeCounter s, acknowledgeCounter s + 1}) (\<lambda>_ _. False) s1"
        by (intro wpr_mono [OF Suc.IH [OF s1(4)]]) (use s1 beaten_trans [OF s1(1), of k] in auto)
      with False show ?thesis by auto
    qed
  qed simp
qed

text \<open>C29. A heartbeat ends, neither blocked nor in a panic. Each of its tries sends at most six requests, all
  to the address of heartbeats and, for a hybrid agent, all over the secure scheme; the heartbeat counts
  as sent once and as acknowledged at most once; the timer keeps an interval between 55 and 65 seconds,
  and no more than three retries are counted in an hour.\<close>

theorem PingwithRetries_bounded:
  assumes "hb_ok s" "refreshed s"
  shows "\<exists>s1 es. PingwithRetries he k s = Some (Returns (), s1) \<and> hb_ok s1
     \<and> trace (hb_world s1) = trace (hb_world s) @ es \<and> length (requests es) \<le> 6 * k \<and> list_all (ping_request_of he) (requests es)
     \<and> sendCounter s1 = sendCounter s + 1 \<and> acknowledgeCounter s1 \<in> {acknowledgeCounter s, acknowledgeCounter s + 1}"
proof -
  have "wpr (PingwithRetries he k) (\<lambda>_ s1. beaten he k s s1 \<and> sendCounter s1 = sendCounter s + 1
      \<and> acknowledgeCounter s1 \<in> {acknowledgeCounter s, acknowledgeCounter s + 1}) (\<lambda>_ _. False) s"
    unfolding PingwithRetries_def wpr_seq
    by (rule wpr_mono [OF ping_tries_spec [OF assms]]) (auto simp: count_send_def wpr_modify)
  then obtain s1 where "PingwithRetries he k s = Some (Returns (), s1)" "beaten he k s s1" "sendCounter s1 = sendCounter s + 1"
      "acknowledgeCounter s1 \<in> {acknowledgeCounter s, acknowledgeCounter s + 1}"
    unfolding wpr_returns by auto
  then show ?thesis by (auto simp: beaten_def)
qed

text \<open>The heartbeat of the timer is the one with a single try.\<close>

theorem pingWithoutRetry_is_one_try: "pingWithoutRetry he = PingwithRetries he 1"
  by (rule ext) (simp add: pingWithoutRetry_def PingwithRetries_def prog_defs split: option.split prod.split outcome.split)

text \<open>The new timer is registered, waits for its first interval of a minute, and heartbeats may begin.\<close>

lemma InitHeartbeatTimer_ok:
  assumes "heartbeatTimer s = None" "retryCounter s \<le> 3"
  shows "wpr (InitHeartbeatTimer he) (\<lambda>err s1. err = None \<and> hb_ok s1 \<and> refreshed s1 \<and> set (tm_timers (hb_tm s)) \<subseteq> set (tm_timers (hb_tm s1))
     \<and> sendCounter s1 = sendCounter s \<and> acknowledgeCounter s1 = acknowledgeCounter s) (\<lambda>_ _. False) s"
  using assms by (auto simp: InitHeartbeatTimer_def wpr_rules CreateTimerInSeconds_def CreateTimerInNanoseconds_def register_timer_def NewTimer_def
      NewMutableScheduled_def TimerRun_def DefaultPingIntervalSeconds_def second_def wrap64_def hb_ok_def interval_ok_def refreshed_def Let_def split_beta)

text \<open>A message of a missing field is recognised wherever it stands, with the name and the type of the field.\<close>

lemma takeWhile_word: "list_all is_word_char f \<Longrightarrow> \<not> is_word_char c \<Longrightarrow> takeWhile is_word_char (f @ c # r) = f"
  by (induction f) auto

lemma strip_prefix_append: "strip_prefix p (p @ r) = Some r"
  by (induction p) auto

lemma field_miss_at_message:
  assumes "f \<noteq> []" "ty \<noteq> []" "list_all is_word_char f" "list_all is_word_char ty"
  shows "field_miss_at (''Required request parameter '' @ [single_quote] @ f @ [single_quote] @ '' for method parameter type '' @ ty @ '' is not present'' @ r)
     = Some (f, ty)"
proof -
  have c: "\<not> is_word_char single_quote" "\<not> is_word_char (CHR '' '')" by code_simp+
  have "strip_prefix (''Required request parameter '' @ [single_quote])
      (''Required request parameter '' @ [single_quote] @ f @ [single_quote] @ '' for method parameter type '' @ ty @ '' is not present'' @ r)
      = Some (f @ single_quote # '' for method parameter type '' @ ty @ '' is not present'' @ r)"
    using strip_prefix_append [of "''Required request parameter '' @ [single_quote]"] by simp
  moreover have "takeWhile is_word_char (f @ single_quote # x) = f" for x using takeWhile_word [OF assms(3) c(1)] by simp
  moreover have "strip_prefix (single_quote # '' for method parameter type '') (single_quote # '' for method parameter type '' @ x) = Some x" for x
    using strip_prefix_append [of "single_quote # '' for method parameter type ''" x] by simp
  moreover have "takeWhile is_word_char (ty @ '' is not present'' @ r) = ty" using takeWhile_word [OF assms(4) c(2)] by simp
  moreover have "strip_prefix '' is not present'' ('' is not present'' @ r) = Some r" by (rule strip_prefix_append)
  ultimately show ?thesis using assms(1,2) unfolding field_miss_at_def by (simp del: strip_prefix.simps append_Cons add: Let_def)
qed

lemma checkFieldsdMissErr_message:
  assumes "CHR ''R'' \<notin> set p" "field_miss_at m = Some x"
  shows "checkFieldsdMissErr (p @ m) = Some x"
  using assms(1)
proof (induction p)
  case Nil
  from assms(2) have "m \<noteq> []" by (auto simp: field_miss_at_def)
  with assms(2) show ?case by (cases m) auto
next
  case (Cons c p)
  then have "strip_prefix (''Required request parameter '' @ [single_quote]) (c # p @ m) = None" by simp
  then have "field_miss_at (c # p @ m) = None" unfolding field_miss_at_def by simp
  with Cons show ?case by simp
qed

section \<open>An example\<close>

definition silent_env :: "(int, unit) heartbeat_env" where
  "silent_env = \<lparr>he_env = \<lparr>server_host = ''ecs'', transport = (\<lambda>n m u b. Failure (PlainError ''timeout'')), clock = (\<lambda>n. 0), clock_zone = (\<lambda>n. 0),
       zone_name = ''UTC'', zone_offset = (\<lambda>z t. 0)\<rparr>, he_cron = toy_lib, he_hybrid = True, he_uptime = (\<lambda>n. 1), he_pid = 1,
     he_processStartTime = 0, he_os_version = ''Linux'', he_azone = ''a'', he_machineId = ''m'', he_app_version = ''2.2'', he_random = (\<lambda>n. n),
     he_valid = (\<lambda>s. True), he_nextInterval = (\<lambda>s. None), he_errMsg = (\<lambda>s. None), he_flag_exists = (\<lambda>n. Inr True), he_flag_create = (\<lambda>n. None)\<rparr>"

definition first_heartbeat :: "(int, unit) heartbeat" where
  "first_heartbeat = \<lparr>hb_world = \<lparr>ticks = 0, trace = []\<rparr>, hb_coldstarted = None,
     hb_tm = \<lparr>tm_heap = [0 \<mapsto> NewTimer (MutableScheduled (60 * second) True) ()], tm_fresh = 1, tm_timers = [0]\<rparr>,
     heartbeatTimer = Some 0, hb_startTime = 0, retryCounter = 0, acknowledgeCounter = 0, sendCounter = 0,
     lastHttpFailedSendCounter = 0, tryHttp = True, useFullFields = False\<rparr>"

theorem PingwithRetries_bounded_witness:
  "\<exists>s1. PingwithRetries silent_env 3 first_heartbeat = Some (Returns (), s1) \<and> sendCounter s1 = 1"
proof -
  have "hb_ok first_heartbeat" "refreshed first_heartbeat"
    by (auto simp: hb_ok_def refreshed_def first_heartbeat_def NewTimer_def interval_ok_def second_def)
  then show ?thesis using PingwithRetries_bounded [of first_heartbeat silent_env 3] by (auto simp: first_heartbeat_def)
qed

end
