(* ===== verification/Process_Cmd.thy ===== *)
theory Process_Cmd
  imports Machine
begin

text \<open>
  Running a process: \<open>agent/util/process/process.go\<close> with its Unix part. The handle of the
  command goes through three states, so that \<open>Cancel\<close> is modelled with its dereference of a
  process that was not started. The credentials of a user come from the texts of the \<open>id\<close>
  command.
\<close>

section \<open>Credentials\<close>

definition uint32 :: "int \<Rightarrow> nat" where
  "uint32 i = nat (i mod 4294967296)"

definition groupsIdentifier :: string where
  "groupsIdentifier = ''groups=''"

text \<open>The loop over the groups: the slice up to the parenthesis panics when there is none.\<close>

fun group_ids :: "nat list \<Rightarrow> string list \<Rightarrow> (go_error + nat list) outcome" where
  "group_ids acc [] = Returns (Inr (rev acc))"
| "group_ids acc (value # values) =
     (case index_of ''('' value of
        None \<Rightarrow> Panics SliceOutOfRange
      | Some i \<Rightarrow>
          (case atoi (trim_space (take i value)) of
             (n, Some e) \<Rightarrow> Returns (Inl (atoi_error (trim_space (take i value)) e))
           | (n, None) \<Rightarrow> group_ids (uint32 n # acc) values))"

definition groups_of_output :: "string \<Rightarrow> (go_error + nat list) outcome" where
  "groups_of_output out =
     (case index_of groupsIdentifier out of
        None \<Rightarrow> Returns (Inr [])
      | Some i \<Rightarrow>
          if 0 < i then group_ids [] (split_on (CHR '','') (drop (i + length groupsIdentifier) out))
          else Returns (Inr []))"

definition run_id :: "machine \<Rightarrow> string \<Rightarrow> string \<Rightarrow> world \<Rightarrow> (go_error + string) \<times> world" where
  "run_id mc opts sessionUser w = ask (\<lambda>n. mc_output mc n (''id '' @ opts @ sessionUser)) w"

definition read_id :: "machine \<Rightarrow> string \<Rightarrow> string \<Rightarrow> world \<Rightarrow> (go_error + int) \<times> world" where
  "read_id mc opts sessionUser w =
     (let (r, w1) = run_id mc opts sessionUser w in
      (case r of
         Inl e \<Rightarrow> Inl e
       | Inr out \<Rightarrow>
           (case atoi (trim_space out) of
              (n, Some e) \<Rightarrow> Inl (atoi_error (trim_space out) e)
            | (n, None) \<Rightarrow> Inr n), w1))"

definition GetUserCredentials ::
  "machine \<Rightarrow> string \<Rightarrow> world \<Rightarrow> ((go_error + (nat \<times> nat \<times> nat list)) \<times> world) outcome" where
  "GetUserCredentials mc sessionUser w =
     (let (u, w1) = read_id mc ''-u '' sessionUser w in
      case u of
        Inl e \<Rightarrow> Returns (Inl e, w1)
      | Inr uid \<Rightarrow>
          (let (g, w2) = read_id mc ''-g '' sessionUser w1 in
           case g of
             Inl e \<Rightarrow> Returns (Inl e, w2)
           | Inr gid \<Rightarrow>
               (let (r, w3) = run_id mc [] sessionUser w2 in
                case r of
                  Inl e \<Rightarrow> Returns (Inl e, w3)
                | Inr out \<Rightarrow>
                    map_ret (\<lambda>gs. (case gs of
                        Inl e \<Rightarrow> Inl e
                      | Inr ids \<Rightarrow>
                          if 0 < uid \<and> 0 < gid then Inr (uint32 uid, uint32 gid, ids)
                          else Inl (PlainError ''invalid uid and gid''), w3))
                      (groups_of_output out))))"

section \<open>The command\<close>

datatype command_handle = NoCommand | Unstarted | Running

record process_cmd =
  pc_command :: command_handle
  pc_user :: string
  pc_password :: string
  pc_homeDir :: string
  pc_env :: "string list"

definition NewProcessCmd :: process_cmd where
  "NewProcessCmd = \<lparr>pc_command = NoCommand, pc_user = [], pc_password = [], pc_homeDir = [], pc_env = []\<rparr>"

definition SetUserInfo :: "string \<Rightarrow> process_cmd \<Rightarrow> process_cmd" where
  "SetUserInfo name pc = pc\<lparr>pc_user := name\<rparr>"

definition SetPasswordInfo :: "string \<Rightarrow> process_cmd \<Rightarrow> process_cmd" where
  "SetPasswordInfo password pc = pc\<lparr>pc_password := password\<rparr>"

definition SetHomeDir :: "string \<Rightarrow> process_cmd \<Rightarrow> process_cmd" where
  "SetHomeDir homeDir pc = pc\<lparr>pc_homeDir := homeDir\<rparr>"

definition SetEnv :: "string list \<Rightarrow> process_cmd \<Rightarrow> process_cmd" where
  "SetEnv env pc = pc\<lparr>pc_env := env\<rparr>"

text \<open>\<open>Cancel\<close>: a command whose process was never started has no process to kill.\<close>

definition CancelProcess :: "process_cmd \<Rightarrow> world \<Rightarrow> (process_cmd \<times> world) outcome" where
  "CancelProcess pc w =
     (case pc_command pc of
        NoCommand \<Rightarrow> Returns (pc, w)
      | Unstarted \<Rightarrow> Panics NilDereference
      | Running \<Rightarrow> Returns (pc, perform ProcessKilled w))"

text \<open>The environment of the command: the agent's, the settings, and the home directory last.\<close>

definition prepareProcess :: "machine \<Rightarrow> process_cmd \<Rightarrow> world \<Rightarrow> string list \<times> world" where
  "prepareProcess mc pc w =
     (let (base, w1) = ask (mc_environ mc) w in
      (base @ pc_env pc @ (if pc_homeDir pc \<noteq> [] then [''HOME='' @ pc_homeDir pc] else []), w1))"

definition start_process ::
  "machine \<Rightarrow> string \<Rightarrow> string \<Rightarrow> string list \<Rightarrow> string list \<Rightarrow> (nat \<times> nat \<times> nat list) option \<Rightarrow> world \<Rightarrow>
   go_error option \<times> world" where
  "start_process mc dir name args env cred w =
     attempt (\<lambda>n. mc_start mc n name args) (ProcessStarted dir name args env cred) w"

definition SyncRunSimple ::
  "machine \<Rightarrow> string \<Rightarrow> string list \<Rightarrow> process_cmd \<Rightarrow> world \<Rightarrow> go_error option \<times> process_cmd \<times> world" where
  "SyncRunSimple mc name args pc w =
     (let (env, w1) = prepareProcess mc pc w;
          (err, w2) = start_process mc [] name args env None w1 in
      if err \<noteq> None then
        (Some (PlainError ''error occurred starting the command''), pc\<lparr>pc_command := Unstarted\<rparr>, w2)
      else
        (let (expired, w3) = ask (mc_timer_first mc) w2; pc' = pc\<lparr>pc_command := Running\<rparr> in
         if expired then (Some (PlainError ''cmd run timeout''), pc', perform ProcessKilled w3)
         else (let ((state, e), w4) = ask (mc_finish mc) w3 in (e, pc', w4))))"

text \<open>
  \<open>SyncRun\<close> with the events of the run, the exit code, the status and the error. A timer is set
  for positive timeouts only.
\<close>

definition await_process ::
  "machine \<Rightarrow> int \<Rightarrow> world \<Rightarrow> (int \<times> proc_status \<times> go_error option) \<times> world" where
  "await_process mc timeOut w =
     (let (expired, w1) = (if 0 < timeOut then ask (mc_timer_first mc) w else (False, w)) in
      if expired then ((1, Timeout, Some (PlainError ''timeout'')), perform ProcessKilled w1)
      else
        (let ((state, e), w2) = ask (mc_finish mc) w1 in
         case state of
           Some exitCode \<Rightarrow> ((exitCode, Success, None), w2)
         | None \<Rightarrow> ((1, Fail, e), w2)))"

definition run_credential ::
  "machine \<Rightarrow> process_cmd \<Rightarrow> world \<Rightarrow> ((go_error + (nat \<times> nat \<times> nat list) option) \<times> world) outcome" where
  "run_credential mc pc w =
     (if pc_user pc = [] then Returns (Inr None, w)
      else map_ret (\<lambda>(r, w1). (map_sum id Some r, w1)) (GetUserCredentials mc (pc_user pc) w))"

definition SyncRun ::
  "machine \<Rightarrow> string \<Rightarrow> string \<Rightarrow> string list \<Rightarrow> int \<Rightarrow> process_cmd \<Rightarrow> world \<Rightarrow>
   ((run_event list \<times> int \<times> proc_status \<times> go_error option) \<times> process_cmd \<times> world) outcome" where
  "SyncRun mc workingDir name args timeOut pc w =
     (let (env, w1) = prepareProcess mc pc w in
      map_ret (\<lambda>(r, w2).
        case r of
          Inl e \<Rightarrow> (([], 0, Fail, Some e), pc\<lparr>pc_command := Unstarted\<rparr>, w2)
        | Inr cred \<Rightarrow>
            (let (err, w3) = start_process mc workingDir name args env cred w2 in
             if err \<noteq> None then (([], 1, Fail, err), pc\<lparr>pc_command := Unstarted\<rparr>, w3)
             else
               (let (events, w4) = ask (mc_events mc) w3; (r, w5) = await_process mc timeOut w4 in
                ((events, r), pc\<lparr>pc_command := Running\<rparr>, w5))))
        (run_credential mc pc w1))"

section \<open>The agent's own user\<close>

text \<open>\<open>sh -c "id user"\<close> of \<open>DoesUserExist\<close>: \<open>Exited\<close> for an exit code other than 0.\<close>

datatype id_run = IdRan | IdExited string | IdNotRun

definition DoesUserExist :: "(nat \<Rightarrow> string \<Rightarrow> id_run) \<Rightarrow> string \<Rightarrow> world \<Rightarrow> (bool \<times> go_error option) \<times> world" where
  "DoesUserExist run username w =
     (let (r, w1) = ask (\<lambda>n. run n (''id '' @ username)) w in
      (case r of
         IdExited text \<Rightarrow>
           (False, Some (PlainError (''encountered an error while checking for '' @ username @ '': '' @ text)))
       | IdNotRun \<Rightarrow> (False, None)
       | IdRan \<Rightarrow> (True, None), w1))"

section \<open>What the credentials are\<close>

lemma index_of_char:
  "c \<notin> set p \<Longrightarrow> index_of [c] (p @ c # r) = Some (length p)"
  by (induction p) (auto simp: has_prefix_def)

lemma index_of_char_None: "index_of [c] s = None \<longleftrightarrow> c \<notin> set s"
  using contains_char [of c s] by (auto simp: contains_def)

lemma itoa_no_paren: "CHR ''('' \<notin> set (itoa i)"
  using itoa_chars by (fastforce simp: is_digit_def byte_def)

lemma trim_itoa [simp]: "trim_space (itoa i) = itoa i"
proof -
  have "\<not> is_space c" if "c \<in> set (itoa i)" for c
    using itoa_chars [OF that] by (auto simp: is_digit_def is_space_def byte_def)
  then show ?thesis unfolding trim_space_def by (intro trim_with_id) simp
qed

lemma trim_itoa_LF [simp]: "trim_space (itoa i @ [LF]) = itoa i"
proof -
  have "trim_space (itoa i @ [LF]) = trim_space (itoa i)"
  proof -
    have lf: "is_space LF" by (simp add: is_space_def LF_def)
    have "\<not> is_space (hd (itoa i))"
      using itoa_chars [of "hd (itoa i)" i] itoa_nonempty [of i]
      by (auto simp: is_digit_def is_space_def byte_def)
    with lf itoa_nonempty [of i] show ?thesis
      by (cases "itoa i") (simp_all add: trim_space_def trim_with_def)
  qed
  then show ?thesis by simp
qed

text \<open>A piece of the group list: a decimal number and a parenthesis.\<close>

definition names_group :: "string \<Rightarrow> nat \<Rightarrow> bool" where
  "names_group v g \<longleftrightarrow> g < 4294967296 \<and> (\<exists>rest. v = itoa (int g) @ ''('' @ rest)"

lemma group_ids_step:
  assumes "names_group v g"
  shows "group_ids acc (v # vs) = group_ids (g # acc) vs"
proof -
  obtain rest where v: "v = itoa (int g) @ CHR ''('' # rest" and g: "g < 4294967296"
    using assms by (auto simp: names_group_def)
  have i: "index_of ''('' v = Some (length (itoa (int g)))"
    unfolding v by (rule index_of_char [OF itoa_no_paren])
  have a: "atoi (itoa (int g)) = (int g, None)"
    using g by (intro atoi_itoa) (simp_all add: min_int64_def max_int64_def)
  have u: "uint32 (int g) = g" using g by (simp add: uint32_def)
  have t: "take (length (itoa (int g))) v = itoa (int g)" by (simp add: v)
  show ?thesis by (simp only: group_ids.simps i option.case t trim_itoa a prod.case u)
qed

lemma group_ids_all:
  "list_all2 names_group vs gs \<Longrightarrow> group_ids acc (vs @ ws) = group_ids (rev gs @ acc) ws"
proof (induction vs gs arbitrary: acc rule: list_all2_induct)
  case (Cons v vs g gs)
  then show ?case by (simp add: group_ids_step del: group_ids.simps)
qed simp

lemma read_id_itoa:
  assumes "mc_output mc (ticks w) (''id '' @ opts @ user) = Inr (itoa (int u) @ [LF])" "u < 4294967296"
  shows "read_id mc opts user w = (Inr (int u), tick w)"
proof -
  have a: "atoi (itoa (int u)) = (int u, None)"
    using assms(2) by (intro atoi_itoa) (simp_all add: min_int64_def max_int64_def)
  show ?thesis using assms(1) a by (simp add: read_id_def run_id_def ask_def)
qed

lemma GetUserCredentials_unfold:
  assumes "mc_output mc (ticks w) (''id -u '' @ user) = Inr (itoa (int uid) @ [LF])"
    and "mc_output mc (ticks w + 1) (''id -g '' @ user) = Inr (itoa (int gid) @ [LF])"
    and "mc_output mc (ticks w + 2) (''id '' @ user) = Inr out"
    and "0 < uid" "uid < 4294967296" "0 < gid" "gid < 4294967296"
  shows "GetUserCredentials mc user w = map_ret (\<lambda>gs. (case gs of Inl e \<Rightarrow> Inl e
      | Inr ids \<Rightarrow> Inr (uid, gid, ids), tick (tick (tick w)))) (groups_of_output out)"
proof -
  have u: "read_id mc ''-u '' user w = (Inr (int uid), tick w)"
    using assms(1,5) by (intro read_id_itoa) simp_all
  have g: "read_id mc ''-g '' user (tick w) = (Inr (int gid), tick (tick w))"
    using assms(2,7) by (intro read_id_itoa) simp_all
  have r: "run_id mc [] user (tick (tick w)) = (Inr out, tick (tick (tick w)))"
    using assms(3) by (simp add: run_id_def ask_def numeral_2_eq_2)
  have "uint32 (int uid) = uid" "uint32 (int gid) = gid" using assms(5,7) by (simp_all add: uint32_def)
  with u g r assms(4,6) show ?thesis
    by (simp add: GetUserCredentials_def cong: sum.case_cong)
qed

text \<open>The credentials of a user are the uid, the gid and all supplementary groups that the
  \<open>id\<close> command prints, in its order, when every group is printed as a number and a name in
  parentheses.\<close>

theorem GetUserCredentials_reads_id:
  assumes "mc_output mc (ticks w) (''id -u '' @ user) = Inr (itoa (int uid) @ [LF])"
    and "mc_output mc (ticks w + 1) (''id -g '' @ user) = Inr (itoa (int gid) @ [LF])"
    and "mc_output mc (ticks w + 2) (''id '' @ user) = Inr (pre @ groupsIdentifier @ list)"
    and "index_of groupsIdentifier (pre @ groupsIdentifier @ list) = Some (length pre)" "pre \<noteq> []"
    and "list_all2 names_group (split_on (CHR '','') list) gs"
    and "0 < uid" "uid < 4294967296" "0 < gid" "gid < 4294967296"
  shows "GetUserCredentials mc user w = Returns (Inr (uid, gid, gs), tick (tick (tick w)))"
proof -
  have "group_ids [] (split_on (CHR '','') list) = Returns (Inr gs)"
    using group_ids_all [OF assms(6), of "[]" "[]"] by simp
  then have "groups_of_output (pre @ groupsIdentifier @ list) = Returns (Inr gs)"
    using assms(4,5) by (simp add: groups_of_output_def)
  then show ?thesis
    using GetUserCredentials_unfold [OF assms(1-3,7-10)] by simp
qed

text \<open>A group without a name, which \<open>id\<close> prints as a bare number, makes the slice of the
  loop panic, whatever precedes and follows it.\<close>

theorem GetUserCredentials_nameless_group:
  assumes "mc_output mc (ticks w) (''id -u '' @ user) = Inr (itoa (int uid) @ [LF])"
    and "mc_output mc (ticks w + 1) (''id -g '' @ user) = Inr (itoa (int gid) @ [LF])"
    and "mc_output mc (ticks w + 2) (''id '' @ user) = Inr (pre @ groupsIdentifier @ list)"
    and "index_of groupsIdentifier (pre @ groupsIdentifier @ list) = Some (length pre)" "pre \<noteq> []"
    and "split_on (CHR '','') list = named @ itoa (int g) # later" "list_all2 names_group named gs"
    and "0 < uid" "uid < 4294967296" "0 < gid" "gid < 4294967296"
  shows "GetUserCredentials mc user w = Panics SliceOutOfRange"
proof -
  have "index_of ''('' (itoa (int g)) = None" by (simp add: index_of_char_None itoa_no_paren)
  then have "group_ids [] (split_on (CHR '','') list) = Panics SliceOutOfRange"
    using group_ids_all [OF assms(7), of "[]" "itoa (int g) # later"] by (simp add: assms(6))
  then have "groups_of_output (pre @ groupsIdentifier @ list) = Panics SliceOutOfRange"
    using assms(4,5) by (simp add: groups_of_output_def)
  then show ?thesis
    using GetUserCredentials_unfold [OF assms(1-3,8-11)] by simp
qed

section \<open>A machine for examples\<close>

text \<open>Nothing exists, every call succeeds, processes end with code 0, the answers of \<open>id\<close> are given.\<close>

definition quiet_machine :: "(string \<Rightarrow> go_error + string) \<Rightarrow> machine" where
  "quiet_machine outputs =
     \<lparr>mc_stat = (\<lambda>n p. NotExist), mc_lstat = (\<lambda>n p. NotExist), mc_mkdir = (\<lambda>n p. None), mc_write = (\<lambda>n p. None),
      mc_chmod = (\<lambda>n p. None), mc_chown = (\<lambda>n p. None), mc_remove = (\<lambda>n p. None),
      mc_executable = (\<lambda>n. Inr ''/opt/assist/2.0/aliyun-service''), mc_look_path = (\<lambda>n p. None),
      mc_user = (\<lambda>n u. Inr (''1000'', ''/home/u'')), mc_group = (\<lambda>n g. Inr ''1000''), mc_home_env = (\<lambda>n. Inr ''/root''),
      mc_current_home = (\<lambda>n. Inr ''/root''), mc_environ = (\<lambda>n. []), mc_output = (\<lambda>n c. outputs c),
      mc_start = (\<lambda>n c a. None), mc_timer_first = (\<lambda>n. False), mc_finish = (\<lambda>n. (Some 0, None)), mc_events = (\<lambda>n. []),
      mc_script_path = ''/opt/assist/work/script''\<rparr>"

definition example_id :: "string \<Rightarrow> string \<Rightarrow> go_error + string" where
  "example_id groups c =
     (if c = ''id -u bob'' then Inr (itoa 1000 @ [LF]) else if c = ''id -g bob'' then Inr (itoa 100 @ [LF])
      else Inr (''uid=1000(bob) gid=100(users) '' @ groupsIdentifier @ groups))"

lemma names_group_code: "g < 4294967296 \<Longrightarrow> v = itoa (int g) @ ''('' @ rest \<Longrightarrow> names_group v g"
  by (auto simp: names_group_def)

lemma example_named: "list_all2 names_group (split_on (CHR '','') ''100(users),27(sudo)'') [100, 27]"
proof -
  have "split_on (CHR '','') ''100(users),27(sudo)'' = [itoa (int 100) @ ''('' @ ''users)'', itoa (int 27) @ ''('' @ ''sudo)'']"
    by code_simp
  then show ?thesis
    by (simp only: list_all2_Cons list_all2_Nil) (auto intro: names_group_code simp del: append_assoc)
qed

theorem GetUserCredentials_reads_id_witness:
  "GetUserCredentials (quiet_machine (example_id ''100(users),27(sudo)'')) ''bob'' \<lparr>ticks = 0, trace = []\<rparr>
     = Returns (Inr (1000, 100, [100, 27]), tick (tick (tick \<lparr>ticks = 0, trace = []\<rparr>)))"
  by (rule GetUserCredentials_reads_id [where pre = "''uid=1000(bob) gid=100(users) ''", OF _ _ _ _ _ example_named])
    (simp_all add: quiet_machine_def example_id_def, code_simp)

theorem GetUserCredentials_nameless_group_witness:
  "GetUserCredentials (quiet_machine (example_id ''100(users),5005'')) ''bob'' \<lparr>ticks = 0, trace = []\<rparr>
     = Panics SliceOutOfRange"
proof -
  have s: "split_on (CHR '','') ''100(users),5005'' = [''100(users)''] @ itoa (int 5005) # []" by code_simp
  have n: "list_all2 names_group [''100(users)''] [100]"
    by (simp, rule names_group_code [where rest = "''users)''"], simp, code_simp)
  show ?thesis
    by (rule GetUserCredentials_nameless_group [where pre = "''uid=1000(bob) gid=100(users) ''" and uid = 1000
        and gid = 100, OF _ _ _ _ _ s n])
      (simp_all add: quiet_machine_def example_id_def, code_simp)
qed

end
