(* ===== verification/Utf8.thy ===== *)
theory Utf8
  imports Go_Strings
begin

text \<open>
  Runes and UTF-8, as Go's \<open>unicode/utf8\<close> and the \<open>range\<close> loop over a string have them,
  and \<open>common/langutil/string.go\<close>, the truncation to a number of bytes that keeps
  characters whole.
\<close>

section \<open>Encoding and decoding\<close>

type_synonym rune = nat

abbreviation RuneError :: rune where "RuneError \<equiv> 65533"

definition utf8_bytes :: "rune \<Rightarrow> nat list" where
  "utf8_bytes r =
     (if r < 128 then [r]
      else if r < 2048 then [192 + r div 64, 128 + r mod 64]
      else if r < 65536 then [224 + r div 4096, 128 + (r div 64) mod 64, 128 + r mod 64]
      else [240 + r div 262144, 128 + (r div 4096) mod 64, 128 + (r div 64) mod 64,
            128 + r mod 64])"

definition valid_rune :: "rune \<Rightarrow> bool" where
  "valid_rune r \<longleftrightarrow> r < 55296 \<or> (57344 \<le> r \<and> r < 1114112)"

text \<open>The conversion \<open>string(r)\<close>: a value that is no code point becomes U+FFFD.\<close>

definition utf8 :: "rune \<Rightarrow> string" where
  "utf8 r = map char_of (utf8_bytes (if valid_rune r then r else RuneError))"

definition cont :: "nat \<Rightarrow> bool" where
  "cont b \<longleftrightarrow> 128 \<le> b \<and> b \<le> 191"

text \<open>\<open>utf8.DecodeRune\<close> on a non-empty slice: the rune and the bytes it takes.\<close>

definition decode_bytes :: "nat list \<Rightarrow> rune \<times> nat" where
  "decode_bytes bs =
     (case bs of [] \<Rightarrow> (RuneError, 0)
      | b0 # r0 \<Rightarrow>
        if b0 < 128 then (b0, 1)
        else case r0 of [] \<Rightarrow> (RuneError, 1)
        | b1 # r1 \<Rightarrow>
          if 194 \<le> b0 \<and> b0 \<le> 223 then
            (if cont b1 then ((b0 - 192) * 64 + (b1 - 128), 2) else (RuneError, 1))
          else case r1 of [] \<Rightarrow> (RuneError, 1)
          | b2 # r2 \<Rightarrow>
            if 224 \<le> b0 \<and> b0 \<le> 239 then
              (if cont b1 \<and> (b0 = 224 \<longrightarrow> 160 \<le> b1) \<and> (b0 = 237 \<longrightarrow> b1 \<le> 159) \<and> cont b2
               then ((b0 - 224) * 4096 + (b1 - 128) * 64 + (b2 - 128), 3) else (RuneError, 1))
            else case r2 of [] \<Rightarrow> (RuneError, 1)
            | b3 # r3 \<Rightarrow>
              if 240 \<le> b0 \<and> b0 \<le> 244 \<and> cont b1 \<and> (b0 = 240 \<longrightarrow> 144 \<le> b1)
                 \<and> (b0 = 244 \<longrightarrow> b1 \<le> 143) \<and> cont b2 \<and> cont b3
              then ((b0 - 240) * 262144 + (b1 - 128) * 4096 + (b2 - 128) * 64 + (b3 - 128), 4)
              else (RuneError, 1))"

definition decode_rune :: "string \<Rightarrow> rune \<times> nat" where
  "decode_rune s = decode_bytes (map byte s)"

lemma decode_bytes_size: "bs \<noteq> [] \<Longrightarrow> 1 \<le> snd (decode_bytes bs) \<and> snd (decode_bytes bs) \<le> length bs"
  by (auto simp: decode_bytes_def split: list.splits if_splits)

lemma decode_rune_size: "s \<noteq> [] \<Longrightarrow> 1 \<le> snd (decode_rune s) \<and> snd (decode_rune s) \<le> length s"
  using decode_bytes_size [of "map byte s"] by (simp add: decode_rune_def)

text \<open>The runes a \<open>range\<close> loop over the string yields.\<close>

function runes :: "string \<Rightarrow> rune list" where
  "runes s = (if s = [] then [] else fst (decode_rune s) # runes (drop (snd (decode_rune s)) s))"
  by pat_completeness auto
termination
proof (relation "measure length", simp)
  fix s :: string
  assume "s \<noteq> []"
  then show "(drop (snd (decode_rune s)) s, s) \<in> measure length"
    using decode_rune_size [of s] by (cases s) auto
qed

declare runes.simps [simp del]

lemma runes_Nil [simp]: "runes [] = []"
  by (simp add: runes.simps)

lemma byte_bound_list: "list_all (\<lambda>b. b < 256) bs \<Longrightarrow> map byte (map char_of bs) = bs"
  by (induction bs) auto

lemma utf8_bytes_bound: "r < 1114112 \<Longrightarrow> list_all (\<lambda>b. b < 256) (utf8_bytes r)"
  by (auto simp: utf8_bytes_def)

lemma length_utf8_bytes [bounds]: "1 \<le> length (utf8_bytes r) \<and> length (utf8_bytes r) \<le> 4"
  by (simp add: utf8_bytes_def)

lemma length_utf8 [bounds]: "1 \<le> length (utf8 r) \<and> length (utf8 r) \<le> 4"
  using length_utf8_bytes by (simp add: utf8_def)

lemma decode_two:
  "2 \<le> a \<Longrightarrow> a < 32 \<Longrightarrow> b < 64 \<Longrightarrow>
    decode_bytes ((192 + a) # (128 + b) # bs) = (a * 64 + b, 2)"
  by (simp add: decode_bytes_def cont_def)

lemma decode_three:
  "a < 16 \<Longrightarrow> b < 64 \<Longrightarrow> c < 64 \<Longrightarrow> a = 0 \<longrightarrow> 32 \<le> b \<Longrightarrow> a = 13 \<longrightarrow> b \<le> 31 \<Longrightarrow>
    decode_bytes ((224 + a) # (128 + b) # (128 + c) # bs) = (a * 4096 + b * 64 + c, 3)"
  by (simp add: decode_bytes_def cont_def)

lemma decode_four:
  "a \<le> 4 \<Longrightarrow> b < 64 \<Longrightarrow> c < 64 \<Longrightarrow> e < 64 \<Longrightarrow> a = 0 \<longrightarrow> 16 \<le> b \<Longrightarrow> a = 4 \<longrightarrow> b \<le> 15 \<Longrightarrow>
    decode_bytes ((240 + a) # (128 + b) # (128 + c) # (128 + e) # bs)
      = (a * 262144 + b * 4096 + c * 64 + e, 4)"
  by (simp add: decode_bytes_def cont_def)

lemma decode_utf8_bytes:
  assumes "valid_rune r"
  shows "decode_bytes (utf8_bytes r @ bs) = (r, length (utf8_bytes r))"
proof -
  define q1 where "q1 = r div 64"
  define q2 where "q2 = q1 div 64"
  define q3 where "q3 = q2 div 64"
  define m0 where "m0 = r mod 64"
  define m1 where "m1 = q1 mod 64"
  define m2 where "m2 = q2 mod 64"
  have r: "r = q1 * 64 + m0" "q1 = q2 * 64 + m1" "q2 = q3 * 64 + m2"
    by (simp_all add: q1_def q2_def q3_def m0_def m1_def m2_def)
  have m: "m0 < 64" "m1 < 64" "m2 < 64"
    by (simp_all add: m0_def m1_def m2_def)
  have d: "r div 64 = q1" "r div 4096 = q2" "r div 262144 = q3" "r mod 64 = m0" "q1 mod 64 = m1"
    "q2 mod 64 = m2"
    by (simp_all add: q1_def q2_def q3_def m0_def m1_def m2_def div_mult2_eq [symmetric])
  consider "r < 128" | "128 \<le> r" "r < 2048" | "2048 \<le> r" "r < 65536" | "65536 \<le> r"
    by linarith
  then show ?thesis
  proof cases
    case 1
    then show ?thesis by (simp add: utf8_bytes_def decode_bytes_def)
  next
    case 2
    then have "utf8_bytes r = [192 + q1, 128 + m0]"
      by (simp add: utf8_bytes_def d)
    moreover have "2 \<le> q1" "q1 < 32" using 2 r(1) m by linarith+
    ultimately show ?thesis
      using decode_two [of q1 m0 bs] m r(1) by simp
  next
    case 3
    then have e: "utf8_bytes r = [224 + q2, 128 + m1, 128 + m0]"
      by (simp add: utf8_bytes_def d)
    have q: "q2 < 16" using 3 r m by linarith
    have "q2 = 0 \<longrightarrow> 32 \<le> m1" using 3 r m by linarith
    moreover have "q2 = 13 \<longrightarrow> m1 \<le> 31"
      using assms r m unfolding valid_rune_def by linarith
    ultimately show ?thesis
      using decode_three [of q2 m1 m0 bs] q m e r by simp
  next
    case 4
    then have e: "utf8_bytes r = [240 + q3, 128 + m2, 128 + m1, 128 + m0]"
      by (simp add: utf8_bytes_def d)
    have q: "q3 \<le> 4" using 4 assms r m unfolding valid_rune_def by linarith
    have "q3 = 0 \<longrightarrow> 16 \<le> m2" using 4 r m by linarith
    moreover have "q3 = 4 \<longrightarrow> m2 \<le> 15"
      using assms 4 r m unfolding valid_rune_def by linarith
    ultimately show ?thesis
      using decode_four [of q3 m2 m1 m0 bs] q m e r by simp
  qed
qed

lemma decode_utf8:
  assumes "valid_rune r" shows "decode_rune (utf8 r @ s) = (r, length (utf8 r))"
proof -
  have "r < 1114112" using assms by (auto simp: valid_rune_def)
  then have "map byte (utf8 r) = utf8_bytes r"
    unfolding utf8_def using byte_bound_list [OF utf8_bytes_bound] assms by simp
  moreover have "length (utf8 r) = length (utf8_bytes r)"
    using assms by (simp add: utf8_def)
  ultimately show ?thesis
    using decode_utf8_bytes [OF assms] by (simp add: decode_rune_def)
qed

lemma utf8_nonempty [simp]: "utf8 r \<noteq> []"
  by (simp add: utf8_def utf8_bytes_def)

text \<open>Decoding an encoded text gives its runes back.\<close>

lemma runes_encode: "list_all valid_rune rs \<Longrightarrow> runes (concat (map utf8 rs)) = rs"
proof (induction rs)
  case (Cons r rs)
  then have "valid_rune r" by simp
  then have "decode_rune (utf8 r @ concat (map utf8 rs)) = (r, length (utf8 r))"
    by (rule decode_utf8)
  with Cons show ?case by (subst runes.simps) simp
qed simp

section \<open>Truncation\<close>

text \<open>\<open>SafeTruncateStringInBytes\<close>: the loop over the runes with the bytes still free.\<close>

fun truncate_runes :: "nat \<Rightarrow> rune list \<Rightarrow> string" where
  "truncate_runes remained [] = []"
| "truncate_runes remained (r # rs) =
     (if length (utf8 r) > remained then []
      else utf8 r @ truncate_runes (remained - length (utf8 r)) rs)"

definition SafeTruncateStringInBytes :: "string \<Rightarrow> int \<Rightarrow> string" where
  "SafeTruncateStringInBytes danger maxByteCount =
     (if maxByteCount \<le> 0 then [] else truncate_runes (nat maxByteCount) (runes danger))"

lemma truncate_runes_take:
  "\<exists>k. truncate_runes n rs = concat (map utf8 (take k rs))
     \<and> length (concat (map utf8 (take k rs))) \<le> n
     \<and> (k < length rs \<longrightarrow> n < length (concat (map utf8 (take (Suc k) rs))))"
proof (induction n rs rule: truncate_runes.induct)
  case (2 n r rs)
  show ?case
  proof (cases "length (utf8 r) > n")
    case True
    then show ?thesis by (intro exI [of _ 0]) simp
  next
    case False
    with 2 obtain k where k: "truncate_runes (n - length (utf8 r)) rs = concat (map utf8 (take k rs))"
      "length (concat (map utf8 (take k rs))) \<le> n - length (utf8 r)"
      "k < length rs \<longrightarrow> n - length (utf8 r) < length (concat (map utf8 (take (Suc k) rs)))"
      by auto
    with False show ?thesis by (intro exI [of _ "Suc k"]) auto
  qed
qed (intro exI [of _ 0], simp)

text \<open>Truncation keeps whole characters and as many as fit: the result is the encoding of
  a prefix of the runes, within the byte limit, and either everything was kept or one more rune
  would have gone over the limit.\<close>

theorem SafeTruncate_longest_prefix:
  "\<exists>k \<le> length (runes s).
     SafeTruncateStringInBytes s n = concat (map utf8 (take k (runes s)))
     \<and> int (length (SafeTruncateStringInBytes s n)) \<le> max 0 n
     \<and> (k = length (runes s)
        \<or> max 0 n < int (length (concat (map utf8 (take (Suc k) (runes s))))))"
proof (cases "n \<le> 0")
  case True
  then show ?thesis
    by (intro exI [of _ 0]) (cases "runes s", auto simp: SafeTruncateStringInBytes_def)
next
  case False
  obtain k where k: "truncate_runes (nat n) (runes s) = concat (map utf8 (take k (runes s)))"
    "length (concat (map utf8 (take k (runes s)))) \<le> nat n"
    "k < length (runes s) \<longrightarrow> nat n < length (concat (map utf8 (take (Suc k) (runes s))))"
    using truncate_runes_take by blast
  show ?thesis
  proof (cases "k < length (runes s)")
    case True
    then have "int (length (concat (map utf8 (take (Suc k) (runes s))))) > n"
      using k(3) by linarith
    moreover have "int (length (concat (map utf8 (take k (runes s))))) \<le> n"
      using k(2) False by linarith
    ultimately show ?thesis
      using True False k(1) by (intro exI [of _ k]) (auto simp: SafeTruncateStringInBytes_def)
  next
    case f: False
    moreover have "int (length (concat (map utf8 (take k (runes s))))) \<le> n"
      using k(2) False by linarith
    ultimately show ?thesis
      using False k(1) by (intro exI [of _ "length (runes s)"])
        (auto simp: SafeTruncateStringInBytes_def)
  qed
qed

end
