(* ===== verification/Client_Report.thy ===== *)
theory Client_Report
  imports Process_Cmd Utf8
begin

text \<open>
  Reports of the agent about itself, \<open>agent/clientreport\<close>: the JSON text of a report as
  \<open>encoding/json\<close> writes it, the post that is retried with growing pauses (\<open>clientreport.go\<close>),
  and the report of a command's output (\<open>commandreport.go\<close>), of a panic and of a failed update.
\<close>

section \<open>JSON texts\<close>

definition backslash :: char where "backslash = char_of (92 :: nat)"
definition dquote :: char where "dquote = char_of (34 :: nat)"

definition hex4 :: "nat \<Rightarrow> string" where
  "hex4 n = [hex_lower (n div 4096 mod 16), hex_lower (n div 256 mod 16), hex_lower (n div 16 mod 16), hex_lower (n mod 16)]"

text \<open>
  One character of a string: quotes, backslashes and control characters are escaped, and so are
  the characters of HTML and the two line separators.
\<close>

definition json_rune :: "rune \<Rightarrow> string" where
  "json_rune r =
     (if r = 34 \<or> r = 92 then [backslash, char_of r]
      else if r = 10 then [backslash, CHR ''n''] else if r = 13 then [backslash, CHR ''r'']
      else if r = 9 then [backslash, CHR ''t'']
      else if r < 32 \<or> r = 60 \<or> r = 62 \<or> r = 38 \<or> r = 8232 \<or> r = 8233 then backslash # CHR ''u'' # hex4 r
      else utf8 r)"

text \<open>A byte that belongs to no character is written as the escape of U+FFFD.\<close>

function json_body :: "string \<Rightarrow> string" where
  "json_body s =
     (if s = [] then []
      else let (r, n) = decode_rune s in
        (if r = RuneError \<and> n = 1 then backslash # CHR ''u'' # hex4 RuneError else json_rune r) @ json_body (drop n s))"
  by pat_completeness auto
termination
proof (relation "measure length", simp)
  fix s :: string and x r n
  assume "s \<noteq> []" "x = decode_rune s" "(r, n) = x"
  then show "(drop n s, s) \<in> measure length"
    using decode_rune_size [of s] by (cases s) (auto simp: eq_commute [of "(r, n)"])
qed

declare json_body.simps [simp del]

definition json_string :: "string \<Rightarrow> string" where
  "json_string s = dquote # json_body s @ [dquote]"

definition json_bool :: "bool \<Rightarrow> string" where
  "json_bool b = (if b then ''true'' else ''false'')"

text \<open>An object of fields whose values are JSON texts already.\<close>

definition json_object :: "(string \<times> string) list \<Rightarrow> string" where
  "json_object fs = ''{'' @ join '','' (map (\<lambda>(k, v). json_string k @ '':'' @ v) fs) @ ''}''"

section \<open>Reports\<close>

record ClientReport =
  ReportType :: string
  Info :: string

definition report_payload :: "ClientReport \<Rightarrow> string" where
  "report_payload r = json_object [(''type'', json_string (ReportType r)), (''info'', json_string (Info r))]"

text \<open>The retries of \<open>SendReport\<close>: before retry \<open>i\<close> a pause of \<open>2 ^ i\<close> seconds.\<close>

fun report_retries :: "env \<Rightarrow> string \<Rightarrow> string \<Rightarrow> nat list \<Rightarrow> (string \<times> go_error option) \<Rightarrow> world \<Rightarrow>
  (string \<times> go_error option) \<times> world" where
  "report_retries env url payload [] r w = (r, w)"
| "report_retries env url payload (i # ds) r w =
     (if snd r = None then (r, w)
      else let (r', w') = HttpPost env url payload (go_sleep (2 ^ i) w) in report_retries env url payload ds r' w')"

definition SendReport :: "env \<Rightarrow> ClientReport \<Rightarrow> world \<Rightarrow> (string \<times> go_error option) \<times> world" where
  "SendReport env report w =
     (let url = GetClientReportService env; payload = report_payload report;
          (r, w1) = HttpPost env url payload w;
          (r2, w2) = report_retries env url payload [0, 1, 2] r w1 in
      (if snd r2 \<noteq> None then ([], snd r2) else r2, w2))"

section \<open>What is reported\<close>

record executionResult =
  er_Command :: string
  er_Result :: string
  er_ExitCode :: int
  er_Output :: string
  er_ErrorMessage :: string

definition execution_json :: "executionResult \<Rightarrow> string" where
  "execution_json r = json_object
     ([(''command'', json_string (er_Command r)), (''result'', json_string (er_Result r)), (''exitCode'', itoa (er_ExitCode r)),
       (''output'', json_string (er_Output r))]
      @ (if er_ErrorMessage r = [] then [] else [(''errorMessage'', json_string (er_ErrorMessage r))]))"

text \<open>The status constants of a process as integers, and the output its run wrote.\<close>

fun status_int :: "proc_status \<Rightarrow> int" where
  "status_int Success = 0"
| "status_int Fail = 1"
| "status_int Timeout = 2"
| "status_int (OtherStatus i) = i"

definition written :: "run_event list \<Rightarrow> string" where
  "written es = concat (map (\<lambda>e. case e of Wrote s \<Rightarrow> s | _ \<Rightarrow> []) es)"

text \<open>\<open>error_text\<close> is the method \<open>Error\<close>. The exit code is compared with the status constants.\<close>

definition execution_result ::
  "(go_error \<Rightarrow> string) \<Rightarrow> string \<Rightarrow> string list \<Rightarrow> run_event list \<Rightarrow> int \<Rightarrow> go_error option \<Rightarrow> executionResult" where
  "execution_result error_text command arguments events exitCode err =
     \<lparr>er_Command = command @ '' '' @ join '' '' arguments,
      er_Result = (if err \<noteq> None then ''Failed'' else if exitCode = status_int Fail then ''Failed''
        else if exitCode = status_int Timeout then ''Timeout'' else ''Success''),
      er_ExitCode = exitCode, er_Output = written events,
      er_ErrorMessage = (case err of None \<Rightarrow> [] | Some e \<Rightarrow> error_text e)\<rparr>"

definition ReportCommandOutput ::
  "env \<Rightarrow> machine \<Rightarrow> (go_error \<Rightarrow> string) \<Rightarrow> string \<Rightarrow> string \<Rightarrow> string list \<Rightarrow> world \<Rightarrow>
   ((string \<times> go_error option) \<times> world) outcome" where
  "ReportCommandOutput env mc error_text reportType command arguments w =
     map_ret (\<lambda>((events, exitCode, status, err), pc, w1).
       SendReport env \<lparr>ReportType = reportType,
         Info = execution_json (execution_result error_text command arguments events exitCode err)\<rparr> w1)
       (SyncRun mc [] command arguments 120 NewProcessCmd w)"

text \<open>\<open>ReportPanic\<close>: the report, and whether the agent ends after it.\<close>

definition ReportPanic :: "env \<Rightarrow> string \<Rightarrow> string \<Rightarrow> bool \<Rightarrow> world \<Rightarrow> bool \<times> world" where
  "ReportPanic env payload stacktrace exits w =
     (exits, snd (SendReport env \<lparr>ReportType = ''AgentPanic'',
        Info = json_object [(''panic'', json_string payload), (''stacktrace'', json_string stacktrace),
          (''ignore'', json_bool (\<not> exits))]\<rparr> w))"

text \<open>The information and the context of a failed update are JSON texts of the library.\<close>

definition ReportUpdateFailure :: "env \<Rightarrow> string \<Rightarrow> string \<Rightarrow> string \<Rightarrow> string \<Rightarrow> world \<Rightarrow> (string \<times> go_error option) \<times> world" where
  "ReportUpdateFailure env failureType updateInfo failureContext errorMessage w =
     SendReport env \<lparr>ReportType = ''AgentUpdateFailure:'' @ failureType,
       Info = json_object [(''updateInfo'', updateInfo), (''failureContext'', failureContext),
         (''errorMessage'', json_string errorMessage)]\<rparr> w"

section \<open>Reading a JSON string\<close>

text \<open>What a reader makes of the text between the quotes.\<close>

definition hex_value :: "char \<Rightarrow> nat" where
  "hex_value c = (if byte c < 58 then byte c - 48 else byte c - 87)"

definition hex4_value :: "string \<Rightarrow> nat" where
  "hex4_value s = fold (\<lambda>c v. 16 * v + hex_value c) (take 4 s) 0"

definition simple_escape :: "char \<Rightarrow> char" where
  "simple_escape c = (if c = CHR ''n'' then char_of (10 :: nat) else if c = CHR ''r'' then char_of (13 :: nat)
     else if c = CHR ''t'' then char_of (9 :: nat) else c)"

fun json_read :: "nat \<Rightarrow> string \<Rightarrow> string \<Rightarrow> (string \<times> string) option" where
  "json_read 0 acc s = None"
| "json_read (Suc k) acc [] = None"
| "json_read (Suc k) acc (c # s) =
     (if c = dquote then Some (acc, s)
      else if c = backslash then
        (case s of [] \<Rightarrow> None
         | e # s' \<Rightarrow> if e = CHR ''u'' then (if length s' < 4 then None else json_read k (acc @ utf8 (hex4_value s')) (drop 4 s'))
            else json_read k (acc @ [simple_escape e]) s')
      else json_read k (acc @ [c]) s)"

section \<open>Lemmas\<close>

lemma hex_value_lower: "n < 16 \<Longrightarrow> hex_value (hex_lower n) = n"
  by (auto simp: hex_value_def hex_lower_def)

lemma hex4_value_hex4:
  assumes "n < 65536" shows "hex4_value (hex4 n @ s) = n"
proof -
  have "hex4_value (hex4 n @ s)
    = 16 * (16 * (16 * (n div 4096 mod 16) + n div 256 mod 16) + n div 16 mod 16) + n mod 16"
    by (simp add: hex4_value_def hex4_def hex_value_lower)
  also have "\<dots> = n"
  proof -
    have "n div 4096 < 16" using assms by (intro less_mult_imp_div_less) simp
    moreover have "n div 256 = n div 4096 * 16 + n div 256 mod 16" "n div 16 = n div 256 * 16 + n div 16 mod 16"
      "n = n div 16 * 16 + n mod 16"
      using div_mult_mod_eq [of "n div 256" 16] div_mult_mod_eq [of "n div 16" 16] div_mult_mod_eq [of n 16]
      by (simp_all add: div_mult2_eq [symmetric])
    ultimately show ?thesis by (simp add: mult.commute)
  qed
  finally show ?thesis .
qed

lemma length_hex4 [simp]: "length (hex4 n) = 4"
  by (simp add: hex4_def)

lemma json_body_utf8:
  assumes "valid_rune r" shows "json_body (utf8 r @ s) = json_rune r @ json_body s"
proof -
  have "length (utf8 RuneError) = 3" by code_simp
  then have "\<not> (r = RuneError \<and> length (utf8 r) = 1)" by auto
  with decode_utf8 [OF assms, of s] show ?thesis by (subst json_body.simps) (auto simp: Let_def)
qed

lemma json_read_plain:
  "list_all (\<lambda>c. c \<noteq> dquote \<and> c \<noteq> backslash) cs \<Longrightarrow>
    json_read (length cs + k) acc (cs @ s) = json_read k (acc @ cs) s"
  by (induction cs arbitrary: acc) simp_all

lemma utf8_no_escape: "r \<noteq> 34 \<Longrightarrow> r \<noteq> 92 \<Longrightarrow> list_all (\<lambda>c. c \<noteq> dquote \<and> c \<noteq> backslash) (utf8 r)"
proof -
  assume r: "r \<noteq> 34" "r \<noteq> 92"
  define q where "q = (if valid_rune r then r else RuneError)"
  have q: "q \<noteq> 34" "q \<noteq> 92" "q < 1114112" using r by (auto simp: q_def valid_rune_def)
  have "list_all (\<lambda>b. b < 256 \<and> b \<noteq> 34 \<and> b \<noteq> 92) (utf8_bytes q)" using q by (auto simp: utf8_bytes_def)
  then show ?thesis
    by (auto simp: utf8_def q_def [symmetric] list_all_iff dquote_def backslash_def byte_eq_iff [symmetric])
qed

lemma short_escapes:
  "list_all (\<lambda>r. json_rune r = [backslash, char_of r] \<and> [simple_escape (char_of r)] = utf8 r \<and> char_of r \<noteq> CHR ''u'') [34, 92]"
  "list_all (\<lambda>r. json_rune r = [backslash, json_rune r ! 1] \<and> [simple_escape (json_rune r ! 1)] = utf8 r
     \<and> json_rune r ! 1 \<noteq> CHR ''u'') [10, 13, 9]"
  by code_simp+

lemma json_read_rune:
  assumes "valid_rune r" "length (json_rune r @ s) < k"
  shows "\<exists>k'>length s. json_read k acc (json_rune r @ s) = json_read k' (acc @ utf8 r) s"
proof -
  obtain k0 where k: "k = Suc k0" using assms(2) by (cases k) auto
  have bq: "backslash \<noteq> dquote" "CHR ''u'' \<noteq> dquote" by code_simp+
  consider (quoted) "r = 34 \<or> r = 92" | (named) "r = 10 \<or> r = 13 \<or> r = 9"
    | (hex) "\<not> (r = 34 \<or> r = 92 \<or> r = 10 \<or> r = 13 \<or> r = 9)" "r < 32 \<or> r = 60 \<or> r = 62 \<or> r = 38 \<or> r = 8232 \<or> r = 8233"
    | (plain) "\<not> (r = 34 \<or> r = 92 \<or> r = 10 \<or> r = 13 \<or> r = 9)" "\<not> (r < 32 \<or> r = 60 \<or> r = 62 \<or> r = 38 \<or> r = 8232 \<or> r = 8233)"
    by blast
  then show ?thesis
  proof cases
    case quoted
    then have "json_rune r = [backslash, char_of r]" "[simple_escape (char_of r)] = utf8 r" "char_of r \<noteq> CHR ''u''"
      using short_escapes(1) unfolding list.pred_inject by blast+
    then have "json_read k acc (json_rune r @ s) = json_read k0 (acc @ utf8 r) s" using bq by (simp add: k)
    moreover have "length s < k0" using assms(2) k \<open>json_rune r = [backslash, char_of r]\<close> by simp
    ultimately show ?thesis by blast
  next
    case named
    then obtain e where e: "json_rune r = [backslash, e]" "[simple_escape e] = utf8 r" "e \<noteq> CHR ''u''"
      using short_escapes(2) unfolding list.pred_inject by blast+
    then have "json_read k acc (json_rune r @ s) = json_read k0 (acc @ utf8 r) s" using bq by (simp add: k)
    moreover have "length s < k0" using assms(2) k e(1) by simp
    ultimately show ?thesis by blast
  next
    case hex
    then have j: "json_rune r = backslash # CHR ''u'' # hex4 r" by (simp add: json_rune_def)
    have "r < 65536" using hex(2) by auto
    then have "hex4_value (hex4 r @ s) = r" by (rule hex4_value_hex4)
    then have "json_read k acc (json_rune r @ s) = json_read k0 (acc @ utf8 r) s" using bq j by (simp add: k)
    moreover have "length s < k0" using assms(2) k j by simp
    ultimately show ?thesis by blast
  next
    case plain
    then have j: "json_rune r = utf8 r" by (simp add: json_rune_def)
    have "list_all (\<lambda>c. c \<noteq> dquote \<and> c \<noteq> backslash) (utf8 r)" using plain by (intro utf8_no_escape) auto
    from json_read_plain [OF this, of "k - length (utf8 r)" acc s] assms(2) j show ?thesis
      by (intro exI [of _ "k - length (utf8 r)"]) simp
  qed
qed

lemma json_read_runes:
  assumes "list_all valid_rune rs" "length (concat (map json_rune rs) @ dquote # rest) < k"
  shows "json_read k acc (concat (map json_rune rs) @ dquote # rest) = Some (acc @ concat (map utf8 rs), rest)"
  using assms
proof (induction rs arbitrary: k acc)
  case Nil
  then show ?case by (cases k) auto
next
  case (Cons r rs)
  obtain k' where "length (concat (map json_rune rs) @ dquote # rest) < k'"
    "json_read k acc (json_rune r @ concat (map json_rune rs) @ dquote # rest)
      = json_read k' (acc @ utf8 r) (concat (map json_rune rs) @ dquote # rest)"
    using json_read_rune [of r "concat (map json_rune rs) @ dquote # rest" k acc] Cons.prems by auto
  with Cons show ?case by simp
qed

lemma json_body_runes: "list_all valid_rune rs \<Longrightarrow> json_body (concat (map utf8 rs)) = concat (map json_rune rs)"
  by (induction rs) (simp_all add: json_body_utf8, simp add: json_body.simps)

section \<open>Properties\<close>

text \<open>What a report says is what the server reads: for every text of valid UTF-8 the JSON string the agent
  writes is read back as exactly this text, and the reader stops behind its closing quote.\<close>

theorem json_string_roundtrip:
  assumes "list_all valid_rune rs" "length (json_string (concat (map utf8 rs)) @ rest) < k"
  shows "\<exists>body. json_string (concat (map utf8 rs)) @ rest = dquote # body
    \<and> json_read k [] body = Some (concat (map utf8 rs), rest)"
  using json_read_runes [OF assms(1), of rest k "[]"] assms(2)
  by (simp add: json_string_def json_body_runes [OF assms(1)])

theorem json_string_roundtrip_witness:
  "\<exists>body. json_string (concat (map utf8 [34, 60, 8364, 10])) @ '',x'' = dquote # body
    \<and> json_read 100 [] body = Some (concat (map utf8 [34, 60, 8364, 10]), '',x'')"
proof (rule json_string_roundtrip)
  show "list_all valid_rune [34, 60, 8364, 10]" by (simp add: valid_rune_def)
  show "length (json_string (concat (map utf8 [34, 60, 8364, 10])) @ '',x'') < 100" by code_simp
qed

definition sleeps :: "effect list \<Rightarrow> nat list" where
  "sleeps es = concat (map (\<lambda>e. case e of Slept n \<Rightarrow> [n] | _ \<Rightarrow> []) es)"

lemma sleeps_simps [simp]:
  "sleeps [] = []" "sleeps (xs @ ys) = sleeps xs @ sleeps ys" "sleeps (Slept n # es) = n # sleeps es"
  "sleeps (HttpSent m u b # es) = sleeps es"
  by (simp_all add: sleeps_def)

lemma HttpPost_effects:
  "\<exists>es. trace (snd (HttpPost env url body w)) = trace w @ HttpSent ''POST'' url body # es \<and> posts es = [] \<and> sleeps es = []"
  by (simp add: HttpPost_def send_request_def split: transport_reply.splits prod.splits)

lemma report_retries_effects:
  "\<exists>es n. trace (snd (report_retries env url payload ds r w)) = trace w @ es \<and> n \<le> length ds
     \<and> sleeps es = map (\<lambda>i. 2 ^ i) (take n ds) \<and> posts es = replicate n (HttpSent ''POST'' url payload)
     \<and> (snd (fst (report_retries env url payload ds r w)) \<noteq> None \<longrightarrow> n = length ds)"
proof (induction ds arbitrary: r w)
  case (Cons i ds)
  show ?case
  proof (cases "snd r")
    case None
    then show ?thesis by (intro exI [of _ "[]"] exI [of _ 0]) simp
  next
    case (Some e)
    define w1 where "w1 = go_sleep (2 ^ i) w"
    obtain r' w' where p: "HttpPost env url payload w1 = (r', w')" by fastforce
    obtain es1 where 1: "trace w' = trace w1 @ HttpSent ''POST'' url payload # es1" "posts es1 = []" "sleeps es1 = []"
      using HttpPost_effects [of env url payload w1] p by auto
    obtain es n where 2: "trace (snd (report_retries env url payload ds r' w')) = trace w' @ es" "n \<le> length ds"
      "sleeps es = map (\<lambda>i. 2 ^ i) (take n ds)" "posts es = replicate n (HttpSent ''POST'' url payload)"
      "snd (fst (report_retries env url payload ds r' w')) \<noteq> None \<longrightarrow> n = length ds"
      using Cons.IH [where r = r' and w = w'] by blast
    have "report_retries env url payload (i # ds) r w = report_retries env url payload ds r' w'"
      using Some p by (simp add: w1_def)
    with 1 2 show ?thesis
      by (intro exI [of _ "Slept (2 ^ i) # HttpSent ''POST'' url payload # es1 @ es"] exI [of _ "Suc n"]) (simp add: w1_def)
  qed
qed simp

text \<open>A report is posted once, and again up to three times while the post fails, after pauses of one, two and
  four seconds; an error is returned only after all four posts, and then without a response.\<close>

theorem SendReport_backs_off:
  "let (r, w') = SendReport env report w in
     \<exists>es n. trace w' = trace w @ es \<and> n \<le> 3 \<and> sleeps es = take n [1, 2, 4]
       \<and> posts es = replicate (Suc n) (HttpSent ''POST'' (GetClientReportService env) (report_payload report))
       \<and> (snd r = None \<or> n = 3 \<and> fst r = [])"
proof -
  let ?url = "GetClientReportService env" and ?p = "report_payload report"
  obtain r1 w1 where p: "HttpPost env ?url ?p w = (r1, w1)" by fastforce
  obtain es1 where 1: "trace w1 = trace w @ HttpSent ''POST'' ?url ?p # es1" "posts es1 = []" "sleeps es1 = []"
    using HttpPost_effects [of env ?url ?p w] p by auto
  obtain r2 w2 where q: "report_retries env ?url ?p [0, 1, 2] r1 w1 = (r2, w2)" by fastforce
  obtain es n where 2: "trace w2 = trace w1 @ es" "n \<le> 3" "sleeps es = map (\<lambda>i. 2 ^ i) (take n [0, 1, 2])"
    "posts es = replicate n (HttpSent ''POST'' ?url ?p)" "snd r2 \<noteq> None \<longrightarrow> n = 3"
  proof -
    have "length [0, 1, 2 :: nat] = 3" by simp
    with report_retries_effects [of env ?url ?p "[0, 1, 2]" r1 w1, unfolded q fst_conv snd_conv] that show ?thesis by metis
  qed
  have "map (\<lambda>i. 2 ^ i) (take n [0, 1, 2]) = take n [1, 2, 4 :: nat]" by (simp add: take_map [symmetric])
  with 1 2 p q show ?thesis
    by (simp add: SendReport_def Let_def)
qed

text \<open>The result of a reported command is read off its exit code, as if that were the status of its process: a
  command that ends with code 2 is reported as timed out, one with any code from 3 on as a success.\<close>

theorem reported_result_confuses_codes:
  "er_Result (execution_result error_text command arguments events exitCode err) =
     (if err \<noteq> None \<or> exitCode = 1 then ''Failed'' else if exitCode = 2 then ''Timeout'' else ''Success'')"
  by (simp add: execution_result_def)

end
