(* ===== verification/Api_Call.thy ===== *)
theory Api_Call
  imports Client_Report "HOL-Library.List_Lexorder" "HOL-Library.Char_ord"
begin

text \<open>
  Calls of the server's interface, \<open>CallApi\<close> of \<open>agent/util/httputil.go\<close>, and the two ways the
  JSON library writes what they carry: maps with sorted keys, and texts without the escapes of HTML
  (\<open>agent/util/jsonutil\<close>).
\<close>

section \<open>JSON\<close>

text \<open>A map of texts: the keys are written in ascending order.\<close>

definition json_map :: "(string \<times> string) list \<Rightarrow> string" where
  "json_map ps = json_object (map (\<lambda>(k, v). (k, json_string v)) (sort_key fst ps))"

definition json_list :: "string list \<Rightarrow> string" where
  "json_list xs = ''['' @ join '','' xs @ '']''"

text \<open>The encoder with \<open>SetEscapeHTML(false)\<close> writes the three characters of HTML as they are.\<close>

definition plain_rune :: "rune \<Rightarrow> string" where
  "plain_rune r = (if r = 60 \<or> r = 62 \<or> r = 38 then utf8 r else json_rune r)"

function plain_body :: "string \<Rightarrow> string" where
  "plain_body s =
     (if s = [] then []
      else let (r, n) = decode_rune s in
        (if r = RuneError \<and> n = 1 then backslash # CHR ''u'' # hex4 RuneError else plain_rune r) @ plain_body (drop n s))"
  by pat_completeness auto
termination
proof (relation "measure length", simp)
  fix s :: string and x r n
  assume "s \<noteq> []" "x = decode_rune s" "(r, n) = x"
  then show "(drop n s, s) \<in> measure length"
    using decode_rune_size [of s] by (cases s) (auto simp: eq_commute [of "(r, n)"])
qed

declare plain_body.simps [simp del]

definition plain_string :: "string \<Rightarrow> string" where
  "plain_string s = dquote # plain_body s @ [dquote]"

definition plain_object :: "(string \<times> string) list \<Rightarrow> string" where
  "plain_object fs = ''{'' @ join '','' (map (\<lambda>(k, v). plain_string k @ '':'' @ v) fs) @ ''}''"

text \<open>What a text is after it has been written as JSON and read again: bytes that are no characters
  are replaced by U+FFFD.\<close>

definition coerced :: "string \<Rightarrow> string" where
  "coerced s = concat (map utf8 (runes s))"

lemma json_examples:
  "json_map [(''b'', ''1''), (''a'', ''x<'')] = ''{'' @ [dquote] @ ''a'' @ [dquote] @ '':'' @ [dquote] @ ''x'' @ [backslash] @ ''u003c''
     @ [dquote] @ '','' @ [dquote] @ ''b'' @ [dquote] @ '':'' @ [dquote] @ ''1'' @ [dquote] @ ''}''"
  "plain_string ''x<'' = [dquote] @ ''x<'' @ [dquote]" "coerced ''a'' = ''a''"
  by code_simp+

section \<open>Calls\<close>

text \<open>
  The part of every answer, and the two libraries that read one: whether it is JSON at all, and the
  fields it fills in before the first error.
\<close>

record 'r ApiResponse =
  ErrCode :: string
  ErrMsg :: string
  Result :: "'r option"

definition empty_response :: "'r ApiResponse" where
  "empty_response = \<lparr>ErrCode = [], ErrMsg = [], Result = None\<rparr>"

definition invalid_json :: "string \<Rightarrow> go_error" where
  "invalid_json response = PlainError (''invalid json response: '' @ response)"

text \<open>
  The error of a POST is assigned to a variable of the inner block and never looked at again; the
  error of a GET, whose parameters are listed in the order of the map's iteration, is returned.
\<close>

definition CallApi ::
  "env \<Rightarrow> (string \<Rightarrow> bool) \<Rightarrow> (string \<Rightarrow> 'r ApiResponse \<times> go_error option) \<Rightarrow> string \<Rightarrow> string \<Rightarrow> (string \<times> string) list \<Rightarrow>
   world \<Rightarrow> ('r ApiResponse \<times> go_error option) \<times> world" where
  "CallApi env valid unmarshal httpMethod url parameters w =
     (let ((response, err), w1) =
        (if httpMethod = ''GET'' then
           HttpGet env (if parameters = [] then url
             else url @ ''?'' @ join ''&'' (map (\<lambda>(k, v). k @ ''='' @ v) parameters)) w
         else (let ((response, innerErr), w2) = HttpPost env url (json_map parameters) w in ((response, None), w2))) in
      case err of
        Some e \<Rightarrow> ((empty_response, Some e), w1)
      | None \<Rightarrow> (if \<not> valid response then ((empty_response, Some (invalid_json response)), w1) else (unmarshal response, w1)))"

text \<open>What the callers make of an answer: an error code that is not below \<open>400\<close> in the order of texts
  is an error, and so may a missing result be.\<close>

definition checked_code :: "'r ApiResponse \<times> go_error option \<Rightarrow> 'r ApiResponse \<times> go_error option" where
  "checked_code r = (case r of (resp, err) \<Rightarrow>
     (resp, if err = None \<and> ''400'' \<le> ErrCode resp then Some (PlainError (ErrCode resp @ '' '' @ ErrMsg resp)) else err))"

definition checked_result :: "string \<Rightarrow> 'r ApiResponse \<times> go_error option \<Rightarrow> 'r ApiResponse \<times> go_error option" where
  "checked_result name r = (case r of (resp, err) \<Rightarrow>
     (resp, if err = None \<and> Result resp = None then Some (PlainError (''result is missing in '' @ name @ '' response'')) else err))"

section \<open>Lemmas\<close>

lemma checked_result_ok:
  "checked_result name (checked_code r) = (resp, None) \<Longrightarrow> \<exists>x. Result resp = Some x \<and> \<not> ''400'' \<le> ErrCode resp \<and> snd r = None"
  by (auto simp: checked_result_def checked_code_def split: prod.splits if_splits)

lemma CallApi_post:
  "httpMethod \<noteq> ''GET'' \<Longrightarrow> CallApi env valid unmarshal httpMethod url parameters w =
     (let ((response, innerErr), w1) = HttpPost env url (json_map parameters) w in
      (if valid response then unmarshal response else (empty_response, Some (invalid_json response)), w1))"
  by (simp add: CallApi_def Let_def split_beta)

lemma CallApi_post_trace:
  assumes "httpMethod \<noteq> ''GET''"
  shows "\<exists>es. trace (snd (CallApi env valid unmarshal httpMethod url parameters w))
      = trace w @ HttpSent ''POST'' url (json_map parameters) # es \<and> posts es = []"
  using HttpPost_trace [of env url "json_map parameters" w] by (simp add: CallApi_post [OF assms] split_beta Let_def)

text \<open>An answer of a POST with a status of failure counts as a success when its content is JSON: the
  status has no influence on the result.\<close>

theorem CallApi_ignores_status:
  assumes "transport env (ticks w) ''POST'' url (json_map parameters) = Reply status content"
  shows "fst (CallApi env valid unmarshal ''POST'' url parameters w)
    = (if valid content then unmarshal content else (empty_response, Some (invalid_json content)))"
  using assms by (simp add: CallApi_post HttpPost_def send_request_def http_result_def Let_def)

definition failing_server :: env where
  "failing_server = \<lparr>server_host = ''h'', transport = (\<lambda>n m u b. Reply 500 ''{}''), clock = (\<lambda>n. 0), clock_zone = (\<lambda>n. 0),
     zone_name = [], zone_offset = (\<lambda>z t. 0)\<rparr>"

theorem CallApi_ignores_status_witness:
  "fst (CallApi failing_server (\<lambda>s. True) (\<lambda>s. (empty_response :: unit ApiResponse, None)) ''POST'' ''u'' [] \<lparr>ticks = 0, trace = []\<rparr>)
    = (empty_response, None)"
  by (subst CallApi_ignores_status [where status = 500 and content = "''{}''"]) (simp_all add: failing_server_def)

end
