(* ===== verification/Metrics.thy ===== *)
theory Metrics
  imports Api_Call "HOL-Library.Word" "HOL-Library.AList"
begin

text \<open>
  The events of \<open>agent/metrics\<close>: what each kind of event says of itself, the map of its words, the
  common part that is computed once, and the report, of which a limited number is sent in ten minutes.
\<close>

section \<open>Names\<close>

definition EVENT_CHANNEL_FAILED :: string where "EVENT_CHANNEL_FAILED = ''agent.channel.failed''"
definition EVENT_CHANNEL_SWITCH :: string where "EVENT_CHANNEL_SWITCH = ''agent.channel.switch''"
definition EVENT_UPDATE_FAILED :: string where "EVENT_UPDATE_FAILED = ''agent.update.failed''"
definition EVENT_TASK_FAILED :: string where "EVENT_TASK_FAILED = ''agent.task.failed''"
definition EVENT_TASK_WARN :: string where "EVENT_TASK_WARN = ''agent.task.warn''"
definition EVENT_HYBRID_REGISTER :: string where "EVENT_HYBRID_REGISTER = ''agent.hybrid.register''"
definition EVENT_HYBRID_UNREGISTER :: string where "EVENT_HYBRID_UNREGISTER = ''agent.hybrid.unregister''"
definition EVENT_SESSION_FAILED :: string where "EVENT_SESSION_FAILED = ''agent.session.failed''"
definition EVENT_PERF_CPU_OVERLOAD :: string where "EVENT_PERF_CPU_OVERLOAD = ''agent.pref.cup.overload''"
definition EVENT_PERF_MEM_OVERLOAD :: string where "EVENT_PERF_MEM_OVERLOAD = ''agent.pref.mem.overload''"
definition EVENT_PERF_SAMPLE :: string where "EVENT_PERF_SAMPLE = ''agent.pref.sample''"
definition EVENT_BASE_STARTUP :: string where "EVENT_BASE_STARTUP = ''agent.startup''"
definition EVENT_BASE_SHUTDOWN_FAILED :: string where "EVENT_BASE_SHUTDOWN_FAILED = ''agent.shutdown.failed''"
definition EVENT_BASE_VIRTIO :: string where "EVENT_BASE_VIRTIO = ''agent.virtio''"
definition EVENT_KDUMP :: string where "EVENT_KDUMP = ''agent.kdump''"
definition EVENT_PLUGIN_EXECUTE :: string where "EVENT_PLUGIN_EXECUTE = ''agent.plugin.execute''"
definition EVENT_PLUGIN_LOCALLIST :: string where "EVENT_PLUGIN_LOCALLIST = ''agent.plugin.locallist''"
definition EVENT_PLUGIN_UPDATE :: string where "EVENT_PLUGIN_UPDATE = ''agent.plugin.update''"
definition EVENT_LINUX_GUESTOS_PANIC :: string where "EVENT_LINUX_GUESTOS_PANIC = ''Linux-GuestOS-Panic''"
definition EVENT_WINDOWS_WER_SYSTEM_ERRORRE_PORTING :: string where "EVENT_WINDOWS_WER_SYSTEM_ERRORRE_PORTING = ''Microsoft-Windows-WER-SystemErrorReporting''"
definition EVENT_AGENT_LAST_PANIC :: string where "EVENT_AGENT_LAST_PANIC = ''agent.last.panic''"
definition EVENT_CATEGORY_CHANNEL :: string where "EVENT_CATEGORY_CHANNEL = ''CHANNEL''"
definition EVENT_CATEGORY_UPDATE :: string where "EVENT_CATEGORY_UPDATE = ''UPDATE''"
definition EVENT_CATEGORY_TASK :: string where "EVENT_CATEGORY_TASK = ''TASK''"
definition EVENT_CATEGORY_HYBRID :: string where "EVENT_CATEGORY_HYBRID = ''HYBRID''"
definition EVENT_CATEGORY_SESSION :: string where "EVENT_CATEGORY_SESSION = ''SESSION''"
definition EVENT_CATEGORY_PERF :: string where "EVENT_CATEGORY_PERF = ''PERF''"
definition EVENT_CATEGORY_STARTUP :: string where "EVENT_CATEGORY_STARTUP = ''STARTUP''"
definition EVENT_CATEGORY_SHUTDOWN :: string where "EVENT_CATEGORY_SHUTDOWN = ''SHUTDOWN''"
definition EVENT_CATEGORY_VIRTIO :: string where "EVENT_CATEGORY_VIRTIO = ''VIRTIO''"
definition EVENT_CATEGORY_KDUMP :: string where "EVENT_CATEGORY_KDUMP = ''KDUMP''"
definition EVENT_CATEGORY_PLUGIN :: string where "EVENT_CATEGORY_PLUGIN = ''PLUGIN''"
definition EVENT_CATEGORY_PANIC :: string where "EVENT_CATEGORY_PANIC = ''PANIC''"
definition EVENT_SUBCATEGORY_CHANNEL_GSHELL :: string where "EVENT_SUBCATEGORY_CHANNEL_GSHELL = ''gshell''"
definition EVENT_SUBCATEGORY_CHANNEL_WS :: string where "EVENT_SUBCATEGORY_CHANNEL_WS = ''ws''"
definition EVENT_SUBCATEGORY_CHANNEL_MGR :: string where "EVENT_SUBCATEGORY_CHANNEL_MGR = ''channelmgr''"
definition EVENT_SUBCATEGORY_HYBRID_REGISTER :: string where "EVENT_SUBCATEGORY_HYBRID_REGISTER = ''register''"
definition EVENT_SUBCATEGORY_HYBRID_UNREGISTER :: string where "EVENT_SUBCATEGORY_HYBRID_UNREGISTER = ''unregister''"
definition EVENT_SUBCATEGORY_PERF_CPU :: string where "EVENT_SUBCATEGORY_PERF_CPU = ''cpu''"
definition EVENT_SUBCATEGORY_PERF_MEM :: string where "EVENT_SUBCATEGORY_PERF_MEM = ''mem''"
definition EVENT_SUBCATEGORY_GOESTOS :: string where "EVENT_SUBCATEGORY_GOESTOS = ''guestos''"
definition EVENT_LEVEL_ERROR :: string where "EVENT_LEVEL_ERROR = ''ERROR''"
definition EVENT_LEVEL_WARN :: string where "EVENT_LEVEL_WARN = ''WARN''"
definition EVENT_LEVEL_INFO :: string where "EVENT_LEVEL_INFO = ''INFO''"

section \<open>Events\<close>

record MetricsEvent =
  EventId :: string
  Category :: string
  SubCategory :: string
  EventLevel :: string
  EventTime :: int
  Common :: string
  KeyWords :: string

text \<open>The common part, and the machine it is taken from.\<close>

record CommonInfo =
  ci_Arch :: string
  ci_InstanceId :: string
  ci_OsVersion :: string
  ci_VirtualType :: string
  ci_Distribution :: string
  ci_KernelVersion :: string

record metrics =
  mt_commonInfoStr :: "string option"
  mt_reportCounter :: "16 word"
  mt_startTime :: instant
  mt_world :: world

record metrics_env =
  me_env :: env
  me_info :: "nat \<Rightarrow> CommonInfo"
  me_platform :: "nat \<Rightarrow> string \<times> string"

definition common_json :: "CommonInfo \<Rightarrow> string" where
  "common_json c = json_object
     [(''arch'', json_string (ci_Arch c)), (''instanceId'', json_string (ci_InstanceId c)), (''osVersion'', json_string (ci_OsVersion c)),
      (''virtualType'', json_string (ci_VirtualType c)), (''distribution'', json_string (ci_Distribution c)),
      (''kernelVersion'', json_string (ci_KernelVersion c))]"

definition event_json :: "MetricsEvent \<Rightarrow> string" where
  "event_json e = json_object
     [(''eventId'', json_string (EventId e)), (''category'', json_string (Category e)), (''subCategory'', json_string (SubCategory e)),
      (''eventLevel'', json_string (EventLevel e)), (''eventTime'', itoa (EventTime e)), (''common'', json_string (Common e)),
      (''keywords'', json_string (KeyWords e))]"

text \<open>The words are keys and values in turn; an odd number of them is an index out of range. A key that
  comes again has its last value.\<close>

fun word_pairs :: "(string \<times> string) list \<Rightarrow> string list \<Rightarrow> (string \<times> string) list outcome" where
  "word_pairs kmp [] = Returns kmp"
| "word_pairs kmp [k] = Panics IndexOutOfRange"
| "word_pairs kmp (k # v # r) = word_pairs (AList.update k v kmp) r"

definition genKeyWordsStr :: "string list \<Rightarrow> string outcome" where
  "genKeyWordsStr keywords = (if length keywords < 2 then Returns [] else map_ret json_map (word_pairs [] keywords))"

definition getCommonInfoStr :: "metrics_env \<Rightarrow> metrics \<Rightarrow> string \<times> metrics" where
  "getCommonInfoStr me m =
     (case mt_commonInfoStr m of
        Some s \<Rightarrow> (s, m)
      | None \<Rightarrow>
          (let n = ticks (mt_world m); c = me_info me n; p = me_platform me n;
               s = common_json (c\<lparr>ci_Distribution := fst p @ '' '' @ snd p\<rparr>) in
           (s, m\<lparr>mt_commonInfoStr := Some s, mt_world := tick (mt_world m)\<rparr>)))"

text \<open>The fields are computed in their order: the time in milliseconds, the common part, the words.\<close>

definition new_event ::
  "string \<Rightarrow> string \<Rightarrow> string \<Rightarrow> string \<Rightarrow> metrics_env \<Rightarrow> string list \<Rightarrow> metrics \<Rightarrow> MetricsEvent outcome \<times> metrics" where
  "new_event eid category sub level me keywords m =
     (let (t, w) = read_clock (me_env me) (mt_world m); (common, m1) = getCommonInfoStr me (m\<lparr>mt_world := w\<rparr>) in
      (map_ret (\<lambda>k. \<lparr>EventId = eid, Category = category, SubCategory = sub, EventLevel = level, EventTime = sgn t * (\<bar>t\<bar> div 1000000),
           Common = common, KeyWords = k\<rparr>) (genKeyWordsStr keywords), m1))"

definition GetChannelFailEvent where
  "GetChannelFailEvent subCategory = new_event EVENT_CHANNEL_FAILED EVENT_CATEGORY_CHANNEL subCategory EVENT_LEVEL_ERROR"

definition GetChannelSwitchEvent where
  "GetChannelSwitchEvent = new_event EVENT_CHANNEL_SWITCH EVENT_CATEGORY_CHANNEL [] EVENT_LEVEL_INFO"

definition GetUpdateFailedEvent where
  "GetUpdateFailedEvent = new_event EVENT_UPDATE_FAILED EVENT_CATEGORY_UPDATE [] EVENT_LEVEL_ERROR"

definition GetTaskFailedEvent where
  "GetTaskFailedEvent = new_event EVENT_TASK_FAILED EVENT_CATEGORY_TASK [] EVENT_LEVEL_ERROR"

definition GetTaskWarnEvent where
  "GetTaskWarnEvent = new_event EVENT_TASK_WARN EVENT_CATEGORY_TASK [] EVENT_LEVEL_WARN"

definition GetHybridRegisterEvent where
  "GetHybridRegisterEvent success = new_event EVENT_HYBRID_REGISTER EVENT_CATEGORY_HYBRID EVENT_SUBCATEGORY_HYBRID_REGISTER (if success then EVENT_LEVEL_INFO else EVENT_LEVEL_ERROR)"

definition GetHybridUnregisterEvent where
  "GetHybridUnregisterEvent success = new_event EVENT_HYBRID_UNREGISTER EVENT_CATEGORY_HYBRID EVENT_SUBCATEGORY_HYBRID_UNREGISTER (if success then EVENT_LEVEL_INFO else EVENT_LEVEL_ERROR)"

definition GetSessionFailedEvent where
  "GetSessionFailedEvent = new_event EVENT_SESSION_FAILED EVENT_CATEGORY_SESSION [] EVENT_LEVEL_ERROR"

definition GetVirtioVersionEvent where
  "GetVirtioVersionEvent = new_event EVENT_BASE_VIRTIO EVENT_CATEGORY_VIRTIO [] EVENT_LEVEL_INFO"

definition GetCpuOverloadEvent where
  "GetCpuOverloadEvent = new_event EVENT_PERF_CPU_OVERLOAD EVENT_CATEGORY_PERF EVENT_SUBCATEGORY_PERF_CPU EVENT_LEVEL_ERROR"

definition GetMemOverloadEvent where
  "GetMemOverloadEvent = new_event EVENT_PERF_MEM_OVERLOAD EVENT_CATEGORY_PERF EVENT_SUBCATEGORY_PERF_MEM EVENT_LEVEL_ERROR"

definition GetPerfSampleEvent where
  "GetPerfSampleEvent = new_event EVENT_PERF_SAMPLE EVENT_CATEGORY_PERF [] EVENT_LEVEL_INFO"

definition GetBaseStartupEvent where
  "GetBaseStartupEvent = new_event EVENT_BASE_STARTUP EVENT_CATEGORY_STARTUP [] EVENT_LEVEL_INFO"

definition GetShutDownFailedEvent where
  "GetShutDownFailedEvent = new_event EVENT_BASE_SHUTDOWN_FAILED EVENT_CATEGORY_SHUTDOWN [] EVENT_LEVEL_ERROR"

definition GetKdumpServiceStatusEvent where
  "GetKdumpServiceStatusEvent = new_event EVENT_KDUMP EVENT_CATEGORY_KDUMP [] EVENT_LEVEL_INFO"

definition GetPluginExecuteEvent where
  "GetPluginExecuteEvent = new_event EVENT_PLUGIN_EXECUTE EVENT_CATEGORY_PLUGIN [] EVENT_LEVEL_INFO"

definition GetPluginLocalListEvent where
  "GetPluginLocalListEvent = new_event EVENT_PLUGIN_LOCALLIST EVENT_CATEGORY_PLUGIN [] EVENT_LEVEL_INFO"

definition GetPluginUpdateEvent where
  "GetPluginUpdateEvent = new_event EVENT_PLUGIN_UPDATE EVENT_CATEGORY_PLUGIN [] EVENT_LEVEL_INFO"

definition GetLinuxGuestOSPanicEvent where
  "GetLinuxGuestOSPanicEvent = new_event EVENT_LINUX_GUESTOS_PANIC EVENT_CATEGORY_PANIC EVENT_SUBCATEGORY_GOESTOS EVENT_LEVEL_INFO"

definition GetWindowsGuestOSPanicEvent where
  "GetWindowsGuestOSPanicEvent = new_event EVENT_WINDOWS_WER_SYSTEM_ERRORRE_PORTING EVENT_CATEGORY_PANIC EVENT_SUBCATEGORY_GOESTOS EVENT_LEVEL_INFO"

definition GetAgentLastPanicEvent where
  "GetAgentLastPanicEvent = new_event EVENT_AGENT_LAST_PANIC EVENT_CATEGORY_PANIC [] EVENT_LEVEL_INFO"

section \<open>Reports\<close>

definition reportCounterLimit :: "16 word" where "reportCounterLimit = 100"

definition post_metrics :: "metrics_env \<Rightarrow> string \<Rightarrow> string \<Rightarrow> metrics \<Rightarrow> metrics" where
  "post_metrics me url payload m = m\<lparr>mt_world := snd (HttpPost (me_env me) url payload (mt_world m))\<rparr>"

text \<open>More than ten minutes after the last start the counter starts anew; the start is not set before that.\<close>

definition doReport :: "metrics_env \<Rightarrow> string \<Rightarrow> string \<Rightarrow> metrics \<Rightarrow> metrics" where
  "doReport me url payload m =
     (if reportCounterLimit \<le> mt_reportCounter m then
        (let (t, w) = read_clock (me_env me) (mt_world m); m1 = m\<lparr>mt_world := w\<rparr> in
         if 10 * 60 * second < time_sub t (mt_startTime m) then
           (let (t', w') = read_clock (me_env me) w in
            post_metrics me url payload (m1\<lparr>mt_reportCounter := 1, mt_startTime := t', mt_world := w'\<rparr>))
         else m1)
      else post_metrics me url payload (m\<lparr>mt_reportCounter := mt_reportCounter m + 1\<rparr>))"

definition ReportEvent :: "metrics_env \<Rightarrow> MetricsEvent \<Rightarrow> metrics \<Rightarrow> metrics" where
  "ReportEvent me e m = doReport me (GetMetricsService (me_env me)) (event_json e) m"

definition ReportEventSync :: "metrics_env \<Rightarrow> MetricsEvent \<Rightarrow> metrics \<Rightarrow> metrics" where
  "ReportEventSync me e m = post_metrics me (GetMetricsService (me_env me)) (event_json e) m"

section \<open>How many reports are sent\<close>

fun do_reports :: "metrics_env \<Rightarrow> string \<Rightarrow> string list \<Rightarrow> metrics \<Rightarrow> metrics" where
  "do_reports me url [] m = m"
| "do_reports me url (p # ps) m = do_reports me url ps (doReport me url p m)"

definition posted :: "metrics \<Rightarrow> nat" where
  "posted m = length (posts (trace (mt_world m)))"

text \<open>What may still be posted while the clock is between \<open>a\<close> and ten minutes later.\<close>

definition budget :: "instant \<Rightarrow> metrics \<Rightarrow> nat" where
  "budget a m = (if a \<le> mt_startTime m then 100 else 200) - unat (mt_reportCounter m)"

definition clock_within :: "metrics_env \<Rightarrow> instant \<Rightarrow> bool" where
  "clock_within me a \<longleftrightarrow> (\<forall>n. a \<le> clock (me_env me) n \<and> clock (me_env me) n \<le> a + 10 * 60 * second)"

lemma posted_post [simp]: "posted (post_metrics me url p m) = Suc (posted m)"
proof -
  obtain es where "trace (snd (HttpPost (me_env me) url p (mt_world m))) = trace (mt_world m) @ HttpSent ''POST'' url p # es" "posts es = []"
    using HttpPost_trace by blast
  then show ?thesis by (simp add: posted_def post_metrics_def)
qed

lemma posted_fields [simp]:
  "posted (m\<lparr>mt_reportCounter := c\<rparr>) = posted m" "posted (m\<lparr>mt_startTime := t\<rparr>) = posted m"
  "posted (m\<lparr>mt_reportCounter := c, mt_startTime := t, mt_world := w\<rparr>) = length (posts (trace w))"
  by (simp_all add: posted_def)

lemma budget_post [simp]: "budget a (post_metrics me url p m) = budget a m"
  "mt_reportCounter (post_metrics me url p m) = mt_reportCounter m" "mt_startTime (post_metrics me url p m) = mt_startTime m"
  by (simp_all add: budget_def post_metrics_def)

lemma doReport_budget:
  assumes "clock_within me a" "mt_reportCounter m \<le> 100"
  shows "mt_reportCounter (doReport me url p m) \<le> 100" "posted (doReport me url p m) + budget a (doReport me url p m) \<le> posted m + budget a m"
proof -
  have c: "a \<le> clock (me_env me) n" "clock (me_env me) n \<le> a + 10 * 60 * second" for n
    using assms(1) by (auto simp: clock_within_def)
  have "mt_reportCounter (doReport me url p m) \<le> 100 \<and> posted (doReport me url p m) + budget a (doReport me url p m) \<le> posted m + budget a m"
  proof (cases "100 \<le> mt_reportCounter m")
    case False
    then have less: "mt_reportCounter m < 100" by simp
    then have "unat (mt_reportCounter m + 1) = Suc (unat (mt_reportCounter m))" "unat (mt_reportCounter m) < 100"
      by (simp_all add: unat_word_ariths unat_arith_simps word_less_nat_alt)
    moreover have "mt_reportCounter m + 1 \<le> 100" using less by (simp add: inc_le)
    ultimately show ?thesis using False by (auto simp: doReport_def reportCounterLimit_def budget_def)
  next
    case True
    with assms(2) have full: "mt_reportCounter m = 100" by simp
    show ?thesis
    proof (cases "10 * 60 * second < time_sub (clock (me_env me) (ticks (mt_world m))) (mt_startTime m)")
      case False
      then show ?thesis using True full by (simp add: doReport_def reportCounterLimit_def read_clock_def budget_def posted_def)
    next
      case late: True
      have "\<not> a \<le> mt_startTime m"
      proof
        assume "a \<le> mt_startTime m"
        with c [of "ticks (mt_world m)"] have "clock (me_env me) (ticks (mt_world m)) - mt_startTime m \<le> 10 * 60 * second" by linarith
        then have "time_sub (clock (me_env me) (ticks (mt_world m))) (mt_startTime m) \<le> 10 * 60 * second"
          by (auto simp: time_sub_def second_def min_int64_def)
        with late show False by simp
      qed
      then show ?thesis using True late full c [of "Suc (ticks (mt_world m))"]
        by (simp add: doReport_def reportCounterLimit_def read_clock_def budget_def posted_def [of "m\<lparr>mt_world := _\<rparr>"] posted_def [of m])
    qed
  qed
  then show "mt_reportCounter (doReport me url p m) \<le> 100" "posted (doReport me url p m) + budget a (doReport me url p m) \<le> posted m + budget a m"
    by simp_all
qed

text \<open>Within any ten minutes at most two hundred events are sent, however many are reported.\<close>

theorem reports_bounded:
  assumes "clock_within me a" "mt_reportCounter m \<le> 100"
  shows "posted (do_reports me url ps m) \<le> posted m + 200"
proof -
  have "posted (do_reports me url ps m) + budget a (do_reports me url ps m) \<le> posted m + budget a m"
    using assms(2)
  proof (induction ps arbitrary: m)
    case (Cons p ps)
    note step = doReport_budget [OF assms(1) Cons.prems, of url p]
    show ?case using step(2) Cons.IH [OF step(1)] by simp
  qed simp
  moreover have "budget a m \<le> 200" unfolding budget_def by (cases "a \<le> mt_startTime m") simp_all
  ultimately show ?thesis by simp
qed

lemma free_reports:
  assumes "unat (mt_reportCounter m) + length ps \<le> 100"
  shows "posted (do_reports me url ps m) = posted m + length ps \<and> mt_startTime (do_reports me url ps m) = mt_startTime m
     \<and> unat (mt_reportCounter (do_reports me url ps m)) = unat (mt_reportCounter m) + length ps"
  using assms
proof (induction ps arbitrary: m)
  case (Cons p ps)
  then have less: "unat (mt_reportCounter m) < 100" by simp
  then have c: "\<not> reportCounterLimit \<le> mt_reportCounter m" "unat (mt_reportCounter m + 1) = Suc (unat (mt_reportCounter m))"
    by (simp_all add: reportCounterLimit_def word_le_nat_alt unat_word_ariths)
  have one: "doReport me url p m = post_metrics me url p (m\<lparr>mt_reportCounter := mt_reportCounter m + 1\<rparr>)"
    using c(1) by (simp add: doReport_def)
  show ?case using Cons.IH [of "doReport me url p m"] Cons.prems c(2) unfolding do_reports.simps one by simp
qed simp

lemma do_reports_append: "do_reports me url (ps @ qs) m = do_reports me url qs (do_reports me url ps m)"
  by (induction ps arbitrary: m) simp_all

text \<open>The count is meant to be of the last ten minutes, but its start is set only when the limit has been
  reached: two hundred events reported at once are all sent.\<close>

theorem burst_of_two_hundred:
  assumes "clock_within me a" "mt_reportCounter m = 0" "mt_startTime m + 10 * 60 * second < a" "a < mt_startTime m + max_int64 - 10 * 60 * second"
    "length ps = 200"
  shows "posted (do_reports me url ps m) = posted m + 200"
proof -
  define first where "first = take 100 ps"
  define p where "p = ps ! 100"
  define rest where "rest = drop 101 ps"
  have ps: "ps = first @ p # rest" "length first = 100" "length rest = 99"
    unfolding first_def p_def rest_def using assms(5) id_take_nth_drop [of 100 ps] by simp_all
  define m1 where "m1 = do_reports me url first m"
  have m1: "posted m1 = posted m + 100" "mt_startTime m1 = mt_startTime m" "unat (mt_reportCounter m1) = 100"
    unfolding m1_def using free_reports [of m first me url] assms(2) ps(2) by simp_all
  have c: "a \<le> clock (me_env me) (ticks (mt_world m1))" "clock (me_env me) (ticks (mt_world m1)) \<le> a + 10 * 60 * second"
    using assms(1) by (simp_all add: clock_within_def)
  then have "10 * 60 * second < time_sub (clock (me_env me) (ticks (mt_world m1))) (mt_startTime m1)"
    using assms(3,4) m1(2) by (auto simp: time_sub_def max_int64_def min_int64_def second_def)
  then have m2: "posted (doReport me url p m1) = Suc (posted m1)" "mt_reportCounter (doReport me url p m1) = 1"
    using m1(3) by (simp_all add: doReport_def reportCounterLimit_def read_clock_def word_le_nat_alt posted_def [of "m1\<lparr>mt_world := _\<rparr>"] posted_def [of m1])
  show ?thesis
    using free_reports [of "doReport me url p m1" rest me url] m2 m1(1) ps(3) unfolding ps(1) do_reports_append m1_def by simp
qed

definition still_metrics :: metrics_env where
  "still_metrics = \<lparr>me_env = failing_server\<lparr>clock := (\<lambda>n. 0)\<rparr>, me_info = (\<lambda>n. \<lparr>ci_Arch = ''amd64'', ci_InstanceId = ''i-1'', ci_OsVersion = ''Linux'',
     ci_VirtualType = ''kvm'', ci_Distribution = [], ci_KernelVersion = ''5.10''\<rparr>), me_platform = (\<lambda>n. (''CentOS'', ''8''))\<rparr>"

definition fresh_metrics :: metrics where
  "fresh_metrics = \<lparr>mt_commonInfoStr = None, mt_reportCounter = 0, mt_startTime = - 60 * 60 * second, mt_world = \<lparr>ticks = 0, trace = []\<rparr>\<rparr>"

lemma still_clock: "clock_within still_metrics 0"
  by (simp add: clock_within_def still_metrics_def second_def)

theorem burst_of_two_hundred_witness: "posted (do_reports still_metrics ''u'' (replicate 200 ''e'') fresh_metrics) = 200"
proof -
  have "posted (do_reports still_metrics ''u'' (replicate 200 ''e'') fresh_metrics) = posted fresh_metrics + 200"
    by (rule burst_of_two_hundred [OF still_clock]) (simp_all add: fresh_metrics_def second_def max_int64_def)
  then show ?thesis by (simp add: posted_def fresh_metrics_def)
qed

theorem reports_bounded_witness: "posted (do_reports still_metrics ''u'' (replicate 1000 ''e'') fresh_metrics) \<le> 200"
  using reports_bounded [OF still_clock, of fresh_metrics "''u''" "replicate 1000 ''e''"] by (simp add: posted_def fresh_metrics_def)

end
