(* ===== verification/Agent_Paths.thy ===== *)
theory Agent_Paths
  imports Machine
begin

text \<open>
  The directories of the agent: \<open>common/pathutil/assistpath.go\<close> (the directory of scripts is in
  \<open>Machine\<close>), and the installation paths of \<open>common/update/path.go\<close> on Unix. An agent installed
  as \<open>/a/b/aliyun-service\<close> keeps its own configuration in \<open>/a/b\<close> and everything shared between
  versions in \<open>/a\<close>.
\<close>

section \<open>Directories of an installed version\<close>

definition made_path :: "machine \<Rightarrow> string \<Rightarrow> world \<Rightarrow> (string \<times> go_error option) \<times> world" where
  "made_path mc p w = (let (e, w1) = MakeSurePath mc p w in ((p, e), w1))"

definition GetLogPath :: "machine \<Rightarrow> string \<Rightarrow> world \<Rightarrow> (string \<times> go_error option) \<times> world" where
  "GetLogPath mc logPath w =
     (if logPath \<noteq> [] then ((logPath, None), w)
      else (let (r, w1) = GetCurrentPath mc w in
        case r of Inl e \<Rightarrow> (([], Some e), w1) | Inr cur \<Rightarrow> made_path mc (path_join [cur, ''log'']) w1))"

definition GetHybridPath :: "machine \<Rightarrow> world \<Rightarrow> (string \<times> go_error option) \<times> world" where
  "GetHybridPath mc w =
     (let (r, w1) = GetCurrentPath mc w in
      case r of Inl e \<Rightarrow> (([], Some e), w1) | Inr cur \<Rightarrow> made_path mc (path_join [path_dir cur, ''hybrid'']) w1)"

definition GetConfigPath :: "machine \<Rightarrow> world \<Rightarrow> (go_error + string) \<times> world" where
  "GetConfigPath mc w =
     (let (r, w1) = GetCurrentPath mc w in
      case r of Inl e \<Rightarrow> (Inl e, w1)
      | Inr cur \<Rightarrow>
          (let p = path_join [cur, ''config'']; (e, w2) = MakeSurePath mc p w1 in
           (case e of Some x \<Rightarrow> Inl x | None \<Rightarrow> Inr p, w2)))"

text \<open>\<open>filepath.Abs\<close> of a path of the operating system, which is rooted: \<open>cwd\<close> is for the others.\<close>

definition path_abs :: "string \<Rightarrow> string \<Rightarrow> string" where
  "path_abs cwd p = (if p \<noteq> [] \<and> hd p = CHR ''/'' then path_clean p else path_join [cwd, p])"

definition getCrossVersionDir :: "machine \<Rightarrow> string \<Rightarrow> world \<Rightarrow> (go_error + string) \<times> world" where
  "getCrossVersionDir mc cwd w =
     (let (r, w1) = GetCurrentPath mc w in (map_sum id (\<lambda>cur. path_dir (path_clean (path_abs cwd cur))) r, w1))"

definition GetCrossVersionConfigPath :: "machine \<Rightarrow> string \<Rightarrow> world \<Rightarrow> (go_error + string) \<times> world" where
  "GetCrossVersionConfigPath mc cwd w =
     (let (r, w1) = getCrossVersionDir mc cwd w in
      case r of Inl e \<Rightarrow> (Inl e, w1)
      | Inr dir \<Rightarrow>
          (let p = path_join [dir, ''config'']; (e, w2) = MakeSurePath mc p w1 in
           (case e of Some x \<Rightarrow> Inl x | None \<Rightarrow> Inr p, w2)))"

definition GetTempPath :: "machine \<Rightarrow> string \<Rightarrow> world \<Rightarrow> (string \<times> go_error option) \<times> world" where
  "GetTempPath mc goTempDir w = made_path mc goTempDir w"

text \<open>The error of the directory is dropped here.\<close>

definition GetCachePath :: "machine \<Rightarrow> world \<Rightarrow> (string \<times> go_error option) \<times> world" where
  "GetCachePath mc w =
     (let (r, w1) = GetCurrentPath mc w in
      case r of Inl e \<Rightarrow> (([], Some e), w1)
      | Inr cur \<Rightarrow>
          (let p = path_join [path_dir cur, ''cache'']; (e, w2) = MakeSurePath mc p w1 in ((p, None), w2)))"

definition GetPluginPath :: "machine \<Rightarrow> world \<Rightarrow> (string \<times> go_error option) \<times> world" where
  "GetPluginPath mc w =
     (let (r, w1) = GetCurrentPath mc w in
      case r of Inl e \<Rightarrow> (([], Some e), w1) | Inr cur \<Rightarrow> made_path mc (path_join [path_dir cur, ''plugin'']) w1)"

section \<open>Installation\<close>

definition DefaultUnixInstallDir :: string where "DefaultUnixInstallDir = ''/usr/local/share/aliyun-assist''"

definition GetAgentName :: string where "GetAgentName = ''aliyun-service''"

definition GetUpdateScript :: string where "GetUpdateScript = ''update_install''"

definition GetUpdatorName :: string where "GetUpdatorName = ''aliyun_assist_update''"

definition GetInstallDirByCurrentProcess :: "machine \<Rightarrow> string \<Rightarrow> world \<Rightarrow> (go_error + string) \<times> world" where
  "GetInstallDirByCurrentProcess mc cwd w =
     (let (r, w1) = ask (mc_executable mc) w in
      (map_sum id (\<lambda>path. path_dir (path_clean (path_abs cwd (path_dir path)))) r, w1))"

definition GetInstallDir :: "machine \<Rightarrow> string \<Rightarrow> world \<Rightarrow> string \<times> world" where
  "GetInstallDir mc cwd w =
     (let (r, w1) = GetInstallDirByCurrentProcess mc cwd w in
      (case r of Inr installDir \<Rightarrow> installDir | Inl e \<Rightarrow> DefaultUnixInstallDir, w1))"

definition GetAgentPathByVersion :: "machine \<Rightarrow> string \<Rightarrow> string \<Rightarrow> world \<Rightarrow> string \<times> world" where
  "GetAgentPathByVersion mc cwd v w =
     (let (installDir, w1) = GetInstallDir mc cwd w in (path_join [installDir, v, GetAgentName], w1))"

definition GetUpdateScriptPathByVersion :: "machine \<Rightarrow> string \<Rightarrow> string \<Rightarrow> world \<Rightarrow> string \<times> world" where
  "GetUpdateScriptPathByVersion mc cwd v w =
     (let (installDir, w1) = GetInstallDir mc cwd w in (path_join [installDir, v, GetUpdateScript], w1))"

text \<open>The errors are ignored: without a path of its own the agent looks in the working directory.\<close>

definition GetUpdatorPathByCurrentProcess :: "machine \<Rightarrow> string \<Rightarrow> world \<Rightarrow> string \<times> world" where
  "GetUpdatorPathByCurrentProcess mc cwd w =
     (let (r, w1) = ask (mc_executable mc) w in
      (path_join [path_abs cwd (path_dir (case r of Inr path \<Rightarrow> path | Inl e \<Rightarrow> [])), GetUpdatorName], w1))"

lemma install_dir_example:
  "path_dir (path_clean (path_abs ''/'' (path_dir ''/usr/local/share/aliyun-assist/2.2.3.999/aliyun-service'')))
     = DefaultUnixInstallDir"
  by code_simp

lemma quiet_paths [simp]:
  "quiet w (snd (GetInstallDir mc cwd w))" "quiet w (snd (GetUpdatorPathByCurrentProcess mc cwd w))"
  "quiet w (snd (GetTempPath mc d w))"
  by (simp_all add: GetInstallDir_def GetInstallDirByCurrentProcess_def GetUpdatorPathByCurrentProcess_def
      GetTempPath_def made_path_def split_beta Let_def)

end
