(* ===== verification/Plugin_Store.thy ===== *)
theory Plugin_Store
  imports Agent_Paths Run_Monad "HOL-Library.List_Lexorder" "HOL-Library.Char_ord"
begin

text \<open>
  The plugins of \<open>agent/pluginmanager\<close>: their data (\<open>model.go\<close>) and the database of the installed ones
  (\<open>installeds.go\<close>, and \<open>acspluginmanager/dbutil.go\<close>), a bucket of the library \<open>bbolt\<close> whose keys are
  visited in the order of their bytes. The data of a plugin passes through JSON, whose functions are
  parameters.
\<close>

section \<open>Programs inside a larger state\<close>

definition zoom :: "('s \<Rightarrow> 't) \<Rightarrow> ('t \<Rightarrow> 's \<Rightarrow> 's) \<Rightarrow> ('t, 'a) prog \<Rightarrow> ('s, 'a) prog" where
  "zoom g p m s = (case m (g s) of None \<Rightarrow> None | Some (r, t) \<Rightarrow> Some (r, p t s))"

lemma wpr_zoom [wpr_rules]: "wpr (zoom g p m) Q P s = wpr m (\<lambda>x t. Q x (p t s)) (\<lambda>x t. P x (p t s)) (g s)"
  by (auto simp: wpr_def zoom_def split: option.splits prod.splits outcome.splits)

section \<open>Plugins\<close>

definition ARCH_64 :: string where "ARCH_64 = ''x64''"
definition ARCH_32 :: string where "ARCH_32 = ''x86''"
definition ARCH_ARM :: string where "ARCH_ARM = ''arm''"
definition ARCH_UNKNOWN :: string where "ARCH_UNKNOWN = ''unknown''"
definition PERSIST_RUNNING :: string where "PERSIST_RUNNING = ''PERSIST_RUNNING''"
definition PERSIST_FAIL :: string where "PERSIST_FAIL = ''PERSIST_FAIL''"
definition PERSIST_UNKNOWN :: string where "PERSIST_UNKNOWN = ''PERSIST_UNKNOWN''"
definition ONCE_INSTALLED :: string where "ONCE_INSTALLED = ''ONCE_INSTALLED''"
definition REMOVED :: string where "REMOVED = ''REMOVED''"
definition PLUGIN_ONCE :: string where "PLUGIN_ONCE = ''Once''"
definition PLUGIN_PERSIST :: string where "PLUGIN_PERSIST = ''Persist''"
definition PLUGIN_UNKNOWN :: string where "PLUGIN_UNKNOWN = ''Unknown''"

text \<open>What the field of the type may hold: a text, a number of JSON (\<open>None\<close> for one that is no integer),
  a number of the program, nothing, or something else.\<close>

datatype plugin_type = TypeText string | TypeNumber "int option" | TypeInt int | TypeNil | TypeOther

record PluginInfo =
  PluginID :: string
  pi_Name :: string
  pi_Arch :: string
  OSType :: string
  pi_Version :: string
  pi_Publisher :: string
  pi_Url :: string
  pi_Md5 :: string
  RunPath :: string
  pi_Timeout :: string
  IsPreInstalled :: string
  pi_PluginType :: plugin_type
  pluginTypeStr :: string
  HeartbeatInterval :: int
  IsRemoved :: bool
  AddSysTag :: bool

definition type_name :: "bool \<Rightarrow> plugin_type \<Rightarrow> string" where
  "type_name empty_is_once t =
     (case t of
        TypeText pt \<Rightarrow> if pt = PLUGIN_ONCE \<or> (empty_is_once \<and> pt = []) then PLUGIN_ONCE
          else if pt = PLUGIN_PERSIST then PLUGIN_PERSIST else PLUGIN_UNKNOWN
      | TypeNumber n \<Rightarrow> if n = Some 0 then PLUGIN_ONCE else if n = Some 1 then PLUGIN_PERSIST else PLUGIN_UNKNOWN
      | TypeNil \<Rightarrow> PLUGIN_ONCE
      | _ \<Rightarrow> PLUGIN_UNKNOWN)"

definition PluginType :: "PluginInfo \<Rightarrow> string" where
  "PluginType p = (if pluginTypeStr p = [] then type_name True (pi_PluginType p) else pluginTypeStr p)"

text \<open>Every type but the persistent one is stored as that of a single run.\<close>

definition SetPluginType :: "string \<Rightarrow> PluginInfo \<Rightarrow> PluginInfo" where
  "SetPluginType t p = p\<lparr>pluginTypeStr := t, pi_PluginType := TypeInt (if t = PLUGIN_PERSIST then 1 else 0)\<rparr>"

text \<open>The machine's architecture, from the text of \<open>uname\<close>.\<close>

definition GetArch :: "(nat \<Rightarrow> go_error + string) \<Rightarrow> world \<Rightarrow> (string \<times> string) \<times> world" where
  "GetArch uname w =
     (let (r, w1) = ask uname w; arch = to_lower (trim_space (case r of Inl e \<Rightarrow> [] | Inr a \<Rightarrow> a)) in
      ((if contains ''aarch'' arch \<or> contains ''arm'' arch then ARCH_ARM
        else if contains ''386'' arch \<or> contains ''686'' arch then ARCH_32
        else if arch = ''x86_64'' \<or> arch = ''amd64'' then ARCH_64
        else ARCH_UNKNOWN, arch), w1))"

section \<open>Keys\<close>

text \<open>The eight bytes of a key, the lowest first.\<close>

definition itob :: "nat \<Rightarrow> nat list" where
  "itob v = map (\<lambda>i. v div 256 ^ i mod 256) [0..<8]"

fun b8toi :: "nat list \<Rightarrow> nat" where
  "b8toi [] = 0"
| "b8toi (b # bs) = b + 256 * b8toi bs"

section \<open>The database\<close>

text \<open>The bucket, \<open>None\<close> before it is made, with its entries in the order of their keys, and its sequence.\<close>

record plugin_db =
  db_bucket :: "(nat list \<times> string) list option"
  db_sequence :: nat

record plugin_store =
  ps_world :: world
  ps_db :: "plugin_db option"

text \<open>
  The outside: errors of opening the file other than that it does not exist, a file that another
  process makes meanwhile, the old file of JSON and its reading, the commit of a transaction, and JSON.
\<close>

record store_env =
  se_mc :: machine
  se_open :: "nat \<Rightarrow> go_error option"
  se_raced :: "nat \<Rightarrow> plugin_db option"
  se_json_file :: "nat \<Rightarrow> go_error + string"
  se_parse :: "string \<Rightarrow> go_error + PluginInfo list"
  se_commit :: "nat \<Rightarrow> go_error option"
  se_marshal :: "PluginInfo \<Rightarrow> string"
  se_unmarshal :: "string \<Rightarrow> go_error + PluginInfo"

type_synonym 'a st = "(plugin_store, 'a) prog"

definition ps_on :: "(world \<Rightarrow> 'a \<times> world) \<Rightarrow> 'a st" where
  "ps_on f = effect_of (\<lambda>s. let (x, w) = f (ps_world s) in (x, s\<lparr>ps_world := w\<rparr>))"

definition empty_db :: plugin_db where
  "empty_db = \<lparr>db_bucket = None, db_sequence = 0\<rparr>"

subsection \<open>Transactions\<close>

fun put :: "nat list \<Rightarrow> string \<Rightarrow> (nat list \<times> string) list \<Rightarrow> (nat list \<times> string) list" where
  "put k v [] = [(k, v)]"
| "put k v ((k', v') # es) = (if k < k' then (k, v) # (k', v') # es else if k = k' then (k, v) # es else (k', v') # put k v es)"

definition with_bucket :: "plugin_db \<Rightarrow> (nat list \<times> string) list" where
  "with_bucket d = (case db_bucket d of None \<Rightarrow> [] | Some es \<Rightarrow> es)"

definition insert_payload :: "string \<Rightarrow> plugin_db \<Rightarrow> plugin_db" where
  "insert_payload payload d =
     (let n = Suc (db_sequence d) in \<lparr>db_bucket = Some (put (itob n) payload (with_bucket d)), db_sequence = n\<rparr>)"

definition update_payload :: "nat \<Rightarrow> string \<Rightarrow> plugin_db \<Rightarrow> plugin_db" where
  "update_payload key payload d = d\<lparr>db_bucket := Some (put (itob key) payload (with_bucket d))\<rparr>"

definition delete_payload :: "nat \<Rightarrow> plugin_db \<Rightarrow> plugin_db" where
  "delete_payload key d = d\<lparr>db_bucket := map_option (filter (\<lambda>(k, v). k \<noteq> itob key)) (db_bucket d)\<rparr>"

text \<open>\<open>Update\<close> of the library: the changes are kept when the commit succeeds.\<close>

definition transaction :: "store_env \<Rightarrow> (plugin_db \<Rightarrow> plugin_db) \<Rightarrow> (go_error option) st" where
  "transaction se f =
     seq (ps_on (ask (se_commit se))) (\<lambda>e.
     case e of
       Some x \<Rightarrow> ret (Some x)
     | None \<Rightarrow> seq (modify (\<lambda>s. s\<lparr>ps_db := Some (f (case ps_db s of None \<Rightarrow> empty_db | Some d \<Rightarrow> d))\<rparr>)) (\<lambda>_. ret None))"

subsection \<open>Opening\<close>

definition plugin_file :: "store_env \<Rightarrow> string \<Rightarrow> (go_error + string) st" where
  "plugin_file se name =
     seq (ps_on (GetPluginPath (se_mc se))) (\<lambda>(p, err).
     ret (case err of Some e \<Rightarrow> Inl e | None \<Rightarrow> Inr (path_join [p, name])))"

definition getInstalledPluginsBoltPath :: "store_env \<Rightarrow> (go_error + string) st" where
  "getInstalledPluginsBoltPath se = plugin_file se ''installed_plugins.db''"

definition getInstalledPluginsJSONPath :: "store_env \<Rightarrow> (go_error + string) st" where
  "getInstalledPluginsJSONPath se = plugin_file se ''installed_plugins''"

definition loadInstalledPluginsBolt :: "store_env \<Rightarrow> (go_error option) st" where
  "loadInstalledPluginsBolt se =
     seq (ps_on (ask (se_open se))) (\<lambda>e.
     case e of
       Some x \<Rightarrow> ret (Some x)
     | None \<Rightarrow> seq (modify (\<lambda>s. s\<lparr>ps_db := Some (case ps_db s of None \<Rightarrow> empty_db | Some d \<Rightarrow> d)\<rparr>)) (\<lambda>_. ret None))"

definition errEmptyInstalledPluginsJsonFile :: go_error where
  "errEmptyInstalledPluginsJsonFile = PlainError ''empty content in existed installed_plugins JSON database file''"

definition loadEachInstalledPluginJsonAsBytes :: "store_env \<Rightarrow> string \<Rightarrow> go_error + string list" where
  "loadEachInstalledPluginJsonAsBytes se content =
     (if content = [] then Inl errEmptyInstalledPluginsJsonFile
      else map_sum id (map (se_marshal se)) (se_parse se content))"

definition insertInstalledPluginInfoBytes :: "store_env \<Rightarrow> string list \<Rightarrow> (go_error option) st" where
  "insertInstalledPluginInfoBytes se payloads =
     transaction se (\<lambda>d. fold insert_payload payloads (d\<lparr>db_bucket := Some (with_bucket d)\<rparr>))"

text \<open>
  The old file is migrated when there is no database yet and it can be read; the new file must then be
  made by this process alone.
\<close>

definition migrate :: "store_env \<Rightarrow> string list \<Rightarrow> (go_error option) st" where
  "migrate se payloads =
     seq (ps_on (ask (se_raced se))) (\<lambda>other.
     case other of
       Some d \<Rightarrow> seq (modify (\<lambda>s. s\<lparr>ps_db := Some d\<rparr>)) (\<lambda>_. loadInstalledPluginsBolt se)
     | None \<Rightarrow>
         seq (ps_on (ask (se_open se))) (\<lambda>e.
         case e of
           Some x \<Rightarrow> ret (Some x)
         | None \<Rightarrow> seq (modify (\<lambda>s. s\<lparr>ps_db := Some empty_db\<rparr>)) (\<lambda>_. insertInstalledPluginInfoBytes se payloads)))"

definition LoadInstalledPlugins :: "store_env \<Rightarrow> (go_error option) st" where
  "LoadInstalledPlugins se =
     seq (getInstalledPluginsBoltPath se) (\<lambda>boltPath.
     case boltPath of
       Inl e \<Rightarrow> ret (Some e)
     | Inr bp \<Rightarrow>
         seq (ps_on (ask (se_open se))) (\<lambda>e.
         case e of
           Some x \<Rightarrow> ret (Some x)
         | None \<Rightarrow>
             seq (look ps_db) (\<lambda>d.
             if d \<noteq> None then ret None
             else
               seq (getInstalledPluginsJSONPath se) (\<lambda>jsonPath.
               case jsonPath of
                 Inl x \<Rightarrow> ret (Some x)
               | Inr jp \<Rightarrow>
                   seq (ps_on (ask (se_json_file se))) (\<lambda>r.
                   case Option.bind (case r of Inl x \<Rightarrow> None | Inr c \<Rightarrow> Some c)
                       (\<lambda>c. case loadEachInstalledPluginJsonAsBytes se c of Inl x \<Rightarrow> None | Inr ps \<Rightarrow> Some ps) of
                     None \<Rightarrow> loadInstalledPluginsBolt se
                   | Some payloads \<Rightarrow> migrate se payloads)))))"

subsection \<open>Reading\<close>

fun decode_all :: "store_env \<Rightarrow> (nat list \<times> string) list \<Rightarrow> go_error + (nat \<times> PluginInfo) list" where
  "decode_all se [] = Inr []"
| "decode_all se ((k, v) # es) =
     (case se_unmarshal se v of
        Inl e \<Rightarrow> Inl e
      | Inr p \<Rightarrow> map_sum id (\<lambda>r. (b8toi k, p) # r) (decode_all se es))"

definition db_entries :: "plugin_store \<Rightarrow> (nat list \<times> string) list" where
  "db_entries s = (case ps_db s of None \<Rightarrow> [] | Some d \<Rightarrow> with_bucket d)"

definition FindAll :: "store_env \<Rightarrow> plugin_store \<Rightarrow> go_error + (nat \<times> PluginInfo) list" where
  "FindAll se s = decode_all se (db_entries s)"

definition FindManyByName :: "store_env \<Rightarrow> string \<Rightarrow> plugin_store \<Rightarrow> go_error + (nat \<times> PluginInfo) list" where
  "FindManyByName se name s = map_sum id (filter (\<lambda>(k, p). pi_Name p = name)) (FindAll se s)"

text \<open>The cursor stops at the first plugin that fits; the entries behind it are not decoded.\<close>

fun find_first :: "store_env \<Rightarrow> (PluginInfo \<Rightarrow> bool) \<Rightarrow> (nat list \<times> string) list \<Rightarrow> go_error + (nat \<times> PluginInfo) option" where
  "find_first se fits [] = Inr None"
| "find_first se fits ((k, v) # es) =
     (case se_unmarshal se v of
        Inl e \<Rightarrow> Inl e
      | Inr p \<Rightarrow> if fits p then Inr (Some (b8toi k, p)) else find_first se fits es)"

definition FindOneWithPredicate ::
  "store_env \<Rightarrow> (PluginInfo \<Rightarrow> bool) \<Rightarrow> plugin_store \<Rightarrow> go_error + (nat \<times> PluginInfo) option" where
  "FindOneWithPredicate se fits s = find_first se fits (db_entries s)"

subsection \<open>Writing\<close>

definition InsertPlugin :: "store_env \<Rightarrow> PluginInfo \<Rightarrow> (go_error option) st" where
  "InsertPlugin se p = transaction se (insert_payload (se_marshal se p))"

definition UpdatePlugin :: "store_env \<Rightarrow> nat \<Rightarrow> PluginInfo \<Rightarrow> (go_error option) st" where
  "UpdatePlugin se key p = transaction se (update_payload key (se_marshal se p))"

definition DeleteByKey :: "store_env \<Rightarrow> nat \<Rightarrow> (go_error option) st" where
  "DeleteByKey se key = transaction se (delete_payload key)"

section \<open>The operations with the database open\<close>

definition opened :: "store_env \<Rightarrow> (plugin_store \<Rightarrow> go_error + 'a) \<Rightarrow> (go_error + 'a) st" where
  "opened se f =
     seq (LoadInstalledPlugins se) (\<lambda>e. case e of Some x \<Rightarrow> ret (Inl x) | None \<Rightarrow> look f)"

definition written_open :: "store_env \<Rightarrow> (go_error option) st \<Rightarrow> (go_error option) st" where
  "written_open se m = seq (LoadInstalledPlugins se) (\<lambda>e. case e of Some x \<Rightarrow> ret (Some x) | None \<Rightarrow> m)"

definition getAllInstalledPlugins :: "store_env \<Rightarrow> (go_error + PluginInfo list) st" where
  "getAllInstalledPlugins se = opened se (\<lambda>s. map_sum id (map snd) (FindAll se s))"

definition getInstalledPluginsByName :: "store_env \<Rightarrow> string \<Rightarrow> (go_error + PluginInfo list) st" where
  "getInstalledPluginsByName se name = opened se (\<lambda>s. map_sum id (map snd) (FindManyByName se name s))"

definition getInstalledPluginByName :: "store_env \<Rightarrow> string \<Rightarrow> (go_error + (nat \<times> PluginInfo) option) st" where
  "getInstalledPluginByName se name = opened se (FindOneWithPredicate se (\<lambda>p. pi_Name p = name))"

definition getInstalledPluginNotRemovedByName :: "store_env \<Rightarrow> string \<Rightarrow> (go_error + (nat \<times> PluginInfo) option) st" where
  "getInstalledPluginNotRemovedByName se name = opened se (FindOneWithPredicate se (\<lambda>p. \<not> IsRemoved p \<and> pi_Name p = name))"

definition getLocalPluginInfo :: "store_env \<Rightarrow> string \<Rightarrow> string \<Rightarrow> (go_error + PluginInfo option) st" where
  "getLocalPluginInfo se packageName pluginVersion =
     opened se (\<lambda>s. map_sum id (map_option snd)
       (FindOneWithPredicate se (\<lambda>p. \<not> IsRemoved p \<and> pi_Name p = packageName \<and> (pluginVersion = [] \<or> pi_Version p = pluginVersion)) s))"

definition insertNewInstalledPlugin :: "store_env \<Rightarrow> PluginInfo \<Rightarrow> (go_error option) st" where
  "insertNewInstalledPlugin se p = written_open se (InsertPlugin se p)"

definition updateInstalledPlugin :: "store_env \<Rightarrow> nat \<Rightarrow> PluginInfo \<Rightarrow> (go_error option) st" where
  "updateInstalledPlugin se idx p = written_open se (UpdatePlugin se idx p)"

definition deleteInstalledPluginByIndex :: "store_env \<Rightarrow> nat \<Rightarrow> (go_error option) st" where
  "deleteInstalledPluginByIndex se idx = written_open se (DeleteByKey se idx)"

end
