(* ===== verification/Plugin_Health.thy ===== *)
theory Plugin_Health
  imports Plugin_Store Metrics Timers Process_Cmd
begin

text \<open>
  The agent's side of the plugins, \<open>agent/pluginmanager\<close>: the two ways to report the health of the
  plugins, the check for upgrades and the report of the list (\<open>pluginmanager.go\<close>), the data of the
  interface (\<open>api.go\<close>), the intervals of a test file (\<open>config.go\<close>), and \<open>syncRunKillGroup\<close>
  (\<open>pluginmanager_unix.go\<close>). The callbacks of the timers are programs of their own; a goroutine they
  start is an entry of the state until it runs.
\<close>

section \<open>The data of the interface\<close>

definition NEED_REFRESH_STATUS_API :: "string list" where
  "NEED_REFRESH_STATUS_API = [''--install'', ''--uninstall'', ''--start'', ''--stop'', ''--upgrade'', ''--restart'']"

definition NORMAL_REPORT :: int where "NORMAL_REPORT = 0"
definition LAZY_REPORT :: int where "LAZY_REPORT = 1"
definition PLUGIN_NAME_MAXLEN :: nat where "PLUGIN_NAME_MAXLEN = 255"
definition PLUGIN_VERSION_MAXLEN :: nat where "PLUGIN_VERSION_MAXLEN = 32"

record PluginStatus =
  pst_Name :: string
  pst_Status :: string
  pst_Version :: string
  SysTagType :: string

record PluginStatusResponse =
  psr_InstanceId :: string
  psr_Code :: int
  ScanInterval :: int
  PullInterval :: int
  RefreshInterval :: int
  psr_ReportType :: int

record PluginUpdateInfo =
  pui_Name :: string
  pui_Version :: string
  pui_Timeout :: int

record PluginUpdateCheckResponse =
  puc_InstanceId :: string
  NextInterval :: int
  puc_Plugin :: "PluginUpdateInfo list"

definition status_json :: "PluginStatus \<Rightarrow> string" where
  "status_json p = json_object ([(''name'', json_string (pst_Name p)), (''status'', json_string (pst_Status p)),
     (''version'', json_string (pst_Version p))] @ (if SysTagType p = [] then [] else [(''sysTagType'', json_string (SysTagType p))]))"

definition PluginStatusResquest_json :: "PluginStatus list \<Rightarrow> string" where
  "PluginStatusResquest_json ps = json_object [(''plugin'', json_list (map status_json ps))]"

definition PluginUpdateCheck_json :: "string \<times> string \<Rightarrow> string" where
  "PluginUpdateCheck_json nv = json_object [(''name'', json_string (fst nv)), (''version'', json_string (snd nv))]"

definition PluginUpdateCheckRequest_json :: "string \<Rightarrow> string \<Rightarrow> (string \<times> string) list \<Rightarrow> string" where
  "PluginUpdateCheckRequest_json os_type arch ps =
     json_object [(''os'', json_string os_type), (''arch'', json_string arch), (''plugin'', json_list (map PluginUpdateCheck_json ps))]"

text \<open>Names and versions are cut to their greatest lengths.\<close>

definition plugin_status :: "string \<Rightarrow> string \<Rightarrow> string \<Rightarrow> PluginStatus" where
  "plugin_status name status version = \<lparr>pst_Name = (if length name > PLUGIN_NAME_MAXLEN then take PLUGIN_NAME_MAXLEN name else name),
     pst_Status = status,
     pst_Version = (if length version > PLUGIN_VERSION_MAXLEN then take PLUGIN_VERSION_MAXLEN version else version), SysTagType = []\<rparr>"

section \<open>State\<close>

datatype plugin_callback = HealthScan | HealthPull | UpdateCheck | ListReport

text \<open>
  The global variables, with what they share with other components: the database, the metrics and the
  timers. \<open>pa_starters\<close> are the goroutines that will run a timer, \<open>pa_starts\<close> those that will start a
  plugin, each with the time it may take, and \<open>pa_signals\<close> the targets of the kill signals sent.
\<close>

record ('e, 'l) plugin_agent =
  pa_store :: plugin_store
  pa_metrics :: metrics
  pa_tm :: "('e, 'l, plugin_callback) timer_manager"
  pluginHealthScanInterval :: int
  pluginHealthPullInterval :: int
  pluginUpdateCheckInterval :: int
  pluginListReportInterval :: int
  lastPluginHealthCheckTime :: int
  lazyReport :: bool
  lastPluginStatusRecord :: "(string \<times> string) list"
  pluginTimers :: "plugin_callback \<Rightarrow> nat option"
  pa_starters :: "plugin_callback list"
  pa_starts :: "(string \<times> int) list"
  pa_signals :: "int list"

definition avoidTime :: int where "avoidTime = 60"

text \<open>
  The outside: the answers read from JSON (for the list of states what the reading leaves, also when
  it fails), the file of intervals, the pid of a new process, the files and the architecture.
\<close>

record ('e, 'l) plugin_env =
  pe_store :: store_env
  pe_metrics :: metrics_env
  pe_cron :: "('e, 'l) cron_lib"
  pe_statuses :: "string \<Rightarrow> PluginStatus list"
  pe_health :: "string \<Rightarrow> go_error + PluginStatusResponse"
  pe_update :: "string \<Rightarrow> go_error + PluginUpdateCheckResponse"
  pe_interval_file :: "nat \<Rightarrow> go_error + string"
  pe_pid :: "nat \<Rightarrow> nat"
  pe_read_file :: "nat \<Rightarrow> string \<Rightarrow> go_error + string"
  pe_uname :: "nat \<Rightarrow> go_error + string"

type_synonym ('e, 'l, 'a) pa = "(('e, 'l) plugin_agent, 'a) prog"

abbreviation pe_mc :: "('e, 'l) plugin_env \<Rightarrow> machine" where "pe_mc pe \<equiv> se_mc (pe_store pe)"
abbreviation pe_env :: "('e, 'l) plugin_env \<Rightarrow> env" where "pe_env pe \<equiv> me_env (pe_metrics pe)"
abbreviation pa_world :: "('e, 'l) plugin_agent \<Rightarrow> world" where "pa_world s \<equiv> ps_world (pa_store s)"

definition on_store :: "'a st \<Rightarrow> ('e, 'l, 'a) pa" where
  "on_store = zoom pa_store (\<lambda>t s. s\<lparr>pa_store := t\<rparr>)"

definition pa_on :: "(world \<Rightarrow> 'a \<times> world) \<Rightarrow> ('e, 'l, 'a) pa" where
  "pa_on f = on_store (ps_on f)"

definition unix_now :: "('e, 'l) plugin_env \<Rightarrow> ('e, 'l, int) pa" where
  "unix_now pe = seq (pa_on (read_clock (pe_env pe))) (\<lambda>t. ret (t div second))"

text \<open>The metrics act in the same world.\<close>

definition on_metrics :: "(metrics \<Rightarrow> 'a outcome \<times> metrics) \<Rightarrow> ('e, 'l, 'a) pa" where
  "on_metrics f = outcome_of (\<lambda>s. let (r, m) = f ((pa_metrics s)\<lparr>mt_world := pa_world s\<rparr>) in
     (r, s\<lparr>pa_metrics := m, pa_store := (pa_store s)\<lparr>ps_world := mt_world m\<rparr>\<rparr>))"

definition report_event :: "('e, 'l) plugin_env \<Rightarrow> (metrics_env \<Rightarrow> metrics \<Rightarrow> MetricsEvent outcome \<times> metrics) \<Rightarrow> ('e, 'l, unit) pa" where
  "report_event pe event =
     seq (on_metrics (event (pe_metrics pe))) (\<lambda>e.
     on_metrics (\<lambda>m. (Returns (), ReportEvent (pe_metrics pe) e m)))"

definition findAllInstalledPlugins :: "('e, 'l) plugin_env \<Rightarrow> ('e, 'l, go_error + PluginInfo list) pa" where
  "findAllInstalledPlugins pe = on_store (getAllInstalledPlugins (pe_store pe))"

section \<open>Processes\<close>

definition Pid :: "('e, 'l) plugin_env \<Rightarrow> process_cmd \<Rightarrow> ('e, 'l, int) pa" where
  "Pid pe pc =
     (case pc_command pc of
        Running \<Rightarrow> seq (pa_on (ask (pe_pid pe))) (\<lambda>n. ret (int n))
      | _ \<Rightarrow> ret (- 1))"

text \<open>The output of a run with its exit code, status and error; the group of a run that fails is killed.\<close>

definition run_process_cmd :: "('e, 'l) plugin_env \<Rightarrow> string \<Rightarrow> string list \<Rightarrow> int \<Rightarrow>
    ('e, 'l, (run_event list \<times> int \<times> proc_status \<times> go_error option) \<times> process_cmd) pa" where
  "run_process_cmd pe name args timeOut =
     outcome_of (\<lambda>s. case SyncRun (pe_mc pe) [] name args timeOut NewProcessCmd (pa_world s) of
         Panics p \<Rightarrow> (Panics p, s)
       | Returns (r, pc, w) \<Rightarrow> (Returns (r, pc), s\<lparr>pa_store := (pa_store s)\<lparr>ps_world := w\<rparr>\<rparr>))"

definition syncRunKillGroup :: "('e, 'l) plugin_env \<Rightarrow> string \<Rightarrow> string list \<Rightarrow> int \<Rightarrow>
    ('e, 'l, string \<times> int \<times> proc_status \<times> go_error option) pa" where
  "syncRunKillGroup pe name args timeOut =
     seq (run_process_cmd pe name args timeOut) (\<lambda>((events, exitCode, status, err), pc).
     seq (if exitCode \<noteq> 0 \<or> status \<noteq> Success \<or> err \<noteq> None then
            seq (Pid pe pc) (\<lambda>pid. modify (\<lambda>s. s\<lparr>pa_signals := pa_signals s @ [- pid]\<rparr>))
          else ret ()) (\<lambda>_.
     ret (written events, exitCode, status, err)))"

section \<open>Timers\<close>

definition timer_of :: "plugin_callback \<Rightarrow> ('e, 'l) plugin_agent \<Rightarrow> ('e, 'l, plugin_callback) timer option" where
  "timer_of c s = Option.bind (pluginTimers s c) (tm_heap (pa_tm s))"

definition unexpected_plugin_schedule :: go_error where
  "unexpected_plugin_schedule = PlainError ''Unexpected schedule type of heartbeat timer''"

definition plugin_refreshTimer :: "plugin_callback \<Rightarrow> int \<Rightarrow> ('e, 'l, go_error option) pa" where
  "plugin_refreshTimer c nextInterval =
     seq (look (timer_of c)) (\<lambda>t.
     case t of
       None \<Rightarrow> panic NilDereference
     | Some timer \<Rightarrow>
         (case Schedule timer of
            MutableScheduled i d \<Rightarrow>
              seq (blocking (\<lambda>s. map_option (\<lambda>t1. s\<lparr>pa_tm := (pa_tm s)\<lparr>tm_heap := (tm_heap (pa_tm s))(the (pluginTimers s c) \<mapsto> t1)\<rparr>\<rparr>)
                (RefreshTimer (timer\<lparr>Schedule := SetInterval (wrap64 (nextInterval * second)) (Schedule timer)\<rparr>)))) (\<lambda>_. ret None)
          | _ \<Rightarrow> ret (Some unexpected_plugin_schedule)))"

subsection \<open>The intervals\<close>

definition setInterval :: "string \<Rightarrow> int \<Rightarrow> ('e, 'l) plugin_agent \<Rightarrow> ('e, 'l) plugin_agent" where
  "setInterval params interval s =
     (if params = ''pluginHealthScanInterval'' then s\<lparr>pluginHealthScanInterval := interval\<rparr>
      else if params = ''pluginHealthPullInterval'' then s\<lparr>pluginHealthPullInterval := interval\<rparr>
      else if params = ''pluginUpdateCheckInterval'' then s\<lparr>pluginUpdateCheckInterval := interval\<rparr>
      else if params = ''pluginListReportInterval'' then s\<lparr>pluginListReportInterval := interval\<rparr>
      else s)"

definition interval_setting :: "string \<Rightarrow> (string \<times> int) option" where
  "interval_setting pvs0 =
     (let pvs = trim_space pvs0 in
      if pvs = [] then None
      else case split_on (CHR ''='') pvs of
          [p, v] \<Rightarrow> (case atoi v of (n, None) \<Rightarrow> Some (p, n) | (n, Some e) \<Rightarrow> None)
        | _ \<Rightarrow> None)"

definition use_intervals :: "string \<Rightarrow> ('e, 'l) plugin_agent \<Rightarrow> ('e, 'l) plugin_agent" where
  "use_intervals content s =
     fold (\<lambda>pvs s1. case interval_setting pvs of None \<Rightarrow> s1 | Some (p, n) \<Rightarrow> setInterval p n s1) (split_on (CHR '','') content) s"

definition loadIntervalConf :: "('e, 'l) plugin_env \<Rightarrow> ('e, 'l, unit) pa" where
  "loadIntervalConf pe =
     seq (pa_on (ask (pe_interval_file pe))) (\<lambda>r.
     case r of Inl e \<Rightarrow> ret () | Inr content \<Rightarrow> modify (use_intervals content))"

subsection \<open>The start of the timers\<close>

definition interval_of :: "plugin_callback \<Rightarrow> ('e, 'l) plugin_agent \<Rightarrow> int" where
  "interval_of c s =
     (case c of HealthScan \<Rightarrow> pluginHealthScanInterval s | HealthPull \<Rightarrow> pluginHealthPullInterval s
      | UpdateCheck \<Rightarrow> pluginUpdateCheckInterval s | ListReport \<Rightarrow> pluginListReportInterval s)"

definition init_timer :: "plugin_callback \<Rightarrow> ('e, 'l, unit) pa" where
  "init_timer c = modify (\<lambda>s. let (a, m) = CreateTimerInSeconds c (interval_of c s) (pa_tm s) in
     s\<lparr>pa_tm := m, pluginTimers := (pluginTimers s)(c := Some a), pa_starters := pa_starters s @ [c]\<rparr>)"

definition InitPluginCheckTimer :: "('e, 'l) plugin_env \<Rightarrow> ('e, 'l, unit) pa" where
  "InitPluginCheckTimer pe = seq (loadIntervalConf pe) (\<lambda>_. each init_timer [HealthScan, HealthPull, UpdateCheck, ListReport])"

text \<open>A goroutine runs the timer of its variable after a pause.\<close>

definition run_plugin_timer :: "('e, 'l) plugin_env \<Rightarrow> plugin_callback \<Rightarrow> ('e, 'l, go_error option) pa" where
  "run_plugin_timer pe c =
     seq (modify (\<lambda>s. s\<lparr>pa_starters := remove1 c (pa_starters s)\<rparr>)) (\<lambda>_.
     seq (look (timer_of c)) (\<lambda>t.
     case t of
       None \<Rightarrow> panic NilDereference
     | Some timer \<Rightarrow>
         seq (pa_on (read_clock (pe_env pe))) (\<lambda>now.
         outcome_of (\<lambda>s. let (r, timer1) = TimerRun (pe_cron pe) now timer in
           (r, s\<lparr>pa_tm := (pa_tm s)\<lparr>tm_heap := (tm_heap (pa_tm s))(the (pluginTimers s c) \<mapsto> timer1)\<rparr>\<rparr>)))))"

section \<open>Reports of the health\<close>

text \<open>\<open>HttpPost\<close>, tried again after a pause while it fails, some more times.\<close>

fun post_again :: "env \<Rightarrow> nat \<Rightarrow> string \<Rightarrow> string \<Rightarrow> nat \<Rightarrow> string \<times> go_error option \<Rightarrow> world \<Rightarrow>
    (string \<times> go_error option) \<times> world" where
  "post_again env pause url body 0 r w = (r, w)"
| "post_again env pause url body (Suc n) r w =
     (if snd r = None then (r, w)
      else let (r', w') = HttpPost env url body (go_sleep pause w) in post_again env pause url body n r' w')"

definition post_tries :: "env \<Rightarrow> nat \<Rightarrow> nat \<Rightarrow> string \<Rightarrow> string \<Rightarrow> world \<Rightarrow> (string \<times> go_error option) \<times> world" where
  "post_tries env pause n url body w = (let (r, w1) = HttpPost env url body w in post_again env pause url body n r w1)"

definition switch_lazy :: "PluginStatusResponse \<Rightarrow> ('e, 'l) plugin_agent \<Rightarrow> ('e, 'l) plugin_agent" where
  "switch_lazy resp s =
     (if psr_ReportType resp = NORMAL_REPORT \<and> lazyReport s then s\<lparr>lazyReport := False\<rparr>
      else if psr_ReportType resp = LAZY_REPORT \<and> \<not> lazyReport s then s\<lparr>lazyReport := True\<rparr>
      else s)"

definition use_pull_interval :: "PluginStatusResponse \<Rightarrow> ('e, 'l) plugin_agent \<Rightarrow> ('e, 'l) plugin_agent" where
  "use_pull_interval resp s = (if 0 < PullInterval resp then s\<lparr>pluginHealthPullInterval := PullInterval resp\<rparr> else s)"

definition use_scan_interval :: "PluginStatusResponse \<Rightarrow> ('e, 'l) plugin_agent \<Rightarrow> ('e, 'l) plugin_agent" where
  "use_scan_interval resp s = (if 0 < ScanInterval resp then s\<lparr>pluginHealthScanInterval := ScanInterval resp\<rparr> else s)"

subsection \<open>The scan\<close>

definition once_statuses :: "PluginInfo list \<Rightarrow> PluginStatus list" where
  "once_statuses ps = map (\<lambda>p. plugin_status (pi_Name p) ONCE_INSTALLED (pi_Version p))
     (filter (\<lambda>p. \<not> IsRemoved p \<and> PluginType p = PLUGIN_ONCE) ps)"

definition has_persist :: "PluginInfo list \<Rightarrow> bool" where
  "has_persist ps = list_ex (\<lambda>p. \<not> IsRemoved p \<and> PluginType p = PLUGIN_PERSIST) ps"

text \<open>
  The time a plugin may take to start. The map holds the address of the variable of the loop, so every
  entry of it is the last plugin of the list when the goroutine reads it.
\<close>

definition start_timeout :: "PluginInfo list \<Rightarrow> string \<Rightarrow> int" where
  "start_timeout ps name =
     (if list_ex (\<lambda>p. \<not> IsRemoved p \<and> pi_Name p = name) ps \<and> pi_Timeout (last ps) \<noteq> [] then
        (case atoi (pi_Timeout (last ps)) of (t, None) \<Rightarrow> t | (t, Some e) \<Rightarrow> 60)
      else 60)"

text \<open>The states of the persistent plugins: the running ones are reported, the others started.\<close>

definition running_statuses :: "PluginStatus list \<Rightarrow> PluginStatus list" where
  "running_statuses sts = map (\<lambda>p. plugin_status (pst_Name p) (pst_Status p) (pst_Version p))
     (filter (\<lambda>p. pst_Status p \<noteq> REMOVED \<and> pst_Status p = PERSIST_RUNNING) sts)"

definition starts_of :: "PluginInfo list \<Rightarrow> PluginStatus list \<Rightarrow> (string \<times> int) list" where
  "starts_of ps sts = map (\<lambda>p. (pst_Name p, start_timeout ps (pst_Name p)))
     (filter (\<lambda>p. pst_Status p \<noteq> REMOVED \<and> pst_Status p \<noteq> PERSIST_RUNNING) sts)"

definition persist_statuses :: "('e, 'l) plugin_env \<Rightarrow> PluginInfo list \<Rightarrow> ('e, 'l, PluginStatus list option) pa" where
  "persist_statuses pe ps =
     (if \<not> has_persist ps then ret (Some [])
      else
        seq (syncRunKillGroup pe ''acs-plugin-manager'' [''--status''] 120) (\<lambda>(output, exitCode, status, err).
        if err \<noteq> None then ret None
        else
          (let sts = pe_statuses pe output in
           seq (modify (\<lambda>s. s\<lparr>pa_starts := pa_starts s @ starts_of ps sts\<rparr>)) (\<lambda>_. ret (Some (running_statuses sts))))))"

definition send_scan :: "('e, 'l) plugin_env \<Rightarrow> PluginStatus list \<Rightarrow> ('e, 'l, unit) pa" where
  "send_scan pe request =
     seq (pa_on (post_tries (pe_env pe) 2 3 (GetPluginHealthService (pe_env pe)) (PluginStatusResquest_json request))) (\<lambda>(resp, err).
     case err of
       Some e \<Rightarrow> ret ()
     | None \<Rightarrow>
         (case pe_health pe resp of
            Inl e \<Rightarrow> ret ()
          | Inr r \<Rightarrow>
              seq (modify (use_scan_interval r \<circ> use_pull_interval r)) (\<lambda>_.
              seq (look pluginHealthScanInterval) (\<lambda>interval.
              seq (plugin_refreshTimer HealthScan interval) (\<lambda>_. modify (switch_lazy r))))))"

definition pluginHealthCheckScan :: "('e, 'l) plugin_env \<Rightarrow> ('e, 'l, unit) pa" where
  "pluginHealthCheckScan pe =
     seq (unix_now pe) (\<lambda>now.
     seq (modify (\<lambda>s. s\<lparr>lastPluginHealthCheckTime := now\<rparr>)) (\<lambda>_.
     seq (findAllInstalledPlugins pe) (\<lambda>r.
     case r of
       Inl e \<Rightarrow> ret ()
     | Inr ps \<Rightarrow>
         if ps = [] then ret ()
         else
           seq (persist_statuses pe ps) (\<lambda>sts.
           case sts of
             None \<Rightarrow> ret ()
           | Some running \<Rightarrow>
               (let request = once_statuses ps @ running in
                if request = [] then ret () else send_scan pe request)))))"

text \<open>The goroutine that starts a plugin.\<close>

definition start_plugin :: "('e, 'l) plugin_env \<Rightarrow> string \<times> int \<Rightarrow> ('e, 'l, unit) pa" where
  "start_plugin pe nt =
     seq (modify (\<lambda>s. s\<lparr>pa_starts := remove1 nt (pa_starts s)\<rparr>)) (\<lambda>_.
     seq (syncRunKillGroup pe ''acs-plugin-manager'' [''-e'', ''--local'', ''-P'', fst nt, ''-p'', ''--start''] (snd nt)) (\<lambda>_. ret ()))"

subsection \<open>The pull\<close>

text \<open>What the heartbeat file of a persistent plugin says; \<open>None\<close> when the file is missing or not a time.\<close>

definition heartbeat_status :: "('e, 'l) plugin_env \<Rightarrow> string \<Rightarrow> int \<Rightarrow> PluginInfo \<Rightarrow> ('e, 'l, string option) pa" where
  "heartbeat_status pe pluginDir now p =
     (let path = path_join [pluginDir, pi_Name p, pi_Version p, ''heartbeat''] in
      seq (pa_on (CheckFileIsExist (pe_mc pe) path)) (\<lambda>found.
      if \<not> found then ret None
      else
        seq (pa_on (ask (\<lambda>n. pe_read_file pe n path))) (\<lambda>r.
        case r of
          Inl e \<Rightarrow> ret None
        | Inr content \<Rightarrow>
            (case atoi (trim_space content) of
               (timestamp, Some e) \<Rightarrow> ret None
             | (timestamp, None) \<Rightarrow>
                 ret (Some (if wrap64 (HeartbeatInterval p + 5) < wrap64 (now - timestamp) then PERSIST_FAIL else PERSIST_RUNNING))))))"

fun pull_statuses :: "('e, 'l) plugin_env \<Rightarrow> string \<Rightarrow> int \<Rightarrow> PluginInfo list \<Rightarrow> (string \<times> string) list \<Rightarrow> PluginStatus list \<Rightarrow>
    ('e, 'l, (string \<times> string) list \<times> PluginStatus list) pa" where
  "pull_statuses pe dir now [] cur request = ret (cur, request)"
| "pull_statuses pe dir now (p # ps) cur request =
     (if PluginType p = PLUGIN_PERSIST \<and> \<not> IsRemoved p then
        seq (heartbeat_status pe dir now p) (\<lambda>r.
        case r of
          None \<Rightarrow> pull_statuses pe dir now ps cur request
        | Some status \<Rightarrow> pull_statuses pe dir now ps (AList.update (pi_Name p) status cur)
            (request @ [plugin_status (pi_Name p) status (pi_Version p)]))
      else pull_statuses pe dir now ps cur request)"

definition changed_status :: "(string \<times> string) list \<Rightarrow> string \<times> string \<Rightarrow> bool" where
  "changed_status former kv = (case map_of former (fst kv) of None \<Rightarrow> True | Some v \<Rightarrow> snd kv \<noteq> v)"

definition will_report :: "bool \<Rightarrow> (string \<times> string) list \<Rightarrow> (string \<times> string) list \<Rightarrow> bool" where
  "will_report lazy cur former =
     (if lazy then (if length cur \<noteq> length former then True else list_ex (changed_status former) cur) else True)"

definition send_pull :: "('e, 'l) plugin_env \<Rightarrow> PluginStatus list \<Rightarrow> ('e, 'l, unit) pa" where
  "send_pull pe request =
     seq (pa_on (HttpPost (pe_env pe) (GetPluginHealthService (pe_env pe)) (PluginStatusResquest_json request))) (\<lambda>(resp, err).
     case err of
       Some e \<Rightarrow> ret ()
     | None \<Rightarrow>
         (case pe_health pe resp of
            Inl e \<Rightarrow> ret ()
          | Inr r \<Rightarrow>
              seq (modify (use_pull_interval r)) (\<lambda>_.
              seq (look pluginHealthPullInterval) (\<lambda>interval.
              seq (plugin_refreshTimer HealthPull interval) (\<lambda>_.
              modify (switch_lazy r \<circ> use_scan_interval r))))))"

text \<open>The part after the waiting.\<close>

definition pull_now :: "('e, 'l) plugin_env \<Rightarrow> int \<Rightarrow> ('e, 'l, unit) pa" where
  "pull_now pe now =
     seq (findAllInstalledPlugins pe) (\<lambda>r.
     case r of
       Inl e \<Rightarrow> ret ()
     | Inr ps \<Rightarrow>
         if ps = [] then ret ()
         else
           seq (pa_on (GetPluginPath (pe_mc pe))) (\<lambda>(dir, err).
           if err \<noteq> None then ret ()
           else
             seq (pull_statuses pe dir now ps [] []) (\<lambda>(cur, request).
             if request = [] then ret ()
             else
               seq (look (\<lambda>s. will_report (lazyReport s) cur (lastPluginStatusRecord s))) (\<lambda>willReport.
               if \<not> willReport then ret ()
               else seq (modify (\<lambda>s. s\<lparr>lastPluginStatusRecord := cur\<rparr>)) (\<lambda>_. send_pull pe request)))))"

text \<open>A pull keeps its distance to the scan before it and to the one after it.\<close>

definition wait_for_scan :: "('e, 'l) plugin_env \<Rightarrow> int \<Rightarrow> ('e, 'l, int) pa" where
  "wait_for_scan pe lastTime =
     seq (unix_now pe) (\<lambda>now.
     let needWait = wrap64 (avoidTime - wrap64 (now - lastTime)) in
     if 0 < needWait then seq (pa_on (\<lambda>w. ((), go_sleep (nat needWait) w))) (\<lambda>_. unix_now pe)
     else ret now)"

definition pluginHealthCheckPull :: "('e, 'l) plugin_env \<Rightarrow> ('e, 'l, unit) pa" where
  "pluginHealthCheckPull pe =
     seq (look lastPluginHealthCheckTime) (\<lambda>lastTime.
     seq (wait_for_scan pe lastTime) (\<lambda>now.
     seq (look pluginHealthScanInterval) (\<lambda>interval.
     let remainTime = wrap64 (wrap64 (lastTime + interval) - now) in
     if remainTime < avoidTime then ret () else pull_now pe now)))"

section \<open>Upgrades and the list\<close>

definition persist_versions :: "PluginInfo list \<Rightarrow> (string \<times> string) list" where
  "persist_versions ps = map (\<lambda>p. (pi_Name p, pi_Version p)) (filter (\<lambda>p. PluginType p = PLUGIN_PERSIST \<and> \<not> IsRemoved p) ps)"

definition OS_TYPE :: string where "OS_TYPE = ''linux''"

text \<open>One upgrade is one run of the plugin manager, with five seconds more than the plugin may take.\<close>

definition upgrade_plugin :: "('e, 'l) plugin_env \<Rightarrow> (go_error \<Rightarrow> string) \<Rightarrow> PluginUpdateInfo \<Rightarrow> ('e, 'l, unit) pa" where
  "upgrade_plugin pe error_text p =
     seq (syncRunKillGroup pe ''acs-plugin-manager'' [''--exec'', ''-P'', pui_Name p, ''-n'', pui_Version p, ''-p'', ''--upgrade'']
       (wrap64 (pui_Timeout p + 5))) (\<lambda>(output, exitCode, status, err).
     report_event pe (\<lambda>me. GetPluginUpdateEvent me
       [''name'', pui_Name p, ''version'', pui_Version p, ''exitCode'', itoa exitCode, ''status'', itoa (status_int status),
        ''errMsg'', (case err of None \<Rightarrow> [] | Some e \<Rightarrow> error_text e),
        ''output'', (if length output > 1024 then take 1024 output else output)]))"

definition pluginUpdateCheck :: "('e, 'l) plugin_env \<Rightarrow> (go_error \<Rightarrow> string) \<Rightarrow> ('e, 'l, unit) pa" where
  "pluginUpdateCheck pe error_text =
     seq (findAllInstalledPlugins pe) (\<lambda>r.
     case r of
       Inl e \<Rightarrow> ret ()
     | Inr ps \<Rightarrow>
         if ps = [] \<or> persist_versions ps = [] then ret ()
         else
           seq (pa_on (GetArch (pe_uname pe))) (\<lambda>(arch, raw).
           seq (pa_on (post_tries (pe_env pe) 3 2 (GetPluginUpdateCheckService (pe_env pe))
             (PluginUpdateCheckRequest_json OS_TYPE arch (persist_versions ps)))) (\<lambda>(resp, err).
           case err of
             Some e \<Rightarrow> ret ()
           | None \<Rightarrow>
               (case pe_update pe resp of
                  Inl e \<Rightarrow> ret ()
                | Inr u \<Rightarrow>
                    seq (each (upgrade_plugin pe error_text) (puc_Plugin u)) (\<lambda>_.
                    seq (modify (\<lambda>s. if 0 < NextInterval u then s\<lparr>pluginUpdateCheckInterval := NextInterval u\<rparr> else s)) (\<lambda>_.
                    seq (look pluginUpdateCheckInterval) (\<lambda>interval.
                    seq (plugin_refreshTimer UpdateCheck interval) (\<lambda>_. ret ()))))))))"

text \<open>The keys of a map are written in ascending order.\<close>

definition plugin_list_json :: "PluginInfo list \<Rightarrow> string" where
  "plugin_list_json ps =
     (let texts = (\<lambda>f. json_list (map (json_string \<circ> f) ps)) in
      json_object [(''arch'', texts (to_lower \<circ> pi_Arch)), (''name'', texts pi_Name), (''os'', texts (to_lower \<circ> OSType)), (''version'', texts pi_Version)])"

definition pluginLocalListReport :: "('e, 'l) plugin_env \<Rightarrow> ('e, 'l, unit) pa" where
  "pluginLocalListReport pe =
     seq (findAllInstalledPlugins pe) (\<lambda>r.
     case r of
       Inl e \<Rightarrow> ret ()
     | Inr all \<Rightarrow>
         (let ps = filter (\<lambda>p. \<not> IsRemoved p) all in
          if ps = [] then ret ()
          else
            seq (pa_on (GetArch (pe_uname pe))) (\<lambda>(localArch, raw).
            report_event pe (\<lambda>me. GetPluginLocalListEvent me
              [''pluginList'', plugin_list_json ps, ''localArch'', localArch, ''localOsType'', OS_TYPE]))))"

text \<open>What the timers call.\<close>

definition plugin_callback_run :: "('e, 'l) plugin_env \<Rightarrow> (go_error \<Rightarrow> string) \<Rightarrow> plugin_callback \<Rightarrow> ('e, 'l, unit) pa" where
  "plugin_callback_run pe error_text c =
     (case c of HealthScan \<Rightarrow> pluginHealthCheckScan pe | HealthPull \<Rightarrow> pluginHealthCheckPull pe
      | UpdateCheck \<Rightarrow> pluginUpdateCheck pe error_text | ListReport \<Rightarrow> pluginLocalListReport pe)"

end
