(* ===== verification/Plugin_Store_Properties.thy ===== *)
theory Plugin_Store_Properties
  imports Plugin_Store
begin

text \<open>
  What holds of the database of the installed plugins: keys and their order, its well-formedness, the
  reading of what was inserted, the search for one plugin, and the migration of the old file.
\<close>

section \<open>Keys\<close>

lemma length_itob [simp]: "length (itob v) = 8"
  by (simp add: itob_def)

lemma itob_unfold:
  "itob v = [v mod 256, v div 256 mod 256, v div 65536 mod 256, v div 16777216 mod 256, v div 4294967296 mod 256,
     v div 1099511627776 mod 256, v div 281474976710656 mod 256, v div 72057594037927936 mod 256]"
  by (simp add: itob_def upt_rec)

lemma digits_sum: "b8toi (map (\<lambda>i. v div 256 ^ i mod 256) [0..<n]) = v mod 256 ^ n"
proof (induction n arbitrary: v)
  case (Suc n)
  have "map (\<lambda>i. v div 256 ^ i mod 256) [0..<Suc n] = v mod 256 # map (\<lambda>i. v div 256 div 256 ^ i mod 256) [0..<n]"
    by (simp add: upt_conv_Cons map_Suc_upt [symmetric] div_mult2_eq del: upt_Suc)
  then show ?case using Suc [of "v div 256"] by (simp add: mod_mult2_eq)
qed simp

text \<open>The eight bytes of a key that fits into them are read back to the key.\<close>

theorem b8toi_itob: "v < 2 ^ 64 \<Longrightarrow> b8toi (itob v) = v"
  using digits_sum [of v 8] by (simp add: itob_def)

theorem b8toi_itob_witness: "b8toi (itob 258) = 258"
  by (rule b8toi_itob) simp

lemma b8toi_key: "v < 2 ^ 64 \<Longrightarrow> b8toi (itob v) = v"
  using digits_sum [of v 8] by (simp add: itob_def)

lemma itob_inj: "v < 2 ^ 64 \<Longrightarrow> w < 2 ^ 64 \<Longrightarrow> itob v = itob w \<Longrightarrow> v = w"
  by (metis b8toi_key)

text \<open>The bytes of a key stand lowest first and the library visits keys by their bytes: the keys are not
  visited in the order in which they were given out, and every multiple of 256 comes before key 1.\<close>

theorem multiples_come_first: "itob (256 * q) < itob 1"
  by (simp add: itob_unfold)

section \<open>Well-formedness\<close>

definition db_ok :: "plugin_db \<Rightarrow> bool" where
  "db_ok d \<longleftrightarrow> sorted_wrt (<) (map fst (with_bucket d)) \<and> db_sequence d < 2 ^ 64
     \<and> (\<forall>(k, v) \<in> set (with_bucket d). \<exists>n. 0 < n \<and> n \<le> db_sequence d \<and> k = itob n)"

lemma set_put: "fst ` set (put k v es) = insert k (fst ` set es)"
proof (induction es)
  case (Cons e es)
  then show ?case by (cases e) auto
qed simp

lemma put_keys: "(a, b) \<in> set (put k v es) \<Longrightarrow> a = k \<or> (a, b) \<in> set es"
  by (induction es) (auto split: if_splits)

lemma sorted_put: "sorted_wrt (<) (map fst es) \<Longrightarrow> sorted_wrt (<) (map fst (put k v es))"
proof (induction es)
  case (Cons e es)
  obtain k' v' where e: "e = (k', v')" by (cases e)
  have sub: "fst ` set (put k v es) = insert k (fst ` set es)" by (rule set_put)
  show ?case
  proof (cases "k < k'")
    case True
    then show ?thesis using Cons.prems by (auto simp: e)
  next
    case False
    then show ?thesis using Cons.prems Cons.IH sub by (auto simp: e)
  qed
qed simp

lemma put_fresh:
  "sorted_wrt (<) (map fst es) \<Longrightarrow> k \<notin> fst ` set es \<Longrightarrow> \<exists>xs ys. es = xs @ ys \<and> put k v es = xs @ (k, v) # ys"
proof (induction es)
  case (Cons e es)
  obtain k' v' where e: "e = (k', v')" by (cases e)
  show ?case
  proof (cases "k < k'")
    case True
    then show ?thesis using Cons.prems(2) by (auto simp: e intro: exI [of _ "[]"])
  next
    case False
    with Cons obtain xs ys where "es = xs @ ys" "put k v es = xs @ (k, v) # ys" by auto
    with False Cons.prems(2) show ?thesis by (auto simp: e intro: exI [of _ "(k', v') # xs"])
  qed
qed simp

lemma bucket_simps [simp]:
  "with_bucket (d\<lparr>db_bucket := Some es\<rparr>) = es" "with_bucket (d\<lparr>db_sequence := n\<rparr>) = with_bucket d"
  "with_bucket \<lparr>db_bucket = Some es, db_sequence = n\<rparr> = es" "with_bucket empty_db = []"
  by (simp_all add: with_bucket_def empty_db_def)

lemma fresh_key:
  assumes "db_ok d" "Suc (db_sequence d) < 2 ^ 64"
  shows "itob (Suc (db_sequence d)) \<notin> fst ` set (with_bucket d)"
proof
  assume "itob (Suc (db_sequence d)) \<in> fst ` set (with_bucket d)"
  then obtain v where "(itob (Suc (db_sequence d)), v) \<in> set (with_bucket d)" by auto
  then obtain n where "n \<le> db_sequence d" "itob (Suc (db_sequence d)) = itob n" using assms(1) by (auto simp: db_ok_def)
  then show False using itob_inj [of "Suc (db_sequence d)" n] assms(2) by simp
qed

lemma insert_payload_ok:
  assumes "db_ok d" "Suc (db_sequence d) < 2 ^ 64"
  shows "db_ok (insert_payload v d)"
proof -
  have sorted: "sorted_wrt (<) (map fst (put (itob (Suc (db_sequence d))) v (with_bucket d)))"
    using assms(1) sorted_put unfolding db_ok_def by blast
  have "\<exists>n. 0 < n \<and> n \<le> Suc (db_sequence d) \<and> a = itob n"
    if "(a, b) \<in> set (put (itob (Suc (db_sequence d))) v (with_bucket d))" for a b
    using put_keys [OF that] assms(1) unfolding db_ok_def by (fastforce intro: le_SucI)
  with sorted assms(2) show ?thesis by (auto simp: db_ok_def insert_payload_def Let_def)
qed

lemma update_payload_ok:
  assumes "db_ok d" "0 < key" "key \<le> db_sequence d"
  shows "db_ok (update_payload key v d)"
proof -
  have sorted: "sorted_wrt (<) (map fst (put (itob key) v (with_bucket d)))"
    using assms(1) sorted_put unfolding db_ok_def by blast
  have "\<exists>n. 0 < n \<and> n \<le> db_sequence d \<and> a = itob n" if "(a, b) \<in> set (put (itob key) v (with_bucket d))" for a b
    using put_keys [OF that] assms unfolding db_ok_def by fastforce
  with sorted assms(1) show ?thesis by (auto simp: db_ok_def update_payload_def)
qed

lemma delete_payload_ok:
  assumes "db_ok d"
  shows "db_ok (delete_payload key d)"
proof -
  have "with_bucket (delete_payload key d) = filter (\<lambda>(k, v). k \<noteq> itob key) (with_bucket d)"
    by (auto simp: with_bucket_def delete_payload_def split: option.split)
  moreover have "sorted_wrt (<) (map fst (filter (\<lambda>(k, v). k \<noteq> itob key) (with_bucket d)))"
    using assms unfolding db_ok_def by (simp add: sorted_wrt_map sorted_wrt_filter)
  ultimately show ?thesis using assms by (auto simp: db_ok_def delete_payload_def)
qed

lemma empty_db_ok: "db_ok empty_db"
  by (simp add: db_ok_def) (simp add: empty_db_def)

section \<open>Reading\<close>

lemma map_sum_case: "map_sum id f x = (case x of Inl e \<Rightarrow> Inl e | Inr a \<Rightarrow> Inr (f a))"
  by (cases x) simp_all

lemma decode_append:
  "decode_all se (xs @ ys) = (case decode_all se xs of Inl e \<Rightarrow> Inl e | Inr as \<Rightarrow> map_sum id (\<lambda>bs. as @ bs) (decode_all se ys))"
proof (induction xs)
  case Nil
  show ?case by (simp add: map_sum_case split: sum.split)
next
  case (Cons x xs)
  then show ?case by (cases x) (auto simp: map_sum_case split: sum.splits)
qed

text \<open>The plugin that is found is the first one of all that fits.\<close>

theorem FindOne_is_first:
  assumes "FindAll se s = Inr ps"
  shows "FindOneWithPredicate se fits s = Inr (find (\<lambda>(k, p). fits p) ps)"
proof -
  have "decode_all se es = Inr ps \<Longrightarrow> find_first se fits es = Inr (find (\<lambda>(k, p). fits p) ps)" for es
    by (induction es arbitrary: ps) (auto simp: map_sum_case split: prod.splits sum.splits)
  with assms show ?thesis by (simp add: FindAll_def FindOneWithPredicate_def)
qed

text \<open>A plugin that was inserted is among all plugins, under a new key, and the others are as before.\<close>

theorem insert_then_find:
  assumes "ps_db s = Some d" "db_ok d" "Suc (db_sequence d) < 2 ^ 64" "FindAll se s = Inr ps"
    and "se_unmarshal se (se_marshal se p) = Inr p'" "InsertPlugin se p s = Some (Returns None, s1)"
  shows "\<exists>xs ys. ps = xs @ ys \<and> FindAll se s1 = Inr (xs @ (Suc (db_sequence d), p') # ys)
     \<and> Suc (db_sequence d) \<notin> fst ` set ps"
proof -
  let ?k = "itob (Suc (db_sequence d))"
  have e: "db_entries s = with_bucket d" using assms(1) by (simp add: db_entries_def)
  have s1: "db_entries s1 = put ?k (se_marshal se p) (with_bucket d)"
    using assms(1,6) by (auto simp: InsertPlugin_def transaction_def ps_on_def prog_defs insert_payload_def Let_def split_beta db_entries_def
        split: option.splits)
  have sorted: "sorted_wrt (<) (map fst (with_bucket d))" using assms(2) by (simp add: db_ok_def)
  obtain xs ys where split: "with_bucket d = xs @ ys" "put ?k (se_marshal se p) (with_bucket d) = xs @ (?k, se_marshal se p) # ys"
    using put_fresh [OF sorted fresh_key [OF assms(2,3)]] by blast
  obtain as bs where ab: "decode_all se xs = Inr as" "decode_all se ys = Inr bs" "ps = as @ bs"
    using assms(4) unfolding FindAll_def e split(1) decode_append by (auto simp: map_sum_case split: sum.splits)
  have "FindAll se s1 = Inr (as @ (Suc (db_sequence d), p') # bs)"
    using ab assms(5) b8toi_key [OF assms(3)] unfolding FindAll_def s1 split(2) decode_append by simp
  moreover have "Suc (db_sequence d) \<notin> fst ` set ps"
  proof -
    have "decode_all se es = Inr ps \<Longrightarrow> map fst ps = map (b8toi \<circ> fst) es" for es
      by (induction es arbitrary: ps) (auto simp: map_sum_case split: prod.splits sum.splits)
    then have "map fst ps = map (b8toi \<circ> fst) (with_bucket d)" using assms(4) by (simp add: FindAll_def e)
    then have "fst ` set ps = b8toi ` fst ` set (with_bucket d)" by (metis image_comp list.set_map)
    moreover have "b8toi k \<noteq> Suc (db_sequence d)" if kv: "(k, v) \<in> set (with_bucket d)" for k v
    proof -
      obtain n where "n \<le> db_sequence d" "k = itob n" using assms(2) kv by (auto simp: db_ok_def)
      then show ?thesis using b8toi_key [of n] assms(3) by simp
    qed
    ultimately show ?thesis by force
  qed
  ultimately show ?thesis using ab(3) by blast
qed

section \<open>The migration\<close>

lemma load_keeps_db:
  assumes "ps_db s = Some d"
  shows "wpr (LoadInstalledPlugins se) (\<lambda>_ s1. ps_db s1 = Some d) (\<lambda>_ _. False) s"
  using assms by (auto simp: LoadInstalledPlugins_def getInstalledPluginsBoltPath_def plugin_file_def ps_on_def wpr_rules split_beta Let_def
      split: option.split sum.split)

text \<open>When the plugins of the old file cannot be committed, the new file stays behind without them: from
  then on the database opens, and whatever is read from it is empty.\<close>

theorem failed_migration_loses_plugins:
  assumes "se_raced se (ticks (ps_world s)) = None" "se_open se (Suc (ticks (ps_world s))) = None"
    and "se_commit se (Suc (Suc (ticks (ps_world s)))) = Some e"
  shows "\<exists>s1. migrate se payloads s = Some (Returns (Some e), s1) \<and> ps_db s1 \<noteq> None \<and> FindAll se s1 = Inr []"
  using assms by (simp add: migrate_def insertInstalledPluginInfoBytes_def transaction_def ps_on_def prog_defs ask_def tick_def FindAll_def db_entries_def)

section \<open>Examples\<close>

definition sample_plugin :: PluginInfo where
  "sample_plugin = \<lparr>PluginID = ''p-1'', pi_Name = ''monitor'', pi_Arch = ''x64'', OSType = ''linux'', pi_Version = ''1.2'', pi_Publisher = ''a'',
     pi_Url = ''u'', pi_Md5 = ''m'', RunPath = ''run.sh'', pi_Timeout = ''60'', IsPreInstalled = ''false'', pi_PluginType = TypeNumber (Some 1),
     pluginTypeStr = [], HeartbeatInterval = 60, IsRemoved = False, AddSysTag = False\<rparr>"

definition plain_store :: store_env where
  "plain_store = \<lparr>se_mc = \<lparr>mc_stat = (\<lambda>n p. NotExist), mc_lstat = (\<lambda>n p. NotExist), mc_mkdir = (\<lambda>n p. None), mc_write = (\<lambda>n p. None),
       mc_chmod = (\<lambda>n p. None), mc_chown = (\<lambda>n p. None), mc_remove = (\<lambda>n p. None), mc_executable = (\<lambda>n. Inr ''/usr/local/share/aliyun-assist/2.2/x''),
       mc_look_path = (\<lambda>n p. None), mc_user = (\<lambda>n u. Inr (''0'', ''/root'')), mc_group = (\<lambda>n g. Inr ''0''), mc_home_env = (\<lambda>n. Inr ''/root''),
       mc_current_home = (\<lambda>n. Inr ''/root''), mc_environ = (\<lambda>n. []), mc_output = (\<lambda>n c. Inr []), mc_start = (\<lambda>n c as. None),
       mc_timer_first = (\<lambda>n. False), mc_finish = (\<lambda>n. (Some 0, None)), mc_events = (\<lambda>n. []), mc_script_path = ''/tmp''\<rparr>,
     se_open = (\<lambda>n. None), se_raced = (\<lambda>n. None), se_json_file = (\<lambda>n. Inr ''{}''), se_parse = (\<lambda>s. Inr []), se_commit = (\<lambda>n. None),
     se_marshal = (\<lambda>p. pi_Name p), se_unmarshal = (\<lambda>s. Inr (sample_plugin\<lparr>pi_Name := s\<rparr>))\<rparr>"

definition empty_store :: plugin_store where
  "empty_store = \<lparr>ps_world = \<lparr>ticks = 0, trace = []\<rparr>, ps_db = Some empty_db\<rparr>"

theorem FindOne_is_first_witness: "FindOneWithPredicate plain_store (\<lambda>p. True) empty_store = Inr None"
  using FindOne_is_first [of plain_store empty_store "[]" "\<lambda>p. True"]
  by (simp add: FindAll_def db_entries_def empty_store_def)

theorem insert_then_find_witness:
  "\<exists>s1. InsertPlugin plain_store sample_plugin empty_store = Some (Returns None, s1)
     \<and> FindAll plain_store s1 = Inr [(1, sample_plugin)]"
proof -
  obtain s1 where s1: "InsertPlugin plain_store sample_plugin empty_store = Some (Returns None, s1)"
    by (auto simp: InsertPlugin_def transaction_def ps_on_def prog_defs ask_def plain_store_def)
  have "FindAll plain_store empty_store = Inr []" "se_unmarshal plain_store (se_marshal plain_store sample_plugin) = Inr sample_plugin"
    by (simp_all add: FindAll_def db_entries_def empty_store_def plain_store_def sample_plugin_def)
  then show ?thesis
    using insert_then_find [OF _ empty_db_ok _ _ _ s1, of "[]" sample_plugin] s1 by (auto simp: empty_store_def empty_db_def)
qed

theorem failed_migration_loses_plugins_witness:
  "\<exists>s1. migrate (plain_store\<lparr>se_commit := (\<lambda>n. Some (PlainError ''disk full''))\<rparr>) [''p''] empty_store
     = Some (Returns (Some (PlainError ''disk full'')), s1) \<and> FindAll (plain_store\<lparr>se_commit := (\<lambda>n. Some (PlainError ''disk full''))\<rparr>) s1 = Inr []"
  using failed_migration_loses_plugins [of "plain_store\<lparr>se_commit := (\<lambda>n. Some (PlainError ''disk full''))\<rparr>" empty_store "PlainError ''disk full''" "[''p'']"]
  by (auto simp: plain_store_def)

end
