(* ===== verification/Task_Models.thy ===== *)
theory Task_Models
  imports Task_Errors
begin

text \<open>
  The data of tasks as the server sends it: \<open>agent/taskengine/models\<close>. A repeat type is a Go
  string type, so that unknown values reach the dispatcher; the known ones are constructors and
  any other text is \<open>OtherRepeat\<close>. Maps from string to string are association lists without
  duplicate keys (\<open>None\<close> for a nil map).
\<close>

datatype RunTaskRepeatType = RunTaskOnce | RunTaskCron | RunTaskNextRebootOnly
  | RunTaskEveryReboot | RunTaskRate | RunTaskAt | OtherRepeat string

definition repeat_type :: "string \<Rightarrow> RunTaskRepeatType" where
  "repeat_type s =
     (if s = ''Once'' then RunTaskOnce else if s = ''Period'' then RunTaskCron
      else if s = ''NextRebootOnly'' then RunTaskNextRebootOnly
      else if s = ''EveryReboot'' then RunTaskEveryReboot
      else if s = ''Rate'' then RunTaskRate else if s = ''At'' then RunTaskAt
      else OtherRepeat s)"

record OutputInfo =
  out_Interval :: int
  out_LogQuota :: int
  out_SkipEmpty :: bool
  out_SendStart :: bool

record RunTaskInfo =
  ri_InstanceId :: string
  ri_CommandType :: string
  ri_TaskId :: string
  ri_CommandId :: string
  ri_EnableParameter :: bool
  ri_TimeOut :: string
  ri_CommandName :: string
  ri_InvokeVersion :: int
  ri_Content :: string
  ri_WorkingDir :: string
  ri_Args :: string
  ri_Cronat :: string
  ri_Username :: string
  ri_Password :: string
  ri_CreationTime :: int
  ri_ContainerId :: string
  ri_ContainerName :: string
  ri_BuiltinParameters :: "(string \<times> string) list option"
  ri_Output :: OutputInfo
  ri_Repeat :: RunTaskRepeatType

record SendFileTaskInfo =
  sf_Content :: string
  sf_ContentType :: string
  sf_Destination :: string
  sf_Group :: string
  sf_Mode :: string
  sf_Name :: string
  sf_Overwrite :: bool
  sf_Owner :: string
  sf_Signature :: string
  sf_TaskID :: string
  sf_Timeout :: int
  sf_Output :: OutputInfo

record SessionTaskInfo =
  si_CmdContent :: string
  si_Username :: string
  si_Password :: string
  si_SessionId :: string
  si_WebsocketUrl :: string
  si_TargetHost :: string
  si_PortNumber :: string
  si_FlowLimit :: int

text \<open>The classes the dispatcher distinguishes.\<close>

definition non_periodic :: "RunTaskRepeatType \<Rightarrow> bool" where
  "non_periodic r \<longleftrightarrow> r = RunTaskOnce \<or> r = RunTaskNextRebootOnly \<or> r = RunTaskEveryReboot"

definition periodic :: "RunTaskRepeatType \<Rightarrow> bool" where
  "periodic r \<longleftrightarrow> r = RunTaskCron \<or> r = RunTaskRate \<or> r = RunTaskAt"

lemma repeat_classes [simp]:
  "non_periodic RunTaskOnce" "non_periodic RunTaskNextRebootOnly" "non_periodic RunTaskEveryReboot"
  "periodic RunTaskCron" "periodic RunTaskRate" "periodic RunTaskAt"
  "\<not> periodic RunTaskOnce" "\<not> periodic RunTaskNextRebootOnly" "\<not> periodic RunTaskEveryReboot"
  "\<not> non_periodic RunTaskCron" "\<not> non_periodic RunTaskRate" "\<not> non_periodic RunTaskAt"
  "\<not> periodic (OtherRepeat s)" "\<not> non_periodic (OtherRepeat s)"
  by (simp_all add: non_periodic_def periodic_def)

lemma not_both_classes: "\<not> (non_periodic r \<and> periodic r)"
  by (cases r) simp_all

end
