(* ===== verification/Time_Zone.thy ===== *)
theory Time_Zone
  imports World Go_Path
begin

text \<open>
  \<open>agent/util/timetool\<close>: the millisecond timestamps of the reports (\<open>timetool.go\<close>), the name
  of the local time zone with its fallback (\<open>localtime.go\<close>) and its detection on Unix
  (\<open>localzone_unix.go\<close>). The environment variable, the resolution of symbolic links and the
  result of \<open>stat\<close> are parameters.
\<close>

section \<open>Timestamps\<close>

text \<open>\<open>t.Unix() * 1000 + Nanosecond() / 1000000\<close>; seconds are rounded down.\<close>

definition ToAccurateTime :: "instant \<Rightarrow> int" where
  "ToAccurateTime t = (t div 1000000000) * 1000 + (t mod 1000000000) div 1000000"

definition ToStableElapsedTime :: "instant \<Rightarrow> instant \<Rightarrow> instant" where
  "ToStableElapsedTime t base = base + time_sub t base"

definition GetAccurateTime :: "env \<Rightarrow> world \<Rightarrow> int \<times> world" where
  "GetAccurateTime env w = (let (now, w1) = read_clock env w in (ToAccurateTime now, w1))"

lemma ToAccurateTime_ms: "ToAccurateTime t = t div 1000000"
proof -
  have "t div 1000000 = ((t div 1000000000) * 1000000000 + t mod 1000000000) div 1000000" by simp
  also have "\<dots> = (t mod 1000000000 + (t div 1000000000 * 1000) * 1000000) div 1000000"
    by (simp add: algebra_simps)
  also have "\<dots> = t div 1000000000 * 1000 + (t mod 1000000000) div 1000000"
    by (rule div_mult_self1) simp
  finally show ?thesis by (simp add: ToAccurateTime_def)
qed

section \<open>The name of the local zone\<close>

definition two_digit_text :: "int \<Rightarrow> string" where
  "two_digit_text n = (if n < 10 then ''0'' @ itoa n else itoa n)"

definition signed_text :: "int \<Rightarrow> string" where
  "signed_text n = (if n < 0 then itoa n else ''+'' @ itoa n)"

text \<open>Go's division and remainder truncate toward zero; the offset fits an \<open>int\<close>.\<close>

definition offset_zone_name :: "int \<Rightarrow> string" where
  "offset_zone_name offset =
     (if offset = 0 then ''UTC''
      else let offsetHourWithSign = sgn offset * (\<bar>offset\<bar> div 3600);
               offsetMinute = (\<bar>offset\<bar> mod 3600) div 60 in
        ''GMT'' @ signed_text offsetHourWithSign @ '':'' @ two_digit_text offsetMinute)"

definition NowWithTimezoneName :: "env \<Rightarrow> world \<Rightarrow> (instant \<times> int \<times> string) \<times> world" where
  "NowWithTimezoneName env w =
     (let offset = clock_zone env (ticks w); (now, w1) = read_clock env w in
      ((now, offset, if zone_name env = [] then offset_zone_name offset else zone_name env), w1))"

section \<open>Detection on Unix\<close>

datatype stat_result = StatFound | StatNotExist | StatExist | StatOtherError

text \<open>The predicates of \<open>os\<close> on the error of a call; a successful call has no error.\<close>

fun os_IsNotExist :: "stat_result \<Rightarrow> bool" where
  "os_IsNotExist StatNotExist = True"
| "os_IsNotExist r = False"

fun os_IsExist :: "stat_result \<Rightarrow> bool" where
  "os_IsExist StatExist = True"
| "os_IsExist r = False"

definition ErrDetectSystemTimezoneName :: go_error where
  "ErrDetectSystemTimezoneName = PlainError ''failed to detect TZ name in system''"

definition zoneinfoSources :: "string list" where
  "zoneinfoSources = [''/usr/share/zoneinfo/'', ''/usr/share/lib/zoneinfo/'', ''/usr/lib/locale/TZ/'']"

record zone_fs =
  tz_variable :: "string option"
  realpath :: "string \<Rightarrow> go_error + string"
  stat_file :: "string \<Rightarrow> stat_result"

fun zone_below :: "zone_fs \<Rightarrow> string \<Rightarrow> string list \<Rightarrow> go_error + string" where
  "zone_below fs path [] = Inl ErrDetectSystemTimezoneName"
| "zone_below fs path (source # sources) =
     (case strip_prefix source path of
        None \<Rightarrow> zone_below fs path sources
      | Some zoneinfoName \<Rightarrow>
          if os_IsNotExist (stat_file fs path) then zone_below fs path sources
          else Inr zoneinfoName)"

definition parseLocationName :: "zone_fs \<Rightarrow> string \<Rightarrow> go_error + string" where
  "parseLocationName fs zoneinfoPath =
     (case realpath fs zoneinfoPath of Inl err \<Rightarrow> Inl err
      | Inr realZoneinfoPath \<Rightarrow> zone_below fs realZoneinfoPath zoneinfoSources)"

definition confirmLocationName :: "zone_fs \<Rightarrow> string \<Rightarrow> bool" where
  "confirmLocationName fs zoneinfoName \<longleftrightarrow>
     list_ex (\<lambda>source. os_IsExist (stat_file fs (path_join [source, zoneinfoName]))) zoneinfoSources"

definition GetCurrentTimezoneName :: "zone_fs \<Rightarrow> go_error + string" where
  "GetCurrentTimezoneName fs =
     (case tz_variable fs of
        None \<Rightarrow> parseLocationName fs ''/etc/localtime''
      | Some tz \<Rightarrow>
          if tz = [] \<or> tz = ''UTC'' \<or> tz = '':UTC'' then Inr ''UTC''
          else
            (let tz' = (if hd tz = CHR '':'' then tl tz else tz) in
             if tz' \<noteq> [] \<and> hd tz' = CHR ''/'' then parseLocationName fs tz'
             else if tz' \<noteq> [] \<and> confirmLocationName fs tz' then Inr tz'
             else Inl ErrDetectSystemTimezoneName))"

lemma zone_below_Inr:
  "zone_below fs path sources = Inr name \<Longrightarrow>
    \<exists>source \<in> set sources. path = source @ name \<and> stat_file fs path \<noteq> StatNotExist"
  by (induction sources) (auto simp: strip_prefix_iff split: option.splits if_splits)

text \<open>A zone named by a path is reported as the part of its resolved path below a zoneinfo
  directory, and only for a file that exists; no other name can come from a path.\<close>

theorem parseLocationName_below_source:
  "case parseLocationName fs p of
     Inl err \<Rightarrow> (case realpath fs p of Inl e \<Rightarrow> err = e | Inr q \<Rightarrow> err = ErrDetectSystemTimezoneName)
   | Inr name \<Rightarrow> (\<exists>q source. realpath fs p = Inr q \<and> source \<in> set zoneinfoSources \<and> q = source @ name
        \<and> stat_file fs q \<noteq> StatNotExist)"
proof -
  have "err = ErrDetectSystemTimezoneName" if "zone_below fs q sources = Inl err" for q sources err
    using that by (induction sources) (auto split: option.splits if_splits)
  then show ?thesis
    by (auto simp: parseLocationName_def split: sum.splits dest!: zone_below_Inr)
qed

text \<open>A zone given by name in \<open>TZ\<close> is never recognised: the confirmation asks whether the
  error of \<open>stat\<close> says that the file exists already, which \<open>stat\<close> never reports and which is
  false on success. Every relative name other than UTC ends in the detection error, also when
  its file is there.\<close>

theorem relative_TZ_never_detected:
  assumes "tz_variable fs = Some (c # cs)" "c \<noteq> CHR ''/''" "c \<noteq> CHR '':''" "c # cs \<noteq> ''UTC''"
    and "\<forall>p. stat_file fs p \<noteq> StatExist"
  shows "GetCurrentTimezoneName fs = Inl ErrDetectSystemTimezoneName"
proof -
  have "\<not> os_IsExist (stat_file fs p)" for p
    using assms(5) by (cases "stat_file fs p") auto
  then have "\<not> confirmLocationName fs s" for s
    by (simp add: confirmLocationName_def list_ex_iff)
  then show ?thesis using assms by (auto simp: GetCurrentTimezoneName_def)
qed

theorem relative_TZ_never_detected_witness:
  "GetCurrentTimezoneName \<lparr>tz_variable = Some ''Asia/Shanghai'', realpath = Inr,
     stat_file = (\<lambda>p. StatFound)\<rparr> = Inl ErrDetectSystemTimezoneName"
  by (rule relative_TZ_never_detected [where c = "CHR ''A''" and cs = "''sia/Shanghai''"]) simp_all

text \<open>The fallback name loses the sign of offsets within an hour west of Greenwich: they get
  the name of the mirrored offset east of it.\<close>

theorem offset_zone_name_sign_lost:
  "offset_zone_name (- 1800) = ''GMT+0:30'' \<and> offset_zone_name 1800 = ''GMT+0:30''
   \<and> offset_zone_name (- 5400) = ''GMT-1:30''"
  by code_simp

end
