(* ===== verification/Task_Report.thy ===== *)
theory Task_Report
  imports World Time_Zone
begin

text \<open>
  The reports shared by the task engine, \<open>agent/taskengine/api.go\<close>, and the address of the
  registration service. A request address is read back by \<open>query_params\<close>, the way a server
  reads it: the part after the first question mark, cut at the ampersands, each piece cut at its
  first equals sign and unescaped.
\<close>

section \<open>Query strings\<close>

definition cut_at :: "char \<Rightarrow> string \<Rightarrow> string \<times> string" where
  "cut_at c s = (takeWhile (\<lambda>x. x \<noteq> c) s, drop 1 (dropWhile (\<lambda>x. x \<noteq> c) s))"

definition query_params :: "string \<Rightarrow> (string \<times> string) list" where
  "query_params url =
     map (\<lambda>p. let (k, v) = cut_at (CHR ''='') p in (k, query_unescape v))
       (split_on (CHR ''&'') (snd (cut_at (CHR ''?'') url)))"

definition plain_value :: "string \<Rightarrow> bool" where
  "plain_value s \<longleftrightarrow> query_safe s \<and> CHR ''%'' \<notin> set s \<and> CHR ''+'' \<notin> set s"

lemma cut_at_append: "c \<notin> set a \<Longrightarrow> cut_at c (a @ c # b) = (a, b)"
proof -
  assume c: "c \<notin> set a"
  have "takeWhile (\<lambda>x. x \<noteq> c) (a @ c # b) = a" "dropWhile (\<lambda>x. x \<noteq> c) (a @ c # b) = c # b"
    using c by (induction a) auto
  then show ?thesis by (simp add: cut_at_def)
qed

lemma query_unescape_plain: "plain_value s \<Longrightarrow> query_unescape s = s"
proof (induction s)
  case (Cons c s)
  then have "c \<noteq> CHR ''%''" "c \<noteq> CHR ''+''" "plain_value s" by (auto simp: plain_value_def query_safe_def)
  with Cons show ?case by simp
qed simp

lemma plain_itoa [simp]: "plain_value (itoa i)"
proof -
  have "c \<noteq> CHR ''%'' \<and> c \<noteq> CHR ''+''" if "c \<in> set (itoa i)" for c
    using itoa_chars [OF that] by (auto simp: go_lib)
  then show ?thesis by (auto simp: plain_value_def)
qed

text \<open>One pair of a query, and what \<open>query_params\<close> makes of a list of such pairs.\<close>

definition pair_text :: "string \<Rightarrow> string \<Rightarrow> string" where
  "pair_text k v = k @ ''='' @ v"

lemma parse_pairs:
  assumes "\<forall>(k, v) \<in> set ps. query_safe k \<and> query_safe v" "ps \<noteq> []"
  shows "map (\<lambda>p. let (k, v) = cut_at (CHR ''='') p in (k, query_unescape v))
      (split_on (CHR ''&'') (join ''&'' (map (\<lambda>(k, v). pair_text k v) ps)))
    = map (\<lambda>(k, v). (k, query_unescape v)) ps"
  using assms
proof (induction ps rule: induct_list012)
  case (2 p)
  obtain k v where p: "p = (k, v)" by fastforce
  with 2 have "CHR ''&'' \<notin> set (pair_text k v)" "CHR ''='' \<notin> set k"
    by (auto simp: pair_text_def query_safe_def)
  with p show ?case by (simp add: split_on_single pair_text_def cut_at_append)
next
  case (3 p q ps)
  obtain k v where p: "p = (k, v)" by fastforce
  define rest where "rest = join ''&'' (map (\<lambda>(k, v). pair_text k v) (q # ps))"
  have amp: "CHR ''&'' \<notin> set (pair_text k v)" and eq: "CHR ''='' \<notin> set k"
    using 3(3) p by (auto simp: pair_text_def query_safe_def)
  have "join ''&'' (map (\<lambda>(k, v). pair_text k v) (p # q # ps)) = pair_text k v @ CHR ''&'' # rest"
    by (simp add: p rest_def)
  then have s: "split_on (CHR ''&'') (join ''&'' (map (\<lambda>(k, v). pair_text k v) (p # q # ps)))
      = pair_text k v # split_on (CHR ''&'') rest"
    by (simp only: split_on_Cons [OF amp])
  have c: "cut_at (CHR ''='') (pair_text k v) = (k, v)"
    using cut_at_append [OF eq] by (simp add: pair_text_def)
  have "map (\<lambda>p. let (k, v) = cut_at (CHR ''='') p in (k, query_unescape v)) (split_on (CHR ''&'') rest)
      = map (\<lambda>(k, v). (k, query_unescape v)) (q # ps)"
    unfolding rest_def using 3(2,3) by simp
  then show ?case
    unfolding s by (simp add: c p)
qed simp

lemma query_params_pairs:
  assumes "CHR ''?'' \<notin> set base" "\<forall>(k, v) \<in> set ps. query_safe k \<and> query_safe v" "ps \<noteq> []"
  shows "query_params (base @ ''?'' @ join ''&'' (map (\<lambda>(k, v). pair_text k v) ps))
    = map (\<lambda>(k, v). (k, query_unescape v)) ps"
proof -
  have "cut_at (CHR ''?'') (base @ ''?'' @ r) = (base, r)" for r
    using cut_at_append [OF assms(1)] by simp
  then show ?thesis
    unfolding query_params_def using parse_pairs [OF assms(2,3)] by simp
qed

section \<open>Reports\<close>

definition invalidParamCron :: string where "invalidParamCron = ''cron''"
definition stopReasonKilled :: string where "stopReasonKilled = ''killed''"
definition stopReasonCompleted :: string where "stopReasonCompleted = ''completed''"

definition invalid_task_url :: "env \<Rightarrow> string \<Rightarrow> int \<Rightarrow> string \<Rightarrow> string \<Rightarrow> string" where
  "invalid_task_url env taskId invokeVersion param value =
     GetInvalidTaskService env @ ''?taskId='' @ taskId @ ''&invokeVersion='' @ itoa invokeVersion
       @ ''&param='' @ query_escape param @ ''&value='' @ query_escape value"

definition reportInvalidTask :: "env \<Rightarrow> string \<Rightarrow> int \<Rightarrow> string \<Rightarrow> string \<Rightarrow> world \<Rightarrow>
  (string \<times> go_error option) \<times> world" where
  "reportInvalidTask env taskId invokeVersion param value w =
     post_retrying env (invalid_task_url env taskId invokeVersion param value) [] w"

definition stopped_url :: "env \<Rightarrow> string \<Rightarrow> int \<Rightarrow> int \<Rightarrow> int \<Rightarrow> int \<Rightarrow> int \<Rightarrow> string \<Rightarrow> string" where
  "stopped_url env taskId invokeVersion start end_time exitcode dropped reason =
     GetStoppedOutputService env @ ''?taskId='' @ taskId @ ''&invokeVersion='' @ itoa invokeVersion
       @ ''&start='' @ itoa start @ ''&end='' @ itoa end_time @ ''&exitcode='' @ itoa exitcode
       @ ''&dropped='' @ itoa dropped @ ''&result='' @ reason"

definition sendStoppedOutput :: "env \<Rightarrow> string \<Rightarrow> int \<Rightarrow> int \<Rightarrow> int \<Rightarrow> int \<Rightarrow> int \<Rightarrow> string \<Rightarrow> string \<Rightarrow>
  world \<Rightarrow> (string \<times> go_error option) \<times> world" where
  "sendStoppedOutput env taskId invokeVersion start end_time exitcode dropped output reason w =
     post_retrying env (stopped_url env taskId invokeVersion start end_time exitcode dropped reason)
       output w"

text \<open>\<open>GetRegisterService\<close> with the variable \<open>ALIYUN_ASSIST_SERVER_HOST\<close> as an argument.\<close>

definition GetRegisterService :: "string option \<Rightarrow> string \<Rightarrow> string \<Rightarrow> string" where
  "GetRegisterService self_host region networkmode =
     (case self_host of
        Some host \<Rightarrow>
          if host \<noteq> [] then ''https://'' @ host @ ''/luban/api/instance/register''
          else ''https://'' @ region @ (if networkmode = ''vpc'' then ''.axt.aliyun.com'' else ''.axt.aliyuncs.com'')
            @ ''/luban/api/instance/register''
      | None \<Rightarrow> ''https://'' @ region @ (if networkmode = ''vpc'' then ''.axt.aliyun.com'' else ''.axt.aliyuncs.com'')
            @ ''/luban/api/instance/register'')"

section \<open>Properties\<close>

definition plain_host :: "env \<Rightarrow> bool" where
  "plain_host env \<longleftrightarrow> CHR ''?'' \<notin> set (server_host env)"

lemma query_safe_words [simp]:
  "query_safe ''taskId''" "query_safe ''invokeVersion''" "query_safe ''param''" "query_safe ''value''"
  by (simp_all add: query_safe_def)

lemma invalid_task_url_pairs:
  "invalid_task_url env taskId v param value = GetInvalidTaskService env @ ''?'' @
     join ''&'' (map (\<lambda>(k, v). pair_text k v)
       [(''taskId'', taskId), (''invokeVersion'', itoa v), (''param'', query_escape param),
        (''value'', query_escape value)])"
  by (simp add: invalid_task_url_def pair_text_def)

lemma invalid_task_url_params:
  assumes "plain_host env" "plain_value taskId"
  shows "query_params (invalid_task_url env taskId v param value) =
    [(''taskId'', taskId), (''invokeVersion'', itoa v), (''param'', param), (''value'', value)]"
proof -
  have "CHR ''?'' \<notin> set (GetInvalidTaskService env)"
    using assms(1) by (simp add: plain_host_def GetInvalidTaskService_def service_def)
  moreover have "query_safe taskId" using assms(2) by (simp add: plain_value_def)
  ultimately show ?thesis
    unfolding invalid_task_url_pairs
    by (subst query_params_pairs) (simp_all add: query_unescape_plain assms(2))
qed

text \<open>A rejected task is reported with its parameter and value intact, whatever bytes they
  contain: the report posts to the invalid-task service at least once and at most four times,
  the same address each time with an empty body, and reading that address back gives the task,
  its version, the parameter and the value; the error it returns means that all four failed.\<close>

theorem reportInvalidTask_delivers:
  assumes "plain_host env" "plain_value taskId"
  shows "\<exists>es url. trace (snd (reportInvalidTask env taskId v param value w)) = trace w @ es
    \<and> posts es \<noteq> [] \<and> length (posts es) \<le> 4 \<and> set (posts es) \<subseteq> {HttpSent ''POST'' url []}
    \<and> query_params url =
        [(''taskId'', taskId), (''invokeVersion'', itoa v), (''param'', param), (''value'', value)]
    \<and> (snd (fst (reportInvalidTask env taskId v param value w)) \<noteq> None \<longrightarrow> length (posts es) = 4)"
  using post_retrying_trace [of env "invalid_task_url env taskId v param value" "[]" w]
    invalid_task_url_params [OF assms]
  unfolding reportInvalidTask_def by blast

definition silent_env :: env where
  "silent_env = \<lparr>server_host = ''cn.axt.aliyun.com'', transport = (\<lambda>n m u b. Reply 200 []),
     clock = (\<lambda>n. 1000000000 * int n), clock_zone = (\<lambda>n. 0), zone_name = ''UTC'',
     zone_offset = (\<lambda>z t. 0)\<rparr>"

theorem reportInvalidTask_delivers_witness:
  "\<exists>url. query_params url = [(''taskId'', ''t-1''), (''invokeVersion'', itoa 1), (''param'', ''a&b''), (''value'', ''x=y?'')]"
proof -
  have "plain_host silent_env" "plain_value ''t-1''"
    by (simp_all add: plain_host_def silent_env_def plain_value_def query_safe_def)
  from reportInvalidTask_delivers [OF this, of 1 "''a&b''" "''x=y?''" "\<lparr>ticks = 0, trace = []\<rparr>"]
  show ?thesis by blast
qed

text \<open>After a certificate error the post is repeated with the wrong method: when the transport
  reports an unknown certificate authority, the second request is a GET of the same address
  without the body, and a successful answer to it counts as success of the post.\<close>

theorem HttpPost_repeated_as_get:
  "let env' = env\<lparr>transport := (\<lambda>n m u b. if m = ''POST'' then UnknownAuthority e else Reply 200 c)\<rparr>;
       (r, w') = HttpPost env' url body w
   in r = (c, None) \<and> trace w' = trace w @ [HttpSent ''POST'' url body, HttpSent ''GET'' url []]"
  by (simp add: HttpPost_def send_request_def http_result_def)

end
