(* ===== verification/Param_Store.thy ===== *)
theory Param_Store
  imports World
begin

text \<open>
  The parameters of a command text: the builtin ones, \<open>{{ACS::Name}}\<close>
  (\<open>agent/taskengine/parameters/environment.go\<close>), and those of the parameter store,
  \<open>{{oos:name}}\<close> and \<open>{{oos-secret:name}}\<close> (\<open>agent/util/resolveparamstore.go\<close>). The two
  regular expressions have no choice to make once their braces are found, so they are matchers
  that read from the left. The store itself and the network category are parameters.
\<close>

section \<open>Matchers\<close>

definition param_char :: "char \<Rightarrow> bool" where
  "param_char c \<longleftrightarrow> re_word c \<or> c = CHR ''-'' \<or> c = CHR ''.''"

definition skip_spaces :: "string \<Rightarrow> string" where
  "skip_spaces s = dropWhile re_space s"

definition closing :: "string \<Rightarrow> string option" where
  "closing s = strip_prefix ''}}'' (skip_spaces s)"

text \<open>A match of \<open>{{\s*((?U:ACS)\s*::\s*([\w-.]+))\s*}}\<close> at the head: the name and the rest.\<close>

definition match_builtin :: "string \<Rightarrow> (string \<times> string) option" where
  "match_builtin s =
     Option.bind (strip_prefix ''{{'' s) (\<lambda>s1.
     Option.bind (strip_prefix ''ACS'' (skip_spaces s1)) (\<lambda>s2.
     Option.bind (strip_prefix ''::'' (skip_spaces s2)) (\<lambda>s3.
     (let s4 = skip_spaces s3; name = takeWhile param_char s4 in
      if name = [] then None
      else map_option (\<lambda>r. (name, r)) (closing (dropWhile param_char s4))))))"

text \<open>
  \<open>ReplaceAllStringFunc\<close>: the text as literal characters and matches, from the left and without
  overlaps; \<open>skip\<close> counts the characters of the last match still to be passed over.
\<close>

fun tokens :: "(string \<Rightarrow> ('a \<times> string) option) \<Rightarrow> nat \<Rightarrow> string \<Rightarrow> (char + 'a) list" where
  "tokens m skip [] = []"
| "tokens m (Suc skip) (c # cs) = tokens m skip cs"
| "tokens m 0 (c # cs) =
     (case m (c # cs) of
        Some (a, r) \<Rightarrow> Inr a # tokens m (length cs - length r) cs
      | None \<Rightarrow> Inl c # tokens m 0 cs)"

section \<open>Builtin parameters\<close>

definition lookup_param :: "(string \<times> string) list option \<Rightarrow> string \<Rightarrow> string option" where
  "lookup_param ps name = (case ps of None \<Rightarrow> None | Some xs \<Rightarrow> map_of xs name)"

definition missing_param_error :: "string \<Rightarrow> go_error" where
  "missing_param_error name =
     NewInvalidEnvironmentParameterError (''The environment parameter '' @ name @ '' is invalid'')"

text \<open>The text after substitution and the first error thrown by the substitution function.\<close>

fun substitute :: "(string \<Rightarrow> string option) \<Rightarrow> (char + string) list \<Rightarrow> string \<times> go_error option" where
  "substitute val [] = ([], None)"
| "substitute val (Inl c # ts) = (let (s, e) = substitute val ts in (c # s, e))"
| "substitute val (Inr name # ts) =
     (let (s, e) = substitute val ts in
      case val name of Some v \<Rightarrow> (v @ s, e) | None \<Rightarrow> (s, Some (missing_param_error name)))"

definition retrieveInstanceName :: "env \<Rightarrow> bool \<Rightarrow> world \<Rightarrow> (string \<times> go_error option) \<times> world" where
  "retrieveInstanceName env metaserver w =
     (if \<not> metaserver then (([], Some (PlainError ''Agent is not able to retrieve instance name'')), w)
      else HttpGet env ''http://100.100.100.200/latest/meta-data/instance/instance-name'' w)"

text \<open>
  \<open>ResolveBuiltinParameters\<close>: the result, the map (an empty \<open>InstanceName\<close> is filled in place)
  and the world. \<open>metaserver\<close> says whether the network category allows asking the metaserver.
\<close>

definition ResolveBuiltinParameters ::
  "env \<Rightarrow> bool \<Rightarrow> string \<Rightarrow> (string \<times> string) list option \<Rightarrow> world \<Rightarrow>
   (go_error + string) \<times> (string \<times> string) list option \<times> world" where
  "ResolveBuiltinParameters env metaserver commandContent ps w =
     (if lookup_param ps ''InstanceName'' = Some [] then
        (let ((instanceName, err), w1) = retrieveInstanceName env metaserver w in
         case err of
           Some e \<Rightarrow> (Inl (NewResolvingInstanceNameError e), ps, w1)
         | None \<Rightarrow>
             (let ps' = map_option (\<lambda>xs. map (\<lambda>(k, v). (k, if k = ''InstanceName'' then instanceName else v)) xs) ps;
                  (s, thrown) = substitute (lookup_param ps') (tokens match_builtin 0 commandContent) in
              (case thrown of Some e \<Rightarrow> Inl e | None \<Rightarrow> Inr s, ps', w1)))
      else
        (let (s, thrown) = substitute (lookup_param ps) (tokens match_builtin 0 commandContent) in
         (case thrown of Some e \<Rightarrow> Inl e | None \<Rightarrow> Inr s, ps, w)))"

section \<open>The parameter store\<close>

text \<open>
  A match of \<open>{{\s*((?U:oos-secret|oos)\s*:\s*[\w-.]+)\s*}}\<close> at the head: the type, the name and
  the rest of the text.
\<close>

definition match_store :: "string \<Rightarrow> ((string \<times> string) \<times> string) option" where
  "match_store s =
     Option.bind (strip_prefix ''{{'' s) (\<lambda>s1.
     Option.bind (case strip_prefix ''oos-secret'' (skip_spaces s1) of
         Some r \<Rightarrow> Some (''oos-secret'', r)
       | None \<Rightarrow> map_option (\<lambda>r. (''oos'', r)) (strip_prefix ''oos'' (skip_spaces s1))) (\<lambda>(ty, s2).
     Option.bind (strip_prefix '':'' (skip_spaces s2)) (\<lambda>s3.
     (let s4 = skip_spaces s3; name = takeWhile param_char s4 in
      if name = [] then None
      else map_option (\<lambda>r. ((ty, name), r)) (closing (dropWhile param_char s4))))))"

text \<open>\<open>FindStringSubmatch\<close>: the leftmost match as the text before it, the match and its parts.\<close>

fun find_store :: "string \<Rightarrow> (string \<times> string \<times> string \<times> string) option" where
  "find_store [] = None"
| "find_store (c # cs) =
     (case match_store (c # cs) of
        Some ((ty, name), r) \<Rightarrow> Some ([], take (Suc (length cs) - length r) (c # cs), ty, name)
      | None \<Rightarrow> map_option (\<lambda>(pre, m, ty, name). (c # pre, m, ty, name)) (find_store cs))"

text \<open>
  \<open>ReplaceAllParameterStore\<close>: as long as there is a match, the first occurrence of the matched
  text is replaced by the value of the store; an error of the store ends the loop with its
  text. A call that never returns is \<open>None\<close>.
\<close>

partial_function (option) ReplaceAllParameterStore ::
  "(string \<Rightarrow> string \<Rightarrow> string \<times> go_error option) \<Rightarrow> string \<Rightarrow> (string \<times> go_error option) option" where
  "ReplaceAllParameterStore store result =
     (case find_store result of
        None \<Rightarrow> Some (result, None)
      | Some (pre, m, ty, name) \<Rightarrow>
          (case store ty name of
             (v, Some e) \<Rightarrow> Some (v, Some e)
           | (v, None) \<Rightarrow> ReplaceAllParameterStore store (replace_first result m v)))"

declare ReplaceAllParameterStore.simps [code]

section \<open>Lemmas\<close>

lemma skip_spaces_suffix: "\<exists>p. s = p @ skip_spaces s"
  unfolding skip_spaces_def by (metis takeWhile_dropWhile_id)

lemma match_builtin_braces: "match_builtin s = Some x \<Longrightarrow> \<exists>r. s = ''{{'' @ r"
  by (auto simp: match_builtin_def bind_eq_Some_conv strip_prefix_iff)

lemma match_store_braces: "match_store s = Some x \<Longrightarrow> \<exists>r. s = ''{{'' @ r"
  by (auto simp: match_store_def bind_eq_Some_conv strip_prefix_iff)

text \<open>What a store match consumes contains the two opening braces.\<close>

lemma closing_suffix: "closing s = Some r \<Longrightarrow> \<exists>p. s = p @ r"
proof -
  assume "closing s = Some r"
  then have "skip_spaces s = ''}}'' @ r" by (simp add: closing_def strip_prefix_iff)
  then have "s = takeWhile re_space s @ ''}}'' @ r"
    unfolding skip_spaces_def by (metis takeWhile_dropWhile_id)
  then have "s = (takeWhile re_space s @ ''}}'') @ r" by simp
  then show ?thesis by blast
qed

lemma match_store_suffix:
  assumes "match_store s = Some ((ty, name), r)" shows "\<exists>p. s = ''{{'' @ p @ r"
proof -
  obtain s1 x s3 where s: "strip_prefix ''{{'' s = Some s1"
    "(case strip_prefix ''oos-secret'' (skip_spaces s1) of
         Some r \<Rightarrow> Some (''oos-secret'', r)
       | None \<Rightarrow> map_option (\<lambda>r. (''oos'', r)) (strip_prefix ''oos'' (skip_spaces s1))) = Some x"
    "strip_prefix '':'' (skip_spaces (snd x)) = Some s3"
    "closing (dropWhile param_char (skip_spaces s3)) = Some r"
    using assms by (auto simp: match_store_def bind_eq_Some_conv Let_def split: if_splits)
  have "\<exists>p. skip_spaces s1 = p @ snd x"
    using s(2) by (auto simp: strip_prefix_iff split: option.splits)
  moreover have "\<exists>p. snd x = p @ s3"
    using s(3) skip_spaces_suffix [of "snd x"] by (auto simp: strip_prefix_iff)
  moreover have "\<exists>p. s3 = p @ r"
    using closing_suffix [OF s(4)] skip_spaces_suffix [of s3] takeWhile_dropWhile_id [of param_char "skip_spaces s3"]
    by (metis append.assoc)
  moreover have "\<exists>p. s1 = p @ skip_spaces s1" by (rule skip_spaces_suffix)
  ultimately have "\<exists>p. s1 = p @ r" by (metis append.assoc)
  with s(1) show ?thesis by (auto simp: strip_prefix_iff)
qed

lemma find_store_shape:
  "find_store s = Some (pre, m, ty, name) \<Longrightarrow> \<exists>p r. m = ''{{'' @ p \<and> s = pre @ m @ r"
proof (induction s arbitrary: pre)
  case (Cons c cs)
  show ?case
  proof (cases "match_store (c # cs)")
    case None
    with Cons show ?thesis by fastforce
  next
    case (Some x)
    obtain t n r where x: "x = ((t, n), r)" by (metis prod.exhaust)
    with Some obtain p where p: "c # cs = ''{{'' @ p @ r" using match_store_suffix by blast
    then have len: "Suc (length cs) = length p + length r + 2" by (metis length_append length_Cons list.size(3) add.assoc add.commute add_2_eq_Suc' plus_1_eq_Suc numeral_2_eq_2)
    have "take (Suc (length cs) - length r) (c # cs) = ''{{'' @ p"
      unfolding p len by simp
    with Cons.prems Some x p show ?thesis by auto
  qed
qed simp

lemma index_of_append: "index_of m (pre @ m @ r) \<noteq> None"
proof (induction pre)
  case Nil
  show ?case
  proof (cases "m @ r")
    case (Cons a as)
    then have "has_prefix m (a # as)" by (metis has_prefix_iff)
    with Cons show ?thesis by simp
  qed simp
qed (auto simp: has_prefix_iff)

lemma replace_first_count:
  assumes "s = pre @ m @ r"
  shows "count_list (replace_first s m v) x = count_list s x - count_list m x + count_list v x
    \<and> count_list m x \<le> count_list s x"
proof -
  obtain i where i: "index_of m s = Some i" using index_of_append [of m pre r] assms by auto
  then have s: "s = take i s @ m @ drop (i + length m) s" by (rule index_of_Some)
  have "count_list s x = count_list (take i s) x + count_list m x + count_list (drop (i + length m) s) x"
    by (subst s) (simp only: count_list_append add.assoc)
  moreover have "replace_first s m v = take i s @ v @ drop (i + length m) s"
    by (simp add: replace_first_def i)
  ultimately show ?thesis by simp
qed

section \<open>Properties\<close>

text \<open>A command text put together from literals and builtin parameters.\<close>

datatype fragment = Literal string | Builtin string

fun fragment_text :: "fragment \<Rightarrow> string" where
  "fragment_text (Literal s) = s"
| "fragment_text (Builtin name) = ''{{ACS::'' @ name @ ''}}''"

fun fragment_ok :: "(string \<Rightarrow> string option) \<Rightarrow> fragment \<Rightarrow> bool" where
  "fragment_ok val (Literal s) \<longleftrightarrow> CHR ''{'' \<notin> set s"
| "fragment_ok val (Builtin name) \<longleftrightarrow> name \<noteq> [] \<and> list_all param_char name \<and> val name \<noteq> None"

fun fragment_value :: "(string \<Rightarrow> string option) \<Rightarrow> fragment \<Rightarrow> string" where
  "fragment_value val (Literal s) = s"
| "fragment_value val (Builtin name) = the (val name)"

lemma not_param_brace: "\<not> param_char (CHR ''}'')" "\<not> re_space (CHR ''}'')" "\<not> re_space (CHR ''A'')"
  "\<not> re_space (CHR '':'')"
  by (simp_all add: param_char_def go_lib)

lemma param_not_space: "param_char c \<Longrightarrow> \<not> re_space c"
  by (auto simp: param_char_def go_lib)

lemma match_builtin_text:
  assumes "name \<noteq> []" "list_all param_char name"
  shows "match_builtin (''{{ACS::'' @ name @ ''}}'' @ r) = Some (name, r)"
proof -
  have sp: "skip_spaces (name @ s) = name @ s" for s
    using assms param_not_space by (cases name) (auto simp: skip_spaces_def)
  have tw: "takeWhile param_char (name @ CHR ''}'' # s) = name"
    "dropWhile param_char (name @ CHR ''}'' # s) = CHR ''}'' # s" for s
    using assms(2) not_param_brace(1) by (induction name) auto
  have "skip_spaces (CHR ''A'' # s) = CHR ''A'' # s" "skip_spaces (CHR '':'' # s) = CHR '':'' # s"
    "skip_spaces (CHR ''}'' # s) = CHR ''}'' # s" for s
    using not_param_brace by (simp_all add: skip_spaces_def)
  with assms(1) show ?thesis
    by (simp add: match_builtin_def closing_def sp tw)
qed

lemma tokens_skip: "tokens m (length xs) (xs @ s) = tokens m 0 s"
  by (induction xs) (cases s, auto)

lemma tokens_literal:
  "(\<And>c cs. c \<in> set l \<Longrightarrow> m (c # cs) = None) \<Longrightarrow> tokens m 0 (l @ s) = map Inl l @ tokens m 0 s"
  by (induction l) auto

lemma tokens_match:
  assumes "m (c # p @ s) = Some (a, s)"
  shows "tokens m 0 (c # p @ s) = Inr a # tokens m 0 s"
  using assms tokens_skip [of m p s] by simp

lemma tokens_fragments:
  "\<forall>f \<in> set fs. fragment_ok val f \<Longrightarrow>
    substitute val (tokens match_builtin 0 (concat (map fragment_text fs)))
      = (concat (map (fragment_value val) fs), None)"
proof (induction fs)
  case (Cons f fs)
  let ?r = "concat (map fragment_text fs)"
  show ?case
  proof (cases f)
    case (Literal l)
    then have "c \<noteq> CHR ''{''" if "c \<in> set l" for c using Cons.prems that by auto
    then have "match_builtin (c # cs) = None" if "c \<in> set l" for c cs
      using that match_builtin_braces [of "c # cs"] by (cases "match_builtin (c # cs)") auto
    then have "tokens match_builtin 0 (l @ ?r) = map Inl l @ tokens match_builtin 0 ?r"
      by (rule tokens_literal)
    moreover have "substitute val (map Inl l @ ts) = (l @ fst (substitute val ts), snd (substitute val ts))" for ts
      by (induction l) (auto simp: Let_def split: prod.splits)
    ultimately show ?thesis using Cons Literal by simp
  next
    case (Builtin name)
    then have n: "name \<noteq> []" "list_all param_char name" "val name \<noteq> None" using Cons.prems by auto
    have "tokens match_builtin 0 (CHR ''{'' # (''{ACS::'' @ name @ ''}}'') @ ?r)
        = Inr name # tokens match_builtin 0 ?r"
      using match_builtin_text [OF n(1,2), of ?r] by (intro tokens_match) simp
    then show ?thesis using Cons Builtin n(3) by (auto simp: Let_def)
  qed
qed simp

text \<open>Builtin parameters are substituted once and simultaneously: in a text made of literals
  without opening braces and of known parameters, every parameter becomes its value, values are
  not searched for further parameters, and nothing else changes.\<close>

theorem ResolveBuiltinParameters_fragments:
  assumes "lookup_param ps ''InstanceName'' \<noteq> Some []"
    and "\<forall>f \<in> set fs. fragment_ok (lookup_param ps) f"
  shows "ResolveBuiltinParameters env metaserver (concat (map fragment_text fs)) ps w
    = (Inr (concat (map (fragment_value (lookup_param ps)) fs)), ps, w)"
  using tokens_fragments [OF assms(2)] assms(1) by (simp add: ResolveBuiltinParameters_def)

theorem ResolveBuiltinParameters_fragments_witness:
  "\<forall>env w. ResolveBuiltinParameters env True ''echo {{ACS::InstanceId}}!''
     (Some [(''InstanceId'', ''{{ACS::X}}'')]) w
   = (Inr ''echo {{ACS::X}}!'', Some [(''InstanceId'', ''{{ACS::X}}'')], w)"
proof (intro allI)
  fix env w
  let ?ps = "Some [(''InstanceId'', ''{{ACS::X}}'')]"
  let ?fs = "[Literal ''echo '', Builtin ''InstanceId'', Literal ''!'']"
  have "list_all param_char ''InstanceId''" by code_simp
  then have "\<forall>f \<in> set ?fs. fragment_ok (lookup_param ?ps) f" by (simp add: lookup_param_def)
  from ResolveBuiltinParameters_fragments [OF _ this, of env True w]
  show "ResolveBuiltinParameters env True ''echo {{ACS::InstanceId}}!'' ?ps w = (Inr ''echo {{ACS::X}}!'', ?ps, w)"
    by (simp add: lookup_param_def)
qed

text \<open>The replacement of store parameters ends when no value of the store contains an opening
  brace: then the loop returns a text without parameters, or the text and error of the first
  lookup that failed.\<close>

theorem ReplaceAllParameterStore_terminates:
  assumes "\<forall>ty name v. store ty name = (v, None) \<longrightarrow> CHR ''{'' \<notin> set v"
  shows "\<exists>s err. ReplaceAllParameterStore store param = Some (s, err)
    \<and> (err = None \<longrightarrow> find_store s = None)"
proof (induction "count_list param (CHR ''{'')" arbitrary: param rule: less_induct)
  case less
  show ?case
  proof (cases "find_store param")
    case None
    then show ?thesis by (subst ReplaceAllParameterStore.simps) simp
  next
    case (Some x)
    obtain pre m ty name where x: "x = (pre, m, ty, name)" by (metis prod.exhaust)
    with Some obtain p r where m: "m = ''{{'' @ p" "param = pre @ m @ r"
      using find_store_shape by blast
    obtain v e where v: "store ty name = (v, e)" by fastforce
    show ?thesis
    proof (cases e)
      case (Some err)
      with \<open>find_store param = Some x\<close> x v show ?thesis
        by (subst ReplaceAllParameterStore.simps) simp
    next
      case None
      with v assms have "count_list v (CHR ''{'') = 0" by (simp add: count_list_0_iff)
      moreover have "2 \<le> count_list m (CHR ''{'')" by (simp add: m(1))
      ultimately have "count_list (replace_first param m v) (CHR ''{'') < count_list param (CHR ''{'')"
        using replace_first_count [OF m(2), of v "CHR ''{''"] by linarith
      from less [OF this] obtain s err where "ReplaceAllParameterStore store (replace_first param m v) = Some (s, err)"
        "err = None \<longrightarrow> find_store s = None"
        by blast
      with \<open>find_store param = Some x\<close> x v None show ?thesis
        by (subst ReplaceAllParameterStore.simps) simp
    qed
  qed
qed

theorem ReplaceAllParameterStore_terminates_witness:
  "\<exists>s err. ReplaceAllParameterStore (\<lambda>ty name. (''pw'', None)) ''{{oos:a}}'' = Some (s, err)"
  using ReplaceAllParameterStore_terminates [of "\<lambda>ty name. (''pw'', None)" "''{{oos:a}}''"] by auto

text \<open>A value that contains its own placeholder keeps the loop running for ever: the call does
  not return, whatever comes after.\<close>

theorem ReplaceAllParameterStore_diverges:
  "ReplaceAllParameterStore (\<lambda>ty name. (''{{oos:'' @ name @ ''}}'', None)) ''{{oos:a}}'' = None"
proof -
  define q where "q = ''{{oos:a}}''"
  define store where "store = (\<lambda>(ty :: string) name. (''{{oos:'' @ name @ ''}}'', None :: go_error option))"
  have "find_store ''{{oos:a}}'' = Some ([], ''{{oos:a}}'', ''oos'', ''a'')"
    "replace_first ''{{oos:a}}'' ''{{oos:a}}'' ''{{oos:a}}'' = ''{{oos:a}}''"
    by code_simp+
  then have q: "find_store q = Some ([], q, ''oos'', ''a'')" "replace_first q q q = q"
    by (simp_all only: q_def)
  have st: "store ''oos'' ''a'' = (q, None)" by (simp add: store_def q_def)
  have "st = store \<longrightarrow> s = q \<longrightarrow> False" if "ReplaceAllParameterStore st s = Some r" for st s r
  proof (rule ReplaceAllParameterStore.raw_induct [OF _ that,
      where P = "\<lambda>st s r. st = store \<longrightarrow> s = q \<longrightarrow> False"])
    fix f st s r
    assume IH: "\<And>st s r. f st s = Some r \<Longrightarrow> st = store \<longrightarrow> s = q \<longrightarrow> False"
      and body: "(case find_store s of None \<Rightarrow> Some (s, None)
        | Some (pre, m, ty, name) \<Rightarrow>
            (case st ty name of (v, None) \<Rightarrow> f st (replace_first s m v) | (v, Some e) \<Rightarrow> Some (v, Some e))) = Some r"
    show "st = store \<longrightarrow> s = q \<longrightarrow> False"
    proof (intro impI)
      assume eqs: "st = store" "s = q"
      have "f store q = Some r" using body unfolding eqs by (simp add: q st)
      with IH show False by blast
    qed
  qed
  then have "ReplaceAllParameterStore store q = None"
    by (metis not_Some_eq)
  then show ?thesis by (simp add: store_def q_def)
qed

end
