(* ===== verification/Text_Util.thy ===== *)
theory Text_Util
  imports Go_Strings
begin

text \<open>
  \<open>agent/taskengine/scriptmanager/normalize.go\<close>: the line-end conversion applied to batch
  and PowerShell scripts before they are saved. The loop works on an index and the start of
  the text not yet copied; the specification inserts a carriage return before every bare line
  feed.
\<close>

section \<open>The conversion\<close>

function normalize_loop :: "string \<Rightarrow> nat \<Rightarrow> nat \<Rightarrow> string \<Rightarrow> nat \<times> string" where
  "normalize_loop orig i start out =
     (if length orig \<le> i then (start, out)
      else if orig ! i = LF then
        (if i = start then normalize_loop orig (Suc i) (Suc i) (out @ [CR, LF])
         else if orig ! (i - 1) \<noteq> CR then
           normalize_loop orig (Suc i) (Suc i) (out @ take (i - start) (drop start orig) @ [CR, LF])
         else normalize_loop orig (Suc i) start out)
      else normalize_loop orig (Suc i) start out)"
  by pat_completeness auto
termination by (relation "measure (\<lambda>(orig, i, start, out). length orig - i)") auto

declare normalize_loop.simps [simp del]

definition NormalizeCRLF :: "string \<Rightarrow> string" where
  "NormalizeCRLF orig =
     (let (start, out) = normalize_loop orig 0 0 [] in
      if start < length orig then out @ drop start orig else out)"

section \<open>The specification\<close>

fun crlf :: "bool \<Rightarrow> string \<Rightarrow> string" where
  "crlf after_cr [] = []"
| "crlf after_cr (c # cs) =
     (if c = LF \<and> \<not> after_cr then CR # LF # crlf False cs else c # crlf (c = CR) cs)"

lemma LF_CR [simp]: "LF \<noteq> CR" "CR \<noteq> LF"
  by (simp_all add: LF_def CR_def)

lemma crlf_append:
  "crlf p (xs @ ys) = crlf p xs @ crlf (if xs = [] then p else last xs = CR) ys"
  by (induction p xs rule: crlf.induct) auto

lemma crlf_snoc:
  "crlf False (xs @ [c]) = crlf False xs @
     (if c = LF \<and> \<not> (xs \<noteq> [] \<and> last xs = CR) then [CR, LF] else [c])"
  by (simp add: crlf_append)

text \<open>
  The loop invariant: what was written and what is pending make up the specification of the
  text read so far, and the pending part starts at the beginning or after a line feed.
\<close>

definition normalize_inv :: "string \<Rightarrow> nat \<Rightarrow> nat \<Rightarrow> string \<Rightarrow> bool" where
  "normalize_inv orig i start out \<longleftrightarrow> start \<le> i \<and> i \<le> length orig
     \<and> (start = 0 \<or> orig ! (start - 1) = LF)
     \<and> crlf False (take i orig) = out @ drop start (take i orig)"

lemma take_last_nth: "i \<le> length xs \<Longrightarrow> i \<noteq> 0 \<Longrightarrow> take i xs \<noteq> [] \<and> last (take i xs) = xs ! (i - 1)"
  by (cases i) (auto simp: take_Suc_conv_app_nth)

lemma normalize_loop_inv:
  "normalize_inv orig i start out \<Longrightarrow> normalize_loop orig i start out = (b, out') \<Longrightarrow>
    normalize_inv orig (length orig) b out'"
proof (induction orig i start out rule: normalize_loop.induct)
  case (1 orig i start out)
  show ?case
  proof (cases "length orig \<le> i")
    case True
    then have "normalize_loop orig i start out = (start, out)"
      by (subst normalize_loop.simps) simp
    with True 1(5,6) show ?thesis
      by (auto simp: normalize_inv_def)
  next
    case False
    then have len: "\<not> length orig \<le> i" "i < length orig" by simp_all
    note step = take_Suc_conv_app_nth [OF len(2)]
    note inv = 1(5) [unfolded normalize_inv_def]
    have prev: "take i orig \<noteq> [] \<and> last (take i orig) = CR \<longleftrightarrow> i \<noteq> 0 \<and> orig ! (i - 1) = CR"
      using take_last_nth [of i orig] len(2) by auto
    have grow: "start \<le> i \<Longrightarrow> drop start (take i orig @ [c]) = drop start (take i orig) @ [c]" for c
      using len(2) by simp
    have keep: "normalize_inv orig (Suc i) start out"
      if "orig ! i \<noteq> LF \<or> i \<noteq> 0 \<and> orig ! (i - 1) = CR"
      using inv that len(2) unfolding normalize_inv_def step crlf_snoc prev by (auto simp: grow)
    show ?thesis
    proof (cases "orig ! i = LF")
      case lf: True
      show ?thesis
      proof (cases "i = start")
        case True
        then have "\<not> (i \<noteq> 0 \<and> orig ! (i - 1) = CR)" using inv by auto
        then have "normalize_inv orig (Suc i) (Suc i) (out @ [CR, LF])"
          using inv True lf len(2) unfolding normalize_inv_def step crlf_snoc prev by simp
        moreover have "normalize_loop orig i start out
            = normalize_loop orig (Suc i) (Suc i) (out @ [CR, LF])"
          using True lf len(1) by (subst normalize_loop.simps) simp
        ultimately show ?thesis
          using 1(1) [OF len(1) lf True] 1(6) by simp
      next
        case ne: False
        show ?thesis
        proof (cases "orig ! (i - 1) = CR")
          case True
          moreover have "i \<noteq> 0" using ne inv by simp
          ultimately have "normalize_inv orig (Suc i) start out" by (intro keep) simp
          with 1(3) [OF len(1) lf ne] 1(6) True ne lf len(1) show ?thesis
            by (simp add: normalize_loop.simps [of orig i])
        next
          case ncr: False
          have "drop start (take i orig) = take (i - start) (drop start orig)"
            by (simp add: drop_take)
          then have "normalize_inv orig (Suc i) (Suc i)
              (out @ take (i - start) (drop start orig) @ [CR, LF])"
            using inv ncr lf len(2) unfolding normalize_inv_def step crlf_snoc prev by simp
          with 1(2) [OF len(1) lf ne ncr] 1(6) ncr ne lf len(1) show ?thesis
            by (simp add: normalize_loop.simps [of orig i])
        qed
      qed
    next
      case False
      then have "normalize_inv orig (Suc i) start out" by (intro keep) simp
      with 1(4) [OF len(1) False] 1(6) False len(1) show ?thesis
        by (simp add: normalize_loop.simps [of orig i])
    qed
  qed
qed

lemma NormalizeCRLF_crlf: "NormalizeCRLF s = crlf False s"
proof -
  obtain b out where r: "normalize_loop s 0 0 [] = (b, out)" by fastforce
  have "normalize_inv s 0 0 []" by (simp add: normalize_inv_def)
  then have "normalize_inv s (length s) b out" using r by (rule normalize_loop_inv)
  then show ?thesis by (simp add: NormalizeCRLF_def r normalize_inv_def)
qed

text \<open>A text without bare line feeds: every line feed follows a carriage return.\<close>

fun no_bare_lf :: "bool \<Rightarrow> string \<Rightarrow> bool" where
  "no_bare_lf after_cr [] = True"
| "no_bare_lf after_cr (c # cs) = ((c = LF \<longrightarrow> after_cr) \<and> no_bare_lf (c = CR) cs)"

lemma crlf_no_bare: "no_bare_lf p (crlf p s)"
  by (induction p s rule: crlf.induct) auto

lemma crlf_id: "no_bare_lf p s \<Longrightarrow> crlf p s = s"
  by (induction p s rule: crlf.induct) auto

lemma crlf_without_cr: "filter (\<lambda>c. c \<noteq> CR) (crlf p s) = filter (\<lambda>c. c \<noteq> CR) s"
  by (induction p s rule: crlf.induct) auto

text \<open>Line ends are normalised: every line feed of the result follows a carriage return,
  apart from carriage returns no byte is added, removed or moved, and a text that is already
  in this form, such as a result of the function, is left as it is.\<close>

theorem NormalizeCRLF_correct:
  "no_bare_lf False (NormalizeCRLF s)
   \<and> filter (\<lambda>c. c \<noteq> CR) (NormalizeCRLF s) = filter (\<lambda>c. c \<noteq> CR) s
   \<and> NormalizeCRLF (NormalizeCRLF s) = NormalizeCRLF s
   \<and> NormalizeCRLF s = crlf False s"
  by (simp add: NormalizeCRLF_crlf crlf_no_bare crlf_without_cr crlf_id)

end
