(* ===== verification/Base_Task.thy ===== *)
theory Base_Task
  imports Task_Models Task_Report Param_Store Text_Util Utf8 Machine
begin

text \<open>
  One invocation of a command, \<open>agent/taskengine/basetask.go\<close>: the checks before the run, the
  preparation of the command text, the goroutine that reports the output while the process
  runs, the final report, and the cancellation. The command processor
  (\<open>models/taskprocessor.go\<close>) is the record of functions \<open>processor_ops\<close> over a state of its
  own. What happens during the run (output written, ticks of the report timer, cancel
  requests) is an explicit sequence of events that the processor's \<open>SyncRun\<close> yields, so that
  theorems hold for every interleaving.
\<close>

section \<open>Processors\<close>

record 'p processor_ops =
  opPreCheck :: "'p \<Rightarrow> world \<Rightarrow> ((string \<times> go_error option) \<times> 'p \<times> world) outcome"
  opPrepare :: "string \<Rightarrow> 'p \<Rightarrow> world \<Rightarrow> go_error option \<times> 'p \<times> world"
  opSyncRun :: "'p \<Rightarrow> world \<Rightarrow> ((run_event list \<times> int \<times> proc_status \<times> go_error option) \<times> 'p \<times> world) outcome"
  opCancel :: "'p \<Rightarrow> world \<Rightarrow> ('p \<times> world) outcome"
  opCleanup :: "bool \<Rightarrow> 'p \<Rightarrow> world \<Rightarrow> go_error option \<times> 'p \<times> world"
  opSideEffect :: "'p \<Rightarrow> world \<Rightarrow> go_error option \<times> 'p \<times> world"
  opExtraLubanParams :: "'p \<Rightarrow> string"

section \<open>The task\<close>

definition defaultQuoto :: int where "defaultQuoto = 12000"
definition defaultQuotoPre :: int where "defaultQuotoPre = 6000"

text \<open>
  \<open>t_location\<close> is the name of the schedule's zone. \<open>t_onFinish\<close> says that the task has the
  callback \<open>schedulePeriodicTask\<close> gives to cron tasks; what the callback asks the timer at that
  moment, whether there is no next run, is the argument \<open>no_next\<close> of the functions below.
\<close>

record 'p task =
  t_info :: RunTaskInfo
  t_location :: "string option"
  t_onFinish :: bool
  t_processer :: 'p
  t_startTime :: "instant option"
  t_endTime :: "instant option"
  t_monoStart :: int
  t_monoEnd :: int
  t_exit_code :: int
  t_canceled :: bool
  t_droped :: int
  t_output :: string
  t_data_sended :: int

text \<open>\<open>NewTask\<close>: an unreadable timeout becomes 3600; container fields select the processor.\<close>

definition NewTask ::
  "(RunTaskInfo \<Rightarrow> int \<Rightarrow> 'p) \<Rightarrow> (RunTaskInfo \<Rightarrow> int \<Rightarrow> 'p) \<Rightarrow> RunTaskInfo \<Rightarrow> string option \<Rightarrow> bool \<Rightarrow> 'p task" where
  "NewTask container host info location onFinish =
     (let (n, err) = atoi (ri_TimeOut info);
          timeout = (if err \<noteq> None then 3600 else n) in
      \<lparr>t_info = info, t_location = location, t_onFinish = onFinish,
       t_processer = (if ri_ContainerId info \<noteq> [] \<or> ri_ContainerName info \<noteq> []
                      then container info timeout else host info timeout),
       t_startTime = None, t_endTime = None, t_monoStart = 0, t_monoEnd = 0, t_exit_code = 0,
       t_canceled = False, t_droped = 0, t_output = [], t_data_sended = 0\<rparr>)"

section \<open>Output buffers\<close>

text \<open>\<open>SafeBuffer.Read\<close> of at most 2048 bytes into a buffer, once and until nothing is left.\<close>

definition tryRead :: "string \<Rightarrow> string \<Rightarrow> string \<times> string" where
  "tryRead buf out = (drop 2048 buf, out @ take 2048 buf)"

function tryReadAll :: "string \<Rightarrow> string \<Rightarrow> string \<times> string" where
  "tryReadAll buf out =
     (let (buf', out') = tryRead buf out in if buf = [] then (buf', out') else tryReadAll buf' out')"
  by pat_completeness auto
termination by (relation "measure (\<lambda>(buf, out). length buf)") (auto simp: tryRead_def)

declare tryReadAll.simps [simp del]

lemma tryReadAll_all: "tryReadAll buf out = ([], out @ buf)"
proof (induction buf out rule: tryReadAll.induct)
  case (1 buf out)
  show ?case
  proof (cases "buf = []")
    case True
    then show ?thesis by (subst tryReadAll.simps) (simp add: tryRead_def)
  next
    case False
    have "tryReadAll (drop 2048 buf) (out @ take 2048 buf) = ([], (out @ take 2048 buf) @ drop 2048 buf)"
      using 1 False by (simp add: tryRead_def)
    with False show ?thesis by (subst tryReadAll.simps) (simp add: tryRead_def)
  qed
qed

text \<open>
  \<open>getReportString\<close>: what is left of the quota after the running reports; a longer output loses
  its beginning and the loss is recorded. The slice panics when more is to be dropped than
  there is.
\<close>

definition report_quota :: "'p task \<Rightarrow> int" where
  "report_quota t = (if out_LogQuota (ri_Output (t_info t)) < defaultQuoto then defaultQuoto
     else out_LogQuota (ri_Output (t_info t)))"

definition getReportString :: "string \<Rightarrow> 'p task \<Rightarrow> (string \<times> 'p task) outcome" where
  "getReportString output t =
     (let quoto = report_quota t; n = int (length output) in
      if n \<le> quoto - t_data_sended t then Returns (output, t)
      else
        (let droped = n - (quoto - t_data_sended t) in
         if n < droped then Panics SliceOutOfRange
         else Returns (drop (nat droped) output, t\<lparr>t_droped := droped\<rparr>)))"

section \<open>Reports of a task\<close>

definition wallClockQueryParams :: "env \<Rightarrow> 'p task \<Rightarrow> world \<Rightarrow> string \<times> world" where
  "wallClockQueryParams env t w =
     (case ri_Repeat (t_info t) of
        RunTaskRate \<Rightarrow> (let (ms, w1) = GetAccurateTime env w in (''&currentTime='' @ itoa ms, w1))
      | RunTaskCron \<Rightarrow>
          (case t_location t of
             Some zone \<Rightarrow>
               (let (now, w1) = read_clock env w in
                (''&currentTime='' @ itoa (ToAccurateTime now) @ ''&offset='' @ itoa (zone_offset env zone now)
                   @ ''&timeZone='' @ query_escape zone, w1))
           | None \<Rightarrow>
               (let ((now, offset, zone), w1) = NowWithTimezoneName env w in
                (''&currentTime='' @ itoa (ToAccurateTime now) @ ''&offset='' @ itoa offset
                   @ ''&timeZone='' @ query_escape zone, w1)))
      | _ \<Rightarrow> ([], w))"

definition task_query :: "'p task \<Rightarrow> string" where
  "task_query t = ''?taskId='' @ ri_TaskId (t_info t) @ ''&invokeVersion='' @ itoa (ri_InvokeVersion (t_info t))"

text \<open>A single post whose reply is not looked at.\<close>

definition post_once :: "env \<Rightarrow> string \<Rightarrow> string \<Rightarrow> world \<Rightarrow> world" where
  "post_once env url body w = snd (HttpPost env url body w)"

definition sendTaskVerified :: "env \<Rightarrow> 'p task \<Rightarrow> world \<Rightarrow> world" where
  "sendTaskVerified env t w = post_once env (GetVerifiedTaskService env @ task_query t) [] w"

definition sendTaskStart :: "env \<Rightarrow> 'p processor_ops \<Rightarrow> 'p task \<Rightarrow> world \<Rightarrow> world" where
  "sendTaskStart env ops t w =
     (if \<not> out_SendStart (ri_Output (t_info t)) then w
      else let (stamp, w1) = wallClockQueryParams env t w in
        post_once env (GetRunningOutputService env @ task_query t @ ''&start='' @ itoa (t_monoStart t)
          @ stamp @ opExtraLubanParams ops (t_processer t)) [] w1)"

definition SendInvalidTask :: "env \<Rightarrow> 'p task \<Rightarrow> string \<Rightarrow> string \<Rightarrow> world \<Rightarrow> world" where
  "SendInvalidTask env t param value w =
     snd (reportInvalidTask env (ri_TaskId (t_info t)) (ri_InvokeVersion (t_info t)) param value w)"

definition onFinishCallback :: "env \<Rightarrow> bool \<Rightarrow> 'p task \<Rightarrow> world \<Rightarrow> world" where
  "onFinishCallback env no_next t w =
     (if t_onFinish t \<and> no_next then
        snd (sendStoppedOutput env (ri_TaskId (t_info t)) (ri_InvokeVersion (t_info t)) 0 0 0 0 []
          stopReasonCompleted w)
      else w)"

definition final_service :: "env \<Rightarrow> string \<Rightarrow> string option" where
  "final_service env status =
     (if status = ''finished'' then Some (GetFinishOutputService env)
      else if status = ''timeout'' then Some (GetTimeoutOutputService env)
      else if status = ''failed'' then Some (GetErrorOutputService env) else None)"

definition sendOutput ::
  "env \<Rightarrow> 'p processor_ops \<Rightarrow> bool \<Rightarrow> string \<Rightarrow> string \<Rightarrow> 'p task \<Rightarrow> world \<Rightarrow> world" where
  "sendOutput env ops no_next status output t w =
     (if status = ''canceled'' then
        snd (sendStoppedOutput env (ri_TaskId (t_info t)) (ri_InvokeVersion (t_info t)) (t_monoStart t)
          (t_monoEnd t) (t_exit_code t) (t_droped t) output stopReasonKilled w)
      else case final_service env status of
        None \<Rightarrow> w
      | Some address \<Rightarrow>
          (let (stamp, w1) = wallClockQueryParams env t w;
               url = address @ task_query t @ ''&start='' @ itoa (t_monoStart t) @ ''&end='' @ itoa (t_monoEnd t)
                 @ ''&exitCode='' @ itoa (t_exit_code t) @ ''&dropped='' @ itoa (t_droped t)
                 @ stamp @ opExtraLubanParams ops (t_processer t);
               w2 = snd (post_retrying env url output w1) in
           onFinishCallback env no_next t w2))"

definition error_url :: "env \<Rightarrow> 'p processor_ops \<Rightarrow> string \<Rightarrow> string \<Rightarrow> string \<Rightarrow> 'p task \<Rightarrow> string" where
  "error_url env ops errCode errDesc stamp t =
     GetErrorOutputService env @ task_query t @ ''&start='' @ itoa (t_monoStart t) @ ''&end='' @ itoa (t_monoEnd t)
       @ ''&exitCode='' @ itoa (t_exit_code t) @ ''&dropped='' @ itoa (t_droped t) @ ''&errCode='' @ errCode
       @ ''&errDesc='' @ query_escape (SafeTruncateStringInBytes errDesc 255)
       @ stamp @ opExtraLubanParams ops (t_processer t)"

definition SendError ::
  "env \<Rightarrow> 'p processor_ops \<Rightarrow> string \<Rightarrow> string \<Rightarrow> string \<Rightarrow> 'p task \<Rightarrow> world \<Rightarrow> world" where
  "SendError env ops output errCode errDesc t w =
     (let (stamp, w1) = wallClockQueryParams env t w in
      snd (post_retrying env (error_url env ops errCode errDesc stamp t) output w1))"

text \<open>\<open>sendRunningOutput\<close>: whether a report was sent.\<close>

definition sendRunningOutput ::
  "env \<Rightarrow> 'p processor_ops \<Rightarrow> string \<Rightarrow> instant \<Rightarrow> 'p task \<Rightarrow> world \<Rightarrow> bool \<times> world" where
  "sendRunningOutput env ops data lastReportTime t w =
     (let (skip, w1) =
        (if data = [] \<and> out_SkipEmpty (ri_Output (t_info t)) then
           (let (now, w') = read_clock env w in (time_sub now lastReportTime < minute, w'))
         else (False, w)) in
      if skip then (False, w1)
      else
        (let (stamp, w2) = wallClockQueryParams env t w1 in
         (True, post_once env (GetRunningOutputService env @ task_query t @ ''&start='' @ itoa (t_monoStart t)
            @ stamp @ opExtraLubanParams ops (t_processer t)) data w2)))"

section \<open>Cancellation\<close>

definition IsCancled :: "'p task \<Rightarrow> bool" where
  "IsCancled t = t_canceled t"

definition Cancel :: "env \<Rightarrow> 'p processor_ops \<Rightarrow> bool \<Rightarrow> bool \<Rightarrow> 'p task \<Rightarrow> world \<Rightarrow> ('p task \<times> world) outcome" where
  "Cancel env ops no_next quietly t w =
     (if t_canceled t then Returns (t, w)
      else
        (let (now, w1) = read_clock env w;
             mono = (case t_startTime t of None \<Rightarrow> ToAccurateTime now
                     | Some start \<Rightarrow> ToAccurateTime (ToStableElapsedTime now start));
             t1 = t\<lparr>t_canceled := True, t_endTime := Some now, t_monoEnd := mono\<rparr> in
         bind_outcome
           (if quietly then Returns (t1, w1)
            else map_ret (\<lambda>(s, t2). (t2, sendOutput env ops no_next ''canceled'' s t2 w1))
                   (getReportString (t_output t1) t1))
           (\<lambda>(t2, w2). map_ret (\<lambda>(p, w3). (t2\<lparr>t_processer := p\<rparr>, w3)) (opCancel ops (t_processer t2) w2))))"

section \<open>The checks before a run\<close>

definition valid_command_type :: "string \<Rightarrow> bool" where
  "valid_command_type ty \<longleftrightarrow> ty = ''RunBatScript'' \<or> ty = ''RunPowerShellScript'' \<or> ty = ''RunShellScript''"

definition nil_or_text :: "go_error option \<Rightarrow> string" where
  "nil_or_text e = (case e of None \<Rightarrow> ''<nil>'' | Some c \<Rightarrow> err_text c)"

text \<open>The parameter and value reported for an error of the processor's check.\<close>

definition precheck_report :: "string \<Rightarrow> go_error \<Rightarrow> string \<times> string" where
  "precheck_report invalidParameter err =
     (case validation_param err of
        Some (param, value) \<Rightarrow> (param, value)
      | None \<Rightarrow>
          (case setting_names err of
             Some (name, short) \<Rightarrow> (invalidParameter, short @ '': '' @ nil_or_text (unwrap err))
           | None \<Rightarrow> (invalidParameter, err_text err)))"

definition PreCheck ::
  "env \<Rightarrow> 'p processor_ops \<Rightarrow> bool \<Rightarrow> 'p task \<Rightarrow> world \<Rightarrow> (go_error option \<times> 'p task \<times> world) outcome" where
  "PreCheck env ops reportVerified t w =
     (let ty = ri_CommandType (t_info t) in
      if \<not> valid_command_type ty then
        Returns (Some (PlainError (''Invalid command type: '' @ ty)), t,
         SendInvalidTask env t ''TypeInvalid'' (''TypeInvalid_'' @ ty) w)
      else case base64_decode (ri_Content (t_info t)) of
        Inl n \<Rightarrow>
          Returns (Some (WrappedError ''Invalid command content: decode error: '' (PlainError (base64_error n)) []), t,
           SendInvalidTask env t ''CommandContentInvalid'' (base64_error n) w)
      | Inr bytes \<Rightarrow>
          map_ret (\<lambda>((invalidParameter, err), p, w1).
             let t1 = t\<lparr>t_processer := p\<rparr> in
             case err of
               Some e \<Rightarrow>
                 (let (param, value) = precheck_report invalidParameter e in
                  (Some e, t1, SendInvalidTask env t1 param value w1))
             | None \<Rightarrow> (None, t1, if reportVerified then sendTaskVerified env t1 w1 else w1))
            (opPreCheck ops (t_processer t) w))"

section \<open>The run\<close>

text \<open>What the run takes from the agent: the store, the network category, a build flag.\<close>

record agent_config =
  cfg_store :: "string \<Rightarrow> string \<Rightarrow> string \<times> go_error option"
  cfg_metaserver :: bool
  cfg_crlf_disabled :: bool

text \<open>
  The first part of \<open>Run\<close>: checks, decoding, parameters and line ends. It stops with a code
  and an error, or goes on with the text and whether the script is to be deleted; \<open>None\<close> stands
  for a parameter replacement that does not return.
\<close>

datatype 'a run_stage = RunStops int go_error | RunGoes 'a

definition normalize_content :: "agent_config \<Rightarrow> string \<Rightarrow> string \<Rightarrow> string" where
  "normalize_content cfg ty content =
     (if ty = ''RunBatScript'' then
        (let c = ''@echo off'' @ [CR, LF] @ content in if cfg_crlf_disabled cfg then c else NormalizeCRLF c)
      else if ty = ''RunPowerShellScript'' then
        (if cfg_crlf_disabled cfg then content else NormalizeCRLF content)
      else content)"

definition resolve_content ::
  "env \<Rightarrow> 'p processor_ops \<Rightarrow> agent_config \<Rightarrow> string \<Rightarrow> 'p task \<Rightarrow> world \<Rightarrow>
   ((string \<times> bool) run_stage \<times> 'p task \<times> world) option" where
  "resolve_content env ops cfg content t w =
     (if \<not> ri_EnableParameter (t_info t) then Some (RunGoes (content, False), t, w)
      else
        (let (r, ps, w1) = ResolveBuiltinParameters env (cfg_metaserver cfg) content
               (ri_BuiltinParameters (t_info t)) w;
             t1 = t\<lparr>t_info := (t_info t)\<lparr>ri_BuiltinParameters := ps\<rparr>\<rparr> in
         case r of
           Inl err \<Rightarrow>
             (case setting_names err of
                Some (name, short) \<Rightarrow>
                  Some (RunStops (code_value WrapErrResolveEnvironmentParameterFailed) err, t1,
                    SendInvalidTask env t1 ''InvalidEnvironmentParameter'' short w1)
              | None \<Rightarrow>
                  (case execution_code err of
                     Some code \<Rightarrow>
                       Some (RunStops code err, t1, SendError env ops [] (itoa code) (err_text err) t1 w1)
                   | None \<Rightarrow>
                       Some (RunStops (code_value WrapErrResolveEnvironmentParameterFailed) err, t1,
                         SendError env ops [] (itoa (code_value WrapErrResolveEnvironmentParameterFailed))
                           (err_text err) t1 w1)))
         | Inr resolved \<Rightarrow>
             (case ReplaceAllParameterStore (cfg_store cfg) resolved of
                None \<Rightarrow> None
              | Some (replaced, Some err) \<Rightarrow>
                  Some (RunStops 0 (PlainError ''ReplaceAllParameterStore error''), t1,
                    SendInvalidTask env t1 (err_text err) replaced w1)
              | Some (replaced, None) \<Rightarrow>
                  Some (RunGoes (replaced, contains ''oos-secret'' resolved), t1, w1))))"

definition run_content ::
  "env \<Rightarrow> 'p processor_ops \<Rightarrow> agent_config \<Rightarrow> 'p task \<Rightarrow> world \<Rightarrow>
   ((string \<times> bool) run_stage \<times> 'p task \<times> world) outcome option" where
  "run_content env ops cfg t w =
     (case PreCheck env ops False t w of
        Panics p \<Rightarrow> Some (Panics p)
      | Returns (Some e, t1, w1) \<Rightarrow> Some (Returns (RunStops 0 e, t1, w1))
      | Returns (None, t1, w1) \<Rightarrow>
          (case base64_decode (ri_Content (t_info t1)) of
             Inl n \<Rightarrow>
               Some (Returns (RunStops (code_value WrapErrBase64DecodeFailed) (PlainError ''decode error''), t1,
                 SendError env ops [] (itoa (code_value WrapErrBase64DecodeFailed))
                   (''Base64DecodeFailed: '' @ base64_error n) t1 w1))
           | Inr bytes \<Rightarrow> map_option Returns (resolve_content env ops cfg bytes t1 w1)))"

text \<open>The \<open>Prepare\<close> call and the reports of its errors.\<close>

definition run_prepare ::
  "env \<Rightarrow> 'p processor_ops \<Rightarrow> string \<Rightarrow> 'p task \<Rightarrow> world \<Rightarrow> unit run_stage \<times> 'p task \<times> world" where
  "run_prepare env ops content t w =
     (let (err, p, w1) = opPrepare ops content (t_processer t) w; t1 = t\<lparr>t_processer := p\<rparr> in
      case err of
        None \<Rightarrow> (RunGoes (), t1, w1)
      | Some e \<Rightarrow>
          (case normalized_code e of
             Some (code, description) \<Rightarrow>
               (RunStops (code_value WrapGeneralError) e, t1, SendError env ops [] code description t1 w1)
           | None \<Rightarrow>
               (case validation_param e of
                  Some (param, value) \<Rightarrow>
                    (RunStops (code_value WrapGeneralError) e, t1, SendInvalidTask env t1 param value w1)
                | None \<Rightarrow>
                    (case execution_code e of
                       Some code \<Rightarrow>
                         (RunStops code e, t1, SendError env ops [] (itoa code) (err_text e) t1 w1)
                     | None \<Rightarrow> (RunStops (code_value WrapGeneralError) e, t1, w1)))))"

text \<open>
  The state while the process runs: the task, the unread output, the time of the last running
  report. One tick of the reporting goroutine, which is silent for tasks with a cron field; and
  one event of the run.
\<close>

record 'p run_state =
  rs_task :: "'p task"
  rs_buffer :: string
  rs_last :: instant

definition running_tick ::
  "env \<Rightarrow> 'p processor_ops \<Rightarrow> 'p run_state \<Rightarrow> world \<Rightarrow> 'p run_state \<times> world" where
  "running_tick env ops s w =
     (let t = rs_task s in
      if t_data_sended t > defaultQuotoPre then
        (let (buf, out) = tryRead (rs_buffer s) (t_output t); t1 = t\<lparr>t_output := out\<rparr>;
             (reported, w1) = sendRunningOutput env ops [] (rs_last s) t1 w in
         if reported then (let (now, w2) = read_clock env w1 in
           (\<lparr>rs_task = t1, rs_buffer = buf, rs_last = now\<rparr>, w2))
         else (\<lparr>rs_task = t1, rs_buffer = buf, rs_last = rs_last s\<rparr>, w1))
      else
        (let (buf, running) = tryRead (rs_buffer s) [];
             (reported, w1) = sendRunningOutput env ops running (rs_last s) t w;
             t1 = t\<lparr>t_data_sended := (t_data_sended t + int (length running)) mod 4294967296\<rparr> in
         if reported then (let (now, w2) = read_clock env w1 in
           (\<lparr>rs_task = t1, rs_buffer = buf, rs_last = now\<rparr>, w2))
         else (\<lparr>rs_task = t1, rs_buffer = buf, rs_last = rs_last s\<rparr>, w1)))"

definition run_event_step ::
  "env \<Rightarrow> 'p processor_ops \<Rightarrow> bool \<Rightarrow> run_event \<Rightarrow> 'p run_state \<times> world \<Rightarrow> ('p run_state \<times> world) outcome" where
  "run_event_step env ops no_next e = (\<lambda>(s, w).
     (case e of
        Wrote bytes \<Rightarrow> Returns (s\<lparr>rs_buffer := rs_buffer s @ bytes\<rparr>, w)
      | Ticked \<Rightarrow>
          Returns (if ri_Cronat (t_info (rs_task s)) \<noteq> [] then (s, w) else running_tick env ops s w)
      | CancelCalled quietly \<Rightarrow>
          map_ret (\<lambda>(t, w'). (s\<lparr>rs_task := t\<rparr>, w')) (Cancel env ops no_next quietly (rs_task s) w)))"

fun run_events_steps ::
  "env \<Rightarrow> 'p processor_ops \<Rightarrow> bool \<Rightarrow> run_event list \<Rightarrow> 'p run_state \<times> world \<Rightarrow> ('p run_state \<times> world) outcome" where
  "run_events_steps env ops no_next [] sw = Returns sw"
| "run_events_steps env ops no_next (e # es) sw =
     bind_outcome (run_event_step env ops no_next e sw) (run_events_steps env ops no_next es)"

text \<open>The final report of a run by the status of the process.\<close>

definition final_report ::
  "env \<Rightarrow> 'p processor_ops \<Rightarrow> bool \<Rightarrow> proc_status \<Rightarrow> go_error option \<Rightarrow> 'p task \<Rightarrow> world \<Rightarrow>
   ('p task \<times> world) outcome" where
  "final_report env ops no_next status err t w =
     (case status of
        Fail \<Rightarrow>
          map_ret (\<lambda>(s, t1). (t1,
            (case err of
               None \<Rightarrow> sendOutput env ops no_next ''failed'' s t1 w
             | Some e \<Rightarrow>
                 (case normalized_code e of
                    Some (code, description) \<Rightarrow> SendError env ops s code description t1 w
                  | None \<Rightarrow>
                      (case execution_code e of
                         Some code \<Rightarrow> SendError env ops s (itoa code) (err_text e) t1 w
                       | None \<Rightarrow> SendError env ops s (itoa (code_value WrapErrExecuteScriptFailed))
                           (''ExecuteScriptFailed: '' @ err_text e) t1 w)))))
            (getReportString (t_output t) t)
      | Timeout \<Rightarrow>
          map_ret (\<lambda>(s, t1). (t1, sendOutput env ops no_next ''timeout'' s t1 w)) (getReportString (t_output t) t)
      | _ \<Rightarrow>
          if IsCancled t then Returns (t, w)
          else map_ret (\<lambda>(s, t1). (t1, sendOutput env ops no_next ''finished'' s t1 w))
                 (getReportString (t_output t) t))"

text \<open>The second part of \<open>Run\<close>, from the start of the process to the cleanup.\<close>

definition run_process ::
  "env \<Rightarrow> 'p processor_ops \<Rightarrow> bool \<Rightarrow> bool \<Rightarrow> 'p task \<Rightarrow> world \<Rightarrow> ('p task \<times> world) outcome" where
  "run_process env ops no_next scriptToDelete t w =
     (let (start, w1) = read_clock env w;
          t1 = t\<lparr>t_startTime := Some start, t_monoStart := ToAccurateTime start\<rparr>;
          w2 = sendTaskStart env ops t1 w1;
          (last, w3) = read_clock env w2 in
      bind_outcome (opSyncRun ops (t_processer t1) w3)
        (\<lambda>((events, exit_code, status, err), p, w4).
      bind_outcome
        (run_events_steps env ops no_next events
           (\<lparr>rs_task = t1\<lparr>t_processer := p, t_data_sended := 0\<rparr>, rs_buffer = [], rs_last = last\<rparr>, w4))
        (\<lambda>(s, w5).
           let (buf, out) = tryReadAll (rs_buffer s) (t_output (rs_task s));
               (now, w6) = read_clock env w5;
               t3 = (rs_task s)\<lparr>t_exit_code := exit_code, t_output := out, t_endTime := Some now,
                 t_monoEnd := ToAccurateTime (ToStableElapsedTime now start)\<rparr> in
           bind_outcome (final_report env ops no_next status err t3 w6)
             (\<lambda>(t4, w7).
                let (e1, p1, w8) = opCleanup ops scriptToDelete (t_processer t4) w7;
                    (e2, p2, w9) = opSideEffect ops p1 w8 in
                Returns (t4\<lparr>t_output := [], t_processer := p2\<rparr>, w9)))))"

definition Run ::
  "env \<Rightarrow> 'p processor_ops \<Rightarrow> agent_config \<Rightarrow> bool \<Rightarrow> 'p task \<Rightarrow> world \<Rightarrow>
   ((int \<times> go_error option) \<times> 'p task \<times> world) outcome option" where
  "Run env ops cfg no_next t w =
     (case run_content env ops cfg t w of
        None \<Rightarrow> None
      | Some (Panics p) \<Rightarrow> Some (Panics p)
      | Some (Returns (RunStops code e, t1, w1)) \<Rightarrow> Some (Returns ((code, Some e), t1, w1))
      | Some (Returns (RunGoes (content, scriptToDelete), t1, w1)) \<Rightarrow>
          (case run_prepare env ops (normalize_content cfg (ri_CommandType (t_info t1)) content) t1 w1 of
             (RunStops code e, t2, w2) \<Rightarrow> Some (Returns ((code, Some e), t2, w2))
           | (RunGoes _, t2, w2) \<Rightarrow>
               Some (map_ret (\<lambda>(t3, w3). ((0, None), t3, w3))
                 (run_process env ops no_next scriptToDelete t2 w2))))"

end
