(* ===== verification/Task_Output.thy ===== *)
theory Task_Output
  imports Base_Task
begin

text \<open>
  What one run of a command sends: which services its requests go to, and where every byte of
  the process output ends up. The processor enters through the locale \<open>task_processor\<close>, whose
  laws say that a processor makes no requests of its own.
\<close>

section \<open>Where requests go\<close>

text \<open>The requests between two worlds all go below one of the addresses of \<open>S\<close>.\<close>

definition sends :: "string set \<Rightarrow> world \<Rightarrow> world \<Rightarrow> bool" where
  "sends S w w' \<longleftrightarrow> (\<exists>es. trace w' = trace w @ es
     \<and> (\<forall>m u b. HttpSent m u b \<in> set es \<longrightarrow> (\<exists>s \<in> S. has_prefix s u)))"

lemma sends_refl [simp]: "sends S w w"
  by (auto simp: sends_def)

lemma sends_same_trace: "trace w' = trace w \<Longrightarrow> sends S w w'"
  by (auto simp: sends_def)

lemma sends_trans:
  assumes "sends S w w'" "sends S w' w''" shows "sends S w w''"
proof -
  obtain es where 1: "trace w' = trace w @ es"
    "\<forall>m u b. HttpSent m u b \<in> set es \<longrightarrow> (\<exists>s \<in> S. has_prefix s u)"
    using assms(1) unfolding sends_def by blast
  obtain fs where 2: "trace w'' = trace w' @ fs"
    "\<forall>m u b. HttpSent m u b \<in> set fs \<longrightarrow> (\<exists>s \<in> S. has_prefix s u)"
    using assms(2) unfolding sends_def by blast
  have "trace w'' = trace w @ es @ fs" using 1(1) 2(1) by simp
  moreover have "\<forall>m u b. HttpSent m u b \<in> set (es @ fs) \<longrightarrow> (\<exists>s \<in> S. has_prefix s u)"
    using 1(2) 2(2) unfolding set_append by blast
  ultimately show ?thesis unfolding sends_def by blast
qed

lemma sends_mono: "sends S w w' \<Longrightarrow> S \<subseteq> T \<Longrightarrow> sends T w w'"
  unfolding sends_def by blast

lemma has_prefix_append [simp]: "has_prefix s (s @ r)"
  by (auto simp: has_prefix_iff)

lemma has_prefix_self [simp]: "has_prefix s s"
  by (auto simp: has_prefix_iff)

lemma sends_sleep [simp]: "sends S w (go_sleep n w)"
  by (auto simp: sends_def)

lemma sends_HttpPost: "has_prefix s url \<Longrightarrow> s \<in> S \<Longrightarrow> sends S w (snd (HttpPost env url body w))"
  unfolding sends_def HttpPost_def send_request_def
  by (auto simp: Let_def split: transport_reply.splits)

lemma sends_HttpGet: "has_prefix s url \<Longrightarrow> s \<in> S \<Longrightarrow> sends S w (snd (HttpGet env url w))"
  unfolding sends_def HttpGet_def send_request_def
  by (auto simp: Let_def split: transport_reply.splits)

lemma sends_retry_post:
  "has_prefix s url \<Longrightarrow> s \<in> S \<Longrightarrow> sends S w (snd (retry_post env url body n r w))"
proof (induction n arbitrary: r w)
  case (Suc n)
  obtain r' w' where p: "HttpPost env url body (go_sleep 2 w) = (r', w')" by fastforce
  then have "sends S (go_sleep 2 w) w'"
    using sends_HttpPost [OF Suc.prems, of "go_sleep 2 w" env body] by simp
  then have "sends S w w'" using sends_trans [OF sends_sleep] by blast
  with Suc.IH [OF Suc.prems, of w' r'] p show ?case by (auto simp: Let_def intro: sends_trans)
qed simp

lemma sends_post_retrying:
  "has_prefix s url \<Longrightarrow> s \<in> S \<Longrightarrow> sends S w (snd (post_retrying env url body w))"
proof -
  assume a: "has_prefix s url" "s \<in> S"
  obtain r w' where p: "HttpPost env url body w = (r, w')" by fastforce
  then have "sends S w w'" using sends_HttpPost [OF a, of w env body] by simp
  with sends_retry_post [OF a, of w' env body 3 r] p show ?thesis
    by (auto simp: post_retrying_def intro: sends_trans)
qed

text \<open>A post of \<open>body\<close> below \<open>address\<close> lies between two worlds.\<close>

definition posted :: "string \<Rightarrow> string \<Rightarrow> world \<Rightarrow> world \<Rightarrow> bool" where
  "posted address body w w' \<longleftrightarrow> (\<exists>es url. trace w' = trace w @ es \<and> HttpSent ''POST'' url body \<in> set es
     \<and> has_prefix address url)"

lemma posted_later:
  assumes "posted address body w w'" "sends S w' w''" shows "posted address body w w''"
proof -
  obtain es url where 1: "trace w' = trace w @ es" "HttpSent ''POST'' url body \<in> set es" "has_prefix address url"
    using assms(1) unfolding posted_def by blast
  obtain fs where "trace w'' = trace w' @ fs" using assms(2) unfolding sends_def by blast
  with 1 show ?thesis unfolding posted_def by (intro exI [of _ "es @ fs"] exI [of _ url]) simp
qed

lemma posted_earlier:
  assumes "sends S w w'" "posted address body w' w''" shows "posted address body w w''"
proof -
  obtain fs where 1: "trace w' = trace w @ fs" using assms(1) unfolding sends_def by blast
  obtain es url where "trace w'' = trace w' @ es" "HttpSent ''POST'' url body \<in> set es" "has_prefix address url"
    using assms(2) unfolding posted_def by blast
  with 1 show ?thesis unfolding posted_def by (intro exI [of _ "fs @ es"] exI [of _ url]) simp
qed

lemma posted_within:
  assumes "trace w1 = trace w @ es" "posted address body w1 w2" "trace w3 = trace w2 @ fs"
  shows "posted address body w w3"
proof -
  obtain gs url where "trace w2 = trace w1 @ gs" "HttpSent ''POST'' url body \<in> set gs" "has_prefix address url"
    using assms(2) unfolding posted_def by blast
  with assms show ?thesis unfolding posted_def by (intro exI [of _ "es @ gs @ fs"] exI [of _ url]) simp
qed

lemma posted_post_retrying:
  assumes "has_prefix address url" shows "posted address body w (snd (post_retrying env url body w))"
proof -
  obtain es where "trace (snd (post_retrying env url body w)) = trace w @ es" "HttpSent ''POST'' url body \<in> set es"
    using retrying.post_sent [of env "(url, body)" w] by auto
  with assms show ?thesis unfolding posted_def by blast
qed

section \<open>Running output in a trace\<close>

definition running_data :: "env \<Rightarrow> effect list \<Rightarrow> string" where
  "running_data env es = concat (map (\<lambda>e. case e of
     HttpSent m u b \<Rightarrow> if m = ''POST'' \<and> has_prefix (GetRunningOutputService env) u then b else []
   | _ \<Rightarrow> []) es)"

lemma running_data_simps [simp]:
  "running_data env [] = []"
  "running_data env (xs @ ys) = running_data env xs @ running_data env ys"
  by (simp_all add: running_data_def)

lemma running_data_no_posts: "posts es = [] \<Longrightarrow> running_data env es = []"
  by (induction es) (auto simp: running_data_def posts_def split: effect.splits if_splits)

definition final_services :: "env \<Rightarrow> string set" where
  "final_services env = {GetFinishOutputService env, GetTimeoutOutputService env, GetErrorOutputService env,
     GetStoppedOutputService env}"

lemma services_apart:
  "has_prefix (GetRunningOutputService env) u \<Longrightarrow> s \<in> final_services env \<Longrightarrow> \<not> has_prefix s u"
  by (auto simp: final_services_def has_prefix_iff GetRunningOutputService_def GetFinishOutputService_def
      GetTimeoutOutputService_def GetErrorOutputService_def GetStoppedOutputService_def service_def)

text \<open>The services of a final report: finished, timed out, failed.\<close>

definition report_services :: "env \<Rightarrow> string set" where
  "report_services env = {GetFinishOutputService env, GetTimeoutOutputService env, GetErrorOutputService env}"

lemma services_apart_final:
  "has_prefix (GetStoppedOutputService env) u \<Longrightarrow> s \<in> report_services env \<Longrightarrow> \<not> has_prefix s u"
  "has_prefix (GetRunningOutputService env) u \<Longrightarrow> s \<in> report_services env \<Longrightarrow> \<not> has_prefix s u"
  by (auto simp: has_prefix_iff report_services_def GetRunningOutputService_def GetFinishOutputService_def
      GetTimeoutOutputService_def GetErrorOutputService_def GetStoppedOutputService_def service_def)

lemma sends_final_running:
  assumes "sends S w w'" "S \<subseteq> final_services env"
  obtains es where "trace w' = trace w @ es" "running_data env es = []"
proof -
  obtain es where es: "trace w' = trace w @ es"
    "\<forall>m u b. HttpSent m u b \<in> set es \<longrightarrow> (\<exists>s \<in> S. has_prefix s u)"
    using assms(1) by (auto simp: sends_def)
  have "(case e of HttpSent m u b \<Rightarrow> if m = ''POST'' \<and> has_prefix (GetRunningOutputService env) u then b else []
      | _ \<Rightarrow> []) = []" if e: "e \<in> set es" for e
  proof (cases e)
    case (HttpSent m u b)
    with es(2) e obtain s where "s \<in> S" "has_prefix s u" by blast
    with assms(2) services_apart [of env u s] have "\<not> has_prefix (GetRunningOutputService env) u" by blast
    with HttpSent show ?thesis by simp
  qed simp_all
  then have "running_data env es = []" by (simp add: running_data_def)
  with es(1) that show ?thesis by blast
qed

section \<open>Reports\<close>

lemma trace_wallClock [simp]: "trace (snd (wallClockQueryParams env t w)) = trace w"
  by (simp add: wallClockQueryParams_def GetAccurateTime_def NowWithTimezoneName_def read_clock_def Let_def
      split: RunTaskRepeatType.split option.split)

lemma wallClock_obtain:
  obtains stamp w1 where "wallClockQueryParams env t w = (stamp, w1)" "trace w1 = trace w"
  using trace_wallClock [of env t w] by (metis prod.collapse)

lemma sends_sendStoppedOutput:
  "sends {GetStoppedOutputService env} w (snd (sendStoppedOutput env taskId v st en ex dr out reason w))"
  unfolding sendStoppedOutput_def stopped_url_def
  by (rule sends_post_retrying [where s = "GetStoppedOutputService env"]) simp_all

lemma sends_onFinish: "sends {GetStoppedOutputService env} w (onFinishCallback env no_next t w)"
  by (simp add: onFinishCallback_def sends_sendStoppedOutput)

lemma sends_sendOutput_canceled:
  "sends {GetStoppedOutputService env} w (sendOutput env ops no_next ''canceled'' out t w)"
  by (simp add: sendOutput_def sends_sendStoppedOutput)

lemma sendOutput_final:
  assumes "final_service env status = Some address" "status \<noteq> ''canceled''"
  shows "sends {address, GetStoppedOutputService env} w (sendOutput env ops no_next status out t w)"
    and "posted address out w (sendOutput env ops no_next status out t w)"
proof -
  obtain stamp w1 where c: "wallClockQueryParams env t w = (stamp, w1)" "trace w1 = trace w"
    by (rule wallClock_obtain)
  define url where "url = address @ task_query t @ ''&start='' @ itoa (t_monoStart t) @ ''&end='' @ itoa (t_monoEnd t)
    @ ''&exitCode='' @ itoa (t_exit_code t) @ ''&dropped='' @ itoa (t_droped t) @ stamp @ opExtraLubanParams ops (t_processer t)"
  define w2 where "w2 = snd (post_retrying env url out w1)"
  have e: "sendOutput env ops no_next status out t w = onFinishCallback env no_next t w2"
    using assms c by (simp add: sendOutput_def Let_def url_def w2_def)
  have pre: "has_prefix address url" by (simp add: url_def)
  have 1: "sends {address, GetStoppedOutputService env} w w1" by (rule sends_same_trace [OF c(2)])
  have 2: "sends {address, GetStoppedOutputService env} w1 w2"
    unfolding w2_def by (rule sends_post_retrying [OF pre]) simp
  have 3: "sends {address, GetStoppedOutputService env} w2 (onFinishCallback env no_next t w2)"
    by (rule sends_mono [OF sends_onFinish]) simp
  show "sends {address, GetStoppedOutputService env} w (sendOutput env ops no_next status out t w)"
    unfolding e using 1 2 3 by (blast intro: sends_trans)
  show "posted address out w (sendOutput env ops no_next status out t w)"
    unfolding e by (rule posted_earlier [OF 1 posted_later [OF posted_post_retrying [OF pre, of out w1 env,
      folded w2_def] 3]])
qed

lemma SendError_final:
  shows "sends {GetErrorOutputService env} w (SendError env ops out code desc t w)"
    and "posted (GetErrorOutputService env) out w (SendError env ops out code desc t w)"
proof -
  obtain stamp w1 where c: "wallClockQueryParams env t w = (stamp, w1)" "trace w1 = trace w"
    by (rule wallClock_obtain)
  define url where "url = error_url env ops code desc stamp t"
  have e: "SendError env ops out code desc t w = snd (post_retrying env url out w1)"
    using c by (simp add: SendError_def url_def)
  have pre: "has_prefix (GetErrorOutputService env) url" by (simp add: url_def error_url_def)
  have 1: "sends {GetErrorOutputService env} w w1" by (rule sends_same_trace [OF c(2)])
  have "sends {GetErrorOutputService env} w1 (snd (post_retrying env url out w1))"
    by (rule sends_post_retrying [OF pre]) simp
  then show "sends {GetErrorOutputService env} w (SendError env ops out code desc t w)"
    unfolding e using 1 by (blast intro: sends_trans)
  show "posted (GetErrorOutputService env) out w (SendError env ops out code desc t w)"
    unfolding e by (rule posted_earlier [OF 1 posted_post_retrying [OF pre]])
qed

lemma sendRunningOutput_running:
  assumes "sendRunningOutput env ops data prev t w = (reported, w')"
  shows "sends {GetRunningOutputService env} w w'"
    and "\<exists>es. trace w' = trace w @ es \<and> running_data env es = data"
proof -
  obtain skip w1 where s: "(if data = [] \<and> out_SkipEmpty (ri_Output (t_info t)) then
      (let (now, w') = read_clock env w in (time_sub now prev < minute, w')) else (False, w)) = (skip, w1)"
    by (metis surj_pair)
  then have w1: "trace w1 = trace w" "skip \<Longrightarrow> data = []"
    by (auto simp: read_clock_def split: if_splits)
  have "sends {GetRunningOutputService env} w w' \<and> (\<exists>es. trace w' = trace w @ es \<and> running_data env es = data)"
  proof (cases skip)
    case True
    with assms s have "w' = w1" by (simp add: sendRunningOutput_def)
    with w1 True show ?thesis by (auto intro: sends_same_trace)
  next
    case False
    obtain stamp w2 where c: "wallClockQueryParams env t w1 = (stamp, w2)" "trace w2 = trace w1"
      by (rule wallClock_obtain)
    define url where "url = GetRunningOutputService env @ task_query t @ ''&start='' @ itoa (t_monoStart t)
      @ stamp @ opExtraLubanParams ops (t_processer t)"
    have w': "w' = snd (HttpPost env url data w2)"
      using assms s False c by (simp add: sendRunningOutput_def post_once_def url_def)
    have pre: "has_prefix (GetRunningOutputService env) url" by (simp add: url_def)
    obtain es where es: "trace w' = trace w2 @ HttpSent ''POST'' url data # es" "posts es = []"
      using HttpPost_trace [of env url data w2] w' by blast
    have "running_data env (HttpSent ''POST'' url data # es) = data"
      using pre running_data_no_posts [OF es(2)] by (simp add: running_data_def)
    moreover have "sends {GetRunningOutputService env} w2 w'"
      unfolding w' by (rule sends_HttpPost [OF pre]) simp
    ultimately show ?thesis
      using es(1) c(2) w1(1) sends_trans [OF sends_same_trace] by metis
  qed
  then show "sends {GetRunningOutputService env} w w'"
    "\<exists>es. trace w' = trace w @ es \<and> running_data env es = data" by blast+
qed

section \<open>Processors\<close>

text \<open>A processor works on the machine; it makes no requests.\<close>

lemma quiet_sends: "quiet w w' \<Longrightarrow> sends S w w'"
  unfolding quiet_def sends_def list_all_iff by (metis effect.case(1) is_http_def)

locale task_processor =
  fixes ops :: "'p processor_ops" and cancel_safe :: "'p \<Rightarrow> bool"
  assumes quiet_PreCheck: "opPreCheck ops p w = Returns (c, p', w') \<Longrightarrow> quiet w w'"
    and quiet_Prepare: "quiet w (snd (snd (opPrepare ops content p w)))"
    and quiet_SyncRun: "opSyncRun ops p w = Returns (r, p', w') \<Longrightarrow> quiet w w'"
    and quiet_Cancel: "opCancel ops p w = Returns (p', w') \<Longrightarrow> quiet w w'"
    and Cancel_returns: "cancel_safe p \<Longrightarrow> \<exists>p' w'. opCancel ops p w = Returns (p', w') \<and> cancel_safe p'"
    and quiet_Cleanup: "quiet w (snd (snd (opCleanup ops b p w)))"
    and quiet_SideEffect: "quiet w (snd (snd (opSideEffect ops p w)))"

section \<open>The report string\<close>

lemma report_quota_ge: "12000 \<le> report_quota t"
  by (simp add: report_quota_def defaultQuoto_def)

lemma getReportString_cases:
  assumes "t_data_sended t \<le> 8048"
  shows "\<exists>d s t'. getReportString out t = Returns (s, t') \<and> out = d @ s
    \<and> (d = [] \<and> t' = t \<or> d \<noteq> [] \<and> t' = t\<lparr>t_droped := int (length d)\<rparr>)
    \<and> int (length s) \<le> report_quota t - t_data_sended t"
proof (cases "int (length out) \<le> report_quota t - t_data_sended t")
  case True
  then have "getReportString out t = Returns (out, t)" by (simp add: getReportString_def)
  with True show ?thesis by (intro exI [of _ "[]"] exI [of _ out] exI [of _ t]) simp
next
  case False
  define dr where "dr = int (length out) - (report_quota t - t_data_sended t)"
  have r: "0 < dr" "dr < int (length out)"
    using False assms report_quota_ge [of t] unfolding dr_def by linarith+
  have g: "getReportString out t = Returns (drop (nat dr) out, t\<lparr>t_droped := dr\<rparr>)"
    using False r unfolding getReportString_def Let_def dr_def [symmetric] by simp
  have l: "int (length (take (nat dr) out)) = dr" using r by simp
  then have ne: "take (nat dr) out \<noteq> []" using r by (intro notI) simp
  have s: "int (length (drop (nat dr) out)) \<le> report_quota t - t_data_sended t"
    using r by (simp add: dr_def)
  show ?thesis
    using g l ne s
    by (intro exI [of _ "take (nat dr) out"] exI [of _ "drop (nat dr) out"] exI [of _ "t\<lparr>t_droped := dr\<rparr>"])
      (simp del: length_take length_drop take_eq_Nil)
qed

lemma getReportString_suffix:
  assumes "t_data_sended t \<le> 8048"
  obtains d s t' where "getReportString out t = Returns (s, t')" "out = d @ s"
    "d = [] \<and> t' = t \<or> d \<noteq> [] \<and> t' = t\<lparr>t_droped := int (length d)\<rparr>"
    "int (length s) \<le> report_quota t - t_data_sended t"
  using getReportString_cases [OF assms, of out] by blast

section \<open>The run, event by event\<close>

fun written_by :: "run_event \<Rightarrow> string" where
  "written_by (Wrote b) = b"
| "written_by e = []"

definition written :: "run_event list \<Rightarrow> string" where
  "written es = concat (map written_by es)"

text \<open>No request to the services of final reports.\<close>

definition unfinished :: "env \<Rightarrow> effect list \<Rightarrow> bool" where
  "unfinished env es \<longleftrightarrow> (\<forall>m u b. HttpSent m u b \<in> set es \<longrightarrow> (\<forall>s \<in> report_services env. \<not> has_prefix s u))"

definition run_inv ::
  "env \<Rightarrow> RunTaskInfo \<Rightarrow> effect list \<Rightarrow> string \<Rightarrow> 'p run_state \<Rightarrow> world \<Rightarrow> bool" where
  "run_inv env info base bytes s w \<longleftrightarrow> (\<exists>es. trace w = base @ es \<and> unfinished env es
     \<and> bytes = running_data env es @ t_output (rs_task s) @ rs_buffer s
     \<and> int (length (running_data env es)) = t_data_sended (rs_task s)
     \<and> t_data_sended (rs_task s) \<le> 8048
     \<and> (t_output (rs_task s) \<noteq> [] \<longrightarrow> 6000 < t_data_sended (rs_task s))
     \<and> t_info (rs_task s) = info)"

lemma unfinished_append [simp]: "unfinished env (es @ fs) \<longleftrightarrow> unfinished env es \<and> unfinished env fs"
  unfolding unfinished_def set_append by blast

lemma sends_unfinished:
  assumes "sends S w w'" "S \<subseteq> {GetStoppedOutputService env, GetRunningOutputService env}"
    and "trace w' = trace w @ es"
  shows "unfinished env es"
proof -
  from assms(1,3) have s: "HttpSent m u b \<in> set es \<longrightarrow> (\<exists>s \<in> S. has_prefix s u)" for m u b
    by (auto simp: sends_def)
  show ?thesis
    unfolding unfinished_def
  proof (intro allI impI ballI)
    fix m u b r
    assume "HttpSent m u b \<in> set es" and r: "r \<in> report_services env"
    with s obtain x where "x \<in> S" "has_prefix x u" by blast
    with assms(2) services_apart_final [OF _ r, of u] show "\<not> has_prefix r u" by blast
  qed
qed

lemma trace_read_clock [simp]: "trace (snd (read_clock env w)) = trace w"
  by (simp add: read_clock_def)

lemma running_tick_inv:
  assumes "run_inv env info base bytes s w" "running_tick env ops s w = (s', w')"
  shows "run_inv env info base bytes s' w'"
proof -
  let ?t = "rs_task s"
  obtain es where es: "trace w = base @ es" "unfinished env es"
    "bytes = running_data env es @ t_output ?t @ rs_buffer s"
    "int (length (running_data env es)) = t_data_sended ?t" "t_data_sended ?t \<le> 8048"
    "t_output ?t \<noteq> [] \<longrightarrow> 6000 < t_data_sended ?t" "t_info ?t = info"
    using assms(1) unfolding run_inv_def by blast
  define data where "data = (if t_data_sended ?t > defaultQuotoPre then [] else take 2048 (rs_buffer s))"
  define t1 where "t1 = (if t_data_sended ?t > defaultQuotoPre
    then ?t\<lparr>t_output := t_output ?t @ take 2048 (rs_buffer s)\<rparr> else ?t)"
  obtain reported w1 where r: "sendRunningOutput env ops data (rs_last s) t1 w = (reported, w1)" by fastforce
  obtain fs where fs: "trace w1 = trace w @ fs" "running_data env fs = data"
    using sendRunningOutput_running(2) [OF r] by blast
  have uf: "unfinished env fs"
    using sends_unfinished [OF sendRunningOutput_running(1) [OF r] _ fs(1)] by simp
  have w': "trace w' = trace w1"
    using assms(2) r by (auto simp: running_tick_def tryRead_def Let_def data_def t1_def read_clock_def split: if_splits)
  have b: "rs_buffer s' = drop 2048 (rs_buffer s)"
    using assms(2) r by (auto simp: running_tick_def tryRead_def Let_def data_def t1_def read_clock_def split: if_splits)
  show ?thesis
  proof (cases "t_data_sended ?t > defaultQuotoPre")
    case True
    then have "rs_task s' = ?t\<lparr>t_output := t_output ?t @ take 2048 (rs_buffer s)\<rparr>"
      using assms(2) r by (auto simp: running_tick_def tryRead_def Let_def data_def t1_def read_clock_def split: if_splits)
    with True es fs uf w' b show ?thesis
      unfolding run_inv_def by (intro exI [of _ "es @ fs"]) (simp add: data_def defaultQuotoPre_def)
  next
    case False
    have l: "length data \<le> 2048" using False by (simp add: data_def)
    then have m: "(t_data_sended ?t + int (length data)) mod 4294967296 = t_data_sended ?t + int (length data)"
      using False es(4) by (intro mod_pos_pos_trivial) (simp_all add: defaultQuotoPre_def)
    have "rs_task s' = ?t\<lparr>t_data_sended := (t_data_sended ?t + int (length data)) mod 4294967296\<rparr>"
      using False assms(2) r by (auto simp: running_tick_def tryRead_def Let_def data_def t1_def read_clock_def split: if_splits)
    moreover have "t_output ?t = []" using es(6) False by (auto simp: defaultQuotoPre_def)
    moreover have "data @ drop 2048 (rs_buffer s) = rs_buffer s" using False by (simp add: data_def)
    ultimately show ?thesis
      unfolding run_inv_def using es fs uf w' b l m False
      by (intro exI [of _ "es @ fs"]) (simp add: defaultQuotoPre_def)
  qed
qed

lemma running_tick_processer:
  "running_tick env ops s w = (s', w') \<Longrightarrow> t_processer (rs_task s') = t_processer (rs_task s)"
  by (auto simp: running_tick_def tryRead_def Let_def split: prod.splits if_splits)

fun is_cancel :: "run_event \<Rightarrow> bool" where
  "is_cancel (CancelCalled q) = True"
| "is_cancel e = False"

context task_processor
begin

lemma Cancel_sends:
  assumes "t_data_sended t \<le> 8048" "cancel_safe (t_processer t)"
  obtains t' w' where "Cancel env ops no_next quietly t w = Returns (t', w')" "t_canceled t'"
    "t_output t' = t_output t" "t_data_sended t' = t_data_sended t" "t_info t' = t_info t"
    "t_onFinish t' = t_onFinish t" "cancel_safe (t_processer t')"
    "sends {GetStoppedOutputService env} w w'"
proof (cases "t_canceled t")
  case True
  then show ?thesis using that [of t w] assms(2) by (simp add: Cancel_def)
next
  case False
  obtain now w1 where c: "read_clock env w = (now, w1)" by fastforce
  then have s1: "sends {GetStoppedOutputService env} w w1"
    by (intro sends_same_trace) (simp add: read_clock_def, auto)
  define t1 where "t1 = t\<lparr>t_canceled := True, t_endTime := Some now, t_monoEnd :=
    (case t_startTime t of None \<Rightarrow> ToAccurateTime now
     | Some start \<Rightarrow> ToAccurateTime (ToStableElapsedTime now start))\<rparr>"
  have ds: "t_data_sended t1 \<le> 8048" and out: "t_output t1 = t_output t" using assms by (simp_all add: t1_def)
  obtain d :: string and s t2 where g: "getReportString (t_output t1) t1 = Returns (s, t2)"
    "t2 = t1 \<or> t2 = t1\<lparr>t_droped := int (length d)\<rparr>"
    using getReportString_cases [OF ds, of "t_output t1"] by blast
  have fin: "\<exists>p w'. opCancel ops (t_processer t) wx = Returns (p, w') \<and> cancel_safe p
      \<and> sends {GetStoppedOutputService env} wx w'" for wx
    using Cancel_returns [OF assms(2)] quiet_sends [OF quiet_Cancel] by blast
  show ?thesis
  proof (cases quietly)
    case True
    obtain p w' where p: "opCancel ops (t_processer t) w1 = Returns (p, w')" "cancel_safe p"
      "sends {GetStoppedOutputService env} w1 w'"
      using fin by blast
    have "Cancel env ops no_next quietly t w = Returns (t1\<lparr>t_processer := p\<rparr>, w')"
      using False True c p(1) by (simp add: Cancel_def t1_def)
    moreover have "sends {GetStoppedOutputService env} w w'"
      using s1 p(3) by (rule sends_trans)
    ultimately show ?thesis using that p(2) by (simp add: t1_def)
  next
    case loud: False
    define w2 where "w2 = sendOutput env ops no_next ''canceled'' s t2 w1"
    have s2: "sends {GetStoppedOutputService env} w1 w2"
      unfolding w2_def by (rule sends_sendOutput_canceled)
    have pr: "t_processer t2 = t_processer t" using g(2) by (auto simp: t1_def)
    obtain p w' where p: "opCancel ops (t_processer t) w2 = Returns (p, w')" "cancel_safe p"
      "sends {GetStoppedOutputService env} w2 w'"
      using fin by blast
    have "Cancel env ops no_next quietly t w = Returns (t2\<lparr>t_processer := p\<rparr>, w')"
      using False loud c g(1) pr p(1) out by (simp add: Cancel_def t1_def [symmetric] w2_def [symmetric])
    moreover have "sends {GetStoppedOutputService env} w w'"
      using s1 s2 p(3) by (blast intro: sends_trans)
    ultimately show ?thesis using that [of "t2\<lparr>t_processer := p\<rparr>" w'] p(2) g(2) by (auto simp: t1_def)
  qed
qed

lemma run_event_inv:
  assumes "run_inv env info base bytes s w" "cancel_safe (t_processer (rs_task s)) \<or> \<not> is_cancel e"
  obtains s' w' where "run_event_step env ops no_next e (s, w) = Returns (s', w')"
    "run_inv env info base (bytes @ written_by e) s' w'"
    "cancel_safe (t_processer (rs_task s)) \<longrightarrow> cancel_safe (t_processer (rs_task s'))"
proof (cases e)
  case (Wrote b)
  then show ?thesis
    using assms that [of "s\<lparr>rs_buffer := rs_buffer s @ b\<rparr>" w] by (auto simp: run_event_step_def run_inv_def)
next
  case Ticked
  obtain s' w' where r: "running_tick env ops s w = (s', w')" by fastforce
  have e: "bytes @ written_by e = bytes" using Ticked by simp
  show ?thesis
  proof (cases "ri_Cronat (t_info (rs_task s)) = []")
    case True
    show ?thesis
      by (rule that [of s' w']) (use True Ticked r running_tick_inv [OF assms(1) r] running_tick_processer [OF r] in \<open>simp_all add: run_event_step_def\<close>)
  next
    case False
    show ?thesis
      by (rule that [of s w]) (use False Ticked assms in \<open>simp_all add: run_event_step_def\<close>)
  qed
next
  case (CancelCalled quietly)
  obtain es where es: "trace w = base @ es" "unfinished env es"
    "bytes = running_data env es @ t_output (rs_task s) @ rs_buffer s"
    "int (length (running_data env es)) = t_data_sended (rs_task s)" "t_data_sended (rs_task s) \<le> 8048"
    "t_output (rs_task s) \<noteq> [] \<longrightarrow> 6000 < t_data_sended (rs_task s)" "t_info (rs_task s) = info"
    using assms(1) unfolding run_inv_def by blast
  have safe: "cancel_safe (t_processer (rs_task s))" using assms(2) CancelCalled by simp
  obtain t' w' where c: "Cancel env ops no_next quietly (rs_task s) w = Returns (t', w')"
    "t_output t' = t_output (rs_task s)" "t_data_sended t' = t_data_sended (rs_task s)"
    "t_info t' = t_info (rs_task s)" "sends {GetStoppedOutputService env} w w'" "cancel_safe (t_processer t')"
    by (rule Cancel_sends [OF es(5) safe])
  obtain fs where fs: "trace w' = trace w @ fs" "running_data env fs = []"
    using sends_final_running [OF c(5), of env] final_services_def by blast
  have "unfinished env fs" using sends_unfinished [OF c(5) _ fs(1)] by simp
  then have "run_inv env info base (bytes @ written_by e) (s\<lparr>rs_task := t'\<rparr>) w'"
    unfolding run_inv_def using es c fs CancelCalled by (intro exI [of _ "es @ fs"]) simp
  moreover have "run_event_step env ops no_next e (s, w) = Returns (s\<lparr>rs_task := t'\<rparr>, w')"
    using c(1) CancelCalled by (simp add: run_event_step_def)
  ultimately show ?thesis using that c(6) by simp
qed

lemma run_events_inv:
  assumes "run_inv env info base bytes s w" "cancel_safe (t_processer (rs_task s)) \<or> list_all (\<lambda>e. \<not> is_cancel e) es"
  obtains s' w' where "run_events_steps env ops no_next es (s, w) = Returns (s', w')"
    "run_inv env info base (bytes @ written es) s' w'"
  using assms
proof (induction es arbitrary: bytes s w thesis)
  case Nil
  then show ?case by (simp add: written_def)
next
  case (Cons e es)
  have sf: "cancel_safe (t_processer (rs_task s)) \<or> \<not> is_cancel e" using Cons.prems(3) by auto
  obtain s1 w1 where 1: "run_event_step env ops no_next e (s, w) = Returns (s1, w1)"
    "run_inv env info base (bytes @ written_by e) s1 w1"
    "cancel_safe (t_processer (rs_task s)) \<longrightarrow> cancel_safe (t_processer (rs_task s1))"
    by (rule run_event_inv [OF Cons.prems(2) sf])
  have "cancel_safe (t_processer (rs_task s1)) \<or> list_all (\<lambda>e. \<not> is_cancel e) es"
    using Cons.prems(3) 1(3) by auto
  then obtain s2 w2 where 2: "run_events_steps env ops no_next es (s1, w1) = Returns (s2, w2)"
    "run_inv env info base ((bytes @ written_by e) @ written es) s2 w2"
    using Cons.IH [OF _ 1(2)] by blast
  with 1(1) show ?case using Cons.prems(1) [of s2 w2] by (simp add: written_def)
qed

end

section \<open>The final report\<close>

definition terminal_service :: "env \<Rightarrow> proc_status \<Rightarrow> string" where
  "terminal_service env status =
     (case status of Fail \<Rightarrow> GetErrorOutputService env | Timeout \<Rightarrow> GetTimeoutOutputService env
      | _ \<Rightarrow> GetFinishOutputService env)"

lemma final_report_reports:
  assumes "t_data_sended t \<le> 8048" "status = Fail \<or> status = Timeout \<or> \<not> t_canceled t"
  shows "\<exists>d s t' w'. final_report env ops no_next status err t w = Returns (t', w') \<and> t_output t = d @ s
    \<and> (d = [] \<and> t' = t \<or> d \<noteq> [] \<and> t' = t\<lparr>t_droped := int (length d)\<rparr>)
    \<and> int (length s) \<le> report_quota t - t_data_sended t
    \<and> posted (terminal_service env status) s w w' \<and> sends (final_services env) w w'"
proof -
  obtain d s t' where g: "getReportString (t_output t) t = Returns (s, t')" "t_output t = d @ s"
    "d = [] \<and> t' = t \<or> d \<noteq> [] \<and> t' = t\<lparr>t_droped := int (length d)\<rparr>"
    "int (length s) \<le> report_quota t - t_data_sended t"
    by (rule getReportString_suffix [OF assms(1)])
  have E: "\<exists>w'. SendError env ops s c x t' w = w' \<and> posted (GetErrorOutputService env) s w w'
      \<and> sends (final_services env) w w'" for c x
    using SendError_final [where out = s and t = t' and w = w and ops = ops and env = env and code = c and desc = x]
      sends_mono [of "{GetErrorOutputService env}" w _ "final_services env"]
    by (auto simp: final_services_def)
  have O: "\<exists>w'. sendOutput env ops no_next st s t' w = w' \<and> posted address s w w' \<and> sends (final_services env) w w'"
    if "final_service env st = Some address" "st \<noteq> ''canceled''" for st address
  proof -
    have "address \<in> final_services env"
      using that(1) by (auto simp: final_service_def final_services_def split: if_splits)
    then have "{address, GetStoppedOutputService env} \<subseteq> final_services env" by (simp add: final_services_def)
    then show ?thesis
      using sendOutput_final [OF that, where w = w and ops = ops and no_next = no_next and out = s and t = t'] sends_mono by blast
  qed
  have "\<exists>w'. final_report env ops no_next status err t w = Returns (t', w')
      \<and> posted (terminal_service env status) s w w' \<and> sends (final_services env) w w'"
  proof (cases status)
    case Fail
    show ?thesis
    proof (cases err)
      case None
      with Fail g(1) O [of "''failed''" "GetErrorOutputService env"] show ?thesis
        by (auto simp: final_report_def terminal_service_def final_service_def)
    next
      case (Some e)
      show ?thesis
      proof (cases "normalized_code e")
        case (Some p)
        with Fail g(1) \<open>err = Some e\<close> E [of "fst p" "snd p"] show ?thesis
          by (auto simp: final_report_def terminal_service_def split: prod.split)
      next
        case None
        with Fail g(1) \<open>err = Some e\<close> E show ?thesis
          by (auto simp: final_report_def terminal_service_def split: option.split)
      qed
    qed
  next
    case Timeout
    with g(1) O [of "''timeout''" "GetTimeoutOutputService env"] show ?thesis
      by (auto simp: final_report_def terminal_service_def final_service_def)
  next
    case Success
    with g(1) assms(2) O [of "''finished''" "GetFinishOutputService env"] show ?thesis
      by (auto simp: final_report_def terminal_service_def final_service_def IsCancled_def)
  next
    case (OtherStatus n)
    with g(1) assms(2) O [of "''finished''" "GetFinishOutputService env"] show ?thesis
      by (auto simp: final_report_def terminal_service_def final_service_def IsCancled_def)
  qed
  with g show ?thesis by blast
qed

lemma final_report_canceled:
  assumes "status \<noteq> Fail" "status \<noteq> Timeout" "t_canceled t"
  shows "final_report env ops no_next status err t w = Returns (t, w)"
  using assms by (cases status) (simp_all add: final_report_def IsCancled_def)

section \<open>Where the output of a run goes\<close>

text \<open>
  What a run promises about its output: \<open>events\<close> are the events of the process, \<open>es\<close> the
  effects of the run. A run that was not canceled, that failed or that timed out posts its final
  report: every byte written is sent while running, dropped, or in that report, in this order; at
  most 8048 bytes are sent while running, and no more than the quota in all; what was dropped now is
  what the task counts as dropped. A canceled run that neither failed nor timed out makes no request
  to a service of final reports, and what it sent while running is the first part of what was
  written.
\<close>

definition output_reported ::
  "env \<Rightarrow> 'p task \<Rightarrow> run_event list \<Rightarrow> proc_status \<Rightarrow> 'p task \<Rightarrow> world \<Rightarrow> world \<Rightarrow> bool" where
  "output_reported env t events status t' w w' \<longleftrightarrow>
     (\<exists>es sent. trace w' = trace w @ es \<and> sent = running_data env es \<and> length sent \<le> 8048 \<and> t_output t' = []
       \<and> (if status \<noteq> Fail \<and> status \<noteq> Timeout \<and> t_canceled t' then
            unfinished env es \<and> (\<exists>rest. written events = sent @ rest)
          else
            (\<exists>dropped reported. written events = sent @ dropped @ reported
              \<and> int (length sent) + int (length reported) \<le> report_quota t
              \<and> (dropped = [] \<or> t_droped t' = int (length dropped))
              \<and> posted (terminal_service env status) reported w w')))"

lemma report_quota_cong: "t_info t = t_info t' \<Longrightarrow> report_quota t = report_quota t'"
  by (simp add: report_quota_def)

lemma sendTaskStart_running:
  obtains es where "trace (sendTaskStart env ops t w) = trace w @ es" "running_data env es = []"
    "sends {GetRunningOutputService env} w (sendTaskStart env ops t w)"
proof (cases "out_SendStart (ri_Output (t_info t))")
  case False
  then show ?thesis using that [of "[]"] by (simp add: sendTaskStart_def)
next
  case True
  obtain stamp w1 where c: "wallClockQueryParams env t w = (stamp, w1)" "trace w1 = trace w"
    by (rule wallClock_obtain)
  define url where "url = GetRunningOutputService env @ task_query t @ ''&start='' @ itoa (t_monoStart t)
    @ stamp @ opExtraLubanParams ops (t_processer t)"
  have e: "sendTaskStart env ops t w = snd (HttpPost env url [] w1)"
    using True c by (simp add: sendTaskStart_def post_once_def url_def)
  obtain es where es: "trace (snd (HttpPost env url [] w1)) = trace w1 @ HttpSent ''POST'' url [] # es" "posts es = []"
    using HttpPost_trace by blast
  have "has_prefix (GetRunningOutputService env) url" by (simp add: url_def)
  then have "sends {GetRunningOutputService env} w1 (snd (HttpPost env url [] w1))"
    by (rule sends_HttpPost) simp
  then have "sends {GetRunningOutputService env} w (sendTaskStart env ops t w)"
    unfolding e using sends_same_trace [OF c(2)] by (blast intro: sends_trans)
  then show ?thesis
    using that [of "HttpSent ''POST'' url [] # es"] es c(2) running_data_no_posts [OF es(2)]
    by (simp add: e running_data_def)
qed

lemma run_inv_start:
  assumes "trace w' = base @ es" "sends {GetRunningOutputService env} w w'" "trace w = base"
    "running_data env es = []" "t_info t = info" "t_output t = []" "t_data_sended t = 0"
  shows "run_inv env info base [] \<lparr>rs_task = t, rs_buffer = [], rs_last = lst\<rparr> w'"
proof -
  have "unfinished env es"
    using sends_unfinished [OF assms(2), of env es] assms(1,3) by simp
  with assms show ?thesis unfolding run_inv_def by (intro exI [of _ es]) simp
qed

lemma unfinished_run_inv:
  assumes "run_inv env info base bytes s w" "trace w' = trace w" 
  shows "run_inv env info base bytes s w'"
  using assms by (simp add: run_inv_def)

text \<open>The end of a run, from the state the events leave.\<close>

lemma final_report_output:
  assumes "run_inv env (t_info t) (trace w) (written events) s w6"
    and "t3 = (rs_task s)\<lparr>t_exit_code := code, t_output := t_output (rs_task s) @ rs_buffer s,
           t_endTime := e, t_monoEnd := m\<rparr>"
    and later: "\<And>tx w7. sends {} w7 (fin tx w7)"
  shows "\<exists>t4 w7. final_report env ops no_next status err t3 w6 = Returns (t4, w7)
     \<and> (\<forall>p. output_reported env t events status (t4\<lparr>t_output := [], t_processer := p\<rparr>) w (fin t4 w7))"
proof -
  obtain es where es: "trace w6 = trace w @ es" "unfinished env es"
    "written events = running_data env es @ t_output t3"
    "int (length (running_data env es)) = t_data_sended t3" "t_data_sended t3 \<le> 8048" "t_info t3 = t_info t"
    using assms(1) unfolding run_inv_def assms(2) by auto
  have fin: "\<exists>fs. trace (fin tx w7) = trace w7 @ fs \<and> running_data env fs = [] \<and> unfinished env fs" for tx w7
  proof -
    obtain fs where fs: "trace (fin tx w7) = trace w7 @ fs" "running_data env fs = []"
      using sends_final_running [OF later [of w7 tx]] by blast
    with sends_unfinished [OF later [of w7 tx] _ fs(1)] show ?thesis by blast
  qed
  show ?thesis
  proof (cases "status \<noteq> Fail \<and> status \<noteq> Timeout \<and> t_canceled t3")
    case True
    then have f: "final_report env ops no_next status err t3 w6 = Returns (t3, w6)"
      by (simp add: final_report_canceled)
    obtain fs where "trace (fin t3 w6) = trace w6 @ fs" "running_data env fs = []" "unfinished env fs"
      using fin [of t3 w6] by blast
    with True f es show ?thesis
      unfolding output_reported_def by (intro exI [of _ t3] exI [of _ w6]) (auto intro!: exI [of _ "es @ fs"])
  next
    case False
    then obtain d r t4 w7 where f: "final_report env ops no_next status err t3 w6 = Returns (t4, w7)"
      "t_output t3 = d @ r" "d = [] \<and> t4 = t3 \<or> d \<noteq> [] \<and> t4 = t3\<lparr>t_droped := int (length d)\<rparr>"
      "int (length r) \<le> report_quota t3 - t_data_sended t3" "posted (terminal_service env status) r w6 w7"
      "sends (final_services env) w6 w7"
      using final_report_reports [OF es(5), of status env ops no_next err w6] by blast
    obtain fs where fs: "trace w7 = trace w6 @ fs" "running_data env fs = []"
      using sends_final_running [OF f(6)] by blast
    obtain gs where gs: "trace (fin t4 w7) = trace w7 @ gs" "running_data env gs = []"
      using fin [of t4 w7] by blast
    have info: "t_info t4 = t_info t" using f(3) es(6) assms(2) by auto
    have po: "posted (terminal_service env status) r w (fin t4 w7)"
      by (rule posted_within [OF es(1) f(5) gs(1)])
    have c: "t_canceled t4 = t_canceled t3" using f(3) by auto
    have q: "int (length (running_data env es)) + int (length r) \<le> report_quota t"
      using f(4) es(4) report_quota_cong [OF es(6)] by simp
    have dr: "d = [] \<or> t_droped t4 = int (length d)" using f(3) by auto
    have tr: "trace (fin t4 w7) = trace w @ (es @ fs @ gs)" using es(1) fs(1) gs(1) by simp
    have sent: "running_data env (es @ fs @ gs) = running_data env es" using fs(2) gs(2) by simp
    have l: "length (running_data env es) \<le> 8048" using es(4,5) by linarith
    have "output_reported env t events status (t4\<lparr>t_output := [], t_processer := p\<rparr>) w (fin t4 w7)" for p
      unfolding output_reported_def
      using False c po q dr l es(3) f(2) sent tr
      by (intro exI [of _ "es @ fs @ gs"] exI [of _ "running_data env es"]) auto
    with f(1) show ?thesis by blast
  qed
qed

context task_processor
begin

lemma run_process_reports:
  assumes "t_output t = []"
  shows "\<exists>w0. case opSyncRun ops (t_processer t) w0 of
      Panics q \<Rightarrow> run_process env ops no_next del t w = Panics q
    | Returns ((events, code, status, err), p, w1) \<Rightarrow>
        cancel_safe p \<or> list_all (\<lambda>e. \<not> is_cancel e) events \<longrightarrow>
        (\<exists>t' w'. run_process env ops no_next del t w = Returns (t', w')
           \<and> output_reported env t events status t' w w')"
proof -
  obtain start w1 where c1: "read_clock env w = (start, w1)" by fastforce
  then have tr1: "trace w1 = trace w" using trace_read_clock [of env w] by simp
  define t1 where "t1 = t\<lparr>t_startTime := Some start, t_monoStart := ToAccurateTime start\<rparr>"
  define w2 where "w2 = sendTaskStart env ops t1 w1"
  obtain es1 where es1: "trace w2 = trace w1 @ es1" "running_data env es1 = []"
    "sends {GetRunningOutputService env} w1 w2"
    unfolding w2_def by (rule sendTaskStart_running)
  obtain lst w3 where c3: "read_clock env w2 = (lst, w3)" by fastforce
  then have tr3: "trace w3 = trace w2" using trace_read_clock [of env w2] by simp
  have "run_process env ops no_next del t w = Panics q" if "opSyncRun ops (t_processer t) w3 = Panics q" for q
    using c1 c3 that by (simp add: run_process_def Let_def t1_def [symmetric] w2_def [symmetric])
  moreover have "\<exists>t' w'. run_process env ops no_next del t w = Returns (t', w')
      \<and> output_reported env t events status t' w w'"
    if r: "opSyncRun ops (t_processer t) w3 = Returns ((events, code, status, err), p, w4)"
      and safe: "cancel_safe p \<or> list_all (\<lambda>e. \<not> is_cancel e) events" for events code status err p w4
  proof -
  have q4: "sends {GetRunningOutputService env} w3 w4"
    by (rule quiet_sends [OF quiet_SyncRun [OF r]])
  obtain es4 where es4: "trace w4 = trace w3 @ es4" "running_data env es4 = []"
    using sends_final_running [OF quiet_sends [OF quiet_SyncRun [OF r], of "{}"], of env] by auto
  define t2 where "t2 = t1\<lparr>t_processer := p, t_data_sended := 0\<rparr>"
  have s14: "sends {GetRunningOutputService env} w w4"
    using sends_same_trace [OF tr1] es1(3) sends_same_trace [OF tr3] q4 by (blast intro: sends_trans)
  have tr4: "trace w4 = trace w @ (es1 @ es4)" using tr1 es1(1) tr3 es4(1) by simp
  have inv: "run_inv env (t_info t) (trace w) [] \<lparr>rs_task = t2, rs_buffer = [], rs_last = lst\<rparr> w4"
    by (rule run_inv_start [OF tr4 s14 refl]) (use assms es1(2) es4(2) in \<open>simp_all add: t2_def t1_def\<close>)
  obtain s w5 where ev: "run_events_steps env ops no_next events (\<lparr>rs_task = t2, rs_buffer = [], rs_last = lst\<rparr>, w4)
      = Returns (s, w5)"
    "run_inv env (t_info t) (trace w) ([] @ written events) s w5"
    by (rule run_events_inv [OF inv]) (use safe in \<open>simp add: t2_def\<close>)
  obtain now w6 where c6: "read_clock env w5 = (now, w6)" by fastforce
  then have tr6: "trace w6 = trace w5" using trace_read_clock [of env w5] by simp
  have inv6: "run_inv env (t_info t) (trace w) (written events) s w6"
    using unfinished_run_inv [OF ev(2) tr6] by simp
  define t3 where "t3 = (rs_task s)\<lparr>t_exit_code := code, t_output := t_output (rs_task s) @ rs_buffer s,
    t_endTime := Some now, t_monoEnd := ToAccurateTime (ToStableElapsedTime now start)\<rparr>"
  define fin where "fin (tx :: 'p task) w7 = snd (snd (opSideEffect ops (fst (snd (opCleanup ops del (t_processer tx) w7)))
    (snd (snd (opCleanup ops del (t_processer tx) w7)))))" for tx w7
  have fin: "sends {} w7 (fin tx w7)" for tx :: "'p task" and w7
    unfolding fin_def by (rule sends_trans [OF quiet_sends [OF quiet_Cleanup] quiet_sends [OF quiet_SideEffect]])
  have "\<exists>t4 w7. final_report env ops no_next status err t3 w6 = Returns (t4, w7)
      \<and> (\<forall>p. output_reported env t events status (t4\<lparr>t_output := [], t_processer := p\<rparr>) w (fin t4 w7))"
    by (rule final_report_output [OF inv6 t3_def, of fin, OF fin])
  then obtain t4 w7 where f: "final_report env ops no_next status err t3 w6 = Returns (t4, w7)"
    "\<And>p. output_reported env t events status (t4\<lparr>t_output := [], t_processer := p\<rparr>) w (fin t4 w7)" by blast
  obtain e1 p1 w8 where k: "opCleanup ops del (t_processer t4) w7 = (e1, p1, w8)" by (metis surj_pair)
  obtain e2 p2 w9 where l: "opSideEffect ops p1 w8 = (e2, p2, w9)" by (metis surj_pair)
  have w9: "fin t4 w7 = w9" using k l by (simp add: fin_def)
  have "run_process env ops no_next del t w = Returns (t4\<lparr>t_output := [], t_processer := p2\<rparr>, w9)"
    using c1 c3 r ev(1) c6 f(1) k l
    by (simp add: run_process_def Let_def t1_def [symmetric] w2_def [symmetric] tryReadAll_all t2_def t3_def)
  moreover have "output_reported env t events status (t4\<lparr>t_output := [], t_processer := p2\<rparr>) w w9"
    using f(2) w9 by simp
  ultimately show ?thesis by blast
  qed
  ultimately show ?thesis by (intro exI [of _ w3]) (auto split: outcome.split)
qed

end

end
