(* ===== verification/Host_Processor.thy ===== *)
theory Host_Processor
  imports Process_Cmd Task_Output
begin

text \<open>
  The processor of commands that run on the machine itself: \<open>agent/taskengine/host\<close> with its
  Linux parts and \<open>agent/taskengine/scriptmanager/routine.go\<close>. It provides the interface
  \<open>processor_ops\<close> of the task run and satisfies the laws of \<open>task_processor\<close>, so that the
  theorems on the output of a run hold for it. The metrics events are not modelled.
\<close>

section \<open>State\<close>

record host_processor =
  hp_TaskId :: string
  hp_CommandType :: string
  hp_CommandContent :: string
  hp_InvokeVersion :: int
  hp_Repeat :: RunTaskRepeatType
  hp_Timeout :: int
  hp_CommandName :: string
  hp_WorkingDirectory :: string
  hp_Username :: string
  hp_WindowsUserPassword :: string
  hp_envHomeDir :: string
  hp_realWorkingDir :: string
  hp_scriptFilePath :: string
  hp_invokeCommand :: string
  hp_invokeCommandArgs :: "string list"
  hp_processCmd :: process_cmd
  hp_exitCode :: int
  hp_resultStatus :: proc_status

definition new_host_processor :: "RunTaskInfo \<Rightarrow> int \<Rightarrow> host_processor" where
  "new_host_processor info timeout =
     \<lparr>hp_TaskId = ri_TaskId info, hp_CommandType = ri_CommandType info, hp_CommandContent = [],
      hp_InvokeVersion = ri_InvokeVersion info, hp_Repeat = ri_Repeat info, hp_Timeout = timeout,
      hp_CommandName = ri_CommandName info, hp_WorkingDirectory = ri_WorkingDir info,
      hp_Username = ri_Username info, hp_WindowsUserPassword = ri_Password info, hp_envHomeDir = [],
      hp_realWorkingDir = [], hp_scriptFilePath = [], hp_invokeCommand = [], hp_invokeCommandArgs = [],
      hp_processCmd = NewProcessCmd, hp_exitCode = 0, hp_resultStatus = Success\<rparr>"

section \<open>Checks\<close>

definition checkCredentials :: "machine \<Rightarrow> host_processor \<Rightarrow> world \<Rightarrow> (go_error option \<times> world) outcome" where
  "checkCredentials mc p w =
     map_ret (\<lambda>(r, w1). (case r of
         Inl err \<Rightarrow> Some (NewInvalidUsernameOrPasswordError err (''UserInvalid_'' @ hp_Username p))
       | Inr _ \<Rightarrow> None, w1))
       (GetUserCredentials mc (hp_Username p) w)"

text \<open>The home directory (empty when unknown) and an error that is only logged.\<close>

definition checkHomeDirectory :: "machine \<Rightarrow> host_processor \<Rightarrow> world \<Rightarrow> (string \<times> go_error option) \<times> world" where
  "checkHomeDirectory mc p w =
     (if hp_Username p \<noteq> [] then
        (let (r, w1) = ask (\<lambda>n. mc_user mc n (hp_Username p)) w in
         (case r of Inl err \<Rightarrow> ([], Some (NewHomeDirectoryNotAvailableError err))
          | Inr (uid, homeDir) \<Rightarrow> (homeDir, None), w1))
      else
        (let (r, w1) = ask (mc_home_env mc) w in
         case r of
           Inr userHomeDir \<Rightarrow> ((userHomeDir, None), w1)
         | Inl _ \<Rightarrow>
             (let (c, w2) = ask (mc_current_home mc) w1 in
              (case c of Inr homeDir \<Rightarrow> (homeDir, None) | Inl _ \<Rightarrow> ([], None), w2))))"

definition no_home_message :: string where
  "no_home_message = ''Failed to use home directory of specified user as working directory for invocation''"

definition checkWorkingDirectory :: "machine \<Rightarrow> host_processor \<Rightarrow> world \<Rightarrow> (string \<times> go_error option) \<times> world" where
  "checkWorkingDirectory mc p w =
     (if hp_WorkingDirectory p \<noteq> [] then
        (let (d, w1) = IsDirectory mc (hp_WorkingDirectory p) w in
         ((hp_WorkingDirectory p,
           if d then None else Some (NewWorkingDirectoryNotExistError (hp_WorkingDirectory p))), w1))
      else if hp_Username p \<noteq> [] then
        (if hp_envHomeDir p = [] then (([], Some (NewDefaultWorkingDirectoryNotAvailableError no_home_message)), w)
         else
           (let (d, w1) = IsDirectory mc (hp_envHomeDir p) w in
            (if d then (hp_envHomeDir p, None)
             else ([], Some (NewDefaultWorkingDirectoryNotAvailableError
               (no_home_message @ '': '' @ hp_envHomeDir p @ '' does not exist''))), w1)))
      else if hp_envHomeDir p \<noteq> [] then
        (let (d, w1) = IsDirectory mc (hp_envHomeDir p) w in ((if d then hp_envHomeDir p else [], None), w1))
      else (([], None), w))"

definition check_directories ::
  "machine \<Rightarrow> host_processor \<Rightarrow> world \<Rightarrow> (string \<times> go_error option) \<times> host_processor \<times> world" where
  "check_directories mc p w =
     (let ((home, _), w1) = checkHomeDirectory mc p w; p1 = p\<lparr>hp_envHomeDir := home\<rparr>;
          ((dir, err), w2) = checkWorkingDirectory mc p1 w1; p2 = p1\<lparr>hp_realWorkingDir := dir\<rparr> in
      (case err of Some e \<Rightarrow> (''workingDirectory'', Some e) | None \<Rightarrow> ([], None), p2, w2))"

definition host_PreCheck ::
  "machine \<Rightarrow> host_processor \<Rightarrow> world \<Rightarrow> ((string \<times> go_error option) \<times> host_processor \<times> world) outcome" where
  "host_PreCheck mc p w =
     (if hp_Username p = [] then Returns (check_directories mc p w)
      else
        map_ret (\<lambda>(err, w1).
          case err of
            Some e \<Rightarrow>
              ((case validation_param e of Some (param, value) \<Rightarrow> param | None \<Rightarrow> ''UsernameOrPasswordInvalid'',
                Some e), p, w1)
          | None \<Rightarrow> check_directories mc p w1)
          (checkCredentials mc p w))"

section \<open>Preparation\<close>

definition ErrScriptFileExists :: go_error where
  "ErrScriptFileExists = PlainError ''script file existed''"

definition SaveScriptFile :: "machine \<Rightarrow> string \<Rightarrow> string \<Rightarrow> world \<Rightarrow> go_error option \<times> world" where
  "SaveScriptFile mc savePath content w =
     (let (found, w1) = CheckFileIsExist mc savePath w in
      if found then (Some ErrScriptFileExists, w1) else WriteStringToFile mc savePath content w1)"

definition IsNoEnoughSpaceError :: "go_error \<Rightarrow> bool" where
  "IsNoEnoughSpaceError err \<longleftrightarrow> as_errno err = Some 28"

text \<open>Whether the script file is used, or why not.\<close>

datatype script_use = UseScriptFile | NoScriptFile go_error

definition script_extension :: "string \<Rightarrow> string" where
  "script_extension ty =
     (if ty = ''RunBatScript'' then ''.bat'' else if ty = ''RunPowerShellScript'' then ''.ps1'' else ''.sh'')"

definition script_dir :: "machine \<Rightarrow> host_processor \<Rightarrow> world \<Rightarrow> (string \<times> script_use) \<times> world" where
  "script_dir mc p w =
     (if hp_CommandType p = ''RunShellScript'' \<and> hp_Username p \<noteq> [] then ((''/tmp'', UseScriptFile), w)
      else
        (let ((dir, err), w1) = GetScriptPath mc w in
         ((dir, case err of
             None \<Rightarrow> UseScriptFile
           | Some e \<Rightarrow> NoScriptFile (if IsNoEnoughSpaceError e then NewNoEnoughSpaceError e else NewGetScriptPathError e)),
          w1)))"

definition script_name :: "host_processor \<Rightarrow> string" where
  "script_name p =
     (if hp_CommandName p \<noteq> [] then hp_CommandName p @ ''-'' else []) @ hp_TaskId p
       @ (if 0 < hp_InvokeVersion p then ''.iv'' @ itoa (hp_InvokeVersion p) else [])
       @ script_extension (hp_CommandType p)"

text \<open>
  Saving the script: an existing file is an error for tasks that run once and kept for the others;
  a failed write falls back to no file and removes what was written.
\<close>

definition save_script ::
  "machine \<Rightarrow> string \<Rightarrow> host_processor \<Rightarrow> world \<Rightarrow> (go_error + script_use) \<times> host_processor \<times> world" where
  "save_script mc dir p w =
     (let path = path_join [dir, script_name p]; p1 = p\<lparr>hp_scriptFilePath := path\<rparr>;
          (err, w1) = SaveScriptFile mc path (hp_CommandContent p) w in
      case err of
        None \<Rightarrow> (Inr UseScriptFile, p1, w1)
      | Some e \<Rightarrow>
          if e = ErrScriptFileExists then
            (if hp_Repeat p = RunTaskOnce \<or> hp_Repeat p = RunTaskNextRebootOnly
             then (Inl (NewScriptFileExistedError path e), p1, w1) else (Inr UseScriptFile, p1, w1))
          else
            (let (_, w2) = RemoveFile mc path w1 in
             (Inr (NoScriptFile (if IsNoEnoughSpaceError e then NewNoEnoughSpaceError e else NewSaveScriptFileError e)),
              p1, w2)))"

definition script_mode :: "machine \<Rightarrow> host_processor \<Rightarrow> world \<Rightarrow> script_use \<times> world" where
  "script_mode mc p w =
     (if hp_CommandType p = ''RunShellScript'' \<or> hp_Username p \<noteq> [] then
        (let (err, w1) = ChangeMode mc (hp_scriptFilePath p) 493 w in
         (case err of
            None \<Rightarrow> UseScriptFile
          | Some e \<Rightarrow> NoScriptFile (if hp_CommandType p = ''RunShellScript'' then NewSetExecutablePermissionError e
                                    else NewSetWindowsPermissionError e), w1))
      else (UseScriptFile, w))"

text \<open>The command line for the script file or the command text itself.\<close>

definition invoke_args :: "string \<Rightarrow> string \<Rightarrow> script_use \<Rightarrow> host_processor \<Rightarrow> string list" where
  "invoke_args fileOpt textOpt use p =
     (case use of UseScriptFile \<Rightarrow> [fileOpt, hp_scriptFilePath p] | NoScriptFile _ \<Rightarrow> [textOpt, hp_CommandContent p])"

definition prepare_invoke ::
  "machine \<Rightarrow> script_use \<Rightarrow> host_processor \<Rightarrow> world \<Rightarrow> go_error option \<times> host_processor \<times> world" where
  "prepare_invoke mc use p w =
     (if hp_CommandType p = ''RunShellScript'' then
        (let p1 = p\<lparr>hp_invokeCommand := ''sh'', hp_invokeCommandArgs := invoke_args ''-c'' ''-c'' use p\<rparr>;
             (err, w1) = ask (\<lambda>n. mc_look_path mc n ''sh'') w in
         (map_option NewSystemDefaultShellNotFoundError err, p1, w1))
      else if hp_CommandType p = ''RunPowerShellScript'' then
        (let p1 = p\<lparr>hp_invokeCommand := ''powershell'', hp_invokeCommandArgs := invoke_args ''-file'' ''-command'' use p\<rparr>;
             (err, w1) = ask (\<lambda>n. mc_look_path mc n ''powershell'') w in
         case err of
           Some e \<Rightarrow> (Some (NewPowershellNotFoundError e), p1, w1)
         | None \<Rightarrow>
             (let (_, pc, w2) = SyncRunSimple mc ''powershell.exe'' [''Set-ExecutionPolicy'', ''RemoteSigned'']
                    (hp_processCmd p1) w1 in
              (None, p1\<lparr>hp_processCmd := pc\<rparr>, w2)))
      else
        (let p1 = p\<lparr>hp_invokeCommand := hp_scriptFilePath p, hp_invokeCommandArgs := []\<rparr> in
         (case use of UseScriptFile \<Rightarrow> None | NoScriptFile why \<Rightarrow> Some why, p1, w)))"

definition host_Prepare ::
  "machine \<Rightarrow> string \<Rightarrow> host_processor \<Rightarrow> world \<Rightarrow> go_error option \<times> host_processor \<times> world" where
  "host_Prepare mc commandContent p w =
     (let p0 = p\<lparr>hp_CommandContent := commandContent\<rparr> in
      if \<not> valid_command_type (hp_CommandType p) then (Some NewUnknownCommandTypeError, p0, w)
      else
        (let ((dir, use), w1) = script_dir mc p0 w in
         case use of
           NoScriptFile why \<Rightarrow> prepare_invoke mc use p0 w1
         | UseScriptFile \<Rightarrow>
             (let (r, p1, w2) = save_script mc dir p0 w1 in
              case r of
                Inl e \<Rightarrow> (Some e, p1, w2)
              | Inr (NoScriptFile why) \<Rightarrow> prepare_invoke mc (NoScriptFile why) p1 w2
              | Inr UseScriptFile \<Rightarrow>
                  (let (use', w3) = script_mode mc p1 w2 in prepare_invoke mc use' p1 w3))))"

section \<open>Running and afterwards\<close>

definition host_command :: "host_processor \<Rightarrow> process_cmd" where
  "host_command p =
     (let pc = hp_processCmd p;
          pc1 = (if hp_Username p \<noteq> [] then SetUserInfo (hp_Username p) pc else pc);
          pc2 = (if hp_WindowsUserPassword p \<noteq> [] then SetPasswordInfo (hp_WindowsUserPassword p) pc1 else pc1) in
      if hp_envHomeDir p \<noteq> [] then SetHomeDir (hp_envHomeDir p) pc2 else pc2)"

definition host_SyncRun ::
  "machine \<Rightarrow> host_processor \<Rightarrow> world \<Rightarrow>
   ((run_event list \<times> int \<times> proc_status \<times> go_error option) \<times> host_processor \<times> world) outcome" where
  "host_SyncRun mc p w =
     map_ret (\<lambda>((events, exitCode, status, err), pc, w1).
        ((events, exitCode, status,
          if status = Fail then map_option NewExecuteScriptError err else err),
         p\<lparr>hp_processCmd := pc, hp_exitCode := exitCode, hp_resultStatus := status\<rparr>, w1))
       (SyncRun mc (hp_realWorkingDir p) (hp_invokeCommand p) (hp_invokeCommandArgs p) (hp_Timeout p)
          (host_command p) w)"

definition host_Cancel :: "host_processor \<Rightarrow> world \<Rightarrow> (host_processor \<times> world) outcome" where
  "host_Cancel p w = map_ret (\<lambda>(pc, w1). (p\<lparr>hp_processCmd := pc\<rparr>, w1)) (CancelProcess (hp_processCmd p) w)"

definition host_Cleanup :: "machine \<Rightarrow> bool \<Rightarrow> host_processor \<Rightarrow> world \<Rightarrow> go_error option \<times> host_processor \<times> world" where
  "host_Cleanup mc removeScriptFile p w =
     (if removeScriptFile then let (err, w1) = RemoveFile mc (hp_scriptFilePath p) w in (err, p, w1)
      else (None, p, w))"

definition exitcodePoweroff :: int where "exitcodePoweroff = 193"
definition exitcodeReboot :: int where "exitcodeReboot = 194"

definition host_SideEffect :: "host_processor \<Rightarrow> world \<Rightarrow> go_error option \<times> host_processor \<times> world" where
  "host_SideEffect p w =
     (None, p,
      if hp_resultStatus p = Success then
        (if hp_exitCode p = exitcodePoweroff then Shutdown False w
         else if hp_exitCode p = exitcodeReboot then Shutdown True w else w)
      else w)"

definition host_ops :: "machine \<Rightarrow> host_processor processor_ops" where
  "host_ops mc = \<lparr>opPreCheck = host_PreCheck mc, opPrepare = host_Prepare mc, opSyncRun = host_SyncRun mc,
     opCancel = host_Cancel, opCleanup = host_Cleanup mc, opSideEffect = host_SideEffect,
     opExtraLubanParams = (\<lambda>p. [])\<rparr>"

section \<open>The laws of a processor\<close>

lemma quiet_checkHomeDirectory: "quiet w w0 \<Longrightarrow> quiet w (snd (checkHomeDirectory mc p w0))"
  unfolding checkHomeDirectory_def Let_def
  by (auto intro!: quiet_let quiet_pair quiet_calls split: sum.split)

lemma quiet_checkWorkingDirectory: "quiet w w0 \<Longrightarrow> quiet w (snd (checkWorkingDirectory mc p w0))"
  unfolding checkWorkingDirectory_def Let_def
  by (auto intro!: quiet_let quiet_pair quiet_calls)

lemma quiet_check_directories: "quiet w w0 \<Longrightarrow> quiet w (snd (snd (check_directories mc p w0)))"
  unfolding check_directories_def Let_def
  by (auto intro!: quiet_let quiet_pair quiet_checkHomeDirectory quiet_checkWorkingDirectory)

lemma quiet_read_id: "quiet w w0 \<Longrightarrow> quiet w (snd (read_id mc opts user w0))"
  unfolding read_id_def run_id_def Let_def by (auto intro!: quiet_let quiet_pair quiet_calls)

lemma quiet_GetUserCredentials:
  assumes "GetUserCredentials mc user w0 = Returns (r, w')" "quiet w w0" shows "quiet w w'"
proof -
  obtain u w1 where 1: "read_id mc ''-u '' user w0 = (u, w1)" "quiet w w1"
    using quiet_read_id [OF assms(2)] by (metis prod.collapse)
  obtain g w2 where 2: "read_id mc ''-g '' user w1 = (g, w2)" "quiet w w2"
    using quiet_read_id [OF 1(2)] by (metis prod.collapse)
  obtain x w3 where 3: "run_id mc [] user w2 = (x, w3)" "quiet w w3"
    using quiet_after [OF quiet_ask 2(2)] unfolding run_id_def by (metis prod.collapse)
  from assms(1) 1 2 3 show ?thesis
    by (auto simp: GetUserCredentials_def split: sum.splits) (metis obj_sumE)
qed

lemma quiet_host_PreCheck:
  assumes "host_PreCheck mc p w = Returns (r, p', w')" shows "quiet w w'"
proof (cases "hp_Username p = []")
  case True
  with assms quiet_check_directories [OF quiet_refl, of w mc p] show ?thesis by (simp add: host_PreCheck_def)
next
  case False
  then obtain cr w1 where c: "GetUserCredentials mc (hp_Username p) w = Returns (cr, w1)"
    using assms by (auto simp: host_PreCheck_def checkCredentials_def)
  have q: "quiet w w1" by (rule quiet_GetUserCredentials [OF c quiet_refl])
  show ?thesis
  proof (cases cr)
    case (Inl e)
    with assms False c q show ?thesis by (auto simp: host_PreCheck_def checkCredentials_def)
  next
    case (Inr x)
    with assms False c quiet_check_directories [OF q, of mc p] show ?thesis
      by (simp add: host_PreCheck_def checkCredentials_def)
  qed
qed

lemma quiet_start_process: "quiet w w0 \<Longrightarrow> quiet w (snd (start_process mc d n a v c w0))"
  unfolding start_process_def by (rule quiet_after [OF quiet_attempt]) simp_all

lemma quiet_prepareProcess: "quiet w w0 \<Longrightarrow> quiet w (snd (prepareProcess mc pc w0))"
  unfolding prepareProcess_def Let_def by (auto intro!: quiet_let quiet_pair quiet_calls)

lemma quiet_SyncRunSimple: "quiet w w0 \<Longrightarrow> quiet w (snd (snd (SyncRunSimple mc name args pc w0)))"
  unfolding SyncRunSimple_def Let_def
  by (auto intro!: quiet_let quiet_pair quiet_calls quiet_start_process quiet_prepareProcess quiet_after [OF quiet_perform])

lemma quiet_script_dir: "quiet w w0 \<Longrightarrow> quiet w (snd (script_dir mc p w0))"
  unfolding script_dir_def Let_def by (auto intro!: quiet_let quiet_pair quiet_calls)

lemma quiet_save_script: "quiet w w0 \<Longrightarrow> quiet w (snd (snd (save_script mc dir p w0)))"
proof -
  assume q: "quiet w w0"
  obtain err w1 where s: "SaveScriptFile mc (path_join [dir, script_name p]) (hp_CommandContent p) w0 = (err, w1)"
    by fastforce
  have "quiet w (snd (SaveScriptFile mc (path_join [dir, script_name p]) (hp_CommandContent p) w0))"
    unfolding SaveScriptFile_def Let_def using q by (auto intro!: quiet_let quiet_pair quiet_calls)
  with s have q1: "quiet w w1" by simp
  show ?thesis
    using s q1 by (auto simp: save_script_def Let_def split_beta intro: quiet_calls split: option.split)
qed

lemma quiet_script_mode: "quiet w w0 \<Longrightarrow> quiet w (snd (script_mode mc p w0))"
  unfolding script_mode_def Let_def by (auto intro!: quiet_let quiet_pair quiet_calls)

lemma quiet_prepare_invoke: "quiet w w0 \<Longrightarrow> quiet w (snd (snd (prepare_invoke mc use p w0)))"
  unfolding prepare_invoke_def Let_def
  by (auto intro!: quiet_let quiet_pair quiet_calls quiet_SyncRunSimple split: option.split)

lemma quiet_host_Prepare: "quiet w (snd (snd (host_Prepare mc content p w)))"
  unfolding host_Prepare_def Let_def
  by (auto intro!: quiet_let quiet_pair quiet_script_dir quiet_save_script quiet_script_mode quiet_prepare_invoke
      split: script_use.split sum.split)

lemma quiet_await: "quiet w w0 \<Longrightarrow> quiet w (snd (await_process mc timeOut w0))"
proof -
  assume q: "quiet w w0"
  obtain expired w1 where e: "(if 0 < timeOut then ask (mc_timer_first mc) w0 else (False, w0)) = (expired, w1)"
    by fastforce
  then have q1: "quiet w w1" using q quiet_after [OF quiet_ask q, of "mc_timer_first mc"] by (auto split: if_splits)
  have q2: "quiet w (snd (ask (mc_finish mc) w1))" by (rule quiet_after [OF quiet_ask q1])
  from e q1 q2 show ?thesis
    by (auto simp: await_process_def Let_def split_beta intro: quiet_after [OF quiet_perform] split: option.split)
qed

lemma quiet_run_credential:
  "run_credential mc pc w0 = Returns (r, w') \<Longrightarrow> quiet w w0 \<Longrightarrow> quiet w w'"
  by (auto simp: run_credential_def split: if_splits intro: quiet_GetUserCredentials)

lemma SyncRun_cases:
  assumes "SyncRun mc dir name args timeOut pc w = Returns ((events, exitCode, status, err), pc', w')"
  shows "quiet w w'"
    and "pc_command pc' = Running \<or> pc_command pc' = Unstarted \<and> status = Fail \<and> events = []"
proof -
  obtain env w1 where 1: "prepareProcess mc pc w = (env, w1)" "quiet w w1"
    using quiet_prepareProcess [OF quiet_refl, of w mc pc] by (metis prod.collapse)
  obtain r w2 where 2: "run_credential mc pc w1 = Returns (r, w2)"
    using assms 1 by (auto simp: SyncRun_def)
  have q2: "quiet w w2" by (rule quiet_run_credential [OF 2 1(2)])
  have "quiet w w' \<and> (pc_command pc' = Running \<or> pc_command pc' = Unstarted \<and> status = Fail \<and> events = [])"
  proof (cases r)
    case (Inl e)
    with assms 1 2 q2 show ?thesis by (auto simp: SyncRun_def)
  next
    case (Inr cred)
    obtain se w3 where 3: "start_process mc dir name args env cred w2 = (se, w3)" "quiet w w3"
      using quiet_start_process [OF q2] by (metis prod.collapse)
    obtain evs w4 where 4: "ask (mc_events mc) w3 = (evs, w4)" "quiet w w4"
      using quiet_after [OF quiet_ask 3(2)] by (metis prod.collapse)
    obtain ar w5 where 5: "await_process mc timeOut w4 = (ar, w5)" "quiet w w5"
      using quiet_await [OF 4(2)] by (metis prod.collapse)
    from assms 1 2 3 4 5 Inr show ?thesis
      by (auto simp: SyncRun_def split: if_splits)
  qed
  then show "quiet w w'" "pc_command pc' = Running \<or> pc_command pc' = Unstarted \<and> status = Fail \<and> events = []"
    by blast+
qed

text \<open>The process handle is safe to cancel unless the command was not started.\<close>

definition host_cancel_safe :: "host_processor \<Rightarrow> bool" where
  "host_cancel_safe p \<longleftrightarrow> pc_command (hp_processCmd p) \<noteq> Unstarted"

lemma host_ops_simps [simp]:
  "opPreCheck (host_ops mc) = host_PreCheck mc" "opPrepare (host_ops mc) = host_Prepare mc"
  "opSyncRun (host_ops mc) = host_SyncRun mc" "opCancel (host_ops mc) = host_Cancel"
  "opCleanup (host_ops mc) = host_Cleanup mc" "opSideEffect (host_ops mc) = host_SideEffect"
  by (simp_all add: host_ops_def)

lemma host_SyncRun_cases:
  assumes "host_SyncRun mc p w = Returns ((events, exitCode, status, err), p', w')"
  shows "quiet w w'" "host_cancel_safe p' \<or> list_all (\<lambda>e. \<not> is_cancel e) events"
proof -
  obtain err' pc' where r: "SyncRun mc (hp_realWorkingDir p) (hp_invokeCommand p) (hp_invokeCommandArgs p)
      (hp_Timeout p) (host_command p) w = Returns ((events, exitCode, status, err'), pc', w')"
    "hp_processCmd p' = pc'"
    using assms by (auto simp: host_SyncRun_def)
  show "quiet w w'" by (rule SyncRun_cases(1) [OF r(1)])
  show "host_cancel_safe p' \<or> list_all (\<lambda>e. \<not> is_cancel e) events"
    using SyncRun_cases(2) [OF r(1)] r(2) by (auto simp: host_cancel_safe_def)
qed

interpretation host: task_processor "host_ops mc" host_cancel_safe for mc
proof (unfold_locales, goal_cases)
  case (1 p w c p' w')
  then show ?case using quiet_host_PreCheck by (cases c) simp
next
  case (2 w content p)
  show ?case using quiet_host_Prepare by simp
next
  case (3 p w r p' w')
  obtain events exitCode status err where r: "r = (events, exitCode, status, err)" by (metis surj_pair)
  show ?case using 3 host_SyncRun_cases(1) unfolding r by simp
next
  case (4 p w p' w')
  then show ?case by (auto simp: host_Cancel_def CancelProcess_def split: command_handle.splits)
next
  case (5 p w)
  then show ?case by (auto simp: host_Cancel_def CancelProcess_def host_cancel_safe_def split: command_handle.splits)
next
  case (6 w b p)
  show ?case by (simp add: host_Cleanup_def split_beta)
next
  case (7 w p)
  show ?case by (simp add: host_SideEffect_def Shutdown_def)
qed

section \<open>Properties\<close>


definition example_info :: RunTaskInfo where
  "example_info = \<lparr>ri_InstanceId = ''i-1'', ri_CommandType = ''RunShellScript'', ri_TaskId = ''t-1'',
     ri_CommandId = ''c-1'', ri_EnableParameter = False, ri_TimeOut = ''60'', ri_CommandName = [],
     ri_InvokeVersion = 1, ri_Content = ''bHM='', ri_WorkingDir = [], ri_Args = [], ri_Cronat = [],
     ri_Username = [], ri_Password = [], ri_CreationTime = 0, ri_ContainerId = [], ri_ContainerName = [],
     ri_BuiltinParameters = None,
     ri_Output = \<lparr>out_Interval = 3000, out_LogQuota = 0, out_SkipEmpty = False, out_SendStart = False\<rparr>,
     ri_Repeat = RunTaskOnce\<rparr>"

definition example_task :: "host_processor task" where
  "example_task = NewTask new_host_processor new_host_processor example_info None False"

definition example_machine :: machine where
  "example_machine = (quiet_machine Inr)\<lparr>mc_events := (\<lambda>n. [Wrote ''hi''])\<rparr>"

lemma example_SyncRun:
  assumes "pc_user (host_command p) = []"
  shows "\<exists>p' w1. host_SyncRun example_machine p w = Returns (([Wrote ''hi''], 0, Success, None), p', w1)"
  using assms by (simp add: host_SyncRun_def example_machine_def quiet_machine_def SyncRun_def prepareProcess_def ask_def
      run_credential_def start_process_def attempt_def await_process_def Let_def)

lemma example_user: "pc_user (host_command (t_processer example_task)) = []"
  by (simp add: host_command_def example_task_def NewTask_def new_host_processor_def example_info_def Let_def
      NewProcessCmd_def SetHomeDir_def SetPasswordInfo_def split_beta)


text \<open>The count of dropped bytes is never reset: a run whose output fits reports the count that
  an earlier run of the same (periodic) task left behind.\<close>

theorem dropped_count_is_stale:
  "case run_process silent_env (host_ops example_machine) False False (example_task\<lparr>t_droped := 5\<rparr>)
      \<lparr>ticks = 0, trace = []\<rparr> of
     Panics p \<Rightarrow> False
   | Returns (t', w') \<Rightarrow> t_droped t' = 5
       \<and> list_ex (\<lambda>e. case e of HttpSent m u b \<Rightarrow> b = ''hi'' \<and> contains ''&dropped=5'' u | _ \<Rightarrow> False) (trace w')"
  by code_simp

section \<open>What is executed\<close>

lemma save_script_written:
  assumes "save_script mc dir p w = (Inr UseScriptFile, p1, w1)"
    "hp_Repeat p = RunTaskOnce \<or> hp_Repeat p = RunTaskNextRebootOnly"
  shows "hp_scriptFilePath p1 = path_join [dir, script_name p] \<and> hp_CommandType p1 = hp_CommandType p
    \<and> hp_CommandContent p1 = hp_CommandContent p
    \<and> trace w1 = trace w @ [FileWritten (path_join [dir, script_name p]) (hp_CommandContent p)]"
  using assms
  by (auto simp: save_script_def SaveScriptFile_def CheckFileIsExist_def WriteStringToFile_def ask_def attempt_def
      RemoveFile_def Let_def split: option.splits if_splits)

lemma save_script_fields:
  "save_script mc dir p w = (r, p1, w1) \<Longrightarrow> hp_CommandType p1 = hp_CommandType p
    \<and> hp_CommandContent p1 = hp_CommandContent p"
  by (auto simp: save_script_def Let_def split: option.splits if_splits prod.splits)

lemma prepare_invoke_shell:
  assumes "prepare_invoke mc use p w = (None, p', w')" "hp_CommandType p = ''RunShellScript''"
  shows "hp_invokeCommand p' = ''sh'' \<and> hp_invokeCommandArgs p' = invoke_args ''-c'' ''-c'' use p \<and> trace w' = trace w"
  using assms by (auto simp: prepare_invoke_def ask_def Let_def)

lemma script_mode_shell:
  assumes "script_mode mc p w = (UseScriptFile, w')" "hp_CommandType p = ''RunShellScript''"
  shows "trace w' = trace w @ [FileChmod (hp_scriptFilePath p) 493]"
  using assms by (auto simp: script_mode_def ChangeMode_def attempt_def split: option.splits)

text \<open>C9. A prepared shell command that runs once executes its own text: either the text itself is
  the argument of \<open>sh -c\<close>, or the argument is a script file that this preparation wrote with
  exactly this text and made executable, as its last two effects.\<close>

theorem host_Prepare_runs_own_script:
  assumes "host_Prepare mc content p w = (None, p', w')" "hp_CommandType p = ''RunShellScript''"
    and "hp_Repeat p = RunTaskOnce \<or> hp_Repeat p = RunTaskNextRebootOnly"
  shows "hp_invokeCommand p' = ''sh'' \<and>
    (hp_invokeCommandArgs p' = [''-c'', content] \<or>
     (\<exists>path es. hp_invokeCommandArgs p' = [''-c'', path]
        \<and> trace w' = trace w @ es @ [FileWritten path content, FileChmod path 493]))"
proof -
  define p0 where "p0 = p\<lparr>hp_CommandContent := content\<rparr>"
  have ty: "hp_CommandType p0 = ''RunShellScript''" "hp_CommandContent p0 = content"
    "hp_Repeat p0 = RunTaskOnce \<or> hp_Repeat p0 = RunTaskNextRebootOnly"
    using assms(2,3) by (simp_all add: p0_def)
  have vt: "valid_command_type (hp_CommandType p)" using assms(2) by (simp add: valid_command_type_def)
  obtain dir use w1 where d: "script_dir mc p0 w = ((dir, use), w1)" by (metis surj_pair)
  have "quiet w w1" using quiet_script_dir [OF quiet_refl, of w mc p0] d by simp
  then obtain es where es: "trace w1 = trace w @ es" by (auto simp: quiet_def)
  show ?thesis
  proof (cases use)
    case (NoScriptFile why)
    with assms(1) vt d have "prepare_invoke mc use p0 w1 = (None, p', w')"
      by (simp add: host_Prepare_def p0_def [symmetric])
    from prepare_invoke_shell [OF this ty(1)] show ?thesis by (simp add: NoScriptFile invoke_args_def ty(2))
  next
    case UseScriptFile
    obtain r p1 w2 where s: "save_script mc dir p0 w1 = (r, p1, w2)" by (metis surj_pair)
    note f = save_script_fields [OF s]
    have ty1: "hp_CommandType p1 = ''RunShellScript''" "hp_CommandContent p1 = content" using f ty by simp_all
    consider why where "r = Inr (NoScriptFile why)" | "r = Inr UseScriptFile"
      using assms(1) vt d s UseScriptFile
      by (cases r; (simp add: host_Prepare_def p0_def [symmetric])?) (metis script_use.exhaust)
    then show ?thesis
    proof cases
      case 1
      with assms(1) vt d s UseScriptFile have "prepare_invoke mc (NoScriptFile why) p1 w2 = (None, p', w')"
        by (simp add: host_Prepare_def p0_def [symmetric])
      from prepare_invoke_shell [OF this ty1(1)] show ?thesis by (simp add: invoke_args_def ty1(2))
    next
      case 2
      obtain use' w3 where m: "script_mode mc p1 w2 = (use', w3)" by fastforce
      with assms(1) vt d s UseScriptFile 2 have "prepare_invoke mc use' p1 w3 = (None, p', w')"
        by (simp add: host_Prepare_def p0_def [symmetric])
      note i = prepare_invoke_shell [OF this ty1(1)]
      show ?thesis
      proof (cases use')
        case (NoScriptFile why)
        with i show ?thesis by (simp add: invoke_args_def ty1(2))
      next
        case UseScriptFile
        note w = save_script_written [OF s [unfolded 2] ty(3)]
        note m = script_mode_shell [OF m [unfolded UseScriptFile] ty1(1)]
        have "trace w' = trace w @ es @ [FileWritten (hp_scriptFilePath p1) content, FileChmod (hp_scriptFilePath p1) 493]"
          using i w m es ty(2) by simp
        with i UseScriptFile show ?thesis
          by (intro conjI disjI2 exI [of _ "hp_scriptFilePath p1"] exI [of _ es]) (simp_all add: invoke_args_def)
      qed
    qed
  qed
qed

theorem host_Prepare_runs_own_script_witness:
  "\<exists>p' w'. host_Prepare (quiet_machine Inr) ''ls'' (t_processer example_task) \<lparr>ticks = 0, trace = []\<rparr> = (None, p', w')
    \<and> (hp_invokeCommandArgs p' = [''-c'', ''ls''] \<or>
     (\<exists>path es. hp_invokeCommandArgs p' = [''-c'', path]
        \<and> trace w' = es @ [FileWritten path ''ls'', FileChmod path 493]))"
proof -
  obtain e p' w' where r: "host_Prepare (quiet_machine Inr) ''ls'' (t_processer example_task) \<lparr>ticks = 0, trace = []\<rparr> = (e, p', w')"
    by (metis surj_pair)
  have "fst (host_Prepare (quiet_machine Inr) ''ls'' (t_processer example_task) \<lparr>ticks = 0, trace = []\<rparr>) = None"
    "hp_CommandType (t_processer example_task) = ''RunShellScript''" "hp_Repeat (t_processer example_task) = RunTaskOnce"
    by code_simp+
  with host_Prepare_runs_own_script [of "quiet_machine Inr" "''ls''" "t_processer example_task" "\<lparr>ticks = 0, trace = []\<rparr>" p' w'] r
  show ?thesis by auto
qed

section \<open>Cancellation and codes\<close>

text \<open>Cancelling is idempotent: once a cancel has returned, every further cancel request returns
  at once, without a report or a kill and without changing the task.\<close>

theorem Cancel_idempotent:
  assumes "Cancel env ops no_next quietly t w = Returns (t', w')"
  shows "IsCancled t' \<and> Cancel env ops no_next' quietly' t' w'' = Returns (t', w'')"
proof -
  have "t_canceled t'"
  proof (cases "t_canceled t")
    case True
    with assms show ?thesis by (simp add: Cancel_def)
  next
    case False
    then show ?thesis
      using assms by (auto simp: Cancel_def getReportString_def Let_def split: if_splits prod.splits)
  qed
  then show ?thesis by (simp add: IsCancled_def Cancel_def)
qed

theorem Cancel_idempotent_witness:
  "\<exists>t' w'. Cancel silent_env (host_ops (quiet_machine Inr)) False False example_task \<lparr>ticks = 0, trace = []\<rparr> = Returns (t', w')
    \<and> IsCancled t' \<and> Cancel silent_env (host_ops (quiet_machine Inr)) False True t' \<lparr>ticks = 9, trace = []\<rparr>
        = Returns (t', \<lparr>ticks = 9, trace = []\<rparr>)"
proof -
  have "\<not> panics (Cancel silent_env (host_ops (quiet_machine Inr)) False False example_task \<lparr>ticks = 0, trace = []\<rparr>)"
    by code_simp
  then obtain t' w' where c: "Cancel silent_env (host_ops (quiet_machine Inr)) False False example_task \<lparr>ticks = 0, trace = []\<rparr>
      = Returns (t', w')"
    by (auto simp: not_panics_iff)
  from Cancel_idempotent [OF c, of False True "\<lparr>ticks = 9, trace = []\<rparr>"] c show ?thesis by blast
qed

text \<open>Cancelling a task whose process could not be started dereferences the missing process.\<close>

theorem Cancel_unstarted_panics:
  "\<not> t_canceled t \<Longrightarrow> pc_command (hp_processCmd (t_processer t)) = Unstarted \<Longrightarrow>
    Cancel env (host_ops mc) no_next True t w = Panics NilDereference"
  by (simp add: Cancel_def host_Cancel_def CancelProcess_def Let_def split_beta)

theorem Cancel_unstarted_panics_witness:
  "\<forall>env. Cancel env (host_ops example_machine) False True
      (example_task\<lparr>t_processer := (t_processer example_task)\<lparr>hp_processCmd := NewProcessCmd\<lparr>pc_command := Unstarted\<rparr>\<rparr>\<rparr>)
      \<lparr>ticks = 0, trace = []\<rparr> = Panics NilDereference"
  by (intro allI Cancel_unstarted_panics) (simp_all add: example_task_def NewTask_def split_beta)

text \<open>A run that returns a code other than 0 returns an error as well, which the scheduler relies
  on when it reads the text of the error for its failure event.\<close>

theorem Run_code_has_error:
  assumes "Run env ops cfg no_next t w = Some (Returns ((code, err), t', w'))"
  shows "err = None \<longrightarrow> code = 0 \<and> t_output t' = []"
proof -
  have *: "t_output t3 = []" if "run_process env ops no_next sd t2 w2 = Returns (t3, w3)" for sd t2 w2 t3 w3
    using that by (auto simp: run_process_def Let_def split_beta)
  show ?thesis
    using assms * by (auto simp: Run_def split: option.splits outcome.splits run_stage.splits prod.splits)
qed

definition example_config :: agent_config where
  "example_config = \<lparr>cfg_store = (\<lambda>a b. ([], None)), cfg_metaserver = False, cfg_crlf_disabled = False\<rparr>"

lemma example_run_process:
  assumes "t_output t = []" "pc_user (host_command (t_processer t)) = []"
  shows "\<exists>t' w'. run_process env (host_ops example_machine) no_next sd t w = Returns (t', w')"
proof -
  obtain w0 where w0: "case opSyncRun (host_ops example_machine) (t_processer t) w0 of
      Panics q \<Rightarrow> run_process env (host_ops example_machine) no_next sd t w = Panics q
    | Returns ((events, exitCode, status, err), p, w1) \<Rightarrow>
        host_cancel_safe p \<or> list_all (\<lambda>e. \<not> is_cancel e) events \<longrightarrow>
        (\<exists>t' w'. run_process env (host_ops example_machine) no_next sd t w = Returns (t', w')
           \<and> output_reported env t events status t' w w')"
    using host.run_process_reports [OF assms(1)] by blast
  with example_SyncRun [OF assms(2), of w0] show ?thesis by auto
qed

theorem Run_code_has_error_witness:
  "\<exists>t' w'. Run silent_env (host_ops example_machine) example_config False example_task \<lparr>ticks = 0, trace = []\<rparr>
      = Some (Returns ((0, None), t', w')) \<and> t_output t' = []"
proof -
  let ?w = "\<lparr>ticks = 0, trace = []\<rparr>"
  let ?rc = "run_content silent_env (host_ops example_machine) example_config example_task ?w"
  let ?rp = "\<lambda>c t1 w1. run_prepare silent_env (host_ops example_machine)
    (normalize_content example_config (ri_CommandType (t_info t1)) c) t1 w1"
  have all: "case ?rc of Some (Returns (RunGoes (c, sd), t1, w1)) \<Rightarrow>
        (case ?rp c t1 w1 of (RunGoes _, t2, w2) \<Rightarrow> t_output t2 = [] \<and> pc_user (host_command (t_processer t2)) = []
         | _ \<Rightarrow> False)
    | _ \<Rightarrow> False"
    by code_simp
  then obtain c sd t1 w1 where r1: "?rc = Some (Returns (RunGoes (c, sd), t1, w1))"
    by (cases ?rc; simp split: outcome.splits run_stage.splits prod.splits)
      (metis outcome.exhaust run_stage.exhaust surj_pair)
  obtain g t2 w2 where r2: "?rp c t1 w1 = (g, t2, w2)" by (metis surj_pair)
  with all r1 have "g \<noteq> RunStops k e" for k e by auto
  then have g: "g = RunGoes ()" by (cases g) auto
  have r: "?rc = Some (Returns (RunGoes (c, sd), t1, w1))" "?rp c t1 w1 = (RunGoes (), t2, w2)"
    "t_output t2 = []" "pc_user (host_command (t_processer t2)) = []"
    using all r1 r2 g by simp_all
  obtain t' w' where "run_process silent_env (host_ops example_machine) False sd t2 w2 = Returns (t', w')"
    using example_run_process [OF r(3,4)] by blast
  with r(1,2) have "Run silent_env (host_ops example_machine) example_config False example_task ?w
      = Some (Returns ((0, None), t', w'))"
    by (simp add: Run_def)
  from Run_code_has_error [OF this] this show ?thesis by auto
qed

end
