(* ===== verification/Plugin_Health_Properties.thy ===== *)
theory Plugin_Health_Properties
  imports Plugin_Health Plugin_Store_Properties Host_Processor
begin

text \<open>
  What holds of the agent's side of the plugins: the callbacks of the timers end and keep the timers and
  the intervals in order, a pull keeps its distance to the scans, a lazy report is sent exactly when a
  state changed; and two errors, the time a plugin may take to start and the signal sent for a process
  that never started.
\<close>

section \<open>Steps that leave the timers alone\<close>

definition acts :: "nat \<Rightarrow> ('e, 'l) plugin_agent \<Rightarrow> ('e, 'l) plugin_agent \<Rightarrow> bool" where
  "acts k s s1 \<longleftrightarrow>
     (\<exists>es. trace (pa_world s1) = trace (pa_world s) @ es \<and> length (posts es) \<le> k)
     \<and> pa_tm s1 = pa_tm s \<and> pluginTimers s1 = pluginTimers s
     \<and> pluginHealthScanInterval s1 = pluginHealthScanInterval s \<and> pluginHealthPullInterval s1 = pluginHealthPullInterval s
     \<and> pluginUpdateCheckInterval s1 = pluginUpdateCheckInterval s \<and> pluginListReportInterval s1 = pluginListReportInterval s"

lemma acts_refl: "acts k s s"
  by (auto simp: acts_def intro: exI [of _ "[]"])

lemma acts_trans: "acts k s s1 \<Longrightarrow> acts l s1 s2 \<Longrightarrow> k + l \<le> n \<Longrightarrow> acts n s s2"
  unfolding acts_def by (fastforce intro: exI [of _ "_ @ _"])

lemma posts_quiet: "list_all (\<lambda>e. \<not> is_http e) es \<Longrightarrow> posts es = []"
  by (induction es) (auto simp: posts_def is_http_def split: effect.splits)

lemma acts_world:
  assumes "trace w = trace (pa_world s) @ es" "length (posts es) \<le> k"
  shows "acts k s (s\<lparr>pa_store := (pa_store s)\<lparr>ps_world := w\<rparr>\<rparr>)"
  using assms by (auto simp: acts_def)

lemma acts_quiet:
  assumes "quiet (pa_world s) (pa_world s1)" "pa_tm s1 = pa_tm s" "pluginTimers s1 = pluginTimers s"
    "pluginHealthScanInterval s1 = pluginHealthScanInterval s" "pluginHealthPullInterval s1 = pluginHealthPullInterval s"
    "pluginUpdateCheckInterval s1 = pluginUpdateCheckInterval s" "pluginListReportInterval s1 = pluginListReportInterval s"
  shows "acts k s s1"
  using assms posts_quiet by (fastforce simp: acts_def quiet_def)

lemma acts_fields [simp]:
  "acts k s (s1\<lparr>pa_starts := a\<rparr>) = acts k s s1" "acts k s (s1\<lparr>pa_signals := b\<rparr>) = acts k s s1"
  "acts k s (s1\<lparr>lastPluginHealthCheckTime := t\<rparr>) = acts k s s1" "acts k s (s1\<lparr>lastPluginStatusRecord := r\<rparr>) = acts k s s1"
  "acts k s (s1\<lparr>lazyReport := z\<rparr>) = acts k s s1" "acts k s (s1\<lparr>pa_metrics := m\<rparr>) = acts k s s1"
  by (simp_all add: acts_def)

lemma wpr_pa_on [wpr_rules]:
  "wpr (pa_on f) Q P s = Q (fst (f (pa_world s))) (s\<lparr>pa_store := (pa_store s)\<lparr>ps_world := snd (f (pa_world s))\<rparr>\<rparr>)"
  by (simp add: pa_on_def on_store_def ps_on_def wpr_zoom wpr_effect_of split_beta Let_def)

lemma quiet_clock [simp]: "quiet w (snd (read_clock env w))"
  by (simp add: read_clock_def)

lemma quiet_plugin_path [simp]: "quiet w (snd (GetPluginPath mc w))"
  using quiet_files(9) [of w mc] quiet_trans [OF quiet_files(9) quiet_files(6)]
  by (auto simp: GetPluginPath_def made_path_def split_beta Let_def split: sum.split)

lemma quiet_arch [simp]: "quiet w (snd (GetArch uname w))"
  by (simp add: GetArch_def split_beta Let_def)

lemma pa_on_quiet:
  assumes "quiet (pa_world s) (snd (f (pa_world s)))"
  shows "wpr (pa_on f) (\<lambda>_ s1. acts k s s1) (\<lambda>_ _. False) s"
  unfolding wpr_pa_on by (rule acts_quiet) (use assms in simp_all)

text \<open>Opening the database does not reach the network.\<close>

lemma wpr_ps_on [wpr_rules]: "wpr (ps_on f) Q P s = Q (fst (f (ps_world s))) (s\<lparr>ps_world := snd (f (ps_world s))\<rparr>)"
  by (simp add: ps_on_def wpr_effect_of split_beta Let_def)

lemma quiet_tick_iff [simp]: "quiet w (tick w') = quiet w w'"
  by (simp add: quiet_def)

lemma quiet_path_after: "quiet w w' \<Longrightarrow> quiet w (snd (GetPluginPath mc w'))"
  by (rule quiet_trans [OF _ quiet_plugin_path])

lemma load_quiet: "wpr (LoadInstalledPlugins se) (\<lambda>_ s1. quiet (ps_world s) (ps_world s1)) (\<lambda>_ _. False) s"
  by (auto simp: LoadInstalledPlugins_def getInstalledPluginsBoltPath_def getInstalledPluginsJSONPath_def plugin_file_def
      loadInstalledPluginsBolt_def migrate_def insertInstalledPluginInfoBytes_def transaction_def ask_def
      wpr_rules split_beta Let_def quiet_path_after split: option.split sum.split)

lemma all_plugins_quiet:
  "wpr (getAllInstalledPlugins se) (\<lambda>_ s1. quiet (ps_world s) (ps_world s1)) (\<lambda>_ _. False) s"
  unfolding getAllInstalledPlugins_def opened_def wpr_seq
  by (rule wpr_mono [OF load_quiet]) (auto simp: wpr_rules split: option.split)

lemma findAll_acts: "wpr (findAllInstalledPlugins pe) (\<lambda>_ s1. acts k s s1) (\<lambda>_ _. False) s"
  unfolding findAllInstalledPlugins_def on_store_def wpr_zoom
  by (rule wpr_mono [OF all_plugins_quiet]) (auto intro!: acts_quiet)

section \<open>Requests and processes\<close>

lemma HttpPost_acts: "wpr (pa_on (HttpPost env url body)) (\<lambda>_ s1. acts 1 s s1) (\<lambda>_ _. False) s"
proof -
  obtain es where "trace (snd (HttpPost env url body (pa_world s))) = trace (pa_world s) @ HttpSent ''POST'' url body # es" "posts es = []"
    using HttpPost_trace by blast
  then show ?thesis unfolding wpr_pa_on by (intro acts_world [where es = "HttpSent ''POST'' url body # es"]) simp_all
qed

lemma post_again_trace:
  "\<exists>es. trace (snd (post_again env pause url body n r w)) = trace w @ es \<and> length (posts es) \<le> n"
proof (induction n arbitrary: r w)
  case (Suc n)
  obtain r' w' es where 1: "HttpPost env url body (go_sleep pause w) = (r', w')"
      "trace w' = trace w @ Slept pause # HttpSent ''POST'' url body # es" "posts es = []"
    using HttpPost_trace [of env url body "go_sleep pause w"] by (metis append_Cons append_Nil append_assoc prod.collapse trace_simps(5))
  obtain fs where 2: "trace (snd (post_again env pause url body n r' w')) = trace w' @ fs" "length (posts fs) \<le> n"
    using Suc.IH by blast
  show ?case
  proof (cases "snd r")
    case (Some e)
    then show ?thesis using 1 2 by (intro exI [of _ "Slept pause # HttpSent ''POST'' url body # es @ fs"]) simp
  qed simp
qed simp

lemma post_tries_acts: "wpr (pa_on (post_tries env pause n url body)) (\<lambda>_ s1. acts (Suc n) s s1) (\<lambda>_ _. False) s"
proof -
  obtain r w es where 1: "HttpPost env url body (pa_world s) = (r, w)" "trace w = trace (pa_world s) @ HttpSent ''POST'' url body # es" "posts es = []"
    using HttpPost_trace by (metis prod.collapse)
  obtain fs where 2: "trace (snd (post_again env pause url body n r w)) = trace w @ fs" "length (posts fs) \<le> n"
    using post_again_trace by blast
  show ?thesis
    unfolding wpr_pa_on
  proof (rule acts_world)
    show "trace (snd (post_tries env pause n url body (pa_world s))) = trace (pa_world s) @ HttpSent ''POST'' url body # es @ fs"
      using 1 2(1) by (simp add: post_tries_def)
    show "length (posts (HttpSent ''POST'' url body # es @ fs)) \<le> Suc n" using 1(3) 2(2) by simp
  qed
qed

lemma SyncRun_returns: "\<exists>r pc w1. SyncRun mc dir name args t NewProcessCmd w = Returns (r, pc, w1)"
  by (simp add: SyncRun_def run_credential_def NewProcessCmd_def split_beta Let_def) (metis prod.collapse)

lemma run_process_acts:
  "wpr (run_process_cmd pe name args t) (\<lambda>x s1. acts k s s1) (\<lambda>_ _. False) s"
proof -
  obtain events exitCode status err pc w1 where r: "SyncRun (pe_mc pe) [] name args t NewProcessCmd (pa_world s) = Returns ((events, exitCode, status, err), pc, w1)"
    using SyncRun_returns by (metis prod.collapse)
  have "quiet (pa_world s) w1" by (rule SyncRun_cases(1) [OF r])
  with r show ?thesis
    by (auto simp: run_process_cmd_def wpr_outcome_of intro!: acts_quiet)
qed

lemma kill_acts: "acts k s0 s \<Longrightarrow> wpr (Pid pe pc) (\<lambda>_ s1. acts k s0 s1) (\<lambda>_ _. False) s"
  unfolding Pid_def
  by (cases "pc_command pc") (auto simp: wpr_rules ask_def acts_def)

lemma syncRunKillGroup_acts: "wpr (syncRunKillGroup pe name args t) (\<lambda>_ s1. acts k s s1) (\<lambda>_ _. False) s"
  unfolding syncRunKillGroup_def wpr_seq
proof (rule wpr_mono [OF run_process_acts [of pe name args t k]], goal_cases)
  case (1 x s1)
  obtain events exitCode status err pc where x: "x = ((events, exitCode, status, err), pc)" by (metis surj_pair)
  show ?case
    using 1 wpr_mono [OF kill_acts [OF 1, of pe pc], of "\<lambda>pid s2. acts k s (s2\<lparr>pa_signals := pa_signals s2 @ [- pid]\<rparr>)" "\<lambda>_ _. False"]
    by (auto simp: x wpr_rules wpr_modify [abs_def] wpr_ret [abs_def])
qed simp

section \<open>The timers\<close>

text \<open>Every callback has a timer of its own whose interval may be changed, and all intervals are positive.\<close>

definition plugin_ok :: "('e, 'l) plugin_agent \<Rightarrow> bool" where
  "plugin_ok s \<longleftrightarrow>
     inj (pluginTimers s) \<and> (\<forall>c. \<exists>t i d. timer_of c s = Some t \<and> Schedule t = MutableScheduled i d)
     \<and> 0 < pluginHealthScanInterval s \<and> 0 < pluginHealthPullInterval s \<and> 0 < pluginUpdateCheckInterval s \<and> 0 < pluginListReportInterval s"

definition timer_ready :: "plugin_callback \<Rightarrow> ('e, 'l) plugin_agent \<Rightarrow> bool" where
  "timer_ready c s \<longleftrightarrow> (case timer_of c s of None \<Rightarrow> False | Some t \<Rightarrow> \<not> refreshTimer t)"

text \<open>A callback keeps this, sends at most \<open>k\<close> reports, and refreshes no timer but its own.\<close>

definition keeps :: "plugin_callback \<Rightarrow> nat \<Rightarrow> ('e, 'l) plugin_agent \<Rightarrow> ('e, 'l) plugin_agent \<Rightarrow> bool" where
  "keeps c k s s1 \<longleftrightarrow> plugin_ok s1 \<and> (\<forall>c'. c' \<noteq> c \<longrightarrow> timer_ready c' s1 = timer_ready c' s)
     \<and> (\<exists>es. trace (pa_world s1) = trace (pa_world s) @ es \<and> length (posts es) \<le> k)"

lemma timer_of_cong: "pa_tm s1 = pa_tm s \<Longrightarrow> pluginTimers s1 = pluginTimers s \<Longrightarrow> timer_of c s1 = timer_of c s"
  by (simp add: timer_of_def)

lemma acts_ok: "acts k s s1 \<Longrightarrow> plugin_ok s \<Longrightarrow> plugin_ok s1"
  unfolding acts_def plugin_ok_def by (metis timer_of_cong)

lemma acts_ready: "acts k s s1 \<Longrightarrow> timer_ready c s1 = timer_ready c s"
  unfolding acts_def timer_ready_def by (metis timer_of_cong)

lemma acts_keeps: "acts k s s1 \<Longrightarrow> plugin_ok s \<Longrightarrow> k \<le> n \<Longrightarrow> keeps c n s s1"
  using acts_ok [of k s s1] acts_ready [of k s s1] unfolding keeps_def
  by (auto simp: acts_def intro: order_trans)

lemma keeps_fields [simp]:
  "keeps c k s (s1\<lparr>lazyReport := z\<rparr>) = keeps c k s s1" "keeps c k s (s1\<lparr>lastPluginStatusRecord := r\<rparr>) = keeps c k s s1"
  by (simp_all add: keeps_def plugin_ok_def timer_ready_def timer_of_def)

lemma keeps_intervals:
  "keeps c k s s1 \<Longrightarrow> keeps c k s (use_scan_interval r s1)" "keeps c k s s1 \<Longrightarrow> keeps c k s (use_pull_interval r s1)"
  "keeps c k s s1 \<Longrightarrow> keeps c k s (switch_lazy r s1)"
  "keeps c k s s1 \<Longrightarrow> keeps c k s (if 0 < n then s1\<lparr>pluginUpdateCheckInterval := n\<rparr> else s1)"
  by (auto simp: keeps_def plugin_ok_def timer_ready_def timer_of_def use_scan_interval_def use_pull_interval_def switch_lazy_def)

lemma interval_ready [simp]:
  "timer_ready c (use_scan_interval r s) = timer_ready c s" "timer_ready c (use_pull_interval r s) = timer_ready c s"
  "timer_ready c (if 0 < n then s\<lparr>pluginUpdateCheckInterval := n\<rparr> else s) = timer_ready c s"
  by (auto simp: timer_ready_def timer_of_def use_scan_interval_def use_pull_interval_def)

lemma refresh_keeps:
  assumes "keeps c k s0 s" "timer_ready c s"
  shows "wpr (plugin_refreshTimer c n) (\<lambda>_ s1. keeps c k s0 s1) (\<lambda>_ _. False) s"
proof -
  obtain t i d where t: "timer_of c s = Some t" "Schedule t = MutableScheduled i d" "\<not> refreshTimer t"
  proof -
    obtain t i d where "timer_of c s = Some t" "Schedule t = MutableScheduled i d"
      using assms(1) unfolding keeps_def plugin_ok_def by blast
    with assms(2) that show ?thesis by (simp add: timer_ready_def)
  qed
  then obtain a where a: "pluginTimers s c = Some a" by (auto simp: timer_of_def bind_eq_Some_conv)
  let ?t1 = "t\<lparr>Schedule := SetInterval (wrap64 (n * second)) (Schedule t), refreshTimer := True\<rparr>"
  let ?s1 = "s\<lparr>pa_tm := (pa_tm s)\<lparr>tm_heap := (tm_heap (pa_tm s))(a \<mapsto> ?t1)\<rparr>\<rparr>"
  have run: "wpr (plugin_refreshTimer c n) (\<lambda>_ s1. s1 = ?s1) (\<lambda>_ _. False) s"
    using t a by (auto simp: plugin_refreshTimer_def wpr_rules RefreshTimer_def)
  have inj: "inj (pluginTimers s)" using assms(1) by (simp add: keeps_def plugin_ok_def)
  have other: "timer_of c' ?s1 = timer_of c' s" if "c' \<noteq> c" for c'
    using a inj that by (cases "pluginTimers s c'") (auto simp: timer_of_def inj_def)
  have own: "timer_of c ?s1 = Some ?t1" by (simp add: timer_of_def a)
  have "\<exists>t i d. timer_of c' ?s1 = Some t \<and> Schedule t = MutableScheduled i d" for c'
    using assms(1) other [of c'] own t(2) by (cases "c' = c") (auto simp: keeps_def plugin_ok_def)
  moreover have "timer_ready c' ?s1 = timer_ready c' s0" if "c' \<noteq> c" for c'
    using assms(1) other [OF that] that by (simp add: keeps_def timer_ready_def)
  ultimately have "keeps c k s0 ?s1" using assms(1) by (auto simp: keeps_def plugin_ok_def)
  then show ?thesis using run by (auto intro: wpr_mono)
qed

section \<open>The callbacks\<close>

lemma persist_statuses_acts: "wpr (persist_statuses pe ps) (\<lambda>_ s1. acts 0 s s1) (\<lambda>_ _. False) s"
proof (cases "has_persist ps")
  case True
  then show ?thesis
    unfolding persist_statuses_def wpr_seq if_not_P [OF not_not [THEN iffD2, OF True]]
    by (intro wpr_mono [OF syncRunKillGroup_acts [where k = 0]])
      (auto simp: wpr_rules wpr_modify [abs_def] Let_def split: prod.splits)
qed (simp add: persist_statuses_def wpr_ret acts_refl)

text \<open>After an answer of the server the own timer is refreshed.\<close>

lemma refresh_then_keeps:
  assumes "keeps c k s0 s" "timer_ready c s" "\<And>s1. keeps c k s0 s1 \<Longrightarrow> keeps c k s0 (f s1)"
  shows "wpr (seq (plugin_refreshTimer c n) (\<lambda>_. modify f)) (\<lambda>_ s1. keeps c k s0 s1) (\<lambda>_ _. False) s"
  unfolding wpr_seq by (rule wpr_mono [OF refresh_keeps [OF assms(1,2)]]) (simp_all add: wpr_modify assms(3))

lemma send_scan_keeps:
  assumes "acts 0 s0 s" "plugin_ok s0" "timer_ready HealthScan s0"
  shows "wpr (send_scan pe request) (\<lambda>_ s1. keeps HealthScan 4 s0 s1) (\<lambda>_ _. False) s"
  unfolding send_scan_def wpr_seq
proof (rule wpr_mono [OF post_tries_acts], goal_cases)
  case (1 x s1)
  then have four: "acts 4 s0 s1" by (auto intro: acts_trans [OF assms(1)])
  have k: "keeps HealthScan 4 s0 s1" "timer_ready HealthScan s1"
    using acts_keeps [OF four assms(2)] acts_ready [OF four] assms(3) by simp_all
  obtain resp err where x: "x = (resp, err)" by (cases x)
  have "wpr (seq (plugin_refreshTimer HealthScan n) (\<lambda>_. modify (switch_lazy r))) (\<lambda>_ s2. keeps HealthScan 4 s0 s2) (\<lambda>_ _. False)
      (use_scan_interval r (use_pull_interval r s1))" for r n
    by (rule refresh_then_keeps) (use k in \<open>simp_all add: keeps_intervals\<close>)
  with k show ?case by (auto simp: x wpr_ret wpr_look wpr_modify wpr_seq split: option.split sum.split)
qed simp

text \<open>A step in the middle of a callback.\<close>

lemma acts_seq:
  assumes "acts j s0 s" "wpr m (\<lambda>_ s1. acts k s s1) (\<lambda>_ _. False) s" "\<And>x s1. acts (j + k) s0 s1 \<Longrightarrow> wpr (f x) Q P s1"
  shows "wpr (seq m f) Q P s"
  unfolding wpr_seq by (rule wpr_mono [OF assms(2)]) (auto intro: assms(3) acts_trans [OF assms(1)])

lemmas first_steps = wpr_seq [of "seq m f" for m f] wpr_seq [of "pa_on f" for f] wpr_pa_on wpr_ret wpr_seq [of "modify f" for f] wpr_modify
  wpr_seq [of "look f" for f] wpr_look

lemma scan_keeps:
  assumes "plugin_ok s" "timer_ready HealthScan s"
  shows "wpr (pluginHealthCheckScan pe) (\<lambda>_ s1. keeps HealthScan 4 s s1) (\<lambda>_ _. False) s"
proof -
  let ?s1 = "s\<lparr>pa_store := (pa_store s)\<lparr>ps_world := snd (read_clock (pe_env pe) (pa_world s))\<rparr>,
      lastPluginHealthCheckTime := fst (read_clock (pe_env pe) (pa_world s)) div second\<rparr>"
  let ?Q = "\<lambda>_ s1. keeps HealthScan 4 s s1" and ?P = "\<lambda>_ _. False"
  have s1: "acts 0 s ?s1" by (rule acts_quiet) simp_all
  have ends: "wpr (ret ()) ?Q ?P s2" if "acts 0 s s2" for s2
    using acts_keeps [OF that assms(1)] by (simp add: wpr_ret)
  have sending: "wpr (case sts of None \<Rightarrow> ret () | Some running \<Rightarrow>
      (let request = once_statuses ps @ running in if request = [] then ret () else send_scan pe request)) ?Q ?P s2"
    if "acts 0 s s2" for sts s2 ps
    using send_scan_keeps [OF that assms] ends [OF that] by (simp add: Let_def split: option.split)
  have asking: "wpr (seq (persist_statuses pe ps) (\<lambda>sts. case sts of None \<Rightarrow> ret () | Some running \<Rightarrow>
      (let request = once_statuses ps @ running in if request = [] then ret () else send_scan pe request))) ?Q ?P s2"
    if "acts 0 s s2" for s2 ps
    by (rule acts_seq [OF that persist_statuses_acts]) (use sending in simp)
  show ?thesis
    unfolding pluginHealthCheckScan_def unix_now_def first_steps
    by (rule acts_seq [OF s1 findAll_acts [where k = 0]]) (use ends asking in \<open>auto split: sum.split\<close>)
qed

lemma heartbeat_status_acts: "wpr (heartbeat_status pe dir now p) (\<lambda>_ s1. acts 0 s s1) (\<lambda>_ _. False) s"
  by (auto simp: heartbeat_status_def CheckFileIsExist_def ask_def wpr_rules Let_def acts_def split_beta split: sum.split option.split)

lemma pull_statuses_acts: "wpr (pull_statuses pe dir now ps cur request) (\<lambda>_ s1. acts 0 s s1) (\<lambda>_ _. False) s"
proof (induction ps arbitrary: cur request s)
  case (Cons p ps)
  have next_ones: "wpr (pull_statuses pe dir now ps cur' request') (\<lambda>_ s2. acts 0 s s2) (\<lambda>_ _. False) s1"
    if "acts 0 s s1" for cur' request' s1
    by (rule wpr_mono [OF Cons.IH]) (auto intro: acts_trans [OF that])
  have "wpr (seq (heartbeat_status pe dir now p) (\<lambda>r. case r of None \<Rightarrow> pull_statuses pe dir now ps cur request
      | Some status \<Rightarrow> pull_statuses pe dir now ps (AList.update (pi_Name p) status cur)
          (request @ [plugin_status (pi_Name p) status (pi_Version p)]))) (\<lambda>_ s1. acts 0 s s1) (\<lambda>_ _. False) s"
    by (rule acts_seq [OF acts_refl [of 0] heartbeat_status_acts]) (use next_ones in \<open>simp split: option.split\<close>)
  then show ?case using next_ones [OF acts_refl] by simp
qed (simp add: wpr_ret acts_refl)

lemma send_pull_keeps:
  assumes "acts 0 s0 s" "plugin_ok s0" "timer_ready HealthPull s0"
  shows "wpr (send_pull pe request) (\<lambda>_ s1. keeps HealthPull 1 s0 s1) (\<lambda>_ _. False) s"
  unfolding send_pull_def
proof (rule acts_seq [OF assms(1) HttpPost_acts], goal_cases)
  case (1 x s1)
  then have one: "acts 1 s0 s1" by simp
  have k: "keeps HealthPull 1 s0 s1" "timer_ready HealthPull s1"
    using acts_keeps [OF one assms(2)] acts_ready [OF one] assms(3) by simp_all
  obtain resp err where x: "x = (resp, err)" by (cases x)
  have "wpr (seq (plugin_refreshTimer HealthPull n) (\<lambda>_. modify (switch_lazy r \<circ> use_scan_interval r))) (\<lambda>_ s2. keeps HealthPull 1 s0 s2)
      (\<lambda>_ _. False) (use_pull_interval r s1)" for r n
    by (rule refresh_then_keeps) (use k in \<open>simp_all add: keeps_intervals\<close>)
  with k show ?case
    by (auto simp: x wpr_ret wpr_look wpr_modify wpr_seq split: option.split sum.split)
qed

lemma pull_now_keeps:
  assumes "acts 0 s0 s" "plugin_ok s0" "timer_ready HealthPull s0"
  shows "wpr (pull_now pe now) (\<lambda>_ s1. keeps HealthPull 1 s0 s1) (\<lambda>_ _. False) s"
proof -
  let ?Q = "\<lambda>_ s1. keeps HealthPull 1 s0 s1" and ?P = "\<lambda>_ _. False"
  have ends: "wpr (ret ()) ?Q ?P s1" if "acts 0 s0 s1" for s1
    using acts_keeps [OF that assms(2)] by (simp add: wpr_ret)
  have sending: "wpr (if request = [] then ret () else
      seq (look (\<lambda>s. will_report (lazyReport s) cur (lastPluginStatusRecord s))) (\<lambda>willReport.
        if \<not> willReport then ret ()
        else seq (modify (\<lambda>s. s\<lparr>lastPluginStatusRecord := cur\<rparr>)) (\<lambda>_. send_pull pe request))) ?Q ?P s1"
    if "acts 0 s0 s1" for request cur s1
    using that ends [OF that] send_pull_keeps [of s0 "s1\<lparr>lastPluginStatusRecord := cur\<rparr>" pe request, OF _ assms(2,3)]
    by (simp add: wpr_seq wpr_look wpr_modify)
  have reading: "wpr (seq (pull_statuses pe dir now ps [] []) (\<lambda>(cur, request). if request = [] then ret () else
      seq (look (\<lambda>s. will_report (lazyReport s) cur (lastPluginStatusRecord s))) (\<lambda>willReport.
        if \<not> willReport then ret ()
        else seq (modify (\<lambda>s. s\<lparr>lastPluginStatusRecord := cur\<rparr>)) (\<lambda>_. send_pull pe request)))) ?Q ?P s1"
    if "acts 0 s0 s1" for dir ps s1
    by (rule acts_seq [OF that pull_statuses_acts]) (use sending in \<open>simp split: prod.split\<close>)
  have at_path: "wpr (seq (pa_on (GetPluginPath (pe_mc pe))) (\<lambda>(dir, err). if err \<noteq> None then ret () else
      seq (pull_statuses pe dir now ps [] []) (\<lambda>(cur, request). if request = [] then ret () else
      seq (look (\<lambda>s. will_report (lazyReport s) cur (lastPluginStatusRecord s))) (\<lambda>willReport.
        if \<not> willReport then ret ()
        else seq (modify (\<lambda>s. s\<lparr>lastPluginStatusRecord := cur\<rparr>)) (\<lambda>_. send_pull pe request))))) ?Q ?P s1"
    if "acts 0 s0 s1" for ps s1
    by (rule acts_seq [OF that pa_on_quiet [where k = 0]]) (use ends reading in \<open>simp_all split: prod.split\<close>)
  show ?thesis
    unfolding pull_now_def
    by (rule acts_seq [OF assms(1) findAll_acts [where k = 0]]) (use ends at_path in \<open>auto split: sum.split\<close>)
qed

lemma wait_acts: "wpr (wait_for_scan pe t) (\<lambda>_ s1. acts 0 s s1) (\<lambda>_ _. False) s"
  by (auto simp: wait_for_scan_def unix_now_def read_clock_def go_sleep_def wpr_rules Let_def acts_def posts_def)

lemma pull_keeps:
  assumes "plugin_ok s" "timer_ready HealthPull s"
  shows "wpr (pluginHealthCheckPull pe) (\<lambda>_ s1. keeps HealthPull 1 s s1) (\<lambda>_ _. False) s"
  unfolding pluginHealthCheckPull_def wpr_seq [of "look f" for f] wpr_look
proof (rule acts_seq [OF acts_refl wait_acts])
  fix now s1
  assume "acts (0 + 0) s s1"
  then show "wpr (seq (look pluginHealthScanInterval) (\<lambda>interval.
      let remainTime = wrap64 (wrap64 (lastPluginHealthCheckTime s + interval) - now) in
      if remainTime < avoidTime then ret () else pull_now pe now)) (\<lambda>_ s1. keeps HealthPull 1 s s1) (\<lambda>_ _. False) s1"
    using pull_now_keeps [OF _ assms] acts_keeps [OF _ assms(1), of 0 s1 1 HealthPull] by (simp add: wpr_seq wpr_look wpr_ret Let_def)
qed

section \<open>Events, upgrades and the list\<close>

lemma doReport_trace: "\<exists>es. trace (mt_world (doReport me url p m)) = trace (mt_world m) @ es \<and> length (posts es) \<le> 1"
proof -
  have post: "\<exists>es. trace (mt_world (post_metrics me url p m')) = trace (mt_world m') @ es \<and> length (posts es) \<le> 1" for m'
  proof -
    obtain es where "trace (snd (HttpPost (me_env me) url p (mt_world m'))) = trace (mt_world m') @ HttpSent ''POST'' url p # es" "posts es = []"
      using HttpPost_trace by blast
    then show ?thesis by (intro exI [of _ "HttpSent ''POST'' url p # es"]) (simp add: post_metrics_def)
  qed
  show ?thesis
  proof (cases "reportCounterLimit \<le> mt_reportCounter m")
    case True
    then show ?thesis
      using post [of "m\<lparr>mt_reportCounter := 1, mt_startTime := _, mt_world := tick (tick (mt_world m))\<rparr>"]
      by (auto simp: doReport_def read_clock_def Let_def intro: exI [of _ "[]"])
  next
    case False
    then show ?thesis using post [of "m\<lparr>mt_reportCounter := mt_reportCounter m + 1\<rparr>"] by (simp add: doReport_def)
  qed
qed

lemma new_event_trace: "trace (mt_world (snd (new_event a b c d me ws m))) = trace (mt_world m)"
  by (simp add: new_event_def getCommonInfoStr_def read_clock_def split_beta Let_def split: option.split)

lemma new_event_returns: "genKeyWordsStr ws = Returns k \<Longrightarrow> \<exists>e. fst (new_event a b c d me ws m) = Returns e"
  by (simp add: new_event_def split_beta Let_def)

lemma report_event_acts:
  assumes "genKeyWordsStr ws = Returns k"
  shows "wpr (report_event pe (\<lambda>me. new_event a b c d me ws)) (\<lambda>_ s1. acts 1 s s1) (\<lambda>_ _. False) s"
proof -
  let ?m = "(pa_metrics s)\<lparr>mt_world := pa_world s\<rparr>"
  obtain e m1 where 1: "new_event a b c d (pe_metrics pe) ws ?m = (Returns e, m1)"
    using new_event_returns [OF assms] by (metis prod.collapse)
  have t1: "trace (mt_world m1) = trace (pa_world s)" using new_event_trace [of a b c d "pe_metrics pe" ws ?m] 1 by simp
  obtain es where 2: "trace (mt_world (ReportEvent (pe_metrics pe) e m1)) = trace (mt_world m1) @ es" "length (posts es) \<le> 1"
    using doReport_trace unfolding ReportEvent_def by blast
  have "m1\<lparr>mt_world := mt_world m1\<rparr> = m1" by simp
  then show ?thesis using 1 2 t1
    by (auto simp: report_event_def on_metrics_def wpr_seq wpr_outcome_of acts_def)
qed

lemma report_event_after:
  assumes "acts 0 s0 s" "genKeyWordsStr ws = Returns k"
  shows "wpr (report_event pe (\<lambda>me. new_event a b c d me ws)) (\<lambda>_ s1. acts 1 s0 s1) (\<lambda>_ _. False) s"
  by (rule wpr_mono [OF report_event_acts [OF assms(2)]]) (auto intro: acts_trans [OF assms(1)])

lemma upgrade_plugin_acts: "wpr (upgrade_plugin pe error_text p) (\<lambda>_ s1. acts 1 s s1) (\<lambda>_ _. False) s"
  unfolding upgrade_plugin_def
proof (rule acts_seq [OF acts_refl [of 0] syncRunKillGroup_acts [where k = 0]], goal_cases)
  case (1 x s1)
  then have zero: "acts 0 s s1" by simp
  obtain out exitCode status err where x: "x = (out, exitCode, status, err)" by (metis prod.collapse)
  have words: "\<exists>k. genKeyWordsStr [a1, a2, a3, a4, a5, a6, a7, a8, a9, a10, a11, a12] = Returns k" for a1 a2 a3 a4 a5 a6 a7 a8 a9 a10 a11 a12
    by (simp add: genKeyWordsStr_def)
  show ?case
    unfolding x prod.case GetPluginUpdateEvent_def by (rule report_event_after [OF zero words [THEN someI_ex]])
qed

lemma upgrades_acts: "wpr (each (upgrade_plugin pe error_text) us) (\<lambda>_ s1. acts (length us) s s1) (\<lambda>_ _. False) s"
proof (induction us arbitrary: s)
  case (Cons u us)
  show ?case
    unfolding each.simps
    by (rule acts_seq [OF acts_refl [of 0] upgrade_plugin_acts], rule wpr_mono [OF Cons.IH]) (auto intro: acts_trans)
qed (simp add: wpr_ret acts_refl)

lemma local_list_acts: "wpr (pluginLocalListReport pe) (\<lambda>_ s1. acts 1 s s1) (\<lambda>_ _. False) s"
proof -
  have words: "\<exists>k. genKeyWordsStr [a1, a2, a3, a4, a5, a6] = Returns k" for a1 a2 a3 a4 a5 a6
    by (simp add: genKeyWordsStr_def)
  have event: "wpr (report_event pe (\<lambda>me. GetPluginLocalListEvent me [a1, a2, a3, a4, a5, a6])) (\<lambda>_ s2. acts 1 s s2) (\<lambda>_ _. False) s1"
    if "acts 0 s s1" for a1 a2 a3 a4 a5 a6 s1
    unfolding GetPluginLocalListEvent_def
    by (rule report_event_after [OF that words [THEN someI_ex]])
  have asked: "wpr (seq (pa_on (GetArch (pe_uname pe))) (\<lambda>(localArch, raw). report_event pe (\<lambda>me. GetPluginLocalListEvent me
      [''pluginList'', plugin_list_json ps, ''localArch'', localArch, ''localOsType'', OS_TYPE]))) (\<lambda>_ s2. acts 1 s s2) (\<lambda>_ _. False) s1"
    if "acts 0 s s1" for ps s1
    by (rule acts_seq [OF that pa_on_quiet [where k = 0]]) (use event in \<open>simp_all split: prod.split\<close>)
  show ?thesis
    unfolding pluginLocalListReport_def
    by (rule acts_seq [OF acts_refl [of 0] findAll_acts [where k = 0]])
      (use asked in \<open>auto simp: wpr_ret Let_def intro: acts_trans [of 0 s _ 0] acts_refl split: sum.split\<close>)
qed

lemma update_keeps:
  assumes "plugin_ok s" "timer_ready UpdateCheck s"
  shows "wpr (pluginUpdateCheck pe error_text) (\<lambda>_ s1. \<exists>k. keeps UpdateCheck k s s1) (\<lambda>_ _. False) s"
proof -
  let ?Q = "\<lambda>_ s1. \<exists>k. keeps UpdateCheck k s s1" and ?P = "\<lambda>_ _. False"
  have ends: "wpr (ret ()) ?Q ?P s1" if "acts k s s1" for k s1
    using acts_keeps [OF that assms(1) order_refl] by (auto simp: wpr_ret)
  have refreshing: "wpr (seq (modify (\<lambda>s. if 0 < n then s\<lparr>pluginUpdateCheckInterval := n\<rparr> else s)) (\<lambda>_. seq (look pluginUpdateCheckInterval)
      (\<lambda>interval. seq (plugin_refreshTimer UpdateCheck interval) (\<lambda>_. ret ())))) ?Q ?P s1" if "acts k s s1" for k n s1
  proof -
    let ?s2 = "if 0 < n then s1\<lparr>pluginUpdateCheckInterval := n\<rparr> else s1"
    have "keeps UpdateCheck k s ?s2" by (rule keeps_intervals(4)) (rule acts_keeps [OF that assms(1) order_refl])
    moreover have "timer_ready UpdateCheck ?s2" using acts_ready [OF that] assms(2) by simp
    ultimately have "wpr (plugin_refreshTimer UpdateCheck (pluginUpdateCheckInterval ?s2)) ?Q ?P ?s2"
      by (intro wpr_mono [OF refresh_keeps]) auto
    then show ?thesis unfolding wpr_seq wpr_modify wpr_look wpr_ret .
  qed
  have answered: "wpr (case err of Some e \<Rightarrow> ret () | None \<Rightarrow> (case pe_update pe resp of Inl e \<Rightarrow> ret ()
      | Inr u \<Rightarrow> seq (each (upgrade_plugin pe error_text) (puc_Plugin u)) (\<lambda>_.
          seq (modify (\<lambda>s. if 0 < NextInterval u then s\<lparr>pluginUpdateCheckInterval := NextInterval u\<rparr> else s)) (\<lambda>_.
          seq (look pluginUpdateCheckInterval) (\<lambda>interval. seq (plugin_refreshTimer UpdateCheck interval) (\<lambda>_. ret ())))))) ?Q ?P s1"
    if "acts k s s1" for k s1 resp and err :: "go_error option"
    by (auto intro!: ends [OF that] acts_seq [OF that upgrades_acts] refreshing split: option.split sum.split)
  have posting: "wpr (seq (pa_on (post_tries env 3 2 url body)) (\<lambda>(resp, err). case err of Some e \<Rightarrow> ret ()
      | None \<Rightarrow> (case pe_update pe resp of Inl e \<Rightarrow> ret ()
        | Inr u \<Rightarrow> seq (each (upgrade_plugin pe error_text) (puc_Plugin u)) (\<lambda>_.
          seq (modify (\<lambda>s. if 0 < NextInterval u then s\<lparr>pluginUpdateCheckInterval := NextInterval u\<rparr> else s)) (\<lambda>_.
          seq (look pluginUpdateCheckInterval) (\<lambda>interval. seq (plugin_refreshTimer UpdateCheck interval) (\<lambda>_. ret ()))))))) ?Q ?P s1"
    if "acts 0 s s1" for env url body s1
    by (rule acts_seq [OF that post_tries_acts]) (use answered in \<open>simp split: prod.split\<close>)
  have asking: "wpr (seq (pa_on (GetArch (pe_uname pe))) (\<lambda>(arch, raw).
      seq (pa_on (post_tries (pe_env pe) 3 2 (GetPluginUpdateCheckService (pe_env pe)) (PluginUpdateCheckRequest_json OS_TYPE arch (persist_versions ps))))
      (\<lambda>(resp, err). case err of Some e \<Rightarrow> ret ()
      | None \<Rightarrow> (case pe_update pe resp of Inl e \<Rightarrow> ret ()
        | Inr u \<Rightarrow> seq (each (upgrade_plugin pe error_text) (puc_Plugin u)) (\<lambda>_.
          seq (modify (\<lambda>s. if 0 < NextInterval u then s\<lparr>pluginUpdateCheckInterval := NextInterval u\<rparr> else s)) (\<lambda>_.
          seq (look pluginUpdateCheckInterval) (\<lambda>interval. seq (plugin_refreshTimer UpdateCheck interval) (\<lambda>_. ret ())))))))) ?Q ?P s1"
    if "acts 0 s s1" for ps s1
    by (rule acts_seq [OF that pa_on_quiet [where k = 0]]) (use posting in \<open>simp_all split: prod.split\<close>)
  show ?thesis
    unfolding pluginUpdateCheck_def
    by (rule acts_seq [OF acts_refl [of 0] findAll_acts [where k = 0]]) (use ends asking in \<open>auto split: sum.split\<close>)
qed

section \<open>The theorems\<close>

definition post_limit :: "plugin_callback \<Rightarrow> nat \<Rightarrow> bool" where
  "post_limit c n \<longleftrightarrow> (case c of HealthScan \<Rightarrow> n \<le> 4 | HealthPull \<Rightarrow> n \<le> 1 | ListReport \<Rightarrow> n \<le> 1 | UpdateCheck \<Rightarrow> True)"

text \<open>
  Whatever the database, the network and the plugin manager answer, a callback of the four timers
  returns; a scan posts at most four times, a pull and the report of the list once. The timers still have
  intervals that may be changed, the intervals stay positive, and a callback signals no timer but its own,
  so the send on the channel of the timer cannot block.
\<close>

theorem plugin_callbacks_return:
  assumes "plugin_ok s" "timer_ready c s"
  shows "\<exists>s1 es. plugin_callback_run pe error_text c s = Some (Returns (), s1) \<and> plugin_ok s1
     \<and> (\<forall>c'. c' \<noteq> c \<longrightarrow> timer_ready c' s1 = timer_ready c' s)
     \<and> trace (pa_world s1) = trace (pa_world s) @ es \<and> post_limit c (length (posts es))"
proof -
  have "wpr (plugin_callback_run pe error_text c) (\<lambda>_ s1. \<exists>k. keeps c k s s1 \<and> (\<forall>n \<le> k. post_limit c n)) (\<lambda>_ _. False) s"
  proof (cases c)
    case HealthScan
    show ?thesis unfolding plugin_callback_run_def HealthScan plugin_callback.case
      by (rule wpr_mono [OF scan_keeps]) (use assms HealthScan in \<open>auto simp: post_limit_def\<close>)
  next
    case HealthPull
    show ?thesis unfolding plugin_callback_run_def HealthPull plugin_callback.case
      by (rule wpr_mono [OF pull_keeps]) (use assms HealthPull in \<open>auto simp: post_limit_def\<close>)
  next
    case UpdateCheck
    show ?thesis unfolding plugin_callback_run_def UpdateCheck plugin_callback.case
      by (rule wpr_mono [OF update_keeps]) (use assms UpdateCheck in \<open>auto simp: post_limit_def\<close>)
  next
    case ListReport
    show ?thesis unfolding plugin_callback_run_def ListReport plugin_callback.case
      by (rule wpr_mono [OF local_list_acts]) (use acts_keeps [OF _ assms(1), of 1 _ 1] in \<open>force simp: post_limit_def\<close>)+
  qed
  then show ?thesis unfolding wpr_returns keeps_def by fastforce
qed

section \<open>The distance of a pull to the scans\<close>

text \<open>A sleep lasts as long as it was asked to.\<close>

definition slept_well :: "('e, 'l) plugin_env \<Rightarrow> ('e, 'l) plugin_agent \<Rightarrow> bool" where
  "slept_well pe s \<longleftrightarrow>
     (let n = ticks (pa_world s); c = clock (pe_env pe) in
      c n + (avoidTime - (c n div second - lastPluginHealthCheckTime s)) * second \<le> c (Suc (Suc n)))"

text \<open>Times and intervals that are far from the bounds of 64 bits.\<close>

definition sane_times :: "('e, 'l) plugin_env \<Rightarrow> ('e, 'l) plugin_agent \<Rightarrow> bool" where
  "sane_times pe s \<longleftrightarrow> (\<forall>n. 0 \<le> clock (pe_env pe) n \<and> clock (pe_env pe) n \<le> max_int64)
     \<and> 0 \<le> lastPluginHealthCheckTime s \<and> lastPluginHealthCheckTime s \<le> 2 ^ 40 \<and> \<bar>pluginHealthScanInterval s\<bar> \<le> 2 ^ 40"

lemma seconds_bounds: "0 \<le> t \<Longrightarrow> t \<le> max_int64 \<Longrightarrow> 0 \<le> t div second \<and> t div second \<le> 2 ^ 40"
  using zdiv_mono1 [of t max_int64 second] by (simp add: second_def max_int64_def pos_imp_zdiv_nonneg_iff)

lemma pull_distance:
  assumes "pluginHealthCheckPull pe s = Some (r, s1)" "posts (trace (pa_world s1)) \<noteq> posts (trace (pa_world s))"
    and "sane_times pe s" "slept_well pe s"
  shows "\<exists>n. lastPluginHealthCheckTime s + avoidTime \<le> clock (pe_env pe) n div second
     \<and> clock (pe_env pe) n div second + avoidTime \<le> lastPluginHealthCheckTime s + pluginHealthScanInterval s"
proof -
  let ?L = "lastPluginHealthCheckTime s" and ?n = "ticks (pa_world s)" and ?c = "clock (pe_env pe)"
  have c: "0 \<le> ?c n div second" "?c n div second \<le> 2 ^ 40" for n
    using assms(3) seconds_bounds [of "?c n"] by (auto simp: sane_times_def)
  have L: "0 \<le> ?L" "?L \<le> 2 ^ 40" "\<bar>pluginHealthScanInterval s\<bar> \<le> 2 ^ 40" using assms(3) by (auto simp: sane_times_def)
  have id: "wrap64 x = x" if "\<bar>x\<bar> \<le> 2 ^ 42" for x
    using that by (intro wrap64_id) (auto simp: min_int64_def max_int64_def)
  have need: "wrap64 (avoidTime - wrap64 (?c ?n div second - ?L)) = avoidTime - (?c ?n div second - ?L)"
    using c [of ?n] L by (simp add: id avoidTime_def)
  let ?m = "if 0 < avoidTime - (?c ?n div second - ?L) then Suc (Suc ?n) else ?n"
  have waited: "?L + avoidTime \<le> ?c ?m div second"
  proof (cases "0 < avoidTime - (?c ?n div second - ?L)")
    case True
    have "(?c ?n + (avoidTime - (?c ?n div second - ?L)) * second) div second \<le> ?c (Suc (Suc ?n)) div second"
      using assms(4) by (intro zdiv_mono1) (simp_all add: slept_well_def Let_def second_def)
    then show ?thesis using True by (simp add: second_def)
  qed simp
  obtain s2 where s2: "wait_for_scan pe ?L s = Some (Returns (?c ?m div second), s2)" "posts (trace (pa_world s2)) = posts (trace (pa_world s))"
      "pluginHealthScanInterval s2 = pluginHealthScanInterval s"
  proof (cases "0 < avoidTime - (?c ?n div second - ?L)")
    case True
    then show ?thesis using that need
      by (simp add: wait_for_scan_def unix_now_def pa_on_def on_store_def ps_on_def zoom_def prog_defs read_clock_def Let_def posts_def)
  next
    case False
    then show ?thesis using that need
      by (simp add: wait_for_scan_def unix_now_def pa_on_def on_store_def ps_on_def zoom_def prog_defs read_clock_def Let_def)
  qed
  have remain: "wrap64 (wrap64 (?L + pluginHealthScanInterval s) - ?c ?m div second) = ?L + pluginHealthScanInterval s - ?c ?m div second"
    using c [of ?m] L by (simp add: id)
  have "\<not> ?L + pluginHealthScanInterval s - ?c ?m div second < avoidTime"
  proof
    assume "?L + pluginHealthScanInterval s - ?c ?m div second < avoidTime"
    then have "pluginHealthCheckPull pe s = Some (Returns (), s2)"
      using s2 remain by (simp add: pluginHealthCheckPull_def seq_def look_def ret_def)
    with assms(1,2) s2(2) show False by simp
  qed
  with waited show ?thesis by (intro exI [of _ ?m]) linarith
qed

text \<open>A pull that reports is at least a minute later than the last scan, and at least a minute earlier than the next.\<close>

theorem pull_keeps_its_distance:
  assumes "pluginHealthCheckPull pe s = Some (r, s1)" "posts (trace (pa_world s1)) \<noteq> posts (trace (pa_world s))"
    and "sane_times pe s" "slept_well pe s"
  shows "\<exists>n. lastPluginHealthCheckTime s + 60 \<le> clock (pe_env pe) n div second
     \<and> clock (pe_env pe) n div second + 60 \<le> lastPluginHealthCheckTime s + pluginHealthScanInterval s"
  using pull_distance [OF assms] by (simp add: avoidTime_def)

text \<open>A scan every minute, as in the example of \<open>config.go\<close>, leaves no time for a pull.\<close>

theorem short_scans_prevent_pulls:
  assumes "pluginHealthCheckPull pe s = Some (r, s1)" "pluginHealthScanInterval s < 120"
    and "sane_times pe s" "slept_well pe s"
  shows "posts (trace (pa_world s1)) = posts (trace (pa_world s))"
proof (rule ccontr)
  assume "posts (trace (pa_world s1)) \<noteq> posts (trace (pa_world s))"
  from pull_distance [OF assms(1) this assms(3,4)] assms(2) show False by (auto simp: avoidTime_def)
qed

section \<open>Lazy reports\<close>

text \<open>A lazy report is sent exactly when the states differ from those of the last report.\<close>

theorem lazy_report_iff_changed:
  assumes "distinct (map fst cur)" "distinct (map fst former)"
  shows "will_report lazy cur former \<longleftrightarrow> \<not> lazy \<or> map_of cur \<noteq> map_of former"
proof -
  have len: "card (dom (map_of cur)) = length cur" "card (dom (map_of former)) = length former"
    using assms by (metis distinct_card dom_map_of_conv_image_fst length_map set_map)+
  have "map_of cur = map_of former" if same: "length cur = length former" "\<not> list_ex (changed_status former) cur"
  proof -
    have some: "map_of former k = Some v" if "map_of cur k = Some v" for k v
      using map_of_SomeD [OF that] same(2) by (auto simp: list_ex_iff changed_status_def split: option.splits)
    then have "dom (map_of cur) \<subseteq> dom (map_of former)" by auto
    then have "dom (map_of cur) = dom (map_of former)"
      using len same(1) by (intro card_subset_eq) (simp_all add: finite_dom_map_of)
    then have "map_of cur k = None \<longleftrightarrow> map_of former k = None" for k by (metis domIff)
    then have "map_of cur k = map_of former k" for k
      using some [of k] by (cases "map_of cur k") auto
    then show ?thesis by (rule ext)
  qed
  moreover have "\<not> list_ex (changed_status former) cur" if "map_of cur = map_of former"
    using that assms(1) by (auto simp: list_ex_iff changed_status_def split: option.splits dest: map_of_is_SomeI)
  ultimately show ?thesis unfolding will_report_def using len by (cases lazy) auto
qed

section \<open>Two errors\<close>

text \<open>The address of the loop variable: a plugin is started with the time of the last plugin of the list.\<close>

theorem start_takes_last_timeout:
  assumes "p \<in> set ps" "\<not> IsRemoved p" "pi_Timeout (last ps) = itoa t" "min_int64 \<le> t" "t \<le> max_int64"
  shows "start_timeout ps (pi_Name p) = t"
  using assms atoi_itoa [OF assms(4,5)] itoa_nonempty [of t] by (auto simp: start_timeout_def list_ex_iff)

text \<open>The process group of a run that never started has the number 1: the kill signal goes to process 1.\<close>

theorem unstarted_run_signals_init:
  assumes "mc_start (pe_mc pe) (Suc (ticks (pa_world s))) name args = Some e"
  shows "\<exists>s1. syncRunKillGroup pe name args t s = Some (Returns ([], 1, Fail, Some e), s1) \<and> pa_signals s1 = pa_signals s @ [1]"
  using assms by (simp add: syncRunKillGroup_def run_process_cmd_def SyncRun_def run_credential_def NewProcessCmd_def prepareProcess_def
      start_process_def ask_def attempt_def Pid_def prog_defs Client_Report.written_def)

text \<open>The file of intervals in the comment of \<open>config.go\<close>: its third line has no comma at its end, so the last two
  settings are one that is ignored.\<close>

theorem example_file_sets_two:
  "map interval_setting (split_on (CHR '','') (''pluginHealthScanInterval=60,'' @ [LF] @ ''pluginHealthPullInterval=60,'' @ [LF]
     @ ''pluginUpdateCheckInterval=60'' @ [LF] @ ''pluginListReportInterval=60''))
   = [Some (''pluginHealthScanInterval'', 60), Some (''pluginHealthPullInterval'', 60), None]"
  by code_simp

section \<open>Examples\<close>

text \<open>A machine whose plugin manager does not start and whose clock stands at one hour.\<close>

definition plugin_example :: "(int, unit) plugin_env" where
  "plugin_example = \<lparr>pe_store = plain_store\<lparr>se_mc := (se_mc plain_store)\<lparr>mc_start := (\<lambda>n name args. Some (PlainError ''no such file''))\<rparr>\<rparr>,
     pe_metrics = still_metrics\<lparr>me_env := (me_env still_metrics)\<lparr>clock := (\<lambda>n. 3600 * second)\<rparr>\<rparr>,
     pe_cron = toy_lib,
     pe_statuses = (\<lambda>s. []), pe_health = (\<lambda>s. Inl (PlainError ''json'')), pe_update = (\<lambda>s. Inl (PlainError ''json'')),
     pe_interval_file = (\<lambda>n. Inl (PlainError ''none'')), pe_pid = (\<lambda>n. 7), pe_read_file = (\<lambda>n p. Inl (PlainError ''none'')),
     pe_uname = (\<lambda>n. Inr ''x86_64'')\<rparr>"

definition plugin_number :: "plugin_callback \<Rightarrow> nat" where
  "plugin_number c = (case c of HealthScan \<Rightarrow> 0 | HealthPull \<Rightarrow> 1 | UpdateCheck \<Rightarrow> 2 | ListReport \<Rightarrow> 3)"

definition first_plugin_agent :: "(int, unit) plugin_agent" where
  "first_plugin_agent = \<lparr>pa_store = empty_store, pa_metrics = fresh_metrics,
     pa_tm = \<lparr>tm_heap = (\<lambda>a. Some (NewTimer (NewMutableScheduled (60 * second)) HealthScan)), tm_fresh = 4, tm_timers = [0, 1, 2, 3]\<rparr>,
     pluginHealthScanInterval = 60, pluginHealthPullInterval = 60, pluginUpdateCheckInterval = 60, pluginListReportInterval = 60,
     lastPluginHealthCheckTime = 3500, lazyReport = False, lastPluginStatusRecord = [], pluginTimers = (\<lambda>c. Some (plugin_number c)),
     pa_starters = [], pa_starts = [], pa_signals = []\<rparr>"

lemma first_plugin_agent_ok: "plugin_ok first_plugin_agent" "timer_ready c first_plugin_agent"
proof -
  have "inj (\<lambda>c. Some (plugin_number c))"
    by (rule injI) (simp add: plugin_number_def split: plugin_callback.splits)
  then show "plugin_ok first_plugin_agent"
    by (auto simp: plugin_ok_def first_plugin_agent_def timer_of_def NewTimer_def NewMutableScheduled_def)
  show "timer_ready c first_plugin_agent"
    by (simp add: timer_ready_def first_plugin_agent_def timer_of_def NewTimer_def)
qed

theorem plugin_callbacks_return_witness:
  "\<exists>s1. plugin_callback_run plugin_example (\<lambda>e. ''error'') HealthScan first_plugin_agent = Some (Returns (), s1) \<and> plugin_ok s1"
  using plugin_callbacks_return [OF first_plugin_agent_ok, of plugin_example "\<lambda>e. ''error''" HealthScan] by blast

theorem unstarted_run_signals_init_witness:
  "\<exists>s1. syncRunKillGroup plugin_example ''acs-plugin-manager'' [''--status''] 120 first_plugin_agent
       = Some (Returns ([], 1, Fail, Some (PlainError ''no such file'')), s1) \<and> pa_signals s1 = [1]"
  using unstarted_run_signals_init [of plugin_example first_plugin_agent "''acs-plugin-manager''" "[''--status'']" "PlainError ''no such file''" 120]
  by (simp add: plugin_example_def first_plugin_agent_def)

theorem start_takes_last_timeout_witness:
  "start_timeout [sample_plugin\<lparr>pi_Timeout := ''300''\<rparr>, sample_plugin\<lparr>pi_Name := ''other'', pi_Timeout := itoa 5\<rparr>] ''monitor'' = 5"
  using start_takes_last_timeout [of "sample_plugin\<lparr>pi_Timeout := ''300''\<rparr>"
      "[sample_plugin\<lparr>pi_Timeout := ''300''\<rparr>, sample_plugin\<lparr>pi_Name := ''other'', pi_Timeout := itoa 5\<rparr>]" 5]
  by (simp add: sample_plugin_def min_int64_def max_int64_def)

theorem lazy_report_iff_changed_witness:
  "will_report True [(''a'', PERSIST_FAIL)] [(''a'', PERSIST_RUNNING)]"
  using lazy_report_iff_changed [of "[(''a'', PERSIST_FAIL)]" "[(''a'', PERSIST_RUNNING)]" True]
  by (simp add: PERSIST_FAIL_def PERSIST_RUNNING_def fun_eq_iff)

lemma example_sane: "sane_times plugin_example first_plugin_agent" "slept_well plugin_example first_plugin_agent"
  by (simp_all add: sane_times_def slept_well_def plugin_example_def first_plugin_agent_def second_def max_int64_def avoidTime_def)

theorem short_scans_prevent_pulls_witness:
  "\<exists>s1. pluginHealthCheckPull plugin_example first_plugin_agent = Some (Returns (), s1)
     \<and> posts (trace (pa_world s1)) = posts (trace (pa_world first_plugin_agent))"
proof -
  obtain s1 where s1: "pluginHealthCheckPull plugin_example first_plugin_agent = Some (Returns (), s1)"
    using pull_keeps [OF first_plugin_agent_ok, of plugin_example] unfolding wpr_returns by auto
  then show ?thesis
    using short_scans_prevent_pulls [OF s1 _ example_sane] by (auto simp: first_plugin_agent_def)
qed

text \<open>A pull that reports: one persistent plugin with a heartbeat file.\<close>

lemma send_pull_posts:
  assumes "\<And>resp. pe_health pe resp = Inl e"
  shows "wpr (send_pull pe request) (\<lambda>_ s1. posts (trace (pa_world s1)) \<noteq> posts (trace (pa_world s))) (\<lambda>_ _. False) s"
proof -
  let ?w = "snd (HttpPost (pe_env pe) (GetPluginHealthService (pe_env pe)) (PluginStatusResquest_json request) (pa_world s))"
  obtain es where "trace ?w = trace (pa_world s) @ HttpSent ''POST'' (GetPluginHealthService (pe_env pe)) (PluginStatusResquest_json request) # es"
    using HttpPost_trace by blast
  then have "posts (trace ?w) \<noteq> posts (trace (pa_world s))" by simp
  then show ?thesis unfolding send_pull_def by (simp add: wpr_seq wpr_pa_on wpr_ret assms split: prod.split option.split)
qed

definition busy_example :: "(int, unit) plugin_env" where
  "busy_example = plugin_example\<lparr>pe_store := plain_store\<lparr>se_mc := (se_mc plain_store)\<lparr>mc_stat := (\<lambda>n p. RegularFile)\<rparr>\<rparr>,
     pe_read_file := (\<lambda>n p. Inr (itoa 3590))\<rparr>"

definition busy_agent :: "(int, unit) plugin_agent" where
  "busy_agent = first_plugin_agent\<lparr>pluginHealthScanInterval := 900,
     pa_store := empty_store\<lparr>ps_db := Some \<lparr>db_bucket = Some [(itob 1, ''p'')], db_sequence = 1\<rparr>\<rparr>\<rparr>"

lemma busy_sane: "sane_times busy_example busy_agent" "slept_well busy_example busy_agent"
  by (simp_all add: sane_times_def slept_well_def busy_example_def busy_agent_def plugin_example_def first_plugin_agent_def
      second_def max_int64_def avoidTime_def)

definition busy_plugin :: PluginInfo where
  "busy_plugin = sample_plugin\<lparr>pi_Name := ''p''\<rparr>"

lemma busy_plugins:
  assumes "ps_db (pa_store s) = Some \<lparr>db_bucket = Some [(itob 1, ''p'')], db_sequence = 1\<rparr>"
  shows "wpr (findAllInstalledPlugins busy_example) (\<lambda>r s1. r = Inr [busy_plugin] \<and> pa_metrics s1 = pa_metrics s \<and> lazyReport s1 = lazyReport s
     \<and> posts (trace (pa_world s1)) = posts (trace (pa_world s))) (\<lambda>_ _. False) s"
  using assms
  by (simp add: findAllInstalledPlugins_def on_store_def wpr_zoom getAllInstalledPlugins_def opened_def LoadInstalledPlugins_def
      getInstalledPluginsBoltPath_def plugin_file_def GetPluginPath_def GetCurrentPath_def made_path_def MakeSurePath_def attempt_def ask_def
      wpr_rules busy_example_def plain_store_def FindAll_def db_entries_def with_bucket_def busy_plugin_def posts_def)

lemma busy_heartbeat: "wpr (heartbeat_status busy_example dir 3600 busy_plugin) (\<lambda>r s1. r = Some PERSIST_RUNNING \<and> lazyReport s1 = lazyReport s
     \<and> posts (trace (pa_world s1)) = posts (trace (pa_world s))) (\<lambda>_ _. False) s"
proof -
  have "atoi (itoa 3590) = (3590, None)" by (rule atoi_itoa) (simp_all add: min_int64_def max_int64_def)
  then show ?thesis
    by (simp add: heartbeat_status_def wpr_rules CheckFileIsExist_def ask_def busy_example_def plain_store_def busy_plugin_def sample_plugin_def Let_def)
qed

lemma busy_pull:
  "\<exists>s1. pluginHealthCheckPull busy_example busy_agent = Some (Returns (), s1)
     \<and> posts (trace (pa_world s1)) \<noteq> posts (trace (pa_world busy_agent))"
proof -
  let ?Q = "\<lambda>_ s1. posts (trace (pa_world s1)) \<noteq> posts (trace (pa_world busy_agent))" and ?P = "\<lambda>_ _. False"
  have sending: "wpr (send_pull busy_example request) ?Q ?P s" if "posts (trace (pa_world s)) = posts (trace (pa_world busy_agent))" for s request
    by (rule wpr_mono [OF send_pull_posts [of busy_example "PlainError ''json''"]]) (use that in \<open>simp_all add: busy_example_def plugin_example_def\<close>)
  have persist: "PluginType busy_plugin = PLUGIN_PERSIST \<and> \<not> IsRemoved busy_plugin"
    by (simp add: busy_plugin_def sample_plugin_def PluginType_def type_name_def PLUGIN_PERSIST_def)
  have statuses: "wpr (pull_statuses busy_example dir 3600 [busy_plugin] [] []) (\<lambda>r s1. snd r \<noteq> [] \<and> lazyReport s1 = lazyReport s
      \<and> posts (trace (pa_world s1)) = posts (trace (pa_world s))) ?P s" for dir s
    unfolding pull_statuses.simps wpr_seq if_P [OF persist] by (rule wpr_mono [OF busy_heartbeat]) (auto simp: wpr_ret)
  have path: "GetPluginPath (pe_mc busy_example) w = (p, w') \<Longrightarrow> snd p = None \<and> posts (trace w') = posts (trace w)" for w w' p
    by (auto simp: GetPluginPath_def GetCurrentPath_def made_path_def MakeSurePath_def attempt_def ask_def busy_example_def plain_store_def posts_def)
  have now: "wpr (pull_now busy_example 3600) ?Q ?P s"
    if db: "ps_db (pa_store s) = Some \<lparr>db_bucket = Some [(itob 1, ''p'')], db_sequence = 1\<rparr>" and lazy: "\<not> lazyReport s"
      and same: "posts (trace (pa_world s)) = posts (trace (pa_world busy_agent))" for s
    unfolding pull_now_def wpr_seq
  proof (rule wpr_mono [OF busy_plugins [OF db]], goal_cases)
    case (1 r s1)
    obtain dir w1 where p: "GetPluginPath (pe_mc busy_example) (pa_world s1) = ((dir, None), w1)" "posts (trace w1) = posts (trace (pa_world s1))"
      using path by (metis prod.collapse)
    let ?s2 = "s1\<lparr>pa_store := (pa_store s1)\<lparr>ps_world := w1\<rparr>\<rparr>"
    have "wpr (pull_statuses busy_example dir 3600 [busy_plugin] [] []) (\<lambda>x. wpr (case x of (cur, request) \<Rightarrow> if request = [] then ret ()
        else seq (look (\<lambda>s. will_report (lazyReport s) cur (lastPluginStatusRecord s))) (\<lambda>willReport. if \<not> willReport then ret ()
          else seq (modify (\<lambda>s. s\<lparr>lastPluginStatusRecord := cur\<rparr>)) (\<lambda>_. send_pull busy_example request))) ?Q ?P) ?P ?s2"
      by (rule wpr_mono [OF statuses])
        (use 1 p lazy same in \<open>auto simp: wpr_seq wpr_look wpr_modify will_report_def intro!: sending\<close>)
    with 1 p show ?case by (simp add: wpr_seq wpr_pa_on)
  qed simp
  have agent: "pluginHealthScanInterval busy_agent = 900" "lastPluginHealthCheckTime busy_agent = 3500" "\<not> lazyReport busy_agent"
      "ps_db (pa_store busy_agent) = Some \<lparr>db_bucket = Some [(itob 1, ''p'')], db_sequence = 1\<rparr>"
    by (simp_all add: busy_agent_def first_plugin_agent_def)
  have clk: "clock (pe_env busy_example) n = 3600 * second" for n by (simp add: busy_example_def plugin_example_def)
  let ?s1 = "busy_agent\<lparr>pa_store := (pa_store busy_agent)\<lparr>ps_world := tick (pa_world busy_agent)\<rparr>\<rparr>"
  have "wpr (pull_now busy_example 3600) ?Q ?P ?s1" by (rule now) (simp_all add: agent)
  then have "wpr (pluginHealthCheckPull busy_example) ?Q ?P busy_agent"
    by (simp add: pluginHealthCheckPull_def wait_for_scan_def unix_now_def wpr_seq wpr_look wpr_pa_on wpr_ret read_clock_def clk agent avoidTime_def
        second_def)
  then show ?thesis unfolding wpr_returns by auto
qed

theorem pull_keeps_its_distance_witness:
  "\<exists>n. 3560 \<le> clock (pe_env busy_example) n div second \<and> clock (pe_env busy_example) n div second \<le> 4340"
proof -
  obtain s1 where "pluginHealthCheckPull busy_example busy_agent = Some (Returns (), s1)"
      "posts (trace (pa_world s1)) \<noteq> posts (trace (pa_world busy_agent))"
    using busy_pull by blast
  from pull_keeps_its_distance [OF this busy_sane] show ?thesis by (auto simp: busy_agent_def first_plugin_agent_def)
qed

end
