(* ===== verification/Text_Replace.thy ===== *)
theory Text_Replace
  imports Go_Strings
begin

text \<open>
  Further functions on texts of the Go library that several components use: the replacement of
  every occurrence of a text, the removal of a suffix and the encoder of base64.
\<close>

section \<open>Replacing\<close>

lemma index_of_bound: "index_of sub s = Some i \<Longrightarrow> i + length sub \<le> length s"
proof (induction s arbitrary: i)
  case (Cons c s)
  show ?case
  proof (cases "has_prefix sub (c # s)")
    case True
    then obtain r where "c # s = sub @ r" unfolding has_prefix_iff by blast
    then have "length (c # s) = length sub + length r" by (metis length_append)
    with True Cons.prems show ?thesis by simp
  next
    case False
    with Cons show ?thesis by (cases "index_of sub s") auto
  qed
qed (simp split: if_splits)

text \<open>\<open>strings.ReplaceAll\<close> of a text that is not empty, as all of the source's are.\<close>

function replace_all :: "string \<Rightarrow> string \<Rightarrow> string \<Rightarrow> string" where
  "replace_all s old new =
     (case index_of old s of
        None \<Rightarrow> s
      | Some i \<Rightarrow> if old = [] then s else take i s @ new @ replace_all (drop (i + length old) s) old new)"
  by pat_completeness auto
termination
proof (relation "measure (\<lambda>(s, old, new). length s)", simp)
  fix s old :: string and new i
  assume "index_of old s = Some i" "old \<noteq> []"
  then show "((drop (i + length old) s, old, new), s, old, new) \<in> measure (\<lambda>(s, old, new). length s)"
    using index_of_bound [of old s i] by (cases old) auto
qed

declare replace_all.simps [simp del]

lemma index_of_single: "index_of [c] s = (if c \<in> set s then Some (length (takeWhile (\<lambda>d. d \<noteq> c) s)) else None)"
  by (induction s) (auto simp: has_prefix_iff)

text \<open>The replacement of one character goes through the text once.\<close>

lemma replace_all_char: "replace_all s [c] new = concat (map (\<lambda>d. if d = c then new else [d]) s)"
proof (induction "length s" arbitrary: s rule: less_induct)
  case less
  show ?case
  proof (cases "c \<in> set s")
    case False
    then have "concat (map (\<lambda>d. if d = c then new else [d]) s) = s" by (induction s) auto
    with False show ?thesis by (subst replace_all.simps) (simp add: index_of_single)
  next
    case True
    obtain a b where s: "s = a @ c # b" and a: "c \<notin> set a" using split_list_first [OF True] by blast
    have keep: "concat (map (\<lambda>d. if d = c then new else [d]) a) = a" using a by (induction a) auto
    have "takeWhile (\<lambda>d. d \<noteq> c) s = a" using a by (auto simp: s takeWhile_tail)
    then have "index_of [c] s = Some (length a)" using True by (simp add: index_of_single)
    then have "replace_all s [c] new = a @ new @ replace_all b [c] new" by (subst replace_all.simps) (simp add: s)
    also have "replace_all b [c] new = concat (map (\<lambda>d. if d = c then new else [d]) b)"
      by (rule less) (simp add: s)
    finally show ?thesis using keep by (simp add: s)
  qed
qed

definition trim_suffix :: "string \<Rightarrow> string \<Rightarrow> string" where
  "trim_suffix s suf = (if length suf \<le> length s \<and> drop (length s - length suf) s = suf then take (length s - length suf) s else s)"

lemma replace_examples:
  "replace_all ''aXbXXc'' ''X'' ''--'' = ''a--b----c''" "replace_all ''ababab'' ''aba'' ''x'' = ''xbab''"
  "trim_suffix ''a,b,'' '','' = ''a,b''" "trim_suffix ''ab'' '','' = ''ab''"
  by code_simp+

section \<open>Encoding in base64\<close>

definition b64_char :: "nat \<Rightarrow> char" where
  "b64_char n =
     (if n < 26 then char_of (65 + n) else if n < 52 then char_of (71 + n) else if n < 62 then char_of (n - 4)
      else if n = 62 then CHR ''+'' else CHR ''/'')"

fun base64_encode :: "string \<Rightarrow> string" where
  "base64_encode [] = []"
| "base64_encode [a] = [b64_char (byte a div 4), b64_char (byte a mod 4 * 16)] @ ''==''"
| "base64_encode [a, b] = [b64_char (byte a div 4), b64_char (byte a mod 4 * 16 + byte b div 16), b64_char (byte b mod 16 * 4)] @ ''=''"
| "base64_encode (a # b # c # s) =
     [b64_char (byte a div 4), b64_char (byte a mod 4 * 16 + byte b div 16),
      b64_char (byte b mod 16 * 4 + byte c div 64), b64_char (byte c mod 64)] @ base64_encode s"

lemma base64_encode_examples:
  "base64_encode ''ls'' = ''bHM=''" "base64_encode ''a'' = ''YQ==''" "base64_encode ''abc~~~'' = ''YWJjfn5+''"
  by code_simp+

end
