(* ===== verification/Plugin_Locks.thy ===== *)
theory Plugin_Locks
  imports Plugin_Health Text_Replace
begin

text \<open>
  The frame of the plugin manager's own program, \<open>agent/pluginmanager/acspluginmanager\<close>: its exit codes
  and errors (\<open>errcode.go\<close>, \<open>errorcode_unix.go\<close>), the locks on files between processes
  (\<open>lockutil.go\<close>, \<open>path.go\<close>, and \<open>common/filelock\<close>), and the options (\<open>option.go\<close>, \<open>fetch.go\<close>).
  Every action on a plugin is recorded with the locks under which it happened.
\<close>

section \<open>Exit codes and errors\<close>

definition SUCCESS :: int where "SUCCESS = 0"
definition LOCKING_ERR :: int where "LOCKING_ERR = 232"
definition CHECK_ENDPOINT_FAIL :: int where "CHECK_ENDPOINT_FAIL = 233"
definition PACKAGE_NOT_FOUND :: int where "PACKAGE_NOT_FOUND = 234"
definition PACKAGE_FORMAT_ERR :: int where "PACKAGE_FORMAT_ERR = 235"
definition UNZIP_ERR :: int where "UNZIP_ERR = 236"
definition UNMARSHAL_ERR :: int where "UNMARSHAL_ERR = 237"
definition PLUGIN_FORMAT_ERR :: int where "PLUGIN_FORMAT_ERR = 238"
definition MD5_CHECK_FAIL :: int where "MD5_CHECK_FAIL = 239"
definition DOWNLOAD_FAIL :: int where "DOWNLOAD_FAIL = 240"
definition LOAD_INSTALLEDPLUGINS_ERR :: int where "LOAD_INSTALLEDPLUGINS_ERR = 241"
definition DUMP_INSTALLEDPLUGINS_ERR :: int where "DUMP_INSTALLEDPLUGINS_ERR = 242"
definition GET_ONLINE_PACKAGE_INFO_ERR :: int where "GET_ONLINE_PACKAGE_INFO_ERR = 243"
definition EXECUTABLE_PERMISSION_ERR :: int where "EXECUTABLE_PERMISSION_ERR = 244"
definition REMOVE_FILE_ERR :: int where "REMOVE_FILE_ERR = 245"
definition EXECUTE_FAILED :: int where "EXECUTE_FAILED = 246"
definition EXECUTE_TIMEOUT :: int where "EXECUTE_TIMEOUT = 247"

definition ErrorStrMap :: "(int \<times> string) list" where
  "ErrorStrMap =
     [(LOCKING_ERR, ''LOCKING_ERR''), (CHECK_ENDPOINT_FAIL, ''CHECK_ENDPOINT_FAIL''), (PACKAGE_NOT_FOUND, ''PACKAGE_NOT_FOUND''),
      (PACKAGE_FORMAT_ERR, ''PACKAGE_FORMAT_ERR''), (UNZIP_ERR, ''UNZIP_ERR''), (UNMARSHAL_ERR, ''UNMARSHAL_ERR''),
      (PLUGIN_FORMAT_ERR, ''PLUGIN_FORMAT_ERR''), (MD5_CHECK_FAIL, ''MD5_CHECK_FAIL''), (DOWNLOAD_FAIL, ''DOWNLOAD_FAIL''),
      (LOAD_INSTALLEDPLUGINS_ERR, ''LOAD_INSTALLEDPLUGINS_ERR''), (DUMP_INSTALLEDPLUGINS_ERR, ''DUMP_INSTALLEDPLUGINS_ERR''),
      (GET_ONLINE_PACKAGE_INFO_ERR, ''GET_ONLINE_PACKAGE_INFO_ERR''), (EXECUTABLE_PERMISSION_ERR, ''EXECUTABLE_PERMISSION_ERR''),
      (REMOVE_FILE_ERR, ''REMOVE_FILE_ERR''), (EXECUTE_FAILED, ''EXECUTE_FAILED_ERR''), (EXECUTE_TIMEOUT, ''EXECUTE_TIMEOUT_ERR'')]"

text \<open>\<open>shlex\<close>, JSON and archives report errors of their own; these two the program knows.\<close>

definition ErrFormat :: go_error where "ErrFormat = PlainError ''zip: not a valid zip file''"
definition os_ErrNotExist :: go_error where "os_ErrNotExist = PlainError ''file does not exist''"

definition ErrPackageNotFound :: go_error where
  "ErrPackageNotFound = PlainError ''Could not found package''"

text \<open>An \<open>ExitingError\<close>: the code, the cause and the message.\<close>

record exitingError =
  ee_exitCode :: int
  ee_cause :: go_error
  ee_message :: string

definition NewPackageNotFoundExitingError :: "go_error \<Rightarrow> string \<Rightarrow> exitingError" where
  "NewPackageNotFoundExitingError e m = \<lparr>ee_exitCode = PACKAGE_NOT_FOUND, ee_cause = e, ee_message = m\<rparr>"

definition NewUnzipExitingError :: "go_error \<Rightarrow> string \<Rightarrow> exitingError" where
  "NewUnzipExitingError e m = \<lparr>ee_exitCode = UNZIP_ERR, ee_cause = e, ee_message = m\<rparr>"

definition NewUnmarshalExitingError :: "go_error \<Rightarrow> string \<Rightarrow> exitingError" where
  "NewUnmarshalExitingError e m = \<lparr>ee_exitCode = UNMARSHAL_ERR, ee_cause = e, ee_message = m\<rparr>"

definition NewPluginFormatExitingError :: "go_error \<Rightarrow> string \<Rightarrow> exitingError" where
  "NewPluginFormatExitingError e m = \<lparr>ee_exitCode = PLUGIN_FORMAT_ERR, ee_cause = e, ee_message = m\<rparr>"

definition NewMD5CheckExitingError :: "go_error \<Rightarrow> string \<Rightarrow> exitingError" where
  "NewMD5CheckExitingError e m = \<lparr>ee_exitCode = MD5_CHECK_FAIL, ee_cause = e, ee_message = m\<rparr>"

definition NewDownloadExitingError :: "go_error \<Rightarrow> string \<Rightarrow> exitingError" where
  "NewDownloadExitingError e m = \<lparr>ee_exitCode = DOWNLOAD_FAIL, ee_cause = e, ee_message = m\<rparr>"

definition NewLoadInstalledPluginsExitingError :: "go_error \<Rightarrow> exitingError" where
  "NewLoadInstalledPluginsExitingError e = \<lparr>ee_exitCode = LOAD_INSTALLEDPLUGINS_ERR, ee_cause = e, ee_message = ''Load installed_plugins err: '' @ err_text e\<rparr>"

definition NewDumpInstalledPluginsExitingError :: "go_error \<Rightarrow> exitingError" where
  "NewDumpInstalledPluginsExitingError e = \<lparr>ee_exitCode = DUMP_INSTALLEDPLUGINS_ERR, ee_cause = e, ee_message = ''Update installed_plugins file err: '' @ err_text e\<rparr>"

definition NewGetOnlinePackageInfoExitingError :: "go_error \<Rightarrow> string \<Rightarrow> exitingError" where
  "NewGetOnlinePackageInfoExitingError e m = \<lparr>ee_exitCode = GET_ONLINE_PACKAGE_INFO_ERR, ee_cause = e, ee_message = m\<rparr>"

definition NewExecutablePermissionExitingError :: "go_error \<Rightarrow> string \<Rightarrow> exitingError" where
  "NewExecutablePermissionExitingError e m = \<lparr>ee_exitCode = EXECUTABLE_PERMISSION_ERR, ee_cause = e, ee_message = m\<rparr>"

definition NewOpenPluginLockFileError :: "go_error \<Rightarrow> go_error" where
  "NewOpenPluginLockFileError e = WrappedError ''Failed to open or create plugin-wise lock file: '' e []"

definition NewAcquirePluginExclusiveLockError :: "go_error \<Rightarrow> go_error" where
  "NewAcquirePluginExclusiveLockError e = WrappedError ''Failed to acquire plugin-wise exclusive lock: '' e []"

definition NewOpenPluginVersionLockFileError :: "go_error \<Rightarrow> go_error" where
  "NewOpenPluginVersionLockFileError e = WrappedError ''Failed to open or create plugin-version-wise lock file: '' e []"

definition NewAcquirePluginVersionSharedLockError :: "go_error \<Rightarrow> go_error" where
  "NewAcquirePluginVersionSharedLockError e = WrappedError ''Failed to acquire plugin-version-wise shared lock: '' e []"

definition NewAcquirePluginVersionExclusiveLockError :: "go_error \<Rightarrow> go_error" where
  "NewAcquirePluginVersionExclusiveLockError e = WrappedError ''Failed to acquire plugin-version-wise exclusive lock: '' e []"

text \<open>The exit code with its name, and the phrase of the error of the system, if there is one.\<close>

definition errProcess :: "int \<Rightarrow> go_error option \<Rightarrow> int \<times> string" where
  "errProcess exitCode err =
     (exitCode,
      (case map_of ErrorStrMap exitCode of None \<Rightarrow> ''UNKNOWN'' | Some name \<Rightarrow> name)
      @ (case Option.bind err as_errno of
           None \<Rightarrow> []
         | Some n \<Rightarrow> (case map_of ErrnoPhrases n of None \<Rightarrow> [] | Some phrase \<Rightarrow> CHR ''.'' # phrase)))"

section \<open>Options\<close>

record ExecFetchOptions =
  ef_File :: string
  ef_PluginName :: string
  ef_PluginId :: string
  ef_Version :: string
  ef_Local :: bool
  ef_FetchTimeoutInSeconds :: int

record VerifyFetchOptions =
  vf_Url :: string
  vf_FetchTimeoutInSeconds :: int

record ExecuteParams =
  ep_Params :: string
  ep_Separator :: string
  ep_ParamsV2 :: string
  ep_ExecutionTimeout :: "int option"
  ep_Foreground :: bool

text \<open>\<open>split\<close> is \<open>shlex.Split\<close> without its error.\<close>

definition SplitArgs :: "(string \<Rightarrow> string list) \<Rightarrow> ExecuteParams \<Rightarrow> string list" where
  "SplitArgs split ep =
     (if ep_ParamsV2 ep \<noteq> [] then split (ep_ParamsV2 ep)
      else split (replace_all (ep_Params ep) (if ep_Separator ep = [] then '','' else ep_Separator ep) '' ''))"

definition FetchFromLocalFile :: string where "FetchFromLocalFile = ''LocalFile''"
definition FetchFromLocalInstalled :: string where "FetchFromLocalInstalled = ''LocalInstalled''"
definition FetchFromOnline :: string where "FetchFromOnline = ''Online''"
definition AddSysTagText :: string where "AddSysTagText = ''add''"
definition RemoveSysTag :: string where "RemoveSysTag = ''remove''"

record Fetched =
  fe_PluginName :: string
  fe_PluginVersion :: string
  fe_PluginType :: string
  fe_AddSysTag :: bool
  Entrypoint :: string
  ExecutionTimeoutInSeconds :: int
  EnvPluginDir :: string
  EnvPrePluginDir :: string

section \<open>State\<close>

text \<open>
  What is done to plugins; the locks held are a list of files with \<open>True\<close> for an exclusive one. The
  variables are those that the report of an execution reads when the function ends.
\<close>

datatype plugin_event =
    PluginRan string "string list" int "string list" bool
  | PackageFetched string string
  | PackageDigested string string
  | PackageUnzipped string string
  | PluginInserted PluginInfo
  | PluginUpdated nat PluginInfo
  | PluginDeleted nat
  | PluginTreeRemoved string
  | StatusReported PluginStatus
  | PluginsPrinted "PluginInfo list"
  | StatusPrinted "PluginStatus list"

record execute_vars =
  ev_pluginName :: string
  ev_pluginVersion :: string
  ev_pluginType :: string
  ev_resource :: string
  ev_errorCode :: string
  ev_localArch :: string

record plugin_run =
  pr_store :: plugin_store
  pr_metrics :: metrics
  PLUGINDIR :: string
  pr_vars :: execute_vars
  pr_locks :: "(string \<times> bool) list"
  pr_events :: "((string \<times> bool) list \<times> plugin_event) list"

datatype flock_result = Flocked | WouldBlock | FlockError go_error

text \<open>An entry of an archive: its name, whether it is a directory, and its content if it can be read.\<close>

type_synonym zip_entry = "string \<times> bool \<times> (go_error + string)"

record pluginConfig =
  cf_Name :: string
  cf_Arch :: string
  cf_OsType :: string
  cf_RunPath :: string
  cf_Timeout :: string
  cf_Publisher :: string
  cf_Version :: string
  cf_PluginType :: plugin_type
  cf_HeartbeatInterval :: int
  cf_AddSysTag :: bool

text \<open>
  The outside. \<open>re_expired\<close> says whether the deadline of a context has passed, and \<open>re_done_first\<close>
  whether it passes during a pause; JSON, the format of archives, the answers of servers and files,
  \<open>flock\<close> of the system and \<open>shlex\<close> are parameters. The answer to the question whether to install an
  old version is \<open>None\<close> when neither y nor n ever comes.
\<close>

record run_env =
  re_store :: store_env
  re_metrics :: metrics_env
  re_uname :: "nat \<Rightarrow> go_error + string"
  re_list :: "string \<Rightarrow> go_error + PluginInfo list"
  re_list_request :: "string \<Rightarrow> string \<Rightarrow> string \<Rightarrow> string \<Rightarrow> string"
  re_status_request :: "PluginStatus \<Rightarrow> string"
  re_config :: "string \<Rightarrow> go_error + pluginConfig"
  re_read_file :: "nat \<Rightarrow> string \<Rightarrow> go_error + string"
  re_zip :: "string \<Rightarrow> go_error + zip_entry list"
  re_get :: "nat \<Rightarrow> string \<Rightarrow> go_error option"
  re_create :: "nat \<Rightarrow> string \<Rightarrow> go_error option"
  re_copy :: "nat \<Rightarrow> string \<Rightarrow> go_error option"
  re_expired :: "nat \<Rightarrow> bool"
  re_done_first :: "nat \<Rightarrow> bool"
  re_open_lock :: "nat \<Rightarrow> string \<Rightarrow> go_error option"
  re_flock :: "nat \<Rightarrow> string \<Rightarrow> bool \<Rightarrow> flock_result"
  re_remove_all :: "nat \<Rightarrow> string \<Rightarrow> go_error option"
  re_split :: "string \<Rightarrow> string list"
  re_answer :: "nat \<Rightarrow> bool option"
  re_terminal :: "nat \<Rightarrow> bool"

abbreviation re_mc :: "run_env \<Rightarrow> machine" where "re_mc re \<equiv> se_mc (re_store re)"
abbreviation re_env :: "run_env \<Rightarrow> env" where "re_env re \<equiv> me_env (re_metrics re)"
abbreviation pr_world :: "plugin_run \<Rightarrow> world" where "pr_world s \<equiv> ps_world (pr_store s)"

type_synonym 'a pv = "(plugin_run, 'a) prog"

definition in_store :: "'a st \<Rightarrow> 'a pv" where
  "in_store = zoom pr_store (\<lambda>t s. s\<lparr>pr_store := t\<rparr>)"

definition pv_on :: "(world \<Rightarrow> 'a \<times> world) \<Rightarrow> 'a pv" where
  "pv_on f = in_store (ps_on f)"

definition log_plugin :: "plugin_event \<Rightarrow> unit pv" where
  "log_plugin e = modify (\<lambda>s. s\<lparr>pr_events := pr_events s @ [(pr_locks s, e)]\<rparr>)"

text \<open>An effect that is deferred happens also when the function panics.\<close>

definition deferring :: "('s, 'a) prog \<Rightarrow> ('s \<Rightarrow> 's) \<Rightarrow> ('s, 'a) prog" where
  "deferring m f s = map_option (\<lambda>(r, s1). (r, f s1)) (m s)"

lemma wpr_deferring [wpr_rules]: "wpr (deferring m f) Q P s = wpr m (\<lambda>x s1. Q x (f s1)) (\<lambda>p s1. P p (f s1)) s"
  by (auto simp: wpr_def deferring_def split: option.splits prod.splits outcome.splits)

text \<open>A step that may fail: with an error the rest is not run.\<close>

definition unless_failed :: "('s, 'e + 'a) prog \<Rightarrow> ('a \<Rightarrow> ('s, 'e + 'b) prog) \<Rightarrow> ('s, 'e + 'b) prog" where
  "unless_failed m f = seq m (\<lambda>r. case r of Inl e \<Rightarrow> ret (Inl e) | Inr x \<Rightarrow> f x)"

section \<open>Locks\<close>

definition ErrDeadlineExceeded :: go_error where "ErrDeadlineExceeded = PlainError ''i/o timeout''"
definition EWOULDBLOCK :: go_error where "EWOULDBLOCK = Errno 11 ''resource temporarily unavailable''"
definition flockRetryTimeout :: duration where "flockRetryTimeout = 50000000"

text \<open>
  The loop of \<open>flock\<close>: with no timeout it waits for as long as the lock is taken, so the loop is partial.
\<close>

partial_function (option) flock_loop ::
  "run_env \<Rightarrow> string \<Rightarrow> bool \<Rightarrow> duration \<Rightarrow> instant \<Rightarrow> world \<Rightarrow> (go_error option \<times> world) option" where
  "flock_loop re path ex timeout t w =
     (case re_flock re (ticks w) path ex of
        Flocked \<Rightarrow> Some (None, tick w)
      | FlockError e \<Rightarrow> Some (Some e, tick w)
      | WouldBlock \<Rightarrow>
          if timeout \<noteq> 0 then
            (let (now, w1) = read_clock (re_env re) (tick w) in
             if wrap64 (timeout - flockRetryTimeout) < time_sub now t then Some (Some ErrDeadlineExceeded, w1)
             else flock_loop re path ex timeout t (tick w1))
          else flock_loop re path ex timeout t (tick (tick w)))"

declare flock_loop.simps [code]

definition flock :: "run_env \<Rightarrow> string \<Rightarrow> bool \<Rightarrow> duration \<Rightarrow> world \<Rightarrow> (go_error option \<times> world) option" where
  "flock re path ex timeout w =
     (if timeout \<noteq> 0 then (let (t, w1) = read_clock (re_env re) w in flock_loop re path ex timeout t w1)
      else flock_loop re path ex timeout 0 w)"

definition tryFlock :: "run_env \<Rightarrow> string \<Rightarrow> bool \<Rightarrow> world \<Rightarrow> go_error option \<times> world" where
  "tryFlock re path ex w =
     (case re_flock re (ticks w) path ex of
        Flocked \<Rightarrow> (None, tick w) | FlockError e \<Rightarrow> (Some e, tick w) | WouldBlock \<Rightarrow> (Some EWOULDBLOCK, tick w))"

definition isLockingError :: "go_error \<Rightarrow> bool" where
  "isLockingError e \<longleftrightarrow> e = EWOULDBLOCK"

text \<open>A lock that was acquired is held until it is released.\<close>

definition hold :: "string \<Rightarrow> bool \<Rightarrow> plugin_run \<Rightarrow> plugin_run" where
  "hold path ex s = s\<lparr>pr_locks := (path, ex) # pr_locks s\<rparr>"

definition release :: "string \<Rightarrow> bool \<Rightarrow> plugin_run \<Rightarrow> plugin_run" where
  "release path ex s = s\<lparr>pr_locks := remove1 (path, ex) (pr_locks s)\<rparr>"

definition acquiring :: "(go_error option) pv \<Rightarrow> string \<Rightarrow> bool \<Rightarrow> (go_error option) pv" where
  "acquiring m path ex =
     seq m (\<lambda>e. case e of Some x \<Rightarrow> ret (Some x) | None \<Rightarrow> seq (modify (hold path ex)) (\<lambda>_. ret None))"

definition try_lock :: "run_env \<Rightarrow> string \<Rightarrow> bool \<Rightarrow> (go_error option) pv" where
  "try_lock re path ex = acquiring (pv_on (tryFlock re path ex)) path ex"

definition waited :: "run_env \<Rightarrow> string \<Rightarrow> bool \<Rightarrow> duration \<Rightarrow> (go_error option) pv" where
  "waited re path ex timeout s =
     map_option (\<lambda>(e, w). (Returns e, s\<lparr>pr_store := (pr_store s)\<lparr>ps_world := w\<rparr>\<rparr>)) (flock re path ex timeout (pr_world s))"

definition wait_lock :: "run_env \<Rightarrow> string \<Rightarrow> bool \<Rightarrow> duration \<Rightarrow> (go_error option) pv" where
  "wait_lock re path ex timeout = acquiring (waited re path ex timeout) path ex"

subsection \<open>The locks of plugins\<close>

definition getPluginManagerCachePath :: "run_env \<Rightarrow> (go_error + string) pv" where
  "getPluginManagerCachePath re =
     seq (pv_on (GetCachePath (re_mc re))) (\<lambda>(cachePath, err).
     case err of
       Some e \<Rightarrow> ret (Inl e)
     | None \<Rightarrow>
         (let p = path_join [cachePath, ''plugin-manager''] in
          seq (pv_on (MakeSurePath (re_mc re) p)) (\<lambda>e. ret (case e of Some x \<Rightarrow> Inl x | None \<Rightarrow> Inr p))))"

definition open_lock_file :: "run_env \<Rightarrow> string \<Rightarrow> (go_error + string) pv" where
  "open_lock_file re name =
     unless_failed (getPluginManagerCachePath re) (\<lambda>dir.
     let p = path_join [dir, name] in
     seq (pv_on (ask (\<lambda>n. re_open_lock re n p))) (\<lambda>e. ret (case e of Some x \<Rightarrow> Inl x | None \<Rightarrow> Inr p)))"

definition openPluginLockFile :: "run_env \<Rightarrow> string \<Rightarrow> (go_error + string) pv" where
  "openPluginLockFile re pluginName = open_lock_file re (pluginName @ ''.lock'')"

definition openPluginVersionLockFile :: "run_env \<Rightarrow> string \<Rightarrow> string \<Rightarrow> (go_error + string) pv" where
  "openPluginVersionLockFile re pluginName version = open_lock_file re (pluginName @ ''.v'' @ version @ ''.lock'')"

text \<open>The guard of an installation: alone on the version, or together with those who wait for it.\<close>

definition InstallLockGuard_Do :: "run_env \<Rightarrow> string \<Rightarrow> string \<Rightarrow> duration \<Rightarrow> 'a pv \<Rightarrow> 'a pv \<Rightarrow> (go_error + 'a) pv" where
  "InstallLockGuard_Do re pluginName version timeout onExclusiveLocked onSharedLocked =
     seq (openPluginVersionLockFile re pluginName version) (\<lambda>r.
     case r of
       Inl e \<Rightarrow> ret (Inl (NewOpenPluginVersionLockFileError e))
     | Inr path \<Rightarrow>
         seq (try_lock re path True) (\<lambda>e.
         case e of
           None \<Rightarrow> deferring (seq onExclusiveLocked (\<lambda>x. ret (Inr x))) (release path True)
         | Some x \<Rightarrow>
             if \<not> isLockingError x then ret (Inl (NewAcquirePluginVersionExclusiveLockError x))
             else
               seq (wait_lock re path False timeout) (\<lambda>e2.
               case e2 of
                 Some y \<Rightarrow> ret (Inl (NewAcquirePluginVersionSharedLockError y))
               | None \<Rightarrow> deferring (seq onSharedLocked (\<lambda>x. ret (Inr x))) (release path False))))"

end
