(* ===== verification/Md5.thy ===== *)
theory Md5
  imports Go_Strings "HOL-Library.Word"
begin

text \<open>
  \<open>crypto/md5\<close> with its hexadecimal text, as \<open>ComputeStrMd5\<close> of \<open>agent/util/utils.go\<close> uses it: the
  algorithm of RFC 1321 on 32-bit words.
\<close>

unbundle bit_operations_syntax

definition md5_shifts :: "nat list" where
  "md5_shifts = concat (map (\<lambda>xs. concat (replicate 4 xs)) [[7, 12, 17, 22], [5, 9, 14, 20], [4, 11, 16, 23], [6, 10, 15, 21]])"

definition md5_table :: "32 word list" where
  "md5_table =
    [0xd76aa478, 0xe8c7b756, 0x242070db, 0xc1bdceee, 0xf57c0faf, 0x4787c62a, 0xa8304613, 0xfd469501,
     0x698098d8, 0x8b44f7af, 0xffff5bb1, 0x895cd7be, 0x6b901122, 0xfd987193, 0xa679438e, 0x49b40821,
     0xf61e2562, 0xc040b340, 0x265e5a51, 0xe9b6c7aa, 0xd62f105d, 0x02441453, 0xd8a1e681, 0xe7d3fbc8,
     0x21e1cde6, 0xc33707d6, 0xf4d50d87, 0x455a14ed, 0xa9e3e905, 0xfcefa3f8, 0x676f02d9, 0x8d2a4c8a,
     0xfffa3942, 0x8771f681, 0x6d9d6122, 0xfde5380c, 0xa4beea44, 0x4bdecfa9, 0xf6bb4b60, 0xbebfbc70,
     0x289b7ec6, 0xeaa127fa, 0xd4ef3085, 0x04881d05, 0xd9d4d039, 0xe6db99e5, 0x1fa27cf8, 0xc4ac5665,
     0xf4292244, 0x432aff97, 0xab9423a7, 0xfc93a039, 0x655b59c3, 0x8f0ccc92, 0xffeff47d, 0x85845dd1,
     0x6fa87e4f, 0xfe2ce6e0, 0xa3014314, 0x4e0811a1, 0xf7537e82, 0xbd3af235, 0x2ad7d2bb, 0xeb86d391]"

definition rotate_left :: "nat \<Rightarrow> 32 word \<Rightarrow> 32 word" where
  "rotate_left n x = push_bit n x OR drop_bit (32 - n) x"

text \<open>One of the 64 steps on the four registers; \<open>m\<close> holds the words of the block.\<close>

definition md5_step :: "32 word list \<Rightarrow> nat \<Rightarrow> 32 word \<times> 32 word \<times> 32 word \<times> 32 word \<Rightarrow>
  32 word \<times> 32 word \<times> 32 word \<times> 32 word" where
  "md5_step m i = (\<lambda>(a, b, c, d).
     (let (f, g) =
        (if i < 16 then ((b AND c) OR (NOT b AND d), i)
         else if i < 32 then ((d AND b) OR (NOT d AND c), (5 * i + 1) mod 16)
         else if i < 48 then (b XOR c XOR d, (3 * i + 5) mod 16)
         else (c XOR (b OR NOT d), (7 * i) mod 16)) in
      (d, b + rotate_left (md5_shifts ! i) (f + a + md5_table ! i + m ! g), b, c)))"

definition word_of_bytes :: "string \<Rightarrow> 32 word" where
  "word_of_bytes bs = foldr (\<lambda>c acc. acc * 256 + of_nat (byte c)) bs 0"

fun chunks :: "nat \<Rightarrow> nat \<Rightarrow> 'a list \<Rightarrow> 'a list list" where
  "chunks 0 n xs = []"
| "chunks (Suc k) n xs = take n xs # chunks k n (drop n xs)"

definition md5_block :: "32 word \<times> 32 word \<times> 32 word \<times> 32 word \<Rightarrow> string \<Rightarrow> 32 word \<times> 32 word \<times> 32 word \<times> 32 word" where
  "md5_block s block =
     (let m = map word_of_bytes (chunks 16 4 block); (a, b, c, d) = s;
          (a', b', c', d') = fold (md5_step m) [0..<64] s in
      (a + a', b + b', c + c', d + d'))"

fun bytes_of_nat :: "nat \<Rightarrow> nat \<Rightarrow> string" where
  "bytes_of_nat 0 n = []"
| "bytes_of_nat (Suc k) n = char_of (n mod 256) # bytes_of_nat k (n div 256)"

definition md5_pad :: "string \<Rightarrow> string" where
  "md5_pad s = s @ [char_of (128 :: nat)] @ replicate ((119 - length s mod 64) mod 64) (char_of (0 :: nat))
     @ bytes_of_nat 8 (8 * length s)"

definition md5_sum :: "string \<Rightarrow> string" where
  "md5_sum s =
     (let p = md5_pad s;
          (a, b, c, d) = fold (\<lambda>block st. md5_block st block) (chunks (length p div 64) 64 p)
             (0x67452301, 0xefcdab89, 0x98badcfe, 0x10325476) in
      concat (map (\<lambda>w. bytes_of_nat 4 (unat w)) [a, b, c, d]))"

definition hex_digit :: "nat \<Rightarrow> char" where
  "hex_digit n = (if n < 10 then char_of (48 + n) else char_of (87 + n))"

definition ComputeStrMd5 :: "string \<Rightarrow> string" where
  "ComputeStrMd5 s = concat (map (\<lambda>c. [hex_digit (byte c div 16), hex_digit (byte c mod 16)]) (md5_sum s))"

end
