(* ===== verification/Version_Compare.thy ===== *)
theory Version_Compare
  imports Utf8 "HOL-Library.List_Lexorder"
begin

text \<open>
  \<open>agent/util/versionutil/compare.go\<close>: splitting a version string into runs of
  characters of one class, and the three-way comparison of two versions. A version is the
  list of its runes (what \<open>[]rune(version)\<close> yields), a rune its code point. The abstract
  specification is a sort key per version in a linear order; \<open>CompareVersion\<close> is shown
  to be the comparison of the keys.
\<close>

section \<open>Runes\<close>

text \<open>
  \<open>unicode.IsDigit\<close> of Go 1.20 (Unicode 13): the first code points of the runs of ten
  decimal digits, and the fifty mathematical digits.
\<close>

definition digit_starts :: "rune list" where
  "digit_starts =
    [48, 1632, 1776, 1984, 2406, 2534, 2662, 2790, 2918, 3046, 3174, 3302, 3430, 3558, 3664,
     3792, 3872, 4160, 4240, 6112, 6160, 6470, 6608, 6784, 6800, 6992, 7088, 7232, 7248, 42528,
     43216, 43264, 43472, 43504, 43600, 44016, 65296, 66720, 68912, 69734, 69872, 69942, 70096,
     70384, 70736, 70864, 71248, 71360, 71472, 71904, 72016, 72784, 73040, 73120, 92768, 93008,
     123200, 123632, 125264, 130032]"

definition isDigit :: "rune \<Rightarrow> bool" where
  "isDigit r \<longleftrightarrow> list_ex (\<lambda>s. s \<le> r \<and> r \<le> s + 9) digit_starts \<or> (120782 \<le> r \<and> r \<le> 120831)"

text \<open>\<open>unicode.IsSpace\<close>, which \<open>strings.TrimSpace\<close> uses.\<close>

definition isSpace :: "rune \<Rightarrow> bool" where
  "isSpace r \<longleftrightarrow> (9 \<le> r \<and> r \<le> 13) \<or> (8192 \<le> r \<and> r \<le> 8202)
     \<or> r \<in> set [32, 133, 160, 5760, 8232, 8233, 8239, 8287, 12288]"

definition trim_runes :: "rune list \<Rightarrow> rune list" where
  "trim_runes s = rev (dropWhile isSpace (rev (dropWhile isSpace s)))"

text \<open>\<open>strconv.Atoi\<close> reads the bytes of the part.\<close>

definition atoi_runes :: "rune list \<Rightarrow> int" where
  "atoi_runes rs = fst (atoi (concat (map utf8 rs)))"

section \<open>Classes and splitting\<close>

datatype charType = TypeNumber | TypePeriod | TypeString

definition classifyChar :: "rune \<Rightarrow> charType" where
  "classifyChar c =
     (if c = 46 then TypePeriod else if isDigit c then TypeNumber else TypeString)"

text \<open>
  The loop of \<open>splitVersionString\<close>: \<open>s\<close> is the segment so far and \<open>prevType\<close> the class
  of its last character.
\<close>

fun split_segments :: "rune list \<Rightarrow> charType \<Rightarrow> rune list \<Rightarrow> rune list list" where
  "split_segments s prevType [] = [s]"
| "split_segments s prevType (c # cs) =
     (let newType = classifyChar c in
      if prevType \<noteq> newType \<or> prevType = TypePeriod
      then s # split_segments [c] newType cs
      else split_segments (s @ [c]) newType cs)"

definition splitVersionString :: "rune list \<Rightarrow> rune list list" where
  "splitVersionString version =
     (case trim_runes version of [] \<Rightarrow> []
      | c # cs \<Rightarrow> split_segments [c] (classifyChar c) cs)"

section \<open>Comparison\<close>

text \<open>\<open>strings.Compare\<close>: UTF-8 keeps the order of code points, so runes compare as bytes do.\<close>

definition strings_compare :: "rune list \<Rightarrow> rune list \<Rightarrow> int" where
  "strings_compare a b = (if a = b then 0 else if a < b then -1 else 1)"

text \<open>
  The body of the comparison loop at one index: \<open>Some r\<close> when it returns \<open>r\<close>, \<open>None\<close> when
  it goes on. The class of the left part is that of its last character, the class of the
  right part that of its first, as in the source.
\<close>

definition compare_parts :: "rune list \<Rightarrow> rune list \<Rightarrow> int option" where
  "compare_parts a b =
     (let typeA = classifyChar (last a); typeB = classifyChar (hd b) in
      if typeA = typeB then
        (if typeA = TypeString then
           (let result = strings_compare a b in if result \<noteq> 0 then Some result else None)
         else if typeA = TypeNumber then
           (let intA = atoi_runes a; intB = atoi_runes b in
            if intA > intB then Some 1 else if intA < intB then Some (-1) else None)
         else None)
      else if typeA \<noteq> TypeString \<and> typeB = TypeString then Some 1
      else if typeA = TypeString \<and> typeB \<noteq> TypeString then Some (-1)
      else if typeA = TypeNumber then Some 1 else Some (-1))"

text \<open>The loop over the common length, then the verdict on the first part the shorter lacks.\<close>

fun compare_loop :: "rune list list \<Rightarrow> rune list list \<Rightarrow> int" where
  "compare_loop [] [] = 0"
| "compare_loop (a # as) [] = (if classifyChar (hd a) = TypeString then -1 else 1)"
| "compare_loop [] (b # bs) = (if classifyChar (hd b) = TypeString then 1 else -1)"
| "compare_loop (a # as) (b # bs) =
     (case compare_parts a b of Some r \<Rightarrow> r | None \<Rightarrow> compare_loop as bs)"

definition CompareVersion :: "rune list \<Rightarrow> rune list \<Rightarrow> int" where
  "CompareVersion verA verB = compare_loop (splitVersionString verA) (splitVersionString verB)"

section \<open>What a split yields\<close>

definition segment_of :: "charType \<Rightarrow> rune list \<Rightarrow> bool" where
  "segment_of ty s \<longleftrightarrow> s \<noteq> [] \<and> list_all (\<lambda>c. classifyChar c = ty) s
     \<and> (ty = TypePeriod \<longrightarrow> length s = 1)"

definition segment :: "rune list \<Rightarrow> bool" where
  "segment s \<longleftrightarrow> segment_of (classifyChar (hd s)) s"

lemma segment_of_hd: "segment_of ty s \<Longrightarrow> classifyChar (hd s) = ty"
  by (cases s) (auto simp: segment_of_def)

lemma segment_of_last: "segment_of ty s \<Longrightarrow> classifyChar (last s) = ty"
  by (auto simp: segment_of_def list_all_iff)

lemma segment_of_segment: "segment_of ty s \<Longrightarrow> segment s"
  by (simp add: segment_def segment_of_hd)

lemma segment_of_single [simp]: "segment_of (classifyChar c) [c]"
  by (simp add: segment_of_def)

lemma segment_of_snoc:
  "segment_of ty s \<Longrightarrow> classifyChar c = ty \<Longrightarrow> ty \<noteq> TypePeriod \<Longrightarrow> segment_of ty (s @ [c])"
  by (simp add: segment_of_def)

lemma segment_last: "segment s \<Longrightarrow> classifyChar (last s) = classifyChar (hd s)"
  unfolding segment_def by (rule segment_of_last)

lemma concat_split_segments: "concat (split_segments s p cs) = s @ cs"
  by (induction s p cs rule: split_segments.induct) (auto simp: Let_def)

lemma split_segments_segment:
  "segment_of p s \<Longrightarrow> list_all segment (split_segments s p cs)"
proof (induction s p cs rule: split_segments.induct)
  case (2 s p c cs)
  show ?case
  proof (cases "p \<noteq> classifyChar c \<or> p = TypePeriod")
    case True
    with 2 show ?thesis by (simp add: Let_def segment_of_segment)
  next
    case False
    then have "segment_of (classifyChar c) (s @ [c])"
      using 2(3) by (intro segment_of_snoc) simp_all
    with False 2(2) [OF refl False] show ?thesis by (simp add: Let_def)
  qed
qed (simp add: segment_of_segment)

lemma splitVersionString_segments: "list_all segment (splitVersionString v)"
  by (simp add: splitVersionString_def split_segments_segment split: list.split)

text \<open>Adjacent segments differ in class unless one of them is a period.\<close>

fun alternating :: "rune list list \<Rightarrow> bool" where
  "alternating (a # b # xs) \<longleftrightarrow>
     (classifyChar (hd a) = TypePeriod \<or> classifyChar (hd a) \<noteq> classifyChar (hd b))
      \<and> alternating (b # xs)"
| "alternating xs \<longleftrightarrow> True"

lemma split_segments_hd: "s \<noteq> [] \<Longrightarrow> \<exists>y ys. split_segments s p cs = y # ys \<and> hd y = hd s"
proof (induction s p cs rule: split_segments.induct)
  case (2 s p c cs)
  show ?case
  proof (cases "p \<noteq> classifyChar c \<or> p = TypePeriod")
    case True
    then show ?thesis by (simp add: Let_def)
  next
    case False
    with 2(2) [OF refl False] 2(3) show ?thesis by (simp add: Let_def)
  qed
qed simp

lemma split_segments_alternating:
  "s \<noteq> [] \<Longrightarrow> p = classifyChar (hd s) \<Longrightarrow> alternating (split_segments s p cs)"
proof (induction s p cs rule: split_segments.induct)
  case (2 s p c cs)
  show ?case
  proof (cases "p \<noteq> classifyChar c \<or> p = TypePeriod")
    case True
    obtain y ys where y: "split_segments [c] (classifyChar c) cs = y # ys" "hd y = c"
      using split_segments_hd [of "[c]" "classifyChar c" cs] by auto
    have "alternating (y # ys)" using 2(1) [OF refl True] y by simp
    with True y 2(4) show ?thesis by (auto simp: Let_def)
  next
    case False
    with 2(2) [OF refl False] 2(3,4) show ?thesis by (simp add: Let_def)
  qed
qed simp

section \<open>The sort key of a version\<close>

text \<open>
  A text part sorts before the end of the version, which sorts before a period, which sorts
  before a number.
\<close>

datatype version_part = TextPart "rune list" | EndPart | PeriodPart | NumberPart int

fun part_rank :: "version_part \<Rightarrow> nat" where
  "part_rank (TextPart s) = 0"
| "part_rank EndPart = 1"
| "part_rank PeriodPart = 2"
| "part_rank (NumberPart n) = 3"

instantiation version_part :: linorder
begin

fun less_version_part :: "version_part \<Rightarrow> version_part \<Rightarrow> bool" where
  "less_version_part (TextPart s) (TextPart t) \<longleftrightarrow> s < t"
| "less_version_part (NumberPart m) (NumberPart n) \<longleftrightarrow> m < n"
| "less_version_part a b \<longleftrightarrow> part_rank a < part_rank b"

definition less_eq_version_part :: "version_part \<Rightarrow> version_part \<Rightarrow> bool" where
  "less_eq_version_part a b \<longleftrightarrow> a < b \<or> a = b"

instance
proof
  fix x y z :: version_part
  show "x < y \<longleftrightarrow> x \<le> y \<and> \<not> y \<le> x"
    by (cases x; cases y) (auto simp: less_eq_version_part_def)
  show "x \<le> x"
    by (simp add: less_eq_version_part_def)
  show "x \<le> y \<Longrightarrow> y \<le> z \<Longrightarrow> x \<le> z"
    by (cases x; cases y; cases z) (auto simp: less_eq_version_part_def)
  show "x \<le> y \<Longrightarrow> y \<le> x \<Longrightarrow> x = y"
    by (cases x; cases y) (auto simp: less_eq_version_part_def)
  show "x \<le> y \<or> y \<le> x"
    by (cases x; cases y) (auto simp: less_eq_version_part_def)
qed

end

definition part_key :: "rune list \<Rightarrow> version_part" where
  "part_key s =
     (case classifyChar (hd s) of TypeString \<Rightarrow> TextPart s | TypePeriod \<Rightarrow> PeriodPart
      | TypeNumber \<Rightarrow> NumberPart (atoi_runes s))"

definition version_key :: "rune list \<Rightarrow> version_part list" where
  "version_key v = map part_key (splitVersionString v) @ [EndPart]"

definition three_way :: "'a::linorder \<Rightarrow> 'a \<Rightarrow> int" where
  "three_way x y = (if x < y then -1 else if x = y then 0 else 1)"

lemma three_way_Cons:
  "three_way (x # xs) (y # ys) = (if x = y then three_way xs ys else three_way x y)"
  by (auto simp: three_way_def)

lemma three_way_neg: "three_way y x = - three_way x y"
  by (auto simp: three_way_def)

lemma part_key_End [simp]: "part_key s \<noteq> EndPart"
  by (simp add: part_key_def split: charType.splits)

lemma compare_parts_key:
  assumes "segment a"
  shows "compare_parts a b =
    (if part_key a = part_key b then None else Some (three_way (part_key a) (part_key b)))"
proof -
  have "classifyChar (last a) = classifyChar (hd a)" using assms by (rule segment_last)
  then show ?thesis
    by (cases "classifyChar (hd a)"; cases "classifyChar (hd b)")
      (simp_all add: compare_parts_def part_key_def three_way_def strings_compare_def Let_def)
qed

lemma compare_loop_key:
  "list_all segment as \<Longrightarrow>
    compare_loop as bs = three_way (map part_key as @ [EndPart]) (map part_key bs @ [EndPart])"
proof (induction as bs rule: compare_loop.induct)
  case (2 a as)
  then show ?case
    by (cases "classifyChar (hd a)") (simp_all add: part_key_def three_way_def)
next
  case (3 b bs)
  then show ?case
    by (cases "classifyChar (hd b)") (simp_all add: part_key_def three_way_def)
next
  case (4 a as b bs)
  then show ?case
    by (simp add: compare_parts_key three_way_Cons)
qed (simp add: three_way_def)

lemma CompareVersion_key: "CompareVersion a b = three_way (version_key a) (version_key b)"
  by (simp add: CompareVersion_def version_key_def compare_loop_key splitVersionString_segments)

section \<open>Properties\<close>

text \<open>Splitting loses nothing and makes the intended cuts: the parts of a version
  concatenate to the version without its surrounding white space, every part is a non-empty
  run of one character class, a period is a part of its own, and two adjacent parts of one
  class are periods.\<close>

theorem splitVersionString_parts:
  "concat (splitVersionString v) = trim_runes v
   \<and> list_all segment (splitVersionString v) \<and> alternating (splitVersionString v)"
proof (intro conjI)
  show "concat (splitVersionString v) = trim_runes v"
    by (simp add: splitVersionString_def concat_split_segments split: list.split)
  show "list_all segment (splitVersionString v)"
    by (rule splitVersionString_segments)
  show "alternating (splitVersionString v)"
    by (simp add: splitVersionString_def split_segments_alternating split: list.split)
qed

text \<open>Comparing two versions is comparing their keys in the lexicographic order in which
  a text part comes before the end of the version, the end before a period and a period before
  a number, numbers by value. The comparison is thus a total preorder, although the code reads
  the class of the left part from its last character.\<close>

theorem CompareVersion_is_key_order:
  "CompareVersion a b = (if version_key a < version_key b then -1
     else if version_key a = version_key b then 0 else 1)"
  by (simp add: CompareVersion_key three_way_def)

text \<open>The comparison is antisymmetric and transitive: swapping the arguments negates the
  result, and when a is at most b and b at most c then a is at most c, strictly when either
  step is strict.\<close>

theorem CompareVersion_preorder:
  "CompareVersion b a = - CompareVersion a b
   \<and> (CompareVersion a b \<le> 0 \<longrightarrow> CompareVersion b c \<le> 0 \<longrightarrow>
        CompareVersion a c \<le> 0 \<and>
        (CompareVersion a b < 0 \<or> CompareVersion b c < 0 \<longrightarrow> CompareVersion a c < 0))"
  unfolding CompareVersion_key three_way_neg [of "version_key b"]
  by (auto simp: three_way_def split: if_splits)

definition ascii_runes :: "string \<Rightarrow> rune list" where
  "ascii_runes s = map byte s"

theorem CompareVersion_preorder_witness:
  "CompareVersion (ascii_runes ''1.2rc1'') (ascii_runes ''1.10'') < 0"
proof -
  have "CompareVersion (ascii_runes ''1.2rc1'') (ascii_runes ''1.2'') = -1"
    "CompareVersion (ascii_runes ''1.2'') (ascii_runes ''1.10'') = -1"
    by code_simp+
  then show ?thesis
    using CompareVersion_preorder [of "ascii_runes ''1.2''" "ascii_runes ''1.2rc1''"
        "ascii_runes ''1.10''"] by simp
qed

end
