(* ===== verification/Plugin_Commands.thy ===== *)
theory Plugin_Commands
  imports Plugin_Locks Md5 Version_Compare
begin

text \<open>
  The operations of the plugin manager's own program, \<open>agent/pluginmanager/acspluginmanager/acspluginmanager.go\<close>:
  what is known of a plugin online and on the machine, running it, installing it from a file and from
  the server, removing it, and its reports; with \<open>common/zipfile\<close>, the downloads of
  \<open>agent/util/httputil.go\<close> and \<open>util.go\<close>, and the choice of the operation in \<open>main/main.go\<close>.
\<close>

section \<open>Archives and downloads\<close>

text \<open>A context has a deadline or none.\<close>

definition ctx_done :: "run_env \<Rightarrow> bool \<Rightarrow> bool pv" where
  "ctx_done re ctx = (if ctx then pv_on (ask (re_expired re)) else ret False)"

definition ctx_Err :: go_error where "ctx_Err = PlainError ''context deadline exceeded''"

definition open_zip :: "run_env \<Rightarrow> string \<Rightarrow> (go_error + zip_entry list) pv" where
  "open_zip re zipFile =
     unless_failed (pv_on (ask (\<lambda>n. re_read_file re n zipFile))) (\<lambda>content. ret (re_zip re content))"

fun peek_entries :: "string \<Rightarrow> zip_entry list \<Rightarrow> go_error + string" where
  "peek_entries target [] = Inl os_ErrNotExist"
| "peek_entries target ((name, dir, content) # es) =
     (if dir \<or> path_clean name \<noteq> target then peek_entries target es else content)"

definition PeekFile :: "run_env \<Rightarrow> string \<Rightarrow> string \<Rightarrow> (go_error + string) pv" where
  "PeekFile re zipFile target =
     unless_failed (open_zip re zipFile) (\<lambda>es. ret (peek_entries (path_clean target) es))"

text \<open>An entry goes where its name says, below the directory or not.\<close>

definition unzip_entry :: "run_env \<Rightarrow> string \<Rightarrow> zip_entry \<Rightarrow> (go_error option) pv" where
  "unzip_entry re destDir e =
     (case e of (name, dir, content) \<Rightarrow>
        (let fpath = path_join [destDir, name] in
         if dir then seq (pv_on (MakeSurePath (re_mc re) fpath)) (\<lambda>_. ret None)
         else
           seq (pv_on (MakeSurePath (re_mc re) (path_dir fpath))) (\<lambda>err.
           case err of
             Some x \<Rightarrow> ret (Some x)
           | None \<Rightarrow> (case content of
                 Inl x \<Rightarrow> ret (Some x)
               | Inr c \<Rightarrow> pv_on (WriteStringToFile (re_mc re) fpath c)))))"

primrec unzip_entries :: "run_env \<Rightarrow> bool \<Rightarrow> string \<Rightarrow> zip_entry list \<Rightarrow> (go_error option) pv" where
  "unzip_entries re ctx destDir [] = ret None"
| "unzip_entries re ctx destDir (e # es) =
     seq (ctx_done re ctx) (\<lambda>expired.
     if expired then ret (Some ctx_Err)
     else
       seq (unzip_entry re destDir e) (\<lambda>err.
       case err of Some x \<Rightarrow> ret (Some x) | None \<Rightarrow> unzip_entries re ctx destDir es))"

definition UnzipContext :: "run_env \<Rightarrow> bool \<Rightarrow> string \<Rightarrow> string \<Rightarrow> (go_error option) pv" where
  "UnzipContext re ctx zipFile destDir =
     seq (open_zip re zipFile) (\<lambda>r.
     case r of
       Inl e \<Rightarrow> ret (Some e)
     | Inr es \<Rightarrow> seq (log_plugin (PackageUnzipped zipFile destDir)) (\<lambda>_. unzip_entries re ctx destDir es))"

text \<open>The three downloads differ in their clients only.\<close>

definition HttpDownlod :: "run_env \<Rightarrow> string \<Rightarrow> string \<Rightarrow> (go_error option) pv" where
  "HttpDownlod re url filePath =
     seq (pv_on (ask (\<lambda>n. re_get re n url))) (\<lambda>e.
     if e \<noteq> None then ret e
     else
       seq (pv_on (ask (\<lambda>n. re_create re n filePath))) (\<lambda>e.
       if e \<noteq> None then ret e
       else seq (log_plugin (PackageFetched url filePath)) (\<lambda>_. pv_on (ask (\<lambda>n. re_copy re n filePath)))))"

text \<open>The attempts and the pauses between them; with a deadline a pause ends when it passes.\<close>

fun download_tries :: "run_env \<Rightarrow> bool \<Rightarrow> nat \<Rightarrow> go_error option \<Rightarrow> string \<Rightarrow> string \<Rightarrow> (go_error option) pv" where
  "download_tries re ctx 0 err url path = ret err"
| "download_tries re ctx (Suc n) err url path =
     seq (HttpDownlod re url path) (\<lambda>e.
     if e = None then ret None
     else
       seq (if ctx then pv_on (ask (re_done_first re)) else ret False) (\<lambda>done_first.
       if done_first then ret (Some ctx_Err)
       else
         seq (pv_on (\<lambda>w. ((), go_sleep 3 w))) (\<lambda>_.
         download_tries re ctx n e url path)))"

definition file_md5 :: "run_env \<Rightarrow> string \<Rightarrow> (go_error + string) pv" where
  "file_md5 re path =
     unless_failed (pv_on (ask (\<lambda>n. re_read_file re n path))) (\<lambda>content.
     seq (log_plugin (PackageDigested path (ComputeStrMd5 content))) (\<lambda>_. ret (Inr (ComputeStrMd5 content))))"

section \<open>Configurations and running\<close>

definition config_PluginType :: "pluginConfig \<Rightarrow> string" where
  "config_PluginType c = type_name False (cf_PluginType c)"

text \<open>A time limit of a text, with a minute for none.\<close>

definition timeout_of :: "string \<Rightarrow> int" where
  "timeout_of s = (case atoi s of (n, None) \<Rightarrow> n | (n, Some e) \<Rightarrow> 60)"

definition plugin_path :: "plugin_run \<Rightarrow> string \<Rightarrow> string \<Rightarrow> string" where
  "plugin_path s name version = path_join [PLUGINDIR s, name, version]"

definition is_ps1 :: "string \<Rightarrow> bool" where
  "is_ps1 p \<longleftrightarrow> take 4 (rev p) = rev ''.ps1''"

definition run_plugin_cmd :: "run_env \<Rightarrow> string \<Rightarrow> string list \<Rightarrow> int \<Rightarrow> string list \<Rightarrow> (int \<times> proc_status \<times> go_error option) pv" where
  "run_plugin_cmd re name args timeout env =
     outcome_of (\<lambda>s. case SyncRun (re_mc re) [] name args timeout (SetEnv env NewProcessCmd) (pr_world s) of
         Panics p \<Rightarrow> (Panics p, s)
       | Returns ((events, r), pc, w) \<Rightarrow> (Returns r, s\<lparr>pr_store := (pr_store s)\<lparr>ps_world := w\<rparr>\<rparr>))"

text \<open>The exit code, the name of the program's own error if it is one, and the error.\<close>

definition coded_run :: "run_env \<Rightarrow> string \<Rightarrow> string list \<Rightarrow> int \<Rightarrow> string list \<Rightarrow> bool \<Rightarrow> (int \<times> string \<times> go_error option) pv" where
  "coded_run re commandName args timeout env quietly =
     seq (run_plugin_cmd re commandName args timeout env) (\<lambda>(exitCode, status, err).
     let code = (if status = Fail then EXECUTE_FAILED else if status = Timeout then EXECUTE_TIMEOUT else exitCode) in
     ret (code, (if \<not> quietly \<and> (code = EXECUTE_FAILED \<or> code = EXECUTE_TIMEOUT) then snd (errProcess code err) else []), err))"

definition executePlugin :: "run_env \<Rightarrow> string \<Rightarrow> string list \<Rightarrow> int \<Rightarrow> string list \<Rightarrow> bool \<Rightarrow> bool \<Rightarrow> (int \<times> string \<times> go_error option) pv" where
  "executePlugin re cmdPath paramList timeout env quietly foreground =
     seq (pv_on (CheckFileIsExist (re_mc re) cmdPath)) (\<lambda>exists.
     if \<not> exists then
       (let err = Some (PlainError (''Cmd file not exist: '' @ cmdPath)); (code, text) = errProcess PLUGIN_FORMAT_ERR err in
        ret (code, text, err))
     else
       (let (commandName, args) = (if is_ps1 cmdPath then (''powershell'', cmdPath # paramList) else (cmdPath, paramList)) in
        seq (log_plugin (PluginRan commandName args timeout env foreground)) (\<lambda>_.
        coded_run re commandName args timeout env quietly)))"

definition prepareCmdOptions :: "run_env \<Rightarrow> ExecuteParams \<Rightarrow> bool pv" where
  "prepareCmdOptions re ep = (if ep_Foreground ep then pv_on (ask (re_terminal re)) else ret False)"

definition plugin_vars :: "string \<Rightarrow> string \<Rightarrow> string list" where
  "plugin_vars dir pre = [''PLUGIN_DIR='' @ dir, ''PRE_PLUGIN_DIR='' @ pre]"

section \<open>Reports\<close>

definition ReportPluginStatus :: "run_env \<Rightarrow> string \<Rightarrow> string \<Rightarrow> string \<Rightarrow> string \<Rightarrow> (go_error option) pv" where
  "ReportPluginStatus re pluginName pluginVersion status sysTagType =
     (let st = (plugin_status pluginName status pluginVersion)\<lparr>SysTagType := sysTagType\<rparr> in
      seq (log_plugin (StatusReported st)) (\<lambda>_.
      seq (pv_on (post_tries (re_env re) 2 3 (GetPluginHealthService (re_env re)) (re_status_request re st))) (\<lambda>(resp, err).
      ret err)))"

definition CheckAndReportPlugin ::
  "run_env \<Rightarrow> string \<Rightarrow> string \<Rightarrow> string \<Rightarrow> int \<Rightarrow> string list \<Rightarrow> string \<Rightarrow> (string \<times> go_error option) pv" where
  "CheckAndReportPlugin re pluginName pluginVersion cmdPath timeout env sysTagType =
     seq (executePlugin re cmdPath [''--status''] timeout env True False) (\<lambda>(exitCode, text, err).
     if err \<noteq> None then ret (PERSIST_UNKNOWN, err)
     else
       (let status = (if exitCode \<noteq> 0 then PERSIST_FAIL else PERSIST_RUNNING) in
        seq (ReportPluginStatus re pluginName pluginVersion status sysTagType) (\<lambda>e. ret (status, e))))"

definition needReportStatus :: "string list \<Rightarrow> bool" where
  "needReportStatus ps \<longleftrightarrow> list_ex (\<lambda>p. p \<in> set NEED_REFRESH_STATUS_API) ps"

section \<open>What is known of a plugin\<close>

definition getPackageInfo :: "run_env \<Rightarrow> string \<Rightarrow> string \<Rightarrow> bool \<Rightarrow> (go_error + PluginInfo list) pv" where
  "getPackageInfo re pluginName version withArch =
     seq (if withArch then pv_on (GetArch (re_uname re)) else ret ([], [])) (\<lambda>(arch, raw).
     seq (pv_on (post_tries (re_env re) 3 2 (GetPluginListService (re_env re)) (re_list_request re OS_TYPE pluginName version arch))) (\<lambda>(resp, err).
     ret (case err of Some e \<Rightarrow> Inl e | None \<Rightarrow> re_list re resp)))"

text \<open>The newest of the packages for this machine, and the architectures of the others.\<close>

definition arch_fits :: "string \<Rightarrow> PluginInfo \<Rightarrow> bool" where
  "arch_fits localArch p \<longleftrightarrow> (let arch = to_lower (pi_Arch p) in arch = [] \<or> arch = ''all'' \<or> localArch = arch)"

definition newer :: "PluginInfo \<Rightarrow> PluginInfo \<Rightarrow> bool" where
  "newer p q \<longleftrightarrow> 0 < CompareVersion (ascii_runes (pi_Version p)) (ascii_runes (pi_Version q))"

fun match_packages :: "string \<Rightarrow> string \<Rightarrow> PluginInfo list \<Rightarrow> PluginInfo option \<times> string list \<Rightarrow> PluginInfo option \<times> string list" where
  "match_packages name localArch [] acc = acc"
| "match_packages name localArch (p # ps) (best, others) =
     match_packages name localArch ps
       (if pi_Name p \<noteq> name then (best, others)
        else if arch_fits localArch p then
          ((case best of None \<Rightarrow> Some p | Some b \<Rightarrow> if newer p b then Some p else Some b), others)
        else (best, others @ [to_lower (pi_Arch p)]))"

definition getOnlinePluginInfo :: "run_env \<Rightarrow> string \<Rightarrow> string \<Rightarrow> (go_error + PluginInfo option \<times> string list) pv" where
  "getOnlinePluginInfo re packageName version =
     unless_failed (getPackageInfo re packageName version False) (\<lambda>ps.
     seq (pv_on (GetArch (re_uname re))) (\<lambda>(localArch, raw).
     ret (Inr (match_packages packageName localArch ps (None, [])))))"

definition fetched_local :: "plugin_run \<Rightarrow> PluginInfo \<Rightarrow> Fetched" where
  "fetched_local s p =
     (let dir = plugin_path s (pi_Name p) (pi_Version p) in
      \<lparr>fe_PluginName = pi_Name p, fe_PluginVersion = pi_Version p, fe_PluginType = PluginType p, fe_AddSysTag = AddSysTag p,
       Entrypoint = path_join [dir, RunPath p], ExecutionTimeoutInSeconds = timeout_of (pi_Timeout p),
       EnvPluginDir = dir, EnvPrePluginDir = []\<rparr>)"

definition queryFromLocalOnly :: "run_env \<Rightarrow> string \<Rightarrow> string \<Rightarrow> (exitingError + Fetched) pv" where
  "queryFromLocalOnly re pluginName pluginVersion =
     seq (in_store (getLocalPluginInfo (re_store re) pluginName pluginVersion)) (\<lambda>r.
     case r of
       Inl e \<Rightarrow> ret (Inl (NewLoadInstalledPluginsExitingError e))
     | Inr None \<Rightarrow> ret (Inl (NewPackageNotFoundExitingError ErrPackageNotFound (''Could not found local package ['' @ pluginName @ '']'')))
     | Inr (Some p) \<Rightarrow> look (\<lambda>s. Inr (fetched_local s p)))"

definition not_found_tip :: "ExecFetchOptions \<Rightarrow> string list \<Rightarrow> string \<Rightarrow> string" where
  "not_found_tip fo others localArch =
     (if others = [] then
        ''Could not found both local and online, package['' @ ef_PluginName fo @ ''] version['' @ ef_Version fo @ '']'' @ [LF]
      else ''Could not found local package['' @ ef_PluginName fo @ ''] version['' @ ef_Version fo
        @ ''], found online package but it`s arch['' @ join '', '' others @ ''] not match local_arch['' @ localArch @ ''] '' @ [LF])"

text \<open>A local plugin of the version that is online, or when none is, is used; otherwise the one online is.\<close>

definition queryFromOnlineOrLocal :: "run_env \<Rightarrow> ExecFetchOptions \<Rightarrow> string \<Rightarrow> (exitingError + (Fetched option \<times> PluginInfo option)) pv" where
  "queryFromOnlineOrLocal re fo localArch =
     seq (in_store (getLocalPluginInfo (re_store re) (ef_PluginName fo) (ef_Version fo))) (\<lambda>r.
     case r of
       Inl e \<Rightarrow> ret (Inl (NewLoadInstalledPluginsExitingError e))
     | Inr localInfo \<Rightarrow>
         seq (getOnlinePluginInfo re (ef_PluginName fo) (ef_Version fo)) (\<lambda>r.
         case r of
           Inl e \<Rightarrow> ret (Inl (NewGetOnlinePackageInfoExitingError e (''Get plugin info from online err: '' @ err_text e)))
         | Inr (onlineInfo, others) \<Rightarrow>
             (case localInfo of
                Some l \<Rightarrow>
                  if (case onlineInfo of None \<Rightarrow> True
                      | Some q \<Rightarrow> CompareVersion (ascii_runes (pi_Version l)) (ascii_runes (pi_Version q)) = 0)
                  then look (\<lambda>s. Inr (Some ((fetched_local s l)\<lparr>fe_AddSysTag := False\<rparr>), None))
                  else ret (Inr (None, onlineInfo))
              | None \<Rightarrow>
                  (case onlineInfo of
                     None \<Rightarrow> ret (Inl (NewPackageNotFoundExitingError ErrPackageNotFound (not_found_tip fo others localArch)))
                   | Some q \<Rightarrow> ret (Inr (None, Some q))))))"

section \<open>The database, with what happens to it\<close>

definition insert_plugin :: "run_env \<Rightarrow> PluginInfo \<Rightarrow> (go_error option) pv" where
  "insert_plugin re p = seq (log_plugin (PluginInserted p)) (\<lambda>_. in_store (insertNewInstalledPlugin (re_store re) p))"

definition update_plugin :: "run_env \<Rightarrow> nat \<Rightarrow> PluginInfo \<Rightarrow> (go_error option) pv" where
  "update_plugin re idx p = seq (log_plugin (PluginUpdated idx p)) (\<lambda>_. in_store (updateInstalledPlugin (re_store re) idx p))"

definition delete_plugin :: "run_env \<Rightarrow> nat \<Rightarrow> (go_error option) pv" where
  "delete_plugin re idx = seq (log_plugin (PluginDeleted idx)) (\<lambda>_. in_store (deleteInstalledPluginByIndex (re_store re) idx))"

definition remove_tree :: "run_env \<Rightarrow> string \<Rightarrow> (go_error option) pv" where
  "remove_tree re path = seq (log_plugin (PluginTreeRemoved path)) (\<lambda>_. pv_on (ask (\<lambda>n. re_remove_all re n path)))"

section \<open>Installation\<close>

text \<open>A check of a step, and a step whose error gets a code and a message.\<close>

definition failing_as :: "(go_error \<Rightarrow> exitingError) \<Rightarrow> (go_error option) pv \<Rightarrow> (exitingError + unit) pv" where
  "failing_as mk m = seq m (\<lambda>e. ret (case e of Some x \<Rightarrow> Inl (mk x) | None \<Rightarrow> Inr ()))"

definition coding :: "(go_error \<Rightarrow> exitingError) \<Rightarrow> (go_error + 'a) pv \<Rightarrow> (exitingError + 'a) pv" where
  "coding mk m = seq m (\<lambda>r. ret (map_sum mk id r))"

definition require :: "bool \<Rightarrow> exitingError \<Rightarrow> (exitingError + unit) pv" where
  "require b x = ret (if b then Inr () else Inl x)"

definition bracketed :: "string \<Rightarrow> string" where "bracketed s = CHR ''['' # s @ '']''"

text \<open>\<open>heartbeat_or_minute\<close> and the mode of a program.\<close>

definition heartbeat_or_minute :: "int \<Rightarrow> int" where "heartbeat_or_minute n = (if n \<le> 0 then 60 else n)"
definition plugin_mode :: int where "plugin_mode = 484"

definition blank_plugin :: PluginInfo where
  "blank_plugin = \<lparr>PluginID = [], pi_Name = [], pi_Arch = [], OSType = [], pi_Version = [], pi_Publisher = [], pi_Url = [], pi_Md5 = [],
     RunPath = [], pi_Timeout = ''60'', IsPreInstalled = [], pi_PluginType = TypeNil, pluginTypeStr = [], HeartbeatInterval = 0,
     IsRemoved = False, AddSysTag = False\<rparr>"

text \<open>The entry of the database for a package: the old one with the settings of the configuration.\<close>

definition configured :: "pluginConfig \<Rightarrow> PluginInfo \<Rightarrow> PluginInfo" where
  "configured c p =
     SetPluginType (config_PluginType c)
       (p\<lparr>pi_Name := cf_Name c, pi_Arch := cf_Arch c, OSType := cf_OsType c, RunPath := cf_RunPath c,
          pi_Timeout := (case atoi (cf_Timeout c) of (n, None) \<Rightarrow> cf_Timeout c | (n, Some e) \<Rightarrow> pi_Timeout p),
          pi_Publisher := cf_Publisher c, pi_Version := cf_Version c, AddSysTag := cf_AddSysTag c, pi_Url := ''local'',
          HeartbeatInterval := heartbeat_or_minute (cf_HeartbeatInterval c)\<rparr>)"

definition fetched_config :: "pluginConfig \<Rightarrow> string \<Rightarrow> string \<Rightarrow> string \<Rightarrow> Fetched" where
  "fetched_config c cmdPath dir pre =
     \<lparr>fe_PluginName = cf_Name c, fe_PluginVersion = cf_Version c, fe_PluginType = config_PluginType c, fe_AddSysTag = cf_AddSysTag c,
      Entrypoint = cmdPath, ExecutionTimeoutInSeconds = timeout_of (cf_Timeout c), EnvPluginDir = dir, EnvPrePluginDir = pre\<rparr>"

text \<open>The program of the package must be there and becomes executable.\<close>

definition make_executable :: "run_env \<Rightarrow> (go_error \<Rightarrow> string) \<Rightarrow> string \<Rightarrow> (exitingError + unit) pv" where
  "make_executable re tip cmdPath =
     unless_failed (seq (pv_on (CheckFileIsExist (re_mc re) cmdPath)) (\<lambda>exists.
       require exists (NewPluginFormatExitingError (PlainError (''Cmd file not exist: '' @ cmdPath)) (''Executable file not exist, '' @ cmdPath @ ''.'')))) (\<lambda>_.
     failing_as (\<lambda>e. NewExecutablePermissionExitingError e (tip e)) (pv_on (ChangeMode (re_mc re) cmdPath plugin_mode)))"

definition fits_machine :: "pluginConfig \<Rightarrow> string \<Rightarrow> bool" where
  "fits_machine c localArch \<longleftrightarrow> cf_Arch c = [] \<or> to_lower (cf_Arch c) = ''all'' \<or> to_lower (cf_Arch c) = localArch"

subsection \<open>From a file\<close>

definition installFromFile ::
  "run_env \<Rightarrow> string \<Rightarrow> pluginConfig \<Rightarrow> (nat \<times> PluginInfo) option \<Rightarrow> duration \<Rightarrow> (exitingError + Fetched) pv" where
  "installFromFile re packagePath c old timeout =
     seq (look PLUGINDIR) (\<lambda>dir.
     let ctx = 0 < timeout;
         pre = (case old of None \<Rightarrow> [] | Some (i, p) \<Rightarrow> path_join [dir, pi_Name p, pi_Version p]);
         p = configured c (case old of None \<Rightarrow> blank_plugin | Some (i, p) \<Rightarrow> p);
         pluginPath = path_join [dir, cf_Name c, cf_Version c];
         cmdPath = path_join [pluginPath, cf_RunPath c] in
     unless_failed (coding (\<lambda>e. NewMD5CheckExitingError e (''Compute md5 of plugin file err: '' @ err_text e)) (file_md5 re packagePath)) (\<lambda>md5.
     seq (pv_on (MakeSurePath (re_mc re) pluginPath)) (\<lambda>_.
     unless_failed (failing_as (\<lambda>e. NewUnzipExitingError e (''Unzip err, file is '' @ bracketed packagePath @ '', target dir is '' @ bracketed pluginPath
         @ '', err is '' @ bracketed (err_text e))) (UnzipContext re ctx packagePath pluginPath)) (\<lambda>_.
     unless_failed (make_executable re (\<lambda>e. ''Make plugin file executable err: '' @ err_text e) cmdPath) (\<lambda>_.
     unless_failed (failing_as NewDumpInstalledPluginsExitingError
         (case old of
            None \<Rightarrow> insert_plugin re (p\<lparr>pi_Md5 := md5, PluginID := ''local_'' @ pi_Name p @ ''_'' @ pi_Version p\<rparr>)
          | Some (i, q) \<Rightarrow> update_plugin re i (p\<lparr>pi_Md5 := md5\<rparr>))) (\<lambda>_.
     ret (Inr (fetched_config c cmdPath pluginPath pre))))))))"

subsection \<open>From the server\<close>

definition download_package :: "run_env \<Rightarrow> PluginInfo \<Rightarrow> duration \<Rightarrow> string \<Rightarrow> (exitingError + unit) pv" where
  "download_package re q timeout filePath =
     failing_as (\<lambda>e. NewDownloadExitingError e (''Downloading package failed, plugin.Url is '' @ bracketed (pi_Url q) @ '', err is '' @ bracketed (err_text e)))
       (download_tries re (0 < timeout) 3 None (pi_Url q) filePath)"

definition check_package :: "run_env \<Rightarrow> PluginInfo \<Rightarrow> string \<Rightarrow> (exitingError + unit) pv" where
  "check_package re q filePath =
     unless_failed (coding (\<lambda>e. NewMD5CheckExitingError e (''Compute md5 of plugin file'' @ bracketed filePath @ '' err, plugin.Url is '' @ bracketed (pi_Url q)
         @ '', err is '' @ bracketed (err_text e))) (file_md5 re filePath)) (\<lambda>md5.
     require (to_lower md5 = to_lower (pi_Md5 q))
       (NewMD5CheckExitingError (PlainError ''Md5 not macth'') (''Md5 not match, onlineInfo.Md5 is '' @ bracketed (pi_Md5 q) @ '', real md5 is '' @ bracketed md5
         @ '', plugin.Url is '' @ bracketed (pi_Url q))))"

definition unzip_package :: "run_env \<Rightarrow> PluginInfo \<Rightarrow> duration \<Rightarrow> string \<Rightarrow> string \<Rightarrow> (exitingError + unit) pv" where
  "unzip_package re q timeout filePath unzipdir =
     seq (pv_on (MakeSurePath (re_mc re) unzipdir)) (\<lambda>_.
     unless_failed (failing_as (\<lambda>e. NewUnzipExitingError e (''Unzip package err, plugin.Url is '' @ bracketed (pi_Url q) @ '', err is '' @ bracketed (err_text e)))
         (UnzipContext re (0 < timeout) filePath unzipdir)) (\<lambda>_.
     seq (pv_on (ask (\<lambda>n. re_remove_all re n filePath))) (\<lambda>_. ret (Inr ()))))"

definition read_config :: "run_env \<Rightarrow> string \<Rightarrow> (exitingError + pluginConfig) pv" where
  "read_config re config_path =
     unless_failed (seq (pv_on (CheckFileIsExist (re_mc re) config_path)) (\<lambda>exists.
       let tip = ''File config.json not exist, '' @ config_path @ ''.'' in require exists (NewPluginFormatExitingError (PlainError tip) tip))) (\<lambda>_.
     seq (pv_on (ask (\<lambda>n. re_read_file re n config_path))) (\<lambda>r.
     let unmarshal_err = (\<lambda>content e. Inl (NewUnmarshalExitingError e (''Unmarshal config.json err, config.json is '' @ bracketed content
         @ '', err is '' @ bracketed (err_text e)))) in
     ret (case r of
            Inl e \<Rightarrow> unmarshal_err [] e
          | Inr content \<Rightarrow> (case re_config re content of Inl e \<Rightarrow> unmarshal_err content e | Inr c \<Rightarrow> Inr c))))"

text \<open>What the server says of the package has to fit its configuration and the machine.\<close>

definition check_online :: "PluginInfo \<Rightarrow> pluginConfig \<Rightarrow> string \<Rightarrow> (exitingError + unit) pv" where
  "check_online q c localArch =
     (let url = '', plugin.Url is '' @ bracketed (pi_Url q) in
      unless_failed (let tip = ''config.PluginType'' @ bracketed (config_PluginType c) @ '' not match to pluginType'' @ bracketed (PluginType q) in
        require (config_PluginType c = PluginType q) (NewPluginFormatExitingError (PlainError tip) tip)) (\<lambda>_.
      unless_failed (require (to_lower (OSType q) = ''both'' \<or> to_lower (OSType q) = OS_TYPE)
        (NewPluginFormatExitingError (PlainError ''Plugin ostype not suit for this system'')
          (''Plugin ostype'' @ bracketed (OSType q) @ '' not suit for this system'' @ bracketed OS_TYPE @ url))) (\<lambda>_.
      require (to_lower (pi_Arch q) = ''all'' \<or> to_lower (pi_Arch q) = localArch)
        (NewPluginFormatExitingError (PlainError ''Plugin arch not suit for this system'')
          (''Plugin arch'' @ bracketed (pi_Arch q) @ '' not suit for this system'' @ bracketed localArch @ url)))))"

text \<open>A removed plugin's entry is deleted first; another one is overwritten.\<close>

definition replace_removed :: "run_env \<Rightarrow> (nat \<times> PluginInfo) option \<Rightarrow> (go_error + (nat \<times> PluginInfo) option) pv" where
  "replace_removed re old =
     (case old of
        Some (i, p) \<Rightarrow>
          if IsRemoved p then seq (delete_plugin re i) (\<lambda>e. ret (case e of Some x \<Rightarrow> Inl x | None \<Rightarrow> Inr None))
          else ret (Inr old)
      | None \<Rightarrow> ret (Inr None))"

definition record_online :: "run_env \<Rightarrow> PluginInfo \<Rightarrow> (exitingError + string) pv" where
  "record_online re q =
     unless_failed (coding NewLoadInstalledPluginsExitingError (in_store (getInstalledPluginByName (re_store re) (pi_Name q)))) (\<lambda>old0.
     unless_failed (coding NewDumpInstalledPluginsExitingError (replace_removed re old0)) (\<lambda>old.
     seq (look PLUGINDIR) (\<lambda>dir.
     unless_failed (failing_as NewDumpInstalledPluginsExitingError
         (case old of None \<Rightarrow> insert_plugin re q | Some (i, p) \<Rightarrow> update_plugin re i q)) (\<lambda>_.
     ret (Inr (case old of None \<Rightarrow> [] | Some (i, p) \<Rightarrow> path_join [dir, pi_Name p, pi_Version p]))))))"

definition online_plugin :: "PluginInfo \<Rightarrow> pluginConfig \<Rightarrow> PluginInfo" where
  "online_plugin q c = (SetPluginType (config_PluginType c) (q\<lparr>HeartbeatInterval := heartbeat_or_minute (cf_HeartbeatInterval c)\<rparr>))
     \<lparr>AddSysTag := cf_AddSysTag c\<rparr>"

definition installFromOnline :: "run_env \<Rightarrow> PluginInfo \<Rightarrow> duration \<Rightarrow> string \<Rightarrow> (exitingError + Fetched) pv" where
  "installFromOnline re q timeout localArch =
     seq (look PLUGINDIR) (\<lambda>dir.
     let filePath = path_join [dir, pi_Name q @ ''.zip'']; unzipdir = path_join [dir, pi_Name q, pi_Version q] in
     unless_failed (download_package re q timeout filePath) (\<lambda>_.
     unless_failed (check_package re q filePath) (\<lambda>_.
     unless_failed (unzip_package re q timeout filePath unzipdir) (\<lambda>_.
     unless_failed (read_config re (path_join [unzipdir, ''config.json''])) (\<lambda>c.
     unless_failed (check_online q c localArch) (\<lambda>_.
     let cmdPath = path_join [unzipdir, cf_RunPath c] in
     unless_failed (make_executable re (\<lambda>e. ''Make plugin file executable err, plugin.Url is '' @ bracketed (pi_Url q) @ '', err is '' @ bracketed (err_text e)) cmdPath) (\<lambda>_.
     unless_failed (record_online re (online_plugin q c)) (\<lambda>pre.
     ret (Inr (fetched_config c cmdPath (path_join [dir, cf_Name c, cf_Version c]) pre))))))))))"

section \<open>The frame of an execution\<close>

text \<open>A function that ends early with an exit code and an error, which is kept for the report.\<close>

type_synonym exit_value = "int \<times> go_error option"

definition collapse :: "(exit_value + exit_value) pv \<Rightarrow> exit_value pv" where
  "collapse m = seq m (\<lambda>r. ret (case r of Inl x \<Rightarrow> x | Inr x \<Rightarrow> x))"

definition fail_with :: "int \<Rightarrow> go_error \<Rightarrow> (exit_value + 'a) pv" where
  "fail_with code err =
     seq (modify (\<lambda>s. s\<lparr>pr_vars := (pr_vars s)\<lparr>ev_errorCode := snd (errProcess code (Some err))\<rparr>\<rparr>)) (\<lambda>_. ret (Inl (code, Some err)))"

definition exiting_with :: "int \<Rightarrow> (go_error \<Rightarrow> go_error) \<Rightarrow> (go_error + 'a) pv \<Rightarrow> (exit_value + 'a) pv" where
  "exiting_with code mk m = seq m (\<lambda>r. case r of Inl e \<Rightarrow> fail_with code (mk e) | Inr x \<Rightarrow> ret (Inr x))"

definition exiting :: "(exitingError + 'a) pv \<Rightarrow> (exit_value + 'a) pv" where
  "exiting m = seq m (\<lambda>r. case r of Inl x \<Rightarrow> fail_with (ee_exitCode x) (ee_cause x) | Inr x \<Rightarrow> ret (Inr x))"

definition exiting_unless :: "bool \<Rightarrow> int \<Rightarrow> string \<Rightarrow> (exit_value + unit) pv" where
  "exiting_unless b code m = (if b then ret (Inr ()) else fail_with code (PlainError m))"

text \<open>What is deferred happens after a value and after a panic.\<close>

definition afterwards :: "('s, 'a) prog \<Rightarrow> ('a option \<Rightarrow> ('s, unit) prog) \<Rightarrow> ('s, 'a) prog" where
  "afterwards m h s =
     (case m s of
        None \<Rightarrow> None
      | Some (Returns x, s1) \<Rightarrow> seq (h (Some x)) (\<lambda>_. ret x) s1
      | Some (Panics p, s1) \<Rightarrow> seq (h None) (\<lambda>_. panic p) s1)"

lemma wpr_afterwards [wpr_rules]:
  "wpr (afterwards m h) Q P s = wpr m (\<lambda>x. wpr (h (Some x)) (\<lambda>_. Q x) P) (\<lambda>p. wpr (h None) (\<lambda>_. P p) P) s"
proof -
  have "wpr (afterwards m h) Q P s = (case m s of None \<Rightarrow> False | Some (Panics p, s1) \<Rightarrow> wpr (seq (h None) (\<lambda>_. panic p)) Q P s1
      | Some (Returns x, s1) \<Rightarrow> wpr (seq (h (Some x)) (\<lambda>_. ret x)) Q P s1)"
    by (simp add: wpr_def [of "afterwards m h"] afterwards_def wpr_def [of "seq a b" for a b] split: option.split prod.split outcome.split)
  also have "\<dots> = wpr m (\<lambda>x. wpr (h (Some x)) (\<lambda>_. Q x) P) (\<lambda>p. wpr (h None) (\<lambda>_. P p) P) s"
    unfolding wpr_seq wpr_ret wpr_panic by (simp add: wpr_def [of m] split: option.split prod.split outcome.split)
  finally show ?thesis .
qed

definition with_plugin_metrics :: "(metrics \<Rightarrow> 'a outcome \<times> metrics) \<Rightarrow> 'a pv" where
  "with_plugin_metrics f = outcome_of (\<lambda>s. let (r, m) = f ((pr_metrics s)\<lparr>mt_world := pr_world s\<rparr>) in
     (r, s\<lparr>pr_metrics := m, pr_store := (pr_store s)\<lparr>ps_world := mt_world m\<rparr>\<rparr>))"

definition report_execution :: "run_env \<Rightarrow> int \<Rightarrow> unit pv" where
  "report_execution re exitCode =
     seq (look pr_vars) (\<lambda>v.
     seq (with_plugin_metrics (GetPluginExecuteEvent (re_metrics re)
       [''pluginName'', ev_pluginName v, ''pluginVersion'', ev_pluginVersion v, ''pluginType'', ev_pluginType v, ''resource'', ev_resource v,
        ''exitCode'', itoa exitCode, ''errorCode'', ev_errorCode v, ''localArch'', ev_localArch v, ''localOsType'', OS_TYPE])) (\<lambda>e.
     with_plugin_metrics (\<lambda>m. (Returns (), ReportEventSync (re_metrics re) e m))))"

definition reporting_execution :: "run_env \<Rightarrow> execute_vars \<Rightarrow> (exit_value + exit_value) pv \<Rightarrow> exit_value pv" where
  "reporting_execution re v m =
     seq (modify (\<lambda>s. s\<lparr>pr_vars := v\<rparr>)) (\<lambda>_.
     afterwards (collapse m) (\<lambda>r. report_execution re (case r of None \<Rightarrow> 0 | Some (code, err) \<Rightarrow> code)))"

definition set_arch :: "string \<Rightarrow> unit pv" where
  "set_arch localArch = modify (\<lambda>s. s\<lparr>pr_vars := (pr_vars s)\<lparr>ev_localArch := localArch\<rparr>\<rparr>)"

definition set_plugin :: "string \<Rightarrow> string \<Rightarrow> unit pv" where
  "set_plugin name version = modify (\<lambda>s. s\<lparr>pr_vars := (pr_vars s)\<lparr>ev_pluginName := name, ev_pluginVersion := version\<rparr>\<rparr>)"

definition set_resource :: "string \<Rightarrow> unit pv" where
  "set_resource r = modify (\<lambda>s. s\<lparr>pr_vars := (pr_vars s)\<lparr>ev_resource := r\<rparr>\<rparr>)"

text \<open>The lock of a plugin, kept to the end of the function.\<close>

definition with_plugin_lock :: "run_env \<Rightarrow> string \<Rightarrow> bool \<Rightarrow> (exit_value + 'a) pv \<Rightarrow> (exit_value + 'a) pv" where
  "with_plugin_lock re pluginName ex m =
     unless_failed (exiting_with LOCKING_ERR NewOpenPluginLockFileError (openPluginLockFile re pluginName)) (\<lambda>path.
     seq (try_lock re path ex) (\<lambda>e.
     case e of
       Some x \<Rightarrow> fail_with LOCKING_ERR (NewAcquirePluginExclusiveLockError x)
     | None \<Rightarrow> deferring m (release path ex)))"

text \<open>The plugin is looked for again under the lock of its version, and installed if it is still missing.\<close>

definition is_missing :: "exitingError \<Rightarrow> bool" where
  "is_missing x \<longleftrightarrow> ee_exitCode x = PACKAGE_NOT_FOUND \<and> ee_cause x = ErrPackageNotFound"

definition install_if_missing :: "run_env \<Rightarrow> string \<Rightarrow> string \<Rightarrow> (exitingError + Fetched) pv \<Rightarrow> (exitingError + Fetched) pv" where
  "install_if_missing re name version install =
     seq (queryFromLocalOnly re name version) (\<lambda>r.
     case r of Inr f \<Rightarrow> ret (Inr f) | Inl x \<Rightarrow> if is_missing x then install else ret (Inl x))"

definition guarded :: "(go_error + (exitingError + Fetched)) pv \<Rightarrow> (exit_value + Fetched) pv" where
  "guarded m = unless_failed (exiting_with LOCKING_ERR id m) (\<lambda>r. exiting (ret r))"

definition run_fetched :: "run_env \<Rightarrow> Fetched \<Rightarrow> ExecuteParams \<Rightarrow> exit_value pv" where
  "run_fetched re f ep =
     seq (modify (\<lambda>s. s\<lparr>pr_vars := (pr_vars s)\<lparr>ev_pluginName := fe_PluginName f, ev_pluginVersion := fe_PluginVersion f,
       ev_pluginType := fe_PluginType f\<rparr>\<rparr>)) (\<lambda>_.
     seq (prepareCmdOptions re ep) (\<lambda>foreground.
     seq (executePlugin re (Entrypoint f) (SplitArgs (re_split re) ep)
       (case ep_ExecutionTimeout ep of None \<Rightarrow> ExecutionTimeoutInSeconds f | Some t \<Rightarrow> t)
       (plugin_vars (EnvPluginDir f) (EnvPrePluginDir f)) False foreground) (\<lambda>(code, text, err).
     seq (modify (\<lambda>s. s\<lparr>pr_vars := (pr_vars s)\<lparr>ev_errorCode := text\<rparr>\<rparr>)) (\<lambda>_. ret (code, err)))))"

text \<open>The report behind it: the state of a persistent plugin, and that one of a single run is installed.\<close>

definition check_fetched :: "run_env \<Rightarrow> Fetched \<Rightarrow> ExecuteParams \<Rightarrow> string \<Rightarrow> unit pv" where
  "check_fetched re f ep tag =
     seq (CheckAndReportPlugin re (fe_PluginName f) (fe_PluginVersion f) (Entrypoint f)
       (case ep_ExecutionTimeout ep of None \<Rightarrow> ExecutionTimeoutInSeconds f | Some t \<Rightarrow> t)
       (plugin_vars (EnvPluginDir f) (EnvPrePluginDir f)) tag) (\<lambda>_. ret ())"

definition installed_fetched :: "run_env \<Rightarrow> Fetched \<Rightarrow> string \<Rightarrow> unit pv" where
  "installed_fetched re f tag =
     seq (ReportPluginStatus re (fe_PluginName f) (fe_PluginVersion f) ONCE_INSTALLED tag) (\<lambda>_. ret ())"

section \<open>Executing a plugin\<close>

subsection \<open>From a file\<close>

definition is_not_exist :: "go_error \<Rightarrow> bool" where
  "is_not_exist e \<longleftrightarrow> e = os_ErrNotExist \<or> as_errno e = Some 2"

definition peek_config :: "run_env \<Rightarrow> string \<Rightarrow> (exit_value + pluginConfig) pv" where
  "peek_config re packagePath =
     seq (PeekFile re packagePath ''config.json'') (\<lambda>r.
     case r of
       Inl e \<Rightarrow>
         if e = ErrFormat then fail_with PACKAGE_FORMAT_ERR (PlainError (''Package file isn`t a zip file: '' @ packagePath))
         else if is_not_exist e then fail_with PLUGIN_FORMAT_ERR (PlainError (''Manifest file config.json does not exist in '' @ packagePath @ ''.''))
         else fail_with UNZIP_ERR e
     | Inr content \<Rightarrow> exiting_with UNMARSHAL_ERR id (ret (re_config re content)))"

text \<open>The question is asked until it is answered, when the version is not newer and yes was not said before.\<close>

definition agree :: "run_env \<Rightarrow> bool \<Rightarrow> string \<Rightarrow> (nat \<times> PluginInfo) option \<Rightarrow> (exit_value + unit) pv" where
  "agree re yes version old =
     (case old of
        None \<Rightarrow> ret (Inr ())
      | Some (i, p) \<Rightarrow>
          if \<not> yes \<and> CompareVersion (ascii_runes version) (ascii_runes (pi_Version p)) \<le> 0 then
            seq (pv_on (ask (re_answer re))) (\<lambda>a.
            case a of
              None \<Rightarrow> (\<lambda>s. None)
            | Some y \<Rightarrow> ret (if y then Inr () else Inl (SUCCESS, None)))
          else ret (Inr ()))"

definition install_from_file_locked ::
  "run_env \<Rightarrow> string \<Rightarrow> pluginConfig \<Rightarrow> (nat \<times> PluginInfo) option \<Rightarrow> duration \<Rightarrow> string \<Rightarrow> (exit_value + Fetched) pv" where
  "install_from_file_locked re packagePath c old timeout pre =
     guarded (InstallLockGuard_Do re (cf_Name c) (cf_Version c) timeout
       (install_if_missing re (cf_Name c) (cf_Version c) (installFromFile re packagePath c old timeout))
       (seq (queryFromLocalOnly re (cf_Name c) (cf_Version c)) (\<lambda>r.
        case r of Inl x \<Rightarrow> panic NilDereference | Inr f \<Rightarrow> ret (Inr (f\<lparr>EnvPrePluginDir := pre\<rparr>)))))"

definition run_from_file :: "run_env \<Rightarrow> Fetched \<Rightarrow> ExecuteParams \<Rightarrow> (exit_value + exit_value) pv" where
  "run_from_file re f ep =
     seq (run_fetched re f ep) (\<lambda>r.
     seq (if fe_PluginType f = PLUGIN_PERSIST then check_fetched re f ep []
          else if fe_PluginType f = PLUGIN_ONCE then installed_fetched re f [] else ret ()) (\<lambda>_.
     ret (Inr r)))"

definition executePluginFromFile :: "run_env \<Rightarrow> bool \<Rightarrow> string \<Rightarrow> int \<Rightarrow> ExecuteParams \<Rightarrow> exit_value pv" where
  "executePluginFromFile re yes packagePath fetchTimeout ep =
     reporting_execution re \<lparr>ev_pluginName = [], ev_pluginVersion = [], ev_pluginType = [], ev_resource = FetchFromLocalFile,
         ev_errorCode = [], ev_localArch = []\<rparr>
       (seq (pv_on (GetArch (re_uname re))) (\<lambda>(localArch, raw).
        seq (set_arch localArch) (\<lambda>_.
        seq (pv_on (CheckFileIsExist (re_mc re) packagePath)) (\<lambda>exists.
        unless_failed (exiting_unless exists PACKAGE_NOT_FOUND (''File not exist: '' @ packagePath)) (\<lambda>_.
        unless_failed (peek_config re packagePath) (\<lambda>c.
        seq (set_plugin (cf_Name c) (cf_Version c)) (\<lambda>_.
        unless_failed (exiting_unless (cf_OsType c = [] \<or> to_lower (cf_OsType c) = OS_TYPE) PLUGIN_FORMAT_ERR ''Plugin ostype not suit for this system'') (\<lambda>_.
        unless_failed (exiting_unless (fits_machine c localArch) PLUGIN_FORMAT_ERR ''Plugin arch not suit for this system'') (\<lambda>_.
        unless_failed (exiting_with LOAD_INSTALLEDPLUGINS_ERR id (in_store (getInstalledPluginByName (re_store re) (cf_Name c)))) (\<lambda>old0.
        unless_failed (exiting_with DUMP_INSTALLEDPLUGINS_ERR id (replace_removed re old0)) (\<lambda>old.
        seq (look PLUGINDIR) (\<lambda>dir.
        let pre = (case old of None \<Rightarrow> [] | Some (i, p) \<Rightarrow> path_join [dir, pi_Name p, pi_Version p]) in
        unless_failed (agree re yes (cf_Version c) old) (\<lambda>_.
        with_plugin_lock re (cf_Name c) False
          (unless_failed (install_from_file_locked re packagePath c old (wrap64 (fetchTimeout * second)) pre) (\<lambda>f.
           run_from_file re f ep)))))))))))))))"

subsection \<open>Online or installed\<close>

definition install_online_locked :: "run_env \<Rightarrow> PluginInfo \<Rightarrow> duration \<Rightarrow> string \<Rightarrow> (exit_value + Fetched) pv" where
  "install_online_locked re q timeout localArch =
     guarded (InstallLockGuard_Do re (pi_Name q) (pi_Version q) timeout
       (install_if_missing re (pi_Name q) (pi_Version q) (installFromOnline re q timeout localArch))
       (queryFromLocalOnly re (pi_Name q) (pi_Version q)))"

text \<open>The change of the tag that is reported.\<close>

definition tag_change :: "Fetched \<Rightarrow> string" where
  "tag_change f = (if fe_AddSysTag f then AddSysTagText else if EnvPrePluginDir f \<noteq> [] then RemoveSysTag else [])"

definition run_online_or_local :: "run_env \<Rightarrow> bool \<Rightarrow> Fetched \<Rightarrow> ExecuteParams \<Rightarrow> (exit_value + exit_value) pv" where
  "run_online_or_local re online f ep =
     seq (run_fetched re f ep) (\<lambda>r.
     seq (if fe_PluginType f = PLUGIN_PERSIST \<and> (needReportStatus (SplitArgs (re_split re) ep) \<or> online)
          then check_fetched re f ep (if online then tag_change f else [])
          else if fe_PluginType f = PLUGIN_ONCE \<and> online then installed_fetched re f (tag_change f) else ret ()) (\<lambda>_.
     ret (Inr r)))"

definition executePluginOnlineOrLocal :: "run_env \<Rightarrow> ExecFetchOptions \<Rightarrow> ExecuteParams \<Rightarrow> exit_value pv" where
  "executePluginOnlineOrLocal re fo ep =
     reporting_execution re \<lparr>ev_pluginName = ef_PluginName fo, ev_pluginVersion = ef_Version fo, ev_pluginType = PLUGIN_ONCE,
         ev_resource = [], ev_errorCode = [], ev_localArch = []\<rparr>
       (seq (pv_on (GetArch (re_uname re))) (\<lambda>(localArch, raw).
        seq (set_arch localArch) (\<lambda>_.
        unless_failed (exiting (if ef_Local fo
            then seq (queryFromLocalOnly re (ef_PluginName fo) (ef_Version fo)) (\<lambda>r. ret (map_sum id (\<lambda>f. (Some f, None)) r))
            else queryFromOnlineOrLocal re fo localArch)) (\<lambda>found.
        with_plugin_lock re (ef_PluginName fo) False
          (case found of
             (Some f, queried) \<Rightarrow> seq (set_resource FetchFromLocalInstalled) (\<lambda>_. run_online_or_local re False f ep)
           | (None, Some q) \<Rightarrow>
               seq (set_resource FetchFromOnline) (\<lambda>_.
               unless_failed (install_online_locked re q (wrap64 (ef_FetchTimeoutInSeconds fo * second)) localArch) (\<lambda>f.
               run_online_or_local re True f ep))
           | (None, None) \<Rightarrow> fail_with PACKAGE_NOT_FOUND ErrPackageNotFound)))))"

definition ExecutePlugin :: "run_env \<Rightarrow> bool \<Rightarrow> ExecFetchOptions \<Rightarrow> ExecuteParams \<Rightarrow> exit_value pv" where
  "ExecutePlugin re yes fo ep =
     (if ef_File fo \<noteq> [] then executePluginFromFile re yes (ef_File fo) (ef_FetchTimeoutInSeconds fo) ep
      else executePluginOnlineOrLocal re fo ep)"

section \<open>Removing a plugin\<close>

text \<open>A persistent plugin is stopped and uninstalled first; an exit code or an error of the latter ends the removal.\<close>

definition uninstall_plugin :: "run_env \<Rightarrow> PluginInfo \<Rightarrow> (exit_value + unit) pv" where
  "uninstall_plugin re p =
     (if PluginType p \<noteq> PLUGIN_PERSIST then ret (Inr ())
      else
        seq (look PLUGINDIR) (\<lambda>dir.
        let cmdPath = path_join [dir, pi_Name p, pi_Version p, RunPath p];
            env = plugin_vars (path_join [dir, pi_Name p, pi_Version p]) [] in
        seq (executePlugin re cmdPath [''--stop''] (timeout_of (pi_Timeout p)) env False False) (\<lambda>_.
        seq (executePlugin re cmdPath [''--uninstall''] (timeout_of (pi_Timeout p)) env False False) (\<lambda>(exitCode, text, err).
        ret (if exitCode \<noteq> 0 \<or> err \<noteq> None then Inl (exitCode, err) else Inr ())))))"

definition remove_locked :: "run_env \<Rightarrow> nat \<Rightarrow> PluginInfo \<Rightarrow> (exit_value + exit_value) pv" where
  "remove_locked re idx p =
     unless_failed (uninstall_plugin re p) (\<lambda>_.
     seq (update_plugin re idx (p\<lparr>IsRemoved := True\<rparr>)) (\<lambda>e.
     case e of
       Some x \<Rightarrow> fail_with DUMP_INSTALLEDPLUGINS_ERR x
     | None \<Rightarrow>
         seq (ReportPluginStatus re (pi_Name p) (pi_Version p) REMOVED (if AddSysTag p then RemoveSysTag else [])) (\<lambda>_.
         seq (look PLUGINDIR) (\<lambda>dir.
         seq (remove_tree re (path_join [dir, pi_Name p])) (\<lambda>e.
         case e of Some x \<Rightarrow> fail_with REMOVE_FILE_ERR x | None \<Rightarrow> ret (Inr (SUCCESS, None)))))))"

definition RemovePlugin :: "run_env \<Rightarrow> string \<Rightarrow> exit_value pv" where
  "RemovePlugin re pluginName =
     collapse
       (unless_failed (exiting_with LOAD_INSTALLEDPLUGINS_ERR id (in_store (getInstalledPluginNotRemovedByName (re_store re) pluginName))) (\<lambda>found.
        case found of
          None \<Rightarrow> fail_with PACKAGE_NOT_FOUND (PlainError (''Plugin '' @ pluginName @ '' not found in installed_plugins''))
        | Some (idx, p) \<Rightarrow> with_plugin_lock re pluginName True (remove_locked re idx p)))"

section \<open>Lists and states\<close>

definition ListPlugins :: "run_env \<Rightarrow> string \<Rightarrow> bool \<Rightarrow> exit_value pv" where
  "ListPlugins re pluginName localOnly =
     collapse
       (unless_failed (if localOnly
          then exiting_with LOAD_INSTALLEDPLUGINS_ERR id
            (in_store (if pluginName \<noteq> [] then getInstalledPluginsByName (re_store re) pluginName else getAllInstalledPlugins (re_store re)))
          else exiting_with GET_ONLINE_PACKAGE_INFO_ERR id (getPackageInfo re pluginName [] True)) (\<lambda>ps.
        seq (log_plugin (PluginsPrinted (filter (\<lambda>p. \<not> IsRemoved p) ps))) (\<lambda>_.
        ret (Inr (SUCCESS, None)))))"

definition installed_status :: "run_env \<Rightarrow> PluginInfo \<Rightarrow> PluginStatus pv" where
  "installed_status re p =
     (let st = (\<lambda>text. \<lparr>pst_Name = pi_Name p, pst_Status = text, pst_Version = pi_Version p, SysTagType = []\<rparr>) in
      if IsRemoved p then ret (st REMOVED)
      else
        seq (look (\<lambda>s. plugin_path s (pi_Name p) (pi_Version p))) (\<lambda>dir.
        seq (executePlugin re (path_join [dir, RunPath p]) [''--status''] (timeout_of (pi_Timeout p)) [''PLUGIN_DIR='' @ dir] True False) (\<lambda>(code, text, err).
        ret (st (if code = 0 \<and> err = None then PERSIST_RUNNING else PERSIST_FAIL)))))"

primrec installed_statuses :: "run_env \<Rightarrow> PluginInfo list \<Rightarrow> PluginStatus list \<Rightarrow> PluginStatus list pv" where
  "installed_statuses re [] acc = ret acc"
| "installed_statuses re (p # ps) acc =
     (if PluginType p = PLUGIN_PERSIST then seq (installed_status re p) (\<lambda>st. installed_statuses re ps (acc @ [st]))
      else installed_statuses re ps acc)"

definition ShowPluginStatus :: "run_env \<Rightarrow> exit_value pv" where
  "ShowPluginStatus re =
     collapse
       (unless_failed (exiting_with LOAD_INSTALLEDPLUGINS_ERR id (in_store (getAllInstalledPlugins (re_store re)))) (\<lambda>ps.
        seq (installed_statuses re ps []) (\<lambda>statusList.
        seq (log_plugin (StatusPrinted statusList)) (\<lambda>_. ret (Inr (SUCCESS, None))))))"

section \<open>Trying a package\<close>

definition after_slash :: "string \<Rightarrow> string" where
  "after_slash s = rev (takeWhile (\<lambda>c. c \<noteq> CHR ''/'') (rev s))"

definition fetch_for_test :: "run_env \<Rightarrow> string \<Rightarrow> bool \<Rightarrow> string \<Rightarrow> (exit_value + unit) pv" where
  "fetch_for_test re url ctx unzipdir =
     seq (look (\<lambda>s. PLUGINDIR s @ ''/'' @ after_slash url)) (\<lambda>filePath.
     unless_failed (exiting_with DOWNLOAD_FAIL id (seq (HttpDownlod re url filePath) (\<lambda>e. ret (case e of Some x \<Rightarrow> Inl x | None \<Rightarrow> Inr ())))) (\<lambda>_.
     seq (pv_on (MakeSurePath (re_mc re) unzipdir)) (\<lambda>_.
     unless_failed (exiting_with UNZIP_ERR id (seq (UnzipContext re ctx filePath unzipdir) (\<lambda>e. ret (case e of Some x \<Rightarrow> Inl x | None \<Rightarrow> Inr ())))) (\<lambda>_.
     seq (pv_on (ask (\<lambda>n. re_remove_all re n filePath))) (\<lambda>_. ret (Inr ()))))))"

definition read_test_config :: "run_env \<Rightarrow> string \<Rightarrow> (exit_value + pluginConfig) pv" where
  "read_test_config re configPath =
     seq (pv_on (CheckFileIsExist (re_mc re) configPath)) (\<lambda>exists.
     unless_failed (exiting_unless exists PLUGIN_FORMAT_ERR ''Can not find the config.json'') (\<lambda>_.
     exiting_with UNMARSHAL_ERR id
       (unless_failed (pv_on (ask (\<lambda>n. re_read_file re n configPath))) (\<lambda>content. ret (re_config re content)))))"

definition VerifyPlugin :: "run_env \<Rightarrow> VerifyFetchOptions \<Rightarrow> ExecuteParams \<Rightarrow> exit_value pv" where
  "VerifyPlugin re vo ep =
     collapse
       (seq (look (\<lambda>s. path_join [PLUGINDIR s, ''verify_plugin_test''])) (\<lambda>unzipdir.
        unless_failed (fetch_for_test re (vf_Url vo) (0 < vf_FetchTimeoutInSeconds vo) unzipdir) (\<lambda>_.
        unless_failed (read_test_config re (path_join [unzipdir, ''config.json''])) (\<lambda>c.
        unless_failed (exiting_unless (cf_OsType c = [] \<or> to_lower (cf_OsType c) = ''both'' \<or> to_lower (cf_OsType c) = OS_TYPE)
          PLUGIN_FORMAT_ERR ''Plugin ostype not suit for this system'') (\<lambda>_.
        seq (pv_on (GetArch (re_uname re))) (\<lambda>(localArch, raw).
        unless_failed (exiting_unless (fits_machine c localArch) PLUGIN_FORMAT_ERR ''Plugin arch not suit for this system'') (\<lambda>_.
        let cmdPath = path_join [unzipdir, cf_RunPath c] in
        seq (pv_on (CheckFileIsExist (re_mc re) cmdPath)) (\<lambda>exists.
        unless_failed (exiting_unless exists PLUGIN_FORMAT_ERR ''Can not find the cmd file'') (\<lambda>_.
        unless_failed (exiting_with EXECUTABLE_PERMISSION_ERR id
          (seq (pv_on (ChangeMode (re_mc re) cmdPath plugin_mode)) (\<lambda>e. ret (case e of Some x \<Rightarrow> Inl x | None \<Rightarrow> Inr ())))) (\<lambda>_.
        seq (prepareCmdOptions re ep) (\<lambda>foreground.
        seq (executePlugin re cmdPath (SplitArgs (re_split re) ep)
          (case ep_ExecutionTimeout ep of None \<Rightarrow> timeout_of (cf_Timeout c) | Some t \<Rightarrow> t) (plugin_vars unzipdir []) False foreground) (\<lambda>(code, text, err).
        ret (Inr (code, err))))))))))))))"

section \<open>The command line\<close>

text \<open>The flags as the library of commands gives them; the two times are texts when they are given.\<close>

record plugin_flags =
  fl_verbose :: bool
  fl_version :: bool
  fl_list :: bool
  fl_local :: bool
  fl_verify :: bool
  fl_status :: bool
  fl_exec :: bool
  fl_remove :: bool
  fl_foreground :: bool
  fl_plugin :: string
  fl_pluginId :: string
  fl_pluginVersion :: string
  fl_params :: string
  fl_paramsV2 :: string
  fl_url :: string
  fl_separator :: string
  fl_file :: string
  fl_fetchTimeout :: "string option"
  fl_executionTimeout :: "string option"

text \<open>\<open>Refused\<close> is the error that \<open>execute\<close> returns, \<open>Exited\<close> the call of \<open>os.Exit\<close>, \<open>Printed\<close> the error shown at its end.\<close>

datatype main_result = Refused go_error | Exited int | Printed "go_error option"

definition parsed_time :: "string \<Rightarrow> string option \<Rightarrow> 'a \<Rightarrow> (int \<Rightarrow> 'a) \<Rightarrow> go_error + 'a" where
  "parsed_time what t absent present =
     (case t of
        None \<Rightarrow> Inr absent
      | Some s \<Rightarrow> (case atoi s of
            (n, Some e) \<Rightarrow> Inl (WrappedError (what @ '' \"'' @ s @ ''\": '') (atoi_error s e) [])
          | (n, None) \<Rightarrow> Inr (present n)))"

definition NewPluginManager :: "run_env \<Rightarrow> (go_error option) pv" where
  "NewPluginManager re =
     seq (pv_on (GetPluginPath (re_mc re))) (\<lambda>(p, err).
     seq (modify (\<lambda>s. s\<lparr>PLUGINDIR := p\<rparr>)) (\<lambda>_. ret err))"

definition execute_params :: "plugin_flags \<Rightarrow> int option \<Rightarrow> ExecuteParams" where
  "execute_params fl t = \<lparr>ep_Params = fl_params fl, ep_Separator = fl_separator fl, ep_ParamsV2 = fl_paramsV2 fl,
     ep_ExecutionTimeout = t, ep_Foreground = fl_foreground fl\<rparr>"

definition dispatch :: "run_env \<Rightarrow> plugin_flags \<Rightarrow> int \<Rightarrow> int option \<Rightarrow> exit_value pv" where
  "dispatch re fl fetchTimeout executionTimeout =
     (if fl_version fl then ret (0, None)
      else if fl_list fl then ListPlugins re (fl_plugin fl) (fl_local fl)
      else if fl_verify fl then
        VerifyPlugin re \<lparr>vf_Url = fl_url fl, vf_FetchTimeoutInSeconds = fetchTimeout\<rparr> (execute_params fl executionTimeout)
      else if fl_status fl then ShowPluginStatus re
      else if fl_exec fl then
        ExecutePlugin re True \<lparr>ef_File = fl_file fl, ef_PluginName = fl_plugin fl, ef_PluginId = fl_pluginId fl, ef_Version = fl_pluginVersion fl,
          ef_Local = fl_local fl, ef_FetchTimeoutInSeconds = fetchTimeout\<rparr> (execute_params fl executionTimeout)
      else if fl_remove fl then RemovePlugin re (fl_plugin fl)
      else ret (0, None))"

definition execute :: "run_env \<Rightarrow> plugin_flags \<Rightarrow> main_result pv" where
  "execute re fl =
     seq (NewPluginManager re) (\<lambda>e.
     case e of
       Some x \<Rightarrow> ret (Refused x)
     | None \<Rightarrow>
         (case parsed_time ''Invalid fetch timeout argument'' (fl_fetchTimeout fl) 20 id of
            Inl x \<Rightarrow> ret (Refused x)
          | Inr fetchTimeout \<Rightarrow>
              (case parsed_time ''Invalid timeout argument for execution'' (fl_executionTimeout fl) None Some of
                 Inl x \<Rightarrow> ret (Refused x)
               | Inr executionTimeout \<Rightarrow>
                   seq (dispatch re fl fetchTimeout executionTimeout) (\<lambda>(exitCode, err).
                   ret (if exitCode \<noteq> 0 then Exited exitCode else Printed err)))))"

end
