(* ===== verification/Plugin_Steps.thy ===== *)
theory Plugin_Steps
  imports Plugin_Commands Plugin_Store_Properties
begin

text \<open>
  Rules for the programs of the plugin manager: triples over the events they record under the locks they
  hold, invariants that a program keeps, what each operation records, and that every operation returns.
\<close>

section \<open>Triples over the events\<close>

text \<open>
  \<open>tr B D L I m Q\<close>: from the plugin directory \<open>D\<close>, the locks \<open>L\<close> and events that satisfy \<open>I\<close>, every end of
  \<open>m\<close> has the same directory and locks, and its events satisfy \<open>Q\<close> of the value or, after a panic, \<open>B\<close>.
\<close>

type_synonym pr_history = "((string \<times> bool) list \<times> plugin_event) list"

definition tr ::
  "(pr_history \<Rightarrow> bool) \<Rightarrow> string \<Rightarrow> (string \<times> bool) list \<Rightarrow> (pr_history \<Rightarrow> bool) \<Rightarrow> 'a pv \<Rightarrow> ('a \<Rightarrow> pr_history \<Rightarrow> bool) \<Rightarrow> bool" where
  "tr B D L I m Q \<longleftrightarrow>
     (\<forall>s r s1. PLUGINDIR s = D \<longrightarrow> pr_locks s = L \<longrightarrow> I (pr_events s) \<longrightarrow> m s = Some (r, s1) \<longrightarrow>
        PLUGINDIR s1 = D \<and> pr_locks s1 = L \<and> (case r of Returns x \<Rightarrow> Q x (pr_events s1) | Panics p \<Rightarrow> B (pr_events s1)))"

named_theorems tr_rules "triples of programs"

lemma trI:
  "(\<And>s r s1. PLUGINDIR s = D \<Longrightarrow> pr_locks s = L \<Longrightarrow> I (pr_events s) \<Longrightarrow> m s = Some (r, s1) \<Longrightarrow>
      PLUGINDIR s1 = D \<and> pr_locks s1 = L \<and> (case r of Returns x \<Rightarrow> Q x (pr_events s1) | Panics p \<Rightarrow> B (pr_events s1))) \<Longrightarrow>
    tr B D L I m Q"
  unfolding tr_def by blast

lemma tr_seq:
  assumes "tr B D L I m R" "\<And>x. tr B D L (R x) (f x) Q"
  shows "tr B D L I (seq m f) Q"
proof (rule trI)
  fix s r s1
  assume s: "PLUGINDIR s = D" "pr_locks s = L" "I (pr_events s)" and r: "seq m f s = Some (r, s1)"
  obtain r1 s2 where m: "m s = Some (r1, s2)" using r by (auto simp: seq_def split: option.splits)
  note 1 = assms(1) [unfolded tr_def, rule_format, OF s m]
  show "PLUGINDIR s1 = D \<and> pr_locks s1 = L \<and> (case r of Returns x \<Rightarrow> Q x (pr_events s1) | Panics p \<Rightarrow> B (pr_events s1))"
  proof (cases r1)
    case (Panics p)
    then have "r = Panics p \<and> s1 = s2" using r m by (simp add: seq_def)
    then show ?thesis using 1 Panics by simp
  next
    case (Returns x)
    then have "f x s2 = Some (r, s1)" using r m by (simp add: seq_def)
    then show ?thesis using assms(2) [of x, unfolded tr_def, rule_format, OF _ _ _ \<open>f x s2 = Some (r, s1)\<close>] 1 Returns by simp
  qed
qed

lemma tr_weaken:
  assumes "tr B D L I m Q" "\<And>h. I' h \<Longrightarrow> I h" "\<And>x h. Q x h \<Longrightarrow> Q' x h"
  shows "tr B D L I' m Q'"
proof (rule trI, goal_cases)
  case (1 s r s1)
  note assms(1) [unfolded tr_def, rule_format, OF 1(1,2) assms(2) [OF 1(3)] 1(4)]
  then show ?case using assms(3) by (cases r) auto
qed

lemma tr_if: "(b \<Longrightarrow> tr B D L I m Q) \<Longrightarrow> tr B D L (\<lambda>h. I h \<and> b) m Q"
proof (cases b)
  case False
  then show ?thesis unfolding tr_def by blast
qed simp

text \<open>An invariant, and a fact about the values that comes with it.\<close>

definition keeps :: "(pr_history \<Rightarrow> bool) \<Rightarrow> string \<Rightarrow> (string \<times> bool) list \<Rightarrow> ('a \<Rightarrow> bool) \<Rightarrow> 'a pv \<Rightarrow> bool" where
  "keeps I D L V m \<longleftrightarrow> tr I D L I m (\<lambda>x h. I h \<and> V x)"

abbreviation anything :: "'a \<Rightarrow> bool" where "anything x \<equiv> True"

lemma keeps_ret: "V x \<Longrightarrow> keeps I D L V (ret x)"
  by (simp add: keeps_def tr_def ret_def)

lemma keeps_panic: "keeps I D L V (panic p)"
  by (simp add: keeps_def tr_def panic_def)

lemma keeps_diverge: "keeps I D L V (\<lambda>s. None)"
  by (simp add: keeps_def tr_def)

lemma keeps_look: "(\<And>s. PLUGINDIR s = D \<Longrightarrow> V (f s)) \<Longrightarrow> keeps I D L V (look f)"
  by (simp add: keeps_def tr_def look_def)

lemma keeps_seq: "keeps I D L V m \<Longrightarrow> (\<And>x. V x \<Longrightarrow> keeps I D L W (f x)) \<Longrightarrow> keeps I D L W (seq m f)"
proof -
  assume m: "keeps I D L V m" and f: "\<And>x. V x \<Longrightarrow> keeps I D L W (f x)"
  have "tr I D L (\<lambda>h. I h \<and> V x) (f x) (\<lambda>y h. I h \<and> W y)" for x
    using f [of x] by (intro tr_if) (simp add: keeps_def)
  with m show ?thesis unfolding keeps_def by (rule tr_seq)
qed

lemmas keeps_then = keeps_seq [where V = anything]

lemma keeps_dir: "keeps I D L W (f D) \<Longrightarrow> keeps I D L W (seq (look PLUGINDIR) f)"
  by (rule keeps_seq [where V = "\<lambda>d. d = D"]) (simp_all add: keeps_look)

lemma keeps_unless: "keeps I D L (\<lambda>r. \<forall>x. r = Inr x \<longrightarrow> V x) m \<Longrightarrow> (\<And>x. V x \<Longrightarrow> keeps I D L W (f x)) \<Longrightarrow> (\<And>e. W (Inl e)) \<Longrightarrow>
    keeps I D L W (unless_failed m f)"
  unfolding unless_failed_def by (rule keeps_seq, assumption) (auto intro!: keeps_ret split: sum.split)

lemmas keeps_unless_then = keeps_unless [where V = anything and W = anything, simplified]

lemma keeps_weaken: "keeps I D L V m \<Longrightarrow> (\<And>x. V x \<Longrightarrow> W x) \<Longrightarrow> keeps I D L W m"
  unfolding keeps_def by (erule tr_weaken) simp_all

lemma keeps_log: "(\<And>h. I h \<Longrightarrow> I (h @ [(L, e)])) \<Longrightarrow> keeps I D L V (log_plugin e)" if "V ()"
  using that by (auto simp: keeps_def tr_def log_plugin_def modify_def)

lemma keeps_modify:
  "V () \<Longrightarrow> (\<And>s. PLUGINDIR (f s) = PLUGINDIR s) \<Longrightarrow> (\<And>s. pr_locks (f s) = pr_locks s) \<Longrightarrow> (\<And>s. pr_events (f s) = pr_events s) \<Longrightarrow>
    keeps I D L V (modify f)"
  by (simp add: keeps_def tr_def modify_def)

lemma keeps_if: "(b \<Longrightarrow> keeps I D L V m) \<Longrightarrow> (\<not> b \<Longrightarrow> keeps I D L V m') \<Longrightarrow> keeps I D L V (if b then m else m')"
  by simp

lemma keeps_option: "(x = None \<Longrightarrow> keeps I D L V m) \<Longrightarrow> (\<And>y. x = Some y \<Longrightarrow> keeps I D L V (f y)) \<Longrightarrow>
    keeps I D L V (case x of None \<Rightarrow> m | Some y \<Rightarrow> f y)"
  by (simp split: option.split)

lemma keeps_sum: "(\<And>e. x = Inl e \<Longrightarrow> keeps I D L V (g e)) \<Longrightarrow> (\<And>y. x = Inr y \<Longrightarrow> keeps I D L V (f y)) \<Longrightarrow>
    keeps I D L V (case x of Inl e \<Rightarrow> g e | Inr y \<Rightarrow> f y)"
  by (simp split: sum.split)

lemma keeps_prod: "(\<And>a b. x = (a, b) \<Longrightarrow> keeps I D L V (f a b)) \<Longrightarrow> keeps I D L V (case x of (a, b) \<Rightarrow> f a b)"
  by (simp split: prod.split)

text \<open>Steps in the database, the world and the metrics record nothing.\<close>

lemma zoom_end: "zoom g p m s = Some (r, s1) \<Longrightarrow> \<exists>t. s1 = p t s"
  by (auto simp: zoom_def split: option.splits)

lemma keeps_in_store:
  assumes "\<And>t x t1. m t = Some (Returns x, t1) \<Longrightarrow> V x"
  shows "keeps I D L V (in_store m)"
  unfolding keeps_def
proof (rule trI)
  fix s r s1
  assume s: "PLUGINDIR s = D" "pr_locks s = L" "I (pr_events s)" and r: "in_store m s = Some (r, s1)"
  obtain t where t: "m (pr_store s) = Some (r, t)" "s1 = s\<lparr>pr_store := t\<rparr>"
    using r by (auto simp: in_store_def zoom_def split: option.splits)
  then show "PLUGINDIR s1 = D \<and> pr_locks s1 = L \<and> (case r of Returns x \<Rightarrow> I (pr_events s1) \<and> V x | Panics p \<Rightarrow> I (pr_events s1))"
    using s assms [of "pr_store s"] by (auto split: outcome.split)
qed

lemma keeps_pv_on: "(\<And>w. V (fst (f w))) \<Longrightarrow> keeps I D L V (pv_on f)"
  unfolding pv_on_def by (rule keeps_in_store) (auto simp: ps_on_def effect_of_def split_beta Let_def)

lemma keeps_run: "V = anything \<Longrightarrow> keeps I D L V (run_plugin_cmd re name args timeout env)"
  unfolding keeps_def
  by (rule trI) (auto simp: run_plugin_cmd_def outcome_of_def split: outcome.splits)

lemma keeps_metrics: "V = anything \<Longrightarrow> keeps I D L V (with_plugin_metrics f)"
  unfolding keeps_def
  by (rule trI) (auto simp: with_plugin_metrics_def outcome_of_def split_beta Let_def split: outcome.splits)

lemmas keeps_basic = keeps_ret keeps_panic keeps_diverge keeps_look keeps_if keeps_option keeps_sum keeps_prod
  keeps_in_store keeps_pv_on keeps_run keeps_metrics

text \<open>The locks: what runs under one more of them, and gives it back.\<close>

lemma keeps_deferring:
  assumes "keeps I D (l # L) V m"
  shows "keeps I D L V (seq (modify (hold (fst l) (snd l))) (\<lambda>_. deferring m (release (fst l) (snd l))))"
  unfolding keeps_def
proof (rule trI)
  fix s r s1
  assume s: "PLUGINDIR s = D" "pr_locks s = L" "I (pr_events s)"
    and r: "seq (modify (hold (fst l) (snd l))) (\<lambda>_. deferring m (release (fst l) (snd l))) s = Some (r, s1)"
  obtain s2 where m: "m (hold (fst l) (snd l) s) = Some (r, s2)" "s1 = release (fst l) (snd l) s2"
    using r by (auto simp: seq_def modify_def deferring_def)
  have "PLUGINDIR (hold (fst l) (snd l) s) = D" "pr_locks (hold (fst l) (snd l) s) = l # L" "I (pr_events (hold (fst l) (snd l) s))"
    using s by (simp_all add: hold_def)
  from assms [unfolded keeps_def tr_def, rule_format, OF this m(1)]
  show "PLUGINDIR s1 = D \<and> pr_locks s1 = L \<and> (case r of Returns x \<Rightarrow> I (pr_events s1) \<and> V x | Panics p \<Rightarrow> I (pr_events s1))"
    using m(2) by (auto simp: release_def split: outcome.splits)
qed

lemma acquiring_then:
  "seq (acquiring m path ex) (\<lambda>e. case e of None \<Rightarrow> deferring n (release path ex) | Some x \<Rightarrow> g x) =
    seq m (\<lambda>e. case e of None \<Rightarrow> seq (modify (hold path ex)) (\<lambda>_. deferring n (release path ex)) | Some x \<Rightarrow> g x)"
proof -
  have "seq (case e of None \<Rightarrow> seq (modify (hold path ex)) (\<lambda>_. ret None) | Some x \<Rightarrow> ret (Some x))
      (\<lambda>e. case e of None \<Rightarrow> deferring n (release path ex) | Some x \<Rightarrow> g x) =
    (case e of None \<Rightarrow> seq (modify (hold path ex)) (\<lambda>_. deferring n (release path ex)) | Some x \<Rightarrow> g x)" for e
    by (cases e) (simp_all add: seq_assoc)
  then show ?thesis by (simp add: acquiring_def seq_assoc)
qed

lemma keeps_acquiring:
  assumes "keeps I D L anything m" "keeps I D ((path, ex) # L) V n" "\<And>x. keeps I D L V (g x)"
  shows "keeps I D L V (seq (acquiring m path ex) (\<lambda>e. case e of None \<Rightarrow> deferring n (release path ex) | Some x \<Rightarrow> g x))"
  unfolding acquiring_then
  using keeps_deferring [of I D "(path, ex)" L V n] assms(2)
  by (intro keeps_then [OF assms(1)] keeps_option assms(3)) simp

lemma keeps_waited: "V = anything \<Longrightarrow> keeps I D L V (waited re path ex timeout)"
  unfolding keeps_def
  by (rule trI) (auto simp: waited_def)

lemma keeps_open_lock:
  "(\<And>r d. r = path_join [d, name] \<Longrightarrow> V (Inr r)) \<Longrightarrow> (\<And>e. V (Inl e)) \<Longrightarrow> keeps I D L V (open_lock_file re name)"
  unfolding open_lock_file_def getPluginManagerCachePath_def
  by (rule keeps_unless [where V = anything])
    (auto simp: Let_def intro!: keeps_then keeps_pv_on keeps_ret keeps_option split: prod.split option.split)

text \<open>The frame of an execution.\<close>

definition plugin_lock :: "string \<Rightarrow> bool \<Rightarrow> string \<times> bool \<Rightarrow> bool" where
  "plugin_lock n ex l \<longleftrightarrow> (\<exists>d. l = (path_join [d, n @ ''.lock''], ex))"

definition version_lock :: "string \<Rightarrow> string \<Rightarrow> bool \<Rightarrow> string \<times> bool \<Rightarrow> bool" where
  "version_lock n v ex l \<longleftrightarrow> (\<exists>d. l = (path_join [d, n @ ''.v'' @ v @ ''.lock''], ex))"

lemma keeps_fail: "V (Inl (code, Some e)) \<Longrightarrow> keeps I D L V (fail_with code e)"
  unfolding fail_with_def by (rule keeps_then) (auto intro: keeps_modify keeps_ret)

lemma keeps_exiting_with:
  "keeps I D L (\<lambda>r. \<forall>x. r = Inr x \<longrightarrow> V (Inr x)) m \<Longrightarrow> (\<And>c e. V (Inl (c, Some e))) \<Longrightarrow> keeps I D L V (exiting_with code mk m)"
  unfolding exiting_with_def by (rule keeps_seq, assumption) (auto intro!: keeps_fail keeps_ret split: sum.split)

lemma keeps_exiting:
  "keeps I D L (\<lambda>r. \<forall>x. r = Inr x \<longrightarrow> V (Inr x)) m \<Longrightarrow> (\<And>c e. V (Inl (c, Some e))) \<Longrightarrow> keeps I D L V (exiting m)"
  unfolding exiting_def by (rule keeps_seq, assumption) (auto intro!: keeps_fail keeps_ret split: sum.split)

lemma keeps_exiting_unless: "V (Inr ()) \<Longrightarrow> (\<And>c e. V (Inl (c, Some e))) \<Longrightarrow> keeps I D L V (exiting_unless b code m)"
  unfolding exiting_unless_def by (auto intro!: keeps_fail keeps_ret)

lemma keeps_collapse: "keeps I D L anything m \<Longrightarrow> keeps I D L anything (collapse m)"
  unfolding collapse_def by (rule keeps_then) (auto intro: keeps_ret)

lemma keeps_plugin_lock:
  assumes "\<And>l. plugin_lock n ex l \<Longrightarrow> keeps I D (l # L) anything m"
  shows "keeps I D L anything (with_plugin_lock re n ex m)"
  unfolding with_plugin_lock_def try_lock_def
proof (rule keeps_unless [where V = "\<lambda>p. \<exists>d. p = path_join [d, n @ ''.lock'']"], goal_cases)
  case 1
  show ?case unfolding openPluginLockFile_def by (rule keeps_exiting_with, rule keeps_open_lock) auto
next
  case (2 p)
  then have "plugin_lock n ex (p, ex)" by (auto simp: plugin_lock_def)
  then show ?case by (intro keeps_acquiring keeps_fail assms keeps_pv_on) simp_all
qed simp

lemma keeps_guard_value:
  assumes "\<And>l. version_lock n v True l \<Longrightarrow> keeps I D (l # L) V m"
    and "\<And>l. version_lock n v False l \<Longrightarrow> keeps I D (l # L) V m'"
  shows "keeps I D L (\<lambda>r. \<forall>x. r = Inr x \<longrightarrow> V x) (InstallLockGuard_Do re n v timeout m m')"
  unfolding InstallLockGuard_Do_def
proof (rule keeps_seq [where V = "\<lambda>r. \<forall>p. r = Inr p \<longrightarrow> (\<exists>d. p = path_join [d, n @ ''.v'' @ v @ ''.lock''])"], goal_cases)
  case 1
  show ?case unfolding openPluginVersionLockFile_def by (rule keeps_open_lock) auto
next
  case (2 r)
  show ?case
  proof (rule keeps_sum, rule keeps_ret, simp, goal_cases)
    case (1 p)
    with 2 have "version_lock n v ex (p, ex)" for ex by (auto simp: version_lock_def)
    then have b: "keeps I D ((p, True) # L) (\<lambda>r. \<forall>x. r = Inr x \<longrightarrow> V x) (seq m (\<lambda>x. ret (Inr x)))"
        "keeps I D ((p, False) # L) (\<lambda>r. \<forall>x. r = Inr x \<longrightarrow> V x) (seq m' (\<lambda>x. ret (Inr x)))"
      using assms by (auto intro!: keeps_seq [where V = V] keeps_ret)
    show ?case
      unfolding try_lock_def wait_lock_def
      by (intro keeps_acquiring keeps_if keeps_ret keeps_waited b keeps_pv_on) simp_all
  qed
qed

lemma keeps_guard:
  assumes "\<And>l. version_lock n v True l \<Longrightarrow> keeps I D (l # L) anything m"
    and "\<And>l. version_lock n v False l \<Longrightarrow> keeps I D (l # L) anything m'"
  shows "keeps I D L anything (InstallLockGuard_Do re n v timeout m m')"
  using keeps_guard_value [of n v I D L anything m m'] assms by simp

text \<open>What holds of the values whatever is recorded.\<close>

abbreviation yields :: "string \<Rightarrow> (string \<times> bool) list \<Rightarrow> ('a \<Rightarrow> bool) \<Rightarrow> 'a pv \<Rightarrow> bool" where
  "yields D L V m \<equiv> keeps (\<lambda>h. True) D L V m"

lemma keeps_yields:
  assumes "keeps I D L anything m" "yields D L V m"
  shows "keeps I D L V m"
  unfolding keeps_def
proof (rule trI, goal_cases)
  case (1 s r s1)
  from assms(1) [unfolded keeps_def tr_def, rule_format, OF 1] assms(2) [unfolded keeps_def tr_def, rule_format, OF 1(1,2) _ 1(4)]
  show ?case by (auto split: outcome.splits)
qed

section \<open>What the operations record\<close>

text \<open>An event the invariant allows under the locks.\<close>

definition steady :: "(pr_history \<Rightarrow> bool) \<Rightarrow> (string \<times> bool) list \<Rightarrow> plugin_event \<Rightarrow> bool" where
  "steady I L e \<longleftrightarrow> (\<forall>h. I h \<longrightarrow> I (h @ [(L, e)]))"

text \<open>A run of the program \<open>p\<close>, by itself or through the shell of its kind.\<close>

definition runs_program :: "string \<Rightarrow> string \<Rightarrow> string list \<Rightarrow> bool" where
  "runs_program p name args \<longleftrightarrow> name = p \<or> name = ''powershell'' \<and> args \<noteq> [] \<and> hd args = p"

text \<open>The events every invariant here allows, where \<open>R\<close> says which programs may run.\<close>

definition harmless :: "(string \<Rightarrow> bool) \<Rightarrow> plugin_event \<Rightarrow> bool" where
  "harmless R e \<longleftrightarrow> (case e of PluginRan n a t v f \<Rightarrow> \<exists>p. R p \<and> runs_program p n a
     | PackageFetched u p \<Rightarrow> True | PackageDigested p m \<Rightarrow> True
     | StatusReported st \<Rightarrow> True | PluginsPrinted ps \<Rightarrow> True | StatusPrinted ps \<Rightarrow> True | _ \<Rightarrow> False)"

definition calm :: "(string \<Rightarrow> bool) \<Rightarrow> (pr_history \<Rightarrow> bool) \<Rightarrow> (string \<times> bool) list \<Rightarrow> bool" where
  "calm R I L \<longleftrightarrow> (\<forall>e. harmless R e \<longrightarrow> steady I L e)"

lemma calmD: "calm R I L \<Longrightarrow> harmless R e \<Longrightarrow> steady I L e"
  by (simp add: calm_def)

lemma keeps_event: "steady I L e \<Longrightarrow> keeps I D L anything (log_plugin e)"
  by (rule keeps_log) (simp_all add: steady_def)

lemma harmless_simps [simp]:
  "harmless R (PluginRan n a t v f) \<longleftrightarrow> (\<exists>p. R p \<and> runs_program p n a)" "harmless R (PackageFetched u p)" "harmless R (PackageDigested p m)"
  "harmless R (StatusReported st)" "harmless R (PluginsPrinted ps)" "harmless R (StatusPrinted sts)"
  by (simp_all add: harmless_def)

lemma harmless_any: "harmless R e \<Longrightarrow> harmless anything e"
  by (cases e) (auto simp: harmless_def)

lemma calm_any: "calm anything I L \<Longrightarrow> calm R I L"
  using harmless_any unfolding calm_def by blast

lemma calm_trivial: "calm R (\<lambda>h. True) L"
  by (simp add: calm_def steady_def)

lemmas keeps_step = keeps_dir keeps_unless_then keeps_then keeps_prod keeps_if keeps_option keeps_sum keeps_event

text \<open>The rules that need no thought, for values without a fact.\<close>

lemma keeps_plain:
  "keeps I D L anything (ret x)" "keeps I D L anything (panic p)" "keeps I D L anything (\<lambda>s. None)"
  "keeps I D L anything (look f)" "keeps I D L anything (in_store m)" "keeps I D L anything (pv_on g)"
  "keeps I D L anything (run_plugin_cmd re name args timeout env)" "keeps I D L anything (with_plugin_metrics k)"
  "keeps I D L anything (fail_with code err)" "keeps I D L anything (exiting_unless b code msg)"
  by (auto intro: keeps_basic keeps_fail keeps_exiting_unless)

lemma keeps_coded_run: "keeps I D L anything (coded_run re name args t env quietly)"
  unfolding coded_run_def Let_def by (intro keeps_then keeps_prod keeps_plain)

lemma keeps_executePlugin: "calm R I L \<Longrightarrow> R cmdPath \<Longrightarrow> keeps I D L anything (executePlugin re cmdPath ps timeout env quietly fg)"
  unfolding executePlugin_def Let_def
  by (intro keeps_step keeps_plain keeps_coded_run) (auto elim!: calmD simp: runs_program_def split: if_splits)

lemma keeps_report_status: "calm R I L \<Longrightarrow> keeps I D L anything (ReportPluginStatus re name version status tag)"
  unfolding ReportPluginStatus_def Let_def
  by (intro keeps_then keeps_event keeps_plain keeps_prod) (simp add: calmD)

lemma keeps_check_report: "calm R I L \<Longrightarrow> R cmd \<Longrightarrow> keeps I D L anything (CheckAndReportPlugin re name version cmd timeout env tag)"
  unfolding CheckAndReportPlugin_def Let_def
  by (intro keeps_then keeps_prod keeps_if keeps_executePlugin keeps_report_status keeps_plain; assumption)

lemma keeps_local: "keeps I D L anything (queryFromLocalOnly re name version)"
  unfolding queryFromLocalOnly_def by (intro keeps_then keeps_sum keeps_option keeps_plain)

lemma keeps_package_info: "keeps I D L anything (getPackageInfo re name version arch)"
  unfolding getPackageInfo_def by (intro keeps_then keeps_prod keeps_if keeps_plain)

lemma keeps_prepare: "keeps I D L anything (prepareCmdOptions re ep)"
  unfolding prepareCmdOptions_def by (intro keeps_if keeps_plain)

lemma keeps_run_fetched: "calm R I L \<Longrightarrow> R (Entrypoint f) \<Longrightarrow> keeps I D L anything (run_fetched re f ep)"
  unfolding run_fetched_def
  by (intro keeps_then keeps_prepare keeps_prod keeps_executePlugin [where R = R] keeps_plain) (auto intro: keeps_modify)

lemma keeps_check_fetched: "calm R I L \<Longrightarrow> R (Entrypoint f) \<Longrightarrow> keeps I D L anything (check_fetched re f ep tag)"
  unfolding check_fetched_def by (intro keeps_then keeps_check_report keeps_plain)

lemma keeps_installed_fetched: "calm R I L \<Longrightarrow> keeps I D L anything (installed_fetched re f tag)"
  unfolding installed_fetched_def by (intro keeps_then keeps_report_status keeps_plain)

lemma keeps_runs:
  "calm R I L \<Longrightarrow> R (Entrypoint f) \<Longrightarrow> keeps I D L anything (run_from_file re f ep)"
  "calm R I L \<Longrightarrow> R (Entrypoint f) \<Longrightarrow> keeps I D L anything (run_online_or_local re online f ep)"
  unfolding run_from_file_def run_online_or_local_def
  by (intro keeps_then keeps_run_fetched keeps_if keeps_check_fetched keeps_installed_fetched keeps_plain; assumption)+

lemma keeps_reporting:
  assumes "keeps I D L anything m"
  shows "keeps I D L anything (reporting_execution re v m)"
proof -
  have r: "keeps I D L anything (report_execution re code)" for code
    unfolding report_execution_def by (intro keeps_then keeps_plain)
  have "keeps I D L anything (afterwards (collapse m) (\<lambda>r. report_execution re (case r of None \<Rightarrow> 0 | Some (code, err) \<Rightarrow> code)))"
    unfolding keeps_def
  proof (rule trI, goal_cases)
    case (1 s r s1)
    obtain r2 s2 where 2: "collapse m s = Some (r2, s2)" using 1(4) by (auto simp: afterwards_def split: option.splits)
    from keeps_collapse [OF assms, unfolded keeps_def tr_def, rule_format, OF 1(1-3) 2]
    have 3: "PLUGINDIR s2 = D" "pr_locks s2 = L" "I (pr_events s2)" by (auto split: outcome.splits)
    obtain n where n: "report_execution re n s2 = None \<longrightarrow> False"
        "\<And>r' s'. report_execution re n s2 = Some (r', s') \<Longrightarrow> s1 = s'"
      using 1(4) 2 by (fastforce simp: afterwards_def seq_def ret_def panic_def split: outcome.splits option.splits prod.splits)
    then obtain r' where "report_execution re n s2 = Some (r', s1)" by (cases "report_execution re n s2") auto
    from r [unfolded keeps_def tr_def, rule_format, OF 3 this] show ?case by (auto split: outcome.splits)
  qed
  then show ?thesis unfolding reporting_execution_def by (intro keeps_then keeps_modify) simp_all
qed

lemma keeps_coded:
  "keeps I D L anything m \<Longrightarrow> keeps I D L anything (coding mk m)"
  "keeps I D L anything n \<Longrightarrow> keeps I D L anything (failing_as mk n)"
  "keeps I D L anything (require b x)"
  unfolding coding_def failing_as_def require_def by (auto intro: keeps_then keeps_plain)

lemma keeps_open_zip: "keeps I D L anything (open_zip re f)"
  unfolding open_zip_def by (intro keeps_unless_then keeps_plain)

lemma keeps_unzip_entries: "keeps I D L anything (unzip_entries re ctx dir es)"
proof (induction es)
  case (Cons e es)
  have "keeps I D L anything (unzip_entry re dir e)"
    unfolding unzip_entry_def Let_def by (intro keeps_prod keeps_if keeps_then keeps_option keeps_sum keeps_plain)
  then show ?case
    unfolding unzip_entries.simps ctx_done_def by (intro keeps_then keeps_if keeps_option keeps_plain Cons.IH)
qed (simp add: keeps_plain)

lemma keeps_unzip: "steady I L (PackageUnzipped f d) \<Longrightarrow> keeps I D L anything (UnzipContext re ctx f d)"
  unfolding UnzipContext_def by (intro keeps_then keeps_sum keeps_open_zip keeps_event keeps_unzip_entries keeps_plain)

lemma keeps_md5: "calm R I L \<Longrightarrow> keeps I D L anything (file_md5 re f)"
  unfolding file_md5_def by (intro keeps_unless_then keeps_then keeps_event keeps_plain) (simp add: calmD)

lemma keeps_HttpDownlod: "calm R I L \<Longrightarrow> keeps I D L anything (HttpDownlod re url f)"
  unfolding HttpDownlod_def by (intro keeps_then keeps_if keeps_event keeps_plain) (simp add: calmD)

lemma keeps_download: "calm R I L \<Longrightarrow> keeps I D L anything (download_tries re ctx n err url f)"
proof (induction n arbitrary: err)
  case (Suc n)
  then show ?case unfolding download_tries.simps by (intro keeps_then keeps_if keeps_HttpDownlod keeps_plain)
qed (simp add: keeps_plain)

lemma keeps_database:
  "steady I L (PluginInserted p) \<Longrightarrow> keeps I D L anything (insert_plugin re p)"
  "steady I L (PluginUpdated i p) \<Longrightarrow> keeps I D L anything (update_plugin re i p)"
  "steady I L (PluginDeleted i) \<Longrightarrow> keeps I D L anything (delete_plugin re i)"
  "steady I L (PluginTreeRemoved path) \<Longrightarrow> keeps I D L anything (remove_tree re path)"
  unfolding insert_plugin_def update_plugin_def delete_plugin_def remove_tree_def
  by (intro keeps_then keeps_event keeps_plain; assumption)+

lemma keeps_replace_removed: "(\<And>i. steady I L (PluginDeleted i)) \<Longrightarrow> keeps I D L anything (replace_removed re old)"
  unfolding replace_removed_def by (intro keeps_option keeps_prod keeps_if keeps_then keeps_database keeps_plain)

lemma keeps_make_executable: "keeps I D L anything (make_executable re tip cmd)"
  unfolding make_executable_def by (intro keeps_unless_then keeps_then keeps_coded keeps_plain)

text \<open>What an installation of a version records.\<close>

definition install_event :: "string \<Rightarrow> string \<Rightarrow> string \<Rightarrow> plugin_event \<Rightarrow> bool" where
  "install_event D n v e \<longleftrightarrow>
     (case e of PackageUnzipped f d \<Rightarrow> d = path_join [D, n, v] | PluginInserted p \<Rightarrow> pi_Name p = n \<and> pi_Version p = v
      | PluginUpdated i p \<Rightarrow> pi_Name p = n \<and> pi_Version p = v | PluginDeleted i \<Rightarrow> True | _ \<Rightarrow> False)"

lemma configured_simps [simp]: "pi_Name (configured c p) = cf_Name c" "pi_Version (configured c p) = cf_Version c"
  by (simp_all add: configured_def SetPluginType_def)

lemma online_plugin_simps [simp]: "pi_Name (online_plugin q c) = pi_Name q" "pi_Version (online_plugin q c) = pi_Version q"
  by (simp_all add: online_plugin_def SetPluginType_def)

lemma keeps_installFromFile:
  assumes "calm R I L" "\<And>e. install_event D (cf_Name c) (cf_Version c) e \<Longrightarrow> steady I L e"
  shows "keeps I D L anything (installFromFile re f c old timeout)"
  unfolding installFromFile_def Let_def
  by (rule keeps_dir, (rule keeps_unless_then keeps_then keeps_coded keeps_md5 keeps_unzip keeps_make_executable keeps_plain
      keeps_option keeps_prod keeps_database assms | simp add: install_event_def)+)

lemma keeps_record_online:
  assumes "\<And>e. install_event D (pi_Name q) (pi_Version q) e \<Longrightarrow> steady I L e"
  shows "keeps I D L anything (record_online re q)"
  unfolding record_online_def
  by (rule keeps_unless_then keeps_dir keeps_then keeps_coded keeps_replace_removed keeps_plain
      keeps_option keeps_prod keeps_database assms | simp add: install_event_def)+

lemma keeps_read_config: "keeps I D L anything (read_config re path)"
  unfolding read_config_def Let_def by (intro keeps_unless_then keeps_then keeps_coded keeps_plain)

lemma keeps_check_online: "keeps I D L anything (check_online q c arch)"
  unfolding check_online_def Let_def by (intro keeps_unless_then keeps_coded)

lemma keeps_check_package: "calm R I L \<Longrightarrow> keeps I D L anything (check_package re q f)"
  unfolding check_package_def by (intro keeps_unless_then keeps_coded keeps_md5)

lemma keeps_unzip_package: "steady I L (PackageUnzipped f d) \<Longrightarrow> keeps I D L anything (unzip_package re q timeout f d)"
  unfolding unzip_package_def by (intro keeps_then keeps_unless_then keeps_coded keeps_unzip keeps_plain)

lemma keeps_installFromOnline:
  assumes "calm R I L" "\<And>e. install_event D (pi_Name q) (pi_Version q) e \<Longrightarrow> steady I L e"
  shows "keeps I D L anything (installFromOnline re q timeout arch)"
  unfolding installFromOnline_def Let_def download_package_def
  by (rule keeps_dir, (rule keeps_unless_then keeps_coded keeps_download keeps_check_package keeps_unzip_package keeps_read_config keeps_check_online
      keeps_make_executable keeps_record_online keeps_plain assms | simp add: install_event_def)+)

section \<open>Every operation returns\<close>

definition ends :: "('s, 'a) prog \<Rightarrow> bool" where
  "ends m \<longleftrightarrow> (\<forall>s. m s \<noteq> None)"

lemma ends_basic:
  "ends (ret x)" "ends (panic p)" "ends (modify f)" "ends (look g)" "ends (effect_of h)" "ends (outcome_of k)"
  by (simp_all add: ends_def prog_defs split_beta)

lemma ends_result: "ends m \<Longrightarrow> \<exists>r s1. m s = Some (r, s1)"
  by (auto simp: ends_def)

lemma ends_seq: "ends m \<Longrightarrow> (\<And>x. ends (f x)) \<Longrightarrow> ends (seq m f)"
  by (auto simp: ends_def seq_def split: option.split outcome.split)

lemma ends_unless: "ends m \<Longrightarrow> (\<And>x. ends (f x)) \<Longrightarrow> ends (unless_failed m f)"
  unfolding unless_failed_def by (auto intro!: ends_seq ends_basic split: sum.split)

lemma ends_deferring: "ends m \<Longrightarrow> ends (deferring m f)"
  by (simp add: ends_def deferring_def)

lemma ends_afterwards:
  fixes m :: "('s, 'a) prog"
  assumes m: "ends m" and h: "\<And>x. ends (h x)"
  shows "ends (afterwards m h)"
proof -
  have "ends (seq (h (Some x)) (\<lambda>_. ret x))" "ends (seq (h None) (\<lambda>_. panic p :: ('s, 'a) prog))" for x p
    by (intro ends_seq h ends_basic)+
  with m show ?thesis by (auto simp: ends_def [of m] ends_def [of "seq a b" for a b] ends_def [of "afterwards m h"] afterwards_def
      split: option.split outcome.split)
qed

lemma ends_cases:
  "ends m \<Longrightarrow> (\<And>y. ends (f y)) \<Longrightarrow> ends (case x of None \<Rightarrow> m | Some y \<Rightarrow> f y)"
  "(\<And>e. ends (g e)) \<Longrightarrow> (\<And>y. ends (h y)) \<Longrightarrow> ends (case z of Inl e \<Rightarrow> g e | Inr y \<Rightarrow> h y)"
  "(\<And>a b. ends (k a b)) \<Longrightarrow> ends (case p of (a, b) \<Rightarrow> k a b)"
  "ends m \<Longrightarrow> ends m' \<Longrightarrow> ends (if c then m else m')"
  by (simp_all split: option.split sum.split prod.split)

lemma ends_in_store: "ends m \<Longrightarrow> ends (in_store m)"
  by (simp add: ends_def in_store_def zoom_def split: option.split)

lemma ends_pv_on: "ends (pv_on f)"
  unfolding pv_on_def ps_on_def by (intro ends_in_store ends_basic)

lemmas ends_step = ends_seq ends_unless ends_cases ends_basic ends_pv_on

text \<open>The database.\<close>

lemma ends_ps_on: "ends (ps_on f)"
  unfolding ps_on_def by (rule ends_basic)

lemma ends_transaction: "ends (transaction se f)"
  unfolding transaction_def by (intro ends_step ends_ps_on)

lemma ends_load: "ends (LoadInstalledPlugins se)"
  unfolding LoadInstalledPlugins_def getInstalledPluginsBoltPath_def getInstalledPluginsJSONPath_def plugin_file_def
    loadInstalledPluginsBolt_def migrate_def insertInstalledPluginInfoBytes_def
  by (intro ends_step ends_ps_on ends_transaction)

lemma ends_store:
  "ends (getAllInstalledPlugins se)" "ends (getInstalledPluginsByName se n)" "ends (getInstalledPluginByName se n)"
  "ends (getInstalledPluginNotRemovedByName se n)" "ends (getLocalPluginInfo se n v)" "ends (insertNewInstalledPlugin se p)"
  "ends (updateInstalledPlugin se i p)" "ends (deleteInstalledPluginByIndex se i)"
  unfolding getAllInstalledPlugins_def getInstalledPluginsByName_def getInstalledPluginByName_def getInstalledPluginNotRemovedByName_def
    getLocalPluginInfo_def insertNewInstalledPlugin_def updateInstalledPlugin_def deleteInstalledPluginByIndex_def opened_def written_open_def
    InsertPlugin_def UpdatePlugin_def DeleteByKey_def
  by (intro ends_step ends_load ends_transaction)+

text \<open>The steps of the program.\<close>

lemma ends_fail: "ends (fail_with c e)" "ends (exiting_unless b c t)"
  unfolding fail_with_def exiting_unless_def by (intro ends_step)+

lemma ends_exiting:
  "ends m \<Longrightarrow> ends (exiting_with c mk m)" "ends n \<Longrightarrow> ends (exiting n)" "ends k \<Longrightarrow> ends (collapse k)"
  unfolding exiting_with_def exiting_def collapse_def by (intro ends_step ends_fail; assumption)+

lemma ends_coded: "ends m \<Longrightarrow> ends (coding mk m)" "ends n \<Longrightarrow> ends (failing_as mk n)" "ends (require b x)"
  unfolding coding_def failing_as_def require_def by (intro ends_step; assumption)+

lemma ends_log: "ends (log_plugin e)"
  unfolding log_plugin_def by (rule ends_basic)

lemma ends_database:
  "ends (insert_plugin re p)" "ends (update_plugin re i p)" "ends (delete_plugin re i)" "ends (remove_tree re path)" "ends (replace_removed re old)"
proof -
  show d: "ends (insert_plugin re p)" "ends (update_plugin re i p)" "ends (delete_plugin re i)" "ends (remove_tree re path)" for i
    unfolding insert_plugin_def update_plugin_def delete_plugin_def remove_tree_def by (intro ends_step ends_log ends_in_store ends_store)+
  show "ends (replace_removed re old)" unfolding replace_removed_def by (intro ends_step d)
qed

lemma ends_run: "ends (run_plugin_cmd re name args t env)" "ends (with_plugin_metrics f)"
  unfolding run_plugin_cmd_def with_plugin_metrics_def by (rule ends_basic)+

lemma ends_executePlugin: "ends (executePlugin re cmd ps t env quietly fg)"
  unfolding executePlugin_def coded_run_def Let_def by (intro ends_step ends_log ends_run)

lemma ends_reports:
  "ends (ReportPluginStatus re n v st tag)" "ends (CheckAndReportPlugin re n v cmd t env tag)"
proof -
  show r: "ends (ReportPluginStatus re n v st tag)" for st unfolding ReportPluginStatus_def Let_def by (intro ends_step ends_log)
  show "ends (CheckAndReportPlugin re n v cmd t env tag)"
    unfolding CheckAndReportPlugin_def Let_def by (intro ends_step r ends_executePlugin)
qed

lemma ends_queries:
  "ends (queryFromLocalOnly re n v)" "ends (getPackageInfo re n v b)" "ends (getOnlinePluginInfo re n v)" "ends (queryFromOnlineOrLocal re fo arch)"
  unfolding queryFromLocalOnly_def getPackageInfo_def getOnlinePluginInfo_def queryFromOnlineOrLocal_def
  by (intro ends_step ends_in_store ends_store)+

lemma ends_zip: "ends (open_zip re f)" "ends (PeekFile re f t)" "ends (UnzipContext re ctx f d)"
proof -
  show o: "ends (open_zip re f)" unfolding open_zip_def by (intro ends_step)
  then show "ends (PeekFile re f t)" unfolding PeekFile_def by (intro ends_step)
  have "ends (unzip_entries re ctx d es)" for es
    by (induction es) (auto simp: unzip_entry_def ctx_done_def Let_def intro!: ends_step split: option.split sum.split)
  then show "ends (UnzipContext re ctx f d)" unfolding UnzipContext_def by (intro ends_step ends_log o)
qed

lemma ends_download: "ends (HttpDownlod re url f)" "ends (download_tries re ctx n err url f)" "ends (file_md5 re f)"
proof -
  show h: "ends (HttpDownlod re url f)" unfolding HttpDownlod_def by (intro ends_step ends_log)
  show "ends (download_tries re ctx n err url f)"
  proof (induction n arbitrary: err)
    case (Suc n)
    then show ?case unfolding download_tries.simps by (intro ends_step h)
  qed (simp add: ends_basic)
  show "ends (file_md5 re f)" unfolding file_md5_def by (intro ends_step ends_log)
qed

lemma ends_make_executable: "ends (make_executable re tip cmd)"
  unfolding make_executable_def by (intro ends_step ends_coded)

lemma ends_installs: "ends (installFromFile re f c old t)" "ends (installFromOnline re q t arch)"
  unfolding installFromFile_def installFromOnline_def download_package_def check_package_def unzip_package_def read_config_def check_online_def
    record_online_def Let_def
  by (intro ends_step ends_coded ends_download ends_zip ends_make_executable ends_database ends_in_store ends_store)+

subsection \<open>Waiting for a lock\<close>

text \<open>With a clock that advances the loop ends; \<open>k\<close> bounds the time that is left.\<close>

definition clock_advances :: "env \<Rightarrow> bool" where
  "clock_advances env \<longleftrightarrow> (\<forall>n. clock env n < clock env (Suc n))"

lemma flock_loop_ends:
  assumes adv: "clock_advances (re_env re)" and t: "timeout \<noteq> 0" "wrap64 (timeout - flockRetryTimeout) < max_int64"
    and k: "wrap64 (timeout - flockRetryTimeout) \<le> clock (re_env re) (ticks w) - t0 + int k"
  shows "\<exists>r. flock_loop re path ex timeout t0 w = Some r"
  using k
proof (induction k arbitrary: w)
  case 0
  have "clock (re_env re) (ticks w) < clock (re_env re) (Suc (ticks w))" using adv by (simp add: clock_advances_def)
  then have "wrap64 (timeout - flockRetryTimeout) < time_sub (clock (re_env re) (Suc (ticks w))) t0"
    using 0 t(2) by (auto simp: time_sub_def max_int64_def min_int64_def wrap64_def)
  then show ?case by (simp add: flock_loop.simps t(1) read_clock_def split: flock_result.split)
next
  case (Suc k)
  have c: "clock (re_env re) n < clock (re_env re) (Suc n)" for n using adv by (simp add: clock_advances_def)
  have "clock (re_env re) (ticks w) < clock (re_env re) (Suc (Suc (Suc (ticks w))))"
    using c [of "ticks w"] c [of "Suc (ticks w)"] c [of "Suc (Suc (ticks w))"] by linarith
  then have "\<exists>r. flock_loop re path ex timeout t0 (tick (snd (read_clock (re_env re) (tick w)))) = Some r"
    using Suc.prems by (intro Suc.IH) (simp add: read_clock_def)
  then show ?case
    by (simp add: flock_loop.simps [of re path ex timeout t0 w] t(1) read_clock_def split: flock_result.split)
qed

lemma flock_ends:
  assumes "clock_advances (re_env re)" "0 < timeout" "timeout \<le> max_int64"
  shows "\<exists>r. flock re path ex timeout w = Some r"
proof -
  have w: "wrap64 (timeout - flockRetryTimeout) = timeout - flockRetryTimeout" "timeout - flockRetryTimeout < max_int64"
    using assms(2,3) by (auto simp: flockRetryTimeout_def max_int64_def wrap64_def)
  let ?t0 = "clock (re_env re) (ticks w)"
  have "wrap64 (timeout - flockRetryTimeout) \<le> clock (re_env re) (ticks (tick w)) - ?t0
      + int (nat (\<bar>timeout\<bar> + \<bar>clock (re_env re) (ticks (tick w)) - ?t0\<bar>))"
    unfolding w(1) by (simp add: flockRetryTimeout_def)
  from flock_loop_ends [OF assms(1) _ _ this] w assms(2) show ?thesis by (simp add: flock_def read_clock_def)
qed

lemma ends_guard:
  assumes "clock_advances (re_env re)" "0 < timeout" "timeout \<le> max_int64" "ends m" "ends m'"
  shows "ends (InstallLockGuard_Do re n v timeout m m')"
proof -
  have w: "ends (waited re path ex timeout)" for path ex
    using flock_ends [OF assms(1-3)] by (fastforce simp: ends_def waited_def)
  have a: "ends (acquiring k path ex)" if "ends k" for k path ex
    unfolding acquiring_def by (intro ends_step that)
  show ?thesis
    unfolding InstallLockGuard_Do_def openPluginVersionLockFile_def open_lock_file_def getPluginManagerCachePath_def
      try_lock_def wait_lock_def Let_def
    by (intro ends_step a w ends_deferring assms(4,5))
qed

lemma ends_plugin_lock: "ends m \<Longrightarrow> ends (with_plugin_lock re n ex m)"
  unfolding with_plugin_lock_def openPluginLockFile_def open_lock_file_def getPluginManagerCachePath_def try_lock_def acquiring_def Let_def
  by (intro ends_step ends_exiting ends_deferring ends_fail)

lemma ends_guarded: "ends m \<Longrightarrow> ends (guarded m)"
  unfolding guarded_def by (intro ends_step ends_exiting)

lemma ends_reporting: "ends m \<Longrightarrow> ends (reporting_execution re v m)"
  unfolding reporting_execution_def report_execution_def
  by (intro ends_step ends_afterwards ends_exiting ends_run)

lemma ends_run_fetched:
  "ends (run_fetched re f ep)" "ends (run_from_file re f ep)" "ends (run_online_or_local re online f ep)"
proof -
  show r: "ends (run_fetched re f ep)"
    unfolding run_fetched_def prepareCmdOptions_def by (intro ends_step ends_executePlugin)
  have c: "ends (check_fetched re f ep tag)" "ends (installed_fetched re f tag)" for tag
    unfolding check_fetched_def installed_fetched_def by (intro ends_step ends_reports)+
  show "ends (run_from_file re f ep)" "ends (run_online_or_local re online f ep)"
    unfolding run_from_file_def run_online_or_local_def by (intro ends_step r c)+
qed

lemma ends_agree: "ends (agree re True v old)"
  unfolding agree_def by (auto intro!: ends_step split: option.split)

lemma ends_executePluginFromFile:
  assumes "clock_advances (re_env re)" "0 < wrap64 (t * second)"
  shows "ends (executePluginFromFile re True f t ep)"
  using assms(2) wrap64_range [of "t * second"]
  unfolding executePluginFromFile_def peek_config_def install_from_file_locked_def install_if_missing_def set_arch_def set_plugin_def Let_def
  by (intro ends_reporting ends_step ends_fail ends_exiting ends_zip ends_in_store ends_store ends_database ends_plugin_lock ends_guarded
      ends_guard ends_queries ends_installs ends_run_fetched ends_agree assms(1)) (simp_all add: max_int64_def)

lemma ends_executePluginOnlineOrLocal:
  assumes "clock_advances (re_env re)" "0 < wrap64 (ef_FetchTimeoutInSeconds fo * second)"
  shows "ends (executePluginOnlineOrLocal re fo ep)"
  using assms(2) wrap64_range [of "ef_FetchTimeoutInSeconds fo * second"]
  unfolding executePluginOnlineOrLocal_def install_online_locked_def install_if_missing_def set_arch_def set_resource_def Let_def
  by (intro ends_reporting ends_step ends_fail ends_exiting ends_plugin_lock ends_guarded
      ends_guard ends_queries ends_installs ends_run_fetched assms(1)) (simp_all add: max_int64_def)

lemma ends_VerifyPlugin: "ends (VerifyPlugin re vo ep)"
  unfolding VerifyPlugin_def fetch_for_test_def read_test_config_def prepareCmdOptions_def Let_def
  by (intro ends_step ends_exiting ends_fail ends_download ends_zip ends_executePlugin)

lemma ends_RemovePlugin: "ends (RemovePlugin re name)"
  unfolding RemovePlugin_def remove_locked_def uninstall_plugin_def Let_def
  by (intro ends_step ends_exiting ends_fail ends_plugin_lock ends_in_store ends_store ends_executePlugin ends_database ends_reports)

lemma ends_lists: "ends (ListPlugins re name b)" "ends (ShowPluginStatus re)"
proof -
  show "ends (ListPlugins re name b)"
    unfolding ListPlugins_def by (intro ends_step ends_exiting ends_in_store ends_store ends_queries ends_log)
  have "ends (installed_statuses re ps acc)" for ps acc
  proof (induction ps arbitrary: acc)
    case (Cons p ps)
    then show ?case unfolding installed_statuses.simps installed_status_def Let_def by (intro ends_step ends_executePlugin)
  qed (simp add: ends_basic)
  then show "ends (ShowPluginStatus re)"
    unfolding ShowPluginStatus_def by (intro ends_step ends_exiting ends_in_store ends_store ends_log)
qed

end
