(* ===== verification/Plugin_Commands_Properties.thy ===== *)
theory Plugin_Commands_Properties
  imports Plugin_Steps
begin

text \<open>
  What holds of the plugin manager's program: plugins are installed under the lock of their version and
  removed under the lock of the plugin alone, a package is unpacked only after its digest was compared,
  a lock with a time limit is given up in time, and the package chosen online is the newest; with the
  errors that the modelling showed.
\<close>

section \<open>Installation under locks\<close>

text \<open>An offer of the server for a name, and what an entry, a package or an offer says of a plugin.\<close>

definition offered :: "run_env \<Rightarrow> string \<Rightarrow> PluginInfo \<Rightarrow> bool" where
  "offered re name q \<longleftrightarrow> (\<exists>resp ps. re_list re resp = Inr ps \<and> q \<in> set ps) \<and> pi_Name q = name"

definition described :: "run_env \<Rightarrow> string \<Rightarrow> string \<Rightarrow> string \<Rightarrow> bool" where
  "described re n v r \<longleftrightarrow>
     (\<exists>t p. se_unmarshal (re_store re) t = Inr p \<and> \<not> IsRemoved p \<and> pi_Name p = n \<and> pi_Version p = v \<and> RunPath p = r)
     \<or> (\<exists>t c. re_config re t = Inr c \<and> cf_Name c = n \<and> cf_Version c = v \<and> cf_RunPath c = r)
     \<or> (\<exists>t c q. re_config re t = Inr c \<and> offered re n q \<and> pi_Version q = v \<and> cf_RunPath c = r)"

lemma offered_name: "offered re n q \<Longrightarrow> pi_Name q = n"
  by (simp add: offered_def)

lemma described_offer: "re_config re t = Inr c \<Longrightarrow> offered re n q \<Longrightarrow> described re n (pi_Version q) (cf_RunPath c)"
  unfolding described_def by blast

lemma described_entry:
  "se_unmarshal (re_store re) t = Inr p \<Longrightarrow> \<not> IsRemoved p \<Longrightarrow> described re (pi_Name p) (pi_Version p) (RunPath p)"
  unfolding described_def by blast

text \<open>The program of a plugin: where its name, its version and its run path lead.\<close>

definition program_of :: "run_env \<Rightarrow> string \<Rightarrow> string \<Rightarrow> string \<Rightarrow> bool" where
  "program_of re D n p \<longleftrightarrow> (\<exists>v r. described re n v r \<and> p = path_join [path_join [D, n, v], r])"

abbreviation gives :: "('a \<Rightarrow> bool) \<Rightarrow> 'e + 'a \<Rightarrow> bool" where "gives P r \<equiv> \<forall>x. r = Inr x \<longrightarrow> P x"

abbreviation own_entry :: "run_env \<Rightarrow> string \<Rightarrow> string \<Rightarrow> Fetched \<Rightarrow> bool" where
  "own_entry re D n f \<equiv> program_of re D n (Entrypoint f)"

lemma find_first_fits: "find_first se P es = Inr (Some (k, p)) \<Longrightarrow> P p \<and> (\<exists>t. se_unmarshal se t = Inr p)"
  by (induction se P es rule: find_first.induct) (auto split: sum.splits if_splits)

lemma opened_value: "opened se f t = Some (Returns (Inr x), t1) \<Longrightarrow> \<exists>s. f s = Inr x"
  by (auto simp: opened_def seq_def ret_def look_def split: option.splits outcome.splits prod.splits)

lemma keeps_found_local:
  "keeps I D L (gives (\<lambda>x. \<forall>p. x = Some p \<longrightarrow> pi_Name p = n \<and> described re n (pi_Version p) (RunPath p)))
     (in_store (getLocalPluginInfo (re_store re) n v))"
  by (rule keeps_in_store)
    (auto simp: getLocalPluginInfo_def FindOneWithPredicate_def map_sum_def split: sum.splits
      dest!: opened_value find_first_fits intro: described_entry)

lemma fetched_local_entry:
  "PLUGINDIR s = D \<Longrightarrow> described re (pi_Name p) (pi_Version p) (RunPath p) \<Longrightarrow> own_entry re D (pi_Name p) (fetched_local s p)"
  by (auto simp: fetched_local_def plugin_path_def program_of_def Let_def)

lemma keeps_local_entry: "keeps I D L (gives (own_entry re D n)) (queryFromLocalOnly re n v)"
  unfolding queryFromLocalOnly_def
  by (rule keeps_seq [OF keeps_found_local]) (auto intro!: keeps_ret keeps_look fetched_local_entry split: sum.split option.split)

lemmas keeps_unless_any = keeps_unless [where V = anything, simplified]

lemma keeps_install_if_missing:
  "keeps I D L (gives (own_entry re D n)) m \<Longrightarrow> keeps I D L (gives (own_entry re D n)) (install_if_missing re n v m)"
  unfolding install_if_missing_def by (rule keeps_seq [OF keeps_local_entry]) (auto intro: keeps_ret split: sum.split)

lemma keeps_guarded: "keeps I D L (gives (gives P)) m \<Longrightarrow> keeps I D L (gives P) (guarded m)"
  unfolding guarded_def
  by (rule keeps_unless [where V = "gives P"]) (auto intro: keeps_exiting_with keeps_exiting keeps_ret)

lemma yields_event: "yields D L anything (log_plugin e)"
  by (rule keeps_log) simp_all

lemma installFromFile_entry:
  assumes "described re (cf_Name c) (cf_Version c) (cf_RunPath c)"
  shows "yields D L (gives (own_entry re D (cf_Name c))) (installFromFile re f c old timeout)"
  unfolding installFromFile_def Let_def
  by (rule keeps_dir, (rule keeps_unless_any keeps_then keeps_coded keeps_md5 [OF calm_trivial] keeps_unzip keeps_make_executable keeps_plain
      keeps_option keeps_prod keeps_database | simp add: steady_def)+, rule keeps_ret)
    (use assms in \<open>auto simp: fetched_config_def program_of_def\<close>)

lemma yields_config: "yields D L (gives (\<lambda>c. \<exists>t. re_config re t = Inr c)) (read_config re path)"
  unfolding read_config_def Let_def coding_def
  by (rule keeps_unless_any, intro keeps_then keeps_coded keeps_plain)
    (auto intro!: keeps_unless_any keeps_then keeps_plain keeps_ret simp: map_sum_def split: sum.splits)

lemma installFromOnline_entry:
  assumes "offered re n q"
  shows "yields D L (gives (own_entry re D n)) (installFromOnline re q timeout arch)"
proof -
  note t = keeps_download [OF calm_trivial] keeps_check_package [OF calm_trivial]
  have r: "yields D L anything (record_online re p)" for p
    by (rule keeps_record_online) (simp add: steady_def)
  have z: "yields D L anything (unzip_package re q timeout f d)" for f d
    by (rule keeps_unzip_package) (simp add: steady_def)
  show ?thesis
    unfolding installFromOnline_def Let_def download_package_def
    by (rule keeps_dir, (rule keeps_unless [OF yields_config] keeps_unless_any keeps_coded t z r keeps_check_online keeps_make_executable keeps_ret)+)
      (use offered_name [OF assms] described_offer [OF _ assms] in \<open>auto simp: fetched_config_def program_of_def\<close>)
qed

text \<open>The locks of an installation: the plugin's shared, the version's alone.\<close>

definition install_locks :: "(string \<times> bool) list \<Rightarrow> string \<Rightarrow> string \<Rightarrow> bool" where
  "install_locks L n v \<longleftrightarrow> list_ex (plugin_lock n False) L \<and> list_ex (version_lock n v True) L"

definition installs_locked :: "run_env \<Rightarrow> string \<Rightarrow> (string \<times> bool) list \<times> plugin_event \<Rightarrow> bool" where
  "installs_locked re D = (\<lambda>(L, e). case e of
       PackageUnzipped f d \<Rightarrow> \<exists>n v. d = path_join [D, n, v] \<and> install_locks L n v
     | PluginInserted p \<Rightarrow> install_locks L (pi_Name p) (pi_Version p)
     | PluginUpdated i p \<Rightarrow> install_locks L (pi_Name p) (pi_Version p)
     | PluginRan name a t v f \<Rightarrow>
         \<exists>n p. list_ex (plugin_lock n False) L \<and> program_of re D n p \<and> runs_program p name a
     | PluginTreeRemoved d \<Rightarrow> False
     | _ \<Rightarrow> True)"

lemma steady_policy: "P (L, e) \<Longrightarrow> steady (list_all P) L e"
  by (simp add: steady_def)

lemma calm_installs: "plugin_lock n False l \<Longrightarrow> l \<in> set L \<Longrightarrow> calm (program_of re D n) (list_all (installs_locked re D)) L"
  unfolding calm_def by (auto intro!: steady_policy simp: installs_locked_def harmless_def list_ex_iff split: plugin_event.splits)

lemma install_allowed:
  "plugin_lock n False l \<Longrightarrow> version_lock n v True l2 \<Longrightarrow> install_event D n v e \<Longrightarrow> steady (list_all (installs_locked re D)) (l2 # l # L) e"
  by (rule steady_policy) (auto simp: installs_locked_def install_event_def install_locks_def split: plugin_event.splits)

lemma keeps_install_from_file_locked:
  assumes l: "plugin_lock (cf_Name c) False l" and c: "described re (cf_Name c) (cf_Version c) (cf_RunPath c)"
  shows "keeps (list_all (installs_locked re D)) D (l # L) (gives (own_entry re D (cf_Name c))) (install_from_file_locked re f c old timeout pre)"
  unfolding install_from_file_locked_def
proof (intro keeps_guarded keeps_guard_value keeps_install_if_missing, goal_cases)
  case (1 l2)
  show ?case
    by (rule keeps_yields [OF keeps_installFromFile installFromFile_entry [OF c]])
      (auto intro: calm_installs [OF l] install_allowed [OF l 1])
next
  case (2 l2)
  show ?case
    by (rule keeps_seq [OF keeps_local_entry]) (auto intro!: keeps_panic keeps_ret split: sum.split)
qed

lemma keeps_install_online_locked:
  assumes l: "plugin_lock (pi_Name q) False l" and q: "offered re n q"
  shows "keeps (list_all (installs_locked re D)) D (l # L) (gives (own_entry re D n)) (install_online_locked re q timeout arch)"
proof -
  have n: "n = pi_Name q" using q by (simp add: offered_def)
  show ?thesis
    unfolding install_online_locked_def n
    by (intro keeps_guarded keeps_guard_value keeps_install_if_missing keeps_local_entry
        keeps_yields [OF keeps_installFromOnline [OF calm_installs [OF l, where re = re and D = D]] installFromOnline_entry]
        install_allowed [OF l] q [unfolded n]) simp_all
qed

lemma keeps_peek_config: "keeps I D L (gives (\<lambda>c. described re (cf_Name c) (cf_Version c) (cf_RunPath c))) (peek_config re f)"
proof -
  have k: "keeps I D L anything (PeekFile re f t)" for t
    unfolding PeekFile_def by (intro keeps_unless_then keeps_open_zip keeps_plain)
  show ?thesis
    unfolding peek_config_def
    by (rule keeps_then [OF k], rule keeps_sum, intro keeps_if keeps_fail, simp_all, rule keeps_exiting_with, rule keeps_ret)
      (auto simp: described_def)
qed

lemma keeps_executePluginFromFile: "keeps (list_all (installs_locked re D)) D L anything (executePluginFromFile re yes f t ep)"
proof -
  have d: "steady (list_all (installs_locked re D)) L (PluginDeleted i)" for i
    by (rule steady_policy) (simp add: installs_locked_def)
  have a: "keeps (list_all (installs_locked re D)) D L anything (agree re yes v old)" for v old
    unfolding agree_def by (intro keeps_option keeps_prod keeps_if keeps_then keeps_plain)
  have e: "keeps (list_all (installs_locked re D)) D L anything m \<Longrightarrow> keeps (list_all (installs_locked re D)) D L anything (exiting_with code mk m)"
    for code mk and m :: "(go_error + 'b) pv" by (rule keeps_exiting_with) simp_all
  have v: "keeps (list_all (installs_locked re D)) D L anything (set_arch x)" "keeps (list_all (installs_locked re D)) D L anything (set_plugin x y)" for x y
    unfolding set_arch_def set_plugin_def by (rule keeps_modify; simp)+
  have w: "keeps (list_all (installs_locked re D)) D L anything (with_plugin_lock re (cf_Name c) False
      (unless_failed (install_from_file_locked re f c old timeout pre) (\<lambda>x. run_from_file re x ep)))"
    if "described re (cf_Name c) (cf_Version c) (cf_RunPath c)" for c old timeout pre
  proof (rule keeps_plugin_lock, rule keeps_unless)
    fix l assume l: "plugin_lock (cf_Name c) False l"
    show "keeps (list_all (installs_locked re D)) D (l # L) (gives (own_entry re D (cf_Name c))) (install_from_file_locked re f c old timeout pre)"
      by (rule keeps_install_from_file_locked [OF l that])
    show "keeps (list_all (installs_locked re D)) D (l # L) anything (run_from_file re x ep)" if "own_entry re D (cf_Name c) x" for x
      by (rule keeps_runs [where R = "program_of re D (cf_Name c)"]) (auto intro: calm_installs [OF l] that)
  qed simp
  show ?thesis
    unfolding executePluginFromFile_def Let_def
    by (rule keeps_reporting, (rule keeps_dir keeps_unless [OF keeps_peek_config] keeps_unless_then keeps_then keeps_prod a e v keeps_replace_removed d
        w keeps_plain | assumption)+)
qed

text \<open>The packages of the answer to a request have the name that was asked for.\<close>

lemma match_packages_name:
  assumes "fst (match_packages name arch ps acc) = Some q" "\<And>b. fst acc = Some b \<Longrightarrow> P b" "\<And>p. p \<in> set ps \<Longrightarrow> pi_Name p = name \<Longrightarrow> P p"
  shows "P q"
  using assms
proof (induction ps arbitrary: acc)
  case (Cons p ps)
  obtain best others where acc: "acc = (best, others)" by (cases acc)
  show ?case
    by (rule Cons.IH [OF Cons.prems(1) [unfolded acc match_packages.simps]])
      (use Cons.prems(2,3) acc in \<open>auto split: if_splits option.splits\<close>)
qed simp

lemma keeps_online_info:
  "keeps I D L (\<lambda>r. \<forall>x. r = Inr x \<longrightarrow> (\<forall>q. fst x = Some q \<longrightarrow> offered re name q)) (getOnlinePluginInfo re name version)"
  unfolding getOnlinePluginInfo_def
proof (rule keeps_unless [where V = "\<lambda>ps. \<exists>resp. re_list re resp = Inr ps"], goal_cases)
  case 1
  show ?case unfolding getPackageInfo_def
    by (intro keeps_then keeps_prod keeps_if keeps_plain keeps_ret) (auto split: option.splits)
next
  case (2 ps)
  then have "offered re name q" if "fst (match_packages name arch ps (None, [])) = Some q" for q arch
    by (rule_tac match_packages_name [OF that]) (auto simp: offered_def)
  then show ?case by (intro keeps_then keeps_prod keeps_plain keeps_ret) simp
qed simp

text \<open>What the queries answer: an entry of the machine, or an offer.\<close>

definition sought :: "run_env \<Rightarrow> string \<Rightarrow> string \<Rightarrow> Fetched option \<times> PluginInfo option \<Rightarrow> bool" where
  "sought re D n x \<longleftrightarrow> (\<forall>f. fst x = Some f \<longrightarrow> own_entry re D n f) \<and> (\<forall>q. snd x = Some q \<longrightarrow> offered re n q)"

lemma keeps_query: "keeps I D L (gives (sought re D (ef_PluginName fo))) (queryFromOnlineOrLocal re fo arch)"
  unfolding queryFromOnlineOrLocal_def
proof (rule keeps_seq [OF keeps_found_local], rule keeps_sum, rule keeps_ret, simp,
    rule keeps_seq, rule keeps_online_info [where name = "ef_PluginName fo"], rule keeps_sum, rule keeps_ret, simp, goal_cases)
  case (1 r l r1 x)
  have "own_entry re D (ef_PluginName fo) ((fetched_local s p)\<lparr>fe_AddSysTag := False\<rparr>)" if "PLUGINDIR s = D" "l = Some p" for s p
    using 1(1,2) fetched_local_entry [OF that(1), of re p] that(2) by auto
  with 1(3,4) show ?case
    by (auto intro!: keeps_ret keeps_look simp: sought_def split: option.split prod.split)
qed

lemma keeps_online_frame:
  assumes "\<And>l q t arch. plugin_lock (ef_PluginName fo) False l \<Longrightarrow> offered re (ef_PluginName fo) q \<Longrightarrow>
      keeps I D (l # L) (gives (own_entry re D (ef_PluginName fo))) (install_online_locked re q t arch)"
    and "\<And>l. plugin_lock (ef_PluginName fo) False l \<Longrightarrow> calm (program_of re D (ef_PluginName fo)) I (l # L)"
  shows "keeps I D L anything (executePluginOnlineOrLocal re fo ep)"
proof -
  have v: "keeps I D L anything (set_arch x)" "keeps I D M anything (set_resource y)" for x y M
    unfolding set_arch_def set_resource_def by (rule keeps_modify; simp)+
  have q: "keeps I D L (gives (sought re D (ef_PluginName fo)))
      (exiting (if ef_Local fo then seq (queryFromLocalOnly re (ef_PluginName fo) (ef_Version fo)) (\<lambda>r. ret (map_sum id (\<lambda>f. (Some f, None)) r))
        else queryFromOnlineOrLocal re fo arch))" for arch
    by (rule keeps_exiting, rule keeps_if, rule keeps_seq, rule keeps_local_entry, rule keeps_ret)
      (auto simp: map_sum_def sought_def split: sum.split_asm intro: keeps_weaken [OF keeps_query])
  show ?thesis
    unfolding executePluginOnlineOrLocal_def
  proof (intro keeps_reporting keeps_then keeps_prod v keeps_plain, goal_cases)
    case (1 x localArch raw y)
    show ?case
    proof (rule keeps_unless [OF q], goal_cases)
      case (1 found)
      have i: "keeps I D (l # L) (gives (own_entry re D (ef_PluginName fo))) (install_online_locked re z t localArch)"
        if "plugin_lock (ef_PluginName fo) False l" "found = (None, Some z)" for l z t
        using 1 that by (intro assms(1)) (auto simp: sought_def)
      have r: "keeps I D (l # L) anything (run_online_or_local re online f ep)"
        if "plugin_lock (ef_PluginName fo) False l" "own_entry re D (ef_PluginName fo) f" for l online f
        using that assms(2) by (intro keeps_runs(2) [where R = "program_of re D (ef_PluginName fo)"]) auto
      obtain f z where found: "found = (f, z)" by (cases found)
      show ?case
        unfolding found
        by (intro keeps_plugin_lock, cases f; cases z)
          (use 1 found i r in \<open>auto simp: sought_def intro!: keeps_then [OF v(2)] keeps_plain keeps_unless [where V = "own_entry re D (ef_PluginName fo)"]\<close>)
    qed simp
  qed
qed

lemma keeps_executePluginOnlineOrLocal: "keeps (list_all (installs_locked re D)) D L anything (executePluginOnlineOrLocal re fo ep)"
  by (rule keeps_online_frame) (auto intro!: keeps_install_online_locked calm_installs dest: offered_name)

text \<open>C12. 
  A plugin is unpacked and its entry is written only while the plugin is locked together with others
  and its version alone. Whatever program runs, it is the one of a plugin whose own lock is held then:
  it lies where the name, the version and the run path of this plugin lead, as an entry of the database,
  the configuration of a package or an offer of the server gives them. The locks are given back, however
  the execution ends.
\<close>

theorem plugins_installed_under_locks:
  assumes "ExecutePlugin re yes fo ep s = Some (r, s1)" "list_all (installs_locked re (PLUGINDIR s)) (pr_events s)"
  shows "pr_locks s1 = pr_locks s \<and> list_all (installs_locked re (PLUGINDIR s)) (pr_events s1)"
proof -
  have "keeps (list_all (installs_locked re (PLUGINDIR s))) (PLUGINDIR s) (pr_locks s) anything (ExecutePlugin re yes fo ep)"
    unfolding ExecutePlugin_def by (intro keeps_if keeps_executePluginFromFile keeps_executePluginOnlineOrLocal)
  from this [unfolded keeps_def tr_def, rule_format, OF refl refl assms(2,1)] show ?thesis by (auto split: outcome.splits)
qed

section \<open>Removal and digests, in their order\<close>

text \<open>Every event fits those before it.\<close>

definition chain :: "('a list \<Rightarrow> 'a \<Rightarrow> bool) \<Rightarrow> 'a list \<Rightarrow> bool" where
  "chain ok h \<longleftrightarrow> list_all (\<lambda>i. ok (take i h) (h ! i)) [0..<length h]"

lemma chain_simps [simp]: "chain ok []" "chain ok (h @ [x]) \<longleftrightarrow> chain ok h \<and> ok h x"
  by (auto simp: chain_def list_all_iff nth_append)

lemma tr_keeps: "keeps I D L V m \<Longrightarrow> (\<And>h. I h \<Longrightarrow> B h) \<Longrightarrow> tr B D L I m (\<lambda>x h. I h \<and> V x)"
  unfolding keeps_def
proof (rule trI, goal_cases)
  case (1 s r s1)
  from 1(1) [unfolded tr_def, rule_format, OF 1(3-6)] 1(2) show ?case by (auto split: outcome.splits)
qed

lemma tr_plain: "keeps I D L anything m \<Longrightarrow> (\<And>h. I h \<Longrightarrow> B h) \<Longrightarrow> tr B D L I m (\<lambda>x. I)"
  using tr_keeps [of I D L anything m B] by simp

lemma tr_log: "(\<And>h. I h \<Longrightarrow> Q () (h @ [(L, e)])) \<Longrightarrow> tr B D L I (log_plugin e) Q"
  by (auto simp: tr_def log_plugin_def modify_def)

lemma tr_ret: "(\<And>h. I h \<Longrightarrow> Q x h) \<Longrightarrow> tr B D L I (ret x) Q"
  by (auto simp: tr_def ret_def)

lemma tr_unless:
  assumes "tr B D L I m R" "\<And>x. tr B D L (R (Inr x)) (f x) Q" "\<And>e h. R (Inl e) h \<Longrightarrow> Q (Inl e) h"
  shows "tr B D L I (unless_failed m f) Q"
  unfolding unless_failed_def
proof (rule tr_seq [OF assms(1)])
  fix r show "tr B D L (R r) (case r of Inl e \<Rightarrow> ret (Inl e) | Inr x \<Rightarrow> f x) Q"
    using assms(2,3) by (cases r) (auto intro: tr_ret)
qed

text \<open>A program that ran with some last argument.\<close>

definition ran_with :: "string \<Rightarrow> pr_history \<Rightarrow> bool" where
  "ran_with a h \<longleftrightarrow> list_ex (\<lambda>(L, e). case e of PluginRan n as t v f \<Rightarrow> as \<noteq> [] \<and> last as = a | _ \<Rightarrow> False) h"

lemma harmless_run: "harmless anything (PluginRan n a t v f) = True"
  by (auto simp: runs_program_def)

lemma tr_executePlugin:
  assumes "calm anything I L" "\<And>h. I h \<Longrightarrow> B h"
  shows "tr B D L I (executePlugin re cmd [a] t v quietly fg) (\<lambda>r h. I h \<and> (fst r = 0 \<longrightarrow> ran_with a h))"
  unfolding executePlugin_def Let_def
proof (rule tr_seq, rule tr_plain, rule keeps_plain, fact assms(2))
  fix exists
  let ?as = "if is_ps1 cmd then (''powershell'', [cmd, a]) else (cmd, [a])"
  let ?I = "\<lambda>h. I h \<and> ran_with a h"
  have "tr B D L I (log_plugin (PluginRan (fst ?as) (snd ?as) t v fg)) (\<lambda>_. ?I)"
    using calmD [OF assms(1)]
    by (intro tr_log) (auto simp: steady_def ran_with_def harmless_run simp del: harmless_simps)
  moreover have "tr B D L ?I (coded_run re (fst ?as) (snd ?as) t v quietly) (\<lambda>r. ?I)"
    by (rule tr_plain [OF keeps_coded_run]) (simp add: assms(2))
  ultimately have "tr B D L I (seq (log_plugin (PluginRan (fst ?as) (snd ?as) t v fg)) (\<lambda>_. coded_run re (fst ?as) (snd ?as) t v quietly)) (\<lambda>r. ?I)"
    by (rule tr_seq)
  then have "tr B D L I (seq (log_plugin (PluginRan (fst ?as) (snd ?as) t v fg)) (\<lambda>_. coded_run re (fst ?as) (snd ?as) t v quietly))
      (\<lambda>r h. I h \<and> (fst r = 0 \<longrightarrow> ran_with a h))"
    by (rule tr_weaken) auto
  then show "tr B D L I
     (if \<not> exists then case errProcess PLUGIN_FORMAT_ERR (Some (PlainError (''Cmd file not exist: '' @ cmd))) of
           (code, text) \<Rightarrow> ret (code, text, Some (PlainError (''Cmd file not exist: '' @ cmd)))
      else case ?as of (commandName, args) \<Rightarrow>
          seq (log_plugin (PluginRan commandName args t v fg)) (\<lambda>_. coded_run re commandName args t v quietly))
     (\<lambda>r h. I h \<and> (fst r = 0 \<longrightarrow> ran_with a h))"
    by (cases exists) (auto simp: errProcess_def PLUGIN_FORMAT_ERR_def split_beta intro!: tr_ret)
qed

subsection \<open>Removal\<close>

text \<open>
  The tree goes last, when the entry is marked; a persistent plugin's entry is marked when its \<open>--uninstall\<close>
  has run; and all of this under the lock of the plugin alone.
\<close>

fun removes_safely :: "string \<Rightarrow> string \<Rightarrow> pr_history \<Rightarrow> (string \<times> bool) list \<times> plugin_event \<Rightarrow> bool" where
  "removes_safely D name h (L, PluginTreeRemoved d) =
     (d = path_join [D, name] \<and> list_ex (plugin_lock name True) L
      \<and> list_ex (\<lambda>(L, e). case e of PluginUpdated i p \<Rightarrow> IsRemoved p | _ \<Rightarrow> False) h)"
| "removes_safely D name h (L, PluginUpdated i p) =
     (IsRemoved p \<and> pi_Name p = name \<and> list_ex (plugin_lock name True) L \<and> (PluginType p = PLUGIN_PERSIST \<longrightarrow> ran_with ''--uninstall'' h))"
| "removes_safely D name h (L, PluginRan n as t v f) = list_ex (plugin_lock name True) L"
| "removes_safely D name h (L, StatusReported st) = list_ex (plugin_lock name True) L"
| "removes_safely D name h (L, PackageDigested f m) = True"
| "removes_safely D name h (L, PackageFetched u f) = True"
| "removes_safely D name h (L, PluginsPrinted ps) = True"
| "removes_safely D name h (L, StatusPrinted ps) = True"
| "removes_safely D name h (L, e) = False"

lemma list_ex_snoc: "list_ex P h \<Longrightarrow> list_ex P (h @ [x])"
  by simp

lemma ran_with_snoc: "ran_with a h \<Longrightarrow> ran_with a (h @ [x])"
  by (simp add: ran_with_def)

lemma calm_removal:
  assumes "plugin_lock name True l" "\<And>h x. F h \<Longrightarrow> F (h @ [x])"
  shows "calm anything (\<lambda>h. chain (removes_safely D name) h \<and> F h) (l # L)"
  using assms by (auto simp: calm_def steady_def harmless_def split: plugin_event.splits)

lemma tr_uninstall:
  assumes l: "plugin_lock name True l"
  shows "tr (chain (removes_safely D name)) D (l # L) (chain (removes_safely D name)) (uninstall_plugin re p)
    (\<lambda>r h. chain (removes_safely D name) h \<and> (r = Inr () \<and> PluginType p = PLUGIN_PERSIST \<longrightarrow> ran_with ''--uninstall'' h))"
proof -
  let ?I = "chain (removes_safely D name)"
  have c: "calm anything ?I (l # L)" using calm_removal [OF l, of "\<lambda>h. True"] by simp
  have "tr ?I D (l # L) ?I (seq (executePlugin re cmd [''--stop''] t v False False) (\<lambda>_.
      seq (executePlugin re cmd [''--uninstall''] t v False False) (\<lambda>(exitCode, text, err).
      ret (if exitCode \<noteq> 0 \<or> err \<noteq> None then Inl (exitCode, err) else Inr ()))))
    (\<lambda>r h. ?I h \<and> (r = Inr () \<longrightarrow> ran_with ''--uninstall'' h))" for cmd t v
    by (rule tr_seq [OF tr_plain [OF keeps_executePlugin [OF c TrueI]]], assumption, rule tr_seq [OF tr_executePlugin [OF c]], assumption)
      (auto split: prod.split intro!: tr_ret)
  then have "tr ?I D (l # L) ?I (seq (executePlugin re cmd [''--stop''] t v False False) (\<lambda>_.
      seq (executePlugin re cmd [''--uninstall''] t v False False) (\<lambda>(exitCode, text, err).
      ret (if exitCode \<noteq> 0 \<or> err \<noteq> None then Inl (exitCode, err) else Inr ()))))
    (\<lambda>r h. ?I h \<and> (r = Inr () \<and> PluginType p = PLUGIN_PERSIST \<longrightarrow> ran_with ''--uninstall'' h))" for cmd t v
    by (rule tr_weaken) auto
  then show ?thesis
    unfolding uninstall_plugin_def Let_def
    by (auto intro!: tr_ret tr_seq [OF tr_plain [OF keeps_plain(4)]])
qed

lemma tr_remove_locked:
  assumes l: "plugin_lock name True l" and p: "pi_Name p = name"
  shows "tr (chain (removes_safely D name)) D (l # L) (chain (removes_safely D name)) (remove_locked re idx p) (\<lambda>r. chain (removes_safely D name))"
proof -
  let ?I = "chain (removes_safely D name)"
  let ?marked = "list_ex (\<lambda>(L, e). case e of PluginUpdated i p \<Rightarrow> IsRemoved p | _ \<Rightarrow> False)"
  let ?J = "\<lambda>h. ?I h \<and> ?marked h"
  have c: "calm anything ?J (l # L)" by (rule calm_removal [OF l]) simp
  have "steady ?J (l # L) (PluginTreeRemoved (path_join [D, name]))" using l by (simp add: steady_def)
  note rm = keeps_database(4) [OF this]
  have after: "keeps ?J D (l # L) anything (case e of
         Some x \<Rightarrow> fail_with DUMP_INSTALLEDPLUGINS_ERR x
       | None \<Rightarrow>
           seq (ReportPluginStatus re (pi_Name p) (pi_Version p) REMOVED (if AddSysTag p then RemoveSysTag else [])) (\<lambda>_.
           seq (look PLUGINDIR) (\<lambda>dir.
           seq (remove_tree re (path_join [dir, pi_Name p])) (\<lambda>e.
           case e of Some x \<Rightarrow> fail_with REMOVE_FILE_ERR x | None \<Rightarrow> ret (Inr (SUCCESS, None))))))" for e
    unfolding p
    by (rule keeps_option, rule keeps_then, rule keeps_report_status [OF c], rule keeps_dir, rule keeps_then, rule rm)
      (auto intro: keeps_plain keeps_option)
  have mark: "tr ?I D (l # L) (\<lambda>h. ?I h \<and> (PluginType p = PLUGIN_PERSIST \<longrightarrow> ran_with ''--uninstall'' h))
      (update_plugin re idx (p\<lparr>IsRemoved := True\<rparr>)) (\<lambda>e. ?J)"
    unfolding update_plugin_def
    by (rule tr_seq [OF tr_log tr_plain [OF keeps_plain(5)]]) (use l p in \<open>auto simp: PluginType_def\<close>)
  show ?thesis
    unfolding remove_locked_def
  proof (rule tr_unless [OF tr_uninstall [OF l]], goal_cases)
    case (1 x)
    show ?case
      by (rule tr_weaken [OF tr_seq [OF mark tr_plain [OF after]]]) auto
  qed simp
qed

lemma keeps_of_tr: "tr I D L I m (\<lambda>r. I) \<Longrightarrow> keeps I D L anything m"
  by (simp add: keeps_def)

lemma keeps_RemovePlugin: "keeps (chain (removes_safely D name)) D L anything (RemovePlugin re name)"
proof -
  have "keeps (chain (removes_safely D name)) D L (\<lambda>r. \<forall>x. r = Inr x \<longrightarrow> (\<forall>k p. x = Some (k, p) \<longrightarrow> pi_Name p = name))
      (exiting_with LOAD_INSTALLEDPLUGINS_ERR id (in_store (getInstalledPluginNotRemovedByName (re_store re) name)))"
    by (rule keeps_exiting_with, rule keeps_in_store)
      (auto simp: getInstalledPluginNotRemovedByName_def FindOneWithPredicate_def dest!: opened_value find_first_fits)
  then show ?thesis
    unfolding RemovePlugin_def
    by (intro keeps_collapse keeps_unless [where V = "\<lambda>x. \<forall>k p. x = Some (k, p) \<longrightarrow> pi_Name p = name"] keeps_option keeps_prod
        keeps_plain keeps_plugin_lock keeps_of_tr tr_remove_locked) auto
qed

text \<open>
  While a plugin is removed, its entry is marked and its tree removed only while the plugin is locked
  alone; the tree goes when the entry is marked, and the entry of a persistent plugin is marked when its
  \<open>--uninstall\<close> has run; the lock is given back.
\<close>

theorem plugins_removed_in_order:
  assumes "RemovePlugin re name s = Some (r, s1)" "chain (removes_safely (PLUGINDIR s) name) (pr_events s)"
  shows "pr_locks s1 = pr_locks s \<and> chain (removes_safely (PLUGINDIR s) name) (pr_events s1)"
  using keeps_RemovePlugin [unfolded keeps_def tr_def, rule_format, OF refl refl assms(2,1)] by (auto split: outcome.splits)

subsection \<open>Digests\<close>

text \<open>What the server offers is unpacked right after its digest was found to be the one that the server gave.\<close>

definition checked_unzip :: "run_env \<Rightarrow> string \<Rightarrow> string \<Rightarrow> pr_history \<Rightarrow> (string \<times> bool) list \<times> plugin_event \<Rightarrow> bool" where
  "checked_unzip re D name h = (\<lambda>(L, e). case e of
       PackageUnzipped f d \<Rightarrow> h \<noteq> [] \<and> (\<exists>q m. offered re name q \<and> snd (last h) = PackageDigested f m
         \<and> to_lower m = to_lower (pi_Md5 q) \<and> d = path_join [D, pi_Name q, pi_Version q])
     | _ \<Rightarrow> True)"

lemma steady_checked: "(\<And>f d. e \<noteq> PackageUnzipped f d) \<Longrightarrow> steady (chain (checked_unzip re D name)) L e"
  by (cases e) (auto simp: steady_def checked_unzip_def)

lemma calm_checked: "calm R (chain (checked_unzip re D name)) L"
  by (auto simp: calm_def harmless_def intro!: steady_checked)

lemma tr_check_package:
  "tr (chain (checked_unzip re D name)) D L (chain (checked_unzip re D name)) (check_package re q f)
    (\<lambda>r h. chain (checked_unzip re D name) h \<and> (r = Inr () \<longrightarrow> h \<noteq> [] \<and>
      (\<exists>m. snd (last h) = PackageDigested f m \<and> to_lower m = to_lower (pi_Md5 q))))"
proof -
  let ?I = "chain (checked_unzip re D name)"
  let ?d = "\<lambda>m h. ?I h \<and> h \<noteq> [] \<and> snd (last h) = PackageDigested f m"
  have "tr ?I D L ?I (file_md5 re f) (\<lambda>r h. ?I h \<and> (\<forall>m. r = Inr m \<longrightarrow> ?d m h))"
    unfolding file_md5_def
  proof (rule tr_unless [OF tr_plain [OF keeps_plain(6)]], assumption)
    fix c
    show "tr ?I D L ?I (seq (log_plugin (PackageDigested f (ComputeStrMd5 c))) (\<lambda>_. ret (Inr (ComputeStrMd5 c)))) (\<lambda>r h. ?I h \<and> (\<forall>m. r = Inr m \<longrightarrow> ?d m h))"
      by (rule tr_seq [OF tr_log [where Q = "\<lambda>_. ?d (ComputeStrMd5 c)"]]) (auto simp: checked_unzip_def intro: tr_ret)
  qed simp
  then have "tr ?I D L ?I (coding mk (file_md5 re f)) (\<lambda>r h. ?I h \<and> (\<forall>m. r = Inr m \<longrightarrow> ?d m h))" for mk
    unfolding coding_def by (rule tr_seq) (auto intro!: tr_ret simp: map_sum_def split: sum.split_asm)
  then show ?thesis
    unfolding check_package_def by (rule tr_unless) (auto simp: require_def intro!: tr_ret)
qed

lemma tr_unzip_package:
  assumes q: "offered re name q" "d = path_join [D, pi_Name q, pi_Version q]"
  shows "tr (chain (checked_unzip re D name)) D L
     (\<lambda>h. chain (checked_unzip re D name) h \<and> h \<noteq> [] \<and> (\<exists>m. snd (last h) = PackageDigested f m \<and> to_lower m = to_lower (pi_Md5 q)))
     (unzip_package re q t f d) (\<lambda>r. chain (checked_unzip re D name))"
    (is "tr ?I D L ?J _ _")
proof -
  have z: "tr ?I D L ?J (UnzipContext re ctx f d) (\<lambda>r. ?I)" for ctx
    unfolding UnzipContext_def
  proof (rule tr_seq [OF tr_plain [OF keeps_open_zip]], simp)
    fix r :: "go_error + zip_entry list"
    have "tr ?I D L ?J (log_plugin (PackageUnzipped f d)) (\<lambda>_. ?I)"
      using q by (intro tr_log) (auto simp: checked_unzip_def)
    then have "tr ?I D L ?J (seq (log_plugin (PackageUnzipped f d)) (\<lambda>_. unzip_entries re ctx d es)) (\<lambda>r. ?I)" for es
      by (rule tr_seq) (rule tr_plain [OF keeps_unzip_entries], assumption)
    then show "tr ?I D L ?J (case r of Inl e \<Rightarrow> ret (Some e)
        | Inr es \<Rightarrow> seq (log_plugin (PackageUnzipped f d)) (\<lambda>_. unzip_entries re ctx d es)) (\<lambda>r. ?I)"
      by (cases r) (auto intro: tr_ret)
  qed
  have "tr ?I D L ?J (failing_as mk (UnzipContext re ctx f d)) (\<lambda>r. ?I)" for mk ctx
    unfolding failing_as_def by (rule tr_seq [OF z]) (auto intro: tr_ret)
  then have "tr ?I D L ?J (unless_failed (failing_as mk (UnzipContext re ctx f d)) (\<lambda>_. seq (pv_on g) (\<lambda>_. ret (Inr ())))) (\<lambda>r. ?I)" for mk ctx g
    by (rule tr_unless) (auto intro!: tr_plain keeps_then keeps_plain)
  then show ?thesis unfolding unzip_package_def by (intro tr_seq [OF tr_plain [OF keeps_plain(6)]]) simp_all
qed

lemma keeps_checked_install:
  assumes "offered re name q"
  shows "keeps (chain (checked_unzip re D name)) D L anything (installFromOnline re q t arch)"
proof -
  let ?I = "chain (checked_unzip re D name)"
  have e: "steady ?I L (PluginInserted p)" "steady ?I L (PluginUpdated i p)" "steady ?I L (PluginDeleted i)" for i p
    by (rule steady_checked, simp)+
  have r: "keeps ?I D L anything (record_online re p)" for p
    unfolding record_online_def
    by (rule keeps_unless_then keeps_dir keeps_then keeps_coded keeps_replace_removed keeps_plain keeps_option keeps_prod keeps_database e)+
  have front: "tr ?I D L ?I (unless_failed (check_package re q f) (\<lambda>_. unless_failed (unzip_package re q t f (path_join [D, pi_Name q, pi_Version q])) g)) (\<lambda>r. ?I)"
    if "\<And>x. keeps ?I D L anything (g x)" for f and g :: "unit \<Rightarrow> (exitingError + Fetched) pv"
  proof (rule tr_unless [OF tr_check_package], goal_cases)
    case (1 x)
    have "tr ?I D L (\<lambda>h. ?I h \<and> h \<noteq> [] \<and> (\<exists>m. snd (last h) = PackageDigested f m \<and> to_lower m = to_lower (pi_Md5 q)))
        (unless_failed (unzip_package re q t f (path_join [D, pi_Name q, pi_Version q])) g) (\<lambda>r. ?I)"
      by (rule tr_unless [OF tr_unzip_package [OF assms refl]]) (auto intro: tr_plain that)
    then show ?case by (rule tr_weaken) auto
  qed simp
  show ?thesis
    unfolding installFromOnline_def Let_def download_package_def
    by (rule keeps_dir, rule keeps_unless_then, intro keeps_coded keeps_download calm_checked, rule keeps_of_tr, rule front,
      (rule keeps_unless_then keeps_read_config keeps_check_online keeps_make_executable r keeps_plain)+)
qed

lemma keeps_checked: "keeps (chain (checked_unzip re D (ef_PluginName fo))) D L anything (executePluginOnlineOrLocal re fo ep)"
proof (rule keeps_online_frame [OF _ calm_checked], goal_cases)
  case (1 l q t arch)
  note n = offered_name [OF 1(2)] and q = 1(2)
  show ?case
    unfolding install_online_locked_def n [symmetric]
    by (intro keeps_guarded keeps_guard_value keeps_install_if_missing keeps_local_entry
        keeps_yields [OF keeps_checked_install installFromOnline_entry] q [folded n])
qed

text \<open>C15. 
  Whatever is unpacked for a plugin that is not given as a file is a package that the server offered
  under this name: its digest was computed just before and is the one of the offer, up to case, and it
  is unpacked into the directory of the name and the version of the offer.
\<close>

theorem unpacked_when_checked:
  assumes "executePluginOnlineOrLocal re fo ep s = Some (r, s1)" "chain (checked_unzip re (PLUGINDIR s) (ef_PluginName fo)) (pr_events s)"
  shows "chain (checked_unzip re (PLUGINDIR s) (ef_PluginName fo)) (pr_events s1)"
  using keeps_checked [unfolded keeps_def tr_def, rule_format, OF refl refl assms(2,1)] by (auto split: outcome.splits)

section \<open>Every command returns\<close>

text \<open>
  The program returns: with a clock that advances and a positive time to fetch a plugin, every command
  ends, whatever the other processes do with their locks.
\<close>

theorem every_command_ends:
  assumes "clock_advances (re_env re)"
    and "case fl_fetchTimeout fl of None \<Rightarrow> True | Some t \<Rightarrow> 0 < wrap64 (fst (atoi t) * second)"
  shows "\<exists>r s1. execute re fl s = Some (r, s1)"
proof -
  have d: "ends (dispatch re fl t e)" if "0 < wrap64 (t * second)" for t e
    unfolding dispatch_def ExecutePlugin_def
    by (intro ends_step ends_lists ends_VerifyPlugin ends_RemovePlugin ends_executePluginFromFile ends_executePluginOnlineOrLocal assms(1))
      (use that in simp_all)
  have "0 < wrap64 (20 * second)" by (simp add: second_def)
  then have t: "0 < wrap64 (t * second)" if "parsed_time w (fl_fetchTimeout fl) 20 id = Inr t" for t w
    using that assms(2) by (auto simp: parsed_time_def split: option.splits prod.splits)
  have "ends (execute re fl)"
    unfolding execute_def NewPluginManager_def
  proof (rule ends_seq, intro ends_step, rule ends_cases(1), goal_cases)
    case (1 e)
    show ?case
    proof (cases "parsed_time ''Invalid fetch timeout argument'' (fl_fetchTimeout fl) 20 id")
      case (Inr n)
      show ?thesis unfolding Inr by (auto intro!: ends_step d t [OF Inr] split: sum.split)
    qed (simp add: ends_basic)
  qed (rule ends_basic)
  then show ?thesis by (auto simp: ends_def)
qed

text \<open>
  Without a time limit the wait for a lock that is never given back does not end, and it is without one
  when the time to fetch is 0.
\<close>

theorem wait_without_limit:
  assumes "\<And>n. re_flock re n path ex = WouldBlock"
  shows "wait_lock re path ex (wrap64 (0 * second)) s = None"
proof -
  have none: "re' = re \<longrightarrow> p' = path \<longrightarrow> ex' = ex \<longrightarrow> t' = 0 \<longrightarrow> False" if "flock_loop re' p' ex' t' u' w' = Some r" for re' p' ex' t' u' w' r
  proof (rule flock_loop.raw_induct [OF _ that, where P = "\<lambda>re' p' ex' t' u' w' r. re' = re \<longrightarrow> p' = path \<longrightarrow> ex' = ex \<longrightarrow> t' = 0 \<longrightarrow> False"], goal_cases)
    case (1 f re' p' ex' t' u' w' r)
    show ?case
    proof (intro impI)
      assume "re' = re" "p' = path" "ex' = ex" "t' = 0"
      then have "f re path ex 0 u' (tick (tick w')) = Some r" using 1(2) assms by simp
      with 1(1) show False by blast
    qed
  qed
  have "flock_loop re path ex 0 0 w = None" for w
    using none [of re path ex 0 0 w "the (flock_loop re path ex 0 0 w)"] by (cases "flock_loop re path ex 0 0 w") simp_all
  then show ?thesis by (simp add: wait_lock_def acquiring_def waited_def flock_def seq_def)
qed

section \<open>The package online\<close>

lemma newer_key: "newer p q \<longleftrightarrow> version_key (ascii_runes (pi_Version q)) < version_key (ascii_runes (pi_Version p))"
  by (auto simp: newer_def CompareVersion_key three_way_def)

definition candidates :: "string \<Rightarrow> string \<Rightarrow> PluginInfo list \<Rightarrow> PluginInfo list" where
  "candidates name arch ps = filter (\<lambda>p. pi_Name p = name \<and> arch_fits arch p) ps"

text \<open>The last of them in the order of versions, and the first of several with its version.\<close>

definition best_of :: "PluginInfo list \<Rightarrow> PluginInfo option \<Rightarrow> bool" where
  "best_of cs b \<longleftrightarrow>
     (case b of
        None \<Rightarrow> cs = []
      | Some p \<Rightarrow> \<exists>pre post. cs = pre @ p # post \<and> list_all (newer p) pre \<and> list_all (\<lambda>q. \<not> newer q p) post)"

lemma best_of_snoc:
  assumes "best_of cs b"
  shows "best_of (cs @ [p]) (case b of None \<Rightarrow> Some p | Some q \<Rightarrow> if newer p q then Some p else Some q)"
proof (cases b)
  case None
  then show ?thesis using assms by (auto simp: best_of_def intro: exI [of _ "[]"])
next
  case (Some q)
  then obtain pre post where c: "cs = pre @ q # post" "list_all (newer q) pre" "list_all (\<lambda>r. \<not> newer r q) post"
    using assms by (auto simp: best_of_def)
  show ?thesis
  proof (cases "newer p q")
    case True
    have "list_all (newer p) cs" using c True by (auto simp: list_all_iff newer_key)
    then show ?thesis using Some True unfolding best_of_def by (simp, intro exI [of _ cs] exI [of _ "[]"]) simp
  next
    case False
    then show ?thesis using Some c unfolding best_of_def by (simp, intro exI [of _ pre] exI [of _ "post @ [p]"]) simp
  qed
qed

lemma match_packages_best:
  "best_of cs b \<Longrightarrow>
    best_of (cs @ candidates name arch ps) (fst (match_packages name arch ps (b, others)))
    \<and> snd (match_packages name arch ps (b, others)) = others @ map (to_lower \<circ> pi_Arch) (filter (\<lambda>p. pi_Name p = name \<and> \<not> arch_fits arch p) ps)"
proof (induction ps arbitrary: cs b others)
  case (Cons p ps)
  show ?case
  proof (cases "pi_Name p = name \<and> arch_fits arch p")
    case True
    then show ?thesis using Cons.IH [OF best_of_snoc [OF Cons.prems, of p], of others] by (simp add: candidates_def)
  next
    case False
    then show ?thesis using Cons.IH [OF Cons.prems] by (auto simp: candidates_def)
  qed
qed (simp add: candidates_def)

text \<open>
  The package chosen online is, of those with the name that was asked for and for this machine, the one
  with the greatest version, and the first one of those; there is none exactly when there is no such package,
  and the other architectures are listed in their order.
\<close>

theorem newest_package_is_chosen:
  "best_of (candidates name arch ps) (fst (match_packages name arch ps (None, [])))
   \<and> snd (match_packages name arch ps (None, [])) = map (to_lower \<circ> pi_Arch) (filter (\<lambda>p. pi_Name p = name \<and> \<not> arch_fits arch p) ps)"
  using match_packages_best [of "[]" None name arch ps "[]"] by (simp add: best_of_def)

section \<open>Errors\<close>

text \<open>
  When another process was installing the version and failed, the process that waited for it finds no
  plugin and dereferences the nil pointer that stands for it.
\<close>

theorem waiter_of_failed_install_panics:
  assumes "openPluginVersionLockFile re (cf_Name c) (cf_Version c) s = Some (Returns (Inr path), s0)"
    and "try_lock re path True s0 = Some (Returns (Some EWOULDBLOCK), s2)"
    and "wait_lock re path False timeout s2 = Some (Returns None, s3)"
    and "queryFromLocalOnly re (cf_Name c) (cf_Version c) s3 = Some (Returns (Inl x), s4)"
  shows "install_from_file_locked re packagePath c old timeout pre s = Some (Panics NilDereference, release path False s4)"
  using assms
  by (simp add: install_from_file_locked_def guarded_def unless_failed_def exiting_with_def InstallLockGuard_Do_def seq_def panic_def
      deferring_def isLockingError_def)

text \<open>
  A file with a version that is already installed is not installed, although the program says that it
  is: whatever the installation would do, the installed plugin is used and the state is not changed by it.
\<close>

theorem same_version_is_not_installed:
  assumes "queryFromLocalOnly re (cf_Name c) (cf_Version c) s = Some (Returns (Inr f), s1)"
  shows "install_if_missing re (cf_Name c) (cf_Version c) (installFromFile re packagePath c old timeout) s = Some (Returns (Inr f), s1)"
  using assms by (simp add: install_if_missing_def seq_def ret_def)

text \<open>The lock of the version 1 of a plugin \<open>a\<close> is the lock of a plugin \<open>a.v1\<close>.\<close>

theorem lock_names_collide: "openPluginVersionLockFile re name version = openPluginLockFile re (name @ ''.v'' @ version)"
  by (simp add: openPluginVersionLockFile_def openPluginLockFile_def)

section \<open>Where an archive is unpacked\<close>

lemma clean_parts_append: "clean_parts r kept (xs @ ys) = clean_parts r (rev (clean_parts r kept xs)) ys"
  by (induction r kept xs rule: clean_parts.induct) auto

lemma clean_parts_no_dots:
  "''..'' \<notin> set ys \<Longrightarrow> clean_parts r kept ys = rev kept @ filter (\<lambda>p. p \<noteq> [] \<and> p \<noteq> ''.'') ys"
  by (induction ys arbitrary: kept) auto

lemma join_append: "xs \<noteq> [] \<Longrightarrow> ys \<noteq> [] \<Longrightarrow> join sep (xs @ ys) = join sep xs @ sep @ join sep ys"
  by (induction sep xs rule: join.induct) (auto simp: neq_Nil_conv)

definition within :: "string \<Rightarrow> string \<Rightarrow> bool" where
  "within dest p \<longleftrightarrow> p = dest \<or> has_prefix (dest @ ''/'') p"

lemma join_within:
  assumes d: "hd dest = CHR ''/''" "path_clean dest = dest" "dest \<noteq> ''/''" and n: "''..'' \<notin> set (split_on (CHR ''/'') name)"
  shows "within dest (path_join [dest, name])"
proof -
  have "path_clean [] \<noteq> []" by code_simp
  then have ne: "dest \<noteq> []" using d(2) by auto
  define C where "C = clean_parts True [] (split_on (CHR ''/'') dest)"
  have dest: "dest = ''/'' @ join ''/'' C" using d(1,2) ne by (simp add: path_clean_def C_def Let_def)
  then have C: "C \<noteq> []" using d(3) by auto
  show ?thesis
  proof (cases "name = []")
    case True
    then show ?thesis using ne d(2) by (simp add: path_join_def within_def)
  next
    case False
    let ?F = "filter (\<lambda>p. p \<noteq> [] \<and> p \<noteq> ''.'') (split_on (CHR ''/'') name)"
    have "path_join [dest, name] = path_clean (dest @ CHR ''/'' # name)"
      using False ne by (simp add: path_join_def)
    also have "\<dots> = ''/'' @ join ''/'' (C @ ?F)"
      using d(1) ne n by (simp add: path_clean_def split_on_append clean_parts_append C_def [symmetric] clean_parts_no_dots Let_def)
    also have "\<dots> = dest @ (if ?F = [] then [] else ''/'' @ join ''/'' ?F)"
      using join_append [OF C, of ?F "''/''"] by (subst dest) auto
    finally show ?thesis by (auto simp: within_def has_prefix_iff)
  qed
qed
text \<open>The steps of unpacking, with the files they write.\<close>

definition writes_within :: "string \<Rightarrow> plugin_run \<Rightarrow> plugin_run \<Rightarrow> bool" where
  "writes_within dest s s1 \<longleftrightarrow>
     (\<exists>fs. trace (pr_world s1) = trace (pr_world s) @ fs \<and> list_all (\<lambda>e. case e of FileWritten p c \<Rightarrow> within dest p | _ \<Rightarrow> True) fs)"

lemma writes_refl: "writes_within dest s s"
  by (auto simp: writes_within_def)

lemma writes_trans:
  assumes "writes_within dest s s1" "writes_within dest s1 s2"
  shows "writes_within dest s s2"
proof -
  obtain fs gs where "trace (pr_world s1) = trace (pr_world s) @ fs" "list_all (\<lambda>e. case e of FileWritten p c \<Rightarrow> within dest p | _ \<Rightarrow> True) fs"
    "trace (pr_world s2) = trace (pr_world s1) @ gs" "list_all (\<lambda>e. case e of FileWritten p c \<Rightarrow> within dest p | _ \<Rightarrow> True) gs"
    using assms unfolding writes_within_def by blast
  then show ?thesis unfolding writes_within_def by (intro exI [of _ "fs @ gs"]) simp
qed

lemma wpr_pv_on [wpr_rules]:
  "wpr (pv_on f) Q P s = Q (fst (f (pr_world s))) (s\<lparr>pr_store := (pr_store s)\<lparr>ps_world := snd (f (pr_world s))\<rparr>\<rparr>)"
  by (simp add: pv_on_def in_store_def ps_on_def wpr_zoom wpr_effect_of split_beta Let_def)

lemma wpr_writes_seq:
  assumes "wpr m (\<lambda>x s1. writes_within dest s s1) (\<lambda>_ _. False) s"
    and "\<And>x s1. wpr (f x) (\<lambda>y s2. writes_within dest s1 s2) (\<lambda>_ _. False) s1"
  shows "wpr (seq m f) (\<lambda>y s2. writes_within dest s s2) (\<lambda>_ _. False) s"
  unfolding wpr_seq
  by (rule wpr_mono [OF assms(1)]) (auto intro: wpr_mono [OF assms(2)] writes_trans)

lemma unzip_entry_writes:
  assumes "hd dest = CHR ''/''" "path_clean dest = dest" "dest \<noteq> ''/''" "''..'' \<notin> set (split_on (CHR ''/'') (fst e))"
  shows "wpr (unzip_entry re dest e) (\<lambda>r s1. writes_within dest s s1) (\<lambda>_ _. False) s"
proof (cases e)
  case (fields name dir content)
  note w = join_within [OF assms(1-3), of name]
  have "wpr (pv_on (MakeSurePath (re_mc re) d)) (\<lambda>r s1. writes_within dest s s1) (\<lambda>_ _. False) s" for d s
    by (auto simp: wpr_rules MakeSurePath_def attempt_def writes_within_def split: option.split)
  note steps = this
  have "wpr (pv_on (WriteStringToFile (re_mc re) (path_join [dest, name]) c)) (\<lambda>r s1. writes_within dest s s1) (\<lambda>_ _. False) s" for c s
    using w assms(4) fields by (auto simp: wpr_rules WriteStringToFile_def attempt_def writes_within_def split: option.split)
  then show ?thesis
    unfolding fields unzip_entry_def Let_def
    by (auto simp: wpr_ret writes_refl intro!: wpr_writes_seq steps split: option.split sum.split)
qed

lemma unzip_entries_writes:
  assumes "hd dest = CHR ''/''" "path_clean dest = dest" "dest \<noteq> ''/''" "list_all (\<lambda>e. ''..'' \<notin> set (split_on (CHR ''/'') (fst e))) es"
  shows "wpr (unzip_entries re ctx dest es) (\<lambda>r s1. writes_within dest s s1) (\<lambda>_ _. False) s"
  using assms(4)
proof (induction es arbitrary: s)
  case (Cons e es)
  have c: "wpr (ctx_done re ctx) (\<lambda>r s1. writes_within dest s s1) (\<lambda>_ _. False) s" for s
    by (auto simp: ctx_done_def wpr_rules ask_def writes_within_def)
  have e: "wpr (unzip_entry re dest e) (\<lambda>r s1. writes_within dest s s1) (\<lambda>_ _. False) s" for s
    using Cons.prems by (intro unzip_entry_writes assms(1-3)) simp
  have es: "wpr (unzip_entries re ctx dest es) (\<lambda>r s1. writes_within dest s s1) (\<lambda>_ _. False) s" for s
    using Cons.prems by (intro Cons.IH) simp
  show ?case
    unfolding unzip_entries.simps
    by (auto simp: wpr_ret writes_refl intro!: wpr_writes_seq c e es split: option.split)
qed (simp add: wpr_ret writes_refl)

text \<open>
  An archive whose names have no component of two dots is unpacked below the directory it is unpacked
  into, and unpacking it returns.
\<close>

theorem unpacked_below:
  assumes "hd dest = CHR ''/''" "path_clean dest = dest" "dest \<noteq> ''/''" "list_all (\<lambda>e. ''..'' \<notin> set (split_on (CHR ''/'') (fst e))) es"
  shows "\<exists>r s1. unzip_entries re ctx dest es s = Some (Returns r, s1) \<and> writes_within dest s s1"
  using unzip_entries_writes [OF assms] by (simp add: wpr_returns)

text \<open>With two dots it is not.\<close>

theorem archive_escapes:
  assumes "mc_mkdir (re_mc re) (ticks (pr_world s)) ''/etc/cron.d'' = None" "mc_write (re_mc re) (Suc (ticks (pr_world s))) ''/etc/cron.d/job'' = None"
  shows "\<exists>s1. unzip_entries re False ''/p/demo/1.0'' [(''../../../etc/cron.d/job'', False, Inr ''x'')] s = Some (Returns None, s1)
    \<and> last (trace (pr_world s1)) = FileWritten ''/etc/cron.d/job'' ''x''"
proof -
  have p: "path_join [''/p/demo/1.0'', ''../../../etc/cron.d/job''] = ''/etc/cron.d/job''" "path_dir ''/etc/cron.d/job'' = ''/etc/cron.d''"
    by code_simp+
  have "wpr (unzip_entries re False ''/p/demo/1.0'' [(''../../../etc/cron.d/job'', False, Inr ''x'')])
      (\<lambda>r s1. r = None \<and> last (trace (pr_world s1)) = FileWritten ''/etc/cron.d/job'' ''x'') (\<lambda>_ _. False) s"
    using assms by (simp add: ctx_done_def unzip_entry_def p wpr_rules Let_def MakeSurePath_def WriteStringToFile_def attempt_def)
  then show ?thesis by (simp add: wpr_returns)
qed

section \<open>A machine and a server\<close>

definition demo_config :: pluginConfig where
  "demo_config = \<lparr>cf_Name = ''demo'', cf_Arch = ''all'', cf_OsType = ''linux'', cf_RunPath = ''run.sh'', cf_Timeout = ''30'', cf_Publisher = ''a'',
     cf_Version = ''1.0'', cf_PluginType = TypeText ''Persist'', cf_HeartbeatInterval = 0, cf_AddSysTag = True\<rparr>"

definition demo_plugin :: PluginInfo where
  "demo_plugin = sample_plugin\<lparr>pi_Name := ''demo'', pi_Arch := ''all'', pi_Version := ''1.0'', pi_Url := ''http://h/demo.zip'',
     pi_Md5 := ''D41D8CD98F00B204E9800998ECF8427E''\<rparr>"

definition demo_run :: run_env where
  "demo_run = \<lparr>re_store = plain_store\<lparr>se_mc := (se_mc plain_store)\<lparr>mc_stat := (\<lambda>n p. RegularFile)\<rparr>, se_unmarshal := (\<lambda>s. Inr demo_plugin)\<rparr>,
     re_metrics = still_metrics\<lparr>me_env := (me_env still_metrics)\<lparr>transport := (\<lambda>n m u b. Reply 200 ''ok''), clock := (\<lambda>n. int n)\<rparr>\<rparr>,
     re_uname = (\<lambda>n. Inr ''x86_64''), re_list = (\<lambda>s. Inr [demo_plugin]), re_list_request = (\<lambda>a b c d. b), re_status_request = pst_Status,
     re_config = (\<lambda>s. Inr demo_config), re_read_file = (\<lambda>n p. Inr []), re_zip = (\<lambda>s. Inr [(''run.sh'', False, Inr ''go'')]),
     re_get = (\<lambda>n u. None), re_create = (\<lambda>n p. None), re_copy = (\<lambda>n p. None), re_expired = (\<lambda>n. False), re_done_first = (\<lambda>n. False),
     re_open_lock = (\<lambda>n p. None), re_flock = (\<lambda>n p ex. Flocked), re_remove_all = (\<lambda>n p. None), re_split = (\<lambda>s. [s]),
     re_answer = (\<lambda>n. Some True), re_terminal = (\<lambda>n. True)\<rparr>"

definition demo_start :: plugin_run where
  "demo_start = \<lparr>pr_store = empty_store, pr_metrics = fresh_metrics, PLUGINDIR = ''/p'',
     pr_vars = \<lparr>ev_pluginName = [], ev_pluginVersion = [], ev_pluginType = [], ev_resource = [], ev_errorCode = [], ev_localArch = []\<rparr>,
     pr_locks = [], pr_events = []\<rparr>"

definition demo_params :: ExecuteParams where
  "demo_params = \<lparr>ep_Params = ''--start'', ep_Separator = [], ep_ParamsV2 = [], ep_ExecutionTimeout = None, ep_Foreground = False\<rparr>"

definition demo_fetch :: ExecFetchOptions where
  "demo_fetch = \<lparr>ef_File = [], ef_PluginName = ''demo'', ef_PluginId = [], ef_Version = [], ef_Local = False, ef_FetchTimeoutInSeconds = 20\<rparr>"

definition demo_flags :: plugin_flags where
  "demo_flags = \<lparr>fl_verbose = False, fl_version = False, fl_list = False, fl_local = False, fl_verify = False, fl_status = False, fl_exec = True,
     fl_remove = False, fl_foreground = False, fl_plugin = ''demo'', fl_pluginId = [], fl_pluginVersion = [], fl_params = ''--start'', fl_paramsV2 = [],
     fl_url = [], fl_separator = [], fl_file = [], fl_fetchTimeout = Some ''30'', fl_executionTimeout = None\<rparr>"

text \<open>The plugin is installed.\<close>

definition demo_installed :: plugin_run where
  "demo_installed = demo_start\<lparr>pr_store := empty_store\<lparr>ps_db := Some \<lparr>db_bucket = Some [(itob 1, ''demo'')], db_sequence = 1\<rparr>\<rparr>\<rparr>"

lemma demo_simps [simp]:
  "clock_advances (re_env demo_run)" "PLUGINDIR demo_start = ''/p''" "pr_events demo_start = []" "pr_locks demo_start = []"
  "PLUGINDIR demo_installed = ''/p''" "pr_events demo_installed = []" "pr_locks demo_installed = []"
  "ef_File demo_fetch = []" "ef_PluginName demo_fetch = ''demo''" "ef_FetchTimeoutInSeconds demo_fetch = 20"
  by (simp_all add: clock_advances_def demo_run_def demo_start_def demo_installed_def demo_fetch_def)

lemma demo_execution: "ends (executePluginOnlineOrLocal demo_run demo_fetch demo_params)"
  by (rule ends_executePluginOnlineOrLocal) (simp_all add: second_def)

theorem plugins_installed_under_locks_witness:
  "\<exists>r s1. ExecutePlugin demo_run True demo_fetch demo_params demo_start = Some (r, s1)
     \<and> pr_locks s1 = [] \<and> list_all (installs_locked demo_run ''/p'') (pr_events s1)"
proof -
  obtain r s1 where s1: "ExecutePlugin demo_run True demo_fetch demo_params demo_start = Some (r, s1)"
    using ends_result [OF demo_execution, of demo_start] by (auto simp: ExecutePlugin_def)
  then show ?thesis using plugins_installed_under_locks [OF s1] by auto
qed

theorem plugins_removed_in_order_witness:
  "\<exists>r s1. RemovePlugin demo_run ''demo'' demo_installed = Some (r, s1)
     \<and> pr_locks s1 = [] \<and> chain (removes_safely ''/p'' ''demo'') (pr_events s1)"
proof -
  obtain r s1 where s1: "RemovePlugin demo_run ''demo'' demo_installed = Some (r, s1)"
    using ends_result [OF ends_RemovePlugin] by blast
  then show ?thesis using plugins_removed_in_order [OF s1] by auto
qed

theorem unpacked_when_checked_witness:
  "\<exists>r s1. executePluginOnlineOrLocal demo_run demo_fetch demo_params demo_start = Some (r, s1)
     \<and> chain (checked_unzip demo_run ''/p'' ''demo'') (pr_events s1)"
proof -
  obtain r s1 where s1: "executePluginOnlineOrLocal demo_run demo_fetch demo_params demo_start = Some (r, s1)"
    using ends_result [OF demo_execution] by blast
  then show ?thesis using unpacked_when_checked [OF s1] by auto
qed

theorem every_command_ends_witness: "\<exists>r s1. execute demo_run demo_flags demo_start = Some (r, s1)"
proof (rule every_command_ends)
  have "atoi ''30'' = (30, None)" by code_simp
  then show "case fl_fetchTimeout demo_flags of None \<Rightarrow> True | Some t \<Rightarrow> 0 < wrap64 (fst (atoi t) * second)"
    by (simp add: demo_flags_def second_def)
qed simp

theorem wait_without_limit_witness:
  "wait_lock (demo_run\<lparr>re_flock := (\<lambda>n p ex. WouldBlock)\<rparr>) ''l'' False (wrap64 (0 * second)) demo_start = None"
  by (rule wait_without_limit) simp

definition demo_waiter :: run_env where
  "demo_waiter = demo_run\<lparr>re_flock := (\<lambda>n p ex. if ex then WouldBlock else Flocked)\<rparr>"

lemma run_of: "map_option fst y = Some x \<Longrightarrow> y = Some (x, snd (the y))"
  by (cases y) auto

theorem waiter_of_failed_install_panics_witness:
  "\<exists>s1. install_from_file_locked demo_waiter ''f'' demo_config None second [] demo_start = Some (Panics NilDereference, s1)"
proof -
  define path where "path = ''/usr/local/share/aliyun-assist/cache/plugin-manager/demo.v1.0.lock''"
  define s0 where "s0 = snd (the (openPluginVersionLockFile demo_waiter (cf_Name demo_config) (cf_Version demo_config) demo_start))"
  define s2 where "s2 = snd (the (try_lock demo_waiter path True s0))"
  define s3 where "s3 = snd (the (wait_lock demo_waiter path False second s2))"
  let ?x = "NewPackageNotFoundExitingError ErrPackageNotFound ''Could not found local package [demo]''"
  have "map_option fst (openPluginVersionLockFile demo_waiter (cf_Name demo_config) (cf_Version demo_config) demo_start) = Some (Returns (Inr path))"
    unfolding path_def by code_simp
  note 1 = run_of [OF this, folded s0_def]
  have "map_option fst (try_lock demo_waiter path True s0) = Some (Returns (Some EWOULDBLOCK))"
    unfolding path_def s0_def by code_simp
  note 2 = run_of [OF this, folded s2_def]
  have "map_option fst (wait_lock demo_waiter path False second s2) = Some (Returns None)"
    unfolding path_def s0_def s2_def by code_simp
  note 3 = run_of [OF this, folded s3_def]
  have "map_option fst (queryFromLocalOnly demo_waiter (cf_Name demo_config) (cf_Version demo_config) s3) = Some (Returns (Inl ?x))"
    unfolding path_def s0_def s2_def s3_def by code_simp
  from waiter_of_failed_install_panics [OF 1 2 3 run_of [OF this]] show ?thesis by blast
qed

theorem same_version_is_not_installed_witness:
  "map_option fst (install_if_missing demo_run (cf_Name demo_config) (cf_Version demo_config)
      (installFromFile demo_run ''f'' demo_config None 0) demo_installed)
    = Some (Returns (Inr (fetched_local demo_installed demo_plugin)))"
proof -
  have "map_option fst (queryFromLocalOnly demo_run (cf_Name demo_config) (cf_Version demo_config) demo_installed)
      = Some (Returns (Inr (fetched_local demo_installed demo_plugin)))"
    by code_simp
  from same_version_is_not_installed [OF run_of [OF this]] show ?thesis by simp
qed

theorem unpacked_below_witness:
  "\<exists>r s1. unzip_entries demo_run True ''/p/demo/1.0'' [(''bin/'', True, Inr []), (''bin/run'', False, Inr ''go'')] demo_start = Some (Returns r, s1)
     \<and> writes_within ''/p/demo/1.0'' demo_start s1"
proof (rule unpacked_below)
  show "path_clean ''/p/demo/1.0'' = ''/p/demo/1.0''" by code_simp
  show "list_all (\<lambda>e. ''..'' \<notin> set (split_on (CHR ''/'') (fst e))) [(''bin/'', True, Inr []), (''bin/run'', False, Inr ''go'')]" by code_simp
qed simp_all

theorem archive_escapes_witness:
  "\<exists>s1. unzip_entries demo_run False ''/p/demo/1.0'' [(''../../../etc/cron.d/job'', False, Inr ''x'')] demo_start = Some (Returns None, s1)
     \<and> last (trace (pr_world s1)) = FileWritten ''/etc/cron.d/job'' ''x''"
  by (rule archive_escapes) (simp_all add: demo_run_def plain_store_def)

end
