(* ===== verification/Api_Time.thy ===== *)
theory Api_Time
  imports World
begin

text \<open>
  Times in the interface of the server, \<open>ApiTimeFormat\<close> and \<open>ParseApiTime\<close> of
  \<open>agent/util/timetool/timetool.go\<close>: the date of an instant in UTC by the Gregorian calendar, its
  text with a resolution of one second, and the reading of such a text.
\<close>

section \<open>The date of a day\<close>

text \<open>The year is searched upwards from a lower bound, the month from January.\<close>

lemma civil_days_year: "civil_days y 1 1 = 365 * (y - 1) + (y - 1) div 4 - (y - 1) div 100 + (y - 1) div 400 - 719162"
  by (simp add: civil_days_def Let_def days_before_month_def)

lemma quotient_step:
  assumes "0 < (k :: int)" shows "y div k - (y - 1) div k = (if y mod k = 0 then 1 else 0)"
proof -
  have y: "y = k * (y div k) + y mod k" by simp
  have r: "0 \<le> y mod k" "y mod k < k" using assms by simp_all
  show ?thesis
  proof (cases "y mod k = 0")
    case True
    then have "y - 1 = k * (y div k - 1) + (k - 1)" using y by (simp add: algebra_simps)
    then have "(y - 1) div k = y div k - 1" by (rule int_div_pos_eq) (use assms in auto)
    with True show ?thesis by simp
  next
    case False
    have "y - 1 = k * (y div k) + (y mod k - 1)" using y by simp
    then have "(y - 1) div k = y div k" by (rule int_div_pos_eq) (use r False in auto)
    with False show ?thesis by simp
  qed
qed

lemma multiple_mod:
  "(y :: int) mod 400 = 0 \<Longrightarrow> y mod 100 = 0" "y mod 100 = 0 \<Longrightarrow> y mod 4 = 0"
proof -
  have "(100 :: int) dvd 400" "(4 :: int) dvd 100" by simp_all
  then show "y mod 400 = 0 \<Longrightarrow> y mod 100 = 0" "y mod 100 = 0 \<Longrightarrow> y mod 4 = 0"
    unfolding mod_eq_0_iff_dvd using dvd_trans by blast+
qed

lemma civil_year_length: "civil_days (y + 1) 1 1 - civil_days y 1 1 = (if leap_year y then 366 else 365)"
proof -
  have q: "y div 4 - (y - 1) div 4 = (if y mod 4 = 0 then 1 else 0)" "y div 100 - (y - 1) div 100 = (if y mod 100 = 0 then 1 else 0)"
    "y div 400 - (y - 1) div 400 = (if y mod 400 = 0 then 1 else 0)"
    by (rule quotient_step, simp)+
  have "civil_days (y + 1) 1 1 - civil_days y 1 1
      = 365 + (y div 4 - (y - 1) div 4) - (y div 100 - (y - 1) div 100) + (y div 400 - (y - 1) div 400)"
    by (simp add: civil_days_year)
  also have "\<dots> = (if leap_year y then 366 else 365)"
    unfolding q leap_year_def using multiple_mod [of y]
    by (cases "y mod 400 = 0"; cases "y mod 100 = 0"; cases "y mod 4 = 0") simp_all
  finally show ?thesis .
qed

lemma civil_year_mono: "civil_days y 1 1 + 365 \<le> civil_days (y + 1) 1 1"
  using civil_year_length [of y] by (auto split: if_splits)

function year_from :: "int \<Rightarrow> int \<Rightarrow> int" where
  "year_from y d = (if civil_days (y + 1) 1 1 \<le> d then year_from (y + 1) d else y)"
  by pat_completeness auto
termination
proof (relation "measure (\<lambda>(y, d). nat (d + 1 - civil_days y 1 1))", simp)
  fix y d :: int
  assume "civil_days (y + 1) 1 1 \<le> d"
  with civil_year_mono [of y] show "((y + 1, d), y, d) \<in> measure (\<lambda>(y, d). nat (d + 1 - civil_days y 1 1))" by simp
qed

declare year_from.simps [simp del]

definition year_of_day :: "int \<Rightarrow> int" where
  "year_of_day d = year_from (min ((d + 719162) div 366) ((d + 719162) div 365) + 1) d"

fun month_from :: "nat \<Rightarrow> int \<Rightarrow> int \<Rightarrow> int \<Rightarrow> int" where
  "month_from 0 y m k = m"
| "month_from (Suc n) y m k = (if days_before_month y (m + 1) \<le> k then month_from n y (m + 1) k else m)"

text \<open>Year, month and day of a number of days since 1970-01-01.\<close>

definition civil_date :: "int \<Rightarrow> int \<times> int \<times> int" where
  "civil_date d =
     (let y = year_of_day d; k = d - civil_days y 1 1; m = month_from 11 y 1 k in (y, m, k - days_before_month y m + 1))"

lemma civil_date_examples:
  "civil_date 0 = (1970, 1, 1)" "civil_date 19782 = (2024, 2, 29)" "civil_date 11016 = (2000, 2, 29)" "civil_date (-1) = (1969, 12, 31)"
  by code_simp+

lemma year_from_bounds:
  "civil_days y 1 1 \<le> d \<Longrightarrow> civil_days (year_from y d) 1 1 \<le> d \<and> d < civil_days (year_from y d + 1) 1 1 \<and> y \<le> year_from y d"
proof (induction y d rule: year_from.induct)
  case (1 y d)
  show ?case
  proof (cases "civil_days (y + 1) 1 1 \<le> d")
    case True
    with 1 show ?thesis by (subst (1 2 3) year_from.simps) simp
  next
    case False
    with 1 show ?thesis by (subst (1 2 3) year_from.simps) simp
  qed
qed

lemma civil_year_upper:
  assumes "1 \<le> y" shows "civil_days y 1 1 \<le> 366 * (y - 1) - 719162"
proof -
  define z where "z = y - 1"
  define a where "a = z div 4"
  have z: "0 \<le> z" using assms by (simp add: z_def)
  have a: "0 \<le> a" "4 * a \<le> z" using z pos_mod_sign [of 4 z] mult_div_mod_eq [of 4 z] by (simp_all add: a_def pos_imp_zdiv_nonneg_iff)
  have "z div 400 \<le> z div 100"
  proof -
    have "z div 400 = z div 100 div 4" by (simp add: zdiv_zmult2_eq [symmetric])
    also have "\<dots> \<le> z div 100" using z zdiv_mono2 [of "z div 100" 1 4] by (simp add: pos_imp_zdiv_nonneg_iff)
    finally show ?thesis .
  qed
  moreover have "civil_days y 1 1 = 365 * z + a - z div 100 + z div 400 - 719162"
    unfolding civil_days_year z_def [symmetric] a_def [symmetric] ..
  ultimately show ?thesis using a unfolding z_def [symmetric] by linarith
qed

lemma year_of_day_bounds:
  assumes "- 719162 \<le> d"
  shows "civil_days (year_of_day d) 1 1 \<le> d \<and> d < civil_days (year_of_day d + 1) 1 1 \<and> 1 \<le> year_of_day d"
proof -
  let ?y = "(d + 719162) div 366 + 1"
  have "(d + 719162) div 366 \<le> (d + 719162) div 365" using assms by (intro zdiv_mono2) auto
  then have start: "year_of_day d = year_from ?y d" by (simp add: year_of_day_def min_def)
  have y: "1 \<le> ?y" using assms by (simp add: pos_imp_zdiv_nonneg_iff)
  have "366 * ((d + 719162) div 366) \<le> d + 719162" using pos_mod_sign [of 366 "d + 719162"] mult_div_mod_eq [of 366 "d + 719162"] by linarith
  with civil_year_upper [OF y] have "civil_days ?y 1 1 \<le> d" by simp
  from year_from_bounds [OF this] y show ?thesis by (auto simp: start)
qed

lemma days_before_Suc: "1 \<le> m \<Longrightarrow> days_before_month y (m + 1) = days_before_month y m + days_in_month y m"
proof -
  assume "1 \<le> m"
  then have "[1..m] = [1..m - 1] @ [m]" by (rule upto_rec2)
  then show ?thesis by (simp add: days_before_month_def)
qed

lemma days_of_year: "days_before_month y 13 = (if leap_year y then 366 else 365)"
  unfolding days_before_month_def by (simp add: days_in_month_def upto_rec1)

lemma month_from_bounds:
  assumes "days_before_month y m \<le> k" "k < days_before_month y 13" "1 \<le> m" "m + int n = 12"
  shows "days_before_month y (month_from n y m k) \<le> k \<and> k < days_before_month y (month_from n y m k + 1)
    \<and> 1 \<le> month_from n y m k \<and> month_from n y m k \<le> 12"
  using assms by (induction n arbitrary: m) auto

lemma civil_date_valid:
  assumes "- 719162 \<le> d" "civil_date d = (y, m, k)"
  shows "civil_days y m k = d \<and> 1 \<le> y \<and> 1 \<le> m \<and> m \<le> 12 \<and> 1 \<le> k \<and> k \<le> days_in_month y m"
proof -
  have y: "y = year_of_day d" using assms(2) by (auto simp: civil_date_def Let_def)
  note yb = year_of_day_bounds [OF assms(1), folded y]
  define j where "j = d - civil_days y 1 1"
  have j: "0 \<le> j" "j < days_before_month y 13"
    using yb civil_year_length [of y] by (auto simp: j_def days_of_year split: if_splits)
  have b1: "days_before_month y 1 = 0" by (simp add: days_before_month_def)
  have m: "m = month_from 11 y 1 j" and k: "k = j - days_before_month y m + 1"
    using assms(2) by (auto simp: civil_date_def Let_def j_def y)
  have mb: "days_before_month y m \<le> j \<and> j < days_before_month y (m + 1) \<and> 1 \<le> m \<and> m \<le> 12"
    unfolding m by (rule month_from_bounds) (use j b1 in auto)
  then have "j < days_before_month y m + days_in_month y m" using days_before_Suc [of m y] by simp
  moreover have "civil_days y m k = civil_days y 1 1 + j"
    using k b1 by (simp add: civil_days_def Let_def)
  ultimately show ?thesis using mb k yb by (simp add: j_def)
qed

section \<open>Texts\<close>

text \<open>A number in a field of fixed width, as \<open>Format\<close> writes it.\<close>

definition zero_pad :: "nat \<Rightarrow> nat \<Rightarrow> string" where
  "zero_pad k n = replicate (k - length (nat_digits n)) (CHR ''0'') @ nat_digits n"

definition year_text :: "int \<Rightarrow> string" where
  "year_text y = (if y < 0 then ''-'' else []) @ zero_pad 4 (nat \<bar>y\<bar>)"

definition ApiTimeFormat :: "instant \<Rightarrow> string" where
  "ApiTimeFormat t =
     (let (y, m, d) = civil_date (t div second div 86400); k = nat (t div second mod 86400) in
      year_text y @ ''-'' @ zero_pad 2 (nat m) @ ''-'' @ zero_pad 2 (nat d) @ ''T''
      @ zero_pad 2 (k div 3600) @ '':'' @ zero_pad 2 (k div 60 mod 60) @ '':'' @ zero_pad 2 (k mod 60) @ ''Z'')"

text \<open>The layout is the one of \<open>at\<close> expressions with a letter behind it; \<open>None\<close> is an error.\<close>

definition ParseApiTime :: "string \<Rightarrow> instant option" where
  "ParseApiTime s = (if s \<noteq> [] \<and> last s = CHR ''Z'' then parse_datetime (butlast s) else None)"

definition UtcNowStr :: "env \<Rightarrow> world \<Rightarrow> string \<times> world" where
  "UtcNowStr env w = (let (t, w1) = read_clock env w in (ApiTimeFormat t, w1))"

lemma ApiTimeFormat_examples:
  "ApiTimeFormat 0 = ''1970-01-01T00:00:00Z''" "ApiTimeFormat 1709251199999999999 = ''2024-02-29T23:59:59Z''"
  "ParseApiTime ''2024-02-29T23:59:59Z'' = Some 1709251199000000000" "ParseApiTime ''2023-02-29T23:59:59Z'' = None"
  by code_simp+

section \<open>Reading a written time\<close>

lemma nat_digits_length: "0 < k \<Longrightarrow> n < 10 ^ k \<Longrightarrow> length (nat_digits n) \<le> k"
proof (induction k arbitrary: n)
  case (Suc k)
  show ?case
  proof (cases "n < 10")
    case True
    then show ?thesis by (subst nat_digits.simps) simp
  next
    case False
    then have "0 < k" using Suc.prems by (cases k) auto
    moreover have "n div 10 < 10 ^ k" using Suc.prems by (simp add: less_mult_imp_div_less)
    ultimately have "length (nat_digits (n div 10)) \<le> k" by (rule Suc.IH)
    with False show ?thesis by (subst nat_digits.simps) simp
  qed
qed simp

lemma length_zero_pad: "0 < k \<Longrightarrow> n < 10 ^ k \<Longrightarrow> length (zero_pad k n) = k"
  using nat_digits_length [of k n] by (simp add: zero_pad_def)

lemma zero_pad_digits: "list_all is_digit (zero_pad k n)"
proof -
  have "is_digit (CHR ''0'')" by code_simp
  then show ?thesis using nat_digits_all_digits [of n] by (simp add: zero_pad_def list_all_append list_all_iff set_replicate_conv_if)
qed

lemma digits_value_zeros: "digits_value (replicate j (CHR ''0'') @ s) = digits_value s"
  by (induction j) (simp_all add: digits_value_def digit_val_def byte_def)

lemma digits_value_zero_pad: "digits_value (zero_pad k n) = n"
  by (simp add: zero_pad_def digits_value_zeros)

lemma num_fixed_zero_pad:
  assumes "0 < k" "n < 10 ^ k" shows "num_fixed k (zero_pad k n @ r) = Some (int n, r)"
  using length_zero_pad [OF assms] zero_pad_digits [of k n] by (simp add: digits_value_zero_pad)

lemma num_hour_zero_pad: "n < 100 \<Longrightarrow> num_hour (zero_pad 2 n @ r) = Some (int n, r)"
  unfolding num_hour_def using num_fixed_zero_pad [of 2 n r] by simp

lemma skip_char_same: "skip_char c (c # r) = Some r"
  by (simp add: skip_char_def)

lemma civil_days_mono_nat: "civil_days y 1 1 \<le> civil_days (y + int n) 1 1"
proof (induction n)
  case (Suc n)
  have "civil_days (y + int n) 1 1 \<le> civil_days (y + int n + 1) 1 1" using civil_year_mono [of "y + int n"] by simp
  with Suc show ?case by (simp add: ac_simps)
qed simp

lemma civil_date_year_bound:
  assumes "- 719162 \<le> d" "d < 2932897" "civil_date d = (y, m, k)"
  shows "y < 10000"
proof (rule ccontr)
  assume "\<not> y < 10000"
  then obtain n where n: "y = 10000 + int n" using zle_iff_zadd [of 10000 y] by auto
  have "y = year_of_day d" using assms(3) by (auto simp: civil_date_def Let_def)
  then have "civil_days y 1 1 \<le> d" using year_of_day_bounds [OF assms(1)] by simp
  moreover have "civil_days 10000 1 1 = 2932897" by code_simp
  ultimately show False using civil_days_mono_nat [of 10000 n] assms(2) by (simp add: n)
qed

lemma days_in_month_le: "days_in_month y m \<le> 31"
  by (simp add: days_in_month_def)

lemma parse_datetime_fields:
  assumes "y < 10000" "1 \<le> mo" "mo \<le> 12" "1 \<le> d" "int d \<le> days_in_month (int y) (int mo)" "h < 24" "mi < 60" "sec < 60"
  shows "parse_datetime (zero_pad 4 y @ ''-'' @ zero_pad 2 mo @ ''-'' @ zero_pad 2 d @ ''T'' @ zero_pad 2 h @ '':''
      @ zero_pad 2 mi @ '':'' @ zero_pad 2 sec)
    = Some ((civil_days (int y) (int mo) (int d) * 86400 + int h * 3600 + int mi * 60 + int sec) * second)"
proof -
  have "d < 100" using assms(5) days_in_month_le [of "int y" "int mo"] by linarith
  then show ?thesis
    using assms num_fixed_zero_pad [of 2 sec "[]"]
    by (simp add: parse_datetime_def num_fixed_zero_pad num_hour_zero_pad skip_char_same fraction_def del: num_fixed.simps)
qed

lemma api_time_fields:
  assumes "- 719162 * 86400 * second \<le> t" "t < 2932897 * 86400 * second"
  obtains y mo d h mi sec where
    "ApiTimeFormat t = (zero_pad 4 y @ ''-'' @ zero_pad 2 mo @ ''-'' @ zero_pad 2 d @ ''T'' @ zero_pad 2 h @ '':''
      @ zero_pad 2 mi @ '':'' @ zero_pad 2 sec) @ ''Z''"
    "y < 10000" "1 \<le> mo" "mo \<le> 12" "1 \<le> d" "int d \<le> days_in_month (int y) (int mo)" "h < 24" "mi < 60" "sec < 60"
    "(civil_days (int y) (int mo) (int d) * 86400 + int h * 3600 + int mi * 60 + int sec) * second = t - t mod second"
proof -
  define s where "s = t div second"
  define day where "day = s div 86400"
  define k where "k = nat (s mod 86400)"
  have s: "- 719162 * 86400 \<le> s" "s < 2932897 * 86400" "s * second = t - t mod second"
    using assms div_mult_mod_eq [of t second] pos_mod_sign [of second t] pos_mod_bound [of second t]
    unfolding s_def second_def by linarith+
  have day: "- 719162 \<le> day" "day < 2932897" and k: "k < 86400" "s = day * 86400 + int k"
    using s(1,2) div_mult_mod_eq [of s 86400] pos_mod_sign [of 86400 s] pos_mod_bound [of 86400 s]
    unfolding day_def k_def by linarith+
  obtain y m d where date: "civil_date day = (y, m, d)" by (cases "civil_date day") auto
  note v = civil_date_valid [OF day(1) date] and y = civil_date_year_bound [OF day date]
  have "int k = int (k div 3600) * 3600 + int (k div 60 mod 60) * 60 + int (k mod 60)"
  proof -
    have "k div 60 div 60 = k div 3600" by (simp add: div_mult2_eq [symmetric])
    then show ?thesis using div_mult_mod_eq [of k 60] div_mult_mod_eq [of "k div 60" 60] by linarith
  qed
  then have "(civil_days (int (nat y)) (int (nat m)) (int (nat d)) * 86400 + int (k div 3600) * 3600
      + int (k div 60 mod 60) * 60 + int (k mod 60)) * second = t - t mod second"
    using v k(2) s(3) by (simp add: add.assoc)
  moreover have "ApiTimeFormat t = (zero_pad 4 (nat y) @ ''-'' @ zero_pad 2 (nat m) @ ''-'' @ zero_pad 2 (nat d) @ ''T''
      @ zero_pad 2 (k div 3600) @ '':'' @ zero_pad 2 (k div 60 mod 60) @ '':'' @ zero_pad 2 (k mod 60)) @ ''Z''"
    using date v by (simp add: ApiTimeFormat_def year_text_def s_def [symmetric] day_def [symmetric] k_def [symmetric] Let_def)
  moreover have "k div 3600 < 24" using k(1) by (simp add: less_mult_imp_div_less)
  moreover have "nat y < 10000" "1 \<le> nat m" "nat m \<le> 12" "1 \<le> nat d" "int (nat d) \<le> days_in_month (int (nat y)) (int (nat m))"
    using v y by (auto simp: nat_less_iff nat_le_iff le_nat_iff Suc_le_eq)
  ultimately show thesis using that [of "nat y" "nat m" "nat d" "k div 3600" "k div 60 mod 60" "k mod 60"] by simp
qed

lemma parse_written_time:
  assumes "- 719162 * 86400 * second \<le> t" "t < 2932897 * 86400 * second"
  shows "ParseApiTime (ApiTimeFormat t) = Some (t - t mod second)"
proof -
  obtain y mo d h mi sec where f:
    "ApiTimeFormat t = (zero_pad 4 y @ ''-'' @ zero_pad 2 mo @ ''-'' @ zero_pad 2 d @ ''T'' @ zero_pad 2 h @ '':''
      @ zero_pad 2 mi @ '':'' @ zero_pad 2 sec) @ ''Z''"
    and b: "y < 10000" "1 \<le> mo" "mo \<le> 12" "1 \<le> d" "int d \<le> days_in_month (int y) (int mo)" "h < 24" "mi < 60" "sec < 60"
    and v: "(civil_days (int y) (int mo) (int d) * 86400 + int h * 3600 + int mi * 60 + int sec) * second = t - t mod second"
    by (rule api_time_fields [OF assms])
  show ?thesis using parse_datetime_fields [OF b] v unfolding ParseApiTime_def f by (simp add: butlast_append)
qed

text \<open>A time from year 1 to year 9999 that is written for the server and read back is the same time
  without its fraction of a second.\<close>

theorem ParseApiTime_ApiTimeFormat:
  "- 719162 * 86400 * second \<le> t \<Longrightarrow> t < 2932897 * 86400 * second \<Longrightarrow> ParseApiTime (ApiTimeFormat t) = Some (t - t mod second)"
  by (rule parse_written_time)

theorem ParseApiTime_ApiTimeFormat_witness:
  "ParseApiTime (ApiTimeFormat 1709251199999999999) = Some 1709251199000000000"
  using ParseApiTime_ApiTimeFormat [of 1709251199999999999] by (simp add: second_def)

lemma list_of_two: "length xs = 2 \<Longrightarrow> list_all P xs \<Longrightarrow> \<exists>a b. xs = [a, b] \<and> P a \<and> P b"
  by (cases xs; cases "tl xs") auto

lemma list_of_four:
  assumes "length xs = 4" "list_all P xs"
  shows "\<exists>a b c d. xs = [a, b, c, d] \<and> P a \<and> P b \<and> P c \<and> P d"
proof -
  have "xs = take 2 xs @ drop 2 xs" by simp
  moreover have "length (take 2 xs) = 2" "length (drop 2 xs) = 2" "list_all P (take 2 xs)" "list_all P (drop 2 xs)"
    using assms by (auto simp: list_all_iff dest: in_set_takeD in_set_dropD)
  ultimately show ?thesis using list_of_two [of "take 2 xs" P] list_of_two [of "drop 2 xs" P] by fastforce
qed

definition api_time_layout :: "string \<Rightarrow> bool" where
  "api_time_layout s \<longleftrightarrow> length s = 20 \<and> list_all2 (\<lambda>c l. if l = CHR ''9'' then is_digit c else c = l) s ''9999-99-99T99:99:99Z''"

text \<open>Every time from year 1 to year 9999 is written in the layout of the interface: twenty characters,
  of which the letters, dashes and colons stand at fixed places and all others are digits.\<close>

theorem ApiTimeFormat_layout:
  assumes "- 719162 * 86400 * second \<le> t" "t < 2932897 * 86400 * second"
  shows "api_time_layout (ApiTimeFormat t)"
proof -
  obtain y mo d h mi sec where f:
    "ApiTimeFormat t = (zero_pad 4 y @ ''-'' @ zero_pad 2 mo @ ''-'' @ zero_pad 2 d @ ''T'' @ zero_pad 2 h @ '':''
      @ zero_pad 2 mi @ '':'' @ zero_pad 2 sec) @ ''Z''"
    and b: "y < 10000" "1 \<le> mo" "mo \<le> 12" "1 \<le> d" "int d \<le> days_in_month (int y) (int mo)" "h < 24" "mi < 60" "sec < 60"
    by (rule api_time_fields [OF assms])
  have d: "d < 100" using b(5) days_in_month_le [of "int y" "int mo"] by linarith
  have mo: "mo < 100" and h: "h < 100" and mi: "mi < 100" and sec: "sec < 100" using b by linarith+
  note two = list_of_two [OF length_zero_pad [of 2] zero_pad_digits [of 2], simplified]
  obtain a1 a2 b1 b2 c1 c2 d1 d2 e1 e2 where p: "zero_pad 2 mo = [a1, a2]" "zero_pad 2 d = [b1, b2]" "zero_pad 2 h = [c1, c2]"
      "zero_pad 2 mi = [d1, d2]" "zero_pad 2 sec = [e1, e2]"
    and g: "is_digit a1" "is_digit a2" "is_digit b1" "is_digit b2" "is_digit c1" "is_digit c2" "is_digit d1" "is_digit d2"
      "is_digit e1" "is_digit e2"
    using two [OF mo] two [OF d] two [OF h] two [OF mi] two [OF sec] by blast
  obtain y1 y2 y3 y4 where "zero_pad 4 y = [y1, y2, y3, y4]" "is_digit y1" "is_digit y2" "is_digit y3" "is_digit y4"
    using list_of_four [OF length_zero_pad [of 4 y] zero_pad_digits [of 4 y]] b(1) by auto
  with p g show ?thesis unfolding f api_time_layout_def by simp
qed

theorem ApiTimeFormat_layout_witness: "api_time_layout (ApiTimeFormat 5)"
  by (rule ApiTimeFormat_layout) (simp_all add: second_def)

end
