(* ===== verification/Inventory_Data.thy ===== *)
theory Inventory_Data
  imports Text_Replace Api_Time Machine
begin

text \<open>
  What the inventory collects on Unix, \<open>agent/inventory/gatherers\<close>: the applications that
  \<open>dpkg-query\<close>, \<open>rpm\<close> and \<open>snap\<close> list (\<open>application\<close>), the files that match the filters of a policy
  (\<open>file\<close>), the network interfaces (\<open>network\<close>) and the processors (\<open>instancedetailedinformation\<close>).
\<close>

section \<open>The outside of the gatherers\<close>

record ApplicationData =
  ApplicationType :: string
  ad_Architecture :: string
  Epoch :: string
  InstalledTime :: string
  ad_Name :: string
  PackageId :: string
  Publisher :: string
  ad_Release :: string
  Summary :: string
  ad_URL :: string
  ad_Version :: string

record filterObj =
  filter_Path :: string
  Pattern :: "string list"
  Recursive :: bool
  filter_DirScanLimit :: "int option"

record FileData =
  InstalledDir :: string
  ModificationTime :: string
  fd_Name :: string
  fd_Size :: string

text \<open>What a walk visits: an entry that cannot be read, a directory, a file with its path and its name.\<close>

datatype walk_entry = Unreadable | VisitedDir | VisitedFile string string

text \<open>An interface: whether it is the loopback, its name and address, and its IP addresses with their kind.\<close>

record interface =
  if_loopback :: bool
  if_name :: string
  if_mac :: string
  if_addresses :: "(bool \<times> string) list option"

text \<open>
  The outside: commands, files and interfaces by the number of the interaction, the libraries for
  JSON, for patterns of file names, for the expansion of variables and for floating-point numbers,
  and the two random words of the markers.
\<close>

record gather_env =
  ge_env :: env
  ge_command :: "nat \<Rightarrow> string \<Rightarrow> string list \<Rightarrow> string \<times> go_error option"
  ge_applications :: "string \<Rightarrow> ApplicationData list \<times> go_error option"
  ge_words :: "string \<times> string"
  ge_filters :: "string \<Rightarrow> go_error + filterObj list"
  ge_expand :: "string \<Rightarrow> go_error + string"
  ge_exists :: "nat \<Rightarrow> string \<Rightarrow> go_error + bool"
  ge_walk :: "nat \<Rightarrow> string \<Rightarrow> walk_entry list"
  ge_read_dir :: "nat \<Rightarrow> string \<Rightarrow> go_error + (string \<times> bool) list"
  ge_match :: "string \<Rightarrow> string \<Rightarrow> go_error + bool"
  ge_stat :: "nat \<Rightarrow> string \<Rightarrow> go_error + FileData"
  ge_interfaces :: "nat \<Rightarrow> go_error + interface list"
  ge_trunc :: "string \<Rightarrow> int option"

section \<open>Texts of package managers\<close>

definition gd_backslash :: char where "gd_backslash = char_of (92 :: nat)"
definition gd_quote :: char where "gd_quote = char_of (34 :: nat)"
definition gd_tab :: char where "gd_tab = char_of (9 :: nat)"

definition startMarker :: "gather_env \<Rightarrow> string" where
  "startMarker ge = ''<start'' @ fst (ge_words ge) @ ''>''"

definition endMarker :: "gather_env \<Rightarrow> string" where
  "endMarker ge = ''<end'' @ snd (ge_words ge) @ ''>''"

definition mark :: "gather_env \<Rightarrow> string \<Rightarrow> string" where
  "mark ge s = startMarker ge @ s @ endMarker ge"

definition maxSummaryLength :: nat where "maxSummaryLength = 100"
definition ApplicationCountLimit :: nat where "ApplicationCountLimit = 1000"

definition cleanupJSONField :: "string \<Rightarrow> string" where
  "cleanupJSONField field =
     (let line = (case index_of [LF] field of None \<Rightarrow> field | Some i \<Rightarrow> take i field);
          r1 = replace_all line [gd_backslash] [gd_backslash, gd_backslash];
          r2 = replace_all r1 [gd_quote] [gd_backslash, gd_quote];
          r3 = replace_all r2 [gd_tab] [gd_backslash, CHR ''t''] in
      if maxSummaryLength < length r3 then take maxSummaryLength r3 else r3)"

text \<open>
  Every marked field is replaced by the result of a function. Two empty markers, the only ones for
  which the loop does not end, give \<open>None\<close>.
\<close>

definition missing_end_marker :: go_error where
  "missing_end_marker = PlainError ''Found startMarker without endMarker!''"

function replaceMarkedFields :: "string \<Rightarrow> string \<Rightarrow> string \<Rightarrow> (string \<Rightarrow> string) \<Rightarrow> (go_error + string) option" where
  "replaceMarkedFields str sm em f =
     (if sm @ em = [] then None
      else
        case index_of sm str of
          None \<Rightarrow> Some (Inr str)
        | Some i \<Rightarrow>
            (let fieldStart = drop (i + length sm) str in
             case index_of em fieldStart of
               None \<Rightarrow> Some (Inl missing_end_marker)
             | Some j \<Rightarrow>
                 map_option (map_sum id (\<lambda>rest. take i str @ f (take j fieldStart) @ rest))
                   (replaceMarkedFields (drop (j + length em) fieldStart) sm em f)))"
  by pat_completeness auto
termination
proof (relation "measure (\<lambda>(str, sm, em, f). length str)", simp)
  fix str sm em :: string and f :: "string \<Rightarrow> string" and i fieldStart j
  assume ne: "sm @ em \<noteq> []" and i: "index_of sm str = Some i" and fs: "fieldStart = drop (i + length sm) str"
    and j: "index_of em fieldStart = Some j"
  from index_of_bound [OF i] index_of_bound [OF j] ne
  show "((drop (j + length em) fieldStart, sm, em, f), str, sm, em, f) \<in> measure (\<lambda>(str, sm, em, f). length str)"
    by (cases sm; cases em) (auto simp: fs)
qed

declare replaceMarkedFields.simps [simp del]

definition convertEntriesToJsonArray :: "string \<Rightarrow> string" where
  "convertEntriesToJsonArray entries = ''['' @ trim_suffix (trim_space entries) '','' @ '']''"

definition FormatArchitecture :: "string \<Rightarrow> string" where
  "FormatArchitecture arch =
     (let a = to_lower (trim_space arch) in
      if a = ''amd64'' then ''x86_64'' else if a = ''386'' then ''i386'' else a)"

section \<open>Applications\<close>

text \<open>The time of an installation is a number of seconds; a text that is none stays.\<close>

definition installed_time :: "string \<Rightarrow> string" where
  "installed_time t =
     (if t = [] then t else case atoi t of (sec, None) \<Rightarrow> ApiTimeFormat (sec * second) | (_, Some e) \<Rightarrow> t)"

text \<open>The word behind the first dash of what stands before the first colon; there may be no dash.\<close>

definition epoch_of :: "ApplicationData \<Rightarrow> string outcome" where
  "epoch_of item =
     (if Epoch item = ''(none)'' then
        (if contains '':'' (PackageId item) then
           (let nameEpoch = split_on (CHR '':'') (PackageId item) ! 0; parts = split_on (CHR ''-'') nameEpoch in
            if length parts < 2 then Panics IndexOutOfRange else Returns (parts ! 1))
         else Returns [])
      else Returns (Epoch item))"

definition normalized :: "ApplicationData \<Rightarrow> ApplicationData outcome" where
  "normalized item =
     map_ret (\<lambda>epoch. item\<lparr>InstalledTime := installed_time (InstalledTime item),
         ad_Architecture := FormatArchitecture (ad_Architecture item), Epoch := epoch\<rparr>)
       (epoch_of item)"

fun normalized_all :: "ApplicationData list \<Rightarrow> ApplicationData list outcome" where
  "normalized_all [] = Returns []"
| "normalized_all (item # items) =
     bind_outcome (normalized item) (\<lambda>a. map_ret (\<lambda>as. a # as) (normalized_all items))"

text \<open>The data and the error; \<open>None\<close> is left out, since the markers are not empty.\<close>

definition convertToApplicationData :: "gather_env \<Rightarrow> string \<Rightarrow> (ApplicationData list \<times> go_error option) outcome" where
  "convertToApplicationData ge input =
     (case replaceMarkedFields (convertEntriesToJsonArray input) (startMarker ge) (endMarker ge) cleanupJSONField of
        Some (Inr str) \<Rightarrow>
          (case ge_applications ge str of
             (data, None) \<Rightarrow> map_ret (\<lambda>d. (d, None)) (normalized_all data)
           | (data, Some e) \<Rightarrow> Returns (data, Some e))
      | Some (Inl e) \<Rightarrow> Returns ([], Some e)
      | None \<Rightarrow> Returns ([], Some missing_end_marker))"

text \<open>The table of \<open>snap list\<close> in the form of the other two; the loop skips the header and the last line.\<close>

definition quoted_field :: "gather_env \<Rightarrow> string \<Rightarrow> string \<Rightarrow> string" where
  "quoted_field ge name v = [gd_quote] @ name @ [gd_quote] @ '':'' @ [gd_quote] @ mark ge v @ [gd_quote]"

definition snap_entry :: "gather_env \<Rightarrow> string list \<Rightarrow> string" where
  "snap_entry ge arr =
     ''{'' @ join '','' [quoted_field ge ''Name'' (arr ! 0), quoted_field ge ''Publisher'' (arr ! 4),
       quoted_field ge ''Version'' (arr ! 1), quoted_field ge ''ApplicationType'' ''admin'',
       quoted_field ge ''Architecture'' [], quoted_field ge ''Url'' [], quoted_field ge ''Summary'' [],
       quoted_field ge ''PackageId'' []] @ ''}''"

fun snap_entries :: "gather_env \<Rightarrow> string \<Rightarrow> string list \<Rightarrow> string" where
  "snap_entries ge acc [] = trim_suffix acc '',''"
| "snap_entries ge acc (line # lines) =
     (let arr = Fields line in if length arr < 6 then acc else snap_entries ge (acc @ snap_entry ge arr @ '','') lines)"

definition parseSnapOutput :: "gather_env \<Rightarrow> string \<Rightarrow> string" where
  "parseSnapOutput ge cmdOutput = snap_entries ge [] (butlast (tl (split_on LF cmdOutput)))"

definition getApplicationData ::
  "gather_env \<Rightarrow> string \<Rightarrow> string list \<Rightarrow> world \<Rightarrow> (ApplicationData list \<times> go_error option) outcome \<times> world" where
  "getApplicationData ge command args w =
     (let ((output, err), w1) = ask (\<lambda>n. ge_command ge n command args) w in
      case err of
        Some e \<Rightarrow> (Returns ([], Some (PlainError (''Command failed with error: '' @ output))), w1)
      | None \<Rightarrow>
          (map_ret (\<lambda>(data, e). (data, map_option (\<lambda>x. PlainError (''Unable to convert query output to ApplicationData - '' @ err_text x)) e))
             (convertToApplicationData ge (if command = ''snap'' then parseSnapOutput ge output else output)), w1))"

definition snapIsInstalled :: "ApplicationData list \<Rightarrow> bool" where
  "snapIsInstalled appData \<longleftrightarrow> list_ex (\<lambda>a. to_lower (ad_Name a) = ''snapd'') appData"

definition dpkg_args :: "gather_env \<Rightarrow> string list" where
  "dpkg_args ge = [''-W'', ''-f={'' @ join '','' (map (\<lambda>(name, v). quoted_field ge name v)
     [(''Name'', ''${Package}''), (''Publisher'', ''${Maintainer}''), (''Version'', ''${Version}''),
      (''ApplicationType'', ''${Section}''), (''Architecture'', ''${Architecture}''), (''Url'', ''${Homepage}''),
      (''Summary'', ''${Description}''), (''PackageId'', ''${Package}_${Version}_${Architecture}.deb'')]) @ ''},'']"

definition rpm_args :: "gather_env \<Rightarrow> string list" where
  "rpm_args ge = [''-qa'', ''--queryformat'', [gd_backslash] @ ''{'' @ join '','' (map (\<lambda>(name, v). quoted_field ge name v)
     [(''Name'', ''%{NAME}''), (''Publisher'', ''%{VENDOR}''), (''Version'', ''%{VERSION}''), (''Release'', ''%{RELEASE}''),
      (''Epoch'', ''%{EPOCH}''), (''InstalledTime'', ''%{INSTALLTIME}''), (''ApplicationType'', ''%{GROUP}''),
      (''Architecture'', ''%{ARCH}''), (''Url'', ''%{URL}''), (''Summary'', ''%{Summary}''), (''PackageId'', ''%{SourceRPM}'')])
     @ [gd_backslash] @ ''},'']"

text \<open>A list over the limit is dropped altogether. The error of the last command is not returned.\<close>

definition with_snaps ::
  "gather_env \<Rightarrow> ApplicationData list \<Rightarrow> world \<Rightarrow> ApplicationData list outcome \<times> world" where
  "with_snaps ge appData w =
     (if ApplicationCountLimit < length appData then (Returns [], w)
      else if snapIsInstalled appData then
        (let (r, w1) = getApplicationData ge ''snap'' [''list''] w in
         (map_ret (\<lambda>(snaps, e). if e \<noteq> None then appData
            else if ApplicationCountLimit < length (appData @ snaps) then [] else appData @ snaps) r, w1))
      else (Returns appData, w))"

definition collectPlatformDependentApplicationData :: "gather_env \<Rightarrow> world \<Rightarrow> ApplicationData list outcome \<times> world" where
  "collectPlatformDependentApplicationData ge w =
     (let (r, w1) = getApplicationData ge ''dpkg-query'' (dpkg_args ge) w in
      case r of
        Panics p \<Rightarrow> (Panics p, w1)
      | Returns (data, None) \<Rightarrow> with_snaps ge data w1
      | Returns (data, Some e) \<Rightarrow>
          (let (r2, w2) = getApplicationData ge ''rpm'' (rpm_args ge) w1 in
           case r2 of Panics p \<Rightarrow> (Panics p, w2) | Returns (data2, e2) \<Rightarrow> with_snaps ge data2 w2))"

section \<open>Files\<close>

definition FileCountLimit :: int where "FileCountLimit = 500"
definition DirScanLimit :: int where "DirScanLimit = 5000"

definition DirScanLimitError :: go_error where
  "DirScanLimitError = PlainError ''Directory Scan Limit Exceeded''"

definition FileCountLimitError :: go_error where
  "FileCountLimitError = PlainError ''File Count Limit Exceeded''"

fun removeDuplicatesString_from :: "string set \<Rightarrow> string list \<Rightarrow> string list" where
  "removeDuplicatesString_from encountered [] = []"
| "removeDuplicatesString_from encountered (e # es) =
     (if e \<in> encountered then removeDuplicatesString_from encountered es
      else e # removeDuplicatesString_from (insert e encountered) es)"

definition removeDuplicatesString :: "string list \<Rightarrow> string list" where
  "removeDuplicatesString elements = removeDuplicatesString_from {} elements"

text \<open>A pattern that is malformed is passed over.\<close>

definition fileMatchesAnyPattern :: "gather_env \<Rightarrow> string list \<Rightarrow> string \<Rightarrow> bool" where
  "fileMatchesAnyPattern ge patterns fname \<longleftrightarrow> list_ex (\<lambda>item. ge_match ge item fname = Inr True) patterns"

text \<open>The two loops of \<open>getFiles\<close>: over the entries of a walk, and over those of one directory.\<close>

fun walk_files :: "gather_env \<Rightarrow> string list \<Rightarrow> int \<Rightarrow> int \<Rightarrow> walk_entry list \<Rightarrow> int \<Rightarrow> string list \<Rightarrow> string list \<times> go_error option" where
  "walk_files ge pattern fileLimit dirLimit [] dirs found = (found, None)"
| "walk_files ge pattern fileLimit dirLimit (Unreadable # es) dirs found =
     walk_files ge pattern fileLimit dirLimit es dirs found"
| "walk_files ge pattern fileLimit dirLimit (VisitedDir # es) dirs found =
     (if dirLimit < dirs + 1 then (found, Some DirScanLimitError)
      else walk_files ge pattern fileLimit dirLimit es (dirs + 1) found)"
| "walk_files ge pattern fileLimit dirLimit (VisitedFile fp name # es) dirs found =
     (if fileMatchesAnyPattern ge pattern name then
        (if fileLimit < int (length (found @ [fp])) then (found @ [fp], Some FileCountLimitError)
         else walk_files ge pattern fileLimit dirLimit es dirs (found @ [fp]))
      else walk_files ge pattern fileLimit dirLimit es dirs found)"

fun list_files :: "gather_env \<Rightarrow> string \<Rightarrow> string list \<Rightarrow> int \<Rightarrow> (string \<times> bool) list \<Rightarrow> string list \<Rightarrow> string list \<times> go_error option" where
  "list_files ge path pattern fileLimit [] found = (found, None)"
| "list_files ge path pattern fileLimit ((name, dir) # es) found =
     (if dir then list_files ge path pattern fileLimit es found
      else if fileMatchesAnyPattern ge pattern name then
        (if fileLimit < int (length (found @ [path_join [path, name]])) then (found @ [path_join [path, name]], Some FileCountLimitError)
         else list_files ge path pattern fileLimit es (found @ [path_join [path, name]]))
      else list_files ge path pattern fileLimit es found)"

definition getFiles :: "gather_env \<Rightarrow> string \<Rightarrow> string list \<Rightarrow> bool \<Rightarrow> int \<Rightarrow> int \<Rightarrow> world \<Rightarrow> (string list \<times> go_error option) \<times> world" where
  "getFiles ge path pattern recursive fileLimit dirLimit w =
     (let (ex, w1) = ask (\<lambda>n. ge_exists ge n path) w in
      case ex of
        Inl e \<Rightarrow> (([], Some e), w1)
      | Inr False \<Rightarrow> (([], None), w1)
      | Inr True \<Rightarrow>
          if recursive then
            (let (entries, w2) = ask (\<lambda>n. ge_walk ge n path) w1 in (walk_files ge pattern fileLimit dirLimit entries 0 [], w2))
          else
            (let (r, w2) = ask (\<lambda>n. ge_read_dir ge n path) w1 in
             case r of Inl e \<Rightarrow> (([], Some e), w2) | Inr files \<Rightarrow> (list_files ge path pattern fileLimit files [], w2)))"

text \<open>The files of all filters; only an error of a limit ends the loop, with no files at all.\<close>

fun filtered_files :: "gather_env \<Rightarrow> filterObj list \<Rightarrow> string list \<Rightarrow> world \<Rightarrow> (go_error + string list) \<times> world" where
  "filtered_files ge [] fileList w = (Inr fileList, w)"
| "filtered_files ge (flt # flts) fileList w =
     (case ge_expand ge (filter_Path flt) of
        Inl e \<Rightarrow> filtered_files ge flts fileList w
      | Inr fullPath \<Rightarrow>
          (let dirLimit = (case filter_DirScanLimit flt of None \<Rightarrow> DirScanLimit | Some l \<Rightarrow> l);
               ((found, err), w1) = getFiles ge fullPath (Pattern flt) (Recursive flt) (FileCountLimit - int (length fileList)) dirLimit w in
           if err = Some FileCountLimitError \<or> err = Some DirScanLimitError then (Inl (the err), w1)
           else filtered_files ge flts (removeDuplicatesString (fileList @ found)) w1))"

text \<open>A file whose status cannot be read is left out.\<close>

fun getMetaData :: "gather_env \<Rightarrow> string list \<Rightarrow> world \<Rightarrow> FileData list \<times> world" where
  "getMetaData ge [] w = ([], w)"
| "getMetaData ge (p # ps) w =
     (let (r, w1) = ask (\<lambda>n. ge_stat ge n p) w; (ds, w2) = getMetaData ge ps w1 in
      (case r of Inl e \<Rightarrow> ds | Inr d \<Rightarrow> d\<lparr>InstalledDir := path_dir p\<rparr> # ds, w2))"

definition getAllMeta :: "gather_env \<Rightarrow> string \<Rightarrow> world \<Rightarrow> (FileData list \<times> go_error option) \<times> world" where
  "getAllMeta ge flts w =
     (case ge_filters ge (map (\<lambda>c. if c = gd_backslash then CHR ''/'' else c) flts) of
        Inl e \<Rightarrow> (([], Some e), w)
      | Inr filterList \<Rightarrow>
          (let (r, w1) = filtered_files ge filterList [] w in
           case r of
             Inl e \<Rightarrow> (([], Some e), w1)
           | Inr fileList \<Rightarrow> (let (data, w2) = getMetaData ge fileList w1 in ((data, None), w2))))"

section \<open>Network interfaces and processors\<close>

definition NetworkConfigCountLimit :: nat where "NetworkConfigCountLimit = 500"

text \<open>The last address of each kind is kept: the fields IPV4, IPV6, MacAddress and Name.\<close>

fun last_address :: "bool \<Rightarrow> (bool \<times> string) list \<Rightarrow> string \<Rightarrow> string" where
  "last_address v4 [] acc = acc"
| "last_address v4 ((k, ip) # as) acc = last_address v4 as (if k = v4 then ip else acc)"

definition setNetworkData :: "interface \<Rightarrow> (string \<times> string) list" where
  "setNetworkData i =
     (let as = (case if_addresses i of None \<Rightarrow> [] | Some as \<Rightarrow> as) in
      [(''IPV4'', last_address True as []), (''IPV6'', last_address False as []), (''MacAddress'', if_mac i), (''Name'', if_name i)])"

definition collectNetworkData :: "gather_env \<Rightarrow> world \<Rightarrow> (string \<times> string) list list \<times> world" where
  "collectNetworkData ge w =
     (let (r, w1) = ask (ge_interfaces ge) w in
      (case r of
         Inl e \<Rightarrow> []
       | Inr interfaces \<Rightarrow>
           if NetworkConfigCountLimit < length interfaces then []
           else map setNetworkData (filter (\<lambda>i. \<not> if_loopback i) interfaces), w1))"

text \<open>The value behind the first occurrence of a key and a colon, up to the end of the line.\<close>

definition getFieldValue :: "string \<Rightarrow> string \<Rightarrow> string" where
  "getFieldValue input key =
     (case index_of (key @ '':'') input of
        None \<Rightarrow> []
      | Some keyStartPos \<Rightarrow>
          (let afterKey = drop (keyStartPos + length key + 1) input @ [LF] in
           trim_space (takeWhile (\<lambda>c. c \<noteq> LF) afterKey)))"

definition gd_parseInt :: "string \<Rightarrow> int" where
  "gd_parseInt v = (case atoi v of (i, None) \<Rightarrow> i | (_, Some e) \<Rightarrow> 0)"

definition parseLscpuOutput :: "gather_env \<Rightarrow> string \<Rightarrow> (string \<times> string) list" where
  "parseLscpuOutput ge output =
     (let field = getFieldValue output;
          speed = field ''CPU MHz''; sockets = field ''Socket(s)''; cores = field ''Core(s) per socket'';
          threads = field ''Thread(s) per core'' in
      [(''CPUCores'', if sockets \<noteq> [] \<and> cores \<noteq> [] then itoa (wrap64 (gd_parseInt sockets * gd_parseInt cores)) else []),
       (''CPUHyperThreadEnabled'', if threads \<noteq> [] then (if 1 < gd_parseInt threads then ''true'' else ''false'') else []),
       (''CPUModel'', field ''Model name''), (''CPUSockets'', sockets),
       (''CPUSpeedMHz'', if speed \<noteq> [] then itoa (case ge_trunc ge speed of None \<Rightarrow> 0 | Some i \<Rightarrow> i) else []),
       (''CPUs'', field ''CPU(s)''), (''OSServicePack'', [])])"

definition collectPlatformDependentInstanceData :: "gather_env \<Rightarrow> world \<Rightarrow> (string \<times> string) list list \<times> world" where
  "collectPlatformDependentInstanceData ge w =
     (let ((output, err), w1) = ask (\<lambda>n. ge_command ge n ''lscpu'' []) w in
      (if err \<noteq> None then [] else [parseLscpuOutput ge output], w1))"

section \<open>Items\<close>

record Item =
  it_Name :: string
  it_Content :: "(string \<times> string) list list"
  it_SchemaVersion :: string
  it_CaptureTime :: string

record Config =
  Collection :: string
  Filters :: string
  Location :: string

definition omit_empty :: "(string \<times> string) list \<Rightarrow> (string \<times> string) list" where
  "omit_empty fs = filter (\<lambda>(k, v). v \<noteq> []) fs"

text \<open>The fields in the order of their structs; those with \<open>omitempty\<close> are left out when they are empty.\<close>

definition application_row :: "ApplicationData \<Rightarrow> (string \<times> string) list" where
  "application_row a =
     omit_empty [(''ApplicationType'', ApplicationType a)] @ [(''Architecture'', ad_Architecture a)]
     @ omit_empty [(''Epoch'', Epoch a), (''InstalledTime'', InstalledTime a)] @ [(''Name'', ad_Name a)]
     @ omit_empty [(''PackageId'', PackageId a)] @ [(''Publisher'', Publisher a)]
     @ omit_empty [(''Release'', ad_Release a), (''Summary'', Summary a), (''URL'', ad_URL a)] @ [(''Version'', ad_Version a)]"

definition file_row :: "FileData \<Rightarrow> (string \<times> string) list" where
  "file_row d =
     [(''CompanyName'', []), (''Description'', []), (''FileVersion'', []), (''InstalledDate'', []),
      (''InstalledDir'', InstalledDir d), (''LastAccessTime'', []), (''ModificationTime'', ModificationTime d),
      (''Name'', fd_Name d), (''ProductLanguage'', []), (''ProductName'', []), (''ProductVersion'', []), (''Size'', fd_Size d)]"

text \<open>The time is read before the data are collected; all gatherers have the version 1.0.\<close>

definition new_item :: "string \<Rightarrow> instant \<Rightarrow> (string \<times> string) list list \<Rightarrow> Item" where
  "new_item name t content = \<lparr>it_Name = name, it_Content = content, it_SchemaVersion = ''1.0'', it_CaptureTime = ApiTimeFormat t\<rparr>"

definition application_Run :: "gather_env \<Rightarrow> world \<Rightarrow> (Item list \<times> go_error option) outcome \<times> world" where
  "application_Run ge w =
     (let (t, w1) = read_clock (ge_env ge) w; (r, w2) = collectPlatformDependentApplicationData ge w1 in
      (map_ret (\<lambda>data. ([new_item ''ACS:Application'' t (map application_row data)], None)) r, w2))"

definition file_Run :: "gather_env \<Rightarrow> Config \<Rightarrow> world \<Rightarrow> (Item list \<times> go_error option) outcome \<times> world" where
  "file_Run ge config w =
     (let (t, w1) = read_clock (ge_env ge) w; ((data, err), w2) = getAllMeta ge (Filters config) w1 in
      (Returns ([new_item ''ACS:File'' t (map file_row data)], err), w2))"

definition network_Run :: "gather_env \<Rightarrow> world \<Rightarrow> (Item list \<times> go_error option) outcome \<times> world" where
  "network_Run ge w =
     (let (t, w1) = read_clock (ge_env ge) w; (data, w2) = collectNetworkData ge w1 in
      (Returns ([new_item ''ACS:Network'' t data], None), w2))"

definition instance_Run :: "gather_env \<Rightarrow> world \<Rightarrow> (Item list \<times> go_error option) outcome \<times> world" where
  "instance_Run ge w =
     (let (t, w1) = read_clock (ge_env ge) w; (data, w2) = collectPlatformDependentInstanceData ge w1 in
      (Returns ([new_item ''ACS:InstanceDetailedInformation'' t data], None), w2))"

section \<open>Lemmas\<close>

lemma marker_examples:
  "replaceMarkedFields ''a string with <a>text</a> marked'' ''<a>'' ''</a>'' (map (\<lambda>c. CHR ''X''))
    = Some (Inr ''a string with XXXX marked'')"
  "replaceMarkedFields ''<a>text'' ''<a>'' ''</a>'' id = Some (Inl missing_end_marker)"
  by code_simp+

lemma lscpu_example:
  "getFieldValue (''CPU(s):                2'' @ [LF] @ ''Socket(s):  1'' @ [LF] @ ''Model name: X'') ''Socket(s)'' = ''1''"
  "getFieldValue (''CPU(s):                2'' @ [LF] @ ''Socket(s):  1'' @ [LF] @ ''Model name: X'') ''Model name'' = ''X''"
  by code_simp+

lemma convert_entries_example:
  "convertEntriesToJsonArray ''  {1},{2},  '' = ''[{1},{2}]''" "FormatArchitecture '' AMD64'' = ''x86_64''"
  by code_simp+

section \<open>Fields of package managers\<close>

text \<open>The escape of one character.\<close>

definition json_friendly :: "char \<Rightarrow> string" where
  "json_friendly c =
     (if c = gd_backslash then [gd_backslash, gd_backslash] else if c = gd_quote then [gd_backslash, gd_quote]
      else if c = gd_tab then [gd_backslash, CHR ''t''] else [c])"

lemma special_chars [simp]:
  "gd_backslash \<noteq> gd_quote" "gd_backslash \<noteq> gd_tab" "gd_quote \<noteq> gd_tab" "gd_quote \<noteq> gd_backslash"
  "gd_tab \<noteq> gd_backslash" "gd_tab \<noteq> gd_quote" "CHR ''t'' \<noteq> gd_tab" "CHR ''t'' \<noteq> gd_quote" "gd_backslash \<noteq> LF" "gd_quote \<noteq> LF"
  by code_simp+

lemma concat_map_concat: "concat (map f (concat (map g s))) = concat (map (\<lambda>c. concat (map f (g c))) s)"
  by (induction s) simp_all

lemma first_line: "(case index_of [c] s of None \<Rightarrow> s | Some i \<Rightarrow> take i s) = takeWhile (\<lambda>d. d \<noteq> c) s"
proof (cases "c \<in> set s")
  case True
  then show ?thesis using takeWhile_eq_take [of "\<lambda>d. d \<noteq> c" s] by (simp add: index_of_single)
next
  case False
  then have eq: "takeWhile (\<lambda>d. d \<noteq> c) s = s" unfolding takeWhile_eq_all_conv by blast
  show ?thesis using False by (simp add: index_of_single eq)
qed

lemma escapes_one_pass:
  "replace_all (replace_all (replace_all line [gd_backslash] [gd_backslash, gd_backslash])
      [gd_quote] [gd_backslash, gd_quote]) [gd_tab] [gd_backslash, CHR ''t'']
    = concat (map json_friendly line)"
  unfolding replace_all_char concat_map_concat
  by (rule arg_cong [where f = concat], rule map_cong) (auto simp: json_friendly_def)

lemma cleanup_line: "cleanupJSONField field = take 100 (concat (map json_friendly (takeWhile (\<lambda>c. c \<noteq> LF) field)))"
  unfolding cleanupJSONField_def first_line escapes_one_pass maxSummaryLength_def Let_def by simp

text \<open>C40. The three replacements, one after the other, amount to one pass that escapes every character of
  the first line for itself, cut after 100 bytes.\<close>

theorem cleanupJSONField_once:
  "cleanupJSONField field = take 100 (concat (map json_friendly (takeWhile (\<lambda>c. c \<noteq> LF) field)))"
  by (rule cleanup_line)

text \<open>The cut may fall into an escape: a field of 99 plain characters and a quotation mark ends in a
  backslash without a partner, which then escapes the quotation mark that closes the field.\<close>

theorem cleanupJSONField_cuts_escape:
  assumes "length p = 99" "set p \<inter> {LF, gd_backslash, gd_quote, gd_tab} = {}"
  shows "cleanupJSONField (p @ gd_quote # r) = p @ [gd_backslash]"
proof -
  define tl where "tl = takeWhile (\<lambda>c. c \<noteq> LF) r"
  have line: "takeWhile (\<lambda>c. c \<noteq> LF) (p @ gd_quote # r) = p @ gd_quote # tl"
    using assms(2) by (subst takeWhile_append2) (auto simp: tl_def)
  have same: "concat (map json_friendly p) = p"
    using assms(2) by (induction p) (auto simp: json_friendly_def)
  have quote: "json_friendly gd_quote = [gd_backslash, gd_quote]" by (simp add: json_friendly_def)
  have "cleanupJSONField (p @ gd_quote # r) = take 100 (concat (map json_friendly (p @ gd_quote # tl)))"
    unfolding cleanup_line line ..
  also have "\<dots> = take 100 ((p @ [gd_backslash]) @ gd_quote # concat (map json_friendly tl))"
    by (simp add: same quote)
  also have "\<dots> = p @ [gd_backslash]" using assms(1) by (subst take_append) simp
  finally show ?thesis .
qed

theorem cleanupJSONField_cuts_escape_witness:
  "cleanupJSONField (replicate 99 (CHR ''a'') @ gd_quote # ''b'') = replicate 99 (CHR ''a'') @ [gd_backslash]"
proof (rule cleanupJSONField_cuts_escape)
  show "set (replicate 99 (CHR ''a'')) \<inter> {LF, gd_backslash, gd_quote, gd_tab} = {}" by code_simp
qed simp

section \<open>Limits\<close>

lemma set_removeDuplicatesString_from: "set (removeDuplicatesString_from seen xs) = set xs - seen"
  by (induction seen xs rule: removeDuplicatesString_from.induct) auto

lemma distinct_removeDuplicatesString_from: "distinct (removeDuplicatesString_from seen xs)"
  by (induction seen xs rule: removeDuplicatesString_from.induct) (auto simp: set_removeDuplicatesString_from)

lemma length_removeDuplicatesString_from: "length (removeDuplicatesString_from seen xs) \<le> length xs"
  by (induction seen xs rule: removeDuplicatesString_from.induct) auto

lemma removeDuplicatesString_spec [simp]:
  "distinct (removeDuplicatesString xs)" "set (removeDuplicatesString xs) = set xs"
  "length (removeDuplicatesString xs) \<le> length xs"
  by (simp_all add: removeDuplicatesString_def set_removeDuplicatesString_from distinct_removeDuplicatesString_from
      length_removeDuplicatesString_from)

lemma walk_files_limit:
  "walk_files ge pattern fileLimit dirLimit es dirs found = (files, e) \<Longrightarrow> int (length found) \<le> fileLimit \<Longrightarrow>
    e = Some FileCountLimitError \<or> int (length files) \<le> fileLimit"
  by (induction ge pattern fileLimit dirLimit es dirs found rule: walk_files.induct) (auto split: if_splits)

lemma list_files_limit:
  "list_files ge path pattern fileLimit es found = (files, e) \<Longrightarrow> int (length found) \<le> fileLimit \<Longrightarrow>
    e = Some FileCountLimitError \<or> int (length files) \<le> fileLimit"
  by (induction ge path pattern fileLimit es found rule: list_files.induct) (auto split: if_splits)

lemma getFiles_limit:
  assumes "getFiles ge path pattern recursive fileLimit dirLimit w = ((files, e), w1)" "0 \<le> fileLimit"
  shows "e = Some FileCountLimitError \<or> int (length files) \<le> fileLimit"
  using assms walk_files_limit [of ge pattern fileLimit dirLimit _ 0 "[]" files e]
    list_files_limit [of ge path pattern fileLimit _ "[]" files e]
  by (force simp: getFiles_def Let_def split_beta split: sum.splits bool.splits if_splits)

lemma filtered_files_limit:
  assumes "filtered_files ge flts fileList w = (Inr files, w1)" "int (length fileList) \<le> FileCountLimit" "distinct fileList"
  shows "int (length files) \<le> FileCountLimit \<and> distinct files"
  using assms
proof (induction flts arbitrary: fileList w)
  case (Cons flt flts)
  show ?case
  proof (cases "ge_expand ge (filter_Path flt)")
    case (Inl e)
    with Cons.prems Cons.IH show ?thesis by simp
  next
    case (Inr fullPath)
    define dirLimit where "dirLimit = (case filter_DirScanLimit flt of None \<Rightarrow> DirScanLimit | Some l \<Rightarrow> l)"
    obtain found err w2 where g: "getFiles ge fullPath (Pattern flt) (Recursive flt) (FileCountLimit - int (length fileList)) dirLimit w
        = ((found, err), w2)" by (metis prod.collapse)
    have ok: "\<not> (err = Some FileCountLimitError \<or> err = Some DirScanLimitError)"
      "filtered_files ge flts (removeDuplicatesString (fileList @ found)) w2 = (Inr files, w1)"
      using Cons.prems(1) Inr g by (auto simp: Let_def dirLimit_def [symmetric] split: if_splits)
    have "int (length found) \<le> FileCountLimit - int (length fileList)"
      using getFiles_limit [OF g] ok(1) Cons.prems(2) by auto
    then have "int (length (removeDuplicatesString (fileList @ found))) \<le> FileCountLimit"
      using removeDuplicatesString_spec(3) [of "fileList @ found"] by simp
    from Cons.IH [OF ok(2) this removeDuplicatesString_spec(1)] show ?thesis .
  qed
qed simp

lemma length_getMetaData: "length (fst (getMetaData ge ps w)) \<le> length ps"
proof (induction ps arbitrary: w)
  case (Cons p ps)
  have "length (fst (getMetaData ge ps w1)) \<le> Suc (length ps)" for w1 using Cons [of w1] by simp
  with Cons show ?case by (simp add: Let_def split_beta split: sum.split)
qed simp

text \<open>However many filters a policy has, at most 500 files are collected, and an error of a limit
  leaves none.\<close>

theorem getAllMeta_limit:
  "length (fst (fst (getAllMeta ge flts w))) \<le> 500 \<and> (snd (fst (getAllMeta ge flts w)) = None \<or> fst (fst (getAllMeta ge flts w)) = [])"
proof (cases "ge_filters ge (map (\<lambda>c. if c = gd_backslash then CHR ''/'' else c) flts)")
  case (Inl e)
  then show ?thesis by (simp add: getAllMeta_def)
next
  case (Inr filterList)
  obtain r w1 where f: "filtered_files ge filterList [] w = (r, w1)" by fastforce
  show ?thesis
  proof (cases r)
    case (Inl e)
    with Inr f show ?thesis by (simp add: getAllMeta_def)
  next
    case files: (Inr fileList)
    with filtered_files_limit [of ge filterList "[]" w fileList w1] f have "length fileList \<le> 500"
      by (simp add: FileCountLimit_def)
    with length_getMetaData [of ge fileList w1] Inr f files show ?thesis
      by (simp add: getAllMeta_def split_beta Let_def)
  qed
qed

text \<open>Whatever the package managers list, an inventory of applications has at most a thousand entries.\<close>

theorem collect_applications_limit:
  "case fst (collectPlatformDependentApplicationData ge w) of Returns data \<Rightarrow> length data \<le> 1000 | Panics p \<Rightarrow> True"
  by (auto simp: collectPlatformDependentApplicationData_def with_snaps_def ApplicationCountLimit_def Let_def split_beta
      split: outcome.splits prod.splits option.splits if_splits)

text \<open>A package of \<open>rpm\<close> without an epoch whose source package has a colon and no dash before it
  makes the conversion panic: the index is out of range.\<close>

theorem epoch_of_panics:
  assumes "Epoch a = ''(none)''" "PackageId a = pre @ '':'' @ post" "CHR '':'' \<notin> set pre" "CHR ''-'' \<notin> set pre"
  shows "normalized_all (a # as) = Panics IndexOutOfRange"
proof -
  have "split_on (CHR '':'') (PackageId a) ! 0 = pre" using assms(2,3) split_on_Cons [of "CHR '':''" pre post] by simp
  moreover have "contains '':'' (PackageId a)" using assms(2) by simp
  ultimately have "epoch_of a = Panics IndexOutOfRange"
    using assms(1,4) by (simp add: epoch_of_def split_on_single Let_def)
  then show ?thesis by (simp add: normalized_def)
qed

definition odd_package :: ApplicationData where
  "odd_package = \<lparr>ApplicationType = [], ad_Architecture = [], Epoch = ''(none)'', InstalledTime = [], ad_Name = ''x'',
     PackageId = ''x:1.rpm'', Publisher = [], ad_Release = [], Summary = [], ad_URL = [], ad_Version = []\<rparr>"

theorem epoch_of_panics_witness: "normalized_all [odd_package] = Panics IndexOutOfRange"
  by (rule epoch_of_panics [where pre = "''x''" and post = "''1.rpm''"]) (simp_all add: odd_package_def)

end
