(* ===== verification/Inventory.thy ===== *)
theory Inventory
  imports Inventory_Data Api_Call Agent_Paths Md5 "HOL-Library.AList"
begin

text \<open>
  The inventory, \<open>agent/inventory\<close>: the gatherers that a policy enables (\<open>inventory.go\<close>), the hash of
  each kind of data that the server has seen (\<open>uploader/optimizer.go\<close>), the conversion of items,
  which leaves out the content the server knows (\<open>uploader/uploader.go\<close>), and the upload
  (\<open>uploader/ooscaller.go\<close>).
\<close>

section \<open>The state\<close>

text \<open>The map \<open>contentHashStore\<close>, with one entry for each key.\<close>

record inventory =
  iv_world :: world
  iv_hashes :: "(string \<times> string) list"

text \<open>
  The outside: reading the stored hashes, the library of JSON, the compression of \<open>compress/flate\<close>
  and the identity of the instance.
\<close>

record upload_env = gather_env +
  ge_mc :: machine
  ge_instance :: string
  ge_read_file :: "nat \<Rightarrow> string \<Rightarrow> go_error + string"
  ge_hash_store :: "string \<Rightarrow> (string \<times> string) list"
  ge_valid :: "string \<Rightarrow> bool"
  ge_response :: "string \<Rightarrow> string ApiResponse \<times> go_error option"
  ge_deflate :: "string \<Rightarrow> string"

definition iv_on_world :: "(world \<Rightarrow> 'a \<times> world) \<Rightarrow> inventory \<Rightarrow> 'a \<times> inventory" where
  "iv_on_world f iv = (let (x, w) = f (iv_world iv) in (x, iv\<lparr>iv_world := w\<rparr>))"

section \<open>Hashes\<close>

definition hash_location :: "upload_env \<Rightarrow> string" where
  "hash_location ge = path_join [path_join [DefaultUnixInstallDir, ''data''], ge_instance ge, ''Inventory'', ''contentHash'']"

text \<open>\<open>osutil.Exists\<close> is false for every error of the status, and \<open>osutil.WriteFile\<close> makes the directory first.\<close>

definition osutil_Exists :: "machine \<Rightarrow> string \<Rightarrow> world \<Rightarrow> bool \<times> world" where
  "osutil_Exists mc p w = (let (k, w1) = ask (\<lambda>n. mc_stat mc n p) w in (k \<noteq> NotExist \<and> k \<noteq> StatError, w1))"

definition directory_part :: "string \<Rightarrow> string" where
  "directory_part p = rev (tl (dropWhile (\<lambda>c. c \<noteq> CHR ''/'') (rev p)))"

definition osutil_WriteFile :: "machine \<Rightarrow> string \<Rightarrow> string \<Rightarrow> world \<Rightarrow> go_error option \<times> world" where
  "osutil_WriteFile mc filename content w =
     (let (found, w1) = osutil_Exists mc (directory_part filename) w;
          (e, w2) = (if found then (None, w1) else MakeSurePath mc (directory_part filename) w1) in
      case e of Some x \<Rightarrow> (Some x, w2) | None \<Rightarrow> WriteStringToFile mc filename content w2)"

text \<open>A new optimizer forgets the hashes in memory and reads those of the file, if it can.\<close>

definition NewOptimizerImpl :: "upload_env \<Rightarrow> inventory \<Rightarrow> inventory" where
  "NewOptimizerImpl ge iv =
     (let location = hash_location ge;
          (found, iv1) = iv_on_world (osutil_Exists (ge_mc ge) location) (iv\<lparr>iv_hashes := []\<rparr>) in
      if found then
        (let (r, iv2) = iv_on_world (ask (\<lambda>n. ge_read_file ge n location)) iv1 in
         case r of Inl e \<Rightarrow> iv2 | Inr content \<Rightarrow> iv2\<lparr>iv_hashes := ge_hash_store ge content\<rparr>)
      else iv1)"

definition GetContentHash :: "inventory \<Rightarrow> string \<Rightarrow> string" where
  "GetContentHash iv name = (case map_of (iv_hashes iv) name of None \<Rightarrow> [] | Some h \<Rightarrow> h)"

definition UpdateContentHash :: "upload_env \<Rightarrow> string \<Rightarrow> string \<Rightarrow> inventory \<Rightarrow> go_error option \<times> inventory" where
  "UpdateContentHash ge name hash iv =
     (let hashes = AList.update name hash (iv_hashes iv);
          (e, iv1) = iv_on_world (osutil_WriteFile (ge_mc ge) (hash_location ge) (json_map hashes)) (iv\<lparr>iv_hashes := hashes\<rparr>) in
      (map_option (\<lambda>x. PlainError (''Unable to update content hash in file - '' @ hash_location ge @ '' because - '' @ err_text x)) e, iv1))"

section \<open>Conversion\<close>

record InventoryItem =
  ii_CaptureTime :: string
  ii_Content :: "(string \<times> string) list list option"
  ii_ContentHash :: string
  ii_SchemaVersion :: string
  ii_TypeName :: string

definition calculateCheckSum :: "string \<Rightarrow> string" where
  "calculateCheckSum s = base64_encode (md5_sum s)"

text \<open>The text whose checksum is taken: the content without its line end, \<open>[]\<close> for a content that is nil.\<close>

definition content_text :: "(string \<times> string) list list \<Rightarrow> string" where
  "content_text rows = json_list (map (\<lambda>row. plain_object (map (\<lambda>(k, v). (k, plain_string v)) row)) rows)"

definition content_hash :: "Item \<Rightarrow> string" where
  "content_hash item = calculateCheckSum (content_text (it_Content item))"

text \<open>A struct of texts becomes a map through its JSON text.\<close>

definition convertToMap :: "(string \<times> string) list \<Rightarrow> (string \<times> string) list" where
  "convertToMap row = map (\<lambda>(k, v). (k, coerced v)) row"

definition convertToOOSInventoryItem :: "Item \<Rightarrow> InventoryItem" where
  "convertToOOSInventoryItem item =
     \<lparr>ii_CaptureTime = it_CaptureTime item, ii_Content = Some (map convertToMap (it_Content item)), ii_ContentHash = [],
      ii_SchemaVersion = it_SchemaVersion item, ii_TypeName = it_Name item\<rparr>"

definition non_optimized :: "Item \<Rightarrow> InventoryItem" where
  "non_optimized item = (convertToOOSInventoryItem item)\<lparr>ii_ContentHash := content_hash item\<rparr>"

text \<open>
  An item without content keeps pointers to two fields of the loop variable, which all rounds of the
  loop share: when the items are sent, both read what the last round left there.
\<close>

definition hash_only :: "Item \<Rightarrow> Item \<Rightarrow> InventoryItem" where
  "hash_only loopItem item =
     \<lparr>ii_CaptureTime = it_CaptureTime loopItem, ii_Content = None, ii_ContentHash = content_hash item,
      ii_SchemaVersion = it_SchemaVersion loopItem, ii_TypeName = it_Name item\<rparr>"

definition optimized :: "inventory \<Rightarrow> Item \<Rightarrow> Item \<Rightarrow> InventoryItem" where
  "optimized iv loopItem item =
     (if content_hash item = GetContentHash iv (it_Name item) then hash_only loopItem item else non_optimized item)"

definition ConvertToOOSInventoryItems :: "inventory \<Rightarrow> Item list \<Rightarrow> InventoryItem list \<times> InventoryItem list" where
  "ConvertToOOSInventoryItems iv items = (map (optimized iv (last items)) items, map non_optimized items)"

definition GetDirtyOOSInventoryItems :: "inventory \<Rightarrow> Item list \<Rightarrow> InventoryItem list" where
  "GetDirtyOOSInventoryItems iv items =
     map non_optimized (filter (\<lambda>item. content_hash item \<noteq> GetContentHash iv (it_Name item)) items)"

section \<open>Upload\<close>

definition row_json :: "(string \<times> string) list \<Rightarrow> string" where
  "row_json row = plain_object (map (\<lambda>(k, v). (k, plain_string v)) (sort_key fst row))"

definition item_json :: "InventoryItem \<Rightarrow> string" where
  "item_json i = plain_object
     [(''CaptureTime'', plain_string (ii_CaptureTime i)),
      (''Content'', case ii_Content i of None \<Rightarrow> ''null'' | Some rows \<Rightarrow> json_list (map row_json rows)),
      (''ContentHash'', plain_string (ii_ContentHash i)), (''SchemaVersion'', plain_string (ii_SchemaVersion i)),
      (''TypeName'', plain_string (ii_TypeName i))]"

definition Compress :: "upload_env \<Rightarrow> string \<Rightarrow> string" where
  "Compress ge input = base64_encode (ge_deflate ge input)"

definition PutInventory :: "upload_env \<Rightarrow> string \<Rightarrow> world \<Rightarrow> go_error option \<times> world" where
  "PutInventory ge items w =
     (let (r, w1) = CallApi (ge_env ge) (ge_valid ge) (ge_response ge) ''POST'' (GetPutInventoryService (ge_env ge)) [(''items'', items)] w in
      (snd (checked_code r), w1))"

definition put_items :: "upload_env \<Rightarrow> InventoryItem list \<Rightarrow> world \<Rightarrow> go_error option \<times> world" where
  "put_items ge items w = PutInventory ge (Compress ge (json_list (map item_json items) @ [LF])) w"

fun updateContentHash :: "upload_env \<Rightarrow> InventoryItem list \<Rightarrow> inventory \<Rightarrow> inventory" where
  "updateContentHash ge [] iv = iv"
| "updateContentHash ge (item # items) iv =
     (let (e, iv1) = UpdateContentHash ge (ii_TypeName item) (ii_ContentHash item) iv in updateContentHash ge items iv1)"

definition SendDataToOOS :: "upload_env \<Rightarrow> InventoryItem list \<Rightarrow> inventory \<Rightarrow> go_error option \<times> inventory" where
  "SendDataToOOS ge items iv =
     (let (e, iv1) = iv_on_world (put_items ge items) iv in
      (e, if e = None then updateContentHash ge items iv1 else iv1))"

section \<open>Gathering\<close>

definition windowsOnlyTypes :: "string list" where
  "windowsOnlyTypes = [''ACS:Service'', ''ACS:WindowsRole'', ''ACS:WindowsRegistry'', ''ACS:WindowsUpdate'']"

definition supportByOs :: "string \<Rightarrow> bool" where
  "supportByOs gathererName \<longleftrightarrow> gathererName \<notin> set windowsOnlyTypes"

text \<open>A policy, in the order in which its map is iterated.\<close>

type_synonym policy = "(string \<times> Config) list"

definition collectGathererNames :: "policy \<Rightarrow> (string \<times> Config) list" where
  "collectGathererNames policy = filter (\<lambda>(name, config). Collection config = ''Enabled'' \<and> supportByOs name) policy"

text \<open>The installed gatherers; a name of none of them gives no items.\<close>

definition run_gatherer :: "upload_env \<Rightarrow> string \<Rightarrow> Config \<Rightarrow> world \<Rightarrow> (Item list \<times> go_error option) outcome \<times> world" where
  "run_gatherer ge name config w =
     (let g = gather_env.truncate ge in
      if name = ''ACS:Application'' then application_Run g w
      else if name = ''ACS:File'' then file_Run g config w
      else if name = ''ACS:Network'' then network_Run g w
      else if name = ''ACS:InstanceDetailedInformation'' then instance_Run g w
      else (Returns ([], None), w))"

text \<open>The items of a gatherer that fails are dropped.\<close>

fun gather :: "upload_env \<Rightarrow> (string \<times> Config) list \<Rightarrow> world \<Rightarrow> Item list outcome \<times> world" where
  "gather ge [] w = (Returns [], w)"
| "gather ge ((name, config) # gs) w =
     (let (r, w1) = run_gatherer ge name config w in
      case r of
        Panics p \<Rightarrow> (Panics p, w1)
      | Returns (items, e) \<Rightarrow>
          (let (rest, w2) = gather ge gs w1 in (map_ret (\<lambda>is. (if e = None then items else []) @ is) rest, w2)))"

definition shouldRetryWithNonOptimizedData :: "go_error \<Rightarrow> bool" where
  "shouldRetryWithNonOptimizedData e \<longleftrightarrow>
     contains ''Inventory.ItemContentMismatch'' (err_text e) \<or> contains ''Inventory.InvalidItemContent'' (err_text e)"

definition sending_error :: "go_error \<Rightarrow> go_error" where
  "sending_error e = PlainError (''Encountered error in sending data to OOS InventoryItems - '' @ err_text e)"

definition upload_items :: "upload_env \<Rightarrow> Item list \<Rightarrow> inventory \<Rightarrow> go_error option \<times> inventory" where
  "upload_items ge items iv =
     (let iv1 = NewOptimizerImpl ge iv;
          (optimizedItems, nonOptimizedItems) = ConvertToOOSInventoryItems iv1 items;
          (e, iv2) = SendDataToOOS ge optimizedItems iv1 in
      case e of
        None \<Rightarrow> (None, iv2)
      | Some x \<Rightarrow>
          if shouldRetryWithNonOptimizedData (sending_error x) then SendDataToOOS ge nonOptimizedItems iv2
          else (Some (sending_error x), iv2))"

definition RunGatherers :: "upload_env \<Rightarrow> policy \<Rightarrow> inventory \<Rightarrow> (Item list \<times> go_error option) outcome \<times> inventory" where
  "RunGatherers ge policy iv =
     (let (r, iv1) = iv_on_world (gather ge (collectGathererNames policy)) iv in
      case r of
        Panics p \<Rightarrow> (Panics p, iv1)
      | Returns items \<Rightarrow>
          if items = [] then (Returns ([], None), iv1)
          else (let (e, iv2) = upload_items ge items iv1 in (Returns (items, e), iv2)))"

section \<open>Lemmas\<close>

lemma iv_on_world_hashes [simp]: "iv_hashes (snd (iv_on_world f iv)) = iv_hashes iv"
  by (simp add: iv_on_world_def split_beta Let_def)

lemma UpdateContentHash_hashes: "iv_hashes (snd (UpdateContentHash ge name hash iv)) = AList.update name hash (iv_hashes iv)"
  by (simp add: UpdateContentHash_def split_beta Let_def)

lemma updateContentHash_lookup:
  "map_of (iv_hashes (updateContentHash ge items iv))
     = map_of (iv_hashes iv) ++ map_of (rev (map (\<lambda>i. (ii_TypeName i, ii_ContentHash i)) items))"
proof (induction items arbitrary: iv)
  case (Cons i items)
  have "map_of (iv_hashes (snd (UpdateContentHash ge (ii_TypeName i) (ii_ContentHash i) iv)))
      = (map_of (iv_hashes iv))(ii_TypeName i \<mapsto> ii_ContentHash i)"
    by (simp add: UpdateContentHash_hashes update_conv')
  moreover have "m ++ map_of (rev (map (\<lambda>i. (ii_TypeName i, ii_ContentHash i)) (i # items)))
      = m(ii_TypeName i \<mapsto> ii_ContentHash i) ++ map_of (rev (map (\<lambda>i. (ii_TypeName i, ii_ContentHash i)) items))" for m
    by (rule ext) (simp add: map_add_def split: option.split)
  ultimately show ?case unfolding updateContentHash.simps Let_def split_beta Cons.IH by (simp only:)
qed simp

lemma SendDataToOOS_hashes:
  "iv_hashes (snd (SendDataToOOS ge items iv)) =
     (if fst (SendDataToOOS ge items iv) = None
      then iv_hashes (updateContentHash ge items (snd (iv_on_world (put_items ge items) iv))) else iv_hashes iv)"
  by (simp add: SendDataToOOS_def split_beta Let_def)

lemma named_hashes:
  "map (\<lambda>i. (ii_TypeName i, ii_ContentHash i)) (map (optimized iv l) items) = map (\<lambda>i. (it_Name i, content_hash i)) items"
  "map (\<lambda>i. (ii_TypeName i, ii_ContentHash i)) (map non_optimized items) = map (\<lambda>i. (it_Name i, content_hash i)) items"
  by (simp_all add: optimized_def hash_only_def non_optimized_def convertToOOSInventoryItem_def)

lemma map_of_rev_named:
  assumes "distinct (map it_Name items)" "item \<in> set items"
  shows "map_of (rev (map (\<lambda>i. (it_Name i, content_hash i)) items)) (it_Name item) = Some (content_hash item)"
proof -
  have "distinct (map fst (rev (map (\<lambda>i. (it_Name i, content_hash i)) items)))"
    using assms(1) by (simp add: rev_map [symmetric] comp_def)
  then show ?thesis using assms(2) by (intro map_of_is_SomeI) auto
qed

text \<open>An item is sent without its content exactly when the stored hash of its kind is the hash of the
  content; the other items are sent as they are, and both lists name the same kinds with the same
  hashes.\<close>

theorem ConvertToOOSInventoryItems_spec:
  "i < length items \<Longrightarrow>
     (case ConvertToOOSInventoryItems iv items of (opt, full) \<Rightarrow>
        length opt = length items \<and> length full = length items
        \<and> ii_TypeName (opt ! i) = it_Name (items ! i) \<and> ii_ContentHash (opt ! i) = content_hash (items ! i)
        \<and> ii_Content (full ! i) = Some (map convertToMap (it_Content (items ! i)))
        \<and> (if GetContentHash iv (it_Name (items ! i)) = content_hash (items ! i) then ii_Content (opt ! i) = None else opt ! i = full ! i))"
  by (auto simp: ConvertToOOSInventoryItems_def optimized_def hash_only_def non_optimized_def convertToOOSInventoryItem_def)

text \<open>After an upload that the server accepts, in either form, the same data are no longer dirty: the
  next upload of them leaves out every content. An upload that fails leaves the hashes as they were.\<close>

theorem accepted_items_are_clean:
  assumes "distinct (map it_Name items)" "sent = fst (ConvertToOOSInventoryItems iv items) \<or> sent = snd (ConvertToOOSInventoryItems iv items)"
    "SendDataToOOS ge sent iv = (e, iv1)"
  shows "if e = None then GetDirtyOOSInventoryItems iv1 items = []
      \<and> (\<forall>i\<in>set (fst (ConvertToOOSInventoryItems iv1 items)). ii_Content i = None)
    else iv_hashes iv1 = iv_hashes iv"
proof (cases "e = None")
  case True
  have h: "iv_hashes iv1 = iv_hashes (updateContentHash ge sent (snd (iv_on_world (put_items ge sent) iv)))"
    using SendDataToOOS_hashes [of ge sent iv] assms(3) True by simp
  have named: "map (\<lambda>i. (ii_TypeName i, ii_ContentHash i)) sent = map (\<lambda>i. (it_Name i, content_hash i)) items"
    using assms(2) named_hashes by (auto simp: ConvertToOOSInventoryItems_def)
  have known: "GetContentHash iv1 (it_Name item) = content_hash item" if "item \<in> set items" for item
    using map_of_rev_named [OF assms(1) that]
    by (simp add: GetContentHash_def h updateContentHash_lookup named map_add_find_right)
  then have "GetDirtyOOSInventoryItems iv1 items = []"
    unfolding GetDirtyOOSInventoryItems_def by (simp add: filter_empty_conv)
  moreover have "\<forall>i\<in>set (fst (ConvertToOOSInventoryItems iv1 items)). ii_Content i = None"
    using known by (simp add: ConvertToOOSInventoryItems_def optimized_def hash_only_def)
  ultimately show ?thesis using True by simp
next
  case False
  with SendDataToOOS_hashes [of ge sent iv] assms(3) show ?thesis by auto
qed

text \<open>Every item that is sent without its content carries the capture time and the schema version of the
  last item of the list, not its own.\<close>

theorem hash_only_takes_last_time:
  assumes "i \<in> set (fst (ConvertToOOSInventoryItems iv items))" "ii_Content i = None"
  shows "ii_CaptureTime i = it_CaptureTime (last items) \<and> ii_SchemaVersion i = it_SchemaVersion (last items)"
  using assms
  by (auto simp: ConvertToOOSInventoryItems_def optimized_def hash_only_def non_optimized_def convertToOOSInventoryItem_def
      split: if_splits)

section \<open>Examples\<close>

definition accepting_server :: env where
  "accepting_server = failing_server\<lparr>transport := \<lambda>n m u b. Reply 200 []\<rparr>"

definition plain_machine :: machine where
  "plain_machine = \<lparr>mc_stat = (\<lambda>n p. NotExist), mc_lstat = (\<lambda>n p. NotExist), mc_mkdir = (\<lambda>n p. None), mc_write = (\<lambda>n p. None),
     mc_chmod = (\<lambda>n p. None), mc_chown = (\<lambda>n p. None), mc_remove = (\<lambda>n p. None), mc_executable = (\<lambda>n. Inr ''/usr/local/share/aliyun-assist/2.2/aliyun-service''),
     mc_look_path = (\<lambda>n p. None), mc_user = (\<lambda>n u. Inr (''0'', ''/root'')), mc_group = (\<lambda>n g. Inr ''0''), mc_home_env = (\<lambda>n. Inr ''/root''),
     mc_current_home = (\<lambda>n. Inr ''/root''), mc_environ = (\<lambda>n. []), mc_output = (\<lambda>n c. Inr []), mc_start = (\<lambda>n c as. None),
     mc_timer_first = (\<lambda>n. False), mc_finish = (\<lambda>n. (Some 0, None)), mc_events = (\<lambda>n. []), mc_script_path = ''/tmp''\<rparr>"

definition sample_upload :: upload_env where
  "sample_upload = \<lparr>ge_env = accepting_server, ge_command = (\<lambda>n c as. ([], None)), ge_applications = (\<lambda>s. ([], None)), ge_words = (''01234567'', ''89abcdef''),
     ge_filters = (\<lambda>s. Inr []), ge_expand = Inr, ge_exists = (\<lambda>n p. Inr True), ge_walk = (\<lambda>n p. []), ge_read_dir = (\<lambda>n p. Inr []),
     ge_match = (\<lambda>p s. Inr (p = s)), ge_stat = (\<lambda>n p. Inl (PlainError ''no such file'')), ge_interfaces = (\<lambda>n. Inr []), ge_trunc = (\<lambda>s. None),
     ge_mc = plain_machine, ge_instance = ''i-1'', ge_read_file = (\<lambda>n p. Inr []), ge_hash_store = (\<lambda>s. []), ge_valid = (\<lambda>s. True),
     ge_response = (\<lambda>s. (empty_response, None)), ge_deflate = id\<rparr>"

definition empty_inventory :: inventory where
  "empty_inventory = \<lparr>iv_world = \<lparr>ticks = 0, trace = []\<rparr>, iv_hashes = []\<rparr>"

definition sample_item :: "nat \<Rightarrow> Item" where
  "sample_item n = new_item (''ACS:'' @ itoa (int n)) (int n * second) []"

lemma accepted_upload: "fst (SendDataToOOS sample_upload items iv) = None"
proof -
  have "\<not> ''400'' \<le> ErrCode (empty_response :: string ApiResponse)" by code_simp
  then show ?thesis
    by (simp add: SendDataToOOS_def iv_on_world_def put_items_def PutInventory_def CallApi_post HttpPost_def send_request_def
        sample_upload_def accepting_server_def failing_server_def http_result_def checked_code_def split_beta Let_def)
qed

theorem ConvertToOOSInventoryItems_spec_witness:
  "ii_TypeName (fst (ConvertToOOSInventoryItems empty_inventory [sample_item 0]) ! 0) = ''ACS:0''"
proof -
  have "it_Name (sample_item 0) = ''ACS:0''" by code_simp
  then show ?thesis using ConvertToOOSInventoryItems_spec [of 0 "[sample_item 0]" empty_inventory] by (simp add: split_beta)
qed

theorem accepted_items_are_clean_witness:
  "GetDirtyOOSInventoryItems
     (snd (SendDataToOOS sample_upload (fst (ConvertToOOSInventoryItems empty_inventory [sample_item 0])) empty_inventory)) [sample_item 0] = []"
  using accepted_items_are_clean [of "[sample_item 0]", OF _ disjI1 [OF refl] prod.collapse [symmetric], of sample_upload empty_inventory]
  by (simp add: accepted_upload)

theorem hash_only_takes_last_time_witness:
  "ii_CaptureTime (optimized (empty_inventory\<lparr>iv_hashes := [(it_Name (sample_item 0), content_hash (sample_item 0))]\<rparr>) (sample_item 7) (sample_item 0))
     = ''1970-01-01T00:00:07Z'' \<and> it_CaptureTime (sample_item 0) = ''1970-01-01T00:00:00Z''"
proof -
  let ?iv = "empty_inventory\<lparr>iv_hashes := [(it_Name (sample_item 0), content_hash (sample_item 0))]\<rparr>"
  have t: "it_CaptureTime (sample_item 7) = ''1970-01-01T00:00:07Z''" "it_CaptureTime (sample_item 0) = ''1970-01-01T00:00:00Z''"
    by code_simp+
  have "optimized ?iv (sample_item 7) (sample_item 0) \<in> set (fst (ConvertToOOSInventoryItems ?iv [sample_item 0, sample_item 7]))"
    by (simp add: ConvertToOOSInventoryItems_def)
  moreover have "ii_Content (optimized ?iv (sample_item 7) (sample_item 0)) = None"
    by (simp add: optimized_def GetContentHash_def hash_only_def)
  ultimately show ?thesis using hash_only_takes_last_time t by fastforce
qed

end
