(* ===== verification/State_Template.thy ===== *)
theory State_Template
  imports Inventory
begin

text \<open>
  Templates of the state manager, \<open>agent/statemanager/statetemplate.go\<close>: the parameters of a template
  with their defaults, the placeholders in its texts, and the resources it describes
  (\<open>agent/statemanager/resources\<close>, \<open>NewResourceState\<close> of \<open>statemanager.go\<close>).
\<close>

section \<open>Values\<close>

text \<open>A value of the JSON library; a number is kept as the text that \<open>%v\<close> gives for it, and the entries
  of an object come in the order of their keys.\<close>

datatype go_value =
    Null
  | Bool bool
  | Number string
  | Text string
  | Items "go_value list"
  | Object "(string \<times> go_value) list"

text \<open>The verb \<open>%v\<close>.\<close>

fun show_value :: "go_value \<Rightarrow> string" and show_values :: "go_value list \<Rightarrow> string list"
  and show_fields :: "(string \<times> go_value) list \<Rightarrow> string list" where
  "show_value Null = ''<nil>''"
| "show_value (Bool b) = (if b then ''true'' else ''false'')"
| "show_value (Number t) = t"
| "show_value (Text s) = s"
| "show_value (Items vs) = ''['' @ join '' '' (show_values vs) @ '']''"
| "show_value (Object fs) = ''map['' @ join '' '' (show_fields fs) @ '']''"
| "show_values [] = []"
| "show_values (v # vs) = show_value v # show_values vs"
| "show_fields [] = []"
| "show_fields ((k, v) # fs) = (k @ '':'' @ show_value v) # show_fields fs"

section \<open>Templates\<close>

record ParamProp =
  pp_Type :: string
  Default :: go_value

record StateDef =
  ResourceType :: string
  Properties :: "(string \<times> go_value) list"

record StateTemplate =
  FormatVersion :: string
  tp_Parameters :: "(string \<times> ParamProp) list"
  States :: "StateDef list"

text \<open>
  The pattern \<open>{{.+?}}\<close>: two braces, at least one character and as few as possible, none of them a
  line feed, and two braces. \<open>close_at\<close> counts the characters before the closing braces.
\<close>

fun close_at :: "string \<Rightarrow> nat option" where
  "close_at [] = None"
| "close_at (c # s) =
     (if has_prefix ''}}'' (c # s) then Some 0 else if c = LF then None else map_option Suc (close_at s))"

definition placeholder_at :: "string \<Rightarrow> nat option" where
  "placeholder_at s =
     (case strip_prefix ''{{'' s of
        Some (c # r) \<Rightarrow> if c = LF then None else map_option (\<lambda>n. n + 5) (close_at r)
      | _ \<Rightarrow> None)"

lemma placeholder_at_bound: "placeholder_at s = Some n \<Longrightarrow> 5 \<le> n"
  by (auto simp: placeholder_at_def split: option.splits list.splits if_splits)

function find_placeholders :: "string \<Rightarrow> string list" where
  "find_placeholders s =
     (case s of
        [] \<Rightarrow> []
      | c # r \<Rightarrow> (case placeholder_at s of Some n \<Rightarrow> take n s # find_placeholders (drop n s) | None \<Rightarrow> find_placeholders r))"
  by pat_completeness auto
termination
proof (relation "measure length", simp)
  fix s :: string and c r n
  assume "s = c # r" "placeholder_at s = Some n"
  then show "(drop n s, s) \<in> measure length" using placeholder_at_bound [of s n] by simp
qed simp

declare find_placeholders.simps [simp del]

definition isRef :: "string \<Rightarrow> string \<Rightarrow> bool" where
  "isRef orig placeholder \<longleftrightarrow> trim_space orig = placeholder"

definition placeholder_name :: "string \<Rightarrow> string" where
  "placeholder_name ph = trim_space (take (length ph - 4) (drop 2 ph))"

text \<open>A text that is one placeholder becomes the value itself, any other text has the known ones replaced.\<close>

fun substitute :: "(string \<Rightarrow> go_value option) \<Rightarrow> string list \<Rightarrow> string \<Rightarrow> string" where
  "substitute paramMap [] ret = ret"
| "substitute paramMap (ph # phs) ret =
     substitute paramMap phs
       (case paramMap (placeholder_name ph) of None \<Rightarrow> ret | Some v \<Rightarrow> replace_all ret ph (show_value v))"

definition Resolve :: "string \<Rightarrow> (string \<Rightarrow> go_value option) \<Rightarrow> go_value" where
  "Resolve orig paramMap =
     (case find_placeholders orig of
        [] \<Rightarrow> Text orig
      | phs \<Rightarrow>
          if length phs = 1 \<and> isRef orig (phs ! 0) then
            (case paramMap (placeholder_name (phs ! 0)) of None \<Rightarrow> Text orig | Some v \<Rightarrow> v)
          else Text (substitute paramMap phs orig))"

text \<open>A value of the user, else the default, else nil; without parameters the map is nil.\<close>

definition ResolveParameterValue :: "(string \<times> ParamProp) list \<Rightarrow> (string \<Rightarrow> go_value option) \<Rightarrow> string \<Rightarrow> go_value option" where
  "ResolveParameterValue params userParams =
     (\<lambda>name. case map_of params name of
        None \<Rightarrow> None
      | Some prop \<Rightarrow> (case userParams name of Some v \<Rightarrow> Some v | None \<Rightarrow> Some (Default prop)))"

section \<open>Resources\<close>

text \<open>The interface \<open>ResourceState\<close>; \<open>None\<close> stands for a nil interface. The errors of \<open>Load\<close> are ignored.\<close>

datatype resource = InventoryState policy | FileState "(string \<times> go_value) list"

record template_env = upload_env +
  ge_template :: "string \<Rightarrow> go_error + StateTemplate"
  ge_parameters :: "string \<Rightarrow> go_error + (string \<times> go_value) list"
  ge_policy :: "(string \<times> go_value) list \<Rightarrow> policy"

definition unsupported_resource :: "string \<Rightarrow> go_error" where
  "unsupported_resource t = PlainError (''unsupported resource type '' @ t @ '' in template'')"

definition NewResourceState :: "template_env \<Rightarrow> StateDef \<Rightarrow> resource option \<times> go_error option" where
  "NewResourceState ge state =
     (if ResourceType state = ''ACS:Inventory'' then (Some (InventoryState (ge_policy ge (Properties state))), None)
      else if ResourceType state = ''ACS:File'' then (Some (FileState (Properties state)), None)
      else (None, Some (unsupported_resource (ResourceType state))))"

definition ParseStateTemplate :: "template_env \<Rightarrow> string \<Rightarrow> go_error + StateTemplate" where
  "ParseStateTemplate ge data = map_sum (\<lambda>e. WrappedError ''parse template fail: '' e []) id (ge_template ge data)"

definition resolved_state :: "(string \<Rightarrow> go_value option) \<Rightarrow> StateDef \<Rightarrow> StateDef" where
  "resolved_state paramMap state =
     state\<lparr>Properties := map (\<lambda>(k, v). (k, case v of Text orig \<Rightarrow> Resolve orig paramMap | _ \<Rightarrow> v)) (Properties state)\<rparr>"

text \<open>The error of a resource is read into \<open>err2\<close>, but the test looks at \<open>err\<close>, which is nil there.\<close>

definition ParseResourceState :: "template_env \<Rightarrow> string \<Rightarrow> string \<Rightarrow> go_error + resource option list" where
  "ParseResourceState ge data userParameters =
     (case ParseStateTemplate ge data of
        Inl e \<Rightarrow> Inl e
      | Inr template \<Rightarrow>
          (case (if trim_space userParameters \<noteq> [] then ge_parameters ge userParameters else Inr []) of
             Inl e \<Rightarrow> Inl e
           | Inr parameterValueMap \<Rightarrow>
               (let paramMap = ResolveParameterValue (tp_Parameters template) (map_of parameterValueMap) in
                Inr (map (\<lambda>state. fst (NewResourceState ge (resolved_state paramMap state))) (States template)))))"

section \<open>Applying a resource\<close>

definition Compliant :: string where "Compliant = ''Compliant''"
definition NotCompliant :: string where "NotCompliant = ''NotCompliant''"
definition Failed :: string where "Failed = ''Failed''"

text \<open>Status, further information and error. A file is compliant whatever its state is.\<close>

definition InventoryState_Monitor :: "template_env \<Rightarrow> policy \<Rightarrow> inventory \<Rightarrow> (string \<times> string \<times> go_error option) outcome \<times> inventory" where
  "InventoryState_Monitor ge policy iv =
     (let (r, iv1) = RunGatherers (upload_env.truncate ge) policy iv in
      (map_ret (\<lambda>(items, e). if e = None then (Compliant, [], None) else (Failed, [], e)) r, iv1))"

fun resource_Monitor :: "template_env \<Rightarrow> resource \<Rightarrow> inventory \<Rightarrow> (string \<times> string \<times> go_error option) outcome \<times> inventory" where
  "resource_Monitor ge (InventoryState policy) iv = InventoryState_Monitor ge policy iv"
| "resource_Monitor ge (FileState properties) iv = (Returns (Compliant, [], None), iv)"

fun resource_Apply :: "template_env \<Rightarrow> resource \<Rightarrow> inventory \<Rightarrow> (string \<times> string \<times> go_error option) outcome \<times> inventory" where
  "resource_Apply ge (InventoryState policy) iv = InventoryState_Monitor ge policy iv"
| "resource_Apply ge (FileState properties) iv = (Returns (Compliant, [], None), iv)"

section \<open>Lemmas\<close>

lemma placeholder_examples:
  "find_placeholders ''ecs.{{ regionId }}.aliyuncs.{{ a }}'' = [''{{ regionId }}'', ''{{ a }}'']"
  "find_placeholders ''{{}} {{}}}'' = [''{{}} {{}}'']" "find_placeholders ''{{{a}}'' = [''{{{a}}'']" "find_placeholders ''{{a}'' = []"
  by code_simp+

lemma Resolve_examples:
  "Resolve ''ecs.{{ regionId }}.com'' [''regionId'' \<mapsto> Text ''cn''] = Text ''ecs.cn.com''"
  "Resolve '' {{id}} '' [''id'' \<mapsto> Number ''1''] = Number ''1''" "Resolve ''{{id}}x'' [''id'' \<mapsto> Number ''1''] = Text ''1x''"
  "Resolve ''{{no}}'' [''id'' \<mapsto> Number ''1''] = Text ''{{no}}''"
  by code_simp+

lemma close_at_clean: "CHR ''}'' \<notin> set a \<Longrightarrow> LF \<notin> set a \<Longrightarrow> close_at (a @ ''}}'' @ b) = Some (length a)"
proof (induction a)
  case Nil
  show ?case by (simp add: has_prefix_iff)
next
  case (Cons c a)
  then have "\<not> has_prefix ''}}'' (c # a @ ''}}'' @ b)" by (auto simp: has_prefix_iff)
  with Cons show ?case by auto
qed

lemma placeholder_at_reference:
  assumes "CHR ''}'' \<notin> set a" "LF \<notin> set a" "a \<noteq> []"
  shows "placeholder_at (''{{'' @ a @ ''}}'' @ b) = Some (length a + 4)"
proof -
  obtain c r where a: "a = c # r" using assms(3) by (cases a) auto
  with assms(1,2) close_at_clean [of r b] show ?thesis by (auto simp: placeholder_at_def)
qed

lemma placeholder_at_plain: "c \<noteq> CHR ''{'' \<Longrightarrow> placeholder_at (c # s) = None"
  by (simp add: placeholder_at_def)

lemma find_placeholders_plain: "CHR ''{'' \<notin> set a \<Longrightarrow> find_placeholders (a @ b) = find_placeholders b"
proof (induction a)
  case (Cons c a)
  then have "placeholder_at (c # a @ b) = None" by (intro placeholder_at_plain) auto
  with Cons show ?case by (subst find_placeholders.simps) simp
qed simp

lemma find_placeholders_Nil [simp]: "find_placeholders [] = []"
  by (subst find_placeholders.simps) simp

lemma find_placeholders_none: "CHR ''{'' \<notin> set a \<Longrightarrow> find_placeholders a = []"
  using find_placeholders_plain [of a "[]"] by simp

lemma find_placeholders_reference:
  assumes "CHR ''}'' \<notin> set a" "LF \<notin> set a" "a \<noteq> []"
  shows "find_placeholders (''{{'' @ a @ ''}}'' @ b) = (''{{'' @ a @ ''}}'') # find_placeholders b"
proof -
  define u where "u = ''{{'' @ a @ ''}}''"
  have u: "length u = length a + 4" "u \<noteq> []" by (simp_all add: u_def)
  have "placeholder_at (u @ b) = Some (length u)" using placeholder_at_reference [OF assms, of b] by (simp add: u_def)
  moreover obtain c r where "u @ b = c # r" using u(2) by (cases u) auto
  ultimately have "find_placeholders (u @ b) = take (length u) (u @ b) # find_placeholders (drop (length u) (u @ b))"
    by (subst find_placeholders.simps) simp
  then show ?thesis by (simp add: u_def)
qed

lemma trim_space_surrounded:
  assumes "list_all is_space l" "list_all is_space r" "s \<noteq> []" "\<not> is_space (hd s)" "\<not> is_space (last s)"
  shows "trim_space (l @ s @ r) = s"
proof -
  have 1: "dropWhile is_space (l @ s @ r) = s @ r"
    using assms(1,3,4) by (subst dropWhile_append2) (auto simp: list_all_iff neq_Nil_conv)
  have "dropWhile is_space (rev r @ rev s) = dropWhile is_space (rev s)"
    using assms(2) by (intro dropWhile_append2) (auto simp: list_all_iff)
  also have "dropWhile is_space (rev s) = rev s" using assms(3,5) by (cases s rule: rev_cases) auto
  finally have "dropWhile is_space (rev (s @ r)) = rev s" by simp
  then show ?thesis unfolding trim_space_def trim_with_def 1 by simp
qed

lemma blank_no_line: "LF \<noteq> CHR '' ''"
  by code_simp

text \<open>A text that is nothing but a reference to a parameter, whatever the blanks around it, takes the value
  of the parameter itself, so a number stays a number and an object an object.\<close>

theorem Resolve_reference:
  assumes "list_all is_space l" "list_all is_space r" "list_all is_space l'" "list_all is_space r'"
    "LF \<notin> set (l' @ r')" "name \<noteq> []" "list_all (\<lambda>c. \<not> is_space c \<and> c \<noteq> CHR ''}'') name" "paramMap name = Some v"
  shows "Resolve (l @ ''{{'' @ l' @ name @ r' @ ''}}'' @ r) paramMap = v"
proof -
  define a where "a = l' @ name @ r'"
  define orig where "orig = l @ ''{{'' @ a @ ''}}'' @ r"
  have brace: "\<not> is_space (CHR ''{'')" "\<not> is_space (CHR ''}'')" by code_simp+
  have "is_space LF" by code_simp
  then have lf: "LF \<notin> set name" using assms(7) by (auto simp: list_all_iff)
  have a: "CHR ''}'' \<notin> set a" "LF \<notin> set a" "a \<noteq> []"
    using assms(3,4,5,6,7) lf brace unfolding a_def list_all_iff by auto
  have blank: "CHR ''{'' \<notin> set l" "CHR ''{'' \<notin> set r" using assms(1,2) brace unfolding list_all_iff by auto
  have found: "find_placeholders orig = [''{{'' @ a @ ''}}'']"
    unfolding orig_def using find_placeholders_plain [OF blank(1)] find_placeholders_reference [OF a] find_placeholders_none [OF blank(2)]
    by simp
  have "trim_space orig = ''{{'' @ a @ ''}}''"
    unfolding orig_def using trim_space_surrounded [OF assms(1,2), of "''{{'' @ a @ ''}}''"] brace by simp
  moreover have "placeholder_name (''{{'' @ a @ ''}}'') = name"
  proof -
    have "\<not> is_space (hd name)" "\<not> is_space (last name)" using assms(6,7) unfolding list_all_iff by (simp_all add: hd_in_set last_in_set)
    then show ?thesis unfolding placeholder_name_def a_def using trim_space_surrounded [OF assms(3,4,6)] by simp
  qed
  ultimately have "Resolve orig paramMap = v"
    using assms(8) by (simp add: Resolve_def found isRef_def)
  then show ?thesis by (simp add: orig_def a_def)
qed

theorem Resolve_reference_witness: "Resolve '' {{ id}} '' [''id'' \<mapsto> Number ''1''] = Number ''1''"
  using Resolve_reference [of "'' ''" "'' ''" "'' ''" "[]" "''id''" "[''id'' \<mapsto> Number ''1'']"] by (simp add: is_space_def byte_def blank_no_line)

end
