(* ===== verification/State_Manager.thy ===== *)
theory State_Manager
  imports State_Template Timers Run_Monad
begin

text \<open>
  The state manager, \<open>agent/statemanager\<close>: the configurations it pulls from the server (\<open>api.go\<close>) and
  keeps in a cache (\<open>cache.go\<close>), a timer for each of them (\<open>schedule.go\<close>), and the enforcement of one
  configuration with the report of its status (\<open>statemanager.go\<close>).
\<close>

section \<open>Data\<close>

record StateConfiguration =
  StateConfigurationId :: string
  TemplateName :: string
  TemplateVersion :: string
  Parameters :: string
  ConfigureMode :: string
  ScheduleType :: string
  ScheduleExpression :: string
  SuccessfulApplyTime :: string
  DefinitionUpdateTime :: string

record list_result =
  lr_RequestId :: string
  Interval :: int
  Changed :: bool
  Checkpoint :: string
  StateConfigurations :: "StateConfiguration list"

record template_result =
  tr_RequestId :: string
  tr_Name :: string
  tr_Version :: string
  Content :: string

record instance_info =
  AgentName :: string
  AgentVersion :: string
  ComputerName :: string
  PlatformName :: string
  PlatformType :: string
  PlatformVersion :: string
  IpAddress :: string
  RamRole :: string

text \<open>The callbacks of the timers: the refresh, and the enforcement of a configuration.\<close>

datatype state_callback = RefreshConfigs | EnforceConfig string

record StateConfigTimer =
  sct_timer :: nat
  sct_scheduleType :: string
  sct_scheduleExpression :: string

text \<open>
  The global variables. A starter is a goroutine that waits to start the timer of the refresh;
  \<open>sm_reports\<close> records the reports of a status: the configuration, the status, the mode and the
  items that are not in order.
\<close>

record ('e, 'l) state_manager =
  sm_inventory :: inventory
  refreshIntervalSeconds :: int
  stateManageTimer :: "nat option"
  sm_starters :: nat
  stateConfigs :: "string \<Rightarrow> StateConfiguration option"
  stateConfigCache :: "list_result option"
  stateConfigTimers :: "(string \<times> StateConfigTimer) list"
  sm_tm :: "('e, 'l, state_callback) timer_manager"
  sm_reports :: "(string \<times> string \<times> string \<times> (string \<times> string) list) list"

record ('e, 'l) manager_env = template_env +
  ge_cron :: "('e, 'l) cron_lib"
  ge_list :: "string \<Rightarrow> list_result ApiResponse \<times> go_error option"
  ge_get :: "string \<Rightarrow> template_result ApiResponse \<times> go_error option"
  ge_put :: "string \<Rightarrow> unit ApiResponse \<times> go_error option"
  ge_cached :: "string \<Rightarrow> go_error + list_result"
  ge_marshal :: "list_result \<Rightarrow> string"
  ge_info :: "nat \<Rightarrow> instance_info"
  ge_drift :: "nat \<Rightarrow> nat"
  ge_panic_text :: "panic \<Rightarrow> string"
  ge_stack :: string

definition DefaultRefreshIntervalSeconds :: int where "DefaultRefreshIntervalSeconds = 1800"
definition ApplyOnly :: string where "ApplyOnly = ''ApplyOnly''"
definition ApplyAndMonitor :: string where "ApplyAndMonitor = ''ApplyAndMonitor''"
definition ApplyAndAutoCorrect :: string where "ApplyAndAutoCorrect = ''ApplyAndAutoCorrect''"
definition Apply :: string where "Apply = ''Apply''"
definition Monitor :: string where "Monitor = ''Monitor''"
definition Skip :: string where "Skip = ''Skip''"

type_synonym ('e, 'l, 'a) sm = "(('e, 'l) state_manager, 'a) prog"

definition sm_world :: "('e, 'l) state_manager \<Rightarrow> world" where
  "sm_world s = iv_world (sm_inventory s)"

definition on_w :: "(world \<Rightarrow> 'a \<times> world) \<Rightarrow> ('e, 'l, 'a) sm" where
  "on_w f = effect_of (\<lambda>s. let (x, iv) = iv_on_world f (sm_inventory s) in (x, s\<lparr>sm_inventory := iv\<rparr>))"

definition on_tm :: "(('e, 'l, state_callback) timer_manager \<Rightarrow> 'a \<times> ('e, 'l, state_callback) timer_manager) \<Rightarrow> ('e, 'l, 'a) sm" where
  "on_tm f = effect_of (\<lambda>s. let (x, m) = f (sm_tm s) in (x, s\<lparr>sm_tm := m\<rparr>))"

definition now_of :: "('e, 'l) manager_env \<Rightarrow> ('e, 'l, instant) sm" where
  "now_of me = on_w (read_clock (ge_env me))"

section \<open>The interface of the server\<close>

definition info_parameters :: "instance_info \<Rightarrow> (string \<times> string) list" where
  "info_parameters i =
     [(''agentName'', AgentName i), (''agentVersion'', AgentVersion i), (''computerName'', ComputerName i),
      (''platformName'', PlatformName i), (''platformType'', PlatformType i), (''platformVersion'', PlatformVersion i),
      (''ipAddress'', IpAddress i), (''ramRole'', RamRole i)]"

definition optional_parameter :: "string \<Rightarrow> string \<Rightarrow> (string \<times> string) list" where
  "optional_parameter k v = (if v = [] then [] else [(k, v)])"

definition ListInstanceStateConfigurations ::
  "('e, 'l) manager_env \<Rightarrow> string \<Rightarrow> instance_info \<Rightarrow> world \<Rightarrow> (list_result ApiResponse \<times> go_error option) \<times> world" where
  "ListInstanceStateConfigurations me lastCheckpoint info w =
     (let (r, w1) = CallApi (ge_env me) (ge_valid me) (ge_list me) ''POST'' (GetStateConfigService (ge_env me))
        (optional_parameter ''lastCheckpoint'' lastCheckpoint @ info_parameters info) w in
      (checked_result ''ListInstanceStateConfigurations'' (checked_code r), w1))"

definition GetTemplate ::
  "('e, 'l) manager_env \<Rightarrow> string \<Rightarrow> string \<Rightarrow> world \<Rightarrow> (template_result ApiResponse \<times> go_error option) \<times> world" where
  "GetTemplate me templateName templateVersion w =
     (let (r, w1) = CallApi (ge_env me) (ge_valid me) (ge_get me) ''POST'' (GetTemplateService (ge_env me))
        ((''templateName'', templateName) # optional_parameter ''templateVersion'' templateVersion) w in
      (checked_result ''GetTemplate'' (checked_code r), w1))"

definition PutInstanceStateReport ::
  "('e, 'l) manager_env \<Rightarrow> string \<Rightarrow> string \<Rightarrow> string \<Rightarrow> string \<Rightarrow> string \<Rightarrow> world \<Rightarrow> go_error option \<times> world" where
  "PutInstanceStateReport me stateConfigurationId status extraInfo mode clientToken w =
     (let (reportTime, w1) = UtcNowStr (ge_env me) w;
          (r, w2) = CallApi (ge_env me) (ge_valid me) (ge_put me) ''POST'' (GetPutInstanceStateReportService (ge_env me))
            ([(''stateConfigurationId'', stateConfigurationId), (''reportTime'', reportTime), (''status'', status), (''mode'', mode)]
              @ optional_parameter ''extraInfo'' extraInfo @ optional_parameter ''clientToken'' clientToken) w1 in
      (snd (checked_code r), w2))"

section \<open>Caches\<close>

definition ConfigCacheFilePath :: "('e, 'l) manager_env \<Rightarrow> ('e, 'l, go_error + string) sm" where
  "ConfigCacheFilePath me =
     seq (on_w (GetCachePath (ge_mc me))) (\<lambda>(cacheDir, err).
     ret (case err of Some e \<Rightarrow> Inl e | None \<Rightarrow> Inr (path_join [cacheDir, ''state_configs.json''])))"

text \<open>The result may be nil without an error.\<close>

definition LoadConfigCache :: "('e, 'l) manager_env \<Rightarrow> ('e, 'l, list_result option \<times> go_error option) sm" where
  "LoadConfigCache me =
     seq (look stateConfigCache) (\<lambda>cache.
     case cache of
       Some r \<Rightarrow> ret (Some r, None)
     | None \<Rightarrow>
         seq (ConfigCacheFilePath me) (\<lambda>p.
         case p of
           Inl e \<Rightarrow> ret (None, Some e)
         | Inr path \<Rightarrow>
             seq (on_w (CheckFileIsExist (ge_mc me) path)) (\<lambda>found.
             if \<not> found then ret (None, None)
             else
               seq (on_w (ask (\<lambda>n. ge_read_file me n path))) (\<lambda>r.
               case r of
                 Inl e \<Rightarrow> ret (None, Some e)
               | Inr data \<Rightarrow>
                   (case ge_cached me data of
                      Inl e \<Rightarrow> ret (None, Some e)
                    | Inr result \<Rightarrow>
                        seq (modify (\<lambda>s. s\<lparr>stateConfigCache := Some result\<rparr>)) (\<lambda>_. ret (Some result, None)))))))"

definition WriteConfigCache :: "('e, 'l) manager_env \<Rightarrow> list_result \<Rightarrow> ('e, 'l, go_error option) sm" where
  "WriteConfigCache me config =
     seq (modify (\<lambda>s. s\<lparr>stateConfigCache := Some config\<rparr>)) (\<lambda>_.
     seq (ConfigCacheFilePath me) (\<lambda>p.
     case p of Inl e \<Rightarrow> ret None | Inr path \<Rightarrow> on_w (WriteStringToFile (ge_mc me) path (ge_marshal me config))))"

definition TemplateCachePath :: "('e, 'l) manager_env \<Rightarrow> string \<Rightarrow> string \<Rightarrow> ('e, 'l, go_error + string) sm" where
  "TemplateCachePath me name version =
     seq (on_w (GetCachePath (ge_mc me))) (\<lambda>(cacheDir, err).
     case err of
       Some e \<Rightarrow> ret (Inl e)
     | None \<Rightarrow>
         seq (on_w (MakeSurePath (ge_mc me) (path_join [cacheDir, ''template'']))) (\<lambda>_.
         ret (Inr (path_join [cacheDir, ''template'', name @ ''_'' @ version @ ''.json'']))))"

text \<open>The content, \<open>None\<close> for nil.\<close>

definition LoadTemplateCache :: "('e, 'l) manager_env \<Rightarrow> string \<Rightarrow> string \<Rightarrow> ('e, 'l, string option) sm" where
  "LoadTemplateCache me name version =
     seq (TemplateCachePath me name version) (\<lambda>p.
     case p of
       Inl e \<Rightarrow> ret None
     | Inr path \<Rightarrow>
         seq (on_w (CheckFileIsExist (ge_mc me) path)) (\<lambda>found.
         if \<not> found then ret None
         else seq (on_w (ask (\<lambda>n. ge_read_file me n path))) (\<lambda>r. ret (case r of Inl e \<Rightarrow> None | Inr data \<Rightarrow> Some data))))"

definition WriteTemplateCache :: "('e, 'l) manager_env \<Rightarrow> string \<Rightarrow> string \<Rightarrow> string \<Rightarrow> ('e, 'l, go_error option) sm" where
  "WriteTemplateCache me name version data =
     seq (TemplateCachePath me name version) (\<lambda>p.
     case p of Inl e \<Rightarrow> ret (Some e) | Inr path \<Rightarrow> on_w (WriteStringToFile (ge_mc me) path data))"

text \<open>Without a cache there is no error, and the checkpoint is read through a nil pointer.\<close>

definition LastCheckpoint :: "('e, 'l) manager_env \<Rightarrow> ('e, 'l, string) sm" where
  "LastCheckpoint me =
     seq (LoadConfigCache me) (\<lambda>(lastResult, err).
     if err \<noteq> None then ret []
     else case lastResult of None \<Rightarrow> panic NilDereference | Some r \<Rightarrow> ret (Checkpoint r))"

section \<open>Schedules\<close>

definition rate_error :: "string \<Rightarrow> go_error" where
  "rate_error expr = PlainError (''wrong rate expression: '' @ expr)"

definition unit_seconds :: "string \<Rightarrow> int option" where
  "unit_seconds u =
     (if u \<in> set [''second'', ''seconds''] then Some 1
      else if u \<in> set [''minute'', ''minutes''] then Some 60
      else if u \<in> set [''hour'', ''hours''] then Some 3600
      else if u \<in> set [''day'', ''days''] then Some 86400 else None)"

definition GetRateInSeconds :: "string \<Rightarrow> go_error + int" where
  "GetRateInSeconds expr =
     (let parts = split_on (CHR '' '') expr in
      if length parts \<noteq> 2 then Inl (rate_error expr)
      else
        case atoi (parts ! 0) of
          (_, Some e) \<Rightarrow> Inl (rate_error expr)
        | (n, None) \<Rightarrow>
            (case unit_seconds (parts ! 1) of
               None \<Rightarrow> Inl (PlainError (''wrong unit in rate expression: '' @ expr))
             | Some k \<Rightarrow> Inr (wrap64 (n * k))))"

lemma GetRateInSeconds_examples:
  "GetRateInSeconds ''5 minutes'' = Inr 300" "GetRateInSeconds ''1 hour'' = Inr 3600" "GetRateInSeconds ''0 days'' = Inr 0"
  "GetRateInSeconds ''5minutes'' = Inl (rate_error ''5minutes'')" "GetRateInSeconds ''-5 minutes'' = Inr (-300)"
  by code_simp+

definition isScheduleChanged :: "('e, 'l) state_manager \<Rightarrow> StateConfiguration \<Rightarrow> bool" where
  "isScheduleChanged s config \<longleftrightarrow>
     (case map_of (stateConfigTimers s) (StateConfigurationId config) of
        None \<Rightarrow> True
      | Some t \<Rightarrow> ScheduleType config \<noteq> sct_scheduleType t \<or> ScheduleExpression config \<noteq> sct_scheduleExpression t)"

text \<open>The timer of a configuration, by the type of its schedule.\<close>

definition new_state_timer :: "('e, 'l) manager_env \<Rightarrow> StateConfiguration \<Rightarrow> ('e, 'l, go_error + nat) sm" where
  "new_state_timer me config =
     (let callback = EnforceConfig (StateConfigurationId config) in
      if ScheduleType config = ''rate'' then
        (case GetRateInSeconds (ScheduleExpression config) of
           Inl e \<Rightarrow> ret (Inl e)
         | Inr intervalSeconds \<Rightarrow> on_tm (\<lambda>m. let (a, m1) = CreateTimerInSeconds callback intervalSeconds m in (Inr a, m1)))
      else if ScheduleType config = ''cron'' then
        seq (now_of me) (\<lambda>t. on_tm (CreateCronTimer (ge_cron me) t callback (ScheduleExpression config)))
      else ret (Inl (PlainError (''Invalid schedule type '' @ ScheduleType config))))"

text \<open>\<open>Run\<close> of the timer behind a pointer.\<close>

definition run_pointer :: "('e, 'l) manager_env \<Rightarrow> nat \<Rightarrow> instant \<Rightarrow> ('e, 'l) state_manager \<Rightarrow>
  go_error option outcome \<times> ('e, 'l) state_manager" where
  "run_pointer me a t s =
     (case tm_heap (sm_tm s) a of
        None \<Rightarrow> (Panics NilDereference, s)
      | Some timer \<Rightarrow>
          (let (r, timer1) = TimerRun (ge_cron me) t timer in
           (r, s\<lparr>sm_tm := (sm_tm s)\<lparr>tm_heap := (tm_heap (sm_tm s))(a \<mapsto> timer1)\<rparr>\<rparr>)))"

definition run_timer :: "('e, 'l) manager_env \<Rightarrow> nat \<Rightarrow> ('e, 'l, go_error option) sm" where
  "run_timer me a = seq (now_of me) (\<lambda>t. outcome_of (run_pointer me a t))"

definition delete_timer :: "nat \<Rightarrow> ('e, 'l, unit) sm" where
  "delete_timer a = blocking (\<lambda>s. map_option (\<lambda>m. s\<lparr>sm_tm := m\<rparr>) (DeleteTimer a (sm_tm s)))"

text \<open>The timer is entered into the map whether it runs or not.\<close>

definition setupStateConfigTimer :: "('e, 'l) manager_env \<Rightarrow> StateConfiguration \<Rightarrow> ('e, 'l, go_error option) sm" where
  "setupStateConfigTimer me config =
     seq (new_state_timer me config) (\<lambda>r.
     case r of
       Inl e \<Rightarrow> ret (Some e)
     | Inr a \<Rightarrow>
         seq (run_timer me a) (\<lambda>err.
         seq (modify (\<lambda>s. s\<lparr>stateConfigTimers := AList.update (StateConfigurationId config)
           \<lparr>sct_timer = a, sct_scheduleType = ScheduleType config, sct_scheduleExpression = ScheduleExpression config\<rparr>
           (stateConfigTimers s)\<rparr>)) (\<lambda>_. ret err)))"

definition tearDownStateConfigTimer :: "string \<Rightarrow> ('e, 'l, unit) sm" where
  "tearDownStateConfigTimer stateConfigId =
     seq (look (\<lambda>s. map_of (stateConfigTimers s) stateConfigId)) (\<lambda>t.
     case t of
       None \<Rightarrow> ret ()
     | Some t \<Rightarrow>
         seq (delete_timer (sct_timer t)) (\<lambda>_.
         modify (\<lambda>s. s\<lparr>stateConfigTimers := AList.delete stateConfigId (stateConfigTimers s)\<rparr>)))"

text \<open>The error of the new timer is dropped.\<close>

definition refreshStateConfigTimer :: "('e, 'l) manager_env \<Rightarrow> StateConfiguration \<Rightarrow> ('e, 'l, unit) sm" where
  "refreshStateConfigTimer me config =
     seq (look (\<lambda>s. isScheduleChanged s config)) (\<lambda>changed.
     if changed then
       seq (tearDownStateConfigTimer (StateConfigurationId config)) (\<lambda>_.
       seq (setupStateConfigTimer me config) (\<lambda>_. ret ()))
     else ret ())"

definition cleanupDeleted :: "string list \<Rightarrow> ('e, 'l, unit) sm" where
  "cleanupDeleted existStateConfigIds =
     seq (look (\<lambda>s. map fst (stateConfigTimers s))) (each (\<lambda>stateConfigId.
       if stateConfigId \<in> set existStateConfigIds then ret () else tearDownStateConfigTimer stateConfigId))"

text \<open>The list of identities starts with as many empty texts as there are configurations.\<close>

definition refreshStateConfigTimers :: "('e, 'l) manager_env \<Rightarrow> StateConfiguration list \<Rightarrow> ('e, 'l, unit) sm" where
  "refreshStateConfigTimers me configs =
     seq (each (refreshStateConfigTimer me) configs) (\<lambda>_.
       cleanupDeleted (replicate (length configs) [] @ map StateConfigurationId configs))"

definition IsStateConfigTimerRunning :: "('e, 'l) state_manager \<Rightarrow> bool" where
  "IsStateConfigTimerRunning s \<longleftrightarrow>
     list_ex (\<lambda>(k, t). case tm_heap (sm_tm s) (sct_timer t) of None \<Rightarrow> False | Some timer \<Rightarrow> isRunning timer) (stateConfigTimers s)"

section \<open>Enforcement\<close>

definition updateStateConfigs :: "StateConfiguration list \<Rightarrow> ('e, 'l, unit) sm" where
  "updateStateConfigs configs =
     modify (\<lambda>s. s\<lparr>stateConfigs := map_of (rev (map (\<lambda>c. (StateConfigurationId c, c)) configs))\<rparr>)"

definition hasApplied :: "StateConfiguration \<Rightarrow> bool" where
  "hasApplied config =
     (if SuccessfulApplyTime config = [] then False
      else if DefinitionUpdateTime config = [] then True
      else case (ParseApiTime (SuccessfulApplyTime config), ParseApiTime (DefinitionUpdateTime config)) of
          (Some successfulApplyTime, Some defUpdateTime) \<Rightarrow> \<not> successfulApplyTime < defUpdateTime
        | _ \<Rightarrow> True)"

definition getMode :: "StateConfiguration \<Rightarrow> string" where
  "getMode config =
     (if ConfigureMode config = ApplyOnly then (if hasApplied config then Skip else Apply)
      else if ConfigureMode config = ApplyAndMonitor then (if hasApplied config then Monitor else Apply)
      else if ConfigureMode config = ApplyAndAutoCorrect then Apply
      else Skip)"

definition reportResult ::
  "('e, 'l) manager_env \<Rightarrow> StateConfiguration \<Rightarrow> string \<Rightarrow> string \<Rightarrow> (string \<times> string) list \<Rightarrow> ('e, 'l, go_error option) sm" where
  "reportResult me config status mode extraInfo =
     seq (modify (\<lambda>s. s\<lparr>sm_reports := sm_reports s @ [(StateConfigurationId config, status, mode, extraInfo)]\<rparr>)) (\<lambda>_.
     on_w (PutInstanceStateReport me (StateConfigurationId config) status
       (if extraInfo = [] then [] else json_map extraInfo) mode []))"

definition on_resource ::
  "(template_env \<Rightarrow> resource \<Rightarrow> inventory \<Rightarrow> 'a outcome \<times> inventory) \<Rightarrow> ('e, 'l) manager_env \<Rightarrow> resource option \<Rightarrow> ('e, 'l, 'a) sm" where
  "on_resource f me rs =
     (case rs of
        None \<Rightarrow> panic NilDereference
      | Some r \<Rightarrow> outcome_of (\<lambda>s. let (x, iv) = f (template_env.truncate me) r (sm_inventory s) in (x, s\<lparr>sm_inventory := iv\<rparr>)))"

definition nth_state :: "nat \<Rightarrow> string" where
  "nth_state i = nat_digits i @ ''th state''"

text \<open>The loops over the resources: the status, the items that are not in order and the last error.\<close>

primrec apply_loop ::
  "('e, 'l) manager_env \<Rightarrow> resource option list \<Rightarrow> nat \<Rightarrow> string \<times> (string \<times> string) list \<times> go_error option \<Rightarrow>
   ('e, 'l, string \<times> (string \<times> string) list \<times> go_error option) sm" where
  "apply_loop me [] index acc = ret acc"
| "apply_loop me (rs # rss) index acc =
     seq (on_resource resource_Apply me rs) (\<lambda>(status, extraInfo, err).
     if status = Failed then
       (case err of None \<Rightarrow> panic NilDereference | Some e \<Rightarrow> ret (Failed, fst (snd acc) @ [(nth_state index, err_text e)], err))
     else if status = NotCompliant then ret (Failed, fst (snd acc) @ [(nth_state index, extraInfo)], err)
     else apply_loop me rss (Suc index) (status, fst (snd acc), err))"

primrec monitor_loop ::
  "('e, 'l) manager_env \<Rightarrow> resource option list \<Rightarrow> nat \<Rightarrow> string \<times> (string \<times> string) list \<times> go_error option \<Rightarrow>
   ('e, 'l, string \<times> (string \<times> string) list \<times> go_error option) sm" where
  "monitor_loop me [] index acc = ret acc"
| "monitor_loop me (rs # rss) index acc =
     seq (on_resource resource_Monitor me rs) (\<lambda>(status, extraInfo, err).
     if status = Failed then
       (case err of None \<Rightarrow> panic NilDereference | Some e \<Rightarrow> ret (Failed, fst (snd acc) @ [(nth_state index, err_text e)], err))
     else if status = NotCompliant
     then monitor_loop me rss (Suc index) (NotCompliant, fst (snd acc) @ [(nth_state index, extraInfo)], err)
     else monitor_loop me rss (Suc index) (fst acc, fst (snd acc), err))"

definition run_states :: "('e, 'l) manager_env \<Rightarrow> string \<Rightarrow> resource option list \<Rightarrow> ('e, 'l, string \<times> (string \<times> string) list \<times> go_error option) sm" where
  "run_states me mode resourceStates =
     (if mode = Apply then apply_loop me resourceStates 0 ([], [], None)
      else if mode = Monitor then monitor_loop me resourceStates 0 (Compliant, [], None)
      else ret ([], [], None))"

text \<open>The template: from the cache or else from the server, which is then cached.\<close>

definition template_content :: "('e, 'l) manager_env \<Rightarrow> StateConfiguration \<Rightarrow> string \<Rightarrow> ('e, 'l, go_error + string) sm" where
  "template_content me config mode =
     seq (LoadTemplateCache me (TemplateName config) (TemplateVersion config)) (\<lambda>cached.
     case cached of
       Some content \<Rightarrow> ret (Inr content)
     | None \<Rightarrow>
         seq (on_w (GetTemplate me (TemplateName config) (TemplateVersion config))) (\<lambda>(resp, err2).
         case err2 of
           Some e \<Rightarrow>
             seq (reportResult me config Failed mode
               [(''message'', ''GetTemplate '' @ TemplateName config @ '' '' @ TemplateVersion config @ '' failed: '' @ err_text e)]) (\<lambda>_.
             ret (Inl e))
         | None \<Rightarrow>
             (case Result resp of
                None \<Rightarrow> panic NilDereference
              | Some result \<Rightarrow>
                  seq (WriteTemplateCache me (TemplateName config) (TemplateVersion config) (Content result)) (\<lambda>_.
                  ret (Inr (Content result))))))"

definition enforce :: "('e, 'l) manager_env \<Rightarrow> StateConfiguration \<Rightarrow> ('e, 'l, go_error option) sm" where
  "enforce me config =
     (let mode = getMode config in
      if mode = Skip then ret None
      else
        seq (template_content me config mode) (\<lambda>r.
        case r of
          Inl e \<Rightarrow> ret (Some e)
        | Inr content \<Rightarrow>
            (case ParseResourceState (template_env.truncate me) content (Parameters config) of
               Inl e \<Rightarrow> ret (Some e)
             | Inr [] \<Rightarrow> ret None
             | Inr (rs # rss) \<Rightarrow>
                 seq (run_states me mode (rs # rss)) (\<lambda>(status, items, err).
                 seq (reportResult me config (if status = [] then Failed else status) mode items) (\<lambda>_. ret err)))))"

definition report_panic :: "('e, 'l) manager_env \<Rightarrow> panic \<Rightarrow> ('e, 'l, unit) sm" where
  "report_panic me p =
     seq (on_w (ReportPanic (ge_env me) (ge_panic_text me p) (ge_stack me) False)) (\<lambda>_. ret ())"

text \<open>The callback of a configuration. The drift of a cron schedule, in milliseconds, is recorded in whole seconds.\<close>

definition stateConfigCallBack :: "('e, 'l) manager_env \<Rightarrow> string \<Rightarrow> ('e, 'l, unit) sm" where
  "stateConfigCallBack me stateConfigId =
     recovering
       (seq (look (\<lambda>s. stateConfigs s stateConfigId)) (\<lambda>c.
        case c of
          None \<Rightarrow> ret ()
        | Some config \<Rightarrow>
            seq (if ScheduleType config = ''cron''
                 then seq (on_w (ask (ge_drift me))) (\<lambda>d. on_w (\<lambda>w. ((), go_sleep (d mod 900000 div 1000) w))) else ret ()) (\<lambda>_.
            seq (enforce me config) (\<lambda>_. ret ()))))
       (report_panic me)"

section \<open>The timer of the refresh\<close>

definition initialized_error :: go_error where
  "initialized_error = PlainError ''state manage timer has been initialized''"

definition InitStateManagerTimer :: "('e, 'l, go_error option) sm" where
  "InitStateManagerTimer =
     seq (look stateManageTimer) (\<lambda>t.
     if t \<noteq> None then ret (Some initialized_error)
     else
       seq (look refreshIntervalSeconds) (\<lambda>interval.
       seq (on_tm (CreateTimerInSeconds RefreshConfigs interval)) (\<lambda>a.
       seq (modify (\<lambda>s. s\<lparr>stateManageTimer := Some a, sm_starters := Suc (sm_starters s)\<rparr>)) (\<lambda>_. ret None))))"

text \<open>A starter, when it wakes up, runs the timer that the global variable points to at that time.\<close>

definition starter_wakes :: "('e, 'l) manager_env \<Rightarrow> ('e, 'l, go_error option) sm" where
  "starter_wakes me =
     seq (modify (\<lambda>s. s\<lparr>sm_starters := sm_starters s - 1\<rparr>)) (\<lambda>_.
     seq (look stateManageTimer) (\<lambda>t.
     case t of None \<Rightarrow> panic NilDereference | Some a \<Rightarrow> run_timer me a))"

definition CancelStateManagerTimer :: "('e, 'l, unit) sm" where
  "CancelStateManagerTimer =
     seq (look stateManageTimer) (\<lambda>t.
     case t of
       None \<Rightarrow> ret ()
     | Some a \<Rightarrow> seq (delete_timer a) (\<lambda>_. modify (\<lambda>s. s\<lparr>stateManageTimer := None\<rparr>)))"

definition IsStateManagerTimerRunning :: "('e, 'l) state_manager \<Rightarrow> bool" where
  "IsStateManagerTimerRunning s \<longleftrightarrow>
     (case stateManageTimer s of
        None \<Rightarrow> False
      | Some a \<Rightarrow> (case tm_heap (sm_tm s) a of None \<Rightarrow> False | Some timer \<Rightarrow> isRunning timer))"

definition reschedule :: "int \<Rightarrow> ('e, 'l, unit) sm" where
  "reschedule seconds =
     seq (modify (\<lambda>s. s\<lparr>refreshIntervalSeconds := seconds\<rparr>)) (\<lambda>_.
     seq CancelStateManagerTimer (\<lambda>_. seq InitStateManagerTimer (\<lambda>_. ret ())))"

section \<open>The refresh\<close>

text \<open>The zero value of \<open>time.Time\<close>, which a text that is no time also gives.\<close>

definition zero_time :: instant where "zero_time = - 62135596800 * second"

definition one_day :: int where "one_day = 86400"

text \<open>What is done with a result; a result that is nil is dereferenced.\<close>

definition use_result :: "('e, 'l) manager_env \<Rightarrow> list_result option \<Rightarrow> ('e, 'l, unit) sm" where
  "use_result me result =
     (case result of
        None \<Rightarrow> panic NilDereference
      | Some r \<Rightarrow>
          (let targetInterval = (if Interval r = 0 then DefaultRefreshIntervalSeconds else Interval r) in
           seq (look refreshIntervalSeconds) (\<lambda>current.
           if targetInterval \<noteq> current then reschedule targetInterval
           else
             seq (updateStateConfigs (StateConfigurations r)) (\<lambda>_.
             refreshStateConfigTimers me (StateConfigurations r)))))"

definition refresh_body :: "('e, 'l) manager_env \<Rightarrow> ('e, 'l, unit) sm" where
  "refresh_body me =
     seq (LoadConfigCache me) (\<lambda>(cachedResult, err).
     let lastCheckpoint = (case cachedResult of None \<Rightarrow> [] | Some r \<Rightarrow> Checkpoint r);
         lastCheckTime = (case cachedResult of None \<Rightarrow> zero_time
           | Some r \<Rightarrow> (case ParseApiTime (Checkpoint r) of None \<Rightarrow> zero_time | Some t \<Rightarrow> t)) in
     seq (now_of me) (\<lambda>t.
     if time_sub t lastCheckTime \<le> minute then use_result me cachedResult
     else
       seq (on_w (ask (ge_info me))) (\<lambda>info.
       seq (on_w (ListInstanceStateConfigurations me lastCheckpoint info)) (\<lambda>(resp, err).
       if err \<noteq> None then
         (if ErrCode resp = ''ServiceNotSupported'' then
            seq (look refreshIntervalSeconds) (\<lambda>current. if current \<noteq> one_day then reschedule one_day else ret ())
          else ret ())
       else
         (case Result resp of
            Some r \<Rightarrow>
              (if Changed r then seq (WriteConfigCache me r) (\<lambda>_. use_result me (Some r)) else use_result me cachedResult)
          | None \<Rightarrow> use_result me cachedResult)))))"

definition refreshStateConfigs :: "('e, 'l) manager_env \<Rightarrow> ('e, 'l, unit) sm" where
  "refreshStateConfigs me = recovering (refresh_body me) (report_panic me)"

end
