(* ===== verification/State_Properties.thy ===== *)
theory State_Properties
  imports State_Manager
begin

text \<open>
  What the state manager keeps: its timers are the registered ones and those of the configurations it
  was given last, an enforcement reports one status, and where a nil pointer is dereferenced.
\<close>

section \<open>Steps\<close>

lemma wpr_on_w [wpr_rules]:
  "wpr (on_w f) Q P s = Q (fst (f (sm_world s))) (s\<lparr>sm_inventory := (sm_inventory s)\<lparr>iv_world := snd (f (sm_world s))\<rparr>\<rparr>)"
  by (simp add: on_w_def wpr_rules iv_on_world_def sm_world_def split_beta Let_def)

lemma wpr_on_tm [wpr_rules]: "wpr (on_tm f) Q P s = Q (fst (f (sm_tm s))) (s\<lparr>sm_tm := snd (f (sm_tm s))\<rparr>)"
  by (simp add: on_tm_def wpr_rules split_beta Let_def)

lemma wpr_now_of [wpr_rules]:
  "wpr (now_of me) Q P s = Q (clock (ge_env me) (ticks (sm_world s)))
     (s\<lparr>sm_inventory := (sm_inventory s)\<lparr>iv_world := tick (sm_world s)\<rparr>\<rparr>)"
  by (simp add: now_of_def wpr_rules read_clock_def)

lemma wpr_delete_timer [wpr_rules]:
  "wpr (delete_timer a) Q P s = (\<exists>m. DeleteTimer a (sm_tm s) = Some m \<and> Q () (s\<lparr>sm_tm := m\<rparr>))"
  by (auto simp: delete_timer_def wpr_rules)

section \<open>Timers in use\<close>

text \<open>The schedules the state manager creates; asking one of them never panics.\<close>

fun steady :: "('e, 'l) schedule \<Rightarrow> bool" where
  "steady (CronScheduled e l d) = True"
| "steady (MutableScheduled i d) = True"
| "steady (RateScheduled t p) = False"
| "steady (AtScheduled t) = False"

definition live :: "('e, 'l, state_callback) timer_manager \<Rightarrow> nat \<Rightarrow> state_callback \<Rightarrow> bool" where
  "live m a c \<longleftrightarrow> a \<in> set (tm_timers m) \<and> (\<exists>t. tm_heap m a = Some t \<and> \<not> quit t \<and> callback t = c \<and> steady (Schedule t))"

definition owned :: "('e, 'l) state_manager \<Rightarrow> nat set" where
  "owned s = (sct_timer \<circ> snd) ` set (stateConfigTimers s)"

text \<open>The invariant: every timer in the maps is registered, carries the callback of its configuration and
  has not been asked to stop.\<close>

definition sm_ok :: "('e, 'l) state_manager \<Rightarrow> bool" where
  "sm_ok s \<longleftrightarrow> tm_ok (sm_tm s) \<and> distinct (map fst (stateConfigTimers s))
     \<and> (\<forall>k t. (k, t) \<in> set (stateConfigTimers s) \<longrightarrow> live (sm_tm s) (sct_timer t) (EnforceConfig k))
     \<and> (\<forall>a. stateManageTimer s = Some a \<longrightarrow> live (sm_tm s) a RefreshConfigs)"

lemma live_callback: "live m a c \<Longrightarrow> live m a c' \<Longrightarrow> c = c'"
  by (auto simp: live_def)

lemma steady_nextRun:
  assumes "steady s" shows "\<exists>d e. fst (nextRun lib now s) = Returns (d, e)" "steady (snd (nextRun lib now s))"
  using assms by (cases s; auto simp: Let_def)+

lemma TimerRun_steady:
  assumes "steady (Schedule t)" "TimerRun lib now t = (r, t1)"
  shows "\<not> panics r \<and> quit t1 = quit t \<and> callback t1 = callback t \<and> steady (Schedule t1)"
proof -
  obtain d e where n: "fst (nextRun lib now (Schedule t)) = Returns (d, e)" using steady_nextRun(1) [OF assms(1)] by blast
  have "steady (snd (nextRun lib now (Schedule t)))" using steady_nextRun(2) [OF assms(1)] .
  with n assms(2) show ?thesis
    by (auto simp: TimerRun_def Let_def split_beta split: option.splits if_splits)
qed

lemma tm_ok_heap_update:
  "tm_ok m \<Longrightarrow> tm_heap m a \<noteq> None \<Longrightarrow> tm_ok (m\<lparr>tm_heap := (tm_heap m)(a \<mapsto> t)\<rparr>)"
  by (auto simp: tm_ok_def)

text \<open>Registering a timer, running one and deleting another one keep a timer in use.\<close>

lemma live_register:
  assumes "tm_ok m" "register_timer sch c m = (a, m1)"
  shows "live m b d \<Longrightarrow> live m1 b d" "steady sch \<Longrightarrow> live m1 a c" "a \<notin> set (tm_timers m)"
    "set (tm_timers m1) = insert a (set (tm_timers m))" "tm_ok m1"
proof -
  note r = tm_ok_register [OF assms]
  have heap: "tm_heap m1 = (tm_heap m)(a \<mapsto> NewTimer sch c)" using assms(2) by (auto simp: register_timer_def Let_def)
  show "live m b d \<Longrightarrow> live m1 b d" using r(2,3) heap by (auto simp: live_def)
  show "steady sch \<Longrightarrow> live m1 a c" using r(3) heap by (simp add: live_def NewTimer_def)
  show "a \<notin> set (tm_timers m)" using assms(1) r(2) by (auto simp: tm_ok_def)
  show "set (tm_timers m1) = insert a (set (tm_timers m))" using r(3) by simp
  show "tm_ok m1" by (rule r(1))
qed

lemma live_run:
  assumes "live m b d" "tm_heap m a = Some t" "quit t1 = quit t" "callback t1 = callback t" "steady (Schedule t1)"
  shows "live (m\<lparr>tm_heap := (tm_heap m)(a \<mapsto> t1)\<rparr>) b d"
  using assms by (auto simp: live_def)

lemma delete_live:
  assumes "tm_ok m" "live m a c"
  obtains m1 where "DeleteTimer a m = Some m1" "tm_ok m1" "set (tm_timers m1) = set (tm_timers m) - {a}"
    "\<And>b d. live m b d \<Longrightarrow> b \<noteq> a \<Longrightarrow> live m1 b d"
proof -
  obtain t where t: "tm_heap m a = Some t" "\<not> quit t" using assms(2) by (auto simp: live_def)
  define m1 where "m1 = m\<lparr>tm_heap := (tm_heap m)(a \<mapsto> t\<lparr>quit := True\<rparr>), tm_timers := removeAll a (tm_timers m)\<rparr>"
  have d: "DeleteTimer a m = Some m1" using t by (simp add: DeleteTimer_def stop_at_def StopTimer_def m1_def)
  have "\<And>b d. live m b d \<Longrightarrow> b \<noteq> a \<Longrightarrow> live m1 b d" by (auto simp: live_def m1_def)
  with that [OF d DeleteTimer_ok(1,2) [OF assms(1) d]] show thesis by blast
qed

section \<open>Tearing down and setting up\<close>

lemma tearDown_spec:
  assumes ok: "sm_ok s"
  shows "wpr (tearDownStateConfigTimer k) (\<lambda>_ s1. sm_ok s1 \<and> stateConfigTimers s1 = AList.delete k (stateConfigTimers s)
     \<and> stateManageTimer s1 = stateManageTimer s
     \<and> set (tm_timers (sm_tm s1)) - owned s1 = set (tm_timers (sm_tm s)) - owned s) (\<lambda>_ _. False) s"
proof (cases "map_of (stateConfigTimers s) k")
  case None
  then have "AList.delete k (stateConfigTimers s) = stateConfigTimers s" by (intro AList.delete_id) (simp add: map_of_eq_None_iff)
  with None ok show ?thesis by (simp add: tearDownStateConfigTimer_def wpr_rules)
next
  case (Some t)
  then have kt: "(k, t) \<in> set (stateConfigTimers s)" by (rule map_of_SomeD)
  have tm: "tm_ok (sm_tm s)" and ds: "distinct (map fst (stateConfigTimers s))"
    and lives: "\<And>k t. (k, t) \<in> set (stateConfigTimers s) \<Longrightarrow> live (sm_tm s) (sct_timer t) (EnforceConfig k)"
    and main: "\<And>a. stateManageTimer s = Some a \<Longrightarrow> live (sm_tm s) a RefreshConfigs"
    using ok by (auto simp: sm_ok_def)
  obtain m1 where m1: "DeleteTimer (sct_timer t) (sm_tm s) = Some m1" "tm_ok m1"
    "set (tm_timers m1) = set (tm_timers (sm_tm s)) - {sct_timer t}"
    "\<And>b d. live (sm_tm s) b d \<Longrightarrow> b \<noteq> sct_timer t \<Longrightarrow> live m1 b d"
    using delete_live [OF tm lives [OF kt]] by metis
  define s1 where "s1 = s\<lparr>sm_tm := m1, stateConfigTimers := AList.delete k (stateConfigTimers s)\<rparr>"
  have other: "sct_timer t' \<noteq> sct_timer t" if "(k', t') \<in> set (stateConfigTimers s)" "k' \<noteq> k" for k' t'
  proof
    assume "sct_timer t' = sct_timer t"
    with live_callback [OF lives [OF that(1)], of "EnforceConfig k"] lives [OF kt] that(2) show False by simp
  qed
  have mem: "(k', t') \<in> set (AList.delete k (stateConfigTimers s)) \<longleftrightarrow> (k', t') \<in> set (stateConfigTimers s) \<and> k' \<noteq> k" for k' t'
    by (auto simp: AList.delete_eq)
  have lives1: "live m1 (sct_timer t') (EnforceConfig k')" if "(k', t') \<in> set (AList.delete k (stateConfigTimers s))" for k' t'
  proof -
    from that have "(k', t') \<in> set (stateConfigTimers s)" "k' \<noteq> k" unfolding mem by simp_all
    then show ?thesis using m1(4) [OF lives other] by blast
  qed
  have main1: "live m1 a RefreshConfigs" if "stateManageTimer s = Some a" for a
  proof (rule m1(4) [OF main [OF that]])
    show "a \<noteq> sct_timer t" using live_callback [OF main [OF that], of "EnforceConfig k"] lives [OF kt] by auto
  qed
  have "sm_ok s1"
    unfolding sm_ok_def s1_def using m1(2) lives1 main1 ds by (simp add: distinct_delete)
  moreover have "owned s = insert (sct_timer t) (owned s1)" "sct_timer t \<notin> owned s1"
  proof -
    show "sct_timer t \<notin> owned s1" using other by (force simp: owned_def s1_def mem)
    have same: "t' = t" if "(k, t') \<in> set (stateConfigTimers s)" for t' using eq_key_imp_eq_value [OF ds that kt] .
    have "b \<in> owned s \<longleftrightarrow> b = sct_timer t \<or> b \<in> owned s1" for b
    proof
      assume "b \<in> owned s"
      then obtain k' t' where e: "(k', t') \<in> set (stateConfigTimers s)" "b = sct_timer t'" by (auto simp: owned_def)
      show "b = sct_timer t \<or> b \<in> owned s1"
      proof (cases "k' = k")
        case True
        with e same show ?thesis by blast
      next
        case False
        with e have "(k', t') \<in> set (stateConfigTimers s1)" by (simp add: s1_def mem)
        with e(2) show ?thesis by (force simp: owned_def)
      qed
    next
      assume "b = sct_timer t \<or> b \<in> owned s1"
      then show "b \<in> owned s" using kt by (force simp: owned_def s1_def mem)
    qed
    then show "owned s = insert (sct_timer t) (owned s1)" by blast
  qed
  moreover have "set (tm_timers (sm_tm s1)) = set (tm_timers (sm_tm s)) - {sct_timer t}" by (simp add: s1_def m1(3))
  ultimately have "sm_ok s1 \<and> set (tm_timers (sm_tm s1)) - owned s1 = set (tm_timers (sm_tm s)) - owned s" by blast
  with Some m1(1) show ?thesis by (auto simp: tearDownStateConfigTimer_def wpr_rules s1_def)
qed

definition rate_ok :: "StateConfiguration \<Rightarrow> bool" where
  "rate_ok c \<longleftrightarrow> ScheduleType c = ''rate'' \<and> (\<exists>n. GetRateInSeconds (ScheduleExpression c) = Inr n)"

text \<open>What a new timer does to the manager.\<close>

lemma new_state_timer_spec:
  assumes "tm_ok (sm_tm s)"
  shows "wpr (new_state_timer me c) (\<lambda>r s1. stateConfigTimers s1 = stateConfigTimers s \<and> stateManageTimer s1 = stateManageTimer s
     \<and> (case r of
          Inl e \<Rightarrow> sm_tm s1 = sm_tm s \<and> \<not> rate_ok c
        | Inr a \<Rightarrow> tm_ok (sm_tm s1) \<and> a \<notin> set (tm_timers (sm_tm s)) \<and> set (tm_timers (sm_tm s1)) = insert a (set (tm_timers (sm_tm s)))
            \<and> live (sm_tm s1) a (EnforceConfig (StateConfigurationId c))
            \<and> (\<forall>b d. live (sm_tm s) b d \<longrightarrow> live (sm_tm s1) b d) \<and> (rate_ok c \<or> ScheduleType c = ''cron''))) (\<lambda>_ _. False) s"
proof -
  have step: "tm_ok m1 \<and> a \<notin> set (tm_timers m) \<and> set (tm_timers m1) = insert a (set (tm_timers m)) \<and> live m1 a c
      \<and> (\<forall>b d. live m b d \<longrightarrow> live m1 b d)"
    if "register_timer sch c m = (a, m1)" "steady sch" "tm_ok m" for m m1 a sch c
    using live_register [OF that(3,1)] that(2) by blast
  show ?thesis
  proof (cases "ScheduleType c = ''rate''")
    case rate: True
    show ?thesis
    proof (cases "GetRateInSeconds (ScheduleExpression c)")
      case (Inl e)
      with rate show ?thesis by (simp add: new_state_timer_def wpr_rules rate_ok_def)
    next
      case (Inr n)
      obtain a m1 where r: "register_timer (NewMutableScheduled (wrap64 (n * second))) (EnforceConfig (StateConfigurationId c)) (sm_tm s) = (a, m1)"
        by fastforce
      have "steady (NewMutableScheduled (wrap64 (n * second)))" by (simp add: NewMutableScheduled_def)
      from step [OF r this assms] rate Inr r show ?thesis
        by (simp add: new_state_timer_def wpr_rules rate_ok_def CreateTimerInSeconds_def CreateTimerInNanoseconds_def)
    qed
  next
    case no_rate: False
    show ?thesis
    proof (cases "ScheduleType c = ''cron''")
      case cron: True
      define t where "t = clock (ge_env me) (ticks (sm_world s))"
      show ?thesis
      proof (cases "NewCronScheduled (ge_cron me) t (ScheduleExpression c)")
        case (Inl e)
        with no_rate cron show ?thesis
          by (simp add: new_state_timer_def wpr_rules CreateCronTimer_def t_def [symmetric] rate_ok_def)
      next
        case (Inr sch)
        obtain a m1 where r: "register_timer sch (EnforceConfig (StateConfigurationId c)) (sm_tm s) = (a, m1)" by fastforce
        have "steady sch" using Inr by (auto simp: NewCronScheduled_def split: sum.splits prod.splits if_splits)
        from step [OF r this assms] no_rate cron Inr r show ?thesis
          by (simp add: new_state_timer_def wpr_rules CreateCronTimer_def t_def [symmetric])
      qed
    next
      case False
      with no_rate show ?thesis by (simp add: new_state_timer_def wpr_rules rate_ok_def)
    qed
  qed
qed

lemma run_timer_spec:
  assumes "live (sm_tm s) a d" "tm_ok (sm_tm s)"
  shows "wpr (run_timer me a) (\<lambda>_ s1. stateConfigTimers s1 = stateConfigTimers s \<and> stateManageTimer s1 = stateManageTimer s
     \<and> tm_ok (sm_tm s1) \<and> tm_timers (sm_tm s1) = tm_timers (sm_tm s)
     \<and> (\<forall>b d. live (sm_tm s) b d \<longrightarrow> live (sm_tm s1) b d)) (\<lambda>_ _. False) s"
proof -
  obtain t where t: "tm_heap (sm_tm s) a = Some t" "steady (Schedule t)" using assms(1) by (auto simp: live_def)
  define now where "now = clock (ge_env me) (ticks (sm_world s))"
  obtain r t1 where run: "TimerRun (ge_cron me) now t = (r, t1)" by fastforce
  note f = TimerRun_steady [OF t(2) run]
  have "live ((sm_tm s)\<lparr>tm_heap := (tm_heap (sm_tm s))(a \<mapsto> t1)\<rparr>) b d" if "live (sm_tm s) b d" for b d
    using live_run [OF that t(1)] f by blast
  moreover have "tm_ok ((sm_tm s)\<lparr>tm_heap := (tm_heap (sm_tm s))(a \<mapsto> t1)\<rparr>)"
    using tm_ok_heap_update [OF assms(2)] t(1) by simp
  moreover obtain e where "r = Returns e" using f by (auto simp: not_panics_iff)
  ultimately show ?thesis
    using t(1) run by (simp add: run_timer_def wpr_rules run_pointer_def now_def [symmetric] split_beta Let_def)
qed

definition entry_of :: "nat \<Rightarrow> StateConfiguration \<Rightarrow> StateConfigTimer" where
  "entry_of a c = \<lparr>sct_timer = a, sct_scheduleType = ScheduleType c, sct_scheduleExpression = ScheduleExpression c\<rparr>"

lemma update_fresh: "k \<notin> fst ` set al \<Longrightarrow> AList.update k v al = al @ [(k, v)]"
  by (induction al) auto

text \<open>Setting up the timer of a configuration that has none.\<close>

lemma setup_spec:
  assumes ok: "sm_ok s" and fresh: "StateConfigurationId c \<notin> fst ` set (stateConfigTimers s)"
  shows "wpr (setupStateConfigTimer me c) (\<lambda>_ s1. sm_ok s1
     \<and> set (tm_timers (sm_tm s1)) - owned s1 = set (tm_timers (sm_tm s)) - owned s
     \<and> (stateConfigTimers s1 = stateConfigTimers s \<and> \<not> rate_ok c
        \<or> (rate_ok c \<or> ScheduleType c = ''cron'')
          \<and> (\<exists>a. stateConfigTimers s1 = AList.update (StateConfigurationId c) (entry_of a c) (stateConfigTimers s)))) (\<lambda>_ _. False) s"
proof -
  let ?k = "StateConfigurationId c"
  have tm: "tm_ok (sm_tm s)" and ds: "distinct (map fst (stateConfigTimers s))"
    and lives: "\<And>k t. (k, t) \<in> set (stateConfigTimers s) \<Longrightarrow> live (sm_tm s) (sct_timer t) (EnforceConfig k)"
    and main: "\<And>a. stateManageTimer s = Some a \<Longrightarrow> live (sm_tm s) a RefreshConfigs"
    using ok by (auto simp: sm_ok_def)
  have upd: "AList.update ?k v (stateConfigTimers s) = stateConfigTimers s @ [(?k, v)]" for v
    by (rule update_fresh [OF fresh])
  show ?thesis
    unfolding setupStateConfigTimer_def wpr_seq
  proof (rule wpr_mono [OF new_state_timer_spec [OF tm]], goal_cases)
    case (1 r s1)
    show ?case
    proof (cases r)
      case (Inl e)
      with 1 ok show ?thesis by (auto simp: wpr_rules sm_ok_def owned_def)
    next
      case (Inr a)
      with 1 have s1: "stateConfigTimers s1 = stateConfigTimers s" "stateManageTimer s1 = stateManageTimer s" "tm_ok (sm_tm s1)"
        "a \<notin> set (tm_timers (sm_tm s))" "set (tm_timers (sm_tm s1)) = insert a (set (tm_timers (sm_tm s)))"
        "live (sm_tm s1) a (EnforceConfig ?k)" "\<And>b d. live (sm_tm s) b d \<Longrightarrow> live (sm_tm s1) b d" "rate_ok c \<or> ScheduleType c = ''cron''"
        by auto
      have "wpr (run_timer me a) (\<lambda>e s2. sm_ok (s2\<lparr>stateConfigTimers := AList.update ?k (entry_of a c) (stateConfigTimers s2)\<rparr>)
        \<and> stateConfigTimers s2 = stateConfigTimers s \<and> set (tm_timers (sm_tm s2)) = insert a (set (tm_timers (sm_tm s)))) (\<lambda>_ _. False) s1"
      proof (rule wpr_mono [OF run_timer_spec [OF s1(6,3)]], goal_cases)
        case (1 x s2)
        then have s2: "stateConfigTimers s2 = stateConfigTimers s" "stateManageTimer s2 = stateManageTimer s" "tm_ok (sm_tm s2)"
          "tm_timers (sm_tm s2) = tm_timers (sm_tm s1)" "\<And>b d. live (sm_tm s1) b d \<Longrightarrow> live (sm_tm s2) b d"
          using s1(1,2) by auto
        have "sm_ok (s2\<lparr>stateConfigTimers := AList.update ?k (entry_of a c) (stateConfigTimers s2)\<rparr>)"
          unfolding sm_ok_def using s2 s1(5,6,7) lives main ds fresh by (auto simp: upd entry_of_def)
        with s2 s1(5) show ?case by simp
      qed simp
      then show ?thesis unfolding Inr sum.case wpr_seq wpr_modify wpr_ret entry_of_def [symmetric]
        by (rule wpr_mono) (use s1(4,8) in \<open>auto simp: owned_def upd entry_of_def\<close>)
    qed
  qed simp
qed

section \<open>Reconciling the timers\<close>

definition timer_of :: "('e, 'l) state_manager \<Rightarrow> string \<Rightarrow> StateConfigTimer option" where
  "timer_of s k = map_of (stateConfigTimers s) k"

definition foreign :: "('e, 'l) state_manager \<Rightarrow> nat set" where
  "foreign s = set (tm_timers (sm_tm s)) - owned s"

definition matches :: "StateConfiguration \<Rightarrow> StateConfigTimer \<Rightarrow> bool" where
  "matches c t \<longleftrightarrow> sct_scheduleType t = ScheduleType c \<and> sct_scheduleExpression t = ScheduleExpression c"

text \<open>What a refresh may do to the timer of one configuration: an entry with the same schedule stays; any
  other one is replaced by an entry with the schedule of the configuration, which is missing only if the
  schedule is not a valid rate.\<close>

definition fits :: "StateConfiguration \<Rightarrow> StateConfigTimer option \<Rightarrow> StateConfigTimer option \<Rightarrow> bool" where
  "fits c old new \<longleftrightarrow>
     (\<forall>t. old = Some t \<and> matches c t \<longrightarrow> new = old)
     \<and> (case new of
          None \<Rightarrow> \<not> rate_ok c
        | Some t \<Rightarrow> matches c t \<and> (new = old \<or> rate_ok c \<or> ScheduleType c = ''cron''))"

lemma isScheduleChanged_iff:
  "isScheduleChanged s c \<longleftrightarrow> \<not> (\<exists>t. timer_of s (StateConfigurationId c) = Some t \<and> matches c t)"
  by (auto simp: isScheduleChanged_def timer_of_def matches_def split: option.split)

lemma refresh_one_spec:
  assumes ok: "sm_ok s"
  shows "wpr (refreshStateConfigTimer me c) (\<lambda>_ s1. sm_ok s1 \<and> foreign s1 = foreign s
     \<and> (\<forall>k. k \<noteq> StateConfigurationId c \<longrightarrow> timer_of s1 k = timer_of s k)
     \<and> fits c (timer_of s (StateConfigurationId c)) (timer_of s1 (StateConfigurationId c))) (\<lambda>_ _. False) s"
proof (cases "isScheduleChanged s c")
  case False
  then obtain t where "timer_of s (StateConfigurationId c) = Some t" "matches c t" by (auto simp: isScheduleChanged_iff)
  with False ok show ?thesis by (simp add: refreshStateConfigTimer_def wpr_rules fits_def)
next
  case True
  then have changed: "\<not> (\<exists>t. timer_of s (StateConfigurationId c) = Some t \<and> matches c t)" by (simp add: isScheduleChanged_iff)
  have "wpr (setupStateConfigTimer me c) (\<lambda>_ s2. sm_ok s2 \<and> foreign s2 = foreign s
      \<and> (\<forall>k. k \<noteq> StateConfigurationId c \<longrightarrow> timer_of s2 k = timer_of s k)
      \<and> fits c (timer_of s (StateConfigurationId c)) (timer_of s2 (StateConfigurationId c))) (\<lambda>_ _. False) s1"
    if s1: "sm_ok s1" "stateConfigTimers s1 = AList.delete (StateConfigurationId c) (stateConfigTimers s)" "foreign s1 = foreign s" for s1
  proof (rule wpr_mono [OF setup_spec [OF s1(1)]], goal_cases)
    case 1
    show ?case unfolding s1(2) by (rule AList.delete_notin_dom)
  next
    case (2 e s2)
    then show ?case using s1(2,3) changed
      by (auto simp: foreign_def timer_of_def fits_def matches_def entry_of_def delete_conv' update_conv')
  qed
  note setup_after = this
  show ?thesis
    unfolding refreshStateConfigTimer_def wpr_seq wpr_look if_P [OF True]
  proof (rule wpr_mono [OF tearDown_spec [OF ok]], goal_cases)
    case (1 u s1)
    then show ?case unfolding wpr_seq wpr_ret by (intro setup_after) (simp_all add: foreign_def)
  qed simp
qed

lemma refresh_all_spec:
  assumes "sm_ok s" "distinct (map StateConfigurationId configs)"
  shows "wpr (each (refreshStateConfigTimer me) configs) (\<lambda>_ s1. sm_ok s1 \<and> foreign s1 = foreign s
     \<and> (\<forall>k. k \<notin> StateConfigurationId ` set configs \<longrightarrow> timer_of s1 k = timer_of s k)
     \<and> (\<forall>c \<in> set configs. fits c (timer_of s (StateConfigurationId c)) (timer_of s1 (StateConfigurationId c)))) (\<lambda>_ _. False) s"
  using assms
proof (induction configs arbitrary: s)
  case (Cons c configs)
  show ?case unfolding each.simps wpr_seq
  proof (rule wpr_mono [OF refresh_one_spec [OF Cons.prems(1)]], goal_cases)
    case (1 u s1)
    then have s1: "sm_ok s1" "foreign s1 = foreign s" "\<And>k. k \<noteq> StateConfigurationId c \<Longrightarrow> timer_of s1 k = timer_of s k"
      "fits c (timer_of s (StateConfigurationId c)) (timer_of s1 (StateConfigurationId c))" by auto
    have d: "distinct (map StateConfigurationId configs)" "StateConfigurationId c \<notin> StateConfigurationId ` set configs"
      using Cons.prems(2) by auto
    show ?case
    proof (rule wpr_mono [OF Cons.IH [OF s1(1) d(1)]], goal_cases)
      case (1 v s2)
      have same: "timer_of s1 (StateConfigurationId c') = timer_of s (StateConfigurationId c')" if "c' \<in> set configs" for c'
        using s1(3) [of "StateConfigurationId c'"] d(2) that by (metis image_eqI)
      have "timer_of s2 (StateConfigurationId c) = timer_of s1 (StateConfigurationId c)" using 1 d(2) by blast
      then have "fits c' (timer_of s (StateConfigurationId c')) (timer_of s2 (StateConfigurationId c'))" if "c' \<in> set (c # configs)" for c'
        using 1 s1(4) same [of c'] that by (cases "c' \<in> set configs") auto
      moreover have "timer_of s2 k = timer_of s k" if "k \<notin> StateConfigurationId ` set (c # configs)" for k
        using 1 s1(3) [of k] that by simp
      ultimately show ?case using 1 s1(2) by blast
    qed simp
  qed simp
qed (simp add: wpr_ret)

lemma cleanup_spec:
  assumes "sm_ok s"
  shows "wpr (each (\<lambda>k. if k \<in> ids then ret () else tearDownStateConfigTimer k) ks) (\<lambda>_ s1. sm_ok s1 \<and> foreign s1 = foreign s
     \<and> (\<forall>k. timer_of s1 k = (if k \<in> set ks \<and> k \<notin> ids then None else timer_of s k))) (\<lambda>_ _. False) s"
  using assms
proof (induction ks arbitrary: s)
  case (Cons k ks)
  have "wpr (if k \<in> ids then ret () else tearDownStateConfigTimer k) (\<lambda>_ s1. sm_ok s1 \<and> foreign s1 = foreign s
      \<and> (\<forall>j. timer_of s1 j = (if j = k \<and> k \<notin> ids then None else timer_of s j))) (\<lambda>_ _. False) s"
  proof (cases "k \<in> ids")
    case True
    with Cons.prems show ?thesis by (simp add: wpr_ret)
  next
    case False
    show ?thesis unfolding if_not_P [OF False]
      by (rule wpr_mono [OF tearDown_spec [OF Cons.prems]]) (auto simp: foreign_def timer_of_def delete_conv' False)
  qed
  then show ?case unfolding each.simps wpr_seq
  proof (rule wpr_mono, goal_cases)
    case (1 u s1)
    show ?case
    proof (rule wpr_mono [OF Cons.IH], goal_cases)
      case 1
      then show ?case using \<open>sm_ok s1 \<and> _\<close> by simp
    next
      case (2 v s2)
      with \<open>sm_ok s1 \<and> _\<close> show ?case by auto
    qed simp
  qed simp
qed (simp add: wpr_ret)


section \<open>The whole refresh\<close>

lemma sm_ok_frame [simp]:
  "sm_ok (s\<lparr>sm_inventory := x\<rparr>) = sm_ok s" "sm_ok (s\<lparr>refreshIntervalSeconds := i\<rparr>) = sm_ok s"
  "sm_ok (s\<lparr>sm_starters := n\<rparr>) = sm_ok s" "sm_ok (s\<lparr>stateConfigs := f\<rparr>) = sm_ok s"
  "sm_ok (s\<lparr>stateConfigCache := c\<rparr>) = sm_ok s" "sm_ok (s\<lparr>sm_reports := r\<rparr>) = sm_ok s"
  by (simp_all add: sm_ok_def)

lemma wpr_case_prod_all: "(\<And>x y. p = (x, y) \<Longrightarrow> wpr (f x y) Q P s) \<Longrightarrow> wpr (case p of (x, y) \<Rightarrow> f x y) Q P s"
  by (cases p) simp

lemma Cancel_ok:
  assumes "sm_ok s"
  shows "wpr CancelStateManagerTimer (\<lambda>_ s1. sm_ok s1 \<and> stateManageTimer s1 = None) (\<lambda>_ _. False) s"
proof (cases "stateManageTimer s")
  case None
  with assms show ?thesis by (simp add: CancelStateManagerTimer_def wpr_rules)
next
  case (Some a)
  then have a: "live (sm_tm s) a RefreshConfigs" and tm: "tm_ok (sm_tm s)" using assms by (auto simp: sm_ok_def)
  obtain m1 where m1: "DeleteTimer a (sm_tm s) = Some m1" "tm_ok m1" "\<And>b d. live (sm_tm s) b d \<Longrightarrow> b \<noteq> a \<Longrightarrow> live m1 b d"
    using delete_live [OF tm a] by metis
  have "live m1 (sct_timer t) (EnforceConfig k)" if "(k, t) \<in> set (stateConfigTimers s)" for k t
  proof -
    have l: "live (sm_tm s) (sct_timer t) (EnforceConfig k)" using assms that by (auto simp: sm_ok_def)
    then have "sct_timer t \<noteq> a" using live_callback [OF l, of RefreshConfigs] a by auto
    with m1(3) [OF l] show ?thesis .
  qed
  with m1 Some assms show ?thesis
    by (auto simp: CancelStateManagerTimer_def wpr_rules sm_ok_def intro!: exI [of _ m1])
qed

lemma Init_ok:
  assumes "sm_ok s" shows "wpr InitStateManagerTimer (\<lambda>_ s1. sm_ok s1) (\<lambda>_ _. False) s"
proof (cases "stateManageTimer s")
  case (Some a)
  with assms show ?thesis by (simp add: InitStateManagerTimer_def wpr_rules)
next
  case None
  obtain a m1 where r: "register_timer (NewMutableScheduled (wrap64 (refreshIntervalSeconds s * second))) RefreshConfigs (sm_tm s) = (a, m1)"
    by fastforce
  have "tm_ok (sm_tm s)" using assms by (simp add: sm_ok_def)
  note l = live_register [OF this r]
  have "steady (NewMutableScheduled (wrap64 (refreshIntervalSeconds s * second)))" by (simp add: NewMutableScheduled_def)
  with l assms None r show ?thesis
    by (auto simp: InitStateManagerTimer_def wpr_rules CreateTimerInSeconds_def CreateTimerInNanoseconds_def sm_ok_def)
qed

lemma reschedule_ok:
  assumes "sm_ok s" shows "wpr (reschedule n) (\<lambda>_ s1. sm_ok s1) (\<lambda>_ _. False) s"
  unfolding reschedule_def wpr_seq wpr_modify wpr_ret
  by (rule wpr_mono [OF Cancel_ok]) (use assms Init_ok in auto)

lemma refresh_timers_ok:
  assumes "sm_ok s" shows "wpr (refreshStateConfigTimers me configs) (\<lambda>_ s1. sm_ok s1) (\<lambda>_ _. False) s"
  unfolding refreshStateConfigTimers_def wpr_seq
proof (rule wpr_mono [OF wpr_each [where I = sm_ok and P = "\<lambda>_ _. False", OF assms]])
  fix c s1 assume "sm_ok (s1 :: ('a, 'b) state_manager)"
  then show "wpr (refreshStateConfigTimer me c) (\<lambda>_. sm_ok) (\<lambda>_ _. False) s1"
    by (rule wpr_mono [OF refresh_one_spec]) auto
next
  fix s1 assume "sm_ok (s1 :: ('a, 'b) state_manager)"
  then show "wpr (cleanupDeleted (replicate (length configs) [] @ map StateConfigurationId configs)) (\<lambda>_. sm_ok) (\<lambda>_ _. False) s1"
    unfolding cleanupDeleted_def wpr_seq wpr_look by (rule wpr_mono [OF cleanup_spec]) auto
qed simp

lemma use_result_ok:
  assumes "sm_ok s" shows "wpr (use_result me result) (\<lambda>_ s1. sm_ok s1) (\<lambda>_ s1. sm_ok s1) s"
proof (cases result)
  case None
  with assms show ?thesis by (simp add: use_result_def wpr_rules)
next
  case (Some r)
  define n where "n = (if Interval r = 0 then DefaultRefreshIntervalSeconds else Interval r)"
  have "wpr (reschedule n) (\<lambda>_ s1. sm_ok s1) (\<lambda>_ s1. sm_ok s1) s"
    by (rule wpr_mono [OF reschedule_ok [OF assms]]) auto
  moreover have "wpr (refreshStateConfigTimers me (StateConfigurations r)) (\<lambda>_ s1. sm_ok s1) (\<lambda>_ s1. sm_ok s1)
      (s\<lparr>stateConfigs := map_of (rev (map (\<lambda>c. (StateConfigurationId c, c)) (StateConfigurations r)))\<rparr>)"
    by (rule wpr_mono [OF refresh_timers_ok]) (use assms in auto)
  ultimately show ?thesis using Some
    by (simp add: use_result_def n_def [symmetric] wpr_seq wpr_look wpr_if updateStateConfigs_def wpr_modify)
qed

text \<open>The programs that only look at files and the network keep the invariant; they neither block nor panic.\<close>

lemma LoadConfigCache_ok:
  assumes "sm_ok s" shows "wpr (LoadConfigCache me) (\<lambda>_ s1. sm_ok s1) (\<lambda>_ _. False) s"
  using assms unfolding LoadConfigCache_def ConfigCacheFilePath_def
  by (simp add: wpr_rules split: option.split prod.split sum.split)

lemma WriteConfigCache_ok:
  assumes "sm_ok s" shows "wpr (WriteConfigCache me r) (\<lambda>_ s1. sm_ok s1) (\<lambda>_ _. False) s"
  using assms unfolding WriteConfigCache_def ConfigCacheFilePath_def
  by (simp add: wpr_rules split: option.split prod.split sum.split)

lemma refresh_body_ok:
  assumes "sm_ok s" shows "wpr (refresh_body me) (\<lambda>_ s1. sm_ok s1) (\<lambda>_ s1. sm_ok s1) s"
  unfolding refresh_body_def wpr_seq
proof (rule wpr_mono [OF LoadConfigCache_ok [OF assms]], goal_cases)
  case (1 cached s1)
  note 1 [simp]
  have again: "wpr (reschedule n) (\<lambda>_ s1. sm_ok s1) (\<lambda>_ s1. sm_ok s1) s2" if "sm_ok s2" for n s2
    by (rule wpr_mono [OF reschedule_ok [OF that]]) auto
  have cached_result: "wpr (WriteConfigCache me r) (\<lambda>x. wpr (use_result me (Some r)) (\<lambda>_ s1. sm_ok s1) (\<lambda>_ s1. sm_ok s1)) (\<lambda>_ s1. sm_ok s1) s2"
    if "sm_ok s2" for r s2
    by (rule wpr_mono [OF WriteConfigCache_ok [OF that]]) (auto intro: use_result_ok)
  show ?case
    by (cases cached) (auto simp: wpr_seq wpr_now_of wpr_on_w wpr_look wpr_ret Let_def intro!: use_result_ok again cached_result
        split: prod.split option.split)
qed simp

text \<open>C34. A refresh of the configurations always ends, whatever the server and the machine answer: it never
  blocks, a panic is recovered, and the invariant of the timers holds again.\<close>

theorem refreshStateConfigs_total:
  assumes "sm_ok s"
  shows "\<exists>s1. refreshStateConfigs me s = Some (Returns (), s1) \<and> sm_ok s1"
proof -
  have "wpr (refreshStateConfigs me) (\<lambda>_ s1. sm_ok s1) (\<lambda>_ _. False) s"
    unfolding refreshStateConfigs_def wpr_recovering
    by (rule wpr_mono [OF refresh_body_ok [OF assms]]) (auto simp: report_panic_def wpr_rules)
  then show ?thesis by (simp add: wpr_returns)
qed

section \<open>Enforcement\<close>

lemma floor_second: "(t - t mod second) < (u - u mod second) \<longleftrightarrow> t div second < u div second"
proof -
  have "t - t mod second = t div second * second" "u - u mod second = u div second * second"
    by (simp_all add: minus_mod_eq_div_mult)
  then show ?thesis by (simp add: second_def)
qed

text \<open>A configuration whose two times were written by the server in the layout of the interface counts as
  applied exactly when its definition was not updated after the second of its last success.\<close>

theorem hasApplied_times:
  assumes "SuccessfulApplyTime c = ApiTimeFormat t" "DefinitionUpdateTime c = ApiTimeFormat u"
    "\<And>x. x = t \<or> x = u \<Longrightarrow> - 719162 * 86400 * second \<le> x \<and> x < 2932897 * 86400 * second"
  shows "hasApplied c \<longleftrightarrow> u div second \<le> t div second"
proof -
  have p: "ParseApiTime (ApiTimeFormat t) = Some (t - t mod second)" "ParseApiTime (ApiTimeFormat u) = Some (u - u mod second)"
    using assms(3) [of t] assms(3) [of u] by (auto intro: parse_written_time)
  then have "ApiTimeFormat t \<noteq> []" "ApiTimeFormat u \<noteq> []" by (auto simp: ParseApiTime_def split: if_splits)
  then show ?thesis
    using assms(1,2) p floor_second [of t u] by (auto simp: hasApplied_def)
qed

lemma Monitor_result:
  "fst (resource_Monitor ge r iv) = Returns (st, x, e) \<Longrightarrow> st = Compliant \<and> e = None \<or> st = Failed \<and> e \<noteq> None"
  by (cases r) (auto simp: InventoryState_Monitor_def split_beta Let_def split: if_splits)

lemma Apply_result:
  "fst (resource_Apply ge r iv) = Returns (st, x, e) \<Longrightarrow> st = Compliant \<and> e = None \<or> st = Failed \<and> e \<noteq> None"
  using Monitor_result [of ge r iv st x e] by (cases r) simp_all

lemma on_resource_spec:
  assumes "f = resource_Apply \<or> f = resource_Monitor"
  shows "wpr (on_resource f me rs) (\<lambda>(st, x, e) s1. sm_reports s1 = sm_reports s \<and> (st = Compliant \<and> e = None \<or> st = Failed \<and> e \<noteq> None))
    (\<lambda>_ s1. sm_reports s1 = sm_reports s) s"
  using assms
  by (auto simp: on_resource_def wpr_rules split_beta Let_def split: option.split outcome.split
      dest: Apply_result Monitor_result)

definition in_order :: "string \<Rightarrow> (string \<times> string) list \<Rightarrow> bool" where
  "in_order status items \<longleftrightarrow> status = Compliant \<and> items = [] \<or> status = Failed \<and> items \<noteq> []"

lemma statuses: "Failed \<noteq> Compliant" "Compliant \<noteq> NotCompliant" "Failed \<noteq> NotCompliant" "Compliant \<noteq> []" "Failed \<noteq> []"
  "Apply \<noteq> Skip" "Monitor \<noteq> Skip" "Monitor \<noteq> Apply"
  by (simp_all add: Failed_def Compliant_def NotCompliant_def Apply_def Monitor_def Skip_def)

lemma apply_loop_spec:
  assumes "rss \<noteq> [] \<or> in_order (fst acc) (fst (snd acc))" "fst (snd acc) = []"
  shows "wpr (apply_loop me rss i acc) (\<lambda>r s1. sm_reports s1 = sm_reports s \<and> in_order (fst r) (fst (snd r)))
    (\<lambda>_ s1. sm_reports s1 = sm_reports s) s"
  using assms
proof (induction rss arbitrary: i acc s)
  case (Cons rs rss)
  show ?case unfolding apply_loop.simps wpr_seq
  proof (rule wpr_mono [OF on_resource_spec [of resource_Apply]], goal_cases)
    case (2 r s1)
    obtain st x e where r: "r = (st, x, e)" by (cases r)
    with 2 consider "st = Compliant" "e = None" "sm_reports s1 = sm_reports s" | "st = Failed" "e \<noteq> None" "sm_reports s1 = sm_reports s" by auto
    then show ?case
    proof cases
      case 1
      have "wpr (apply_loop me rss (Suc i) (Compliant, fst (snd acc), None)) (\<lambda>r s2. sm_reports s2 = sm_reports s1 \<and> in_order (fst r) (fst (snd r)))
          (\<lambda>_ s2. sm_reports s2 = sm_reports s1) s1"
        by (rule Cons.IH) (use Cons.prems(2) in \<open>simp_all add: in_order_def\<close>)
      with 1 statuses show ?thesis by (auto simp: r)
    next
      case 2
      with statuses show ?thesis by (auto simp: r wpr_ret in_order_def split: option.split)
    qed
  qed simp_all
qed (auto simp: wpr_ret)

lemma monitor_loop_spec:
  assumes "in_order (fst acc) (fst (snd acc))" "fst (snd acc) = []"
  shows "wpr (monitor_loop me rss i acc) (\<lambda>r s1. sm_reports s1 = sm_reports s \<and> in_order (fst r) (fst (snd r)))
    (\<lambda>_ s1. sm_reports s1 = sm_reports s) s"
  using assms
proof (induction rss arbitrary: i acc s)
  case (Cons rs rss)
  show ?case unfolding monitor_loop.simps wpr_seq
  proof (rule wpr_mono [OF on_resource_spec [of resource_Monitor]], goal_cases)
    case (2 r s1)
    obtain st x e where r: "r = (st, x, e)" by (cases r)
    with 2 consider "st = Compliant" "e = None" "sm_reports s1 = sm_reports s" | "st = Failed" "e \<noteq> None" "sm_reports s1 = sm_reports s" by auto
    then show ?case
    proof cases
      case 1
      have "wpr (monitor_loop me rss (Suc i) (fst acc, fst (snd acc), None)) (\<lambda>r s2. sm_reports s2 = sm_reports s1 \<and> in_order (fst r) (fst (snd r)))
          (\<lambda>_ s2. sm_reports s2 = sm_reports s1) s1"
        by (rule Cons.IH) (use Cons.prems in simp_all)
      with 1 statuses show ?thesis by (auto simp: r)
    next
      case 2
      with statuses show ?thesis by (auto simp: r wpr_ret in_order_def split: option.split)
    qed
  qed simp_all
qed (auto simp: wpr_ret)

lemma run_states_spec:
  assumes "rss \<noteq> []" "mode = Apply \<or> mode = Monitor"
  shows "wpr (run_states me mode rss) (\<lambda>r s1. sm_reports s1 = sm_reports s \<and> in_order (fst r) (fst (snd r)))
    (\<lambda>_ s1. sm_reports s1 = sm_reports s) s"
  using assms statuses apply_loop_spec [of rss "([], [], None)" me 0 s] monitor_loop_spec [of "(Compliant, [], None)" me rss 0 s]
  by (auto simp: run_states_def in_order_def)

definition failed_report :: "StateConfiguration \<Rightarrow> (string \<times> string \<times> string \<times> (string \<times> string) list) list \<Rightarrow> bool" where
  "failed_report c rs \<longleftrightarrow> (\<exists>status items. rs = [(StateConfigurationId c, status, getMode c, items)] \<and> in_order status items)"

lemma TemplateCachePath_spec: "wpr (TemplateCachePath me n v) (\<lambda>_ s1. sm_reports s1 = sm_reports s) (\<lambda>_ _. False) s"
  unfolding TemplateCachePath_def by (auto simp: wpr_rules split: prod.split option.split)

lemma LoadTemplateCache_spec: "wpr (LoadTemplateCache me n v) (\<lambda>_ s1. sm_reports s1 = sm_reports s) (\<lambda>_ _. False) s"
  unfolding LoadTemplateCache_def wpr_seq
  by (rule wpr_mono [OF TemplateCachePath_spec]) (auto simp: wpr_rules split: sum.split)

lemma WriteTemplateCache_spec: "wpr (WriteTemplateCache me n v d) (\<lambda>_ s1. sm_reports s1 = sm_reports s) (\<lambda>_ _. False) s"
  unfolding WriteTemplateCache_def wpr_seq
  by (rule wpr_mono [OF TemplateCachePath_spec]) (auto simp: wpr_rules split: sum.split)

lemma template_content_spec:
  "wpr (template_content me c (getMode c)) (\<lambda>r s1. case r of Inr t \<Rightarrow> sm_reports s1 = sm_reports s
      | Inl e \<Rightarrow> \<exists>rs. sm_reports s1 = sm_reports s @ rs \<and> failed_report c rs) (\<lambda>_ s1. sm_reports s1 = sm_reports s) s"
  unfolding template_content_def wpr_seq
proof (rule wpr_mono [OF LoadTemplateCache_spec], goal_cases)
  case (1 cached s1)
  have saved: "wpr (WriteTemplateCache me n v d) (\<lambda>x. wpr (ret (Inr d')) (\<lambda>r s1. case r of Inr t \<Rightarrow> sm_reports s1 = sm_reports s
      | Inl e \<Rightarrow> \<exists>rs. sm_reports s1 = sm_reports s @ rs \<and> failed_report c rs) (\<lambda>_ s1. sm_reports s1 = sm_reports s))
      (\<lambda>_ s1. sm_reports s1 = sm_reports s) s2"
    if "sm_reports s2 = sm_reports s" for n v d d' s2
    by (rule wpr_mono [OF WriteTemplateCache_spec]) (use that in \<open>auto simp: wpr_ret\<close>)
  show ?case
    using 1 by (auto simp: wpr_seq wpr_on_w wpr_panic reportResult_def wpr_modify failed_report_def in_order_def
        intro!: saved split: prod.split option.split simp: wpr_ret)
qed simp


section \<open>Resources of an unknown type\<close>

text \<open>A template whose first resource has an unknown type is accepted, because the error of the resource
  is not looked at, and running it panics on the missing resource before anything is reported.\<close>

theorem unsupported_resource_panics:
  assumes "ge_template me content = Inr t" "States t = st # sts" "ResourceType st \<notin> {''ACS:Inventory'', ''ACS:File''}"
    "trim_space ps = []" "mode = Apply \<or> mode = Monitor"
  shows "\<exists>rss. ParseResourceState (template_env.truncate me) content ps = Inr rss
     \<and> run_states me mode rss s = Some (Panics NilDereference, s)"
proof -
  have "fst (NewResourceState (template_env.truncate me) (resolved_state f st)) = None" for f
    using assms(3) by (simp add: NewResourceState_def resolved_state_def)
  then obtain rss where "ParseResourceState (template_env.truncate me) content ps = Inr (None # rss)"
    using assms(1,2,4) by (simp add: ParseResourceState_def ParseStateTemplate_def template_env.defs Let_def)
  moreover have "run_states me mode (None # rss) s = Some (Panics NilDereference, s)"
    using assms(5) by (auto simp: run_states_def on_resource_def prog_defs Apply_def Monitor_def)
  ultimately show ?thesis by blast
qed

section \<open>Examples\<close>

definition file_template :: StateTemplate where
  "file_template = \<lparr>FormatVersion = ''1'', tp_Parameters = [], States = [\<lparr>ResourceType = ''ACS:Disk'', Properties = []\<rparr>]\<rparr>"

definition sample_manager :: "(int, unit) manager_env" where
  "sample_manager = template_env.extend
     (upload_env.extend sample_upload (template_env.fields (\<lambda>s. Inr file_template) (\<lambda>s. Inr []) (\<lambda>v. [])))
     (manager_env.fields toy_lib (\<lambda>s. (empty_response, None)) (\<lambda>s. (empty_response, None)) (\<lambda>s. (empty_response, None))
        (\<lambda>s. Inl (PlainError ''no cache'')) (\<lambda>r. ''{}'') (\<lambda>n. undefined) (\<lambda>n. 0) (\<lambda>p. ''panic'') ''stack'')"

definition idle_manager :: "(int, unit) state_manager" where
  "idle_manager = \<lparr>sm_inventory = empty_inventory, refreshIntervalSeconds = 1800, stateManageTimer = None, sm_starters = 0,
     stateConfigs = Map.empty, stateConfigCache = None, stateConfigTimers = [],
     sm_tm = \<lparr>tm_heap = Map.empty, tm_fresh = 0, tm_timers = []\<rparr>, sm_reports = []\<rparr>"

definition hourly :: StateConfiguration where
  "hourly = \<lparr>StateConfigurationId = ''sc-1'', TemplateName = ''files'', TemplateVersion = ''v1'', Parameters = [],
     ConfigureMode = ApplyAndMonitor, ScheduleType = ''rate'', ScheduleExpression = ''1 hour'',
     SuccessfulApplyTime = ApiTimeFormat 0, DefinitionUpdateTime = ApiTimeFormat second\<rparr>"

lemma trim_nothing: "trim_space [] = []"
  by code_simp

lemma idle_ok: "sm_ok idle_manager"
  by (simp add: sm_ok_def idle_manager_def tm_ok_def)

theorem unsupported_resource_panics_witness:
  "\<exists>rss. ParseResourceState (template_env.truncate sample_manager) [] [] = Inr rss
     \<and> run_states sample_manager Apply rss idle_manager = Some (Panics NilDereference, idle_manager)"
  by (rule unsupported_resource_panics [of _ _ file_template "\<lparr>ResourceType = ''ACS:Disk'', Properties = []\<rparr>" "[]"])
    (simp_all add: sample_manager_def sample_upload_def file_template_def upload_env.defs template_env.defs manager_env.defs trim_nothing)


theorem refreshStateConfigs_total_witness:
  "\<exists>s1. refreshStateConfigs sample_manager idle_manager = Some (Returns (), s1) \<and> sm_ok s1"
  by (rule refreshStateConfigs_total [OF idle_ok])

theorem hasApplied_times_witness: "\<not> hasApplied hourly"
proof -
  have "hasApplied hourly \<longleftrightarrow> second div second \<le> 0 div second"
    by (rule hasApplied_times) (auto simp: hourly_def second_def)
  then show ?thesis by (simp add: second_def)
qed

end
