(* ===== verification/Step_Monad.thy ===== *)
theory Step_Monad
  imports Task_Errors
begin

text \<open>
  Operations that change a state and may return an error, for the components whose functions are
  long sequences of such calls. A step gives back an error or a value, and the state in both cases,
  as a Go function does; \<open>wp\<close> is its weakest precondition for two postconditions, one for values
  and one for errors, and every combinator has a rewrite rule for it.
\<close>

section \<open>Steps\<close>

type_synonym ('s, 'a) step = "'s \<Rightarrow> (go_error + 'a) \<times> 's"

definition give :: "'a \<Rightarrow> ('s, 'a) step" where
  "give x s = (Inr x, s)"

definition raise :: "go_error \<Rightarrow> ('s, 'a) step" where
  "raise e s = (Inl e, s)"

definition bind :: "('s, 'a) step \<Rightarrow> ('a \<Rightarrow> ('s, 'b) step) \<Rightarrow> ('s, 'b) step" where
  "bind m f s = (case m s of (Inl e, s1) \<Rightarrow> (Inl e, s1) | (Inr x, s1) \<Rightarrow> f x s1)"

text \<open>\<open>handle\<close> goes on after an error, \<open>attempted\<close> makes a value of it, \<open>deferred\<close> stands for a deferred call.\<close>

definition handle :: "('s, 'a) step \<Rightarrow> (go_error \<Rightarrow> ('s, 'a) step) \<Rightarrow> ('s, 'a) step" where
  "handle m h s = (case m s of (Inl e, s1) \<Rightarrow> h e s1 | (Inr x, s1) \<Rightarrow> (Inr x, s1))"

definition attempted :: "('s, 'a) step \<Rightarrow> ('s, go_error + 'a) step" where
  "attempted m s = (let (r, s1) = m s in (Inr r, s1))"

definition deferred :: "('s, 'a) step \<Rightarrow> ('s \<Rightarrow> 's) \<Rightarrow> ('s, 'a) step" where
  "deferred m f s = (let (r, s1) = m s in (r, f s1))"

definition change :: "('s \<Rightarrow> 's) \<Rightarrow> ('s, unit) step" where
  "change f s = (Inr (), f s)"

definition skip_unless :: "bool \<Rightarrow> ('s, unit) step \<Rightarrow> ('s, unit) step" where
  "skip_unless b m = (if b then m else give ())"

text \<open>A call that gives back an error or nil.\<close>

definition fallible :: "('s \<Rightarrow> go_error option \<times> 's) \<Rightarrow> ('s, unit) step" where
  "fallible f s = (let (e, s1) = f s in (case e of None \<Rightarrow> Inr () | Some x \<Rightarrow> Inl x, s1))"

definition pure_call :: "('s \<Rightarrow> 'a \<times> 's) \<Rightarrow> ('s, 'a) step" where
  "pure_call f s = (let (x, s1) = f s in (Inr x, s1))"

definition sum_call :: "('s \<Rightarrow> (go_error + 'a) \<times> 's) \<Rightarrow> ('s, 'a) step" where
  "sum_call f s = f s"

lemmas step_defs = give_def raise_def bind_def handle_def attempted_def deferred_def change_def
  skip_unless_def fallible_def pure_call_def sum_call_def

section \<open>Weakest preconditions\<close>

definition wp :: "('s, 'a) step \<Rightarrow> ('a \<Rightarrow> 's \<Rightarrow> bool) \<Rightarrow> (go_error \<Rightarrow> 's \<Rightarrow> bool) \<Rightarrow> 's \<Rightarrow> bool" where
  "wp m Q E s = (case m s of (Inl e, s1) \<Rightarrow> E e s1 | (Inr x, s1) \<Rightarrow> Q x s1)"

named_theorems wp_rules "weakest preconditions of the combinators and of the operations"

lemma wp_give [wp_rules]: "wp (give x) Q E s = Q x s"
  and wp_raise [wp_rules]: "wp (raise e) Q E s = E e s"
  by (simp_all add: wp_def step_defs)

lemma wp_bind [wp_rules]: "wp (bind m f) Q E s = wp m (\<lambda>x. wp (f x) Q E) E s"
  by (auto simp: wp_def step_defs split: prod.splits sum.splits)

lemma wp_handle [wp_rules]: "wp (handle m h) Q E s = wp m Q (\<lambda>e. wp (h e) Q E) s"
  by (auto simp: wp_def step_defs split: prod.splits sum.splits)

lemma wp_attempted [wp_rules]: "wp (attempted m) Q E s = wp m (\<lambda>x. Q (Inr x)) (\<lambda>e. Q (Inl e)) s"
  by (auto simp: wp_def step_defs split: prod.splits sum.splits)

lemma wp_deferred [wp_rules]:
  "wp (deferred m d) Q E s = wp m (\<lambda>x s1. Q x (d s1)) (\<lambda>e s1. E e (d s1)) s"
  by (auto simp: wp_def step_defs split: prod.splits sum.splits)

lemma wp_change [wp_rules]: "wp (change g) Q E s = Q () (g s)"
  by (simp add: wp_def step_defs)

lemma wp_pure_call [wp_rules]: "wp (pure_call p) Q E s = Q (fst (p s)) (snd (p s))"
  by (auto simp: wp_def step_defs split: prod.splits)

lemma wp_if [wp_rules]: "wp (if b then m else m') Q E s = (if b then wp m Q E s else wp m' Q E s)"
  by simp

lemma wp_skip_unless [wp_rules]: "wp (skip_unless b u) Q E s = (if b then wp u Q E s else Q () s)"
  by (simp add: skip_unless_def wp_give)

lemma wp_case_prod [wp_rules]:
  "wp (case p of (x, y) \<Rightarrow> f x y) Q E s = (case p of (x, y) \<Rightarrow> wp (f x y) Q E s)"
  by (simp split: prod.split)

lemma wp_case_sum [wp_rules]:
  "wp (case r of Inl e \<Rightarrow> g e | Inr v \<Rightarrow> h v) Q E s = (case r of Inl e \<Rightarrow> wp (g e) Q E s | Inr v \<Rightarrow> wp (h v) Q E s)"
  by (simp split: sum.split)

lemma wp_case_option [wp_rules]:
  "wp (case w of None \<Rightarrow> m | Some v \<Rightarrow> h v) Q E s = (case w of None \<Rightarrow> wp m Q E s | Some v \<Rightarrow> wp (h v) Q E s)"
  by (simp split: option.split)

lemma wp_fallible [wp_rules]:
  "wp (fallible f) Q E s = (case fst (f s) of None \<Rightarrow> Q () (snd (f s)) | Some e \<Rightarrow> E e (snd (f s)))"
  by (simp add: wp_def fallible_def split_beta split: option.split)

lemma wp_sum_call [wp_rules]:
  "wp (sum_call f) Q E s = (case fst (f s) of Inl e \<Rightarrow> E e (snd (f s)) | Inr x \<Rightarrow> Q x (snd (f s)))"
  by (simp add: wp_def sum_call_def split_beta)

lemma wp_mono:
  "wp m Q E s \<Longrightarrow> (\<And>x s1. Q x s1 \<Longrightarrow> Q' x s1) \<Longrightarrow> (\<And>e s1. E e s1 \<Longrightarrow> E' e s1) \<Longrightarrow> wp m Q' E' s"
  by (auto simp: wp_def split: prod.splits sum.splits)

lemma wp_conj:
  "wp m Q E s \<Longrightarrow> wp m Q' E' s \<Longrightarrow> wp m (\<lambda>x s1. Q x s1 \<and> Q' x s1) (\<lambda>e s1. E e s1 \<and> E' e s1) s"
  by (auto simp: wp_def split: prod.splits sum.splits)

text \<open>What a postcondition says of the run itself.\<close>

lemma wp_run:
  assumes "wp m Q E s"
  shows "(\<exists>e s1. m s = (Inl e, s1) \<and> E e s1) \<or> (\<exists>x s1. m s = (Inr x, s1) \<and> Q x s1)"
  using assms by (auto simp: wp_def split: prod.splits sum.splits)

lemma wp_valueD: "wp m Q E s \<Longrightarrow> m s = (Inr x, s1) \<Longrightarrow> Q x s1"
  by (simp add: wp_def)

lemma wp_errorD: "wp m Q E s \<Longrightarrow> m s = (Inl e, s1) \<Longrightarrow> E e s1"
  by (simp add: wp_def)

lemma wp_bothD: "wp m (\<lambda>x. P) (\<lambda>e. P) s \<Longrightarrow> P (snd (m s))"
  by (auto simp: wp_def split: prod.splits sum.splits)

lemma wp_both: "wp m (\<lambda>x. P) (\<lambda>e. P) s = P (snd (m s))"
  by (auto simp: wp_def split: prod.splits sum.splits)

section \<open>The laws of the combinators\<close>

lemma bind_give [simp]: "bind (give x) f = f x"
  by (auto simp: bind_def give_def)

lemma bind_raise [simp]: "bind (raise e) f = raise e"
  by (auto simp: bind_def raise_def)

lemma bind_assoc: "bind (bind m f) g = bind m (\<lambda>x. bind (f x) g)"
  by (rule ext) (auto simp: bind_def split: prod.split sum.split)

end
