(* ===== verification/Registries.thy ===== *)
theory Registries
  imports Task_Models "HOL-Library.AList"
begin

text \<open>
  The registries of running work: \<open>agent/taskengine/taskfactory.go\<close> and
  \<open>agent/taskengine/sessionfactory.go\<close>. Both are a Go map from a name to a pointer, here an
  association list updated and searched as \<open>AList\<close> does. Their shared contract is the locale
  \<open>registry\<close>.
\<close>

section \<open>The contract\<close>

locale registry =
  fixes inv :: "'r \<Rightarrow> bool"
    and lookup :: "'r \<Rightarrow> string \<Rightarrow> 'v option"
    and insert_new :: "string \<Rightarrow> 'v \<Rightarrow> 'r \<Rightarrow> 'r"
    and remove :: "string \<Rightarrow> 'r \<Rightarrow> 'r"
    and contains :: "'r \<Rightarrow> string \<Rightarrow> bool"
    and busy :: "'r \<Rightarrow> bool"
  assumes inv_insert: "inv r \<Longrightarrow> lookup r k = None \<Longrightarrow> inv (insert_new k v r)"
    and inv_remove: "inv r \<Longrightarrow> inv (remove k r)"
    and lookup_insert: "inv r \<Longrightarrow> lookup r k = None \<Longrightarrow>
      lookup (insert_new k v r) = (lookup r)(k \<mapsto> v)"
    and lookup_remove: "inv r \<Longrightarrow> lookup (remove k r) = (lookup r)(k := None)"
    and contains_iff: "inv r \<Longrightarrow> contains r k \<longleftrightarrow> lookup r k \<noteq> None"
    and busy_iff: "inv r \<Longrightarrow> busy r \<longleftrightarrow> (\<exists>k. lookup r k \<noteq> None)"
begin

text \<open>Work that registers, runs and deregisters leaves every other name as it was.\<close>

lemma insert_remove:
  "inv r \<Longrightarrow> lookup r k = None \<Longrightarrow> lookup (remove k (insert_new k v r)) = lookup r"
  by (simp add: lookup_remove lookup_insert inv_insert) (metis fun_upd_triv)

lemma remove_other: "inv r \<Longrightarrow> k' \<noteq> k \<Longrightarrow> lookup (remove k r) k' = lookup r k'"
  by (simp add: lookup_remove)

lemma busy_after_insert: "inv r \<Longrightarrow> lookup r k = None \<Longrightarrow> busy (insert_new k v r)"
  using busy_iff [of "insert_new k v r"] by (auto simp: inv_insert lookup_insert)

lemma idle_after_remove:
  "inv r \<Longrightarrow> \<not> busy (remove k r) \<longleftrightarrow> (\<forall>k'. k' \<noteq> k \<longrightarrow> \<not> contains r k')"
  by (auto simp: busy_iff contains_iff inv_remove lookup_remove)

end

section \<open>The task factory\<close>

type_synonym address = nat

text \<open>\<open>GetTaskFactory\<close> creates the only instance with an empty map.\<close>

record task_factory = tf_tasks :: "(string \<times> address) list"

definition GetTaskFactory :: "task_factory option \<Rightarrow> task_factory" where
  "GetTaskFactory f = (case f of None \<Rightarrow> \<lparr>tf_tasks = []\<rparr> | Some f' \<Rightarrow> f')"

definition AddNamedTask :: "string \<Rightarrow> address \<Rightarrow> task_factory \<Rightarrow> go_error option \<times> task_factory" where
  "AddNamedTask name task f =
     (if map_of (tf_tasks f) name \<noteq> None then (Some (PlainError ''Task name duplicated''), f)
      else (None, f\<lparr>tf_tasks := AList.update name task (tf_tasks f)\<rparr>))"

text \<open>\<open>AddTask\<close> takes the name from the task, which is behind the pointer.\<close>

definition AddTask :: "(address \<Rightarrow> string) \<Rightarrow> address \<Rightarrow> task_factory \<Rightarrow> go_error option \<times> task_factory" where
  "AddTask task_id task f = AddNamedTask (task_id task) task f"

definition GetTask :: "task_factory \<Rightarrow> string \<Rightarrow> address option" where
  "GetTask f name = map_of (tf_tasks f) name"

definition RemoveTaskByName :: "string \<Rightarrow> task_factory \<Rightarrow> task_factory" where
  "RemoveTaskByName name f = f\<lparr>tf_tasks := AList.delete name (tf_tasks f)\<rparr>"

definition ContainsTaskByName :: "task_factory \<Rightarrow> string \<Rightarrow> bool" where
  "ContainsTaskByName f name \<longleftrightarrow> map_of (tf_tasks f) name \<noteq> None"

definition IsAnyTaskRunning :: "task_factory \<Rightarrow> bool" where
  "IsAnyTaskRunning f \<longleftrightarrow> length (tf_tasks f) > 0"

definition IsAnyNonPeriodicTaskRunning :: "(address \<Rightarrow> string) \<Rightarrow> task_factory \<Rightarrow> bool" where
  "IsAnyNonPeriodicTaskRunning cronat f \<longleftrightarrow> list_ex (\<lambda>(name, a). cronat a = []) (tf_tasks f)"

definition tf_ok :: "task_factory \<Rightarrow> bool" where
  "tf_ok f \<longleftrightarrow> distinct (map fst (tf_tasks f))"

lemma nonempty_map_of: "xs \<noteq> [] \<longleftrightarrow> (\<exists>k. map_of xs k \<noteq> None)"
  by (cases xs) auto

interpretation tasks: registry tf_ok GetTask "\<lambda>k v f. snd (AddNamedTask k v f)" RemoveTaskByName
  ContainsTaskByName IsAnyTaskRunning
proof (unfold_locales, goal_cases)
  case (1 r k v)
  then show ?case by (simp add: tf_ok_def AddNamedTask_def distinct_update)
next
  case (2 r k)
  then show ?case by (simp add: tf_ok_def RemoveTaskByName_def distinct_delete)
next
  case (3 r k v)
  then show ?case by (auto simp: GetTask_def AddNamedTask_def update_conv')
next
  case (4 r k)
  then show ?case by (simp add: GetTask_def RemoveTaskByName_def delete_conv' fun_eq_iff)
next
  case (5 r k)
  then show ?case by (simp add: GetTask_def ContainsTaskByName_def)
next
  case (6 r)
  then show ?case by (simp add: GetTask_def IsAnyTaskRunning_def nonempty_map_of)
qed

section \<open>The session factory\<close>

record session_factory = sess_tasks :: "(string \<times> address) list"

definition GetSessionFactory :: "session_factory option \<Rightarrow> session_factory" where
  "GetSessionFactory f = (case f of None \<Rightarrow> \<lparr>sess_tasks = []\<rparr> | Some f' \<Rightarrow> f')"

definition AddSessionTask :: "string \<Rightarrow> address \<Rightarrow> session_factory \<Rightarrow> session_factory" where
  "AddSessionTask sessionId task f = f\<lparr>sess_tasks := AList.update sessionId task (sess_tasks f)\<rparr>"

definition GetSessionTask :: "session_factory \<Rightarrow> string \<Rightarrow> address option" where
  "GetSessionTask f name = map_of (sess_tasks f) name"

definition RemoveSessionTask :: "string \<Rightarrow> session_factory \<Rightarrow> session_factory" where
  "RemoveSessionTask name f = f\<lparr>sess_tasks := AList.delete name (sess_tasks f)\<rparr>"

definition ContainsSessionTask :: "session_factory \<Rightarrow> string \<Rightarrow> bool" where
  "ContainsSessionTask f name \<longleftrightarrow> map_of (sess_tasks f) name \<noteq> None"

definition IsAnySessionRunning :: "session_factory \<Rightarrow> bool" where
  "IsAnySessionRunning f \<longleftrightarrow> length (sess_tasks f) > 0"

definition sess_ok :: "session_factory \<Rightarrow> bool" where
  "sess_ok f \<longleftrightarrow> distinct (map fst (sess_tasks f))"

interpretation sessions: registry sess_ok GetSessionTask AddSessionTask RemoveSessionTask
  ContainsSessionTask IsAnySessionRunning
proof (unfold_locales, goal_cases)
  case (1 r k v)
  then show ?case by (simp add: sess_ok_def AddSessionTask_def distinct_update)
next
  case (2 r k)
  then show ?case by (simp add: sess_ok_def RemoveSessionTask_def distinct_delete)
next
  case (3 r k v)
  then show ?case by (auto simp: GetSessionTask_def AddSessionTask_def update_conv')
next
  case (4 r k)
  then show ?case by (simp add: GetSessionTask_def RemoveSessionTask_def delete_conv' fun_eq_iff)
next
  case (5 r k)
  then show ?case by (simp add: GetSessionTask_def ContainsSessionTask_def)
next
  case (6 r)
  then show ?case by (simp add: GetSessionTask_def IsAnySessionRunning_def nonempty_map_of)
qed

lemma AddNamedTask_duplicate:
  "GetTask f name = Some a \<Longrightarrow> AddNamedTask name b f = (Some (PlainError ''Task name duplicated''), f)"
  by (simp add: AddNamedTask_def GetTask_def)

lemma AddNamedTask_fresh: "GetTask f name = None \<Longrightarrow> fst (AddNamedTask name b f) = None"
  by (simp add: AddNamedTask_def GetTask_def)

text \<open>The task factory admits one task per name: adding a name that is taken fails and
  changes nothing, adding a free one makes exactly that entry, and removing it again restores
  what every lookup returned before.\<close>

theorem task_factory_exclusive:
  assumes "tf_ok f"
  shows "(case AddNamedTask name a f of
      (Some err, f') \<Rightarrow> f' = f \<and> ContainsTaskByName f name
    | (None, f') \<Rightarrow> \<not> ContainsTaskByName f name \<and> tf_ok f' \<and> GetTask f' = (GetTask f)(name \<mapsto> a)
        \<and> IsAnyTaskRunning f' \<and> GetTask (RemoveTaskByName name f') = GetTask f)"
proof (cases "GetTask f name")
  case None
  obtain f' where f': "AddNamedTask name a f = (None, f')"
    using AddNamedTask_fresh [OF None] by (metis prod.collapse)
  have "\<not> ContainsTaskByName f name"
    using tasks.contains_iff [OF assms] None by simp
  then show ?thesis
    using tasks.inv_insert [OF assms None, of a] tasks.lookup_insert [OF assms None, of a]
      tasks.busy_after_insert [OF assms None, of a] tasks.insert_remove [OF assms None, of a]
    by (simp add: f')
next
  case (Some b)
  then show ?thesis
    using tasks.contains_iff [OF assms] by (simp add: AddNamedTask_duplicate)
qed

theorem task_factory_exclusive_witness:
  "GetTask (RemoveTaskByName ''t'' (snd (AddNamedTask ''t'' 5 \<lparr>tf_tasks = [(''u'', 1)]\<rparr>))) ''u'' = Some 1"
proof -
  have "tf_ok \<lparr>tf_tasks = [(''u'', 1)]\<rparr>" by (simp add: tf_ok_def)
  from task_factory_exclusive [OF this, of "''t''" 5] show ?thesis
    by (simp add: AddNamedTask_def GetTask_def)
qed

end
