(* ===== verification/Update_Package.thy ===== *)
theory Update_Package
  imports Step_Monad Agent_Paths Client_Report Md5 Version_Compare Registries
begin

text \<open>
  The phases of an update, \<open>common/update\<close>: asking the server (\<open>api.go\<close>), the version of a package,
  its download, checksum, extraction and removal, the removal of old versions (\<open>phase.go\<close>), the
  check of the new executable (\<open>verify_linux_amd64.go\<close>) and the reports of failures
  (\<open>report.go\<close>, \<open>report_unix.go\<close>), with \<open>agent/util/process/detach.go\<close>, which runs the updator.
\<close>

section \<open>Data\<close>

record UpdateCheckResp =
  Flag :: int
  InstanceID :: string
  NeedUpdate :: int
  NextInterval :: int
  UI_FileName :: string
  UI_Md5 :: string
  UI_URL :: string

text \<open>
  What the updater did, in order. \<open>FetchingTaskLock\<close> is held when \<open>ScriptStarted\<close> says so; the
  two other flags are those of \<open>state.go\<close>.
\<close>

datatype up_event =
    Fetched UpdateCheckResp
  | HashesRead string "(string \<times> string) list"
  | Digested string string
  | Renamed string string
  | VersionWritten string string
  | Downloaded string string int
  | TreeRemoved string
  | Unzipped string string
  | Inspected string
  | PackageRemoved string
  | ScriptStarted string bool bool bool
  | UpdateFailedEvent string string

record updater =
  up_world :: world
  up_log :: "up_event list"
  up_cpu :: bool
  up_critical :: bool
  up_message :: "string \<times> string"

text \<open>
  An error of a download with what the predicates of the source find in it, and the end of a child
  process: an exit code other than 0 comes with the text of its state, and any other failure of
  the wait says whether it is a missing file.
\<close>

record download_error =
  de_error :: go_error
  de_permission :: bool
  de_url_timeout :: bool
  de_deadline :: bool
  de_no_space :: bool
  de_eof :: bool

datatype exit_result = ExitedOk | ExitedWith int string | WaitFailed string bool

text \<open>
  The outside of the updater. JSON texts are valid or not (\<open>ue_valid\<close>, of a third-party package)
  and are read by the library; the header of an executable is its OS ABI and its machine.
\<close>

record update_env =
  ue_env :: env
  ue_mc :: machine
  ue_cwd :: string
  ue_temp_dir :: string
  ue_version :: string
  ue_os :: string
  ue_arch :: string
  ue_os_version :: string
  ue_kernel :: string
  ue_valid :: "string \<Rightarrow> bool"
  ue_unmarshal :: "string \<Rightarrow> go_error + UpdateCheckResp"
  ue_hash_map :: "string \<Rightarrow> go_error + (string \<times> string) list"
  ue_permissions :: "nat \<Rightarrow> string \<Rightarrow> go_error + nat"
  ue_read_dir :: "nat \<Rightarrow> string \<Rightarrow> go_error + (string \<times> bool) list"
  ue_read_file :: "nat \<Rightarrow> string \<Rightarrow> go_error + string"
  ue_http_get :: "nat \<Rightarrow> string \<Rightarrow> int \<Rightarrow> download_error + int"
  ue_create :: "nat \<Rightarrow> string \<Rightarrow> download_error option"
  ue_copy :: "nat \<Rightarrow> string \<Rightarrow> download_error option"
  ue_unzip :: "nat \<Rightarrow> string \<Rightarrow> string \<Rightarrow> go_error option"
  ue_remove_all :: "nat \<Rightarrow> string \<Rightarrow> go_error option"
  ue_elf :: "nat \<Rightarrow> string \<Rightarrow> string + (nat \<times> nat)"
  ue_abi_name :: "nat \<Rightarrow> string"
  ue_machine_name :: "nat \<Rightarrow> string"
  ue_fetching :: "nat \<Rightarrow> int"
  ue_tasks :: "nat \<Rightarrow> task_factory"
  ue_cron :: "nat \<Rightarrow> address \<Rightarrow> string"
  ue_try_lock :: "nat \<Rightarrow> bool"
  ue_not_exist :: "go_error \<Rightarrow> bool"
  ue_exit :: "nat \<Rightarrow> exit_result"

type_synonym 'a up = "(updater, 'a) step"

definition on_world :: "(world \<Rightarrow> 'a \<times> world) \<Rightarrow> 'a up" where
  "on_world f = pure_call (\<lambda>u. let (x, w) = f (up_world u) in (x, u\<lparr>up_world := w\<rparr>))"

definition question :: "(nat \<Rightarrow> 'a) \<Rightarrow> 'a up" where
  "question f = on_world (ask f)"

definition log_event :: "up_event \<Rightarrow> updater \<Rightarrow> updater" where
  "log_event e u = u\<lparr>up_log := up_log u @ [e]\<rparr>"

definition set_message :: "string \<Rightarrow> string \<Rightarrow> unit up" where
  "set_message errmsg extrainfo = change (\<lambda>u. u\<lparr>up_message := (errmsg, extrainfo)\<rparr>)"

definition of_option :: "go_error option \<Rightarrow> unit up" where
  "of_option e = (case e of None \<Rightarrow> give () | Some x \<Rightarrow> raise x)"

definition of_sum :: "go_error + 'a \<Rightarrow> 'a up" where
  "of_sum r = (case r of Inl e \<Rightarrow> raise e | Inr x \<Rightarrow> give x)"

section \<open>Asking for an update\<close>

definition update_check_report :: "update_env \<Rightarrow> string" where
  "update_check_report ue = json_object
     [(''os'', json_string (ue_os ue)), (''arch'', json_string (ue_arch ue)),
      (''os_version'', json_string (ue_os_version ue)), (''app_id'', json_string ''aliyun assistant''),
      (''app_version'', json_string (ue_version ue)), (''kernel_version'', json_string (ue_kernel ue))]"

definition FetchUpdateInfo :: "update_env \<Rightarrow> UpdateCheckResp up" where
  "FetchUpdateInfo ue =
     bind (on_world (HttpPost (ue_env ue) (GetUpdateService (ue_env ue)) (update_check_report ue))) (\<lambda>(responseData, err).
     bind (of_option err) (\<lambda>_.
     if \<not> ue_valid ue responseData then raise (PlainError ''invalid json'')
     else bind (of_sum (ue_unmarshal ue responseData)) (\<lambda>resp.
       bind (change (log_event (Fetched resp))) (\<lambda>_. give resp))))"

section \<open>Versions\<close>

definition ExtractVersionStringFromURL :: "string \<Rightarrow> go_error + string" where
  "ExtractVersionStringFromURL url =
     (let parts = split_on (CHR ''/'') url in
      if length parts < 2 then Inl (PlainError (''invalid url:'' @ url))
      else
        (let names = split_on (CHR ''_'') (last parts) in
         if length names \<noteq> 2 then Inl (PlainError (''invalid url:'' @ url)) else Inr (names ! 0)))"

text \<open>The pattern \<open>^\\d+(\\.\\d+){3}$\<close>.\<close>

definition version_pattern :: "string \<Rightarrow> bool" where
  "version_pattern name \<longleftrightarrow>
     (let parts = split_on (CHR ''.'') name in length parts = 4 \<and> list_all (\<lambda>p. p \<noteq> [] \<and> list_all is_digit p) parts)"

definition outdated :: "string \<Rightarrow> string \<times> bool \<Rightarrow> bool" where
  "outdated current child \<longleftrightarrow>
     (case child of (name, dir) \<Rightarrow> name \<noteq> ''.'' \<and> name \<noteq> ''..'' \<and> dir \<and> version_pattern name
       \<and> CompareVersion (ascii_runes name) (ascii_runes current) < 0)"

text \<open>An error of one removal does not stop the loop.\<close>

fun remove_outdated :: "update_env \<Rightarrow> string \<Rightarrow> (string \<times> bool) list \<Rightarrow> unit up" where
  "remove_outdated ue dir [] = give ()"
| "remove_outdated ue dir (child # children) =
     bind (skip_unless (outdated (ue_version ue) child)
       (bind (question (\<lambda>n. ue_remove_all ue n (path_join [dir, fst child]))) (\<lambda>_.
        change (log_event (TreeRemoved (path_join [dir, fst child])))))) (\<lambda>_. remove_outdated ue dir children)"

definition RemoveOldVersion :: "update_env \<Rightarrow> string \<Rightarrow> unit up" where
  "RemoveOldVersion ue multipleVersionDir =
     (if multipleVersionDir = [] then raise (PlainError ''Install dir is empty'')
      else bind (question (\<lambda>n. ue_read_dir ue n multipleVersionDir)) (\<lambda>r.
        bind (of_sum r) (remove_outdated ue multipleVersionDir)))"

section \<open>The package\<close>

definition NoFlags :: "go_error \<Rightarrow> download_error" where
  "NoFlags e = \<lparr>de_error = e, de_permission = False, de_url_timeout = False, de_deadline = False,
     de_no_space = False, de_eof = False\<rparr>"

text \<open>The value is the error of the download or nil; a timeout of 0 is none.\<close>

definition HttpDownloadWithTimeout :: "update_env \<Rightarrow> string \<Rightarrow> string \<Rightarrow> int \<Rightarrow> download_error option up" where
  "HttpDownloadWithTimeout ue url filePath timeout =
     bind (question (\<lambda>n. ue_http_get ue n url timeout)) (\<lambda>res.
     case res of
       Inl e \<Rightarrow> give (Some e)
     | Inr status \<Rightarrow>
         if status \<noteq> 200 then give (Some (NoFlags (NewHttpErrorCode status)))
         else bind (question (\<lambda>n. ue_create ue n filePath)) (\<lambda>c.
           case c of
             Some e \<Rightarrow> give (Some e)
           | None \<Rightarrow> question (\<lambda>n. ue_copy ue n filePath)))"

definition DownloadPackage :: "update_env \<Rightarrow> string \<Rightarrow> string \<Rightarrow> int \<Rightarrow> download_error option up" where
  "DownloadPackage ue url savePath timeout =
     bind (HttpDownloadWithTimeout ue url savePath timeout) (\<lambda>e.
     bind (skip_unless (e = None) (change (log_event (Downloaded url savePath timeout)))) (\<lambda>_. give e))"

definition ComputeMd5 :: "update_env \<Rightarrow> string \<Rightarrow> string up" where
  "ComputeMd5 ue filePath =
     bind (question (\<lambda>n. ue_read_file ue n filePath)) (\<lambda>r.
     bind (of_sum r) (\<lambda>content.
     bind (change (log_event (Digested filePath (ComputeStrMd5 content)))) (\<lambda>_. give (ComputeStrMd5 content))))"

definition CompareFileMD5 :: "update_env \<Rightarrow> string \<Rightarrow> string \<Rightarrow> unit up" where
  "CompareFileMD5 ue filePath expectedMD5 =
     bind (ComputeMd5 ue filePath) (\<lambda>computedMD5.
     if to_lower computedMD5 \<noteq> to_lower expectedMD5
     then raise (PlainError (''Inconsistent MD5 checksum for '' @ filePath @ '': expecting '' @ expectedMD5
       @ '', actually '' @ computedMD5))
     else give ())"

definition ExtractPackage :: "update_env \<Rightarrow> string \<Rightarrow> string \<Rightarrow> unit up" where
  "ExtractPackage ue filePath destination =
     bind (question (\<lambda>n. ue_unzip ue n filePath destination)) (\<lambda>e.
     bind (of_option e) (\<lambda>_. change (log_event (Unzipped filePath destination))))"

definition RemoveUpdatePackage :: "update_env \<Rightarrow> string \<Rightarrow> unit up" where
  "RemoveUpdatePackage ue tempSavePath =
     bind (question (\<lambda>n. mc_remove (ue_mc ue) n tempSavePath)) (\<lambda>e.
     bind (of_option e) (\<lambda>_. change (log_event (PackageRemoved tempSavePath))))"

text \<open>Names of the ELF identifiers are texts of the library; the numbers are those of \<open>debug/elf\<close>.\<close>

definition ELFOSABI_NONE :: nat where "ELFOSABI_NONE = 0"
definition ELFOSABI_LINUX :: nat where "ELFOSABI_LINUX = 3"
definition EM_386 :: nat where "EM_386 = 3"
definition EM_X86_64 :: nat where "EM_X86_64 = 62"

definition ValidateExecutable :: "update_env \<Rightarrow> string \<Rightarrow> unit up" where
  "ValidateExecutable ue executablePath =
     bind (question (\<lambda>n. ue_elf ue n executablePath)) (\<lambda>r.
     case r of
       Inl t \<Rightarrow> raise (WrappedError [] (PlainError ''Invalid ELF-format executable'') ('': '' @ t))
     | Inr (abi, arch) \<Rightarrow>
         if abi \<noteq> ELFOSABI_NONE \<and> abi \<noteq> ELFOSABI_LINUX
         then raise (WrappedError [] (PlainError ''Unsupported OSABI identifier of ELF executable'') ('': '' @ ue_abi_name ue abi))
         else if arch \<noteq> EM_386 \<and> arch \<noteq> EM_X86_64
         then raise (WrappedError [] (PlainError ''Unsupported architecture identifier of ELF executable'') ('': '' @ ue_machine_name ue arch))
         else change (log_event (Inspected executablePath)))"

section \<open>Reports of failures\<close>

definition update_info_json :: "UpdateCheckResp \<Rightarrow> string" where
  "update_info_json info = json_object
     [(''flag'', itoa (Flag info)), (''instanceId'', json_string (InstanceID info)),
      (''need_update'', itoa (NeedUpdate info)), (''next_interval'', itoa (NextInterval info)),
      (''update_info'', json_object [(''file_name'', json_string (UI_FileName info)), (''md5'', json_string (UI_Md5 info)),
         (''url'', json_string (UI_URL info))])]"

definition report_failure :: "update_env \<Rightarrow> string \<Rightarrow> UpdateCheckResp option \<Rightarrow> (string \<times> string) list \<Rightarrow> string \<Rightarrow> unit up" where
  "report_failure ue failureType info context errorMessage =
     bind (on_world (ReportUpdateFailure (ue_env ue) failureType
       (case info of None \<Rightarrow> ''null'' | Some i \<Rightarrow> update_info_json i) (json_object context) errorMessage)) (\<lambda>_. give ())"

definition download_failure_type :: "download_error \<Rightarrow> string" where
  "download_failure_type e = ''DownloadPackageFailed'' @
     (if de_permission e then '':AccessDenied'' else if de_url_timeout e then '':NetworkTimeout''
      else if de_deadline e then '':NetworkTimeout'' else if de_no_space e then '':NoEnoughSpace''
      else if de_eof e then '':UnexpectedEOF'' else [])"

definition ReportDownloadPackageFailed :: "update_env \<Rightarrow> download_error \<Rightarrow> UpdateCheckResp \<Rightarrow> (string \<times> string) list \<Rightarrow> unit up" where
  "ReportDownloadPackageFailed ue e info context =
     report_failure ue (download_failure_type e) (Some info) context (err_text (de_error e))"

definition ReportCheckMD5Failed :: "update_env \<Rightarrow> go_error \<Rightarrow> UpdateCheckResp \<Rightarrow> (string \<times> string) list \<Rightarrow> unit up" where
  "ReportCheckMD5Failed ue e info context = report_failure ue ''CheckMD5Failed'' (Some info) context (err_text e)"

definition ReportExtractPackageFailed :: "update_env \<Rightarrow> go_error \<Rightarrow> UpdateCheckResp \<Rightarrow> (string \<times> string) list \<Rightarrow> unit up" where
  "ReportExtractPackageFailed ue e info context = report_failure ue ''ExtractPackageFailed'' (Some info) context (err_text e)"

definition ReportValidateExecutableFailed :: "update_env \<Rightarrow> go_error \<Rightarrow> UpdateCheckResp \<Rightarrow> (string \<times> string) list \<Rightarrow> unit up" where
  "ReportValidateExecutableFailed ue e info context =
     report_failure ue ''ValidateExecutableFailed'' (Some info) context (err_text e)"

text \<open>An error of a run: its text, whether it is a missing file, and the code of an \<open>exec.ExitError\<close>.\<close>

record run_error =
  re_text :: string
  re_not_exist :: bool
  re_exit :: "int option"

definition categorizeExitCode :: "int \<Rightarrow> string" where
  "categorizeExitCode exitCode =
     (if exitCode = 0 then [] else if exitCode = 127 then '':FileNotExist'' else if exitCode > 128 then '':ExitedBySignal''
      else if exitCode = -1 then '':Killed'' else '':UnexpectedExitStatus'')"

definition executing_failure_type :: "string \<Rightarrow> run_error \<Rightarrow> string" where
  "executing_failure_type failureType e = failureType @
     (if re_not_exist e then '':FileNotExist''
      else case re_exit e of Some c \<Rightarrow> categorizeExitCode c
      | None \<Rightarrow> if re_text e = ''signal: killed'' then '':Killed'' else [])"

text \<open>
  The context of a run as the JSON of a map, whose keys come in order: the exit code is there when
  the caller put it in, or else when the error carries one and is not a missing file.
\<close>

definition run_context :: "(string \<times> string \<times> string) \<Rightarrow> int option \<Rightarrow> run_error \<Rightarrow> (string \<times> string) list" where
  "run_context c exitcode e =
     (case c of (updatorPath, updateScriptPath, status) \<Rightarrow>
        [(''executionStatus'', json_string status)]
        @ (case (exitcode, re_not_exist e, re_exit e) of
             (Some k, _) \<Rightarrow> [(''exitcode'', itoa k)]
           | (None, False, Some k) \<Rightarrow> [(''exitcode'', itoa k)]
           | _ \<Rightarrow> [])
        @ [(''updateScriptPath'', json_string updateScriptPath), (''updatorPath'', json_string updatorPath)])"

definition reportExecutingFailure ::
  "update_env \<Rightarrow> string \<Rightarrow> run_error \<Rightarrow> (string \<times> string \<times> string) \<Rightarrow> int option \<Rightarrow> unit up" where
  "reportExecutingFailure ue failureType e context exitcode =
     report_failure ue (executing_failure_type failureType e) None (run_context context exitcode e) (re_text e)"

definition ReportExecuteUpdateScriptRunnerTimeout ::
  "update_env \<Rightarrow> run_error \<Rightarrow> (string \<times> string \<times> string) \<Rightarrow> int option \<Rightarrow> unit up" where
  "ReportExecuteUpdateScriptRunnerTimeout ue = reportExecutingFailure ue ''ExecuteUpdateScriptRunnerTimeout''"

definition ReportExecuteUpdateScriptRunnerFailed ::
  "update_env \<Rightarrow> run_error \<Rightarrow> (string \<times> string \<times> string) \<Rightarrow> int option \<Rightarrow> unit up" where
  "ReportExecuteUpdateScriptRunnerFailed ue = reportExecutingFailure ue ''ExecuteUpdateScriptRunnerFailed''"

section \<open>Detached processes\<close>

definition ExitPlaceholderFailed :: int where "ExitPlaceholderFailed = -1"

text \<open>
  \<open>SyncRunDetached\<close> on Unix, where nothing can fail before the start: it waits for the process or
  its timer, and after the timer for the process it killed.
\<close>

definition exit_outcome :: "proc_status \<Rightarrow> exit_result \<Rightarrow> int \<times> proc_status \<times> run_error option" where
  "exit_outcome status r =
     (case r of
        ExitedOk \<Rightarrow> (0, status, None)
      | ExitedWith code t \<Rightarrow> (code, status, Some \<lparr>re_text = t, re_not_exist = False, re_exit = Some code\<rparr>)
      | WaitFailed t missing \<Rightarrow> (ExitPlaceholderFailed, Fail, Some \<lparr>re_text = t, re_not_exist = missing, re_exit = None\<rparr>))"

definition SyncRunDetached :: "update_env \<Rightarrow> string \<Rightarrow> string list \<Rightarrow> (int \<times> proc_status \<times> run_error option) up" where
  "SyncRunDetached ue command arguments =
     bind (question (\<lambda>n. mc_start (ue_mc ue) n command arguments)) (\<lambda>started.
     case started of
       Some e \<Rightarrow> give (ExitPlaceholderFailed, Fail,
         Some \<lparr>re_text = ''Starting process failed: '' @ err_text e, re_not_exist = ue_not_exist ue e, re_exit = None\<rparr>)
     | None \<Rightarrow>
         bind (question (mc_timer_first (ue_mc ue))) (\<lambda>timer.
         bind (question (ue_exit ue)) (\<lambda>r. give (exit_outcome (if timer then Timeout else Success) r))))"

fun StrStatus :: "proc_status \<Rightarrow> string" where
  "StrStatus Success = ''Success''"
| "StrStatus Timeout = ''Timeout''"
| "StrStatus Fail = ''Failed''"
| "StrStatus (OtherStatus status) = ''InvalidStatusCode: '' @ itoa status"

section \<open>Lemmas\<close>

lemma wp_on_world [wp_rules]:
  "wp (on_world f) Q E u = Q (fst (f (up_world u))) (u\<lparr>up_world := snd (f (up_world u))\<rparr>)"
  by (simp add: on_world_def wp_rules split_beta Let_def)

lemma wp_question [wp_rules]:
  "wp (question f) Q E u = Q (f (ticks (up_world u))) (u\<lparr>up_world := tick (up_world u)\<rparr>)"
  by (simp add: question_def wp_rules ask_def)

lemma wp_returned [wp_rules]:
  "wp (of_option e) Qu E u = (case e of None \<Rightarrow> Qu () u | Some x \<Rightarrow> E x u)"
  "wp (of_sum r) Q E u = (case r of Inl x \<Rightarrow> E x u | Inr v \<Rightarrow> Q v u)"
  by (simp_all add: of_option_def of_sum_def wp_rules split: option.split sum.split)

lemma wp_set_message [wp_rules]:
  "wp (set_message m x) Q E u = Q () (u\<lparr>up_message := (m, x)\<rparr>)"
  by (simp add: set_message_def wp_rules)

end
