(* ===== verification/Updater.thy ===== *)
theory Updater
  imports Update_Package
begin

text \<open>
  The updater of the agent, \<open>agent/update\<close>: the check for an update with its deadlines, the
  verification of a version that is already installed or of a downloaded package, and the wait for
  running tasks before the update script is run (\<open>routine.go\<close>, \<open>config.go\<close>, \<open>state.go\<close>,
  \<open>timed.go\<close>).
\<close>

section \<open>Texts of durations\<close>

text \<open>\<open>Duration.String\<close>: \<open>frac_text v k\<close> is the fraction \<open>v / 10 ^ k\<close> below one without trailing zeros.\<close>

definition frac_text :: "nat \<Rightarrow> nat \<Rightarrow> string" where
  "frac_text v k =
     (let ds = nat_digits (v mod 10 ^ k);
          padded = replicate (k - length ds) (CHR ''0'') @ ds;
          kept = rev (dropWhile (\<lambda>c. c = CHR ''0'') (rev padded)) in
      if kept = [] then [] else ''.'' @ kept)"

definition positive_duration :: "nat \<Rightarrow> string" where
  "positive_duration n =
     (if n < 1000 then nat_digits n @ ''ns''
      else if n < 1000000 then nat_digits (n div 1000) @ frac_text n 3 @ [char_of (194 :: nat), char_of (181 :: nat), CHR ''s'']
      else if n < 1000000000 then nat_digits (n div 1000000) @ frac_text n 6 @ ''ms''
      else
        (let s = n div 1000000000 in
         (if 3600 \<le> s then nat_digits (s div 3600) @ ''h'' else [])
         @ (if 60 \<le> s then nat_digits (s div 60 mod 60) @ ''m'' else [])
         @ nat_digits (s mod 60) @ frac_text n 9 @ ''s''))"

definition duration_text :: "int \<Rightarrow> string" where
  "duration_text d = (if d = 0 then ''0s'' else (if d < 0 then ''-'' else []) @ positive_duration (nat \<bar>d\<bar>))"

lemma duration_text_examples:
  "duration_text 1500000000 = ''1.5s''" "duration_text 60000000000 = ''1m0s''" "duration_text 3723000000000 = ''1h2m3s''"
  "duration_text 2500000 = ''2.5ms''" "duration_text (-7) = ''-7ns''"
  by code_simp+

section \<open>Configuration\<close>

text \<open>A flag file in the directory shared by the versions, or in that of this version.\<close>

definition flag_set :: "machine \<Rightarrow> string \<Rightarrow> string \<Rightarrow> world \<Rightarrow> (bool \<times> go_error option) \<times> world" where
  "flag_set mc cwd flag w =
     (let (r, w1) = GetCrossVersionConfigPath mc cwd w in
      case r of
        Inl e \<Rightarrow> ((False, Some e), w1)
      | Inr cross \<Rightarrow>
          (let (found, w2) = CheckFileIsExist mc (path_join [cross, flag]) w1 in
           if found then ((True, None), w2)
           else
             (let (r2, w3) = GetConfigPath mc w2 in
              case r2 of
                Inl e \<Rightarrow> ((False, Some e), w3)
              | Inr own \<Rightarrow>
                  (let (found2, w4) = CheckFileIsExist mc (path_join [own, flag]) w3 in ((found2, None), w4)))))"

definition isUpdatingDisabled :: "machine \<Rightarrow> string \<Rightarrow> world \<Rightarrow> (bool \<times> go_error option) \<times> world" where
  "isUpdatingDisabled mc cwd = flag_set mc cwd ''disable_update''"

definition isBootstrapUpdatingDisabled :: "machine \<Rightarrow> string \<Rightarrow> world \<Rightarrow> (bool \<times> go_error option) \<times> world" where
  "isBootstrapUpdatingDisabled mc cwd = flag_set mc cwd ''disable_bootstrap_update''"

section \<open>Deadlines\<close>

definition ErrPreparationTimeout :: go_error where
  "ErrPreparationTimeout = PlainError ''Updating preparation phase timeout''"

definition ErrUpdatorNotFound :: go_error where
  "ErrUpdatorNotFound = PlainError ''Updator is required but not found''"

definition ErrUpdatorNotExecutable :: go_error where
  "ErrUpdatorNotExecutable = PlainError ''Updator is not executable''"

definition errFailurePlaceholder :: string where
  "errFailurePlaceholder = ''Failed to execute update script via updator but no error returned''"

definition errTimeoutPlaceholder :: string where
  "errTimeoutPlaceholder = ''Executing update script via updator timeout''"

definition now :: "update_env \<Rightarrow> instant up" where
  "now ue = on_world (read_clock (ue_env ue))"

text \<open>Without a positive timeout the clock is not read.\<close>

definition preparationTimedOut :: "update_env \<Rightarrow> instant \<Rightarrow> int \<Rightarrow> bool up" where
  "preparationTimedOut ue startTime timeout =
     (if 0 < timeout then bind (now ue) (\<lambda>t. give (timeout \<le> time_sub t startTime)) else give False)"

definition deadline :: "update_env \<Rightarrow> instant \<Rightarrow> int \<Rightarrow> unit up" where
  "deadline ue startTime timeout =
     bind (preparationTimedOut ue startTime timeout) (\<lambda>b. if b then raise ErrPreparationTimeout else give ())"

definition deadline_after :: "update_env \<Rightarrow> instant \<Rightarrow> int \<Rightarrow> string \<Rightarrow> unit up" where
  "deadline_after ue startTime timeout phase =
     bind (preparationTimedOut ue startTime timeout) (\<lambda>b.
     if b then bind (set_message (''after '' @ phase @ '' timeout: '' @ err_text ErrPreparationTimeout)
         (''preparationTimeout='' @ duration_text timeout)) (\<lambda>_. raise ErrPreparationTimeout)
     else give ())"

section \<open>Checking for an update\<close>

text \<open>\<open>fetch_tries n\<close> is the loop with \<open>n\<close> tries left after the next one.\<close>

primrec fetch_tries :: "nat \<Rightarrow> update_env \<Rightarrow> instant \<Rightarrow> int \<Rightarrow> UpdateCheckResp up" where
  "fetch_tries 0 = (\<lambda>ue startTime timeout.
     handle (FetchUpdateInfo ue) (\<lambda>e.
       bind (deadline ue startTime timeout) (\<lambda>_. bind (deadline ue startTime timeout) (\<lambda>_. raise e))))"
| "fetch_tries (Suc n) = (\<lambda>ue startTime timeout.
     handle (FetchUpdateInfo ue) (\<lambda>e.
       bind (deadline ue startTime timeout) (\<lambda>_.
       bind (on_world (\<lambda>w. ((), go_sleep 5 w))) (\<lambda>_.
       bind (deadline ue startTime timeout) (\<lambda>_. fetch_tries n ue startTime timeout)))))"

definition MaximumCheckUpdateRetries :: nat where "MaximumCheckUpdateRetries = 3"

definition check_update :: "update_env \<Rightarrow> instant \<Rightarrow> int \<Rightarrow> UpdateCheckResp up" where
  "check_update ue startTime timeout =
     handle (fetch_tries (MaximumCheckUpdateRetries - 1) ue startTime timeout) (\<lambda>e.
       bind (set_message (''FetchUpdateInfo err: '' @ err_text e) (''preparationTimeout='' @ duration_text timeout))
         (\<lambda>_. raise e))"

section \<open>A version that is installed already\<close>

fun compare_hashes :: "update_env \<Rightarrow> string \<Rightarrow> (string \<times> string) list \<Rightarrow> unit up" where
  "compare_hashes ue versionDir [] = give ()"
| "compare_hashes ue versionDir ((fileName, md5) # hs) =
     bind (CompareFileMD5 ue (path_join [versionDir, fileName]) md5) (\<lambda>_. compare_hashes ue versionDir hs)"

text \<open>The map is listed in the order of its iteration. Any error renames the hash file.\<close>

definition hash_file_verified :: "update_env \<Rightarrow> string \<Rightarrow> string up" where
  "hash_file_verified ue versionDir =
     (let hashFile = path_join [versionDir, ''config'', ''hash_file''] in
      bind (question (\<lambda>n. ue_read_file ue n hashFile)) (\<lambda>r. bind (of_sum r) (\<lambda>content.
      case base64_decode content of
        Inl k \<Rightarrow> raise (PlainError (base64_error k))
      | Inr decoded \<Rightarrow>
          bind (of_sum (ue_hash_map ue decoded)) (\<lambda>hashMap.
          bind (change (log_event (HashesRead versionDir hashMap))) (\<lambda>_.
          bind (compare_hashes ue versionDir hashMap) (\<lambda>_.
          if GetUpdateScript \<in> fst ` set hashMap then give (path_join [versionDir, GetUpdateScript])
          else raise (PlainError ''updateScript not found'')))))))"

definition checkHashFile :: "update_env \<Rightarrow> string \<Rightarrow> string up" where
  "checkHashFile ue versionDir =
     handle (hash_file_verified ue versionDir) (\<lambda>e.
       bind (change (log_event (Renamed (path_join [versionDir, ''config'', ''hash_file''])
         (path_join [versionDir, ''config'', ''hash_file_corrupted''])))) (\<lambda>_. raise e))"

definition checkLocalDirectory :: "update_env \<Rightarrow> UpdateCheckResp \<Rightarrow> string up" where
  "checkLocalDirectory ue updateInfo =
     bind (of_sum (ExtractVersionStringFromURL (UI_URL updateInfo))) (\<lambda>targetVersion.
     bind (on_world (GetInstallDir (ue_mc ue) (ue_cwd ue))) (\<lambda>installDir.
     bind (question (\<lambda>n. ue_read_dir ue n installDir)) (\<lambda>r. bind (of_sum r) (\<lambda>entries.
     if (targetVersion, True) \<notin> set entries then raise (PlainError ''not found'')
     else
       bind (checkHashFile ue (path_join [installDir, targetVersion])) (\<lambda>updateScriptPath.
       bind (question (\<lambda>n. mc_write (ue_mc ue) n (path_join [installDir, ''version'']))) (\<lambda>e. bind (of_option e) (\<lambda>_.
       bind (change (log_event (VersionWritten (path_join [installDir, ''version'']) targetVersion))) (\<lambda>_.
       give updateScriptPath))))))))"

section \<open>Downloading\<close>

definition five_seconds :: int where "five_seconds = 5000000000"

text \<open>The time left for the download, of which five seconds are kept back; 0 without a deadline.\<close>

definition download_timeout :: "update_env \<Rightarrow> instant \<Rightarrow> int \<Rightarrow> int \<Rightarrow> int up" where
  "download_timeout ue startTime timeout maximumDownloadTimeout =
     (if 0 < timeout then
        bind (now ue) (\<lambda>t.
        let elapsedTime = time_sub t startTime in
        if timeout \<le> elapsedTime
        then bind (set_message (''after GetTempPath timeout: '' @ err_text ErrPreparationTimeout)
               (''preparationTimeout='' @ duration_text timeout)) (\<lambda>_. raise ErrPreparationTimeout)
        else
          let remaining = wrap64 (timeout - elapsedTime);
              reserved = wrap64 ((if maximumDownloadTimeout < remaining then maximumDownloadTimeout else remaining) - five_seconds) in
          if reserved < 0
          then bind (set_message (''downloadTimeout < 0 error: '' @ err_text ErrPreparationTimeout)
                 (''preparationTimeout='' @ duration_text timeout)) (\<lambda>_. raise ErrPreparationTimeout)
          else give reserved)
      else give 0)"

definition package_path :: "string \<Rightarrow> UpdateCheckResp \<Rightarrow> string" where
  "package_path tempDir updateInfo = path_join [tempDir, ''aliyun_assist_'' @ UI_Md5 updateInfo @ ''.zip'']"

definition download_stage :: "update_env \<Rightarrow> instant \<Rightarrow> int \<Rightarrow> int \<Rightarrow> UpdateCheckResp \<Rightarrow> string up" where
  "download_stage ue startTime timeout maximumDownloadTimeout updateInfo =
     bind (on_world (GetTempPath (ue_mc ue) (ue_temp_dir ue))) (\<lambda>(tempDir, err).
     case err of
       Some e \<Rightarrow> bind (set_message (''GetTempPath error: '' @ err_text e) []) (\<lambda>_. raise e)
     | None \<Rightarrow>
         let tempSavePath = package_path tempDir updateInfo in
         bind (download_timeout ue startTime timeout maximumDownloadTimeout) (\<lambda>downloadTimeout.
         bind (DownloadPackage ue (UI_URL updateInfo) tempSavePath downloadTimeout) (\<lambda>d.
         case d of
           None \<Rightarrow> give tempSavePath
         | Some e \<Rightarrow>
             bind (set_message (''DownloadPackage error: '' @ err_text (de_error e))
               (''url='' @ UI_URL updateInfo @ ''&tempsavepath='' @ tempSavePath @ ''&downloadtimeout='' @ duration_text downloadTimeout)) (\<lambda>_.
             bind (ReportDownloadPackageFailed ue e updateInfo [(''targetSavePath'', json_string tempSavePath)]) (\<lambda>_.
             raise (if de_url_timeout e then ErrPreparationTimeout else de_error e))))))"

section \<open>The downloaded package\<close>

text \<open>A step whose error is put into the message and reported before it is returned.\<close>

definition reporting :: "unit up \<Rightarrow> (go_error \<Rightarrow> string \<times> string) \<Rightarrow> (go_error \<Rightarrow> unit up) \<Rightarrow> unit up" where
  "reporting m message report =
     handle m (\<lambda>e. bind (set_message (fst (message e)) (snd (message e))) (\<lambda>_. bind (report e) (\<lambda>_. raise e)))"

definition verify_package :: "update_env \<Rightarrow> instant \<Rightarrow> int \<Rightarrow> UpdateCheckResp \<Rightarrow> string \<Rightarrow> string up" where
  "verify_package ue startTime timeout updateInfo tempSavePath =
     bind (reporting (CompareFileMD5 ue tempSavePath (UI_Md5 updateInfo))
       (\<lambda>e. (''CompareFileMD5 error: '' @ err_text e, ''downloadedPackagePath='' @ tempSavePath @ ''&md5InUpdateInfo='' @ UI_Md5 updateInfo))
       (\<lambda>e. ReportCheckMD5Failed ue e updateInfo [(''downloadedPackagePath'', json_string tempSavePath)])) (\<lambda>_.
     bind (deadline_after ue startTime timeout ''CompareFileMD5'') (\<lambda>_.
     bind (on_world (GetInstallDir (ue_mc ue) (ue_cwd ue))) (\<lambda>destinationDir.
     bind (attempted (RemoveOldVersion ue destinationDir)) (\<lambda>_.
     bind (deadline_after ue startTime timeout ''RemoveOldVersion'') (\<lambda>_.
     bind (reporting (ExtractPackage ue tempSavePath destinationDir)
       (\<lambda>e. (''ExtractPackage error: '' @ err_text e, ''destinationDir='' @ destinationDir @ ''&downloadedPackagePath='' @ tempSavePath))
       (\<lambda>e. ReportExtractPackageFailed ue e updateInfo
          [(''destinationDir'', json_string destinationDir), (''downloadedPackagePath'', json_string tempSavePath)])) (\<lambda>_.
     bind (deadline_after ue startTime timeout ''ExtractPackage'') (\<lambda>_.
     case ExtractVersionStringFromURL (UI_URL updateInfo) of
       Inl e \<Rightarrow> bind (set_message (''ExtractVersionStringFromURL error: '' @ err_text e) (''packageURL='' @ UI_URL updateInfo)) (\<lambda>_. raise e)
     | Inr newVersion \<Rightarrow>
         bind (on_world (GetAgentPathByVersion (ue_mc ue) (ue_cwd ue) newVersion)) (\<lambda>agentPath.
         bind (reporting (ValidateExecutable ue agentPath)
           (\<lambda>e. (''GetAgentPathByVersion error: '' @ err_text e, ''packageURL='' @ UI_URL updateInfo @ ''&executablePath='' @ agentPath))
           (\<lambda>e. ReportValidateExecutableFailed ue e updateInfo
              [(''executablePath'', json_string agentPath), (''packageURL'', json_string (UI_URL updateInfo))])) (\<lambda>_.
         bind (deadline_after ue startTime timeout ''ValidateExecutable'') (\<lambda>_.
         on_world (GetUpdateScriptPathByVersion (ue_mc ue) (ue_cwd ue) newVersion)))))))))))"

text \<open>The deferred calls: the package is removed, then the flag cleared.\<close>

definition clean_package :: "update_env \<Rightarrow> UpdateCheckResp \<Rightarrow> string \<Rightarrow> unit up" where
  "clean_package ue updateInfo tempSavePath =
     bind (attempted (RemoveUpdatePackage ue tempSavePath)) (\<lambda>r.
     case r of
       Inr _ \<Rightarrow> give ()
     | Inl e \<Rightarrow> set_message (''RemoveUpdatePackage error: '' @ err_text e)
         (''downloadedPackagePath='' @ tempSavePath @ ''&packageURL='' @ UI_URL updateInfo))"

definition set_cpu :: "bool \<Rightarrow> updater \<Rightarrow> updater" where
  "set_cpu b u = u\<lparr>up_cpu := b\<rparr>"

definition set_critical :: "bool \<Rightarrow> updater \<Rightarrow> updater" where
  "set_critical b u = u\<lparr>up_critical := b\<rparr>"

definition package_phase :: "update_env \<Rightarrow> instant \<Rightarrow> int \<Rightarrow> UpdateCheckResp \<Rightarrow> string \<Rightarrow> string up" where
  "package_phase ue startTime timeout updateInfo tempSavePath =
     bind (change (set_cpu True)) (\<lambda>_.
     deferred (deferred (verify_package ue startTime timeout updateInfo tempSavePath)
       (\<lambda>u. snd (clean_package ue updateInfo tempSavePath u))) (set_cpu False))"

section \<open>Running the update script\<close>

definition run_context_of :: "string \<Rightarrow> string \<Rightarrow> proc_status \<Rightarrow> string \<times> string \<times> string" where
  "run_context_of updatorPath updateScriptPath status = (updatorPath, updateScriptPath, StrStatus status)"

definition placeholder_error :: "string \<Rightarrow> run_error" where
  "placeholder_error t = \<lparr>re_text = t, re_not_exist = False, re_exit = None\<rparr>"

definition ExecuteUpdateScriptRunner :: "update_env \<Rightarrow> bool \<Rightarrow> string \<Rightarrow> unit up" where
  "ExecuteUpdateScriptRunner ue locked updateScriptPath =
     bind (on_world (GetUpdatorPathByCurrentProcess (ue_mc ue) (ue_cwd ue))) (\<lambda>updatorPath.
     bind (change (\<lambda>u. log_event (ScriptStarted updateScriptPath locked (up_cpu u) (up_critical u)) u)) (\<lambda>_.
     bind (SyncRunDetached ue updatorPath [''--local_install'', updateScriptPath]) (\<lambda>(exitcode, status, err).
     let context = run_context_of updatorPath updateScriptPath status in
     case err of
       Some e \<Rightarrow>
         (let code = (if exitcode \<noteq> ExitPlaceholderFailed then Some exitcode else None) in
          if status = Timeout then ReportExecuteUpdateScriptRunnerTimeout ue e context code
          else ReportExecuteUpdateScriptRunnerFailed ue e context code)
     | None \<Rightarrow>
         skip_unless (status \<noteq> Success)
           (ReportExecuteUpdateScriptRunnerFailed ue
             (placeholder_error (if status = Timeout then errTimeoutPlaceholder else errFailurePlaceholder))
             context (Some exitcode)))))"

text \<open>\<open>IsAnyNonPeriodicTaskRunning\<close> is asked only when no fetch is under way.\<close>

definition tasks_busy :: "update_env \<Rightarrow> nat \<Rightarrow> bool" where
  "tasks_busy ue n \<longleftrightarrow> 0 < ue_fetching ue n \<or> IsAnyNonPeriodicTaskRunning (ue_cron ue n) (ue_tasks ue n)"

definition pause :: "unit up" where
  "pause = on_world (\<lambda>w. ((), go_sleep 5 w))"

text \<open>One round of the loop: the value says whether the script has been run.\<close>

definition update_round :: "update_env \<Rightarrow> string \<Rightarrow> bool up" where
  "update_round ue updateScriptPath =
     bind (question (tasks_busy ue)) (\<lambda>busy.
     if busy then bind pause (\<lambda>_. give False)
     else
       bind (change (set_critical True)) (\<lambda>_.
       deferred
         (bind (question (ue_try_lock ue)) (\<lambda>locked.
          if \<not> locked then bind pause (\<lambda>_. give False)
          else
            bind pause (\<lambda>_.
            bind (question (tasks_busy ue)) (\<lambda>busy_again.
            if busy_again then give False
            else bind (ExecuteUpdateScriptRunner ue locked updateScriptPath) (\<lambda>_. give True)))))
         (set_critical False)))"

text \<open>
  The loop, with a bound on its rounds. The value is \<open>False\<close> when the bound is used up: the
  program then still waits.
\<close>

primrec update_rounds :: "nat \<Rightarrow> update_env \<Rightarrow> string \<Rightarrow> bool up" where
  "update_rounds 0 = (\<lambda>ue path. give False)"
| "update_rounds (Suc n) = (\<lambda>ue path.
     bind (update_round ue path) (\<lambda>ran. if ran then give True else update_rounds n ue path))"

definition executeUpdateScript :: "update_env \<Rightarrow> nat \<Rightarrow> string \<Rightarrow> bool up" where
  "executeUpdateScript ue fuel updateScriptPath =
     bind (change (set_cpu True)) (\<lambda>_.
     bind (update_rounds fuel ue updateScriptPath) (\<lambda>ran.
     bind (skip_unless ran (change (set_cpu False))) (\<lambda>_. give ran)))"

section \<open>The whole update\<close>

text \<open>Existence and permissions of the updator.\<close>

definition CheckFileIsExecutable :: "update_env \<Rightarrow> string \<Rightarrow> bool up" where
  "CheckFileIsExecutable ue fileName =
     bind (question (\<lambda>n. ue_permissions ue n (path_abs (ue_cwd ue) fileName))) (\<lambda>r.
     give (case r of Inl e \<Rightarrow> False | Inr mode \<Rightarrow> mode div 64 mod 2 = 1))"

definition check_updator :: "update_env \<Rightarrow> unit up" where
  "check_updator ue =
     bind (on_world (GetUpdatorPathByCurrentProcess (ue_mc ue) (ue_cwd ue))) (\<lambda>updatorPath.
     let reject = (\<lambda>e t. let wrapErr = WrappedError [] e ('': '' @ updatorPath @ t) in
           bind (set_message (err_text wrapErr) (''updatorPath='' @ updatorPath)) (\<lambda>_. raise wrapErr)) in
     bind (on_world (CheckFileIsExist (ue_mc ue) updatorPath)) (\<lambda>exists.
     if \<not> exists then reject ErrUpdatorNotFound '' does not exist''
     else bind (CheckFileIsExecutable ue updatorPath) (\<lambda>executable.
       if \<not> executable then reject ErrUpdatorNotExecutable '' is not executable'' else give ())))"

text \<open>
  The body of \<open>safeUpdate\<close>. The value is \<open>True\<close> when it returns nil, and \<open>False\<close> while it waits
  for tasks longer than \<open>fuel\<close> rounds.
\<close>

definition update_body :: "update_env \<Rightarrow> nat \<Rightarrow> instant \<Rightarrow> int \<Rightarrow> int \<Rightarrow> bool up" where
  "update_body ue fuel startTime timeout maximumDownloadTimeout =
     bind (on_world (isUpdatingDisabled (ue_mc ue) (ue_cwd ue))) (\<lambda>(disabled, err).
     if disabled then give True
     else
       bind (check_updator ue) (\<lambda>_.
       bind (deadline_after ue startTime timeout ''CheckFileIsExist'') (\<lambda>_.
       bind (check_update ue startTime timeout) (\<lambda>updateInfo.
       if NeedUpdate updateInfo = 0 then give True
       else
         bind (deadline_after ue startTime timeout ''FetchUpdateInfo'') (\<lambda>_.
         bind (attempted (checkLocalDirectory ue updateInfo)) (\<lambda>local.
         case local of
           Inr updateScriptPath \<Rightarrow> executeUpdateScript ue fuel updateScriptPath
         | Inl e \<Rightarrow>
             bind (deadline_after ue startTime timeout ''checkLocalDirectory'') (\<lambda>_.
             bind (download_stage ue startTime timeout maximumDownloadTimeout updateInfo) (\<lambda>tempSavePath.
             bind (deadline_after ue startTime timeout ''DownloadPackage'') (\<lambda>_.
             bind (package_phase ue startTime timeout updateInfo tempSavePath) (\<lambda>updateScriptPath.
             bind (deadline_after ue startTime timeout ''updateScriptPath'') (\<lambda>_.
             executeUpdateScript ue fuel updateScriptPath)))))))))))"

definition report_message :: "updater \<Rightarrow> updater" where
  "report_message u = (if fst (up_message u) \<noteq> [] then log_event (UpdateFailedEvent (fst (up_message u)) (snd (up_message u))) u else u)"

definition safeUpdate :: "update_env \<Rightarrow> nat \<Rightarrow> instant \<Rightarrow> int \<Rightarrow> int \<Rightarrow> bool up" where
  "safeUpdate ue fuel startTime timeout maximumDownloadTimeout =
     bind (set_message [] []) (\<lambda>_. deferred (update_body ue fuel startTime timeout maximumDownloadTimeout) report_message)"

definition SafeUpdate :: "update_env \<Rightarrow> nat \<Rightarrow> int \<Rightarrow> int \<Rightarrow> bool up" where
  "SafeUpdate ue fuel timeout maximumDownloadTimeout =
     bind (now ue) (\<lambda>startTime. safeUpdate ue fuel startTime timeout maximumDownloadTimeout)"

definition SafeBootstrapUpdate :: "update_env \<Rightarrow> nat \<Rightarrow> int \<Rightarrow> int \<Rightarrow> bool up" where
  "SafeBootstrapUpdate ue fuel timeout maximumDownloadTimeout =
     bind (now ue) (\<lambda>startTime.
     bind (on_world (isBootstrapUpdatingDisabled (ue_mc ue) (ue_cwd ue))) (\<lambda>(disabled, err).
     if disabled then give True
     else bind (deadline ue startTime timeout) (\<lambda>_. safeUpdate ue fuel startTime timeout maximumDownloadTimeout)))"

text \<open>The periodic check, whose error is only logged.\<close>

definition doCheck :: "update_env \<Rightarrow> nat \<Rightarrow> updater \<Rightarrow> updater" where
  "doCheck ue fuel u = snd (SafeUpdate ue fuel 60000000000 30000000000 u)"

end
