(* ===== verification/Updater_Properties.thy ===== *)
theory Updater_Properties
  imports Updater
begin

text \<open>
  What holds of an update: which events a run of the updater can leave behind, which of them come
  before the update script is started, and that the flags and the deadlines are kept. The lemmas
  follow the stages of \<open>Updater\<close>: a stage is described by the events it adds to the log.
\<close>

section \<open>Traces of steps\<close>

definition same_flags :: "updater \<Rightarrow> updater \<Rightarrow> bool" where
  "same_flags u v \<longleftrightarrow> up_cpu v = up_cpu u \<and> up_critical v = up_critical u"

definition traced :: "'a up \<Rightarrow> ('a \<Rightarrow> up_event list \<Rightarrow> bool) \<Rightarrow> (up_event list \<Rightarrow> bool) \<Rightarrow> bool" where
  "traced m Q E \<longleftrightarrow> (\<forall>u. wp m (\<lambda>x v. same_flags u v \<and> (\<exists>es. up_log v = up_log u @ es \<and> Q x es))
     (\<lambda>e v. same_flags u v \<and> (\<exists>es. up_log v = up_log u @ es \<and> E es)) u)"

abbreviation silent :: "'a up \<Rightarrow> bool" where
  "silent m \<equiv> traced m (\<lambda>x es. es = []) (\<lambda>es. es = [])"

lemma same_flags_refl [simp]: "same_flags u u"
  by (simp add: same_flags_def)

lemma same_flags_simps [simp]:
  "same_flags u (v\<lparr>up_world := w\<rparr>) = same_flags u v" "same_flags u (v\<lparr>up_message := m\<rparr>) = same_flags u v"
  "same_flags u (log_event e v) = same_flags u v" "up_log (log_event e v) = up_log v @ [e]"
  by (simp_all add: same_flags_def log_event_def)

lemma tracedD:
  "traced m Q E \<Longrightarrow> wp m (\<lambda>x v. same_flags u v \<and> (\<exists>es. up_log v = up_log u @ es \<and> Q x es))
     (\<lambda>e v. same_flags u v \<and> (\<exists>es. up_log v = up_log u @ es \<and> E es)) u"
  by (simp add: traced_def)

lemma traced_mono:
  assumes "traced m Q E" "\<And>x es. Q x es \<Longrightarrow> Q' x es" "\<And>es. E es \<Longrightarrow> E' es"
  shows "traced m Q' E'"
  unfolding traced_def
proof
  fix u
  show "wp m (\<lambda>x v. same_flags u v \<and> (\<exists>es. up_log v = up_log u @ es \<and> Q' x es))
     (\<lambda>e v. same_flags u v \<and> (\<exists>es. up_log v = up_log u @ es \<and> E' es)) u"
    by (rule wp_mono [OF tracedD [OF assms(1)]]) (use assms(2,3) in blast)+
qed

lemma traced_bind:
  assumes m: "traced m P F" and f: "\<And>x. traced (f x) (Q1 x) (E1 x)"
    and Q: "\<And>x as y bs. P x as \<Longrightarrow> Q1 x y bs \<Longrightarrow> Q y (as @ bs)"
    and E: "\<And>as. F as \<Longrightarrow> E as" "\<And>x as bs. P x as \<Longrightarrow> E1 x bs \<Longrightarrow> E (as @ bs)"
  shows "traced (bind m f) Q E"
  unfolding traced_def
proof
  fix u
  show "wp (bind m f) (\<lambda>x v. same_flags u v \<and> (\<exists>es. up_log v = up_log u @ es \<and> Q x es))
     (\<lambda>e v. same_flags u v \<and> (\<exists>es. up_log v = up_log u @ es \<and> E es)) u"
    unfolding wp_bind
  proof (rule wp_mono [OF tracedD [OF m]], goal_cases)
    case (1 x v)
    then obtain as where as: "up_log v = up_log u @ as" "P x as" and fl: "same_flags u v" by blast
    show ?case
      by (rule wp_mono [OF tracedD [OF f]])
        (use as fl Q E(2) in \<open>auto simp: same_flags_def\<close>)
  next
    case (2 e v)
    then show ?case using E(1) by blast
  qed
qed

lemma traced_silent_bind:
  "silent m \<Longrightarrow> (\<And>x. traced (f x) Q E) \<Longrightarrow> E [] \<Longrightarrow> traced (bind m f) Q E"
  by (erule traced_bind) auto

lemma traced_handle:
  assumes m: "traced m Q F" and h: "\<And>e. traced (h e) Q1 E1"
    and Q: "\<And>as y bs. F as \<Longrightarrow> Q1 y bs \<Longrightarrow> Q y (as @ bs)" and E: "\<And>as bs. F as \<Longrightarrow> E1 bs \<Longrightarrow> E (as @ bs)"
  shows "traced (handle m h) Q E"
  unfolding traced_def
proof
  fix u
  show "wp (handle m h) (\<lambda>x v. same_flags u v \<and> (\<exists>es. up_log v = up_log u @ es \<and> Q x es))
     (\<lambda>e v. same_flags u v \<and> (\<exists>es. up_log v = up_log u @ es \<and> E es)) u"
    unfolding wp_handle
  proof (rule wp_mono [OF tracedD [OF m]], goal_cases)
    case (2 e v)
    then obtain as where as: "up_log v = up_log u @ as" "F as" and fl: "same_flags u v" by blast
    show ?case
      by (rule wp_mono [OF tracedD [OF h]]) (use as fl Q E in \<open>auto simp: same_flags_def\<close>)
  qed blast
qed

lemma traced_basic:
  "Q x [] \<Longrightarrow> traced (give x) Q E" "E [] \<Longrightarrow> traced (raise e) Q E"
  "Qu () [ev] \<Longrightarrow> traced (change (log_event ev)) Qu E"
  by (auto simp: traced_def wp_rules)

lemma traced_attempted:
  assumes "traced m (\<lambda>x. Q (Inr x)) F" "\<And>e es. F es \<Longrightarrow> Q (Inl e) es"
  shows "traced (attempted m) Q E"
  unfolding traced_def wp_attempted
proof
  fix u
  show "wp m (\<lambda>x v. same_flags u v \<and> (\<exists>es. up_log v = up_log u @ es \<and> Q (Inr x) es))
     (\<lambda>e v. same_flags u v \<and> (\<exists>es. up_log v = up_log u @ es \<and> Q (Inl e) es)) u"
    by (rule wp_mono [OF tracedD [OF assms(1)]]) (use assms(2) in blast)+
qed

lemma silent_steps:
  "silent (on_world f)" "silent (question g)" "silent (of_option e)" "silent (of_sum r)" "silent (set_message a b)"
  "silent (give x)" "silent (raise e')"
  by (auto simp: traced_def wp_rules split: option.split sum.split)

lemma silent_bind: "silent m \<Longrightarrow> (\<And>x. silent (f x)) \<Longrightarrow> silent (bind m f)"
  by (rule traced_silent_bind) simp_all

lemma silent_branches:
  "silent m \<Longrightarrow> silent m' \<Longrightarrow> silent (if b then m else m')" "silent u \<Longrightarrow> silent (skip_unless b u)"
  by (simp_all add: skip_unless_def silent_steps)

lemmas silent_intros = silent_bind silent_branches silent_steps

lemma silent_deadlines:
  "silent (preparationTimedOut ue startTime t)" "silent (deadline ue startTime t)" "silent (deadline_after ue startTime t p)"
  by (auto simp: preparationTimedOut_def deadline_def deadline_after_def now_def intro!: silent_intros)

lemma silent_reports:
  "silent (report_failure ue ty i c msg)" "silent (ReportDownloadPackageFailed ue de info ctx)"
  "silent (ReportCheckMD5Failed ue e info ctx)" "silent (ReportExtractPackageFailed ue e info ctx)"
  "silent (ReportValidateExecutableFailed ue e info ctx)" "silent (reportExecutingFailure ue ty' re rc code)"
  by (simp_all add: report_failure_def ReportDownloadPackageFailed_def ReportCheckMD5Failed_def
      ReportExtractPackageFailed_def ReportValidateExecutableFailed_def reportExecutingFailure_def silent_intros)

section \<open>The stages\<close>

text \<open>Events of the preparation are neither an answer of the server nor the start of a script.\<close>

fun prepares :: "up_event \<Rightarrow> bool" where
  "prepares (Fetched info) = False"
| "prepares (ScriptStarted p l c k) = False"
| "prepares e = True"

lemma FetchUpdateInfo_traced:
  "traced (FetchUpdateInfo ue) (\<lambda>info es. es = [Fetched info]) (\<lambda>es. es = [])"
  by (auto simp: traced_def FetchUpdateInfo_def wp_rules split_beta split: option.split sum.split)

lemma fetch_tries_traced:
  "traced (fetch_tries n ue startTime t) (\<lambda>info es. es = [Fetched info]) (\<lambda>es. es = [])"
proof (induction n)
  case 0
  show ?case
    unfolding fetch_tries.simps
    by (rule traced_handle [OF FetchUpdateInfo_traced, where ?Q1.0 = "\<lambda>_ _. False" and ?E1.0 = "\<lambda>es. es = []"])
      (auto intro!: traced_silent_bind traced_basic silent_deadlines)
next
  case (Suc n)
  show ?case
    unfolding fetch_tries.simps
    by (rule traced_handle [OF FetchUpdateInfo_traced, where ?Q1.0 = "\<lambda>info es. es = [Fetched info]" and ?E1.0 = "\<lambda>es. es = []"])
      (auto intro!: traced_silent_bind silent_deadlines silent_steps Suc)
qed

lemma check_update_traced:
  "traced (check_update ue startTime t) (\<lambda>info es. es = [Fetched info]) (\<lambda>es. es = [])"
  unfolding check_update_def
  by (rule traced_handle [OF fetch_tries_traced, where ?Q1.0 = "\<lambda>_ _. False" and ?E1.0 = "\<lambda>es. es = []"])
    (auto intro!: traced_silent_bind traced_basic silent_steps)

lemma CompareFileMD5_traced:
  "traced (CompareFileMD5 ue p d) (\<lambda>x es. \<exists>g. es = [Digested p g] \<and> to_lower g = to_lower d) (list_all prepares)"
  unfolding CompareFileMD5_def ComputeMd5_def
  by (rule traced_bind [where P = "\<lambda>g es. es = [Digested p g]" and F = "\<lambda>es. es = []"
        and ?Q1.0 = "\<lambda>g _ es. es = [] \<and> to_lower g = to_lower d" and ?E1.0 = "\<lambda>_ es. es = []"])
    (auto simp: traced_def wp_rules split: sum.split)

definition digests :: "string \<Rightarrow> (string \<times> string) list \<Rightarrow> string list \<Rightarrow> up_event list" where
  "digests dir hs gs = map2 (\<lambda>h g. Digested (path_join [dir, fst h]) g) hs gs"

definition digests_match :: "(string \<times> string) list \<Rightarrow> string list \<Rightarrow> bool" where
  "digests_match hs gs \<longleftrightarrow> list_all2 (\<lambda>h g. to_lower g = to_lower (snd h)) hs gs"

lemma compare_hashes_traced:
  "traced (compare_hashes ue dir hs) (\<lambda>x es. \<exists>gs. es = digests dir hs gs \<and> digests_match hs gs) (list_all prepares)"
proof (induction hs)
  case Nil
  show ?case by (auto simp: digests_def digests_match_def intro!: traced_basic)
next
  case (Cons h hs)
  obtain f d where h: "h = (f, d)" by fastforce
  show ?case
    unfolding h compare_hashes.simps
  proof (rule traced_bind [OF CompareFileMD5_traced Cons.IH], goal_cases)
    case (1 x as y bs)
    then obtain g gs where "as = [Digested (path_join [dir, f]) g]" "to_lower g = to_lower d"
      "bs = digests dir hs gs" "digests_match hs gs" by blast
    then show ?case by (intro exI [of _ "g # gs"]) (simp add: digests_def digests_match_def)
  qed auto
qed

text \<open>
  An installed version is verified: its hash file names the update script, and every file it
  names has the digest it gives.
\<close>

definition local_verified :: "UpdateCheckResp \<Rightarrow> up_event list \<Rightarrow> string \<Rightarrow> bool" where
  "local_verified info es path \<longleftrightarrow>
     (\<exists>v inst hs gs. ExtractVersionStringFromURL (UI_URL info) = Inr v
       \<and> es = HashesRead (path_join [inst, v]) hs # digests (path_join [inst, v]) hs gs @ [VersionWritten (path_join [inst, ''version'']) v]
       \<and> digests_match hs gs \<and> GetUpdateScript \<in> fst ` set hs
       \<and> path = path_join [path_join [inst, v], GetUpdateScript])"

definition hashes_verified :: "string \<Rightarrow> up_event list \<Rightarrow> string \<Rightarrow> bool" where
  "hashes_verified dir es path \<longleftrightarrow>
     (\<exists>hs gs. es = HashesRead dir hs # digests dir hs gs \<and> digests_match hs gs \<and> GetUpdateScript \<in> fst ` set hs
       \<and> path = path_join [dir, GetUpdateScript])"

lemma prepares_digests [simp]: "list_all prepares (digests dir hs gs)"
  by (auto simp: digests_def list_all_iff)

lemma hash_file_traced:
  "traced (hash_file_verified ue dir) (\<lambda>path es. hashes_verified dir es path) (list_all prepares)"
proof -
  have 1: "traced (bind (compare_hashes ue dir hs) (\<lambda>_.
      if GetUpdateScript \<in> fst ` set hs then give (path_join [dir, GetUpdateScript])
      else raise (PlainError ''updateScript not found'')))
    (\<lambda>path es. \<exists>gs. es = digests dir hs gs \<and> digests_match hs gs \<and> GetUpdateScript \<in> fst ` set hs \<and> path = path_join [dir, GetUpdateScript])
    (list_all prepares)" for hs
    by (rule traced_bind [OF compare_hashes_traced, where ?Q1.0 = "\<lambda>_ path es. es = [] \<and> GetUpdateScript \<in> fst ` set hs \<and> path = path_join [dir, GetUpdateScript]"
          and ?E1.0 = "\<lambda>_ es. es = []"])
      (auto simp: traced_def wp_rules)
  have 2: "traced (bind (change (log_event (HashesRead dir hs))) (\<lambda>_. bind (compare_hashes ue dir hs) (\<lambda>_.
      if GetUpdateScript \<in> fst ` set hs then give (path_join [dir, GetUpdateScript])
      else raise (PlainError ''updateScript not found''))))
    (\<lambda>path es. hashes_verified dir es path) (list_all prepares)" for hs
    by (rule traced_bind [OF traced_basic(3) 1, where P = "\<lambda>_ es. es = [HashesRead dir hs]" and F = "\<lambda>_. False"])
      (auto simp: hashes_verified_def)
  have 3: "traced (case base64_decode content of Inl k \<Rightarrow> raise (PlainError (base64_error k))
      | Inr decoded \<Rightarrow> bind (of_sum (ue_hash_map ue decoded)) (\<lambda>hashMap.
          bind (change (log_event (HashesRead dir hashMap))) (\<lambda>_. bind (compare_hashes ue dir hashMap) (\<lambda>_.
          if GetUpdateScript \<in> fst ` set hashMap then give (path_join [dir, GetUpdateScript])
          else raise (PlainError ''updateScript not found'')))))
    (\<lambda>path es. hashes_verified dir es path) (list_all prepares)" for content
    by (cases "base64_decode content") (simp_all add: traced_basic traced_silent_bind silent_steps 2)
  show ?thesis
    unfolding hash_file_verified_def Let_def
    by (rule traced_silent_bind, rule silent_steps, rule traced_silent_bind, rule silent_steps, rule 3) simp_all
qed

lemma checkHashFile_traced:
  "traced (checkHashFile ue dir) (\<lambda>path es. hashes_verified dir es path) (list_all prepares)"
  unfolding checkHashFile_def
  by (rule traced_handle [OF hash_file_traced, where ?Q1.0 = "\<lambda>_ _. False" and ?E1.0 = "list_all prepares"])
    (auto simp: traced_def wp_rules)

lemma checkLocalDirectory_traced:
  "traced (checkLocalDirectory ue info) (\<lambda>path es. local_verified info es path) (list_all prepares)"
proof -
  have 1: "traced (bind (checkHashFile ue (path_join [inst, v])) (\<lambda>updateScriptPath.
       bind (question (\<lambda>n. mc_write (ue_mc ue) n (path_join [inst, ''version'']))) (\<lambda>e. bind (of_option e) (\<lambda>_.
       bind (change (log_event (VersionWritten (path_join [inst, ''version'']) v))) (\<lambda>_. give updateScriptPath)))))
     (\<lambda>path es. local_verified info es path) (list_all prepares)"
    if "ExtractVersionStringFromURL (UI_URL info) = Inr v" for inst v
    by (rule traced_bind [OF checkHashFile_traced, where
          ?Q1.0 = "\<lambda>p path es. es = [VersionWritten (path_join [inst, ''version'']) v] \<and> path = p" and ?E1.0 = "\<lambda>_ es. es = []"])
      (auto simp: traced_def wp_rules hashes_verified_def local_verified_def that split: option.split)
  show ?thesis
    unfolding checkLocalDirectory_def
    by (auto intro!: traced_silent_bind traced_basic silent_steps 1
        simp: of_sum_def split: sum.split)
qed

definition removal_of :: "update_env \<Rightarrow> up_event \<Rightarrow> bool" where
  "removal_of ue e \<longleftrightarrow> (\<exists>dir name. e = TreeRemoved (path_join [dir, name]) \<and> version_pattern name
     \<and> CompareVersion (ascii_runes name) (ascii_runes (ue_version ue)) < 0)"

lemma remove_outdated_traced:
  "traced (remove_outdated ue dir cs)
     (\<lambda>x es. es = map (\<lambda>c. TreeRemoved (path_join [dir, fst c])) (filter (outdated (ue_version ue)) cs)) (\<lambda>es. False)"
proof (induction cs)
  case Nil
  show ?case by (auto intro!: traced_basic)
next
  case (Cons c cs)
  show ?case
    unfolding remove_outdated.simps
    by (rule traced_bind [OF _ Cons.IH, where F = "\<lambda>_. False"
          and P = "\<lambda>x es. es = (if outdated (ue_version ue) c then [TreeRemoved (path_join [dir, fst c])] else [])"])
      (auto simp: traced_def wp_rules)
qed

lemma RemoveOldVersion_traced:
  "traced (RemoveOldVersion ue dir) (\<lambda>x es. list_all (removal_of ue) es) (\<lambda>es. es = [])"
proof -
  have "traced (remove_outdated ue dir cs) (\<lambda>x es. list_all (removal_of ue) es) (\<lambda>es. es = [])" for cs
    by (rule traced_mono [OF remove_outdated_traced])
      (auto simp: list_all_iff removal_of_def outdated_def)
  then show ?thesis
    unfolding RemoveOldVersion_def by (auto intro!: traced_silent_bind traced_basic silent_steps)
qed

lemma ExtractPackage_traced:
  "traced (ExtractPackage ue p d) (\<lambda>x es. es = [Unzipped p d]) (\<lambda>es. es = [])"
  by (auto simp: traced_def ExtractPackage_def wp_rules split: option.split)

lemma ValidateExecutable_traced:
  "traced (ValidateExecutable ue p) (\<lambda>x es. es = [Inspected p]) (\<lambda>es. es = [])"
  by (auto simp: traced_def ValidateExecutable_def wp_rules split: sum.split)

lemma reporting_traced:
  assumes "traced m Q E" "\<And>e. silent (r e)"
  shows "traced (reporting m g r) Q E"
  unfolding reporting_def
proof (rule traced_handle [OF assms(1), where ?Q1.0 = "\<lambda>_ _. False" and ?E1.0 = "\<lambda>es. es = []"])
  show "traced (bind (set_message (fst (g e)) (snd (g e))) (\<lambda>_. bind (r e) (\<lambda>_. raise e))) (\<lambda>_ _. False) (\<lambda>es. es = [])" for e
    by (auto intro!: traced_silent_bind silent_steps assms(2) traced_basic)
qed auto

lemma download_timeout_traced: "silent (download_timeout ue startTime t mx)"
  by (auto simp: download_timeout_def now_def Let_def intro!: silent_intros)

lemma DownloadPackage_traced:
  "traced (DownloadPackage ue url p t) (\<lambda>d es. es = (if d = None then [Downloaded url p t] else [])) (\<lambda>es. False)"
  by (auto simp: traced_def DownloadPackage_def HttpDownloadWithTimeout_def wp_rules split: sum.split option.split)

lemma download_stage_traced:
  "traced (download_stage ue startTime t mx info) (\<lambda>p es. \<exists>k. es = [Downloaded (UI_URL info) p k]) (\<lambda>es. es = [])"
proof -
  have 1: "traced (bind (DownloadPackage ue (UI_URL info) p k) (\<lambda>d.
         case d of
           None \<Rightarrow> give p
         | Some e \<Rightarrow>
             bind (set_message (m d e) (m' d e)) (\<lambda>_. bind (ReportDownloadPackageFailed ue e info c) (\<lambda>_. raise (h d e)))))
     (\<lambda>p es. \<exists>k. es = [Downloaded (UI_URL info) p k]) (\<lambda>es. es = [])" for p k m m' c h
  proof (rule traced_bind [OF DownloadPackage_traced])
    show "traced (case d of None \<Rightarrow> give p | Some e \<Rightarrow>
        bind (set_message (m d e) (m' d e)) (\<lambda>_. bind (ReportDownloadPackageFailed ue e info c) (\<lambda>_. raise (h d e))))
      (\<lambda>q es. es = [] \<and> q = p \<and> d = None) (\<lambda>es. es = [] \<and> d \<noteq> None)" for d
      by (cases d) (auto intro!: traced_basic traced_silent_bind silent_steps silent_reports)
  qed auto
  show ?thesis
    unfolding download_stage_def Let_def
    by (auto intro!: traced_silent_bind traced_basic silent_steps download_timeout_traced 1 split: option.split)
qed

text \<open>
  A package is verified: its digest is the one the server gave, only older versions were removed
  after it, and the executable of the version that was extracted has a header for this machine.
\<close>

definition package_verified :: "update_env \<Rightarrow> UpdateCheckResp \<Rightarrow> string \<Rightarrow> up_event list \<Rightarrow> string \<Rightarrow> bool" where
  "package_verified ue info tmp es path \<longleftrightarrow>
     (\<exists>g rs dir v inst inst'. es = Digested tmp g # rs @ [Unzipped tmp dir, Inspected (path_join [inst, v, GetAgentName])]
       \<and> to_lower g = to_lower (UI_Md5 info) \<and> list_all (removal_of ue) rs
       \<and> ExtractVersionStringFromURL (UI_URL info) = Inr v \<and> path = path_join [inst', v, GetUpdateScript])"

lemma version_paths_traced:
  "traced (on_world (GetAgentPathByVersion mc cwd v)) (\<lambda>p es. es = [] \<and> (\<exists>inst. p = path_join [inst, v, GetAgentName])) (\<lambda>es. False)"
  "traced (on_world (GetUpdateScriptPathByVersion mc cwd v)) (\<lambda>p es. es = [] \<and> (\<exists>inst. p = path_join [inst, v, GetUpdateScript])) (\<lambda>es. False)"
  by (auto simp: traced_def wp_rules GetAgentPathByVersion_def GetUpdateScriptPathByVersion_def split_beta)

lemma validate_traced:
  "traced (bind (on_world (GetAgentPathByVersion mc cwd v)) (\<lambda>agentPath.
     bind (reporting (ValidateExecutable ue agentPath) (m agentPath) (\<lambda>e. ReportValidateExecutableFailed ue e info (c agentPath e))) (\<lambda>_.
     bind (deadline_after ue startTime t p) (\<lambda>_. on_world (GetUpdateScriptPathByVersion mc cwd v)))))
   (\<lambda>path es. \<exists>inst inst'. es = [Inspected (path_join [inst, v, GetAgentName])] \<and> path = path_join [inst', v, GetUpdateScript])
   (list_all prepares)"
proof (rule traced_bind [OF version_paths_traced(1)])
  show "traced (bind (reporting (ValidateExecutable ue a) (m a) (\<lambda>e. ReportValidateExecutableFailed ue e info (c a e))) (\<lambda>_.
     bind (deadline_after ue startTime t p) (\<lambda>_. on_world (GetUpdateScriptPathByVersion mc cwd v))))
     (\<lambda>path es. es = [Inspected a] \<and> (\<exists>inst'. path = path_join [inst', v, GetUpdateScript])) (list_all prepares)" for a
  proof (rule traced_bind [OF reporting_traced [OF ValidateExecutable_traced silent_reports(5)]])
    show "traced (bind (deadline_after ue startTime t p) (\<lambda>_. on_world (GetUpdateScriptPathByVersion mc cwd v)))
      (\<lambda>path es. es = [] \<and> (\<exists>inst'. path = path_join [inst', v, GetUpdateScript])) (\<lambda>es. es = [])"
      by (rule traced_silent_bind [OF silent_deadlines(3)], rule traced_mono [OF version_paths_traced(2)]) auto
  qed auto
qed auto

lemma extract_traced:
  "traced (bind (reporting (ExtractPackage ue tmp dir) m (\<lambda>e. ReportExtractPackageFailed ue e info (c e))) (\<lambda>_.
     bind (deadline_after ue startTime t p) (\<lambda>_.
     case ExtractVersionStringFromURL (UI_URL info) of
       Inl e \<Rightarrow> bind (set_message (m1 e) (m2 e)) (\<lambda>_. raise e)
     | Inr v \<Rightarrow> bind (on_world (GetAgentPathByVersion mc cwd v)) (\<lambda>agentPath.
         bind (reporting (ValidateExecutable ue agentPath) (m3 agentPath) (\<lambda>e. ReportValidateExecutableFailed ue e info (c3 agentPath e))) (\<lambda>_.
         bind (deadline_after ue startTime t p') (\<lambda>_. on_world (GetUpdateScriptPathByVersion mc cwd v)))))))
   (\<lambda>path es. \<exists>v inst inst'. es = [Unzipped tmp dir, Inspected (path_join [inst, v, GetAgentName])]
      \<and> ExtractVersionStringFromURL (UI_URL info) = Inr v \<and> path = path_join [inst', v, GetUpdateScript])
   (list_all prepares)"
proof (rule traced_bind [OF reporting_traced [OF ExtractPackage_traced silent_reports(4)]])
  let ?T = "\<lambda>path es. \<exists>v inst inst'. es = [Inspected (path_join [inst, v, GetAgentName])]
      \<and> ExtractVersionStringFromURL (UI_URL info) = Inr v \<and> path = path_join [inst', v, GetUpdateScript]"
  have "traced (case ExtractVersionStringFromURL (UI_URL info) of
       Inl e \<Rightarrow> bind (set_message (m1 e) (m2 e)) (\<lambda>_. raise e)
     | Inr v \<Rightarrow> bind (on_world (GetAgentPathByVersion mc cwd v)) (\<lambda>agentPath.
         bind (reporting (ValidateExecutable ue agentPath) (m3 agentPath) (\<lambda>e. ReportValidateExecutableFailed ue e info (c3 agentPath e))) (\<lambda>_.
         bind (deadline_after ue startTime t p') (\<lambda>_. on_world (GetUpdateScriptPathByVersion mc cwd v)))))
    ?T (list_all prepares)"
  proof (cases "ExtractVersionStringFromURL (UI_URL info)")
    case (Inl e)
    then show ?thesis by (auto intro!: traced_silent_bind silent_steps traced_basic)
  next
    case (Inr v)
    then show ?thesis by simp (rule traced_mono [OF validate_traced], auto)
  qed
  then show "traced (bind (deadline_after ue startTime t p) (\<lambda>_.
     case ExtractVersionStringFromURL (UI_URL info) of
       Inl e \<Rightarrow> bind (set_message (m1 e) (m2 e)) (\<lambda>_. raise e)
     | Inr v \<Rightarrow> bind (on_world (GetAgentPathByVersion mc cwd v)) (\<lambda>agentPath.
         bind (reporting (ValidateExecutable ue agentPath) (m3 agentPath) (\<lambda>e. ReportValidateExecutableFailed ue e info (c3 agentPath e))) (\<lambda>_.
         bind (deadline_after ue startTime t p') (\<lambda>_. on_world (GetUpdateScriptPathByVersion mc cwd v))))))
    ?T (list_all prepares)"
    by (rule traced_silent_bind [OF silent_deadlines(3)]) simp
qed auto

lemma removal_prepares: "list_all (removal_of ue) es \<Longrightarrow> list_all prepares es"
  by (auto simp: list_all_iff removal_of_def)

lemma attempted_removal_traced:
  "traced (attempted (RemoveOldVersion ue dir)) (\<lambda>_ es. list_all (removal_of ue) es) (\<lambda>es. False)"
  by (rule traced_attempted [where F = "\<lambda>es. es = []"], rule RemoveOldVersion_traced, simp)

lemma verify_package_traced:
  "traced (verify_package ue startTime t info tmp) (\<lambda>path es. package_verified ue info tmp es path) (list_all prepares)"
  unfolding verify_package_def
proof (rule traced_bind [OF reporting_traced [OF CompareFileMD5_traced silent_reports(3)], where
      ?Q1.0 = "\<lambda>_ path es. \<exists>rs dir v inst inst'. es = rs @ [Unzipped tmp dir, Inspected (path_join [inst, v, GetAgentName])]
        \<and> list_all (removal_of ue) rs \<and> ExtractVersionStringFromURL (UI_URL info) = Inr v \<and> path = path_join [inst', v, GetUpdateScript]"
      and ?E1.0 = "\<lambda>_. list_all prepares"], goal_cases)
  case (1 x)
  show ?case
    by (rule traced_silent_bind [OF silent_deadlines(3)], rule traced_silent_bind [OF silent_steps(1)],
        rule traced_bind [OF attempted_removal_traced], rule traced_silent_bind [OF silent_deadlines(3)], rule extract_traced)
      (auto intro: removal_prepares)
next
  case (2 x as y bs)
  then show ?case unfolding package_verified_def by fastforce
qed auto

section \<open>Flags\<close>

lemma set_flags [simp]:
  "up_log (set_cpu b u) = up_log u" "up_log (set_critical b u) = up_log u" "up_world (set_cpu b u) = up_world u"
  "up_world (set_critical b u) = up_world u" "up_cpu (set_cpu b u) = b" "up_cpu (set_critical b u) = up_cpu u"
  "up_critical (set_critical b u) = b" "up_critical (set_cpu b u) = up_critical u"
  "up_cpu (log_event e u) = up_cpu u" "up_critical (log_event e u) = up_critical u" "up_world (log_event e u) = up_world u"
  by (simp_all add: set_cpu_def set_critical_def log_event_def)

text \<open>The package is removed, or the message says that this failed.\<close>

definition cleaned :: "string \<Rightarrow> up_event list \<Rightarrow> updater \<Rightarrow> bool" where
  "cleaned tmp rm v \<longleftrightarrow> rm = [PackageRemoved tmp]
     \<or> rm = [] \<and> (\<exists>e. fst (up_message v) = ''RemoveUpdatePackage error: '' @ err_text e)"

lemma clean_package_effect:
  "same_flags u (snd (clean_package ue info tmp u))
   \<and> (\<exists>rm. up_log (snd (clean_package ue info tmp u)) = up_log u @ rm \<and> cleaned tmp rm (snd (clean_package ue info tmp u)))"
proof -
  have "wp (clean_package ue info tmp)
    (\<lambda>x v. same_flags u v \<and> (\<exists>rm. up_log v = up_log u @ rm \<and> cleaned tmp rm v))
    (\<lambda>e v. same_flags u v \<and> (\<exists>rm. up_log v = up_log u @ rm \<and> cleaned tmp rm v)) u"
    by (auto simp: clean_package_def RemoveUpdatePackage_def wp_rules cleaned_def split: option.split)
  then show ?thesis by (rule wp_bothD)
qed

lemma package_phase_effect:
  "wp (package_phase ue startTime t info tmp)
     (\<lambda>path v. \<not> up_cpu v \<and> up_critical v = up_critical u
        \<and> (\<exists>es rm. up_log v = up_log u @ es @ rm \<and> package_verified ue info tmp es path \<and> cleaned tmp rm v))
     (\<lambda>e v. \<not> up_cpu v \<and> up_critical v = up_critical u
        \<and> (\<exists>es rm. up_log v = up_log u @ es @ rm \<and> list_all prepares es \<and> cleaned tmp rm v)) u"
proof -
  have msg: "cleaned tmp rm (set_cpu False v) = cleaned tmp rm v" for rm v
    by (simp add: cleaned_def set_cpu_def)
  show ?thesis
    unfolding package_phase_def wp_bind wp_change wp_deferred
  proof (rule wp_mono [OF tracedD [OF verify_package_traced]], goal_cases)
    case (1 path v)
    obtain rm where "up_log (snd (clean_package ue info tmp v)) = up_log v @ rm" "cleaned tmp rm (snd (clean_package ue info tmp v))"
      "same_flags v (snd (clean_package ue info tmp v))"
      using clean_package_effect by blast
    moreover obtain es where "up_log v = up_log u @ es" "package_verified ue info tmp es path" using 1 by auto
    ultimately show ?case using 1 by (intro conjI exI [of _ es] exI [of _ rm]) (auto simp: same_flags_def msg)
  next
    case (2 e v)
    obtain rm where "up_log (snd (clean_package ue info tmp v)) = up_log v @ rm" "cleaned tmp rm (snd (clean_package ue info tmp v))"
      "same_flags v (snd (clean_package ue info tmp v))"
      using clean_package_effect by blast
    moreover obtain es where "up_log v = up_log u @ es" "list_all prepares es" using 2 by auto
    ultimately show ?case using 2 by (intro conjI exI [of _ es] exI [of _ rm]) (auto simp: same_flags_def msg)
  qed
qed

section \<open>The update script\<close>

abbreviation succeeds_silently :: "'a up \<Rightarrow> bool" where
  "succeeds_silently m \<equiv> traced m (\<lambda>x es. es = []) (\<lambda>es. False)"

lemma succeeds_bind: "succeeds_silently m \<Longrightarrow> (\<And>x. succeeds_silently (f x)) \<Longrightarrow> succeeds_silently (bind m f)"
  by (erule traced_bind [where ?Q1.0 = "\<lambda>_ _ es. es = []" and ?E1.0 = "\<lambda>_ _. False"]) auto

lemma succeeds_reports:
  "succeeds_silently (ReportExecuteUpdateScriptRunnerTimeout ue re rc code)"
  "succeeds_silently (ReportExecuteUpdateScriptRunnerFailed ue re rc code)"
  by (simp_all add: ReportExecuteUpdateScriptRunnerTimeout_def ReportExecuteUpdateScriptRunnerFailed_def
      reportExecutingFailure_def report_failure_def traced_def wp_rules)

lemma succeeds_SyncRunDetached: "succeeds_silently (SyncRunDetached ue c as)"
  by (auto simp: SyncRunDetached_def traced_def wp_rules split: option.split)

lemma runner_effect:
  "wp (ExecuteUpdateScriptRunner ue locked path)
     (\<lambda>x v. same_flags u v \<and> up_log v = up_log u @ [ScriptStarted path locked (up_cpu u) (up_critical u)]) (\<lambda>e v. False) u"
proof -
  have "succeeds_silently (bind (SyncRunDetached ue p as) (\<lambda>(exitcode, status, err).
     case err of
       Some e \<Rightarrow>
         (if status = Timeout then ReportExecuteUpdateScriptRunnerTimeout ue e (c status) (code exitcode)
          else ReportExecuteUpdateScriptRunnerFailed ue e (c status) (code exitcode))
     | None \<Rightarrow> skip_unless (status \<noteq> Success) (ReportExecuteUpdateScriptRunnerFailed ue (pe status) (c status) (Some exitcode))))"
    for p as c code pe
    by (rule succeeds_bind [OF succeeds_SyncRunDetached])
      (auto simp: skip_unless_def succeeds_reports intro: traced_basic split: option.split)
  note rest = tracedD [OF this]
  show ?thesis
    unfolding ExecuteUpdateScriptRunner_def wp_bind [where f = "\<lambda>updatorPath. bind (change (h updatorPath)) (g updatorPath)" for h g]
      wp_on_world wp_bind [where m = "change h" for h] wp_change Let_def
    by (rule wp_mono [OF rest]) (auto simp: same_flags_def)
qed

lemma update_round_effect:
  assumes "up_cpu u"
  shows "wp (update_round ue path)
     (\<lambda>ran v. up_cpu v \<and> (up_critical v \<longrightarrow> up_critical u) \<and> (ran \<longrightarrow> \<not> up_critical v)
        \<and> up_log v = up_log u @ (if ran then [ScriptStarted path True True True] else [])) (\<lambda>e v. False) u"
  using assms
  by (auto simp: update_round_def wp_rules pause_def same_flags_def split: prod.split intro!: wp_mono [OF runner_effect])

lemma update_rounds_effect:
  assumes "up_cpu u"
  shows "wp (update_rounds n ue path)
     (\<lambda>ran v. up_cpu v \<and> (up_critical v \<longrightarrow> up_critical u) \<and> (ran \<longrightarrow> \<not> up_critical v)
        \<and> up_log v = up_log u @ (if ran then [ScriptStarted path True True True] else [])) (\<lambda>e v. False) u"
  using assms
proof (induction n arbitrary: u)
  case 0
  then show ?case by (simp add: wp_rules)
next
  case (Suc n)
  show ?case
    unfolding update_rounds.simps wp_bind wp_if wp_give
    by (rule wp_mono [OF update_round_effect [OF Suc.prems]])
      (auto intro!: wp_mono [OF Suc.IH])
qed

lemma executeUpdateScript_effect:
  "wp (executeUpdateScript ue fuel path)
     (\<lambda>ran v. up_cpu v = (\<not> ran) \<and> (up_critical v \<longrightarrow> up_critical u)
        \<and> up_log v = up_log u @ (if ran then [ScriptStarted path True True True] else [])) (\<lambda>e v. False) u"
  unfolding executeUpdateScript_def wp_bind wp_change
  by (rule wp_mono [OF update_rounds_effect]) (auto simp: wp_rules)

section \<open>The whole update\<close>

lemma wp_traced_bind:
  assumes "traced m P F"
    and "\<And>e es v. F es \<Longrightarrow> same_flags u v \<Longrightarrow> up_log v = up_log u @ es \<Longrightarrow> E e v"
    and "\<And>x es v. P x es \<Longrightarrow> same_flags u v \<Longrightarrow> up_log v = up_log u @ es \<Longrightarrow> wp (f x) Q E v"
  shows "wp (bind m f) Q E u"
  unfolding wp_bind by (rule wp_mono [OF tracedD [OF assms(1)]]) (use assms(2,3) in blast)+

text \<open>What precedes the script of an answer \<open>info\<close> of the server.\<close>

definition verified_before :: "update_env \<Rightarrow> UpdateCheckResp \<Rightarrow> up_event list \<Rightarrow> string \<Rightarrow> bool" where
  "verified_before ue info es path \<longleftrightarrow> local_verified info es path \<or>
     (\<exists>pre tmp k ver rm. es = pre @ Downloaded (UI_URL info) tmp k # ver @ rm \<and> list_all prepares pre
        \<and> package_verified ue info tmp ver path \<and> (rm = [PackageRemoved tmp] \<or> rm = []))"

definition no_script :: "up_event list \<Rightarrow> bool" where
  "no_script es \<longleftrightarrow> (\<forall>p l c k. ScriptStarted p l c k \<notin> set es)"

definition update_trace :: "update_env \<Rightarrow> up_event list \<Rightarrow> bool" where
  "update_trace ue es \<longleftrightarrow> no_script es \<or>
     (\<exists>info mid path. NeedUpdate info \<noteq> 0 \<and> es = Fetched info # mid @ [ScriptStarted path True True True]
        \<and> verified_before ue info mid path)"

definition body_value :: "update_env \<Rightarrow> up_event list \<Rightarrow> bool \<Rightarrow> updater \<Rightarrow> bool" where
  "body_value ue log0 did v \<longleftrightarrow> up_cpu v = (\<not> did) \<and> \<not> up_critical v \<and> (\<exists>es. up_log v = log0 @ es \<and> update_trace ue es)"

definition body_error :: "up_event list \<Rightarrow> updater \<Rightarrow> bool" where
  "body_error log0 v \<longleftrightarrow> \<not> up_cpu v \<and> \<not> up_critical v \<and> (\<exists>es. up_log v = log0 @ es \<and> no_script es)"

lemma no_script_simps [simp]:
  "no_script []" "no_script (as @ bs) = (no_script as \<and> no_script bs)" "no_script (Fetched i # es) = no_script es"
  "no_script (Downloaded a b c # es) = no_script es" "no_script (PackageRemoved p # es) = no_script es"
  "no_script (UpdateFailedEvent a b # es) = no_script es"
  by (auto simp: no_script_def)

lemma prepares_no_script: "list_all prepares es \<Longrightarrow> no_script es"
  by (auto simp: no_script_def list_all_iff)

lemma package_prepares: "package_verified ue info tmp es path \<Longrightarrow> list_all prepares es"
  by (auto simp: package_verified_def removal_prepares)

lemma local_prepares: "local_verified info es path \<Longrightarrow> list_all prepares es"
  by (auto simp: local_verified_def)

lemma verified_no_script: "verified_before ue info es path \<Longrightarrow> no_script es"
  by (auto simp: verified_before_def dest!: package_prepares local_prepares prepares_no_script)

lemma exec_stage:
  assumes "up_log v = log0 @ Fetched info # mid" "verified_before ue info mid path" "NeedUpdate info \<noteq> 0" "\<not> up_critical v"
  shows "wp (executeUpdateScript ue fuel path) (body_value ue log0) (\<lambda>e. body_error log0) v"
proof (rule wp_mono [OF executeUpdateScript_effect], goal_cases)
  case (1 did w)
  show ?case
  proof (cases did)
    case True
    with 1 assms show ?thesis
      unfolding body_value_def update_trace_def
      by (intro conjI exI [of _ "Fetched info # mid @ [ScriptStarted path True True True]"] disjI2 exI [of _ info] exI [of _ mid] exI [of _ path]) auto
  next
    case False
    with 1 assms show ?thesis
      unfolding body_value_def update_trace_def
      by (intro conjI exI [of _ "Fetched info # mid"] disjI1) (auto intro: verified_no_script)
  qed
qed simp

lemma download_route:
  assumes "up_log v = log0 @ Fetched info # pre" "list_all prepares pre" "NeedUpdate info \<noteq> 0"
    "\<not> up_cpu v" "\<not> up_critical v"
  shows "wp (bind (download_stage ue startTime t mx info) (\<lambda>tmp. bind (deadline_after ue startTime t p) (\<lambda>_.
       bind (package_phase ue startTime t info tmp) (\<lambda>path. bind (deadline_after ue startTime t p') (\<lambda>_.
       executeUpdateScript ue fuel path))))) (body_value ue log0) (\<lambda>e. body_error log0) v"
proof (rule wp_traced_bind [OF download_stage_traced], goal_cases)
  case (1 e es w)
  then show ?case using assms unfolding body_error_def
    by (intro conjI exI [of _ "Fetched info # pre @ es"]) (auto simp: same_flags_def prepares_no_script)
next
  case (2 tmp es w)
  then obtain k where k: "up_log w = log0 @ Fetched info # pre @ [Downloaded (UI_URL info) tmp k]" "\<not> up_cpu w" "\<not> up_critical w"
    using assms by (auto simp: same_flags_def)
  show ?case
  proof (rule wp_traced_bind [OF silent_deadlines(3)], goal_cases)
    case (1 e es x)
    then show ?case using assms k unfolding body_error_def
      by (intro conjI exI [of _ "Fetched info # pre @ [Downloaded (UI_URL info) tmp k]"]) (auto simp: same_flags_def prepares_no_script)
  next
    case (2 unit es x)
    then have x: "up_log x = log0 @ Fetched info # pre @ [Downloaded (UI_URL info) tmp k]" "\<not> up_cpu x" "\<not> up_critical x"
      using k by (auto simp: same_flags_def)
    show ?case
      unfolding wp_bind [where m = "package_phase ue startTime t info tmp"]
    proof (rule wp_mono [OF package_phase_effect], goal_cases)
      case (1 path y)
      then obtain ver rm where y: "up_log y = up_log x @ ver @ rm" "package_verified ue info tmp ver path" "cleaned tmp rm y"
        "\<not> up_cpu y" "\<not> up_critical y" using x by auto
      have "verified_before ue info (pre @ Downloaded (UI_URL info) tmp k # ver @ rm) path"
        unfolding verified_before_def using assms(2) y(2,3)
        by (intro disjI2 exI [of _ pre] exI [of _ tmp] exI [of _ k] exI [of _ ver] exI [of _ rm]) (auto simp: cleaned_def)
      note vb = this
      show ?case
      proof (rule wp_traced_bind [OF silent_deadlines(3)], goal_cases)
        case (1 e es z)
        then show ?case using x y verified_no_script [OF vb] unfolding body_error_def
          by (intro conjI exI [of _ "Fetched info # pre @ Downloaded (UI_URL info) tmp k # ver @ rm"]) (auto simp: same_flags_def)
      next
        case (2 unit es z)
        then show ?case using x y
          by (intro exec_stage [OF _ vb assms(3)]) (auto simp: same_flags_def)
      qed
    next
      case (2 e y)
      then obtain es rm where "up_log y = up_log x @ es @ rm" "list_all prepares es" "cleaned tmp rm y" "\<not> up_cpu y" "\<not> up_critical y"
        using x by auto
      with x assms(2) show ?case unfolding body_error_def
        by (intro conjI exI [of _ "Fetched info # pre @ Downloaded (UI_URL info) tmp k # es @ rm"])
          (auto simp: cleaned_def prepares_no_script)
    qed
  qed
qed

lemma check_updator_traced: "silent (check_updator ue)"
  by (auto simp: check_updator_def CheckFileIsExecutable_def Let_def intro!: silent_intros)

lemma after_fetch:
  assumes "up_log v = log0 @ [Fetched info]" "NeedUpdate info \<noteq> 0" "\<not> up_cpu v" "\<not> up_critical v"
  shows "wp (bind (deadline_after ue startTime t p) (\<lambda>_. bind (attempted (checkLocalDirectory ue info)) (\<lambda>local.
         case local of
           Inr path \<Rightarrow> executeUpdateScript ue fuel path
         | Inl e \<Rightarrow> bind (deadline_after ue startTime t p1) (\<lambda>_.
             bind (download_stage ue startTime t mx info) (\<lambda>tmp. bind (deadline_after ue startTime t p2) (\<lambda>_.
             bind (package_phase ue startTime t info tmp) (\<lambda>path. bind (deadline_after ue startTime t p3) (\<lambda>_.
             executeUpdateScript ue fuel path))))))))
    (body_value ue log0) (\<lambda>e. body_error log0) v"
proof (rule wp_traced_bind [OF silent_deadlines(3)], goal_cases)
  case (1 e es w)
  then show ?case using assms unfolding body_error_def by (intro conjI exI [of _ "[Fetched info]"]) (auto simp: same_flags_def)
next
  case (2 unit es w)
  then have w: "up_log w = log0 @ [Fetched info]" "\<not> up_cpu w" "\<not> up_critical w" using assms by (auto simp: same_flags_def)
  have tr: "traced (attempted (checkLocalDirectory ue info))
    (\<lambda>r es. case r of Inr path \<Rightarrow> local_verified info es path | Inl e \<Rightarrow> list_all prepares es) (\<lambda>es. False)"
    by (rule traced_attempted [where F = "list_all prepares"], rule traced_mono [OF checkLocalDirectory_traced]) auto
  show ?case
  proof (rule wp_traced_bind [OF tr], goal_cases)
    case (2 r es x)
    then have x: "up_log x = log0 @ Fetched info # es" "\<not> up_cpu x" "\<not> up_critical x" using w by (auto simp: same_flags_def)
    show ?case
    proof (cases r)
      case (Inr path)
      with 2 have "verified_before ue info es path" by (simp add: verified_before_def)
      with x Inr assms(2) show ?thesis by (auto intro: exec_stage)
    next
      case (Inl e)
      with 2 have es: "list_all prepares es" by simp
      have "wp (bind (deadline_after ue startTime t p1) (\<lambda>_.
             bind (download_stage ue startTime t mx info) (\<lambda>tmp. bind (deadline_after ue startTime t p2) (\<lambda>_.
             bind (package_phase ue startTime t info tmp) (\<lambda>path. bind (deadline_after ue startTime t p3) (\<lambda>_.
             executeUpdateScript ue fuel path)))))) (body_value ue log0) (\<lambda>e. body_error log0) x"
      proof (rule wp_traced_bind [OF silent_deadlines(3)], goal_cases)
        case (1 e es' y)
        then show ?case using x es unfolding body_error_def
          by (intro conjI exI [of _ "Fetched info # es"]) (auto simp: same_flags_def prepares_no_script)
      next
        case (2 unit es' y)
        then show ?case using x es assms(2) by (intro download_route) (auto simp: same_flags_def)
      qed
      with Inl show ?thesis by simp
    qed
  qed simp
qed

lemma body_effect:
  assumes "\<not> up_cpu u" "\<not> up_critical u"
  shows "wp (update_body ue fuel startTime t mx) (body_value ue (up_log u)) (\<lambda>e. body_error (up_log u)) u"
proof -
  have unchanged: "body_error (up_log u) v" if "same_flags u v" "up_log v = up_log u" for v
    using that assms by (simp add: body_error_def same_flags_def no_script_def)
  show ?thesis
    unfolding update_body_def
  proof (rule wp_traced_bind [OF silent_steps(1)], goal_cases)
    case (2 r es v)
    then have v: "same_flags u v" "up_log v = up_log u" by auto
    obtain disabled err where r: "r = (disabled, err)" by fastforce
    show ?case
    proof (cases disabled)
      case True
      with v assms r show ?thesis
        by (simp add: wp_rules body_value_def same_flags_def update_trace_def)
    next
      case False
      have lead: "wp (bind (check_updator ue) (\<lambda>_. bind (deadline_after ue startTime t p) (\<lambda>_. bind (check_update ue startTime t) f)))
        (body_value ue (up_log u)) (\<lambda>e. body_error (up_log u)) v"
        if f: "\<And>info w. up_log w = up_log u @ [Fetched info] \<Longrightarrow> \<not> up_cpu w \<Longrightarrow> \<not> up_critical w \<Longrightarrow>
          wp (f info) (body_value ue (up_log u)) (\<lambda>e. body_error (up_log u)) w" for p f
      proof (rule wp_traced_bind [OF check_updator_traced], goal_cases)
        case (1 e es w)
        then have "same_flags u w" "up_log w = up_log u" using v by (auto simp: same_flags_def)
        then show ?case by (rule unchanged)
      next
        case (2 unit es w)
        note w = this
        show ?case
        proof (rule wp_traced_bind [OF silent_deadlines(3)], goal_cases)
          case (1 e es x)
          then show ?case using v w by (auto simp: same_flags_def intro!: unchanged)
        next
          case (2 unit es x)
          then have x: "same_flags u x" "up_log x = up_log u" using v w by (auto simp: same_flags_def)
          show ?case
          proof (rule wp_traced_bind [OF check_update_traced], goal_cases)
            case (1 e es y)
            then show ?case using x by (auto simp: same_flags_def intro!: unchanged)
          next
            case (2 info es y)
            then show ?case using x assms by (intro f) (auto simp: same_flags_def)
          qed
        qed
      qed
      show ?thesis
        unfolding r prod.case if_not_P [OF False]
      proof (rule lead)
        fix info and w :: updater
        assume w: "up_log w = up_log u @ [Fetched info]" "\<not> up_cpu w" "\<not> up_critical w"
        show "wp (if NeedUpdate info = 0 then give True
          else bind (deadline_after ue startTime t ''FetchUpdateInfo'') (\<lambda>_. bind (attempted (checkLocalDirectory ue info)) (\<lambda>local.
            case local of
              Inr path \<Rightarrow> executeUpdateScript ue fuel path
            | Inl e \<Rightarrow> bind (deadline_after ue startTime t ''checkLocalDirectory'') (\<lambda>_.
                bind (download_stage ue startTime t mx info) (\<lambda>tmp. bind (deadline_after ue startTime t ''DownloadPackage'') (\<lambda>_.
                bind (package_phase ue startTime t info tmp) (\<lambda>path. bind (deadline_after ue startTime t ''updateScriptPath'') (\<lambda>_.
                executeUpdateScript ue fuel path)))))))) (body_value ue (up_log u)) (\<lambda>e. body_error (up_log u)) w"
          using w after_fetch [OF w(1) _ w(2,3)]
          by (auto simp: wp_give body_value_def update_trace_def)
      qed
    qed
  qed (simp add: unchanged)
qed

definition update_value :: "update_env \<Rightarrow> up_event list \<Rightarrow> bool \<Rightarrow> updater \<Rightarrow> bool" where
  "update_value ue log0 did v \<longleftrightarrow> up_cpu v = (\<not> did) \<and> \<not> up_critical v
     \<and> (\<exists>es tail. up_log v = log0 @ es @ tail \<and> update_trace ue es \<and> no_script tail)"

lemma report_message_effect:
  "same_flags u (report_message u) \<and> (\<exists>tail. up_log (report_message u) = up_log u @ tail \<and> no_script tail)"
  by (auto simp: report_message_def)

lemma safeUpdate_effect:
  assumes "\<not> up_cpu u" "\<not> up_critical u"
  shows "wp (safeUpdate ue fuel startTime t mx) (update_value ue (up_log u)) (\<lambda>e. body_error (up_log u)) u"
  unfolding safeUpdate_def wp_bind wp_set_message wp_deferred
proof (rule wp_mono [OF body_effect], goal_cases)
  case (3 did v)
  then show ?case using report_message_effect [of v] unfolding body_value_def update_value_def same_flags_def by force
next
  case (4 e v)
  then obtain es tail where "up_log v = up_log u @ es" "no_script es" "\<not> up_cpu v" "\<not> up_critical v"
    "up_log (report_message v) = up_log v @ tail" "no_script tail" "same_flags v (report_message v)"
    using report_message_effect [of v] unfolding body_error_def by auto
  then show ?case unfolding body_error_def same_flags_def by (intro conjI exI [of _ "es @ tail"]) auto
qed (use assms in auto)

lemma after_clock:
  assumes "\<And>startTime v. same_flags u v \<Longrightarrow> up_log v = up_log u \<Longrightarrow> wp (f startTime) Q E v"
  shows "wp (bind (now ue) f) Q E u"
  unfolding now_def
proof (rule wp_traced_bind [where P = "\<lambda>_ es. es = []" and F = "\<lambda>_. False"])
  show "traced (on_world (read_clock (ue_env ue))) (\<lambda>_ es. es = []) (\<lambda>_. False)"
    by (simp add: traced_def wp_rules)
qed (use assms in auto)

lemma SafeUpdate_effect:
  assumes "\<not> up_cpu u" "\<not> up_critical u"
  shows "wp (SafeUpdate ue fuel t mx) (update_value ue (up_log u)) (\<lambda>e. body_error (up_log u)) u"
  unfolding SafeUpdate_def
  by (rule after_clock) (use safeUpdate_effect assms in \<open>fastforce simp: same_flags_def\<close>)

lemma SafeBootstrapUpdate_effect:
  assumes "\<not> up_cpu u" "\<not> up_critical u"
  shows "wp (SafeBootstrapUpdate ue fuel t mx) (update_value ue (up_log u)) (\<lambda>e. body_error (up_log u)) u"
  unfolding SafeBootstrapUpdate_def
proof (rule after_clock, rule wp_traced_bind [OF silent_steps(1)], goal_cases)
  case (2 startTime v r es w)
  then have w: "\<not> up_cpu w" "\<not> up_critical w" "up_log w = up_log u" using assms by (auto simp: same_flags_def)
  obtain disabled err where r: "r = (disabled, err)" by fastforce
  show ?case
  proof (cases disabled)
    case True
    with r w show ?thesis by (auto simp: wp_give update_value_def update_trace_def intro!: exI [of _ "[]"])
  next
    case False
    show ?thesis
      unfolding r prod.case if_not_P [OF False]
    proof (rule wp_traced_bind [OF silent_deadlines(2)], goal_cases)
      case (1 e es x)
      with w show ?case by (auto simp: same_flags_def body_error_def)
    next
      case (2 unit es x)
      with w safeUpdate_effect [of x] show ?case by (auto simp: same_flags_def)
    qed
  qed
qed (use assms in \<open>auto simp: same_flags_def body_error_def\<close>)

lemma effect_trace:
  assumes "wp update (update_value ue log0) (\<lambda>e. body_error log0) u"
  shows "\<exists>fs tail. up_log (snd (update u)) = log0 @ fs @ tail \<and> update_trace ue fs \<and> no_script tail"
proof (rule wp_bothD, rule wp_mono [OF assms])
  fix e v
  assume "body_error log0 v"
  then obtain fs where "up_log v = log0 @ fs" "no_script fs" by (auto simp: body_error_def)
  then show "\<exists>fs tail. up_log v = log0 @ fs @ tail \<and> update_trace ue fs \<and> no_script tail"
    by (intro exI [of _ fs] exI [of _ "[]"]) (simp add: update_trace_def)
qed (auto simp: update_value_def)

section \<open>An example\<close>

definition example_machine :: machine where
  "example_machine = (quiet_machine (\<lambda>c. Inr []))\<lparr>mc_stat := (\<lambda>n p. if p = ''/opt/assist/2.0/aliyun_assist_update'' then RegularFile else NotExist)\<rparr>"

definition example_net :: env where
  "example_net = \<lparr>server_host = ''host'', transport = (\<lambda>n m u b. Reply 200 ''yes''), clock = (\<lambda>n. 0), clock_zone = (\<lambda>n. 0),
     zone_name = ''UTC'', zone_offset = (\<lambda>z t. 0)\<rparr>"

definition example_info :: UpdateCheckResp where
  "example_info = \<lparr>Flag = 0, InstanceID = ''i-1'', NeedUpdate = 1, NextInterval = 0, UI_FileName = ''p'', UI_Md5 = ''00'',
     UI_URL = ''https://host/3.0.0.1_p.zip''\<rparr>"

text \<open>A machine on which version 3.0.0.1 is installed already, and no task runs.\<close>

definition example_update :: update_env where
  "example_update = \<lparr>ue_env = example_net, ue_mc = example_machine, ue_cwd = ''/'', ue_temp_dir = ''/tmp'', ue_version = ''2.0.0.1'',
     ue_os = ''linux'', ue_arch = ''x64'', ue_os_version = ''5'', ue_kernel = ''5'', ue_valid = (\<lambda>s. True), ue_unmarshal = (\<lambda>s. Inr example_info),
     ue_hash_map = (\<lambda>s. Inr [(''update_install'', ComputeStrMd5 [])]), ue_permissions = (\<lambda>n p. Inr 493),
     ue_read_dir = (\<lambda>n d. Inr [(''3.0.0.1'', True)]), ue_read_file = (\<lambda>n p. Inr []), ue_http_get = (\<lambda>n u t. Inr 200),
     ue_create = (\<lambda>n p. None), ue_copy = (\<lambda>n p. None), ue_unzip = (\<lambda>n p d. None), ue_remove_all = (\<lambda>n p. None),
     ue_elf = (\<lambda>n p. Inr (0, 62)), ue_abi_name = (\<lambda>n. []), ue_machine_name = (\<lambda>n. []), ue_fetching = (\<lambda>n. 0),
     ue_tasks = (\<lambda>n. \<lparr>tf_tasks = []\<rparr>), ue_cron = (\<lambda>n a. []), ue_try_lock = (\<lambda>n. True), ue_not_exist = (\<lambda>e. False),
     ue_exit = (\<lambda>n. ExitedOk)\<rparr>"

definition fresh_updater :: updater where
  "fresh_updater = \<lparr>up_world = \<lparr>ticks = 0, trace = []\<rparr>, up_log = [], up_cpu = False, up_critical = False, up_message = ([], [])\<rparr>"


lemma example_paths:
  "path_join [path_dir (path_clean (path_abs ''/'' (path_dir ''/opt/assist/2.0/aliyun-service''))), ''config''] = ''/opt/assist/config''"
  "path_dir ''/opt/assist/2.0/aliyun-service'' = ''/opt/assist/2.0''"
  "path_dir (path_clean (path_abs ''/'' ''/opt/assist/2.0'')) = ''/opt/assist''"
  "path_join [''/opt/assist'', ''config''] = ''/opt/assist/config''"
  "path_join [''/opt/assist/config'', ''disable_update''] = ''/opt/assist/config/disable_update''"
  "path_join [''/opt/assist/2.0'', ''config''] = ''/opt/assist/2.0/config''"
  "path_join [''/opt/assist/2.0/config'', ''disable_update''] = ''/opt/assist/2.0/config/disable_update''"
  "path_join [path_abs ''/'' ''/opt/assist/2.0'', GetUpdatorName] = ''/opt/assist/2.0/aliyun_assist_update''"
  "path_join [''/opt/assist'', ''3.0.0.1''] = ''/opt/assist/3.0.0.1''"
  "path_join [''/opt/assist/3.0.0.1'', GetUpdateScript] = ''/opt/assist/3.0.0.1/update_install''"
  "ExtractVersionStringFromURL ''https://host/3.0.0.1_p.zip'' = Inr ''3.0.0.1''"
  "path_join [''/opt/assist/3.0.0.1'', ''update_install''] = ''/opt/assist/3.0.0.1/update_install''"
  "base64_decode [] = Inr []" "GetUpdateScript = ''update_install''"
  by code_simp+

lemmas example_simps = example_update_def example_machine_def quiet_machine_def example_net_def fresh_updater_def example_info_def
  example_paths


text \<open>The stages of the example, one after the other.\<close>

lemma example_enabled: "fst (isUpdatingDisabled (ue_mc example_update) (ue_cwd example_update) w) = (False, None)"
  by (simp add: isUpdatingDisabled_def flag_set_def GetCrossVersionConfigPath_def getCrossVersionDir_def GetCurrentPath_def ask_def
     MakeSurePath_def attempt_def CheckFileIsExist_def GetConfigPath_def Let_def example_simps)

lemma example_updator: "wp (check_updator example_update) (\<lambda>x v. up_log v = up_log u) (\<lambda>e v. False) u"
  by (simp add: check_updator_def wp_rules GetUpdatorPathByCurrentProcess_def ask_def CheckFileIsExist_def
      CheckFileIsExecutable_def Let_def example_simps)

lemma example_deadline: "0 < t \<Longrightarrow> wp (deadline_after example_update 0 t p) (\<lambda>x v. up_log v = up_log u) (\<lambda>e v. False) u"
  by (simp add: deadline_after_def preparationTimedOut_def now_def wp_rules read_clock_def example_simps time_sub_def
      max_int64_def min_int64_def)

lemma example_check:
  "wp (check_update example_update s t) (\<lambda>x v. x = example_info \<and> up_log v = up_log u @ [Fetched example_info]) (\<lambda>e v. False) u"
  by (simp add: check_update_def MaximumCheckUpdateRetries_def wp_rules FetchUpdateInfo_def HttpPost_def send_request_def
      http_result_def example_simps numeral_2_eq_2)

lemma example_local:
  "wp (checkLocalDirectory example_update example_info) (\<lambda>x v. x = ''/opt/assist/3.0.0.1/update_install'') (\<lambda>e v. False) u"
  by (simp add: checkLocalDirectory_def checkHashFile_def hash_file_verified_def wp_rules GetInstallDir_def
      GetInstallDirByCurrentProcess_def ask_def CompareFileMD5_def ComputeMd5_def Let_def example_simps)

lemma example_round: "wp (update_round example_update p) (\<lambda>x v. x) (\<lambda>e v. False) u"
  by (auto simp: update_round_def wp_rules tasks_busy_def IsAnyNonPeriodicTaskRunning_def pause_def example_update_def
      intro!: wp_mono [OF runner_effect])

lemma example_execution:
  "wp (executeUpdateScript example_update (Suc n) p) (\<lambda>x v. ScriptStarted p True True True \<in> set (up_log v)) (\<lambda>e v. False) u"
proof -
  have "wp (executeUpdateScript example_update (Suc n) p) (\<lambda>x v. x) (\<lambda>e v. False) u"
    unfolding executeUpdateScript_def update_rounds.simps wp_bind wp_change
    by (rule wp_mono [OF example_round]) (simp_all add: wp_rules)
  from wp_conj [OF this executeUpdateScript_effect] show ?thesis by (rule wp_mono) auto
qed

lemma example_start: "wp (now example_update) (\<lambda>x v. x = 0 \<and> v = fresh_updater\<lparr>up_world := tick (up_world fresh_updater)\<rparr>) (\<lambda>e v. False) fresh_updater"
  by (simp add: now_def wp_rules read_clock_def example_update_def example_net_def)

lemma example_script:
  "wp (SafeUpdate example_update (Suc 0) 60000000000 30000000000)
     (\<lambda>x v. ScriptStarted ''/opt/assist/3.0.0.1/update_install'' True True True \<in> set (up_log v)) (\<lambda>e v. False) fresh_updater"
proof -
  have need: "NeedUpdate example_info \<noteq> 0" by (simp add: example_info_def)
  have pos: "0 < (60000000000 :: int)" by simp
  have rest: "wp (bind (deadline_after example_update 0 60000000000 p) (\<lambda>_. bind (attempted (checkLocalDirectory example_update example_info))
      (\<lambda>local. case local of Inr path \<Rightarrow> executeUpdateScript example_update (Suc 0) path | Inl e \<Rightarrow> other e)))
     (\<lambda>x v. ScriptStarted ''/opt/assist/3.0.0.1/update_install'' True True True \<in> set (up_log v)) (\<lambda>e v. False) u" for p other u
    unfolding wp_bind wp_attempted sum.case
    by (rule wp_mono [OF example_deadline [OF pos]], rule wp_mono [OF example_local]) (simp_all add: example_execution)
  have body: "wp (update_body example_update (Suc 0) 0 60000000000 30000000000)
     (\<lambda>x v. ScriptStarted ''/opt/assist/3.0.0.1/update_install'' True True True \<in> set (up_log v)) (\<lambda>e v. False) u" for u
    unfolding update_body_def wp_bind wp_on_world example_enabled prod.case wp_if if_False
    by (rule wp_mono [OF example_updator], rule wp_mono [OF example_deadline [OF pos]], rule wp_mono [OF example_check],
        elim conjE, hypsubst, simp only: need if_False, rule rest [unfolded wp_bind]) simp_all
  show ?thesis
    unfolding SafeUpdate_def safeUpdate_def wp_bind wp_set_message wp_deferred
    by (rule wp_mono [OF example_start])
      (auto intro!: wp_mono [OF body] simp: report_message_def)
qed

section \<open>Properties\<close>

text \<open>C5. An update script is started only under the lock against new tasks and with both flags set, at most once,
  and only after a verification: either every file of an installed version has the digest of its hash file, or the
  package was downloaded from the address and has the digest the server gave, was extracted, and its executable
  inspected. Nothing but old versions is removed before.\<close>

theorem script_runs_only_verified:
  assumes "\<not> up_cpu u" "\<not> up_critical u"
    and "update = SafeUpdate ue fuel t mx \<or> update = SafeBootstrapUpdate ue fuel t mx"
    and "up_log (snd (update u)) = up_log u @ es" "ScriptStarted path l c k \<in> set es"
  shows "l \<and> c \<and> k \<and> (\<exists>info mid tail. es = Fetched info # mid @ ScriptStarted path l c k # tail \<and> NeedUpdate info \<noteq> 0
    \<and> verified_before ue info mid path \<and> no_script tail)"
proof -
  have "wp update (update_value ue (up_log u)) (\<lambda>e. body_error (up_log u)) u"
    using assms(3) SafeUpdate_effect [OF assms(1,2)] SafeBootstrapUpdate_effect [OF assms(1,2)] by blast
  from effect_trace [OF this] obtain fs tail where fs: "es = fs @ tail" "update_trace ue fs" "no_script tail"
    using assms(4) by auto
  then have "\<not> no_script fs" using assms(5) by (auto simp: no_script_def)
  then obtain info mid p where p: "NeedUpdate info \<noteq> 0" "fs = Fetched info # mid @ [ScriptStarted p True True True]"
    "verified_before ue info mid p"
    using fs(2) by (auto simp: update_trace_def)
  then have "no_script mid" by (blast dest: verified_no_script)
  with assms(5) fs p have "ScriptStarted path l c k = ScriptStarted p True True True" by (auto simp: no_script_def)
  with fs p show ?thesis by auto
qed

theorem script_runs_only_verified_witness:
  "\<exists>mid tail info. up_log (snd (SafeUpdate example_update (Suc 0) 60000000000 30000000000 fresh_updater))
       = Fetched info # mid @ ScriptStarted ''/opt/assist/3.0.0.1/update_install'' True True True # tail
     \<and> verified_before example_update info mid ''/opt/assist/3.0.0.1/update_install''"
proof -
  let ?m = "SafeUpdate example_update (Suc 0) 60000000000 30000000000" and ?p = "''/opt/assist/3.0.0.1/update_install''"
  have "wp ?m (\<lambda>x v. ScriptStarted ?p True True True \<in> set (up_log v)) (\<lambda>e v. ScriptStarted ?p True True True \<in> set (up_log v)) fresh_updater"
    by (rule wp_mono [OF example_script]) auto
  then have s: "ScriptStarted ?p True True True \<in> set (up_log (snd (?m fresh_updater)))" by (rule wp_bothD)
  have f: "up_log (snd (?m fresh_updater)) = up_log fresh_updater @ up_log (snd (?m fresh_updater))"
    "\<not> up_cpu fresh_updater" "\<not> up_critical fresh_updater" by (simp_all add: fresh_updater_def)
  from script_runs_only_verified [OF f(2,3) disjI1 [OF refl] f(1) s] show ?thesis by blast
qed

text \<open>Whatever happens during an update, the flags that other parts of the agent look at are given back: the
  critical flag is down again, and the flag of intensive work is up only while the updater still waits for tasks.\<close>

theorem update_restores_flags:
  assumes "\<not> up_cpu u" "\<not> up_critical u" "SafeUpdate ue fuel t mx u = (r, v)"
  shows "\<not> up_critical v \<and> (up_cpu v \<longleftrightarrow> r = Inr False)"
  using wp_run [OF SafeUpdate_effect [OF assms(1,2), of ue fuel t mx]] assms(3)
  by (auto simp: update_value_def body_error_def)

theorem update_restores_flags_witness:
  "\<not> up_critical (snd (SafeUpdate example_update (Suc 0) 60000000000 30000000000 fresh_updater))"
  using update_restores_flags [of fresh_updater example_update "Suc 0" 60000000000 30000000000]
  by (simp add: fresh_updater_def) (metis prod.collapse)

text \<open>C28. However the handling of a downloaded package ends, the package is removed afterwards (or the message says why
  not) and the flag of intensive work is cleared; a path is given back only for a verified package.\<close>

theorem package_phase_cleans:
  "case package_phase ue startTime t info tmp u of (r, v) \<Rightarrow>
     \<not> up_cpu v \<and> up_critical v = up_critical u \<and> (\<exists>es rm. up_log v = up_log u @ es @ rm \<and> cleaned tmp rm v
       \<and> (case r of Inr path \<Rightarrow> package_verified ue info tmp es path | Inl e \<Rightarrow> list_all prepares es))"
  using wp_run [OF package_phase_effect [of ue startTime t info tmp u]] by fastforce

text \<open>\<open>RemoveOldVersion\<close> removes exactly the directories named by four numbers that are older than the running
  version, in the order of the listing: the running version and every newer one stay, however many there are.\<close>

theorem RemoveOldVersion_exact:
  assumes "dir \<noteq> []" "ue_read_dir ue (ticks (up_world u)) dir = Inr cs"
  shows "\<exists>v. RemoveOldVersion ue dir u = (Inr (), v)
    \<and> up_log v = up_log u @ map (\<lambda>c. TreeRemoved (path_join [dir, fst c])) (filter (outdated (ue_version ue)) cs)"
proof -
  have "wp (RemoveOldVersion ue dir) (\<lambda>x v. up_log v = up_log u
      @ map (\<lambda>c. TreeRemoved (path_join [dir, fst c])) (filter (outdated (ue_version ue)) cs)) (\<lambda>e v. False) u"
    using assms by (auto simp: RemoveOldVersion_def wp_rules intro!: wp_mono [OF tracedD [OF remove_outdated_traced]])
  from wp_run [OF this] show ?thesis by auto
qed

theorem RemoveOldVersion_exact_witness:
  "\<exists>v. RemoveOldVersion (example_update\<lparr>ue_read_dir := (\<lambda>n d. Inr [(''1.0.0.9'', True), (''2.0.0.1'', True), (''3.0.0.1'', True),
       (''plugin'', True), (''1.0.0.8'', False)])\<rparr>) ''/opt'' fresh_updater = (Inr (), v)
     \<and> up_log v = [TreeRemoved (path_join [''/opt'', ''1.0.0.9''])]"
proof -
  have "filter (outdated ''2.0.0.1'') [(''1.0.0.9'', True), (''2.0.0.1'', True), (''3.0.0.1'', True), (''plugin'', True), (''1.0.0.8'', False)]
    = [(''1.0.0.9'', True)]" by code_simp
  then show ?thesis
    using RemoveOldVersion_exact [of "''/opt''" "example_update\<lparr>ue_read_dir := (\<lambda>n d. Inr [(''1.0.0.9'', True), (''2.0.0.1'', True),
      (''3.0.0.1'', True), (''plugin'', True), (''1.0.0.8'', False)])\<rparr>" fresh_updater]
    by (simp add: example_update_def fresh_updater_def)
qed

text \<open>The version of a package is read off its address: it is the text between the last slash and the only
  underscore behind it, and an address of another form is rejected.\<close>

theorem ExtractVersionStringFromURL_iff:
  "ExtractVersionStringFromURL url = Inr v \<longleftrightarrow>
     (\<exists>base rest. url = base @ ''/'' @ v @ ''_'' @ rest \<and> CHR ''/'' \<notin> set (v @ rest) \<and> CHR ''_'' \<notin> set (v @ rest))"
proof
  assume "ExtractVersionStringFromURL url = Inr v"
  then obtain rest where r: "2 \<le> length (split_on (CHR ''/'') url)" "split_on (CHR ''_'') (last (split_on (CHR ''/'') url)) = [v, rest]"
    by (auto simp: ExtractVersionStringFromURL_def Let_def numeral_2_eq_2 length_Suc_conv split: if_splits)
  let ?ps = "split_on (CHR ''/'') url"
  have b: "butlast ?ps \<noteq> []" using r(1) by (cases ?ps) auto
  have "join ''/'' ?ps = url" by (rule join_split_on)
  moreover have "?ps = butlast ?ps @ [last ?ps]" by simp
  ultimately have u: "url = join ''/'' (butlast ?ps) @ ''/'' @ last ?ps" using join_snoc [OF b] by metis
  have "join ''_'' [v, rest] = last ?ps" unfolding r(2) [symmetric] by (rule join_split_on)
  then have l: "last ?ps = v @ ''_'' @ rest" by simp
  have "CHR ''/'' \<notin> set (last ?ps)" by (rule split_on_parts [where s = url]) simp
  moreover have "CHR ''_'' \<notin> set v" "CHR ''_'' \<notin> set rest"
    using split_on_parts [of _ "CHR ''_''" "last ?ps"] r(2) by auto
  ultimately show "\<exists>base rest. url = base @ ''/'' @ v @ ''_'' @ rest \<and> CHR ''/'' \<notin> set (v @ rest) \<and> CHR ''_'' \<notin> set (v @ rest)"
    using u l by (intro exI [of _ "join ''/'' (butlast ?ps)"] exI [of _ rest]) auto
next
  assume "\<exists>base rest. url = base @ ''/'' @ v @ ''_'' @ rest \<and> CHR ''/'' \<notin> set (v @ rest) \<and> CHR ''_'' \<notin> set (v @ rest)"
  then obtain base rest where u: "url = base @ CHR ''/'' # v @ ''_'' @ rest"
    and "CHR ''/'' \<notin> set (v @ ''_'' @ rest)" "CHR ''_'' \<notin> set v" "CHR ''_'' \<notin> set rest"
    by auto
  then have "split_on (CHR ''/'') url = split_on (CHR ''/'') base @ [v @ ''_'' @ rest]"
    "split_on (CHR ''_'') (v @ ''_'' @ rest) = [v, rest]"
    by (simp_all add: split_on_append split_on_single)
  then show "ExtractVersionStringFromURL url = Inr v"
    by (simp add: ExtractVersionStringFromURL_def Let_def Suc_le_eq numeral_2_eq_2)
qed

lemma clock_reads:
  "wp (deadline ue s t) (\<lambda>x v. trace (up_world v) = trace (up_world u)) (\<lambda>e v. trace (up_world v) = trace (up_world u)) u"
  by (simp add: deadline_def preparationTimedOut_def now_def wp_rules read_clock_def)

definition tried :: "nat \<Rightarrow> updater \<Rightarrow> updater \<Rightarrow> bool" where
  "tried n u v \<longleftrightarrow> (\<exists>es k. trace (up_world v) = trace (up_world u) @ es \<and> k \<le> n \<and> length (posts es) \<le> Suc k
     \<and> 0 < length (posts es) \<and> sleeps es = replicate k 5)"

lemma FetchUpdateInfo_tried: "wp (FetchUpdateInfo ue) (\<lambda>x v. tried 0 u v) (\<lambda>e v. tried 0 u v) u"
proof -
  obtain es where es: "trace (snd (HttpPost (ue_env ue) (GetUpdateService (ue_env ue)) (update_check_report ue) (up_world u)))
      = trace (up_world u) @ HttpSent ''POST'' (GetUpdateService (ue_env ue)) (update_check_report ue) # es" "posts es = []" "sleeps es = []"
    using HttpPost_effects by blast
  have "tried 0 u v" if "up_world v = snd (HttpPost (ue_env ue) (GetUpdateService (ue_env ue)) (update_check_report ue) (up_world u))" for v
    unfolding tried_def that es(1) using es(2,3)
    by (intro exI [of _ "HttpSent ''POST'' (GetUpdateService (ue_env ue)) (update_check_report ue) # es"] exI [of _ 0]) simp
  then show ?thesis
    by (auto simp: FetchUpdateInfo_def wp_rules split_beta log_event_def split: option.split sum.split)
qed

lemma fetch_tries_tried: "wp (fetch_tries n ue s t) (\<lambda>x v. tried n u v) (\<lambda>e v. tried n u v) u"
proof (induction n arbitrary: u)
  case 0
  show ?case
    unfolding fetch_tries.simps wp_handle
    by (rule wp_mono [OF FetchUpdateInfo_tried])
      (auto simp: wp_bind wp_raise tried_def intro!: wp_mono [OF clock_reads])
next
  case (Suc n)
  have more: "tried (Suc n) u v" if "tried 0 u w" "trace (up_world v) = trace (up_world w)" for v w
    using that unfolding tried_def by force
  have ended: "tried (Suc n) u v" if "tried 0 u w" "trace (up_world v) = trace (up_world w) @ [Slept 5]" for v w
  proof -
    obtain es j where "trace (up_world w) = trace (up_world u) @ es" "j \<le> 0" "length (posts es) \<le> Suc j"
      "0 < length (posts es)" "sleeps es = replicate j 5"
      using \<open>tried 0 u w\<close> unfolding tried_def by blast
    with that(2) show ?thesis unfolding tried_def by (intro exI [of _ "es @ [Slept 5]"] exI [of _ 1]) simp
  qed
  have step: "tried (Suc n) u v"
    if first: "tried 0 u w" and pause: "trace (up_world x) = trace (up_world w) @ [Slept 5]" and others: "tried n x v" for v w x
  proof -
    obtain es j where es: "trace (up_world w) = trace (up_world u) @ es" "j \<le> 0" "length (posts es) \<le> Suc j"
      "0 < length (posts es)" "sleeps es = replicate j 5"
      using first unfolding tried_def by blast
    obtain fs k where "trace (up_world v) = trace (up_world x) @ fs" "k \<le> n" "length (posts fs) \<le> Suc k" "sleeps fs = replicate k 5"
      using others unfolding tried_def by blast
    with es pause show ?thesis
      unfolding tried_def by (intro exI [of _ "es @ Slept 5 # fs"] exI [of _ "Suc k"]) auto
  qed
  show ?case
    unfolding fetch_tries.simps wp_handle
  proof (rule wp_mono [OF FetchUpdateInfo_tried], goal_cases)
    case (2 e w)
    show ?case
      unfolding wp_bind wp_on_world
    proof (rule wp_mono [OF clock_reads], goal_cases)
      case (1 x y)
      show ?case
        by (rule wp_mono [OF clock_reads], rule wp_mono [OF Suc.IH])
          (use 1 2 in \<open>auto intro: step more ended\<close>)
    qed (use 2 more in auto)
  qed (auto intro: more)
qed

text \<open>A check asks the server at least once and at most three times, with a pause of five seconds before every
  repetition, whatever the server answers and whenever the deadline passes.\<close>

theorem check_update_bounded:
  "case check_update ue s t u of (r, v) \<Rightarrow>
     \<exists>es k. trace (up_world v) = trace (up_world u) @ es \<and> k \<le> 2 \<and> 0 < length (posts es) \<and> length (posts es) \<le> Suc k
       \<and> sleeps es = replicate k 5"
proof -
  have "wp (check_update ue s t) (\<lambda>x v. tried 2 u v) (\<lambda>e v. tried 2 u v) u"
    unfolding check_update_def MaximumCheckUpdateRetries_def wp_handle
    by (rule wp_mono [OF fetch_tries_tried]) (auto simp: wp_rules tried_def)
  from wp_bothD [OF this] show ?thesis by (auto simp: tried_def split: prod.split)
qed

text \<open>The download of a package gets the time that is left: with a deadline its timeout is never negative, and five
  seconds below both the limit of a download and the rest of the preparation time.\<close>

theorem download_timeout_reserves:
  assumes "0 < t" "t < 4611686018427387904" "0 \<le> mx" "mx < 4611686018427387904"
    and "0 \<le> time_sub (clock (ue_env ue) (ticks (up_world u))) startTime" "download_timeout ue startTime t mx u = (Inr k, v)"
  shows "0 \<le> k \<and> k + five_seconds \<le> mx \<and> k + five_seconds \<le> t - time_sub (clock (ue_env ue) (ticks (up_world u))) startTime"
proof -
  have "wp (download_timeout ue startTime t mx) (\<lambda>k v. 0 \<le> k \<and> k + five_seconds \<le> mx
    \<and> k + five_seconds \<le> t - time_sub (clock (ue_env ue) (ticks (up_world u))) startTime) (\<lambda>e v. True) u"
    using assms(1-5) by (auto simp: download_timeout_def now_def wp_rules read_clock_def Let_def five_seconds_def)
  from wp_valueD [OF this assms(6)] show ?thesis .
qed

theorem download_timeout_reserves_witness:
  "\<exists>k v. download_timeout example_update 0 60000000000 30000000000 fresh_updater = (Inr k, v) \<and> k = 25000000000
     \<and> k + five_seconds \<le> 30000000000"
proof -
  have c: "time_sub (clock (ue_env example_update) (ticks (up_world fresh_updater))) 0 = 0"
    by (simp add: example_update_def example_net_def time_sub_def max_int64_def min_int64_def)
  have "\<exists>v. download_timeout example_update 0 60000000000 30000000000 fresh_updater = (Inr 25000000000, v)"
    by (simp add: download_timeout_def now_def step_defs on_world_def read_clock_def c Let_def five_seconds_def)
  with download_timeout_reserves [of 60000000000 30000000000 example_update fresh_updater 0 25000000000] c show ?thesis by auto
qed

lemma round_ticks:
  "wp (update_round ue p) (\<lambda>x v. x \<or> ticks (up_world u) < ticks (up_world v)) (\<lambda>e v. False) u"
  by (auto simp: update_round_def wp_rules pause_def intro!: wp_mono [OF runner_effect])

lemma idle_round:
  assumes "\<forall>m\<ge>n. \<not> tasks_busy ue m \<and> ue_try_lock ue m" "n \<le> ticks (up_world u)"
  shows "wp (update_round ue p) (\<lambda>x v. x) (\<lambda>e v. False) u"
  using assms by (auto simp: update_round_def wp_rules pause_def intro!: wp_mono [OF runner_effect])

lemma idle_rounds:
  assumes "\<forall>m\<ge>n. \<not> tasks_busy ue m \<and> ue_try_lock ue m"
  shows "\<exists>fuel. wp (update_rounds fuel ue p) (\<lambda>x v. x) (\<lambda>e v. False) u"
proof (induction "n - ticks (up_world u)" arbitrary: u rule: less_induct)
  case less
  show ?case
  proof (cases "n \<le> ticks (up_world u)")
    case True
    have "wp (update_rounds (Suc 0) ue p) (\<lambda>x v. x) (\<lambda>e v. False) u"
      unfolding update_rounds.simps wp_bind by (rule wp_mono [OF idle_round [OF assms True]]) (simp_all add: wp_give)
    then show ?thesis ..
  next
    case False
    from wp_run [OF round_ticks [of ue p u]] obtain x v where v: "update_round ue p u = (Inr x, v)"
      "x \<or> ticks (up_world u) < ticks (up_world v)" by blast
    have r: "wp (update_rounds (Suc f) ue p) (\<lambda>x v. x) (\<lambda>e v. False) u
        = wp (if x then give True else update_rounds f ue p) (\<lambda>x v. x) (\<lambda>e v. False) v" for f
      using v(1) by (simp add: wp_bind wp_def [where m = "update_round ue p"])
    show ?thesis
    proof (cases x)
      case True
      then show ?thesis by (intro exI [of _ "Suc 0"]) (simp only: r wp_if if_True wp_give)
    next
      case False
      then have "n - ticks (up_world v) < n - ticks (up_world u)"
        using v(2) \<open>\<not> n \<le> ticks (up_world u)\<close> by (intro diff_less_mono2) simp_all
      from less [OF this] obtain f where "wp (update_rounds f ue p) (\<lambda>x v. x) (\<lambda>e v. False) v" ..
      with False show ?thesis by (intro exI [of _ "Suc f"]) (simp only: r if_False)
    qed
  qed
qed



text \<open>A flag file turns updates off: with the one that all versions share an update returns at once, without a
  request to any server, a change of its log or of a flag.\<close>

theorem disabled_update_does_nothing:
  assumes "\<And>n p. mc_mkdir (ue_mc ue) n p = None" "\<And>n. mc_executable (ue_mc ue) n = Inr exe"
    and "\<And>n. mc_stat (ue_mc ue) n (path_join [path_join [path_dir (path_clean (path_abs (ue_cwd ue) (path_dir exe))), ''config''],
      ''disable_update'']) \<noteq> NotExist"
  shows "\<exists>v. SafeUpdate ue fuel t mx u = (Inr True, v) \<and> up_log v = up_log u \<and> same_flags u v \<and> quiet (up_world u) (up_world v)"
proof -
  have d: "fst (isUpdatingDisabled (ue_mc ue) (ue_cwd ue) w) = (True, None)" "quiet w (snd (isUpdatingDisabled (ue_mc ue) (ue_cwd ue) w))" for w
    using assms
    by (simp_all add: isUpdatingDisabled_def flag_set_def GetCrossVersionConfigPath_def getCrossVersionDir_def GetCurrentPath_def
        ask_def MakeSurePath_def attempt_def CheckFileIsExist_def Let_def quiet_def)
  have "wp (SafeUpdate ue fuel t mx) (\<lambda>x v. x \<and> up_log v = up_log u \<and> same_flags u v \<and> quiet (up_world u) (up_world v)) (\<lambda>e v. False) u"
    using d by (auto simp: SafeUpdate_def safeUpdate_def update_body_def now_def wp_rules read_clock_def report_message_def same_flags_def
        intro: quiet_trans [OF quiet_tick])
  from wp_run [OF this] show ?thesis by auto
qed

theorem disabled_update_does_nothing_witness:
  "\<exists>v. SafeUpdate (example_update\<lparr>ue_mc := example_machine\<lparr>mc_stat := (\<lambda>n p. RegularFile)\<rparr>\<rparr>) 1 60000000000 30000000000 fresh_updater
     = (Inr True, v) \<and> up_log v = []"
  using disabled_update_does_nothing [of "example_update\<lparr>ue_mc := example_machine\<lparr>mc_stat := (\<lambda>n p. RegularFile)\<rparr>\<rparr>"
      "''/opt/assist/2.0/aliyun-service''" 1 60000000000 30000000000 fresh_updater]
  by (auto simp: example_update_def example_machine_def quiet_machine_def fresh_updater_def)

end
