(* ===== verification/Task_Pool.thy ===== *)
theory Task_Pool
  imports Prelude "HOL-Library.Multiset"
begin

text \<open>
  The task pool of \<open>agent/taskengine/taskpool.go\<close>: a channel with room for 50 functions and
  ten goroutines that receive and run them. A sender that finds the channel full waits; waiting
  senders are served in the order they came. The fields \<open>started\<close> and \<open>submitted\<close> record the
  order of the events for the properties.
\<close>

definition maxPendingTasks :: nat where "maxPendingTasks = 50"
definition maxRunningTasks :: nat where "maxRunningTasks = 10"

record 'f pool =
  taskQueue :: "'f list"
  blocked :: "'f list"
  slaves :: "'f option list"
  started :: "'f list"
  finished :: "'f list"
  submitted :: "'f list"

text \<open>\<open>newTaskPool\<close> and \<open>start\<close>: an empty channel and ten idle goroutines.\<close>

definition newTaskPool :: "'f pool" where
  "newTaskPool = \<lparr>taskQueue = [], blocked = [], slaves = replicate maxRunningTasks None,
     started = [], finished = [], submitted = []\<rparr>"

definition GetPool :: "'f pool option \<Rightarrow> 'f pool" where
  "GetPool p = (case p of None \<Rightarrow> newTaskPool | Some p' \<Rightarrow> p')"

definition RunTask :: "'f \<Rightarrow> 'f pool \<Rightarrow> 'f pool" where
  "RunTask f p =
     (let p' = p\<lparr>submitted := submitted p @ [f]\<rparr> in
      if length (taskQueue p) < maxPendingTasks then p'\<lparr>taskQueue := taskQueue p @ [f]\<rparr>
      else p'\<lparr>blocked := blocked p @ [f]\<rparr>)"

text \<open>
  An idle goroutine receives the head of the channel and calls it; the freed place goes to the
  first waiting sender.
\<close>

definition slave_receive :: "nat \<Rightarrow> 'f pool \<Rightarrow> 'f pool" where
  "slave_receive i p =
     (case taskQueue p of [] \<Rightarrow> p
      | f # q \<Rightarrow> p\<lparr>slaves := (slaves p)[i := Some f], started := started p @ [f],
                  taskQueue := q @ take 1 (blocked p), blocked := drop 1 (blocked p)\<rparr>)"

definition slave_return :: "nat \<Rightarrow> 'f pool \<Rightarrow> 'f pool" where
  "slave_return i p =
     (case slaves p ! i of None \<Rightarrow> p
      | Some f \<Rightarrow> p\<lparr>slaves := (slaves p)[i := None], finished := finished p @ [f]\<rparr>)"

inductive pool_step :: "'f pool \<Rightarrow> 'f pool \<Rightarrow> bool" where
  submit: "pool_step p (RunTask f p)"
| receive: "i < length (slaves p) \<Longrightarrow> slaves p ! i = None \<Longrightarrow> taskQueue p \<noteq> [] \<Longrightarrow>
    pool_step p (slave_receive i p)"
| return: "i < length (slaves p) \<Longrightarrow> slaves p ! i \<noteq> None \<Longrightarrow> pool_step p (slave_return i p)"

inductive pool_reachable :: "'f pool \<Rightarrow> bool" where
  init: "pool_reachable newTaskPool"
| step: "pool_reachable p \<Longrightarrow> pool_step p p' \<Longrightarrow> pool_reachable p'"

inductive_cases pool_stepE: "pool_step p p'"

definition running :: "'f pool \<Rightarrow> 'f list" where
  "running p = map the (filter (\<lambda>x. x \<noteq> None) (slaves p))"

definition pool_inv :: "'f pool \<Rightarrow> bool" where
  "pool_inv p \<longleftrightarrow> length (taskQueue p) \<le> maxPendingTasks \<and> length (slaves p) = maxRunningTasks
     \<and> (blocked p \<noteq> [] \<longrightarrow> length (taskQueue p) = maxPendingTasks)
     \<and> started p @ taskQueue p @ blocked p = submitted p
     \<and> mset (started p) = mset (running p) + mset (finished p)"

lemma mset_running_set:
  "i < length xs \<Longrightarrow> xs ! i = None \<Longrightarrow>
    mset (map the (filter (\<lambda>x. x \<noteq> None) (xs[i := Some f]))) = add_mset f (mset (map the (filter (\<lambda>x. x \<noteq> None) xs)))"
proof (induction xs arbitrary: i)
  case (Cons x xs)
  then show ?case by (cases i) auto
qed simp

lemma mset_running_clear:
  "i < length xs \<Longrightarrow> xs ! i = Some f \<Longrightarrow>
    add_mset f (mset (map the (filter (\<lambda>x. x \<noteq> None) (xs[i := None])))) = mset (map the (filter (\<lambda>x. x \<noteq> None) xs))"
proof (induction xs arbitrary: i)
  case (Cons x xs)
  then show ?case by (cases i) auto
qed simp

lemma pool_inv_init: "pool_inv newTaskPool"
  by (simp add: pool_inv_def newTaskPool_def running_def)

lemma pool_inv_submit: "pool_inv p \<Longrightarrow> pool_inv (RunTask f p)"
  by (auto simp: pool_inv_def RunTask_def Let_def running_def)

lemma pool_inv_receive:
  assumes "pool_inv p" "i < length (slaves p)" "slaves p ! i = None" "taskQueue p \<noteq> []"
  shows "pool_inv (slave_receive i p)"
proof -
  obtain f q where q: "taskQueue p = f # q" using assms(4) by (cases "taskQueue p") auto
  have "mset (running (slave_receive i p)) = add_mset f (mset (running p))"
    using mset_running_set [OF assms(2,3)] by (simp add: running_def slave_receive_def q)
  with assms(1) q show ?thesis
    by (cases "blocked p") (auto simp: pool_inv_def slave_receive_def)
qed

lemma pool_inv_return:
  assumes "pool_inv p" "i < length (slaves p)" "slaves p ! i \<noteq> None"
  shows "pool_inv (slave_return i p)"
proof -
  obtain f where f: "slaves p ! i = Some f" using assms(3) by auto
  have "add_mset f (mset (running (slave_return i p))) = mset (running p)"
    using mset_running_clear [OF assms(2) f] by (simp add: running_def slave_return_def f)
  then have "mset (running (slave_return i p)) + mset (finished (slave_return i p))
      = mset (running p) + mset (finished p)"
    by (simp add: slave_return_def f)
  with assms(1) f show ?thesis
    by (auto simp: pool_inv_def slave_return_def)
qed

lemma pool_reachable_inv: "pool_reachable p \<Longrightarrow> pool_inv p"
proof (induction rule: pool_reachable.induct)
  case (step p p')
  from step.hyps(2) step.IH show ?case
    by (cases rule: pool_step.cases) (auto intro: pool_inv_submit pool_inv_receive pool_inv_return)
qed (rule pool_inv_init)

lemma length_running: "length (running p) \<le> length (slaves p)"
  by (simp add: running_def)

text \<open>C17. At every moment at most ten tasks run and at most fifty are pending in the channel;
  tasks start in the order they were submitted and none is lost: what was submitted is what was
  started, followed by the channel, followed by the waiting senders, and what was started is
  either running or finished. Senders wait only while the channel is full.\<close>

theorem pool_fifo_and_bounded:
  assumes "pool_reachable p"
  shows "length (running p) \<le> 10 \<and> length (taskQueue p) \<le> 50
    \<and> submitted p = started p @ taskQueue p @ blocked p
    \<and> mset (started p) = mset (running p) + mset (finished p)
    \<and> (blocked p \<noteq> [] \<longrightarrow> length (taskQueue p) = 50)"
  using pool_reachable_inv [OF assms] length_running [of p]
  by (simp add: pool_inv_def maxPendingTasks_def maxRunningTasks_def)

theorem pool_fifo_and_bounded_witness:
  "submitted (slave_receive 0 (RunTask ''b'' (RunTask ''a'' newTaskPool))) = [''a'', ''b'']"
proof -
  let ?p = "RunTask ''b'' (RunTask ''a'' newTaskPool)"
  have r: "pool_reachable ?p"
    by (intro pool_reachable.step [OF _ pool_step.submit] pool_reachable.init)
  have "pool_step ?p (slave_receive 0 ?p)"
    by (rule pool_step.receive) (simp_all add: RunTask_def newTaskPool_def maxRunningTasks_def maxPendingTasks_def Let_def)
  with r have "pool_reachable (slave_receive 0 ?p)" by (rule pool_reachable.step)
  from pool_fifo_and_bounded [OF this] show ?thesis
    by (simp add: slave_receive_def RunTask_def newTaskPool_def maxRunningTasks_def maxPendingTasks_def Let_def)
qed

end
