(* ===== verification/Send_File.thy ===== *)
theory Send_File
  imports Task_Models Task_Report Machine Md5
begin

text \<open>
  Files sent by the server: \<open>agent/taskengine/sendfile.go\<close> on Linux. A file task is checked, its
  content decoded and compared with its signature, written, and given its mode and owner; the
  outcome is one of the codes below and exactly one report.
\<close>

section \<open>Codes\<close>

definition ESuccess :: int where "ESuccess = 0"
definition EFileCreateFail :: int where "EFileCreateFail = 1"
definition EChownError :: int where "EChownError = 2"
definition EChmodError :: int where "EChmodError = 3"
definition ECreateDirFailed :: int where "ECreateDirFailed = 4"
definition EInvalidFilePath :: int where "EInvalidFilePath = 10"
definition EFileAlreadyExist :: int where "EFileAlreadyExist = 11"
definition EEmptyContent :: int where "EEmptyContent = 12"
definition EInvalidContent :: int where "EInvalidContent = 13"
definition EInvalidSignature :: int where "EInvalidSignature = 16"
definition EInalidFileMode :: int where "EInalidFileMode = 17"
definition EInalidGID :: int where "EInalidGID = 18"
definition EInalidUID :: int where "EInalidUID = 19"

lemmas file_codes = ESuccess_def EFileCreateFail_def EChownError_def EChmodError_def ECreateDirFailed_def
  EInvalidFilePath_def EFileAlreadyExist_def EEmptyContent_def EInvalidContent_def EInvalidSignature_def
  EInalidFileMode_def EInalidGID_def EInalidUID_def

section \<open>Reports\<close>

definition finished_url :: "env \<Rightarrow> SendFileTaskInfo \<Rightarrow> int \<Rightarrow> string" where
  "finished_url env f status =
     GetFinishOutputService env @ ''?taskId='' @ sf_TaskID f @ ''&status=''
       @ (if status \<noteq> ESuccess then ''Failed'' else ''Success'') @ ''&taskType=sendfile&errorcode='' @ itoa status"

definition SendFileFinished :: "env \<Rightarrow> SendFileTaskInfo \<Rightarrow> int \<Rightarrow> world \<Rightarrow> world" where
  "SendFileFinished env f status w = snd (HttpPost env (finished_url env f status) [] w)"

text \<open>The key and the value of an invalid file; unknown codes leave both empty.\<close>

definition invalid_file :: "SendFileTaskInfo \<Rightarrow> int \<Rightarrow> string \<times> string" where
  "invalid_file f status =
     (if status = EInvalidFilePath then (''FileNameInvalid'', sf_Name f)
      else if status = EFileAlreadyExist then (''FileExist'', sf_Name f)
      else if status = EEmptyContent then (''EmptyFile'', [])
      else if status = EInvalidContent then (''InvalidFileContent'', [])
      else if status = EInvalidSignature then (''InvalidSignature'', sf_Signature f)
      else if status = EInalidFileMode then (''InvalidFileMode'', sf_Mode f)
      else if status = EInalidGID then (''FileGroupNotExist'', sf_Group f)
      else if status = EInalidUID then (''FileOwnerNotExist'', sf_Owner f)
      else ([], []))"

definition invalid_url :: "env \<Rightarrow> SendFileTaskInfo \<Rightarrow> int \<Rightarrow> string" where
  "invalid_url env f status =
     (let (key, value) = invalid_file f status in
      GetInvalidTaskService env @ ''?taskId='' @ sf_TaskID f @ ''&taskType=sendfile&param='' @ key @ ''&value='' @ value)"

definition SendFileInvalid :: "env \<Rightarrow> SendFileTaskInfo \<Rightarrow> int \<Rightarrow> world \<Rightarrow> world" where
  "SendFileInvalid env f status w = snd (HttpPost env (invalid_url env f status) [] w)"

section \<open>Modes\<close>

text \<open>\<open>strconv.ParseInt(s, 8, 32)\<close>: an optional sign and octal digits within 32 bits.\<close>

definition octal_digit :: "char \<Rightarrow> bool" where
  "octal_digit c \<longleftrightarrow> 48 \<le> byte c \<and> byte c < 56"

definition octal_value :: "string \<Rightarrow> int" where
  "octal_value ds = foldl (\<lambda>acc c. acc * 8 + int (byte c - 48)) 0 ds"

definition parse_octal :: "string \<Rightarrow> int option" where
  "parse_octal s =
     (let neg = (s \<noteq> [] \<and> hd s = CHR ''-'');
          ds = (if s \<noteq> [] \<and> (hd s = CHR ''-'' \<or> hd s = CHR ''+'') then tl s else s);
          v = (if neg then - octal_value ds else octal_value ds) in
      if ds = [] \<or> \<not> list_all octal_digit ds \<or> v < - 2147483648 \<or> 2147483647 < v then None else Some v)"

text \<open>\<open>os.FileMode(n)\<close> keeps 32 bits.\<close>

definition file_mode :: "int \<Rightarrow> int" where
  "file_mode n = n mod 4294967296"

definition mode_of :: "string \<Rightarrow> int option" where
  "mode_of fileMode =
     (if length fileMode \<noteq> 3 \<and> length fileMode \<noteq> 4 \<and> length fileMode \<noteq> 0 then None
      else map_option file_mode (parse_octal (if fileMode = [] then ''0644'' else fileMode)))"

section \<open>The file\<close>

definition writeFile :: "machine \<Rightarrow> string \<Rightarrow> string \<Rightarrow> bool \<Rightarrow> int \<Rightarrow> world \<Rightarrow> int \<times> world" where
  "writeFile mc filePath data overWrite fileMode w =
     (let (fileExist, w1) = FileExist mc filePath w in
      if fileExist \<and> \<not> overWrite then (EFileAlreadyExist, w1)
      else
        (let (err, w2) = WriteStringToFile mc filePath data w1 in
         if err \<noteq> None then (EFileCreateFail, w2)
         else
           (let (err2, w3) = ChangeMode mc filePath fileMode w2 in
            (if err2 \<noteq> None then EChmodError else ESuccess, w3))))"

definition changeFileOwner :: "machine \<Rightarrow> string \<Rightarrow> string \<Rightarrow> string \<Rightarrow> world \<Rightarrow> int \<times> world" where
  "changeFileOwner mc filePath User Group w =
     (if User = [] \<and> Group = [] then (ESuccess, w)
      else if User = ''root'' \<and> Group = ''root'' then (ESuccess, w)
      else
        (let (lu, w1) = ask (\<lambda>n. mc_user mc n (if User = [] then ''root'' else User)) w in
         case lu of
           Inl err \<Rightarrow> (EInalidUID, w1)
         | Inr (uid, home) \<Rightarrow>
             (let (lg, w2) = ask (\<lambda>n. mc_group mc n (if Group = [] then ''root'' else Group)) w1 in
              case lg of
                Inl err \<Rightarrow> (EInalidGID, w2)
              | Inr gid \<Rightarrow>
                  (let (err, w3) = attempt (\<lambda>n. mc_chown mc n filePath)
                         (FileChown filePath (fst (atoi uid)) (fst (atoi gid))) w2 in
                   (if err \<noteq> None then EChownError else ESuccess, w3)))))"

definition send_checked :: "machine \<Rightarrow> SendFileTaskInfo \<Rightarrow> string \<Rightarrow> world \<Rightarrow> int \<times> world" where
  "send_checked mc f fileDir w =
     (let file_path = path_join [fileDir, sf_Name f] in
      case base64_decode (sf_Content f) of
        Inl n \<Rightarrow> (EInvalidContent, w)
      | Inr fileContent \<Rightarrow>
          if to_lower (ComputeStrMd5 (sf_Content f)) \<noteq> to_lower (sf_Signature f) then (EInvalidSignature, w)
          else case mode_of (sf_Mode f) of
            None \<Rightarrow> (EInalidFileMode, w)
          | Some fMode \<Rightarrow>
              (let (ret, w1) = writeFile mc file_path fileContent (sf_Overwrite f) fMode w in
               if ret \<noteq> ESuccess then (ret, w1)
               else changeFileOwner mc file_path (sf_Owner f) (sf_Group f) w1))"

definition file_dir :: "SendFileTaskInfo \<Rightarrow> string" where
  "file_dir f = (if sf_Destination f = [] then ''/root'' else sf_Destination f)"

definition sendFile :: "machine \<Rightarrow> SendFileTaskInfo \<Rightarrow> world \<Rightarrow> int \<times> world" where
  "sendFile mc f w =
     (if sf_Name f = [] then (EInvalidFilePath, w)
      else if sf_Content f = [] then (EEmptyContent, w)
      else
        (let (err, w1) = (if sf_Destination f \<noteq> [] then MakeSurePath mc (sf_Destination f) w else (None, w)) in
         if err \<noteq> None then (ECreateDirFailed, w1)
         else
           (let (isFile, w2) = IsFile mc (sf_Destination f) w1 in
            if isFile then (EInvalidFilePath, w2) else send_checked mc f (file_dir f) w2)))"

definition doSendFile :: "env \<Rightarrow> machine \<Rightarrow> SendFileTaskInfo \<Rightarrow> world \<Rightarrow> world" where
  "doSendFile env mc f w =
     (let (ret, w1) = sendFile mc f w in
      if ret \<le> ECreateDirFailed then SendFileFinished env f ret w1 else SendFileInvalid env f ret w1)"

definition SendFiles :: "env \<Rightarrow> machine \<Rightarrow> SendFileTaskInfo list \<Rightarrow> world \<Rightarrow> world" where
  "SendFiles env mc fs w = fold (doSendFile env mc) fs w"

section \<open>What a file task does\<close>

text \<open>The checks a file passes before it is written.\<close>

definition file_accepted :: "SendFileTaskInfo \<Rightarrow> string \<Rightarrow> bool" where
  "file_accepted f bytes \<longleftrightarrow> sf_Name f \<noteq> [] \<and> base64_decode (sf_Content f) = Inr bytes
     \<and> to_lower (ComputeStrMd5 (sf_Content f)) = to_lower (sf_Signature f) \<and> mode_of (sf_Mode f) \<noteq> None"

definition written_files :: "effect list \<Rightarrow> (string \<times> string) list" where
  "written_files es = concat (map (\<lambda>e. case e of FileWritten p c \<Rightarrow> [(p, c)] | _ \<Rightarrow> []) es)"

lemma written_files_simps [simp]:
  "written_files [] = []" "written_files (xs @ ys) = written_files xs @ written_files ys"
  "written_files (FileWritten p c # es) = (p, c) # written_files es" "written_files (FileChmod p m # es) = written_files es"
  "written_files (FileChown p u g # es) = written_files es" "written_files (MadeDirs p # es) = written_files es"
  by (simp_all add: written_files_def)

lemma writeFile_trace:
  assumes "writeFile mc p data ow mode w = (ret, w')"
  shows "\<exists>es. trace w' = trace w @ es \<and> written_files es \<in> {[], [(p, data)]}
    \<and> (written_files es \<noteq> [] \<longrightarrow> ow \<or> mc_lstat mc (ticks w) p = NotExist)
    \<and> (ret = ESuccess \<longrightarrow> es = [FileWritten p data, FileChmod p mode])
    \<and> 0 \<le> ret \<and> (ret \<le> ECreateDirFailed \<or> written_files es = [])"
  using assms
  by (auto simp: writeFile_def FileExist_def WriteStringToFile_def ChangeMode_def ask_def attempt_def file_codes
      split: option.splits if_splits)

lemma changeFileOwner_trace:
  assumes "changeFileOwner mc p u g w = (ret, w')"
  shows "\<exists>es. trace w' = trace w @ es \<and> written_files es = [] \<and> list_all (\<lambda>e. \<not> is_http e) es"
  using assms
  by (auto simp: changeFileOwner_def ask_def attempt_def split: option.splits if_splits sum.splits)

lemma sendFile_trace:
  assumes "sendFile mc f w = (ret, w')"
  shows "\<exists>es. trace w' = trace w @ es
    \<and> (written_files es = [] \<or> (\<exists>bytes n. written_files es = [(path_join [file_dir f, sf_Name f], bytes)]
         \<and> file_accepted f bytes
         \<and> (sf_Overwrite f \<or> mc_lstat mc n (path_join [file_dir f, sf_Name f]) = NotExist)))
    \<and> (ret = ESuccess \<longrightarrow> written_files es \<noteq> [])"
proof (cases "sf_Name f = [] \<or> sf_Content f = []")
  case True
  with assms have "w' = w \<and> ret \<noteq> ESuccess" by (auto simp: sendFile_def file_codes split: if_splits)
  then show ?thesis by simp
next
  case False
  obtain err w1 where 1: "(if sf_Destination f \<noteq> [] then MakeSurePath mc (sf_Destination f) w else (None, w)) = (err, w1)"
    by fastforce
  obtain es1 where es1: "trace w1 = trace w @ es1" "written_files es1 = []"
    using 1 by (auto simp: MakeSurePath_def attempt_def split: if_splits option.splits)
  obtain isF w2 where 2: "IsFile mc (sf_Destination f) w1 = (isF, w2)" by fastforce
  then have tr2: "trace w2 = trace w1" by (auto simp: IsFile_def ask_def)
  show ?thesis
  proof (cases "err \<noteq> None \<or> isF")
    case True
    with assms False 1 2 es1 tr2 show ?thesis
      by (intro exI [of _ es1]) (auto simp: sendFile_def file_codes split: if_splits)
  next
    case ok: False
    then have c: "send_checked mc f (file_dir f) w2 = (ret, w')"
      using assms False 1 2 by (auto simp: sendFile_def split: if_splits)
    show ?thesis
    proof (cases "\<exists>bytes. file_accepted f bytes")
      case bad: False
      then have "trace w' = trace w2 \<and> ret \<noteq> ESuccess"
        using c False by (auto simp: send_checked_def Let_def file_accepted_def file_codes split: sum.splits option.splits if_splits)
      with es1 tr2 show ?thesis by (intro exI [of _ es1]) simp
    next
      case True
      then obtain bytes where b: "file_accepted f bytes" by blast
      obtain m where m: "mode_of (sf_Mode f) = Some m" using b by (auto simp: file_accepted_def)
      obtain r3 w3 where 3: "writeFile mc (path_join [file_dir f, sf_Name f]) bytes (sf_Overwrite f) m w2 = (r3, w3)"
        by fastforce
      obtain es3 where es3: "trace w3 = trace w2 @ es3"
        "written_files es3 \<in> {[], [(path_join [file_dir f, sf_Name f], bytes)]}"
        "written_files es3 \<noteq> [] \<longrightarrow> sf_Overwrite f \<or> mc_lstat mc (ticks w2) (path_join [file_dir f, sf_Name f]) = NotExist"
        "r3 = ESuccess \<longrightarrow> es3 = [FileWritten (path_join [file_dir f, sf_Name f]) bytes, FileChmod (path_join [file_dir f, sf_Name f]) m]"
        using writeFile_trace [OF 3] by blast
      have fin: "\<exists>es4. trace w' = trace w3 @ es4 \<and> written_files es4 = [] \<and> (ret = ESuccess \<longrightarrow> r3 = ESuccess)"
      proof (cases "r3 = ESuccess")
        case True
        then have "changeFileOwner mc (path_join [file_dir f, sf_Name f]) (sf_Owner f) (sf_Group f) w3 = (ret, w')"
          using c b m 3 by (simp add: send_checked_def Let_def file_accepted_def)
        from changeFileOwner_trace [OF this] True show ?thesis by blast
      next
        case r: False
        then have "ret = r3 \<and> w' = w3" using c b m 3 by (simp add: send_checked_def Let_def file_accepted_def)
        with r show ?thesis by (intro exI [of _ "[]"]) simp
      qed
      then obtain es4 where es4: "trace w' = trace w3 @ es4" "written_files es4 = []" "ret = ESuccess \<longrightarrow> r3 = ESuccess"
        by blast
      have tr: "trace w' = trace w @ (es1 @ es3 @ es4)" using es1 tr2 es3(1) es4(1) by simp
      have wf: "written_files (es1 @ es3 @ es4) = written_files es3" using es1 es4 by simp
      have ne: "ret = ESuccess \<longrightarrow> written_files es3 \<noteq> []"
        using es3(4) es4(3) by (auto simp: written_files_def)
      show ?thesis
      proof (intro exI [of _ "es1 @ es3 @ es4"] conjI)
        show "trace w' = trace w @ es1 @ es3 @ es4" by (rule tr)
        show "ret = ESuccess \<longrightarrow> written_files (es1 @ es3 @ es4) \<noteq> []" unfolding wf by (rule ne)
        show "written_files (es1 @ es3 @ es4) = [] \<or> (\<exists>bytes n. written_files (es1 @ es3 @ es4) = [(path_join [file_dir f, sf_Name f], bytes)]
         \<and> file_accepted f bytes
         \<and> (sf_Overwrite f \<or> mc_lstat mc n (path_join [file_dir f, sf_Name f]) = NotExist))"
          unfolding wf using es3(2,3) b by blast
      qed
    qed
  qed
qed

lemma sendFile_quiet: "sendFile mc f w = (ret, w') \<Longrightarrow> quiet w w'"
proof -
  assume s: "sendFile mc f w = (ret, w')"
  have q: "quiet w w0 \<Longrightarrow> quiet w (snd (writeFile mc p d ow m w0))" for w0 p d ow m
    unfolding writeFile_def Let_def by (auto intro!: quiet_let quiet_calls)
  have o: "quiet w w0 \<Longrightarrow> quiet w (snd (changeFileOwner mc p u g w0))" for w0 p u g
    unfolding changeFileOwner_def Let_def by (auto intro!: quiet_let quiet_pair quiet_calls split: sum.split)
  have c: "quiet w w0 \<Longrightarrow> quiet w (snd (send_checked mc f d w0))" for w0 d
    unfolding send_checked_def Let_def by (auto intro!: quiet_let q o split: sum.split option.split)
  have "quiet w (snd (sendFile mc f w))"
    unfolding sendFile_def Let_def by (auto intro!: quiet_let quiet_calls c)
  with s show ?thesis by simp
qed

section \<open>Properties\<close>

lemma posts_not_http: "list_all (\<lambda>e. \<not> is_http e) es \<Longrightarrow> posts es = []"
  by (induction es) (auto simp: posts_def is_http_def split: effect.splits)

text \<open>C26. A file task writes at most one file, below its destination, with the decoded content, and
  only after the name, the content, the signature and the mode have been accepted; an existing
  file is overwritten only if the task says so; and success is reported only for a written file.\<close>

theorem sendFile_writes_checked_content:
  assumes "sendFile mc f w = (ret, w')"
  shows "\<exists>es. trace w' = trace w @ es \<and>
    (case written_files es of
       [] \<Rightarrow> ret \<noteq> ESuccess
     | [(path, bytes)] \<Rightarrow> path = path_join [file_dir f, sf_Name f] \<and> base64_decode (sf_Content f) = Inr bytes
         \<and> to_lower (ComputeStrMd5 (sf_Content f)) = to_lower (sf_Signature f) \<and> mode_of (sf_Mode f) \<noteq> None
         \<and> (sf_Overwrite f \<or> (\<exists>n. mc_lstat mc n path = NotExist))
     | _ \<Rightarrow> False)"
proof -
  obtain es where es: "trace w' = trace w @ es"
    "written_files es = [] \<or> (\<exists>bytes n. written_files es = [(path_join [file_dir f, sf_Name f], bytes)]
       \<and> file_accepted f bytes \<and> (sf_Overwrite f \<or> mc_lstat mc n (path_join [file_dir f, sf_Name f]) = NotExist))"
    "ret = ESuccess \<longrightarrow> written_files es \<noteq> []"
    using sendFile_trace [OF assms] by blast
  from es(2) show ?thesis
  proof (elim disjE exE conjE)
    assume "written_files es = []"
    with es show ?thesis by (intro exI [of _ es]) simp
  next
    fix bytes n
    assume "written_files es = [(path_join [file_dir f, sf_Name f], bytes)]" "file_accepted f bytes"
      "sf_Overwrite f"
    with es(1) show ?thesis by (intro exI [of _ es]) (simp add: file_accepted_def)
  next
    fix bytes n
    assume "written_files es = [(path_join [file_dir f, sf_Name f], bytes)]" "file_accepted f bytes"
      "mc_lstat mc n (path_join [file_dir f, sf_Name f]) = NotExist"
    with es(1) show ?thesis by (intro exI [of _ es]) (auto simp: file_accepted_def)
  qed
qed

definition example_file :: "string \<Rightarrow> SendFileTaskInfo" where
  "example_file mode = \<lparr>sf_Content = ''bHM='', sf_ContentType = [], sf_Destination = ''/etc'', sf_Group = [],
     sf_Mode = mode, sf_Name = ''motd'', sf_Overwrite = False, sf_Owner = [],
     sf_Signature = ComputeStrMd5 ''bHM='', sf_TaskID = ''f-1'', sf_Timeout = 60,
     sf_Output = \<lparr>out_Interval = 0, out_LogQuota = 0, out_SkipEmpty = False, out_SendStart = False\<rparr>\<rparr>"

definition example_disk :: machine where
  "example_disk =
     \<lparr>mc_stat = (\<lambda>n p. NotExist), mc_lstat = (\<lambda>n p. NotExist), mc_mkdir = (\<lambda>n p. None), mc_write = (\<lambda>n p. None),
      mc_chmod = (\<lambda>n p. None), mc_chown = (\<lambda>n p. None), mc_remove = (\<lambda>n p. None), mc_executable = (\<lambda>n. Inr []),
      mc_look_path = (\<lambda>n p. None), mc_user = (\<lambda>n u. Inr (''0'', ''/root'')), mc_group = (\<lambda>n g. Inr ''0''),
      mc_home_env = (\<lambda>n. Inr []), mc_current_home = (\<lambda>n. Inr []), mc_environ = (\<lambda>n. []), mc_output = (\<lambda>n c. Inr []),
      mc_start = (\<lambda>n c a. None), mc_timer_first = (\<lambda>n. False), mc_finish = (\<lambda>n. (Some 0, None)), mc_events = (\<lambda>n. []),
      mc_script_path = []\<rparr>"

lemma example_values:
  "base64_decode ''bHM='' = Inr ''ls''" "path_join [''/etc'', ''motd''] = ''/etc/motd''" "mode_of ''0640'' = Some 416"
  "mode_of ''-644'' = Some 4294966876"
  by code_simp+

lemma example_sendFile:
  assumes "mode_of mode = Some m"
  shows "sendFile example_disk (example_file mode) \<lparr>ticks = 0, trace = []\<rparr>
    = (ESuccess, \<lparr>ticks = 5, trace = [MadeDirs ''/etc'', FileWritten ''/etc/motd'' ''ls'', FileChmod ''/etc/motd'' m]\<rparr>)"
  using assms
  by (simp add: sendFile_def example_file_def example_disk_def MakeSurePath_def IsFile_def attempt_def ask_def
      send_checked_def file_dir_def example_values writeFile_def FileExist_def WriteStringToFile_def ChangeMode_def
      changeFileOwner_def perform_def tick_def Let_def)

theorem sendFile_writes_checked_content_witness:
  "fst (sendFile example_disk (example_file ''0640'') \<lparr>ticks = 0, trace = []\<rparr>) = ESuccess
   \<and> mode_of (sf_Mode (example_file ''0640'')) \<noteq> None
   \<and> written_files (trace (snd (sendFile example_disk (example_file ''0640'') \<lparr>ticks = 0, trace = []\<rparr>)))
      = [(''/etc/motd'', ''ls'')]"
  using sendFile_writes_checked_content [OF example_sendFile [OF example_values(3)]]
  by (auto simp: example_sendFile [OF example_values(3)])

text \<open>Every file task is reported by exactly one post: to the service of finished tasks with the
  task and its code when a file operation was reached, to the service of invalid tasks otherwise.\<close>

theorem doSendFile_reports_once:
  "\<exists>es r. trace (doSendFile env mc f w) = trace w @ es
    \<and> posts es = [HttpSent ''POST'' (if r \<le> ECreateDirFailed then finished_url env f r else invalid_url env f r) []]
    \<and> r = fst (sendFile mc f w)"
proof -
  obtain r w1 where s: "sendFile mc f w = (r, w1)" by fastforce
  obtain es1 where es1: "trace w1 = trace w @ es1" "posts es1 = []"
    using sendFile_quiet [OF s] posts_not_http by (auto simp: quiet_def)
  define url where "url = (if r \<le> ECreateDirFailed then finished_url env f r else invalid_url env f r)"
  obtain es2 where es2: "trace (snd (HttpPost env url [] w1)) = trace w1 @ HttpSent ''POST'' url [] # es2" "posts es2 = []"
    using HttpPost_trace by blast
  have "doSendFile env mc f w = snd (HttpPost env url [] w1)"
    by (simp add: doSendFile_def s SendFileFinished_def SendFileInvalid_def url_def)
  with es1 es2 s show ?thesis
    by (intro exI [of _ "es1 @ HttpSent ''POST'' url [] # es2"] exI [of _ r]) (simp add: url_def)
qed

text \<open>A mode text with a minus sign is accepted: the mode ''-644'' passes the length check, parses
  to a negative number and sets a mode with all the high bits.\<close>

theorem sendFile_negative_mode:
  "sendFile example_disk (example_file ''-644'') \<lparr>ticks = 0, trace = []\<rparr>
    = (ESuccess, \<lparr>ticks = 5, trace = [MadeDirs ''/etc'', FileWritten ''/etc/motd'' ''ls'', FileChmod ''/etc/motd'' 4294966876]\<rparr>)"
  by (rule example_sendFile [OF example_values(4)])

text \<open>The values of a rejected file are not escaped: a file name with an ampersand changes the
  parameters that the report carries.\<close>

theorem SendFileInvalid_unescaped:
  "query_params (invalid_url silent_env ((example_file [])\<lparr>sf_Name := ''a&param=b''\<rparr>) EFileAlreadyExist)
    = [(''taskId'', ''f-1''), (''taskType'', ''sendfile''), (''param'', ''FileExist''), (''value'', ''a''), (''param'', ''b'')]"
proof -
  have u: "invalid_url silent_env ((example_file [])\<lparr>sf_Name := ''a&param=b''\<rparr>) EFileAlreadyExist
    = GetInvalidTaskService silent_env @ ''?taskId=f-1&taskType=sendfile&param=FileExist&value=a&param=b''"
    by (simp add: invalid_url_def invalid_file_def example_file_def file_codes)
  show ?thesis unfolding u by code_simp
qed

end
