(* ===== verification/Fetch_Task.thy ===== *)
theory Fetch_Task
  imports Task_Report Task_Models "HOL-Library.AList"
begin

text \<open>
  Fetching the list of tasks: \<open>agent/taskengine/fetchtask.go\<close>. Decoding the JSON answer is the
  parameter \<open>decode\<close>; an answer that does not decode is \<open>None\<close>.
\<close>

section \<open>Data\<close>

datatype FetchReason = FetchOnKickoff | FetchOnStartup | OtherReason string

record task_info =
  fi_TaskInfo :: RunTaskInfo
  fi_OutputInfo :: OutputInfo
  fi_Repeat :: RunTaskRepeatType

record send_file_info =
  fs_TaskInfo :: SendFileTaskInfo
  fs_OutputInfo :: OutputInfo

record tasks_answer =
  ta_Code :: int
  ta_RunTasks :: "task_info list"
  ta_StopTasks :: "task_info list"
  ta_TestTasks :: "task_info list"
  ta_SendFileTasks :: "send_file_info list"
  ta_SessionTasks :: "SessionTaskInfo list"
  ta_InstanceId :: string

record taskCollection =
  runInfos :: "RunTaskInfo list"
  stopInfos :: "RunTaskInfo list"
  testInfos :: "RunTaskInfo list"
  sendFiles :: "SendFileTaskInfo list"
  sessionInfos :: "SessionTaskInfo list"

definition newTaskCollection :: taskCollection where
  "newTaskCollection = \<lparr>runInfos = [], stopInfos = [], testInfos = [], sendFiles = [], sessionInfos = []\<rparr>"

section \<open>Parsing\<close>

text \<open>\<open>toRunTaskInfo\<close>: the repeat type of old servers, and the builtin parameters.\<close>

definition resolved_repeat :: "RunTaskRepeatType \<Rightarrow> string \<Rightarrow> RunTaskRepeatType" where
  "resolved_repeat r cronat =
     (if r = OtherRepeat [] then (if cronat \<noteq> [] then RunTaskCron else RunTaskOnce) else r)"

definition builtin_parameters :: "string \<Rightarrow> RunTaskInfo \<Rightarrow> (string \<times> string) list" where
  "builtin_parameters instanceId info =
     AList.update ''InvokeId'' (ri_TaskId info)
       (AList.update ''CommandId'' (ri_CommandId info)
         (AList.update ''InstanceId'' instanceId
           (case ri_BuiltinParameters info of None \<Rightarrow> [] | Some ps \<Rightarrow> ps)))"

definition toRunTaskInfo :: "string \<Rightarrow> task_info \<Rightarrow> RunTaskInfo" where
  "toRunTaskInfo instanceId t =
     (let info = (fi_TaskInfo t)\<lparr>ri_InstanceId := instanceId, ri_Output := fi_OutputInfo t,
            ri_Repeat := resolved_repeat (fi_Repeat t) (ri_Cronat (fi_TaskInfo t))\<rparr> in
      if ri_EnableParameter info then info\<lparr>ri_BuiltinParameters := Some (builtin_parameters instanceId info)\<rparr>
      else info)"

definition parseTaskInfo :: "(string \<Rightarrow> tasks_answer option) \<Rightarrow> string \<Rightarrow> int \<times> taskCollection" where
  "parseTaskInfo decode jsonStr =
     (case decode jsonStr of
        None \<Rightarrow> (0, newTaskCollection)
      | Some a \<Rightarrow>
          (ta_Code a,
           \<lparr>runInfos = map (toRunTaskInfo (ta_InstanceId a)) (ta_RunTasks a),
            stopInfos = map (toRunTaskInfo (ta_InstanceId a)) (ta_StopTasks a),
            testInfos = map (toRunTaskInfo (ta_InstanceId a)) (ta_TestTasks a),
            sendFiles = map (\<lambda>f. (fs_TaskInfo f)\<lparr>sf_Output := fs_OutputInfo f\<rparr>) (ta_SendFileTasks a),
            sessionInfos = ta_SessionTasks a\<rparr>))"

section \<open>Fetching\<close>

definition SessionTaskType :: int where "SessionTaskType = 1"
definition NormalTaskType :: int where "NormalTaskType = 0"

definition reason_query :: "FetchReason \<Rightarrow> bool \<Rightarrow> string option" where
  "reason_query reason isColdstart =
     (case reason of
        FetchOnKickoff \<Rightarrow> Some ''?reason=kickoff''
      | FetchOnStartup \<Rightarrow> Some (''?reason=startup&cold_start='' @ (if isColdstart then ''true'' else ''false''))
      | OtherReason r \<Rightarrow> None)"

definition fetch_url :: "env \<Rightarrow> string \<Rightarrow> string \<Rightarrow> int \<Rightarrow> world \<Rightarrow> string \<times> world" where
  "fetch_url env reasonQuery taskId taskType w =
     (if taskType = SessionTaskType then
        (GetFetchSessionTaskListService env @ (if taskId \<noteq> [] then ''?channelId='' @ taskId else []), w)
      else
        (let ((now, offset, zone), w1) = NowWithTimezoneName env w in
         (GetFetchTaskListService env @ reasonQuery @ (if taskId \<noteq> [] then ''&taskId='' @ taskId else [])
            @ ''&currentTime='' @ itoa (ToAccurateTime now) @ ''&offset='' @ itoa offset
            @ ''&timeZone='' @ query_escape zone, w1)))"

text \<open>
  The outer loop: a round is a post with its retries; the code 408 asks for another round, of at
  most four. The result of the last round is returned even if its code was 408.
\<close>

fun fetch_rounds ::
  "env \<Rightarrow> (string \<Rightarrow> tasks_answer option) \<Rightarrow> string \<Rightarrow> nat \<Rightarrow> taskCollection \<Rightarrow> world \<Rightarrow> taskCollection \<times> world" where
  "fetch_rounds env decode url 0 infos w = (infos, w)"
| "fetch_rounds env decode url (Suc n) infos w =
     (let ((response, err), w1) = post_retrying env url [] w in
      if err \<noteq> None then (newTaskCollection, w1)
      else
        (let (code, infos') = parseTaskInfo decode response in
         if code = 408 then fetch_rounds env decode url n infos' (go_sleep 2 w1) else (infos', w1)))"

definition FetchTaskList ::
  "env \<Rightarrow> (string \<Rightarrow> tasks_answer option) \<Rightarrow> FetchReason \<Rightarrow> string \<Rightarrow> int \<Rightarrow> bool \<Rightarrow> world \<Rightarrow> taskCollection \<times> world" where
  "FetchTaskList env decode reason taskId taskType isColdstart w =
     (if server_host env = [] then (newTaskCollection, w)
      else case reason_query reason isColdstart of
        None \<Rightarrow> (newTaskCollection, w)
      | Some q \<Rightarrow>
          (let (url, w1) = fetch_url env q taskId taskType w in
           fetch_rounds env decode url 4 newTaskCollection w1))"

section \<open>Properties\<close>

lemma fetch_rounds_posts:
  "\<exists>es. trace (snd (fetch_rounds env decode url n infos w)) = trace w @ es \<and> length (posts es) \<le> 4 * n
    \<and> set (posts es) \<subseteq> {HttpSent ''POST'' url []} \<and> (n > 0 \<longrightarrow> posts es \<noteq> [])"
proof (induction n arbitrary: infos w)
  case (Suc n)
  obtain response err w1 where p: "post_retrying env url [] w = ((response, err), w1)" by (metis surj_pair)
  obtain es where es: "trace w1 = trace w @ es" "posts es \<noteq> []" "length (posts es) \<le> 4"
    "set (posts es) \<subseteq> {HttpSent ''POST'' url []}"
    using retrying.appends [of env "(url, [])" w] p by auto
  show ?case
  proof (cases "err = None \<and> fst (parseTaskInfo decode response) = 408")
    case True
    obtain infos' where i: "parseTaskInfo decode response = (408, infos')" using True by (metis prod.collapse)
    obtain fs where fs: "trace (snd (fetch_rounds env decode url n infos' (go_sleep 2 w1))) = trace (go_sleep 2 w1) @ fs"
      "length (posts fs) \<le> 4 * n" "set (posts fs) \<subseteq> {HttpSent ''POST'' url []}"
      using Suc.IH by blast
    with es p i True show ?thesis by (intro exI [of _ "es @ Slept 2 # fs"]) simp
  next
    case False
    then have "trace (snd (fetch_rounds env decode url (Suc n) infos w)) = trace w1"
      using p by (auto simp: split_beta)
    with es show ?thesis by (intro exI [of _ es]) simp
  qed
qed simp

lemma fetch_url_trace: "trace (snd (fetch_url env q taskId taskType w)) = trace w"
  by (simp add: fetch_url_def NowWithTimezoneName_def read_clock_def Let_def split_beta)

text \<open>The address carries the reason, and it is posted to when the agent knows a server.\<close>

lemma FetchTaskList_address:
  assumes "reason_query reason isColdstart = Some q"
  shows "\<exists>es url. trace (snd (FetchTaskList env decode reason taskId taskType isColdstart w)) = trace w @ es
    \<and> set (posts es) \<subseteq> {HttpSent ''POST'' url []} \<and> (server_host env \<noteq> [] \<longrightarrow> posts es \<noteq> [])
    \<and> (taskType \<noteq> SessionTaskType \<longrightarrow> has_prefix (GetFetchTaskListService env @ q) url)"
proof (cases "server_host env = []")
  case True
  then show ?thesis
    by (intro exI [of _ "[]"] exI [of _ "GetFetchTaskListService env @ q"]) (simp add: FetchTaskList_def has_prefix_iff)
next
  case False
  obtain url w1 where u: "fetch_url env q taskId taskType w = (url, w1)" by fastforce
  then have tr: "trace w1 = trace w" using fetch_url_trace [of env q taskId taskType w] by simp
  have "has_prefix (GetFetchTaskListService env @ q) url" if "taskType \<noteq> SessionTaskType"
    using u that by (auto simp: fetch_url_def Let_def has_prefix_iff split: prod.splits)
  moreover obtain es where "trace (snd (fetch_rounds env decode url 4 newTaskCollection w1)) = trace w1 @ es"
    "set (posts es) \<subseteq> {HttpSent ''POST'' url []}" "posts es \<noteq> []"
    using fetch_rounds_posts [of env decode url 4 newTaskCollection w1] by auto
  ultimately show ?thesis using assms u tr False
    by (intro exI [of _ es] exI [of _ url]) (simp add: FetchTaskList_def)
qed

lemma fetch_rounds_nothing: "fst (fetch_rounds env (\<lambda>s. None) url n newTaskCollection w) = newTaskCollection"
  by (cases n) (simp_all add: parseTaskInfo_def split_beta)

lemma fetch_nothing: "\<exists>w'. FetchTaskList env (\<lambda>s. None) reason taskId taskType cold w = (newTaskCollection, w')"
  by (auto simp: FetchTaskList_def split_beta fetch_rounds_nothing intro!: prod_eqI split: option.split)

text \<open>C27. Fetching the tasks makes at most sixteen posts, all of them to one address, and at least one
  when the agent knows a server; the loop ends whatever the server answers.\<close>

theorem FetchTaskList_bounded:
  "\<exists>es url. trace (snd (FetchTaskList env decode reason taskId taskType isColdstart w)) = trace w @ es
    \<and> length (posts es) \<le> 16 \<and> set (posts es) \<subseteq> {HttpSent ''POST'' url []}
    \<and> (posts es = [] \<longleftrightarrow> server_host env = [] \<or> reason_query reason isColdstart = None)"
proof (cases "server_host env = [] \<or> reason_query reason isColdstart = None")
  case True
  then have "trace (snd (FetchTaskList env decode reason taskId taskType isColdstart w)) = trace w"
    by (auto simp: FetchTaskList_def split: option.split)
  with True show ?thesis by (intro exI [of _ "[]"]) simp
next
  case False
  then obtain q where q: "reason_query reason isColdstart = Some q" "server_host env \<noteq> []" by blast
  obtain url w1 where u: "fetch_url env q taskId taskType w = (url, w1)" by fastforce
  then have tr: "trace w1 = trace w"
    using fetch_url_trace [of env q taskId taskType w] by simp
  obtain es where "trace (snd (fetch_rounds env decode url 4 newTaskCollection w1)) = trace w1 @ es"
    "length (posts es) \<le> 4 * 4" "set (posts es) \<subseteq> {HttpSent ''POST'' url []}" "posts es \<noteq> []"
    using fetch_rounds_posts [of env decode url 4 newTaskCollection w1] by auto
  with q u tr False show ?thesis
    by (intro exI [of _ es] exI [of _ url]) (simp add: FetchTaskList_def)
qed

text \<open>A task read from an answer always has a repeat type, its instance and output settings, and,
  when parameters are enabled, the three builtin parameters with their values from the task; the
  other parameters are those of the server.\<close>

theorem toRunTaskInfo_complete:
  "ri_Repeat (toRunTaskInfo i t) \<noteq> OtherRepeat []
   \<and> ri_InstanceId (toRunTaskInfo i t) = i \<and> ri_Output (toRunTaskInfo i t) = fi_OutputInfo t
   \<and> (if ri_EnableParameter (fi_TaskInfo t) then
        (\<exists>ps. ri_BuiltinParameters (toRunTaskInfo i t) = Some ps
          \<and> map_of ps = (map_of (case ri_BuiltinParameters (fi_TaskInfo t) of None \<Rightarrow> [] | Some qs \<Rightarrow> qs))
              (''InstanceId'' \<mapsto> i, ''CommandId'' \<mapsto> ri_CommandId (fi_TaskInfo t), ''InvokeId'' \<mapsto> ri_TaskId (fi_TaskInfo t)))
      else ri_BuiltinParameters (toRunTaskInfo i t) = ri_BuiltinParameters (fi_TaskInfo t))"
  by (auto simp: toRunTaskInfo_def Let_def resolved_repeat_def builtin_parameters_def update_conv')

end
