(* ===== verification/Scheduler.thy ===== *)
theory Scheduler
  imports Host_Processor Registries Task_Pool Timers Fetch_Task Send_File
begin

text \<open>
  The dispatch of tasks, \<open>agent/taskengine/scheduletask.go\<close>. The state \<open>agent\<close> holds what the
  package keeps in globals: the task objects and the schedule objects behind their pointers, the
  task factory, the map of periodic schedules, the timer manager, the two pools. A step either
  returns, panics, or does not return (\<open>None\<close>: a send on a full channel or a run that hangs).
  A handler is one step of the agent, but the callback of a timer, which holds no lock between its
  parts, is three; a send to a full pool leaves the function with the waiting senders
  (\<open>Task_Pool\<close>) and the handler goes on. A run of a task is one step, taken when its
  goroutine returns; a cancellation during it is one of its own events (\<open>Base_Task\<close>).
\<close>

section \<open>Steps\<close>

type_synonym ('s, 'a) step_result = "('a \<times> 's) outcome option"

definition ret :: "'a \<Rightarrow> 's \<Rightarrow> ('s, 'a) step_result" where
  "ret x s = Some (Returns (x, s))"

definition crash :: "panic \<Rightarrow> ('s, 'a) step_result" where
  "crash p = Some (Panics p)"

fun and_then :: "('s, 'a) step_result \<Rightarrow> ('a \<Rightarrow> 's \<Rightarrow> ('s, 'b) step_result) \<Rightarrow> ('s, 'b) step_result" where
  "and_then None f = None"
| "and_then (Some (Panics p)) f = Some (Panics p)"
| "and_then (Some (Returns (x, s))) f = f x s"

lemma step_simps [simp]:
  "and_then (ret x s) f = f x s" "and_then (crash p) f = crash p"
  "ret x s = Some (Returns (y, t)) \<longleftrightarrow> x = y \<and> s = t"
  "crash p \<noteq> Some (Returns (y, t))" "crash p \<noteq> None" "ret x s \<noteq> None"
  "crash p = Some (Panics q) \<longleftrightarrow> p = q" "ret x s \<noteq> Some (Panics q)"
  by (simp_all add: ret_def crash_def)

lemma and_then_returns:
  "and_then m f = Some (Returns (y, t)) \<longleftrightarrow>
    (\<exists>x s. m = Some (Returns (x, s)) \<and> f x s = Some (Returns (y, t)))"
  by (cases m rule: option.exhaust; simp) (rename_tac r, case_tac r, auto)

fun run_all :: "('x \<Rightarrow> 's \<Rightarrow> ('s, unit) step_result) \<Rightarrow> 'x list \<Rightarrow> 's \<Rightarrow> ('s, unit) step_result" where
  "run_all f [] s = ret () s"
| "run_all f (x # xs) s = and_then (f x s) (\<lambda>u s'. run_all f xs s')"

section \<open>State\<close>

text \<open>What the package takes from outside: the network, the processor implementations, the cron library, the store, the disk.\<close>

record ('e, 'l, 'p) engine =
  en_env :: env
  en_ops :: "'p processor_ops"
  en_container :: "RunTaskInfo \<Rightarrow> int \<Rightarrow> 'p"
  en_host :: "RunTaskInfo \<Rightarrow> int \<Rightarrow> 'p"
  en_lib :: "('e, 'l) cron_lib"
  en_location_name :: "'l \<Rightarrow> string"
  en_config :: agent_config
  en_machine :: machine
  en_decode :: "string \<Rightarrow> tasks_answer option"
  en_coldstart :: bool

record PeriodicTaskSchedule =
  ps_timer :: "nat option"
  ps_reusableInvocation :: "address option"

datatype job = RunTaskJob address | RunScheduleJob nat

record ('e, 'l, 'p) agent =
  ag_world :: world
  ag_tasks :: "address \<Rightarrow> 'p task option"
  ag_schedules :: "nat \<Rightarrow> PeriodicTaskSchedule option"
  ag_fresh :: nat
  ag_finish :: "address \<Rightarrow> nat option"
  ag_factory :: task_factory
  ag_periodic :: "string \<Rightarrow> nat option"
  ag_timers :: "('e, 'l, nat) timer_manager option"
  ag_pool :: "job pool"
  ag_precheck :: "address pool"
  ag_sessions :: "SessionTaskInfo list list"
  ag_enabled :: bool
  ag_counter :: int
  ag_startup :: bool
  ag_checked :: "(nat \<times> nat) list"
  ag_added :: "((nat \<times> nat) \<times> nat) list"
  ag_dropped :: "string list"

text \<open>
  \<open>ag_checked\<close> and \<open>ag_added\<close> are the goroutines inside \<open>startExclusiveInvocation\<close>, each the
  timer and the place of its runner: behind the test of the factory, and behind \<open>AddTask\<close> with the
  schedule object it is about to send. \<open>ag_dropped\<close> records the names for which an error of
  \<open>AddTask\<close> was not looked at.
\<close>

text \<open>Access through a pointer, the name of a task, and effects on the outside.\<close>

definition task_id :: "('e, 'l, 'p) agent \<Rightarrow> address \<Rightarrow> string" where
  "task_id a p = (case ag_tasks a p of None \<Rightarrow> [] | Some t \<Rightarrow> ri_TaskId (t_info t))"

definition on_world :: "(world \<Rightarrow> 'r \<times> world) \<Rightarrow> ('e, 'l, 'p) agent \<Rightarrow> ('e, 'l, 'p) agent" where
  "on_world f a = a\<lparr>ag_world := snd (f (ag_world a))\<rparr>"

definition set_task :: "address \<Rightarrow> 'p task \<times> world \<Rightarrow> ('e, 'l, 'p) agent \<Rightarrow> ('e, 'l, 'p) agent" where
  "set_task p tw a = a\<lparr>ag_tasks := (ag_tasks a)(p \<mapsto> fst tw), ag_world := snd tw\<rparr>"

definition zone_label :: "('l \<Rightarrow> string) \<Rightarrow> 'l zone \<Rightarrow> string" where
  "zone_label name z = (case z of UTC \<Rightarrow> ''UTC'' | FixedZone n offset \<Rightarrow> n | LoadedZone l \<Rightarrow> name l)"

text \<open>\<open>NewTask\<close> at a fresh address, with the timer its finish callback asks.\<close>

definition new_task_at ::
  "('e, 'l, 'p) engine \<Rightarrow> RunTaskInfo \<Rightarrow> string option \<Rightarrow> nat option \<Rightarrow> ('e, 'l, 'p) agent \<Rightarrow>
   address \<times> ('e, 'l, 'p) agent" where
  "new_task_at en info location finish a =
     (let p = ag_fresh a in
      (p, a\<lparr>ag_tasks := (ag_tasks a)(p \<mapsto> NewTask (en_container en) (en_host en) info location (finish \<noteq> None)),
            ag_finish := (ag_finish a)(p := finish), ag_fresh := Suc p\<rparr>))"

text \<open>What the finish callback of a cron task reads from its timer: \<open>NoNextRun\<close>.\<close>

definition no_next_run :: "('e, 'l, 'p) agent \<Rightarrow> address \<Rightarrow> bool" where
  "no_next_run a p =
     (case ag_finish a p of None \<Rightarrow> False
      | Some tm \<Rightarrow>
          (case Option.bind (ag_timers a) (\<lambda>m. tm_heap m tm) of None \<Rightarrow> False
           | Some timer \<Rightarrow> (case Schedule timer of CronScheduled e l no_next \<Rightarrow> no_next | _ \<Rightarrow> False)))"

section \<open>Cancelling\<close>

definition cancel_task :: "('e, 'l, 'p) engine \<Rightarrow> bool \<Rightarrow> address \<Rightarrow> ('e, 'l, 'p) agent \<Rightarrow>
  (('e, 'l, 'p) agent, unit) step_result" where
  "cancel_task en quietly p a =
     (case ag_tasks a p of None \<Rightarrow> crash NilDereference
      | Some t \<Rightarrow>
          (case Cancel (en_env en) (en_ops en) (no_next_run a p) quietly t (ag_world a) of
             Panics q \<Rightarrow> crash q
           | Returns tw \<Rightarrow> ret () (set_task p tw a)))"

text \<open>The ACK with the output of the last invocation, when none is running.\<close>

definition ack_canceled :: "('e, 'l, 'p) engine \<Rightarrow> nat \<Rightarrow> ('e, 'l, 'p) agent \<Rightarrow>
  (('e, 'l, 'p) agent, unit) step_result" where
  "ack_canceled en s a =
     (case Option.bind (ag_schedules a s) ps_reusableInvocation of None \<Rightarrow> crash NilDereference
      | Some p \<Rightarrow>
          (case ag_tasks a p of None \<Rightarrow> crash NilDereference
           | Some t \<Rightarrow>
               (case getReportString (t_output t) t of
                  Panics q \<Rightarrow> crash q
                | Returns (out, t') \<Rightarrow>
                    ret () (set_task p (t', sendOutput (en_env en) (en_ops en) (no_next_run a p) ''canceled''
                      out t' (ag_world a)) a))))"

definition no_timer_manager :: go_error where
  "no_timer_manager = PlainError ''Global TimerManager instance is not initialized''"

definition cancelPeriodicTask :: "('e, 'l, 'p) engine \<Rightarrow> RunTaskInfo \<Rightarrow> bool \<Rightarrow> ('e, 'l, 'p) agent \<Rightarrow>
  (('e, 'l, 'p) agent, go_error option) step_result" where
  "cancelPeriodicTask en info quietly a =
     (case ag_timers a of None \<Rightarrow> ret (Some no_timer_manager) a
      | Some m \<Rightarrow>
          (case ag_periodic a (ri_TaskId info) of
             None \<Rightarrow>
               if \<not> quietly then
                 ret None (on_world (sendStoppedOutput (en_env en) (ri_TaskId info) (ri_InvokeVersion info)
                   0 0 0 0 [] stopReasonKilled) a)
               else crash NilDereference
           | Some s \<Rightarrow>
               (case Option.bind (ag_schedules a s) ps_timer of None \<Rightarrow> crash NilDereference
                | Some tm \<Rightarrow>
                    (case DeleteTimer tm m of None \<Rightarrow> None
                     | Some m' \<Rightarrow>
                         (let a' = a\<lparr>ag_timers := Some m', ag_periodic := (ag_periodic a)(ri_TaskId info := None)\<rparr> in
                          case GetTask (ag_factory a') (ri_TaskId info) of
                            Some p \<Rightarrow> and_then (cancel_task en quietly p a') (\<lambda>u. ret None)
                          | None \<Rightarrow>
                              if quietly then ret None a'
                              else and_then (ack_canceled en s a') (\<lambda>u. ret None))))))"

definition getPeriodicTask :: "('e, 'l, 'p) agent \<Rightarrow> string \<Rightarrow> address option" where
  "getPeriodicTask a name =
     Option.bind (ag_periodic a name) (\<lambda>s. Option.bind (ag_schedules a s) ps_reusableInvocation)"

section \<open>Scheduling\<close>

text \<open>\<open>time.Unix\<close> of the whole seconds and the rest of a time in milliseconds.\<close>

definition creation_instant :: "int \<Rightarrow> instant" where
  "creation_instant ms =
     (let secs = sgn ms * (\<bar>ms\<bar> div 1000) in secs * second + (ms - secs * 1000) * 1000000)"

definition create_timer :: "('e, 'l, 'p) engine \<Rightarrow> RunTaskInfo \<Rightarrow> nat \<Rightarrow> ('e, 'l, nat) timer_manager \<Rightarrow> world \<Rightarrow>
  ((go_error + nat) \<times> ('e, 'l, nat) timer_manager) \<times> world" where
  "create_timer en info s m w =
     (if ri_Repeat info = RunTaskRate then
        (CreateRateTimer s (ri_Cronat info) (creation_instant (ri_CreationTime info)) m, w)
      else if ri_Repeat info = RunTaskAt then (CreateAtTimer (en_lib en) s (ri_Cronat info) m, w)
      else (let (now, w1) = read_clock (en_env en) w in
        (CreateCronTimer (en_lib en) now s (ri_Cronat info) m, w1)))"

definition cron_error_value :: "go_error \<Rightarrow> string" where
  "cron_error_value err = (case err of CronParameterError code message \<Rightarrow> code | _ \<Rightarrow> err_text err)"

definition unexpected_schedule :: go_error where
  "unexpected_schedule =
     PlainError ''Unexpected schedule object when invoking onFinish callback for cron schedule!''"

text \<open>
  The last part of \<open>schedulePeriodicTask\<close>, from the binding of the schedule object \<open>s\<close> to the
  start of the timer \<open>tm\<close>; a timer that does not start is deleted and deregistered again.
\<close>

definition register_periodic ::
  "('e, 'l, 'p) engine \<Rightarrow> RunTaskInfo \<Rightarrow> nat \<Rightarrow> nat \<Rightarrow> string option \<Rightarrow> nat option \<Rightarrow> ('e, 'l, 'p) agent \<Rightarrow>
   (('e, 'l, 'p) agent, go_error option) step_result" where
  "register_periodic en info s tm location finish a =
     (let (p, a1) = new_task_at en info location finish a;
          a2 = a1\<lparr>ag_schedules := (ag_schedules a1)(s \<mapsto> \<lparr>ps_timer = Some tm, ps_reusableInvocation = Some p\<rparr>),
                  ag_periodic := (ag_periodic a1)(ri_TaskId info \<mapsto> s)\<rparr> in
      case ag_timers a2 of None \<Rightarrow> crash NilDereference
      | Some m \<Rightarrow>
          (case tm_heap m tm of None \<Rightarrow> crash NilDereference
           | Some timer \<Rightarrow>
               (let (now, w) = read_clock (en_env en) (ag_world a2);
                    (r, timer') = TimerRun (en_lib en) now timer;
                    m' = m\<lparr>tm_heap := (tm_heap m)(tm \<mapsto> timer')\<rparr>;
                    a3 = a2\<lparr>ag_world := w, ag_timers := Some m'\<rparr> in
                case r of
                  Panics q \<Rightarrow> crash q
                | Returns None \<Rightarrow> ret None a3
                | Returns (Some err) \<Rightarrow>
                    (case DeleteTimer tm m' of None \<Rightarrow> None
                     | Some m'' \<Rightarrow>
                         ret (Some err) (a3\<lparr>ag_timers := Some m'',
                           ag_periodic := (ag_periodic a3)(ri_TaskId info := None)\<rparr>)))))"

definition schedulePeriodicTask :: "('e, 'l, 'p) engine \<Rightarrow> RunTaskInfo \<Rightarrow> ('e, 'l, 'p) agent \<Rightarrow>
  (('e, 'l, 'p) agent, go_error option) step_result" where
  "schedulePeriodicTask en info a =
     (case ag_timers a of None \<Rightarrow> ret (Some no_timer_manager) a
      | Some m \<Rightarrow>
          if ag_periodic a (ri_TaskId info) \<noteq> None then ret None a
          else
            (let s = ag_fresh a;
                 a1 = a\<lparr>ag_schedules := (ag_schedules a)(s \<mapsto> \<lparr>ps_timer = None, ps_reusableInvocation = None\<rparr>),
                        ag_fresh := Suc s\<rparr>;
                 ((r, m'), w) = create_timer en info s m (ag_world a1);
                 a2 = a1\<lparr>ag_timers := Some m', ag_world := w\<rparr> in
             case r of
               Inl err \<Rightarrow>
                 ret (Some err) (on_world (reportInvalidTask (en_env en) (ri_TaskId info) (ri_InvokeVersion info)
                   invalidParamCron (cron_error_value err)) a2)
             | Inr tm \<Rightarrow>
                 if ri_Repeat info = RunTaskCron then
                   (case map_option Schedule (tm_heap m' tm) of
                      Some (CronScheduled e location no_next) \<Rightarrow>
                        register_periodic en info s tm (map_option (zone_label (en_location_name en)) location)
                          (Some tm) a2
                    | _ \<Rightarrow> ret (Some unexpected_schedule) a2)
                 else register_periodic en info s tm None None a2))"

text \<open>
  The callback of a timer, in the three parts that other goroutines can come between: the test of
  the factory, \<open>AddTask\<close>, whose error is not looked at, and the send to the pool.
\<close>

definition startExclusive_contained :: "nat \<Rightarrow> ('e, 'l, 'p) agent \<Rightarrow> (('e, 'l, 'p) agent, bool) step_result" where
  "startExclusive_contained s a =
     (case Option.bind (ag_schedules a s) ps_reusableInvocation of None \<Rightarrow> crash NilDereference
      | Some p \<Rightarrow> ret (ContainsTaskByName (ag_factory a) (task_id a p)) a)"

definition startExclusive_adds :: "nat \<Rightarrow> ('e, 'l, 'p) agent \<Rightarrow> (('e, 'l, 'p) agent, unit) step_result" where
  "startExclusive_adds s a =
     (case Option.bind (ag_schedules a s) ps_reusableInvocation of None \<Rightarrow> crash NilDereference
      | Some p \<Rightarrow>
          (let (err, f) = AddTask (task_id a) p (ag_factory a) in
           ret () (a\<lparr>ag_factory := f,
             ag_dropped := (if err = None then ag_dropped a else ag_dropped a @ [task_id a p])\<rparr>)))"

definition startExclusive_sends :: "nat \<Rightarrow> ('e, 'l, 'p) agent \<Rightarrow> (('e, 'l, 'p) agent, unit) step_result" where
  "startExclusive_sends s a = ret () (a\<lparr>ag_pool := RunTask (RunScheduleJob s) (ag_pool a)\<rparr>)"

section \<open>Dispatching\<close>

definition start_non_periodic :: "('e, 'l, 'p) engine \<Rightarrow> RunTaskInfo \<Rightarrow> ('e, 'l, 'p) agent \<Rightarrow>
  (('e, 'l, 'p) agent, unit) step_result" where
  "start_non_periodic en info a =
     (let (p, a1) = new_task_at en info None None a;
          (err, f) = AddTask (task_id a1) p (ag_factory a1) in
      if err \<noteq> None then ret () a1
      else ret () (a1\<lparr>ag_factory := f, ag_pool := RunTask (RunTaskJob p) (ag_pool a1)\<rparr>))"

definition schedule_task :: "('e, 'l, 'p) engine \<Rightarrow> RunTaskInfo \<Rightarrow> ('e, 'l, 'p) agent \<Rightarrow>
  (('e, 'l, 'p) agent, unit) step_result" where
  "schedule_task en info a =
     (if non_periodic (ri_Repeat info) then start_non_periodic en info a
      else if periodic (ri_Repeat info) then and_then (schedulePeriodicTask en info a) (\<lambda>err. ret ())
      else ret () a)"

definition existing_task :: "('e, 'l, 'p) agent \<Rightarrow> string \<Rightarrow> address option" where
  "existing_task a name =
     (case GetTask (ag_factory a) name of Some p \<Rightarrow> Some p | None \<Rightarrow> getPeriodicTask a name)"

definition dispatchRunTask :: "('e, 'l, 'p) engine \<Rightarrow> RunTaskInfo \<Rightarrow> ('e, 'l, 'p) agent \<Rightarrow>
  (('e, 'l, 'p) agent, unit) step_result" where
  "dispatchRunTask en info a =
     (case existing_task a (ri_TaskId info) of
        None \<Rightarrow> schedule_task en info a
      | Some p \<Rightarrow>
          (case ag_tasks a p of None \<Rightarrow> crash NilDereference
           | Some existed \<Rightarrow>
               if ri_InvokeVersion (t_info existed) \<noteq> ri_InvokeVersion info \<and> periodic (ri_Repeat info) then
                 and_then (cancelPeriodicTask en (t_info existed) True a) (\<lambda>err. schedule_task en info)
               else ret () a))"

definition dispatchStopTask :: "('e, 'l, 'p) engine \<Rightarrow> RunTaskInfo \<Rightarrow> ('e, 'l, 'p) agent \<Rightarrow>
  (('e, 'l, 'p) agent, unit) step_result" where
  "dispatchStopTask en info a =
     (if non_periodic (ri_Repeat info) then
        (case GetTask (ag_factory a) (ri_TaskId info) of
           Some p \<Rightarrow> cancel_task en False p a
         | None \<Rightarrow> ret () (on_world (sendStoppedOutput (en_env en) (ri_TaskId info) (ri_InvokeVersion info)
             0 0 0 0 [] stopReasonKilled) a))
      else if periodic (ri_Repeat info) then and_then (cancelPeriodicTask en info False a) (\<lambda>err. ret ())
      else ret () a)"

definition dispatchTestTask :: "('e, 'l, 'p) engine \<Rightarrow> RunTaskInfo \<Rightarrow> ('e, 'l, 'p) agent \<Rightarrow>
  (('e, 'l, 'p) agent, unit) step_result" where
  "dispatchTestTask en info a =
     (if ContainsTaskByName (ag_factory a) (ri_TaskId info) then ret () a
      else if non_periodic (ri_Repeat info) \<or> periodic (ri_Repeat info) then
        (let (p, a1) = new_task_at en info None None a in
         ret () (a1\<lparr>ag_precheck := RunTask p (ag_precheck a1)\<rparr>))
      else ret () a)"

section \<open>Fetching\<close>

definition fetchTasks :: "('e, 'l, 'p) engine \<Rightarrow> FetchReason \<Rightarrow> string \<Rightarrow> int \<Rightarrow> bool \<Rightarrow> ('e, 'l, 'p) agent \<Rightarrow>
  (('e, 'l, 'p) agent, nat) step_result" where
  "fetchTasks en reason taskId taskType isColdstart a =
     (let (infos, w) = FetchTaskList (en_env en) (en_decode en) reason taskId taskType isColdstart (ag_world a);
          a1 = a\<lparr>ag_world := SendFiles (en_env en) (en_machine en) (sendFiles infos) w,
                 ag_sessions := ag_sessions a @ [sessionInfos infos]\<rparr> in
      and_then (run_all (dispatchRunTask en) (runInfos infos) a1) (\<lambda>u a2.
      and_then (run_all (dispatchStopTask en) (stopInfos infos) a2) (\<lambda>u a3.
      and_then (run_all (dispatchTestTask en) (testInfos infos) a3) (\<lambda>u a4.
        ret (length (runInfos infos) + length (stopInfos infos) + length (sessionInfos infos)
          + length (sendFiles infos)) a4))))"

definition EnableFetchingTask :: "('e, 'l, 'p) agent \<Rightarrow> ('e, 'l, 'p) agent" where
  "EnableFetchingTask a = a\<lparr>ag_enabled := True\<rparr>"

definition IsStartupFetched :: "('e, 'l, 'p) agent \<Rightarrow> bool" where
  "IsStartupFetched a = ag_startup a"

definition ErrUpdatingProcedureRunning :: int where "ErrUpdatingProcedureRunning = -7"

definition fetch_counted :: "int \<Rightarrow> ('e, 'l, 'p) agent \<Rightarrow> ('e, 'l, 'p) agent" where
  "fetch_counted d a = a\<lparr>ag_counter := ag_counter a + d\<rparr>"

text \<open>
  \<open>Fetch\<close>; \<open>locked\<close> is the result of \<open>TryLockWithTimeout\<close>. The first fetch of all tasks is the
  startup fetch. A kick that finds nothing is repeated once after three seconds.
\<close>

definition Fetch :: "('e, 'l, 'p) engine \<Rightarrow> bool \<Rightarrow> bool \<Rightarrow> string \<Rightarrow> int \<Rightarrow> ('e, 'l, 'p) agent \<Rightarrow>
  (('e, 'l, 'p) agent, int) step_result" where
  "Fetch en locked from_kick taskId taskType a =
     (if \<not> ag_enabled a then ret 0 a
      else if \<not> locked then ret ErrUpdatingProcedureRunning a
      else
        (let startup = (taskType = NormalTaskType \<and> taskId = [] \<and> \<not> ag_startup a);
             a1 = fetch_counted 1 a;
             a2 = (if taskType = NormalTaskType \<and> taskId = [] then a1\<lparr>ag_startup := True\<rparr> else a1) in
         and_then (fetchTasks en (if startup then FetchOnStartup else FetchOnKickoff) taskId taskType
             (startup \<and> en_coldstart en) a2) (\<lambda>n a3.
         and_then (if from_kick \<and> n = 0
                   then fetchTasks en FetchOnKickoff taskId taskType False (a3\<lparr>ag_world := go_sleep 3 (ag_world a3)\<rparr>)
                   else ret n a3) (\<lambda>n' a4. ret (int n') (fetch_counted (-1) a4)))))"

section \<open>The jobs of the pools\<close>

text \<open>The task a job runs, and the run with the removal of its name from the factory.\<close>

definition job_task :: "('e, 'l, 'p) agent \<Rightarrow> job \<Rightarrow> address option" where
  "job_task a j = (case j of RunTaskJob p \<Rightarrow> Some p
     | RunScheduleJob s \<Rightarrow> Option.bind (ag_schedules a s) ps_reusableInvocation)"

definition run_job :: "('e, 'l, 'p) engine \<Rightarrow> job \<Rightarrow> ('e, 'l, 'p) agent \<Rightarrow> (('e, 'l, 'p) agent, unit) step_result" where
  "run_job en j a =
     (case job_task a j of None \<Rightarrow> crash NilDereference
      | Some p \<Rightarrow>
          (case ag_tasks a p of None \<Rightarrow> crash NilDereference
           | Some t \<Rightarrow>
               (case Run (en_env en) (en_ops en) (en_config en) (no_next_run a p) t (ag_world a) of
                  None \<Rightarrow> None
                | Some (Panics q) \<Rightarrow> crash q
                | Some (Returns ((code, err), t', w)) \<Rightarrow>
                    if code \<noteq> 0 \<and> err = None then crash NilDereference
                    else
                      (let a' = set_task p (t', w) a in
                       ret () (a'\<lparr>ag_factory := RemoveTaskByName (task_id a' p) (ag_factory a')\<rparr>)))))"

definition precheck_job :: "('e, 'l, 'p) engine \<Rightarrow> address \<Rightarrow> ('e, 'l, 'p) agent \<Rightarrow> (('e, 'l, 'p) agent, unit) step_result" where
  "precheck_job en p a =
     (case ag_tasks a p of None \<Rightarrow> crash NilDereference
      | Some t \<Rightarrow>
          (case PreCheck (en_env en) (en_ops en) True t (ag_world a) of
             Panics q \<Rightarrow> crash q
           | Returns (err, t', w) \<Rightarrow> ret () (set_task p (t', w) a)))"

end
