(* ===== verification/Engine.thy ===== *)
theory Engine
  imports Scheduler
begin

text \<open>
  The task engine as a state machine: the handlers of \<open>scheduletask.go\<close>, the timers with their
  callbacks and the goroutines of the pools as one step relation, and the invariant that ties the
  task factory to the pool and the periodic schedules to the timer manager.
\<close>

section \<open>The step relation\<close>

definition calling :: "('e, 'l, 'c) timer \<Rightarrow> nat" where
  "calling t = length (filter (\<lambda>r. r = Calling) (runners t))"

text \<open>
  A step of the timer \<open>tm\<close> that is neither a request to it nor a return from its callback; the
  callback is the step \<open>skips\<close>, when the name is in the factory, or the steps \<open>passes\<close>, \<open>adds\<close> and
  \<open>sends\<close>, with the steps of others between them. Tasks run and are pre-checked by the goroutines of the pools.
\<close>

inductive engine_step :: "('e, 'l, 'p) engine \<Rightarrow> ('e, 'l, 'p) agent \<Rightarrow> ('e, 'l, 'p) agent \<Rightarrow> bool"
  for en :: "('e, 'l, 'p) engine" where
  runs: "dispatchRunTask en info a = Some (Returns (u, a')) \<Longrightarrow> engine_step en a a'"
| stops: "dispatchStopTask en info a = Some (Returns (u, a')) \<Longrightarrow> engine_step en a a'"
| tests: "dispatchTestTask en info a = Some (Returns (u, a')) \<Longrightarrow> engine_step en a a'"
| timer: "ag_timers a = Some m \<Longrightarrow> tm_heap m tm = Some t \<Longrightarrow> timer_step (en_lib en) t t' \<Longrightarrow>
    quit t' \<le> quit t \<Longrightarrow> calling t \<le> calling t' \<Longrightarrow>
    engine_step en a (a\<lparr>ag_timers := Some (m\<lparr>tm_heap := (tm_heap m)(tm \<mapsto> t')\<rparr>)\<rparr>)"
| skips: "ag_timers a = Some m \<Longrightarrow> tm_heap m tm = Some t \<Longrightarrow> i < length (runners t) \<Longrightarrow> runners t ! i = Calling \<Longrightarrow>
    (tm, i) \<notin> set (ag_checked a) \<Longrightarrow> (tm, i) \<notin> fst ` set (ag_added a) \<Longrightarrow>
    startExclusive_contained (callback t) a = Some (Returns (True, a')) \<Longrightarrow>
    engine_step en a (a'\<lparr>ag_timers := Some (m\<lparr>tm_heap := (tm_heap m)(tm \<mapsto> runner_step i t)\<rparr>)\<rparr>)"
| passes: "ag_timers a = Some m \<Longrightarrow> tm_heap m tm = Some t \<Longrightarrow> i < length (runners t) \<Longrightarrow> runners t ! i = Calling \<Longrightarrow>
    (tm, i) \<notin> set (ag_checked a) \<Longrightarrow> (tm, i) \<notin> fst ` set (ag_added a) \<Longrightarrow>
    startExclusive_contained (callback t) a = Some (Returns (False, a')) \<Longrightarrow>
    engine_step en a (a'\<lparr>ag_checked := (tm, i) # ag_checked a'\<rparr>)"
| adds: "(tm, i) \<in> set (ag_checked a) \<Longrightarrow> ag_timers a = Some m \<Longrightarrow> tm_heap m tm = Some t \<Longrightarrow>
    startExclusive_adds (callback t) a = Some (Returns (u, a')) \<Longrightarrow>
    engine_step en a (a'\<lparr>ag_checked := remove1 (tm, i) (ag_checked a'), ag_added := ((tm, i), callback t) # ag_added a'\<rparr>)"
| sends: "((tm, i), s) \<in> set (ag_added a) \<Longrightarrow> ag_timers a = Some m \<Longrightarrow> tm_heap m tm = Some t \<Longrightarrow>
    startExclusive_sends s a = Some (Returns (u, a')) \<Longrightarrow>
    engine_step en a (a'\<lparr>ag_added := remove1 ((tm, i), s) (ag_added a'),
      ag_timers := Some (m\<lparr>tm_heap := (tm_heap m)(tm \<mapsto> runner_step i t)\<rparr>)\<rparr>)"
| receives: "i < length (slaves (ag_pool a)) \<Longrightarrow> slaves (ag_pool a) ! i = None \<Longrightarrow> taskQueue (ag_pool a) \<noteq> [] \<Longrightarrow>
    engine_step en a (a\<lparr>ag_pool := slave_receive i (ag_pool a)\<rparr>)"
| finishes: "i < length (slaves (ag_pool a)) \<Longrightarrow> slaves (ag_pool a) ! i = Some j \<Longrightarrow>
    run_job en j a = Some (Returns (u, a')) \<Longrightarrow>
    engine_step en a (a'\<lparr>ag_pool := slave_return i (ag_pool a')\<rparr>)"
| prechecks: "precheck_job en p a = Some (Returns (u, a')) \<Longrightarrow> engine_step en a a'"
| outside: "engine_step en a (a\<lparr>ag_world := w, ag_precheck := q, ag_sessions := ss, ag_counter := n, ag_startup := b\<rparr>)"

inductive_cases engine_stepE: "engine_step en a a'"

text \<open>The state after the timer manager was initialized and fetching enabled.\<close>

definition initial_agent :: "('e, 'l, 'p) agent" where
  "initial_agent =
     \<lparr>ag_world = \<lparr>ticks = 0, trace = []\<rparr>, ag_tasks = (\<lambda>p. None), ag_schedules = (\<lambda>s. None), ag_fresh = 0,
      ag_finish = (\<lambda>p. None), ag_factory = GetTaskFactory None, ag_periodic = (\<lambda>k. None),
      ag_timers = InitTimerManager None, ag_pool = newTaskPool, ag_precheck = newTaskPool, ag_sessions = [],
      ag_enabled = True, ag_counter = 0, ag_startup = False, ag_checked = [], ag_added = [], ag_dropped = []\<rparr>"

inductive engine_reachable :: "('e, 'l, 'p) engine \<Rightarrow> ('e, 'l, 'p) agent \<Rightarrow> bool"
  for en :: "('e, 'l, 'p) engine" where
  init: "engine_reachable en initial_agent"
| step: "engine_reachable en a \<Longrightarrow> engine_step en a a' \<Longrightarrow> engine_reachable en a'"

section \<open>The invariant\<close>

definition task_name :: "('e, 'l, 'p) agent \<Rightarrow> address \<Rightarrow> string option" where
  "task_name a p = map_option (\<lambda>t. ri_TaskId (t_info t)) (ag_tasks a p)"

text \<open>The schedule object \<open>s\<close> is bound to the timer \<open>tm\<close> and to an invocation of the task \<open>k\<close>.\<close>

definition bound_to :: "('e, 'l, 'p) agent \<Rightarrow> nat \<Rightarrow> nat \<Rightarrow> string \<Rightarrow> bool" where
  "bound_to a s tm k \<longleftrightarrow>
     (\<exists>p. ag_schedules a s = Some \<lparr>ps_timer = Some tm, ps_reusableInvocation = Some p\<rparr> \<and> task_name a p = Some k)"

definition timers_ok :: "('e, 'l, 'p) agent \<Rightarrow> ('e, 'l, nat) timer_manager \<Rightarrow> bool" where
  "timers_ok a m \<longleftrightarrow> tm_ok m
     \<and> (\<forall>k s. ag_periodic a k = Some s \<longrightarrow>
          (\<exists>tm t. tm \<in> set (tm_timers m) \<and> tm_heap m tm = Some t \<and> callback t = s \<and> bound_to a s tm k))
     \<and> (\<forall>tm \<in> set (tm_timers m). \<exists>t k. tm_heap m tm = Some t \<and> \<not> quit t \<and> ag_periodic a k = Some (callback t))
     \<and> (\<forall>tm t. tm_heap m tm = Some t \<longrightarrow> (\<exists>k. bound_to a (callback t) tm k))"

definition pool_jobs :: "'f pool \<Rightarrow> 'f list" where
  "pool_jobs p = taskQueue p @ blocked p @ running p"

definition job_name :: "('e, 'l, 'p) agent \<Rightarrow> job \<Rightarrow> string" where
  "job_name a j = (case job_task a j of None \<Rightarrow> [] | Some p \<Rightarrow> task_id a p)"

text \<open>The invocations that are pending, running or about to be sent to the pool.\<close>

definition invocations :: "('e, 'l, 'p) agent \<Rightarrow> job list" where
  "invocations a = pool_jobs (ag_pool a) @ map (\<lambda>x. RunScheduleJob (snd x)) (ag_added a)"

definition jobs_ok :: "('e, 'l, 'p) agent \<Rightarrow> bool" where
  "jobs_ok a \<longleftrightarrow> (\<forall>j \<in> set (invocations a). \<exists>p k. job_task a j = Some p \<and> task_name a p = Some k)
     \<and> (\<forall>k. GetTask (ag_factory a) k \<noteq> None \<longrightarrow> k \<in> job_name a ` set (invocations a))
     \<and> (\<forall>k. k \<notin> set (ag_dropped a) \<longrightarrow>
          count (image_mset (job_name a) (mset (invocations a))) k = (if GetTask (ag_factory a) k = None then 0 else 1))"

definition fresh_ok :: "('e, 'l, 'p) agent \<Rightarrow> bool" where
  "fresh_ok a \<longleftrightarrow> (\<forall>p \<ge> ag_fresh a. ag_tasks a p = None \<and> ag_schedules a p = None)"

definition agent_ok :: "('e, 'l, 'p) agent \<Rightarrow> bool" where
  "agent_ok a \<longleftrightarrow> tf_ok (ag_factory a) \<and> fresh_ok a \<and> jobs_ok a
     \<and> (\<exists>m. ag_timers a = Some m \<and> timers_ok a m)"

lemma agent_ok_timers: "agent_ok a \<Longrightarrow> ag_timers a = Some m \<Longrightarrow> timers_ok a m"
  by (simp add: agent_ok_def)

text \<open>The invariant looks at names, not at the tasks.\<close>

lemma task_id_name: "task_name a p = Some k \<Longrightarrow> task_id a p = k"
  by (auto simp: task_name_def task_id_def)

lemma task_id_cong: "task_name a p = task_name b p \<Longrightarrow> task_id a p = task_id b p"
  by (auto simp: task_name_def task_id_def split: option.splits)

text \<open>Names, jobs and bindings do not depend on the other fields.\<close>

lemma task_name_frame [simp]:
  "task_name (a\<lparr>ag_world := w\<rparr>) = task_name a"
  "task_name (a\<lparr>ag_factory := f\<rparr>) = task_name a"
  "task_name (a\<lparr>ag_pool := q\<rparr>) = task_name a"
  "task_name (a\<lparr>ag_periodic := m\<rparr>) = task_name a"
  "task_name (a\<lparr>ag_timers := t\<rparr>) = task_name a" by (simp_all add: fun_eq_iff task_name_def)

lemma task_id_frame [simp]:
  "task_id (a\<lparr>ag_world := w\<rparr>) = task_id a"
  "task_id (a\<lparr>ag_factory := f\<rparr>) = task_id a"
  "task_id (a\<lparr>ag_pool := q\<rparr>) = task_id a"
  "task_id (a\<lparr>ag_periodic := m\<rparr>) = task_id a"
  "task_id (a\<lparr>ag_timers := t\<rparr>) = task_id a" by (simp_all add: fun_eq_iff task_id_def)

lemma job_task_frame [simp]:
  "job_task (a\<lparr>ag_world := w\<rparr>) = job_task a"
  "job_task (a\<lparr>ag_factory := f\<rparr>) = job_task a"
  "job_task (a\<lparr>ag_pool := q\<rparr>) = job_task a"
  "job_task (a\<lparr>ag_periodic := m\<rparr>) = job_task a"
  "job_task (a\<lparr>ag_timers := t\<rparr>) = job_task a" by (simp_all add: fun_eq_iff job_task_def split: job.split)

lemma job_name_frame [simp]:
  "job_name (a\<lparr>ag_world := w\<rparr>) = job_name a"
  "job_name (a\<lparr>ag_factory := f\<rparr>) = job_name a"
  "job_name (a\<lparr>ag_pool := q\<rparr>) = job_name a"
  "job_name (a\<lparr>ag_periodic := m\<rparr>) = job_name a"
  "job_name (a\<lparr>ag_timers := t\<rparr>) = job_name a" by (simp_all add: fun_eq_iff job_name_def split: option.split)

lemma bound_to_frame [simp]:
  "bound_to (a\<lparr>ag_world := w\<rparr>) = bound_to a"
  "bound_to (a\<lparr>ag_factory := f\<rparr>) = bound_to a"
  "bound_to (a\<lparr>ag_pool := q\<rparr>) = bound_to a"
  "bound_to (a\<lparr>ag_periodic := m\<rparr>) = bound_to a"
  "bound_to (a\<lparr>ag_timers := t\<rparr>) = bound_to a" by (simp_all add: fun_eq_iff bound_to_def)

lemma invocations_frame [simp]:
  "invocations (a\<lparr>ag_world := w\<rparr>) = invocations a" "invocations (a\<lparr>ag_factory := f\<rparr>) = invocations a"
  "invocations (a\<lparr>ag_periodic := m\<rparr>) = invocations a" "invocations (a\<lparr>ag_timers := t\<rparr>) = invocations a"
  "invocations (a\<lparr>ag_tasks := ts\<rparr>) = invocations a" "invocations (a\<lparr>ag_schedules := ss\<rparr>) = invocations a"
  "invocations (a\<lparr>ag_fresh := n\<rparr>) = invocations a" "invocations (a\<lparr>ag_precheck := q\<rparr>) = invocations a"
  "invocations (a\<lparr>ag_checked := cs\<rparr>) = invocations a"
  by (simp_all add: invocations_def)

lemma invocations_same: "ag_pool b = ag_pool a \<Longrightarrow> ag_added b = ag_added a \<Longrightarrow> invocations b = invocations a"
  by (simp add: invocations_def)

lemma jobs_mset:
  "jobs_ok a \<longleftrightarrow> (\<forall>j \<in># mset (invocations a). \<exists>p k. job_task a j = Some p \<and> task_name a p = Some k)
     \<and> (\<forall>k. GetTask (ag_factory a) k \<noteq> None \<longrightarrow> k \<in># image_mset (job_name a) (mset (invocations a)))
     \<and> (\<forall>k. k \<notin> set (ag_dropped a) \<longrightarrow>
          count (image_mset (job_name a) (mset (invocations a))) k = (if GetTask (ag_factory a) k = None then 0 else 1))"
  by (simp add: jobs_ok_def)

lemma bound_to_mono:
  assumes "bound_to a s tm k" "\<And>p k. task_name a p = Some k \<Longrightarrow> task_name b p = Some k"
    "\<And>s tm p. ag_schedules a s = Some \<lparr>ps_timer = tm, ps_reusableInvocation = Some p\<rparr> \<Longrightarrow>
      ag_schedules b s = Some \<lparr>ps_timer = tm, ps_reusableInvocation = Some p\<rparr>"
  shows "bound_to b s tm k"
  using assms by (force simp: bound_to_def)

lemma job_task_mono:
  assumes "job_task a j = Some p"
    "\<And>s tm p. ag_schedules a s = Some \<lparr>ps_timer = tm, ps_reusableInvocation = Some p\<rparr> \<Longrightarrow>
      ag_schedules b s = Some \<lparr>ps_timer = tm, ps_reusableInvocation = Some p\<rparr>"
  shows "job_task b j = Some p"
proof (cases j)
  case (RunScheduleJob s)
  then obtain ps where "ag_schedules a s = Some ps" "ps_reusableInvocation ps = Some p"
    using assms(1) by (auto simp: job_task_def bind_eq_Some_conv)
  then show ?thesis using assms(2) [of s "ps_timer ps" p] RunScheduleJob by (simp add: job_task_def)
qed (use assms(1) in \<open>simp add: job_task_def\<close>)

text \<open>More tasks and more bound schedule objects do not disturb the invariant.\<close>

lemma agent_ok_extend:
  assumes ok: "agent_ok a"
    and names: "\<And>p k. task_name a p = Some k \<Longrightarrow> task_name b p = Some k"
    and scheds: "\<And>s tm p. ag_schedules a s = Some \<lparr>ps_timer = tm, ps_reusableInvocation = Some p\<rparr> \<Longrightarrow>
      ag_schedules b s = Some \<lparr>ps_timer = tm, ps_reusableInvocation = Some p\<rparr>"
    and fresh: "fresh_ok b" and timers: "ag_timers b = Some m" "timers_ok b m"
    and same: "ag_factory b = ag_factory a" "mset (invocations b) = mset (invocations a)" "ag_dropped b = ag_dropped a"
  shows "agent_ok b"
proof -
  have jt: "job_task b j = Some p" if "job_task a j = Some p" for j p
    using job_task_mono [OF that scheds] by blast
  have j: "jobs_ok a" using ok by (simp add: agent_ok_def)
  have "job_name b j = job_name a j" if "j \<in># mset (invocations a)" for j
    using j that names jt unfolding jobs_mset by (fastforce simp: job_name_def task_id_name)
  then have "image_mset (job_name b) (mset (invocations a)) = image_mset (job_name a) (mset (invocations a))"
    by (rule image_mset_cong)
  with j names jt have "jobs_ok b" unfolding jobs_mset same by (metis (no_types, lifting))
  then show ?thesis using ok fresh timers same by (simp add: agent_ok_def)
qed

lemma agent_ok_mono:
  assumes ok: "agent_ok a"
    and names: "\<And>p k. task_name a p = Some k \<Longrightarrow> task_name b p = Some k"
    and scheds: "\<And>s tm p. ag_schedules a s = Some \<lparr>ps_timer = tm, ps_reusableInvocation = Some p\<rparr> \<Longrightarrow>
      ag_schedules b s = Some \<lparr>ps_timer = tm, ps_reusableInvocation = Some p\<rparr>"
    and fresh: "fresh_ok b"
    and same: "ag_factory b = ag_factory a" "ag_periodic b = ag_periodic a" "ag_timers b = ag_timers a"
      "mset (invocations b) = mset (invocations a)" "ag_dropped b = ag_dropped a"
  shows "agent_ok b"
proof -
  obtain m where m: "ag_timers a = Some m" "timers_ok a m" using ok by (auto simp: agent_ok_def)
  have bt: "bound_to a s tm k \<Longrightarrow> bound_to b s tm k" for s tm k
    using bound_to_mono [OF _ names scheds] by blast
  have "timers_ok b m" using m(2) bt unfolding timers_ok_def same by meson
  with m same show ?thesis by (intro agent_ok_extend [OF ok names scheds fresh, of m]) simp_all
qed

lemma agent_ok_cong:
  assumes "agent_ok a" "\<And>p. task_name b p = task_name a p" "ag_schedules b = ag_schedules a"
    "ag_fresh b = ag_fresh a" "ag_factory b = ag_factory a" "ag_periodic b = ag_periodic a"
    "ag_timers b = ag_timers a" "mset (invocations b) = mset (invocations a)" "ag_dropped b = ag_dropped a"
  shows "agent_ok b"
proof -
  have t: "ag_tasks b p = None \<longleftrightarrow> ag_tasks a p = None" for p
    using assms(2) [of p] by (auto simp: task_name_def)
  have "fresh_ok b" using assms(1) by (simp add: agent_ok_def fresh_ok_def assms(3,4) t)
  with assms show ?thesis by (intro agent_ok_mono [OF assms(1), of b]) simp_all
qed

lemma agent_ok_outside [simp]:
  "agent_ok (a\<lparr>ag_world := w\<rparr>) = agent_ok a"
  by (rule iffI; erule agent_ok_cong; simp add: task_name_def)

lemma agent_ok_set_task:
  assumes "agent_ok a" "ag_tasks a p = Some t" "ri_TaskId (t_info (fst tw)) = ri_TaskId (t_info t)"
  shows "agent_ok (set_task p tw a)"
  by (rule agent_ok_cong [OF assms(1)]) (simp_all add: set_task_def task_name_def assms(2,3))

section \<open>Calls keep the name of a task\<close>

lemma getReportString_info: "getReportString out t = Returns (r, t') \<Longrightarrow> t_info t' = t_info t"
  by (auto simp: getReportString_def Let_def split: if_splits)

lemma Cancel_info: "Cancel env ops nn q t w = Returns (t', w') \<Longrightarrow> t_info t' = t_info t"
  by (auto simp: Cancel_def Let_def split: if_splits prod.splits dest: getReportString_info)

lemma PreCheck_info: "PreCheck env ops b t w = Returns (e, t', w') \<Longrightarrow> t_info t' = t_info t"
  by (auto simp: PreCheck_def Let_def split: if_splits prod.splits sum.splits option.splits)

lemma run_content_info:
  assumes "run_content env ops cfg t w = Some (Returns (r, t', w'))"
  shows "ri_TaskId (t_info t') = ri_TaskId (t_info t)"
proof -
  have "ri_TaskId (t_info t2) = ri_TaskId (t_info t1)"
    if "resolve_content env ops cfg c t1 w1 = Some (s, t2, w2)" for c t1 w1 s t2 w2
    using that
    by (auto simp: resolve_content_def Let_def split: if_splits prod.splits sum.splits option.splits)
  then show ?thesis using assms
    by (auto simp: run_content_def split: outcome.splits prod.splits option.splits sum.splits
        dest!: PreCheck_info)
qed

lemma run_prepare_info: "run_prepare env ops c t w = (r, t', w') \<Longrightarrow> t_info t' = t_info t"
  by (auto simp: run_prepare_def Let_def split: if_splits prod.splits option.splits)

lemma running_tick_info: "t_info (rs_task (fst (running_tick env ops s w))) = t_info (rs_task s)"
  by (simp add: running_tick_def Let_def split_beta)

lemma run_event_info:
  assumes "run_event_step env ops nn e (s, w) = Returns (s', w')"
  shows "t_info (rs_task s') = t_info (rs_task s)"
proof (cases e)
  case Ticked
  then show ?thesis using assms running_tick_info [of env ops s w]
    by (auto simp: run_event_step_def split: if_splits)
qed (use assms in \<open>auto simp: run_event_step_def dest: Cancel_info\<close>)

lemma run_events_info:
  "run_events_steps env ops nn es (s, w) = Returns (s', w') \<Longrightarrow> t_info (rs_task s') = t_info (rs_task s)"
proof (induction es arbitrary: s w)
  case (Cons e es)
  then obtain s1 w1 where "run_event_step env ops nn e (s, w) = Returns (s1, w1)"
    "run_events_steps env ops nn es (s1, w1) = Returns (s', w')" by auto
  with Cons.IH run_event_info show ?case by metis
qed simp

lemma final_report_info:
  "final_report env ops nn st err t w = Returns (t', w') \<Longrightarrow> t_info t' = t_info t"
  by (auto simp: final_report_def split: proc_status.splits if_splits dest: getReportString_info)

lemma run_process_info:
  assumes "run_process env ops nn d t w = Returns (t', w')"
  shows "t_info t' = t_info t"
  using assms unfolding run_process_def Let_def
  by (auto simp: split_beta dest!: run_events_info final_report_info)

lemma Run_info:
  assumes "Run env ops cfg nn t w = Some (Returns (r, t', w'))"
  shows "ri_TaskId (t_info t') = ri_TaskId (t_info t)"
  using assms
  by (auto simp: Run_def split: option.splits outcome.splits prod.splits run_stage.splits
      dest!: run_content_info run_prepare_info run_process_info)

section \<open>The pieces of the handlers keep the invariant\<close>

lemma fresh_none: "fresh_ok a \<Longrightarrow> ag_fresh a \<le> p \<Longrightarrow> ag_tasks a p = None \<and> ag_schedules a p = None"
  by (simp add: fresh_ok_def)

lemma NewTask_info [simp]: "t_info (NewTask c h info l f) = info"
  by (simp add: NewTask_def Let_def split: prod.split)

lemma new_task_at_shape:
  assumes "new_task_at en info l f a = (p, a')"
  shows "p = ag_fresh a" "ag_fresh a' = Suc p" "task_name a' = (task_name a)(p \<mapsto> ri_TaskId info)"
    "ag_schedules a' = ag_schedules a" "ag_factory a' = ag_factory a" "ag_periodic a' = ag_periodic a"
    "ag_timers a' = ag_timers a" "ag_pool a' = ag_pool a" "ag_world a' = ag_world a"
    "ag_added a' = ag_added a" "ag_dropped a' = ag_dropped a"
    "\<forall>q. q \<noteq> p \<longrightarrow> ag_tasks a' q = ag_tasks a q"
  using assms by (auto simp: new_task_at_def Let_def task_name_def fun_eq_iff)

lemma agent_ok_new_task:
  assumes "agent_ok a" "new_task_at en info l f a = (p, a')"
  shows "agent_ok a'" "task_name a' p = Some (ri_TaskId info)"
proof -
  note s = new_task_at_shape [OF assms(2)]
  have fr: "fresh_ok a" using assms(1) by (simp add: agent_ok_def)
  have n: "task_name a p = None" using fresh_none [OF fr] s(1) by (simp add: task_name_def)
  have "fresh_ok a'" using fr s unfolding fresh_ok_def by (metis Suc_leD Suc_n_not_le_n)
  then show "agent_ok a'"
    by (intro agent_ok_mono [OF assms(1), of a']) (use s n invocations_same [of a' a] in auto)
  show "task_name a' p = Some (ri_TaskId info)" using s(3) by simp
qed

lemma mset_jobs_RunTask [simp]: "mset (pool_jobs (RunTask f p)) = add_mset f (mset (pool_jobs p))"
  by (simp add: pool_jobs_def RunTask_def Let_def running_def)

text \<open>One more invocation: its name joins the factory, or was there and the error was dropped.\<close>

lemma jobs_ok_add:
  assumes jo: "jobs_ok a" and j: "job_task a j = Some p" "task_name a p = Some k"
    and same: "job_task b = job_task a" "task_name b = task_name a" "job_name b = job_name a"
    and inv: "mset (invocations b) = add_mset j (mset (invocations a))"
    and f: "GetTask (ag_factory a) k = None \<and> GetTask (ag_factory b) = (GetTask (ag_factory a))(k \<mapsto> q) \<and> ag_dropped b = ag_dropped a
      \<or> GetTask (ag_factory a) k \<noteq> None \<and> ag_factory b = ag_factory a \<and> ag_dropped b = ag_dropped a @ [k]"
  shows "jobs_ok b"
proof -
  have n: "job_name a j = k" using task_id_name [OF j(2)] by (simp add: job_name_def j(1))
  from f show ?thesis
  proof
    assume "GetTask (ag_factory a) k = None \<and> GetTask (ag_factory b) = (GetTask (ag_factory a))(k \<mapsto> q) \<and> ag_dropped b = ag_dropped a"
    then show ?thesis using jo j n unfolding jobs_mset inv same by auto
  next
    assume "GetTask (ag_factory a) k \<noteq> None \<and> ag_factory b = ag_factory a \<and> ag_dropped b = ag_dropped a @ [k]"
    then show ?thesis using jo j n unfolding jobs_mset inv same by auto
  qed
qed

lemma agent_ok_add_job:
  assumes ok: "agent_ok a" and j: "job_task a j = Some p" "task_name a p = Some k"
    and new: "GetTask (ag_factory a) k = None"
  shows "agent_ok (a\<lparr>ag_factory := snd (AddTask (task_id a) p (ag_factory a)), ag_pool := RunTask j (ag_pool a)\<rparr>)"
    (is "agent_ok ?b")
proof -
  have tf: "tf_ok (ag_factory a)" and jo: "jobs_ok a" and fr: "fresh_ok a" using ok by (simp_all add: agent_ok_def)
  have id: "task_id a p = k" using task_id_name [OF j(2)] .
  have f: "ag_factory ?b = snd (AddNamedTask k p (ag_factory a))" by (simp add: AddTask_def id)
  have g: "GetTask (ag_factory ?b) = (GetTask (ag_factory a))(k \<mapsto> p)"
    unfolding f by (rule tasks.lookup_insert [OF tf new])
  have tf': "tf_ok (ag_factory ?b)" unfolding f by (rule tasks.inv_insert [OF tf new])
  have "jobs_ok ?b"
    by (rule jobs_ok_add [OF jo j, where q = p]) (use g new in \<open>auto simp: invocations_def\<close>)
  moreover have "timers_ok ?b m \<longleftrightarrow> timers_ok a m" for m by (simp add: timers_ok_def)
  moreover have "fresh_ok ?b" using fr by (simp add: fresh_ok_def)
  ultimately show ?thesis using ok tf' by (simp add: agent_ok_def)
qed

lemma mset_jobs_return:
  assumes "i < length (slaves p)" "slaves p ! i = Some j"
  shows "mset (pool_jobs p) = add_mset j (mset (pool_jobs (slave_return i p)))"
  using mset_running_clear [OF assms]
  by (simp add: pool_jobs_def slave_return_def running_def assms(2))

lemma mset_jobs_receive:
  assumes "i < length (slaves p)" "slaves p ! i = None" "taskQueue p \<noteq> []"
  shows "mset (pool_jobs (slave_receive i p)) = mset (pool_jobs p)"
proof -
  obtain f q where q: "taskQueue p = f # q" using assms(3) by (cases "taskQueue p") auto
  have "mset (running (slave_receive i p)) = add_mset f (mset (running p))"
    using mset_running_set [OF assms(1,2)] by (simp add: running_def slave_receive_def q)
  moreover have "mset (take 1 (blocked p)) + mset (drop 1 (blocked p)) = mset (blocked p)"
    by (metis append_take_drop_id mset_append)
  ultimately show ?thesis by (simp add: pool_jobs_def slave_receive_def q)
qed

text \<open>An invocation that ends takes its name out of the factory, whoever entered it there.\<close>

lemma agent_ok_finish_job:
  assumes ok: "agent_ok a" and i: "i < length (slaves (ag_pool a))" "slaves (ag_pool a) ! i = Some j"
    and j: "job_task a j = Some p" "task_name a p = Some k"
  shows "agent_ok (a\<lparr>ag_factory := RemoveTaskByName k (ag_factory a), ag_pool := slave_return i (ag_pool a)\<rparr>)"
    (is "agent_ok ?b")
proof -
  have tf: "tf_ok (ag_factory a)" and jo: "jobs_ok a" and fr: "fresh_ok a" using ok by (simp_all add: agent_ok_def)
  have pj: "mset (invocations a) = add_mset j (mset (invocations ?b))"
    using mset_jobs_return [OF i] by (simp add: invocations_def)
  have n: "job_name a j = k" using task_id_name [OF j(2)] by (simp add: job_name_def j(1))
  have g: "GetTask (ag_factory ?b) = (GetTask (ag_factory a))(k := None)"
    using tasks.lookup_remove [OF tf] by simp
  have same: "job_name ?b = job_name a" "job_task ?b = job_task a" "task_name ?b = task_name a" "ag_dropped ?b = ag_dropped a"
    by simp_all
  note inv = jo [unfolded jobs_mset pj, simplified n image_mset_add_mset]
  have "jobs_ok ?b"
    unfolding jobs_mset same
  proof (intro conjI allI ballI impI)
    fix j' assume "j' \<in># mset (invocations ?b)"
    then show "\<exists>p k. job_task a j' = Some p \<and> task_name a p = Some k" using conjunct1 [OF inv] by simp
  next
    fix k' assume k': "GetTask (ag_factory ?b) k' \<noteq> None"
    then have "k' \<noteq> k" "GetTask (ag_factory a) k' \<noteq> None" unfolding g by (auto split: if_splits)
    then show "k' \<in># image_mset (job_name a) (mset (invocations ?b))"
      using conjunct1 [OF conjunct2 [OF inv]] n by (metis insert_iff set_mset_add_mset_insert)
  next
    fix k' assume k': "k' \<notin> set (ag_dropped a)"
    then have "count (add_mset k (image_mset (job_name a) (mset (invocations ?b)))) k'
        = (if GetTask (ag_factory a) k' = None then 0 else 1)"
      using conjunct2 [OF conjunct2 [OF inv]] n by metis
    then show "count (image_mset (job_name a) (mset (invocations ?b))) k' = (if GetTask (ag_factory ?b) k' = None then 0 else 1)"
      unfolding g by (cases "k' = k") (simp_all split: if_splits)
  qed
  moreover have "timers_ok ?b m \<longleftrightarrow> timers_ok a m" for m by (simp add: timers_ok_def)
  moreover have "fresh_ok ?b" using fr by (simp add: fresh_ok_def)
  moreover have "tf_ok (ag_factory ?b)" using tasks.inv_remove [OF tf] by simp
  ultimately show ?thesis using ok by (simp add: agent_ok_def)
qed

lemma timers_ok_heap:
  assumes "timers_ok a m" "tm_heap m tm = Some t" "callback t' = callback t" "quit t' \<le> quit t"
  shows "timers_ok a (m\<lparr>tm_heap := (tm_heap m)(tm \<mapsto> t')\<rparr>)"
proof -
  have "tm_ok (m\<lparr>tm_heap := (tm_heap m)(tm \<mapsto> t')\<rparr>)"
    using assms(1,2) by (auto simp: timers_ok_def tm_ok_def)
  with assms show ?thesis unfolding timers_ok_def by (auto split: if_splits) (metis option.inject)+
qed

lemma timer_step_callback: "timer_step lib t t' \<Longrightarrow> callback t' = callback t"
  by (erule timer_stepE)
    (auto simp: on_refresh_def on_skip_def on_quit_def on_expiry_def spawn_runner_def RefreshTimer_def
      SkipWaiting_def StopTimer_def runner_step_def split: if_splits runner.splits)

lemma DeleteTimer_running:
  "tm_heap m tm = Some t \<Longrightarrow> \<not> quit t \<Longrightarrow>
    DeleteTimer tm m = Some (m\<lparr>tm_heap := (tm_heap m)(tm \<mapsto> t\<lparr>quit := True\<rparr>), tm_timers := removeAll tm (tm_timers m)\<rparr>)"
  by (simp add: DeleteTimer_def stop_at_def StopTimer_def)

lemma bound_to_unique: "bound_to a s tm k \<Longrightarrow> bound_to a s tm' k' \<Longrightarrow> tm' = tm \<and> k' = k"
  by (auto simp: bound_to_def)

lemma periodic_bound:
  assumes "timers_ok a m" "ag_periodic a k = Some s"
  obtains tm t where "tm \<in> set (tm_timers m)" "tm_heap m tm = Some t" "callback t = s" "\<not> quit t" "bound_to a s tm k"
proof -
  obtain tm t where t: "tm \<in> set (tm_timers m)" "tm_heap m tm = Some t" "callback t = s" "bound_to a s tm k"
    using assms unfolding timers_ok_def by meson
  moreover have "\<not> quit t" using t(1,2) assms(1) unfolding timers_ok_def by force
  ultimately show ?thesis using that by blast
qed

lemma heap_bound: "timers_ok a m \<Longrightarrow> tm_heap m tm = Some t \<Longrightarrow> \<exists>k. bound_to a (callback t) tm k"
  unfolding timers_ok_def by blast

text \<open>A registered schedule can be deregistered without waiting, and its timer is told to stop.\<close>

lemma deregister_ok:
  assumes ok: "agent_ok a" "ag_timers a = Some m" and s: "ag_periodic a k = Some s"
  obtains tm t m' where "bound_to a s tm k" "tm \<in> set (tm_timers m)" "tm_heap m tm = Some t" "DeleteTimer tm m = Some m'"
    "m' = m\<lparr>tm_heap := (tm_heap m)(tm \<mapsto> t\<lparr>quit := True\<rparr>), tm_timers := removeAll tm (tm_timers m)\<rparr>"
    "agent_ok (a\<lparr>ag_timers := Some m', ag_periodic := (ag_periodic a)(k := None)\<rparr>)"
proof -
  have tok: "timers_ok a m" using ok by (rule agent_ok_timers)
  obtain tm t where t: "tm \<in> set (tm_timers m)" "tm_heap m tm = Some t" "callback t = s" "\<not> quit t" "bound_to a s tm k"
    using periodic_bound [OF tok s] .
  define m' where "m' = m\<lparr>tm_heap := (tm_heap m)(tm \<mapsto> t\<lparr>quit := True\<rparr>), tm_timers := removeAll tm (tm_timers m)\<rparr>"
  define b where "b = a\<lparr>ag_timers := Some m', ag_periodic := (ag_periodic a)(k := None)\<rparr>"
  have bt: "bound_to b = bound_to a" by (simp add: b_def fun_eq_iff bound_to_def task_name_def)
  have "tm_ok m'" using tok t(2) by (auto simp: m'_def timers_ok_def tm_ok_def distinct_removeAll)
  moreover have "\<exists>tm' t'. tm' \<in> set (tm_timers m') \<and> tm_heap m' tm' = Some t' \<and> callback t' = s' \<and> bound_to b s' tm' k'"
    if "ag_periodic b k' = Some s'" for k' s'
  proof -
    have k': "k' \<noteq> k" "ag_periodic a k' = Some s'" using that by (auto simp: b_def split: if_splits)
    obtain tm' t' where t': "tm' \<in> set (tm_timers m)" "tm_heap m tm' = Some t'" "callback t' = s'" "bound_to a s' tm' k'"
      using periodic_bound [OF tok k'(2)] .
    have "tm' \<noteq> tm" using t t' k'(1) bound_to_unique [of a s tm k tm' k'] by auto
    with t' show ?thesis unfolding bt by (intro exI [of _ tm'] exI [of _ t']) (simp add: m'_def)
  qed
  moreover have "\<exists>t' k'. tm_heap m' tm' = Some t' \<and> \<not> quit t' \<and> ag_periodic b k' = Some (callback t')"
    if "tm' \<in> set (tm_timers m')" for tm'
  proof -
    have tm': "tm' \<in> set (tm_timers m)" "tm' \<noteq> tm" using that by (simp_all add: m'_def)
    obtain t' k' where t': "tm_heap m tm' = Some t'" "\<not> quit t'" "ag_periodic a k' = Some (callback t')"
      using tm'(1) tok unfolding timers_ok_def by meson
    obtain k'' where "bound_to a (callback t') tm' k''" using t'(1) tok unfolding timers_ok_def by meson
    then have "k' \<noteq> k" using t'(3) s t(5) tm'(2) bound_to_unique by fastforce
    with t' tm' show ?thesis by (intro exI [of _ t'] exI [of _ k']) (simp add: m'_def b_def)
  qed
  moreover have "\<exists>k'. bound_to b (callback t') tm' k'" if "tm_heap m' tm' = Some t'" for tm' t'
    using that tok t(3,5) unfolding bt m'_def timers_ok_def by (cases "tm' = tm") auto
  ultimately have "timers_ok b m'" unfolding timers_ok_def by blast
  moreover have "jobs_ok b = jobs_ok a"
    by (simp add: b_def jobs_ok_def)
  moreover have "fresh_ok b = fresh_ok a" by (simp add: b_def fresh_ok_def)
  ultimately have "agent_ok b" using ok by (simp add: agent_ok_def) (simp add: b_def)
  then show ?thesis using that t DeleteTimer_running [OF t(2,4)] unfolding b_def m'_def by blast
qed

lemma cancel_task_ok:
  assumes "agent_ok a" "cancel_task en q p a = Some (Returns (u, a'))"
  shows "agent_ok a' \<and> ag_periodic a' = ag_periodic a \<and> ag_timers a' = ag_timers a \<and> ag_factory a' = ag_factory a
    \<and> ag_schedules a' = ag_schedules a \<and> ag_pool a' = ag_pool a"
proof -
  obtain t tw where t: "ag_tasks a p = Some t" "Cancel (en_env en) (en_ops en) (no_next_run a p) q t (ag_world a) = Returns tw"
    "a' = set_task p tw a"
    using assms(2) by (auto simp: cancel_task_def split: option.splits outcome.splits)
  have "ri_TaskId (t_info (fst tw)) = ri_TaskId (t_info t)"
    using t(2) Cancel_info by (metis prod.collapse)
  with assms(1) t have "agent_ok a'" by (simp add: agent_ok_set_task)
  with t(3) show ?thesis by (simp add: set_task_def)
qed

lemma ack_canceled_ok:
  assumes "agent_ok a" "ack_canceled en s a = Some (Returns (u, a'))"
  shows "agent_ok a' \<and> ag_periodic a' = ag_periodic a \<and> ag_timers a' = ag_timers a \<and> ag_factory a' = ag_factory a
    \<and> ag_schedules a' = ag_schedules a \<and> ag_pool a' = ag_pool a"
proof -
  obtain p t out t' w where t: "ag_tasks a p = Some t" "getReportString (t_output t) t = Returns (out, t')"
    "a' = set_task p (t', w) a"
    using assms(2) by (auto simp: ack_canceled_def split: option.splits outcome.splits)
  have "t_info t' = t_info t" using t(2) by (rule getReportString_info)
  with assms(1) t have "agent_ok a'" by (simp add: agent_ok_set_task)
  with t(3) show ?thesis by (simp add: set_task_def)
qed

lemma cancelPeriodicTask_ok:
  assumes ok: "agent_ok a" and c: "cancelPeriodicTask en info q a = Some (Returns (e, a'))"
  shows "agent_ok a'" "ag_periodic a' = (ag_periodic a)(ri_TaskId info := None)"
    "ag_factory a' = ag_factory a" "ag_pool a' = ag_pool a" "e = None"
proof -
  obtain m where m: "ag_timers a = Some m" using ok by (auto simp: agent_ok_def)
  have "agent_ok a' \<and> ag_periodic a' = (ag_periodic a)(ri_TaskId info := None)
    \<and> ag_factory a' = ag_factory a \<and> ag_pool a' = ag_pool a \<and> e = None"
  proof (cases "ag_periodic a (ri_TaskId info)")
    case None
    with c m ok show ?thesis
      by (auto simp: cancelPeriodicTask_def on_world_def fun_upd_idem split: if_splits)
  next
    case (Some s)
    obtain tm t m' where d: "bound_to a s tm (ri_TaskId info)" "DeleteTimer tm m = Some m'"
      "agent_ok (a\<lparr>ag_timers := Some m', ag_periodic := (ag_periodic a)(ri_TaskId info := None)\<rparr>)"
      using deregister_ok [OF ok m Some] by metis
    have b: "Option.bind (ag_schedules a s) ps_timer = Some tm" using d(1) by (auto simp: bound_to_def)
    from c m Some b d(2) show ?thesis
      by (auto simp: cancelPeriodicTask_def Let_def and_then_returns split: option.splits if_splits
          dest!: cancel_task_ok [OF d(3)] ack_canceled_ok [OF d(3)] intro: d(3))
  qed
  then show "agent_ok a'" "ag_periodic a' = (ag_periodic a)(ri_TaskId info := None)"
    "ag_factory a' = ag_factory a" "ag_pool a' = ag_pool a" "e = None" by auto
qed

text \<open>A timer that a creation registers, and its start.\<close>

lemma create_timer_cases:
  assumes "create_timer en info s m w = ((r, m'), w')"
  shows "trace w' = trace w \<and> (case r of Inl err \<Rightarrow> m' = m | Inr tm \<Rightarrow> \<exists>sch. register_timer sch s m = (tm, m')
    \<and> (ri_Repeat info = RunTaskCron \<longrightarrow> (\<exists>e l n. sch = CronScheduled e l n)))"
  using assms
  by (auto simp: create_timer_def CreateRateTimer_def CreateAtTimer_def CreateCronTimer_def read_clock_def
      NewCronScheduled_def split: if_splits sum.splits prod.splits option.splits)

lemma TimerRun_frame: "TimerRun lib now t = (r, t') \<Longrightarrow> callback t' = callback t \<and> quit t' = quit t"
  by (auto simp: TimerRun_def Let_def split: prod.splits outcome.splits option.splits if_splits)

text \<open>The state after a timer is created and its schedule object bound, with or without registration.\<close>

lemma timers_ok_bind:
  assumes ok: "timers_ok a m" and r: "register_timer sch s m = (tm, m')"
    and mono: "\<And>s tm k. bound_to a s tm k \<Longrightarrow> bound_to b s tm k" and bd: "bound_to b s tm k"
    and t: "callback t = s"
    and new: "ag_periodic a k = None"
  shows "\<not> quit t \<Longrightarrow> ag_periodic b = (ag_periodic a)(k \<mapsto> s) \<Longrightarrow>
      timers_ok b (m'\<lparr>tm_heap := (tm_heap m')(tm \<mapsto> t)\<rparr>)"
    "ag_periodic b = ag_periodic a \<Longrightarrow>
      timers_ok b (m'\<lparr>tm_heap := (tm_heap m')(tm \<mapsto> t), tm_timers := removeAll tm (tm_timers m')\<rparr>)"
proof -
  have m: "tm_ok m" using ok by (simp add: timers_ok_def)
  note reg = tm_ok_register [OF m r]
  have h: "tm_heap m' = (tm_heap m)(tm \<mapsto> NewTimer sch s)" using r by (auto simp: register_timer_def Let_def)
  define H where "H = (tm_heap m')(tm \<mapsto> t)"
  have Htm: "H tm = Some t" by (simp add: H_def)
  have old: "tm' \<noteq> tm" if "tm_heap m tm' = Some t'" for tm' t' using reg(2) that by auto
  have notin: "tm \<notin> set (tm_timers m)" using m reg(2) by (auto simp: tm_ok_def)
  have ok': "tm_ok (m'\<lparr>tm_heap := H\<rparr>)"
    "tm_ok (m'\<lparr>tm_heap := H, tm_timers := removeAll tm (tm_timers m')\<rparr>)"
    using reg(1) h by (auto simp: tm_ok_def distinct_removeAll H_def)
  have heap: "\<exists>k. bound_to b (callback t') tm' k" if "H tm' = Some t'" for tm' t'
    using that bd t mono ok h unfolding timers_ok_def H_def by (auto split: if_splits) blast
  have per: "\<exists>tm' t'. tm' \<in> set (tm_timers m) \<and> H tm' = Some t' \<and> callback t' = s' \<and> bound_to b s' tm' k'"
    if "ag_periodic a k' = Some s'" for k' s'
  proof -
    note k' = that
    obtain tm' t' where t': "tm' \<in> set (tm_timers m)" "tm_heap m tm' = Some t'" "callback t' = s'" "bound_to a s' tm' k'"
      using periodic_bound [OF ok k'] by metis
    have "H tm' = Some t'" using t'(2) old [OF t'(2)] by (simp add: H_def h)
    with t' mono [OF t'(4)] show ?thesis by (intro exI [of _ tm'] exI [of _ t'] conjI)
  qed
  have tms: "\<exists>t' k'. H tm' = Some t' \<and> \<not> quit t' \<and> ag_periodic a k' = Some (callback t') \<and> k' \<noteq> k"
    if "tm' \<in> set (tm_timers m)" for tm'
  proof -
    note i = that
    have tm': "tm' \<noteq> tm" using i notin by auto
    obtain t' k' where t': "tm_heap m tm' = Some t'" "\<not> quit t'" "ag_periodic a k' = Some (callback t')"
      using i ok unfolding timers_ok_def by meson
    have "H tm' = Some t'" using t'(1) tm' by (simp add: H_def h)
    moreover have "k' \<noteq> k" using t'(3) new by auto
    ultimately show ?thesis using t' by (intro exI [of _ t'] exI [of _ k'] conjI)
  qed
  show "timers_ok b (m'\<lparr>tm_heap := (tm_heap m')(tm \<mapsto> t)\<rparr>)"
    if nq: "\<not> quit t" and pb: "ag_periodic b = (ag_periodic a)(k \<mapsto> s)"
    unfolding timers_ok_def H_def [symmetric]
  proof (intro conjI allI impI ballI)
    fix k' s' assume "ag_periodic b k' = Some s'"
    then consider "k' = k" "s' = s" | "k' \<noteq> k" "ag_periodic a k' = Some s'" using pb by (auto split: if_splits)
    then show "\<exists>tm' t'. tm' \<in> set (tm_timers (m'\<lparr>tm_heap := H\<rparr>))
        \<and> tm_heap (m'\<lparr>tm_heap := H\<rparr>) tm' = Some t' \<and> callback t' = s' \<and> bound_to b s' tm' k'"
    proof cases
      case 1
      then show ?thesis using bd t reg(3) Htm by (intro exI [of _ tm] exI [of _ t]) simp
    next
      case 2
      then show ?thesis using per [OF 2(2)] reg(3) by auto
    qed
  next
    fix tm' assume "tm' \<in> set (tm_timers (m'\<lparr>tm_heap := H\<rparr>))"
    then consider "tm' = tm" | "tm' \<in> set (tm_timers m)" using reg(3) by auto
    then show "\<exists>t' k'. tm_heap (m'\<lparr>tm_heap := H\<rparr>) tm' = Some t' \<and> \<not> quit t'
        \<and> ag_periodic b k' = Some (callback t')"
      using nq pb t tms Htm by cases (auto intro: exI [of _ k])
  qed (use ok' heap in auto)
  show "timers_ok b (m'\<lparr>tm_heap := (tm_heap m')(tm \<mapsto> t), tm_timers := removeAll tm (tm_timers m')\<rparr>)"
    if pb: "ag_periodic b = ag_periodic a"
    using ok' heap per tms notin reg(3) unfolding timers_ok_def pb H_def [symmetric] by fastforce
qed

lemma register_periodic_ok:
  assumes ok: "agent_ok a" "ag_timers a = Some m" and reg: "register_timer sch (ag_fresh a) m = (tm, m')"
    and new: "ag_periodic a (ri_TaskId info) = None"
    and a2: "a2 = a\<lparr>ag_schedules := (ag_schedules a)(ag_fresh a \<mapsto> n), ag_fresh := Suc (ag_fresh a),
        ag_timers := Some m', ag_world := w\<rparr>"
    and res: "register_periodic en info (ag_fresh a) tm location finish a2 = Some (Returns (e, a'))"
  shows "agent_ok a' \<and> ag_factory a' = ag_factory a \<and> ag_pool a' = ag_pool a
    \<and> ag_periodic a' = (if e = None then (ag_periodic a)(ri_TaskId info \<mapsto> ag_fresh a) else ag_periodic a)"
proof -
  define s where "s = ag_fresh a"
  have fr: "fresh_ok a" using ok by (simp add: agent_ok_def)
  have tok: "timers_ok a m" using ok by (rule agent_ok_timers)
  obtain p a3 where p: "new_task_at en info location finish a2 = (p, a3)" by fastforce
  note sh = new_task_at_shape [OF p]
  have ps: "p = Suc s" "ag_fresh a3 = Suc (Suc s)" using sh a2 by (simp_all add: s_def)
  define a4 where "a4 = a3\<lparr>ag_schedules := (ag_schedules a3)(s \<mapsto> \<lparr>ps_timer = Some tm, ps_reusableInvocation = Some p\<rparr>)\<rparr>"
  have nt: "task_name a p = None" "ag_schedules a s = None"
    using fresh_none [OF fr, of p] fresh_none [OF fr, of s] ps by (simp_all add: task_name_def s_def)
  have nm: "task_name a2 = task_name a" by (simp add: a2 task_name_def fun_eq_iff)
  have n4: "task_name a4 = (task_name a)(p \<mapsto> ri_TaskId info)"
    using sh(3) nm by (simp add: a4_def task_name_def fun_eq_iff)
  have names: "task_name a4 q = Some k'" if "task_name a q = Some k'" for q k'
    using that nt(1) by (auto simp: n4)
  have scheds: "ag_schedules a4 s' = Some ps" if "ag_schedules a s' = Some ps" for s' ps
    using that nt(2) by (auto simp: a4_def sh(4) a2 s_def)
  have bd: "bound_to a4 s tm (ri_TaskId info)" by (simp add: bound_to_def n4) (simp add: a4_def)
  have mono: "bound_to a4 s' tm' k'" if "bound_to a s' tm' k'" for s' tm' k'
    using bound_to_mono [OF that names scheds] .
  have fr4: "fresh_ok a4" using fr ps sh by (auto simp: fresh_ok_def a4_def a2 s_def)
  have heap: "tm_heap m' tm = Some (NewTimer sch s)" using reg by (auto simp: register_timer_def Let_def s_def)
  have fields: "ag_timers a3 = Some m'" "ag_periodic a3 = ag_periodic a" "ag_factory a3 = ag_factory a"
    "ag_pool a3 = ag_pool a" "ag_schedules a3 = (ag_schedules a)(s \<mapsto> n)" "ag_dropped a3 = ag_dropped a" "invocations a3 = invocations a"
    using sh invocations_same [of a3 a] by (simp_all add: a2 s_def)
  obtain r t w' where t: "TimerRun (en_lib en) (fst (read_clock (en_env en) (ag_world a3))) (NewTimer sch s) = (r, t)"
    "w' = snd (read_clock (en_env en) (ag_world a3))" by fastforce
  have cb: "callback t = s" "\<not> quit t" using TimerRun_frame [OF t(1)] by (simp_all add: NewTimer_def)
  define H where "H = (tm_heap m')(tm \<mapsto> t)"
  have ext: "agent_ok (a4\<lparr>ag_world := w', ag_timers := Some mb, ag_periodic := per\<rparr>)"
    if "timers_ok (a4\<lparr>ag_world := w', ag_timers := Some mb, ag_periodic := per\<rparr>) mb" for mb per
    by (rule agent_ok_extend [OF ok(1), of _ mb])
      (use that names scheds fr4 fields in \<open>auto simp: a4_def fresh_ok_def\<close>)
  show ?thesis
  proof (cases r)
    case (Panics q)
    with res p t heap fields show ?thesis by (simp add: register_periodic_def split_beta s_def)
  next
    case (Returns e')
    show ?thesis
    proof (cases e')
      case None
      define m4 where "m4 = m'\<lparr>tm_heap := H\<rparr>"
      have "a' = a4\<lparr>ag_world := w', ag_timers := Some m4, ag_periodic := (ag_periodic a)(ri_TaskId info \<mapsto> s)\<rparr>" "e = None"
        using res p t heap fields Returns None
        by (auto simp: register_periodic_def split_beta s_def a4_def m4_def H_def intro!: agent.equality)
      moreover have "timers_ok (a4\<lparr>ag_world := w', ag_timers := Some m4, ag_periodic := (ag_periodic a)(ri_TaskId info \<mapsto> s)\<rparr>) m4"
        unfolding m4_def H_def
        by (rule timers_ok_bind(1) [OF tok reg [folded s_def] _ _ _ new]) (use mono bd cb in simp_all)
      ultimately show ?thesis using ext fields by (simp add: a4_def s_def)
    next
      case (Some err)
      define m4 where "m4 = m'\<lparr>tm_heap := (tm_heap m')(tm \<mapsto> t\<lparr>quit := True\<rparr>), tm_timers := removeAll tm (tm_timers m')\<rparr>"
      have "DeleteTimer tm (m'\<lparr>tm_heap := (tm_heap m')(tm \<mapsto> t)\<rparr>) = Some m4"
        using DeleteTimer_running [of "m'\<lparr>tm_heap := (tm_heap m')(tm \<mapsto> t)\<rparr>" tm t] cb(2) by (simp add: m4_def)
      then have "a' = a4\<lparr>ag_world := w', ag_timers := Some m4, ag_periodic := ag_periodic a\<rparr>" "e = Some err"
        using res p t heap fields Returns Some new
        by (auto simp: register_periodic_def split_beta s_def a4_def fun_upd_idem intro!: agent.equality)
      moreover have "timers_ok (a4\<lparr>ag_world := w', ag_timers := Some m4, ag_periodic := ag_periodic a\<rparr>) m4"
        unfolding m4_def
        by (rule timers_ok_bind(2) [OF tok reg [folded s_def] _ _ _ new]) (use mono bd cb in simp_all)
      ultimately show ?thesis using ext fields by (simp add: a4_def)
    qed
  qed
qed

text \<open>
  \<open>schedulePeriodicTask\<close> keeps the invariant. An expression that is not accepted changes no
  registry; a registered name is left alone; otherwise the new schedule object is registered, or
  the start of its timer failed and nothing stays registered.
\<close>

lemma schedulePeriodicTask_ok:
  assumes ok: "agent_ok a" and res: "schedulePeriodicTask en info a = Some (Returns (e, a'))"
  shows "agent_ok a' \<and> ag_factory a' = ag_factory a \<and> ag_pool a' = ag_pool a
    \<and> ag_periodic a' = (if e = None \<and> ag_periodic a (ri_TaskId info) = None
        then (ag_periodic a)(ri_TaskId info \<mapsto> ag_fresh a) else ag_periodic a)"
proof -
  obtain m where m: "ag_timers a = Some m" using ok by (auto simp: agent_ok_def)
  have fr: "fresh_ok a" using ok by (simp add: agent_ok_def)
  show ?thesis
  proof (cases "ag_periodic a (ri_TaskId info)")
    case (Some s)
    with res m ok show ?thesis by (simp add: schedulePeriodicTask_def)
  next
    case None
    obtain r m' w where c: "create_timer en info (ag_fresh a) m (ag_world a) = ((r, m'), w)" by (metis surj_pair)
    note cc = create_timer_cases [OF c]
    define a2 where "a2 = a\<lparr>ag_schedules := (ag_schedules a)(ag_fresh a \<mapsto> \<lparr>ps_timer = None, ps_reusableInvocation = None\<rparr>),
      ag_fresh := Suc (ag_fresh a), ag_timers := Some m', ag_world := w\<rparr>"
    show ?thesis
    proof (cases r)
      case (Inl err)
      have "ag_schedules a (ag_fresh a) = None" using fresh_none [OF fr] by simp
      moreover have "m' = m" using cc Inl by simp
      ultimately have "agent_ok a2"
        using fr m by (intro agent_ok_mono [OF ok, of a2]) (auto simp: a2_def task_name_def fresh_ok_def)
      with res m None c Inl show ?thesis
        by (auto simp: schedulePeriodicTask_def Let_def on_world_def a2_def)
    next
      case (Inr tm)
      obtain sch where sch: "register_timer sch (ag_fresh a) m = (tm, m')"
        "ri_Repeat info = RunTaskCron \<longrightarrow> (\<exists>e l n. sch = CronScheduled e l n)"
        using cc Inr by auto
      have heap: "tm_heap m' tm = Some (NewTimer sch (ag_fresh a))" using sch(1) by (auto simp: register_timer_def Let_def)
      have "\<exists>location finish. register_periodic en info (ag_fresh a) tm location finish a2 = Some (Returns (e, a'))"
      proof (cases "ri_Repeat info = RunTaskCron")
        case True
        then obtain x l n where "sch = CronScheduled x l n" using sch(2) by blast
        with res m None c Inr heap True
        have "register_periodic en info (ag_fresh a) tm (map_option (zone_label (en_location_name en)) l) (Some tm) a2
          = Some (Returns (e, a'))"
          by (simp add: schedulePeriodicTask_def Let_def NewTimer_def a2_def)
        then show ?thesis by blast
      next
        case False
        with res m None c Inr have "register_periodic en info (ag_fresh a) tm None None a2 = Some (Returns (e, a'))"
          by (simp add: schedulePeriodicTask_def Let_def a2_def)
        then show ?thesis by blast
      qed
      then show ?thesis using register_periodic_ok [OF ok m sch(1) None a2_def] None by auto
    qed
  qed
qed

lemma start_non_periodic_ok:
  assumes ok: "agent_ok a" and res: "start_non_periodic en info a = Some (Returns (u, a'))"
  shows "agent_ok a'"
proof -
  obtain p a1 where n: "new_task_at en info None None a = (p, a1)" by fastforce
  note ok1 = agent_ok_new_task [OF ok n] and sh = new_task_at_shape [OF n]
  have id: "task_id a1 p = ri_TaskId info" using task_id_name [OF ok1(2)] .
  show ?thesis
  proof (cases "GetTask (ag_factory a1) (ri_TaskId info)")
    case (Some q)
    with res n ok1 show ?thesis
      by (simp add: start_non_periodic_def AddTask_def id AddNamedTask_duplicate)
  next
    case None
    have "agent_ok (a1\<lparr>ag_factory := snd (AddTask (task_id a1) p (ag_factory a1)),
        ag_pool := RunTask (RunTaskJob p) (ag_pool a1)\<rparr>)"
      by (rule agent_ok_add_job [OF ok1(1) _ ok1(2) None]) (simp add: job_task_def)
    with res n AddNamedTask_fresh [OF None] show ?thesis
      by (auto simp: start_non_periodic_def AddTask_def id split_beta)
  qed
qed

lemma schedule_task_ok:
  "agent_ok a \<Longrightarrow> schedule_task en info a = Some (Returns (u, a')) \<Longrightarrow> agent_ok a'"
  by (auto simp: schedule_task_def and_then_returns dest: start_non_periodic_ok schedulePeriodicTask_ok split: if_splits)

lemma dispatchRunTask_ok:
  assumes ok: "agent_ok a" and res: "dispatchRunTask en info a = Some (Returns (u, a'))"
  shows "agent_ok a'"
proof -
  have "agent_ok a2" if "cancelPeriodicTask en i True a = Some (Returns (e, a2))" for e a2 i
    using cancelPeriodicTask_ok(1) [OF ok that] .
  then show ?thesis using ok res
    by (auto simp: dispatchRunTask_def and_then_returns dest: schedule_task_ok split: option.splits if_splits)
qed

lemma dispatchStopTask_ok:
  assumes ok: "agent_ok a" and res: "dispatchStopTask en info a = Some (Returns (u, a'))"
  shows "agent_ok a'"
proof -
  have "agent_ok a2" if "cancelPeriodicTask en i False a = Some (Returns (e, a2))" for e a2 i
    using cancelPeriodicTask_ok(1) [OF ok that] .
  moreover have "agent_ok a2" if "cancel_task en False p a = Some (Returns (v, a2))" for p a2 v
    using cancel_task_ok [OF ok that] by simp
  ultimately show ?thesis using ok res
    by (auto simp: dispatchStopTask_def and_then_returns on_world_def split: option.splits if_splits)
qed

lemma dispatchTestTask_ok:
  assumes ok: "agent_ok a" and res: "dispatchTestTask en info a = Some (Returns (u, a'))"
  shows "agent_ok a'"
proof -
  obtain p a1 where n: "new_task_at en info None None a = (p, a1)" by fastforce
  have ok1: "agent_ok a1" using agent_ok_new_task [OF ok n] by simp
  have "agent_ok (a1\<lparr>ag_precheck := q\<rparr>)" for q
    by (rule agent_ok_cong [OF ok1]) (simp_all add: task_name_def)
  with ok res n show ?thesis by (auto simp: dispatchTestTask_def split: if_splits)
qed

lemma startExclusive_contained_ok:
  assumes ok: "agent_ok a" and b: "bound_to a s tm k" and res: "startExclusive_contained s a = Some (Returns (c, a'))"
  shows "a' = a" "c \<longleftrightarrow> GetTask (ag_factory a) k \<noteq> None"
proof -
  have tf: "tf_ok (ag_factory a)" using ok by (simp add: agent_ok_def)
  obtain p where p: "ag_schedules a s = Some \<lparr>ps_timer = Some tm, ps_reusableInvocation = Some p\<rparr>" "task_name a p = Some k"
    using b by (auto simp: bound_to_def)
  have id: "task_id a p = k" using task_id_name [OF p(2)] .
  with res p(1) tasks.contains_iff [OF tf] show "a' = a" "c \<longleftrightarrow> GetTask (ag_factory a) k \<noteq> None"
    by (simp_all add: startExclusive_contained_def) metis
qed

lemma startExclusive_adds_ok:
  assumes ok: "agent_ok a" and b: "bound_to a s tm k" and res: "startExclusive_adds s a = Some (Returns (u, a'))"
  shows "agent_ok (a'\<lparr>ag_checked := cs, ag_added := (x, s) # ag_added a'\<rparr>)" (is "agent_ok ?b")
proof -
  have tf: "tf_ok (ag_factory a)" and jo: "jobs_ok a" and fr: "fresh_ok a" using ok by (simp_all add: agent_ok_def)
  obtain p where p: "ag_schedules a s = Some \<lparr>ps_timer = Some tm, ps_reusableInvocation = Some p\<rparr>" "task_name a p = Some k"
    using b by (auto simp: bound_to_def)
  have id: "task_id a p = k" using task_id_name [OF p(2)] .
  define f where "f = snd (AddNamedTask k p (ag_factory a))"
  define d where "d = (if GetTask (ag_factory a) k = None then ag_dropped a else ag_dropped a @ [k])"
  have a': "a' = a\<lparr>ag_factory := f, ag_dropped := d\<rparr>"
    using res p(1) by (auto simp: startExclusive_adds_def AddTask_def id f_def d_def AddNamedTask_def GetTask_def Let_def)
  have jt: "job_task a (RunScheduleJob s) = Some p" using p(1) by (simp add: job_task_def)
  have "jobs_ok ?b"
  proof (rule jobs_ok_add [OF jo jt p(2), where q = p])
    show "mset (invocations ?b) = add_mset (RunScheduleJob s) (mset (invocations a))" by (simp add: a' invocations_def)
    show "GetTask (ag_factory a) k = None \<and> GetTask (ag_factory ?b) = (GetTask (ag_factory a))(k \<mapsto> p) \<and> ag_dropped ?b = ag_dropped a
      \<or> GetTask (ag_factory a) k \<noteq> None \<and> ag_factory ?b = ag_factory a \<and> ag_dropped ?b = ag_dropped a @ [k]"
      using tasks.lookup_insert [OF tf, of k p] AddNamedTask_duplicate by (auto simp: a' f_def d_def)
  qed (simp_all add: a' fun_eq_iff job_task_def task_name_def job_name_def task_id_def split: job.split option.split)
  moreover have "timers_ok ?b m \<longleftrightarrow> timers_ok a m" for m
    by (simp add: timers_ok_def a' bound_to_def task_name_def)
  moreover have "fresh_ok ?b" using fr by (simp add: a' fresh_ok_def)
  moreover have "tf_ok f"
    using tf tasks.inv_insert [OF tf, of k p] AddNamedTask_duplicate by (cases "GetTask (ag_factory a) k") (auto simp: f_def)
  ultimately show ?thesis using ok by (simp add: agent_ok_def a')
qed

lemma run_job_ok:
  assumes ok: "agent_ok a" and i: "i < length (slaves (ag_pool a))" "slaves (ag_pool a) ! i = Some j"
    and res: "run_job en j a = Some (Returns (u, a'))"
  shows "agent_ok (a'\<lparr>ag_pool := slave_return i (ag_pool a')\<rparr>)"
proof -
  obtain p t c e t' w where p: "job_task a j = Some p" "ag_tasks a p = Some t"
    "Run (en_env en) (en_ops en) (en_config en) (no_next_run a p) t (ag_world a) = Some (Returns ((c, e), t', w))"
    "a' = (set_task p (t', w) a)\<lparr>ag_factory := RemoveTaskByName (task_id (set_task p (t', w) a) p) (ag_factory a)\<rparr>"
    using res by (auto simp: run_job_def Let_def set_task_def split: option.splits outcome.splits if_splits)
  define b where "b = set_task p (t', w) a"
  have okb: "agent_ok b"
    unfolding b_def using Run_info [OF p(3)] by (intro agent_ok_set_task [OF ok p(2)]) simp
  have b: "ag_pool b = ag_pool a" "ag_factory b = ag_factory a" "job_task b j = Some p"
    "task_name b p = Some (ri_TaskId (t_info t'))"
    using p(1) by (simp_all add: b_def set_task_def task_name_def job_task_def split: job.splits)
  have "agent_ok (b\<lparr>ag_factory := RemoveTaskByName (ri_TaskId (t_info t')) (ag_factory b), ag_pool := slave_return i (ag_pool b)\<rparr>)"
    by (rule agent_ok_finish_job [OF okb _ _ b(3,4)]) (use i b in simp_all)
  then show ?thesis using p(4) b task_id_name [OF b(4)] by (simp add: b_def)
qed

lemma mset_map_remove1: "x \<in> set xs \<Longrightarrow> mset (map f xs) = add_mset (f x) (mset (map f (remove1 x xs)))"
  by (induction xs) auto

lemma agent_ok_runner_step:
  assumes ok: "agent_ok a" and m: "ag_timers a = Some m" "tm_heap m tm = Some t"
  shows "agent_ok (a\<lparr>ag_timers := Some (m\<lparr>tm_heap := (tm_heap m)(tm \<mapsto> runner_step i t)\<rparr>)\<rparr>)"
proof -
  have cb: "callback (runner_step i t) = callback t" by (simp add: runner_step_def split: runner.splits)
  have "timers_ok a (m\<lparr>tm_heap := (tm_heap m)(tm \<mapsto> runner_step i t)\<rparr>)"
    using timers_ok_heap [OF agent_ok_timers [OF ok m(1)] m(2) cb] by simp
  then show ?thesis
    by (intro agent_ok_extend [OF ok]) (use ok in \<open>auto simp: agent_ok_def fresh_ok_def timers_ok_def invocations_def\<close>)
qed

section \<open>The invariant holds\<close>

lemma agent_ok_initial: "agent_ok initial_agent"
  by (simp add: agent_ok_def initial_agent_def fresh_ok_def jobs_ok_def timers_ok_def tm_ok_def tf_ok_def
      GetTaskFactory_def InitTimerManager_def newTaskPool_def pool_jobs_def running_def
      invocations_def GetTask_def)

lemma engine_step_ok:
  assumes "engine_step en a a'" "agent_ok a"
  shows "agent_ok a'"
  using assms(1)
proof (cases rule: engine_step.cases)
  case (timer m tm t t')
  have "timers_ok a (m\<lparr>tm_heap := (tm_heap m)(tm \<mapsto> t')\<rparr>)"
    using timers_ok_heap [OF agent_ok_timers [OF assms(2) timer(2)] timer(3)] timer_step_callback [OF timer(4)] timer(5) by simp
  then show ?thesis
    unfolding timer(1)
    by (intro agent_ok_extend [OF assms(2)]) (use assms(2) in \<open>auto simp: agent_ok_def fresh_ok_def timers_ok_def invocations_def\<close>)
next
  case (skips m tm t i a1)
  obtain k where "bound_to a (callback t) tm k"
    using heap_bound [OF agent_ok_timers [OF assms(2) skips(2)] skips(3)] by blast
  then have "a1 = a" using startExclusive_contained_ok(1) [OF assms(2)] skips(8) by blast
  then show ?thesis using agent_ok_runner_step [OF assms(2) skips(2,3)] skips(1) by simp
next
  case (passes m tm t i a1)
  obtain k where "bound_to a (callback t) tm k"
    using heap_bound [OF agent_ok_timers [OF assms(2) passes(2)] passes(3)] by blast
  then have "a1 = a" using startExclusive_contained_ok(1) [OF assms(2)] passes(8) by blast
  then show ?thesis
    unfolding passes(1) by (intro agent_ok_cong [OF assms(2)]) (simp_all add: task_name_def invocations_def)
next
  case (adds tm i m t u a1)
  obtain k where "bound_to a (callback t) tm k"
    using heap_bound [OF agent_ok_timers [OF assms(2) adds(3)] adds(4)] by blast
  from startExclusive_adds_ok [OF assms(2) this adds(5)] show ?thesis by (simp add: adds(1))
next
  case (sends tm i s m t u a1)
  define b where "b = a\<lparr>ag_pool := RunTask (RunScheduleJob s) (ag_pool a), ag_added := remove1 ((tm, i), s) (ag_added a)\<rparr>"
  have "mset (map (\<lambda>x. RunScheduleJob (snd x)) (ag_added a))
      = add_mset (RunScheduleJob s) (mset (map (\<lambda>x. RunScheduleJob (snd x)) (remove1 ((tm, i), s) (ag_added a))))"
    using mset_map_remove1 [OF sends(2), of "\<lambda>x. RunScheduleJob (snd x)"] by simp
  then have "mset (invocations b) = mset (invocations a)" by (simp add: b_def invocations_def del: mset_map)
  then have okb: "agent_ok b" by (intro agent_ok_cong [OF assms(2)]) (simp_all add: b_def task_name_def)
  have "ag_timers b = Some m" using sends(3) by (simp add: b_def)
  note ok' = agent_ok_runner_step [OF okb this sends(4), of i]
  have a1: "a1 = a\<lparr>ag_pool := RunTask (RunScheduleJob s) (ag_pool a)\<rparr>"
    using sends(5) by (simp add: startExclusive_sends_def)
  show ?thesis using ok' unfolding sends(1) a1 b_def by simp
next
  case (receives i)
  show ?thesis unfolding receives(1)
    by (rule agent_ok_cong [OF assms(2)]) (simp_all add: mset_jobs_receive [OF receives(2-4)] invocations_def)
next
  case (prechecks p u)
  then obtain t e t' w where t: "ag_tasks a p = Some t" "PreCheck (en_env en) (en_ops en) True t (ag_world a) = Returns (e, t', w)"
    "a' = set_task p (t', w) a"
    by (auto simp: precheck_job_def split: option.splits outcome.splits)
  with PreCheck_info [OF t(2)] show ?thesis by (simp add: agent_ok_set_task [OF assms(2)])
next
  case (outside w q ss n b)
  then show ?thesis by (intro agent_ok_cong [OF assms(2)]) (simp_all add: task_name_def invocations_def)
next
  case (finishes i j u a1)
  then show ?thesis using run_job_ok [OF assms(2) finishes(2,3,4)] by simp
qed (use assms(2) dispatchRunTask_ok dispatchStopTask_ok dispatchTestTask_ok in blast)+

lemma engine_reachable_ok: "engine_reachable en a \<Longrightarrow> agent_ok a"
  by (induction rule: engine_reachable.induct) (blast intro: agent_ok_initial engine_step_ok)+

end
