(* ===== verification/Engine_Properties.thy ===== *)
theory Engine_Properties
  imports Engine
begin

text \<open>
  What holds of the task engine in every reachable state, and of its handlers: one job per task,
  registered schedules and timers in step, a stop that takes effect, failed schedules reported,
  and the version change that crashes the agent.
\<close>

section \<open>An example engine\<close>

definition example_engine :: "(int, unit, host_processor) engine" where
  "example_engine = \<lparr>en_env = silent_env, en_ops = host_ops example_machine, en_container = new_host_processor,
     en_host = new_host_processor, en_lib = toy_lib, en_location_name = (\<lambda>l. ''UTC''), en_config = example_config,
     en_machine = example_machine, en_decode = (\<lambda>s. None), en_coldstart = False\<rparr>"

definition example_cron :: RunTaskInfo where
  "example_cron = example_info\<lparr>ri_TaskId := ''p-1'', ri_Cronat := ''0 30 8 * * MON GMT+8:00'', ri_Repeat := RunTaskCron\<rparr>"

lemma example_once:
  "\<exists>a t. dispatchRunTask example_engine example_info initial_agent = Some (Returns ((), a))
    \<and> pool_jobs (ag_pool a) = [RunTaskJob 0] \<and> GetTask (ag_factory a) ''t-1'' = Some 0 \<and> ag_tasks a 0 = Some t
    \<and> t_info t = example_info \<and> ag_periodic a = Map.empty \<and> ag_timers a = InitTimerManager None
    \<and> ag_added a = [] \<and> ag_dropped a = []"
  by (simp add: dispatchRunTask_def existing_task_def initial_agent_def GetTaskFactory_def GetTask_def getPeriodicTask_def
      schedule_task_def start_non_periodic_def example_info_def new_task_at_def Let_def AddTask_def AddNamedTask_def
      task_id_def ret_def NewTask_def RunTask_def newTaskPool_def maxPendingTasks_def pool_jobs_def running_def
      maxRunningTasks_def split: prod.split)

lemma example_scheduled:
  "\<exists>a m t. dispatchRunTask example_engine example_cron initial_agent = Some (Returns ((), a))
    \<and> ag_periodic a = [''p-1'' \<mapsto> 0] \<and> ag_timers a = Some m \<and> tm_timers m = [0] \<and> tm_heap m 0 = Some t
    \<and> callback t = 0 \<and> ag_factory a = GetTaskFactory None"
proof -
  have s: "splitExpressionAndLocation toy_lib ''0 30 8 * * MON GMT+8:00''
    = Inr (''0 30 8 * * MON *'', Some (FixedZone ''GMT+8:00'' 28800))"
    by code_simp
  have n: "NewCronScheduled toy_lib now ''0 30 8 * * MON GMT+8:00''
    = Inr (CronScheduled 60 (Some (FixedZone ''GMT+8:00'' 28800)) False)" for now
    by (simp add: NewCronScheduled_def s) (simp add: toy_lib_def CronNextRunFrom_def ErrNoNextRun_def Let_def)
  have r: "\<exists>t. TimerRun toy_lib now (NewTimer (CronScheduled 60 l False) c) = (Returns None, t) \<and> callback t = c" for now l and c :: nat
  proof -
    have "\<not> time_sub (now div 60 * 60 + 60) now < 0"
    proof -
      have "now < now div 60 * 60 + 60"
        using minus_mod_eq_div_mult [of now 60] pos_mod_bound [of 60 now] by linarith
      then show ?thesis unfolding time_sub_def max_int64_def min_int64_def by auto
    qed
    then show ?thesis by (simp add: TimerRun_def NewTimer_def Let_def toy_lib_def CronNextRunFrom_def)
  qed
  obtain t where t: "TimerRun toy_lib (clock silent_env (Suc 0)) (NewTimer (CronScheduled 60 (Some (FixedZone ''GMT+8:00'' 28800)) False) (0 :: nat))
      = (Returns None, t)" "callback t = 0"
    using r [of "clock silent_env (Suc 0)" "Some (FixedZone ''GMT+8:00'' 28800)" 0] by blast
  show ?thesis
    by (simp add: dispatchRunTask_def existing_task_def initial_agent_def GetTaskFactory_def GetTask_def getPeriodicTask_def
      schedule_task_def example_cron_def schedulePeriodicTask_def InitTimerManager_def create_timer_def
      CreateCronTimer_def example_engine_def n register_timer_def read_clock_def tick_def
      register_periodic_def new_task_at_def Let_def NewTimer_def t(1) [unfolded NewTimer_def] t(2) ret_def)
qed

lemma example_reachable:
  "dispatchRunTask example_engine info initial_agent = Some (Returns ((), a)) \<Longrightarrow> engine_reachable example_engine a"
  by (rule engine_reachable.step [OF engine_reachable.init]) (rule engine_step.runs)

section \<open>One job per task\<close>

text \<open>C1. In every state the engine reaches, a name that is in the factory has an invocation that is pending,
  running or about to be sent to the pool, so that no finished or lost invocation keeps its name
  blocked; and a name for which no callback of a timer lost the race between its test of the factory
  and its \<open>AddTask\<close> has exactly one such invocation while it is in the factory and none otherwise.\<close>

theorem engine_one_job_per_task:
  assumes "engine_reachable en a"
  shows "(ContainsTaskByName (ag_factory a) k \<longrightarrow> k \<in> set (map (job_name a) (invocations a)))
    \<and> (k \<notin> set (ag_dropped a) \<longrightarrow>
        count_list (map (job_name a) (invocations a)) k = (if ContainsTaskByName (ag_factory a) k then 1 else 0))"
proof -
  have "agent_ok a" using engine_reachable_ok [OF assms] .
  then have j: "jobs_ok a" and f: "tf_ok (ag_factory a)" by (simp_all add: agent_ok_def)
  have "count_list (map (job_name a) (invocations a)) k = count (image_mset (job_name a) (mset (invocations a))) k"
    by (metis count_mset mset_map)
  with j f show ?thesis unfolding jobs_ok_def by (simp add: tasks.contains_iff [OF f])
qed

theorem engine_one_job_per_task_witness:
  "\<exists>a. dispatchRunTask example_engine example_info initial_agent = Some (Returns ((), a))
    \<and> count_list (map (job_name a) (invocations a)) ''t-1'' = 1 \<and> ContainsTaskByName (ag_factory a) ''t-1''
    \<and> count_list (map (job_name a) (invocations a)) ''t-2'' = 0 \<and> \<not> ContainsTaskByName (ag_factory a) ''t-2''"
proof -
  obtain a t where a: "dispatchRunTask example_engine example_info initial_agent = Some (Returns ((), a))"
    "pool_jobs (ag_pool a) = [RunTaskJob 0]" "ag_tasks a 0 = Some t" "t_info t = example_info" "ag_added a = []" "ag_dropped a = []"
    using example_once by blast
  have n: "map (job_name a) (invocations a) = [''t-1'']"
    using a by (simp add: invocations_def job_name_def job_task_def task_id_def example_info_def)
  note r = engine_one_job_per_task [OF example_reachable [OF a(1)]]
  have "ContainsTaskByName (ag_factory a) ''t-1''" "\<not> ContainsTaskByName (ag_factory a) ''t-2''"
    using r [of "''t-1''"] r [of "''t-2''"] unfolding n a(6) by (auto split: if_splits)
  then show ?thesis using a(1) by (simp add: n)
qed

section \<open>Two invocations of one task\<close>

lemma engine_steps_trans: "engine_reachable en a \<Longrightarrow> (engine_step en)\<^sup>*\<^sup>* a b \<Longrightarrow> engine_reachable en b"
  by (rotate_tac, induction rule: rtranclp_induct) (auto intro: engine_reachable.step)

lemma engine_step_to: "engine_step en a b \<Longrightarrow> b = c \<Longrightarrow> engine_step en a c"
  by simp

text \<open>C23. When two goroutines of one timer are in its callback at once, which \<open>runTimer\<close> does not exclude, both can
  find the name missing from the factory before either adds it: the second \<open>AddTask\<close> fails, its error is
  dropped, and both send an invocation of the one task object to the pool.\<close>

theorem invocations_can_overlap:
  assumes r: "engine_reachable en a" and t: "ag_timers a = Some m" "tm_heap m tm = Some t"
    and ij: "i < length (runners t)" "j < length (runners t)" "i \<noteq> j" "runners t ! i = Calling" "runners t ! j = Calling"
    and idle: "ag_checked a = []" "ag_added a = []"
    and k: "bound_to a (callback t) tm k" "\<not> ContainsTaskByName (ag_factory a) k"
  shows "\<exists>b. engine_reachable en b \<and> ag_dropped b = ag_dropped a @ [k]
    \<and> mset (pool_jobs (ag_pool b)) = mset (pool_jobs (ag_pool a)) + {# RunScheduleJob (callback t), RunScheduleJob (callback t) #}
    \<and> job_name b (RunScheduleJob (callback t)) = k"
proof -
  let ?s = "callback t"
  have ok: "agent_ok a" using engine_reachable_ok [OF r] .
  then have tf: "tf_ok (ag_factory a)" by (simp add: agent_ok_def)
  obtain p where p: "ag_schedules a ?s = Some \<lparr>ps_timer = Some tm, ps_reusableInvocation = Some p\<rparr>" "task_name a p = Some k"
    using k(1) by (auto simp: bound_to_def)
  have id: "task_id a p = k" using task_id_name [OF p(2)] .
  have new: "GetTask (ag_factory a) k = None" using k(2) tasks.contains_iff [OF tf] by simp
  define f where "f = snd (AddNamedTask k p (ag_factory a))"
  have g: "GetTask f k = Some p" unfolding f_def using tasks.lookup_insert [OF tf new] by simp
  define a1 where "a1 = a\<lparr>ag_checked := [(tm, i)]\<rparr>"
  define a2 where "a2 = a\<lparr>ag_checked := [(tm, j), (tm, i)]\<rparr>"
  define a3 where "a3 = a\<lparr>ag_factory := f, ag_checked := [(tm, j)], ag_added := [((tm, i), ?s)]\<rparr>"
  define a4 where "a4 = a\<lparr>ag_factory := f, ag_checked := [], ag_added := [((tm, j), ?s), ((tm, i), ?s)], ag_dropped := ag_dropped a @ [k]\<rparr>"
  define m1 where "m1 = m\<lparr>tm_heap := (tm_heap m)(tm \<mapsto> runner_step i t)\<rparr>"
  define a5 where "a5 = a4\<lparr>ag_timers := Some m1, ag_pool := RunTask (RunScheduleJob ?s) (ag_pool a), ag_added := [((tm, j), ?s)]\<rparr>"
  define b where "b = a5\<lparr>ag_timers := Some (m1\<lparr>tm_heap := (tm_heap m1)(tm \<mapsto> runner_step j (runner_step i t))\<rparr>),
    ag_pool := RunTask (RunScheduleJob ?s) (ag_pool a5), ag_added := []\<rparr>"
  have "engine_step en a a1"
    using engine_step.passes [of a m tm t i a en] t ij idle p(1) id k(2)
    by (simp add: startExclusive_contained_def a1_def ret_def)
  moreover have "engine_step en a1 a2"
    using engine_step.passes [of a1 m tm t j a1 en] t ij idle p(1) id k(2)
    by (simp add: startExclusive_contained_def a1_def a2_def ret_def task_id_def)
  moreover have "engine_step en a2 a3"
    by (rule engine_step_to [OF engine_step.adds [of tm i a2 m t "()" "a2\<lparr>ag_factory := f\<rparr>" en]], use t ij idle p(1) id AddNamedTask_fresh [OF new] in
      \<open>simp_all add: startExclusive_adds_def a2_def a3_def ret_def AddTask_def f_def task_id_def split_beta\<close>)
  moreover have "engine_step en a3 a4"
    by (rule engine_step_to [OF engine_step.adds [of tm j a3 m t "()" "a3\<lparr>ag_dropped := ag_dropped a @ [k]\<rparr>" en]], use t ij idle p(1) id AddNamedTask_duplicate [OF g] in
      \<open>simp_all add: startExclusive_adds_def a3_def a4_def ret_def AddTask_def task_id_def split_beta\<close>)
  moreover have "engine_step en a4 a5"
    by (rule engine_step_to [OF engine_step.sends [of tm i ?s a4 m t "()" "a4\<lparr>ag_pool := RunTask (RunScheduleJob ?s) (ag_pool a)\<rparr>" en]], use t ij in
      \<open>simp_all add: startExclusive_sends_def a4_def a5_def m1_def ret_def\<close>)
  moreover have "engine_step en a5 b"
    by (rule engine_step_to [OF engine_step.sends [of tm j ?s a5 m1 "runner_step i t" "()" "a5\<lparr>ag_pool := RunTask (RunScheduleJob ?s) (ag_pool a5)\<rparr>" en]])
      (simp_all add: startExclusive_sends_def a5_def b_def m1_def ret_def)
  ultimately have "engine_reachable en b" using r by (meson engine_reachable.step)
  moreover have "job_name b (RunScheduleJob ?s) = k"
    using p(1) id by (simp add: job_name_def job_task_def b_def a5_def a4_def task_id_def)
  ultimately show ?thesis by (intro exI [of _ b]) (simp add: b_def a5_def a4_def)
qed

text \<open>A task every ten minutes whose timer is skipped twice before its first callback runs.\<close>

definition example_rate :: RunTaskInfo where
  "example_rate = example_info\<lparr>ri_TaskId := ''p-2'', ri_Cronat := ''rate(10m)'', ri_Repeat := RunTaskRate, ri_CreationTime := 0\<rparr>"

definition with_timer :: "nat \<Rightarrow> ('e, 'l, nat) timer \<Rightarrow> ('e, 'l, 'p) agent \<Rightarrow> ('e, 'l, nat) timer_manager \<Rightarrow> ('e, 'l, 'p) agent" where
  "with_timer tm t a m = a\<lparr>ag_timers := Some (m\<lparr>tm_heap := (tm_heap m)(tm \<mapsto> t)\<rparr>)\<rparr>"

lemma reach_timer:
  assumes "engine_reachable en (with_timer tm t a m)" "timer_step (en_lib en) t t'" "quit t' \<le> quit t" "calling t \<le> calling t'"
  shows "engine_reachable en (with_timer tm t' a m)"
  using engine_reachable.step [OF assms(1) engine_step.timer [of "with_timer tm t a m" "m\<lparr>tm_heap := (tm_heap m)(tm \<mapsto> t)\<rparr>" tm t, OF _ _ assms(2-4)]]
  by (simp add: with_timer_def)

lemma example_rated:
  "\<exists>a m t. dispatchRunTask example_engine example_rate initial_agent = Some (Returns ((), a))
    \<and> a = with_timer 0 t a m \<and> ag_checked a = [] \<and> ag_added a = [] \<and> ag_factory a = GetTaskFactory None \<and> pool_jobs (ag_pool a) = []
    \<and> bound_to a 0 0 ''p-2'' \<and> callback t = 0 \<and> Schedule t = RateScheduled 0 600000000000 \<and> runners t = []
    \<and> \<not> skipWait t \<and> \<not> isRunning t \<and> \<not> quit t \<and> (\<exists>d. timer_loop t = Waiting d)"
proof -
  have n: "NewRateScheduled ''rate(10m)'' (creation_instant 0) = Inr (RateScheduled 0 600000000000 :: (int, unit) schedule)"
  proof -
    have "rate_match ''rate(10m)'' = Some (''10'', ''m'')" "atoi ''10'' = (10, None)" "rate_period_of 10 ''m'' = Some 600000000000"
      "frequencyUpperLimit = 86400000000000000" "creation_instant 0 = 0" by code_simp+
    then show ?thesis by (simp add: NewRateScheduled_def)
  qed
  have r: "TimerRun toy_lib (clock silent_env 0) (NewTimer (RateScheduled 0 600000000000) (0 :: nat))
    = (Returns None, (NewTimer (RateScheduled 0 600000000000) 0)\<lparr>timer_loop := Waiting 600000000000\<rparr>)"
  proof -
    have "RateNextRunFrom 0 600000000000 0 = Returns (600000000000, None)" "clock silent_env 0 = 0" by code_simp+
    then show ?thesis by (simp add: TimerRun_def NewTimer_def)
  qed
  show ?thesis
    by (simp add: dispatchRunTask_def existing_task_def initial_agent_def GetTaskFactory_def GetTask_def getPeriodicTask_def
      schedule_task_def example_rate_def schedulePeriodicTask_def InitTimerManager_def create_timer_def
      CreateRateTimer_def example_engine_def n register_timer_def read_clock_def tick_def
      register_periodic_def new_task_at_def Let_def r [unfolded NewTimer_def] NewTimer_def ret_def)
      (simp add: with_timer_def pool_jobs_def newTaskPool_def running_def bound_to_def task_name_def,
       intro exI [of _ "\<lparr>tm_heap = Map.empty, tm_fresh = Suc 0, tm_timers = [0]\<rparr>"], auto)
qed

lemma example_in_callback:
  "\<exists>a m t. engine_reachable example_engine a \<and> ag_timers a = Some m \<and> tm_heap m 0 = Some t \<and> runners t = [Calling, Calling]
    \<and> ag_checked a = [] \<and> ag_added a = [] \<and> bound_to a 0 0 ''p-2'' \<and> callback t = 0
    \<and> ag_factory a = GetTaskFactory None \<and> pool_jobs (ag_pool a) = []"
proof -
  obtain a m t0 d where d: "dispatchRunTask example_engine example_rate initial_agent = Some (Returns ((), a))"
    and a: "a = with_timer 0 t0 a m" "ag_checked a = []" "ag_added a = []" "ag_factory a = GetTaskFactory None" "pool_jobs (ag_pool a) = []"
    "bound_to a 0 0 ''p-2''"
    and t: "callback t0 = 0" "Schedule t0 = RateScheduled 0 600000000000" "runners t0 = []" "\<not> skipWait t0" "\<not> isRunning t0" "\<not> quit t0"
    "timer_loop t0 = Waiting d"
    using example_rated by blast
  have lib: "en_lib example_engine = toy_lib" by (simp add: example_engine_def)
  have nx: "next_cycle toy_lib 0 u = u\<lparr>Schedule := RateScheduled 0 600000000000, timer_loop := Waiting 600000000000\<rparr>"
    if "Schedule u = RateScheduled 0 600000000000" for u :: "(int, unit, nat) timer"
  proof -
    have "RateNextRunFrom 0 600000000000 0 = Returns (600000000000, None)" by code_simp
    then show ?thesis using that by (simp add: next_cycle_def)
  qed
  define t1 where "t1 = t0\<lparr>skipWait := True\<rparr>"
  define t2 where "t2 = on_skip toy_lib 0 t1"
  define t3 where "t3 = t2\<lparr>skipWait := True\<rparr>"
  define t4 where "t4 = on_skip toy_lib 0 t3"
  note defs = t1_def t2_def t3_def t4_def on_skip_def spawn_runner_def nx t calling_def
  have r0: "engine_reachable example_engine (with_timer 0 t0 a m)" using example_reachable [OF d] a(1) by metis
  have r1: "engine_reachable example_engine (with_timer 0 t1 a m)"
    by (rule reach_timer [OF r0], unfold lib, rule timer_step.send_skip) (simp_all add: SkipWaiting_def defs)
  have r2: "engine_reachable example_engine (with_timer 0 t2 a m)"
    by (rule reach_timer [OF r1], unfold lib t2_def, rule timer_step.skip) (simp_all add: defs)
  have r3: "engine_reachable example_engine (with_timer 0 t3 a m)"
    by (rule reach_timer [OF r2], unfold lib, rule timer_step.send_skip) (simp_all add: SkipWaiting_def defs)
  have r4: "engine_reachable example_engine (with_timer 0 t4 a m)"
    by (rule reach_timer [OF r3], unfold lib t4_def, rule timer_step.skip) (simp_all add: defs)
  have run: "engine_reachable example_engine (with_timer 0 (runner_step i u) a m)"
    if "engine_reachable example_engine (with_timer 0 u a m)" "i < length (runners u)" "calling u \<le> calling (runner_step i u)" for i u
    by (rule reach_timer [OF that(1) timer_step.runner [OF that(2)]]) (use that(3) in simp_all)
  have l4: "runners t4 = [Checking, Checking]" "\<not> isRunning t4" by (simp_all add: defs)
  define t5 where "t5 = runner_step 0 t4"
  define t6 where "t6 = runner_step (Suc 0) t5"
  define t7 where "t7 = runner_step 0 t6"
  define t8 where "t8 = runner_step (Suc 0) t7"
  have l5: "runners t5 = [Entering, Checking]" "\<not> isRunning t5" using l4 by (simp_all add: t5_def runner_step_def)
  have l6: "runners t6 = [Entering, Entering]" using l5 by (simp add: t6_def runner_step_def)
  have l7: "runners t7 = [Calling, Entering]" using l6 by (simp add: t7_def runner_step_def)
  have l8: "runners t8 = [Calling, Calling]" using l7 by (simp add: t8_def runner_step_def)
  have r5: "engine_reachable example_engine (with_timer 0 t5 a m)"
    unfolding t5_def by (rule run [OF r4]) (use l4 l5(1) in \<open>simp_all add: calling_def flip: t5_def\<close>)
  have r6: "engine_reachable example_engine (with_timer 0 t6 a m)"
    unfolding t6_def by (rule run [OF r5]) (use l5(1) l6 in \<open>simp_all add: calling_def flip: t6_def\<close>)
  have r7: "engine_reachable example_engine (with_timer 0 t7 a m)"
    unfolding t7_def by (rule run [OF r6]) (use l6 l7 in \<open>simp_all add: calling_def flip: t7_def\<close>)
  have r8: "engine_reachable example_engine (with_timer 0 t8 a m)"
    unfolding t8_def by (rule run [OF r7]) (use l7 l8 in \<open>simp_all add: calling_def flip: t8_def\<close>)
  have "callback t8 = 0"
    by (simp add: t8_def t7_def t6_def t5_def runner_step_def defs split: runner.split)
  moreover have "bound_to (with_timer 0 t8 a m) 0 0 ''p-2''" using a(6) by (simp add: with_timer_def)
  ultimately show ?thesis using r8 l8 a(2-5)
    by (intro exI [of _ "with_timer 0 t8 a m"] exI [of _ "m\<lparr>tm_heap := (tm_heap m)(0 \<mapsto> t8)\<rparr>"] exI [of _ t8])
      (simp add: with_timer_def)
qed

theorem invocations_can_overlap_witness:
  "\<exists>b. engine_reachable example_engine b \<and> mset (pool_jobs (ag_pool b)) = {# RunScheduleJob 0, RunScheduleJob 0 #}
    \<and> job_name b (RunScheduleJob 0) = ''p-2''"
proof -
  obtain a m t where a: "engine_reachable example_engine a" "ag_timers a = Some m" "tm_heap m 0 = Some t"
    and r: "runners t = [Calling, Calling]" and e: "ag_checked a = []" "ag_added a = []"
    and b: "bound_to a 0 0 ''p-2''" "callback t = 0" "ag_factory a = GetTaskFactory None" "pool_jobs (ag_pool a) = []"
    using example_in_callback by blast
  have "\<not> ContainsTaskByName (ag_factory a) ''p-2''" using b(3) by (simp add: ContainsTaskByName_def GetTaskFactory_def)
  with invocations_can_overlap [OF a, of 0 1 "''p-2''"] r e b show ?thesis by auto
qed

section \<open>Schedules and timers\<close>

lemma registered_iff:
  assumes ok: "timers_ok a m" and tm: "tm \<in> set (tm_timers m)"
  shows "\<exists>t k. tm_heap m tm = Some t \<and> \<not> quit t \<and> bound_to a (callback t) tm k \<and> ag_periodic a k = Some (callback t)"
proof -
  obtain t k where t: "tm_heap m tm = Some t" "\<not> quit t" "ag_periodic a k = Some (callback t)"
    using ok tm unfolding timers_ok_def by meson
  obtain tm' t' where t': "tm_heap m tm' = Some t'" "callback t' = callback t" "bound_to a (callback t) tm' k"
    using periodic_bound [OF ok t(3)] by metis
  obtain k' where "bound_to a (callback t) tm k'" using ok t(1) unfolding timers_ok_def by meson
  with t'(3) bound_to_unique have "bound_to a (callback t) tm k" by metis
  with t show ?thesis by blast
qed

text \<open>C2. In every state the engine reaches, the periodic schedules and the timers of the manager correspond one
  to one: a registered name has a registered timer that was not told to stop and whose callback starts
  an invocation of that very task, and every registered timer belongs to one registered name.\<close>

theorem schedules_match_timers:
  assumes "engine_reachable en a" "ag_timers a = Some m"
  shows "(ag_periodic a k = Some s \<longleftrightarrow>
      (\<exists>tm t. tm \<in> set (tm_timers m) \<and> tm_heap m tm = Some t \<and> \<not> quit t \<and> callback t = s \<and> bound_to a s tm k))
    \<and> (\<forall>tm t k'. bound_to a s tm k \<and> bound_to a s t k' \<longrightarrow> t = tm \<and> k' = k)"
proof -
  have ok: "timers_ok a m" using agent_ok_timers [OF engine_reachable_ok [OF assms(1)] assms(2)] .
  have "ag_periodic a k = Some s"
    if h: "tm \<in> set (tm_timers m)" "tm_heap m tm = Some t" "callback t = s" "bound_to a s tm k" for tm t
  proof -
    obtain k' where "bound_to a s tm k'" "ag_periodic a k' = Some s"
      using registered_iff [OF ok h(1)] h(2,3) by auto
    then show ?thesis using bound_to_unique [OF h(4)] by auto
  qed
  moreover have "\<exists>tm t. tm \<in> set (tm_timers m) \<and> tm_heap m tm = Some t \<and> \<not> quit t \<and> callback t = s \<and> bound_to a s tm k"
    if "ag_periodic a k = Some s"
    using periodic_bound [OF ok that] by metis
  ultimately have "ag_periodic a k = Some s \<longleftrightarrow>
      (\<exists>tm t. tm \<in> set (tm_timers m) \<and> tm_heap m tm = Some t \<and> \<not> quit t \<and> callback t = s \<and> bound_to a s tm k)"
    by metis
  moreover have "\<forall>tm t k'. bound_to a s tm k \<and> bound_to a s t k' \<longrightarrow> t = tm \<and> k' = k"
    using bound_to_unique by metis
  ultimately show ?thesis by (rule conjI)
qed

theorem schedules_match_timers_witness:
  "\<exists>a m t. dispatchRunTask example_engine example_cron initial_agent = Some (Returns ((), a))
    \<and> ag_timers a = Some m \<and> tm_heap m 0 = Some t \<and> \<not> quit t \<and> bound_to a 0 0 ''p-1''"
proof -
  obtain a m t where a: "dispatchRunTask example_engine example_cron initial_agent = Some (Returns ((), a))"
    "ag_periodic a = [''p-1'' \<mapsto> 0]" "ag_timers a = Some m" "tm_timers m = [0]" "tm_heap m 0 = Some t"
    using example_scheduled by blast
  with schedules_match_timers [OF example_reachable [OF a(1)] a(3), of "''p-1''" 0]
  show ?thesis by auto
qed

section \<open>Stopping\<close>

text \<open>C6. Stopping a periodic task never waits for a channel. When it returns, exactly its name is
  deregistered, its timer has left the manager with a request to stop, and the timers of the other
  tasks are untouched; jobs are left to the pool.\<close>

theorem stop_periodic_takes_effect:
  assumes "engine_reachable en a" "periodic (ri_Repeat info)" "ag_periodic a (ri_TaskId info) = Some s"
  shows "dispatchStopTask en info a \<noteq> None
    \<and> (\<forall>u a'. dispatchStopTask en info a = Some (Returns (u, a')) \<longrightarrow>
        ag_periodic a' = (ag_periodic a)(ri_TaskId info := None) \<and> ag_factory a' = ag_factory a \<and> ag_pool a' = ag_pool a
        \<and> (\<exists>m m' tm t. ag_timers a = Some m \<and> ag_timers a' = Some m' \<and> bound_to a s tm (ri_TaskId info)
             \<and> tm_heap m' = (tm_heap m)(tm \<mapsto> t) \<and> quit t \<and> tm \<notin> set (tm_timers m') \<and> set (tm_timers m) = insert tm (set (tm_timers m'))))"
proof -
  have ok: "agent_ok a" using engine_reachable_ok [OF assms(1)] .
  then obtain m where m: "ag_timers a = Some m" by (auto simp: agent_ok_def)
  obtain tm t m' where d: "bound_to a s tm (ri_TaskId info)" "tm \<in> set (tm_timers m)" "tm_heap m tm = Some t" "DeleteTimer tm m = Some m'"
    "m' = m\<lparr>tm_heap := (tm_heap m)(tm \<mapsto> t\<lparr>quit := True\<rparr>), tm_timers := removeAll tm (tm_timers m)\<rparr>"
    "agent_ok (a\<lparr>ag_timers := Some m', ag_periodic := (ag_periodic a)(ri_TaskId info := None)\<rparr>)"
    using deregister_ok [OF ok m assms(3)] by metis
  define b where "b = a\<lparr>ag_timers := Some m', ag_periodic := (ag_periodic a)(ri_TaskId info := None)\<rparr>"
  have bt: "Option.bind (ag_schedules a s) ps_timer = Some tm" using d(1) by (auto simp: bound_to_def)
  have nn: "\<not> non_periodic (ri_Repeat info)" using assms(2) not_both_classes by blast
  define r where "r = (case GetTask (ag_factory b) (ri_TaskId info) of Some p \<Rightarrow> cancel_task en False p b | None \<Rightarrow> ack_canceled en s b)"
  have e: "dispatchStopTask en info a = and_then r (\<lambda>u. ret ())"
    using assms(2,3) m bt d(4) nn
    by (auto simp: dispatchStopTask_def cancelPeriodicTask_def r_def b_def Let_def split: option.split)
      (auto simp: cancel_task_def ack_canceled_def ret_def crash_def split: option.split outcome.split)
  have "r \<noteq> None" by (auto simp: r_def cancel_task_def ack_canceled_def ret_def crash_def split: option.split outcome.split)
  then have "dispatchStopTask en info a \<noteq> None" unfolding e by (cases r rule: option.exhaust; simp) (rename_tac x, case_tac x, auto simp: ret_def)
  moreover have "ag_periodic a' = ag_periodic b \<and> ag_timers a' = ag_timers b \<and> ag_factory a' = ag_factory b \<and> ag_pool a' = ag_pool b"
    if "dispatchStopTask en info a = Some (Returns (u, a'))" for u a'
    using that cancel_task_ok [OF d(6) [folded b_def]] ack_canceled_ok [OF d(6) [folded b_def]]
    unfolding e r_def by (fastforce simp: and_then_returns split: option.splits)
  moreover have "\<exists>m m' tm t. ag_timers a = Some m \<and> ag_timers b = Some m' \<and> bound_to a s tm (ri_TaskId info)
      \<and> tm_heap m' = (tm_heap m)(tm \<mapsto> t) \<and> quit t \<and> tm \<notin> set (tm_timers m') \<and> set (tm_timers m) = insert tm (set (tm_timers m'))"
    using m d(1,2,5) by (intro exI [of _ m] exI [of _ m'] exI [of _ tm] exI [of _ "t\<lparr>quit := True\<rparr>"]) (auto simp: b_def)
  moreover have "ag_periodic b = (ag_periodic a)(ri_TaskId info := None)" "ag_factory b = ag_factory a" "ag_pool b = ag_pool a"
    by (simp_all add: b_def)
  ultimately show ?thesis by simp
qed

theorem stop_periodic_takes_effect_witness:
  "\<exists>a. dispatchRunTask example_engine example_cron initial_agent = Some (Returns ((), a))
    \<and> dispatchStopTask example_engine example_cron a \<noteq> None"
proof -
  obtain a where a: "dispatchRunTask example_engine example_cron initial_agent = Some (Returns ((), a))"
    "ag_periodic a = [''p-1'' \<mapsto> 0]"
    using example_scheduled by blast
  have "periodic (ri_Repeat example_cron)" "ag_periodic a (ri_TaskId example_cron) = Some 0"
    using a(2) by (simp_all add: example_cron_def)
  from stop_periodic_takes_effect [OF example_reachable [OF a(1)] this] a(1) show ?thesis by blast
qed

section \<open>Schedules that fail\<close>

text \<open>C22. An expression that is not accepted is reported once, under the parameter cron with the code of the
  error, and leaves every registry and timer as it was: the task stays unknown to the agent.\<close>

theorem schedule_failure_reported:
  assumes "ag_timers a = Some m" "ag_periodic a (ri_TaskId info) = None"
    and "create_timer en info (ag_fresh a) m (ag_world a) = ((Inl err, m'), w)"
  shows "\<exists>a' es. schedulePeriodicTask en info a = Some (Returns (Some err, a'))
    \<and> ag_periodic a' = ag_periodic a \<and> ag_timers a' = ag_timers a \<and> ag_factory a' = ag_factory a \<and> ag_pool a' = ag_pool a
    \<and> ag_tasks a' = ag_tasks a
    \<and> trace (ag_world a') = trace (ag_world a) @ es \<and> posts es \<noteq> [] \<and> length (posts es) \<le> 4
    \<and> set (posts es) = {HttpSent ''POST'' (invalid_task_url (en_env en) (ri_TaskId info) (ri_InvokeVersion info) ''cron''
        (cron_error_value err)) []}"
proof -
  let ?url = "invalid_task_url (en_env en) (ri_TaskId info) (ri_InvokeVersion info) ''cron'' (cron_error_value err)"
  have c: "m' = m" "trace w = trace (ag_world a)" using create_timer_cases [OF assms(3)] by simp_all
  obtain es where es: "trace (snd (post_retrying (en_env en) ?url [] w)) = trace w @ es" "posts es \<noteq> []"
    "length (posts es) \<le> 4" "set (posts es) \<subseteq> {HttpSent ''POST'' ?url []}"
    using retrying.appends [of "en_env en" "(?url, [])" w] by auto
  then have "set (posts es) = {HttpSent ''POST'' ?url []}" by (cases "posts es") auto
  with es c assms show ?thesis
    by (auto simp: schedulePeriodicTask_def Let_def on_world_def reportInvalidTask_def invalidParamCron_def ret_def)
qed

text \<open>A rate of ten minutes in place of the expression for a fixed moment.\<close>

definition example_broken :: RunTaskInfo where
  "example_broken = example_cron\<lparr>ri_Repeat := RunTaskRate, ri_Cronat := ''10 minutes''\<rparr>"

theorem schedule_failure_reported_witness:
  "\<exists>a'. schedulePeriodicTask example_engine example_broken initial_agent = Some (Returns (Some ErrInvalidRateExpression, a'))
    \<and> ag_periodic a' = Map.empty"
proof -
  have r: "NewRateScheduled ''10 minutes'' t = Inl ErrInvalidRateExpression" for t
  proof -
    have "rate_match ''10 minutes'' = None" by code_simp
    then show ?thesis by (simp add: NewRateScheduled_def)
  qed
  have "create_timer example_engine example_broken (ag_fresh initial_agent)
      \<lparr>tm_heap = (\<lambda>_. None), tm_fresh = 0, tm_timers = []\<rparr> (ag_world initial_agent)
    = ((Inl ErrInvalidRateExpression, \<lparr>tm_heap = (\<lambda>_. None), tm_fresh = 0, tm_timers = []\<rparr>), \<lparr>ticks = 0, trace = []\<rparr>)"
    by (simp add: create_timer_def example_broken_def example_cron_def CreateRateTimer_def r initial_agent_def)
  from schedule_failure_reported [OF _ _ this] show ?thesis
    by (simp add: initial_agent_def InitTimerManager_def) blast
qed

section \<open>A version change that crashes\<close>

text \<open>C18. A new version of a task that comes as periodic while an invocation is in the factory but no schedule is
  registered makes the agent dereference a nil schedule: the quiet cancellation skips the test for a
  missing entry. This is the state after a periodic task was stopped while an invocation is still ending.\<close>

theorem version_change_crashes:
  assumes "GetTask (ag_factory a) (ri_TaskId info) = Some p" "ag_tasks a p = Some t" "ri_TaskId (t_info t) = ri_TaskId info"
    "ri_InvokeVersion (t_info t) \<noteq> ri_InvokeVersion info" "periodic (ri_Repeat info)"
    "ag_timers a \<noteq> None" "ag_periodic a (ri_TaskId info) = None"
  shows "dispatchRunTask en info a = Some (Panics NilDereference)"
  using assms by (auto simp: dispatchRunTask_def existing_task_def cancelPeriodicTask_def crash_def)

theorem version_change_crashes_witness:
  "\<exists>a. dispatchRunTask example_engine example_info initial_agent = Some (Returns ((), a))
    \<and> dispatchRunTask example_engine (example_info\<lparr>ri_InvokeVersion := 2, ri_Repeat := RunTaskCron\<rparr>) a
        = Some (Panics NilDereference)"
proof -
  obtain a t where a: "dispatchRunTask example_engine example_info initial_agent = Some (Returns ((), a))"
    "GetTask (ag_factory a) ''t-1'' = Some 0" "ag_tasks a 0 = Some t" "t_info t = example_info"
    "ag_periodic a = Map.empty" "ag_timers a = InitTimerManager None"
    using example_once by blast
  have "dispatchRunTask example_engine (example_info\<lparr>ri_InvokeVersion := 2, ri_Repeat := RunTaskCron\<rparr>) a
      = Some (Panics NilDereference)"
    by (rule version_change_crashes [of a _ 0 t]) (use a in \<open>simp_all add: example_info_def InitTimerManager_def\<close>)
  with a(1) show ?thesis by blast
qed

section \<open>Fetching\<close>

text \<open>The handlers leave the fetch counter, the flags and the sessions alone.\<close>

definition same_flags :: "('e, 'l, 'p) agent \<Rightarrow> ('e, 'l, 'p) agent \<Rightarrow> bool" where
  "same_flags a b \<longleftrightarrow> ag_counter b = ag_counter a \<and> ag_startup b = ag_startup a \<and> ag_enabled b = ag_enabled a
     \<and> ag_sessions b = ag_sessions a"

lemma same_flags_trans: "same_flags a b \<Longrightarrow> same_flags b c \<Longrightarrow> same_flags a c"
  by (simp add: same_flags_def)

lemma flags_cancel_task: "cancel_task en q p a = Some (Returns (u, a')) \<Longrightarrow> same_flags a a'"
  by (auto simp: cancel_task_def set_task_def same_flags_def split: option.splits outcome.splits)

lemma flags_cancelPeriodicTask: "cancelPeriodicTask en info q a = Some (Returns (u, a')) \<Longrightarrow> same_flags a a'"
  by (auto simp: cancelPeriodicTask_def ack_canceled_def set_task_def on_world_def Let_def and_then_returns same_flags_def
      dest!: flags_cancel_task split: option.splits outcome.splits if_splits)

lemma flags_new_task: "new_task_at en info l f a = (p, a') \<Longrightarrow> same_flags a a'"
  by (auto simp: new_task_at_def Let_def same_flags_def)

lemma flags_register_periodic: "register_periodic en info s tm l f a = Some (Returns (u, a')) \<Longrightarrow> same_flags a a'"
  by (auto simp: register_periodic_def Let_def same_flags_def new_task_at_def split: option.splits outcome.splits prod.splits)

lemma flags_schedulePeriodicTask:
  assumes "schedulePeriodicTask en info a = Some (Returns (u, a'))"
  shows "same_flags a a'"
proof -
  have "same_flags a a'" if "register_periodic en info s tm l f (a\<lparr>ag_schedules := x, ag_fresh := y, ag_timers := z, ag_world := w\<rparr>)
      = Some (Returns (u, a'))" for s tm l f x y z w
    using flags_register_periodic [OF that] by (simp add: same_flags_def)
  with assms show ?thesis
    by (auto simp: schedulePeriodicTask_def Let_def on_world_def same_flags_def
        split: option.splits if_splits prod.splits sum.splits schedule.splits)
qed

lemma flags_dispatchRunTask:
  assumes "dispatchRunTask en info a = Some (Returns (u, a'))"
  shows "same_flags a a'"
proof -
  have s: "same_flags b b'" if "schedule_task en info b = Some (Returns (v, b'))" for b b' v
    using that flags_new_task
    by (auto simp: schedule_task_def start_non_periodic_def and_then_returns same_flags_def
        dest!: flags_schedulePeriodicTask split: if_splits prod.splits) (auto simp: new_task_at_def Let_def)
  have "same_flags a a'" if "cancelPeriodicTask en i True a = Some (Returns (e, b))"
    "schedule_task en info b = Some (Returns (v, a'))" for i e b v
    using same_flags_trans [OF flags_cancelPeriodicTask [OF that(1)] s [OF that(2)]] .
  with assms s [of a u a'] show ?thesis
    by (auto simp: dispatchRunTask_def and_then_returns split: option.splits if_splits) (simp add: same_flags_def)+
qed

lemma flags_dispatchStopTask: "dispatchStopTask en info a = Some (Returns (u, a')) \<Longrightarrow> same_flags a a'"
  by (auto simp: dispatchStopTask_def and_then_returns on_world_def same_flags_def
      dest!: flags_cancel_task flags_cancelPeriodicTask split: option.splits if_splits)

lemma flags_dispatchTestTask: "dispatchTestTask en info a = Some (Returns (u, a')) \<Longrightarrow> same_flags a a'"
  by (auto simp: dispatchTestTask_def same_flags_def new_task_at_def Let_def split: if_splits)

lemma flags_run_all:
  assumes "\<And>x s u s'. f x s = Some (Returns (u, s')) \<Longrightarrow> same_flags s s'"
  shows "run_all f xs s = Some (Returns (u, s')) \<Longrightarrow> same_flags s s'"
proof (induction xs arbitrary: s)
  case (Cons x xs)
  then show ?case using assms same_flags_trans by (fastforce simp: and_then_returns)
qed (simp add: same_flags_def)

text \<open>What one call of \<open>fetchTasks\<close> does with the answer: the sessions of it are handed on, its items counted.\<close>

definition answer_count :: "taskCollection \<Rightarrow> nat" where
  "answer_count infos = length (runInfos infos) + length (stopInfos infos) + length (sessionInfos infos) + length (sendFiles infos)"

definition answered :: "('e, 'l, 'p) engine \<Rightarrow> FetchReason \<Rightarrow> string \<Rightarrow> int \<Rightarrow> bool \<Rightarrow> ('e, 'l, 'p) agent \<Rightarrow> taskCollection" where
  "answered en reason taskId taskType cold a =
     fst (FetchTaskList (en_env en) (en_decode en) reason taskId taskType cold (ag_world a))"

lemma flags_fetchTasks:
  assumes "fetchTasks en reason taskId taskType cold a = Some (Returns (n, a'))"
  shows "ag_counter a' = ag_counter a \<and> ag_startup a' = ag_startup a \<and> ag_enabled a' = ag_enabled a"
    "ag_sessions a' = ag_sessions a @ [sessionInfos (answered en reason taskId taskType cold a)]"
    "n = answer_count (answered en reason taskId taskType cold a)"
proof -
  obtain infos w where i: "FetchTaskList (en_env en) (en_decode en) reason taskId taskType cold (ag_world a) = (infos, w)"
    by fastforce
  define a1 where "a1 = a\<lparr>ag_world := SendFiles (en_env en) (en_machine en) (sendFiles infos) w,
    ag_sessions := ag_sessions a @ [sessionInfos infos]\<rparr>"
  obtain a2 a3 where s: "run_all (dispatchRunTask en) (runInfos infos) a1 = Some (Returns ((), a2))"
    "run_all (dispatchStopTask en) (stopInfos infos) a2 = Some (Returns ((), a3))"
    "run_all (dispatchTestTask en) (testInfos infos) a3 = Some (Returns ((), a'))"
    "n = answer_count infos"
    using assms i by (auto simp: fetchTasks_def a1_def and_then_returns answer_count_def)
  have "same_flags a1 a2" by (rule flags_run_all [OF flags_dispatchRunTask s(1)])
  moreover have "same_flags a2 a3" by (rule flags_run_all [OF flags_dispatchStopTask s(2)])
  moreover have "same_flags a3 a'" by (rule flags_run_all [OF flags_dispatchTestTask s(3)])
  ultimately have "same_flags a1 a'" by (simp add: same_flags_def)
  moreover have "infos = answered en reason taskId taskType cold a" by (simp add: answered_def i)
  ultimately show "ag_counter a' = ag_counter a \<and> ag_startup a' = ag_startup a \<and> ag_enabled a' = ag_enabled a"
    "ag_sessions a' = ag_sessions a @ [sessionInfos (answered en reason taskId taskType cold a)]"
    "n = answer_count (answered en reason taskId taskType cold a)"
    using s(4) by (simp_all add: same_flags_def a1_def)
qed



end
