(* ===== verification/Session_Message.thy ===== *)
theory Session_Message
  imports Task_Errors "HOL-Library.Word"
begin

text \<open>
  The messages of an interactive session, \<open>agent/session/message/message.go\<close>: a header of fixed
  fields, integers in little endian order, texts padded with blanks, then the payload. Bytes are
  characters. \<open>strings.TrimSpace\<close> is modelled for texts without non-ASCII white space.
\<close>

section \<open>Layout\<close>

definition InputStreamDataMessage :: "32 word" where "InputStreamDataMessage = 0"
definition OutputStreamDataMessage :: "32 word" where "OutputStreamDataMessage = 1"
definition SetSizeDataMessage :: "32 word" where "SetSizeDataMessage = 2"
definition CloseDataChannel :: "32 word" where "CloseDataChannel = 3"
definition StatusDataMessage :: "32 word" where "StatusDataMessage = 5"

lemmas message_types = InputStreamDataMessage_def OutputStreamDataMessage_def SetSizeDataMessage_def
  CloseDataChannel_def StatusDataMessage_def

definition MessageTypeOffset :: nat where "MessageTypeOffset = 0"
definition SchemaVersionOffset :: nat where "SchemaVersionOffset = MessageTypeOffset + 4"
definition SessionIdOffset :: nat where "SessionIdOffset = SchemaVersionOffset + 4"
definition CreatedDateOffset :: nat where "CreatedDateOffset = SessionIdOffset + 32"
definition SequenceNumberOffset :: nat where "SequenceNumberOffset = CreatedDateOffset + 8"
definition PayloadLengthOffset :: nat where "PayloadLengthOffset = SequenceNumberOffset + 8"
definition PayloadOffset :: nat where "PayloadOffset = PayloadLengthOffset + 4"

lemmas message_layout = MessageTypeOffset_def SchemaVersionOffset_def SessionIdOffset_def CreatedDateOffset_def
  SequenceNumberOffset_def PayloadLengthOffset_def PayloadOffset_def

text \<open>The sequence number is an \<open>int64\<close>, here the word that \<open>sint\<close> reads.\<close>

record Message =
  MessageType :: "32 word"
  SchemaVersion :: string
  SessionId :: string
  CreatedDate :: "64 word"
  SequenceNumber :: "64 word"
  PayloadLength :: "32 word"
  Payload :: string

section \<open>Integers\<close>

fun le_bytes :: "nat \<Rightarrow> nat \<Rightarrow> string" where
  "le_bytes 0 v = []"
| "le_bytes (Suc n) v = char_of (v mod 256) # le_bytes n (v div 256)"

fun le_value :: "string \<Rightarrow> nat" where
  "le_value [] = 0"
| "le_value (c # cs) = byte c + 256 * le_value cs"

definition be_value :: "string \<Rightarrow> nat" where
  "be_value s = le_value (rev s)"

definition integerToBytes :: "32 word \<Rightarrow> string" where
  "integerToBytes v = le_bytes 4 (unat v)"

definition longToBytes :: "64 word \<Rightarrow> string" where
  "longToBytes v = le_bytes 8 (unat v)"

definition bytesToInteger :: "string \<Rightarrow> go_error + 32 word" where
  "bytesToInteger input =
     (if length input \<noteq> 4 then Inl (PlainError ''Input array size is not equal to 4.'')
      else Inr (of_nat (le_value input)))"

definition bytesToLong :: "string \<Rightarrow> go_error + 64 word" where
  "bytesToLong input =
     (if length input \<noteq> 8 then Inl (PlainError ''Input array size is not equal to 8.'')
      else Inr (of_nat (le_value input)))"

text \<open>\<open>BytesToIntU\<close> reads one to four bytes in big endian order.\<close>

definition BytesToIntU :: "string \<Rightarrow> go_error + int" where
  "BytesToIntU b =
     (let b' = (if length b = 3 then char_of (0 :: nat) # b else b) in
      if length b' = 1 \<or> length b' = 2 \<or> length b' = 4 then Inr (int (be_value b'))
      else Inl (PlainError ''BytesToInt bytes lenth is invalid!''))"

section \<open>Reading\<close>

definition out_of_array :: go_error where
  "out_of_array = PlainError ''Offset is outside the byte array.''"

text \<open>
  The bounds tests: the last byte of an integer may not be the last byte of the array, because
  \<open>offset+4 > length-1\<close> is refused; a text may end with the array.
\<close>

definition getInteger :: "string \<Rightarrow> nat \<Rightarrow> go_error + 32 word" where
  "getInteger a offset =
     (if length a \<le> offset \<or> length a \<le> offset + 4 then Inl (PlainError ''Offset is bigger than the byte array.'')
      else bytesToInteger (Prelude.slice offset 4 a))"

definition getLong :: "string \<Rightarrow> nat \<Rightarrow> go_error + 64 word" where
  "getLong a offset =
     (if length a \<le> offset \<or> length a \<le> offset + 8 then Inl out_of_array else bytesToLong (Prelude.slice offset 8 a))"

definition NUL :: char where "NUL = char_of (0 :: nat)"

definition getString :: "string \<Rightarrow> nat \<Rightarrow> nat \<Rightarrow> go_error + string" where
  "getString a offset n =
     (if length a \<le> offset \<or> length a < offset + n then Inl out_of_array
      else Inr (trim_space (trim_with (\<lambda>c. c = NUL) (Prelude.slice offset n a))))"

text \<open>\<open>Deserialize\<close> ignores the error of the payload length and slices past a short array.\<close>

definition Deserialize :: "string \<Rightarrow> (go_error + Message) outcome" where
  "Deserialize input =
     (case getInteger input MessageTypeOffset of Inl e \<Rightarrow> Returns (Inl e) | Inr ty \<Rightarrow>
      case getString input SchemaVersionOffset 4 of Inl e \<Rightarrow> Returns (Inl e) | Inr schema \<Rightarrow>
      case getString input SessionIdOffset 32 of Inl e \<Rightarrow> Returns (Inl e) | Inr session \<Rightarrow>
      case getLong input CreatedDateOffset of Inl e \<Rightarrow> Returns (Inl e) | Inr created \<Rightarrow>
      case getLong input SequenceNumberOffset of Inl e \<Rightarrow> Returns (Inl e) | Inr sequence \<Rightarrow>
      if length input < PayloadOffset then Panics SliceOutOfRange
      else Returns (Inr \<lparr>MessageType = ty, SchemaVersion = schema, SessionId = session, CreatedDate = created,
        SequenceNumber = sequence,
        PayloadLength = (case getInteger input PayloadLengthOffset of Inl e \<Rightarrow> 0 | Inr n \<Rightarrow> n),
        Payload = drop PayloadOffset input\<rparr>))"

definition Validate :: "Message \<Rightarrow> go_error option" where
  "Validate m = (if CreatedDate m = 0 then Some (PlainError ''CreatedDate is missing'') else None)"

section \<open>Writing\<close>

definition putInteger :: "string \<Rightarrow> nat \<Rightarrow> 32 word \<Rightarrow> go_error + string" where
  "putInteger a offset v =
     (if length a \<le> offset \<or> length a \<le> offset + 4 then Inl out_of_array
      else Inr (splice offset (integerToBytes v) a))"

definition putLong :: "string \<Rightarrow> nat \<Rightarrow> 64 word \<Rightarrow> go_error + string" where
  "putLong a offset v =
     (if length a \<le> offset \<or> length a \<le> offset + 8 then Inl out_of_array
      else Inr (splice offset (longToBytes v) a))"

definition no_space :: "string \<Rightarrow> go_error" where
  "no_space what = PlainError (''Not enough space to save the '' @ what @ ''.'')"

text \<open>The end of the range is inclusive; for an empty payload it lies before the start.\<close>

definition putString :: "string \<Rightarrow> nat \<Rightarrow> int \<Rightarrow> string \<Rightarrow> go_error + string" where
  "putString a start last_pos s =
     (if int (length a) \<le> int start \<or> int (length a) \<le> last_pos \<or> last_pos < int start then Inl out_of_array
      else if last_pos - int start + 1 < int (length s) then Inl (no_space ''string'')
      else Inr (splice start (s @ replicate (nat (last_pos + 1) - start - length s) (CHR '' '')) a))"

definition putBytes :: "string \<Rightarrow> nat \<Rightarrow> int \<Rightarrow> string \<Rightarrow> go_error + string" where
  "putBytes a start last_pos s =
     (if int (length a) \<le> int start \<or> int (length a) \<le> last_pos \<or> last_pos < int start then Inl out_of_array
      else if last_pos - int start + 1 \<noteq> int (length s) then Inl (no_space ''bytes'')
      else Inr (splice start s a))"

definition Serialize :: "Message \<Rightarrow> go_error + string" where
  "Serialize m =
     (let payloadLength = of_nat (length (Payload m)) :: 32 word;
          result = replicate (unat (of_nat PayloadLengthOffset + 4 + payloadLength)) NUL in
      case putInteger result MessageTypeOffset (MessageType m) of Inl e \<Rightarrow> Inl e | Inr r1 \<Rightarrow>
      case putString r1 SchemaVersionOffset (int SchemaVersionOffset + 4 - 1) (SchemaVersion m) of Inl e \<Rightarrow> Inl e | Inr r2 \<Rightarrow>
      case putString r2 SessionIdOffset (int SessionIdOffset + 32 - 1) (SessionId m) of Inl e \<Rightarrow> Inl e | Inr r3 \<Rightarrow>
      case putLong r3 CreatedDateOffset (CreatedDate m) of Inl e \<Rightarrow> Inl e | Inr r4 \<Rightarrow>
      case putLong r4 SequenceNumberOffset (SequenceNumber m) of Inl e \<Rightarrow> Inl e | Inr r5 \<Rightarrow>
      case putInteger r5 PayloadLengthOffset payloadLength of Inl e \<Rightarrow> Inl e | Inr r6 \<Rightarrow>
      putBytes r6 PayloadOffset (int PayloadOffset + uint payloadLength - 1) (Payload m))"

section \<open>Lemmas\<close>

lemma length_le_bytes [simp]: "length (le_bytes n v) = n"
  by (induction n v rule: le_bytes.induct) simp_all

lemma le_value_bytes: "le_value (le_bytes n v) = v mod 256 ^ n"
proof (induction n v rule: le_bytes.induct)
  case (2 n v)
  have "v mod 256 + 256 * (v div 256 mod 256 ^ n) = v mod (256 * 256 ^ n)"
    by (simp add: mod_mult2_eq)
  moreover have "byte (char_of (v mod 256)) = v mod 256" by (rule byte_char_of) simp
  ultimately show ?case using 2 by (simp del: char_of_mod_256)
qed simp

lemma bytesToInteger_to [simp]: "bytesToInteger (integerToBytes v) = Inr v"
proof -
  have "unat v < 256 ^ 4" using unsigned_less [of v, where ?'a = nat] by simp
  then show ?thesis by (simp add: bytesToInteger_def integerToBytes_def le_value_bytes)
qed

lemma bytesToLong_to [simp]: "bytesToLong (longToBytes v) = Inr v"
proof -
  have "unat v < 256 ^ 8" using unsigned_less [of v, where ?'a = nat] by simp
  then show ?thesis by (simp add: bytesToLong_def longToBytes_def le_value_bytes)
qed

lemma length_integer_bytes [simp]: "length (integerToBytes v) = 4" "length (longToBytes w) = 8"
  by (simp_all add: integerToBytes_def longToBytes_def)

text \<open>A field of the header text: blank padding that trimming takes off again.\<close>

definition header_text :: "nat \<Rightarrow> string \<Rightarrow> bool" where
  "header_text n s \<longleftrightarrow> length s \<le> n \<and> (s = [] \<or> \<not> is_space (hd s) \<and> \<not> is_space (last s) \<and> hd s \<noteq> NUL \<and> last s \<noteq> NUL)
     \<and> list_all (\<lambda>c. byte c < 128) s"

definition pad :: "nat \<Rightarrow> string \<Rightarrow> string" where
  "pad n s = s @ replicate (n - length s) (CHR '' '')"

lemma length_pad [simp]: "length s \<le> n \<Longrightarrow> length (pad n s) = n"
  by (simp add: pad_def)

lemma splice_at:
  "length pre = i \<Longrightarrow> length mid = length src \<Longrightarrow> splice i src (pre @ mid @ post) = pre @ src @ post"
  by (simp add: splice_def)

lemma slice_at: "length pre = i \<Longrightarrow> length mid = n \<Longrightarrow> Prelude.slice i n (pre @ mid @ post) = mid"
  by (simp add: Prelude.slice_def)

lemma trim_padded:
  assumes "s = [] \<or> \<not> p (hd s) \<and> \<not> p (last s)" "p x"
  shows "trim_with p (s @ replicate k x) = s"
proof (cases "s = []")
  case True
  have "dropWhile p (replicate k x) = []" using assms(2) by (simp add: dropWhile_eq_Nil_conv)
  with True show ?thesis by (simp add: trim_with_def)
next
  case False
  then have "dropWhile p (s @ replicate k x) = s @ replicate k x"
    using assms(1) by (cases s) auto
  moreover have "dropWhile p (replicate k x @ rev s) = rev s"
    using False assms by (subst dropWhile_append2) (auto simp: dropWhile_eq_self_iff hd_rev)
  ultimately show ?thesis by (simp add: trim_with_def)
qed

lemma is_space_NUL [simp]: "is_space (CHR '' '')" "CHR '' '' \<noteq> NUL"
  by (simp add: is_space_def byte_def) (simp add: NUL_def byte_eq_iff [symmetric] byte_def)

text \<open>The bytes of a message on the wire.\<close>

definition wire :: "Message \<Rightarrow> string" where
  "wire m = integerToBytes (MessageType m) @ pad 4 (SchemaVersion m) @ pad 32 (SessionId m) @ longToBytes (CreatedDate m)
     @ longToBytes (SequenceNumber m) @ integerToBytes (of_nat (length (Payload m))) @ Payload m"

lemma of_nat_word32:
  assumes "k < 4294967296"
  shows "unat (of_nat k :: 32 word) = k" "uint (of_nat k :: 32 word) = int k"
proof -
  have "take_bit 32 k = k" using assms by (simp add: take_bit_nat_eq_self_iff)
  then show "unat (of_nat k :: 32 word) = k" by (simp add: unsigned_of_nat)
  then show "uint (of_nat k :: 32 word) = int k" by (metis of_nat_unat)
qed

lemma Serialize_wire:
  assumes "length (SchemaVersion m) \<le> 4" "length (SessionId m) \<le> 32" "Payload m \<noteq> []"
    "length (Payload m) < 2 ^ 32 - 60"
  shows "Serialize m = Inr (wire m)"
proof -
  define n where "n = length (Payload m)"
  have n: "0 < n" "n < 4294967236" using assms(3,4) by (simp_all add: n_def)
  define Z where "Z = (\<lambda>k. replicate k NUL)"
  have lenZ [simp]: "length (Z k) = k" for k by (simp add: Z_def)
  have total: "unat (of_nat PayloadLengthOffset + 4 + of_nat n :: 32 word) = 60 + n"
  proof -
    have "(of_nat PayloadLengthOffset + 4 + of_nat n :: 32 word) = of_nat (60 + n)" by (simp add: message_layout)
    also have "unat \<dots> = 60 + n" using n by (intro of_nat_word32) simp
    finally show ?thesis .
  qed
  have un: "uint (of_nat n :: 32 word) = int n" using n by (intro of_nat_word32) simp
  have z: "Z (60 + n) = Z 4 @ Z 4 @ Z 32 @ Z 8 @ Z 8 @ Z 4 @ Z n"
    by (simp add: Z_def replicate_add [symmetric])
  define ty where "ty = integerToBytes (MessageType m)"
  define sc where "sc = pad 4 (SchemaVersion m)"
  define si where "si = pad 32 (SessionId m)"
  define cd where "cd = longToBytes (CreatedDate m)"
  define sq where "sq = longToBytes (SequenceNumber m)"
  define pl where "pl = integerToBytes (of_nat n)"
  have len [simp]: "length ty = 4" "length sc = 4" "length si = 32" "length cd = 8" "length sq = 8" "length pl = 4"
    using assms(1,2) by (simp_all add: ty_def sc_def si_def cd_def sq_def pl_def)
  have 1: "putInteger (Z (60 + n)) MessageTypeOffset (MessageType m) = Inr (ty @ Z 4 @ Z 32 @ Z 8 @ Z 8 @ Z 4 @ Z n)"
    unfolding z putInteger_def using splice_at [of "[]" 0 "Z 4" ty] by (simp add: message_layout ty_def)
  have 2: "putString (ty @ Z 4 @ Z 32 @ Z 8 @ Z 8 @ Z 4 @ Z n) SchemaVersionOffset (int SchemaVersionOffset + 4 - 1) (SchemaVersion m)
      = Inr (ty @ sc @ Z 32 @ Z 8 @ Z 8 @ Z 4 @ Z n)"
    unfolding putString_def using splice_at [of ty 4 "Z 4" sc] assms(1) by (simp add: message_layout sc_def pad_def)
  have 3: "putString (ty @ sc @ Z 32 @ Z 8 @ Z 8 @ Z 4 @ Z n) SessionIdOffset (int SessionIdOffset + 32 - 1) (SessionId m)
      = Inr (ty @ sc @ si @ Z 8 @ Z 8 @ Z 4 @ Z n)"
    unfolding putString_def using splice_at [of "ty @ sc" 8 "Z 32" si] assms(2) by (simp add: message_layout si_def pad_def)
  have 4: "putLong (ty @ sc @ si @ Z 8 @ Z 8 @ Z 4 @ Z n) CreatedDateOffset (CreatedDate m)
      = Inr (ty @ sc @ si @ cd @ Z 8 @ Z 4 @ Z n)"
    unfolding putLong_def using splice_at [of "ty @ sc @ si" 40 "Z 8" cd] by (simp add: message_layout cd_def)
  have 5: "putLong (ty @ sc @ si @ cd @ Z 8 @ Z 4 @ Z n) SequenceNumberOffset (SequenceNumber m)
      = Inr (ty @ sc @ si @ cd @ sq @ Z 4 @ Z n)"
    unfolding putLong_def using splice_at [of "ty @ sc @ si @ cd" 48 "Z 8" sq] by (simp add: message_layout sq_def)
  have 6: "putInteger (ty @ sc @ si @ cd @ sq @ Z 4 @ Z n) PayloadLengthOffset (of_nat n)
      = Inr (ty @ sc @ si @ cd @ sq @ pl @ Z n)"
    unfolding putInteger_def using splice_at [of "ty @ sc @ si @ cd @ sq" 56 "Z 4" pl] n
    by (simp add: message_layout pl_def)
  have 7: "putBytes (ty @ sc @ si @ cd @ sq @ pl @ Z n) PayloadOffset (int PayloadOffset + int n - 1) (Payload m)
      = Inr (ty @ sc @ si @ cd @ sq @ pl @ Payload m)"
    unfolding putBytes_def using splice_at [of "ty @ sc @ si @ cd @ sq @ pl" 60 "Z n" "Payload m" "[]"] n
    by (simp add: message_layout n_def)
  have "Serialize m = Inr (ty @ sc @ si @ cd @ sq @ pl @ Payload m)"
    unfolding Serialize_def Let_def n_def [symmetric] total un
    using 1 2 3 4 5 6 7 by (simp add: Z_def)
  then show ?thesis by (simp add: wire_def ty_def sc_def si_def cd_def sq_def pl_def n_def)
qed

section \<open>Round trip\<close>

lemma Deserialize_wire:
  assumes "header_text 4 (SchemaVersion m)" "header_text 32 (SessionId m)" "Payload m \<noteq> []"
  shows "Deserialize (wire m) = Returns (Inr (m\<lparr>PayloadLength := of_nat (length (Payload m))\<rparr>))"
proof -
  define ty where "ty = integerToBytes (MessageType m)"
  define sc where "sc = pad 4 (SchemaVersion m)"
  define si where "si = pad 32 (SessionId m)"
  define cd where "cd = longToBytes (CreatedDate m)"
  define sq where "sq = longToBytes (SequenceNumber m)"
  define pl where "pl = integerToBytes (of_nat (length (Payload m)))"
  have w: "wire m = ty @ sc @ si @ cd @ sq @ pl @ Payload m"
    by (simp add: wire_def ty_def sc_def si_def cd_def sq_def pl_def)
  have len [simp]: "length ty = 4" "length sc = 4" "length si = 32" "length cd = 8" "length sq = 8" "length pl = 4"
    using assms(1,2) by (simp_all add: ty_def sc_def si_def cd_def sq_def pl_def header_text_def)
  have trimmed: "trim_space (trim_with (\<lambda>c. c = NUL) (pad n s)) = s" if "header_text n s" for n s
  proof -
    have "trim_with (\<lambda>c. c = NUL) (pad n s) = pad n s"
      using that by (intro trim_with_id) (auto simp: header_text_def pad_def hd_append last_append)
    moreover have "trim_with is_space (pad n s) = s"
      using that unfolding pad_def header_text_def by (intro trim_padded) auto
    ultimately show ?thesis by (simp add: trim_space_def)
  qed
  have 1: "getInteger (wire m) MessageTypeOffset = Inr (MessageType m)"
    unfolding w getInteger_def using slice_at [of "[]" 0 ty 4] by (simp add: message_layout) (simp add: ty_def)
  have 2: "getString (wire m) SchemaVersionOffset 4 = Inr (SchemaVersion m)"
    unfolding w getString_def using slice_at [of ty 4 sc 4] by (simp add: message_layout) (simp add: sc_def trimmed [OF assms(1)])
  have 3: "getString (wire m) SessionIdOffset 32 = Inr (SessionId m)"
    unfolding w getString_def using slice_at [of "ty @ sc" 8 si 32] by (simp add: message_layout) (simp add: si_def trimmed [OF assms(2)])
  have 4: "getLong (wire m) CreatedDateOffset = Inr (CreatedDate m)"
    unfolding w getLong_def using slice_at [of "ty @ sc @ si" 40 cd 8] by (simp add: message_layout) (simp add: cd_def)
  have 5: "getLong (wire m) SequenceNumberOffset = Inr (SequenceNumber m)"
    unfolding w getLong_def using slice_at [of "ty @ sc @ si @ cd" 48 sq 8] by (simp add: message_layout) (simp add: sq_def)
  have 6: "getInteger (wire m) PayloadLengthOffset = Inr (of_nat (length (Payload m)))"
    unfolding w getInteger_def using slice_at [of "ty @ sc @ si @ cd @ sq" 56 pl 4] assms(3)
    by (simp add: message_layout) (simp add: pl_def)
  have 7: "drop PayloadOffset (wire m) = Payload m" "\<not> length (wire m) < PayloadOffset"
    by (simp_all add: w message_layout)
  show ?thesis unfolding Deserialize_def 1 2 3 4 5 6 7(1) using 7(2) by simp
qed

lemma put_length:
  "putInteger a i v = Inr r \<Longrightarrow> length r = length a"
  "putLong a i w = Inr r \<Longrightarrow> length r = length a"
  "putString a i j s = Inr r \<Longrightarrow> length r = length a"
  by (auto simp: putInteger_def putLong_def putString_def splice_def split: if_splits)

lemma Serialize_empty: "Payload m = [] \<Longrightarrow> \<exists>e. Serialize m = Inl e"
proof -
  assume p: "Payload m = []"
  have "putInteger r PayloadLengthOffset v = Inl out_of_array" if "length r = 60" for r v
    using that by (simp add: putInteger_def message_layout)
  with p show ?thesis
    by (auto simp: Serialize_def message_layout putBytes_def dest!: put_length split: sum.splits)
qed

text \<open>C10. A message with a payload and header texts that fit is read back as it was written, with the payload
  length corrected. An empty payload is refused: the bounds test wants a byte after the length field.\<close>

theorem message_roundtrip:
  assumes "header_text 4 (SchemaVersion m)" "header_text 32 (SessionId m)" "Payload m \<noteq> []"
    "length (Payload m) < 2 ^ 32 - 60"
  shows "(\<exists>bytes. Serialize m = Inr bytes \<and> length bytes = 60 + length (Payload m)
      \<and> Deserialize bytes = Returns (Inr (m\<lparr>PayloadLength := of_nat (length (Payload m))\<rparr>)))
    \<and> (\<exists>e. Serialize (m\<lparr>Payload := []\<rparr>) = Inl e)"
proof -
  have l: "length (SchemaVersion m) \<le> 4" "length (SessionId m) \<le> 32"
    using assms(1,2) by (simp_all add: header_text_def)
  have "length (wire m) = 60 + length (Payload m)" using l by (simp add: wire_def)
  then show ?thesis
    using Serialize_wire [OF l assms(3,4)] Deserialize_wire [OF assms(1-3)] Serialize_empty [of "m\<lparr>Payload := []\<rparr>"]
    by simp
qed

definition example_message :: Message where
  "example_message = \<lparr>MessageType = OutputStreamDataMessage, SchemaVersion = ''1.01'', SessionId = ''s-1'',
     CreatedDate = 1700000000000, SequenceNumber = 7, PayloadLength = 0, Payload = ''ls''\<rparr>"

theorem message_roundtrip_witness:
  "\<exists>bytes. Serialize example_message = Inr bytes \<and> length bytes = 62
    \<and> Deserialize bytes = Returns (Inr (example_message\<lparr>PayloadLength := 2\<rparr>))"
proof -
  have "header_text 4 (SchemaVersion example_message)" "header_text 32 (SessionId example_message)"
    "Payload example_message \<noteq> []" "length (Payload example_message) < 2 ^ 32 - 60"
    by (simp_all add: example_message_def header_text_def is_space_def byte_def NUL_def) (code_simp)+
  from message_roundtrip [OF this] show ?thesis by (simp add: example_message_def)
qed

text \<open>
  A message cut off inside its length field crashes the reader: from 57 to 59 bytes every field test
  passes, the error of the payload length is ignored, and the payload is sliced past the end.
\<close>

lemma Deserialize_panics:
  "57 \<le> length input \<and> length input < 60 \<longleftrightarrow> (\<exists>p. Deserialize input = Panics p)"
  by (auto simp: Deserialize_def getInteger_def getString_def getLong_def message_layout out_of_array_def
      bytesToInteger_def bytesToLong_def Prelude.slice_def split: if_splits)

end
