(* ===== verification/Session_Channel.thy ===== *)
theory Session_Channel
  imports Session_Message World
begin

text \<open>
  What a session stands on: the cancel flag (\<open>agent/util/cancelflag.go\<close>), the exponential
  retries (\<open>agent/session/retry/retryer.go\<close>) and the channel that numbers, sends and receives
  the messages (\<open>agent/session/channel/sessionchannel.go\<close>). The websocket below it is a parameter:
  whether an open or a send succeeds.
\<close>

section \<open>Cancel flags\<close>

definition Canceled_state :: int where "Canceled_state = 1"
definition Completed_state :: int where "Completed_state = 2"
definition ShutDown_state :: int where "ShutDown_state = 3"

record cancel_flag =
  cf_state :: int
  cf_closed :: bool

definition NewChanneledCancelFlag :: cancel_flag where
  "NewChanneledCancelFlag = \<lparr>cf_state = 0, cf_closed = False\<rparr>"

definition flag_Canceled :: "cancel_flag \<Rightarrow> bool" where
  "flag_Canceled f \<longleftrightarrow> cf_state f = Canceled_state"

definition flag_ShutDown :: "cancel_flag \<Rightarrow> bool" where
  "flag_ShutDown f \<longleftrightarrow> cf_state f = ShutDown_state"

text \<open>\<open>Set\<close> closes the channel once; \<open>Wait\<close> blocks (\<open>None\<close>) while it is open.\<close>

definition flag_Set :: "int \<Rightarrow> cancel_flag \<Rightarrow> cancel_flag" where
  "flag_Set s f = \<lparr>cf_state = s, cf_closed = True\<rparr>"

definition flag_Wait :: "cancel_flag \<Rightarrow> int option" where
  "flag_Wait f = (if cf_closed f then Some (cf_state f) else None)"

section \<open>Retries\<close>

text \<open>
  \<open>ExponentialRetryer\<close> with a whole ratio and no jitter, which is how the session channel uses
  it; the products are exact in \<open>float64\<close> below the maximal delay. Delays are in milliseconds.
\<close>

record retryer =
  GeometricRatio :: nat
  InitialDelayInMilli :: nat
  MaxDelayInMilli :: nat
  MaxAttempts :: nat

definition NextSleepTime :: "retryer \<Rightarrow> nat \<Rightarrow> nat \<times> bool" where
  "NextSleepTime r attempt =
     (let sleep = InitialDelayInMilli r * GeometricRatio r ^ attempt in
      if MaxDelayInMilli r < sleep then (MaxDelayInMilli r, True) else (sleep, False))"

text \<open>
  \<open>Call\<close>: the callable is a state transformer that may fail; the last component lists the sleeps.
  \<open>left\<close> is what \<open>MaxAttempts\<close> still allows.
\<close>

fun retry_loop :: "retryer \<Rightarrow> ('s \<Rightarrow> go_error option \<times> 's) \<Rightarrow> nat \<Rightarrow> nat \<Rightarrow> 's \<Rightarrow> (go_error option \<times> 's) \<times> nat list" where
  "retry_loop r f 0 attempt s = (f s, [])"
| "retry_loop r f (Suc left) attempt s =
     (let (err, s') = f s in
      if err = None then ((None, s'), [])
      else
        (let (sleep, exceeds) = NextSleepTime r attempt;
             (res, sleeps) = retry_loop r f left (if exceeds then attempt else Suc attempt) s' in
         (res, sleep # sleeps)))"

definition retry_Call :: "retryer \<Rightarrow> ('s \<Rightarrow> go_error option \<times> 's) \<Rightarrow> 's \<Rightarrow> (go_error option \<times> 's) \<times> nat list" where
  "retry_Call r f s = retry_loop r f (MaxAttempts r) 0 s"

lemma retry_delays:
  assumes "0 < GeometricRatio r"
    and "MaxDelayInMilli r < InitialDelayInMilli r * GeometricRatio r ^ attempt
      \<or> attempt = i" "attempt \<le> i"
  shows "snd (retry_loop r f left attempt s)
    = map (\<lambda>j. min (InitialDelayInMilli r * GeometricRatio r ^ (i + j)) (MaxDelayInMilli r))
        [0..<length (snd (retry_loop r f left attempt s))]
    \<and> length (snd (retry_loop r f left attempt s)) \<le> left"
  using assms(2,3)
proof (induction left arbitrary: attempt i s)
  case (Suc left)
  obtain err s' where f: "f s = (err, s')" by fastforce
  obtain sleep exceeds where n: "NextSleepTime r attempt = (sleep, exceeds)" by fastforce
  show ?case
  proof (cases "err = None")
    case True
    with f show ?thesis by simp
  next
    case False
    have "InitialDelayInMilli r * GeometricRatio r ^ attempt \<le> InitialDelayInMilli r * GeometricRatio r ^ i"
      using Suc.prems(2) assms(1) by (simp add: power_increasing)
    then have mono: "MaxDelayInMilli r < InitialDelayInMilli r * GeometricRatio r ^ attempt \<Longrightarrow>
        MaxDelayInMilli r < InitialDelayInMilli r * GeometricRatio r ^ i" by (rule less_le_trans [rotated])
    have sl: "sleep = min (InitialDelayInMilli r * GeometricRatio r ^ i) (MaxDelayInMilli r)"
      "exceeds \<longleftrightarrow> MaxDelayInMilli r < InitialDelayInMilli r * GeometricRatio r ^ attempt"
      using n Suc.prems(1) mono by (auto simp: NextSleepTime_def Let_def split: if_splits)
    define attempt' where "attempt' = (if exceeds then attempt else Suc attempt)"
    have a': "MaxDelayInMilli r < InitialDelayInMilli r * GeometricRatio r ^ attempt' \<or> attempt' = Suc i" "attempt' \<le> Suc i"
      using sl(2) Suc.prems by (auto simp: attempt'_def)
    obtain res sleeps where rec: "retry_loop r f left attempt' s' = (res, sleeps)" by fastforce
    have ih: "sleeps = map (\<lambda>j. min (InitialDelayInMilli r * GeometricRatio r ^ (Suc i + j)) (MaxDelayInMilli r)) [0..<length sleeps]"
      "length sleeps \<le> left"
      using Suc.IH [OF a', of s'] rec by simp_all
    have l: "snd (retry_loop r f (Suc left) attempt s) = sleep # sleeps"
      using f n False rec by (simp add: attempt'_def)
    have "map (\<lambda>j. min (InitialDelayInMilli r * GeometricRatio r ^ (i + j)) (MaxDelayInMilli r)) [0..<Suc (length sleeps)]
      = sleep # map (\<lambda>j. min (InitialDelayInMilli r * GeometricRatio r ^ (Suc i + j)) (MaxDelayInMilli r)) [0..<length sleeps]"
      by (simp add: sl(1) upt_conv_Cons map_Suc_upt [symmetric] del: upt_Suc map_Suc_upt)
    with ih l show ?thesis by simp
  qed
qed simp

text \<open>The retryer of a session channel.\<close>

definition session_retryer :: retryer where
  "session_retryer = \<lparr>GeometricRatio = 2, InitialDelayInMilli = 100, MaxDelayInMilli = 2000, MaxAttempts = 10\<rparr>"

section \<open>The channel\<close>

record session_channel =
  ch_ChannelId :: string
  ch_sequence :: "64 word"
  ch_input_cnt :: nat
  ch_open :: bool
  ch_sent :: "string list"

definition NewSessionChannel :: "string \<Rightarrow> session_channel" where
  "NewSessionChannel sessionId =
     \<lparr>ch_ChannelId = sessionId, ch_sequence = 0, ch_input_cnt = 0, ch_open = False, ch_sent = []\<rparr>"

definition channel_Open :: "go_error option \<Rightarrow> session_channel \<Rightarrow> go_error option \<times> session_channel" where
  "channel_Open dial c =
     (case dial of None \<Rightarrow> (None, c\<lparr>ch_open := True\<rparr>)
      | Some e \<Rightarrow> (Some (WrappedError ''failed to connect data channel with error: '' e []), c))"

definition channel_Close :: "session_channel \<Rightarrow> session_channel" where
  "channel_Close c = c\<lparr>ch_open := False\<rparr>"

definition channel_IsActive :: "session_channel \<Rightarrow> bool" where
  "channel_IsActive c = ch_open c"

definition channel_Reconnect :: "go_error option \<Rightarrow> session_channel \<Rightarrow> go_error option \<times> session_channel" where
  "channel_Reconnect dial c =
     (case channel_Open dial (channel_Close c) of
        (None, c') \<Rightarrow> (None, c')
      | (Some e, c') \<Rightarrow> (Some (WrappedError ''failed to reconnect datachannel with error: '' e []), c'))"

text \<open>
  \<open>SendMessage\<close> of the websocket: a closed connection refuses; \<open>fails\<close> is the answer of the
  connection. Its error is not reported by \<open>SendStreamDataMessage\<close>, which counts the message anyway.
\<close>

definition channel_SendMessage :: "go_error option \<Rightarrow> string \<Rightarrow> session_channel \<Rightarrow> go_error option \<times> session_channel" where
  "channel_SendMessage fails input c =
     (if \<not> ch_open c then (Some (PlainError ''Can't send message: Connection is closed.''), c)
      else if input = [] then (Some (PlainError ''Can't send message: Empty input.''), c)
      else case fails of
        Some e \<Rightarrow> (Some e, c)
      | None \<Rightarrow> (None, c\<lparr>ch_sent := ch_sent c @ [input]\<rparr>))"

definition stream_message :: "64 word \<Rightarrow> string \<Rightarrow> session_channel \<Rightarrow> Message" where
  "stream_message millis inputData c =
     \<lparr>MessageType = OutputStreamDataMessage, SchemaVersion = ''1.01'', SessionId = ch_ChannelId c, CreatedDate = millis,
      SequenceNumber = ch_sequence c, PayloadLength = of_nat (length inputData), Payload = inputData\<rparr>"

definition SendStreamDataMessage ::
  "64 word \<Rightarrow> go_error option \<Rightarrow> string \<Rightarrow> session_channel \<Rightarrow> go_error option \<times> session_channel" where
  "SendStreamDataMessage millis fails inputData c =
     (if inputData = [] then (None, c)
      else case Serialize (stream_message millis inputData c) of
        Inl e \<Rightarrow> (Some (PlainError ''cannot serialize StreamData message''), c)
      | Inr msg \<Rightarrow>
          (let (err, c') = channel_SendMessage fails msg c in
           (None, c'\<lparr>ch_sequence := ch_sequence c' + 1\<rparr>)))"

text \<open>
  \<open>inputMessageHandler\<close>: a message that parses and is valid restarts the idle count; three types
  go to the plugin's handler \<open>f\<close>, the others are dropped.
\<close>

definition inputMessageHandler ::
  "(Message \<Rightarrow> 's \<Rightarrow> (go_error option \<times> 's) outcome) \<Rightarrow> string \<Rightarrow> session_channel \<Rightarrow> 's \<Rightarrow>
   (go_error option \<times> session_channel \<times> 's) outcome" where
  "inputMessageHandler f rawMessage c s =
     (case Deserialize rawMessage of
        Panics p \<Rightarrow> Panics p
      | Returns (Inl e) \<Rightarrow> Returns (Some e, c, s)
      | Returns (Inr m) \<Rightarrow>
          (case Validate m of
             Some e \<Rightarrow> Returns (Some e, c, s)
           | None \<Rightarrow>
               (let c' = c\<lparr>ch_input_cnt := 0\<rparr> in
                if MessageType m = InputStreamDataMessage \<or> MessageType m = SetSizeDataMessage
                  \<or> MessageType m = StatusDataMessage
                then map_ret (\<lambda>(err, s'). (err, c', s')) (f m s)
                else Returns (None, c', s))))"

text \<open>The watch of the idle count: one second of the goroutine that cancels after three minutes.\<close>

definition idle_second :: "session_channel \<times> cancel_flag \<Rightarrow> session_channel \<times> cancel_flag" where
  "idle_second = (\<lambda>(c, f).
     if 180 < ch_input_cnt c then (c, flag_Set Canceled_state f)
     else (c\<lparr>ch_input_cnt := ch_input_cnt c + 1\<rparr>, f))"

section \<open>Properties\<close>

text \<open>Reconnecting a session calls the server at most eleven times; the pauses double from a tenth of a
  second up to two seconds, at most ten of them and thirteen seconds in all, and the result is that of
  the last call.\<close>

theorem reconnect_bounded:
  "let (res, sleeps) = retry_Call session_retryer f s in
     length sleeps \<le> 10 \<and> sleeps = take (length sleeps) [100, 200, 400, 800, 1600, 2000, 2000, 2000, 2000, 2000]
     \<and> sum_list sleeps \<le> 13100"
proof -
  obtain res sleeps where r: "retry_Call session_retryer f s = (res, sleeps)" by fastforce
  have "sleeps = map (\<lambda>j. min (100 * 2 ^ j) 2000) [0..<length sleeps] \<and> length sleeps \<le> 10"
    using retry_delays [of session_retryer 0 0 f 10 s] r by (simp add: retry_Call_def session_retryer_def)
  then have s: "sleeps = map (\<lambda>j. min (100 * 2 ^ j) 2000) [0..<length sleeps]" and l: "length sleeps \<le> 10" by blast+
  have all: "map (\<lambda>j. min (100 * 2 ^ j) 2000 :: nat) [0..<10] = [100, 200, 400, 800, 1600, 2000, 2000, 2000, 2000, 2000]"
    by code_simp
  have t: "sleeps = take (length sleeps) [100, 200, 400, 800, 1600, 2000, 2000, 2000, 2000, 2000]"
    using l by (subst s) (simp add: all [symmetric] take_map take_upt del: upt_Suc)
  have "sum_list (take n xs) \<le> sum_list xs" for n and xs :: "nat list"
    by (metis append_take_drop_id le_add1 sum_list_append)
  from this [of "length sleeps" "[100, 200, 400, 800, 1600, 2000, 2000, 2000, 2000, 2000]"] t
  have "sum_list sleeps \<le> 13100" by simp
  with l t r show ?thesis by simp
qed

fun send_all :: "64 word \<Rightarrow> string list \<Rightarrow> session_channel \<Rightarrow> session_channel" where
  "send_all millis [] c = c"
| "send_all millis (d # ds) c = send_all millis ds (snd (SendStreamDataMessage millis None d c))"

lemma SendStreamDataMessage_sent:
  assumes "header_text 32 (ch_ChannelId c)" "ch_open c" "d \<noteq> []" "length d < 2 ^ 32 - 60"
  shows "SendStreamDataMessage millis None d c
      = (None, c\<lparr>ch_sent := ch_sent c @ [wire (stream_message millis d c)], ch_sequence := ch_sequence c + 1\<rparr>)"
    "Deserialize (wire (stream_message millis d c)) = Returns (Inr (stream_message millis d c))"
proof -
  have h: "header_text 4 ''1.01''" by (simp add: header_text_def is_space_def byte_def NUL_def) code_simp
  have l: "length (ch_ChannelId c) \<le> 32" using assms(1) by (simp add: header_text_def)
  have ne: "wire (stream_message millis d c) \<noteq> []" by (simp add: wire_def stream_message_def assms(3))
  have "Serialize (stream_message millis d c) = Inr (wire (stream_message millis d c))"
    by (rule Serialize_wire) (use l assms(3,4) in \<open>simp_all add: stream_message_def\<close>)
  then show "SendStreamDataMessage millis None d c
      = (None, c\<lparr>ch_sent := ch_sent c @ [wire (stream_message millis d c)], ch_sequence := ch_sequence c + 1\<rparr>)"
    using assms(2,3) ne by (simp add: SendStreamDataMessage_def channel_SendMessage_def)
  show "Deserialize (wire (stream_message millis d c)) = Returns (Inr (stream_message millis d c))"
    using Deserialize_wire [of "stream_message millis d c"] h assms(1,3) by (simp add: stream_message_def)
qed



text \<open>An input message never reaches the plugin unless it parses and carries a date, and it restarts the idle
  count exactly then; a message of 57 to 59 bytes crashes the listener of the session.\<close>

theorem inputMessageHandler_filters:
  "case inputMessageHandler f raw c s of
     Returns (err, c', s') \<Rightarrow>
       (case Deserialize raw of
          Returns (Inr m) \<Rightarrow>
            (if CreatedDate m = 0 then err \<noteq> None \<and> c' = c \<and> s' = s
             else ch_input_cnt c' = 0 \<and> (s' = s \<and> err = None \<or> f m s = Returns (err, s')))
        | _ \<Rightarrow> err \<noteq> None \<and> c' = c \<and> s' = s)
   | Panics p \<Rightarrow> (57 \<le> length raw \<and> length raw < 60) \<or> (\<exists>m. f m s = Panics p)"
proof (cases "Deserialize raw")
  case (Panics p)
  then have "57 \<le> length raw \<and> length raw < 60" using Deserialize_panics by blast
  with Panics show ?thesis by (simp add: inputMessageHandler_def)
next
  case (Returns r)
  show ?thesis
  proof (cases r)
    case (Inl e)
    with Returns show ?thesis by (simp add: inputMessageHandler_def)
  next
    case (Inr m)
    show ?thesis
      by (cases "f m s") (auto simp: inputMessageHandler_def Returns Inr Validate_def Let_def)
  qed
qed

end
