(* ===== verification/Session_Plugins.thy ===== *)
theory Session_Plugins
  imports Session_Channel Utf8
begin

text \<open>
  The two plugins of a session on Linux: the interactive shell (\<open>agent/session/shell/shell.go\<close>,
  \<open>shell_unix.go\<close>) and the port forwarder (\<open>agent/session/port/port.go\<close>): their send intervals,
  the handling of input messages, and the pump that turns terminal output into messages. The
  terminal and the connection are parameters: whether a write succeeds.
\<close>

section \<open>Result codes\<close>

definition Ok :: string where "Ok = ''Ok''"
definition Init_channel_failed :: string where "Init_channel_failed = ''Init_channel_failed''"
definition Open_channel_failed :: string where "Open_channel_failed = ''Open_channel_failed''"
definition Session_id_duplicate :: string where "Session_id_duplicate = ''Session_id_duplicate''"
definition Process_data_error :: string where "Process_data_error = ''Process_data_error''"
definition Open_pty_failed :: string where "Open_pty_failed = ''Open_pty_failed''"
definition session_Timeout :: string where "session_Timeout = ''Timeout''"
definition Notified :: string where "Notified = ''Notified''"
definition Unknown_error :: string where "Unknown_error = ''Unknown_error''"
definition Open_port_failed :: string where "Open_port_failed = ''Open_port_failed''"
definition Read_port_failed :: string where "Read_port_failed = ''Read_port_failed''"
definition IO_socket_error :: string where "IO_socket_error = ''IO_port_failed''"

lemmas session_codes = Ok_def Init_channel_failed_def Open_channel_failed_def Session_id_duplicate_def
  Process_data_error_def Open_pty_failed_def session_Timeout_def Notified_def Unknown_error_def
  Open_port_failed_def Read_port_failed_def IO_socket_error_def

section \<open>Send intervals\<close>

definition shell_PackageSize :: int where "shell_PackageSize = 1024"
definition port_PackageSize :: int where "port_PackageSize = 2048"
definition defaultSendSpeed :: int where "defaultSendSpeed = 200"

definition defaultSendInterval :: "int \<Rightarrow> int" where
  "defaultSendInterval packageSize = 1000 div (defaultSendSpeed * 1024 div 8 div packageSize)"

text \<open>The pause in milliseconds for a speed in bits per second; the divisor can be zero.\<close>

definition send_interval :: "int \<Rightarrow> int \<Rightarrow> int outcome" where
  "send_interval packageSize speed =
     bind_outcome (go_div speed 8) (\<lambda>a. bind_outcome (go_div a packageSize) (go_div 1000))"

definition initial_interval :: "int \<Rightarrow> int \<Rightarrow> int outcome" where
  "initial_interval packageSize flowLimit =
     (if flowLimit > 0 then send_interval packageSize flowLimit else Returns (defaultSendInterval packageSize))"

text \<open>
  A status message: code 7 sets the speed from the rest of the payload. A rest that is no
  integer reads as zero, which leaves before the error is looked at.
\<close>

definition status_interval :: "int \<Rightarrow> string \<Rightarrow> int \<Rightarrow> int outcome" where
  "status_interval packageSize payload interval =
     (if payload = [] then Returns interval
      else case BytesToIntU (take 1 payload) of
        Inl e \<Rightarrow> Returns interval
      | Inr code \<Rightarrow>
          if code = 7 then
            (case BytesToIntU (drop 1 payload) of
               Inl e \<Rightarrow> Returns interval
             | Inr speed \<Rightarrow> if speed = 0 then Returns interval else send_interval packageSize speed)
          else Returns interval)"

section \<open>The shell plugin\<close>

text \<open>\<open>sh_pty\<close> is the size of the open terminal, \<open>None\<close> before \<open>StartPty\<close>; \<open>sh_typed\<close> is what was written to it.\<close>

record shell_plugin =
  sh_id :: string
  sh_cmdContent :: string
  sh_username :: string
  sh_pty :: "(nat \<times> nat) option"
  sh_typed :: string
  sh_first_col :: nat
  sh_first_row :: nat
  sh_interval :: int

definition NewShellPlugin :: "string \<Rightarrow> string \<Rightarrow> string \<Rightarrow> int \<Rightarrow> shell_plugin outcome" where
  "NewShellPlugin sid cmd user flowLimit =
     map_ret (\<lambda>i. \<lparr>sh_id = sid, sh_cmdContent = cmd, sh_username = user, sh_pty = None, sh_typed = [],
         sh_first_col = 0, sh_first_row = 0, sh_interval = i\<rparr>)
       (initial_interval shell_PackageSize flowLimit)"

text \<open>\<open>SetSize\<close>: remembered before the terminal is open, cut to 16 bits after.\<close>

definition SetSize :: "(nat \<Rightarrow> nat \<Rightarrow> go_error option) \<Rightarrow> nat \<Rightarrow> nat \<Rightarrow> shell_plugin \<Rightarrow> go_error option \<times> shell_plugin" where
  "SetSize setsize col row p =
     (case sh_pty p of
        None \<Rightarrow> (None, p\<lparr>sh_first_col := col, sh_first_row := row\<rparr>)
      | Some old \<Rightarrow>
          (case setsize (col mod 65536) (row mod 65536) of
             Some e \<Rightarrow> (Some (WrappedError ''set pty size failed: '' e []), p)
           | None \<Rightarrow> (None, p\<lparr>sh_pty := Some (col mod 65536, row mod 65536)\<rparr>)))"

record pty_env =
  pty_write :: "string \<Rightarrow> go_error option"
  pty_setsize :: "nat \<Rightarrow> nat \<Rightarrow> go_error option"
  parse_size :: "string \<Rightarrow> go_error + (nat \<times> nat)"

definition shell_InputStreamMessageHandler ::
  "pty_env \<Rightarrow> Message \<Rightarrow> shell_plugin \<Rightarrow> (go_error option \<times> shell_plugin) outcome" where
  "shell_InputStreamMessageHandler pe m p =
     (if sh_pty p = None then Returns (None, p)
      else if MessageType m = InputStreamDataMessage then
        (case pty_write pe (Payload m) of
           Some e \<Rightarrow> Returns (Some e, p)
         | None \<Rightarrow> Returns (None, p\<lparr>sh_typed := sh_typed p @ Payload m\<rparr>))
      else if MessageType m = SetSizeDataMessage then
        (case parse_size pe (Payload m) of
           Inl e \<Rightarrow> Returns (Some e, p)
         | Inr (cols, rows) \<Rightarrow> Returns (SetSize (pty_setsize pe) cols rows p))
      else if MessageType m = StatusDataMessage then
        map_ret (\<lambda>i. (None, p\<lparr>sh_interval := i\<rparr>)) (status_interval shell_PackageSize (Payload m) (sh_interval p))
      else Returns (None, p))"

subsection \<open>The output pump\<close>

text \<open>
  The loop of \<open>processStdoutData\<close> over the bytes not yet processed: the result is the data to be
  sent and the bytes kept for later. Bytes that are no rune are kept when fewer than four are
  left, and otherwise only the first of them goes into the data.
\<close>

function process_runes :: "string \<Rightarrow> string \<times> string" where
  "process_runes s =
     (if s = [] then ([], [])
      else let (r, n) = decode_rune s in
        if r = RuneError \<and> length s < 4 then ([], s)
        else (let (out, rest) = process_runes (drop n s) in
              ((if r = RuneError then take 1 s else utf8 r) @ out, rest)))"
  by pat_completeness auto
termination
proof (relation "measure length", simp)
  fix s :: string and x r n
  assume "s \<noteq> []" "x = decode_rune s" "(r, n) = x"
  then show "(drop n s, s) \<in> measure length"
    using decode_rune_size [of s] by (cases s) (auto simp: eq_commute [of "(r, n)"])
qed

declare process_runes.simps [simp del]

text \<open>One chunk of terminal output: what the channel is asked to send, and what is kept.\<close>

definition processStdoutData :: "string \<Rightarrow> string \<Rightarrow> string \<times> string" where
  "processStdoutData stdoutBytes unprocessed = process_runes (unprocessed @ stdoutBytes)"

text \<open>
  \<open>writePump\<close> over the chunks the terminal yields until a read fails; a failed send ends it with
  \<open>Process_data_error\<close>. \<open>send\<close> is \<open>SendStreamDataMessage\<close> on the channel \<open>'c\<close>.
\<close>

fun shell_writePump ::
  "(string \<Rightarrow> 'c \<Rightarrow> go_error option \<times> 'c) \<Rightarrow> string list \<Rightarrow> string \<Rightarrow> 'c \<Rightarrow> string \<times> 'c" where
  "shell_writePump send [] kept c = (Ok, c)"
| "shell_writePump send (chunk # chunks) kept c =
     (let (out, kept') = processStdoutData chunk kept; (err, c') = send out c in
      if err \<noteq> None then (Process_data_error, c') else shell_writePump send chunks kept' c')"

section \<open>The port plugin\<close>

text \<open>\<open>pp_conn\<close> is what was written to the connection, \<open>None\<close> without one.\<close>

record port_plugin =
  pp_id :: string
  pp_targetHost :: string
  pp_portNumber :: int
  pp_conn :: "string option"
  pp_reconnect :: bool
  pp_interval :: int

definition NewPortPlugin :: "string \<Rightarrow> string \<Rightarrow> int \<Rightarrow> int \<Rightarrow> port_plugin outcome" where
  "NewPortPlugin sid host portNumber flowLimit =
     map_ret (\<lambda>i. \<lparr>pp_id = sid, pp_targetHost = (if host = [] then ''localhost'' else host), pp_portNumber = portNumber,
         pp_conn = None, pp_reconnect = False, pp_interval = i\<rparr>)
       (initial_interval port_PackageSize flowLimit)"

text \<open>
  A message that meets a lost connection dials again; \<open>dial\<close> is the answer. A failed dial leaves a
  nil connection.
\<close>

record conn_env =
  conn_dial :: "string \<Rightarrow> int \<Rightarrow> go_error option"
  conn_write :: "string \<Rightarrow> go_error option"

definition port_InputStreamMessageHandler ::
  "conn_env \<Rightarrow> Message \<Rightarrow> port_plugin \<Rightarrow> (go_error option \<times> port_plugin) outcome" where
  "port_InputStreamMessageHandler ce m p =
     (case pp_conn p of None \<Rightarrow> Returns (None, p)
      | Some written \<Rightarrow>
          (let (err, p') =
             (if pp_reconnect p then
                (case conn_dial ce (pp_targetHost p) (pp_portNumber p) of
                   Some e \<Rightarrow> (Some e, p\<lparr>pp_conn := None\<rparr>)
                 | None \<Rightarrow> (None, p\<lparr>pp_conn := Some [], pp_reconnect := False\<rparr>))
              else (None, p)) in
           if err \<noteq> None then Returns (err, p')
           else if MessageType m = InputStreamDataMessage then
             (case conn_write ce (Payload m) of
                Some e \<Rightarrow> Returns (Some e, p')
              | None \<Rightarrow> Returns (None, p'\<lparr>pp_conn := map_option (\<lambda>w. w @ Payload m) (pp_conn p')\<rparr>))
           else if MessageType m = StatusDataMessage then
             map_ret (\<lambda>i. (None, p'\<lparr>pp_interval := i\<rparr>)) (status_interval port_PackageSize (Payload m) (pp_interval p'))
           else Returns (None, p')))"

section \<open>Lemmas\<close>

lemma send_interval_panics:
  assumes "0 < speed" "speed < 9223372036854775808" "0 < sz"
  shows "send_interval sz speed = (if speed div 8 div sz = 0 then Panics DivideByZero
    else Returns (1000 div (speed div 8 div sz)))"
proof -
  have a: "go_div speed 8 = Returns (speed div 8)" using assms by (intro go_div_nonneg) simp_all
  have b: "0 \<le> speed div 8" "speed div 8 < 9223372036854775808" using assms by (simp_all add: pos_imp_zdiv_nonneg_iff)
  have c: "go_div (speed div 8) sz = Returns (speed div 8 div sz)" using b assms(3) by (rule go_div_nonneg)
  have d: "0 \<le> speed div 8 div sz" using b assms(3) by (simp add: pos_imp_zdiv_nonneg_iff)
  show ?thesis
  proof (cases "speed div 8 div sz = 0")
    case True
    with a c show ?thesis by (simp add: send_interval_def go_div_def)
  next
    case False
    with d have "go_div 1000 (speed div 8 div sz) = Returns (1000 div (speed div 8 div sz))"
      by (intro go_div_nonneg) simp_all
    with a c False show ?thesis by (simp add: send_interval_def)
  qed
qed

text \<open>A speed limit below one package per second crashes the agent: a session whose flow limit lies
  between 1 and 8191 bits (16383 for port forwarding) divides by zero in the constructor of its plugin,
  outside every recover; with any other limit the pause is at most a second.\<close>

theorem flow_limit_panics:
  assumes "flowLimit < 9223372036854775808"
  shows "((\<exists>q. NewShellPlugin sid cmd user flowLimit = Panics q) \<longleftrightarrow> 0 < flowLimit \<and> flowLimit < 8192)
    \<and> (\<forall>p. NewShellPlugin sid cmd user flowLimit = Returns p \<longrightarrow> 0 \<le> sh_interval p \<and> sh_interval p \<le> 1000)
    \<and> ((\<exists>q. NewPortPlugin sid host port flowLimit = Panics q) \<longleftrightarrow> 0 < flowLimit \<and> flowLimit < 16384)"
proof -
  have q: "x div 8 div 1024 = 0 \<longleftrightarrow> x < 8192" "x div 8 div 2048 = 0 \<longleftrightarrow> x < 16384" if "0 < x" for x :: int
    using that by (auto simp: zdiv_zmult2_eq [symmetric])
  have r: "0 \<le> 1000 div y \<and> 1000 div y \<le> 1000" if "0 \<le> y" for y :: int
    using that by (cases "y = 0") (auto simp: pos_imp_zdiv_nonneg_iff intro: int_div_le_self)
  show ?thesis
  proof (cases "0 < flowLimit")
    case True
    have "0 \<le> flowLimit div 8 div 1024" using True by (simp add: pos_imp_zdiv_nonneg_iff)
    with r [of "flowLimit div 8 div 1024"] q [OF True] True assms show ?thesis
      by (auto simp: NewShellPlugin_def NewPortPlugin_def initial_interval_def send_interval_panics
          shell_PackageSize_def port_PackageSize_def)
  next
    case False
    then show ?thesis
      by (auto simp: NewShellPlugin_def NewPortPlugin_def initial_interval_def defaultSendInterval_def
          shell_PackageSize_def port_PackageSize_def defaultSendSpeed_def)
  qed
qed

theorem flow_limit_panics_witness:
  "NewShellPlugin ''s-1'' [] [] 8191 = Panics DivideByZero \<and> (\<exists>p. NewShellPlugin ''s-1'' [] [] 8192 = Returns p)"
  using flow_limit_panics [of 8191 "''s-1''" "[]" "[]"]
  by (simp add: NewShellPlugin_def initial_interval_def send_interval_panics shell_PackageSize_def)

text \<open>The speed a status message sets has the same gap: a message whose speed is positive but below one
  package per second panics in the listener of the session, which ends it; zero, an unreadable speed and
  every other code leave the pause as it is.\<close>

theorem status_speed_panics:
  assumes "length digits = 4"
  shows "status_interval shell_PackageSize (char_of (7 :: nat) # digits) i =
      (if be_value digits = 0 then Returns i
       else if be_value digits < 8192 then Panics DivideByZero
       else Returns (1000 div (int (be_value digits) div 8 div 1024)))
    \<and> status_interval shell_PackageSize [char_of (7 :: nat)] i = Returns i"
proof -
  have v: "le_value s < 256 ^ length s" for s
  proof (induction s)
    case (Cons c cs)
    define P where "P = (256 :: nat) ^ length cs"
    have "le_value cs + 1 \<le> P" using Cons by (simp add: P_def)
    then have "byte c + 256 * le_value cs < 256 * P" using byte_less [of c] by linarith
    then show ?case by (simp add: P_def)
  qed simp
  then have b: "int (be_value digits) < 9223372036854775808"
    using v [of "rev digits"] assms by (simp add: be_value_def)
  have c: "BytesToIntU [char_of (7 :: nat)] = Inr 7" by (simp add: BytesToIntU_def be_value_def)
  have d: "BytesToIntU digits = Inr (int (be_value digits))" using assms by (simp add: BytesToIntU_def)
  have e: "BytesToIntU [] = Inl (PlainError ''BytesToInt bytes lenth is invalid!'')" by (simp add: BytesToIntU_def)
  have q: "int (be_value digits) div 8 div 1024 = 0 \<longleftrightarrow> be_value digits < 8192"
    by (auto simp: zdiv_zmult2_eq [symmetric])
  show ?thesis
    using b q send_interval_panics [of "int (be_value digits)" 1024]
    by (auto simp: status_interval_def c d e shell_PackageSize_def)
qed

theorem status_speed_panics_witness:
  "status_interval shell_PackageSize (char_of (7 :: nat) # map char_of [0, 0, 4 :: nat, 0]) i = Panics DivideByZero"
  using status_speed_panics [of "map char_of [0, 0, 4 :: nat, 0]" i] by (simp add: be_value_def)

section \<open>Terminal output\<close>

lemma decode_bytes_inverse:
  assumes "decode_bytes bs = (r, n)" "bs \<noteq> []"
  shows "(r = RuneError \<and> n = 1) \<or> (valid_rune r \<and> utf8_bytes r = take n bs)"
proof -
  have digit64: "(64 * q + z) mod 64 = z" "(64 * q + z) div 64 = q" if "z < 64" for q z :: nat
    using that by simp_all
  have two: "valid_rune r \<and> utf8_bytes r = [b0, b1]"
    if h: "194 \<le> b0" "b0 \<le> 223" "cont b1" "r = (b0 - 192) * 64 + (b1 - 128)" for b0 b1 r
  proof -
    obtain x where x: "b0 = 192 + x" using le_Suc_ex [of 192 b0] h(1) by auto
    obtain y where y: "b1 = 128 + y" using le_Suc_ex [of 128 b1] h(3) by (auto simp: cont_def)
    have "y < 64" "2 \<le> x" "x < 32" using h(1-3) x y by (simp_all add: cont_def)
    with h(4) x y show ?thesis by (simp add: utf8_bytes_def valid_rune_def)
  qed
  have three: "valid_rune r \<and> utf8_bytes r = [b0, b1, b2]"
    if h: "224 \<le> b0" "b0 \<le> 239" "cont b1" "b0 = 224 \<longrightarrow> 160 \<le> b1" "b0 = 237 \<longrightarrow> b1 \<le> 159" "cont b2"
      "r = (b0 - 224) * 4096 + (b1 - 128) * 64 + (b2 - 128)" for b0 b1 b2 r
  proof -
    obtain x where x: "b0 = 224 + x" using le_Suc_ex [of 224 b0] h(1) by auto
    obtain y where y: "b1 = 128 + y" using le_Suc_ex [of 128 b1] h(3) by (auto simp: cont_def)
    obtain z where z: "b2 = 128 + z" using le_Suc_ex [of 128 b2] h(6) by (auto simp: cont_def)
    have b: "y < 64" "z < 64" "x < 16" "x = 0 \<longrightarrow> 32 \<le> y" "x = 13 \<longrightarrow> y < 32"
      using h(2-6) x y z by (auto simp: cont_def)
    have r: "r = 64 * (64 * x + y) + z" using h(7) x y z by simp
    have d: "r mod 64 = z" "r div 64 = 64 * x + y" unfolding r using digit64 b(2) by blast+
    have e: "r div 4096 = x" using d(2) b div_mult2_eq [of r 64 64] by simp
    have "2048 \<le> r" using r b by (cases "x = 0") auto
    moreover have le: "x \<le> 15" "y \<le> 63" "z \<le> 63" using b by simp_all
    then have "r < 65536" using r by simp
    moreover have "r < 55296 \<or> 57344 \<le> r"
    proof -
      consider "x \<le> 12" | "x = 13" | "14 \<le> x" by linarith
      then show ?thesis
      proof cases
        case 2
        then have "y \<le> 31" using b by simp
        with 2 le(3) r show ?thesis by simp
      qed (use r le in simp_all)
    qed
    ultimately have "2048 \<le> r" "r < 65536" "r < 55296 \<or> 57344 \<le> r" by blast+
    with d e b x y z show ?thesis by (simp add: utf8_bytes_def valid_rune_def)
  qed
  have four: "valid_rune r \<and> utf8_bytes r = [b0, b1, b2, b3]"
    if h: "240 \<le> b0" "b0 \<le> 244" "cont b1" "b0 = 240 \<longrightarrow> 144 \<le> b1" "b0 = 244 \<longrightarrow> b1 \<le> 143" "cont b2" "cont b3"
      "r = (b0 - 240) * 262144 + (b1 - 128) * 4096 + (b2 - 128) * 64 + (b3 - 128)" for b0 b1 b2 b3 r
  proof -
    obtain x where x: "b0 = 240 + x" using le_Suc_ex [of 240 b0] h(1) by auto
    obtain y where y: "b1 = 128 + y" using le_Suc_ex [of 128 b1] h(3) by (auto simp: cont_def)
    obtain z where z: "b2 = 128 + z" using le_Suc_ex [of 128 b2] h(6) by (auto simp: cont_def)
    obtain v where v: "b3 = 128 + v" using le_Suc_ex [of 128 b3] h(7) by (auto simp: cont_def)
    have b: "y < 64" "z < 64" "v < 64" "x < 5" "x = 0 \<longrightarrow> 16 \<le> y" "x = 4 \<longrightarrow> y < 16"
      using h(2-7) x y z v by (auto simp: cont_def)
    have r: "r = 64 * (64 * (64 * x + y) + z) + v" using h(8) x y z v by simp
    have d: "r mod 64 = v" "r div 64 = 64 * (64 * x + y) + z" unfolding r using digit64 b(3) by blast+
    have g: "(r div 64) mod 64 = z" unfolding d(2) using digit64 b(2) by blast
    have e: "r div 4096 = 64 * x + y" using d(2) b div_mult2_eq [of r 64 64] by simp
    have f: "r div 262144 = x" using e b div_mult2_eq [of r 4096 64] by simp
    have "65536 \<le> r" using r b by (cases "x = 0") auto
    moreover have "x \<le> 4" "z \<le> 63" "v \<le> 63" "x = 4 \<longrightarrow> y \<le> 15" "y \<le> 63" using b by auto
    then have "r < 1114112" using r by (cases "x = 4") auto
    ultimately have "65536 \<le> r" "r < 1114112" by blast+
    with d(1) g e f b x y z v show ?thesis by (simp add: utf8_bytes_def valid_rune_def)
  qed
  obtain b0 r0 where b0: "bs = b0 # r0" using assms(2) by (cases bs) auto
  consider "b0 < 128" | "\<not> b0 < 128" "r0 = []" | b1 r1 where "\<not> b0 < 128" "r0 = b1 # r1" by (cases r0) auto
  then show ?thesis
  proof cases
    case 1
    with assms(1) show ?thesis by (auto simp: b0 decode_bytes_def utf8_bytes_def valid_rune_def)
  next
    case 2
    with assms(1) show ?thesis by (simp add: b0 decode_bytes_def)
  next
    case b1: 3
    consider "194 \<le> b0 \<and> b0 \<le> 223" | "\<not> (194 \<le> b0 \<and> b0 \<le> 223)" "r1 = []"
      | b2 r2 where "\<not> (194 \<le> b0 \<and> b0 \<le> 223)" "r1 = b2 # r2" by (cases r1) auto
    then show ?thesis
    proof cases
      case 1
      with assms(1) b1 two [of b0 b1 r] show ?thesis by (auto simp: b0 decode_bytes_def split: if_splits)
    next
      case 2
      with assms(1) b1 show ?thesis by (auto simp: b0 decode_bytes_def)
    next
      case b2: 3
      consider "224 \<le> b0 \<and> b0 \<le> 239" | "\<not> (224 \<le> b0 \<and> b0 \<le> 239)" "r2 = []"
        | b3 r3 where "\<not> (224 \<le> b0 \<and> b0 \<le> 239)" "r2 = b3 # r3" by (cases r2) auto
      then show ?thesis
      proof cases
        case 1
        then have "decode_bytes bs = (if cont b1 \<and> (b0 = 224 \<longrightarrow> 160 \<le> b1) \<and> (b0 = 237 \<longrightarrow> b1 \<le> 159) \<and> cont b2
            then ((b0 - 224) * 4096 + (b1 - 128) * 64 + (b2 - 128), 3) else (RuneError, 1))"
          using b1 b2 by (simp add: b0 decode_bytes_def)
        with assms(1) 1 three [of b0 b1 b2 r] show ?thesis by (simp add: b0 b1 b2 split: if_splits)
      next
        case 2
        with assms(1) b1 b2 show ?thesis by (auto simp: b0 decode_bytes_def)
      next
        case b3: 3
        then have "decode_bytes bs = (if 240 \<le> b0 \<and> b0 \<le> 244 \<and> cont b1 \<and> (b0 = 240 \<longrightarrow> 144 \<le> b1)
              \<and> (b0 = 244 \<longrightarrow> b1 \<le> 143) \<and> cont b2 \<and> cont b3
            then ((b0 - 240) * 262144 + (b1 - 128) * 4096 + (b2 - 128) * 64 + (b3 - 128), 4) else (RuneError, 1))"
          using b1 b2 by (simp add: b0 decode_bytes_def)
        with assms(1) four [of b0 b1 b2 b3 r] show ?thesis by (simp add: b0 b1 b2 b3 split: if_splits)
      qed
    qed
  qed
qed

lemma decode_rune_inverse:
  assumes "decode_rune s = (r, n)" "s \<noteq> []"
  shows "(r = RuneError \<and> n = 1) \<or> utf8 r = take n s"
proof -
  have "map char_of (map byte s) = s" by (simp add: byte_def comp_def)
  then have "map char_of (take n (map byte s)) = take n s" by (metis take_map)
  with decode_bytes_inverse [of "map byte s" r n] assms show ?thesis
    by (auto simp: decode_rune_def utf8_def)
qed

text \<open>The bytes of U+FFFD, which the pump cannot tell from a decoding error.\<close>

definition replacement :: string where
  "replacement = utf8 RuneError"

lemma has_prefix_contains: "has_prefix p s \<Longrightarrow> contains p s"
  by (cases s; cases p) (auto simp: contains_def has_prefix_def split: option.splits)

lemma contains_drop: "contains p (drop n s) \<Longrightarrow> contains p s"
proof (induction n arbitrary: s)
  case (Suc n)
  then show ?case by (cases s) (auto simp: contains_def split: option.splits)
qed simp

lemma process_runes_lossless:
  assumes "\<not> contains replacement s"
  shows "fst (process_runes s) @ snd (process_runes s) = s \<and> length (snd (process_runes s)) < 4"
  using assms
proof (induction s rule: process_runes.induct)
  case (1 s)
  show ?case
  proof (cases "s = []")
    case True
    then show ?thesis by (simp add: process_runes.simps)
  next
    case False
    obtain r n where d: "decode_rune s = (r, n)" by fastforce
    show ?thesis
    proof (cases "r = RuneError \<and> length s < 4")
      case True
      with False d show ?thesis by (simp add: process_runes.simps)
    next
      case stop: False
      have "\<not> contains replacement (drop n s)" using "1.prems" contains_drop by blast
      then have ih: "fst (process_runes (drop n s)) @ snd (process_runes (drop n s)) = drop n s"
        "length (snd (process_runes (drop n s))) < 4"
        using "1.IH" [OF False d [symmetric] refl stop] by blast+
      have "(if r = RuneError then take 1 s else utf8 r) = take n s"
      proof (cases "r = RuneError")
        case True
        have "\<not> has_prefix replacement s" using "1.prems" has_prefix_contains by blast
        then have "utf8 r \<noteq> take n s" using True
          by (auto simp: replacement_def has_prefix_iff) (metis append_take_drop_id)
        then have "n = 1" using decode_rune_inverse [OF d False] by blast
        with True show ?thesis by simp
      next
        case False
        then show ?thesis using decode_rune_inverse [OF d \<open>s \<noteq> []\<close>] by simp
      qed
      moreover have "process_runes s = ((if r = RuneError then take 1 s else utf8 r) @ fst (process_runes (drop n s)),
          snd (process_runes (drop n s)))"
        using False d stop by (subst process_runes.simps) (simp add: split_beta)
      ultimately show ?thesis using ih by simp
    qed
  qed
qed

text \<open>C33. The pump sends a terminal's output whole: as long as the output holds no U+FFFD, what is sent and the at
  most three bytes kept for the next chunk are together exactly the bytes read, also when a chunk ends
  inside a character or holds bytes that are no UTF-8.\<close>

theorem stdout_lossless:
  assumes "\<not> contains replacement (kept @ chunk)"
  shows "let (out, kept') = processStdoutData chunk kept in out @ kept' = kept @ chunk \<and> length kept' < 4"
  using process_runes_lossless [OF assms] by (simp add: processStdoutData_def split_beta)

theorem stdout_lossless_witness:
  "processStdoutData [char_of (226 :: nat), char_of (130 :: nat)] ''ab'' = (''ab'', [char_of (226 :: nat), char_of (130 :: nat)])
    \<and> \<not> contains replacement (''ab'' @ [char_of (226 :: nat), char_of (130 :: nat)])"
proof -
  have n: "\<not> contains replacement (''ab'' @ [char_of (226 :: nat), char_of (130 :: nat)])" by code_simp
  have "processStdoutData [char_of (226 :: nat), char_of (130 :: nat)] ''ab'' = (''ab'', [char_of (226 :: nat), char_of (130 :: nat)])"
    by code_simp
  with n stdout_lossless [OF n] show ?thesis by simp
qed

text \<open>A U+FFFD that a program prints is corrupted: its first byte is sent and its other two bytes are lost,
  because the test for the error rune does not look at the width of the rune.\<close>

theorem stdout_loses_replacement:
  "processStdoutData (replacement @ ''abcd'') [] = (take 1 replacement @ ''abcd'', [])
    \<and> length (take 1 replacement @ ''abcd'') = length (replacement @ ''abcd'') - 2"
  by code_simp

end
