(* ===== verification/Session_Task.thy ===== *)
theory Session_Task
  imports Session_Plugins Registries Task_Report
begin

text \<open>
  Sessions, \<open>agent/taskengine/session.go\<close>: how a session task is registered, connected, run,
  reported and removed, and how \<open>agent/kickvmhandle/sessionhandle.go\<close> stops one. The goroutines
  of \<open>DoSessionTask\<close> and of the stop handler interleave: they are the steps of one relation over
  the session factory and the heap of the session tasks.
\<close>

section \<open>Session tasks\<close>

record session_task =
  st_taskId :: string
  st_sessionId :: string
  st_websocketUrl :: string
  st_cmdContent :: string
  st_username :: string
  st_passwordName :: string
  st_targetHost :: string
  st_portNumber :: string
  st_flowLimit :: int
  st_channel :: "session_channel option"
  st_shell :: "shell_plugin option"
  st_port :: "port_plugin option"
  st_cancelFlag :: cancel_flag

definition NewSessionTask ::
  "string \<Rightarrow> string \<Rightarrow> string \<Rightarrow> string \<Rightarrow> string \<Rightarrow> string \<Rightarrow> string \<Rightarrow> string \<Rightarrow> int \<Rightarrow> session_task" where
  "NewSessionTask sessionId websocketUrl taskId cmdContent username passwordName targetHost portNumber flowLimit =
     \<lparr>st_taskId = taskId, st_sessionId = sessionId, st_websocketUrl = websocketUrl, st_cmdContent = cmdContent,
      st_username = username, st_passwordName = passwordName, st_targetHost = targetHost, st_portNumber = portNumber,
      st_flowLimit = flowLimit, st_channel = None, st_shell = None, st_port = None,
      st_cancelFlag = NewChanneledCancelFlag\<rparr>"

text \<open>The loop body of \<open>DoSessionTask\<close>: the session id serves as the task id too.\<close>

definition session_of_info :: "SessionTaskInfo \<Rightarrow> session_task" where
  "session_of_info s = NewSessionTask (si_SessionId s) (si_WebsocketUrl s) (si_SessionId s) (si_CmdContent s)
     (si_Username s) (si_Password s) (si_TargetHost s) (si_PortNumber s) (si_FlowLimit s)"

definition isPortForwardTask :: "session_task \<Rightarrow> bool" where
  "isPortForwardTask t \<longleftrightarrow> st_portNumber t \<noteq> []"

section \<open>Reports\<close>

definition reportStatus :: "string \<Rightarrow> string" where
  "reportStatus status = (if status = Ok \<or> status = Notified \<or> status = session_Timeout then ''Success'' else ''Failed'')"

definition session_report_url :: "env \<Rightarrow> string \<Rightarrow> string \<Rightarrow> string" where
  "session_report_url env taskID status =
     GetSessionStatusService env @ ''?channelId='' @ taskID @ ''&status='' @ reportStatus status @ ''&errorcode='' @ status"

definition ReportSessionResult :: "env \<Rightarrow> string \<Rightarrow> string \<Rightarrow> world \<Rightarrow> world" where
  "ReportSessionResult env taskID status w = snd (HttpPost env (session_report_url env taskID status) [] w)"

section \<open>Running one session\<close>

type_synonym session_result = "string \<times> go_error option"

text \<open>The plugin of a task; an unreadable port number is what \<open>Atoi\<close> makes of it.\<close>

definition new_plugin :: "session_task \<Rightarrow> session_task outcome" where
  "new_plugin t =
     (if isPortForwardTask t then
        map_ret (\<lambda>p. t\<lparr>st_port := Some p\<rparr>)
          (NewPortPlugin (st_sessionId t) (st_targetHost t) (fst (atoi (st_portNumber t))) (st_flowLimit t))
      else
        map_ret (\<lambda>p. t\<lparr>st_shell := Some p\<rparr>)
          (NewShellPlugin (st_sessionId t) (st_cmdContent t) (st_username t) (st_flowLimit t)))"

definition backend_url :: "string \<Rightarrow> string \<Rightarrow> string" where
  "backend_url host sid = ''wss://'' @ host @ ''/luban/session/backend?channelId='' @ sid"

text \<open>
  \<open>runTask\<close> up to the goroutine that executes the plugin: \<open>Inl\<close> is an early result, \<open>Inr ()\<close> an
  open channel. \<open>a\<close> is the address of the task, \<open>dial\<close> the answer of the server.
\<close>

definition runTask_start ::
  "env \<Rightarrow> (string \<Rightarrow> go_error option) \<Rightarrow> address \<Rightarrow> session_task \<Rightarrow> session_factory \<Rightarrow>
   ((session_result + unit) \<times> session_task \<times> session_factory) outcome" where
  "runTask_start env dial a t f =
     (if ContainsSessionTask f (st_sessionId t)
      then Returns (Inl (Session_id_duplicate, Some (PlainError ''NewSessionChannel failed'')), t, f)
      else bind_outcome (new_plugin t) (\<lambda>t1.
        let f1 = AddSessionTask (st_sessionId t1) a f in
        if server_host env = [] then Returns (Inl (Init_channel_failed, Some (PlainError ''No available host'')), t1, f1)
        else
          (let (err, ch) = channel_Open (dial (backend_url (server_host env) (st_sessionId t1))) (NewSessionChannel (st_sessionId t1));
               t2 = t1\<lparr>st_channel := Some ch\<rparr> in
           case err of
             Some e \<Rightarrow> Returns (Inl (Open_channel_failed, Some (WrappedError ''NewSessionChannel failed: '' e [])), t2, f1)
           | None \<Rightarrow> Returns (Inr (), t2, f1))))"

text \<open>How the wait for the plugin ends: with what it returned, or after three hours.\<close>

datatype session_end = Executed string "go_error option" | TimedOut

fun session_outcome :: "session_end \<Rightarrow> session_result" where
  "session_outcome (Executed code err) = (code, err)"
| "session_outcome TimedOut = (session_Timeout, None)"

text \<open>The rest of \<open>RunTask\<close>: report, close, deregister by the session id.\<close>

definition RunTask_finish ::
  "env \<Rightarrow> string \<Rightarrow> session_result \<Rightarrow> session_task \<Rightarrow> session_factory \<Rightarrow> world \<Rightarrow>
   go_error option \<times> session_task \<times> session_factory \<times> world" where
  "RunTask_finish env taskid res t f w =
     (let w1 = ReportSessionResult env taskid (fst res) w;
          t1 = t\<lparr>st_channel := map_option channel_Close (st_channel t)\<rparr>;
          f1 = RemoveSessionTask (st_sessionId t) f in
      (snd res, t1, f1, w1))"

definition session_RunTask ::
  "env \<Rightarrow> (string \<Rightarrow> go_error option) \<Rightarrow> address \<Rightarrow> session_end \<Rightarrow> string \<Rightarrow> session_task \<Rightarrow> session_factory \<Rightarrow> world \<Rightarrow>
   (go_error option \<times> session_task \<times> session_factory \<times> world) outcome" where
  "session_RunTask env dial a ending taskid t f w =
     map_ret (\<lambda>(r, t1, f1).
       RunTask_finish env taskid (case r of Inl res \<Rightarrow> res | Inr u \<Rightarrow> session_outcome ending) t1 f1 w)
       (runTask_start env dial a t f)"

definition session_StopTask :: "session_task \<Rightarrow> session_task" where
  "session_StopTask t =
     (if st_shell t \<noteq> None \<or> st_port t \<noteq> None then t\<lparr>st_cancelFlag := flag_Set Completed_state (st_cancelFlag t)\<rparr> else t)"

section \<open>All sessions\<close>

text \<open>
  A goroutine of \<open>DoSessionTask\<close> works off its list, one session at a time; \<open>sj_current\<close> is the
  one it waits for. \<open>ss_stops\<close> are the stop handlers that have seen their session in the factory
  but not fetched it yet. \<open>ss_crash\<close> is a panic that no recover catches: it ends the agent.
\<close>

record session_job =
  sj_rest :: "SessionTaskInfo list"
  sj_current :: "address option"

record sessions =
  ss_heap :: "session_task list"
  ss_factory :: session_factory
  ss_jobs :: "session_job list"
  ss_stops :: "string list"
  ss_crash :: "panic option"
  ss_world :: world

definition no_sessions :: sessions where
  "no_sessions = \<lparr>ss_heap = [], ss_factory = GetSessionFactory None, ss_jobs = [], ss_stops = [], ss_crash = None,
     ss_world = \<lparr>ticks = 0, trace = []\<rparr>\<rparr>"

definition DoSessionTask :: "SessionTaskInfo list \<Rightarrow> sessions \<Rightarrow> sessions" where
  "DoSessionTask infos s = s\<lparr>ss_jobs := ss_jobs s @ [\<lparr>sj_rest = infos, sj_current = None\<rparr>]\<rparr>"

text \<open>Goroutine \<open>i\<close> takes its next session, up to the wait for the plugin or to its early end.\<close>

definition job_start :: "env \<Rightarrow> (string \<Rightarrow> go_error option) \<Rightarrow> nat \<Rightarrow> sessions \<Rightarrow> sessions" where
  "job_start env dial i s =
     (case sj_rest (ss_jobs s ! i) of
        [] \<Rightarrow> s
      | info # rest \<Rightarrow>
          (let a = length (ss_heap s); t = session_of_info info in
           case runTask_start env dial a t (ss_factory s) of
             Panics p \<Rightarrow> s\<lparr>ss_crash := Some p\<rparr>
           | Returns (Inr u, t1, f1) \<Rightarrow>
               s\<lparr>ss_heap := ss_heap s @ [t1], ss_factory := f1,
                 ss_jobs := (ss_jobs s)[i := \<lparr>sj_rest = rest, sj_current = Some a\<rparr>]\<rparr>
           | Returns (Inl res, t1, f1) \<Rightarrow>
               (let (err, t2, f2, w2) = RunTask_finish env (si_SessionId info) res t1 f1 (ss_world s) in
                s\<lparr>ss_heap := ss_heap s @ [t2], ss_factory := f2,
                  ss_jobs := (ss_jobs s)[i := \<lparr>sj_rest = rest, sj_current = None\<rparr>], ss_world := w2\<rparr>)))"

text \<open>The wait of goroutine \<open>i\<close> ends.\<close>

definition job_finish :: "env \<Rightarrow> nat \<Rightarrow> session_end \<Rightarrow> sessions \<Rightarrow> sessions" where
  "job_finish env i ending s =
     (case sj_current (ss_jobs s ! i) of
        None \<Rightarrow> s
      | Some a \<Rightarrow>
          (let t = ss_heap s ! a;
               (err, t2, f2, w2) = RunTask_finish env (st_taskId t) (session_outcome ending) t (ss_factory s) (ss_world s) in
           s\<lparr>ss_heap := (ss_heap s)[a := t2], ss_factory := f2,
             ss_jobs := (ss_jobs s)[i := \<lparr>sj_rest = sj_rest (ss_jobs s ! i), sj_current = None\<rparr>], ss_world := w2\<rparr>))"

text \<open>
  \<open>stopSession\<close>: \<open>ContainsTask\<close>, and later \<open>GetTask\<close> and \<open>StopTask\<close>, which reads the task
  through a pointer that is nil when the session has gone in between.
\<close>

definition stopSession_check :: "string list \<Rightarrow> sessions \<Rightarrow> sessions" where
  "stopSession_check params s =
     (case params of
        [] \<Rightarrow> s
      | sid # ps \<Rightarrow> if ContainsSessionTask (ss_factory s) sid then s\<lparr>ss_stops := ss_stops s @ [sid]\<rparr> else s)"

definition stopSession_apply :: "nat \<Rightarrow> sessions \<Rightarrow> sessions" where
  "stopSession_apply n s =
     (let s' = s\<lparr>ss_stops := take n (ss_stops s) @ drop (Suc n) (ss_stops s)\<rparr> in
      case GetSessionTask (ss_factory s) (ss_stops s ! n) of
        None \<Rightarrow> s'\<lparr>ss_crash := Some NilDereference\<rparr>
      | Some a \<Rightarrow> s'\<lparr>ss_heap := (ss_heap s)[a := session_StopTask (ss_heap s ! a)]\<rparr>)"

inductive session_step :: "env \<Rightarrow> sessions \<Rightarrow> sessions \<Rightarrow> bool" for env where
  fetched: "ss_crash s = None \<Longrightarrow> session_step env s (DoSessionTask infos s)"
| started: "ss_crash s = None \<Longrightarrow> i < length (ss_jobs s) \<Longrightarrow> sj_current (ss_jobs s ! i) = None \<Longrightarrow>
    session_step env s (job_start env dial i s)"
| ended: "ss_crash s = None \<Longrightarrow> i < length (ss_jobs s) \<Longrightarrow> session_step env s (job_finish env i ending s)"
| stop_seen: "ss_crash s = None \<Longrightarrow> session_step env s (stopSession_check params s)"
| stop_applied: "ss_crash s = None \<Longrightarrow> n < length (ss_stops s) \<Longrightarrow> session_step env s (stopSession_apply n s)"

inductive session_reachable :: "env \<Rightarrow> sessions \<Rightarrow> bool" for env where
  start: "session_reachable env no_sessions"
| step: "session_reachable env s \<Longrightarrow> session_step env s s' \<Longrightarrow> session_reachable env s'"

section \<open>Lemmas\<close>

definition has_plugin :: "session_task \<Rightarrow> bool" where
  "has_plugin t \<longleftrightarrow> st_shell t \<noteq> None \<or> st_port t \<noteq> None"

lemma new_plugin_Returns:
  "new_plugin t = Returns t1 \<Longrightarrow> has_plugin t1 \<and> st_sessionId t1 = st_sessionId t \<and> st_taskId t1 = st_taskId t
     \<and> st_channel t1 = st_channel t"
  by (auto simp: new_plugin_def has_plugin_def split: if_splits)

lemma runTask_start_duplicate:
  "ContainsSessionTask f (st_sessionId t) \<Longrightarrow> runTask_start env dial a t f
    = Returns (Inl (Session_id_duplicate, Some (PlainError ''NewSessionChannel failed'')), t, f)"
  by (simp add: runTask_start_def)

lemma runTask_start_fresh:
  assumes "runTask_start env dial a t f = Returns (r, t1, f1)" "\<not> ContainsSessionTask f (st_sessionId t)"
  shows "f1 = AddSessionTask (st_sessionId t) a f" "st_sessionId t1 = st_sessionId t" "st_taskId t1 = st_taskId t" "has_plugin t1"
    "r = Inr () \<or> fst (projl r) \<in> {Init_channel_failed, Open_channel_failed} \<and> r = Inl (projl r)"
proof -
  obtain t' where n: "new_plugin t = Returns t'" using assms
    by (auto simp: runTask_start_def bind_outcome_Returns_iff)
  note p = new_plugin_Returns [OF n]
  have "f1 = AddSessionTask (st_sessionId t) a f \<and> st_sessionId t1 = st_sessionId t \<and> st_taskId t1 = st_taskId t \<and> has_plugin t1
    \<and> (r = Inr () \<or> fst (projl r) \<in> {Init_channel_failed, Open_channel_failed} \<and> r = Inl (projl r))"
    using assms n p by (auto simp: runTask_start_def Let_def has_plugin_def split: if_splits prod.splits option.splits)
  then show "f1 = AddSessionTask (st_sessionId t) a f" "st_sessionId t1 = st_sessionId t" "st_taskId t1 = st_taskId t" "has_plugin t1"
    "r = Inr () \<or> fst (projl r) \<in> {Init_channel_failed, Open_channel_failed} \<and> r = Inl (projl r)" by blast+
qed

lemma RunTask_finish_simps:
  "fst (snd (RunTask_finish env k res t f w)) = t\<lparr>st_channel := map_option channel_Close (st_channel t)\<rparr>"
  "fst (snd (snd (RunTask_finish env k res t f w))) = RemoveSessionTask (st_sessionId t) f"
  "snd (snd (snd (RunTask_finish env k res t f w))) = ReportSessionResult env k (fst res) w"
  by (simp_all add: RunTask_finish_def)

lemma ReportSessionResult_posts:
  "posts (trace (ReportSessionResult env k code w)) = posts (trace w) @ [HttpSent ''POST'' (session_report_url env k code) []]"
proof -
  obtain es where "trace (ReportSessionResult env k code w) = trace w @ HttpSent ''POST'' (session_report_url env k code) [] # es"
    "posts es = []"
    using HttpPost_trace unfolding ReportSessionResult_def by blast
  then show ?thesis by simp
qed

section \<open>The invariant\<close>

definition waited_for :: "address \<Rightarrow> sessions \<Rightarrow> bool" where
  "waited_for a s \<longleftrightarrow> (\<exists>i<length (ss_jobs s). sj_current (ss_jobs s ! i) = Some a)"

definition sessions_ok :: "sessions \<Rightarrow> bool" where
  "sessions_ok s \<longleftrightarrow> sess_ok (ss_factory s)
     \<and> (\<forall>k a. GetSessionTask (ss_factory s) k = Some a \<longrightarrow> a < length (ss_heap s) \<and> st_sessionId (ss_heap s ! a) = k
          \<and> has_plugin (ss_heap s ! a) \<and> waited_for a s)
     \<and> (\<forall>i a. i < length (ss_jobs s) \<longrightarrow> sj_current (ss_jobs s ! i) = Some a \<longrightarrow> a < length (ss_heap s))
     \<and> (\<forall>i j a. i < length (ss_jobs s) \<longrightarrow> j < length (ss_jobs s) \<longrightarrow> sj_current (ss_jobs s ! i) = Some a \<longrightarrow>
          sj_current (ss_jobs s ! j) = Some a \<longrightarrow> i = j)"

lemma sessions_okD:
  assumes "sessions_ok s"
  shows "sess_ok (ss_factory s)"
    "GetSessionTask (ss_factory s) k = Some a \<Longrightarrow> a < length (ss_heap s) \<and> st_sessionId (ss_heap s ! a) = k
      \<and> has_plugin (ss_heap s ! a) \<and> waited_for a s"
    "i < length (ss_jobs s) \<Longrightarrow> sj_current (ss_jobs s ! i) = Some a \<Longrightarrow> a < length (ss_heap s)"
    "i < length (ss_jobs s) \<Longrightarrow> j < length (ss_jobs s) \<Longrightarrow> sj_current (ss_jobs s ! i) = Some a \<Longrightarrow>
      sj_current (ss_jobs s ! j) = Some a \<Longrightarrow> i = j"
  using assms by (auto simp: sessions_ok_def)

lemma sessions_ok_start: "sessions_ok no_sessions"
  by (simp add: sessions_ok_def no_sessions_def GetSessionFactory_def sess_ok_def GetSessionTask_def)

lemma sessions_ok_crash [simp]: "sessions_ok (s\<lparr>ss_crash := c\<rparr>) = sessions_ok s"
  by (simp add: sessions_ok_def waited_for_def)

lemma sessions_ok_stops [simp]: "sessions_ok (s\<lparr>ss_stops := c\<rparr>) = sessions_ok s"
  by (simp add: sessions_ok_def waited_for_def)

lemma sessions_ok_DoSessionTask:
  assumes "sessions_ok s" shows "sessions_ok (DoSessionTask infos s)"
proof -
  have w: "waited_for a (DoSessionTask infos s)" if "waited_for a s" for a
    using that by (auto simp: waited_for_def DoSessionTask_def nth_append intro: less_SucI)
  have cur: "i < length (ss_jobs s) \<and> sj_current (ss_jobs s ! i) = Some a"
    if "i < length (ss_jobs (DoSessionTask infos s))" "sj_current (ss_jobs (DoSessionTask infos s) ! i) = Some a" for i a
    using that by (auto simp: DoSessionTask_def nth_append less_Suc_eq split: if_splits)
  show ?thesis
    unfolding sessions_ok_def
  proof (intro conjI allI impI)
    show "sess_ok (ss_factory (DoSessionTask infos s))" using sessions_okD(1) [OF assms] by (simp add: DoSessionTask_def)
  next
    fix k a assume "GetSessionTask (ss_factory (DoSessionTask infos s)) k = Some a"
    then have "GetSessionTask (ss_factory s) k = Some a" by (simp add: DoSessionTask_def)
    note this = sessions_okD(2) [OF assms this]
    then show "a < length (ss_heap (DoSessionTask infos s))" "st_sessionId (ss_heap (DoSessionTask infos s) ! a) = k"
      "has_plugin (ss_heap (DoSessionTask infos s) ! a)" "waited_for a (DoSessionTask infos s)"
      using w by (simp_all add: DoSessionTask_def)
  next
    fix i a assume "i < length (ss_jobs (DoSessionTask infos s))" "sj_current (ss_jobs (DoSessionTask infos s) ! i) = Some a"
    then show "a < length (ss_heap (DoSessionTask infos s))"
      using cur sessions_okD(3) [OF assms] by (fastforce simp: DoSessionTask_def)
  next
    fix i j a assume "i < length (ss_jobs (DoSessionTask infos s))" "j < length (ss_jobs (DoSessionTask infos s))"
      "sj_current (ss_jobs (DoSessionTask infos s) ! i) = Some a" "sj_current (ss_jobs (DoSessionTask infos s) ! j) = Some a"
    then show "i = j" using cur sessions_okD(4) [OF assms] by blast
  qed
qed

text \<open>A step that registers nothing keeps the invariant when it keeps what the registered tasks need.\<close>

lemma sessions_ok_shrink:
  assumes "sessions_ok s" "sess_ok (ss_factory s')"
    and look: "\<And>k a. GetSessionTask (ss_factory s') k = Some a \<Longrightarrow> GetSessionTask (ss_factory s) k = Some a \<and> waited_for a s'"
    and heap: "length (ss_heap s) \<le> length (ss_heap s')"
      "\<And>a. a < length (ss_heap s) \<Longrightarrow> st_sessionId (ss_heap s' ! a) = st_sessionId (ss_heap s ! a)
        \<and> (has_plugin (ss_heap s ! a) \<longrightarrow> has_plugin (ss_heap s' ! a))"
    and cur: "\<And>i a. i < length (ss_jobs s') \<Longrightarrow> sj_current (ss_jobs s' ! i) = Some a \<Longrightarrow>
      i < length (ss_jobs s) \<and> sj_current (ss_jobs s ! i) = Some a"
  shows "sessions_ok s'"
  unfolding sessions_ok_def
proof (intro conjI allI impI)
  fix k a assume "GetSessionTask (ss_factory s') k = Some a"
  note l = look [OF this]
  note o = sessions_okD(2) [OF assms(1) conjunct1 [OF l]]
  show "a < length (ss_heap s')" using o heap(1) by simp
  show "st_sessionId (ss_heap s' ! a) = k" "has_plugin (ss_heap s' ! a)" using o heap(2) by auto
  show "waited_for a s'" using l by blast
next
  fix i a assume "i < length (ss_jobs s')" "sj_current (ss_jobs s' ! i) = Some a"
  with cur sessions_okD(3) [OF assms(1)] heap(1) show "a < length (ss_heap s')" by (meson less_le_trans)
next
  fix i j a assume "i < length (ss_jobs s')" "j < length (ss_jobs s')" "sj_current (ss_jobs s' ! i) = Some a"
    "sj_current (ss_jobs s' ! j) = Some a"
  with cur sessions_okD(4) [OF assms(1)] show "i = j" by blast
qed (rule assms(2))

lemma job_start_panics:
  "sj_rest (ss_jobs s ! i) = info # rest \<Longrightarrow> runTask_start env dial (length (ss_heap s)) (session_of_info info) (ss_factory s) = Panics p \<Longrightarrow>
    job_start env dial i s = s\<lparr>ss_crash := Some p\<rparr>"
  by (simp add: job_start_def Let_def)

lemma job_start_open:
  "sj_rest (ss_jobs s ! i) = info # rest \<Longrightarrow>
    runTask_start env dial (length (ss_heap s)) (session_of_info info) (ss_factory s) = Returns (Inr u, t1, f1) \<Longrightarrow>
    job_start env dial i s = s\<lparr>ss_heap := ss_heap s @ [t1], ss_factory := f1,
      ss_jobs := (ss_jobs s)[i := \<lparr>sj_rest = rest, sj_current = Some (length (ss_heap s))\<rparr>]\<rparr>"
  by (simp add: job_start_def Let_def)

lemma job_start_early:
  "sj_rest (ss_jobs s ! i) = info # rest \<Longrightarrow>
    runTask_start env dial (length (ss_heap s)) (session_of_info info) (ss_factory s) = Returns (Inl res, t1, f1) \<Longrightarrow>
    job_start env dial i s = s\<lparr>ss_heap := ss_heap s @ [t1\<lparr>st_channel := map_option channel_Close (st_channel t1)\<rparr>],
      ss_factory := RemoveSessionTask (st_sessionId t1) f1,
      ss_jobs := (ss_jobs s)[i := \<lparr>sj_rest = rest, sj_current = None\<rparr>],
      ss_world := ReportSessionResult env (si_SessionId info) (fst res) (ss_world s)\<rparr>"
  by (simp add: job_start_def Let_def RunTask_finish_def)

lemma job_finish_current:
  "sj_current (ss_jobs s ! i) = Some a \<Longrightarrow>
    job_finish env i ending s = s\<lparr>ss_heap := (ss_heap s)[a := (ss_heap s ! a)\<lparr>st_channel := map_option channel_Close (st_channel (ss_heap s ! a))\<rparr>],
      ss_factory := RemoveSessionTask (st_sessionId (ss_heap s ! a)) (ss_factory s),
      ss_jobs := (ss_jobs s)[i := \<lparr>sj_rest = sj_rest (ss_jobs s ! i), sj_current = None\<rparr>],
      ss_world := ReportSessionResult env (st_taskId (ss_heap s ! a)) (fst (session_outcome ending)) (ss_world s)\<rparr>"
  by (simp add: job_finish_def Let_def RunTask_finish_def)

lemma session_of_info_simps [simp]:
  "st_sessionId (session_of_info info) = si_SessionId info" "st_taskId (session_of_info info) = si_SessionId info"
  by (simp_all add: session_of_info_def NewSessionTask_def)

lemma waited_for_update:
  assumes "waited_for a s" "ss_jobs s' = (ss_jobs s)[i := J]" "sj_current (ss_jobs s ! i) \<noteq> Some a \<or> sj_current J = Some a"
  shows "waited_for a s'"
proof -
  obtain j where "j < length (ss_jobs s)" "sj_current (ss_jobs s ! j) = Some a" using assms(1) by (auto simp: waited_for_def)
  with assms(2,3) have "j < length (ss_jobs s') \<and> sj_current (ss_jobs s' ! j) = Some a" by (cases "i = j") auto
  then show ?thesis by (auto simp: waited_for_def)
qed

lemma sess_ok_AddRemove:
  "sess_ok f \<Longrightarrow> sess_ok (AddSessionTask k a f)" "sess_ok f \<Longrightarrow> sess_ok (RemoveSessionTask k f)"
  by (simp_all add: sess_ok_def AddSessionTask_def RemoveSessionTask_def distinct_update distinct_delete)

lemma GetSessionTask_Add: "GetSessionTask (AddSessionTask k a f) = (GetSessionTask f)(k \<mapsto> a)"
  by (auto simp: GetSessionTask_def AddSessionTask_def update_conv')

lemma GetSessionTask_Remove: "GetSessionTask (RemoveSessionTask k f) = (GetSessionTask f)(k := None)"
  by (simp add: GetSessionTask_def RemoveSessionTask_def delete_conv' fun_eq_iff)

lemma Contains_iff_Get: "ContainsSessionTask f k \<longleftrightarrow> GetSessionTask f k \<noteq> None"
  by (simp add: ContainsSessionTask_def GetSessionTask_def)

lemma sessions_ok_job_start:
  assumes ok: "sessions_ok s" and idle: "i < length (ss_jobs s)" "sj_current (ss_jobs s ! i) = None"
  shows "sessions_ok (job_start env dial i s)"
proof (cases "sj_rest (ss_jobs s ! i)")
  case Nil
  with ok show ?thesis by (simp add: job_start_def)
next
  case (Cons info rest)
  let ?r = "runTask_start env dial (length (ss_heap s)) (session_of_info info) (ss_factory s)"
  let ?k = "si_SessionId info"
  note f_ok = sessions_okD(1) [OF ok]
  consider (panic) p where "?r = Panics p" | (opened) t1 f1 where "?r = Returns (Inr (), t1, f1)"
    | (early) res t1 f1 where "?r = Returns (Inl res, t1, f1)"
  proof (cases ?r)
    case (Panics p)
    then show ?thesis by (rule panic)
  next
    case (Returns x)
    obtain r t1 f1 where x: "x = (r, t1, f1)" by (cases x) auto
    with Returns opened early show ?thesis by (cases r) auto
  qed
  then show ?thesis
  proof cases
    case panic
    with ok Cons show ?thesis by (simp add: job_start_panics)
  next
    case opened
    have new: "\<not> ContainsSessionTask (ss_factory s) (st_sessionId (session_of_info info))"
      using opened runTask_start_duplicate by fastforce
    note fr = runTask_start_fresh [OF opened new]
    define s' where "s' = job_start env dial i s"
    have s': "ss_heap s' = ss_heap s @ [t1]" "ss_factory s' = AddSessionTask ?k (length (ss_heap s)) (ss_factory s)"
      "ss_jobs s' = (ss_jobs s)[i := \<lparr>sj_rest = rest, sj_current = Some (length (ss_heap s))\<rparr>]"
      using job_start_open [OF Cons opened] fr(1) by (simp_all add: s'_def)
    have self: "waited_for (length (ss_heap s)) s'"
      using idle(1) unfolding waited_for_def s'(3) by (intro exI [of _ i]) simp
    have others: "waited_for a s'" if "waited_for a s" for a
      using waited_for_update [OF that s'(3)] idle(2) by simp
    have cur: "i' < length (ss_jobs s) \<and> (i' = i \<and> a = length (ss_heap s) \<or> i' \<noteq> i \<and> sj_current (ss_jobs s ! i') = Some a)"
      if "i' < length (ss_jobs s')" "sj_current (ss_jobs s' ! i') = Some a" for i' a
      using that idle(1) by (auto simp: s' nth_list_update split: if_splits)
    show ?thesis
      unfolding sessions_ok_def s'_def [symmetric]
    proof (intro conjI allI impI)
      show "sess_ok (ss_factory s')" using f_ok by (simp add: s' sess_ok_AddRemove)
    next
      fix k a assume a: "GetSessionTask (ss_factory s') k = Some a"
      show "a < length (ss_heap s')" "st_sessionId (ss_heap s' ! a) = k" "has_plugin (ss_heap s' ! a)" "waited_for a s'"
        using a fr self others sessions_okD(2) [OF ok, of k a]
        by (auto simp: s' GetSessionTask_Add nth_append split: if_splits)
    next
      fix i' a assume "i' < length (ss_jobs s')" "sj_current (ss_jobs s' ! i') = Some a"
      from cur [OF this] sessions_okD(3) [OF ok, of i' a] show "a < length (ss_heap s')" by (auto simp: s')
    next
      fix i' j a assume "i' < length (ss_jobs s')" "j < length (ss_jobs s')" "sj_current (ss_jobs s' ! i') = Some a"
        "sj_current (ss_jobs s' ! j) = Some a"
      then show "i' = j" using cur [of i' a] cur [of j a] sessions_okD(3,4) [OF ok] by (metis less_irrefl)
    qed
  next
    case early
    define s' where "s' = job_start env dial i s"
    have s': "ss_heap s' = ss_heap s @ [t1\<lparr>st_channel := map_option channel_Close (st_channel t1)\<rparr>]"
      "ss_factory s' = RemoveSessionTask (st_sessionId t1) f1" "ss_jobs s' = (ss_jobs s)[i := \<lparr>sj_rest = rest, sj_current = None\<rparr>]"
      using job_start_early [OF Cons early] by (simp_all add: s'_def)
    have f: "sess_ok f1 \<and> (\<forall>k a. GetSessionTask (RemoveSessionTask (st_sessionId t1) f1) k = Some a \<longrightarrow> GetSessionTask (ss_factory s) k = Some a)"
    proof (cases "ContainsSessionTask (ss_factory s) ?k")
      case True
      then have "f1 = ss_factory s" using early by (simp add: runTask_start_duplicate)
      with f_ok show ?thesis by (auto simp: GetSessionTask_Remove split: if_splits)
    next
      case False
      then have "\<not> ContainsSessionTask (ss_factory s) (st_sessionId (session_of_info info))" by simp
      from runTask_start_fresh [OF early this] f_ok show ?thesis
        by (auto simp: GetSessionTask_Remove GetSessionTask_Add sess_ok_AddRemove split: if_splits)
    qed
    show ?thesis unfolding s'_def [symmetric]
    proof (rule sessions_ok_shrink [OF ok])
      show "sess_ok (ss_factory s')" using f by (simp add: s' sess_ok_AddRemove)
    next
      fix k a assume "GetSessionTask (ss_factory s') k = Some a"
      then have g: "GetSessionTask (ss_factory s) k = Some a" using f by (simp add: s')
      with sessions_okD(2) [OF ok g] show "GetSessionTask (ss_factory s) k = Some a \<and> waited_for a s'"
        using waited_for_update [OF _ s'(3)] idle(2) by simp
    next
      fix i' a assume "i' < length (ss_jobs s')" "sj_current (ss_jobs s' ! i') = Some a"
      then show "i' < length (ss_jobs s) \<and> sj_current (ss_jobs s ! i') = Some a" by (cases "i' = i") (auto simp: s')
    qed (simp_all add: s' nth_append)
  qed
qed

lemma sessions_ok_job_finish:
  assumes ok: "sessions_ok s" and i: "i < length (ss_jobs s)"
  shows "sessions_ok (job_finish env i ending s)"
proof (cases "sj_current (ss_jobs s ! i)")
  case None
  with ok show ?thesis by (simp add: job_finish_def)
next
  case (Some a)
  define s' where "s' = job_finish env i ending s"
  have s': "ss_heap s' = (ss_heap s)[a := (ss_heap s ! a)\<lparr>st_channel := map_option channel_Close (st_channel (ss_heap s ! a))\<rparr>]"
    "ss_factory s' = RemoveSessionTask (st_sessionId (ss_heap s ! a)) (ss_factory s)"
    "ss_jobs s' = (ss_jobs s)[i := \<lparr>sj_rest = sj_rest (ss_jobs s ! i), sj_current = None\<rparr>]"
    using job_finish_current [OF Some] by (simp_all add: s'_def)
  show ?thesis unfolding s'_def [symmetric]
  proof (rule sessions_ok_shrink [OF ok])
    show "sess_ok (ss_factory s')" using sessions_okD(1) [OF ok] by (simp add: s' sess_ok_AddRemove)
  next
    fix k b assume "GetSessionTask (ss_factory s') k = Some b"
    then have g: "GetSessionTask (ss_factory s) k = Some b" "k \<noteq> st_sessionId (ss_heap s ! a)"
      by (auto simp: s' GetSessionTask_Remove split: if_splits)
    with sessions_okD(2) [OF ok g(1)] have "b \<noteq> a" "waited_for b s" by auto
    with g(1) Some show "GetSessionTask (ss_factory s) k = Some b \<and> waited_for b s'"
      using waited_for_update [OF _ s'(3)] by simp
  next
    fix j b assume "j < length (ss_jobs s')" "sj_current (ss_jobs s' ! j) = Some b"
    then show "j < length (ss_jobs s) \<and> sj_current (ss_jobs s ! j) = Some b" by (cases "j = i") (auto simp: s')
  next
    fix b assume "b < length (ss_heap s)"
    then show "st_sessionId (ss_heap s' ! b) = st_sessionId (ss_heap s ! b) \<and> (has_plugin (ss_heap s ! b) \<longrightarrow> has_plugin (ss_heap s' ! b))"
      by (cases "b = a") (simp_all add: s' has_plugin_def)
  qed (simp add: s')
qed

lemma sessions_ok_stopSession_apply:
  assumes ok: "sessions_ok s"
  shows "sessions_ok (stopSession_apply n s)"
proof (cases "GetSessionTask (ss_factory s) (ss_stops s ! n)")
  case None
  with ok show ?thesis by (simp add: stopSession_apply_def Let_def)
next
  case (Some a)
  define s' where "s' = stopSession_apply n s"
  have s': "ss_heap s' = (ss_heap s)[a := session_StopTask (ss_heap s ! a)]" "ss_factory s' = ss_factory s" "ss_jobs s' = ss_jobs s"
    using Some by (simp_all add: s'_def stopSession_apply_def Let_def)
  have w: "waited_for b s'" if "waited_for b s" for b using that by (simp add: waited_for_def s')
  have h: "st_sessionId (session_StopTask u) = st_sessionId u" "has_plugin (session_StopTask u) = has_plugin u" for u
    by (simp_all add: session_StopTask_def has_plugin_def)
  show ?thesis unfolding s'_def [symmetric]
  proof (rule sessions_ok_shrink [OF ok])
    fix k b assume "GetSessionTask (ss_factory s') k = Some b"
    with sessions_okD(2) [OF ok] w show "GetSessionTask (ss_factory s) k = Some b \<and> waited_for b s'" by (simp add: s')
  next
    fix b assume "b < length (ss_heap s)"
    then show "st_sessionId (ss_heap s' ! b) = st_sessionId (ss_heap s ! b) \<and> (has_plugin (ss_heap s ! b) \<longrightarrow> has_plugin (ss_heap s' ! b))"
      by (cases "b = a") (simp_all add: s' h)
  qed (use sessions_okD(1) [OF ok] in \<open>simp_all add: s'\<close>)
qed

lemma session_step_ok:
  assumes "session_step env s s'" "sessions_ok s"
  shows "sessions_ok s'"
  using assms
proof cases
  case (stop_seen params)
  with assms(2) show ?thesis by (simp add: stopSession_check_def split: list.split)
qed (use assms(2) in \<open>simp_all add: sessions_ok_DoSessionTask sessions_ok_job_start sessions_ok_job_finish sessions_ok_stopSession_apply\<close>)

lemma session_reachable_ok:
  assumes "session_reachable env s" shows "sessions_ok s"
  using assms by induction (simp_all add: sessions_ok_start session_step_ok)

lemma session_reachable_steps:
  assumes "session_reachable env s" "ss_crash s = None"
  shows "session_reachable env (DoSessionTask infos s)"
    "i < length (ss_jobs s) \<Longrightarrow> sj_current (ss_jobs s ! i) = None \<Longrightarrow> session_reachable env (job_start env dial i s)"
    "i < length (ss_jobs s) \<Longrightarrow> session_reachable env (job_finish env i ending s)"
    "session_reachable env (stopSession_check params s)"
    "n < length (ss_stops s) \<Longrightarrow> session_reachable env (stopSession_apply n s)"
  using assms session_step.intros session_reachable.step by metis+

section \<open>Properties\<close>

text \<open>C4. In every state the session engine reaches, a registered session is waited for by exactly one
  goroutine, has its plugin and carries the name it is registered under; a stop handler that finds it
  sets its cancel flag, which the plugin waits for, and touches no other session.\<close>

theorem registered_session_stoppable:
  assumes "session_reachable env s" "GetSessionTask (ss_factory s) sid = Some a"
    and "n < length (ss_stops s)" "ss_stops s ! n = sid"
  shows "(\<exists>!i. i < length (ss_jobs s) \<and> sj_current (ss_jobs s ! i) = Some a) \<and> st_sessionId (ss_heap s ! a) = sid
    \<and> (let s' = stopSession_apply n s in
        ss_crash s' = ss_crash s \<and> flag_Wait (st_cancelFlag (ss_heap s' ! a)) = Some Completed_state
        \<and> length (ss_heap s') = length (ss_heap s) \<and> list_all (\<lambda>b. b = a \<or> ss_heap s' ! b = ss_heap s ! b) [0..<length (ss_heap s)])"
proof -
  note ok = session_reachable_ok [OF assms(1)]
  note reg = sessions_okD(2) [OF ok assms(2)]
  have "\<exists>!i. i < length (ss_jobs s) \<and> sj_current (ss_jobs s ! i) = Some a"
    using reg sessions_okD(4) [OF ok] unfolding waited_for_def by blast
  with reg assms(2-4) show ?thesis
    by (auto simp: stopSession_apply_def Let_def session_StopTask_def has_plugin_def flag_Wait_def flag_Set_def list_all_iff nth_list_update)
qed

text \<open>The codes of a session that does not reach its plugin, and what closing leaves.\<close>

definition closed_channel :: "session_task \<Rightarrow> bool" where
  "closed_channel t \<longleftrightarrow> (case st_channel t of None \<Rightarrow> True | Some ch \<Rightarrow> \<not> channel_IsActive ch)"

lemma closed_after_finish: "closed_channel (fst (snd (RunTask_finish env k res t f w)))"
  by (simp add: RunTask_finish_simps closed_channel_def channel_Close_def channel_IsActive_def split: option.split)

text \<open>A session with a name of its own, run on its own, leaves the registrations as they were: it posts
  exactly one result, failed when there is no server or no connection and else what its plugin ended with,
  its channel is closed, and only a speed limit below one package per second crashes it.\<close>

theorem session_RunTask_fresh:
  assumes "sess_ok f" "\<not> ContainsSessionTask f (st_sessionId t)"
  shows "case session_RunTask env dial a ending taskid t f w of
      Panics p \<Rightarrow> panics (new_plugin t)
    | Returns (err, t', f', w') \<Rightarrow> GetSessionTask f' = GetSessionTask f \<and> closed_channel t' \<and>
        (\<exists>code. posts (trace w') = posts (trace w) @ [HttpSent ''POST'' (session_report_url env taskid code) []]
          \<and> code \<in> {Init_channel_failed, Open_channel_failed, fst (session_outcome ending)})"
proof (cases "runTask_start env dial a t f")
  case (Panics p)
  then have "panics (new_plugin t)" using assms(2)
    by (cases "new_plugin t") (auto simp: runTask_start_def Let_def split: if_splits prod.splits option.splits)
  with Panics show ?thesis by (simp add: session_RunTask_def)
next
  case (Returns x)
  obtain r t1 f1 where x: "x = (r, t1, f1)" by (cases x)
  note fr = runTask_start_fresh [OF Returns [unfolded x] assms(2)]
  define res where "res = (case r of Inl res \<Rightarrow> res | Inr u \<Rightarrow> session_outcome ending)"
  obtain err t' f' w' where fin: "RunTask_finish env taskid res t1 f1 w = (err, t', f', w')" by (metis prod_cases4)
  have "GetSessionTask f' = GetSessionTask f"
  proof -
    have "f' = RemoveSessionTask (st_sessionId t) (AddSessionTask (st_sessionId t) a f)"
      using fin fr(1,2) RunTask_finish_simps(2) [of env taskid res t1 f1 w] by simp
    with assms show ?thesis
      by (simp add: GetSessionTask_Remove GetSessionTask_Add Contains_iff_Get) (metis fun_upd_triv)
  qed
  moreover have "closed_channel t'" using closed_after_finish [of env taskid res t1 f1 w] fin by simp
  moreover have "posts (trace w') = posts (trace w) @ [HttpSent ''POST'' (session_report_url env taskid (fst res)) []]"
    using fin RunTask_finish_simps(3) [of env taskid res t1 f1 w] ReportSessionResult_posts by simp
  moreover have "fst res \<in> {Init_channel_failed, Open_channel_failed, fst (session_outcome ending)}"
    using fr(5) by (auto simp: res_def split: sum.split)
  ultimately show ?thesis using Returns x fin by (auto simp: session_RunTask_def res_def)
qed

text \<open>C11. A session announced twice is lost to the agent: the second announcement is refused and reported as a
  duplicate, but its clean-up takes the name of the first session off the factory; that session keeps
  running, and no stop request finds it any more.\<close>

theorem duplicate_deregisters_running:
  assumes "session_reachable env s" "ss_crash s = None" "GetSessionTask (ss_factory s) sid = Some a"
    and "i < length (ss_jobs s)" "sj_current (ss_jobs s ! i) = None" "sj_rest (ss_jobs s ! i) = info # rest"
    and "si_SessionId info = sid"
  shows "let s' = job_start env dial i s in
    session_reachable env s' \<and> waited_for a s' \<and> ss_heap s' ! a = ss_heap s ! a
    \<and> \<not> ContainsSessionTask (ss_factory s') sid \<and> stopSession_check (sid # ps) s' = s'
    \<and> posts (trace (ss_world s')) = posts (trace (ss_world s))
        @ [HttpSent ''POST'' (session_report_url env sid Session_id_duplicate) []]"
proof -
  note ok = session_reachable_ok [OF assms(1)]
  note reg = sessions_okD(2) [OF ok assms(3)]
  have "runTask_start env dial (length (ss_heap s)) (session_of_info info) (ss_factory s)
    = Returns (Inl (Session_id_duplicate, Some (PlainError ''NewSessionChannel failed'')), session_of_info info, ss_factory s)"
    using assms(3,7) by (intro runTask_start_duplicate) (simp add: Contains_iff_Get)
  note s' = job_start_early [OF assms(6) this]
  have "session_reachable env (job_start env dial i s)" using session_reachable_steps(2) [OF assms(1,2,4,5)] .
  moreover have "waited_for a (job_start env dial i s)"
    by (rule waited_for_update [of a s _ i]) (use reg s' assms(5) in simp_all)
  moreover have "\<not> ContainsSessionTask (ss_factory (job_start env dial i s)) sid"
    by (simp add: s' assms(7) Contains_iff_Get GetSessionTask_Remove)
  ultimately show ?thesis
    using reg by (simp add: stopSession_check_def) (simp add: s' assms(7) nth_append ReportSessionResult_posts)
qed

definition example_session :: SessionTaskInfo where
  "example_session = \<lparr>si_CmdContent = [], si_Username = [], si_Password = [], si_SessionId = ''s-1'', si_WebsocketUrl = [],
     si_TargetHost = [], si_PortNumber = [], si_FlowLimit = 0\<rparr>"

definition one_session :: sessions where
  "one_session = job_start silent_env (\<lambda>u. None) 0 (DoSessionTask [example_session] no_sessions)"

lemma one_session_running:
  "session_reachable silent_env one_session" "ss_crash one_session = None"
  "GetSessionTask (ss_factory one_session) ''s-1'' = Some 0" "length (ss_jobs one_session) = 1"
  "sj_current (ss_jobs one_session ! 0) = Some 0" "length (ss_heap one_session) = 1" "ss_stops one_session = []"
proof -
  have r: "session_reachable silent_env (DoSessionTask [example_session] no_sessions)"
    using session_reachable_steps(1) [OF session_reachable.start] by (simp add: no_sessions_def)
  have "session_reachable silent_env (job_start silent_env (\<lambda>u. None) 0 (DoSessionTask [example_session] no_sessions))"
    by (rule session_reachable_steps(2) [OF r]) (simp_all add: DoSessionTask_def no_sessions_def)
  then show "session_reachable silent_env one_session" by (simp add: one_session_def)
  have run: "runTask_start silent_env (\<lambda>u. None) 0 (session_of_info example_session) (GetSessionFactory None)
    = Returns (Inr (), (session_of_info example_session)\<lparr>
        st_shell := Some \<lparr>sh_id = ''s-1'', sh_cmdContent = [], sh_username = [], sh_pty = None, sh_typed = [],
           sh_first_col = 0, sh_first_row = 0, sh_interval = defaultSendInterval shell_PackageSize\<rparr>,
        st_channel := Some ((NewSessionChannel ''s-1'')\<lparr>ch_open := True\<rparr>)\<rparr>, \<lparr>sess_tasks = [(''s-1'', 0)]\<rparr>)"
    by (simp add: runTask_start_def session_of_info_def NewSessionTask_def example_session_def GetSessionFactory_def
        ContainsSessionTask_def new_plugin_def isPortForwardTask_def NewShellPlugin_def initial_interval_def
        silent_env_def channel_Open_def AddSessionTask_def)
  show "ss_crash one_session = None" "GetSessionTask (ss_factory one_session) ''s-1'' = Some 0" "length (ss_jobs one_session) = 1"
    "sj_current (ss_jobs one_session ! 0) = Some 0" "length (ss_heap one_session) = 1" "ss_stops one_session = []"
    by (simp_all add: one_session_def job_start_def DoSessionTask_def no_sessions_def run GetSessionTask_def)
qed

theorem duplicate_deregisters_running_witness:
  "\<exists>s. session_reachable silent_env s \<and> waited_for 0 s \<and> \<not> ContainsSessionTask (ss_factory s) ''s-1''"
proof -
  define s where "s = DoSessionTask [example_session] one_session"
  note o = one_session_running
  have "session_reachable silent_env s" unfolding s_def by (rule session_reachable_steps(1) [OF o(1,2)])
  moreover have "ss_crash s = None" "GetSessionTask (ss_factory s) ''s-1'' = Some 0" "1 < length (ss_jobs s)"
    "sj_current (ss_jobs s ! 1) = None" "sj_rest (ss_jobs s ! 1) = example_session # []" "si_SessionId example_session = ''s-1''"
    using o by (simp_all add: s_def DoSessionTask_def nth_append example_session_def)
  ultimately show ?thesis
    using duplicate_deregisters_running [of silent_env s "''s-1''" 0 1 example_session "[]" "\<lambda>u. None" "[]"] unfolding Let_def by blast
qed

text \<open>A stop request that overtakes the end of its session crashes the agent: the handler sees the session in
  the factory, the session ends, and the handler stops it through a nil pointer.\<close>

theorem stop_races_end:
  assumes "session_reachable env s" "ss_crash s = None" "GetSessionTask (ss_factory s) sid = Some a"
    and "i < length (ss_jobs s)" "sj_current (ss_jobs s ! i) = Some a"
  shows "let s1 = stopSession_check (sid # ps) s; s2 = job_finish env i ending s1; s3 = stopSession_apply (length (ss_stops s)) s2 in
    session_reachable env s3 \<and> ss_crash s3 = Some NilDereference"
proof -
  note ok = session_reachable_ok [OF assms(1)]
  note reg = sessions_okD(2) [OF ok assms(3)]
  define s1 where "s1 = stopSession_check (sid # ps) s"
  define s2 where "s2 = job_finish env i ending s1"
  have s1: "s1 = s\<lparr>ss_stops := ss_stops s @ [sid]\<rparr>"
    using assms(3) by (simp add: s1_def stopSession_check_def Contains_iff_Get)
  have cur: "sj_current (ss_jobs s1 ! i) = Some a" by (simp add: s1 assms(5))
  note s2 = job_finish_current [OF cur, of env ending, folded s2_def]
  have r1: "session_reachable env s1" unfolding s1_def by (rule session_reachable_steps(4) [OF assms(1,2)])
  have r2: "session_reachable env s2" unfolding s2_def
    by (rule session_reachable_steps(3) [OF r1]) (simp_all add: s1 assms(2,4))
  have c2: "ss_crash s2 = None" "ss_stops s2 = ss_stops s @ [sid]" "GetSessionTask (ss_factory s2) sid = None"
    using reg assms(2) unfolding s2 by (simp_all add: s1 GetSessionTask_Remove)
  have "session_reachable env (stopSession_apply (length (ss_stops s)) s2)"
    by (rule session_reachable_steps(5) [OF r2 c2(1)]) (simp add: c2(2))
  moreover have "ss_crash (stopSession_apply (length (ss_stops s)) s2) = Some NilDereference"
    by (simp add: stopSession_apply_def Let_def c2)
  ultimately show ?thesis unfolding Let_def s2_def s1_def by blast
qed

theorem stop_races_end_witness:
  "\<exists>s. session_reachable silent_env s \<and> ss_crash s = Some NilDereference"
proof -
  note o = one_session_running
  have "0 < length (ss_jobs one_session)" using o by simp
  with stop_races_end [OF o(1-3) _ o(5), where ps = "[]" and ending = TimedOut] show ?thesis unfolding Let_def by blast
qed

theorem registered_session_stoppable_witness:
  "(\<exists>!i. i < length (ss_jobs (stopSession_check [''s-1''] one_session))
      \<and> sj_current (ss_jobs (stopSession_check [''s-1''] one_session) ! i) = Some 0)
    \<and> flag_Wait (st_cancelFlag (ss_heap (stopSession_apply 0 (stopSession_check [''s-1''] one_session)) ! 0)) = Some Completed_state"
proof -
  note o = one_session_running
  define s where "s = stopSession_check [''s-1''] one_session"
  have "session_reachable silent_env s" unfolding s_def by (rule session_reachable_steps(4) [OF o(1,2)])
  moreover have "GetSessionTask (ss_factory s) ''s-1'' = Some 0" "0 < length (ss_stops s)" "ss_stops s ! 0 = ''s-1''"
    using o by (simp_all add: s_def stopSession_check_def Contains_iff_Get)
  ultimately show ?thesis using registered_session_stoppable [of silent_env s "''s-1''" 0 0] unfolding Let_def s_def by blast
qed

theorem session_RunTask_fresh_witness:
  "\<exists>err t' f' w'. session_RunTask silent_env (\<lambda>u. None) 7 TimedOut ''s-1'' (session_of_info example_session) \<lparr>sess_tasks = []\<rparr>
      \<lparr>ticks = 0, trace = []\<rparr> = Returns (err, t', f', w') \<and> GetSessionTask f' = GetSessionTask \<lparr>sess_tasks = []\<rparr>"
proof -
  let ?r = "session_RunTask silent_env (\<lambda>u. None) 7 TimedOut ''s-1'' (session_of_info example_session) \<lparr>sess_tasks = []\<rparr>
      \<lparr>ticks = 0, trace = []\<rparr>"
  have "sess_ok \<lparr>sess_tasks = []\<rparr>" "\<not> ContainsSessionTask \<lparr>sess_tasks = []\<rparr> (st_sessionId (session_of_info example_session))"
    by (simp_all add: sess_ok_def ContainsSessionTask_def)
  note fr = session_RunTask_fresh [OF this, where env = silent_env and dial = "\<lambda>u. None" and a = 7 and ending = TimedOut
      and taskid = "''s-1''" and w = "\<lparr>ticks = 0, trace = []\<rparr>"]
  have "\<not> panics (new_plugin (session_of_info example_session))"
    by (simp add: new_plugin_def session_of_info_def NewSessionTask_def example_session_def isPortForwardTask_def
        NewShellPlugin_def initial_interval_def)
  with fr show ?thesis by (cases ?r) (auto split: prod.splits)
qed

end
