(* ===== verification/Session_Run.thy ===== *)
theory Session_Run
  imports Session_Plugins Process_Cmd
begin

text \<open>
  How a session runs on Linux: the local user of a shell session (\<open>CreateLocalAdminUser\<close> of
  \<open>agent/util/process/process_unix.go\<close>), the start of its terminal (\<open>StartPty\<close> of
  \<open>shell_unix.go\<close>), the two \<open>Execute\<close> functions (\<open>shell.go\<close>, \<open>port.go\<close>) with the races they
  wait for, and the listener of the websocket (\<open>agent/session/channel/websocketchannel.go\<close>).
\<close>

section \<open>The local user\<close>

definition sudoersFile :: string where "sudoersFile = ''/etc/sudoers.d/ecs-assist-user''"

definition createUserCommand :: "string \<Rightarrow> string" where
  "createUserCommand user = ''useradd -m '' @ user @ '' -s /sbin/nologin''"

text \<open>\<open>run\<close> answers a command line of \<open>sh -c\<close>; one that ran leaves its trace.\<close>

definition createLocalUser :: "(nat \<Rightarrow> string \<Rightarrow> id_run) \<Rightarrow> string \<Rightarrow> world \<Rightarrow> go_error option \<times> world" where
  "createLocalUser run user w =
     (case run (ticks w) (createUserCommand user) of
        IdRan \<Rightarrow> (None, perform (ProcessStarted [] ''sh'' [''-c'', createUserCommand user] [] None) w)
      | IdExited text \<Rightarrow> (Some (PlainError text), tick w)
      | IdNotRun \<Rightarrow> (Some (PlainError ''sh not run''), tick w))"

definition changeModeOfSudoersFile :: "machine \<Rightarrow> world \<Rightarrow> go_error option \<times> world" where
  "changeModeOfSudoersFile mc w = ChangeMode mc sudoersFile 288 w"

definition sudoers_rules :: "string \<Rightarrow> string" where
  "sudoers_rules user = ''# User rules for '' @ user @ [CHR 0x0A] @ user @ '' ALL=(ALL) NOPASSWD:ALL'' @ [CHR 0x0A]"

text \<open>A failed \<open>chmod\<close> is not reported: both branches return the nil error of their stat or open.\<close>

definition createSudoersFileIfNotPresent :: "machine \<Rightarrow> string \<Rightarrow> world \<Rightarrow> go_error option \<times> world" where
  "createSudoersFileIfNotPresent mc user w =
     (let (k, w1) = ask (\<lambda>n. mc_stat mc n sudoersFile) w in
      if k \<noteq> NotExist \<and> k \<noteq> StatError then (None, snd (changeModeOfSudoersFile mc w1))
      else
        (let (err, w2) = WriteStringToFile mc sudoersFile (sudoers_rules user) w1 in
         if err \<noteq> None then (err, w2) else (None, snd (changeModeOfSudoersFile mc w2))))"

definition CreateLocalAdminUser ::
  "machine \<Rightarrow> (nat \<Rightarrow> string \<Rightarrow> id_run) \<Rightarrow> string \<Rightarrow> world \<Rightarrow> go_error option \<times> world" where
  "CreateLocalAdminUser mc run user w =
     (let ((userExists, e), w1) = DoesUserExist run user w in
      if userExists then (None, w1)
      else
        (let (err, w2) = createLocalUser run user w1 in
         if err \<noteq> None then (err, w2) else createSudoersFileIfNotPresent mc user w2))"

section \<open>The terminal\<close>

definition default_runas_user :: string where "default_runas_user = ''ecs-assist-user''"

text \<open>
  \<open>ps_shlex\<close> splits a command line (a library), \<open>ps_lang\<close> is the variable \<open>LANG\<close>, \<open>ps_start\<close> the
  answer to the start of the terminal.
\<close>

record pty_start =
  ps_run :: "nat \<Rightarrow> string \<Rightarrow> id_run"
  ps_shlex :: "string \<Rightarrow> go_error + string list"
  ps_lang :: string
  ps_start :: "nat \<Rightarrow> go_error option"
  ps_env :: pty_env

definition pty_command :: "(string \<Rightarrow> go_error + string list) \<Rightarrow> string \<Rightarrow> (go_error + string \<times> string list) outcome" where
  "pty_command shlex content =
     (if content = [] then Returns (Inr (''bash'', []))
      else case shlex content of
        Inl e \<Rightarrow> Returns (Inl (WrappedError ''split command content failed: '' e []))
      | Inr [] \<Rightarrow> Panics IndexOutOfRange
      | Inr (name # args) \<Rightarrow> Returns (Inr (name, args)))"

text \<open>The user of the terminal: a named one has to exist, the default one is created.\<close>

definition pty_user :: "machine \<Rightarrow> pty_start \<Rightarrow> string \<Rightarrow> world \<Rightarrow> (go_error + string) \<times> world" where
  "pty_user mc ps username w =
     (if username = [] then (Inr default_runas_user, snd (CreateLocalAdminUser mc (ps_run ps) default_runas_user w))
      else
        (let ((userExists, e), w1) = DoesUserExist (ps_run ps) username w in
         if userExists then (Inr username, w1)
         else (Inl (PlainError (''failed to start pty since RunAs user '' @ username @ '' does not exist'')), w1)))"

definition start_terminal ::
  "machine \<Rightarrow> pty_start \<Rightarrow> string \<times> string list \<Rightarrow> string \<Rightarrow> (nat \<times> nat \<times> nat list) \<Rightarrow> shell_plugin \<Rightarrow> world \<Rightarrow>
   (go_error option \<times> shell_plugin) \<times> world" where
  "start_terminal mc ps cmd user cred p w =
     (let (lookup, w1) = ask (\<lambda>n. mc_user mc n user) w in
      case lookup of
        Inl e \<Rightarrow> ((Some e, p), w1)
      | Inr (uid_text, home) \<Rightarrow>
          (let (base, w2) = ask (mc_environ mc) w1;
               env = base @ [''TERM=xterm-256color''] @ (if ps_lang ps = [] then [''LANG=C.UTF-8''] else []) @ [''HOME='' @ home];
               (err, w3) = attempt (ps_start ps) (ProcessStarted home (fst cmd) (snd cmd) env (Some cred)) w2 in
           case err of
             Some e \<Rightarrow> ((Some (WrappedError ''Failed to start pty: '' e [CHR 0x0A]), p), w3)
           | None \<Rightarrow>
               (let p1 = p\<lparr>sh_pty := Some (0, 0)\<rparr> in
                ((None, if sh_first_col p \<noteq> 0 then snd (SetSize (pty_setsize (ps_env ps)) (sh_first_col p) (sh_first_row p) p1) else p1), w3))))"

definition StartPty :: "machine \<Rightarrow> pty_start \<Rightarrow> shell_plugin \<Rightarrow> world \<Rightarrow> ((go_error option \<times> shell_plugin) \<times> world) outcome" where
  "StartPty mc ps p w =
     bind_outcome (pty_command (ps_shlex ps) (sh_cmdContent p)) (\<lambda>cmd.
       case cmd of Inl e \<Rightarrow> Returns ((Some e, p), w) | Inr c \<Rightarrow>
         (let (u, w1) = pty_user mc ps (sh_username p) w in
          case u of Inl e \<Rightarrow> Returns ((Some e, p), w1) | Inr user \<Rightarrow>
            map_ret (\<lambda>(r, w2). case r of
                Inl e \<Rightarrow> ((Some e, p), w2)
              | Inr cred \<Rightarrow> start_terminal mc ps c user cred p w2)
              (GetUserCredentials mc user w1)))"

section \<open>Executing a shell\<close>

text \<open>
  What \<open>Execute\<close> sees first: the end of the pump, or the cancel flag with its state. The goroutine
  that waits for the flag announces it before it sets the code, so \<open>late\<close> says whether the code
  was already set when \<open>Execute\<close> returns.
\<close>

datatype shell_race = PumpDone string | CancelSeen int bool

definition cancel_code :: "int \<Rightarrow> string" where
  "cancel_code state = (if state = Canceled_state then session_Timeout else if state = Completed_state then Notified else Ok)"

definition shell_Execute ::
  "machine \<Rightarrow> pty_start \<Rightarrow> shell_race \<Rightarrow> shell_plugin \<Rightarrow> world \<Rightarrow> (string \<times> bool) \<times> shell_plugin \<times> world" where
  "shell_Execute mc ps race p w =
     (case StartPty mc ps p w of
        Panics q \<Rightarrow> ((Unknown_error, True), p, w)
      | Returns ((Some e, p1), w1) \<Rightarrow> ((Open_pty_failed, True), p1, w1)
      | Returns ((None, p1), w1) \<Rightarrow>
          ((case race of PumpDone code \<Rightarrow> code | CancelSeen state late \<Rightarrow> if late then cancel_code state else Ok, False),
           p1, perform ProcessKilled w1))"

section \<open>Executing a port forward\<close>

text \<open>
  The three goroutines of a port session: \<open>Execute\<close>, the pump and the handler of input messages.
  The pump that lost its connection and \<open>Execute\<close> that was cancelled meet on the unbuffered channel
  \<open>reconnectToPortErr\<close>: \<open>Execute\<close> and the handler send, only the pump receives.
\<close>

datatype pump_state = PumpReading | PumpReconnecting | PumpExited string
datatype execute_state = ExecWaiting | ExecSending string | ExecReturned string

record port_run =
  pr_pump :: pump_state
  pr_exec :: execute_state
  pr_flag :: cancel_flag
  pr_active :: bool
  pr_reconnect :: bool

definition port_started :: port_run where
  "port_started = \<lparr>pr_pump = PumpReading, pr_exec = ExecWaiting, pr_flag = NewChanneledCancelFlag, pr_active = True, pr_reconnect = False\<rparr>"

datatype port_event =
    FlagSet int
  | ChannelDown
  | ReadData bool
  | ReadFailed
  | SawInactive
  | HandlerDials "go_error option"
  | ExecSeesCancel
  | ExecHandsOver
  | ExecSeesDone

text \<open>One event; \<open>None\<close> where the goroutine it belongs to is not there. \<open>ReadData\<close> says whether the data was sent.\<close>

fun port_event_step :: "port_event \<Rightarrow> port_run \<Rightarrow> port_run option" where
  "port_event_step (FlagSet st) r = Some (r\<lparr>pr_flag := flag_Set st (pr_flag r)\<rparr>)"
| "port_event_step ChannelDown r = Some (r\<lparr>pr_active := False\<rparr>)"
| "port_event_step (ReadData sent) r =
     (if pr_pump r = PumpReading then Some (if sent then r else r\<lparr>pr_pump := PumpExited IO_socket_error\<rparr>) else None)"
| "port_event_step ReadFailed r =
     (if pr_pump r = PumpReading then Some (r\<lparr>pr_pump := PumpReconnecting, pr_reconnect := True\<rparr>) else None)"
| "port_event_step SawInactive r =
     (if pr_pump r = PumpReading \<and> \<not> pr_active r then Some (r\<lparr>pr_pump := PumpExited IO_socket_error\<rparr>) else None)"
| "port_event_step (HandlerDials err) r =
     (if pr_pump r = PumpReconnecting \<and> pr_reconnect r then
        (case err of
           None \<Rightarrow> Some (r\<lparr>pr_pump := PumpReading, pr_reconnect := False\<rparr>)
         | Some e \<Rightarrow> Some (r\<lparr>pr_pump := PumpExited Read_port_failed\<rparr>))
      else None)"
| "port_event_step ExecSeesCancel r =
     (case flag_Wait (pr_flag r) of
        None \<Rightarrow> None
      | Some st \<Rightarrow> if pr_exec r = ExecWaiting \<and> (st = Canceled_state \<or> st = Completed_state)
          then Some (r\<lparr>pr_exec := ExecSending (cancel_code st)\<rparr>) else None)"
| "port_event_step ExecHandsOver r =
     (case pr_exec r of
        ExecSending code \<Rightarrow>
          if pr_pump r = PumpReconnecting then Some (r\<lparr>pr_exec := ExecReturned code, pr_pump := PumpExited Read_port_failed\<rparr>) else None
      | _ \<Rightarrow> None)"
| "port_event_step ExecSeesDone r =
     (case pr_pump r of
        PumpExited code \<Rightarrow> if pr_exec r = ExecWaiting then Some (r\<lparr>pr_exec := ExecReturned code\<rparr>) else None
      | _ \<Rightarrow> None)"

fun port_events :: "port_event list \<Rightarrow> port_run \<Rightarrow> port_run option" where
  "port_events [] r = Some r"
| "port_events (e # es) r = (case port_event_step e r of None \<Rightarrow> None | Some r' \<Rightarrow> port_events es r')"

section \<open>The listener\<close>

datatype ws_read = ReadError | OtherFrame | DataFrame string
datatype listen_end = StillListening | GaveUp | Closed | ListenerPanicked

text \<open>
  The loop of \<open>Open\<close>: ten errors without a data frame in between call \<open>OnError\<close>; a panic of the
  handler is swallowed and ends the loop.
\<close>

fun ws_listen :: "('s \<Rightarrow> bool) \<Rightarrow> (string \<Rightarrow> 's \<Rightarrow> 's outcome) \<Rightarrow> nat \<Rightarrow> ws_read list \<Rightarrow> 's \<Rightarrow> listen_end \<times> 's" where
  "ws_listen is_open on_message retryCount [] s = ((if is_open s then StillListening else Closed), s)"
| "ws_listen is_open on_message retryCount (r # rs) s =
     (if \<not> is_open s then (Closed, s)
      else case r of
        ReadError \<Rightarrow> if retryCount + 1 \<ge> 10 then (GaveUp, s) else ws_listen is_open on_message (retryCount + 1) rs s
      | OtherFrame \<Rightarrow> ws_listen is_open on_message retryCount rs s
      | DataFrame raw \<Rightarrow>
          (case on_message raw s of
             Panics p \<Rightarrow> (ListenerPanicked, s)
           | Returns s' \<Rightarrow> ws_listen is_open on_message 0 rs s'))"

section \<open>Lemmas\<close>

lemma start_terminal_started:
  assumes "start_terminal mc ps cmd user cred p w = ((None, p'), w')"
  shows "\<exists>uid_text home env. mc_user mc (ticks w) user = Inr (uid_text, home)
    \<and> trace w' = trace w @ [ProcessStarted home (fst cmd) (snd cmd) env (Some cred)] \<and> env \<noteq> [] \<and> last env = ''HOME='' @ home
    \<and> sh_pty p' \<noteq> None"
  using assms
  by (auto simp: start_terminal_def ask_def attempt_def SetSize_def Let_def split: sum.splits prod.splits option.splits if_splits)

lemma start_terminal_failed:
  "start_terminal mc ps cmd user cred p w = ((Some e, p'), w') \<Longrightarrow> trace w' = trace w \<and> p' = p"
  by (auto simp: start_terminal_def ask_def attempt_def Let_def split: sum.splits prod.splits option.splits if_splits)

lemma read_id_trace [simp]: "trace (snd (read_id mc opt user w)) = trace w"
  by (simp add: read_id_def run_id_def ask_def Let_def split_beta split: sum.split)

lemma GetUserCredentials_trace:
  "GetUserCredentials mc user w = Returns (r, w') \<Longrightarrow> trace w' = trace w"
proof -
  assume a: "GetUserCredentials mc user w = Returns (r, w')"
  obtain u w1 where 1: "read_id mc ''-u '' user w = (u, w1)" by fastforce
  obtain g w2 where 2: "read_id mc ''-g '' user w1 = (g, w2)" by fastforce
  obtain out w3 where 3: "run_id mc [] user w2 = (out, w3)" by fastforce
  have t: "trace w1 = trace w" "trace w2 = trace w1" "trace w3 = trace w2"
    using 1 2 3 read_id_trace [of mc "''-u ''" user w] read_id_trace [of mc "''-g ''" user w1]
    by (auto simp: run_id_def ask_def)
  from a 1 2 3 t show ?thesis by (auto simp: GetUserCredentials_def split: sum.splits) (metis sum.exhaust)
qed

lemma ExecSending_stuck:
  assumes "port_event_step e r = Some r'" "pr_exec r = ExecSending code"
  shows "pr_pump r \<noteq> PumpReconnecting \<and> e \<noteq> ReadFailed \<Longrightarrow> pr_exec r' = ExecSending code \<and> pr_pump r' \<noteq> PumpReconnecting"
    "pr_pump r = PumpExited c \<Longrightarrow> pr_exec r' = ExecSending code \<and> pr_pump r' = PumpExited c"
  using assms by (cases e; auto split: if_splits option.splits pump_state.splits execute_state.splits)+

section \<open>Properties\<close>

text \<open>Cancelling a port session does not end it: once \<open>Execute\<close> has seen the cancel flag it returns only after a
  read of the target fails while the pump still runs; if the pump has ended before, or never fails to read,
  \<open>Execute\<close> is stuck whatever else happens, until the three hours of the session are over.\<close>

theorem port_cancel_waits_for_read_error:
  assumes "pr_exec r = ExecSending code" "port_events es r = Some r'"
    and "ReadFailed \<notin> set es \<and> pr_pump r \<noteq> PumpReconnecting \<or> pr_pump r = PumpExited c"
  shows "pr_exec r' = ExecSending code"
  using assms
proof (induction es arbitrary: r)
  case (Cons e es)
  from Cons.prems(2) obtain r1 where 1: "port_event_step e r = Some r1" "port_events es r1 = Some r'"
    by (auto split: option.splits)
  note st = ExecSending_stuck [OF 1(1) Cons.prems(1)]
  show ?case
  proof (cases "pr_pump r = PumpExited c")
    case True
    with st(2) Cons.IH [of r1] 1 show ?thesis by blast
  next
    case False
    with Cons.prems(3) have "pr_pump r \<noteq> PumpReconnecting \<and> e \<noteq> ReadFailed" "ReadFailed \<notin> set es" by auto
    with st(1) Cons.IH [of r1] 1 show ?thesis by blast
  qed
qed simp

theorem port_cancel_waits_for_read_error_witness:
  "\<exists>r r'. port_events [FlagSet Completed_state, ExecSeesCancel] port_started = Some r
    \<and> port_events [ReadData True, ChannelDown, SawInactive] r = Some r' \<and> pr_exec r' = ExecSending Notified"
proof -
  let ?r = "port_started\<lparr>pr_flag := flag_Set Completed_state NewChanneledCancelFlag, pr_exec := ExecSending Notified\<rparr>"
  let ?r' = "?r\<lparr>pr_active := False, pr_pump := PumpExited IO_socket_error\<rparr>"
  have 1: "port_events [FlagSet Completed_state, ExecSeesCancel] port_started = Some ?r"
    by (simp add: port_started_def flag_Wait_def flag_Set_def cancel_code_def Completed_state_def Canceled_state_def)
  have 2: "port_events [ReadData True, ChannelDown, SawInactive] ?r = Some ?r'" by (simp add: port_started_def)
  have "pr_exec ?r' = ExecSending Notified"
    by (rule port_cancel_waits_for_read_error [OF _ 2, where c = Ok]) (simp_all add: port_started_def)
  with 1 2 show ?thesis by blast
qed

text \<open>The errors a listener counts: those since the last data frame.\<close>

fun errors_since_data :: "nat \<Rightarrow> ws_read list \<Rightarrow> nat" where
  "errors_since_data c [] = c"
| "errors_since_data c (ReadError # rs) = errors_since_data (c + 1) rs"
| "errors_since_data c (OtherFrame # rs) = errors_since_data c rs"
| "errors_since_data c (DataFrame raw # rs) = errors_since_data 0 rs"

lemma ex_take_Suc: "(\<exists>n\<le>length (r # rs). P (take n (r # rs))) \<longleftrightarrow> P [] \<or> (\<exists>n\<le>length rs. P (r # take n rs))"
proof
  assume "\<exists>n\<le>length (r # rs). P (take n (r # rs))"
  then obtain n where n: "n \<le> length (r # rs)" "P (take n (r # rs))" by blast
  then show "P [] \<or> (\<exists>n\<le>length rs. P (r # take n rs))" by (cases n) auto
next
  assume "P [] \<or> (\<exists>n\<le>length rs. P (r # take n rs))"
  then show "\<exists>n\<le>length (r # rs). P (take n (r # rs))"
  proof
    assume "P []"
    then show ?thesis by (intro exI [of _ 0]) simp
  next
    assume "\<exists>n\<le>length rs. P (r # take n rs)"
    then obtain n where "n \<le> length rs" "P (r # take n rs)" by blast
    then show ?thesis by (intro exI [of _ "Suc n"]) simp
  qed
qed

lemma ws_listen_gives_up_from:
  "c < 10 \<Longrightarrow> fst (ws_listen (\<lambda>s. True) (\<lambda>raw s. Returns (f raw s)) c rs s) = GaveUp
     \<longleftrightarrow> (\<exists>n\<le>length rs. 10 \<le> errors_since_data c (take n rs))"
proof (induction rs arbitrary: c s)
  case (Cons r rs)
  show ?case
  proof (cases r)
    case ReadError
    show ?thesis
    proof (cases "10 \<le> c + 1")
      case True
      then have "10 \<le> errors_since_data c (take 1 (r # rs))" using ReadError by simp
      moreover have "(1 :: nat) \<le> length (r # rs)" by simp
      ultimately have "\<exists>n\<le>length (r # rs). 10 \<le> errors_since_data c (take n (r # rs))" by blast
      with True show ?thesis by (simp add: ReadError)
    next
      case False
      with Cons.prems Cons.IH [of "c + 1" s] show ?thesis by (subst ex_take_Suc) (simp add: ReadError)
    qed
  next
    case OtherFrame
    with Cons.prems Cons.IH [of c s] show ?thesis by (subst ex_take_Suc) simp
  next
    case (DataFrame raw)
    with Cons.prems Cons.IH [of 0 "f raw s"] show ?thesis by (subst ex_take_Suc) simp
  qed
qed simp

text \<open>While the channel is open and no handler panics, the listener gives up, and asks to reconnect, exactly
  when ten reads have failed since the last data frame; frames of other types neither count nor reset.\<close>

theorem ws_listen_gives_up:
  "fst (ws_listen (\<lambda>s. True) (\<lambda>raw s. Returns (f raw s)) 0 rs s) = GaveUp
     \<longleftrightarrow> (\<exists>n \<le> length rs. 10 \<le> errors_since_data 0 (take n rs))"
  by (rule ws_listen_gives_up_from) simp

text \<open>C19. A shell session runs as its user or not at all: a terminal that starts has the credentials \<open>id\<close> gives for
  the user the session names, who exists, or for the default user, starts in that user's home and has it
  as the last setting of \<open>HOME\<close>; a start that fails starts no terminal.\<close>

theorem StartPty_runs_as:
  assumes "StartPty mc ps p w = Returns ((err, p'), w')"
  shows "case err of
      None \<Rightarrow> (\<exists>user cred home name args env w1 w2 w3.
          user = (if sh_username p = [] then default_runas_user else sh_username p)
          \<and> (sh_username p \<noteq> [] \<longrightarrow> ps_run ps (ticks w) (''id '' @ user) = IdRan)
          \<and> GetUserCredentials mc user w1 = Returns (Inr cred, w2)
          \<and> trace w' = trace w1 @ [ProcessStarted home name args env (Some cred)] \<and> last env = ''HOME='' @ home)
    | Some e \<Rightarrow> p' = p \<and> (sh_username p \<noteq> [] \<longrightarrow> trace w' = trace w)"
proof -
  obtain cmd where cmd: "pty_command (ps_shlex ps) (sh_cmdContent p) = Returns cmd"
    using assms by (auto simp: StartPty_def)
  show ?thesis
  proof (cases cmd)
    case (Inl e)
    with assms cmd show ?thesis by (auto simp: StartPty_def)
  next
    case (Inr c)
    obtain u w1 where u: "pty_user mc ps (sh_username p) w = (u, w1)" by fastforce
    have named: "trace w1 = trace w" if "sh_username p \<noteq> []"
      using u that by (auto simp: pty_user_def DoesUserExist_def ask_def split: id_run.splits if_splits)
    show ?thesis
    proof (cases u)
      case e: (Inl e)
      with assms cmd Inr u named show ?thesis by (auto simp: StartPty_def)
    next
      case user: (Inr user)
      have who: "user = (if sh_username p = [] then default_runas_user else sh_username p)"
        "sh_username p \<noteq> [] \<longrightarrow> ps_run ps (ticks w) (''id '' @ user) = IdRan"
        using u user by (auto simp: pty_user_def DoesUserExist_def ask_def split: id_run.splits if_splits)
      obtain r w2 where r: "GetUserCredentials mc user w1 = Returns (r, w2)"
        using assms cmd Inr u user by (auto simp: StartPty_def)
      note t = GetUserCredentials_trace [OF r]
      show ?thesis
      proof (cases r)
        case e: (Inl e)
        with assms cmd Inr u user r t named show ?thesis by (auto simp: StartPty_def)
      next
        case cred: (Inr cred)
        have st: "start_terminal mc ps c user cred p w2 = ((err, p'), w')"
          using assms cmd Inr u user r cred by (simp add: StartPty_def)
        show ?thesis
        proof (cases err)
          case None
          from start_terminal_started [OF st [unfolded None]] obtain home env where
            "trace w' = trace w1 @ [ProcessStarted home (fst c) (snd c) env (Some cred)]" "last env = ''HOME='' @ home"
            using t by auto
          with who r [unfolded cred] show ?thesis unfolding None option.case by blast
        next
          case (Some e)
          from start_terminal_failed [OF st [unfolded Some]] t named Some show ?thesis by simp
        qed
      qed
    qed
  qed
qed

text \<open>Administrator rights are only ever given to a user the agent has just created: for a user that exists
  nothing is touched, and the only file written is the rules file, with rules for exactly this user, when
  it was not there.\<close>

theorem CreateLocalAdminUser_grants:
  "let w' = snd (CreateLocalAdminUser mc run user w) in
     trace w' = trace w
     \<or> (\<exists>es. trace w' = trace w @ ProcessStarted [] ''sh'' [''-c'', createUserCommand user] [] None # es
         \<and> es \<in> {[], [FileChmod sudoersFile 288], [FileWritten sudoersFile (sudoers_rules user)],
             [FileWritten sudoersFile (sudoers_rules user), FileChmod sudoersFile 288]}
         \<and> run (ticks w) (''id '' @ user) \<noteq> IdRan)"
  by (auto simp: CreateLocalAdminUser_def DoesUserExist_def createLocalUser_def createSudoersFileIfNotPresent_def
      changeModeOfSudoersFile_def ChangeMode_def WriteStringToFile_def attempt_def ask_def Let_def
      split: id_run.splits option.splits if_splits)

definition example_start :: pty_start where
  "example_start = \<lparr>ps_run = (\<lambda>n c. IdRan), ps_shlex = (\<lambda>s. Inr [s]), ps_lang = [], ps_start = (\<lambda>n. None),
     ps_env = \<lparr>pty_write = (\<lambda>s. None), pty_setsize = (\<lambda>c r. None), parse_size = (\<lambda>s. Inr (80, 24))\<rparr>\<rparr>"

definition example_shell :: shell_plugin where
  "example_shell = \<lparr>sh_id = ''s-1'', sh_cmdContent = [], sh_username = ''bob'', sh_pty = None, sh_typed = [], sh_first_col = 80,
     sh_first_row = 24, sh_interval = 40\<rparr>"

theorem StartPty_runs_as_witness:
  "\<exists>p' w' cred home name args env pre. StartPty (quiet_machine (example_id ''100(users),27(sudo)'')) example_start example_shell
      \<lparr>ticks = 0, trace = []\<rparr> = Returns ((None, p'), w')
    \<and> trace w' = pre @ [ProcessStarted home name args env (Some cred)] \<and> last env = ''HOME='' @ home"
proof -
  let ?r = "StartPty (quiet_machine (example_id ''100(users),27(sudo)'')) example_start example_shell \<lparr>ticks = 0, trace = []\<rparr>"
  have "(case ?r of Returns ((None, p'), w') \<Rightarrow> True | _ \<Rightarrow> False)" by code_simp
  then obtain p' w' where r: "?r = Returns ((None, p'), w')"
    by (auto split: outcome.splits option.splits prod.splits)
  from StartPty_runs_as [OF r] show ?thesis using r by auto
qed

end
