(* ===== verification/Kick.thy ===== *)
theory Kick
  imports Fetch_Task Process_Cmd
begin

text \<open>
  Requests that reach the agent over its notification channels: the options of \<open>kick_vm\<close>
  (\<open>agent/kickvmhandle\<close>, Unix parts) and the message handler \<open>OnRecvMsg\<close> of
  \<open>agent/channel/channel_manager.go\<close>. What a handler starts in a goroutine of its own is a value
  of \<open>kick_request\<close>; the JSON and flag libraries are parameters.
\<close>

section \<open>Handles\<close>

datatype kick_handle =
    AgentHandle string "string list"
  | TaskHandle string "string list"
  | SessionHandle string "string list"
  | HealthCheckHandle
  | FileHandle string "string list"
  | StatusHandle string "string list"

text \<open>A kind that takes an action reads it from the third word, whether there is one or not.\<close>

definition third_word :: "(string \<Rightarrow> string list \<Rightarrow> kick_handle) \<Rightarrow> string list \<Rightarrow> kick_handle option outcome" where
  "third_word h arrays =
     (if length arrays < 3 then Panics IndexOutOfRange else Returns (Some (h (arrays ! 2) (drop 3 arrays))))"

definition ParseOption :: "string \<Rightarrow> kick_handle option outcome" where
  "ParseOption input =
     (let arrays = split_on (CHR '' '') input in
      if length arrays < 2 then Returns None
      else if arrays ! 1 = ''agent'' then third_word AgentHandle arrays
      else if arrays ! 1 = ''task'' then third_word TaskHandle arrays
      else if arrays ! 1 = ''session'' then third_word SessionHandle arrays
      else if arrays ! 1 = ''noop'' then Returns (Some HealthCheckHandle)
      else if arrays ! 1 = ''file'' then third_word FileHandle arrays
      else if arrays ! 1 = ''status'' then third_word StatusHandle arrays
      else Returns None)"

definition agentRoute :: "string list" where "agentRoute = [''stop'', ''remove'', ''update'']"
definition taskRoute :: "string list" where "taskRoute = [''run'', ''stop'']"
definition sessionRoute :: "string list" where "sessionRoute = [''start'', ''stop'']"
definition fileRoute :: "string list" where "fileRoute = [''create'', ''stop'']"
definition statusRoute :: "string list" where "statusRoute = [''network'']"

fun CheckAction :: "kick_handle \<Rightarrow> bool" where
  "CheckAction (AgentHandle action params) \<longleftrightarrow> action \<in> set agentRoute"
| "CheckAction (TaskHandle action params) \<longleftrightarrow> action \<in> set taskRoute"
| "CheckAction (SessionHandle action params) \<longleftrightarrow> action \<in> set sessionRoute"
| "CheckAction HealthCheckHandle \<longleftrightarrow> True"
| "CheckAction (FileHandle action params) \<longleftrightarrow> action \<in> set fileRoute"
| "CheckAction (StatusHandle action params) \<longleftrightarrow> action \<in> set statusRoute"

section \<open>Actions\<close>

text \<open>
  The goroutines a request starts: a fetch of tasks, a handler that stops a session, a network
  diagnosis for a declared category, the removal of a hybrid registration.
\<close>

datatype kick_request =
    FetchRequest string int
  | SessionStop "string list"
  | NetcheckRequest string
  | UnregisterRequest

text \<open>What a handler returns: its error and the requests; the agent handlers also run processes.\<close>

type_synonym action_result = "(go_error option \<times> kick_request list) \<times> world"

definition run_service :: "machine \<Rightarrow> string \<Rightarrow> string \<Rightarrow> world \<Rightarrow> world" where
  "run_service mc name option w = snd (snd (SyncRunSimple mc name [option] NewProcessCmd w))"

definition stopAgant :: "machine \<Rightarrow> world \<Rightarrow> action_result" where
  "stopAgant mc w = ((None, []), run_service mc ''aliyun-service'' ''--stop'' w)"

definition removeAgant :: "machine \<Rightarrow> world \<Rightarrow> action_result" where
  "removeAgant mc w =
     ((None, []), run_service mc ''aliyun-service'' ''--stop'' (run_service mc ''aliyun-service'' ''--remove'' w))"

definition updateAgant :: "machine \<Rightarrow> world \<Rightarrow> action_result" where
  "updateAgant mc w =
     (let (p, w1) = GetCurrentPath mc w in
      case p of
        Inl e \<Rightarrow> ((Some e, []), w1)
      | Inr path \<Rightarrow> ((None, []), run_service mc (path_join [path, ''aliyun_assist_update'']) ''--check_update'' w1))"

definition params_error :: go_error where
  "params_error = PlainError ''params error''"

text \<open>Running and stopping a task or a file are the same fetch: the server says which it is.\<close>

definition fetch_first :: "string list \<Rightarrow> go_error option \<times> kick_request list" where
  "fetch_first params =
     (case params of [] \<Rightarrow> (Some params_error, []) | p # ps \<Rightarrow> (None, [FetchRequest p NormalTaskType]))"

definition startSession :: "string list \<Rightarrow> go_error option \<times> kick_request list" where
  "startSession params = (None, case params of [] \<Rightarrow> [] | p # ps \<Rightarrow> [FetchRequest p SessionTaskType])"

definition stopSession :: "string list \<Rightarrow> go_error option \<times> kick_request list" where
  "stopSession params = (None, [SessionStop params])"

definition ErrStatusNetworkInvalidParameters :: go_error where
  "ErrStatusNetworkInvalidParameters = PlainError ''Invalid parameters for `kick_vm status network` action''"

text \<open>\<open>parse\<close> is the flag library: the options \<open>refresh\<close>, \<open>vpc\<close> and \<open>classic\<close>, or a failure.\<close>

definition requestNetworkStatus ::
  "(string list \<Rightarrow> (bool \<times> bool \<times> bool) option) \<Rightarrow> string list \<Rightarrow> go_error option \<times> kick_request list" where
  "requestNetworkStatus parse params =
     (case parse params of
        None \<Rightarrow> (Some ErrStatusNetworkInvalidParameters, [])
      | Some (needToRefresh, isVPCNetwork, isClassicNetwork) \<Rightarrow>
          if \<not> needToRefresh then
            (if isVPCNetwork \<or> isClassicNetwork then (Some ErrStatusNetworkInvalidParameters, []) else (None, []))
          else if isVPCNetwork then
            (if isClassicNetwork then (Some ErrStatusNetworkInvalidParameters, []) else (None, [NetcheckRequest ''vpc'']))
          else if isClassicNetwork then (None, [NetcheckRequest ''classic''])
          else (Some ErrStatusNetworkInvalidParameters, []))"

definition no_action_found :: go_error where
  "no_action_found = PlainError ''no action found''"

text \<open>Except for the status kind, \<open>DoAction\<close> drops the error of its handler.\<close>

fun DoAction ::
  "machine \<Rightarrow> (string list \<Rightarrow> (bool \<times> bool \<times> bool) option) \<Rightarrow> kick_handle \<Rightarrow> world \<Rightarrow> action_result" where
  "DoAction mc parse (AgentHandle action params) w =
     (if action = ''stop'' then let ((e, rs), w1) = stopAgant mc w in ((None, rs), w1)
      else if action = ''remove'' then let ((e, rs), w1) = removeAgant mc w in ((None, rs), w1)
      else if action = ''update'' then let ((e, rs), w1) = updateAgant mc w in ((None, rs), w1)
      else ((Some no_action_found, []), w))"
| "DoAction mc parse (TaskHandle action params) w =
     (if action \<in> set taskRoute then ((None, snd (fetch_first params)), w) else ((Some no_action_found, []), w))"
| "DoAction mc parse (SessionHandle action params) w =
     (if action = ''start'' then ((None, snd (startSession params)), w)
      else if action = ''stop'' then ((None, snd (stopSession params)), w)
      else ((Some no_action_found, []), w))"
| "DoAction mc parse HealthCheckHandle w = ((None, []), w)"
| "DoAction mc parse (FileHandle action params) w =
     (if action \<in> set fileRoute then ((None, snd (fetch_first params)), w) else ((Some no_action_found, []), w))"
| "DoAction mc parse (StatusHandle action params) w =
     (if action = ''network'' then (requestNetworkStatus parse params, w) else ((Some no_action_found, []), w))"

section \<open>Messages\<close>

text \<open>
  A message of the guest agent channel after JSON decoding: the texts of decoding errors are the
  library's. The replies as values; their JSON is the library's too.
\<close>

datatype gshell_request =
    InvalidJson
  | GuestSync "string + int"
  | GuestCommand "string + string"
  | GuestShutdown "string + string"
  | OtherExecute

datatype channel_reply =
    TextReply string
  | SyncReply int
  | CommandReply string int bool
  | InvalidReply string

text \<open>What the handler does next to its reply: a goroutine that performs a handle, a request, a power action.\<close>

datatype message_effect = Perform kick_handle | Request kick_request | PowerOff bool

text \<open>\<open>kick_option\<close>: a handle with a known action is performed; anything else is refused.\<close>

definition kick_option :: "string \<Rightarrow> kick_handle option outcome" where
  "kick_option msg =
     map_ret (\<lambda>h. case h of None \<Rightarrow> None | Some handle \<Rightarrow> if CheckAction handle then Some handle else None) (ParseOption msg)"

definition OnRecvMsg_websocket :: "bool \<Rightarrow> string \<Rightarrow> (channel_reply \<times> message_effect list) outcome" where
  "OnRecvMsg_websocket criticalActionRunning msg =
     (if criticalActionRunning then Returns (TextReply (''reject:'' @ msg), [])
      else if msg = ''kick_vm'' then Returns (TextReply (''accept:'' @ msg), [Request (FetchRequest [] NormalTaskType)])
      else
        (let pre = (if contains ''kick_vm agent deregister'' msg then [Request UnregisterRequest] else []) in
         map_ret (\<lambda>h. case h of
             None \<Rightarrow> (TextReply (''unknow:'' @ msg), pre)
           | Some handle \<Rightarrow> (TextReply (''accept:'' @ msg), pre @ [Perform handle]))
           (kick_option msg)))"

definition OnRecvMsg_gshell :: "bool \<Rightarrow> gshell_request \<Rightarrow> (channel_reply \<times> message_effect list) outcome" where
  "OnRecvMsg_gshell criticalActionRunning req =
     (case req of
        InvalidJson \<Rightarrow> Returns (InvalidReply ''invalid json1'', [])
      | GuestSync (Inl e) \<Rightarrow> Returns (InvalidReply (''invalid json: '' @ e), [])
      | GuestSync (Inr i) \<Rightarrow> Returns (SyncReply i, [])
      | GuestCommand (Inl e) \<Rightarrow> Returns (InvalidReply (''invalid guest-command json: '' @ e), [])
      | GuestCommand (Inr cmd) \<Rightarrow>
          if criticalActionRunning then Returns (CommandReply ''agent is busy'' 7 False, [])
          else if cmd = ''kick_vm'' then
            Returns (CommandReply ''execute kick_vm success'' 8 True, [Request (FetchRequest [] NormalTaskType)])
          else map_ret (\<lambda>h. case h of
              None \<Rightarrow> (CommandReply ''invalid command'' 6 False, [])
            | Some handle \<Rightarrow> (CommandReply ''execute kick_vm success'' 8 True, [Perform handle]))
            (kick_option cmd)
      | GuestShutdown (Inl e) \<Rightarrow> Returns (InvalidReply (''invalid guest-shutdown command: '' @ e), [])
      | GuestShutdown (Inr mode) \<Rightarrow>
          if mode = ''powerdown'' then Returns (CommandReply ''execute command success'' 8 False, [PowerOff False])
          else if mode = ''reboot'' then Returns (CommandReply ''execute command success'' 8 False, [PowerOff True])
          else Returns (InvalidReply ''invalid guest-shutdown command'', [])
      | OtherExecute \<Rightarrow> Returns (InvalidReply ''invalid command'', []))"

section \<open>Properties\<close>

definition action_kinds :: "string list" where
  "action_kinds = [''agent'', ''task'', ''session'', ''file'', ''status'']"

lemma third_word_panics: "third_word h arrays = Panics p \<longleftrightarrow> p = IndexOutOfRange \<and> length arrays < 3"
  by (auto simp: third_word_def)

lemma ParseOption_words:
  "ParseOption input = Panics p \<longleftrightarrow> p = IndexOutOfRange
     \<and> (\<exists>a kind. split_on (CHR '' '') input = [a, kind] \<and> kind \<in> set action_kinds)"
proof -
  define arrays where "arrays = split_on (CHR '' '') input"
  have p: "ParseOption input = Panics p \<longleftrightarrow> 2 \<le> length arrays \<and> arrays ! 1 \<in> set action_kinds \<and> p = IndexOutOfRange \<and> length arrays < 3"
    by (simp add: ParseOption_def arrays_def [symmetric] Let_def third_word_panics action_kinds_def)
  have "2 \<le> length arrays \<and> arrays ! 1 \<in> K \<and> length arrays < 3 \<longleftrightarrow> (\<exists>a kind. arrays = [a, kind] \<and> kind \<in> K)" for K
    by (cases arrays; cases "tl arrays"; cases "tl (tl arrays)") auto
  with p show ?thesis by (auto simp: arrays_def [symmetric])
qed

lemma kick_option_panics: "kick_option msg = Panics p \<longleftrightarrow> ParseOption msg = Panics p"
  by (cases "ParseOption msg") (simp_all add: kick_option_def)

text \<open>A request of two words whose second one is a kind that needs an action crashes the handler of either
  channel, unless the agent is busy: the third word is read without a look at the count. These are the only
  messages that do.\<close>

theorem short_kick_panics:
  "((\<exists>p. OnRecvMsg_websocket busy msg = Panics p) \<longleftrightarrow>
      \<not> busy \<and> (\<exists>a kind. split_on (CHR '' '') msg = [a, kind] \<and> kind \<in> set action_kinds))
   \<and> ((\<exists>p. OnRecvMsg_gshell busy req = Panics p) \<longleftrightarrow>
      \<not> busy \<and> (\<exists>cmd a kind. req = GuestCommand (Inr cmd) \<and> split_on (CHR '' '') cmd = [a, kind] \<and> kind \<in> set action_kinds))"
proof (intro conjI)
  have one: "split_on (CHR '' '') ''kick_vm'' = [''kick_vm'']" by code_simp
  have m: "(\<exists>p. map_ret f (kick_option s) = Panics p) \<longleftrightarrow> (\<exists>a kind. split_on (CHR '' '') s = [a, kind] \<and> kind \<in> set action_kinds)"
    for f :: "kick_handle option \<Rightarrow> channel_reply \<times> message_effect list" and s
  proof (cases "kick_option s")
    case (Panics p)
    with kick_option_panics [of s p] ParseOption_words [of s p] show ?thesis by auto
  next
    case (Returns h)
    then have "ParseOption s \<noteq> Panics IndexOutOfRange" using kick_option_panics [of s] by auto
    with ParseOption_words [of s IndexOutOfRange] Returns show ?thesis by auto
  qed
  show "(\<exists>p. OnRecvMsg_websocket busy msg = Panics p) \<longleftrightarrow>
      \<not> busy \<and> (\<exists>a kind. split_on (CHR '' '') msg = [a, kind] \<and> kind \<in> set action_kinds)"
    using one by (auto simp: OnRecvMsg_websocket_def m Let_def)
  show "(\<exists>p. OnRecvMsg_gshell busy req = Panics p) \<longleftrightarrow>
      \<not> busy \<and> (\<exists>cmd a kind. req = GuestCommand (Inr cmd) \<and> split_on (CHR '' '') cmd = [a, kind] \<and> kind \<in> set action_kinds)"
    using one by (auto simp: OnRecvMsg_gshell_def m split: gshell_request.split sum.split)
qed

text \<open>The message that asks for a handle, as the server writes it.\<close>

fun kick_words :: "kick_handle \<Rightarrow> string list" where
  "kick_words (AgentHandle action params) = ''agent'' # action # params"
| "kick_words (TaskHandle action params) = ''task'' # action # params"
| "kick_words (SessionHandle action params) = ''session'' # action # params"
| "kick_words HealthCheckHandle = [''noop'']"
| "kick_words (FileHandle action params) = ''file'' # action # params"
| "kick_words (StatusHandle action params) = ''status'' # action # params"

definition kick_message :: "kick_handle \<Rightarrow> string" where
  "kick_message h = join '' '' (''kick_vm'' # kick_words h)"

lemma split_on_join:
  "ws \<noteq> [] \<Longrightarrow> \<forall>wd\<in>set ws. c \<notin> set wd \<Longrightarrow> split_on c (join [c] ws) = ws"
proof (induction ws rule: induct_list012)
  case (3 x y ws)
  then have "split_on c (x @ c # join [c] (y # ws)) = x # split_on c (join [c] (y # ws))" by (simp add: split_on_Cons)
  with 3 show ?case by simp
qed (simp_all add: split_on_single)

text \<open>A request whose words hold no blank is understood as it was meant: the handle read from the message of
  a handle is that handle, and over an idle websocket it is accepted and performed exactly when its action
  is one of its kind.\<close>

theorem kick_roundtrip:
  assumes "list_all (\<lambda>wd. CHR '' '' \<notin> set wd) (kick_words h)"
  shows "ParseOption (kick_message h) = Returns (Some h)
    \<and> (\<not> contains ''kick_vm agent deregister'' (kick_message h) \<longrightarrow>
       OnRecvMsg_websocket False (kick_message h) =
         Returns (if CheckAction h then (TextReply (''accept:'' @ kick_message h), [Perform h])
                  else (TextReply (''unknow:'' @ kick_message h), [])))"
proof -
  have "split_on (CHR '' '') (kick_message h) = ''kick_vm'' # kick_words h"
    unfolding kick_message_def using assms by (intro split_on_join) (auto simp: list_all_iff)
  then have p: "ParseOption (kick_message h) = Returns (Some h)"
    by (cases h) (simp_all add: ParseOption_def Let_def third_word_def)
  have "kick_message h \<noteq> ''kick_vm''"
  proof
    assume "kick_message h = ''kick_vm''"
    then have "split_on (CHR '' '') (kick_message h) = [''kick_vm'']" by (simp add: split_on_def)
    with \<open>split_on (CHR '' '') (kick_message h) = ''kick_vm'' # kick_words h\<close> show False by (cases h) simp_all
  qed
  with p show ?thesis by (simp add: OnRecvMsg_websocket_def kick_option_def Let_def)
qed

theorem kick_roundtrip_witness:
  "ParseOption ''kick_vm task run t-1'' = Returns (Some (TaskHandle ''run'' [''t-1'']))"
proof -
  have "list_all (\<lambda>wd. CHR '' '' \<notin> set wd) (kick_words (TaskHandle ''run'' [''t-1'']))" by simp
  from kick_roundtrip [OF this] show ?thesis by (simp add: kick_message_def)
qed

end
