(* ===== verification/Channel_Manager.thy ===== *)
theory Channel_Manager
  imports Kick Client_Report
begin

text \<open>
  The notification channels of the agent, \<open>agent/channel\<close>: the channel of the hypervisor
  (\<open>channel_gshell.go\<close>), the websocket (\<open>channel_websocket.go\<close>) and the manager that chooses
  between them (\<open>channel_manager.go\<close>). Each operation holds the lock of the manager and is one step
  here; listeners and timers are operations of their own.
\<close>

section \<open>State\<close>

definition ChannelNone :: int where "ChannelNone = 0"
definition ChannelGshellType :: int where "ChannelGshellType = 1"
definition ChannelWebsocketType :: int where "ChannelWebsocketType = 2"

lemmas channel_types = ChannelNone_def ChannelGshellType_def ChannelWebsocketType_def

definition ChannelTypeStr :: "int \<Rightarrow> string" where
  "ChannelTypeStr t = (if t = ChannelGshellType then ''gshell'' else if t = ChannelWebsocketType then ''websocket'' else ''unknown'')"

text \<open>\<open>gs_times\<close> is the ring of the last requests, \<open>None\<close> for a nil pointer.\<close>

record gshell_channel =
  gs_working :: bool
  gs_times :: "instant option list"
  gs_start :: int
  gs_end :: int

text \<open>\<open>ws_listening\<close>: the goroutine that reads the connection is still there.\<close>

record ws_channel =
  ws_working :: bool
  ws_listening :: bool
  ws_failed :: int
  ws_calmUntil :: instant

record channel_mgr =
  cm_gshell :: gshell_channel
  cm_ws :: ws_channel
  cm_active :: int
  wssCoolDownCount :: int
  wssCoolDownTime :: int
  gshellMaxFrequencyCount :: int
  gshellMaxFrequencyPeriod :: int

definition NewGshellChannel :: "int \<Rightarrow> gshell_channel" where
  "NewGshellChannel count = \<lparr>gs_working = False, gs_times = replicate (nat count) None, gs_start = - 1, gs_end = - 1\<rparr>"

definition NewWebsocketChannel :: ws_channel where
  "NewWebsocketChannel = \<lparr>ws_working = False, ws_listening = False, ws_failed = 0, ws_calmUntil = 0\<rparr>"

definition new_channels :: channel_mgr where
  "new_channels = \<lparr>cm_gshell = NewGshellChannel 10, cm_ws = NewWebsocketChannel, cm_active = ChannelNone,
     wssCoolDownCount = 1, wssCoolDownTime = 60, gshellMaxFrequencyCount = 10, gshellMaxFrequencyPeriod = 10\<rparr>"

text \<open>
  The surroundings: whether the instance is a hybrid one, the device of the hypervisor, the
  decoder of the server's answer, and the dialer.
\<close>

record throttling =
  th_maxKickVmCount :: int
  th_maxKickVmPeriod :: int
  th_wssCoolDownCount :: int
  th_wssCoolDownTime :: int

datatype dial_reply = Dialed | DialError go_error | DialUnknownAuthority go_error

record channel_env =
  ce_env :: env
  ce_machine :: machine
  ce_hybrid :: bool
  ce_ports :: "nat \<Rightarrow> go_error + (string \<times> string option) list"
  ce_open :: "nat \<Rightarrow> string \<Rightarrow> go_error option"
  ce_status :: "string \<Rightarrow> (string \<times> throttling) option"
  ce_dial :: "nat \<Rightarrow> string \<Rightarrow> dial_reply"

section \<open>The channel of the hypervisor\<close>

text \<open>The device: its usual path, or the port of the class directory whose name file says so.\<close>

definition guest_agent :: string where "guest_agent = ''org.qemu.guest_agent.0''"

fun find_vport :: "(string \<times> string option) list \<Rightarrow> string" where
  "find_vport [] = []"
| "find_vport ((name, content) # ps) =
     (if has_prefix ''vport'' name then
        (case content of
           None \<Rightarrow> find_vport ps
         | Some text \<Rightarrow> if trim_space text = guest_agent then ''/dev/'' @ name else find_vport ps)
      else find_vport ps)"

definition getVportDevPath :: "channel_env \<Rightarrow> world \<Rightarrow> string \<times> world" where
  "getVportDevPath ce w =
     (let (rd, w1) = ask (ce_ports ce) w in (case rd of Inl e \<Rightarrow> [] | Inr ps \<Rightarrow> find_vport ps, w1))"

definition ErrNotExist :: go_error where "ErrNotExist = PlainError ''file does not exist''"

definition getGshellPath :: "channel_env \<Rightarrow> world \<Rightarrow> (string \<times> go_error option) \<times> world" where
  "getGshellPath ce w =
     (let gshellPath = ''/dev/virtio-ports/'' @ guest_agent;
          (there, w1) = CheckFileIsExist (ce_machine ce) gshellPath w in
      if there then ((gshellPath, None), w1)
      else
        (let (p, w2) = getVportDevPath ce w1 in ((p, if p = [] then Some ErrNotExist else None), w2)))"

text \<open>\<open>startChannelUnsafe\<close>: only one start at a time; the goroutine that reads the device lives as long as the channel works.\<close>

definition startChannelUnsafe :: "channel_env \<Rightarrow> gshell_channel \<Rightarrow> world \<Rightarrow> go_error option \<times> gshell_channel \<times> world" where
  "startChannelUnsafe ce g w =
     (if gs_working g then (None, g, w)
      else
        (let ((path, e), w1) = getGshellPath ce w in
         case e of
           Some err \<Rightarrow> (Some err, g\<lparr>gs_working := False\<rparr>, w1)
         | None \<Rightarrow>
             (let (opened, w2) = ask (\<lambda>n. ce_open ce n path) w1 in
              case opened of
                Some err \<Rightarrow> (Some err, g\<lparr>gs_working := False\<rparr>, w2)
              | None \<Rightarrow> (None, g\<lparr>gs_working := True\<rparr>, w2))))"

definition gshell_StartChannel :: "channel_env \<Rightarrow> gshell_channel \<Rightarrow> world \<Rightarrow> go_error option \<times> gshell_channel \<times> world" where
  "gshell_StartChannel ce g w = (if gs_working g then (None, g, w) else startChannelUnsafe ce g w)"

definition updateMaxFrequency :: "int \<Rightarrow> int \<Rightarrow> channel_mgr \<Rightarrow> channel_mgr" where
  "updateMaxFrequency count period m =
     (let m1 =
        (if gshellMaxFrequencyCount m \<noteq> count then
           m\<lparr>gshellMaxFrequencyCount := (if count \<le> 0 then 0 else count),
             cm_gshell := (cm_gshell m)\<lparr>gs_times := replicate (nat count) None, gs_start := - 1, gs_end := - 1\<rparr>\<rparr>
         else m) in
      m1\<lparr>gshellMaxFrequencyPeriod := period\<rparr>)"

text \<open>\<open>IsSupported\<close> starts the channel, asks the server, and takes over the limits it answers with.\<close>

definition gshell_IsSupported :: "channel_env \<Rightarrow> channel_mgr \<Rightarrow> world \<Rightarrow> bool \<times> channel_mgr \<times> world" where
  "gshell_IsSupported ce m w =
     (if ce_hybrid ce then (False, m, w)
      else
        (let (err, g1, w1) = (if gs_working (cm_gshell m) then (None, cm_gshell m, w) else startChannelUnsafe ce (cm_gshell m) w);
             m1 = m\<lparr>cm_gshell := g1\<rparr> in
         if err \<noteq> None then (False, m1, w1)
         else
           (let ((resp, e), w2) = HttpPost (ce_env ce) (GetGshellCheckService (ce_env ce)) [] w1 in
            if e \<noteq> None then (False, m1, w2)
            else case ce_status ce resp of
              None \<Rightarrow> (False, m1, w2)
            | Some (support, th) \<Rightarrow>
                (support = ''true'',
                 (updateMaxFrequency (th_maxKickVmCount th) (th_maxKickVmPeriod th) m1)
                   \<lparr>wssCoolDownCount := th_wssCoolDownCount th, wssCoolDownTime := th_wssCoolDownTime th\<rparr>, w2))))"

text \<open>
  \<open>hasReachFrequencyLimit\<close> at the time \<open>now\<close>: the ring is indexed by integers that the model
  checks, and holds pointers.
\<close>

definition ring_get :: "'a option list \<Rightarrow> int \<Rightarrow> 'a outcome" where
  "ring_get xs i =
     (if i < 0 \<or> int (length xs) \<le> i then Panics IndexOutOfRange
      else case xs ! nat i of None \<Rightarrow> Panics NilDereference | Some x \<Rightarrow> Returns x)"

definition ring_set :: "'a option list \<Rightarrow> int \<Rightarrow> 'a \<Rightarrow> 'a option list outcome" where
  "ring_set xs i x =
     (if i < 0 \<or> int (length xs) \<le> i then Panics IndexOutOfRange else Returns (xs[nat i := Some x]))"

definition hasReachFrequencyLimit :: "instant \<Rightarrow> int \<Rightarrow> int \<Rightarrow> gshell_channel \<Rightarrow> (bool \<times> gshell_channel) outcome" where
  "hasReachFrequencyLimit now count period g =
     (if count = 0 then Returns (False, g)
      else if gs_start g = - 1 then
        map_ret (\<lambda>ts. (False, g\<lparr>gs_times := ts, gs_start := 0, gs_end := 0\<rparr>)) (ring_set (gs_times g) 0 now)
      else
        (let start = (gs_start g + 1) mod count in
         if start = gs_end g then
           bind_outcome (ring_get (gs_times g) (gs_end g)) (\<lambda>oldest.
           bind_outcome (ring_set (gs_times g) start now) (\<lambda>ts.
             let g1 = g\<lparr>gs_times := ts, gs_start := start, gs_end := (gs_end g + 1) mod count\<rparr> in
             if now < oldest + period * 1000000000 then Returns (True, g1)
             else map_ret (\<lambda>ts'. (False, g1\<lparr>gs_times := ts'\<rparr>)) (ring_set ts start now)))
         else map_ret (\<lambda>ts. (False, g\<lparr>gs_times := ts, gs_start := start\<rparr>)) (ring_set (gs_times g) start now)))"

section \<open>The websocket\<close>

definition ws_IsSupported :: "channel_env \<Rightarrow> bool" where
  "ws_IsSupported ce \<longleftrightarrow> server_host (ce_env ce) \<noteq> []"

definition dial_websocket :: "channel_env \<Rightarrow> string \<Rightarrow> world \<Rightarrow> go_error option \<times> world" where
  "dial_websocket ce url w =
     (let (r, w1) = ask (\<lambda>n. ce_dial ce n url) w in
      case r of
        Dialed \<Rightarrow> (None, w1)
      | DialError e \<Rightarrow> (Some e, w1)
      | DialUnknownAuthority e \<Rightarrow>
          (let (r2, w2) = ask (\<lambda>n. ce_dial ce n url) w1 in
           (case r2 of Dialed \<Rightarrow> None | DialError e2 \<Rightarrow> Some e2 | DialUnknownAuthority e2 \<Rightarrow> Some e2, w2)))"

text \<open>The start of the websocket on the state of the manager, whose cool-down limits it reads.\<close>

definition ws_calm :: "channel_mgr \<Rightarrow> instant \<Rightarrow> bool" where
  "ws_calm m now \<longleftrightarrow> wssCoolDownCount m \<le> ws_failed (cm_ws m) \<and> now < ws_calmUntil (cm_ws m)"

definition ws_StartChannel :: "channel_env \<Rightarrow> channel_mgr \<Rightarrow> world \<Rightarrow> go_error option \<times> channel_mgr \<times> world" where
  "ws_StartChannel ce m w =
     (let limited = (wssCoolDownCount m \<le> ws_failed (cm_ws m));
          (now, w1) = (if limited then read_clock (ce_env ce) w else (0, w)) in
      if limited \<and> now < ws_calmUntil (cm_ws m) then (Some (PlainError ''ws channel is calming down''), m, w1)
      else
        (let m1 = (if limited then m\<lparr>cm_ws := (cm_ws m)\<lparr>ws_failed := 0\<rparr>\<rparr> else m) in
         if server_host (ce_env ce) = [] then (Some (PlainError ''No available host''), m1, w1)
         else
           (let (err, w2) = dial_websocket ce (''wss://'' @ server_host (ce_env ce) @ ''/luban/notify_server'') w1 in
            case err of
              Some e \<Rightarrow>
                (let failed = ws_failed (cm_ws m1) + 1 in
                 if wssCoolDownCount m1 \<le> failed then
                   (let (now2, w3) = read_clock (ce_env ce) w2 in
                    (Some e, m1\<lparr>cm_ws := (cm_ws m1)\<lparr>ws_failed := failed,
                       ws_calmUntil := now2 + wssCoolDownTime m1 * 1000000000\<rparr>\<rparr>, w3))
                 else (Some e, m1\<lparr>cm_ws := (cm_ws m1)\<lparr>ws_failed := failed\<rparr>\<rparr>, w2))
            | None \<Rightarrow>
                (None, m1\<lparr>cm_ws := (cm_ws m1)\<lparr>ws_failed := 0, ws_working := True, ws_listening := True\<rparr>\<rparr>, w2))))"

text \<open>\<open>StopChannel\<close>: the listener sees the cleared flag when its read ends.\<close>

definition ws_StopChannel :: "channel_mgr \<Rightarrow> channel_mgr" where
  "ws_StopChannel m =
     (if ws_working (cm_ws m) then m\<lparr>cm_ws := (cm_ws m)\<lparr>ws_working := False, ws_listening := False\<rparr>\<rparr> else m)"

section \<open>The manager\<close>

text \<open>\<open>IsSupported\<close> and \<open>StartChannel\<close> through the interface, for the two channel types.\<close>

definition channel_IsSupported :: "channel_env \<Rightarrow> int \<Rightarrow> channel_mgr \<Rightarrow> world \<Rightarrow> bool \<times> channel_mgr \<times> world" where
  "channel_IsSupported ce t m w = (if t = ChannelGshellType then gshell_IsSupported ce m w else (ws_IsSupported ce, m, w))"

definition channel_IsWorking :: "int \<Rightarrow> channel_mgr \<Rightarrow> bool" where
  "channel_IsWorking t m = (if t = ChannelGshellType then gs_working (cm_gshell m) else ws_working (cm_ws m))"

definition channel_StartChannel :: "channel_env \<Rightarrow> int \<Rightarrow> channel_mgr \<Rightarrow> world \<Rightarrow> go_error option \<times> channel_mgr \<times> world" where
  "channel_StartChannel ce t m w =
     (if t = ChannelGshellType then
        (let (e, g, w1) = gshell_StartChannel ce (cm_gshell m) w in (e, m\<lparr>cm_gshell := g\<rparr>, w1))
      else ws_StartChannel ce m w)"

definition AllChannel :: "int list" where
  "AllChannel = [ChannelGshellType, ChannelWebsocketType]"

definition checkChannelWorker :: "channel_env \<Rightarrow> channel_mgr \<Rightarrow> world \<Rightarrow> bool \<times> channel_mgr \<times> world" where
  "checkChannelWorker ce m w =
     (let (supported, m1, w1) = channel_IsSupported ce ChannelGshellType m w in
      if supported \<and> channel_IsWorking ChannelGshellType m1 then
        (True, (if channel_IsWorking ChannelWebsocketType m1 then ws_StopChannel m1 else m1)\<lparr>cm_active := ChannelGshellType\<rparr>, w1)
      else (False, m1, w1))"

text \<open>The two loops of \<open>SelectAvailableChannel\<close>: a working channel ends it without becoming the active one.\<close>

fun find_working :: "channel_env \<Rightarrow> int \<Rightarrow> int list \<Rightarrow> channel_mgr \<Rightarrow> world \<Rightarrow> bool \<times> channel_mgr \<times> world" where
  "find_working ce current [] m w = (False, m, w)"
| "find_working ce current (t # ts) m w =
     (if current = t then find_working ce current ts m w
      else let (supported, m1, w1) = channel_IsSupported ce t m w in
        if supported \<and> channel_IsWorking t m1 then (True, m1, w1) else find_working ce current ts m1 w1)"

fun start_first :: "channel_env \<Rightarrow> int \<Rightarrow> int list \<Rightarrow> channel_mgr \<Rightarrow> world \<Rightarrow> bool \<times> channel_mgr \<times> world" where
  "start_first ce current [] m w = (False, m, w)"
| "start_first ce current (t # ts) m w =
     (if current = t then start_first ce current ts m w
      else let (supported, m1, w1) = channel_IsSupported ce t m w in
        if supported then
          (let (e, m2, w2) = channel_StartChannel ce t m1 w1 in
           if e = None then (True, m2\<lparr>cm_active := t\<rparr>, w2) else start_first ce current ts m2 w2)
        else start_first ce current ts m1 w1)"

definition no_channel :: go_error where "no_channel = PlainError ''No available channel''"

definition SelectAvailableChannel :: "channel_env \<Rightarrow> int \<Rightarrow> channel_mgr \<Rightarrow> world \<Rightarrow> go_error option \<times> channel_mgr \<times> world" where
  "SelectAvailableChannel ce current m w =
     (let (found, m1, w1) = find_working ce current AllChannel m w in
      if found then (None, m1, w1)
      else
        (let (started, m2, w2) = start_first ce current AllChannel m1 w1 in
         (if started then None else Some no_channel, m2, w2)))"

text \<open>\<open>Init\<close> after its timer is set up: the first supported channel that starts becomes active.\<close>

definition mgr_Init :: "channel_env \<Rightarrow> channel_mgr \<Rightarrow> world \<Rightarrow> go_error option \<times> channel_mgr \<times> world" where
  "mgr_Init ce m w =
     (let (started, m1, w1) = start_first ce ChannelNone AllChannel m w in (if started then None else Some no_channel, m1, w1))"

definition GetCurrentChannelType :: "channel_mgr \<Rightarrow> int" where
  "GetCurrentChannelType m = cm_active m"

definition TryStartGshellChannel :: "channel_env \<Rightarrow> channel_mgr \<Rightarrow> world \<Rightarrow> channel_mgr \<times> world" where
  "TryStartGshellChannel ce m w =
     (let m1 = m\<lparr>cm_gshell := NewGshellChannel (gshellMaxFrequencyCount m)\<rparr> in
      if ce_hybrid ce then (m1, w)
      else let (e, m2, w2) = channel_StartChannel ce ChannelGshellType m1 w in (m2, w2))"

text \<open>Stopping the channels dereferences the active one, which may never have been set.\<close>

definition Uninit :: "channel_mgr \<Rightarrow> channel_mgr outcome" where
  "Uninit m =
     (if cm_active m = ChannelNone then Panics NilDereference
      else if cm_active m = ChannelWebsocketType then Returns (ws_StopChannel m) else Returns m)"

definition current_info :: "channel_mgr \<Rightarrow> string" where
  "current_info m = ''success: Current channel is '' @ itoa (cm_active m)"

text \<open>The half-hourly check of the timer, with its report.\<close>

definition timer_check :: "channel_env \<Rightarrow> channel_mgr \<Rightarrow> world \<Rightarrow> channel_mgr \<times> world" where
  "timer_check ce m w =
     (let (switched, m1, w1) = checkChannelWorker ce m w in
      if switched then (m1, w1)
      else
        (let (err, m2, w2) = SelectAvailableChannel ce ChannelNone m1 w1;
             info = (if err = None then current_info m2 else ''fail:No available channel'') in
         (m2, snd (SendReport (ce_env ce) \<lparr>ReportType = ''switch_channel_in_timer'', Info = info\<rparr> w2))))"

text \<open>The tries of \<open>SwitchChannel\<close>, five seconds apart, and its report.\<close>

fun try_channels :: "nat \<Rightarrow> channel_env \<Rightarrow> channel_mgr \<Rightarrow> world \<Rightarrow> bool \<times> channel_mgr \<times> world" where
  "try_channels 0 ce m w = (False, m, w)"
| "try_channels (Suc n) ce m w =
     (let (err, m1, w1) = SelectAvailableChannel ce ChannelNone m w in
      if err = None then (True, m1, w1) else try_channels n ce m1 (go_sleep 5 w1))"

definition switch_report :: "channel_env \<Rightarrow> string \<Rightarrow> bool \<Rightarrow> channel_mgr \<Rightarrow> world \<Rightarrow> world" where
  "switch_report ce kind ok m w =
     snd (SendReport (ce_env ce) \<lparr>ReportType = kind, Info = (if ok then current_info m else ''fail: no available channel'')\<rparr> w)"

definition ws_SwitchChannel :: "channel_env \<Rightarrow> channel_mgr \<Rightarrow> world \<Rightarrow> bool \<times> channel_mgr \<times> world" where
  "ws_SwitchChannel ce m w =
     (let (ok, m1, w1) = try_channels 5 ce m (go_sleep 1 w) in (ok, m1, switch_report ce ''switch_channel_in_wsk'' ok m1 w1))"

definition gshell_SwitchChannel :: "channel_env \<Rightarrow> channel_mgr \<Rightarrow> world \<Rightarrow> bool \<times> channel_mgr \<times> world" where
  "gshell_SwitchChannel ce m w =
     (let (err, m1, w1) = SelectAvailableChannel ce ChannelGshellType m (go_sleep 1 w);
          (ok, m2, w2) = (if err = None then (True, m1, w1) else try_channels 5 ce m1 w1) in
      (ok, m2, switch_report ce ''switch_channel_in_gshell'' ok m2 w2))"

section \<open>The listeners\<close>

text \<open>
  One read of the websocket's goroutine; \<open>retry\<close> counts the failures in a row. The goroutine ends
  when the channel is closed, after five failures, and when the message handler panics: the panic is
  caught, but nothing else is done.
\<close>

datatype ws_event = WsReadError go_error | WsOtherFrame | WsMessage string bool

definition ws_listen_step ::
  "channel_env \<Rightarrow> (go_error \<Rightarrow> string) \<Rightarrow> ws_event \<Rightarrow> nat \<times> channel_mgr \<Rightarrow> world \<Rightarrow>
   (nat \<times> channel_mgr) \<times> message_effect list \<times> world" where
  "ws_listen_step ce error_text ev st w =
     (let (retry, m) = st in
      if \<not> ws_listening (cm_ws m) then (st, [], w)
      else if \<not> ws_working (cm_ws m) then ((retry, m\<lparr>cm_ws := (cm_ws m)\<lparr>ws_listening := False\<rparr>\<rparr>), [], w)
      else case ev of
        WsReadError e \<Rightarrow>
          (let w1 = go_sleep 1 w in
           if 5 \<le> retry + 1 then
             ((retry + 1, m\<lparr>cm_ws := (cm_ws m)\<lparr>ws_working := False, ws_listening := False\<rparr>\<rparr>), [],
              snd (SendReport (ce_env ce) \<lparr>ReportType = ''switch_channel_in_wsk'', Info = ''start:'' @ error_text e\<rparr> w1))
           else ((retry + 1, m), [], w1))
      | WsOtherFrame \<Rightarrow> ((retry, m), [], w)
      | WsMessage msg critical \<Rightarrow>
          (case OnRecvMsg_websocket critical msg of
             Panics p \<Rightarrow> ((retry, m\<lparr>cm_ws := (cm_ws m)\<lparr>ws_listening := False\<rparr>\<rparr>), [], w)
           | Returns (reply, effs) \<Rightarrow> ((0, m), effs, w)))"

text \<open>
  One message of the hypervisor's goroutine, which has no recover: the frequency is measured, the
  message handled, the reply written (\<open>wrote\<close>), and with the limit reached, at most once a minute,
  another channel is tried. \<open>True\<close> in the result: the agent looks for another channel.
\<close>

definition gshell_message ::
  "instant \<Rightarrow> instant \<Rightarrow> bool \<Rightarrow> gshell_request \<Rightarrow> channel_mgr \<Rightarrow>
   (bool \<times> instant \<times> (channel_reply \<times> message_effect list) \<times> channel_mgr) outcome" where
  "gshell_message now lastExceed critical req m =
     bind_outcome (hasReachFrequencyLimit now (gshellMaxFrequencyCount m) (gshellMaxFrequencyPeriod m) (cm_gshell m)) (\<lambda>(reached, g).
     map_ret (\<lambda>result.
       let m1 = m\<lparr>cm_gshell := g\<rparr>; exceed = (reached \<and> lastExceed + 60000000000 < now) in
       (exceed, if exceed then now else lastExceed, result, m1))
       (OnRecvMsg_gshell critical req))"

section \<open>The frequency limit\<close>

text \<open>
  Specification: all requests since the limits were set, newest first. The limit is reached when
  the request \<open>count\<close> before this one is less than a period old.
\<close>

definition too_frequent :: "instant \<Rightarrow> int \<Rightarrow> int \<Rightarrow> instant list \<Rightarrow> bool" where
  "too_frequent now count period hs \<longleftrightarrow> nat count \<le> length hs \<and> now < hs ! (nat count - 1) + period * 1000000000"

text \<open>The ring represents the history: the newest request at the start, the oldest kept one at the end.\<close>

definition ring_rep :: "int \<Rightarrow> gshell_channel \<Rightarrow> instant list \<Rightarrow> bool" where
  "ring_rep count g hs \<longleftrightarrow> length (gs_times g) = nat count
     \<and> (hs = [] \<longrightarrow> gs_start g = - 1 \<and> gs_end g = - 1)
     \<and> (hs \<noteq> [] \<longrightarrow> gs_start g = int ((length hs - 1) mod nat count)
          \<and> gs_end g = (if length hs < nat count then 0 else int (length hs mod nat count)))
     \<and> (\<forall>j < min (nat count) (length hs). gs_times g ! ((length hs - 1 - j) mod nat count) = Some (hs ! j))"

lemma ring_rep_start: "0 < count \<Longrightarrow> ring_rep count (NewGshellChannel count) []"
  by (simp add: ring_rep_def NewGshellChannel_def)

lemma ring_rep_reset:
  "0 < count \<Longrightarrow> gshellMaxFrequencyCount m \<noteq> count \<Longrightarrow>
    ring_rep count (cm_gshell (updateMaxFrequency count period m)) []"
  by (simp add: ring_rep_def updateMaxFrequency_def Let_def)

lemma ring_index_next: "(0 :: nat) < N \<Longrightarrow> 0 < L \<Longrightarrow> (int ((L - 1) mod N) + 1) mod int N = int (L mod N)"
proof -
  assume "0 < N" "0 < L"
  have "((L - 1) mod N + 1) mod N = L mod N" using mod_add_left_eq [of "L - 1" N 1] \<open>0 < L\<close> by simp
  moreover have "(int ((L - 1) mod N) + 1) mod int N = int (((L - 1) mod N + 1) mod N)" by (simp add: zmod_int add.commute)
  ultimately show ?thesis by simp
qed

lemma ring_mod_neq:
  assumes "(0 :: nat) < j" "j < N" "j \<le> L" shows "(L - j) mod N \<noteq> L mod N"
proof
  assume "(L - j) mod N = L mod N"
  then have "N dvd L - (L - j)" using assms(3) by (metis diff_le_self mod_eq_dvd_iff_nat)
  with assms show False by (simp add: nat_dvd_not_less)
qed

lemma ring_rep_push:
  assumes rep: "ring_rep count g hs" and c: "0 < count"
    and g': "gs_times g' = (gs_times g)[length hs mod nat count := Some now]"
      "gs_start g' = int (length hs mod nat count)"
      "gs_end g' = (if Suc (length hs) < nat count then 0 else int (Suc (length hs) mod nat count))"
  shows "ring_rep count g' (now # hs)"
proof -
  define N where "N = nat count"
  have N: "0 < N" using c by (simp add: N_def)
  have len: "length (gs_times g) = N" using rep by (simp add: ring_rep_def N_def)
  have "gs_times g' ! ((Suc (length hs) - 1 - j) mod N) = Some ((now # hs) ! j)" if "j < min N (Suc (length hs))" for j
  proof (cases j)
    case 0
    then show ?thesis using g'(1) len N by (simp add: N_def [symmetric])
  next
    case (Suc i)
    have "(length hs - Suc i) mod N \<noteq> length hs mod N" using that Suc by (intro ring_mod_neq) auto
    moreover have "gs_times g ! ((length hs - 1 - i) mod N) = Some (hs ! i)"
      using rep that Suc by (simp add: ring_rep_def N_def [symmetric])
    ultimately show ?thesis using g'(1) Suc by (simp add: N_def [symmetric])
  qed
  with g' len show ?thesis by (simp add: ring_rep_def N_def [symmetric])
qed

text \<open>C7. The frequency limit is exact: the ring of time stamps answers as the whole history of requests would, the
  limit is reached precisely when the request that many before is younger than the period; no index leaves
  the ring and no empty slot is read.\<close>

theorem hasReachFrequencyLimit_refines:
  assumes "ring_rep count g hs" "0 < count"
  shows "\<exists>g'. hasReachFrequencyLimit now count period g = Returns (too_frequent now count period hs, g')
    \<and> ring_rep count g' (now # hs)"
proof -
  define N where "N = nat count"
  have N: "0 < N" "count = int N" using assms(2) by (simp_all add: N_def)
  have len: "length (gs_times g) = N" using assms(1) by (simp add: ring_rep_def N_def)
  show ?thesis
  proof (cases "hs = []")
    case True
    then have "gs_start g = - 1" using assms(1) by (simp add: ring_rep_def)
    moreover have "ring_rep count (g\<lparr>gs_times := (gs_times g)[0 := Some now], gs_start := 0, gs_end := 0\<rparr>) [now]"
      using ring_rep_push [OF assms, of _ now] True N by (cases "N = 1") auto
    ultimately show ?thesis
      using True N len by (simp add: hasReachFrequencyLimit_def ring_set_def too_frequent_def)
  next
    case False
    define L where "L = length hs"
    have L: "0 < L" using False by (simp add: L_def)
    have st: "gs_start g = int ((L - 1) mod N)" "gs_end g = (if L < N then 0 else int (L mod N))"
      using assms(1) False by (simp_all add: ring_rep_def N_def L_def)
    have nx: "(gs_start g + 1) mod count = int (L mod N)" using ring_index_next [OF N(1) L] st(1) N(2) by simp
    have set: "ring_set xs (int (L mod N)) now = Returns (xs[L mod N := Some now])" if "length xs = N" for xs :: "instant option list"
      using that N by (simp add: ring_set_def not_le)
    show ?thesis
    proof (cases "L < N")
      case True
      then have neq: "int (L mod N) \<noteq> gs_end g" using st L by simp
      have "ring_rep count (g\<lparr>gs_times := (gs_times g)[L mod N := Some now], gs_start := int (L mod N)\<rparr>) (now # hs)"
      proof (rule ring_rep_push [OF assms])
        show "gs_end (g\<lparr>gs_times := (gs_times g)[L mod N := Some now], gs_start := int (L mod N)\<rparr>)
          = (if Suc (length hs) < nat count then 0 else int (Suc (length hs) mod nat count))"
          using True st(2) by (cases "Suc L = N") (auto simp: L_def N_def [symmetric])
      qed (simp_all add: L_def N_def)
      then show ?thesis
        using neq nx st(1) N True set [OF len]
        by (simp add: hasReachFrequencyLimit_def Let_def too_frequent_def L_def N_def [symmetric])
    next
      case False
      then have eq: "gs_end g = int (L mod N)" using st by simp
      have "\<forall>j < min N L. gs_times g ! ((L - 1 - j) mod N) = Some (hs ! j)"
        using assms(1) by (simp add: ring_rep_def N_def [symmetric] L_def)
      from this [rule_format, of "N - 1"] have "gs_times g ! ((L - 1 - (N - 1)) mod N) = Some (hs ! (N - 1))"
        using False N by (simp add: not_less)
      moreover have "(L - 1 - (N - 1)) mod N = L mod N" using False N(1) by (simp add: le_mod_geq)
      ultimately have get: "ring_get (gs_times g) (int (L mod N)) = Returns (hs ! (N - 1))"
        using len N by (simp add: ring_get_def not_le)
      have en: "(int (L mod N) + 1) mod count = int (Suc L mod N)"
        using ring_index_next [OF N(1), of "Suc L"] N(2) by simp
      have rr: "ring_rep count g' (now # hs)"
        if "gs_times g' = (gs_times g)[L mod N := Some now]" "gs_start g' = int (L mod N)" "gs_end g' = int (Suc L mod N)" for g'
        by (rule ring_rep_push [OF assms]) (use that False in \<open>simp_all add: L_def N_def\<close>)
      have two: "ring_set ((gs_times g)[L mod N := Some now]) (int (L mod N)) now = Returns ((gs_times g)[L mod N := Some now])"
        using len N by (simp add: ring_set_def not_le)
      have tf: "too_frequent now count period hs \<longleftrightarrow> now < hs ! (N - 1) + period * 1000000000"
        using False by (simp add: too_frequent_def L_def N_def)
      have ne: "count \<noteq> 0" "gs_start g \<noteq> - 1" using N st(1) by auto
      define g' where "g' = g\<lparr>gs_times := (gs_times g)[L mod N := Some now], gs_start := int (L mod N), gs_end := int (Suc L mod N)\<rparr>"
      have "hasReachFrequencyLimit now count period g = Returns (too_frequent now count period hs, g')"
        unfolding hasReachFrequencyLimit_def using ne by (simp add: Let_def nx eq get set [OF len] two en tf g'_def)
      moreover have "ring_rep count g' (now # hs)" by (rule rr) (simp_all add: g'_def)
      ultimately show ?thesis by blast
    qed
  qed
qed

theorem hasReachFrequencyLimit_refines_witness:
  "\<exists>g. hasReachFrequencyLimit 5 1 10 (NewGshellChannel 1) = Returns (False, g)"
proof -
  have "ring_rep 1 (NewGshellChannel 1) []" by (rule ring_rep_start) simp
  from hasReachFrequencyLimit_refines [OF this, of 5 10] show ?thesis by (auto simp: too_frequent_def)
qed

section \<open>Choosing a channel\<close>

definition deaf :: "channel_mgr \<Rightarrow> bool" where
  "deaf m \<longleftrightarrow> ws_working (cm_ws m) \<and> \<not> ws_listening (cm_ws m)"

lemma deaf_SelectAvailableChannel:
  "ce_hybrid ce \<Longrightarrow> server_host (ce_env ce) \<noteq> [] \<Longrightarrow> deaf m \<Longrightarrow> SelectAvailableChannel ce ChannelNone m w = (None, m, w)"
  by (simp add: SelectAvailableChannel_def AllChannel_def channel_types channel_IsSupported_def gshell_IsSupported_def
      ws_IsSupported_def channel_IsWorking_def deaf_def)

lemma deaf_checkChannelWorker: "ce_hybrid ce \<Longrightarrow> checkChannelWorker ce m w = (False, m, w)"
  by (simp add: checkChannelWorker_def channel_IsSupported_def gshell_IsSupported_def)

text \<open>C8. A hybrid instance can be made deaf by one short message: a request like ``kick\_vm agent'' ends the
  goroutine that reads the websocket, yet the channel still counts as working; from then on no message is
  heard, and neither the half-hourly check nor a search for a channel ever starts it again, while both report
  success.\<close>

theorem short_kick_deafens:
  assumes "ws_working (cm_ws m)" "ws_listening (cm_ws m)" "split_on (CHR '' '') msg = [a, kind]" "kind \<in> set action_kinds"
    and "ce_hybrid ce" "server_host (ce_env ce) \<noteq> []"
  shows "let ((retry', m'), effs, w1) = ws_listen_step ce error_text (WsMessage msg False) (retry, m) w in
    deaf m' \<and> effs = [] \<and> ws_listen_step ce error_text ev (retry', m') v = ((retry', m'), [], v)
    \<and> SelectAvailableChannel ce ChannelNone m' v = (None, m', v) \<and> fst (timer_check ce m' v) = m'"
proof -
  define m' where "m' = m\<lparr>cm_ws := (cm_ws m)\<lparr>ws_listening := False\<rparr>\<rparr>"
  have d: "deaf m'" using assms(1) by (simp add: m'_def deaf_def)
  have one: "split_on (CHR '' '') ''kick_vm'' = [''kick_vm'']" by code_simp
  have "ParseOption msg = Panics IndexOutOfRange" using ParseOption_words assms(3,4) by blast
  then have "kick_option msg = Panics IndexOutOfRange" by (simp add: kick_option_panics)
  moreover have "msg \<noteq> ''kick_vm''" using one assms(3) by auto
  ultimately have "OnRecvMsg_websocket False msg = Panics IndexOutOfRange"
    by (simp add: OnRecvMsg_websocket_def Let_def)
  then have "ws_listen_step ce error_text (WsMessage msg False) (retry, m) w = ((retry, m'), [], w)"
    using assms(1,2) by (simp add: ws_listen_step_def m'_def)
  moreover have "fst (timer_check ce m' v) = m'"
    using deaf_checkChannelWorker [OF assms(5), of m' v] deaf_SelectAvailableChannel [OF assms(5,6) d, of v]
    by (simp add: timer_check_def Let_def)
  moreover have "ws_listen_step ce error_text ev (retry, m') v = ((retry, m'), [], v)"
    by (simp add: ws_listen_step_def m'_def)
  ultimately show ?thesis using d deaf_SelectAvailableChannel [OF assms(5,6) d, of v] by simp
qed

text \<open>While the websocket is calming down, a start asks nobody and changes nothing; a dial that fails as often as
  the limit allows begins such a calm of the set length, and a start that succeeds ends the count.\<close>

theorem ws_StartChannel_calms:
  "case ws_StartChannel ce m w of (err, m', w') \<Rightarrow>
     (if wssCoolDownCount m \<le> ws_failed (cm_ws m) \<and> clock (ce_env ce) (ticks w) < ws_calmUntil (cm_ws m)
      then err \<noteq> None \<and> m' = m \<and> w' = tick w
      else case err of
        None \<Rightarrow> ws_working (cm_ws m') \<and> ws_listening (cm_ws m') \<and> ws_failed (cm_ws m') = 0
      | Some e \<Rightarrow> ws_failed (cm_ws m') < wssCoolDownCount m \<or> server_host (ce_env ce) = []
          \<or> (\<exists>t. ws_calmUntil (cm_ws m') = clock (ce_env ce) t + wssCoolDownTime m * 1000000000
               \<and> Suc t = ticks w'))"
proof -
  obtain err w2 where d: "dial_websocket ce (''wss://'' @ server_host (ce_env ce) @ ''/luban/notify_server'')
      (if wssCoolDownCount m \<le> ws_failed (cm_ws m) then tick w else w) = (err, w2)" by fastforce
  show ?thesis
    using d by (cases err) (auto simp: ws_StartChannel_def read_clock_def Let_def split: if_splits)
qed

lemma gshell_IsSupported_working:
  "gshell_IsSupported ce m w = (True, m', w') \<Longrightarrow> gs_working (cm_gshell m')"
  by (auto simp: gshell_IsSupported_def startChannelUnsafe_def updateMaxFrequency_def Let_def
      split: if_splits prod.splits option.splits)

text \<open>The search for a channel never makes the hypervisor's channel the active one when the server supports it:
  asking for support starts the channel, so the first loop finds it working and stops there. After a lost
  websocket the search reports success with the stopped websocket as the current channel.\<close>

theorem search_keeps_lost_websocket:
  assumes "gshell_IsSupported ce m w = (True, m', w')"
  shows "SelectAvailableChannel ce ChannelNone m w = (None, m', w')
    \<and> channel_IsWorking ChannelGshellType m' \<and> cm_active m' = cm_active m \<and> cm_ws m' = cm_ws m"
proof -
  note wk = gshell_IsSupported_working [OF assms]
  have "cm_active m' = cm_active m \<and> cm_ws m' = cm_ws m"
    using assms by (auto simp: gshell_IsSupported_def updateMaxFrequency_def Let_def split: if_splits prod.splits option.splits)
  with wk assms show ?thesis
    by (simp add: SelectAvailableChannel_def AllChannel_def channel_types channel_IsSupported_def channel_IsWorking_def)
qed

definition example_channels :: channel_env where
  "example_channels = \<lparr>ce_env = \<lparr>server_host = ''cn.axt.aliyun.com'', transport = (\<lambda>n m u b. Reply 200 []),
       clock = (\<lambda>n. 1000000000 * int n), clock_zone = (\<lambda>n. 0), zone_name = ''UTC'', zone_offset = (\<lambda>z t. 0)\<rparr>,
     ce_machine = quiet_machine Inr, ce_hybrid = True, ce_ports = (\<lambda>n. Inr [(''vport0p1'', Some guest_agent)]), ce_open = (\<lambda>n p. None),
     ce_status = (\<lambda>s. Some (''true'', \<lparr>th_maxKickVmCount = 10, th_maxKickVmPeriod = 10, th_wssCoolDownCount = 1,
       th_wssCoolDownTime = 60\<rparr>)), ce_dial = (\<lambda>n u. Dialed)\<rparr>"

theorem short_kick_deafens_witness:
  "\<exists>m w. deaf m \<and> SelectAvailableChannel example_channels ChannelNone m w = (None, m, w)"
proof -
  define m where "m = new_channels\<lparr>cm_ws := NewWebsocketChannel\<lparr>ws_working := True, ws_listening := True\<rparr>\<rparr>"
  have "split_on (CHR '' '') ''kick_vm agent'' = [''kick_vm'', ''agent'']" by code_simp
  with short_kick_deafens [where m = m and msg = "''kick_vm agent''" and a = "''kick_vm''" and kind = "''agent''" and ce = example_channels
      and error_text = "\<lambda>e. []" and retry = 0 and w = undefined and ev = WsOtherFrame and v = undefined]
  show ?thesis by (auto simp: m_def example_channels_def action_kinds_def split: prod.splits)
qed

theorem search_keeps_lost_websocket_witness:
  "\<exists>m' w'. SelectAvailableChannel (example_channels\<lparr>ce_hybrid := False\<rparr>) ChannelNone
       (new_channels\<lparr>cm_active := ChannelWebsocketType\<rparr>) \<lparr>ticks = 0, trace = []\<rparr> = (None, m', w')
     \<and> cm_active m' = ChannelWebsocketType \<and> \<not> ws_working (cm_ws m')"
proof -
  define m where "m = new_channels\<lparr>cm_active := ChannelWebsocketType\<rparr>"
  define ce where "ce = example_channels\<lparr>ce_hybrid := False\<rparr>"
  have "fst (gshell_IsSupported ce m \<lparr>ticks = 0, trace = []\<rparr>)" unfolding ce_def m_def by code_simp
  then obtain m' w' where s: "gshell_IsSupported ce m \<lparr>ticks = 0, trace = []\<rparr> = (True, m', w')"
    by (cases "gshell_IsSupported ce m \<lparr>ticks = 0, trace = []\<rparr>") auto
  have "cm_active m = ChannelWebsocketType" "\<not> ws_working (cm_ws m)"
    by (simp_all add: m_def new_channels_def NewWebsocketChannel_def)
  with search_keeps_lost_websocket [OF s] show ?thesis by (simp add: ce_def m_def)
qed

end
