(* ===== verification/Crypt_Data.thy ===== *)
theory Crypt_Data
  imports Md5 Text_Replace Go_Strings "HOL-Library.AList"
begin

text \<open>
  Keys and secrets of the agent, \<open>agent/cryptdata\<close>: pairs of RSA keys that expire
  (\<open>cryptdata.go\<close>), secret parameters that are decrypted with them (\<open>secretparam.go\<close>), the timer that
  clears both (\<open>api.go\<close>), and the procedures of \<open>agent/ipc/server/server.go\<close> that other programs of
  the machine call. Both tables are a \<open>sync.Map\<close>, whose single accesses are atomic. RSA with OAEP,
  the encodings of keys and the order in which a map is visited are parameters.
\<close>

section \<open>Data\<close>

record 'k rsaKeyPair =
  Id :: string
  CreatedTimestamp :: int
  ExpiredTimestamp :: int
  PrivateKey :: 'k
  PublicKey :: string

record KeyInfo =
  ki_Id :: string
  ki_CreatedTimestamp :: int
  ki_ExpiredTimestamp :: int
  ki_PublicKey :: string

record secretParam =
  SecretName :: string
  PlainText :: string
  sp_CreatedTimestamp :: int
  sp_ExpiredTimestamp :: int

record ParamInfo =
  pi_SecretName :: string
  pi_CreatedTimestamp :: int
  pi_ExpiredTimestamp :: int

datatype crypt_error = ErrKeyIdNotExist | ErrKeyIdDuplicated | ErrParamNotExist | OtherError string

fun crypt_text :: "crypt_error \<Rightarrow> string" where
  "crypt_text ErrKeyIdNotExist = ''Key id not exist''"
| "crypt_text ErrKeyIdDuplicated = ''Key id is duplicated''"
| "crypt_text ErrParamNotExist = ''Secret param not exist''"
| "crypt_text (OtherError m) = m"

fun ErrToCode :: "crypt_error \<Rightarrow> int" where
  "ErrToCode ErrKeyIdDuplicated = 112"
| "ErrToCode ErrKeyIdNotExist = 111"
| "ErrToCode ErrParamNotExist = 113"
| "ErrToCode (OtherError m) = 1"

text \<open>
  The outside: the clock in seconds and the random source by the number of the interaction, the RSA
  library, and the order in which a map is visited.
\<close>

record 'k crypt_env =
  unix_time :: "nat \<Rightarrow> int"
  generate_key :: "nat \<Rightarrow> crypt_error + 'k"
  marshal_public :: "'k \<Rightarrow> crypt_error + string"
  pem_public :: "string \<Rightarrow> crypt_error + string"
  encrypt_oaep :: "nat \<Rightarrow> 'k \<Rightarrow> string \<Rightarrow> crypt_error + string"
  decrypt_oaep :: "'k \<Rightarrow> string \<Rightarrow> crypt_error + string"
  visit_order :: "nat \<Rightarrow> string list \<Rightarrow> string list"

record 'k crypt =
  keyPairs :: "(string \<times> 'k rsaKeyPair) list"
  secretParams :: "(string \<times> secretParam) list"
  moment :: nat

definition advance :: "'k crypt \<Rightarrow> 'k crypt" where
  "advance s = s\<lparr>moment := Suc (moment s)\<rparr>"

definition now_of :: "'k crypt_env \<Rightarrow> 'k crypt \<Rightarrow> int" where
  "now_of env s = unix_time env (moment s)"

lemma advance_simps [simp]:
  "keyPairs (advance s) = keyPairs s" "secretParams (advance s) = secretParams s"
  "moment (advance s) = Suc (moment s)"
  by (simp_all add: advance_def)

section \<open>Key pairs\<close>

text \<open>\<open>loadKey\<close> removes a pair that it finds expired.\<close>

definition deleteKey :: "string \<Rightarrow> 'k crypt \<Rightarrow> 'k crypt" where
  "deleteKey keyId s = s\<lparr>keyPairs := AList.delete keyId (keyPairs s)\<rparr>"

definition loadKey :: "'k crypt_env \<Rightarrow> string \<Rightarrow> 'k crypt \<Rightarrow> (crypt_error + 'k rsaKeyPair) \<times> 'k crypt" where
  "loadKey env keyId s =
     (case map_of (keyPairs s) keyId of
        None \<Rightarrow> (Inl ErrKeyIdNotExist, s)
      | Some privateKey \<Rightarrow>
          if ExpiredTimestamp privateKey < now_of env s then (Inl ErrKeyIdNotExist, deleteKey keyId (advance s))
          else (Inr privateKey, advance s))"

text \<open>\<open>LoadOrStore\<close> of the map, in one access.\<close>

definition storeKey :: "string \<Rightarrow> 'k rsaKeyPair \<Rightarrow> 'k crypt \<Rightarrow> crypt_error option \<times> 'k crypt" where
  "storeKey keyId keyPair s =
     (case map_of (keyPairs s) keyId of
        Some _ \<Rightarrow> (Some ErrKeyIdDuplicated, s)
      | None \<Rightarrow> (None, s\<lparr>keyPairs := AList.update keyId keyPair (keyPairs s)\<rparr>))"

definition getKeys :: "'k crypt_env \<Rightarrow> 'k crypt \<Rightarrow> 'k rsaKeyPair list" where
  "getKeys env s = List.map_filter (map_of (keyPairs s)) (visit_order env (moment s) (map fst (keyPairs s)))"

definition key_info :: "'k rsaKeyPair \<Rightarrow> KeyInfo" where
  "key_info k = \<lparr>ki_Id = Id k, ki_CreatedTimestamp = CreatedTimestamp k, ki_ExpiredTimestamp = ExpiredTimestamp k,
     ki_PublicKey = PublicKey k\<rparr>"

text \<open>
  The second half of \<open>GenRsaKey\<close>, once the key is generated and its public part encoded. Without an
  identifier of the caller, the key is named by the digest of the time and the public key.
\<close>

definition keep_generated :: "'k crypt_env \<Rightarrow> string \<Rightarrow> int \<Rightarrow> 'k \<Rightarrow> string \<Rightarrow> 'k crypt \<Rightarrow>
  (crypt_error + KeyInfo) \<times> 'k crypt" where
  "keep_generated env specifiedId timeout privateKey publicKeyStr s =
     (let timestamp = now_of env s;
          s1 = advance s;
          keyId = (if specifiedId \<noteq> [] then specifiedId else ComputeStrMd5 (itoa timestamp @ publicKeyStr));
          keyPair = \<lparr>Id = keyId, CreatedTimestamp = timestamp, ExpiredTimestamp = timestamp + timeout,
            PrivateKey = privateKey, PublicKey = publicKeyStr\<rparr>
      in case storeKey keyId keyPair s1 of
           (Some e, s2) \<Rightarrow> (Inl e, s2)
         | (None, s2) \<Rightarrow> (Inr (key_info keyPair), s2))"

definition GenRsaKey :: "'k crypt_env \<Rightarrow> string \<Rightarrow> int \<Rightarrow> 'k crypt \<Rightarrow> (crypt_error + KeyInfo) \<times> 'k crypt" where
  "GenRsaKey env specifiedId timeout s =
     (let (present, s1) =
            (if specifiedId \<noteq> [] then
               (case loadKey env specifiedId s of (Inr _, s1) \<Rightarrow> (True, s1) | (Inl _, s1) \<Rightarrow> (False, s1))
             else (False, s))
      in if present then (Inl ErrKeyIdDuplicated, s1)
         else case generate_key env (moment s1) of
             Inl e \<Rightarrow> (Inl e, advance s1)
           | Inr privateKey \<Rightarrow>
               (case marshal_public env privateKey of
                  Inl e \<Rightarrow> (Inl e, advance s1)
                | Inr der \<Rightarrow>
                    (case pem_public env der of
                       Inl e \<Rightarrow> (Inl e, advance s1)
                     | Inr publicKeyStr \<Rightarrow>
                         keep_generated env specifiedId timeout privateKey publicKeyStr (advance s1))))"

definition RemoveRsaKey :: "'k crypt_env \<Rightarrow> string \<Rightarrow> 'k crypt \<Rightarrow> crypt_error option \<times> 'k crypt" where
  "RemoveRsaKey env keyId s =
     (case loadKey env keyId s of
        (Inl _, s1) \<Rightarrow> (Some ErrKeyIdNotExist, s1)
      | (Inr _, s1) \<Rightarrow> (None, deleteKey keyId s1))"

definition EncryptWithRsa :: "'k crypt_env \<Rightarrow> string \<Rightarrow> string \<Rightarrow> 'k crypt \<Rightarrow> (crypt_error + string) \<times> 'k crypt" where
  "EncryptWithRsa env keyId rawData s =
     (case loadKey env keyId s of
        (Inl e, s1) \<Rightarrow> (Inl e, s1)
      | (Inr k, s1) \<Rightarrow> (encrypt_oaep env (moment s1) (PrivateKey k) rawData, advance s1))"

definition DecryptWithRsa :: "'k crypt_env \<Rightarrow> string \<Rightarrow> string \<Rightarrow> 'k crypt \<Rightarrow> (crypt_error + string) \<times> 'k crypt" where
  "DecryptWithRsa env keyId encrypted s =
     (case loadKey env keyId s of
        (Inl e, s1) \<Rightarrow> (Inl e, s1)
      | (Inr k, s1) \<Rightarrow> (decrypt_oaep env (PrivateKey k) encrypted, s1))"

definition CheckKey :: "'k crypt_env \<Rightarrow> string \<Rightarrow> 'k crypt \<Rightarrow> (crypt_error + KeyInfo) \<times> 'k crypt" where
  "CheckKey env keyId s =
     (case loadKey env keyId s of (Inl e, s1) \<Rightarrow> (Inl e, s1) | (Inr k, s1) \<Rightarrow> (Inr (key_info k), s1))"

text \<open>
  The list by the time of expiry. \<open>sort.Sort\<close> sorts up to twelve elements by insertion, which keeps
  the order of equal ones; for more it is fixed here the same way.
\<close>

definition CheckKeyList :: "'k crypt_env \<Rightarrow> 'k crypt \<Rightarrow> KeyInfo list \<times> 'k crypt" where
  "CheckKeyList env s =
     (let ks = getKeys env s;
          s1 = advance s;
          now = now_of env s1
      in (sort_key ki_ExpiredTimestamp (map key_info (filter (\<lambda>k. \<not> ExpiredTimestamp k \<le> now) ks)), advance s1))"

section \<open>Secret parameters\<close>

text \<open>\<open>fmt.Sprint\<close> of an integer and a slice of bytes, neither of which is a string.\<close>

definition sprint_bytes :: "int \<Rightarrow> string \<Rightarrow> string" where
  "sprint_bytes i bs =
     itoa i @ '' ['' @ concat (case map (\<lambda>c. itoa (int (byte c))) bs of [] \<Rightarrow> [] | t # ts \<Rightarrow> t # map ((@) '' '') ts) @ '']''"

definition storeParam :: "string \<Rightarrow> secretParam \<Rightarrow> 'k crypt \<Rightarrow> 'k crypt" where
  "storeParam n p s = s\<lparr>secretParams := AList.update n p (secretParams s)\<rparr>"

definition CreateSecretParam :: "'k crypt_env \<Rightarrow> string \<Rightarrow> string \<Rightarrow> int \<Rightarrow> string \<Rightarrow> 'k crypt \<Rightarrow>
  (crypt_error + ParamInfo) \<times> 'k crypt" where
  "CreateSecretParam env keyPairId secretName timeout encrypted s =
     (case DecryptWithRsa env keyPairId encrypted s of
        (Inl e, s1) \<Rightarrow> (Inl e, s1)
      | (Inr decrypted, s1) \<Rightarrow>
          let timestamp = now_of env s1;
              s2 = advance s1;
              n = (if secretName = [] then ComputeStrMd5 (sprint_bytes timestamp decrypted) else secretName)
          in (Inr \<lparr>pi_SecretName = n, pi_CreatedTimestamp = timestamp, pi_ExpiredTimestamp = timestamp + timeout\<rparr>,
              storeParam n \<lparr>SecretName = n, PlainText = decrypted, sp_CreatedTimestamp = timestamp,
                sp_ExpiredTimestamp = timestamp + timeout\<rparr> s2))"

definition deleteParam :: "string \<Rightarrow> 'k crypt \<Rightarrow> 'k crypt" where
  "deleteParam n s = s\<lparr>secretParams := AList.delete n (secretParams s)\<rparr>"

definition loadParam :: "'k crypt_env \<Rightarrow> string \<Rightarrow> 'k crypt \<Rightarrow> (crypt_error + secretParam) \<times> 'k crypt" where
  "loadParam env n s =
     (case map_of (secretParams s) n of
        None \<Rightarrow> (Inl ErrParamNotExist, s)
      | Some param \<Rightarrow>
          if sp_ExpiredTimestamp param < now_of env s then (Inl ErrParamNotExist, deleteParam n (advance s))
          else (Inr param, advance s))"

definition GetSecretParam :: "'k crypt_env \<Rightarrow> string \<Rightarrow> 'k crypt \<Rightarrow> (crypt_error + string) \<times> 'k crypt" where
  "GetSecretParam env secretName s =
     (case loadParam env secretName s of (Inl e, s1) \<Rightarrow> (Inl e, s1) | (Inr p, s1) \<Rightarrow> (Inr (PlainText p), s1))"

definition getParams :: "'k crypt_env \<Rightarrow> 'k crypt \<Rightarrow> secretParam list" where
  "getParams env s = List.map_filter (map_of (secretParams s)) (visit_order env (moment s) (map fst (secretParams s)))"

section \<open>Clearing what is expired\<close>

text \<open>
  The function of the timer looks at all entries first and deletes the expired ones after that, each by
  its name and with an access of its own.
\<close>

definition expired_keys :: "'k crypt_env \<Rightarrow> 'k crypt \<Rightarrow> string list \<times> 'k crypt" where
  "expired_keys env s =
     (let ks = getKeys env s;
          s1 = advance s;
          now = now_of env s1
      in (map Id (filter (\<lambda>k. ExpiredTimestamp k \<le> now) ks), advance s1))"

definition clearExpiredKey :: "'k crypt_env \<Rightarrow> 'k crypt \<Rightarrow> 'k crypt" where
  "clearExpiredKey env s = (let (ids, s1) = expired_keys env s in fold deleteKey ids s1)"

definition expired_params :: "'k crypt_env \<Rightarrow> 'k crypt \<Rightarrow> string list \<times> 'k crypt" where
  "expired_params env s =
     (let ps = getParams env s;
          s1 = advance s;
          now = now_of env s1
      in (map SecretName (filter (\<lambda>p. sp_ExpiredTimestamp p \<le> now) ps), advance s1))"

definition clearExpiredParam :: "'k crypt_env \<Rightarrow> 'k crypt \<Rightarrow> 'k crypt" where
  "clearExpiredParam env s = (let (names, s1) = expired_params env s in fold deleteParam names s1)"

definition clearExpire :: "'k crypt_env \<Rightarrow> 'k crypt \<Rightarrow> 'k crypt" where
  "clearExpire env s = clearExpiredParam env (clearExpiredKey env s)"

section \<open>The procedures of the server\<close>

record RespStatus =
  StatusCode :: int
  ErrMessage :: string

definition newRespStatus :: RespStatus where
  "newRespStatus = \<lparr>StatusCode = 0, ErrMessage = ''OK''\<rparr>"

definition failed_status :: "crypt_error \<Rightarrow> RespStatus" where
  "failed_status e = \<lparr>StatusCode = ErrToCode e, ErrMessage = crypt_text e\<rparr>"

definition no_key_info :: KeyInfo where
  "no_key_info = \<lparr>ki_Id = [], ki_CreatedTimestamp = 0, ki_ExpiredTimestamp = 0, ki_PublicKey = []\<rparr>"

definition no_param_info :: ParamInfo where
  "no_param_info = \<lparr>pi_SecretName = [], pi_CreatedTimestamp = 0, pi_ExpiredTimestamp = 0\<rparr>"

definition GenRsaKeyPair :: "'k crypt_env \<Rightarrow> string \<Rightarrow> int \<Rightarrow> 'k crypt \<Rightarrow> (RespStatus \<times> KeyInfo) \<times> 'k crypt" where
  "GenRsaKeyPair env keyPairId timeout s =
     (case GenRsaKey env keyPairId timeout s of
        (Inl e, s1) \<Rightarrow> ((failed_status e, no_key_info), s1)
      | (Inr keyInfo, s1) \<Rightarrow> ((newRespStatus, keyInfo), s1))"

definition RmRsaKeyPair :: "'k crypt_env \<Rightarrow> string \<Rightarrow> 'k crypt \<Rightarrow> RespStatus \<times> 'k crypt" where
  "RmRsaKeyPair env keyPairId s =
     (case RemoveRsaKey env keyPairId s of
        (Some e, s1) \<Rightarrow> (failed_status e, s1) | (None, s1) \<Rightarrow> (newRespStatus, s1))"

definition EncryptText :: "'k crypt_env \<Rightarrow> string \<Rightarrow> string \<Rightarrow> 'k crypt \<Rightarrow> (RespStatus \<times> string) \<times> 'k crypt" where
  "EncryptText env keyPairId plainText s =
     (case EncryptWithRsa env keyPairId plainText s of
        (Inl e, s1) \<Rightarrow> ((failed_status e, []), s1)
      | (Inr cipherText, s1) \<Rightarrow> ((newRespStatus, base64_encode cipherText), s1))"

definition DecryptText :: "'k crypt_env \<Rightarrow> string \<Rightarrow> string \<Rightarrow> 'k crypt \<Rightarrow> (RespStatus \<times> string) \<times> 'k crypt" where
  "DecryptText env keyPairId cipherText s =
     (case base64_decode cipherText of
        Inl n \<Rightarrow> ((failed_status (OtherError (base64_error n)), []), s)
      | Inr encrypted \<Rightarrow>
          (case DecryptWithRsa env keyPairId encrypted s of
             (Inl e, s1) \<Rightarrow> ((failed_status e, []), s1)
           | (Inr plainText, s1) \<Rightarrow> ((newRespStatus, plainText), s1)))"

definition CheckKey_call :: "'k crypt_env \<Rightarrow> string \<Rightarrow> 'k crypt \<Rightarrow> (RespStatus \<times> KeyInfo list) \<times> 'k crypt" where
  "CheckKey_call env keyPairId s =
     (if keyPairId \<noteq> [] then
        (case CheckKey env keyPairId s of
           (Inl e, s1) \<Rightarrow> ((failed_status e, []), s1)
         | (Inr keyInfo, s1) \<Rightarrow> ((newRespStatus, [keyInfo]), s1))
      else let (keyList, s1) = CheckKeyList env s in ((newRespStatus, keyList), s1))"

definition CreateSecretParam_call :: "'k crypt_env \<Rightarrow> string \<Rightarrow> string \<Rightarrow> string \<Rightarrow> int \<Rightarrow> 'k crypt \<Rightarrow>
  (RespStatus \<times> ParamInfo) \<times> 'k crypt" where
  "CreateSecretParam_call env keyPairId cipherText secretName timeout s =
     (case base64_decode cipherText of
        Inl n \<Rightarrow> ((failed_status (OtherError (base64_error n)), no_param_info), s)
      | Inr encrypted \<Rightarrow>
          (case CreateSecretParam env keyPairId secretName timeout encrypted s of
             (Inl e, s1) \<Rightarrow> ((failed_status e, no_param_info), s1)
           | (Inr paramInfo, s1) \<Rightarrow> ((newRespStatus, paramInfo), s1)))"

section \<open>What was encoded is decoded\<close>

lemma sextet_b64_char: "n < 64 \<Longrightarrow> sextet (b64_char n) = Some n"
proof -
  have "list_all (\<lambda>n. sextet (b64_char n) = Some n) [0..<64]" by code_simp
  then show "n < 64 \<Longrightarrow> sextet (b64_char n) = Some n" by (simp add: list_all_iff)
qed

lemma byte_quotients:
  "byte c div 4 < 64" "byte c div 16 < 16" "byte c div 64 < 4"
  "byte c div 16 div 16 = 0" "byte c div 16 mod 16 = byte c div 16" "byte c div 64 div 4 = 0" "byte c div 64 mod 4 = byte c div 64"
proof -
  show q: "byte c div 4 < 64" "byte c div 16 < 16" "byte c div 64 < 4"
    using byte_less [of c] by (simp_all add: less_mult_imp_div_less)
  show "byte c div 16 div 16 = 0" "byte c div 16 mod 16 = byte c div 16" "byte c div 64 div 4 = 0" "byte c div 64 mod 4 = byte c div 64"
    using q by simp_all
qed

lemma sextets_in_range:
  "byte c mod 4 * 16 + byte d div 16 < 64" "byte c mod 16 * 4 + byte d div 64 < 64" "byte c mod 64 < 64"
  "byte c mod 4 * 16 < 64" "byte c mod 16 * 4 < 64"
proof -
  have "byte c mod 4 \<le> 3" "byte c mod 16 \<le> 15" using mod_less_divisor [of 4 "byte c"] mod_less_divisor [of 16 "byte c"] by linarith+
  then show "byte c mod 4 * 16 + byte d div 16 < 64" "byte c mod 16 * 4 + byte d div 64 < 64"
    "byte c mod 4 * 16 < 64" "byte c mod 16 * 4 < 64"
    using byte_quotients(2,3) [of d] by linarith+
qed simp

lemma char_of_byte [simp]: "char_of (byte c) = c"
  by (simp add: byte_def)

lemma quantum_of_bytes:
  "quantum_bytes [byte a div 4, byte a mod 4 * 16 + byte b div 16, byte b mod 16 * 4 + byte c div 64, byte c mod 64] = [a, b, c]"
  "quantum_bytes [byte a div 4, byte a mod 4 * 16 + byte b div 16, byte b mod 16 * 4] = [a, b]"
  "quantum_bytes [byte a div 4, byte a mod 4 * 16] = [a]"
  by (simp_all add: byte_quotients div_mult_mod_eq)

lemma padding: "sextet CHR ''='' = None" "\<not> newline CHR ''=''"
  by code_simp+

lemma b64_loop_encode: "b64_loop i [] acc (base64_encode s) = Inr (acc @ s)"
  by (induction s arbitrary: i acc rule: base64_encode.induct)
    (simp_all add: sextet_b64_char byte_quotients(1) sextets_in_range quantum_of_bytes padding b64_finish_def del: quantum_bytes.simps)

lemma base64_decode_encode: "base64_decode (base64_encode s) = Inr s"
  by (simp add: base64_decode_def b64_loop_encode)

section \<open>Every interleaving\<close>

text \<open>
  The procedures run in goroutines of their own, beside the function of the timer. A procedure is one
  step; the timer's function is cut where it gives up the map, between the look at all entries and each of
  its deletions.
\<close>

datatype deletion = DeletesKey string | DeletesParam string

fun delete_one :: "deletion \<Rightarrow> 'k crypt \<Rightarrow> 'k crypt" where
  "delete_one (DeletesKey n) s = deleteKey n s"
| "delete_one (DeletesParam n) s = deleteParam n s"

inductive crypt_step :: "'k crypt_env \<Rightarrow> 'k crypt \<times> deletion list \<Rightarrow> 'k crypt \<times> deletion list \<Rightarrow> bool"
  for env :: "'k crypt_env" where
  step_gen: "crypt_step env (s, ds) (snd (GenRsaKeyPair env i t s), ds)"
| step_rm: "crypt_step env (s, ds) (snd (RmRsaKeyPair env i s), ds)"
| step_encrypt: "crypt_step env (s, ds) (snd (EncryptText env i m s), ds)"
| step_decrypt: "crypt_step env (s, ds) (snd (DecryptText env i c s), ds)"
| step_check: "crypt_step env (s, ds) (snd (CheckKey_call env i s), ds)"
| step_secret: "crypt_step env (s, ds) (snd (CreateSecretParam_call env i c n t s), ds)"
| step_read: "crypt_step env (s, ds) (snd (GetSecretParam env n s), ds)"
| step_sweep_keys: "crypt_step env (s, []) (snd (expired_keys env s), map DeletesKey (fst (expired_keys env s)))"
| step_sweep_params: "crypt_step env (s, []) (snd (expired_params env s), map DeletesParam (fst (expired_params env s)))"
| step_delete: "crypt_step env (s, d # ds) (delete_one d s, ds)"

inductive_cases crypt_stepE: "crypt_step env c c'"

text \<open>The whole function of the timer is a run of these steps.\<close>

lemma deletions_run: "(crypt_step env)\<^sup>*\<^sup>* (s, ds) (fold delete_one ds s, [])"
proof (induction ds arbitrary: s)
  case (Cons d ds)
  have "crypt_step env (s, d # ds) (delete_one d s, ds)" by (rule step_delete)
  then show ?case using Cons.IH [of "delete_one d s"] by (simp add: converse_rtranclp_into_rtranclp)
qed simp

lemma fold_delete_keys: "fold delete_one (map DeletesKey ns) s = fold deleteKey ns s"
  and fold_delete_params: "fold delete_one (map DeletesParam ns) s = fold deleteParam ns s"
  by (induction ns arbitrary: s) simp_all

lemma clearExpire_run: "(crypt_step env)\<^sup>*\<^sup>* (s, []) (clearExpire env s, [])"
proof -
  have "(crypt_step env)\<^sup>*\<^sup>* (s, []) (clearExpiredKey env s, [])"
    using deletions_run [of env "snd (expired_keys env s)" "map DeletesKey (fst (expired_keys env s))"]
    by (simp add: clearExpiredKey_def split_beta Let_def fold_delete_keys)
      (meson converse_rtranclp_into_rtranclp step_sweep_keys)
  moreover have "(crypt_step env)\<^sup>*\<^sup>* (s1, []) (clearExpiredParam env s1, [])" for s1
    using deletions_run [of env "snd (expired_params env s1)" "map DeletesParam (fst (expired_params env s1))"]
    by (simp add: clearExpiredParam_def split_beta Let_def fold_delete_params)
      (meson converse_rtranclp_into_rtranclp step_sweep_params)
  ultimately show ?thesis unfolding clearExpire_def by (meson rtranclp_trans)
qed

section \<open>What the tables keep\<close>

definition crypt_inv :: "'k crypt \<Rightarrow> bool" where
  "crypt_inv s \<longleftrightarrow> distinct (map fst (keyPairs s)) \<and> distinct (map fst (secretParams s))
     \<and> (\<forall>i k. map_of (keyPairs s) i = Some k \<longrightarrow> Id k = i)
     \<and> (\<forall>n p. map_of (secretParams s) n = Some p \<longrightarrow> SecretName p = n)"

text \<open>What one step may do to a pair that is stored: nothing, delete it, or replace it once it expired.\<close>

definition keys_kept :: "'k crypt_env \<Rightarrow> 'k crypt \<Rightarrow> 'k crypt \<Rightarrow> bool" where
  "keys_kept env s s' \<longleftrightarrow> (\<forall>i k. map_of (keyPairs s) i = Some k \<longrightarrow>
     map_of (keyPairs s') i = Some k \<or> map_of (keyPairs s') i = None \<or> ExpiredTimestamp k < now_of env s)"

lemma crypt_inv_advance [simp]: "crypt_inv (advance s) = crypt_inv s"
  by (simp add: crypt_inv_def)

lemma map_of_delete_key [simp]: "map_of (AList.delete n al) = (map_of al)(n := None)"
  by (rule delete_conv')

lemma map_of_update_key [simp]: "map_of (AList.update n v al) = (map_of al)(n \<mapsto> v)"
  by (rule update_conv')

lemma crypt_inv_delete [simp]: "crypt_inv s \<Longrightarrow> crypt_inv (deleteKey n s)" "crypt_inv s \<Longrightarrow> crypt_inv (deleteParam n s)"
  by (auto simp: crypt_inv_def deleteKey_def deleteParam_def distinct_delete simp del: map_of_eq_Some_iff split: if_splits)

lemma crypt_inv_store [simp]:
  "crypt_inv s \<Longrightarrow> Id k = n \<Longrightarrow> crypt_inv (snd (storeKey n k s))"
  "crypt_inv s \<Longrightarrow> SecretName p = n \<Longrightarrow> crypt_inv (storeParam n p s)"
  by (auto simp: crypt_inv_def storeKey_def storeParam_def distinct_update simp del: map_of_eq_Some_iff split: option.split if_splits)

lemma keys_kept_refl [simp]: "keys_kept env s s" "keys_kept env s (advance s)"
  by (simp_all add: keys_kept_def)

lemma keys_kept_load: "keys_kept env s (snd (loadKey env n s))"
  and crypt_inv_load: "crypt_inv s \<Longrightarrow> crypt_inv (snd (loadKey env n s))"
  by (auto simp: loadKey_def keys_kept_def split: option.split) (auto simp: deleteKey_def split: if_splits)

lemma loadKey_value:
  "loadKey env n s = (Inr k, s1) \<Longrightarrow> map_of (keyPairs s) n = Some k \<and> now_of env s \<le> ExpiredTimestamp k \<and> s1 = advance s"
  by (auto simp: loadKey_def split: option.splits if_splits)

lemma keys_kept_trans_advance:
  "keys_kept env s s1 \<Longrightarrow> keyPairs s2 = keyPairs s1 \<Longrightarrow> keys_kept env s s2"
  by (simp add: keys_kept_def)

lemma keys_kept_delete: "keys_kept env s s1 \<Longrightarrow> keys_kept env s (deleteKey n s1)"
  by (auto simp: keys_kept_def deleteKey_def)

lemma keys_kept_store:
  "keys_kept env s s1 \<Longrightarrow> (\<And>k. map_of (keyPairs s1) n = None \<Longrightarrow> map_of (keyPairs s) n = Some k \<Longrightarrow>
     ExpiredTimestamp k < now_of env s) \<Longrightarrow> keys_kept env s (snd (storeKey n p s1))"
  by (auto simp: keys_kept_def storeKey_def split: option.split)

lemma loadKey_lost:
  "map_of (keyPairs (snd (loadKey env n s))) m = None \<Longrightarrow> map_of (keyPairs s) m = Some k \<Longrightarrow>
     ExpiredTimestamp k < now_of env s"
  by (auto simp: loadKey_def deleteKey_def split: option.splits if_splits)

lemma keep_generated_stores:
  obtains kp where "snd (keep_generated env i t k p s) = snd (storeKey (Id kp) kp (advance s))"
proof -
  let ?n = "if i \<noteq> [] then i else ComputeStrMd5 (itoa (now_of env s) @ p)"
  let ?kp = "\<lparr>Id = ?n, CreatedTimestamp = now_of env s, ExpiredTimestamp = now_of env s + t, PrivateKey = k, PublicKey = p\<rparr>"
  have "snd (keep_generated env i t k p s) = snd (storeKey (Id ?kp) ?kp (advance s))"
    by (simp add: keep_generated_def Let_def split: prod.split option.split)
  then show ?thesis by (rule that)
qed

lemma keep_generated_kept:
  assumes "s1 = s \<or> s1 = snd (loadKey env n s)"
  shows "keys_kept env s (snd (keep_generated env i t k p (advance s1)))"
proof -
  obtain kp where kp: "snd (keep_generated env i t k p (advance s1)) = snd (storeKey (Id kp) kp (advance (advance s1)))"
    by (rule keep_generated_stores)
  have "keys_kept env s (advance (advance s1))"
    using assms keys_kept_load [of env s n] keys_kept_refl(1) [of env s] by (auto simp: keys_kept_def)
  then show ?thesis unfolding kp
  proof (rule keys_kept_store)
    fix k' assume "map_of (keyPairs (advance (advance s1))) (Id kp) = None" "map_of (keyPairs s) (Id kp) = Some k'"
    then show "ExpiredTimestamp k' < now_of env s" using assms loadKey_lost [of env n s "Id kp"] by auto
  qed
qed

lemma GenRsaKey_state:
  obtains s1 where "s1 = s \<or> s1 = snd (loadKey env i s)"
    "snd (GenRsaKey env i t s) = s1 \<or> snd (GenRsaKey env i t s) = advance s1
      \<or> (\<exists>k p. snd (GenRsaKey env i t s) = snd (keep_generated env i t k p (advance s1)))"
proof -
  let ?s1 = "if i \<noteq> [] then snd (loadKey env i s) else s"
  have "snd (GenRsaKey env i t s) = ?s1 \<or> snd (GenRsaKey env i t s) = advance ?s1
      \<or> (\<exists>k p. snd (GenRsaKey env i t s) = snd (keep_generated env i t k p (advance ?s1)))"
    by (cases "loadKey env i s") (auto simp: GenRsaKey_def Let_def split: sum.split)
  moreover have "?s1 = s \<or> ?s1 = snd (loadKey env i s)" by simp
  ultimately show ?thesis using that by blast
qed

lemma GenRsaKey_kept: "keys_kept env s (snd (GenRsaKey env i t s))"
  and GenRsaKey_inv: "crypt_inv s \<Longrightarrow> crypt_inv (snd (GenRsaKey env i t s))"
proof -
  obtain s1 where s1: "s1 = s \<or> s1 = snd (loadKey env i s)"
    and r: "snd (GenRsaKey env i t s) = s1 \<or> snd (GenRsaKey env i t s) = advance s1
      \<or> (\<exists>k p. snd (GenRsaKey env i t s) = snd (keep_generated env i t k p (advance s1)))"
    by (rule GenRsaKey_state)
  have "keys_kept env s s1" using s1 keys_kept_load by auto
  moreover from this have "keys_kept env s (advance s1)" by (simp add: keys_kept_def)
  ultimately show "keys_kept env s (snd (GenRsaKey env i t s))" using r keep_generated_kept [OF s1] by metis
  show "crypt_inv (snd (GenRsaKey env i t s))" if "crypt_inv s"
  proof -
    have "crypt_inv s1" using s1 crypt_inv_load that by auto
    then show ?thesis using r crypt_inv_store(1) keep_generated_stores crypt_inv_advance by metis
  qed
qed

lemma loaded_state: "loadKey env n s = (r, s1) \<Longrightarrow> keys_kept env s s1 \<and> (crypt_inv s \<longrightarrow> crypt_inv s1)"
  using keys_kept_load [of env s n] crypt_inv_load [of s env n] by auto

lemma DecryptWithRsa_state:
  "snd (DecryptWithRsa env i c s) = snd (loadKey env i s)"
  by (simp add: DecryptWithRsa_def split: prod.split sum.split)

lemma RmRsaKeyPair_state:
  "snd (RmRsaKeyPair env i s) = snd (loadKey env i s) \<or> snd (RmRsaKeyPair env i s) = deleteKey i (snd (loadKey env i s))"
  by (simp add: RmRsaKeyPair_def RemoveRsaKey_def split: prod.split sum.split)

lemma EncryptText_state:
  "snd (EncryptText env i m s) = snd (loadKey env i s) \<or> snd (EncryptText env i m s) = advance (snd (loadKey env i s))"
  by (simp add: EncryptText_def EncryptWithRsa_def split: prod.split sum.split)

lemma DecryptText_state:
  "snd (DecryptText env i c s) = s \<or> snd (DecryptText env i c s) = snd (loadKey env i s)"
  by (auto simp: DecryptText_def DecryptWithRsa_def split: prod.split sum.split)

lemma CheckKey_call_state:
  "snd (CheckKey_call env i s) = snd (loadKey env i s) \<or> snd (CheckKey_call env i s) = advance (advance s)"
  by (auto simp: CheckKey_call_def CheckKey_def CheckKeyList_def Let_def split: prod.split sum.split)

lemma CreateSecretParam_state:
  "snd (CreateSecretParam env i n t c s) = snd (loadKey env i s)
   \<or> (\<exists>p. snd (CreateSecretParam env i n t c s) = storeParam (SecretName p) p (advance (snd (loadKey env i s))))"
proof -
  obtain r s1 where d: "DecryptWithRsa env i c s = (r, s1)" by fastforce
  with DecryptWithRsa_state [of env i c s] have s1: "s1 = snd (loadKey env i s)" by simp
  show ?thesis
  proof (cases r)
    case (Inr m)
    define nm where "nm = (if n = [] then ComputeStrMd5 (sprint_bytes (now_of env s1) m) else n)"
    define q where "q = \<lparr>SecretName = nm, PlainText = m, sp_CreatedTimestamp = now_of env s1, sp_ExpiredTimestamp = now_of env s1 + t\<rparr>"
    have "snd (CreateSecretParam env i n t c s) = storeParam (SecretName q) q (advance s1)"
      by (simp add: CreateSecretParam_def d Inr q_def nm_def Let_def)
    then show ?thesis using s1 by blast
  qed (simp add: CreateSecretParam_def d s1)
qed

lemma CreateSecretParam_call_state:
  "snd (CreateSecretParam_call env i c n t s) = s \<or> snd (CreateSecretParam_call env i c n t s) = snd (loadKey env i s)
   \<or> (\<exists>p. snd (CreateSecretParam_call env i c n t s) = storeParam (SecretName p) p (advance (snd (loadKey env i s))))"
proof (cases "base64_decode c")
  case (Inr b)
  have "snd (CreateSecretParam_call env i c n t s) = snd (CreateSecretParam env i n t b s)"
    by (simp add: CreateSecretParam_call_def Inr split: prod.split sum.split)
  then show ?thesis using CreateSecretParam_state [of env i n t b s] by simp
qed (simp add: CreateSecretParam_call_def)

lemma GetSecretParam_state:
  "snd (GetSecretParam env n s) \<in> {s, advance s, deleteParam n (advance s)}"
  by (auto simp: GetSecretParam_def loadParam_def split: prod.split sum.split option.split)

lemma param_changes [simp]:
  "keys_kept env s (storeParam n p s1) = keys_kept env s s1" "keys_kept env s (deleteParam n s1) = keys_kept env s s1"
  "keys_kept env s (advance s1) = keys_kept env s s1"
  by (simp_all add: keys_kept_def storeParam_def deleteParam_def)

lemma delete_one_state: "crypt_inv s \<Longrightarrow> crypt_inv (delete_one d s)" "keys_kept env s (delete_one d s)"
  by (cases d; simp add: keys_kept_delete)+

lemma expired_state: "snd (expired_keys env s) = advance (advance s)" "snd (expired_params env s) = advance (advance s)"
  by (simp_all add: expired_keys_def expired_params_def Let_def)

text \<open>Every step keeps the invariant, and no pair is replaced before it expired.\<close>

lemma crypt_step_keeps:
  assumes "crypt_step env c c'"
  shows "keys_kept env (fst c) (fst c') \<and> (crypt_inv (fst c) \<longrightarrow> crypt_inv (fst c'))"
  using assms
proof (induction rule: crypt_step.induct)
  case (step_gen s ds i t)
  then show ?case using GenRsaKey_kept [of env s i t] GenRsaKey_inv [of s env i t]
    by (auto simp: GenRsaKeyPair_def split: prod.split sum.split)
next
  case (step_rm s ds i)
  then show ?case using RmRsaKeyPair_state [of env i s] keys_kept_load [of env s i] crypt_inv_load [of s env i]
    by (auto simp: keys_kept_delete)
next
  case (step_encrypt s ds i m)
  then show ?case using EncryptText_state [of env i m s] keys_kept_load [of env s i] crypt_inv_load [of s env i] by auto
next
  case (step_decrypt s ds i c)
  then show ?case using DecryptText_state [of env i c s] keys_kept_load [of env s i] crypt_inv_load [of s env i] by auto
next
  case (step_check s ds i)
  then show ?case using CheckKey_call_state [of env i s] keys_kept_load [of env s i] crypt_inv_load [of s env i] by auto
next
  case (step_secret s ds i c n t)
  then show ?case
    using CreateSecretParam_call_state [of env i c n t s] keys_kept_load [of env s i] crypt_inv_load [of s env i] by auto
next
  case (step_read s ds n)
  then show ?case using GetSecretParam_state [of env n s] by auto
qed (simp_all add: expired_state delete_one_state)

lemma crypt_reachable_inv:
  assumes "(crypt_step env)\<^sup>*\<^sup>* c c'" "crypt_inv (fst c)"
  shows "crypt_inv (fst c')"
  using assms by (induction rule: rtranclp_induct) (auto dest: crypt_step_keeps)

section \<open>Properties\<close>

definition demo_crypt :: "nat crypt_env" where
  "demo_crypt = \<lparr>unix_time = (\<lambda>n. if n < 2 then 100 else 101), generate_key = Inr,
     marshal_public = (\<lambda>k. Inr (itoa (int k))), pem_public = Inr,
     encrypt_oaep = (\<lambda>n k m. Inr (char_of k # m)),
     decrypt_oaep = (\<lambda>k c. case c of [] \<Rightarrow> Inl (OtherError ''decryption error'')
       | x # m \<Rightarrow> if x = char_of k then Inr m else Inl (OtherError ''decryption error'')),
     visit_order = (\<lambda>n ks. ks)\<rparr>"

definition demo_tables :: "int \<Rightarrow> nat crypt" where
  "demo_tables e = \<lparr>keyPairs = [(''a'', \<lparr>Id = ''a'', CreatedTimestamp = 90, ExpiredTimestamp = e, PrivateKey = 7, PublicKey = ''p''\<rparr>)],
     secretParams = [], moment = 0\<rparr>"

text \<open>C30. 
  A pair is used only under its own identifier and until it expires: in every state that the procedures and
  the timer can reach, in any order, a text that is decrypted was decrypted with the pair of that
  identifier whose time was not over; and no step gives an identifier another pair before its own expired.
\<close>

theorem keys_are_their_own:
  assumes start: "crypt_inv s0"
    and run: "(crypt_step env)\<^sup>*\<^sup>* (s0, []) (s, ds)"
  shows "(\<forall>i c m. fst (DecryptWithRsa env i c s) = Inr m \<longrightarrow>
            (\<exists>k. map_of (keyPairs s) i = Some k \<and> Id k = i \<and> now_of env s \<le> ExpiredTimestamp k
               \<and> decrypt_oaep env (PrivateKey k) c = Inr m))
    \<and> (\<forall>s' ds'. crypt_step env (s, ds) (s', ds') \<longrightarrow> keys_kept env s s')"
proof -
  have inv: "crypt_inv s" using crypt_reachable_inv [OF run] start by simp
  have "\<exists>k. map_of (keyPairs s) i = Some k \<and> Id k = i \<and> now_of env s \<le> ExpiredTimestamp k
      \<and> decrypt_oaep env (PrivateKey k) c = Inr m" if m: "fst (DecryptWithRsa env i c s) = Inr m" for i c m
  proof -
    obtain k s1 where k: "loadKey env i s = (Inr k, s1)" "decrypt_oaep env (PrivateKey k) c = Inr m"
      using m by (auto simp: DecryptWithRsa_def split: prod.splits sum.splits)
    with inv loadKey_value [OF k(1)] show ?thesis by (auto simp: crypt_inv_def simp del: map_of_eq_Some_iff)
  qed
  then show ?thesis using crypt_step_keeps [of env "(s, ds)"] by auto
qed

theorem keys_are_their_own_witness:
  "(crypt_step demo_crypt)\<^sup>*\<^sup>* (demo_tables 200, []) (demo_tables 200, [])
   \<and> fst (DecryptWithRsa demo_crypt ''a'' (char_of (7::nat) # ''hi'') (demo_tables 200)) = Inr ''hi''
   \<and> (\<exists>k. map_of (keyPairs (demo_tables 200)) ''a'' = Some k \<and> Id k = ''a'' \<and> now_of demo_crypt (demo_tables 200) \<le> ExpiredTimestamp k)"
proof -
  have i: "crypt_inv (demo_tables 200)" by (auto simp: crypt_inv_def demo_tables_def split: if_splits)
  have d: "fst (DecryptWithRsa demo_crypt ''a'' (char_of (7::nat) # ''hi'') (demo_tables 200)) = Inr ''hi''" by code_simp
  show ?thesis using keys_are_their_own [OF i rtranclp.rtrancl_refl] d by blast
qed

lemma decrypts_loaded:
  assumes "map_of (keyPairs s) i = Some k" "now_of env s \<le> ExpiredTimestamp k"
  shows "loadKey env i s = (Inr k, advance s)"
  using assms by (simp add: loadKey_def)

text \<open>C36. 
  What was encrypted under a key reads back, and so does a secret parameter made of it: while the pair is
  stored and not expired, \<open>DecryptText\<close> answers the text, and a parameter created with the ciphertext is
  read as the text until it expires itself.
\<close>

theorem secrets_read_back:
  assumes rsa: "\<And>n k m c. encrypt_oaep env n k m = Inr c \<Longrightarrow> decrypt_oaep env k c = Inr m"
    and key: "map_of (keyPairs s) i = Some k"
    and sent: "fst (EncryptText env i m s) = (st, cipher)" "StatusCode st = 0"
    and later: "map_of (keyPairs s') i = Some k" "now_of env s' \<le> ExpiredTimestamp k"
    and read_at: "unix_time env (moment s' + 2) \<le> unix_time env (moment s' + 1) + t" and named: "n \<noteq> []"
  shows "fst (DecryptText env i cipher s') = (newRespStatus, m)
    \<and> fst (GetSecretParam env n (snd (CreateSecretParam_call env i cipher n t s'))) = Inr m"
proof -
  obtain k' s1 c where l: "loadKey env i s = (Inr k', s1)" and c: "encrypt_oaep env (moment s1) (PrivateKey k') m = Inr c"
    "cipher = base64_encode c"
    using sent by (auto simp: EncryptText_def EncryptWithRsa_def failed_status_def newRespStatus_def
      split: prod.splits sum.splits elim!: ErrToCode.elims)
  have "k' = k" using loadKey_value [OF l] key by simp
  with c rsa have d: "decrypt_oaep env (PrivateKey k) c = Inr m" by blast
  have w: "DecryptWithRsa env i c s' = (Inr m, advance s')"
    using decrypts_loaded [OF later] d by (simp add: DecryptWithRsa_def)
  have "fst (DecryptText env i cipher s') = (newRespStatus, m)"
    by (simp add: DecryptText_def c(2) base64_decode_encode w)
  moreover have "fst (GetSecretParam env n (snd (CreateSecretParam_call env i cipher n t s'))) = Inr m"
    using read_at named
    by (simp add: CreateSecretParam_call_def CreateSecretParam_def c(2) base64_decode_encode w Let_def
      GetSecretParam_def loadParam_def storeParam_def now_of_def)
  ultimately show ?thesis ..
qed

theorem secrets_read_back_witness:
  "fst (DecryptText demo_crypt ''a'' (snd (fst (EncryptText demo_crypt ''a'' ''hi'' (demo_tables 200)))) (demo_tables 200))
     = (newRespStatus, ''hi'')"
proof -
  have rsa: "decrypt_oaep demo_crypt k c = Inr m" if "encrypt_oaep demo_crypt n k m = Inr c" for n k m c
    using that by (auto simp: demo_crypt_def)
  have key: "map_of (keyPairs (demo_tables 200)) ''a''
      = Some \<lparr>Id = ''a'', CreatedTimestamp = 90, ExpiredTimestamp = 200, PrivateKey = 7, PublicKey = ''p''\<rparr>"
    by (simp add: demo_tables_def)
  have st: "StatusCode (fst (fst (EncryptText demo_crypt ''a'' ''hi'' (demo_tables 200)))) = 0" by code_simp
  show ?thesis
    using secrets_read_back [OF rsa key prod.collapse [symmetric] st key, where t = 10 and n = "''s''"]
    by (simp add: demo_crypt_def demo_tables_def now_of_def)
qed

text \<open>
  The sweep of the timer may delete a fresh pair: it notes the name of an expired pair, another goroutine
  finds the pair expired and stores a new one under the same name, and the sweep deletes that one. The
  caller was told a pair that does not exist any more, long before its own expiry.
\<close>

theorem sweep_deletes_fresh_key:
  assumes old: "map_of (keyPairs s) i = Some k" "i \<noteq> []"
    and swept: "fst (expired_keys env s) = [i]"
    and over: "ExpiredTimestamp k < unix_time env (moment s + 2)"
    and generated: "generate_key env (moment s + 3) = Inr key" "marshal_public env key = Inr der" "pem_public env der = Inr pem"
  shows "\<exists>s1 s2 s3 s4 info.
      crypt_step env (s, []) (s1, [DeletesKey i]) \<and> GenRsaKeyPair env i t s1 = ((newRespStatus, info), s2)
    \<and> crypt_step env (s1, [DeletesKey i]) (s2, [DeletesKey i]) \<and> ki_Id info = i
    \<and> ki_ExpiredTimestamp info = unix_time env (moment s + 4) + t
    \<and> crypt_step env (s2, [DeletesKey i]) (s3, []) \<and> CheckKey_call env i s3 = ((failed_status ErrKeyIdNotExist, []), s4)"
proof -
  let ?s1 = "advance (advance s)"
  have 1: "crypt_step env (s, []) (?s1, [DeletesKey i])"
    using step_sweep_keys [of env s] swept by (simp add: expired_state)
  obtain info s2 where g: "GenRsaKeyPair env i t ?s1 = ((newRespStatus, info), s2)"
    "ki_Id info = i" "ki_ExpiredTimestamp info = unix_time env (moment s + 4) + t"
    using old over generated
    by (simp add: GenRsaKeyPair_def GenRsaKey_def loadKey_def now_of_def deleteKey_def keep_generated_def
      storeKey_def key_info_def Let_def add.commute numeral_eq_Suc)
  have 2: "crypt_step env (?s1, [DeletesKey i]) (s2, [DeletesKey i])"
    using step_gen [of env ?s1 "[DeletesKey i]" i t] g(1) by simp
  have 3: "crypt_step env (s2, [DeletesKey i]) (deleteKey i s2, [])"
    using step_delete [of env s2 "DeletesKey i" "[]"] by simp
  have "CheckKey_call env i (deleteKey i s2) = ((failed_status ErrKeyIdNotExist, []), deleteKey i s2)"
    using old(2) by (simp add: CheckKey_call_def CheckKey_def loadKey_def deleteKey_def)
  with 1 2 3 g show ?thesis by blast
qed

theorem sweep_deletes_fresh_key_witness:
  "\<exists>s1 s2 s3 s4 info.
      crypt_step demo_crypt (demo_tables 100, []) (s1, [DeletesKey ''a''])
    \<and> GenRsaKeyPair demo_crypt ''a'' 3600 s1 = ((newRespStatus, info), s2)
    \<and> crypt_step demo_crypt (s1, [DeletesKey ''a'']) (s2, [DeletesKey ''a'']) \<and> ki_Id info = ''a''
    \<and> ki_ExpiredTimestamp info = 101 + 3600
    \<and> crypt_step demo_crypt (s2, [DeletesKey ''a'']) (s3, [])
    \<and> CheckKey_call demo_crypt ''a'' s3 = ((failed_status ErrKeyIdNotExist, []), s4)"
proof -
  let ?k = "\<lparr>Id = ''a'', CreatedTimestamp = 90, ExpiredTimestamp = 100, PrivateKey = 7, PublicKey = ''p''\<rparr>"
  have k: "map_of (keyPairs (demo_tables 100)) ''a'' = Some ?k" by (simp add: demo_tables_def)
  have e: "fst (expired_keys demo_crypt (demo_tables 100)) = [''a'']" by code_simp
  have t: "ExpiredTimestamp ?k < unix_time demo_crypt (moment (demo_tables 100) + 2)" by code_simp
  have g: "generate_key demo_crypt (moment (demo_tables 100) + 3) = Inr 3" "marshal_public demo_crypt 3 = Inr ''3''"
    "pem_public demo_crypt ''3'' = Inr ''3''" by code_simp+
  have x: "unix_time demo_crypt (moment (demo_tables 100) + 4) = 101" by code_simp
  have n: "''a'' \<noteq> []" by simp
  show ?thesis by (rule sweep_deletes_fresh_key [OF k n e t g, of 3600, unfolded x])
qed

end
