(* ===== verification/Api_Server.thy ===== *)
theory Api_Server
  imports Agent_Paths Md5 Text_Replace "HOL-Library.State_Monad" "HOL-Library.Monad_Syntax"
begin

text \<open>
  Where the server is, and how it is spoken to: \<open>common/requester\<close> asks a list of providers in order for
  the domain of the server, the region, the root certificates and the headers of a request, and keeps what
  they answer; \<open>common/apiserver\<close> has the providers, an external program (\<open>fromexe.go\<close>), the data of a
  registered machine (\<open>hybrid.go\<close>), and the general one that detects the region (\<open>general.go\<close>);
  \<open>agent/util/hostfinder.go\<close> keeps the answers again. The locks of both packages make each operation
  one step, so that operations are programs of \<open>State_Monad\<close> over the variables of the packages.
\<close>

section \<open>The outside and the variables\<close>

record provision =
  SchemaVersion :: string
  CACertificate :: string
  ServerDomain :: string
  ExtraHTTPHeaders :: "(string \<times> string) list"
  RegionId :: string

text \<open>
  The machine and what the providers read of it: environment variables, files, the external program with
  its standard output, JSON, certificates of the system, a random identifier, the clock in milliseconds,
  the first external address, and the signature with a private key.
\<close>

record site = machine +
  st_getenv :: "string \<Rightarrow> string"
  st_read :: "nat \<Rightarrow> string \<Rightarrow> go_error + string"
  st_cwd :: string
  st_run_provider :: "nat \<Rightarrow> string \<Rightarrow> string \<times> go_error option"
  st_parse :: "string \<Rightarrow> provision option"
  st_system_pool :: "nat \<Rightarrow> bool"
  st_uuid :: "nat \<Rightarrow> string"
  st_accurate_time :: "nat \<Rightarrow> int"
  st_external_ip :: "nat \<Rightarrow> string option"
  st_sign :: "string \<Rightarrow> string \<Rightarrow> string option"

datatype provider = EnvironmentVariableProvider | ExternalExecutableProvider | HybridModeProvider | GeneralProvider

text \<open>A pool of certificates: those of the system or none, with the text that was appended.\<close>

datatype ca_pool = CaPool (of_system: bool) (appended: string)

record net =
  nw :: world
  executablePath :: "string option"
  pemCerts :: "string option"
  serverDomain :: "string option"
  extraHTTPheaders :: "(string \<times> string) list option"
  ext_regionId :: "string option"
  gen_regionId :: string
  instanceIdHeaders :: "(string \<times> string) list option"
  selectedProvider :: "provider option"
  regionIdCache :: string
  rootCAs :: "ca_pool option"
  rootCAsInited :: bool
  transportCAs :: "ca_pool option option"
  networkCategory :: string
  saves :: "string list"
  g_domainId :: string
  g_azoneId :: string
  g_instanceId :: string

definition reads :: "(net \<Rightarrow> 'a) \<Rightarrow> (net, 'a) state" where
  "reads f = State (\<lambda>s. (f s, s))"

definition writes :: "(net \<Rightarrow> net) \<Rightarrow> (net, unit) state" where
  "writes f = State (\<lambda>s. ((), f s))"

definition on_world :: "(world \<Rightarrow> 'a \<times> world) \<Rightarrow> (net, 'a) state" where
  "on_world f = State (\<lambda>s. let (x, w) = f (nw s) in (x, s\<lparr>nw := w\<rparr>))"

abbreviation ret_state :: "'a \<Rightarrow> (net, 'a) state" where
  "ret_state \<equiv> State_Monad.return"

definition ErrNotProvided :: go_error where
  "ErrNotProvided = PlainError ''not provided''"

definition read_file :: "site \<Rightarrow> string \<Rightarrow> (net, go_error + string) state" where
  "read_file st path = on_world (ask (\<lambda>n. st_read st n path))"

text \<open>The text of a small file: \<open>strings.TrimSpace\<close> after \<open>strings.Trim\<close> of line ends and tabs.\<close>

definition trimmed :: "string \<Rightarrow> string" where
  "trimmed raw = trim_space (trim_with (\<lambda>c. c = CR \<or> c = CHR 0x09 \<or> c = LF) raw)"

definition SetNetworkCategory :: "string \<Rightarrow> (net, unit) state" where
  "SetNetworkCategory c = writes (\<lambda>s. s\<lparr>networkCategory := c\<rparr>)"

definition GetNetworkCategory :: "net \<Rightarrow> string" where
  "GetNetworkCategory s = (if networkCategory s = [] then ''unknown'' else networkCategory s)"

section \<open>The external program\<close>

text \<open>
  \<open>unsafeProvision\<close>: the program is looked for once a path is not known to be empty; its output sets
  all four answers or, when anything is wrong with it, none.
\<close>

definition candidateExternalExecutableProviderNames :: "string list" where
  "candidateExternalExecutableProviderNames = [''apiserver-provider'']"

fun find_candidate :: "site \<Rightarrow> string \<Rightarrow> string list \<Rightarrow> (net, unit) state" where
  "find_candidate st dir [] = ret_state ()"
| "find_candidate st dir (n # ns) =
     do {
       present \<leftarrow> on_world (CheckFileIsExist (machine.truncate st) (path_join [dir, n]));
       if present then writes (\<lambda>s. s\<lparr>executablePath := Some (path_join [dir, n])\<rparr>) else find_candidate st dir ns
     }"

definition take_provision :: "provision \<Rightarrow> net \<Rightarrow> net" where
  "take_provision p s = s\<lparr>pemCerts := Some (CACertificate p), serverDomain := Some (ServerDomain p),
     extraHTTPheaders := Some (ExtraHTTPHeaders p), ext_regionId := Some (RegionId p)\<rparr>"

definition run_provider :: "site \<Rightarrow> string \<Rightarrow> (net, unit) state" where
  "run_provider st path =
     do {
       r \<leftarrow> on_world (ask (\<lambda>n. st_run_provider st n path));
       case r of
         (stdout, Some e) \<Rightarrow> ret_state ()
       | (stdout, None) \<Rightarrow>
           (case st_parse st stdout of
              None \<Rightarrow> ret_state ()
            | Some p \<Rightarrow> if SchemaVersion p \<noteq> ''1.0'' then ret_state () else writes (take_provision p))
     }"

definition unsafeProvision :: "site \<Rightarrow> (net, unit) state" where
  "unsafeProvision st =
     do {
       d \<leftarrow> on_world (GetCrossVersionConfigPath (machine.truncate st) (st_cwd st));
       case d of
         Inl e \<Rightarrow> ret_state ()
       | Inr dir \<Rightarrow>
           do {
             find_candidate st dir candidateExternalExecutableProviderNames;
             path \<leftarrow> reads executablePath;
             case path of
               None \<Rightarrow> writes (\<lambda>s. s\<lparr>executablePath := Some []\<rparr>)
             | Some p \<Rightarrow> run_provider st p
           }
     }"

definition provisioned :: "(net \<Rightarrow> 'a option) \<Rightarrow> net \<Rightarrow> go_error + 'a" where
  "provisioned f s =
     (case executablePath s of
        None \<Rightarrow> Inl ErrNotProvided
      | Some p \<Rightarrow> if p = [] then Inl ErrNotProvided else (case f s of None \<Rightarrow> Inl ErrNotProvided | Some x \<Rightarrow> Inr x))"

definition from_program :: "site \<Rightarrow> (net \<Rightarrow> 'a option) \<Rightarrow> (net, go_error + 'a) state" where
  "from_program st f =
     do {
       path \<leftarrow> reads executablePath;
       (if path = None then unsafeProvision st else ret_state ());
       reads (provisioned f)
     }"

definition external_CACertificate :: "site \<Rightarrow> bool \<Rightarrow> (net, go_error + string) state" where
  "external_CACertificate st refresh =
     (if refresh then do { unsafeProvision st; reads (provisioned pemCerts) } else from_program st pemCerts)"

definition external_ServerDomain :: "site \<Rightarrow> (net, go_error + string) state" where
  "external_ServerDomain st = from_program st serverDomain"

definition external_ExtraHTTPHeaders :: "site \<Rightarrow> (net, go_error + (string \<times> string) list) state" where
  "external_ExtraHTTPHeaders st = from_program st extraHTTPheaders"

definition external_RegionId :: "site \<Rightarrow> (net, go_error + string) state" where
  "external_RegionId st = from_program st ext_regionId"

section \<open>Root certificates and the transport\<close>

definition env_CACertificate :: "site \<Rightarrow> (net, go_error + string) state" where
  "env_CACertificate st =
     (let certPath = st_getenv st ''ALIYUN_ASSIST_CERT_PATH'' in
      if certPath = [] then ret_state (Inl ErrNotProvided) else read_file st certPath)"

definition general_CACertificate :: "site \<Rightarrow> (net, go_error + string) state" where
  "general_CACertificate st =
     do {
       d \<leftarrow> on_world (GetCurrentPath (machine.truncate st));
       case d of
         Inl e \<Rightarrow> ret_state (Inl e)
       | Inr dir \<Rightarrow> read_file st (path_join [dir, ''config'', ''GlobalSignRootCA.crt''])
     }"

fun provider_CACertificate :: "site \<Rightarrow> bool \<Rightarrow> provider \<Rightarrow> (net, go_error + string) state" where
  "provider_CACertificate st refresh EnvironmentVariableProvider = env_CACertificate st"
| "provider_CACertificate st refresh ExternalExecutableProvider = external_CACertificate st refresh"
| "provider_CACertificate st refresh HybridModeProvider = ret_state (Inl ErrNotProvided)"
| "provider_CACertificate st refresh GeneralProvider = general_CACertificate st"

definition defaultRootCAProviders :: "provider list" where
  "defaultRootCAProviders = [EnvironmentVariableProvider, ExternalExecutableProvider, GeneralProvider]"

fun first_certificate :: "site \<Rightarrow> bool \<Rightarrow> provider list \<Rightarrow> (net, string option) state" where
  "first_certificate st refresh [] = ret_state None"
| "first_certificate st refresh (p # ps) =
     do {
       r \<leftarrow> provider_CACertificate st refresh p;
       case r of Inl e \<Rightarrow> first_certificate st refresh ps | Inr c \<Rightarrow> ret_state (Some c)
     }"

definition PeekRefreshedRootCAs :: "site \<Rightarrow> bool \<Rightarrow> (net, ca_pool option) state" where
  "PeekRefreshedRootCAs st refresh =
     do {
       c \<leftarrow> first_certificate st refresh defaultRootCAProviders;
       case c of
         None \<Rightarrow> ret_state None
       | Some pem \<Rightarrow> do { system \<leftarrow> on_world (ask (st_system_pool st)); ret_state (Some (CaPool system pem)) }
     }"

definition GetRootCAs :: "site \<Rightarrow> (net, ca_pool option) state" where
  "GetRootCAs st =
     do {
       known \<leftarrow> reads rootCAsInited;
       if known then reads rootCAs
       else do {
         pool \<leftarrow> PeekRefreshedRootCAs st False;
         writes (\<lambda>s. s\<lparr>rootCAs := pool, rootCAsInited := True\<rparr>);
         ret_state pool
       }
     }"

definition GetHTTPTransport :: "site \<Rightarrow> (net, unit) state" where
  "GetHTTPTransport st =
     do {
       t \<leftarrow> reads transportCAs;
       if t \<noteq> None then ret_state ()
       else do { pool \<leftarrow> GetRootCAs st; writes (\<lambda>s. s\<lparr>transportCAs := Some pool\<rparr>) }
     }"

definition RefreshHTTPCas :: "ca_pool option \<Rightarrow> (net, unit) state" where
  "RefreshHTTPCas certPool = writes (\<lambda>s. s\<lparr>transportCAs := Some certPool, rootCAs := certPool\<rparr>)"

text \<open>A request of the providers; after a certificate error it is repeated with the certificates of now.\<close>

definition httpGetWithoutExtraHeader :: "site \<Rightarrow> env \<Rightarrow> string \<Rightarrow> (net, string \<times> go_error option) state" where
  "httpGetWithoutExtraHeader st env url =
     do {
       GetHTTPTransport st;
       r \<leftarrow> on_world (send_request env ''GET'' url []);
       case r of
         Reply status content \<Rightarrow> ret_state (http_result status content)
       | Failure e \<Rightarrow> ret_state ([], Some e)
       | UnknownAuthority e \<Rightarrow>
           do {
             pool \<leftarrow> PeekRefreshedRootCAs st True;
             r2 \<leftarrow> on_world (send_request env ''GET'' url []);
             case r2 of
               Reply status content \<Rightarrow> do { RefreshHTTPCas pool; ret_state (http_result status content) }
             | Failure e2 \<Rightarrow> ret_state ([], Some e2)
             | UnknownAuthority e2 \<Rightarrow> ret_state ([], Some e2)
           }
     }"

definition errUnknownDetectionResponse :: go_error where
  "errUnknownDetectionResponse = PlainError ''Unknown connection detection response''"

definition connectionDetect :: "site \<Rightarrow> env \<Rightarrow> string \<Rightarrow> (net, go_error option) state" where
  "connectionDetect st env domain =
     do {
       r \<leftarrow> httpGetWithoutExtraHeader st env (''https://'' @ domain @ ''/luban/api/connection_detect'');
       ret_state (if snd r \<noteq> None then snd r else if fst r = ''ok'' then None else Some errUnknownDetectionResponse)
     }"

section \<open>The general provider\<close>

text \<open>The error of the request for the region is dropped, its content is used.\<close>

definition IntranetDomain :: string where "IntranetDomain = ''.axt.aliyun.com''"

definition InternetDomain :: string where "InternetDomain = ''.axt.aliyuncs.com''"

definition wellKnownRegionIds :: "string list" where
  "wellKnownRegionIds = [''cn-hangzhou'', ''cn-qingdao'', ''cn-beijing'', ''cn-zhangjiakou'', ''cn-huhehaote'',
     ''cn-shanghai'', ''cn-shenzhen'', ''cn-hongkong'', ''eu-west-1'']"

definition region_file :: "site \<Rightarrow> (net, string) state" where
  "region_file st =
     do {
       d \<leftarrow> on_world (GetCurrentPath (machine.truncate st));
       ret_state (path_join [path_dir (case d of Inl e \<Rightarrow> [] | Inr dir \<Rightarrow> dir), ''region-id''])
     }"

definition getRegionIdInFile :: "site \<Rightarrow> (net, string) state" where
  "getRegionIdInFile st =
     do {
       path \<leftarrow> region_file st;
       r \<leftarrow> read_file st path;
       ret_state (case r of Inl e \<Rightarrow> [] | Inr raw \<Rightarrow> trimmed raw)
     }"

definition saveRegionIdToFile :: "site \<Rightarrow> string \<Rightarrow> (net, unit) state" where
  "saveRegionIdToFile st regionId =
     do {
       path \<leftarrow> region_file st;
       on_world (WriteStringToFile (machine.truncate st) path regionId);
       ret_state ()
     }"

text \<open>\<open>saves\<close> are the goroutines that will write the region to its file.\<close>

definition accept_region :: "string \<Rightarrow> string \<Rightarrow> bool \<Rightarrow> (net, unit) state" where
  "accept_region regionId category save =
     do {
       writes (\<lambda>s. s\<lparr>gen_regionId := regionId, saves := (if save then saves s @ [regionId] else saves s)\<rparr>);
       SetNetworkCategory category
     }"

definition try_region :: "site \<Rightarrow> env \<Rightarrow> string \<Rightarrow> string \<Rightarrow> bool \<Rightarrow> (net, string option) state" where
  "try_region st env regionId category save =
     do {
       e \<leftarrow> connectionDetect st env (regionId @ IntranetDomain);
       case e of
         Some x \<Rightarrow> ret_state None
       | None \<Rightarrow> do { accept_region regionId category save; ret_state (Some (regionId @ IntranetDomain)) }
     }"

fun poll_regions :: "site \<Rightarrow> env \<Rightarrow> string list \<Rightarrow> (net, string option) state" where
  "poll_regions st env [] = ret_state None"
| "poll_regions st env (r # rs) =
     do {
       g \<leftarrow> httpGetWithoutExtraHeader st env (''https://'' @ r @ IntranetDomain @ ''/luban/api/classic/region-id'');
       case g of
         (_, Some e) \<Rightarrow> poll_regions st env rs
       | (regionId, None) \<Rightarrow>
           do {
             d \<leftarrow> try_region st env regionId ''classic'' True;
             case d of Some domain \<Rightarrow> ret_state (Some domain) | None \<Rightarrow> poll_regions st env rs
           }
     }"

definition general_ServerDomain :: "site \<Rightarrow> env \<Rightarrow> (net, go_error + string) state" where
  "general_ServerDomain st env =
     (let host = st_getenv st ''ALIYUN_ASSIST_SERVER_HOST'' in
      if host \<noteq> [] then ret_state (Inr host)
      else do {
        r1 \<leftarrow> getRegionIdInFile st;
        d1 \<leftarrow> (if r1 \<noteq> [] then try_region st env r1 ''vpc'' False else ret_state None);
        case d1 of
          Some domain \<Rightarrow> ret_state (Inr domain)
        | None \<Rightarrow> do {
            g \<leftarrow> httpGetWithoutExtraHeader st env ''http://100.100.100.200/latest/meta-data/region-id'';
            let r2 = fst g;
            d2 \<leftarrow> (if r2 \<noteq> [] then try_region st env r2 ''vpc'' True else ret_state None);
            case d2 of
              Some domain \<Rightarrow> ret_state (Inr domain)
            | None \<Rightarrow> do {
                d3 \<leftarrow> poll_regions st env wellKnownRegionIds;
                ret_state (case d3 of Some domain \<Rightarrow> Inr domain | None \<Rightarrow> Inl ErrNotProvided)
              }
          }
      })"

text \<open>The identifier of the instance is asked for once, and an error makes it unknown for good.\<close>

definition general_ExtraHTTPHeaders :: "site \<Rightarrow> env \<Rightarrow> (net, go_error + (string \<times> string) list) state" where
  "general_ExtraHTTPHeaders st env =
     do {
       region \<leftarrow> reads gen_regionId;
       if region = [] then ret_state (Inl ErrNotProvided)
       else do {
         known \<leftarrow> reads instanceIdHeaders;
         case known of
           Some headers \<Rightarrow> ret_state (Inr headers)
         | None \<Rightarrow> do {
             r \<leftarrow> httpGetWithoutExtraHeader st env ''http://100.100.100.200/latest/meta-data/instance-id'';
             let headers = [(''X-Client-Instance-ID'', if snd r \<noteq> None then ''unknown'' else fst r)];
             writes (\<lambda>s. s\<lparr>instanceIdHeaders := Some headers\<rparr>);
             ret_state (Inr headers)
           }
       }
     }"

definition general_RegionId :: "site \<Rightarrow> env \<Rightarrow> (net, go_error + string) state" where
  "general_RegionId st env =
     do {
       region \<leftarrow> reads gen_regionId;
       if region \<noteq> [] then ret_state (Inr region)
       else do {
         d \<leftarrow> general_ServerDomain st env;
         case d of
           Inl e \<Rightarrow> ret_state (Inl ErrNotProvided)
         | Inr domain \<Rightarrow> reads (\<lambda>s. if gen_regionId s \<noteq> [] then Inr (gen_regionId s) else Inl ErrNotProvided)
       }
     }"

section \<open>A registered machine\<close>

definition hybrid_file :: "site \<Rightarrow> string \<Rightarrow> (net, string) state" where
  "hybrid_file st n =
     do { d \<leftarrow> on_world (GetHybridPath (machine.truncate st)); ret_state (path_join [fst d, n]) }"

definition read_hybrid :: "site \<Rightarrow> string \<Rightarrow> (net, go_error + string) state" where
  "read_hybrid st n = do { path \<leftarrow> hybrid_file st n; read_file st path }"

definition IsHybrid :: "site \<Rightarrow> (net, bool) state" where
  "IsHybrid st =
     do { path \<leftarrow> hybrid_file st ''instance-id''; on_world (CheckFileIsExist (machine.truncate st) path) }"

definition getNetworkTypeInHybrid :: "site \<Rightarrow> (net, string) state" where
  "getNetworkTypeInHybrid st =
     do { r \<leftarrow> read_hybrid st ''network-mode''; ret_state (case r of Inl e \<Rightarrow> [] | Inr raw \<Rightarrow> trimmed raw) }"

definition hybrid_RegionId :: "site \<Rightarrow> (net, go_error + string) state" where
  "hybrid_RegionId st =
     do {
       hybrid \<leftarrow> IsHybrid st;
       if \<not> hybrid then ret_state (Inl ErrNotProvided)
       else do {
         r \<leftarrow> read_hybrid st ''region-id'';
         ret_state (case r of Inl e \<Rightarrow> Inl ErrNotProvided | Inr raw \<Rightarrow> Inr (trimmed raw))
       }
     }"

definition hybrid_ServerDomain :: "site \<Rightarrow> env \<Rightarrow> (net, go_error + string) state" where
  "hybrid_ServerDomain st env =
     (let host = st_getenv st ''ALIYUN_ASSIST_SERVER_HOST'' in
      if host \<noteq> [] then ret_state (Inr host)
      else do {
        r \<leftarrow> hybrid_RegionId st;
        case r of
          Inl e \<Rightarrow> ret_state (Inl ErrNotProvided)
        | Inr regionId \<Rightarrow>
            if regionId = [] then ret_state (Inl ErrNotProvided)
            else do {
              SetNetworkCategory ''hybrid'';
              mode \<leftarrow> getNetworkTypeInHybrid st;
              if mode = ''vpc'' then ret_state (Inr (regionId @ IntranetDomain))
              else do {
                let domain = regionId @ ''-'' @ dropWhile (\<lambda>c. c = CHR ''.'') InternetDomain;
                e \<leftarrow> connectionDetect st env domain;
                ret_state (Inr (if e = None then domain else regionId @ InternetDomain))
              }
            }
      })"

text \<open>\<open>GetMachineID\<close> of \<open>common/machineid\<close>: the identifier kept by a registration, or the machine's own.\<close>

fun first_readable :: "site \<Rightarrow> string list \<Rightarrow> (net, string) state" where
  "first_readable st [] = ret_state []"
| "first_readable st (f # fs) =
     do {
       r \<leftarrow> read_file st f;
       case r of Inr c \<Rightarrow> ret_state (trim_space (trim_with (\<lambda>x. x = LF) c)) | Inl e \<Rightarrow> first_readable st fs
     }"

definition GetMachineID :: "site \<Rightarrow> (net, string) state" where
  "GetMachineID st =
     do {
       r \<leftarrow> read_hybrid st ''machine-id'';
       case r of
         Inr c \<Rightarrow> ret_state c
       | Inl e \<Rightarrow> first_readable st [''/var/lib/dbus/machine-id'', ''/etc/machine-id'', ''/sys/class/dmi/id/product_uuid'']
     }"

definition rsaSign :: "site \<Rightarrow> string \<Rightarrow> string \<Rightarrow> string" where
  "rsaSign st data key = base64_encode (case st_sign st key (md5_sum data) of None \<Rightarrow> [] | Some s \<Rightarrow> s)"

definition content_of :: "go_error + string \<Rightarrow> string" where
  "content_of r = (case r of Inl e \<Rightarrow> [] | Inr c \<Rightarrow> c)"

definition hybrid_ExtraHTTPHeaders :: "site \<Rightarrow> (net, go_error + (string \<times> string) list) state" where
  "hybrid_ExtraHTTPHeaders st =
     do {
       hybrid \<leftarrow> IsHybrid st;
       if \<not> hybrid then ret_state (Inl ErrNotProvided)
       else do {
         request_id \<leftarrow> on_world (ask (st_uuid st));
         t \<leftarrow> on_world (ask (st_accurate_time st));
         d \<leftarrow> on_world (GetHybridPath (machine.truncate st));
         i \<leftarrow> read_file st (path_join [fst d, ''instance-id'']);
         mid \<leftarrow> GetMachineID st;
         key \<leftarrow> read_file st (path_join [fst d, ''pri-key'']);
         ip \<leftarrow> on_world (ask (st_external_ip st));
         let signed = rsaSign st (content_of i @ mid @ itoa t @ request_id) (content_of key);
         ret_state (Inr ([(''x-acs-instance-id'', content_of i), (''x-acs-timestamp'', itoa t),
           (''x-acs-request-id'', request_id), (''x-acs-signature'', signed)]
           @ (case ip of None \<Rightarrow> [] | Some a \<Rightarrow> [(''X-Client-IP'', a)])))
       }
     }"

section \<open>The requester\<close>

text \<open>The interface of the providers.\<close>

fun provider_ServerDomain :: "site \<Rightarrow> env \<Rightarrow> provider \<Rightarrow> (net, go_error + string) state" where
  "provider_ServerDomain st env ExternalExecutableProvider = external_ServerDomain st"
| "provider_ServerDomain st env HybridModeProvider = hybrid_ServerDomain st env"
| "provider_ServerDomain st env GeneralProvider = general_ServerDomain st env"
| "provider_ServerDomain st env EnvironmentVariableProvider = ret_state (Inl ErrNotProvided)"

fun provider_ExtraHTTPHeaders :: "site \<Rightarrow> env \<Rightarrow> provider \<Rightarrow> (net, go_error + (string \<times> string) list) state" where
  "provider_ExtraHTTPHeaders st env ExternalExecutableProvider = external_ExtraHTTPHeaders st"
| "provider_ExtraHTTPHeaders st env HybridModeProvider = hybrid_ExtraHTTPHeaders st"
| "provider_ExtraHTTPHeaders st env GeneralProvider = general_ExtraHTTPHeaders st env"
| "provider_ExtraHTTPHeaders st env EnvironmentVariableProvider = ret_state (Inl ErrNotProvided)"

fun provider_RegionId :: "site \<Rightarrow> env \<Rightarrow> provider \<Rightarrow> (net, go_error + string) state" where
  "provider_RegionId st env ExternalExecutableProvider = external_RegionId st"
| "provider_RegionId st env HybridModeProvider = hybrid_RegionId st"
| "provider_RegionId st env GeneralProvider = general_RegionId st env"
| "provider_RegionId st env EnvironmentVariableProvider = ret_state (Inl ErrNotProvided)"

definition defaultAPIServerProviders :: "provider list" where
  "defaultAPIServerProviders = [ExternalExecutableProvider, HybridModeProvider, GeneralProvider]"

definition defaultRegionIdProviders :: "provider list" where
  "defaultRegionIdProviders = [ExternalExecutableProvider, HybridModeProvider, GeneralProvider]"

fun unsafeSelectProviderForServerDomain :: "site \<Rightarrow> env \<Rightarrow> provider list \<Rightarrow> (net, go_error + string) state" where
  "unsafeSelectProviderForServerDomain st env [] = ret_state (Inl ErrNotProvided)"
| "unsafeSelectProviderForServerDomain st env (p # ps) =
     do {
       r \<leftarrow> provider_ServerDomain st env p;
       case r of
         Inl e \<Rightarrow> unsafeSelectProviderForServerDomain st env ps
       | Inr domain \<Rightarrow> do { writes (\<lambda>s. s\<lparr>selectedProvider := Some p\<rparr>); ret_state (Inr domain) }
     }"

text \<open>The selected provider is asked under the lock for reading, and once more under the one for writing.\<close>

definition ask_selected :: "site \<Rightarrow> env \<Rightarrow> (net, go_error + string) state" where
  "ask_selected st env =
     do {
       p \<leftarrow> reads selectedProvider;
       case p of None \<Rightarrow> ret_state (Inl ErrNotProvided) | Some q \<Rightarrow> provider_ServerDomain st env q
     }"

definition GetServerDomain :: "site \<Rightarrow> env \<Rightarrow> (net, go_error + string) state" where
  "GetServerDomain st env =
     do {
       r1 \<leftarrow> ask_selected st env;
       case r1 of
         Inr domain \<Rightarrow> ret_state (Inr domain)
       | Inl e1 \<Rightarrow> do {
           r2 \<leftarrow> ask_selected st env;
           case r2 of
             Inr domain \<Rightarrow> ret_state (Inr domain)
           | Inl e2 \<Rightarrow> unsafeSelectProviderForServerDomain st env defaultAPIServerProviders
         }
     }"

definition GetExtraHTTPHeaders :: "site \<Rightarrow> env \<Rightarrow> (net, go_error + (string \<times> string) list) state" where
  "GetExtraHTTPHeaders st env =
     do {
       p \<leftarrow> reads selectedProvider;
       case p of None \<Rightarrow> ret_state (Inl ErrNotProvided) | Some q \<Rightarrow> provider_ExtraHTTPHeaders st env q
     }"

fun first_region :: "site \<Rightarrow> env \<Rightarrow> go_error option \<Rightarrow> provider list \<Rightarrow> (net, string \<times> go_error option) state" where
  "first_region st env err [] = ret_state ([], err)"
| "first_region st env err (p # ps) =
     do {
       r \<leftarrow> provider_RegionId st env p;
       case r of
         Inl e \<Rightarrow> first_region st env (Some e) ps
       | Inr region \<Rightarrow> do { writes (\<lambda>s. s\<lparr>regionIdCache := region\<rparr>); ret_state (region, None) }
     }"

definition GetRegionId :: "site \<Rightarrow> env \<Rightarrow> (net, string \<times> go_error option) state" where
  "GetRegionId st env =
     do {
       known \<leftarrow> reads regionIdCache;
       if known \<noteq> [] then ret_state (known, None) else first_region st env None defaultRegionIdProviders
     }"

section \<open>The agent's own cache\<close>

definition GetServerHost :: "site \<Rightarrow> env \<Rightarrow> (net, string) state" where
  "GetServerHost st env =
     do {
       known \<leftarrow> reads g_domainId;
       if known \<noteq> [] then ret_state known
       else do {
         r \<leftarrow> GetServerDomain st env;
         writes (\<lambda>s. s\<lparr>g_domainId := (case r of Inl e \<Rightarrow> [] | Inr domain \<Rightarrow> domain)\<rparr>);
         reads g_domainId
       }
     }"

definition util_GetRegionId :: "site \<Rightarrow> env \<Rightarrow> (net, string) state" where
  "util_GetRegionId st env = do { r \<leftarrow> GetRegionId st env; ret_state (fst r) }"

text \<open>A request of the agent carries the headers of the selected provider.\<close>

definition agent_get :: "site \<Rightarrow> env \<Rightarrow> string \<Rightarrow> (net, string \<times> go_error option) state" where
  "agent_get st env url =
     do {
       GetHTTPTransport st;
       GetExtraHTTPHeaders st env;
       on_world (HttpGet env url)
     }"

definition cached_meta :: "site \<Rightarrow> env \<Rightarrow> string \<Rightarrow> (net \<Rightarrow> string) \<Rightarrow> (string \<Rightarrow> net \<Rightarrow> net) \<Rightarrow> (net, string) state" where
  "cached_meta st env url get_it set_it =
     do {
       known \<leftarrow> reads get_it;
       if known \<noteq> [] then ret_state known
       else do {
         r \<leftarrow> agent_get st env url;
         writes (set_it (if snd r \<noteq> None then ''unknown'' else fst r));
         reads get_it
       }
     }"

definition GetAzoneId :: "site \<Rightarrow> env \<Rightarrow> (net, string) state" where
  "GetAzoneId st env =
     cached_meta st env ''http://100.100.100.200/latest/meta-data/zone-id'' g_azoneId (\<lambda>x s. s\<lparr>g_azoneId := x\<rparr>)"

definition GetInstanceId :: "site \<Rightarrow> env \<Rightarrow> (net, string) state" where
  "GetInstanceId st env =
     cached_meta st env ''http://100.100.100.200/latest/meta-data/instance-id'' g_instanceId (\<lambda>x s. s\<lparr>g_instanceId := x\<rparr>)"

definition IsSelfHosted :: "site \<Rightarrow> bool" where
  "IsSelfHosted st = (st_getenv st ''ALIYUN_ASSIST_SERVER_HOST'' \<noteq> [])"

section \<open>Weakest preconditions\<close>

text \<open>These programs always return, so that one postcondition is enough.\<close>

definition wps :: "(net, 'a) state \<Rightarrow> ('a \<Rightarrow> net \<Rightarrow> bool) \<Rightarrow> net \<Rightarrow> bool" where
  "wps m Q s = (case run_state m s of (x, s1) \<Rightarrow> Q x s1)"

named_theorems wps_rules "weakest preconditions of programs that return"

lemma wps_return [wps_rules]: "wps (State_Monad.return x) Q s = Q x s"
  by (simp add: wps_def)

lemma wps_bind [wps_rules]: "wps (State_Monad.bind m f) Q s = wps m (\<lambda>x. wps (f x) Q) s"
  by (simp add: wps_def split_beta)

lemma wps_reads [wps_rules]: "wps (reads g) Q s = Q (g s) s"
  and wps_writes [wps_rules]: "wps (writes h) P s = P () (h s)"
  by (simp_all add: wps_def reads_def writes_def)

lemma wps_on_world [wps_rules]: "wps (on_world k) Q s = Q (fst (k (nw s))) (s\<lparr>nw := snd (k (nw s))\<rparr>)"
  by (simp add: wps_def on_world_def split_beta Let_def)

lemma wps_if [wps_rules]: "wps (if b then m else m') Q s = (if b then wps m Q s else wps m' Q s)"
  by simp

lemma wps_Let [wps_rules]: "wps (Let v f) Q s = wps (f v) Q s"
  by simp

lemma wps_case_sum [wps_rules]:
  "wps (case v of Inl e \<Rightarrow> f e | Inr x \<Rightarrow> g x) Q s = (case v of Inl e \<Rightarrow> wps (f e) Q s | Inr x \<Rightarrow> wps (g x) Q s)"
  by (simp split: sum.split)

lemma wps_case_option [wps_rules]:
  "wps (case v of None \<Rightarrow> m | Some x \<Rightarrow> g x) Q s = (case v of None \<Rightarrow> wps m Q s | Some x \<Rightarrow> wps (g x) Q s)"
  by (simp split: option.split)

lemma wps_case_prod [wps_rules]:
  "wps (case v of (x, y) \<Rightarrow> g x y) Q s = (case v of (x, y) \<Rightarrow> wps (g x y) Q s)"
  by (simp split: prod.split)

lemma wps_mono: "wps m Q s \<Longrightarrow> (\<And>x s1. Q x s1 \<Longrightarrow> Q' x s1) \<Longrightarrow> wps m Q' s"
  by (auto simp: wps_def split: prod.splits)

lemma wps_conj: "wps m Q s \<Longrightarrow> wps m Q' s \<Longrightarrow> wps m (\<lambda>x s1. Q x s1 \<and> Q' x s1) s"
  by (auto simp: wps_def split: prod.splits)

lemma true_wps: "wps m (\<lambda>_ _. True) s"
  by (simp add: wps_def split_beta)

lemma wps_run: "run_state m s = (x, s1) \<Longrightarrow> wps m Q s = Q x s1"
  by (simp add: wps_def)

section \<open>What programs keep\<close>

text \<open>\<open>R\<close> relates the state before a program to the one after it.\<close>

definition keeping :: "(net \<Rightarrow> net \<Rightarrow> bool) \<Rightarrow> (net, 'a) state \<Rightarrow> bool" where
  "keeping R m \<longleftrightarrow> (\<forall>s. wps m (\<lambda>_. R s) s)"

lemma keepingD: "keeping R m \<Longrightarrow> R s (snd (run_state m s))"
  by (auto simp: keeping_def wps_def split_beta)

text \<open>
  The contract of the variables of both packages: a relation that each of their single changes respects is
  respected by every operation of the providers.
\<close>

locale variables_frame =
  fixes R :: "net \<Rightarrow> net \<Rightarrow> bool" and W :: "world \<Rightarrow> world \<Rightarrow> bool"
  assumes R_refl: "R s s" and R_trans: "R s t \<Longrightarrow> R t u \<Longrightarrow> R s u"
    and world_changes: "W (nw s) w \<Longrightarrow> R s (s\<lparr>nw := w\<rparr>)"
    and W_trans: "W w w1 \<Longrightarrow> W w1 w2 \<Longrightarrow> W w w2"
    and question: "W w (tick w)" and directory: "W w (perform (MadeDirs p) w)" and request: "W w (perform (HttpSent m url b) w)"
    and path_changes: "R s (s\<lparr>executablePath := Some p\<rparr>)"
    and provision_changes: "R s (take_provision pr s)"
    and roots_change: "R s (s\<lparr>rootCAs := pool, rootCAsInited := True\<rparr>)"
    and transport_changes: "R s (s\<lparr>transportCAs := Some pool\<rparr>)" "R s (s\<lparr>transportCAs := Some pool, rootCAs := pool\<rparr>)"
    and region_changes: "R s (s\<lparr>gen_regionId := r, saves := sv\<rparr>)"
    and category_changes: "c \<noteq> [] \<Longrightarrow> R s (s\<lparr>networkCategory := c\<rparr>)"
    and headers_change: "R s (s\<lparr>instanceIdHeaders := Some [(''X-Client-Instance-ID'', v)]\<rparr>)"
begin

lemma keep_return: "keeping R (State_Monad.return x)"
  unfolding keeping_def wps_return by (simp add: R_refl)

lemma keep_bind: "keeping R m \<Longrightarrow> (\<And>x. keeping R (f x)) \<Longrightarrow> keeping R (State_Monad.bind m f)"
  unfolding keeping_def wps_bind by (blast intro: wps_mono R_trans)

lemma keep_reads: "keeping R (reads g)"
  by (simp add: keeping_def wps_rules R_refl)

lemma keep_on_world: "(\<And>w. W w (snd (k w))) \<Longrightarrow> keeping R (on_world k)"
  by (simp add: keeping_def wps_rules world_changes)

text \<open>What the operations do to the outside: questions, directories that are made, and requests.\<close>

lemma W_ask: "W w (snd (ask a w))"
  by (simp add: ask_def question)

lemma W_check: "W w (snd (CheckFileIsExist mc p w))"
  by (simp add: CheckFileIsExist_def ask_def question)

lemma W_mkdir: "W w (snd (MakeSurePath mc p w))"
  by (simp add: MakeSurePath_def attempt_def question directory split: option.split)

lemma W_current: "W w (snd (GetCurrentPath mc w))"
  by (simp add: GetCurrentPath_def ask_def question)

lemma W_hybrid_path: "W w (snd (GetHybridPath mc w))"
  using W_current [of w mc] W_trans W_mkdir
  by (auto simp: GetHybridPath_def made_path_def split_beta Let_def split: sum.split)

lemma W_config_path: "W w (snd (GetCrossVersionConfigPath mc cwd w))"
  using W_current [of w mc] W_trans W_mkdir
  by (auto simp: GetCrossVersionConfigPath_def getCrossVersionDir_def split_beta Let_def split: sum.split)

lemma W_send: "W w (snd (send_request env m url b w))"
  by (simp add: send_request_def request)

lemma W_http: "W w (snd (HttpGet env url w))" "W w (snd (HttpPost env url body w))"
  using W_trans request by (simp_all add: HttpGet_def HttpPost_def send_request_def split: transport_reply.split) blast+

lemmas W_rules = W_ask W_check W_current W_hybrid_path W_config_path W_send W_http

lemma keep_writes: "(\<And>s. R s (h s)) \<Longrightarrow> keeping R (writes h)"
  by (simp add: keeping_def wps_rules)

lemma keep_if: "keeping R m \<Longrightarrow> keeping R m' \<Longrightarrow> keeping R (if b then m else m')"
  and keep_sum: "(\<And>e. keeping R (h e)) \<Longrightarrow> (\<And>x. keeping R (g x)) \<Longrightarrow> keeping R (case v of Inl e \<Rightarrow> h e | Inr x \<Rightarrow> g x)"
  and keep_option: "keeping R m \<Longrightarrow> (\<And>x. keeping R (k x)) \<Longrightarrow> keeping R (case w of None \<Rightarrow> m | Some x \<Rightarrow> k x)"
  and keep_prod: "(\<And>x y. keeping R (q x y)) \<Longrightarrow> keeping R (case z of (x, y) \<Rightarrow> q x y)"
  and keep_let: "keeping R (f u) \<Longrightarrow> keeping R (Let u f)"
  by (simp_all split: sum.split option.split prod.split)

lemma keep_reply:
  "(\<And>a b. keeping R (f a b)) \<Longrightarrow> (\<And>e. keeping R (g e)) \<Longrightarrow> (\<And>e. keeping R (h e)) \<Longrightarrow>
     keeping R (case v of Reply a b \<Rightarrow> f a b | Failure e \<Rightarrow> g e | UnknownAuthority e \<Rightarrow> h e)"
  by (simp split: transport_reply.split)

lemmas keep_rules = keep_return keep_bind keep_reads keep_on_world keep_if keep_sum keep_option keep_prod keep_let keep_reply W_rules

lemma keep_find_candidate: "keeping R (find_candidate st dir ns)"
  by (induction ns) (auto intro!: keep_rules keep_writes path_changes)

lemma keep_unsafeProvision: "keeping R (unsafeProvision st)"
  unfolding unsafeProvision_def run_provider_def
  by (intro keep_rules keep_writes path_changes provision_changes keep_find_candidate)

lemma keep_from_program: "keeping R (from_program st f)"
  unfolding from_program_def by (intro keep_rules keep_unsafeProvision)

lemma keep_certificate: "keeping R (provider_CACertificate st refresh p)"
  by (cases p) (simp_all add: env_CACertificate_def external_CACertificate_def general_CACertificate_def read_file_def Let_def
    keep_rules keep_from_program keep_unsafeProvision)

lemma keep_first_certificate: "keeping R (first_certificate st refresh ps)"
  by (induction ps) (auto intro!: keep_rules keep_certificate)

lemma keep_peek: "keeping R (PeekRefreshedRootCAs st refresh)"
  unfolding PeekRefreshedRootCAs_def by (intro keep_rules keep_first_certificate)

lemma keep_transport: "keeping R (GetHTTPTransport st)"
  unfolding GetHTTPTransport_def GetRootCAs_def by (intro keep_rules keep_writes keep_peek roots_change transport_changes)

lemma keep_get: "keeping R (httpGetWithoutExtraHeader st env url)"
  unfolding httpGetWithoutExtraHeader_def RefreshHTTPCas_def
  by (intro keep_rules keep_writes keep_peek keep_transport transport_changes)

lemma keep_detect: "keeping R (connectionDetect st env d)"
  unfolding connectionDetect_def by (intro keep_rules keep_get)

lemma keep_category: "c \<noteq> [] \<Longrightarrow> keeping R (SetNetworkCategory c)"
  unfolding SetNetworkCategory_def by (intro keep_writes category_changes)

lemma keep_try_region: "c \<noteq> [] \<Longrightarrow> keeping R (try_region st env r c save)"
  unfolding try_region_def accept_region_def
  by (intro keep_rules keep_writes keep_detect keep_category region_changes)

lemma keep_poll_regions: "keeping R (poll_regions st env rs)"
  by (induction rs) (auto intro!: keep_rules keep_get keep_try_region)

lemma keep_file: "keeping R (read_file st p)" "keeping R (region_file st)" "keeping R (getRegionIdInFile st)"
  unfolding read_file_def region_file_def getRegionIdInFile_def by (intro keep_rules)+

lemma keep_general: "keeping R (general_ServerDomain st env)"
proof -
  have vpc: "''vpc'' \<noteq> []" by simp
  show ?thesis unfolding general_ServerDomain_def
    by (intro keep_rules keep_file keep_get keep_try_region keep_poll_regions vpc)
qed

lemma keep_general_headers: "keeping R (general_ExtraHTTPHeaders st env)"
  unfolding general_ExtraHTTPHeaders_def by (intro keep_rules keep_get keep_writes headers_change)

lemma keep_general_region: "keeping R (general_RegionId st env)"
  unfolding general_RegionId_def by (intro keep_rules keep_general)

lemma keep_hybrid_file: "keeping R (hybrid_file st n)" "keeping R (read_hybrid st n)" "keeping R (IsHybrid st)"
  unfolding read_hybrid_def IsHybrid_def hybrid_file_def by (intro keep_rules keep_file)+

lemma keep_hybrid_region: "keeping R (hybrid_RegionId st)"
  unfolding hybrid_RegionId_def by (intro keep_rules keep_hybrid_file)

lemma keep_hybrid: "keeping R (hybrid_ServerDomain st env)"
proof -
  have hy: "''hybrid'' \<noteq> []" by simp
  show ?thesis unfolding hybrid_ServerDomain_def getNetworkTypeInHybrid_def
    by (intro keep_rules keep_hybrid_region keep_hybrid_file keep_detect keep_category hy)
qed

lemma keep_first_readable: "keeping R (first_readable st fs)"
  by (induction fs) (auto intro!: keep_rules keep_file)

lemma keep_hybrid_headers: "keeping R (hybrid_ExtraHTTPHeaders st)"
  unfolding hybrid_ExtraHTTPHeaders_def GetMachineID_def
  by (intro keep_rules keep_hybrid_file keep_file keep_first_readable)

lemma keep_domain: "keeping R (provider_ServerDomain st env p)"
  by (cases p) (simp_all add: external_ServerDomain_def keep_from_program keep_hybrid keep_general keep_return)

lemma keep_headers: "keeping R (provider_ExtraHTTPHeaders st env p)"
  by (cases p) (simp_all add: external_ExtraHTTPHeaders_def keep_from_program keep_hybrid_headers keep_general_headers keep_return)

lemma keep_region: "keeping R (provider_RegionId st env p)"
  by (cases p) (simp_all add: external_RegionId_def keep_from_program keep_hybrid_region keep_general_region keep_return)

lemma keep_ask_selected: "keeping R (ask_selected st env)"
  unfolding ask_selected_def by (intro keep_rules keep_domain)

lemma keep_GetExtraHTTPHeaders: "keeping R (GetExtraHTTPHeaders st env)"
  unfolding GetExtraHTTPHeaders_def by (intro keep_rules keep_headers)

lemma keep_agent_get: "keeping R (agent_get st env url)"
  unfolding agent_get_def by (intro keep_rules keep_transport keep_GetExtraHTTPHeaders)

lemma keep_save: "(\<And>w p c. W w (perform (FileWritten p c) w)) \<Longrightarrow> keeping R (saveRegionIdToFile st r)"
  unfolding saveRegionIdToFile_def
  by (intro keep_rules keep_file) (simp add: WriteStringToFile_def attempt_def question split: option.split)

lemma keep_host: "(\<And>s p. R s (s\<lparr>selectedProvider := p\<rparr>)) \<Longrightarrow> (\<And>s d. R s (s\<lparr>g_domainId := d\<rparr>)) \<Longrightarrow> keeping R (GetServerHost st env)"
proof -
  assume p: "\<And>s p. R s (s\<lparr>selectedProvider := p\<rparr>)" and d: "\<And>s d. R s (s\<lparr>g_domainId := d\<rparr>)"
  have "keeping R (unsafeSelectProviderForServerDomain st env ps)" for ps
    by (induction ps) (auto intro!: keep_rules keep_domain keep_writes p)
  then show "keeping R (GetServerHost st env)"
    unfolding GetServerHost_def GetServerDomain_def by (intro keep_rules keep_ask_selected keep_writes d)
qed

end

text \<open>The providers leave the answers alone that the packages above them keep.\<close>

definition same_answers :: "net \<Rightarrow> net \<Rightarrow> bool" where
  "same_answers s t \<longleftrightarrow> selectedProvider t = selectedProvider s \<and> regionIdCache t = regionIdCache s
     \<and> g_domainId t = g_domainId s \<and> g_azoneId t = g_azoneId s \<and> g_instanceId t = g_instanceId s
     \<and> (executablePath s \<noteq> None \<longrightarrow> executablePath t \<noteq> None) \<and> (networkCategory s \<noteq> [] \<longrightarrow> networkCategory t \<noteq> [])"

interpretation answers: variables_frame same_answers "\<lambda>_ _. True"
  by unfold_locales (auto simp: same_answers_def take_provision_def)

end
