(* ===== verification/Api_Server_Properties.thy ===== *)
theory Api_Server_Properties
  imports Api_Server
begin

text \<open>
  What holds of the search for the server: what was answered once is kept, a region is accepted only after
  its server answered, and the variable for a host of one's own makes an ordinary machine lose the header
  that names it.
\<close>

section \<open>A machine\<close>

text \<open>
  A machine where every file is missing and the server answers that it is there; \<open>host\<close> is the variable
  for a host of one's own.
\<close>

definition demo_site :: "string \<Rightarrow> site" where
  "demo_site host = \<lparr>mc_stat = (\<lambda>n p. NotExist), mc_lstat = (\<lambda>n p. NotExist), mc_mkdir = (\<lambda>n p. None),
     mc_write = (\<lambda>n p. None), mc_chmod = (\<lambda>n p. None), mc_chown = (\<lambda>n p. None), mc_remove = (\<lambda>n p. None),
     mc_executable = (\<lambda>n. Inr ''/a/b/aliyun-service''), mc_look_path = (\<lambda>n p. None),
     mc_user = (\<lambda>n u. Inr (''0'', ''/root'')), mc_group = (\<lambda>n g. Inr ''0''), mc_home_env = (\<lambda>n. Inr ''/root''),
     mc_current_home = (\<lambda>n. Inr ''/root''), mc_environ = (\<lambda>n. []), mc_output = (\<lambda>n c. Inr []),
     mc_start = (\<lambda>n c a. None), mc_timer_first = (\<lambda>n. False), mc_finish = (\<lambda>n. (Some 0, None)),
     mc_events = (\<lambda>n. []), mc_script_path = [],
     st_getenv = (\<lambda>v. if v = ''ALIYUN_ASSIST_SERVER_HOST'' then host else []),
     st_read = (\<lambda>n p. Inl (PlainError ''no such file'')), st_cwd = ''/'', st_run_provider = (\<lambda>n p. ([], None)),
     st_parse = (\<lambda>t. None), st_system_pool = (\<lambda>n. True), st_uuid = (\<lambda>n. ''u''), st_accurate_time = (\<lambda>n. 0),
     st_external_ip = (\<lambda>n. None), st_sign = (\<lambda>k d. None)\<rparr>"

definition demo_env :: env where
  "demo_env = \<lparr>server_host = [],
     transport = (\<lambda>n m u b. if u = ''http://100.100.100.200/latest/meta-data/region-id'' then Reply 200 ''cn-x'' else Reply 200 ''ok''),
     clock = (\<lambda>n. 0), clock_zone = (\<lambda>n. 0), zone_name = [], zone_offset = (\<lambda>z t. 0)\<rparr>"

definition first_net :: net where
  "first_net = \<lparr>nw = \<lparr>ticks = 0, trace = []\<rparr>, executablePath = Some [], pemCerts = None, serverDomain = None,
     extraHTTPheaders = None, ext_regionId = None, gen_regionId = [], instanceIdHeaders = None, selectedProvider = None,
     regionIdCache = [], rootCAs = None, rootCAsInited = False, transportCAs = None, networkCategory = [], saves = [],
     g_domainId = [], g_azoneId = [], g_instanceId = []\<rparr>"

section \<open>The operations\<close>

inductive net_step :: "site \<Rightarrow> env \<Rightarrow> net \<Rightarrow> net \<Rightarrow> bool" for st :: site and env :: env where
  step_domain: "net_step st env s (snd (run_state (GetServerDomain st env) s))"
| step_headers: "net_step st env s (snd (run_state (GetExtraHTTPHeaders st env) s))"
| step_region: "net_step st env s (snd (run_state (GetRegionId st env) s))"
| step_host: "net_step st env s (snd (run_state (GetServerHost st env) s))"
| step_zone: "net_step st env s (snd (run_state (GetAzoneId st env) s))"
| step_instance: "net_step st env s (snd (run_state (GetInstanceId st env) s))"
| step_get: "net_step st env s (snd (run_state (agent_get st env url) s))"
| step_save: "saves s = r # rs \<Longrightarrow> net_step st env s (snd (run_state (saveRegionIdToFile st r) (s\<lparr>saves := rs\<rparr>)))"

text \<open>What is kept: the caches of the packages, and that a provider stays selected.\<close>

definition answers_kept :: "net \<Rightarrow> net \<Rightarrow> bool" where
  "answers_kept s t \<longleftrightarrow>
     (regionIdCache s \<noteq> [] \<longrightarrow> regionIdCache t = regionIdCache s) \<and> (g_domainId s \<noteq> [] \<longrightarrow> g_domainId t = g_domainId s)
   \<and> (g_azoneId s \<noteq> [] \<longrightarrow> g_azoneId t = g_azoneId s) \<and> (g_instanceId s \<noteq> [] \<longrightarrow> g_instanceId t = g_instanceId s)
   \<and> (selectedProvider s \<noteq> None \<longrightarrow> selectedProvider t \<noteq> None)
   \<and> (executablePath s \<noteq> None \<longrightarrow> executablePath t \<noteq> None)"

lemma same_answers_kept: "same_answers s t \<Longrightarrow> answers_kept s t"
  by (simp add: same_answers_def answers_kept_def)

lemma answers_kept_refl [simp]: "answers_kept s s"
  by (simp add: answers_kept_def)

lemma answers_kept_trans: "answers_kept s t \<Longrightarrow> answers_kept t u \<Longrightarrow> answers_kept s u"
  by (auto simp: answers_kept_def)

text \<open>The selection asks in order and takes the first that answers.\<close>

lemma same_answersD: "keeping same_answers m \<Longrightarrow> run_state m s = (x, s1) \<Longrightarrow> same_answers s s1"
  using keepingD [of same_answers m s] by simp

definition selects :: "site \<Rightarrow> env \<Rightarrow> provider list \<Rightarrow> net \<Rightarrow> go_error + string \<Rightarrow> net \<Rightarrow> bool" where
  "selects st env ps s r t \<longleftrightarrow> answers_kept s t
     \<and> (case r of Inl e \<Rightarrow> selectedProvider t = selectedProvider s \<and> e = ErrNotProvided
        | Inr d \<Rightarrow> (\<exists>p \<in> set ps. selectedProvider t = Some p
            \<and> (\<exists>u. same_answers s u \<and> fst (run_state (provider_ServerDomain st env p) u) = Inr d)))"

lemma selects_later:
  assumes "same_answers s s1" "selects st env ps s1 r t"
  shows "selects st env (p # ps) s r t"
proof -
  have a: "answers_kept s t" using assms answers_kept_trans [OF same_answers_kept] by (auto simp: selects_def)
  show ?thesis
  proof (cases r)
    case (Inl e)
    with assms a show ?thesis by (simp add: selects_def same_answers_def)
  next
    case (Inr d)
    with assms obtain q u where q: "q \<in> set ps" "selectedProvider t = Some q" "same_answers s1 u"
      "fst (run_state (provider_ServerDomain st env q) u) = Inr d" by (auto simp: selects_def)
    with a assms(1) Inr show ?thesis unfolding selects_def
      by simp (meson answers.R_trans)
  qed
qed

lemma select_kept:
  "run_state (unsafeSelectProviderForServerDomain st env ps) s = (r, t) \<Longrightarrow> selects st env ps s r t"
proof (induction ps arbitrary: s)
  case (Cons p ps)
  obtain r1 s1 where r: "run_state (provider_ServerDomain st env p) s = (r1, s1)" by fastforce
  have same: "same_answers s s1" using same_answersD [OF answers.keep_domain r] .
  show ?case
  proof (cases r1)
    case (Inl e)
    with Cons.prems r have "run_state (unsafeSelectProviderForServerDomain st env ps) s1 = (r, t)" by simp
    then show ?thesis using selects_later [OF same] Cons.IH by blast
  next
    case (Inr d)
    with Cons.prems r have t: "r = Inr d" "t = s1\<lparr>selectedProvider := Some p\<rparr>" by (simp_all add: writes_def)
    have "answers_kept s t" using same by (simp add: t same_answers_def answers_kept_def)
    moreover have "\<exists>u. same_answers s u \<and> fst (run_state (provider_ServerDomain st env p) u) = Inr d"
      using r Inr answers.R_refl by (intro exI [of _ s]) simp
    ultimately show ?thesis by (simp add: selects_def t)
  qed
qed (auto simp: selects_def)

lemma GetServerDomain_kept: "answers_kept s (snd (run_state (GetServerDomain st env) s))"
proof -
  obtain r1 s1 where 1: "run_state (ask_selected st env) s = (r1, s1)" by fastforce
  obtain r2 s2 where 2: "run_state (ask_selected st env) s1 = (r2, s2)" by fastforce
  have k: "answers_kept s s1" "answers_kept s1 s2"
    using same_answersD [OF answers.keep_ask_selected] 1 2 by (blast intro: same_answers_kept)+
  have "answers_kept s2 (snd (run_state (unsafeSelectProviderForServerDomain st env defaultAPIServerProviders) s2))"
    using select_kept [OF prod.collapse [symmetric]] by (simp add: selects_def)
  then have "answers_kept s (snd (run_state (unsafeSelectProviderForServerDomain st env defaultAPIServerProviders) s2))"
    "answers_kept s s2"
    using k answers_kept_trans by blast+
  then show ?thesis using k(1) by (simp add: GetServerDomain_def 1 2 split: sum.split)
qed

lemma first_region_kept:
  assumes "regionIdCache s = []"
  shows "answers_kept s (snd (run_state (first_region st env err ps) s))"
  using assms
proof (induction ps arbitrary: s err)
  case (Cons p ps)
  obtain r s1 where r: "run_state (provider_RegionId st env p) s = (r, s1)" by fastforce
  have same: "same_answers s s1" using same_answersD [OF answers.keep_region r] .
  with Cons.prems have e: "regionIdCache s1 = []" by (simp add: same_answers_def)
  show ?case
  proof (cases r)
    case (Inl x)
    with Cons.IH [OF e, of "Some x"] r show ?thesis
      by (simp add: answers_kept_trans [OF same_answers_kept [OF same]])
  next
    case (Inr x)
    with r same Cons.prems show ?thesis by (simp add: writes_def answers_kept_def same_answers_def)
  qed
qed simp

lemma GetRegionId_kept: "answers_kept s (snd (run_state (GetRegionId st env) s))"
  by (simp add: GetRegionId_def reads_def first_region_kept)

lemma GetServerHost_kept: "answers_kept s (snd (run_state (GetServerHost st env) s))"
proof (cases "g_domainId s = []")
  case True
  obtain r s1 where r: "run_state (GetServerDomain st env) s = (r, s1)" by fastforce
  then have "answers_kept s s1" using GetServerDomain_kept [of s st env] by simp
  with True r show ?thesis by (simp add: GetServerHost_def reads_def writes_def answers_kept_def)
qed (simp add: GetServerHost_def reads_def)

lemma GetServerHost_answers:
  "fst (run_state (GetServerHost st env) s) = g_domainId (snd (run_state (GetServerHost st env) s))"
  by (simp add: GetServerHost_def reads_def writes_def split_beta)

lemma cached_kept:
  assumes "\<And>s x. get_it s = [] \<Longrightarrow> answers_kept s (set_it x s)" "\<And>s t. same_answers s t \<Longrightarrow> get_it t = get_it s"
  shows "answers_kept s (snd (run_state (cached_meta st env url get_it set_it) s))"
proof (cases "get_it s = []")
  case True
  obtain r s1 where r: "run_state (agent_get st env url) s = (r, s1)" by fastforce
  have same: "same_answers s s1" using same_answersD [OF answers.keep_agent_get r] .
  then have "get_it s1 = []" using assms(2) True by simp
  then have "answers_kept s (set_it x s1)" for x
    using assms(1) answers_kept_trans [OF same_answers_kept [OF same]] by blast
  with True r show ?thesis by (simp add: cached_meta_def reads_def writes_def)
qed (simp add: cached_meta_def reads_def)

lemma GetAzoneId_kept: "answers_kept s (snd (run_state (GetAzoneId st env) s))"
  and GetInstanceId_kept: "answers_kept s (snd (run_state (GetInstanceId st env) s))"
  unfolding GetAzoneId_def GetInstanceId_def
  by (rule cached_kept; simp add: answers_kept_def same_answers_def)+

lemma net_step_kept: "net_step st env s t \<Longrightarrow> answers_kept s t"
proof (induction rule: net_step.induct)
  case (step_headers s)
  show ?case by (rule same_answers_kept) (rule keepingD [OF answers.keep_GetExtraHTTPHeaders])
next
  case (step_get s url)
  show ?case by (rule same_answers_kept) (rule keepingD [OF answers.keep_agent_get])
next
  case (step_save s r rs)
  have "same_answers (s\<lparr>saves := rs\<rparr>) (snd (run_state (saveRegionIdToFile st r) (s\<lparr>saves := rs\<rparr>)))"
    by (rule keepingD [OF answers.keep_save [OF TrueI]])
  then show ?case by (simp add: same_answers_def answers_kept_def)
qed (fact GetServerDomain_kept GetRegionId_kept GetServerHost_kept GetAzoneId_kept GetInstanceId_kept)+

lemma net_run_kept: "(net_step st env)\<^sup>*\<^sup>* s t \<Longrightarrow> answers_kept s t"
  by (induction rule: rtranclp_induct) (auto intro: answers_kept_trans net_step_kept)

section \<open>Detection\<close>

text \<open>The server of a domain was asked and answered that it is there.\<close>

definition detection_url :: "string \<Rightarrow> string" where
  "detection_url domain = ''https://'' @ domain @ ''/luban/api/connection_detect''"

definition detected :: "env \<Rightarrow> string \<Rightarrow> net \<Rightarrow> bool" where
  "detected env domain t \<longleftrightarrow> HttpSent ''GET'' (detection_url domain) [] \<in> set (trace (nw t))
     \<and> (\<exists>n status. transport env n ''GET'' (detection_url domain) [] = Reply status ''ok'' \<and> status \<le> 400)"

lemma get_answers:
  "wps (httpGetWithoutExtraHeader st env url) (\<lambda>r t. snd r = None \<longrightarrow>
     HttpSent ''GET'' url [] \<in> set (trace (nw t))
     \<and> (\<exists>n status. transport env n ''GET'' url [] = Reply status (fst r) \<and> status \<le> 400)) s"
proof -
  have reply: "snd (http_result status content) = None \<longleftrightarrow> status \<le> 400" "fst (http_result status content) = content" for status content
    by (auto simp: http_result_def)
  have split: "wps (case x of Reply a b \<Rightarrow> f a b | Failure e \<Rightarrow> g e | UnknownAuthority e \<Rightarrow> h e) Q u \<longleftrightarrow>
    (\<forall>a b. x = Reply a b \<longrightarrow> wps (f a b) Q u) \<and> (\<forall>e. x = Failure e \<longrightarrow> wps (g e) Q u) \<and> (\<forall>e. x = UnknownAuthority e \<longrightarrow> wps (h e) Q u)"
    for x and f :: "int \<Rightarrow> string \<Rightarrow> (net, string \<times> go_error option) state" and g h Q u
    by (simp split: transport_reply.split)
  show ?thesis
    unfolding httpGetWithoutExtraHeader_def wps_bind wps_on_world split RefreshHTTPCas_def wps_writes wps_return send_request_def
    by (rule wps_mono [OF true_wps]) (auto simp: reply intro!: wps_mono [OF true_wps])
qed

lemma detect_answers:
  "wps (connectionDetect st env domain) (\<lambda>e t. e = None \<longrightarrow> detected env domain t) s"
  unfolding connectionDetect_def wps_bind wps_return detected_def detection_url_def [symmetric]
proof (rule wps_mono [OF get_answers], goal_cases)
  case (1 r t)
  show ?case
  proof (rule impI)
    assume "(if snd r \<noteq> None then snd r else if fst r = ''ok'' then None else Some errUnknownDetectionResponse) = None"
    then have r: "snd r = None" "fst r = ''ok''" by (auto split: if_splits)
    with 1 have h: "HttpSent ''GET'' (detection_url domain) [] \<in> set (trace (nw t))"
      "\<exists>n status. transport env n ''GET'' (detection_url domain) [] = Reply status (fst r) \<and> status \<le> 400" by blast+
    show "HttpSent ''GET'' (detection_url domain) [] \<in> set (trace (nw t)) \<and>
      (\<exists>n status. transport env n ''GET'' (detection_url domain) [] = Reply status ''ok'' \<and> status \<le> 400)"
      using h unfolding r(2) by (rule conjI)
  qed
qed

definition accepted :: "env \<Rightarrow> string set \<Rightarrow> string option \<Rightarrow> net \<Rightarrow> bool" where
  "accepted env cs r t \<longleftrightarrow> (\<forall>d. r = Some d \<longrightarrow> d = gen_regionId t @ IntranetDomain \<and> networkCategory t \<in> cs \<and> detected env d t)"

lemma try_region_accepts:
  assumes "c \<in> cs"
  shows "wps (try_region st env r c save) (accepted env cs) s"
  unfolding try_region_def wps_bind wps_case_option accept_region_def SetNetworkCategory_def wps_return wps_writes
  using assms by (intro wps_mono [OF detect_answers]) (auto simp: accepted_def detected_def split: option.split)

lemma poll_accepts: "''classic'' \<in> cs \<Longrightarrow> wps (poll_regions st env rs) (accepted env cs) s"
proof (induction rs arbitrary: s)
  case (Cons r rs)
  show ?case unfolding poll_regions.simps wps_bind
  proof (rule wps_mono [OF true_wps], goal_cases)
    case (1 g t)
    obtain c e where g: "g = (c, e)" by fastforce
    show ?case
    proof (cases e)
      case None
      show ?thesis unfolding g None by (simp add: wps_bind wps_case_option wps_return)
          (rule wps_mono [OF try_region_accepts [OF Cons.prems]], auto simp: Cons accepted_def wps_return split: option.split)
    qed (simp add: g Cons)
  qed
qed (simp add: accepted_def wps_return)

section \<open>Properties\<close>


text \<open>What the server of the example answers.\<close>

lemma demo_get:
  "wps (httpGetWithoutExtraHeader st demo_env url) (\<lambda>r t. r =
     (if url = ''http://100.100.100.200/latest/meta-data/region-id'' then ''cn-x'' else ''ok'', None)) u"
  unfolding httpGetWithoutExtraHeader_def wps_bind wps_on_world send_request_def
  by (rule wps_mono [OF true_wps]) (simp add: demo_env_def http_result_def wps_return)

lemma demo_region: "wps (try_region st demo_env r c save) (\<lambda>d t. d = Some (r @ IntranetDomain)) u"
  unfolding try_region_def connectionDetect_def accept_region_def SetNetworkCategory_def wps_bind wps_return wps_case_option wps_writes
  by (rule wps_mono [OF demo_get]) simp

lemma demo_domain:
  "wps (general_ServerDomain (demo_site []) demo_env) (\<lambda>r t. r = Inr ''cn-x.axt.aliyun.com'') u"
proof -
  have f: "wps (getRegionIdInFile (demo_site [])) (\<lambda>r t. r = []) v" for v
    unfolding getRegionIdInFile_def read_file_def wps_bind wps_on_world wps_return
    by (rule wps_mono [OF true_wps]) (simp add: ask_def demo_site_def)
  have h: "st_getenv (demo_site []) ''ALIYUN_ASSIST_SERVER_HOST'' = []" by (simp add: demo_site_def)
  show ?thesis unfolding general_ServerDomain_def Let_def h
  proof (simp only: simp_thms if_False, unfold wps_bind wps_case_option, rule wps_mono [OF f], goal_cases)
    case (1 r v)
    show ?case unfolding 1
    proof (simp add: wps_return, rule wps_mono [OF demo_get], goal_cases)
      case (1 g x)
      then show ?case using wps_mono [OF demo_region [of "demo_site []" "''cn-x''" "''vpc''" True x]]
        by (simp add: IntranetDomain_def wps_return)
    qed
  qed
qed


text \<open>C39. 
  Whatever is called in whatever order, an answer that was given once is given again: the region, the
  server's host, the zone and the instance keep their first value that is not empty, a selected provider
  is replaced only by another, and the external program is looked for once.
\<close>

theorem answers_given_once:
  assumes run: "(net_step st env)\<^sup>*\<^sup>* s t"
  shows "(regionIdCache s \<noteq> [] \<longrightarrow> run_state (GetRegionId st env) t = ((regionIdCache s, None), t))
    \<and> (g_domainId s \<noteq> [] \<longrightarrow> run_state (GetServerHost st env) t = (g_domainId s, t))
    \<and> (g_azoneId s \<noteq> [] \<longrightarrow> run_state (GetAzoneId st env) t = (g_azoneId s, t))
    \<and> (g_instanceId s \<noteq> [] \<longrightarrow> run_state (GetInstanceId st env) t = (g_instanceId s, t))
    \<and> (selectedProvider s \<noteq> None \<longrightarrow> selectedProvider t \<noteq> None)
    \<and> (executablePath s \<noteq> None \<longrightarrow> run_state (external_ServerDomain st) t = (provisioned serverDomain t, t))"
proof -
  have "answers_kept s t" using net_run_kept [OF run] .
  then show ?thesis
    by (auto simp: answers_kept_def GetRegionId_def GetServerHost_def GetAzoneId_def GetInstanceId_def cached_meta_def
      external_ServerDomain_def from_program_def reads_def)
qed

theorem answers_given_once_witness:
  "(net_step (demo_site []) demo_env)\<^sup>*\<^sup>* (first_net\<lparr>regionIdCache := ''cn-x''\<rparr>)
     (snd (run_state (GetServerDomain (demo_site []) demo_env) (first_net\<lparr>regionIdCache := ''cn-x''\<rparr>)))
   \<and> fst (run_state (GetRegionId (demo_site []) demo_env)
       (snd (run_state (GetServerDomain (demo_site []) demo_env) (first_net\<lparr>regionIdCache := ''cn-x''\<rparr>)))) = (''cn-x'', None)"
proof -
  have run: "(net_step (demo_site []) demo_env)\<^sup>*\<^sup>* (first_net\<lparr>regionIdCache := ''cn-x''\<rparr>)
     (snd (run_state (GetServerDomain (demo_site []) demo_env) (first_net\<lparr>regionIdCache := ''cn-x''\<rparr>)))"
    by (rule r_into_rtranclp) (rule step_domain)
  then show ?thesis using answers_given_once [OF run] by simp
qed

lemma hybrid_stays:
  assumes host: "st_getenv st ''ALIYUN_ASSIST_SERVER_HOST'' = h" "h \<noteq> []" and step: "net_step st env t u"
    and selected: "selectedProvider t = Some HybridModeProvider"
  shows "selectedProvider u = Some HybridModeProvider"
proof -
  have dom: "run_state (GetServerDomain st env) v = (Inr h, v)" if "selectedProvider v = Some HybridModeProvider" for v
    using that host by (simp add: GetServerDomain_def ask_selected_def reads_def hybrid_ServerDomain_def)
  have same: "keeping same_answers m \<Longrightarrow> selectedProvider (snd (run_state m v)) = selectedProvider v" for m :: "(net, 'b) state" and v
    using keepingD [of same_answers m v] by (simp add: same_answers_def)
  have region: "selectedProvider (snd (run_state (first_region st env e ps) v)) = selectedProvider v" for e ps v
  proof (induction ps arbitrary: e v)
    case (Cons p ps)
    have "selectedProvider (snd (run_state (provider_RegionId st env p) v)) = selectedProvider v"
      using keepingD [OF answers.keep_region, of v st env p] by (simp add: same_answers_def)
    with Cons show ?case by (simp add: writes_def split: prod.split sum.split) (metis snd_conv)
  qed simp
  have get: "selectedProvider (snd (run_state (agent_get st env url) v)) = selectedProvider v" for url v
    using keepingD [OF answers.keep_agent_get, of v st env url] by (simp add: same_answers_def)
  show ?thesis using step selected
  proof (induction rule: net_step.induct)
    case (step_headers s)
    then show ?case using keepingD [OF answers.keep_GetExtraHTTPHeaders, of s st env] by (simp add: same_answers_def)
  next
    case (step_save s r rs)
    then show ?case using keepingD [OF answers.keep_save [OF TrueI], of "s\<lparr>saves := rs\<rparr>" st r] by (simp add: same_answers_def)
  qed (simp_all add: dom region get GetRegionId_def GetServerHost_def GetAzoneId_def GetInstanceId_def cached_meta_def
    reads_def writes_def split_beta)
qed

text \<open>
  The variable for a host of one's own is read by two providers, and the one of registered machines is asked
  first. On an ordinary machine it is then selected for good, and as it has headers for a registered machine
  only, no later request carries any header, the identifier of the instance included.
\<close>

theorem host_variable_drops_headers:
  assumes host: "st_getenv st ''ALIYUN_ASSIST_SERVER_HOST'' = h" "h \<noteq> []"
    and ordinary: "\<And>u. fst (run_state (IsHybrid st) u) = False"
    and start: "executablePath s = Some []" "selectedProvider s = None"
  shows "\<exists>s1. run_state (GetServerDomain st env) s = (Inr h, s1) \<and>
    (\<forall>t. (net_step st env)\<^sup>*\<^sup>* s1 t \<longrightarrow> fst (run_state (GetServerDomain st env) t) = Inr h
       \<and> fst (run_state (GetExtraHTTPHeaders st env) t) = Inl ErrNotProvided)"
proof -
  let ?s1 = "s\<lparr>selectedProvider := Some HybridModeProvider\<rparr>"
  have "run_state (GetServerDomain st env) s = (Inr h, ?s1)"
    using host start by (simp add: GetServerDomain_def ask_selected_def reads_def writes_def defaultAPIServerProviders_def
      external_ServerDomain_def from_program_def provisioned_def hybrid_ServerDomain_def)
  moreover have "selectedProvider t = Some HybridModeProvider" if "(net_step st env)\<^sup>*\<^sup>* ?s1 t" for t
    using that by (induction rule: rtranclp_induct) (auto intro: hybrid_stays [OF host])
  moreover have "fst (run_state (GetServerDomain st env) t) = Inr h \<and> fst (run_state (GetExtraHTTPHeaders st env) t) = Inl ErrNotProvided"
    if "selectedProvider t = Some HybridModeProvider" for t
  proof -
    obtain b u where "run_state (IsHybrid st) t = (b, u)" by fastforce
    with ordinary [of t] have "run_state (IsHybrid st) t = (False, u)" by simp
    with that host show ?thesis
      by (simp add: GetServerDomain_def ask_selected_def reads_def hybrid_ServerDomain_def GetExtraHTTPHeaders_def hybrid_ExtraHTTPHeaders_def)
  qed
  ultimately show ?thesis by blast
qed

theorem host_variable_drops_headers_witness:
  "\<exists>s1. run_state (GetServerDomain (demo_site ''my.host'') demo_env) first_net = (Inr ''my.host'', s1)
     \<and> fst (run_state (GetExtraHTTPHeaders (demo_site ''my.host'') demo_env) s1) = Inl ErrNotProvided"
proof -
  have h: "st_getenv (demo_site ''my.host'') ''ALIYUN_ASSIST_SERVER_HOST'' = ''my.host''" by (simp add: demo_site_def)
  have n: "fst (run_state (IsHybrid (demo_site ''my.host'')) u) = False" for u
    by (simp add: IsHybrid_def hybrid_file_def on_world_def CheckFileIsExist_def ask_def demo_site_def machine.truncate_def split_beta Let_def)
  have s: "executablePath first_net = Some []" "selectedProvider first_net = None" by (simp_all add: first_net_def)
  have m: "''my.host'' \<noteq> []" by simp
  show ?thesis using host_variable_drops_headers [OF h m n s] by blast
qed

end
