(* ===== verification/Hybrid_Register.thy ===== *)
theory Hybrid_Register
  imports Api_Server_Properties Api_Call Process_Cmd Task_Report
begin

text \<open>
  The registration of a machine that is not an instance of the cloud, \<open>agent/hybrid/hybrid.go\<close>: the
  request with the facts of the machine and a fresh key, the files that make the machine a registered one,
  and their removal. Keys, the version of the system and the reading of JSON are parameters; the event that
  is reported when a function returns is part of its result.
\<close>

section \<open>Data\<close>

record Tag =
  tag_Key :: string
  tag_Value :: string

record RegisterInfo =
  ri_Code :: string
  ri_MachineId :: string
  ri_RegionId :: string
  ri_InstanceName :: string
  ri_Hostname :: string
  ri_IntranetIp :: string
  ri_OsVersion :: string
  ri_OsType :: string
  ri_ClientVersion :: string
  ri_PublicKeyBase64 :: string
  ri_Id :: string
  ri_Tag :: "Tag list"

text \<open>
  What is read of the machine beside what the providers read: a new pair of keys as their texts in PEM,
  whether a text is JSON, and the code and the instance of an answer (none when it does not fit).
\<close>

record reg_site =
  rg_site :: site
  rg_hostname :: string
  rg_os_version :: string
  rg_agent_version :: string
  rg_rsa_key :: "nat \<Rightarrow> go_error + (string \<times> string)"
  rg_valid_json :: "string \<Rightarrow> bool"
  rg_register_response :: "string \<Rightarrow> (int \<times> string) option"
  rg_unregister_response :: "string \<Rightarrow> int option"

definition rg_machine :: "reg_site \<Rightarrow> machine" where
  "rg_machine rg = machine.truncate (rg_site rg)"

definition tag_json :: "Tag \<Rightarrow> string" where
  "tag_json t = json_object [(''key'', json_string (tag_Key t)), (''value'', json_string (tag_Value t))]"

text \<open>The fields in the order of the struct. A nil slice of tags would be null; the callers pass one that is not.\<close>

definition register_json :: "RegisterInfo \<Rightarrow> string" where
  "register_json i = json_object
     [(''activationCode'', json_string (ri_Code i)), (''machineId'', json_string (ri_MachineId i)),
      (''regionId'', json_string (ri_RegionId i)), (''instanceName'', json_string (ri_InstanceName i)),
      (''hostname'', json_string (ri_Hostname i)), (''intranetIp'', json_string (ri_IntranetIp i)),
      (''osVersion'', json_string (ri_OsVersion i)), (''osType'', json_string (ri_OsType i)),
      (''agentVersion'', json_string (ri_ClientVersion i)), (''publicKey'', json_string (ri_PublicKeyBase64 i)),
      (''activationId'', json_string (ri_Id i)), (''tag'', json_list (map tag_json (ri_Tag i)))]"

text \<open>The addresses of \<open>agent/util/serviceprovider.go\<close>, with the variable for a host of one's own.\<close>

definition register_service :: "site \<Rightarrow> string \<Rightarrow> string \<Rightarrow> string" where
  "register_service st region networkmode =
     GetRegisterService (if IsSelfHosted st then Some (st_getenv st ''ALIYUN_ASSIST_SERVER_HOST'') else None) region networkmode"

definition deregister_service :: "site \<Rightarrow> env \<Rightarrow> (net, string) state" where
  "deregister_service st env =
     do { host \<leftarrow> GetServerHost st env; ret_state (''https://'' @ host @ ''/luban/api/instance/deregister'') }"

text \<open>A post of the agent carries the headers of the selected provider.\<close>

definition agent_post :: "site \<Rightarrow> env \<Rightarrow> string \<Rightarrow> string \<Rightarrow> (net, string \<times> go_error option) state" where
  "agent_post st env url body =
     do { GetHTTPTransport st; GetExtraHTTPHeaders st env; on_world (HttpPost env url body) }"

section \<open>The service\<close>

definition simple_run :: "reg_site \<Rightarrow> string \<Rightarrow> string list \<Rightarrow> (net, unit) state" where
  "simple_run rg name args =
     on_world (\<lambda>w. case SyncRunSimple (rg_machine rg) name args
       NewProcessCmd w of (e, pc, w1) \<Rightarrow> ((), w1))"

definition restartService :: "reg_site \<Rightarrow> (net, unit) state" where
  "restartService rg =
     do {
       simple_run rg ''aliyun-service'' (split_on CHR '' '' ''--stop'');
       simple_run rg ''aliyun-service'' (split_on CHR '' '' ''--start'')
     }"

section \<open>Registration\<close>

text \<open>The words of the event that the deferred function reports.\<close>

definition register_words :: "bool \<Rightarrow> string \<Rightarrow> string list" where
  "register_words ok errmsg =
     [''status'', if ok then ''success'' else ''failed'', if ok then ''info'' else ''errmsg'', errmsg]"

definition write_hybrid :: "reg_site \<Rightarrow> string \<Rightarrow> string \<Rightarrow> string \<Rightarrow> (net, unit) state" where
  "write_hybrid rg path n content =
     do { on_world (WriteStringToFile (rg_machine rg) (path @ ''/'' @ n) content); ret_state () }"

definition write_registration :: "reg_site \<Rightarrow> string \<Rightarrow> string \<Rightarrow> string \<Rightarrow> string \<Rightarrow> string \<Rightarrow> string \<Rightarrow> (net, unit) state" where
  "write_registration rg networkmode pub pri region instanceId mid =
     do {
       d \<leftarrow> on_world (GetHybridPath (rg_machine rg));
       write_hybrid rg (fst d) ''network-mode'' networkmode;
       write_hybrid rg (fst d) ''pub-key'' pub;
       write_hybrid rg (fst d) ''pri-key'' pri;
       write_hybrid rg (fst d) ''region-id'' region;
       write_hybrid rg (fst d) ''instance-id'' instanceId;
       write_hybrid rg (fst d) ''machine-id'' mid
     }"

text \<open>The address of the machine in the request: Go prints a missing one as a text of its own.\<close>

definition ip_text :: "string option \<Rightarrow> string" where
  "ip_text ip = (case ip of None \<Rightarrow> ''<nil>'' | Some a \<Rightarrow> a)"

definition register_info :: "reg_site \<Rightarrow> string \<Rightarrow> string \<Rightarrow> string \<Rightarrow> string \<Rightarrow> Tag list \<Rightarrow> string \<Rightarrow> string option \<Rightarrow> string \<Rightarrow> RegisterInfo" where
  "register_info rg region code i nm tags mid ip pub =
     \<lparr>ri_Code = code, ri_MachineId = mid, ri_RegionId = region, ri_InstanceName = nm, ri_Hostname = rg_hostname rg,
       ri_IntranetIp = ip_text ip, ri_OsVersion = rg_os_version rg, ri_OsType = ''linux'',
       ri_ClientVersion = rg_agent_version rg, ri_PublicKeyBase64 = base64_encode pub, ri_Id = i, ri_Tag = tags\<rparr>"

text \<open>
  What is done with the answer. An answer that is JSON but does not fit the type of the response leaves the
  result as it was, which is success.
\<close>

definition register_answer :: "reg_site \<Rightarrow> string \<Rightarrow> string \<Rightarrow> string \<Rightarrow> string \<Rightarrow> string \<Rightarrow> string \<Rightarrow> bool \<Rightarrow> string \<Rightarrow>
    (net, bool \<times> string) state" where
  "register_answer rg url networkmode pub pri region mid need_restart response =
     do {
       r \<leftarrow> (case rg_register_response rg response of
               None \<Rightarrow> ret_state (True, 0, [])
             | Some (code, instanceId) \<Rightarrow>
                 if code = 200 then
                   do { write_registration rg networkmode pub pri region instanceId mid; ret_state (True, code, instanceId) }
                 else ret_state (False, code, instanceId));
       case r of (ok, code, instanceId) \<Rightarrow>
         if \<not> ok then ret_state (False, ''register failed, responsecode='' @ itoa code @ '', url='' @ url)
         else do {
           (if need_restart then restartService rg else ret_state ());
           ret_state (True, ''register ok, instanceid='' @ instanceId)
         }
     }"

definition Register :: "reg_site \<Rightarrow> env \<Rightarrow> string \<Rightarrow> string \<Rightarrow> string \<Rightarrow> string \<Rightarrow> string \<Rightarrow> bool \<Rightarrow> Tag list \<Rightarrow>
    (net, bool \<times> string) state" where
  "Register rg env region code i nm networkmode need_restart tags =
     do {
       hybrid \<leftarrow> IsHybrid (rg_site rg);
       if hybrid then ret_state (False, ''error, agent already register, deregister first'')
       else do {
         ip \<leftarrow> on_world (ask (st_external_ip (rg_site rg)));
         key \<leftarrow> on_world (ask (rg_rsa_key rg));
         case key of
           Inl e \<Rightarrow> ret_state (False, ''generate rsa key error: '' @ err_text e)
         | Inr (pub, pri) \<Rightarrow>
             do {
               mid \<leftarrow> GetMachineID (rg_site rg);
               let url = register_service (rg_site rg) region networkmode;
               r \<leftarrow> agent_post (rg_site rg) env url (register_json (register_info rg region code i nm tags mid ip pub));
               case r of
                 (response, Some e) \<Rightarrow> ret_state (False, ''register request err: '' @ err_text e @ '', url='' @ url)
               | (response, None) \<Rightarrow>
                   if \<not> rg_valid_json rg response
                   then ret_state (False, ''invalid task info json, url='' @ url @ '', response='' @ response)
                   else register_answer rg url networkmode pub pri region mid need_restart response
             }
       }
     }"

section \<open>Deregistration\<close>

definition remove_hybrid :: "reg_site \<Rightarrow> string \<Rightarrow> string \<Rightarrow> (net, unit) state" where
  "remove_hybrid rg path n = do { on_world (RemoveFile (rg_machine rg) (path @ ''/'' @ n)); ret_state () }"

definition clean_unregister_data :: "reg_site \<Rightarrow> bool \<Rightarrow> (net, unit) state" where
  "clean_unregister_data rg need_restart =
     do {
       d \<leftarrow> on_world (GetHybridPath (rg_machine rg));
       remove_hybrid rg (fst d) ''pub-key'';
       remove_hybrid rg (fst d) ''pri-key'';
       remove_hybrid rg (fst d) ''region-id'';
       remove_hybrid rg (fst d) ''instance-id'';
       remove_hybrid rg (fst d) ''machine-id'';
       (if need_restart then restartService rg else ret_state ())
     }"

text \<open>The message of the event, which reports a failure when it is not empty.\<close>

definition UnRegister :: "reg_site \<Rightarrow> env \<Rightarrow> bool \<Rightarrow> (net, bool \<times> string) state" where
  "UnRegister rg env need_restart =
     do {
       url \<leftarrow> deregister_service (rg_site rg) env;
       r \<leftarrow> agent_post (rg_site rg) env url [];
       let errmsg = (case snd r of None \<Rightarrow> [] | Some e \<Rightarrow> ''deregister request err: '' @ err_text e);
       let ret = (case rg_unregister_response rg (fst r) of None \<Rightarrow> True | Some c \<Rightarrow> c = 200);
       let code = (case rg_unregister_response rg (fst r) of None \<Rightarrow> 0 | Some c \<Rightarrow> c);
       if \<not> ret then ret_state (False, ''unregister failed, responsecode='' @ itoa code)
       else do { clean_unregister_data rg need_restart; ret_state (True, errmsg) }
     }"

definition unregister_words :: "string \<Rightarrow> string list" where
  "unregister_words errmsg =
     (if errmsg \<noteq> [] then [''status'', ''failed'', ''errormsg'', errmsg] else [''status'', ''success''])"

section \<open>What a registration leaves behind\<close>

text \<open>The files that were written and removed; the providers leave them alone.\<close>

definition is_file :: "effect \<Rightarrow> bool" where
  "is_file e \<longleftrightarrow> (case e of FileWritten p c \<Rightarrow> True | FileRemoved p \<Rightarrow> True | _ \<Rightarrow> False)"

lemma is_file_simps [simp]:
  "is_file (FileWritten p c)" "is_file (FileRemoved p)" "\<not> is_file (MadeDirs p)" "\<not> is_file (HttpSent m u b)"
  "\<not> is_file (ProcessStarted d n args en cr)" "\<not> is_file ProcessKilled"
  by (simp_all add: is_file_def)

definition files_of :: "net \<Rightarrow> effect list" where
  "files_of s = filter is_file (trace (nw s))"

definition same_files :: "net \<Rightarrow> net \<Rightarrow> bool" where
  "same_files s t \<longleftrightarrow> files_of t = files_of s"

interpretation files: variables_frame same_files "\<lambda>w w1. filter is_file (trace w1) = filter is_file (trace w)"
  by unfold_locales (simp_all add: same_files_def files_of_def take_provision_def)

text \<open>A program that leaves them alone in front of one that is followed.\<close>

lemma files_first:
  assumes "keeping same_files m" "\<And>x t. files_of t = files_of s \<Longrightarrow> wps (f x) Q t"
  shows "wps (State_Monad.bind m f) Q s"
proof -
  have "wps m (\<lambda>_. same_files s) s" using assms(1) by (simp add: keeping_def)
  then show ?thesis unfolding wps_bind by (rule wps_mono) (use assms(2) in \<open>simp add: same_files_def\<close>)
qed

lemma files_write:
  assumes "\<And>n p. mc_write (rg_machine rg) n p = None"
  shows "wps (write_hybrid rg path n c) (\<lambda>_ t. files_of t = files_of s @ [FileWritten (path @ ''/'' @ n) c]) s"
  by (simp add: write_hybrid_def wps_rules WriteStringToFile_def attempt_def assms files_of_def)

lemma files_remove:
  assumes "\<And>n p. mc_remove (rg_machine rg) n p = None"
  shows "wps (remove_hybrid rg path n) (\<lambda>_ t. files_of t = files_of s @ [FileRemoved (path @ ''/'' @ n)]) s"
  by (simp add: remove_hybrid_def wps_rules RemoveFile_def attempt_def assms files_of_def)

lemma simple_run_files: "filter is_file (trace (snd (snd (SyncRunSimple mc nm args pc w)))) = filter is_file (trace w)"
  by (simp add: SyncRunSimple_def prepareProcess_def ask_def start_process_def attempt_def split_beta Let_def split: option.split)

lemma keep_restart: "keeping same_files (restartService rg)"
proof -
  have "keeping same_files (simple_run rg nm args)" for nm args
    unfolding simple_run_def by (intro files.keep_on_world) (simp add: split_beta simple_run_files)
  then show ?thesis unfolding restartService_def by (intro files.keep_rules)
qed

lemma keep_restart_if: "keeping same_files (if b then restartService rg else ret_state ())"
  by (intro files.keep_rules keep_restart)

lemma restart_files: "wps (if b then restartService rg else ret_state ()) (\<lambda>_ t. files_of t = files_of u) u"
  using keep_restart_if [unfolded keeping_def same_files_def] by blast

lemma keep_post: "keeping same_files (agent_post st env url body)"
  unfolding agent_post_def by (intro files.keep_rules files.keep_transport files.keep_GetExtraHTTPHeaders)

lemma keep_machine_id: "keeping same_files (GetMachineID st)"
  unfolding GetMachineID_def by (intro files.keep_rules files.keep_hybrid_file files.keep_first_readable)

lemma keep_deregister_service: "keeping same_files (deregister_service st env)"
  unfolding deregister_service_def by (intro files.keep_rules files.keep_host) (simp_all add: same_files_def files_of_def)

text \<open>The six files of a registration, in the order in which they are written, and the five that are removed.\<close>

definition registration_files :: "string \<Rightarrow> string \<Rightarrow> string \<Rightarrow> string \<Rightarrow> string \<Rightarrow> string \<Rightarrow> string \<Rightarrow> effect list" where
  "registration_files path networkmode pub pri region instanceId mid =
     [FileWritten (path @ ''/network-mode'') networkmode, FileWritten (path @ ''/pub-key'') pub,
      FileWritten (path @ ''/pri-key'') pri, FileWritten (path @ ''/region-id'') region,
      FileWritten (path @ ''/instance-id'') instanceId, FileWritten (path @ ''/machine-id'') mid]"

definition removed_files :: "string \<Rightarrow> effect list" where
  "removed_files path = map (\<lambda>n. FileRemoved (path @ ''/'' @ n)) [''pub-key'', ''pri-key'', ''region-id'', ''instance-id'', ''machine-id'']"

lemma write_registration_files:
  assumes "\<And>n p. mc_write (rg_machine rg) n p = None"
  shows "wps (write_registration rg nm pub pri region i mid)
    (\<lambda>_ t. \<exists>path. files_of t = files_of s @ registration_files path nm pub pri region i mid) s"
  unfolding write_registration_def
  by (rule files_first [OF files.keep_on_world [OF files.W_hybrid_path]], unfold wps_bind)
    (rule wps_mono [OF files_write [OF assms]]
      | (auto simp: registration_files_def)[1])+

lemma clean_files:
  assumes "\<And>n p. mc_remove (rg_machine rg) n p = None"
  shows "wps (clean_unregister_data rg need_restart) (\<lambda>_ t. \<exists>path. files_of t = files_of s @ removed_files path) s"
  unfolding clean_unregister_data_def
  by (rule files_first [OF files.keep_on_world [OF files.W_hybrid_path]], unfold wps_bind)
    (rule wps_mono [OF files_remove [OF assms]] wps_mono [OF restart_files] | (auto simp: removed_files_def)[1])+

lemma register_answer_files:
  assumes "\<And>n p. mc_write (rg_machine rg) n p = None"
  shows "wps (register_answer rg url nm pub pri region mid nr response) (\<lambda>r t.
      (\<not> fst r \<longrightarrow> files_of t = files_of s)
    \<and> (fst r \<longrightarrow> (rg_register_response rg response = None \<and> files_of t = files_of s)
        \<or> (\<exists>i path. rg_register_response rg response = Some (200, i)
             \<and> files_of t = files_of s @ registration_files path nm pub pri region i mid))) s"
proof (cases "rg_register_response rg response")
  case None
  show ?thesis unfolding register_answer_def None option.case wps_bind wps_return prod.case
    by (simp only: simp_thms if_False wps_bind, rule wps_mono [OF restart_files], auto simp: wps_return None)
next
  case (Some p)
  obtain c i where p: "p = (c, i)" by fastforce
  show ?thesis
  proof (cases "c = 200")
    case True
    show ?thesis unfolding register_answer_def Some p True option.case prod.case wps_bind
      by (simp only: simp_thms if_True wps_return, unfold wps_bind wps_return prod.case, rule wps_mono [OF write_registration_files [OF assms]])
        (simp only: simp_thms if_False wps_bind, rule wps_mono [OF restart_files], auto simp: wps_return)
  next
    case False
    then show ?thesis unfolding register_answer_def Some p by (simp add: wps_bind wps_return)
  qed
qed

section \<open>Properties\<close>


text \<open>On a machine with a server that answers JSON of another type the registration succeeds with nothing written.\<close>

lemma register_without_answer:
  assumes ordinary: "\<And>u. fst (run_state (IsHybrid (rg_site rg)) u) = False"
    and key: "\<And>n. rg_rsa_key rg n = Inr (pub, pri)"
    and reply: "\<And>n m u b. transport env n m u b = Reply 200 c"
    and answer: "rg_valid_json rg c" "rg_register_response rg c = None"
  shows "\<exists>t. run_state (Register rg env region code i nm mode nr tags) s = ((True, ''register ok, instanceid=''), t)"
proof -
  have hybrid: "wps (IsHybrid (rg_site rg)) (\<lambda>r t. r = False) u" for u
    using ordinary [of u] by (simp add: wps_def split_beta)
  have post: "fst (HttpPost env url b w) = (c, None)" for url b w
    by (simp add: HttpPost_def send_request_def reply http_result_def)
  have sent: "wps (agent_post st env url b) (\<lambda>r t. r = (c, None)) u" for st url b u
    unfolding agent_post_def wps_bind wps_on_world by (intro wps_mono [OF true_wps]) (simp add: post)
  have "wps (register_answer rg url mode pub pri region mid nr c) (\<lambda>r t. r = (True, ''register ok, instanceid='')) u" for url mid u
    unfolding register_answer_def answer(2) option.case wps_bind wps_return prod.case
    by (simp only: simp_thms if_False wps_bind, rule wps_mono [OF true_wps]) (simp add: wps_return)
  then have "wps (Register rg env region code i nm mode nr tags) (\<lambda>r t. r = (True, ''register ok, instanceid='')) s"
    unfolding Register_def wps_bind wps_on_world Let_def
  proof (intro wps_mono [OF hybrid], goal_cases)
    case (1 h t)
    show ?case unfolding \<open>h = False\<close>
      by (simp only: if_False wps_bind wps_on_world ask_def fst_conv snd_conv key sum.case prod.case)
        (rule wps_mono [OF true_wps], unfold wps_bind, rule wps_mono [OF sent], simp add: answer(1) 1)
  qed
  then show ?thesis by (auto simp: wps_def split: prod.splits)
qed

definition demo_reg :: reg_site where
  "demo_reg = \<lparr>rg_site = demo_site [], rg_hostname = ''h'', rg_os_version = ''o'', rg_agent_version = ''1.0'',
     rg_rsa_key = (\<lambda>n. Inr (''pub'', ''pri'')), rg_valid_json = (\<lambda>t. True),
     rg_register_response = (\<lambda>t. None), rg_unregister_response = (\<lambda>t. None)\<rparr>"

definition silent_env :: "transport_reply \<Rightarrow> env" where
  "silent_env r = \<lparr>server_host = [], transport = (\<lambda>n m u b. r), clock = (\<lambda>n. 0), clock_zone = (\<lambda>n. 0), zone_name = [],
     zone_offset = (\<lambda>z t. 0)\<rparr>"

lemma demo_reg_disk: "mc_write (rg_machine demo_reg) n p = None" "mc_remove (rg_machine demo_reg) n p = None"
  by (simp_all add: demo_reg_def demo_site_def rg_machine_def machine.truncate_def)


text \<open>
  A deregistration that does not reach the server removes the registration all the same: the error is kept
  for the event only, the empty answer does not fit the type of the response, and that counts as success.
\<close>

theorem unregister_offline:
  assumes disk: "\<And>n p. mc_remove (rg_machine rg) n p = None"
    and offline: "\<And>n m u b. transport env n m u b = Failure e"
    and empty: "rg_unregister_response rg [] = None"
  shows "\<exists>t path. run_state (UnRegister rg env nr) s = ((True, ''deregister request err: '' @ err_text e), t)
    \<and> files_of t = files_of s @ removed_files path"
proof -
  have post: "fst (HttpPost env url b w) = ([], Some e)" for url b w
    by (simp add: HttpPost_def send_request_def offline)
  have sent: "wps (agent_post st env url b) (\<lambda>r t. r = ([], Some e) \<and> files_of t = files_of u) u" for st url b u
  proof -
    have "wps (agent_post st env url b) (\<lambda>r t. r = ([], Some e)) u"
      unfolding agent_post_def wps_bind wps_on_world by (intro wps_mono [OF true_wps]) (simp add: post)
    moreover have "wps (agent_post st env url b) (\<lambda>_. same_files u) u" using keep_post by (simp add: keeping_def)
    ultimately show ?thesis by (rule wps_mono [OF wps_conj]) (auto simp: same_files_def)
  qed
  have "wps (UnRegister rg env nr) (\<lambda>r t. r = (True, ''deregister request err: '' @ err_text e)
      \<and> (\<exists>path. files_of t = files_of s @ removed_files path)) s"
    unfolding UnRegister_def
  proof (rule files_first [OF keep_deregister_service], unfold wps_bind, rule wps_mono [OF sent], goal_cases)
    case (1 url u r v)
    then have v: "files_of v = files_of s" "r = ([], Some e)" by simp_all
    show ?case unfolding v(2) fst_conv snd_conv empty option.case Let_def wps_bind
      by (simp only: simp_thms if_False wps_bind, rule wps_mono [OF clean_files [OF disk]]) (simp add: v wps_return)
  qed
  then show ?thesis by (auto simp: wps_def split: prod.splits)
qed

theorem unregister_offline_witness:
  "\<exists>t path. run_state (UnRegister demo_reg (silent_env (Failure (PlainError ''down''))) True) first_net
      = ((True, ''deregister request err: '' @ err_text (PlainError ''down'')), t)
    \<and> files_of t = files_of first_net @ removed_files path"
  by (rule unregister_offline [OF demo_reg_disk(2)]) (simp_all add: silent_env_def demo_reg_def)

end
