(* ===== verification/Containers.thy ===== *)
theory Containers
  imports Host_Processor "HOL-Library.List_Lexorder" "HOL-Library.Char_ord"
begin

text \<open>
  Commands in containers: \<open>agent/taskengine/docker\<close>, \<open>agent/taskengine/cri\<close>, the choice between the
  two in \<open>agent/taskengine/container\<close>, and the listing of containers in \<open>agent/container\<close>. Both
  processors offer the functions \<open>processor_ops\<close> of a task run; the processor of a task is one of
  three, \<open>any_processor\<close>. The clients of the docker engine and of the container runtime interface
  are libraries: the record \<open>container_lib\<close> answers their calls by the number of the interaction.
\<close>

section \<open>The libraries\<close>

text \<open>
  Every call of the docker client is made under a deadline; besides its own error it is answered by
  the error of the context at its end. \<open>stream_end\<close> is what the wait for a session ends with: the
  context is done, or one of the two goroutines of the streams was first, and the copy of the output
  ended with an error or without. A container of the runtime interface may have no
  metadata, and then no name.
\<close>

record docker_container =
  dc_ID :: string
  dc_Names :: "string list"
  dc_State :: string

datatype docker_filter = AnyContainer | FilterId string | FilterName string

record exec_config =
  ec_User :: string
  ec_WorkingDir :: string
  ec_Cmd :: "string list"

datatype stream_first = StdoutReceived | StdinSent

datatype stream_end = DeadlineExceeded | ContextCanceled | Streamed stream_first "go_error option"

datatype container_state = CONTAINER_CREATED | CONTAINER_RUNNING | CONTAINER_EXITED | CONTAINER_UNKNOWN

fun state_String :: "container_state \<Rightarrow> string" where
  "state_String CONTAINER_CREATED = ''CONTAINER_CREATED''"
| "state_String CONTAINER_RUNNING = ''CONTAINER_RUNNING''"
| "state_String CONTAINER_EXITED = ''CONTAINER_EXITED''"
| "state_String CONTAINER_UNKNOWN = ''CONTAINER_UNKNOWN''"

record cri_container =
  cc_Id :: string
  cc_PodSandboxId :: string
  cc_Name :: "string option"
  cc_State :: container_state

datatype exec_error = CodeExitError int | TimeoutError go_error | OtherExecError go_error

record container_lib =
  cl_client :: "nat \<Rightarrow> go_error option"
  cl_list :: "nat \<Rightarrow> docker_filter \<Rightarrow> docker_container list \<times> go_error option \<times> go_error option"
  cl_list_all :: "nat \<Rightarrow> bool \<Rightarrow> docker_container list \<times> go_error option \<times> go_error option"
  cl_create :: "nat \<Rightarrow> string \<Rightarrow> exec_config \<Rightarrow> string \<times> go_error option \<times> go_error option"
  cl_attach :: "nat \<Rightarrow> string \<Rightarrow> go_error option \<times> go_error option"
  cl_wait :: "nat \<Rightarrow> int \<Rightarrow> stream_end"
  cl_inspect :: "nat \<Rightarrow> string \<Rightarrow> (bool \<times> int) \<times> go_error option \<times> go_error option"
  cr_connect :: "nat \<Rightarrow> string \<Rightarrow> go_error option"
  cr_containers :: "nat \<Rightarrow> string \<Rightarrow> string \<Rightarrow> go_error + cri_container list"
  cr_list_all :: "nat \<Rightarrow> string \<Rightarrow> bool \<Rightarrow> go_error + cri_container list"
  cr_sandboxes :: "nat \<Rightarrow> string \<Rightarrow> go_error + (string \<times> string option) list"
  cr_exec :: "nat \<Rightarrow> string \<Rightarrow> string \<Rightarrow> string list \<Rightarrow> int \<Rightarrow> string \<times> string \<times> exec_error option"
  cl_events :: "nat \<Rightarrow> run_event list"

text \<open>Timeouts of the server are seconds; \<open>time.Duration\<close> counts nanoseconds in 64 bits.\<close>

definition seconds :: "int \<Rightarrow> int" where
  "seconds n = wrap64 (wrap64 n * 1000000000)"

text \<open>How the answer of a call under a deadline is read, as in \<open>exec.go\<close>.\<close>

definition in_time :: "'a \<Rightarrow> go_error option \<Rightarrow> go_error option \<Rightarrow> go_error + 'a" where
  "in_time x err ctxErr =
     (case ctxErr of
        Some c \<Rightarrow> Inl (NewContainerRuntimeTimeoutError (Some (case err of Some e \<Rightarrow> e | None \<Rightarrow> c)))
      | None \<Rightarrow> (case err of Some e \<Rightarrow> Inl (NewContainerRuntimeInternalError (Some e)) | None \<Rightarrow> Inr x))"

section \<open>Docker\<close>

subsection \<open>Names\<close>

definition name_char :: "char \<Rightarrow> bool" where
  "name_char c \<longleftrightarrow> re_word c \<or> byte c = 46 \<or> byte c = 45"

fun plain_name :: "string \<Rightarrow> bool" where
  "plain_name [] \<longleftrightarrow> False"
| "plain_name (c # cs) \<longleftrightarrow> (is_digit c \<or> is_alpha c) \<and> cs \<noteq> [] \<and> list_all name_char cs"

definition containerNameValidator :: "string \<Rightarrow> bool" where
  "containerNameValidator s \<longleftrightarrow> plain_name (if take 1 s = ''/'' then drop 1 s else s)"

fun first_plain :: "string list \<Rightarrow> string option outcome" where
  "first_plain [] = Returns None"
| "first_plain ([] # ns) = Panics SliceOutOfRange"
| "first_plain ((c # n) # ns) =
     (if length (split_on CHR ''/'' n) = 1 then Returns (Some n) else first_plain ns)"

definition StripAndSelectName :: "string list \<Rightarrow> string outcome" where
  "StripAndSelectName names =
     bind_outcome (first_plain names)
       (\<lambda>r. case r of
          Some n \<Rightarrow> Returns n
        | None \<Rightarrow>
            (case names of [] \<Rightarrow> Panics IndexOutOfRange
             | [] # _ \<Rightarrow> Panics SliceOutOfRange
             | (c # n) # _ \<Rightarrow> Returns n))"

text \<open>\<open>strings.ToUpper\<close>, for the engine's words of ASCII letters.\<close>

definition upper_char :: "char \<Rightarrow> char" where
  "upper_char c = (if 97 \<le> byte c \<and> byte c \<le> 122 then char_of (byte c - 32) else c)"

definition to_upper :: "string \<Rightarrow> string" where
  "to_upper s = map upper_char s"

subsection \<open>The processor\<close>

record docker_processor =
  dp_ContainerId :: string
  dp_ContainerName :: string
  dp_CommandType :: string
  dp_CommandContent :: string
  dp_Timeout :: int
  dp_WorkingDirectory :: string
  dp_Username :: string
  dp_foundContainers :: "docker_container list"
  dp_foundContainerName :: string

definition docker_list_filter :: "docker_processor \<Rightarrow> docker_filter" where
  "docker_list_filter p =
     (if dp_ContainerId p \<noteq> [] then FilterId (dp_ContainerId p)
      else if dp_ContainerName p \<noteq> [] then FilterName (dp_ContainerName p) else AnyContainer)"

definition prefixed_name :: "string \<Rightarrow> string" where
  "prefixed_name name = (if take 1 name \<noteq> ''/'' then CHR ''/'' # name else name)"

text \<open>What follows the answer of the listing.\<close>

definition choose_container :: "docker_processor \<Rightarrow> go_error option \<times> docker_processor" where
  "choose_container p =
     (if dp_foundContainers p = [] then (Some NewContainerNotFoundError, p)
      else
        (let named = filter (\<lambda>c. prefixed_name (dp_ContainerName p) \<in> set (dc_Names c)) (dp_foundContainers p);
             both = dp_ContainerId p \<noteq> [] \<and> dp_ContainerName p \<noteq> [] in
         if both \<and> named = [] then
           (Some (NewContainerNameAndIdNotMatchError (dp_ContainerId p) (dp_ContainerName p)), p)
         else
           (let p1 = (if both then p\<lparr>dp_foundContainers := named\<rparr> else p) in
            (if length (dp_foundContainers p1) > 1 then Some NewContainerNameDuplicatedError else None, p1))))"

definition CheckDockerProcessor ::
  "container_lib \<Rightarrow> docker_processor \<Rightarrow> world \<Rightarrow> go_error option \<times> docker_processor \<times> world" where
  "CheckDockerProcessor lib p w =
     (if dp_ContainerName p \<noteq> [] \<and> \<not> containerNameValidator (dp_ContainerName p) then
        (Some NewInvalidContainerNameError, p, w)
      else
        (let (cerr, w1) = ask (cl_client lib) w in
         case cerr of
           Some e \<Rightarrow> (Some (NewContainerConnectError e), p, w1)
         | None \<Rightarrow>
             (let ((found, err, ctxErr), w2) = ask (\<lambda>n. cl_list lib n (docker_list_filter p)) w1;
                  p1 = p\<lparr>dp_foundContainers := found\<rparr> in
              case in_time () err ctxErr of
                Inl e \<Rightarrow> (Some e, p1, w2)
              | Inr _ \<Rightarrow> (let (r, p2) = choose_container p1 in (r, p2, w2)))))"

definition validation :: "go_error \<Rightarrow> string \<times> go_error option" where
  "validation e = (case validation_param e of Some (param, value) \<Rightarrow> param | None \<Rightarrow> [], Some e)"

definition docker_PreCheck ::
  "docker_processor \<Rightarrow> world \<Rightarrow> ((string \<times> go_error option) \<times> docker_processor \<times> world) outcome" where
  "docker_PreCheck p w =
     (case dp_foundContainers p of
        [] \<Rightarrow> Returns (validation NewContainerNotFoundError, p, w)
      | [c] \<Rightarrow>
          map_ret (\<lambda>name.
             let p1 = p\<lparr>dp_foundContainerName := name\<rparr>; state = to_upper (dc_State c) in
             if state \<noteq> ''RUNNING'' then (validation (NewContainerStateAbnormalError state), p1, w)
             else (([], None), p1, w))
            (StripAndSelectName (dc_Names c))
      | _ \<Rightarrow> Returns (validation NewContainerNameDuplicatedError, p, w))"

definition docker_Prepare :: "string \<Rightarrow> docker_processor \<Rightarrow> world \<Rightarrow> go_error option \<times> docker_processor \<times> world" where
  "docker_Prepare content p w = (None, p\<lparr>dp_CommandContent := content\<rparr>, w)"

subsection \<open>The run\<close>

text \<open>
  The task run passes both writers and no reader, so the session has its output attached and its
  input closed at once. \<open>streamHijacked\<close> waits for whichever of its two goroutines is first; \<open>err\<close>
  is what the copy of the output ends with.
\<close>

definition streamHijacked :: "bool \<Rightarrow> stream_first \<Rightarrow> go_error option \<Rightarrow> go_error option" where
  "streamHijacked writers first err =
     (case first of StdoutReceived \<Rightarrow> err | StdinSent \<Rightarrow> if writers then err else None)"

definition ErrInconsistentExecProcessState :: go_error where
  "ErrInconsistentExecProcessState =
     PlainError ''Exec session in the container terminated but process still running''"

definition createExec :: "container_lib \<Rightarrow> string \<Rightarrow> exec_config \<Rightarrow> world \<Rightarrow> (go_error + string) \<times> world" where
  "createExec lib container cfg w =
     (let ((execId, err, ctxErr), w1) = ask (\<lambda>n. cl_create lib n container cfg) w in (in_time execId err ctxErr, w1))"

text \<open>The command starts when the session is attached.\<close>

definition startAndAttachExec ::
  "container_lib \<Rightarrow> string \<Rightarrow> string \<Rightarrow> exec_config \<Rightarrow> world \<Rightarrow> (go_error + unit) \<times> world" where
  "startAndAttachExec lib container execId cfg w =
     (let (err, ctxErr) = cl_attach lib (ticks w) execId in
      case in_time () err ctxErr of
        Inl e \<Rightarrow> (Inl e, tick w)
      | Inr u \<Rightarrow> (Inr u, perform (ContainerExec ''docker'' container (ec_User cfg) (ec_WorkingDir cfg) (ec_Cmd cfg)) w))"

definition inspectExec :: "container_lib \<Rightarrow> string \<Rightarrow> world \<Rightarrow> (go_error + (bool \<times> int)) \<times> world" where
  "inspectExec lib execId w =
     (let ((r, err, ctxErr), w1) = ask (\<lambda>n. cl_inspect lib n execId) w in (in_time r err ctxErr, w1))"

definition maxInspectionRetries :: nat where "maxInspectionRetries = 5"

text \<open>The inspections left, one tick of the two seconds' ticker between them.\<close>

fun conclude :: "container_lib \<Rightarrow> string \<Rightarrow> nat \<Rightarrow> world \<Rightarrow> (go_error + int) \<times> world" where
  "conclude lib execId 0 w = (Inl ErrInconsistentExecProcessState, w)"
| "conclude lib execId (Suc n) w =
     (let (r, w1) = inspectExec lib execId w in
      case r of
        Inl e \<Rightarrow> (Inl e, w1)
      | Inr (running, code) \<Rightarrow>
          if \<not> running then (Inr code, w1)
          else if n = 0 then (Inl ErrInconsistentExecProcessState, w1)
          else conclude lib execId n (tick w1))"

definition no_output :: "run_event list \<Rightarrow> run_event list" where
  "no_output es = filter (\<lambda>e. case e of Wrote b \<Rightarrow> False | _ \<Rightarrow> True) es"

definition shell_command :: "string \<Rightarrow> string list" where
  "shell_command content = [''/bin/sh'', ''-c'', content]"

definition docker_exec_config :: "docker_processor \<Rightarrow> exec_config" where
  "docker_exec_config p = \<lparr>ec_User = dp_Username p, ec_WorkingDir = dp_WorkingDirectory p,
     ec_Cmd = shell_command (dp_CommandContent p)\<rparr>"

definition internal :: "go_error \<Rightarrow> int \<times> proc_status \<times> go_error option" where
  "internal e = (1, Fail, Some (NewContainerRuntimeInternalError (Some e)))"

definition inspect_end :: "container_lib \<Rightarrow> string \<Rightarrow> world \<Rightarrow> (int \<times> proc_status \<times> go_error option) \<times> world" where
  "inspect_end lib execId w =
     (let (r, w1) = conclude lib execId maxInspectionRetries w in
      case r of Inl e \<Rightarrow> (internal e, w1) | Inr code \<Rightarrow> ((code, Success, None), w1))"

text \<open>The waiting for the session, and what the processor makes of its end.\<close>

definition finish_session ::
  "container_lib \<Rightarrow> docker_processor \<Rightarrow> string \<Rightarrow> world \<Rightarrow> (int \<times> proc_status \<times> go_error option) \<times> world" where
  "finish_session lib p execId w =
     (let (fin, w1) = ask (\<lambda>n. cl_wait lib n (seconds (dp_Timeout p))) w in
      case fin of
        DeadlineExceeded \<Rightarrow> ((1, Timeout, Some (PlainError ''timeout'')), w1)
      | ContextCanceled \<Rightarrow> inspect_end lib execId w1
      | Streamed first err \<Rightarrow>
          (case streamHijacked True first err of
             Some e \<Rightarrow> (internal e, w1) | None \<Rightarrow> inspect_end lib execId w1))"

definition docker_SyncRun ::
  "container_lib \<Rightarrow> docker_processor \<Rightarrow> world \<Rightarrow>
   ((run_event list \<times> int \<times> proc_status \<times> go_error option) \<times> docker_processor \<times> world) outcome" where
  "docker_SyncRun lib p w =
     (case dp_foundContainers p of
        [] \<Rightarrow> Panics IndexOutOfRange
      | c # _ \<Rightarrow>
          (let (events, w1) = ask (cl_events lib) w; cfg = docker_exec_config p;
               (created, w2) = createExec lib (dc_ID c) cfg w1 in
           case created of
             Inl e \<Rightarrow> Returns ((no_output events, internal e), p, w2)
           | Inr execId \<Rightarrow>
               (let (attached, w3) = startAndAttachExec lib (dc_ID c) execId cfg w2 in
                case attached of
                  Inl e \<Rightarrow> Returns ((no_output events, internal e), p, w3)
                | Inr _ \<Rightarrow> (let (r, w4) = finish_session lib p execId w3 in Returns ((events, r), p, w4)))))"

definition docker_ExtraLubanParams :: "docker_processor \<Rightarrow> string" where
  "docker_ExtraLubanParams p =
     (case dp_foundContainers p of
        [c] \<Rightarrow> ''&containerId='' @ dc_ID c @ ''&containerName='' @ dp_foundContainerName p
      | _ \<Rightarrow> ''&containerId='' @ dp_ContainerId p @ ''&containerName='' @ dp_ContainerName p)"

text \<open>\<open>Cancel\<close> does not touch the session; neither do \<open>Cleanup\<close> and \<open>SideEffect\<close>.\<close>

definition no_Cancel :: "'p \<Rightarrow> world \<Rightarrow> ('p \<times> world) outcome" where
  "no_Cancel p w = Returns (p, w)"

definition no_Cleanup :: "bool \<Rightarrow> 'p \<Rightarrow> world \<Rightarrow> go_error option \<times> 'p \<times> world" where
  "no_Cleanup removeScriptFile p w = (None, p, w)"

definition no_SideEffect :: "'p \<Rightarrow> world \<Rightarrow> go_error option \<times> 'p \<times> world" where
  "no_SideEffect p w = (None, p, w)"

definition docker_ops :: "container_lib \<Rightarrow> docker_processor processor_ops" where
  "docker_ops lib = \<lparr>opPreCheck = docker_PreCheck, opPrepare = docker_Prepare, opSyncRun = docker_SyncRun lib,
     opCancel = no_Cancel, opCleanup = no_Cleanup, opSideEffect = no_SideEffect,
     opExtraLubanParams = docker_ExtraLubanParams\<rparr>"

section \<open>The container runtime interface\<close>

type_synonym runtime_endpoint = "string \<times> string"

definition PrecedentRuntimeEndpoints :: "runtime_endpoint list" where
  "PrecedentRuntimeEndpoints =
     [(''docker'', ''unix:///var/run/dockershim.sock''), (''containerd'', ''unix:///run/containerd/containerd.sock''),
      (''cri-o'', ''unix:///run/crio/crio.sock''), (''docker'', ''unix:///var/run/cri-dockerd.sock'')]"

definition RuntimeName2Endpoints :: "string \<Rightarrow> runtime_endpoint list option" where
  "RuntimeName2Endpoints =
     fold (\<lambda>e m. m(fst e \<mapsto> (case m (fst e) of None \<Rightarrow> [] | Some es \<Rightarrow> es) @ [e])) PrecedentRuntimeEndpoints Map.empty"

record cri_connection =
  cn_endpoint :: string
  cn_containerId :: string
  cn_containerName :: string

record cri_processor =
  cp_ContainerIdentifier :: string
  cp_ContainerName :: string
  cp_CommandType :: string
  cp_CommandContent :: string
  cp_Timeout :: int
  cp_runtimeEndpoints :: "runtime_endpoint list"
  cp_containerId :: string
  cp_connection :: "cri_connection option"

definition filterByName :: "string \<Rightarrow> cri_container list \<Rightarrow> cri_container list" where
  "filterByName name cs = (if name \<noteq> [] then filter (\<lambda>c. cc_Name c = Some name) cs else cs)"

definition determineContainer :: "string \<Rightarrow> cri_container list \<Rightarrow> cri_connection option \<times> go_error option" where
  "determineContainer endpoint cs =
     (if length cs > 1 then (None, Some NewContainerNameDuplicatedError)
      else
        (let c = hd cs;
             connection = \<lparr>cn_endpoint = endpoint, cn_containerId = cc_Id c,
               cn_containerName = (case cc_Name c of Some n \<Rightarrow> n | None \<Rightarrow> [])\<rparr> in
         (Some connection,
          if cc_State c \<noteq> CONTAINER_RUNNING then Some (NewContainerStateAbnormalError (state_String (cc_State c)))
          else None)))"

text \<open>The containers of one service: found by id but not by name is an error, none of them too.\<close>

datatype candidates = Mismatch | NoneFound | Candidates "cri_container list"

definition candidates :: "string \<Rightarrow> string \<Rightarrow> cri_container list \<Rightarrow> candidates" where
  "candidates containerId containerName cs =
     (let named = filterByName containerName cs in
      if containerName \<noteq> [] \<and> containerId \<noteq> [] \<and> cs \<noteq> [] \<and> named = [] then Mismatch
      else if named = [] then NoneFound else Candidates named)"

definition one_service ::
  "container_lib \<Rightarrow> string \<Rightarrow> string \<Rightarrow> string \<Rightarrow> world \<Rightarrow> (cri_connection option \<times> go_error option) \<times> world" where
  "one_service lib endpoint containerId containerName w =
     (let (err, w1) = ask (\<lambda>n. cr_connect lib n endpoint) w in
      case err of
        Some e \<Rightarrow> ((None, Some (NewContainerConnectError e)), w1)
      | None \<Rightarrow>
          (let (r, w2) = ask (\<lambda>n. cr_containers lib n endpoint containerId) w1 in
           ((case r of
               Inl e \<Rightarrow> (None, Some (NewContainerConnectError e))
             | Inr cs \<Rightarrow>
                 (case candidates containerId containerName cs of
                    Mismatch \<Rightarrow> (None, Some (NewContainerNameAndIdNotMatchError containerId containerName))
                  | NoneFound \<Rightarrow> (None, Some NewContainerNotFoundError)
                  | Candidates named \<Rightarrow>
                      (case determineContainer endpoint named of
                         (connection, Some e) \<Rightarrow> (None, Some e)
                       | (connection, None) \<Rightarrow> (connection, None)))), w2)))"

fun try_services ::
  "container_lib \<Rightarrow> runtime_endpoint list \<Rightarrow> string \<Rightarrow> string \<Rightarrow> bool \<Rightarrow> world \<Rightarrow>
   (cri_connection option \<times> go_error option) \<times> world" where
  "try_services lib [] containerId containerName available w =
     ((None, Some (if available then NewContainerNotFoundError
        else NewContainerConnectError
          (PlainError ''No available container runtime to find container for executing command''))), w)"
| "try_services lib (e # es) containerId containerName available w =
     (let (err, w1) = ask (\<lambda>n. cr_connect lib n (snd e)) w in
      if err \<noteq> None then try_services lib es containerId containerName available w1
      else
        (let (r, w2) = ask (\<lambda>n. cr_containers lib n (snd e) containerId) w1 in
         case r of
           Inl _ \<Rightarrow> try_services lib es containerId containerName available w2
         | Inr cs \<Rightarrow>
             (case candidates containerId containerName cs of
                Mismatch \<Rightarrow> ((None, Some (NewContainerNameAndIdNotMatchError containerId containerName)), w2)
              | NoneFound \<Rightarrow> try_services lib es containerId containerName True w2
              | Candidates named \<Rightarrow> (determineContainer (snd e) named, w2))))"

definition getRuntimeService ::
  "container_lib \<Rightarrow> runtime_endpoint list \<Rightarrow> string \<Rightarrow> string \<Rightarrow> world \<Rightarrow>
   (cri_connection option \<times> go_error option) \<times> world" where
  "getRuntimeService lib endpoints containerId containerName w =
     (case endpoints of
        [e] \<Rightarrow> one_service lib (snd e) containerId containerName w
      | _ \<Rightarrow> try_services lib (if endpoints = [] then PrecedentRuntimeEndpoints else endpoints)
               containerId containerName False w)"

text \<open>\<open>strings.Split(identifier, "://")\<close>.\<close>

function split_scheme :: "string \<Rightarrow> string list" where
  "split_scheme s =
     (case index_of ''://'' s of None \<Rightarrow> [s] | Some i \<Rightarrow> take i s # split_scheme (drop (i + 3) s))"
  by pat_completeness auto
termination
proof (relation "measure length")
  fix s :: string and i
  assume "index_of ''://'' s = Some i"
  then have "s \<noteq> []" by auto
  then show "(drop (i + 3) s, s) \<in> measure length" by simp
qed simp

declare split_scheme.simps [simp del]

definition cri_PreCheck ::
  "cri_processor \<Rightarrow> world \<Rightarrow> ((string \<times> go_error option) \<times> cri_processor \<times> world) outcome" where
  "cri_PreCheck p w =
     Returns
       (case split_scheme (cp_ContainerIdentifier p) of
          runtime # containerId # _ \<Rightarrow>
            if containerId = [] then (validation NewInvalidContainerIdError, p, w)
            else (case RuntimeName2Endpoints runtime of
                None \<Rightarrow> (validation NewUnsupportedContainerRuntimeError, p, w)
              | Some es \<Rightarrow> (([], None), p\<lparr>cp_runtimeEndpoints := es, cp_containerId := containerId\<rparr>, w))
        | _ \<Rightarrow> (([], None), p\<lparr>cp_runtimeEndpoints := [], cp_containerId := cp_ContainerIdentifier p\<rparr>, w))"

definition cri_Prepare ::
  "container_lib \<Rightarrow> string \<Rightarrow> cri_processor \<Rightarrow> world \<Rightarrow> go_error option \<times> cri_processor \<times> world" where
  "cri_Prepare lib content p w =
     (let ((connection, err), w1) =
            getRuntimeService lib (cp_runtimeEndpoints p) (cp_containerId p) (cp_ContainerName p) w;
          p1 = p\<lparr>cp_connection := connection\<rparr> in
      case err of Some e \<Rightarrow> (Some e, p1, w1) | None \<Rightarrow> (None, p1\<lparr>cp_CommandContent := content\<rparr>, w1))"

definition exec_result :: "exec_error option \<Rightarrow> int \<times> proc_status \<times> go_error option" where
  "exec_result r =
     (case r of
        None \<Rightarrow> (0, Success, None)
      | Some (CodeExitError code) \<Rightarrow> (code, Success, None)
      | Some (TimeoutError e) \<Rightarrow> (1, Timeout, Some e)
      | Some (OtherExecError e) \<Rightarrow> internal e)"

text \<open>The output comes at once, at the end.\<close>

definition cri_SyncRun ::
  "container_lib \<Rightarrow> cri_processor \<Rightarrow> world \<Rightarrow>
   ((run_event list \<times> int \<times> proc_status \<times> go_error option) \<times> cri_processor \<times> world) outcome" where
  "cri_SyncRun lib p w =
     (case cp_connection p of
        None \<Rightarrow> Panics NilDereference
      | Some c \<Rightarrow>
          (let command = shell_command (cp_CommandContent p);
               (events, w1) = ask (cl_events lib) w;
               (out, err, r) = cr_exec lib (ticks w1) (cn_endpoint c) (cn_containerId c) command (seconds (cp_Timeout p));
               w2 = perform (ContainerExec (cn_endpoint c) (cn_containerId c) [] [] command) w1 in
           Returns ((no_output events @ [Wrote out, Wrote err], exec_result r), p, w2)))"

definition cri_ExtraLubanParams :: "cri_processor \<Rightarrow> string" where
  "cri_ExtraLubanParams p =
     (case cp_connection p of
        None \<Rightarrow> ''&containerId='' @ cp_ContainerIdentifier p @ ''&containerName='' @ cp_ContainerName p
      | Some c \<Rightarrow> ''&containerId='' @ cn_containerId c @ ''&containerName='' @ cn_containerName c)"

definition cri_ops :: "container_lib \<Rightarrow> cri_processor processor_ops" where
  "cri_ops lib = \<lparr>opPreCheck = cri_PreCheck, opPrepare = cri_Prepare lib, opSyncRun = cri_SyncRun lib,
     opCancel = no_Cancel, opCleanup = no_Cleanup, opSideEffect = no_SideEffect,
     opExtraLubanParams = cri_ExtraLubanParams\<rparr>"

section \<open>The processor of a task\<close>

datatype any_processor = Host host_processor | Docker docker_processor | CRI cri_processor

definition new_docker_processor :: "RunTaskInfo \<Rightarrow> int \<Rightarrow> string \<Rightarrow> docker_processor" where
  "new_docker_processor info timeout containerId =
     \<lparr>dp_ContainerId = containerId, dp_ContainerName = ri_ContainerName info, dp_CommandType = ri_CommandType info,
      dp_CommandContent = [], dp_Timeout = timeout, dp_WorkingDirectory = ri_WorkingDir info,
      dp_Username = ri_Username info, dp_foundContainers = [], dp_foundContainerName = []\<rparr>"

definition new_cri_processor :: "RunTaskInfo \<Rightarrow> int \<Rightarrow> cri_processor" where
  "new_cri_processor info timeout =
     \<lparr>cp_ContainerIdentifier = ri_ContainerId info, cp_ContainerName = ri_ContainerName info,
      cp_CommandType = ri_CommandType info, cp_CommandContent = [], cp_Timeout = timeout,
      cp_runtimeEndpoints = [], cp_containerId = [], cp_connection = None\<rparr>"

text \<open>The id to look for with docker, unless the identifier names another runtime.\<close>

definition docker_candidate :: "string \<Rightarrow> string option" where
  "docker_candidate identifier =
     (case split_scheme identifier of
        [one] \<Rightarrow> Some one
      | runtime # containerId # _ \<Rightarrow> (if runtime = ''docker'' then Some containerId else None)
      | [] \<Rightarrow> None)"

definition DetectContainerProcessor ::
  "container_lib \<Rightarrow> RunTaskInfo \<Rightarrow> int \<Rightarrow> world \<Rightarrow> any_processor \<times> world" where
  "DetectContainerProcessor lib info timeout w =
     (case docker_candidate (ri_ContainerId info) of
        None \<Rightarrow> (CRI (new_cri_processor info timeout), w)
      | Some containerId \<Rightarrow>
          (let (err, p, w1) = CheckDockerProcessor lib (new_docker_processor info timeout containerId) w in
           (case err of None \<Rightarrow> Docker p | Some _ \<Rightarrow> CRI (new_cri_processor info timeout), w1)))"

text \<open>
  The functions of whichever processor a task has. \<open>lift_check\<close> and its companions put a result
  back under its constructor.
\<close>

definition lift_outcome :: "('p \<Rightarrow> any_processor) \<Rightarrow> ('a \<times> 'p \<times> world) outcome \<Rightarrow> ('a \<times> any_processor \<times> world) outcome" where
  "lift_outcome K = map_ret (\<lambda>(a, p, w). (a, K p, w))"

definition lift_result :: "('p \<Rightarrow> any_processor) \<Rightarrow> 'a \<times> 'p \<times> world \<Rightarrow> 'a \<times> any_processor \<times> world" where
  "lift_result K = (\<lambda>(a, p, w). (a, K p, w))"

definition lift_cancel :: "('p \<Rightarrow> any_processor) \<Rightarrow> ('p \<times> world) outcome \<Rightarrow> (any_processor \<times> world) outcome" where
  "lift_cancel K = map_ret (\<lambda>(p, w). (K p, w))"

definition any_ops :: "machine \<Rightarrow> container_lib \<Rightarrow> any_processor processor_ops" where
  "any_ops mc lib =
     \<lparr>opPreCheck = (\<lambda>p w. case p of
          Host h \<Rightarrow> lift_outcome Host (opPreCheck (host_ops mc) h w)
        | Docker d \<Rightarrow> lift_outcome Docker (opPreCheck (docker_ops lib) d w)
        | CRI c \<Rightarrow> lift_outcome CRI (opPreCheck (cri_ops lib) c w)),
      opPrepare = (\<lambda>content p w. case p of
          Host h \<Rightarrow> lift_result Host (opPrepare (host_ops mc) content h w)
        | Docker d \<Rightarrow> lift_result Docker (opPrepare (docker_ops lib) content d w)
        | CRI c \<Rightarrow> lift_result CRI (opPrepare (cri_ops lib) content c w)),
      opSyncRun = (\<lambda>p w. case p of
          Host h \<Rightarrow> lift_outcome Host (opSyncRun (host_ops mc) h w)
        | Docker d \<Rightarrow> lift_outcome Docker (opSyncRun (docker_ops lib) d w)
        | CRI c \<Rightarrow> lift_outcome CRI (opSyncRun (cri_ops lib) c w)),
      opCancel = (\<lambda>p w. case p of
          Host h \<Rightarrow> lift_cancel Host (opCancel (host_ops mc) h w)
        | Docker d \<Rightarrow> lift_cancel Docker (opCancel (docker_ops lib) d w)
        | CRI c \<Rightarrow> lift_cancel CRI (opCancel (cri_ops lib) c w)),
      opCleanup = (\<lambda>b p w. case p of
          Host h \<Rightarrow> lift_result Host (opCleanup (host_ops mc) b h w)
        | Docker d \<Rightarrow> lift_result Docker (opCleanup (docker_ops lib) b d w)
        | CRI c \<Rightarrow> lift_result CRI (opCleanup (cri_ops lib) b c w)),
      opSideEffect = (\<lambda>p w. case p of
          Host h \<Rightarrow> lift_result Host (opSideEffect (host_ops mc) h w)
        | Docker d \<Rightarrow> lift_result Docker (opSideEffect (docker_ops lib) d w)
        | CRI c \<Rightarrow> lift_result CRI (opSideEffect (cri_ops lib) c w)),
      opExtraLubanParams = (\<lambda>p. case p of
          Host h \<Rightarrow> opExtraLubanParams (host_ops mc) h
        | Docker d \<Rightarrow> opExtraLubanParams (docker_ops lib) d
        | CRI c \<Rightarrow> opExtraLubanParams (cri_ops lib) c)\<rparr>"

text \<open>A new task; the containers are looked up in the world it is made in.\<close>

definition new_any_task :: "container_lib \<Rightarrow> RunTaskInfo \<Rightarrow> string option \<Rightarrow> bool \<Rightarrow> world \<Rightarrow> any_processor task" where
  "new_any_task lib info location onFinish w =
     NewTask (\<lambda>i timeout. fst (DetectContainerProcessor lib i timeout w)) (\<lambda>i timeout. Host (new_host_processor i timeout))
       info location onFinish"

section \<open>Listing containers\<close>

datatype data_source = ViaCRI | ViaDocker

record container =
  ct_Id :: string
  ct_Name :: string
  ct_PodId :: string
  ct_PodName :: string
  ct_RuntimeName :: string
  ct_State :: string
  ct_DataSource :: data_source

fun docker_containers :: "docker_container list \<Rightarrow> container list outcome" where
  "docker_containers [] = Returns []"
| "docker_containers (c # cs) =
     bind_outcome (if dc_Names c = [] then Returns [] else StripAndSelectName (dc_Names c))
       (\<lambda>name. map_ret (\<lambda>rest. \<lparr>ct_Id = dc_ID c, ct_Name = name, ct_PodId = [], ct_PodName = [],
            ct_RuntimeName = ''docker'', ct_State = to_upper (dc_State c), ct_DataSource = ViaDocker\<rparr> # rest)
          (docker_containers cs))"

definition docker_ListContainers ::
  "container_lib \<Rightarrow> bool \<Rightarrow> world \<Rightarrow> (container list \<times> go_error option) outcome \<times> world" where
  "docker_ListContainers lib showAll w =
     (let (cerr, w1) = ask (cl_client lib) w in
      case cerr of
        Some e \<Rightarrow> (Returns ([], Some e), w1)
      | None \<Rightarrow>
          (let ((found, err, ctxErr), w2) = ask (\<lambda>n. cl_list_all lib n showAll) w1 in
           (case ctxErr of
              Some c \<Rightarrow> Returns ([], Some (case err of Some e \<Rightarrow> WrappedError [] c ('': '' @ err_text e) | None \<Rightarrow> c))
            | None \<Rightarrow>
                (case err of Some e \<Rightarrow> Returns ([], Some e)
                 | None \<Rightarrow> map_ret (\<lambda>cs. (cs, None)) (docker_containers found)), w2)))"

definition pod_names :: "(string \<times> string option) list \<Rightarrow> string \<Rightarrow> string option" where
  "pod_names sandboxes = fold (\<lambda>(k, name) m. case name of Some n \<Rightarrow> if n \<noteq> [] then m(k \<mapsto> n) else m | None \<Rightarrow> m)
     sandboxes Map.empty"

definition containerState2String :: "container_state \<Rightarrow> string" where
  "containerState2String s = (case strip_prefix ''CONTAINER_'' (state_String s) of Some r \<Rightarrow> r | None \<Rightarrow> state_String s)"

definition cri_entry :: "string \<Rightarrow> (string \<Rightarrow> string option) \<Rightarrow> cri_container \<Rightarrow> container" where
  "cri_entry runtimeName pods c =
     \<lparr>ct_Id = cc_Id c, ct_Name = (case cc_Name c of Some n \<Rightarrow> n | None \<Rightarrow> []), ct_PodId = cc_PodSandboxId c,
      ct_PodName = (case pods (cc_PodSandboxId c) of Some n \<Rightarrow> n | None \<Rightarrow> []), ct_RuntimeName = runtimeName,
      ct_State = containerState2String (cc_State c), ct_DataSource = ViaCRI\<rparr>"

definition listCRIContainers ::
  "container_lib \<Rightarrow> string \<Rightarrow> string \<Rightarrow> bool \<Rightarrow> world \<Rightarrow> (go_error + container list) \<times> world" where
  "listCRIContainers lib endpoint runtimeName showAll w =
     (let (sb, w1) = ask (\<lambda>n. cr_sandboxes lib n endpoint) w in
      case sb of
        Inl e \<Rightarrow> (Inl e, w1)
      | Inr sandboxes \<Rightarrow>
          (let (r, w2) = ask (\<lambda>n. cr_list_all lib n endpoint showAll) w1 in
           (map_sum id (map (cri_entry runtimeName (pod_names sandboxes))) r, w2)))"

text \<open>The first endpoint of a runtime that answers, its containers sorted by id.\<close>

fun list_runtime :: "container_lib \<Rightarrow> bool \<Rightarrow> runtime_endpoint list \<Rightarrow> world \<Rightarrow> container list \<times> world" where
  "list_runtime lib showAll [] w = ([], w)"
| "list_runtime lib showAll (e # es) w =
     (let (err, w1) = ask (\<lambda>n. cr_connect lib n (snd e)) w in
      if err \<noteq> None then list_runtime lib showAll es w1
      else
        (let (r, w2) = listCRIContainers lib (snd e) (fst e) showAll w1 in
         case r of Inl _ \<Rightarrow> list_runtime lib showAll es w2 | Inr cs \<Rightarrow> (sort_key ct_Id cs, w2)))"

text \<open>The slice of names is made with as many empty names as there are runtimes.\<close>

definition uniqueRuntimeNames :: "string list" where
  "uniqueRuntimeNames =
     (let names = remdups (map fst PrecedentRuntimeEndpoints) in sort (replicate (length names) [] @ names))"

fun list_runtimes :: "container_lib \<Rightarrow> bool \<Rightarrow> string list \<Rightarrow> world \<Rightarrow> container list \<times> world" where
  "list_runtimes lib showAll [] w = ([], w)"
| "list_runtimes lib showAll (r # rs) w =
     (let (cs, w1) = list_runtime lib showAll (case RuntimeName2Endpoints r of None \<Rightarrow> [] | Some es \<Rightarrow> es) w;
          (ds, w2) = list_runtimes lib showAll rs w1 in (cs @ ds, w2))"

definition cri_ListContainers :: "container_lib \<Rightarrow> bool \<Rightarrow> world \<Rightarrow> container list \<times> world" where
  "cri_ListContainers lib showAll w = list_runtimes lib showAll uniqueRuntimeNames w"

fun unique_containers :: "string list \<Rightarrow> container list \<Rightarrow> container list" where
  "unique_containers seen [] = []"
| "unique_containers seen (c # cs) =
     (if ct_Id c \<in> set seen then unique_containers seen cs else c # unique_containers (ct_Id c # seen) cs)"

definition ListContainers ::
  "container_lib \<Rightarrow> string \<Rightarrow> bool \<Rightarrow> world \<Rightarrow> (container list \<times> go_error option) outcome \<times> world" where
  "ListContainers lib dataSourceName showAll w =
     (let (fromCRI, w1) =
            (if dataSourceName = ''all'' \<or> dataSourceName = ''cri'' then cri_ListContainers lib showAll w else ([], w));
          (fromDocker, w2) =
            (if dataSourceName = ''all'' \<or> dataSourceName = ''docker'' then docker_ListContainers lib showAll w1
             else (Returns ([], None), w1)) in
      (map_ret (\<lambda>(ds, err). (unique_containers [] (fromCRI @ ds), err)) fromDocker, w2))"

end
