(* ===== verification/Container_Properties.thy ===== *)
theory Container_Properties
  imports Containers
begin

text \<open>
  The processors of containers keep the contract of a task run, and so does the processor of any
  task, whichever it is: the theorems on runs hold for all of them. What a run executes, where, and
  as whom is read off the trace: its \<open>execs\<close>.
\<close>

section \<open>The contract of a task run\<close>

lemma quiet_same [simp]: "trace w' = trace w \<Longrightarrow> quiet w w'"
  by (auto simp: quiet_def)

declare trace_ask [simp]

lemma trace_one_service [simp]: "trace (snd (one_service lib e i n w)) = trace w"
  by (simp add: one_service_def ask_def split: option.split)

lemma trace_try_services [simp]: "trace (snd (try_services lib es i n a w)) = trace w"
  by (induction lib es i n a w rule: try_services.induct)
    (auto simp: ask_def Let_def split: sum.split candidates.split)

lemma trace_getRuntimeService [simp]: "trace (snd (getRuntimeService lib es i n w)) = trace w"
  by (simp add: getRuntimeService_def del: try_services.simps split: list.split)

lemma trace_conclude [simp]: "trace (snd (conclude lib x n w)) = trace w"
  by (induction lib x n w rule: conclude.induct)
    (auto simp: inspectExec_def ask_def Let_def split: prod.split sum.split)

lemma trace_inspect_end [simp]: "trace (snd (inspect_end lib x w)) = trace w"
  using trace_conclude [of lib x maxInspectionRetries w]
  by (auto simp: inspect_end_def Let_def split: prod.split sum.split simp del: trace_conclude)

lemma trace_finish_session [simp]: "trace (snd (finish_session lib p x w)) = trace w"
  by (auto simp: finish_session_def ask_def Let_def split: stream_end.split option.split)

text \<open>What a run adds to the trace: nothing, or the one command.\<close>

lemma docker_SyncRun_trace:
  assumes "docker_SyncRun lib p w = Returns (r, p', w')"
  obtains c cs where "dp_foundContainers p = c # cs" "p' = p"
    "trace w' = trace w \<or> trace w' = trace w @ [ContainerExec ''docker'' (dc_ID c) (dp_Username p)
       (dp_WorkingDirectory p) (shell_command (dp_CommandContent p))]"
proof (cases "dp_foundContainers p")
  case Nil
  with assms show ?thesis by (simp add: docker_SyncRun_def)
next
  case (Cons c cs)
  have fin: "trace w2 = trace w1" if "finish_session lib q x w1 = (s, w2)" for q x w1 s w2
    using that trace_finish_session [of lib q x w1] by simp
  show ?thesis
    by (rule that [OF Cons])
      (use assms Cons in \<open>auto simp: docker_SyncRun_def createExec_def startAndAttachExec_def ask_def docker_exec_config_def
         Let_def dest!: fin split: prod.splits sum.splits\<close>)
qed

lemma docker_ops_simps [simp]:
  "opPreCheck (docker_ops lib) = docker_PreCheck" "opPrepare (docker_ops lib) = docker_Prepare"
  "opSyncRun (docker_ops lib) = docker_SyncRun lib" "opCancel (docker_ops lib) = no_Cancel"
  "opCleanup (docker_ops lib) = no_Cleanup" "opSideEffect (docker_ops lib) = no_SideEffect"
  by (simp_all add: docker_ops_def)

lemma cri_ops_simps [simp]:
  "opPreCheck (cri_ops lib) = cri_PreCheck" "opPrepare (cri_ops lib) = cri_Prepare lib"
  "opSyncRun (cri_ops lib) = cri_SyncRun lib" "opCancel (cri_ops lib) = no_Cancel"
  "opCleanup (cri_ops lib) = no_Cleanup" "opSideEffect (cri_ops lib) = no_SideEffect"
  by (simp_all add: cri_ops_def)

lemma no_ops_simps [simp]:
  "no_Cancel p w = Returns (p, w)" "no_Cleanup b p w = (None, p, w)" "no_SideEffect p w = (None, p, w)"
  by (simp_all add: no_Cancel_def no_Cleanup_def no_SideEffect_def)

lemma docker_PreCheck_world: "docker_PreCheck p w = Returns (c, p', w') \<Longrightarrow> w' = w"
  by (auto simp: docker_PreCheck_def Let_def split: list.splits if_splits)

lemma cri_PreCheck_world: "cri_PreCheck p w = Returns (c, p', w') \<Longrightarrow> w' = w"
  by (auto simp: cri_PreCheck_def split: list.splits if_splits option.splits)

lemma cri_Prepare_trace: "trace (snd (snd (cri_Prepare lib content p w))) = trace w"
proof -
  obtain c err w1 where "getRuntimeService lib (cp_runtimeEndpoints p) (cp_containerId p) (cp_ContainerName p) w = ((c, err), w1)"
    by (metis surj_pair)
  then show ?thesis
    using trace_getRuntimeService [of lib "cp_runtimeEndpoints p" "cp_containerId p" "cp_ContainerName p" w]
    by (simp add: cri_Prepare_def Let_def split: option.split)
qed

lemma cri_SyncRun_trace:
  assumes "cri_SyncRun lib p w = Returns (r, p', w')"
  obtains c where "cp_connection p = Some c" "p' = p"
    "trace w' = trace w @ [ContainerExec (cn_endpoint c) (cn_containerId c) [] [] (shell_command (cp_CommandContent p))]"
  using assms by (auto simp: cri_SyncRun_def ask_def Let_def split: option.splits prod.splits)

interpretation docker: task_processor "docker_ops lib" "\<lambda>_. True" for lib
proof (unfold_locales, goal_cases)
  case (3 p w r p' w')
  then show ?case by (auto simp: quiet_def elim!: docker_SyncRun_trace)
qed (auto simp: docker_Prepare_def dest: docker_PreCheck_world)

interpretation cri: task_processor "cri_ops lib" "\<lambda>_. True" for lib
proof (unfold_locales, goal_cases)
  case (2 w content p)
  then show ?case by (simp add: cri_Prepare_trace)
next
  case (3 p w r p' w')
  then show ?case by (auto simp: quiet_def elim!: cri_SyncRun_trace)
qed (auto dest: cri_PreCheck_world)

definition any_cancel_safe :: "any_processor \<Rightarrow> bool" where
  "any_cancel_safe p = (case p of Host h \<Rightarrow> host_cancel_safe h | _ \<Rightarrow> True)"

lemma any_ops_simps:
  "opPreCheck (any_ops mc lib) (Host h) w = lift_outcome Host (host_PreCheck mc h w)"
  "opPreCheck (any_ops mc lib) (Docker d) w = lift_outcome Docker (docker_PreCheck d w)"
  "opPreCheck (any_ops mc lib) (CRI c) w = lift_outcome CRI (cri_PreCheck c w)"
  "opPrepare (any_ops mc lib) s (Host h) w = lift_result Host (host_Prepare mc s h w)"
  "opPrepare (any_ops mc lib) s (Docker d) w = lift_result Docker (docker_Prepare s d w)"
  "opPrepare (any_ops mc lib) s (CRI c) w = lift_result CRI (cri_Prepare lib s c w)"
  "opSyncRun (any_ops mc lib) (Host h) w = lift_outcome Host (host_SyncRun mc h w)"
  "opSyncRun (any_ops mc lib) (Docker d) w = lift_outcome Docker (docker_SyncRun lib d w)"
  "opSyncRun (any_ops mc lib) (CRI c) w = lift_outcome CRI (cri_SyncRun lib c w)"
  "opCancel (any_ops mc lib) (Host h) w = lift_cancel Host (host_Cancel h w)"
  "opCancel (any_ops mc lib) (Docker d) w = Returns (Docker d, w)"
  "opCancel (any_ops mc lib) (CRI c) w = Returns (CRI c, w)"
  "opCleanup (any_ops mc lib) b (Host h) w = lift_result Host (host_Cleanup mc b h w)"
  "opCleanup (any_ops mc lib) b (Docker d) w = (None, Docker d, w)"
  "opCleanup (any_ops mc lib) b (CRI c) w = (None, CRI c, w)"
  "opSideEffect (any_ops mc lib) (Host h) w = lift_result Host (host_SideEffect h w)"
  "opSideEffect (any_ops mc lib) (Docker d) w = (None, Docker d, w)"
  "opSideEffect (any_ops mc lib) (CRI c) w = (None, CRI c, w)"
  by (simp_all add: any_ops_def lift_cancel_def lift_result_def)

lemma lift_outcome_Returns [simp]: "lift_outcome K m = Returns (r, q, w) \<longleftrightarrow> (\<exists>p. m = Returns (r, p, w) \<and> q = K p)"
  by (auto simp: lift_outcome_def)

lemma lift_outcome_Panics [simp]: "lift_outcome K m = Panics x \<longleftrightarrow> m = Panics x"
  by (cases m) (auto simp: lift_outcome_def)

lemma lift_cancel_Returns [simp]: "lift_cancel K m = Returns (q, w) \<longleftrightarrow> (\<exists>p. m = Returns (p, w) \<and> q = K p)"
  by (auto simp: lift_cancel_def)

lemma lift_result_world [simp]: "snd (snd (lift_result K y)) = snd (snd y)"
  by (simp add: lift_result_def split_beta)

interpretation anyp: task_processor "any_ops mc lib" any_cancel_safe for mc lib
proof (unfold_locales, goal_cases)
  case (1 p w c p' w')
  then show ?case
    by (cases p) (auto simp: any_ops_simps dest: host.quiet_PreCheck [simplified] docker.quiet_PreCheck [simplified]
        cri.quiet_PreCheck [simplified])
next
  case (2 w content p)
  show ?case
    using host.quiet_Prepare docker.quiet_Prepare cri.quiet_Prepare by (cases p) (simp_all add: any_ops_simps)
next
  case (3 p w r p' w')
  then show ?case
    by (cases p) (auto simp: any_ops_simps dest: host.quiet_SyncRun [simplified] docker.quiet_SyncRun [simplified]
        cri.quiet_SyncRun [simplified])
next
  case (4 p w p' w')
  then show ?case by (cases p) (auto simp: any_ops_simps dest: host.quiet_Cancel [simplified])
next
  case (5 p w)
  show ?case
  proof (cases p)
    case (Host h)
    with 5 obtain h' w' where "host_Cancel h w = Returns (h', w')" "host_cancel_safe h'"
      using host.Cancel_returns [where p = h and w = w] by (auto simp: any_cancel_safe_def)
    then have "opCancel (any_ops mc lib) p w = Returns (Host h', w') \<and> any_cancel_safe (Host h')"
      using Host by (simp add: any_ops_simps any_cancel_safe_def)
    then show ?thesis by blast
  qed (simp_all add: any_ops_simps any_cancel_safe_def)
next
  case (6 w b p)
  show ?case using host.quiet_Cleanup by (cases p) (simp_all add: any_ops_simps)
next
  case (7 w p)
  show ?case using host.quiet_SideEffect by (cases p) (simp_all add: any_ops_simps)
qed

section \<open>Which container a command runs in\<close>

text \<open>The one container that the engine lists for the task, or that a service of the runtime lists.\<close>

definition chosen_by_docker :: "container_lib \<Rightarrow> RunTaskInfo \<Rightarrow> docker_container \<Rightarrow> bool" where
  "chosen_by_docker lib info c \<longleftrightarrow>
     (\<exists>k i found. docker_candidate (ri_ContainerId info) = Some i
        \<and> cl_list lib k (docker_list_filter (new_docker_processor info 0 i)) = (found, None, None)
        \<and> (if i \<noteq> [] \<and> ri_ContainerName info \<noteq> []
            then filter (\<lambda>d. prefixed_name (ri_ContainerName info) \<in> set (dc_Names d)) found else found) = [c]
        \<and> to_upper (dc_State c) = ''RUNNING'')"

definition cri_target :: "string \<Rightarrow> runtime_endpoint list \<times> string" where
  "cri_target identifier =
     (case split_scheme identifier of
        runtime # i # _ \<Rightarrow> (case RuntimeName2Endpoints runtime of Some es \<Rightarrow> es | None \<Rightarrow> [], i)
      | _ \<Rightarrow> (PrecedentRuntimeEndpoints, identifier))"

definition chosen_by_cri :: "container_lib \<Rightarrow> RunTaskInfo \<Rightarrow> string \<Rightarrow> cri_container \<Rightarrow> bool" where
  "chosen_by_cri lib info endpoint c \<longleftrightarrow>
     (\<exists>k es i cs. cri_target (ri_ContainerId info) = (es, i) \<and> endpoint \<in> snd ` set es
        \<and> cr_containers lib k endpoint i = Inr cs \<and> filterByName (ri_ContainerName info) cs = [c]
        \<and> cc_State c = CONTAINER_RUNNING)"

lemma choose_container_found:
  assumes "choose_container p = (None, p')"
  obtains c where "dp_foundContainers p' = [c]" "p' = p\<lparr>dp_foundContainers := [c]\<rparr>"
    "(if dp_ContainerId p \<noteq> [] \<and> dp_ContainerName p \<noteq> []
      then filter (\<lambda>d. prefixed_name (dp_ContainerName p) \<in> set (dc_Names d)) (dp_foundContainers p)
      else dp_foundContainers p) = [c]"
proof -
  let ?named = "filter (\<lambda>d. prefixed_name (dp_ContainerName p) \<in> set (dc_Names d)) (dp_foundContainers p)"
  let ?cs = "if dp_ContainerId p \<noteq> [] \<and> dp_ContainerName p \<noteq> [] then ?named else dp_foundContainers p"
  have "?cs \<noteq> []" "\<not> length ?cs > 1" "p' = p\<lparr>dp_foundContainers := ?cs\<rparr>"
    using assms by (auto simp: choose_container_def Let_def split: if_splits)
  then obtain c where "?cs = [c]" by (cases ?cs) auto
  with \<open>p' = _\<close> show ?thesis using that [of c] by simp
qed

lemma detect_docker:
  assumes "DetectContainerProcessor lib info timeout w = (Docker p, w')"
  obtains i c found k where "docker_candidate (ri_ContainerId info) = Some i"
    "cl_list lib k (docker_list_filter (new_docker_processor info 0 i)) = (found, None, None)"
    "(if i \<noteq> [] \<and> ri_ContainerName info \<noteq> []
      then filter (\<lambda>d. prefixed_name (ri_ContainerName info) \<in> set (dc_Names d)) found else found) = [c]"
    "p = (new_docker_processor info timeout i)\<lparr>dp_foundContainers := [c]\<rparr>"
proof -
  obtain i where i: "docker_candidate (ri_ContainerId info) = Some i"
    "CheckDockerProcessor lib (new_docker_processor info timeout i) w = (None, p, w')"
    using assms by (auto simp: DetectContainerProcessor_def split: option.splits prod.splits)
  let ?p = "new_docker_processor info timeout i"
  have same: "docker_list_filter ?p = docker_list_filter (new_docker_processor info 0 i)"
    by (simp add: docker_list_filter_def new_docker_processor_def)
  obtain k found where k: "cl_list lib k (docker_list_filter ?p) = (found, None, None)"
    "choose_container (?p\<lparr>dp_foundContainers := found\<rparr>) = (None, p)"
    using i(2) by (auto simp: CheckDockerProcessor_def ask_def in_time_def Let_def split: if_splits option.splits prod.splits)
  have sel: "dp_ContainerId (?p\<lparr>dp_foundContainers := found\<rparr>) = i"
    "dp_ContainerName (?p\<lparr>dp_foundContainers := found\<rparr>) = ri_ContainerName info"
    "dp_foundContainers (?p\<lparr>dp_foundContainers := found\<rparr>) = found"
    by (simp_all add: new_docker_processor_def)
  obtain c where "p = (?p\<lparr>dp_foundContainers := found\<rparr>)\<lparr>dp_foundContainers := [c]\<rparr>"
    "(if i \<noteq> [] \<and> ri_ContainerName info \<noteq> []
      then filter (\<lambda>d. prefixed_name (ri_ContainerName info) \<in> set (dc_Names d)) found else found) = [c]"
    by (rule choose_container_found [OF k(2), unfolded sel])
  with i(1) k(1) same show ?thesis using that by simp
qed

lemma candidates_found: "candidates i n cs = Candidates named \<Longrightarrow> named \<noteq> [] \<and> filterByName n cs = named"
  by (auto simp: candidates_def Let_def split: if_splits)

lemma determineContainer_found:
  assumes "determineContainer e cs = (conn, None)" "cs \<noteq> []"
  obtains c where "cs = [c]" "cc_State c = CONTAINER_RUNNING" "\<exists>n. conn = Some \<lparr>cn_endpoint = e, cn_containerId = cc_Id c, cn_containerName = n\<rparr>"
  using assms by (cases cs) (auto simp: determineContainer_def Let_def split: if_splits list.splits)

text \<open>What a connection stands for.\<close>

definition connected :: "container_lib \<Rightarrow> runtime_endpoint list \<Rightarrow> string \<Rightarrow> string \<Rightarrow> cri_connection \<Rightarrow> bool" where
  "connected lib es i n conn \<longleftrightarrow>
     (\<exists>k c cs. cn_endpoint conn \<in> snd ` set es \<and> cr_containers lib k (cn_endpoint conn) i = Inr cs
        \<and> filterByName n cs = [c] \<and> cc_State c = CONTAINER_RUNNING \<and> cn_containerId conn = cc_Id c)"

lemma connectedI:
  assumes "determineContainer e named = (conn, None)" "candidates i n cs = Candidates named"
    "cr_containers lib k e i = Inr cs" "e \<in> snd ` set es"
  shows "\<exists>cn. conn = Some cn \<and> connected lib es i n cn"
proof -
  from candidates_found [OF assms(2)] have "named \<noteq> []" "filterByName n cs = named" by simp_all
  with determineContainer_found [OF assms(1)] obtain c m where
    "filterByName n cs = [c]" "cc_State c = CONTAINER_RUNNING"
    "conn = Some \<lparr>cn_endpoint = e, cn_containerId = cc_Id c, cn_containerName = m\<rparr>" by metis
  with assms(3,4) show ?thesis unfolding connected_def by auto
qed

lemma connected_mono: "connected lib es i n cn \<Longrightarrow> set es \<subseteq> set fs \<Longrightarrow> connected lib fs i n cn"
  unfolding connected_def by blast

lemma one_service_connected:
  assumes "one_service lib e i n w = ((conn, None), w')"
  shows "\<exists>cn. conn = Some cn \<and> connected lib [(r, e)] i n cn"
proof -
  obtain cs named where "cr_containers lib (Suc (ticks w)) e i = Inr cs" "candidates i n cs = Candidates named"
    "determineContainer e named = (conn, None)"
    using assms by (auto simp: one_service_def ask_def split: option.splits sum.splits candidates.splits prod.splits)
  then show ?thesis by (intro connectedI [where e = e]) auto
qed

lemma try_services_connected:
  "try_services lib es i n a w = ((conn, None), w') \<Longrightarrow> \<exists>cn. conn = Some cn \<and> connected lib es i n cn"
proof (induction lib es i n a w rule: try_services.induct)
  case (2 lib e es i n a w)
  obtain err w1 where c: "ask (\<lambda>n. cr_connect lib n (snd e)) w = (err, w1)" by (metis surj_pair)
  obtain r w2 where l: "ask (\<lambda>n. cr_containers lib n (snd e) i) w1 = (r, w2)" by (metis surj_pair)
  have later: "\<exists>cn. conn = Some cn \<and> connected lib es i n cn \<Longrightarrow> ?case"
    using connected_mono [of lib es i n _ "e # es"] by auto
  show ?case
  proof (cases "err = None")
    case False
    with 2 c show ?thesis by (intro later) simp
  next
    case True
    show ?thesis
    proof (cases r)
      case (Inl x)
      with 2 c l True show ?thesis by (intro later) simp
    next
      case (Inr cs)
      then have cs: "cr_containers lib (ticks w1) (snd e) i = Inr cs" using l by (simp add: ask_def)
      show ?thesis
      proof (cases "candidates i n cs")
        case (Candidates named)
        with 2(4) c l True Inr have "determineContainer (snd e) named = (conn, None)" by simp
        then show ?thesis by (rule connectedI [OF _ Candidates cs]) simp
      next
        case NoneFound
        with 2 c l True Inr show ?thesis by (intro later) simp
      qed (use 2 c l True Inr in simp)
    qed
  qed
qed simp

lemma getRuntimeService_connected:
  assumes "getRuntimeService lib es i n w = ((conn, None), w')"
  shows "\<exists>cn. conn = Some cn \<and> connected lib (if es = [] then PrecedentRuntimeEndpoints else es) i n cn"
proof (cases "\<exists>e. es = [e]")
  case True
  then obtain e where e: "es = [e]" by blast
  with assms have "one_service lib (snd e) i n w = ((conn, None), w')" by (simp add: getRuntimeService_def)
  from one_service_connected [OF this, of "fst e"] e show ?thesis by simp
next
  case False
  then have "getRuntimeService lib es i n w = try_services lib (if es = [] then PrecedentRuntimeEndpoints else es) i n False w"
    by (simp add: getRuntimeService_def split: list.split del: try_services.simps)
  with assms show ?thesis by (intro try_services_connected) simp
qed

lemma endpoints_of_runtime: "RuntimeName2Endpoints r = Some es \<Longrightarrow> es \<noteq> []"
  by (auto simp: RuntimeName2Endpoints_def PrecedentRuntimeEndpoints_def split: if_splits)

lemma validation_error [simp]: "snd (validation e) = Some e"
  by (simp add: validation_def)

lemma validation_never [simp]: "validation e \<noteq> (s, None)" "(s, None) \<noteq> validation e"
  by (simp_all add: validation_def)

lemma cri_checked:
  assumes "cri_PreCheck (new_cri_processor info timeout) v = Returns ((s, None), p1, v1)"
    and "cri_Prepare lib content p1 w = (None, p2, w1)"
  obtains cn es i where "cp_connection p2 = Some cn" "cri_target (ri_ContainerId info) = (es, i)"
    "connected lib es i (ri_ContainerName info) cn" "cp_CommandContent p2 = content"
proof -
  have p1: "\<exists>es i. cri_target (ri_ContainerId info) = (es, i) \<and> cp_containerId p1 = i
      \<and> es = (if cp_runtimeEndpoints p1 = [] then PrecedentRuntimeEndpoints else cp_runtimeEndpoints p1)
      \<and> cp_ContainerName p1 = ri_ContainerName info"
    using assms(1) endpoints_of_runtime
    by (auto simp: cri_PreCheck_def cri_target_def new_cri_processor_def split: list.splits if_splits option.splits)
  obtain conn err w2 where g: "getRuntimeService lib (cp_runtimeEndpoints p1) (cp_containerId p1) (cp_ContainerName p1) w
      = ((conn, err), w2)"
    by (metis surj_pair)
  then have p2: "err = None" "cp_connection p2 = conn" "cp_CommandContent p2 = content"
    using assms(2) by (auto simp: cri_Prepare_def Let_def split: option.splits)
  obtain cn where "conn = Some cn" "connected lib (if cp_runtimeEndpoints p1 = [] then PrecedentRuntimeEndpoints
      else cp_runtimeEndpoints p1) (cp_containerId p1) (cp_ContainerName p1) cn"
    using getRuntimeService_connected g p2(1) by blast
  then show ?thesis using p1 p2(2,3) by (intro that [of cn]) auto
qed

lemma connected_chosen:
  assumes "connected lib es i (ri_ContainerName info) cn" "cri_target (ri_ContainerId info) = (es, i)"
  obtains c where "chosen_by_cri lib info (cn_endpoint cn) c" "cn_containerId cn = cc_Id c"
  using assms unfolding connected_def chosen_by_cri_def by blast

lemma docker_checked:
  assumes "docker_PreCheck p v = Returns ((s, None), p1, v1)" "dp_foundContainers p = [c]"
  obtains name where "p1 = p\<lparr>dp_foundContainerName := name\<rparr>" "to_upper (dc_State c) = ''RUNNING''"
  using assms by (auto simp: docker_PreCheck_def Let_def split: if_splits)

text \<open>A detected processor is one of the two.\<close>

lemma detect_cases:
  assumes "DetectContainerProcessor lib info timeout w = (q, w')"
  obtains (docker) p where "q = Docker p" | (cri) "q = CRI (new_cri_processor info timeout)"
  using assms by (auto simp: DetectContainerProcessor_def split: option.splits prod.splits)

section \<open>Properties\<close>

text \<open>C16. A command for a container that passes the checks runs at most once, with its own text, and
  only in the one container that was found: with docker, the one container the engine lists for the
  id or the name (of the name, if both are given), running, as the user and in the directory of the
  task; otherwise the one container of that id and name that a service of the named runtime lists,
  running. There the user and the directory of the task are not passed on.\<close>

theorem command_runs_in_found_container:
  assumes "DetectContainerProcessor lib info timeout v = (q, v1)"
    and "opPreCheck (any_ops mc lib) q v2 = Returns ((s, None), q1, v3)"
    and "opPrepare (any_ops mc lib) content q1 v4 = (None, q2, v5)"
    and "opSyncRun (any_ops mc lib) q2 w = Returns (r, q3, w')"
  shows "trace w' = trace w
    \<or> (\<exists>c. chosen_by_docker lib info c \<and> trace w' = trace w @
          [ContainerExec ''docker'' (dc_ID c) (ri_Username info) (ri_WorkingDir info) (shell_command content)])
    \<or> (\<exists>endpoint c. chosen_by_cri lib info endpoint c \<and> trace w' = trace w @
          [ContainerExec endpoint (cc_Id c) [] [] (shell_command content)])"
  using assms(1)
proof (cases rule: detect_cases)
  case (docker p)
  obtain i c found k where d: "docker_candidate (ri_ContainerId info) = Some i"
    "cl_list lib k (docker_list_filter (new_docker_processor info 0 i)) = (found, None, None)"
    "(if i \<noteq> [] \<and> ri_ContainerName info \<noteq> []
      then filter (\<lambda>d. prefixed_name (ri_ContainerName info) \<in> set (dc_Names d)) found else found) = [c]"
    "p = (new_docker_processor info timeout i)\<lparr>dp_foundContainers := [c]\<rparr>"
    by (rule detect_docker [OF assms(1) [unfolded docker]])
  obtain p1 where p1: "docker_PreCheck p v2 = Returns ((s, None), p1, v3)" "q1 = Docker p1"
    using assms(2) docker by (auto simp: any_ops_simps)
  have found: "dp_foundContainers p = [c]" by (simp add: d(4))
  obtain name where c: "p1 = p\<lparr>dp_foundContainerName := name\<rparr>" "to_upper (dc_State c) = ''RUNNING''"
    by (rule docker_checked [OF p1(1) found])
  have q2: "q2 = Docker (p1\<lparr>dp_CommandContent := content\<rparr>)"
    using assms(3) p1(2) by (simp add: any_ops_simps lift_result_def docker_Prepare_def)
  then obtain p3 where "docker_SyncRun lib (p1\<lparr>dp_CommandContent := content\<rparr>) w = Returns (r, p3, w')"
    using assms(4) by (auto simp: any_ops_simps)
  then have "trace w' = trace w \<or> trace w' = trace w @
      [ContainerExec ''docker'' (dc_ID c) (ri_Username info) (ri_WorkingDir info) (shell_command content)]"
    by (elim docker_SyncRun_trace) (simp add: c(1) d(4) new_docker_processor_def)
  moreover have "chosen_by_docker lib info c"
    unfolding chosen_by_docker_def using c(2) d(1-3) by blast
  ultimately show ?thesis by blast
next
  case cri
  obtain p1 where p1: "cri_PreCheck (new_cri_processor info timeout) v2 = Returns ((s, None), p1, v3)" "q1 = CRI p1"
    using assms(2) cri by (auto simp: any_ops_simps)
  obtain p2 where p2: "cri_Prepare lib content p1 v4 = (None, p2, v5)" "q2 = CRI p2"
    using assms(3) p1(2) by (auto simp: any_ops_simps lift_result_def split: prod.splits)
  obtain p3 where run: "cri_SyncRun lib p2 w = Returns (r, p3, w')"
    using assms(4) p2(2) by (auto simp: any_ops_simps)
  obtain cn es i where cn: "cp_connection p2 = Some cn" "cri_target (ri_ContainerId info) = (es, i)"
    "connected lib es i (ri_ContainerName info) cn" "cp_CommandContent p2 = content"
    by (rule cri_checked [OF p1(1) p2(1)])
  obtain c where "chosen_by_cri lib info (cn_endpoint cn) c" "cn_containerId cn = cc_Id c"
    by (rule connected_chosen [OF cn(3,2)])
  moreover from run have "trace w' = trace w @ [ContainerExec (cn_endpoint cn) (cn_containerId cn) [] [] (shell_command content)]"
    by (elim cri_SyncRun_trace) (simp add: cn(1,4))
  ultimately show ?thesis by auto
qed

text \<open>A machine whose engine answers with one running container, whose processes end with code 0.\<close>

definition web :: docker_container where
  "web = \<lparr>dc_ID = ''c1'', dc_Names = [''/web''], dc_State = ''running''\<rparr>"

definition demo_lib :: container_lib where
  "demo_lib =
     \<lparr>cl_client = (\<lambda>n. None), cl_list = (\<lambda>n f. ([web], None, None)), cl_list_all = (\<lambda>n a. ([web], None, None)),
      cl_create = (\<lambda>n c cfg. (''x1'', None, None)), cl_attach = (\<lambda>n x. (None, None)), cl_wait = (\<lambda>n d. Streamed StdoutReceived None),
      cl_inspect = (\<lambda>n x. ((False, 0), None, None)), cr_connect = (\<lambda>n e. None),
      cr_containers = (\<lambda>n e i. Inr []), cr_list_all = (\<lambda>n e a. Inr []), cr_sandboxes = (\<lambda>n e. Inr []),
      cr_exec = (\<lambda>n e c cmd d. ([], [], None)), cl_events = (\<lambda>n. [Wrote ''hi''])\<rparr>"

definition web_info :: RunTaskInfo where
  "web_info = example_info\<lparr>ri_ContainerName := ''web'', ri_Username := ''app''\<rparr>"

definition start_world :: world where
  "start_world = \<lparr>ticks = 0, trace = []\<rparr>"

definition web_processor :: docker_processor where
  "web_processor = (new_docker_processor web_info 60 [])\<lparr>dp_foundContainers := [web]\<rparr>"

lemma detect_web: "DetectContainerProcessor demo_lib web_info 60 start_world = (Docker web_processor, tick (tick start_world))"
  by (simp add: DetectContainerProcessor_def docker_candidate_def split_scheme.simps web_info_def example_info_def
      CheckDockerProcessor_def containerNameValidator_def name_char_def go_lib ask_def demo_lib_def in_time_def Let_def
      new_docker_processor_def choose_container_def web_processor_def web_def)

lemma web_state: "to_upper ''running'' = ''RUNNING''"
  by code_simp

lemma precheck_web: "docker_PreCheck web_processor w = Returns (([], None), web_processor\<lparr>dp_foundContainerName := ''web''\<rparr>, w)"
  by (simp add: docker_PreCheck_def web_processor_def new_docker_processor_def web_def StripAndSelectName_def split_on_def
      web_state Let_def)

definition web_ready :: docker_processor where
  "web_ready = web_processor\<lparr>dp_foundContainerName := ''web'', dp_CommandContent := ''ls''\<rparr>"

lemma run_web: "docker_SyncRun demo_lib web_ready start_world =
    Returns (([Wrote ''hi''], 0, Success, None), web_ready,
      \<lparr>ticks = 5, trace = [ContainerExec ''docker'' ''c1'' ''app'' [] [''/bin/sh'', ''-c'', ''ls'']]\<rparr>)"
  by (simp add: docker_SyncRun_def web_ready_def web_processor_def new_docker_processor_def web_def ask_def demo_lib_def
      createExec_def startAndAttachExec_def in_time_def finish_session_def inspect_end_def streamHijacked_def maxInspectionRetries_def numeral_eq_Suc
      inspectExec_def docker_exec_config_def shell_command_def web_info_def example_info_def start_world_def tick_def perform_def)

theorem command_runs_in_found_container_witness:
  "\<exists>r w'. docker_SyncRun demo_lib web_ready start_world = Returns (r, web_ready, w')
     \<and> trace w' = [ContainerExec ''docker'' ''c1'' ''app'' [] [''/bin/sh'', ''-c'', ''ls'']]
     \<and> (\<exists>c. chosen_by_docker demo_lib web_info c \<and> dc_ID c = ''c1'')"
proof -
  let ?w = "\<lparr>ticks = 5, trace = [ContainerExec ''docker'' ''c1'' ''app'' [] [''/bin/sh'', ''-c'', ''ls'']]\<rparr>"
  have 1: "opPreCheck (any_ops example_machine demo_lib) (Docker web_processor) start_world
      = Returns (([], None), Docker (web_processor\<lparr>dp_foundContainerName := ''web''\<rparr>), start_world)"
    by (simp add: any_ops_simps precheck_web)
  have 2: "opPrepare (any_ops example_machine demo_lib) ''ls'' (Docker (web_processor\<lparr>dp_foundContainerName := ''web''\<rparr>))
      start_world = (None, Docker web_ready, start_world)"
    by (simp add: any_ops_simps docker_Prepare_def lift_result_def web_ready_def)
  have 3: "opSyncRun (any_ops example_machine demo_lib) (Docker web_ready) start_world
      = Returns (([Wrote ''hi''], 0, Success, None), Docker web_ready, ?w)"
    by (simp add: any_ops_simps run_web)
  have "\<exists>c. chosen_by_docker demo_lib web_info c \<and> dc_ID c = ''c1''"
    using command_runs_in_found_container [OF detect_web 1 2 3] by (auto simp: start_world_def web_info_def)
  then show ?thesis using run_web by simp
qed

text \<open>C20. A command for a container whose checks and preparation succeed returns from its run, whatever
  the engine and the runtimes answer: it does not panic, and every byte of its output is sent while
  it runs, dropped and counted, or posted in the final report, as for commands on the machine.\<close>

theorem container_run_reports_output:
  assumes "DetectContainerProcessor lib info timeout v = (q, v1)"
    and "opPreCheck (any_ops mc lib) q v2 = Returns ((s, None), q1, v3)"
    and "opPrepare (any_ops mc lib) content q1 v4 = (None, t_processer t, v5)"
    and "t_output t = []"
  shows "\<exists>events code status err t' w'. run_process env (any_ops mc lib) no_next scriptToDelete t w = Returns (t', w')
    \<and> output_reported env t events status t' w w'
    \<and> (\<exists>w0 p w1. opSyncRun (any_ops mc lib) (t_processer t) w0 = Returns ((events, code, status, err), p, w1))"
proof -
  have ready: "\<exists>x p w1. opSyncRun (any_ops mc lib) (t_processer t) w0 = Returns (x, p, w1) \<and> any_cancel_safe p" for w0
    using assms(1)
  proof (cases rule: detect_cases)
    case (docker p)
    obtain c where "dp_foundContainers p = [c]"
      by (rule detect_docker [OF assms(1) [unfolded docker]]) simp
    then have found: "dp_foundContainers p = [c]" .
    obtain p1 where p1: "docker_PreCheck p v2 = Returns ((s, None), p1, v3)" "q1 = Docker p1"
      using assms(2) docker by (auto simp: any_ops_simps)
    obtain name where "p1 = p\<lparr>dp_foundContainerName := name\<rparr>" by (rule docker_checked [OF p1(1) found])
    with found have "dp_foundContainers (p1\<lparr>dp_CommandContent := content\<rparr>) = [c]" by simp
    moreover have "t_processer t = Docker (p1\<lparr>dp_CommandContent := content\<rparr>)"
      using assms(3) p1(2) by (simp add: any_ops_simps lift_result_def docker_Prepare_def)
    ultimately obtain d where d: "t_processer t = Docker d" "dp_foundContainers d = [c]" by blast
    then have "\<exists>x p w1. docker_SyncRun lib d w0 = Returns (x, p, w1)"
      by (auto simp: docker_SyncRun_def internal_def Let_def split: prod.split sum.split)
    with d(1) show ?thesis by (auto simp: any_ops_simps any_cancel_safe_def)
  next
    case cri
    obtain p1 where p1: "cri_PreCheck (new_cri_processor info timeout) v2 = Returns ((s, None), p1, v3)" "q1 = CRI p1"
      using assms(2) cri by (auto simp: any_ops_simps)
    obtain p2 where p2: "cri_Prepare lib content p1 v4 = (None, p2, v5)" "t_processer t = CRI p2"
      using assms(3) p1(2) by (auto simp: any_ops_simps lift_result_def split: prod.splits)
    obtain cn where "cp_connection p2 = Some cn"
      by (rule cri_checked [OF p1(1) p2(1)])
    then have "\<exists>x p w1. cri_SyncRun lib p2 w0 = Returns (x, p, w1)"
      by (simp add: cri_SyncRun_def split_beta Let_def del: split_paired_Ex)
    with p2(2) show ?thesis by (auto simp: any_ops_simps any_cancel_safe_def)
  qed
  obtain w0 where w0: "case opSyncRun (any_ops mc lib) (t_processer t) w0 of
      Panics q \<Rightarrow> run_process env (any_ops mc lib) no_next scriptToDelete t w = Panics q
    | Returns ((events, code, status, err), p, w1) \<Rightarrow>
        any_cancel_safe p \<or> list_all (\<lambda>e. \<not> is_cancel e) events \<longrightarrow>
        (\<exists>t' w'. run_process env (any_ops mc lib) no_next scriptToDelete t w = Returns (t', w')
           \<and> output_reported env t events status t' w w')"
    using anyp.run_process_reports [OF assms(4)] by blast
  obtain events code status err p w1 where
    r: "opSyncRun (any_ops mc lib) (t_processer t) w0 = Returns ((events, code, status, err), p, w1)" "any_cancel_safe p"
    using ready [of w0] by (metis surj_pair)
  with w0 show ?thesis by fastforce
qed

definition web_task :: "any_processor task" where
  "web_task = (new_any_task demo_lib web_info None False start_world)\<lparr>t_processer := Docker web_ready\<rparr>"

theorem container_run_reports_output_witness:
  "\<exists>t' w'. run_process silent_env (any_ops example_machine demo_lib) False False web_task start_world = Returns (t', w')
     \<and> (\<exists>events status. output_reported silent_env web_task events status t' start_world w')"
proof -
  have 1: "opPreCheck (any_ops example_machine demo_lib) (Docker web_processor) start_world
      = Returns (([], None), Docker (web_processor\<lparr>dp_foundContainerName := ''web''\<rparr>), start_world)"
    by (simp add: any_ops_simps precheck_web)
  have 2: "opPrepare (any_ops example_machine demo_lib) ''ls'' (Docker (web_processor\<lparr>dp_foundContainerName := ''web''\<rparr>))
      start_world = (None, t_processer web_task, start_world)"
    by (simp add: any_ops_simps docker_Prepare_def lift_result_def web_ready_def web_task_def)
  have 3: "t_output web_task = []" by (simp add: web_task_def new_any_task_def NewTask_def split_beta Let_def)
  from container_run_reports_output [OF detect_web 1 2 3] show ?thesis by blast
qed

text \<open>C37. The identifier \<open>docker://\<close> names no container, and the check of the runtime interface rejects
  it. With docker it is read as an empty id: a task without a name then gets the only container of
  the machine, whichever it is, and runs there.\<close>

theorem docker_scheme_selects_any:
  assumes "ri_ContainerId info = ''docker://''" "ri_ContainerName info = []"
    and "cl_client lib (ticks w) = None" "cl_list lib (Suc (ticks w)) AnyContainer = ([c], None, None)"
  shows "(\<exists>p w'. DetectContainerProcessor lib info timeout w = (Docker p, w') \<and> dp_foundContainers p = [c])
    \<and> (\<exists>e. cri_PreCheck (new_cri_processor info timeout) w
      = Returns ((''InvalidContainerId'', Some e), new_cri_processor info timeout, w))"
proof -
  have s: "split_scheme ''docker://'' = [''docker'', []]" by (simp add: split_scheme.simps has_prefix_def)
  have d: "\<exists>p w'. DetectContainerProcessor lib info timeout w = (Docker p, w') \<and> dp_foundContainers p = [c]"
    using assms by (simp add: DetectContainerProcessor_def docker_candidate_def s CheckDockerProcessor_def ask_def
        new_docker_processor_def docker_list_filter_def in_time_def choose_container_def Let_def tick_def)
  have "\<exists>e. cri_PreCheck (new_cri_processor info timeout) w
      = Returns ((''InvalidContainerId'', Some e), new_cri_processor info timeout, w)"
    using assms(1) by (simp add: cri_PreCheck_def new_cri_processor_def s validation_def NewInvalidContainerIdError_def)
  with d show ?thesis by blast
qed

theorem docker_scheme_selects_any_witness:
  "\<exists>p w'. DetectContainerProcessor demo_lib (example_info\<lparr>ri_ContainerId := ''docker://''\<rparr>) 60 start_world = (Docker p, w')
     \<and> dp_foundContainers p = [web]"
  using docker_scheme_selects_any [of "example_info\<lparr>ri_ContainerId := ''docker://''\<rparr>" demo_lib start_world web 60]
  by (simp add: example_info_def demo_lib_def)

lemma unique_containers_ids:
  "distinct (map ct_Id (unique_containers seen cs)) \<and> ct_Id ` set (unique_containers seen cs) = ct_Id ` set cs - set seen"
  by (induction seen cs rule: unique_containers.induct) auto

lemma unique_containers_first:
  "c \<in> set (unique_containers seen cs) \<Longrightarrow> find (\<lambda>d. ct_Id d = ct_Id c) cs = Some c"
proof (induction seen cs rule: unique_containers.induct)
  case (2 seen d cs)
  show ?case
  proof (cases "ct_Id d = ct_Id c")
    case True
    have "ct_Id c \<notin> ct_Id ` set (unique_containers (ct_Id d # seen) cs)" "ct_Id d \<notin> set seen"
      using 2(3) unique_containers_ids [of "ct_Id d # seen" cs] unique_containers_ids [of seen cs] True
      by (auto split: if_splits)
    with 2(3) True show ?thesis by (auto split: if_splits)
  next
    case False
    with 2 show ?thesis by (auto split: if_splits)
  qed
qed simp

text \<open>A list from both sources has every id once, all of them, and for each the entry that comes
  first, that of the runtime interface before that of docker.\<close>

theorem containers_listed_once:
  assumes "cri_ListContainers lib showAll w = (cs, w1)"
    and "docker_ListContainers lib showAll w1 = (Returns (ds, err), w2)"
  shows "\<exists>xs. ListContainers lib ''all'' showAll w = (Returns (xs, err), w2) \<and> distinct (map ct_Id xs)
    \<and> ct_Id ` set xs = ct_Id ` (set cs \<union> set ds)
    \<and> list_all (\<lambda>c. find (\<lambda>d. ct_Id d = ct_Id c) (cs @ ds) = Some c) xs"
  using assms unique_containers_ids [of "[]" "cs @ ds"] unique_containers_first [of _ "[]" "cs @ ds"]
  by (auto simp: ListContainers_def list_all_iff intro!: exI [of _ "unique_containers [] (cs @ ds)"])

lemma runtime_names: "uniqueRuntimeNames = [[], [], [], ''containerd'', ''cri-o'', ''docker'']"
  by code_simp

theorem containers_listed_once_witness:
  "\<exists>xs w'. ListContainers demo_lib ''all'' True start_world = (Returns (xs, None), w') \<and> distinct (map ct_Id xs)
     \<and> ct_Id ` set xs = {''c1''}"
proof -
  obtain w1 where 1: "cri_ListContainers demo_lib True start_world = ([], w1)"
    by (simp add: cri_ListContainers_def runtime_names RuntimeName2Endpoints_def PrecedentRuntimeEndpoints_def
        listCRIContainers_def demo_lib_def ask_def)
  have 2: "docker_ListContainers demo_lib True w1 = (Returns ([\<lparr>ct_Id = ''c1'', ct_Name = ''web'', ct_PodId = [],
      ct_PodName = [], ct_RuntimeName = ''docker'', ct_State = ''RUNNING'', ct_DataSource = ViaDocker\<rparr>], None),
      tick (tick w1))"
    by (simp add: docker_ListContainers_def demo_lib_def ask_def web_def web_state StripAndSelectName_def split_on_def)
  from containers_listed_once [OF 1 2] show ?thesis by auto
qed

lemma conclude_ticks: "ticks (snd (conclude lib x n w)) \<le> ticks w + (2 * n - 1)"
proof (induction lib x n w rule: conclude.induct)
  case (2 lib x n w)
  obtain r w1 where i: "inspectExec lib x w = (r, w1)" by (metis surj_pair)
  then have "ticks w1 = Suc (ticks w)" by (auto simp: inspectExec_def ask_def split: prod.splits)
  with 2 i show ?case by (cases n) (auto split: sum.split)
qed simp

text \<open>After a session has ended the processor inspects it at most five times, and asks the engine
  and the clock at most ten times in all.\<close>

theorem session_end_bounded: "ticks (snd (finish_session lib p x w)) \<le> ticks w + 10"
proof -
  have "ticks (snd (inspect_end lib x w1)) \<le> ticks w1 + 9" for w1
    using conclude_ticks [of lib x maxInspectionRetries w1]
    by (auto simp: inspect_end_def maxInspectionRetries_def Let_def split: prod.split sum.split)
  from this [of "tick w"] show ?thesis
    by (auto simp: finish_session_def ask_def Let_def split: stream_end.split option.split)
qed

text \<open>A container that the engine lists without a name makes the check of a task for it panic, while
  the listing of containers takes the same answer.\<close>

theorem nameless_container_panics:
  assumes "dp_foundContainers p = [c]" "dc_Names c = []" "cl_client lib (ticks w) = None"
    and "cl_list_all lib (Suc (ticks w)) showAll = ([c], None, None)"
  shows "docker_PreCheck p w = Panics IndexOutOfRange
    \<and> (\<exists>entry w'. docker_ListContainers lib showAll w = (Returns ([entry], None), w') \<and> ct_Name entry = [])"
  using assms by (simp add: docker_PreCheck_def StripAndSelectName_def docker_ListContainers_def ask_def tick_def)

theorem nameless_container_panics_witness:
  "docker_PreCheck (web_processor\<lparr>dp_foundContainers := [web\<lparr>dc_Names := []\<rparr>]\<rparr>) start_world = Panics IndexOutOfRange"
  using nameless_container_panics [of "web_processor\<lparr>dp_foundContainers := [web\<lparr>dc_Names := []\<rparr>]\<rparr>" "web\<lparr>dc_Names := []\<rparr>"
      "demo_lib\<lparr>cl_list_all := (\<lambda>n a. ([web\<lparr>dc_Names := []\<rparr>], None, None))\<rparr>" start_world True]
  by (simp add: demo_lib_def)

end
