(* ===== verification/Cgroups.thy ===== *)
theory Cgroups
  imports Process_Cmd "HOL-Library.AList"
begin

text \<open>
  Control groups, \<open>agent/cgroup\<close>: the subsystems that the kernel has, where they are mounted, the
  groups of a process, and the reading and writing of a group's files. The files are a map from
  paths to contents; the record \<open>cg_env\<close> says which calls fail, by their number.
\<close>

section \<open>Files\<close>

text \<open>The errors of the package; \<open>NotExists\<close> is what \<open>os.IsNotExist\<close> recognises.\<close>

datatype cg_error = NotExists string | FileFails string go_error | BadNumber string num_error
  | ErrCfsNotEnabled | ErrRtNotEnabled | ErrCgroupRemoved | InvalidSubsystem | CgMessage string
  | UnsupportedError string | CgroupInitError string cg_error | CgroupsNotFoundError int

datatype call_failure = IsNotExist | OtherFailure go_error

text \<open>\<open>ce_order\<close> is the order in which the run time goes through a map.\<close>

record cg_env =
  ce_fail :: "nat \<Rightarrow> string \<Rightarrow> call_failure option"
  ce_order :: "nat \<Rightarrow> string list \<Rightarrow> string list"

record cg_state =
  cg_files :: "string \<Rightarrow> string option"
  cg_calls :: nat

definition count_call :: "cg_state \<Rightarrow> cg_state" where
  "count_call s = s\<lparr>cg_calls := Suc (cg_calls s)\<rparr>"

definition failure :: "string \<Rightarrow> call_failure \<Rightarrow> cg_error" where
  "failure path f = (case f of IsNotExist \<Rightarrow> NotExists path | OtherFailure e \<Rightarrow> FileFails path e)"

definition read_file :: "cg_env \<Rightarrow> string \<Rightarrow> cg_state \<Rightarrow> (cg_error + string) \<times> cg_state" where
  "read_file env path s =
     (case ce_fail env (cg_calls s) path of
        Some f \<Rightarrow> Inl (failure path f)
      | None \<Rightarrow> (case cg_files s path of None \<Rightarrow> Inl (NotExists path) | Some c \<Rightarrow> Inr c), count_call s)"

definition write_file :: "cg_env \<Rightarrow> string \<Rightarrow> string \<Rightarrow> cg_state \<Rightarrow> cg_error option \<times> cg_state" where
  "write_file env path c s =
     (case ce_fail env (cg_calls s) path of
        Some f \<Rightarrow> (Some (failure path f), count_call s)
      | None \<Rightarrow> (None, count_call (s\<lparr>cg_files := (cg_files s)(path \<mapsto> c)\<rparr>)))"

definition make_dirs :: "cg_env \<Rightarrow> string \<Rightarrow> cg_state \<Rightarrow> cg_error option \<times> cg_state" where
  "make_dirs env path s = (map_option (failure path) (ce_fail env (cg_calls s) path), count_call s)"

definition writeValue :: "cg_env \<Rightarrow> string \<Rightarrow> string \<Rightarrow> string \<Rightarrow> cg_state \<Rightarrow> cg_error option \<times> cg_state" where
  "writeValue env dir file data s = write_file env (path_join [dir, file]) data s"

definition readInt64Value :: "cg_env \<Rightarrow> string \<Rightarrow> string \<Rightarrow> cg_state \<Rightarrow> (cg_error + int) \<times> cg_state" where
  "readInt64Value env dir file s =
     (let (r, s1) = read_file env (path_join [dir, file]) s in
      (case r of
         Inl e \<Rightarrow> Inl e
       | Inr c \<Rightarrow> (case atoi (trim_space c) of (n, None) \<Rightarrow> Inr n | (n, Some e) \<Rightarrow> Inl (BadNumber c e)), s1))"

text \<open>
  \<open>bufio.Scanner\<close>: the lines without their ends; a line that does not fit the buffer of 64 kB
  ends the reading with an error. The last line may have no end.
\<close>

definition drop_cr :: "string \<Rightarrow> string" where
  "drop_cr l = (if l \<noteq> [] \<and> last l = CR then butlast l else l)"

definition file_lines :: "string \<Rightarrow> string list" where
  "file_lines c = (let ls = split_on LF c in if last ls = [] then butlast ls else ls)"

definition scan_lines :: "string \<Rightarrow> string list \<times> bool" where
  "scan_lines c =
     (let ls = file_lines c; fit = takeWhile (\<lambda>l. length l < 65536) ls in (map drop_cr fit, length fit < length ls))"

section \<open>The kernel's tables\<close>

text \<open>\<open>fmt.Sscanf\<close> with \<open>%d\<close>: an optional sign and digits, the whole word but for the last field.\<close>

definition scan_prefix :: "string \<Rightarrow> int option" where
  "scan_prefix s =
     (let (neg, ds) = (case s of c # cs \<Rightarrow> if c = CHR ''-'' then (True, cs) else if c = CHR ''+'' then (False, cs) else (False, s)
                       | [] \<Rightarrow> (False, []));
          d = takeWhile is_digit ds in
      case parse_int neg d of (n, None) \<Rightarrow> Some n | _ \<Rightarrow> None)"

definition scan_word :: "string \<Rightarrow> int option" where
  "scan_word s = (case atoi s of (n, None) \<Rightarrow> Some n | _ \<Rightarrow> None)"

definition cgroups_line :: "string \<Rightarrow> (string \<times> int) option" where
  "cgroups_line l =
     (case Fields l of
        subsystem # h # n # e # _ \<Rightarrow>
          (case (scan_word h, scan_word n, scan_prefix e) of
             (Some hierarchy, Some num, Some enabled) \<Rightarrow> if enabled = 1 then Some (subsystem, hierarchy) else None
           | _ \<Rightarrow> None)
      | _ \<Rightarrow> None)"

definition enabled_subsystems :: "string list \<Rightarrow> string \<Rightarrow> int option" where
  "enabled_subsystems ls = fold (\<lambda>l m. case cgroups_line l of Some (k, h) \<Rightarrow> m(k \<mapsto> h) | None \<Rightarrow> m) ls Map.empty"

definition GetEnabledSubsystems :: "cg_env \<Rightarrow> cg_state \<Rightarrow> (cg_error + (string \<Rightarrow> int option)) \<times> cg_state" where
  "GetEnabledSubsystems env s =
     (let (r, s1) = read_file env ''/proc/cgroups'' s in
      (case r of
         Inl e \<Rightarrow> Inl e
       | Inr c \<Rightarrow>
           (let (ls, long) = scan_lines c in
            if long then Inl (CgMessage ''Cannot parsing /proc/cgroups: bufio.Scanner: token too long'')
            else Inr (enabled_subsystems (tl ls))), s1))"

text \<open>The mount point is the fifth word of the first line whose last word lists the subsystem.\<close>

fun mountpoint :: "string \<Rightarrow> string list \<Rightarrow> string option outcome" where
  "mountpoint subsystem [] = Returns None"
| "mountpoint subsystem (l # ls) =
     (let words = split_on CHR '' '' l in
      if subsystem \<in> set (split_on CHR '','' (last words)) then
        (if length words < 5 then Panics IndexOutOfRange else Returns (Some (words ! 4)))
      else mountpoint subsystem ls)"

definition GetSubsystemMountpoint ::
  "cg_env \<Rightarrow> string \<Rightarrow> cg_state \<Rightarrow> (cg_error + string) outcome \<times> cg_state" where
  "GetSubsystemMountpoint env subsystem s =
     (let (r, s1) = read_file env ''/proc/self/mountinfo'' s in
      (case r of
         Inl e \<Rightarrow> Returns (Inl e)
       | Inr c \<Rightarrow>
           (let (ls, long) = scan_lines c in
            map_ret (\<lambda>m. case m of
                Some p \<Rightarrow> Inr p
              | None \<Rightarrow> Inl (CgMessage (if long then ''bufio.Scanner: token too long''
                  else ''Mountpoint not found: '' @ subsystem)))
              (mountpoint subsystem ls)), s1))"

text \<open>A line of a process's groups: hierarchy, subsystems, path. \<open>strings.SplitN\<close> with 3 parts.\<close>

definition split3 :: "string \<Rightarrow> (string \<times> string) option" where
  "split3 l =
     (case split_on CHR '':'' l of
        h # subs # p # ps \<Rightarrow> Some (subs, join '':'' (p # ps))
      | _ \<Rightarrow> None)"

fun process_cgroups :: "string list \<Rightarrow> (string \<times> string) list \<Rightarrow> (string \<times> string) list option" where
  "process_cgroups [] m = Some m"
| "process_cgroups (l # ls) m =
     (case split3 l of
        None \<Rightarrow> None
      | Some (subs, p) \<Rightarrow> process_cgroups ls (fold (\<lambda>k. AList.update k p) (split_on CHR '','' subs) m))"

definition cgroup_file :: "int \<Rightarrow> string" where
  "cgroup_file pid = ''/proc/'' @ itoa pid @ ''/cgroup''"

text \<open>The error of the scanner is not looked at here; the message is kept without the text of its cause.\<close>

definition GetProcessCgroups :: "cg_env \<Rightarrow> int \<Rightarrow> cg_state \<Rightarrow> (cg_error + (string \<times> string) list) \<times> cg_state" where
  "GetProcessCgroups env pid s =
     (let (r, s1) = read_file env (cgroup_file pid) s in
      (case r of
         Inl e \<Rightarrow> Inl (CgMessage (''Cannot open '' @ cgroup_file pid))
       | Inr c \<Rightarrow>
           (case process_cgroups (fst (scan_lines c)) [] of
              None \<Rightarrow> Inl (CgMessage (''Cannot parsing '' @ cgroup_file pid @ '': unknown format''))
            | Some m \<Rightarrow> Inr m), s1))"

definition GetCgroupPathByPid :: "cg_env \<Rightarrow> int \<Rightarrow> string \<Rightarrow> cg_state \<Rightarrow> (cg_error + string) \<times> cg_state" where
  "GetCgroupPathByPid env pid subsystem s =
     (let (r, s1) = GetProcessCgroups env pid s in
      (case r of
         Inl e \<Rightarrow> Inl e
       | Inr m \<Rightarrow> (case map_of m subsystem of Some p \<Rightarrow> Inr p
           | None \<Rightarrow> Inl (CgMessage (''Not in subsystem '' @ subsystem @ '': '' @ itoa pid))), s1))"

section \<open>Groups\<close>

record cg_config =
  CpuShares :: int
  CpuQuota :: int
  CpuPeriod :: int
  CpuRtRuntime :: int
  CpuRtPeriod :: int
  MemoryLimit :: int

datatype cgroup = CpuGroup (GetPath: string) | MemoryGroup (GetPath: string)

text \<open>One value of a group: nothing is written for 0; a missing file has an error of its own.\<close>

definition set_value ::
  "cg_env \<Rightarrow> string \<Rightarrow> string \<Rightarrow> int \<Rightarrow> cg_error option \<Rightarrow> cg_state \<Rightarrow> cg_error option \<times> cg_state" where
  "set_value env path file v missing s =
     (if v = 0 then (None, s)
      else
        (let (err, s1) = writeValue env path file (itoa v) s in
         (case err of
            Some (NotExists p) \<Rightarrow> (case missing of Some e \<Rightarrow> Some e | None \<Rightarrow> err)
          | _ \<Rightarrow> err, s1)))"

definition and_then ::
  "('s \<Rightarrow> 'e option \<times> 's) \<Rightarrow> ('s \<Rightarrow> 'e option \<times> 's) \<Rightarrow> 's \<Rightarrow> 'e option \<times> 's" where
  "and_then f g s = (let (err, s1) = f s in case err of Some e \<Rightarrow> (Some e, s1) | None \<Rightarrow> g s1)"

definition CpuGroup_Set :: "cg_env \<Rightarrow> string \<Rightarrow> cg_config \<Rightarrow> cg_state \<Rightarrow> cg_error option \<times> cg_state" where
  "CpuGroup_Set env path c =
     and_then (set_value env path ''cpu.shares'' (CpuShares c) None)
    (and_then (set_value env path ''cpu.cfs_period_us'' (CpuPeriod c) (Some ErrCfsNotEnabled))
    (and_then (set_value env path ''cpu.cfs_quota_us'' (CpuQuota c) (Some ErrCfsNotEnabled))
    (and_then (set_value env path ''cpu.rt_period_us'' (CpuRtPeriod c) (Some ErrRtNotEnabled))
              (set_value env path ''cpu.rt_runtime_us'' (CpuRtRuntime c) (Some ErrRtNotEnabled)))))"

definition MemoryGroup_Set :: "cg_env \<Rightarrow> string \<Rightarrow> cg_config \<Rightarrow> cg_state \<Rightarrow> cg_error option \<times> cg_state" where
  "MemoryGroup_Set env path c s =
     (if MemoryLimit c = 0 then (None, s)
      else and_then (writeValue env path ''memory.limit_in_bytes'' (itoa (MemoryLimit c)))
             (writeValue env path ''memory.memsw.limit_in_bytes'' (itoa (wrap64 (MemoryLimit c * 2)))) s)"

text \<open>Reading one value into the configuration; \<open>optional\<close> values keep what they were without a file.\<close>

definition get_value ::
  "cg_env \<Rightarrow> string \<Rightarrow> string \<Rightarrow> bool \<Rightarrow> (int \<Rightarrow> cg_config \<Rightarrow> cg_config) \<Rightarrow> cg_config \<times> cg_state \<Rightarrow>
   cg_error option \<times> cg_config \<times> cg_state" where
  "get_value env path file optional put = (\<lambda>(c, s).
     let (r, s1) = readInt64Value env path file s in
     case r of
       Inr v \<Rightarrow> (None, put v c, s1)
     | Inl (NotExists p) \<Rightarrow> (if optional then None else Some (NotExists p), c, s1)
     | Inl e \<Rightarrow> (Some e, c, s1))"

definition CpuGroup_Get :: "cg_env \<Rightarrow> string \<Rightarrow> cg_config \<times> cg_state \<Rightarrow> cg_error option \<times> cg_config \<times> cg_state" where
  "CpuGroup_Get env path =
     and_then (get_value env path ''cpu.shares'' False (\<lambda>v. CpuShares_update (\<lambda>_. v)))
    (and_then (get_value env path ''cpu.cfs_period_us'' True (\<lambda>v. CpuPeriod_update (\<lambda>_. v)))
    (and_then (get_value env path ''cpu.cfs_quota_us'' True (\<lambda>v. CpuQuota_update (\<lambda>_. v)))
    (and_then (get_value env path ''cpu.rt_period_us'' True (\<lambda>v. CpuRtPeriod_update (\<lambda>_. v)))
              (get_value env path ''cpu.cfs_runtime_us'' True (\<lambda>v. CpuRtRuntime_update (\<lambda>_. v))))))"

definition MemoryGroup_Get :: "cg_env \<Rightarrow> string \<Rightarrow> cg_config \<times> cg_state \<Rightarrow> cg_error option \<times> cg_config \<times> cg_state" where
  "MemoryGroup_Get env path = get_value env path ''memory.limit_in_bytes'' False (\<lambda>v. MemoryLimit_update (\<lambda>_. v))"

fun group_Set :: "cg_env \<Rightarrow> cg_config \<Rightarrow> cgroup \<Rightarrow> cg_state \<Rightarrow> cg_error option \<times> cg_state" where
  "group_Set env c (CpuGroup path) s = CpuGroup_Set env path c s"
| "group_Set env c (MemoryGroup path) s = MemoryGroup_Set env path c s"

fun group_Get :: "cg_env \<Rightarrow> cgroup \<Rightarrow> cg_config \<times> cg_state \<Rightarrow> cg_error option \<times> cg_config \<times> cg_state" where
  "group_Get env (CpuGroup path) = CpuGroup_Get env path"
| "group_Get env (MemoryGroup path) = MemoryGroup_Get env path"

text \<open>The process is put into the group before the subsystem is looked at.\<close>

definition NewGroup ::
  "cg_env \<Rightarrow> string \<Rightarrow> string \<Rightarrow> int \<Rightarrow> cg_state \<Rightarrow> (cg_error + cgroup) outcome \<times> cg_state" where
  "NewGroup env subpath subsystem pid s =
     (let (m, s1) = GetSubsystemMountpoint env subsystem s in
      case m of
        Panics q \<Rightarrow> (Panics q, s1)
      | Returns (Inl e) \<Rightarrow> (Returns (Inl e), s1)
      | Returns (Inr subsystemPath) \<Rightarrow>
          (let path = path_join [subsystemPath, subpath];
               (err, s2) = and_then (make_dirs env path) (writeValue env path ''cgroup.procs'' (itoa pid)) s1 in
           (Returns
              (case err of
                 Some e \<Rightarrow> Inl e
               | None \<Rightarrow>
                   if subsystem = ''cpu'' then Inr (CpuGroup path)
                   else if subsystem = ''memory'' then Inr (MemoryGroup path) else Inl InvalidSubsystem), s2)))"

definition LookupCgroupByPid ::
  "cg_env \<Rightarrow> int \<Rightarrow> string \<Rightarrow> cg_state \<Rightarrow> (cg_error + cgroup) outcome \<times> cg_state" where
  "LookupCgroupByPid env pid subsystem s =
     (let (m, s1) = GetSubsystemMountpoint env subsystem s in
      case m of
        Panics q \<Rightarrow> (Panics q, s1)
      | Returns (Inl e) \<Rightarrow> (Returns (Inl e), s1)
      | Returns (Inr subsystemPath) \<Rightarrow>
          (let (r, s2) = GetCgroupPathByPid env pid subsystem s1 in
           (Returns
              (case r of
                 Inl e \<Rightarrow> Inl e
               | Inr subpath \<Rightarrow>
                   (let path = path_join [subsystemPath, subpath] in
                    if subsystem = ''cpu'' then Inr (CpuGroup path)
                    else if subsystem = ''memory'' then Inr (MemoryGroup path)
                    else Inl (UnsupportedError subsystem))), s2)))"

text \<open>\<open>os.RemoveAll\<close> removes the directory with everything below it, as far as it can.\<close>

definition below :: "string \<Rightarrow> string \<Rightarrow> bool" where
  "below path p \<longleftrightarrow> p = path \<or> has_prefix (path @ ''/'') p"

definition DestroyCgroup :: "cg_env \<Rightarrow> string \<Rightarrow> cg_state \<Rightarrow> cg_error option \<times> cg_state" where
  "DestroyCgroup env path s =
     (let removed = ce_fail env (cg_calls s) path = None;
          s1 = count_call (if removed then s\<lparr>cg_files := (\<lambda>p. if below path p then None else cg_files s p)\<rparr> else s) in
      (case ce_fail env (cg_calls s1) path of Some (OtherFailure e) \<Rightarrow> Some (FileFails path e) | _ \<Rightarrow> None, count_call s1))"

section \<open>The manager\<close>

record cg_manager =
  cm_pid :: int
  cm_cgroups :: "(string \<times> cgroup) list"
  cm_isRemoved :: bool

fun new_groups ::
  "cg_env \<Rightarrow> string \<Rightarrow> int \<Rightarrow> string list \<Rightarrow> (string \<times> cgroup) list \<Rightarrow> cg_state \<Rightarrow>
   (cg_error + (string \<times> cgroup) list) outcome \<times> cg_state" where
  "new_groups env subpath pid [] gs s = (Returns (Inr gs), s)"
| "new_groups env subpath pid (k # ks) gs s =
     (if k = ''cpu'' \<or> k = ''memory'' then
        (let (r, s1) = NewGroup env subpath k pid s in
         case r of
           Panics q \<Rightarrow> (Panics q, s1)
         | Returns (Inl e) \<Rightarrow> (Returns (Inl (CgroupInitError k e)), s1)
         | Returns (Inr g) \<Rightarrow> new_groups env subpath pid ks (AList.update k g gs) s1)
      else (Returns (Inl (UnsupportedError k)), s))"

definition NewManager ::
  "cg_env \<Rightarrow> int \<Rightarrow> string \<Rightarrow> string list \<Rightarrow> cg_state \<Rightarrow> (cg_error + cg_manager) outcome \<times> cg_state" where
  "NewManager env pid subpath subsystems s =
     (let (r, s1) = GetEnabledSubsystems env s in
      case r of
        Inl e \<Rightarrow> (Returns (Inl e), s1)
      | Inr enabled \<Rightarrow>
          (case find (\<lambda>k. enabled k = None) subsystems of
             Some k \<Rightarrow> (Returns (Inl (CgMessage (''Unknown subsystem: '' @ k))), s1)
           | None \<Rightarrow>
               (let (g, s2) = new_groups env subpath pid subsystems [] s1 in
                (map_ret (map_sum id (\<lambda>gs. \<lparr>cm_pid = pid, cm_cgroups = gs, cm_isRemoved = False\<rparr>)) g, s2))))"

text \<open>The entries of a map in the order of this pass.\<close>

definition in_order :: "cg_env \<Rightarrow> nat \<Rightarrow> (string \<times> 'g) list \<Rightarrow> 'g list" where
  "in_order env n gs = List.map_filter (map_of gs) (ce_order env n (map fst gs))"

fun set_groups :: "cg_env \<Rightarrow> cg_config \<Rightarrow> cgroup list \<Rightarrow> cg_state \<Rightarrow> cg_error option \<times> cg_state" where
  "set_groups env c [] s = (None, s)"
| "set_groups env c (g # gs) s = and_then (group_Set env c g) (set_groups env c gs) s"

definition Manager_Set :: "cg_env \<Rightarrow> cg_manager \<Rightarrow> cg_config \<Rightarrow> cg_state \<Rightarrow> cg_error option \<times> cg_state" where
  "Manager_Set env m c s =
     (if cm_isRemoved m then (Some ErrCgroupRemoved, s)
      else set_groups env c (in_order env (cg_calls s) (cm_cgroups m)) s)"

fun get_groups :: "cg_env \<Rightarrow> cgroup list \<Rightarrow> cg_config \<times> cg_state \<Rightarrow> cg_error option \<times> cg_config \<times> cg_state" where
  "get_groups env [] x = (None, x)"
| "get_groups env (g # gs) x = and_then (group_Get env g) (get_groups env gs) x"

definition Manager_Get ::
  "cg_env \<Rightarrow> cg_manager \<Rightarrow> cg_config \<times> cg_state \<Rightarrow> cg_error option \<times> cg_config \<times> cg_state" where
  "Manager_Get env m x =
     (if cm_isRemoved m then (Some ErrCgroupRemoved, x)
      else get_groups env (in_order env (cg_calls (snd x)) (cm_cgroups m)) x)"

fun destroy_groups :: "cg_env \<Rightarrow> cgroup list \<Rightarrow> cg_state \<Rightarrow> cg_error option \<times> cg_state" where
  "destroy_groups env [] s = (None, s)"
| "destroy_groups env (g # gs) s = and_then (DestroyCgroup env (GetPath g)) (destroy_groups env gs) s"

definition Manager_Destroy :: "cg_env \<Rightarrow> cg_manager \<Rightarrow> cg_state \<Rightarrow> cg_error option \<times> cg_manager \<times> cg_state" where
  "Manager_Destroy env m s =
     (let (err, s1) = destroy_groups env (in_order env (cg_calls s) (cm_cgroups m)) s in (err, m\<lparr>cm_isRemoved := True\<rparr>, s1))"

text \<open>Every subsystem of the process, in the order of the map; the unsupported ones are left out.\<close>

fun lookup_groups ::
  "cg_env \<Rightarrow> int \<Rightarrow> string list \<Rightarrow> (string \<times> cgroup) list \<Rightarrow> cg_state \<Rightarrow>
   (cg_error + (string \<times> cgroup) list) outcome \<times> cg_state" where
  "lookup_groups env pid [] gs s = (Returns (Inr gs), s)"
| "lookup_groups env pid (k # ks) gs s =
     (let (r, s1) = LookupCgroupByPid env pid k s in
      case r of
        Panics q \<Rightarrow> (Panics q, s1)
      | Returns (Inr g) \<Rightarrow> lookup_groups env pid ks (AList.update k g gs) s1
      | Returns (Inl (UnsupportedError x)) \<Rightarrow> lookup_groups env pid ks gs s1
      | Returns (Inl e) \<Rightarrow> (Returns (Inl e), s1))"

definition LoadManager :: "cg_env \<Rightarrow> int \<Rightarrow> cg_state \<Rightarrow> (cg_error + cg_manager) outcome \<times> cg_state" where
  "LoadManager env pid s =
     (let (r, s1) = GetProcessCgroups env pid s in
      case r of
        Inl e \<Rightarrow> (Returns (Inl e), s1)
      | Inr m \<Rightarrow>
          if m = [] then (Returns (Inl (CgroupsNotFoundError pid)), s1)
          else
            (let (g, s2) = lookup_groups env pid (ce_order env (cg_calls s1) (map fst m)) [] s1 in
             (map_ret (map_sum id (\<lambda>gs. \<lparr>cm_pid = pid, cm_cgroups = gs, cm_isRemoved = False\<rparr>)) g, s2)))"

section \<open>What is set is read back\<close>

text \<open>The calls succeed; what a file of a group holds is what was written to it.\<close>

definition healthy :: "cg_env \<Rightarrow> bool" where
  "healthy env \<longleftrightarrow> (\<forall>n p. ce_fail env n p = None)"

definition cpu_files :: "string list" where
  "cpu_files = [''cpu.shares'', ''cpu.cfs_period_us'', ''cpu.cfs_quota_us'', ''cpu.rt_period_us'', ''cpu.rt_runtime_us'',
     ''cpu.cfs_runtime_us'']"

text \<open>The files of a group are different files: its path is clean and not empty.\<close>

definition clean_group :: "string \<Rightarrow> bool" where
  "clean_group path \<longleftrightarrow> list_all (\<lambda>f. path_join [path, f] = path @ ''/'' @ f) cpu_files"

lemma path_join_two: "path_join [a, b] = (if a = [] \<and> b = [] then [] else path_clean (join ''/'' (filter (\<lambda>e. e \<noteq> []) [a, b])))"
  by (auto simp: path_join_def)

lemma clean_group_files:
  assumes "clean_group path" "f \<in> set cpu_files"
  shows "path_join [path, f] = path @ ''/'' @ f"
  using assms by (simp add: clean_group_def list_all_iff)

lemma set_value_healthy:
  assumes "healthy env" "clean_group path" "f \<in> set cpu_files" "v \<noteq> 0"
  shows "set_value env path f v m s = (None, count_call (s\<lparr>cg_files := (cg_files s)(path @ ''/'' @ f \<mapsto> itoa v)\<rparr>))"
  using assms by (simp add: set_value_def writeValue_def write_file_def healthy_def clean_group_files)

lemma get_value_healthy:
  assumes "healthy env" "clean_group path" "f \<in> set cpu_files" "min_int64 \<le> v" "v \<le> max_int64"
    "cg_files s (path @ ''/'' @ f) = Some (itoa v)"
  shows "get_value env path f opt put (c, s) = (None, put v c, count_call s)"
  using assms atoi_itoa [of v]
  by (simp add: get_value_def readInt64Value_def read_file_def healthy_def clean_group_files)

lemma get_value_missing:
  assumes "healthy env" "clean_group path" "f \<in> set cpu_files" "cg_files s (path @ ''/'' @ f) = None"
  shows "get_value env path f True put (c, s) = (None, c, count_call s)"
  using assms by (simp add: get_value_def readInt64Value_def read_file_def healthy_def clean_group_files)

lemma and_then_None [simp]: "f s = (None, s1) \<Longrightarrow> and_then f g s = g s1"
  by (simp add: and_then_def)

lemma count_call_files [simp]: "cg_files (count_call s) = cg_files s"
  by (simp add: count_call_def)

definition cpu_values :: "cg_config \<Rightarrow> int list" where
  "cpu_values c = [CpuShares c, CpuQuota c, CpuPeriod c, CpuRtRuntime c, CpuRtPeriod c]"

text \<open>The limits written to a processor group are read back, but for the run time of real-time
  tasks: \<open>Set\<close> writes it to \<open>cpu.rt_runtime_us\<close>, \<open>Get\<close> looks for it in \<open>cpu.cfs_runtime_us\<close>, a file
  that does not exist, and leaves the configuration as it was.\<close>

theorem cpu_settings_read_back:
  assumes "healthy env" "clean_group path"
    and "list_all (\<lambda>v. v \<noteq> 0 \<and> min_int64 \<le> v \<and> v \<le> max_int64) (cpu_values c)"
    and "cg_files s (path @ ''/cpu.cfs_runtime_us'') = None"
  shows "\<exists>s1 s2. CpuGroup_Set env path c s = (None, s1)
    \<and> CpuGroup_Get env path (old, s1) = (None, c\<lparr>CpuRtRuntime := CpuRtRuntime old, MemoryLimit := MemoryLimit old\<rparr>, s2)"
proof -
  let ?f = "\<lambda>f. path @ ''/'' @ f"
  define fs where "fs = (cg_files s)(?f ''cpu.shares'' \<mapsto> itoa (CpuShares c), ?f ''cpu.cfs_period_us'' \<mapsto> itoa (CpuPeriod c),
    ?f ''cpu.cfs_quota_us'' \<mapsto> itoa (CpuQuota c), ?f ''cpu.rt_period_us'' \<mapsto> itoa (CpuRtPeriod c),
    ?f ''cpu.rt_runtime_us'' \<mapsto> itoa (CpuRtRuntime c))"
  have files: "''cpu.shares'' \<in> set cpu_files" "''cpu.cfs_period_us'' \<in> set cpu_files" "''cpu.cfs_quota_us'' \<in> set cpu_files"
    "''cpu.rt_period_us'' \<in> set cpu_files" "''cpu.rt_runtime_us'' \<in> set cpu_files" "''cpu.cfs_runtime_us'' \<in> set cpu_files"
    by (simp_all add: cpu_files_def)
  have "\<exists>s1. CpuGroup_Set env path c s = (None, s1) \<and> cg_files s1 = fs"
    using assms(3) unfolding CpuGroup_Set_def
    by (simp add: set_value_healthy [OF assms(1,2)] files cpu_values_def fs_def)
  then obtain s1 where s1: "CpuGroup_Set env path c s = (None, s1)" "cg_files s1 = fs" by blast
  have at: "fs (?f ''cpu.shares'') = Some (itoa (CpuShares c))" "fs (?f ''cpu.cfs_period_us'') = Some (itoa (CpuPeriod c))"
    "fs (?f ''cpu.cfs_quota_us'') = Some (itoa (CpuQuota c))" "fs (?f ''cpu.rt_period_us'') = Some (itoa (CpuRtPeriod c))"
    "fs (?f ''cpu.cfs_runtime_us'') = None"
    using assms(4) by (simp_all add: fs_def)
  have range: "min_int64 \<le> CpuShares c" "CpuShares c \<le> max_int64" "min_int64 \<le> CpuPeriod c" "CpuPeriod c \<le> max_int64"
    "min_int64 \<le> CpuQuota c" "CpuQuota c \<le> max_int64" "min_int64 \<le> CpuRtPeriod c" "CpuRtPeriod c \<le> max_int64"
    using assms(3) by (simp_all add: cpu_values_def)
  have same: "old\<lparr>CpuShares := CpuShares c, CpuPeriod := CpuPeriod c, CpuQuota := CpuQuota c, CpuRtPeriod := CpuRtPeriod c\<rparr>
      = c\<lparr>CpuRtRuntime := CpuRtRuntime old, MemoryLimit := MemoryLimit old\<rparr>"
    by (cases c, cases old) simp
  have "\<exists>s2. CpuGroup_Get env path (old, s1)
      = (None, c\<lparr>CpuRtRuntime := CpuRtRuntime old, MemoryLimit := MemoryLimit old\<rparr>, s2)"
    unfolding CpuGroup_Get_def
    by (simp add: get_value_healthy [OF assms(1,2) files(1) range(1,2)] get_value_healthy [OF assms(1,2) files(2) range(3,4)]
        get_value_healthy [OF assms(1,2) files(3) range(5,6)] get_value_healthy [OF assms(1,2) files(4) range(7,8)]
        get_value_missing [OF assms(1,2) files(6)] s1(2) at [simplified] same)
  with s1(1) show ?thesis by blast
qed

definition demo_cg_env :: cg_env where
  "demo_cg_env = \<lparr>ce_fail = (\<lambda>n p. None), ce_order = (\<lambda>n ks. ks)\<rparr>"

definition half_core :: cg_config where
  "half_core = \<lparr>CpuShares = 512, CpuQuota = 50000, CpuPeriod = 100000, CpuRtRuntime = 10000, CpuRtPeriod = 1000000, MemoryLimit = 0\<rparr>"

theorem cpu_settings_read_back_witness:
  "\<exists>s1 s2. CpuGroup_Set demo_cg_env ''/cg/a'' half_core \<lparr>cg_files = Map.empty, cg_calls = 0\<rparr> = (None, s1)
    \<and> CpuGroup_Get demo_cg_env ''/cg/a'' (half_core\<lparr>CpuRtRuntime := 7\<rparr>, s1) = (None, half_core\<lparr>CpuRtRuntime := 7\<rparr>, s2)"
proof -
  have 1: "healthy demo_cg_env" by (simp add: healthy_def demo_cg_env_def)
  have 2: "clean_group ''/cg/a''" by code_simp
  have 3: "list_all (\<lambda>v. v \<noteq> 0 \<and> min_int64 \<le> v \<and> v \<le> max_int64) (cpu_values half_core)"
    by (simp add: cpu_values_def half_core_def min_int64_def max_int64_def)
  show ?thesis
    using cpu_settings_read_back [OF 1 2 3, where s = "\<lparr>cg_files = Map.empty, cg_calls = 0\<rparr>" and old = "half_core\<lparr>CpuRtRuntime := 7\<rparr>"]
    by (simp add: half_core_def)
qed

end
