(* ===== verification/Perf_Monitor.thy ===== *)
theory Perf_Monitor
  imports Cgroups Metrics Text_Replace
begin

text \<open>
  The agent watches its own load, \<open>agent/perfmon\<close>: every five seconds a sample of processor and
  memory, once a day a report of the averages and maxima, and after three samples in a row above a
  limit the confinement to a control group or the end of the process. What is reported is a trace of
  calls to the metrics and the client reports, which are modelled in theories of their own.
\<close>

section \<open>Samples\<close>

text \<open>
  A processor sample is a float. The code takes from it the hundredths, whether it reaches the limit
  of 20 percent, and two printed texts; memory is a number of bytes and the text of its float.
\<close>

record cpu_sample =
  cu_hundredths :: int
  cu_overload :: bool
  cu_text2 :: string
  cu_text :: string

record mem_sample =
  mu_rss :: int
  mu_text :: string

definition MEM_LIMIT :: int where "MEM_LIMIT = 1024 * 1024 * 50"
definition OVERLAOD_LIMIT :: nat where "OVERLAOD_LIMIT = 3"

datatype perf_call =
    ReportEvent string "string list"
  | SendReport string string
  | Fatal string

text \<open>
  What a sample meets: whether tasks, sessions, an update's phases or the state manager are at work,
  the random number and the profile, and the five
  statistics of the heap.
\<close>

record perf_env =
  pe_busy :: bool
  pe_random :: int
  pe_profile :: "go_error + string"
  pe_heap :: "int list"
  pe_pid :: int
  pe_cg :: cg_env

record perf_state =
  cpuPercentTotal :: int
  cpuPercentMax :: int
  cpuCount :: int
  memRssTotal :: int
  memRssMax :: int
  memCount :: int
  cpu_overload_count :: nat
  mem_overload_count :: nat
  cpuCgroupLimit :: bool
  perf_files :: cg_state
  perf_calls :: "perf_call list"
  perf_exited :: bool

definition perf_call :: "perf_call \<Rightarrow> perf_state \<Rightarrow> perf_state" where
  "perf_call c s = s\<lparr>perf_calls := perf_calls s @ [c]\<rparr>"

text \<open>\<open>Fatalln\<close> ends the process.\<close>

definition fatal :: "string \<Rightarrow> perf_state \<Rightarrow> perf_state" where
  "fatal m s = (perf_call (Fatal m) s)\<lparr>perf_exited := True\<rparr>"

section \<open>The control group\<close>

definition cgroup_cfg :: string where "cgroup_cfg = ''/usr/local/share/aliyun-assist/config/cgroup''"
definition cgroup_name :: string where "cgroup_name = ''aliyun_assist_cpu''"
definition default_cpu_limit :: int where "default_cpu_limit = 15"

text \<open>The limit of the file, or the default one, which is then written; errors of writing are dropped.\<close>

definition getCpuLimit :: "cg_env \<Rightarrow> cg_state \<Rightarrow> int \<times> cg_state" where
  "getCpuLimit env s =
     (let (r, s1) = read_file env cgroup_cfg s;
          found = (case r of Inr c \<Rightarrow> (case atoi (trim_space c) of (i, None) \<Rightarrow> Some i | _ \<Rightarrow> None) | Inl _ \<Rightarrow> None) in
      case found of
        Some i \<Rightarrow> (i, s1)
      | None \<Rightarrow>
          (let (_, s2) = make_dirs env (path_dir cgroup_cfg) s1;
               (_, s3) = write_file env cgroup_cfg (itoa default_cpu_limit) s2 in
           (default_cpu_limit, s3)))"

definition no_limits :: cg_config where
  "no_limits = \<lparr>CpuShares = 0, CpuQuota = 0, CpuPeriod = 0, CpuRtRuntime = 0, CpuRtPeriod = 0, MemoryLimit = 0\<rparr>"

definition InitCgroup :: "cg_env \<Rightarrow> int \<Rightarrow> cg_state \<Rightarrow> cg_error option outcome \<times> cg_state" where
  "InitCgroup env pid s =
     (let (c, s1) = NewManager env pid cgroup_name [''cpu''] s in
      case c of
        Panics q \<Rightarrow> (Panics q, s1)
      | Returns (Inl e) \<Rightarrow> (Returns (Some e), s1)
      | Returns (Inr m) \<Rightarrow>
          (let (cpuLimit, s2) = getCpuLimit env s1;
               (err, s3) = Manager_Set env m (no_limits\<lparr>CpuQuota := wrap64 (1000 * cpuLimit)\<rparr>) s2 in
           (Returns err, s3)))"

text \<open>A panic in a goroutine ends the process too.\<close>

definition reachCpuOverloadLimit :: "perf_env \<Rightarrow> cpu_sample \<Rightarrow> perf_state \<Rightarrow> perf_state" where
  "reachCpuOverloadLimit env cpu s =
     (if \<not> cpuCgroupLimit s then
        (let (r, fs) = InitCgroup (pe_cg env) (pe_pid env) (perf_files s); s1 = s\<lparr>perf_files := fs\<rparr> in
         case r of
           Panics q \<Rightarrow> s1\<lparr>perf_exited := True\<rparr>
         | Returns None \<Rightarrow>
             (perf_call (SendReport ''init_cgroup'' (''cpu='' @ cu_text cpu)) s1)
               \<lparr>cpuCgroupLimit := True, cpu_overload_count := 0\<rparr>
         | Returns (Some e) \<Rightarrow>
             fatal ''self kill for CPU Overload'' (perf_call (SendReport ''self_kill'' (''cpu='' @ cu_text cpu)) s1))
      else fatal ''self kill for CPU Overload'' (perf_call (SendReport ''high_cpu'' (''cpu='' @ cu_text cpu)) s))"

section \<open>The check of a sample\<close>

definition profile_result :: "perf_env \<Rightarrow> string \<times> string" where
  "profile_result env =
     (if pe_random env > 100 then ([], ''only sampe cpu profile with a probability of 1/100'')
      else case pe_profile env of Inr buf \<Rightarrow> (base64_encode buf, []) | Inl e \<Rightarrow> ([], err_text e))"

definition cpu_event :: "perf_env \<Rightarrow> cpu_sample \<Rightarrow> nat \<Rightarrow> perf_call" where
  "cpu_event env cpu n =
     (let (cpuProfile, cpuProfileErr) = profile_result env in
      ReportEvent EVENT_PERF_CPU_OVERLOAD
        [''cpu'', cu_text2 cpu, ''info'', ''CPU Overload... CPU='' @ cu_text2 cpu, ''count'', itoa (int n),
         ''cpuProfile'', cpuProfile, ''cpuProfileErr'', cpuProfileErr])"

definition heap_words :: "string list" where
  "heap_words = [''HeapAlloc'', ''HeapIdle'', ''HeapInuse'', ''HeapReleased'', ''StackInuse'']"

definition mem_event :: "perf_env \<Rightarrow> int \<Rightarrow> nat \<Rightarrow> perf_call" where
  "mem_event env memory n =
     ReportEvent EVENT_PERF_MEM_OVERLOAD
       ([''mem'', itoa memory, ''info'', ''Memory Overload... MEM='' @ itoa memory, ''count'', itoa (int n)]
        @ concat (map2 (\<lambda>k v. [k, itoa v]) heap_words (pe_heap env)))"

text \<open>A failed reading is the value -1, which is below every limit.\<close>

definition cpu_over :: "cpu_sample option \<Rightarrow> bool" where
  "cpu_over cpu \<longleftrightarrow> (case cpu of Some c \<Rightarrow> cu_overload c | None \<Rightarrow> False)"

definition mem_over :: "mem_sample option \<Rightarrow> bool" where
  "mem_over mem \<longleftrightarrow> (case mem of Some m \<Rightarrow> MEM_LIMIT \<le> mu_rss m | None \<Rightarrow> False)"

definition count_cpu :: "perf_env \<Rightarrow> cpu_sample option \<Rightarrow> perf_state \<Rightarrow> perf_state" where
  "count_cpu env cpu s =
     (case cpu of
        Some c \<Rightarrow>
          if cu_overload c then
            (let n = Suc (cpu_overload_count s) in perf_call (cpu_event env c n) (s\<lparr>cpu_overload_count := n\<rparr>))
          else s\<lparr>cpu_overload_count := 0\<rparr>
      | None \<Rightarrow> s\<lparr>cpu_overload_count := 0\<rparr>)"

definition count_mem :: "perf_env \<Rightarrow> mem_sample option \<Rightarrow> perf_state \<Rightarrow> perf_state" where
  "count_mem env mem s =
     (case mem of
        Some m \<Rightarrow>
          if MEM_LIMIT \<le> mu_rss m then
            (let n = Suc (mem_overload_count s) in perf_call (mem_event env (mu_rss m) n) (s\<lparr>mem_overload_count := n\<rparr>))
          else s\<lparr>mem_overload_count := 0\<rparr>
      | None \<Rightarrow> s\<lparr>mem_overload_count := 0\<rparr>)"

definition act_on_cpu :: "perf_env \<Rightarrow> cpu_sample option \<Rightarrow> perf_state \<Rightarrow> perf_state" where
  "act_on_cpu env cpu s =
     (case cpu of
        Some c \<Rightarrow> if OVERLAOD_LIMIT \<le> cpu_overload_count s then reachCpuOverloadLimit env c s else s
      | None \<Rightarrow> s)"

definition act_on_mem :: "mem_sample option \<Rightarrow> perf_state \<Rightarrow> perf_state" where
  "act_on_mem mem s =
     (case mem of
        Some m \<Rightarrow>
          if OVERLAOD_LIMIT \<le> mem_overload_count s then
            fatal ''self kill for Memory Overload'' (perf_call (SendReport ''self_kill'' (''mem='' @ mu_text m)) s)
          else s
      | None \<Rightarrow> s)"

text \<open>The memory is looked at only by a process that goes on.\<close>

definition checkCpuMemLoad ::
  "perf_env \<Rightarrow> cpu_sample option \<Rightarrow> mem_sample option \<Rightarrow> perf_state \<Rightarrow> perf_state" where
  "checkCpuMemLoad env cpu mem s =
     (if pe_busy env then s
      else
        (let s1 = act_on_cpu env cpu (count_mem env mem (count_cpu env cpu s)) in
         if perf_exited s1 then s1 else act_on_mem mem s1))"

section \<open>The loop and the daily report\<close>

definition add_cpu :: "cpu_sample option \<Rightarrow> perf_state \<Rightarrow> perf_state" where
  "add_cpu cpu s =
     (case cpu of
        None \<Rightarrow> s
      | Some c \<Rightarrow> s\<lparr>cpuPercentTotal := wrap64 (cpuPercentTotal s + cu_hundredths c),
          cpuPercentMax := (if cpuPercentMax s < cu_hundredths c then cu_hundredths c else cpuPercentMax s),
          cpuCount := cpuCount s + 1\<rparr>)"

definition add_mem :: "mem_sample option \<Rightarrow> perf_state \<Rightarrow> perf_state" where
  "add_mem mem s =
     (case mem of
        None \<Rightarrow> s
      | Some m \<Rightarrow> s\<lparr>memRssTotal := wrap64 (memRssTotal s + mu_rss m),
          memRssMax := (if memRssMax s < mu_rss m then mu_rss m else memRssMax s),
          memCount := memCount s + 1\<rparr>)"

text \<open>One round of \<open>generatePerfData\<close>, with the check it starts.\<close>

definition perf_sample ::
  "perf_env \<Rightarrow> cpu_sample option \<Rightarrow> mem_sample option \<Rightarrow> perf_state \<Rightarrow> perf_state" where
  "perf_sample env cpu mem s = checkCpuMemLoad env cpu mem (add_mem mem (add_cpu cpu s))"

definition average :: "int \<Rightarrow> int \<Rightarrow> int" where
  "average t n = (if n \<ge> 1 then (case go_div t n of Returns a \<Rightarrow> a | Panics q \<Rightarrow> 0) else - 1)"

definition perf_report :: "perf_state \<Rightarrow> perf_state" where
  "perf_report s =
     (perf_call (ReportEvent EVENT_PERF_SAMPLE
        [''cpuAvg'', itoa (average (cpuPercentTotal s) (cpuCount s)), ''cpuMax'', itoa (cpuPercentMax s),
         ''memAvg'', itoa (average (memRssTotal s) (memCount s)), ''memMax'', itoa (memRssMax s)]) s)
       \<lparr>cpuPercentTotal := 0, cpuCount := 0, memRssTotal := 0, memCount := 0, cpuPercentMax := 0, memRssMax := 0\<rparr>"

datatype perf_step = Sample perf_env "cpu_sample option" "mem_sample option" | Daily

definition perf_step :: "perf_step \<Rightarrow> perf_state \<Rightarrow> perf_state" where
  "perf_step e s =
     (if perf_exited s then s
      else case e of Sample env cpu mem \<Rightarrow> perf_sample env cpu mem s | Daily \<Rightarrow> perf_report s)"

definition perf_init :: "cg_state \<Rightarrow> perf_state" where
  "perf_init fs = \<lparr>cpuPercentTotal = 0, cpuPercentMax = 0, cpuCount = 0, memRssTotal = 0, memRssMax = 0, memCount = 0,
     cpu_overload_count = 0, mem_overload_count = 0, cpuCgroupLimit = False, perf_files = fs, perf_calls = [],
     perf_exited = False\<rparr>"

definition perf_run :: "perf_step list \<Rightarrow> perf_state \<Rightarrow> perf_state" where
  "perf_run es s = fold perf_step es s"

section \<open>The counters\<close>

text \<open>The samples that count are those taken while nothing is at work.\<close>

fun counted :: "perf_step list \<Rightarrow> (cpu_sample option \<times> mem_sample option) list" where
  "counted [] = []"
| "counted (Sample env cpu mem # es) = (if pe_busy env then counted es else (cpu, mem) # counted es)"
| "counted (Daily # es) = counted es"

text \<open>How many samples at the end, one after the other, satisfy a condition.\<close>

definition trailing :: "('a \<Rightarrow> bool) \<Rightarrow> 'a list \<Rightarrow> nat" where
  "trailing P xs = length (takeWhile P (rev xs))"

lemma trailing_simps [simp]:
  "trailing P [] = 0" "trailing P (xs @ [x]) = (if P x then Suc (trailing P xs) else 0)"
  by (simp_all add: trailing_def)

lemma counted_append [simp]: "counted (es @ fs) = counted es @ counted fs"
  by (induction es rule: counted.induct) auto

definition three_in_a_row :: "('a \<Rightarrow> bool) \<Rightarrow> 'a list \<Rightarrow> bool" where
  "three_in_a_row P xs \<longleftrightarrow> (\<exists>as a b c bs. xs = as @ [a, b, c] @ bs \<and> P a \<and> P b \<and> P c)"

lemma trailing_three: "3 \<le> trailing P xs \<Longrightarrow> three_in_a_row P xs"
proof -
  assume "3 \<le> trailing P xs"
  then obtain a b c t where r: "takeWhile P (rev xs) = c # b # a # t"
    unfolding trailing_def by (metis One_nat_def Suc_le_length_iff numeral_3_eq_3)
  then have p: "P a" "P b" "P c" using set_takeWhileD [of _ P "rev xs"] by (metis list.set_intros(1,2))+
  have "rev xs = (c # b # a # t) @ dropWhile P (rev xs)" using r takeWhile_dropWhile_id [of P "rev xs"] by simp
  then have "xs = rev (dropWhile P (rev xs)) @ rev t @ [a, b, c]" by (metis append_assoc rev_append rev_rev_ident rev.simps append_Cons append_Nil)
  with p show ?thesis unfolding three_in_a_row_def
    by (intro exI [of _ "rev (dropWhile P (rev xs)) @ rev t"] exI [of _ a] exI [of _ b] exI [of _ c] exI [of _ "[]"]) simp
qed

lemma three_in_a_row_append: "three_in_a_row P xs \<Longrightarrow> three_in_a_row P (xs @ ys)"
  unfolding three_in_a_row_def by (metis append.assoc)

text \<open>What holds between the steps, of the samples counted so far.\<close>

definition perf_inv :: "(cpu_sample option \<times> mem_sample option) list \<Rightarrow> perf_state \<Rightarrow> bool" where
  "perf_inv xs s \<longleftrightarrow>
     (if perf_exited s then three_in_a_row (cpu_over \<circ> fst) xs \<or> three_in_a_row (mem_over \<circ> snd) xs
      else mem_overload_count s = trailing (mem_over \<circ> snd) xs \<and> mem_overload_count s < OVERLAOD_LIMIT
        \<and> cpu_overload_count s \<le> trailing (cpu_over \<circ> fst) xs \<and> cpu_overload_count s < OVERLAOD_LIMIT)"

lemma perf_call_simps [simp]:
  "perf_exited (perf_call c s) = perf_exited s" "mem_overload_count (perf_call c s) = mem_overload_count s"
  "cpu_overload_count (perf_call c s) = cpu_overload_count s" "cpuCgroupLimit (perf_call c s) = cpuCgroupLimit s"
  "perf_exited (fatal m s)"
  by (simp_all add: perf_call_def fatal_def)

lemma count_cpu_simps [simp]:
  "perf_exited (count_cpu env cpu s) = perf_exited s" "mem_overload_count (count_cpu env cpu s) = mem_overload_count s"
  "cpu_overload_count (count_cpu env cpu s) = (if cpu_over cpu then Suc (cpu_overload_count s) else 0)"
  by (auto simp: count_cpu_def cpu_over_def Let_def split: option.split)

lemma count_mem_simps [simp]:
  "perf_exited (count_mem env mem s) = perf_exited s" "cpu_overload_count (count_mem env mem s) = cpu_overload_count s"
  "mem_overload_count (count_mem env mem s) = (if mem_over mem then Suc (mem_overload_count s) else 0)"
  by (auto simp: count_mem_def mem_over_def Let_def split: option.split)

lemma act_on_cpu_cases:
  assumes "act_on_cpu env cpu s = s'" "\<not> perf_exited s" "cpu_over cpu \<or> cpu_overload_count s = 0"
  shows "mem_overload_count s' = mem_overload_count s"
    and "perf_exited s' \<Longrightarrow> OVERLAOD_LIMIT \<le> cpu_overload_count s"
    and "\<not> perf_exited s' \<Longrightarrow> cpu_overload_count s' < OVERLAOD_LIMIT \<and> cpu_overload_count s' \<le> cpu_overload_count s"
  using assms
  by (auto simp: act_on_cpu_def reachCpuOverloadLimit_def cpu_over_def OVERLAOD_LIMIT_def perf_call_def fatal_def Let_def
      split: option.splits if_splits prod.splits outcome.splits)

lemma act_on_mem_cases:
  assumes "act_on_mem mem s = s'" "\<not> perf_exited s" "mem_over mem \<or> mem_overload_count s = 0"
  shows "perf_exited s' \<longleftrightarrow> OVERLAOD_LIMIT \<le> mem_overload_count s" and "\<not> perf_exited s' \<Longrightarrow> s' = s"
  using assms by (auto simp: act_on_mem_def mem_over_def OVERLAOD_LIMIT_def split: option.splits if_splits)

lemma check_inv:
  assumes "perf_inv xs s" "\<not> perf_exited s" "\<not> pe_busy env"
  shows "perf_inv (xs @ [(cpu, mem)]) (checkCpuMemLoad env cpu mem s)"
proof -
  define s1 where "s1 = count_mem env mem (count_cpu env cpu s)"
  define s2 where "s2 = act_on_cpu env cpu s1"
  define ys where "ys = xs @ [(cpu, mem)]"
  have s: "mem_overload_count s = trailing (mem_over \<circ> snd) xs" "cpu_overload_count s \<le> trailing (cpu_over \<circ> fst) xs"
    using assms(1,2) by (simp_all add: perf_inv_def)
  have 1: "mem_overload_count s1 = trailing (mem_over \<circ> snd) ys" "cpu_overload_count s1 \<le> trailing (cpu_over \<circ> fst) ys"
    "\<not> perf_exited s1" "cpu_over cpu \<or> cpu_overload_count s1 = 0" "mem_over mem \<or> mem_overload_count s1 = 0"
    using s assms(2) by (auto simp: s1_def ys_def)
  note 2 = act_on_cpu_cases [OF s2_def [symmetric] 1(3,4)]
  have c: "checkCpuMemLoad env cpu mem s = (if perf_exited s2 then s2 else act_on_mem mem s2)"
    using assms(3) by (simp add: checkCpuMemLoad_def s1_def s2_def Let_def)
  show ?thesis
  proof (cases "perf_exited s2")
    case True
    with 2(2) 1(2) have "3 \<le> trailing (cpu_over \<circ> fst) ys" by (simp add: OVERLAOD_LIMIT_def)
    with True c show ?thesis by (simp add: perf_inv_def ys_def [symmetric] trailing_three)
  next
    case False
    have m: "mem_over mem \<or> mem_overload_count s2 = 0" using 1(5) 2(1) by simp
    note 3 = act_on_mem_cases [OF refl False m]
    show ?thesis
    proof (cases "perf_exited (act_on_mem mem s2)")
      case True
      with 3(1) 2(1) 1(1) have "3 \<le> trailing (mem_over \<circ> snd) ys" by (simp add: OVERLAOD_LIMIT_def)
      with True False c show ?thesis by (simp add: perf_inv_def ys_def [symmetric] trailing_three)
    next
      case alive: False
      with 3 2 1 False c show ?thesis by (auto simp: perf_inv_def ys_def [symmetric])
    qed
  qed
qed

lemma add_simps [simp]:
  "perf_exited (add_cpu cpu s) = perf_exited s" "perf_exited (add_mem mem s) = perf_exited s"
  "mem_overload_count (add_cpu cpu s) = mem_overload_count s" "mem_overload_count (add_mem mem s) = mem_overload_count s"
  "cpu_overload_count (add_cpu cpu s) = cpu_overload_count s" "cpu_overload_count (add_mem mem s) = cpu_overload_count s"
  by (simp_all add: add_cpu_def add_mem_def split: option.split)

lemma perf_inv_add [simp]: "perf_inv xs (add_mem mem (add_cpu cpu s)) = perf_inv xs s"
  by (simp add: perf_inv_def)

lemma perf_inv_step:
  assumes "perf_inv xs s"
  shows "perf_inv (xs @ counted [e]) (perf_step e s)"
proof (cases "perf_exited s")
  case True
  with assms have "perf_inv (xs @ counted [e]) s"
    by (auto simp: perf_inv_def dest: three_in_a_row_append)
  with True show ?thesis by (simp add: perf_step_def)
next
  case False
  show ?thesis
  proof (cases e)
    case (Sample env cpu mem)
    show ?thesis
    proof (cases "pe_busy env")
      case True
      with Sample False assms show ?thesis by (simp add: perf_step_def perf_sample_def checkCpuMemLoad_def)
    next
      case idle: False
      with Sample False assms check_inv [of xs "add_mem mem (add_cpu cpu s)" env cpu mem] show ?thesis
        by (simp add: perf_step_def perf_sample_def)
    qed
  next
    case Daily
    with False assms show ?thesis by (simp add: perf_step_def perf_report_def perf_inv_def perf_call_def)
  qed
qed

lemma perf_inv_run: "perf_inv xs s \<Longrightarrow> perf_inv (xs @ counted es) (perf_run es s)"
proof (induction es arbitrary: xs s)
  case (Cons e es)
  from Cons.IH [OF perf_inv_step [OF Cons.prems, of e]]
  have "perf_inv ((xs @ counted [e]) @ counted es) (perf_run es (perf_step e s))" .
  moreover have "counted (e # es) = counted [e] @ counted es" using counted_append [of "[e]" es] by simp
  ultimately show ?case by (simp add: perf_run_def)
qed (simp add: perf_run_def)

section \<open>Properties\<close>

text \<open>C25. The agent ends itself over its load only after three samples in a row above a limit, counted
  while no task, session, update or state configuration is at work. Samples taken while something is
  at work neither count nor break a row, so that the three may be hours apart. A third counted sample
  in a row above the limit of memory always ends it.\<close>

theorem self_kill_after_three:
  "(perf_exited (perf_run es (perf_init fs)) \<longrightarrow>
      three_in_a_row (cpu_over \<circ> fst) (counted es) \<or> three_in_a_row (mem_over \<circ> snd) (counted es))
   \<and> (trailing (mem_over \<circ> snd) (counted es) \<ge> 3 \<longrightarrow> perf_exited (perf_run es (perf_init fs)))"
proof -
  have "perf_inv [] (perf_init fs)" by (simp add: perf_inv_def perf_init_def OVERLAOD_LIMIT_def)
  from perf_inv_run [OF this, of es] show ?thesis
    by (auto simp: perf_inv_def OVERLAOD_LIMIT_def split: if_splits)
qed

definition idle_env :: perf_env where
  "idle_env = \<lparr>pe_busy = False, pe_random = 5000, pe_profile = Inr [], pe_heap = [1, 2, 3, 4, 5], pe_pid = 42, pe_cg = demo_cg_env\<rparr>"

definition big :: perf_step where
  "big = Sample idle_env None (Some \<lparr>mu_rss = 60000000, mu_text = ''60000000.000000''\<rparr>)"

theorem self_kill_after_three_witness:
  "perf_exited (perf_run [big, big, Daily, big] (perf_init \<lparr>cg_files = Map.empty, cg_calls = 0\<rparr>))"
proof -
  have "trailing (mem_over \<circ> snd) (counted [big, big, Daily, big]) \<ge> 3"
    by (simp add: big_def idle_env_def trailing_def mem_over_def MEM_LIMIT_def)
  then show ?thesis
    using self_kill_after_three [of "[big, big, Daily, big]" "\<lparr>cg_files = Map.empty, cg_calls = 0\<rparr>"] by blast
qed

text \<open>The daily averages are at most the maxima reported beside them, and not negative once there is
  a sample, as long as the sums fit 64 bits.\<close>

definition bounded_by :: "int \<Rightarrow> perf_step \<Rightarrow> bool" where
  "bounded_by B e =
     (case e of
        Daily \<Rightarrow> True
      | Sample env cpu mem \<Rightarrow>
          (case cpu of None \<Rightarrow> True | Some c \<Rightarrow> 0 \<le> cu_hundredths c \<and> cu_hundredths c \<le> B)
        \<and> (case mem of None \<Rightarrow> True | Some m \<Rightarrow> 0 \<le> mu_rss m \<and> mu_rss m \<le> B))"

definition sum_ok :: "int \<Rightarrow> int \<Rightarrow> int \<Rightarrow> int \<Rightarrow> int \<Rightarrow> bool" where
  "sum_ok B n t k m \<longleftrightarrow> 0 \<le> k \<and> k \<le> n \<and> 0 \<le> m \<and> m \<le> B \<and> 0 \<le> t \<and> t \<le> k * m"

definition sums_ok :: "int \<Rightarrow> int \<Rightarrow> perf_state \<Rightarrow> bool" where
  "sums_ok B n s \<longleftrightarrow> sum_ok B n (cpuPercentTotal s) (cpuCount s) (cpuPercentMax s)
     \<and> sum_ok B n (memRssTotal s) (memCount s) (memRssMax s)"

lemma sum_ok_add:
  assumes "sum_ok B n t k m" "0 \<le> v" "v \<le> B" "(n + 1) * B \<le> max_int64"
  shows "sum_ok B (n + 1) (wrap64 (t + v)) (k + 1) (if m < v then v else m)"
proof -
  let ?m = "if m < v then v else m"
  have a: "0 \<le> k" "k \<le> n" "0 \<le> m" "m \<le> B" "0 \<le> t" "t \<le> k * m" using assms(1) by (auto simp: sum_ok_def)
  have "k * m \<le> k * ?m" using a(1) by (intro mult_left_mono) auto
  moreover have "(k + 1) * ?m = k * ?m + ?m" "v \<le> ?m" by (simp_all add: distrib_right)
  ultimately have t: "t + v \<le> (k + 1) * ?m" using a(6) by linarith
  have "(k + 1) * ?m \<le> (n + 1) * B" using a assms(2,3) by (intro mult_mono) auto
  then have "t + v \<le> max_int64" using t assms(4) by linarith
  then have "wrap64 (t + v) = t + v" using a assms(2) by (simp add: max_int64_def)
  with a t assms(2,3) show ?thesis by (auto simp: sum_ok_def)
qed

lemma sum_ok_mono: "sum_ok B n t k m \<Longrightarrow> n \<le> n' \<Longrightarrow> sum_ok B n' t k m"
  by (simp add: sum_ok_def)

text \<open>The check of a sample leaves the sums alone.\<close>

definition sums :: "perf_state \<Rightarrow> int list" where
  "sums s = [cpuPercentTotal s, cpuCount s, cpuPercentMax s, memRssTotal s, memCount s, memRssMax s]"

lemma sums_call [simp]: "sums (perf_call c s) = sums s" "sums (fatal m s) = sums s"
  by (simp_all add: sums_def perf_call_def fatal_def)

lemma sums_update [simp]:
  "sums (s\<lparr>cpu_overload_count := n\<rparr>) = sums s" "sums (s\<lparr>mem_overload_count := n\<rparr>) = sums s"
  "sums (s\<lparr>perf_files := fs\<rparr>) = sums s" "sums (s\<lparr>perf_exited := b\<rparr>) = sums s" "sums (s\<lparr>cpuCgroupLimit := b\<rparr>) = sums s"
  by (simp_all add: sums_def)

lemma sums_count [simp]: "sums (count_cpu env cpu s) = sums s" "sums (count_mem env mem s) = sums s"
  by (simp_all add: count_cpu_def count_mem_def Let_def split: option.split)

lemma sums_reach [simp]: "sums (reachCpuOverloadLimit env c s) = sums s"
  by (simp add: reachCpuOverloadLimit_def Let_def split: option.split prod.split outcome.split)

lemma sums_act [simp]: "sums (act_on_cpu env cpu s) = sums s" "sums (act_on_mem mem s) = sums s"
  by (simp_all add: act_on_cpu_def act_on_mem_def split: option.split)

lemma check_sums: "sums (checkCpuMemLoad env cpu mem s) = sums s"
  by (simp add: checkCpuMemLoad_def Let_def)

lemma check_counts [simp]:
  "cpuCount (checkCpuMemLoad env cpu mem s) = cpuCount s" "memCount (checkCpuMemLoad env cpu mem s) = memCount s"
  using check_sums [of env cpu mem s] by (simp_all add: sums_def)

lemma sums_ok_check [simp]: "sums_ok B n (checkCpuMemLoad env cpu mem s) = sums_ok B n s"
  using check_sums [of env cpu mem s] by (simp add: sums_ok_def sums_def)

lemma sums_ok_step:
  assumes "sums_ok B n s" "bounded_by B e" "(n + 1) * B \<le> max_int64" "0 \<le> n" "0 \<le> B"
  shows "sums_ok B (n + 1) (perf_step e s)"
proof -
  have keep: "sums_ok B (n + 1) s"
    using assms(1) sum_ok_mono unfolding sums_ok_def by (meson order_refl zle_add1_eq_le less_add_one order_less_imp_le)
  show ?thesis
  proof (cases e)
    case (Sample env cpu mem)
    have "sum_ok B (n + 1) (cpuPercentTotal (add_cpu cpu s)) (cpuCount (add_cpu cpu s)) (cpuPercentMax (add_cpu cpu s))"
    proof (cases cpu)
      case (Some c)
      have "sum_ok B (n + 1) (wrap64 (cpuPercentTotal s + cu_hundredths c)) (cpuCount s + 1)
          (if cpuPercentMax s < cu_hundredths c then cu_hundredths c else cpuPercentMax s)"
        by (rule sum_ok_add [OF _ _ _ assms(3)]) (use assms(1,2) Sample Some in \<open>auto simp: sums_ok_def bounded_by_def\<close>)
      with Some show ?thesis by (simp add: add_cpu_def)
    qed (use keep in \<open>simp add: add_cpu_def sums_ok_def\<close>)
    moreover have "sum_ok B (n + 1) (memRssTotal (add_mem mem s)) (memCount (add_mem mem s)) (memRssMax (add_mem mem s))"
    proof (cases mem)
      case (Some m)
      have "sum_ok B (n + 1) (wrap64 (memRssTotal s + mu_rss m)) (memCount s + 1)
          (if memRssMax s < mu_rss m then mu_rss m else memRssMax s)"
        by (rule sum_ok_add [OF _ _ _ assms(3)]) (use assms(1,2) Sample Some in \<open>auto simp: sums_ok_def bounded_by_def\<close>)
      with Some show ?thesis by (simp add: add_mem_def)
    qed (use keep in \<open>simp add: add_mem_def sums_ok_def\<close>)
    ultimately have "sums_ok B (n + 1) (add_mem mem (add_cpu cpu s))"
      by (auto simp: sums_ok_def add_mem_def add_cpu_def split: option.splits)
    with Sample keep show ?thesis by (simp add: perf_step_def perf_sample_def)
  next
    case Daily
    with keep assms(4,5) show ?thesis by (auto simp: perf_step_def perf_report_def sums_ok_def sum_ok_def)
  qed
qed

lemma sums_ok_run:
  assumes "sums_ok B n s" "list_all (bounded_by B) es" "(n + int (length es)) * B \<le> max_int64" "0 \<le> n" "0 \<le> B"
  shows "sums_ok B (n + int (length es)) (perf_run es s)"
  using assms
proof (induction es arbitrary: n s)
  case (Cons e es)
  have "(n + 1) * B \<le> (n + int (length (e # es))) * B" using Cons.prems by (intro mult_right_mono) auto
  then have "sums_ok B (n + 1) (perf_step e s)"
    using Cons.prems by (intro sums_ok_step) auto
  from Cons.IH [OF this] Cons.prems show ?case by (simp add: perf_run_def add.assoc add.commute add.left_commute)
qed (simp add: perf_run_def)

lemma average_bounds:
  assumes "sum_ok B n t k m" "n * B \<le> max_int64" "1 \<le> k" "0 \<le> B"
  shows "0 \<le> average t k \<and> average t k \<le> m"
proof -
  have a: "0 \<le> t" "t \<le> k * m" "k \<le> n" "0 \<le> m" "m \<le> B" using assms(1) by (auto simp: sum_ok_def)
  have "t div k \<le> (k * m) div k" using a(2) assms(3) by (intro zdiv_mono1) auto
  then have q: "0 \<le> t div k" "t div k \<le> m"
    using a(1) assms(3) by (simp_all add: pos_imp_zdiv_nonneg_iff)
  have "1 * m \<le> n * B" using a assms(3,4) by (intro mult_mono) auto
  then have "m \<le> max_int64" using assms(2) by simp
  with q have "wrap64 (t div k) = t div k" by (simp add: max_int64_def)
  moreover have "average t k = wrap64 (t div k)" using a(1) assms(3) by (cases "t = 0") (auto simp: average_def go_div_def)
  ultimately show ?thesis using q by simp
qed

theorem averages_below_maxima:
  assumes "list_all (bounded_by B) es" "int (length es) * B \<le> max_int64" "0 \<le> B"
    and "s = perf_run es (perf_init fs)" "1 \<le> cpuCount s" "1 \<le> memCount s"
  shows "0 \<le> average (cpuPercentTotal s) (cpuCount s) \<and> average (cpuPercentTotal s) (cpuCount s) \<le> cpuPercentMax s
    \<and> 0 \<le> average (memRssTotal s) (memCount s) \<and> average (memRssTotal s) (memCount s) \<le> memRssMax s"
proof -
  have "sums_ok B 0 (perf_init fs)" using assms(3) by (simp add: sums_ok_def sum_ok_def perf_init_def)
  from sums_ok_run [OF this assms(1)] assms(2,3,4) have "sums_ok B (int (length es)) s" by simp
  then show ?thesis
    using average_bounds [OF _ assms(2,5,3)] average_bounds [OF _ assms(2,6,3)] unfolding sums_ok_def by blast
qed

theorem averages_below_maxima_witness:
  "\<exists>s. s = perf_run [Sample idle_env (Some \<lparr>cu_hundredths = 500, cu_overload = False, cu_text2 = [], cu_text = []\<rparr>)
       (Some \<lparr>mu_rss = 1000, mu_text = []\<rparr>)] (perf_init \<lparr>cg_files = Map.empty, cg_calls = 0\<rparr>)
     \<and> average (cpuPercentTotal s) (cpuCount s) \<le> cpuPercentMax s"
proof -
  let ?e = "Sample idle_env (Some \<lparr>cu_hundredths = 500, cu_overload = False, cu_text2 = [], cu_text = []\<rparr>)
    (Some \<lparr>mu_rss = 1000, mu_text = []\<rparr>)"
  let ?s = "perf_run [?e] (perf_init \<lparr>cg_files = Map.empty, cg_calls = 0\<rparr>)"
  have "1 \<le> cpuCount ?s" "1 \<le> memCount ?s"
    by (simp_all add: perf_run_def perf_step_def perf_sample_def perf_init_def add_cpu_def add_mem_def)
  then show ?thesis
    using averages_below_maxima [of 1000 "[?e]" ?s] by (simp add: bounded_by_def max_int64_def)
qed

lemma set_nothing: "group_Set env no_limits g s = (None, s)"
  by (cases g) (simp_all add: CpuGroup_Set_def MemoryGroup_Set_def set_value_def and_then_def no_limits_def)

lemma set_groups_nothing: "set_groups env no_limits gs s = (None, s)"
  by (induction gs) (simp_all add: and_then_def set_nothing)

lemma inr_map_sum: "Inr m = map_sum id g x \<Longrightarrow> \<exists>y. m = g y"
  by (cases x) auto

lemma NewManager_not_removed: "NewManager env pid sub ks s = (Returns (Inr m), s1) \<Longrightarrow> \<not> cm_isRemoved m"
  by (auto simp: NewManager_def dest!: inr_map_sum split: sum.splits option.splits prod.splits)

text \<open>A limit of 0 in the file confines nothing: the group is made, no quota is written, and the
  agent takes itself for confined.\<close>

theorem zero_limit_confines_nothing:
  assumes "NewManager env pid cgroup_name [''cpu''] s = (Returns (Inr m), s1)"
    and "healthy env" "cg_files s1 cgroup_cfg = Some ''0''"
  shows "\<exists>s2. InitCgroup env pid s = (Returns None, s2) \<and> cg_files s2 = cg_files s1"
proof -
  have "\<not> cm_isRemoved m" by (rule NewManager_not_removed [OF assms(1)])
  moreover have "getCpuLimit env s1 = (0, count_call s1)"
    using assms(2,3) by (simp add: getCpuLimit_def read_file_def healthy_def trim_space_def trim_with_def go_lib
        atoi_def parse_int_def digit_val_def clamp64_def max_int64_def min_int64_def)
  moreover have "no_limits\<lparr>CpuQuota := 0\<rparr> = no_limits" by (simp add: no_limits_def)
  ultimately show ?thesis
    using assms(1) by (simp add: InitCgroup_def Manager_Set_def set_groups_nothing)
qed

definition demo_cg :: cg_state where
  "demo_cg = \<lparr>cg_files = [cgroup_cfg \<mapsto> ''0'', ''/proc/cgroups'' \<mapsto> ''#n h n e'' @ [LF] @ ''cpu 4 90 1'' @ [LF],
     ''/proc/self/mountinfo'' \<mapsto> ''31 22 0:26 / /sys/fs/cgroup/cpu rw - cgroup cgroup rw,cpu'' @ [LF]], cg_calls = 0\<rparr>"

theorem zero_limit_confines_nothing_witness:
  "\<exists>s2. InitCgroup demo_cg_env 42 demo_cg = (Returns None, s2)"
proof -
  have "case NewManager demo_cg_env 42 cgroup_name [''cpu''] demo_cg of
      (Returns (Inr m), s1) \<Rightarrow> cg_files s1 cgroup_cfg = Some ''0'' | _ \<Rightarrow> False"
    by code_simp
  then obtain m s1 where m: "NewManager demo_cg_env 42 cgroup_name [''cpu''] demo_cg = (Returns (Inr m), s1)"
    "cg_files s1 cgroup_cfg = Some ''0''"
    by (auto split: prod.splits outcome.splits sum.splits)
  show ?thesis using zero_limit_confines_nothing [OF m(1) _ m(2)] by (auto simp: healthy_def demo_cg_env_def)
qed

end
