(* ===== verification/Spec2Isabelle.thy ===== *)
theory Spec2Isabelle
  imports Heartbeat_Properties Metrics Plugin_Health_Properties Plugin_Commands_Properties State_Properties Updater_Properties Version_Compare Text_Util Timers Task_Pool Registries Task_Report Param_Store Process_Cmd Host_Processor
    Send_File Fetch_Task Engine_Properties Session_Plugins Session_Task Session_Run
    Kick Client_Report Channel_Manager Crypt_Data Hybrid_Register Container_Properties Perf_Monitor
begin

text \<open>
  Verification development for the Aliyun assistant client, the agent that runs on a cloud instance and
  carries out what the server asks for: commands, files, interactive sessions, state configurations,
  inventories, plugins, and updates of itself.

  \<^bold>\<open>The program and its parts.\<close> The agent is one process of many goroutines. A notification
  (\<open>agent/channel\<close>, from the hypervisor or a websocket) is a short text that makes a handler of
  \<open>agent/kickvmhandle\<close> run: it fetches tasks, stops a task or a session, pulls a state configuration or the
  plugins' health, or starts an update. The task engine (\<open>agent/taskengine\<close>) fetches the list of tasks
  over HTTP, dispatches them to two pools of goroutines or to timers (\<open>timermanager\<close>), and runs each
  invocation with a processor (\<open>host\<close>), which reports the output while it runs. Sessions
  (\<open>agent/session\<close>) hold a websocket of their own and number their messages. Beside them timers drive
  the heartbeat, the inventory, the state manager, the plugins' reports and the update check. The update
  check (\<open>agent/update\<close>, \<open>common/update\<close>) verifies a new version and starts its script; the plugin
  manager (\<open>agent/pluginmanager/acspluginmanager\<close>) is a program of its own that works under locks on
  files shared between processes.

  \<^bold>\<open>How the model corresponds.\<close> A struct is a record, an enumeration a datatype, a function a
  definition with the function's name. A Go string is a \<open>string\<close> of bytes; a map from strings is an
  association list where nil or the order matters; integers are \<open>int\<close> where the code cannot overflow
  and words where their width shows (\<open>Md5\<close>, \<open>Heartbeat\<close>, \<open>Schedules\<close>, \<open>Session_Message\<close>). A
  Go error is a value of \<open>go_error\<close> or an error datatype of the component, a panic the outcome
  \<open>Panic\<close>, and a call that never returns is \<open>None\<close>. What the code reads from outside (network,
  clock, files, processes, libraries that are not in the repository) is answered by the records \<open>env\<close>,
  \<open>machine\<close> and the like, by the number of the interaction: every theorem holds for all answers. What the
  code does to the outside is a trace of effects in the state. Goroutines are steps of a relation or
  program counters where their interleaving matters, and entries of the state that run later otherwise.
  Logs are left out everywhere.

  \<^bold>\<open>Theories.\<close>
  \<^item> \<open>Prelude\<close>, \<open>Step_Monad\<close>, \<open>Run_Monad\<close>: outcomes, programs with errors and panics and their
    weakest preconditions, shared lemmas on lists and maps, the named collections.
  \<^item> \<open>Go_Strings\<close>, \<open>Utf8\<close>, \<open>Go_Path\<close>, \<open>Text_Replace\<close>, \<open>Md5\<close>, \<open>Time_Zone\<close>, \<open>Api_Time\<close>:
    the parts of Go's library that the sources use, with \<open>common/langutil\<close>, \<open>agent/util/timetool\<close>.
    Reading back what was written is proved for numbers, query escapes, base64, UTF-8 and dates.
  \<^item> \<open>World\<close>, \<open>Machine\<close>, \<open>Agent_Paths\<close>, \<open>Api_Call\<close>: the outside, \<open>agent/util/httputil.go\<close>,
    \<open>serviceprovider.go\<close>, \<open>common/pathutil\<close>, and the calls of the interface.
  \<^item> \<open>Version_Compare\<close>, \<open>Text_Util\<close>: \<open>versionutil/compare.go\<close> against a sort key, and the line ends
    of \<open>scriptmanager/normalize.go\<close> against a specification.
  \<^item> \<open>Schedules\<close>, \<open>Timers\<close>: cron, rate, at and interval schedules; the timer goroutine and the
    manager of timers. A schedule's runs are ordered; a timer fires when it must and stops.
  \<^item> \<open>Task_Models\<close>, \<open>Task_Errors\<close>, \<open>Task_Report\<close>, \<open>Registries\<close>, \<open>Task_Pool\<close>, \<open>Param_Store\<close>,
    \<open>Process_Cmd\<close>, \<open>Base_Task\<close>, \<open>Host_Processor\<close>, \<open>Task_Output\<close>, \<open>Send_File\<close>,
    \<open>Fetch_Task\<close>, \<open>Scheduler\<close>: one theory for each file or two of \<open>agent/taskengine\<close>. The contract
    between a run and its processor is the locale \<open>task_processor\<close>, which \<open>Host_Processor\<close>
    interprets; that of the registries is the locale \<open>registry\<close>.
  \<^item> \<open>Engine\<close>, \<open>Engine_Properties\<close>: the task engine as one step relation, its invariant (the factory
    against the pools and waiting senders, the schedules against the timers), and what follows for every
    reachable state.
  \<^item> \<open>Session_Message\<close>, \<open>Session_Channel\<close>, \<open>Session_Plugins\<close>, \<open>Session_Run\<close>, \<open>Session_Task\<close>:
    the binary messages and their round trip, the numbered channel and its retries, the shell and the port
    forwarder with the pump of their output, the start of a terminal, and the registration of sessions as
    a step relation.
  \<^item> \<open>Kick\<close>, \<open>Client_Report\<close>, \<open>Channel_Manager\<close>: the options of \<open>kick_vm\<close>, the agent's reports, and the choice
    between the two notification channels, whose limit of requests refines the whole history.
  \<^item> \<open>Update_Package\<close>, \<open>Updater\<close>, \<open>Updater_Properties\<close>: the phases of an update and the routine with
    its deadlines. The lemmas describe each stage by the events it can leave behind.
  \<^item> \<open>Inventory_Data\<close>, \<open>Inventory\<close>: the gatherers of Linux, the hashes and the upload.
  \<^item> \<open>State_Template\<close>, \<open>State_Manager\<close>, \<open>State_Properties\<close>: templates, configurations, their
    timers and the enforcement.
  \<^item> \<open>Heartbeat\<close>, \<open>Heartbeat_Properties\<close>, \<open>Metrics\<close>: the ping with its retries, the events and
    the limit of their reports.
  \<^item> \<open>Plugin_Store\<close>, \<open>Plugin_Store_Properties\<close>: the database of installed plugins.
  \<^item> \<open>Plugin_Health\<close>, \<open>Plugin_Health_Properties\<close>: the agent's side of the plugins, \<open>agent/pluginmanager\<close>.
  \<^item> \<open>Plugin_Locks\<close>, \<open>Plugin_Commands\<close>, \<open>Plugin_Steps\<close>, \<open>Plugin_Commands_Properties\<close>: the
    plugin manager's program, its locks, its operations, the triples that describe what they record under
    which locks, and the properties.
  \<^item> \<open>Crypt_Data\<close>: the keys and secrets of \<open>agent/cryptdata\<close> behind the handlers of
    \<open>agent/ipc/server\<close>: every stored key is found under its own identifier, and secrets are read back.
  \<^item> \<open>Api_Server\<close>, \<open>Api_Server_Properties\<close>: \<open>common/requester\<close>, \<open>common/apiserver\<close>,
    \<open>common/networkcategory\<close>, \<open>machineid\<close> and \<open>hostfinder\<close>: the detection of the network and of the
    service's domain, each answer kept for the life of the process. Programs are of the library's state
    monad; what a program leaves alone is the locale \<open>variables_frame\<close>.
  \<^item> \<open>Hybrid_Register\<close>: the registration of a machine that is not an instance, \<open>agent/hybrid\<close>.
  \<^item> \<open>Containers\<close>, \<open>Container_Properties\<close>: commands in containers, \<open>agent/taskengine/docker\<close>, \<open>cri\<close> and
    \<open>container\<close>, and the listing of \<open>agent/container\<close>. Both processors interpret \<open>task_processor\<close>, and
    so does the processor of any task, whichever of the three it is.
  \<^item> \<open>Cgroups\<close>, \<open>Perf_Monitor\<close>: \<open>agent/cgroup\<close> over a store of files, and the watch of the agent on
    its own load, \<open>agent/perfmon\<close>.

  \<^bold>\<open>Bounds and fuel.\<close> Loops over data are structural or have a termination proof with a measure.
  Loops that wait (for a lock of the plugin manager, for running tasks before an update, for the end of a
  process) take fuel or are bounded by the environment's answers: it is proved that enough fuel gives a
  result where the code promises to return, and a wait that the code itself does not bound is stated as
  such. The bounds of the code are kept as they are: ten running and fifty waiting tasks, four posts of a
  report, six requests of a heartbeat try, eleven calls of a reconnection, the quota of the output, the
  ring of the time stamps.

  \<^bold>\<open>Not modelled, and why.\<close>
  \<^item> Windows, FreeBSD and the platforms other than Linux on amd64: the build tags leave these files out of
    the program that is modelled.
  \<^item> Libraries and generated code (\<open>thirdparty\<close>, the protocol buffers of \<open>agent/ipc/agrpc\<close>, the SDKs,
    gorilla/websocket, bbolt, cron expressions, JSON reading): parameters with their documented behaviour.
  \<^item> Glue to the system: the service installer, the redirection of standard error, dumps, the virtual
    machine checks, IPC sockets, logs, and the \<open>main\<close> functions that only parse flags and start
    goroutines.
  \<^item> The session client (\<open>agent/session/plugin\<close>), which runs on the machine of a user and not beside the
    agent, with its command line and its profiles: a program of its own, mostly terminal and flags.
  \<^item> The reading of crash files and of the distribution's name (\<open>checkospanic\<close>, \<open>checkagentpanic\<close>,
    \<open>checkkdump\<close>, \<open>osutil\<close>): text of the system matched by regular expressions, of which nothing but a
    report depends.
  \<^item> Data races inside one handler: a handler that holds its lock, or whose state no other goroutine
    writes, is one step.
\<close>

end
